(* ===== verification/Prelude.thy ===== *)
theory Prelude
  imports Main "HOL-Library.AList"
begin

text \<open>
  Shared vocabulary of the development: results that may fail, loops that may fail,
  tables as lists of rows, the insertion-ordered maps and sets of JavaScript, and the two
  roundings the code meets (truncating division of big integers, \<open>ROUND\<close> of the
  database).  Facts that the component theories use over and over are declared
  \<open>[simp]\<close> here or collected in the named collections below.
\<close>

named_theorems inr_simps \<open>inversion of successful computations\<close>
named_theorems frame \<open>tables that an operation leaves alone\<close>

section \<open>Results that may fail\<close>

text \<open>
  A computation that may throw is a sum: \<open>Inl e\<close> is the thrown error and \<open>Inr x\<close> the
  value.  \<open>bindR\<close> sequences two computations the way \<open>await\<close> does, \<open>require\<close> is an
  early \<open>throw\<close> guarded by a condition, \<open>from_opt\<close> the usual
  \<open>if (!row) throw\<close> after a lookup.
\<close>

definition bindR :: "'e + 'a \<Rightarrow> ('a \<Rightarrow> 'e + 'b) \<Rightarrow> 'e + 'b" where
  "bindR m k = (case m of Inl e \<Rightarrow> Inl e | Inr x \<Rightarrow> k x)"

definition require :: "bool \<Rightarrow> 'e \<Rightarrow> 'e + unit" where
  "require b e = (if b then Inr () else Inl e)"

definition from_opt :: "'e \<Rightarrow> 'a option \<Rightarrow> 'e + 'a" where
  "from_opt e v = (case v of None \<Rightarrow> Inl e | Some x \<Rightarrow> Inr x)"

lemma bindR_simps [simp]:
  "bindR (Inl e) k = Inl e"
  "bindR (Inr x) k = k x"
  by (simp_all add: bindR_def)

lemma require_simps [simp]:
  "require True e = Inr ()"
  "require False e = Inl e"
  by (simp_all add: require_def)

lemma from_opt_simps [simp]:
  "from_opt e None = Inl e"
  "from_opt e (Some x) = Inr x"
  by (simp_all add: from_opt_def)

lemma bindR_Inr [inr_simps]: "bindR m k = Inr y \<longleftrightarrow> (\<exists>x. m = Inr x \<and> k x = Inr y)"
  by (cases m) simp_all

lemma require_Inr [inr_simps]: "require b e = Inr u \<longleftrightarrow> b"
  by (cases b) simp_all

lemma from_opt_Inr [inr_simps]: "from_opt e v = Inr x \<longleftrightarrow> v = Some x"
  by (cases v) simp_all

lemma bindR_Inl: "bindR m k = Inl e \<longleftrightarrow> m = Inl e \<or> (\<exists>x. m = Inr x \<and> k x = Inl e)"
  by (cases m) simp_all

lemma require_Inl: "require b e = Inl e' \<longleftrightarrow> \<not> b \<and> e' = e"
  by (cases b) auto

lemma from_opt_Inl: "from_opt e v = Inl e' \<longleftrightarrow> v = None \<and> e' = e"
  by (cases v) auto

lemma bindR_cong [fundef_cong]:
  "m = m' \<Longrightarrow> (\<And>x. m' = Inr x \<Longrightarrow> k x = k' x) \<Longrightarrow> bindR m k = bindR m' k'"
  by (cases m') simp_all

section \<open>Loops that may fail\<close>

text \<open>
  \<open>foldM\<close> is a \<open>for ... of\<close> loop that updates a state and may throw; \<open>mapM\<close>
  one that builds a list.
\<close>

fun foldM :: "('s \<Rightarrow> 'x \<Rightarrow> 'e + 's) \<Rightarrow> 's \<Rightarrow> 'x list \<Rightarrow> 'e + 's" where
  "foldM f s [] = Inr s"
| "foldM f s (x # xs) = bindR (f s x) (\<lambda>s'. foldM f s' xs)"

fun mapM :: "('x \<Rightarrow> 'e + 'y) \<Rightarrow> 'x list \<Rightarrow> 'e + 'y list" where
  "mapM f [] = Inr []"
| "mapM f (x # xs) = bindR (f x) (\<lambda>y. bindR (mapM f xs) (\<lambda>ys. Inr (y # ys)))"

lemma foldM_append: "foldM f s (xs @ ys) = bindR (foldM f s xs) (\<lambda>s'. foldM f s' ys)"
proof (induction xs arbitrary: s)
  case (Cons x xs)
  then show ?case by (cases "f s x") simp_all
qed simp

text \<open>The loop rule: what every successful iteration keeps, the loop keeps.\<close>

lemma foldM_invariant:
  assumes "foldM f s xs = Inr t" and "I s"
    and "\<And>s x s'. x \<in> set xs \<Longrightarrow> I s \<Longrightarrow> f s x = Inr s' \<Longrightarrow> I s'"
  shows "I t"
  using assms
proof (induction xs arbitrary: s)
  case (Cons x xs)
  from Cons.prems(1) obtain s' where "f s x = Inr s'" and "foldM f s' xs = Inr t"
    by (auto simp: inr_simps)
  with Cons show ?case by (metis list.set_intros(1) list.set_intros(2))
qed simp

lemma mapM_Inr: "mapM f xs = Inr ys \<longleftrightarrow> list_all2 (\<lambda>x y. f x = Inr y) xs ys"
proof (induction xs arbitrary: ys)
  case (Cons x xs)
  then show ?case by (cases ys) (auto simp: inr_simps)
qed auto

lemma mapM_length: "mapM f xs = Inr ys \<Longrightarrow> length ys = length xs"
  by (auto simp: mapM_Inr dest: list_all2_lengthD)

lemma mapM_total: "(\<And>x. x \<in> set xs \<Longrightarrow> f x = Inr (g x)) \<Longrightarrow> mapM f xs = Inr (map g xs)"
  by (induction xs) simp_all

lemma foldM_unit: "foldM (\<lambda>_ a. f a) () xs = Inr u \<longleftrightarrow> (\<forall>x \<in> set xs. f x = Inr ())"
  by (induction xs) (auto simp: inr_simps)

lemma mapM_append:
  "mapM f (xs @ ys) = bindR (mapM f xs) (\<lambda>as. bindR (mapM f ys) (\<lambda>bs. Inr (as @ bs)))"
proof (induction xs)
  case Nil
  show ?case by (cases "mapM f ys") simp_all
next
  case (Cons x xs)
  then show ?case by (cases "f x"; cases "mapM f xs"; cases "mapM f ys") simp_all
qed

text \<open>The elements of a list with their positions, counted from 1.\<close>

definition numbered :: "'a list \<Rightarrow> (nat \<times> 'a) list" where
  "numbered xs = zip [1..<Suc (length xs)] xs"

lemma map_numbered: "map (\<lambda>nl. f (snd nl)) (numbered xs) = map f xs"
proof -
  have "map (\<lambda>nl. f (snd nl)) (zip ns xs) = map f xs" if "length ns = length xs" for ns :: "nat list"
    using that by (induction ns xs rule: list_induct2) simp_all
  from this [of "[1..<Suc (length xs)]"] show ?thesis by (simp add: numbered_def del: upt_Suc)
qed

lemma list_all2_right: "list_all2 P xs ys \<Longrightarrow> y \<in> set ys \<Longrightarrow> \<exists>x \<in> set xs. P x y"
  by (induction rule: list_all2_induct) auto

lemma list_all2_left: "list_all2 P xs ys \<Longrightarrow> x \<in> set xs \<Longrightarrow> \<exists>y \<in> set ys. P x y"
  by (induction rule: list_all2_induct) auto

lemma set_map_filter_iff: "y \<in> set (List.map_filter f xs) \<longleftrightarrow> (\<exists>x \<in> set xs. f x = Some y)"
  by (induction xs) (auto simp: List.map_filter_simps split: option.splits)

section \<open>Tables\<close>

text \<open>
  A table is the list of its rows, oldest first.  \<open>executeTakeFirst\<close> is \<open>find\<close>,
  \<open>execute\<close> is \<open>filter\<close>, and \<open>UPDATE ... WHERE\<close> is \<open>update_where\<close>.
\<close>

definition update_where :: "('r \<Rightarrow> bool) \<Rightarrow> ('r \<Rightarrow> 'r) \<Rightarrow> 'r list \<Rightarrow> 'r list" where
  "update_where P f rs = map (\<lambda>r. if P r then f r else r) rs"

lemma update_where_simps [simp]:
  "update_where P f [] = []"
  "update_where P f (r # rs) = (if P r then f r else r) # update_where P f rs"
  "update_where P f (rs @ qs) = update_where P f rs @ update_where P f qs"
  "length (update_where P f rs) = length rs"
  by (simp_all add: update_where_def)

lemma set_update_where:
  "set (update_where P f rs) = f ` {r \<in> set rs. P r} \<union> {r \<in> set rs. \<not> P r}"
  by (induction rs) auto

lemma update_where_map_id:
  "(\<And>r. P r \<Longrightarrow> g (f r) = g r) \<Longrightarrow> map g (update_where P f rs) = map g rs"
  by (induction rs) simp_all

lemma update_where_no_match: "(\<And>r. r \<in> set rs \<Longrightarrow> \<not> P r) \<Longrightarrow> update_where P f rs = rs"
  by (induction rs) simp_all

lemma find_SomeD: "find P rs = Some r \<Longrightarrow> r \<in> set rs \<and> P r"
  by (induction rs) (auto split: if_splits)

lemma find_None_iff_all: "find P rs = None \<longleftrightarrow> (\<forall>r \<in> set rs. \<not> P r)"
  by (induction rs) auto

lemma find_append:
  "find P (xs @ ys) = (case find P xs of None \<Rightarrow> find P ys | Some r \<Rightarrow> Some r)"
  by (induction xs) auto

lemma bex_update_where:
  "(\<exists>x \<in> set (update_where P f xs). R x) \<longleftrightarrow> (\<exists>x \<in> set xs. if P x then R (f x) else R x)"
  by (induction xs) auto

text \<open>A lookup by key in a table with distinct keys finds the one row with that key.\<close>

lemma distinct_map_eq:
  "distinct (map k rs) \<Longrightarrow> r \<in> set rs \<Longrightarrow> q \<in> set rs \<Longrightarrow> k r = k q \<Longrightarrow> r = q"
  by (auto simp: distinct_map inj_on_def)

lemma find_unique:
  assumes "distinct (map k rs)" and "r \<in> set rs" and "P r"
    and "\<And>q. q \<in> set rs \<Longrightarrow> P q \<Longrightarrow> k q = k r"
  shows "find P rs = Some r"
proof (cases "find P rs")
  case None
  with assms(2,3) show ?thesis by (auto simp: find_None_iff_all)
next
  case (Some q)
  with find_SomeD have "q \<in> set rs" "P q" by fastforce+
  with assms have "q = r" by (metis distinct_map_eq)
  with Some show ?thesis by simp
qed

lemma find_update_where:
  assumes "\<And>r. P (f r) = P r"
  shows "find P (update_where Q f rs) =
    map_option (\<lambda>r. if Q r then f r else r) (find P rs)"
  using assms by (induction rs) auto

section \<open>JavaScript maps and sets\<close>

text \<open>
  A \<open>Map\<close> iterates in the order in which keys were first inserted and a \<open>set\<close> on a
  present key keeps its place: that is \<open>AList.update\<close> on an association list.
  \<open>map_add k v m\<close> is \<open>m.set(k, (m.get(k) ?? 0n) + v)\<close>.  A \<open>Set\<close> built from a list
  keeps first occurrences.
\<close>

definition map_get0 :: "('k \<times> int) list \<Rightarrow> 'k \<Rightarrow> int" where
  "map_get0 m k = (case map_of m k of None \<Rightarrow> 0 | Some v \<Rightarrow> v)"

definition map_add :: "'k \<Rightarrow> int \<Rightarrow> ('k \<times> int) list \<Rightarrow> ('k \<times> int) list" where
  "map_add k v m = AList.update k (map_get0 m k + v) m"

definition js_set :: "'a list \<Rightarrow> 'a list" where
  "js_set xs = rev (remdups (rev xs))"

lemma set_js_set [simp]: "set (js_set xs) = set xs"
  by (simp add: js_set_def)

lemma distinct_js_set [simp]: "distinct (js_set xs)"
  by (simp add: js_set_def)

lemma js_set_Nil [simp]: "js_set [] = []"
  by (simp add: js_set_def)

lemma map_get0_add: "map_get0 (map_add k v m) j = (if j = k then map_get0 m k + v else map_get0 m j)"
  by (simp add: map_get0_def map_add_def update_conv')

lemma map_get0_Nil [simp]: "map_get0 [] k = 0"
  by (simp add: map_get0_def)

lemma keys_map_add: "fst ` set (map_add k v m) = insert k (fst ` set m)"
  by (simp add: map_add_def dom_update [unfolded dom_map_of_conv_image_fst])

lemma distinct_map_add: "distinct (map fst m) \<Longrightarrow> distinct (map fst (map_add k v m))"
  by (simp add: map_add_def distinct_update)

text \<open>Accumulating a list of keyed amounts: every key holds the sum of its amounts.\<close>

definition accumulate :: "('x \<Rightarrow> 'k) \<Rightarrow> ('x \<Rightarrow> int) \<Rightarrow> ('k \<times> int) list \<Rightarrow> 'x list \<Rightarrow> ('k \<times> int) list" where
  "accumulate key amt m xs = fold (\<lambda>x acc. map_add (key x) (amt x) acc) xs m"

definition sum_for :: "('x \<Rightarrow> 'k) \<Rightarrow> ('x \<Rightarrow> int) \<Rightarrow> 'k \<Rightarrow> 'x list \<Rightarrow> int" where
  "sum_for key amt k xs = sum_list (map amt (filter (\<lambda>x. key x = k) xs))"

lemma sum_for_simps [simp]:
  "sum_for key amt k [] = 0"
  "sum_for key amt k (x # xs) = (if key x = k then amt x else 0) + sum_for key amt k xs"
  "sum_for key amt k (xs @ ys) = sum_for key amt k xs + sum_for key amt k ys"
  by (simp_all add: sum_for_def)

lemma accumulate_simps [simp]:
  "accumulate key amt m [] = m"
  "accumulate key amt m (x # xs) = accumulate key amt (map_add (key x) (amt x) m) xs"
  "accumulate key amt m (xs @ ys) = accumulate key amt (accumulate key amt m xs) ys"
  by (simp_all add: accumulate_def)

lemma accumulate_get: "map_get0 (accumulate key amt m xs) k = map_get0 m k + sum_for key amt k xs"
  by (induction xs arbitrary: m) (simp_all add: map_get0_add)

lemma accumulate_keys: "fst ` set (accumulate key amt m xs) = fst ` set m \<union> key ` set xs"
  by (induction xs arbitrary: m) (auto simp: keys_map_add)

lemma accumulate_distinct: "distinct (map fst m) \<Longrightarrow> distinct (map fst (accumulate key amt m xs))"
  by (induction xs arbitrary: m) (simp_all add: distinct_map_add)

lemma accumulate_entry:
  assumes "(k, v) \<in> set (accumulate key amt [] xs)"
  shows "v = sum_for key amt k xs"
proof -
  have "distinct (map fst (accumulate key amt [] xs))"
    by (rule accumulate_distinct) simp
  with assms have "map_of (accumulate key amt [] xs) k = Some v" by simp
  then have "map_get0 (accumulate key amt [] xs) k = v" by (simp add: map_get0_def)
  then show ?thesis by (simp add: accumulate_get)
qed

lemma sum_for_nonneg: "(\<And>x. x \<in> set xs \<Longrightarrow> 0 \<le> amt x) \<Longrightarrow> 0 \<le> sum_for key amt k xs"
  by (induction xs) auto

lemma sum_for_none: "k \<notin> key ` set xs \<Longrightarrow> sum_for key amt k xs = 0"
  by (induction xs) auto

lemma sum_for_split:
  assumes "\<And>x. x \<in> set xs \<Longrightarrow> Q x \<longleftrightarrow> P x \<or> R x" and "\<And>x. x \<in> set xs \<Longrightarrow> \<not> (P x \<and> R x)"
  shows "sum_for key amt k (filter Q xs) = sum_for key amt k (filter P xs) + sum_for key amt k (filter R xs)"
  using assms by (induction xs) (auto split: if_splits)

lemma sum_for_sort_key [simp]: "sum_for key amt k (sort_key f xs) = sum_for key amt k xs"
proof -
  have "sum_for key amt k (insort_key f x ys) = sum_for key amt k (x # ys)" for x ys
    by (induction ys) simp_all
  then show ?thesis by (induction xs) simp_all
qed

section \<open>Falsy values\<close>

text \<open>
  \<open>if (id)\<close> treats a missing id and the id 0 alike, \<open>if (key)\<close> a missing string and the
  empty one.
\<close>

definition truthy_id :: "nat option \<Rightarrow> nat option" where
  "truthy_id v = (if v = Some 0 then None else v)"

definition truthy_str :: "string option \<Rightarrow> string option" where
  "truthy_str v = (if v = Some [] then None else v)"

lemma truthy_id_Some [simp]: "truthy_id v = Some n \<longleftrightarrow> v = Some n \<and> n \<noteq> 0"
  by (auto simp: truthy_id_def)

lemma truthy_str_Some [simp]: "truthy_str v = Some s \<longleftrightarrow> v = Some s \<and> s \<noteq> []"
  by (auto simp: truthy_str_def)

section \<open>Rounding\<close>

text \<open>
  Division of big integers truncates towards zero.  \<open>sql_round_div n d\<close> is the
  database's \<open>ROUND\<close> of the exact quotient: to the nearest integer, halves away from
  zero.
\<close>

definition big_div :: "int \<Rightarrow> int \<Rightarrow> int" where
  "big_div a b = sgn a * sgn b * (\<bar>a\<bar> div \<bar>b\<bar>)"

definition sql_round_div :: "int \<Rightarrow> int \<Rightarrow> int" where
  "sql_round_div n d = sgn n * ((2 * \<bar>n\<bar> + d) div (2 * d))"

lemma big_div_nonneg: "0 \<le> a \<Longrightarrow> 0 < b \<Longrightarrow> big_div a b = a div b"
  by (cases "a = 0") (simp_all add: big_div_def)

lemma big_div_bounds:
  assumes "0 \<le> a" and "0 < b"
  shows "big_div a b * b \<le> a" and "a < big_div a b * b + b"
proof -
  have "a = a div b * b + a mod b" and "0 \<le> a mod b" and "a mod b < b"
    using assms(2) by simp_all
  then show "big_div a b * b \<le> a" and "a < big_div a b * b + b"
    unfolding big_div_nonneg [OF assms] by linarith+
qed

lemma sql_round_div_nonneg: "0 \<le> n \<Longrightarrow> 0 < d \<Longrightarrow> sql_round_div n d = (2 * n + d) div (2 * d)"
  by (cases "n = 0") (simp_all add: sql_round_div_def)

lemma sql_round_div_bounds:
  assumes "0 \<le> n" and "0 < d"
  shows "2 * (sql_round_div n d * d) \<le> 2 * n + d" and "2 * n - d < 2 * (sql_round_div n d * d)"
proof -
  let ?q = "(2 * n + d) div (2 * d)"
  have eq: "2 * n + d = ?q * (2 * d) + (2 * n + d) mod (2 * d)"
    by (rule div_mult_mod_eq [symmetric])
  have lo: "0 \<le> (2 * n + d) mod (2 * d)" and hi: "(2 * n + d) mod (2 * d) < 2 * d"
    using assms(2) by simp_all
  have dbl: "2 * (?q * d) = ?q * (2 * d)" by simp
  show "2 * (sql_round_div n d * d) \<le> 2 * n + d"
    unfolding sql_round_div_nonneg [OF assms] dbl using eq lo by linarith
  show "2 * n - d < 2 * (sql_round_div n d * d)"
    unfolding sql_round_div_nonneg [OF assms] dbl using eq hi by linarith
qed

lemma sql_round_div_pos: "0 \<le> n \<Longrightarrow> 0 < d \<Longrightarrow> 0 \<le> sql_round_div n d"
  by (simp add: sql_round_div_nonneg pos_imp_zdiv_nonneg_iff)

lemma sql_round_div_exact:
  assumes "0 < d"
  shows "sql_round_div (k * d) d = k"
proof -
  have "(\<bar>k\<bar> * (2 * d) + d) div (2 * d) = \<bar>k\<bar>"
    using assms by (intro int_div_pos_eq [where r = d]) simp_all
  then show ?thesis
    using assms by (simp add: sql_round_div_def abs_mult sgn_mult ac_simps abs_mult_sgn)
qed

end
