(* ===== verification/Purchasing_Errors.thy ===== *)
theory Purchasing_Errors
  imports Prelude
begin

text \<open>
  The errors of the purchasing module, one constructor per error class of
  \<open>errors.ts\<close>, \<open>types/purchase-invoice.ts\<close>, \<open>types/ap-payment.ts\<close> and
  \<open>types/purchase-credit.ts\<close>, one per object literal the services throw
  (\<open>throw { code: ... }\<close>), the errors of the database that the services can meet
  (a duplicate key, a violated check, a text too long for its column, an \<open>UPDATE\<close> with nothing to set), and \<open>JsError\<close> for a plain \<open>new Error\<close>.
  Messages are not modelled; what a constructor of a class stores is.
\<close>

datatype (plugins only: code) perr =
    InvalidDecimal string
  | JsError string
  | ER_DUP_ENTRY string
  | ER_CHECK_CONSTRAINT string
  | ER_DATA_TOO_LONG string
  | SUPPLIER_NOT_FOUND
  | COMPANY_NOT_FOUND
  | ITEM_NOT_FOUND nat
  | INVALID_REQUEST
  | INVALID_STATUS
  | ORDER_NOT_FOUND_UNDER_LOCK
  | INVALID_TRANSITION nat nat
  | RECEIPT_INCOMPLETE
  | PO_LINE_NOT_FOUND nat
  | INVALID_PO_STATUS
  | SUPPLIER_MISMATCH
  | ITEM_MISMATCH
  | SupplierHasOpenDocumentsError
  | SupplierNotFoundError
  | ER_PARSE_ERROR
  | PIError string
  | PINotFoundError nat
  | PIInvalidStatusTransitionError nat nat
  | PIExchangeRateMissingError string int
  | PIAccountMissingError string
  | PICreditLimitExceededError int string
  | PITaxAccountMissingError nat
  | APPaymentError string
  | APPaymentNotFoundError nat
  | APPaymentInvalidStatusTransitionError nat nat
  | APPaymentOverpaymentError string string
  | APPaymentBankAccountNotFoundError nat
  | APPaymentSupplierInactiveError nat
  | APPaymentInvoiceNotFoundError nat
  | APPaymentInvoiceNotPostedError nat nat
  | APPaymentInvoiceSupplierMismatchError nat nat nat
  | APPaymentJournalNotBalancedError string string
  | APPaymentMissingAPAccountError
  | APPaymentInvalidAPAccountTypeError nat "string option"
  | PurchaseCreditError string
  | PurchaseCreditNotFoundError nat
  | PurchaseCreditInvalidStatusTransitionError nat nat
  | PurchaseCreditSupplierInactiveError nat
  | PurchaseCreditInvoiceNotFoundError nat
  | PurchaseCreditInvoiceNotPostedError nat nat
  | PurchaseCreditInvoiceSupplierMismatchError nat nat nat
  | PurchaseCreditMissingAPAccountError
  | PurchaseCreditMissingExpenseAccountError
  | PurchaseCreditInvalidAPAccountTypeError nat "string option"
  | PurchaseCreditInvalidExpenseAccountTypeError nat "string option"
  | PurchaseCreditNoApplicableInvoiceError
  | PurchaseCreditJournalNotBalancedError string string

type_synonym 'a res = "perr + 'a"

text \<open>The \<open>code\<close> field the three error families carry.\<close>

definition pi_error_code :: "perr \<Rightarrow> string option" where
  "pi_error_code e = (case e of
      PIError c \<Rightarrow> Some c
    | PINotFoundError _ \<Rightarrow> Some ''PI_NOT_FOUND''
    | PIInvalidStatusTransitionError _ _ \<Rightarrow> Some ''INVALID_STATUS_TRANSITION''
    | PIExchangeRateMissingError _ _ \<Rightarrow> Some ''EXCHANGE_RATE_MISSING''
    | PIAccountMissingError _ \<Rightarrow> Some ''ACCOUNT_MISSING''
    | PICreditLimitExceededError _ _ \<Rightarrow> Some ''CREDIT_LIMIT_EXCEEDED''
    | PITaxAccountMissingError _ \<Rightarrow> Some ''TAX_ACCOUNT_MISSING''
    | _ \<Rightarrow> None)"

definition ap_payment_error_code :: "perr \<Rightarrow> string option" where
  "ap_payment_error_code e = (case e of
      APPaymentError c \<Rightarrow> Some c
    | APPaymentNotFoundError _ \<Rightarrow> Some ''AP_PAYMENT_NOT_FOUND''
    | APPaymentInvalidStatusTransitionError _ _ \<Rightarrow> Some ''INVALID_STATUS_TRANSITION''
    | APPaymentOverpaymentError _ _ \<Rightarrow> Some ''OVERPAYMENT''
    | APPaymentBankAccountNotFoundError _ \<Rightarrow> Some ''BANK_ACCOUNT_NOT_FOUND''
    | APPaymentSupplierInactiveError _ \<Rightarrow> Some ''SUPPLIER_INACTIVE''
    | APPaymentInvoiceNotFoundError _ \<Rightarrow> Some ''INVOICE_NOT_FOUND''
    | APPaymentInvoiceNotPostedError _ _ \<Rightarrow> Some ''INVOICE_NOT_POSTED''
    | APPaymentInvoiceSupplierMismatchError _ _ _ \<Rightarrow> Some ''INVOICE_SUPPLIER_MISMATCH''
    | APPaymentJournalNotBalancedError _ _ \<Rightarrow> Some ''JOURNAL_NOT_BALANCED''
    | APPaymentMissingAPAccountError \<Rightarrow> Some ''AP_ACCOUNT_NOT_CONFIGURED''
    | APPaymentInvalidAPAccountTypeError _ _ \<Rightarrow> Some ''AP_ACCOUNT_INVALID_TYPE''
    | _ \<Rightarrow> None)"

definition purchase_credit_error_code :: "perr \<Rightarrow> string option" where
  "purchase_credit_error_code e = (case e of
      PurchaseCreditError c \<Rightarrow> Some c
    | PurchaseCreditNotFoundError _ \<Rightarrow> Some ''PURCHASE_CREDIT_NOT_FOUND''
    | PurchaseCreditInvalidStatusTransitionError _ _ \<Rightarrow> Some ''INVALID_STATUS_TRANSITION''
    | PurchaseCreditSupplierInactiveError _ \<Rightarrow> Some ''SUPPLIER_INACTIVE''
    | PurchaseCreditInvoiceNotFoundError _ \<Rightarrow> Some ''INVOICE_NOT_FOUND''
    | PurchaseCreditInvoiceNotPostedError _ _ \<Rightarrow> Some ''INVOICE_NOT_POSTED''
    | PurchaseCreditInvoiceSupplierMismatchError _ _ _ \<Rightarrow> Some ''INVOICE_SUPPLIER_MISMATCH''
    | PurchaseCreditMissingAPAccountError \<Rightarrow> Some ''AP_ACCOUNT_NOT_CONFIGURED''
    | PurchaseCreditMissingExpenseAccountError \<Rightarrow> Some ''EXPENSE_ACCOUNT_NOT_CONFIGURED''
    | PurchaseCreditInvalidAPAccountTypeError _ _ \<Rightarrow> Some ''AP_ACCOUNT_INVALID_TYPE''
    | PurchaseCreditInvalidExpenseAccountTypeError _ _ \<Rightarrow> Some ''EXPENSE_ACCOUNT_INVALID_TYPE''
    | PurchaseCreditNoApplicableInvoiceError \<Rightarrow> Some ''NO_APPLICABLE_INVOICE''
    | PurchaseCreditJournalNotBalancedError _ _ \<Rightarrow> Some ''JOURNAL_NOT_BALANCED''
    | _ \<Rightarrow> None)"

text \<open>\<open>mysqlErr.errno === 1062 || mysqlErr.code === "ER_DUP_ENTRY"\<close>\<close>

definition is_duplicate :: "perr \<Rightarrow> bool" where
  "is_duplicate e = (case e of ER_DUP_ENTRY _ \<Rightarrow> True | _ \<Rightarrow> False)"

lemma is_duplicate_iff: "is_duplicate e \<longleftrightarrow> (\<exists>k. e = ER_DUP_ENTRY k)"
  by (cases e) (simp_all add: is_duplicate_def)

end
