(* ===== verification/Purchasing_Constants.thy ===== *)
theory Purchasing_Constants
  imports Prelude
begin

text \<open>
  The status codes of \<open>packages/shared/src/constants/purchasing.ts\<close>: the code a row
  stores, the label the API shows, and the conversion both ways.  An unknown code is shown as
  the first label; an unknown label has no code (\<open>undefined\<close>).
\<close>

section \<open>Purchase orders\<close>

abbreviation (input) "PO_DRAFT \<equiv> 1 :: nat"
abbreviation (input) "PO_SENT \<equiv> 2 :: nat"
abbreviation (input) "PO_PARTIAL_RECEIVED \<equiv> 3 :: nat"
abbreviation (input) "PO_RECEIVED \<equiv> 4 :: nat"
abbreviation (input) "PO_CLOSED \<equiv> 5 :: nat"

definition PURCHASE_ORDER_STATUS :: "(string \<times> nat) list" where
  "PURCHASE_ORDER_STATUS =
     [(''DRAFT'', PO_DRAFT), (''SENT'', PO_SENT), (''PARTIAL_RECEIVED'', PO_PARTIAL_RECEIVED),
      (''RECEIVED'', PO_RECEIVED), (''CLOSED'', PO_CLOSED)]"

definition PURCHASE_ORDER_STATUS_LABEL :: "(nat \<times> string) list" where
  "PURCHASE_ORDER_STATUS_LABEL =
     [(1, ''DRAFT''), (2, ''SENT''), (3, ''PARTIAL_RECEIVED''), (4, ''RECEIVED''), (5, ''CLOSED'')]"

definition toPurchaseOrderStatusCode :: "string \<Rightarrow> nat option" where
  "toPurchaseOrderStatusCode status = map_of PURCHASE_ORDER_STATUS status"

definition toPurchaseOrderStatusLabel :: "nat \<Rightarrow> string" where
  "toPurchaseOrderStatusLabel code =
     (case map_of PURCHASE_ORDER_STATUS_LABEL code of None \<Rightarrow> ''DRAFT'' | Some l \<Rightarrow> l)"

section \<open>Purchase invoices\<close>

abbreviation (input) "PI_DRAFT \<equiv> 1 :: nat"
abbreviation (input) "PI_POSTED \<equiv> 2 :: nat"
abbreviation (input) "PI_VOID \<equiv> 3 :: nat"

definition PURCHASE_INVOICE_STATUS :: "(string \<times> nat) list" where
  "PURCHASE_INVOICE_STATUS = [(''DRAFT'', PI_DRAFT), (''POSTED'', PI_POSTED), (''VOID'', PI_VOID)]"

definition PURCHASE_INVOICE_STATUS_LABEL :: "(nat \<times> string) list" where
  "PURCHASE_INVOICE_STATUS_LABEL = [(1, ''DRAFT''), (2, ''POSTED''), (3, ''VOID'')]"

definition toPurchaseInvoiceStatusCode :: "string \<Rightarrow> nat option" where
  "toPurchaseInvoiceStatusCode status = map_of PURCHASE_INVOICE_STATUS status"

definition toPurchaseInvoiceStatusLabel :: "nat \<Rightarrow> string" where
  "toPurchaseInvoiceStatusLabel code =
     (case map_of PURCHASE_INVOICE_STATUS_LABEL code of None \<Rightarrow> ''DRAFT'' | Some l \<Rightarrow> l)"

section \<open>Payments to suppliers\<close>

abbreviation (input) "AP_DRAFT \<equiv> 10 :: nat"
abbreviation (input) "AP_POSTED \<equiv> 20 :: nat"
abbreviation (input) "AP_VOID \<equiv> 90 :: nat"

definition AP_PAYMENT_STATUS :: "(string \<times> nat) list" where
  "AP_PAYMENT_STATUS = [(''DRAFT'', AP_DRAFT), (''POSTED'', AP_POSTED), (''VOID'', AP_VOID)]"

definition AP_PAYMENT_STATUS_LABEL :: "(nat \<times> string) list" where
  "AP_PAYMENT_STATUS_LABEL = [(10, ''DRAFT''), (20, ''POSTED''), (90, ''VOID'')]"

definition toApPaymentStatusCode :: "string \<Rightarrow> nat option" where
  "toApPaymentStatusCode status = map_of AP_PAYMENT_STATUS status"

definition toApPaymentStatusLabel :: "nat \<Rightarrow> string" where
  "toApPaymentStatusLabel code =
     (case map_of AP_PAYMENT_STATUS_LABEL code of None \<Rightarrow> ''DRAFT'' | Some l \<Rightarrow> l)"

section \<open>Purchase credits\<close>

abbreviation (input) "PC_DRAFT \<equiv> 10 :: nat"
abbreviation (input) "PC_PARTIAL \<equiv> 20 :: nat"
abbreviation (input) "PC_APPLIED \<equiv> 30 :: nat"
abbreviation (input) "PC_VOID \<equiv> 90 :: nat"

definition PURCHASE_CREDIT_STATUS :: "(string \<times> nat) list" where
  "PURCHASE_CREDIT_STATUS =
     [(''DRAFT'', PC_DRAFT), (''PARTIAL'', PC_PARTIAL), (''APPLIED'', PC_APPLIED), (''VOID'', PC_VOID)]"

definition PURCHASE_CREDIT_STATUS_LABEL :: "(nat \<times> string) list" where
  "PURCHASE_CREDIT_STATUS_LABEL = [(10, ''DRAFT''), (20, ''PARTIAL''), (30, ''APPLIED''), (90, ''VOID'')]"

definition toPurchaseCreditStatusCode :: "string \<Rightarrow> nat option" where
  "toPurchaseCreditStatusCode status = map_of PURCHASE_CREDIT_STATUS status"

definition toPurchaseCreditStatusLabel :: "nat \<Rightarrow> string" where
  "toPurchaseCreditStatusLabel code =
     (case map_of PURCHASE_CREDIT_STATUS_LABEL code of None \<Rightarrow> ''DRAFT'' | Some l \<Rightarrow> l)"

section \<open>Labels and codes\<close>

text \<open>
  A family of statuses: a table of codes and a table of labels that invert each other.  The
  four families satisfy it.
\<close>

locale status_family =
  fixes codes :: "(string \<times> nat) list"
    and labels :: "(nat \<times> string) list"
  assumes labels_of_codes: "(s, c) \<in> set codes \<Longrightarrow> map_of labels c = Some s"
    and codes_of_labels: "(c, s) \<in> set labels \<Longrightarrow> map_of codes s = Some c"
begin

lemma code_label: "map_of codes s = Some c \<longleftrightarrow> map_of labels c = Some s"
  using labels_of_codes codes_of_labels by (auto dest: map_of_SomeD)

lemma label_default: "map_of codes s = Some c \<Longrightarrow> (case map_of labels c of None \<Rightarrow> d | Some l \<Rightarrow> l) = s"
  by (simp add: code_label)

end

lemmas status_tables =
  PURCHASE_ORDER_STATUS_def PURCHASE_ORDER_STATUS_LABEL_def
  PURCHASE_INVOICE_STATUS_def PURCHASE_INVOICE_STATUS_LABEL_def
  AP_PAYMENT_STATUS_def AP_PAYMENT_STATUS_LABEL_def
  PURCHASE_CREDIT_STATUS_def PURCHASE_CREDIT_STATUS_LABEL_def

interpretation po_status: status_family PURCHASE_ORDER_STATUS PURCHASE_ORDER_STATUS_LABEL
  by unfold_locales (auto simp: status_tables)

interpretation pi_status: status_family PURCHASE_INVOICE_STATUS PURCHASE_INVOICE_STATUS_LABEL
  by unfold_locales (auto simp: status_tables)

interpretation ap_status: status_family AP_PAYMENT_STATUS AP_PAYMENT_STATUS_LABEL
  by unfold_locales (auto simp: status_tables)

interpretation pc_status: status_family PURCHASE_CREDIT_STATUS PURCHASE_CREDIT_STATUS_LABEL
  by unfold_locales (auto simp: status_tables)

end
