(* ===== verification/Purchasing_Db.thy ===== *)
theory Purchasing_Db
  imports Purchasing_Errors Purchasing_Constants
begin

text \<open>
  The tables the purchasing module reads and writes.  A record is a row, its fields the columns
  of the interface in \<open>packages/db/src/kysely/schema.ts\<close> under a prefix of the table's
  own (columns of other modules on \<open>items\<close> and \<open>company_modules\<close> are left out).
  Keys and codes are natural numbers, a \<open>DATE\<close> is a count of days since 1970-01-01, a
  \<open>DATETIME\<close> a point on an integer clock.  A \<open>DECIMAL\<close> column is its unscaled integer:
  four decimals everywhere, but eight for exchange rates (\<open>er_rate\<close>,
  \<open>pi_exchange_rate\<close>) and two for the journal (\<open>jl_debit\<close>, \<open>jl_credit\<close>).
  \<open>purchasing_default_ap_account_id\<close> is read by raw SQL and missing from the interface;
  it comes from migration 0177.
\<close>

section \<open>Master data\<close>

record account_row =
  acc_id :: nat
  acc_company_id :: nat
  acc_account_type_id :: "nat option"
  acc_code :: string
  acc_created_at :: int
  acc_is_active :: nat
  acc_is_group :: nat
  acc_is_payable :: nat
  acc_name :: string
  acc_normal_balance :: "string option"
  acc_parent_account_id :: "nat option"
  acc_report_group :: "string option"
  acc_type_name :: "string option"
  acc_updated_at :: int

record item_row =
  item_id :: nat
  item_company_id :: nat
  item_cogs_account_id :: "nat option"
  item_created_at :: int
  item_inventory_asset_account_id :: "nat option"
  item_is_active :: nat
  item_item_group_id :: "nat option"
  item_item_type :: string
  item_name :: string
  item_sku :: "string option"
  item_track_stock :: nat
  item_updated_at :: int

record company_row =
  co_id :: nat
  co_address_line1 :: "string option"
  co_address_line2 :: "string option"
  co_city :: "string option"
  co_code :: string
  co_created_at :: int
  co_currency_code :: "string option"
  co_deleted_at :: "int option"
  co_email :: "string option"
  co_legal_name :: "string option"
  co_name :: string
  co_phone :: "string option"
  co_postal_code :: "string option"
  co_tax_id :: "string option"
  co_timezone :: "string option"
  co_updated_at :: int

record company_module_row =
  cm_id :: nat
  cm_company_id :: nat
  cm_enabled :: nat
  cm_module_id :: nat
  cm_purchasing_credit_limit_enabled :: nat
  cm_purchasing_default_ap_account_id :: "nat option"
  cm_purchasing_default_expense_account_id :: "nat option"

record module_row =
  mod_id :: nat
  mod_code :: string
  mod_name :: string

record tax_rate_row =
  tax_id :: nat
  tax_company_id :: nat
  tax_account_id :: "nat option"
  tax_code :: string
  tax_created_at :: int
  tax_created_by_user_id :: "nat option"
  tax_is_active :: nat
  tax_is_inclusive :: nat
  tax_name :: string
  tax_rate_percent :: int
  tax_updated_at :: int
  tax_updated_by_user_id :: "nat option"

section \<open>Suppliers and exchange rates\<close>

record supplier_row =
  sup_id :: nat
  sup_company_id :: nat
  sup_address_line1 :: "string option"
  sup_address_line2 :: "string option"
  sup_city :: "string option"
  sup_country :: "string option"
  sup_code :: string
  sup_created_at :: int
  sup_created_by_user_id :: "nat option"
  sup_credit_limit :: int
  sup_currency :: string
  sup_email :: "string option"
  sup_is_active :: nat
  sup_name :: string
  sup_notes :: "string option"
  sup_payment_terms_days :: "nat option"
  sup_phone :: "string option"
  sup_postal_code :: "string option"
  sup_updated_at :: int
  sup_updated_by_user_id :: "nat option"

record supplier_contact_row =
  sc_id :: nat
  sc_created_at :: int
  sc_email :: "string option"
  sc_is_primary :: nat
  sc_name :: string
  sc_notes :: "string option"
  sc_phone :: "string option"
  sc_role :: "string option"
  sc_supplier_id :: nat
  sc_updated_at :: int

record exchange_rate_row =
  er_id :: nat
  er_company_id :: nat
  er_created_at :: int
  er_created_by_user_id :: "nat option"
  er_currency_code :: string
  er_effective_date :: int
  er_is_active :: nat
  er_notes :: "string option"
  er_rate :: int
  er_updated_at :: int
  er_updated_by_user_id :: "nat option"

section \<open>Orders and receipts\<close>

record purchase_order_row =
  po_id :: nat
  po_company_id :: nat
  po_created_at :: int
  po_created_by_user_id :: "nat option"
  po_currency_code :: string
  po_expected_date :: "int option"
  po_idempotency_key :: "string option"
  po_notes :: "string option"
  po_order_date :: int
  po_order_no :: string
  po_status :: nat
  po_supplier_id :: nat
  po_total_amount :: int
  po_updated_at :: int
  po_updated_by_user_id :: "nat option"

record purchase_order_line_row =
  pol_id :: nat
  pol_company_id :: nat
  pol_created_at :: int
  pol_description :: "string option"
  pol_item_id :: "nat option"
  pol_line_no :: nat
  pol_line_total :: int
  pol_order_id :: nat
  pol_qty :: int
  pol_received_qty :: int
  pol_tax_rate :: int
  pol_unit_price :: int
  pol_updated_at :: int

record goods_receipt_row =
  gr_id :: nat
  gr_company_id :: nat
  gr_created_at :: int
  gr_created_by_user_id :: "nat option"
  gr_idempotency_key :: "string option"
  gr_idempotency_warnings_json :: "string option"
  gr_notes :: "string option"
  gr_receipt_date :: int
  gr_reference_number :: string
  gr_status :: nat
  gr_supplier_id :: nat
  gr_updated_at :: int
  gr_updated_by_user_id :: "nat option"

record goods_receipt_line_row =
  grl_id :: nat
  grl_company_id :: nat
  grl_created_at :: int
  grl_description :: "string option"
  grl_item_id :: "nat option"
  grl_line_no :: nat
  grl_over_receipt_allowed :: nat
  grl_po_line_id :: "nat option"
  grl_qty :: int
  grl_receipt_id :: nat
  grl_unit :: "string option"
  grl_updated_at :: int

section \<open>Invoices\<close>

record purchase_invoice_row =
  pi_id :: nat
  pi_company_id :: nat
  pi_created_at :: int
  pi_created_by_user_id :: "nat option"
  pi_currency_code :: string
  pi_due_date :: "int option"
  pi_exchange_rate :: int
  pi_grand_total :: int
  pi_idempotency_key :: "string option"
  pi_invoice_date :: int
  pi_invoice_no :: string
  pi_journal_batch_id :: "nat option"
  pi_notes :: "string option"
  pi_posted_at :: "int option"
  pi_posted_by_user_id :: "nat option"
  pi_reference_number :: "string option"
  pi_status :: nat
  pi_subtotal :: int
  pi_supplier_id :: nat
  pi_tax_amount :: int
  pi_updated_at :: int
  pi_updated_by_user_id :: "nat option"
  pi_voided_at :: "int option"
  pi_voided_by_user_id :: "nat option"

record purchase_invoice_line_row =
  pil_id :: nat
  pil_company_id :: nat
  pil_created_at :: int
  pil_description :: string
  pil_invoice_id :: nat
  pil_item_id :: "nat option"
  pil_line_no :: nat
  pil_line_total :: int
  pil_line_type :: string
  pil_po_line_id :: "nat option"
  pil_qty :: int
  pil_tax_amount :: int
  pil_tax_rate_id :: "nat option"
  pil_unit_price :: int
  pil_updated_at :: int

section \<open>Payments and credits\<close>

record ap_payment_row =
  ap_id :: nat
  ap_company_id :: nat
  ap_bank_account_id :: nat
  ap_created_at :: int
  ap_created_by_user_id :: "nat option"
  ap_description :: "string option"
  ap_idempotency_key :: "string option"
  ap_journal_batch_id :: "nat option"
  ap_payment_date :: int
  ap_payment_no :: string
  ap_posted_at :: "int option"
  ap_posted_by_user_id :: "nat option"
  ap_status :: nat
  ap_supplier_id :: nat
  ap_updated_at :: int
  ap_voided_at :: "int option"
  ap_voided_by_user_id :: "nat option"

record ap_payment_line_row =
  apl_id :: nat
  apl_ap_payment_id :: nat
  apl_created_at :: int
  apl_line_no :: nat
  apl_purchase_invoice_id :: nat
  apl_allocation_amount :: int
  apl_description :: "string option"
  apl_updated_at :: int

record purchase_credit_row =
  pc_id :: nat
  pc_company_id :: nat
  pc_applied_amount :: int
  pc_created_at :: int
  pc_created_by_user_id :: "nat option"
  pc_credit_date :: int
  pc_credit_no :: string
  pc_description :: "string option"
  pc_idempotency_key :: "string option"
  pc_journal_batch_id :: "nat option"
  pc_posted_at :: "int option"
  pc_posted_by_user_id :: "nat option"
  pc_status :: nat
  pc_supplier_id :: nat
  pc_total_credit_amount :: int
  pc_updated_at :: int
  pc_voided_at :: "int option"
  pc_voided_by_user_id :: "nat option"

record purchase_credit_line_row =
  pcl_id :: nat
  pcl_created_at :: int
  pcl_description :: "string option"
  pcl_item_id :: "nat option"
  pcl_line_amount :: int
  pcl_line_no :: nat
  pcl_purchase_credit_id :: nat
  pcl_purchase_invoice_id :: "nat option"
  pcl_purchase_invoice_line_id :: "nat option"
  pcl_qty :: int
  pcl_reason :: "string option"
  pcl_unit_price :: int
  pcl_updated_at :: int

record purchase_credit_application_row =
  pca_id :: nat
  pca_company_id :: nat
  pca_applied_amount :: int
  pca_applied_at :: int
  pca_created_at :: int
  pca_purchase_credit_id :: nat
  pca_purchase_credit_line_id :: nat
  pca_purchase_invoice_id :: nat

section \<open>Ledger and audit trail\<close>

record journal_batch_row =
  jb_id :: nat
  jb_company_id :: nat
  jb_client_ref :: "string option"
  jb_created_at :: int
  jb_doc_id :: nat
  jb_doc_type :: string
  jb_outlet_id :: "nat option"
  jb_posted_at :: int
  jb_updated_at :: int

record journal_line_row =
  jl_id :: nat
  jl_company_id :: nat
  jl_account_id :: nat
  jl_created_at :: int
  jl_credit :: int
  jl_debit :: int
  jl_description :: string
  jl_journal_batch_id :: nat
  jl_line_date :: int
  jl_outlet_id :: "nat option"
  jl_updated_at :: int

record period_close_override_row =
  pco_id :: nat
  pco_company_id :: nat
  pco_created_at :: int
  pco_overridden_at :: int
  pco_period_id :: nat
  pco_reason :: string
  pco_transaction_id :: nat
  pco_transaction_type :: string
  pco_user_id :: nat

section \<open>The database\<close>

datatype tbl =
    T_supplier | T_supplier_contact | T_exchange_rate
  | T_purchase_order | T_purchase_order_line | T_goods_receipt | T_goods_receipt_line
  | T_purchase_invoice | T_purchase_invoice_line | T_ap_payment | T_ap_payment_line
  | T_purchase_credit | T_purchase_credit_line | T_purchase_credit_application
  | T_journal_batch | T_journal_line | T_period_close_override

record db =
  accounts :: "account_row list"
  items :: "item_row list"
  companies :: "company_row list"
  company_modules :: "company_module_row list"
  modules :: "module_row list"
  tax_rates :: "tax_rate_row list"
  suppliers :: "supplier_row list"
  supplier_contacts :: "supplier_contact_row list"
  exchange_rates :: "exchange_rate_row list"
  purchase_orders :: "purchase_order_row list"
  purchase_order_lines :: "purchase_order_line_row list"
  goods_receipts :: "goods_receipt_row list"
  goods_receipt_lines :: "goods_receipt_line_row list"
  purchase_invoices :: "purchase_invoice_row list"
  purchase_invoice_lines :: "purchase_invoice_line_row list"
  ap_payments :: "ap_payment_row list"
  ap_payment_lines :: "ap_payment_line_row list"
  purchase_credits :: "purchase_credit_row list"
  purchase_credit_lines :: "purchase_credit_line_row list"
  purchase_credit_applications :: "purchase_credit_application_row list"
  journal_batches :: "journal_batch_row list"
  journal_lines :: "journal_line_row list"
  period_close_overrides :: "period_close_override_row list"
  auto_inc :: "tbl \<Rightarrow> nat"

text \<open>
  Every table hands out its keys in order: \<open>auto_inc\<close> is the last key given.  (Keys that a
  rolled back transaction burnt are given again; nothing depends on them.)
\<close>

definition next_id :: "db \<Rightarrow> tbl \<Rightarrow> nat" where
  "next_id d t = Suc (auto_inc d t)"

definition bump :: "tbl \<Rightarrow> db \<Rightarrow> db" where
  "bump t d = d\<lparr>auto_inc := (auto_inc d)(t := Suc (auto_inc d t))\<rparr>"

definition empty_db :: db where
  "empty_db = \<lparr>accounts = [], items = [], companies = [], company_modules = [], modules = [],
     tax_rates = [], suppliers = [], supplier_contacts = [], exchange_rates = [],
     purchase_orders = [], purchase_order_lines = [], goods_receipts = [], goods_receipt_lines = [],
     purchase_invoices = [], purchase_invoice_lines = [], ap_payments = [], ap_payment_lines = [],
     purchase_credits = [], purchase_credit_lines = [], purchase_credit_applications = [],
     journal_batches = [], journal_lines = [], period_close_overrides = [],
     auto_inc = (\<lambda>_. 0)\<rparr>"

text \<open>An operation returns a value and the committed tables, or throws and commits nothing.\<close>

type_synonym 'a op = "db \<Rightarrow> ('a \<times> db) res"

text \<open>The module settings, joined with the module's code.\<close>

definition purchasing_settings :: "db \<Rightarrow> nat \<Rightarrow> company_module_row option" where
  "purchasing_settings d companyId =
     find (\<lambda>cm. cm_company_id cm = companyId \<and>
        (\<exists>m \<in> set (modules d). mod_id m = cm_module_id cm \<and> mod_code m = ''purchasing''))
       (company_modules d)"

text \<open>The lookups of a row by key inside its company that every service makes.\<close>

definition find_account :: "db \<Rightarrow> nat \<Rightarrow> nat \<Rightarrow> account_row option" where
  "find_account d companyId accountId =
     find (\<lambda>a. acc_id a = accountId \<and> acc_company_id a = companyId) (accounts d)"

definition find_supplier :: "db \<Rightarrow> nat \<Rightarrow> nat \<Rightarrow> supplier_row option" where
  "find_supplier d companyId supplierId =
     find (\<lambda>s. sup_id s = supplierId \<and> sup_company_id s = companyId) (suppliers d)"

lemma find_account_Some:
  "find_account d c i = Some a \<Longrightarrow> a \<in> set (accounts d) \<and> acc_id a = i \<and> acc_company_id a = c"
  unfolding find_account_def by (drule find_SomeD) simp

lemma find_supplier_Some:
  "find_supplier d c i = Some s \<Longrightarrow> s \<in> set (suppliers d) \<and> sup_id s = i \<and> sup_company_id s = c"
  unfolding find_supplier_def by (drule find_SomeD) simp

end
