(* ===== verification/Decimal_Scale4.thy ===== *)
theory Decimal_Scale4
  imports Purchasing_Errors "HOL-Library.Char_ord"
begin

text \<open>
  The decimal strings of the purchasing module (\<open>services/decimal-scale4.ts\<close> and the
  copies of it in \<open>types/purchase-order.ts\<close>, \<open>types/goods-receipt.ts\<close> and
  \<open>services/ap-aging-report-service.ts\<close>).  An amount is a big integer that counts
  ten-thousandths; \<open>toScaled\<close> parses a string, \<open>fromScaled4\<close> prints one.  The
  database driver hands a \<open>DECIMAL(_, 4)\<close> column to the code as a string in the format
  \<open>fromScaled4\<close> prints, so reading a column is parsing that string
  (\<open>read_dec4\<close>).  Characters are bytes: of the white space that \<open>trim\<close> removes,
  the code points below 256 are modelled.
\<close>

section \<open>Characters and digits\<close>

definition is_digit :: "char \<Rightarrow> bool" where
  "is_digit c \<longleftrightarrow> 48 \<le> (of_char c :: nat) \<and> (of_char c :: nat) \<le> 57"

definition digit_val :: "char \<Rightarrow> int" where
  "digit_val c = of_char c - 48"

definition digit_char :: "int \<Rightarrow> char" where
  "digit_char d = char_of (48 + d)"

definition js_space :: "char \<Rightarrow> bool" where
  "js_space c \<longleftrightarrow> (of_char c :: nat) \<in> {9, 10, 11, 12, 13, 32, 160}"

definition js_trim :: "string \<Rightarrow> string" where
  "js_trim s = rev (dropWhile js_space (rev (dropWhile js_space s)))"

text \<open>\<open>toLowerCase\<close> and \<open>toUpperCase\<close> of Latin text without accents.\<close>

definition js_lower :: "string \<Rightarrow> string" where
  "js_lower s = map (\<lambda>c. if 65 \<le> (of_char c :: nat) \<and> (of_char c :: nat) \<le> 90
     then char_of ((of_char c :: nat) + 32) else c) s"

definition js_upper :: "string \<Rightarrow> string" where
  "js_upper s = map (\<lambda>c. if 97 \<le> (of_char c :: nat) \<and> (of_char c :: nat) \<le> 122
     then char_of ((of_char c :: nat) - 32) else c) s"

function int_digits :: "int \<Rightarrow> int list" where
  "int_digits n = (if n < 10 then [n] else int_digits (n div 10) @ [n mod 10])"
  by pat_completeness auto

termination
  by (relation "measure nat") auto

declare int_digits.simps [simp del]

text \<open>\<open>n.toString()\<close> and \<open>BigInt(s)\<close> on a string of digits.\<close>

definition int_str :: "int \<Rightarrow> string" where
  "int_str n = map digit_char (int_digits n)"

definition int_of_str :: "string \<Rightarrow> int" where
  "int_of_str s = foldl (\<lambda>acc c. 10 * acc + digit_val c) 0 s"

text \<open>The same for keys and counters.\<close>

definition nat_str :: "nat \<Rightarrow> string" where
  "nat_str n = int_str (int n)"

definition nat_of_str :: "string \<Rightarrow> nat" where
  "nat_of_str s = nat (int_of_str s)"

definition pad_start :: "nat \<Rightarrow> string \<Rightarrow> string" where
  "pad_start n s = replicate (n - length s) (CHR ''0'') @ s"

section \<open>Parsing and printing\<close>

text \<open>The test \<open>^\d+(\.\d{1,scale})?$\<close>.\<close>

definition decimal_ok :: "nat \<Rightarrow> string \<Rightarrow> bool" where
  "decimal_ok scale s \<longleftrightarrow> takeWhile is_digit s \<noteq> [] \<and>
     (case dropWhile is_digit s of
        [] \<Rightarrow> True
      | c # f \<Rightarrow> c = CHR ''.'' \<and> f \<noteq> [] \<and> length f \<le> scale \<and> list_all is_digit f)"

text \<open>\<open>trimmed.split(".")\<close>: the part before the first dot and the part after it.\<close>

definition split_dot :: "string \<Rightarrow> string \<times> string" where
  "split_dot s = (takeWhile (\<lambda>c. c \<noteq> CHR ''.'') s, tl (dropWhile (\<lambda>c. c \<noteq> CHR ''.'') s))"

definition toScaled :: "nat \<Rightarrow> string \<Rightarrow> int res" where
  "toScaled scale value =
     (let trimmed = js_trim value in
      if \<not> decimal_ok scale trimmed then Inl (InvalidDecimal value)
      else
        let (integer, fraction) = split_dot trimmed;
            fracScaled = take scale (fraction @ replicate scale (CHR ''0''))
        in Inr (int_of_str integer * 10 ^ scale + int_of_str fracScaled))"

definition toScaled4 :: "string \<Rightarrow> int res" where
  "toScaled4 value = toScaled 4 value"

definition toScaled8 :: "string \<Rightarrow> int res" where
  "toScaled8 value = toScaled 8 value"

definition fromScaled4 :: "int \<Rightarrow> string" where
  "fromScaled4 v =
     (let sign = (if v < 0 then ''-'' else '''');
          a = \<bar>v\<bar>
      in sign @ int_str (a div 10000) @ ''.'' @ pad_start 4 (int_str (a mod 10000)))"

definition scale4Mul :: "int \<Rightarrow> int \<Rightarrow> int" where
  "scale4Mul a b = big_div (a * b) 10000"

section \<open>Line totals of purchase orders\<close>

definition computeLineTotal :: "string \<Rightarrow> string \<Rightarrow> string \<Rightarrow> string res" where
  "computeLineTotal qty unitPrice taxRate =
     bindR (toScaled4 qty) (\<lambda>q.
     bindR (toScaled4 unitPrice) (\<lambda>u.
     bindR (toScaled4 (if taxRate = [] then ''0'' else taxRate)) (\<lambda>t.
       let denominator = 100000000;
           numerator = q * u * (10000 + t);
           scaled = big_div (numerator + big_div denominator 2) denominator
       in Inr (fromScaled4 scaled))))"

definition computeTotalAmount :: "string list \<Rightarrow> string res" where
  "computeTotalAmount line_totals =
     bindR (foldM (\<lambda>total l. bindR (toScaled4 l) (\<lambda>v. Inr (total + v))) 0 line_totals)
       (\<lambda>total. Inr (fromScaled4 total))"

text \<open>
  A \<open>DECIMAL\<close> column with \<open>k\<close> decimals is modelled by its scaled value; the driver
  returns its text, which the services parse again.
\<close>

definition db_decimal :: "nat \<Rightarrow> int \<Rightarrow> string" where
  "db_decimal k v = (if v < 0 then ''-'' else '''') @ int_str (\<bar>v\<bar> div 10 ^ k) @ ''.'' @
     pad_start k (int_str (\<bar>v\<bar> mod 10 ^ k))"

definition read_dec4 :: "int \<Rightarrow> int res" where
  "read_dec4 v = toScaled4 (db_decimal 4 v)"

section \<open>Digits\<close>

lemma digit_char_inverse:
  assumes "0 \<le> d" and "d < 10"
  shows "of_char (digit_char d) = 48 + d" and "of_char (digit_char d) = 48 + nat d"
proof -
  have "d = 0 \<or> d = 1 \<or> d = 2 \<or> d = 3 \<or> d = 4 \<or> d = 5 \<or> d = 6 \<or> d = 7 \<or> d = 8 \<or> d = 9"
    using assms by presburger
  then show "of_char (digit_char d) = 48 + d" and "of_char (digit_char d) = 48 + nat d"
    by (elim disjE; hypsubst; unfold digit_char_def; code_simp)+
qed

lemma digit_char_simps [simp]:
  assumes "0 \<le> d" and "d < 10"
  shows "is_digit (digit_char d)" and "digit_val (digit_char d) = d"
  using assms by (simp_all add: is_digit_def digit_val_def digit_char_inverse)

lemma digit_not_dot: "is_digit c \<Longrightarrow> c \<noteq> CHR ''.''"
  by (auto simp: is_digit_def)

lemma digit_not_space: "is_digit c \<Longrightarrow> \<not> js_space c"
  by (auto simp: is_digit_def js_space_def)

lemma digit_zero [simp]: "is_digit (CHR ''0'')" "digit_val (CHR ''0'') = 0"
  by (simp_all add: is_digit_def digit_val_def)

lemma int_digits_bound: "d \<in> set (int_digits n) \<Longrightarrow> 0 \<le> n \<Longrightarrow> 0 \<le> d \<and> d < 10"
proof (induction n rule: int_digits.induct)
  case (1 n)
  then show ?case by (subst (asm) (2) int_digits.simps) (auto split: if_splits)
qed

lemma int_digits_not_Nil [simp]: "int_digits n \<noteq> []"
  by (subst int_digits.simps) simp

lemma int_digits_value: "foldl (\<lambda>acc d. 10 * acc + d) 0 (int_digits n) = n"
proof (induction n rule: int_digits.induct)
  case (1 n)
  then show ?case by (subst int_digits.simps) (simp add: mult.commute)
qed

lemma int_digits_length: "n < 10 ^ Suc k \<Longrightarrow> length (int_digits n) \<le> Suc k"
proof (induction k arbitrary: n)
  case 0
  then show ?case by (subst int_digits.simps) simp
next
  case (Suc k)
  then have "n div 10 < 10 ^ Suc k" by simp
  with Suc.IH have "length (int_digits (n div 10)) \<le> Suc k" .
  then show ?case by (subst int_digits.simps) simp
qed

lemma list_all_int_str [simp]: "0 \<le> n \<Longrightarrow> list_all is_digit (int_str n)"
  by (auto simp: int_str_def list_all_iff dest!: int_digits_bound)

lemma int_str_not_Nil [simp]: "int_str n \<noteq> []"
  by (simp add: int_str_def)

lemma int_of_int_str [simp]:
  assumes "0 \<le> n"
  shows "int_of_str (int_str n) = n"
proof -
  have "foldl (\<lambda>acc c. 10 * acc + digit_val c) a (map digit_char ds) =
      foldl (\<lambda>acc d. 10 * acc + d) a ds" if "\<forall>d \<in> set ds. 0 \<le> d \<and> d < 10" for a ds
    using that by (induction ds arbitrary: a) simp_all
  then show ?thesis
    using int_digits_bound int_digits_value assms by (simp add: int_of_str_def int_str_def)
qed

lemma int_of_str_pad_start [simp]: "int_of_str (pad_start k s) = int_of_str s"
proof -
  have "foldl (\<lambda>acc c. 10 * acc + digit_val c) 0 (replicate m (CHR ''0'') @ s) =
      foldl (\<lambda>acc c. 10 * acc + digit_val c) 0 s" for m
    by (induction m) simp_all
  then show ?thesis by (simp add: int_of_str_def pad_start_def)
qed

lemma int_of_str_nonneg: "list_all is_digit s \<Longrightarrow> 0 \<le> int_of_str s"
proof -
  have "0 \<le> foldl (\<lambda>acc c. 10 * acc + digit_val c) a s" if "list_all is_digit s" "0 \<le> a" for a
    using that
  proof (induction s arbitrary: a)
    case (Cons c s)
    have "48 \<le> (of_char c :: nat)" using Cons.prems by (simp add: is_digit_def)
    then have "0 \<le> digit_val c" unfolding digit_val_def by (metis diff_ge_0_iff_ge of_nat_numeral of_nat_of_char of_nat_mono)
    with Cons show ?case by simp
  qed simp
  then show "list_all is_digit s \<Longrightarrow> 0 \<le> int_of_str s" by (simp add: int_of_str_def)
qed

lemma nat_str_facts [simp]:
  "list_all is_digit (nat_str n)" "nat_str n \<noteq> []" "nat_of_str (nat_str n) = n"
  "nat_of_str (pad_start k s) = nat_of_str s"
  by (simp_all add: nat_str_def nat_of_str_def)

lemma pad_start_facts:
  "length s \<le> k \<Longrightarrow> length (pad_start k s) = k"
  "list_all is_digit s \<Longrightarrow> list_all is_digit (pad_start k s)"
  by (auto simp: pad_start_def list_all_iff)

section \<open>Parsing what was printed\<close>

lemma span_digits:
  assumes "list_all is_digit a" and "\<not> P (CHR ''.'')" and "\<And>c. is_digit c \<Longrightarrow> P c"
  shows "takeWhile P (a @ CHR ''.'' # f) = a" and "dropWhile P (a @ CHR ''.'' # f) = CHR ''.'' # f"
  using assms by (induction a) auto

lemma trim_digits:
  assumes "list_all is_digit a" and "a \<noteq> []" and "list_all is_digit f" and "f \<noteq> []"
  shows "js_trim (a @ CHR ''.'' # f) = a @ CHR ''.'' # f"
proof -
  obtain c a' where a: "a = c # a'" using assms(2) by (cases a) auto
  obtain f' d where f: "f = f' @ [d]" using assms(4) by (cases f rule: rev_cases) auto
  have "\<not> js_space c" "\<not> js_space d" using assms(1,3) a f digit_not_space by auto
  then show ?thesis by (simp add: js_trim_def a f)
qed

lemma toScaled_digits:
  assumes "list_all is_digit a" and "a \<noteq> []" and "list_all is_digit f" and "length f = k" and "0 < k"
  shows "toScaled k (a @ CHR ''.'' # f) = Inr (int_of_str a * 10 ^ k + int_of_str f)"
proof -
  let ?s = "a @ CHR ''.'' # f"
  have f: "f \<noteq> []" using assms(4,5) by auto
  have digits: "takeWhile is_digit ?s = a" "dropWhile is_digit ?s = CHR ''.'' # f"
    using span_digits [OF assms(1), of is_digit] by (auto dest: digit_not_dot)
  have "split_dot ?s = (a, f)"
    using span_digits [OF assms(1), of "\<lambda>c. c \<noteq> CHR ''.''"] by (auto simp: split_dot_def digit_not_dot)
  moreover have "decimal_ok k ?s"
    unfolding decimal_ok_def digits using assms f by simp
  ultimately show ?thesis
    using assms f by (simp add: toScaled_def Let_def trim_digits)
qed

lemma toScaled_db_decimal:
  assumes "0 \<le> v" and "0 < k"
  shows "toScaled k (db_decimal k v) = Inr v"
proof -
  let ?f = "pad_start k (int_str (v mod 10 ^ k))"
  obtain m where k: "k = Suc m" using assms(2) by (cases k) auto
  have "v mod 10 ^ k < 10 ^ Suc m" by (simp add: k)
  then have "length (int_str (v mod 10 ^ k)) \<le> k"
    using int_digits_length [of "v mod 10 ^ k" m] by (simp add: int_str_def k)
  then have "toScaled k (int_str (v div 10 ^ k) @ CHR ''.'' # ?f) =
      Inr (v div 10 ^ k * 10 ^ k + v mod 10 ^ k)"
    using assms by (subst toScaled_digits) (simp_all add: pad_start_facts pos_imp_zdiv_nonneg_iff)
  moreover have "v div 10 ^ k * 10 ^ k + v mod 10 ^ k = v" by (rule div_mult_mod_eq)
  ultimately show ?thesis
    using assms by (simp add: db_decimal_def)
qed

text \<open>The parser has no sign: a negative amount, printed, is not a valid decimal.\<close>

lemma toScaled_db_negative:
  assumes "v < 0" and "0 < k"
  shows "toScaled k (db_decimal k v) = Inl (InvalidDecimal (db_decimal k v))"
proof -
  obtain s where s: "db_decimal k v = CHR ''-'' # s" and "s \<noteq> []" and "\<not> js_space (last s)"
  proof
    let ?f = "pad_start k (int_str (\<bar>v\<bar> mod 10 ^ k))"
    let ?s = "int_str (\<bar>v\<bar> div 10 ^ k) @ ''.'' @ ?f"
    show "db_decimal k v = CHR ''-'' # ?s" using assms by (simp add: db_decimal_def)
    show "?s \<noteq> []" by simp
    have "?f \<noteq> []" using assms(2) by (simp add: pad_start_def)
    moreover have "list_all is_digit ?f" by (simp add: pad_start_facts)
    ultimately have "is_digit (last ?f)" by (auto simp: list_all_iff)
    with \<open>?f \<noteq> []\<close> show "\<not> js_space (last ?s)" by (simp add: digit_not_space)
  qed
  have "js_trim (CHR ''-'' # s) = CHR ''-'' # s"
  proof -
    obtain s' d where "s = s' @ [d]" using \<open>s \<noteq> []\<close> by (cases s rule: rev_cases) auto
    with \<open>\<not> js_space (last s)\<close> show ?thesis by (simp add: js_trim_def js_space_def)
  qed
  moreover have "\<not> decimal_ok k (CHR ''-'' # s)"
    by (simp add: decimal_ok_def is_digit_def)
  ultimately show ?thesis
    by (simp add: s toScaled_def Let_def)
qed

lemma split_dot_digits:
  assumes "decimal_ok k t"
  shows "list_all is_digit (fst (split_dot t))" and "list_all is_digit (snd (split_dot t))"
proof -
  let ?a = "takeWhile is_digit t" and ?r = "dropWhile is_digit t"
  have t: "t = ?a @ ?r" by simp
  have a: "list_all is_digit ?a" by (auto simp: list_all_iff dest: set_takeWhileD)
  have "split_dot t = (?a, tl ?r) \<and> list_all is_digit (tl ?r)"
  proof (cases ?r)
    case Nil
    then have "\<forall>c \<in> set t. is_digit c" by (simp add: dropWhile_eq_Nil_conv)
    then have eqs: "takeWhile is_digit t = t" "takeWhile (\<lambda>c. c \<noteq> CHR ''.'') t = t"
      "dropWhile (\<lambda>c. c \<noteq> CHR ''.'') t = []"
      using digit_not_dot by (auto simp: takeWhile_eq_all_conv dropWhile_eq_Nil_conv)
    show ?thesis unfolding split_dot_def Nil eqs by simp
  next
    case (Cons c f)
    with assms have "c = CHR ''.''" "list_all is_digit f" by (auto simp: decimal_ok_def)
    moreover have "split_dot (?a @ CHR ''.'' # f) = (?a, f)"
      using span_digits [OF a, of "\<lambda>c. c \<noteq> CHR ''.''" f] digit_not_dot by (simp add: split_dot_def)
    ultimately show ?thesis using Cons t by simp
  qed
  with a show "list_all is_digit (fst (split_dot t))" and "list_all is_digit (snd (split_dot t))"
    by simp_all
qed

lemma toScaled_nonneg:
  assumes "toScaled k s = Inr v"
  shows "0 \<le> v"
proof -
  obtain a f where af: "split_dot (js_trim s) = (a, f)" by fastforce
  have "decimal_ok k (js_trim s)" using assms by (auto simp: toScaled_def Let_def split: if_splits)
  from split_dot_digits [OF this] have "list_all is_digit a" "list_all is_digit f"
    by (simp_all add: af)
  then have "0 \<le> int_of_str a" and "0 \<le> int_of_str (take k (f @ replicate k (CHR ''0'')))"
    using in_set_takeD [of _ k f] by (auto intro!: int_of_str_nonneg simp: list_all_iff)
  with assms show ?thesis
    by (auto simp: toScaled_def af Let_def split: if_splits)
qed

lemma toScaled4_nonneg: "toScaled4 s = Inr v \<Longrightarrow> 0 \<le> v"
  unfolding toScaled4_def by (rule toScaled_nonneg)

lemma toScaled_error: "toScaled k s = Inl e \<Longrightarrow> e = InvalidDecimal s"
  by (auto simp: toScaled_def Let_def split: if_splits prod.splits)

text \<open>
  The contract of a decimal format: printing and parsing invert each other on the non-negative
  amounts, and the parser accepts nothing negative.  The four-decimal amounts and the
  eight-decimal exchange rates meet it.
\<close>

locale decimal_codec =
  fixes parse :: "string \<Rightarrow> int res"
    and render :: "int \<Rightarrow> string"
  assumes parse_render: "0 \<le> v \<Longrightarrow> parse (render v) = Inr v"
    and parse_negative: "v < 0 \<Longrightarrow> parse (render v) = Inl (InvalidDecimal (render v))"
    and parse_sign: "parse s = Inr v \<Longrightarrow> 0 \<le> v"
begin

lemma parse_render_iff: "parse (render v) = Inr w \<longleftrightarrow> 0 \<le> v \<and> w = v"
  using parse_render [of v] parse_negative [of v] by (cases "v < 0") auto

lemma parse_render_eq: "parse (render v) = (if v < 0 then Inl (InvalidDecimal (render v)) else Inr v)"
  using parse_render [of v] parse_negative [of v] by auto

lemma render_inj: "render v = render w \<Longrightarrow> 0 \<le> v \<Longrightarrow> 0 \<le> w \<Longrightarrow> v = w"
  by (metis parse_render sum.inject(2))

lemma parse_canonical: "parse s = Inr v \<Longrightarrow> parse (render v) = Inr v"
  by (rule parse_render) (rule parse_sign)

end

lemma fromScaled4_db: "fromScaled4 v = db_decimal 4 v"
  by (simp add: fromScaled4_def db_decimal_def Let_def)

interpretation dec4: decimal_codec toScaled4 fromScaled4
  by unfold_locales
    (simp_all add: toScaled4_def fromScaled4_db toScaled_db_decimal toScaled_db_negative toScaled_nonneg)

interpretation dec8: decimal_codec toScaled8 "db_decimal 8"
  by unfold_locales
    (simp_all add: toScaled8_def toScaled_db_decimal toScaled_db_negative toScaled_nonneg)

lemmas toScaled4_fromScaled4 = dec4.parse_render

lemma read_dec4: "read_dec4 v = (if v < 0 then Inl (InvalidDecimal (fromScaled4 v)) else Inr v)"
  by (simp add: read_dec4_def fromScaled4_db [symmetric] dec4.parse_render_eq)

lemma read_dec4_nonneg [simp]: "0 \<le> v \<Longrightarrow> read_dec4 v = Inr v"
  by (simp add: read_dec4)

lemma read_dec4_Inr [inr_simps]: "read_dec4 v = Inr w \<longleftrightarrow> 0 \<le> v \<and> w = v"
  by (auto simp: read_dec4)

section \<open>Rounding of products\<close>

lemma scale4Mul_bounds:
  assumes "0 \<le> a" and "0 \<le> b"
  shows "scale4Mul a b * 10000 \<le> a * b" and "a * b < scale4Mul a b * 10000 + 10000"
  unfolding scale4Mul_def using big_div_bounds [of "a * b" 10000] assms by simp_all

lemma scale4Mul_nonneg: "0 \<le> a \<Longrightarrow> 0 \<le> b \<Longrightarrow> 0 \<le> scale4Mul a b"
  by (simp add: scale4Mul_def big_div_nonneg pos_imp_zdiv_nonneg_iff)

text \<open>
  The line total of an order is quantity times price times one plus the tax fraction, rounded
  to the nearest ten-thousandth.
\<close>

lemma computeLineTotal_value:
  assumes "toScaled4 qty = Inr q" and "toScaled4 unitPrice = Inr u"
    and "toScaled4 (if taxRate = [] then ''0'' else taxRate) = Inr t"
  shows "computeLineTotal qty unitPrice taxRate =
    Inr (fromScaled4 ((q * u * (10000 + t) + 50000000) div 100000000))"
proof -
  have "0 \<le> q * u * (10000 + t)"
    using assms by (simp add: toScaled4_nonneg)
  with assms show ?thesis
    by (simp add: computeLineTotal_def Let_def big_div_nonneg)
qed

lemma nearest_div:
  fixes n :: int
  shows "2 * \<bar>(n + 50000000) div 100000000 * 100000000 - n\<bar> \<le> 100000000"
proof -
  define q m where "q = (n + 50000000) div 100000000" and "m = (n + 50000000) mod 100000000"
  have "n + 50000000 = q * 100000000 + m" by (simp add: q_def m_def)
  then have "q * 100000000 - n = 50000000 - m" by linarith
  moreover have "0 \<le> m" "m < 100000000" by (simp_all add: m_def)
  then have "\<bar>50000000 - m\<bar> \<le> 50000000" by (simp add: abs_le_iff)
  ultimately show ?thesis unfolding q_def [symmetric] by simp
qed

lemma computeTotalAmount_sum:
  assumes "list_all2 (\<lambda>l v. toScaled4 l = Inr v) ls vs"
  shows "computeTotalAmount ls = Inr (fromScaled4 (sum_list vs))"
proof -
  have "foldM (\<lambda>total l. bindR (toScaled4 l) (\<lambda>v. Inr (total + v))) a ls = Inr (a + sum_list vs)" for a
    using assms by (induction arbitrary: a rule: list_all2_induct) (simp_all add: ac_simps)
  then show ?thesis by (simp add: computeTotalAmount_def)
qed

end
