(* ===== verification/Sample_Tables.thy ===== *)
theory Sample_Tables
  imports Purchasing_Db
begin

text \<open>
  A small company on which the hypotheses of the theorems are shown to hold: a bank, a payables,
  an expense and a tax account, one supplier and its documents.  The row functions fill the
  columns that do not matter with neutral values.
\<close>

definition sample_account :: "nat \<Rightarrow> string \<Rightarrow> account_row" where
  "sample_account i typ = \<lparr>acc_id = i, acc_company_id = 1, acc_account_type_id = None,
     acc_code = ''A'', acc_created_at = 0, acc_is_active = 1, acc_is_group = 0, acc_is_payable = 0,
     acc_name = ''Account'', acc_normal_balance = None, acc_parent_account_id = None,
     acc_report_group = None, acc_type_name = Some typ, acc_updated_at = 0\<rparr>"

definition sample_supplier :: supplier_row where
  "sample_supplier = \<lparr>sup_id = 1, sup_company_id = 1, sup_address_line1 = None,
     sup_address_line2 = None, sup_city = None, sup_country = None, sup_code = ''S-1'',
     sup_created_at = 0, sup_created_by_user_id = None, sup_credit_limit = 0,
     sup_currency = ''IDR'', sup_email = None, sup_is_active = 1, sup_name = ''Supplier'',
     sup_notes = None, sup_payment_terms_days = Some 30, sup_phone = None, sup_postal_code = None,
     sup_updated_at = 0, sup_updated_by_user_id = None\<rparr>"

definition sample_invoice :: "nat \<Rightarrow> nat \<Rightarrow> int \<Rightarrow> nat option \<Rightarrow> purchase_invoice_row" where
  "sample_invoice i st amount batch = \<lparr>pi_id = i, pi_company_id = 1, pi_created_at = 0,
     pi_created_by_user_id = Some 7, pi_currency_code = ''IDR'', pi_due_date = None,
     pi_exchange_rate = 100000000, pi_grand_total = amount, pi_idempotency_key = None,
     pi_invoice_date = 20574, pi_invoice_no = ''INV-'' @ [char_of (48 + i)],
     pi_journal_batch_id = batch, pi_notes = None, pi_posted_at = None, pi_posted_by_user_id = None,
     pi_reference_number = None, pi_status = st, pi_subtotal = amount, pi_supplier_id = 1,
     pi_tax_amount = 0, pi_updated_at = 0, pi_updated_by_user_id = None, pi_voided_at = None,
     pi_voided_by_user_id = None\<rparr>"

definition sample_invoice_line :: "nat \<Rightarrow> nat \<Rightarrow> int \<Rightarrow> int \<Rightarrow> purchase_invoice_line_row" where
  "sample_invoice_line i invoice q price = \<lparr>pil_id = i, pil_company_id = 1, pil_created_at = 0,
     pil_description = ''Goods'', pil_invoice_id = invoice, pil_item_id = None, pil_line_no = i,
     pil_line_total = q * price div 10000, pil_line_type = ''ITEM'', pil_po_line_id = None,
     pil_qty = q, pil_tax_amount = 0, pil_tax_rate_id = None, pil_unit_price = price,
     pil_updated_at = 0\<rparr>"

definition sample_payment :: "nat \<Rightarrow> nat \<Rightarrow> nat option \<Rightarrow> ap_payment_row" where
  "sample_payment i st batch = \<lparr>ap_id = i, ap_company_id = 1, ap_bank_account_id = 1,
     ap_created_at = 0, ap_created_by_user_id = Some 7, ap_description = None,
     ap_idempotency_key = None, ap_journal_batch_id = batch, ap_payment_date = 20580,
     ap_payment_no = ''APP/2026/05/000'' @ [char_of (48 + i)], ap_posted_at = None,
     ap_posted_by_user_id = None, ap_status = st, ap_supplier_id = 1, ap_updated_at = 0,
     ap_voided_at = None, ap_voided_by_user_id = None\<rparr>"

definition sample_payment_line :: "nat \<Rightarrow> nat \<Rightarrow> nat \<Rightarrow> int \<Rightarrow> ap_payment_line_row" where
  "sample_payment_line i pay invoice amount = \<lparr>apl_id = i, apl_ap_payment_id = pay,
     apl_created_at = 0, apl_line_no = i, apl_purchase_invoice_id = invoice,
     apl_allocation_amount = amount, apl_description = None, apl_updated_at = 0\<rparr>"

definition sample_credit :: "nat \<Rightarrow> nat \<Rightarrow> int \<Rightarrow> purchase_credit_row" where
  "sample_credit i st amount = \<lparr>pc_id = i, pc_company_id = 1, pc_applied_amount = 0,
     pc_created_at = 0, pc_created_by_user_id = Some 7, pc_credit_date = 20585,
     pc_credit_no = ''CN-'' @ [char_of (48 + i)], pc_description = None, pc_idempotency_key = None,
     pc_journal_batch_id = None, pc_posted_at = None, pc_posted_by_user_id = None, pc_status = st,
     pc_supplier_id = 1, pc_total_credit_amount = amount, pc_updated_at = 0, pc_voided_at = None,
     pc_voided_by_user_id = None\<rparr>"

definition sample_credit_line :: "nat \<Rightarrow> nat \<Rightarrow> nat option \<Rightarrow> int \<Rightarrow> purchase_credit_line_row" where
  "sample_credit_line i credit invoice amount = \<lparr>pcl_id = i, pcl_created_at = 0,
     pcl_description = None, pcl_item_id = None, pcl_line_amount = amount, pcl_line_no = i,
     pcl_purchase_credit_id = credit, pcl_purchase_invoice_id = invoice,
     pcl_purchase_invoice_line_id = None, pcl_qty = 10000, pcl_reason = None,
     pcl_unit_price = amount, pcl_updated_at = 0\<rparr>"

definition sample_rate :: "nat \<Rightarrow> int \<Rightarrow> int \<Rightarrow> exchange_rate_row" where
  "sample_rate i date rate = \<lparr>er_id = i, er_company_id = 1, er_created_at = 0,
     er_created_by_user_id = Some 7, er_currency_code = ''USD'', er_effective_date = date,
     er_is_active = 1, er_notes = None, er_rate = rate, er_updated_at = 0,
     er_updated_by_user_id = None\<rparr>"

definition sample_journal_line :: "nat \<Rightarrow> nat \<Rightarrow> nat \<Rightarrow> int \<Rightarrow> int \<Rightarrow> journal_line_row" where
  "sample_journal_line i batch acc dr cr = \<lparr>jl_id = i, jl_company_id = 1, jl_account_id = acc,
     jl_created_at = 0, jl_credit = cr, jl_debit = dr, jl_description = ''PI'',
     jl_journal_batch_id = batch, jl_line_date = 20574, jl_outlet_id = None, jl_updated_at = 0\<rparr>"

definition sample_batch :: "nat \<Rightarrow> string \<Rightarrow> nat \<Rightarrow> journal_batch_row" where
  "sample_batch i typ doc = \<lparr>jb_id = i, jb_company_id = 1, jb_client_ref = None, jb_created_at = 0,
     jb_doc_id = doc, jb_doc_type = typ, jb_outlet_id = None, jb_posted_at = 0, jb_updated_at = 0\<rparr>"

definition sample_settings :: company_module_row where
  "sample_settings = \<lparr>cm_id = 1, cm_company_id = 1, cm_enabled = 1, cm_module_id = 1,
     cm_purchasing_credit_limit_enabled = 0, cm_purchasing_default_ap_account_id = Some 2,
     cm_purchasing_default_expense_account_id = Some 3\<rparr>"

definition sample_company :: company_row where
  "sample_company = \<lparr>co_id = 1, co_address_line1 = None, co_address_line2 = None, co_city = None,
     co_code = ''C'', co_created_at = 0, co_currency_code = Some ''IDR'', co_deleted_at = None,
     co_email = None, co_legal_name = None, co_name = ''Company'', co_phone = None,
     co_postal_code = None, co_tax_id = None, co_timezone = None, co_updated_at = 0\<rparr>"

text \<open>
  Invoice 1 is posted over 100.0000 with batch 1; payment 1 is a draft that allocates 40.0000
  of it in two lines; credit 1 is a draft over 30.0000 that names no invoice.
\<close>

definition sample_db :: db where
  "sample_db = empty_db\<lparr>
     accounts := [sample_account 1 ''BANK'', sample_account 2 ''LIABILITY'',
       sample_account 3 ''EXPENSE'', sample_account 4 ''LIABILITY''],
     companies := [sample_company],
     company_modules := [sample_settings],
     modules := [\<lparr>mod_id = 1, mod_code = ''purchasing'', mod_name = ''Purchasing''\<rparr>],
     suppliers := [sample_supplier],
     purchase_invoices := [sample_invoice 1 2 1000000 (Some 1)],
     purchase_invoice_lines := [sample_invoice_line 1 1 20000 500000],
     ap_payments := [sample_payment 1 10 None],
     ap_payment_lines := [sample_payment_line 1 1 1 250000, sample_payment_line 2 1 1 150000],
     purchase_credits := [sample_credit 1 10 300000],
     purchase_credit_lines := [sample_credit_line 1 1 None 300000],
     journal_batches := [sample_batch 1 ''PURCHASE_INVOICE'' 1],
     journal_lines := [sample_journal_line 1 1 3 10000 0, sample_journal_line 2 1 2 0 10000],
     auto_inc := (\<lambda>t. 2)\<rparr>"

text \<open>The tables after an operation that is known to succeed.\<close>

definition run_op :: "('a \<times> db) res \<Rightarrow> db" where
  "run_op m = (case m of Inr (_, d) \<Rightarrow> d | Inl _ \<Rightarrow> empty_db)"

lemma run_op_Inr: "(case m of Inr _ \<Rightarrow> True | Inl _ \<Rightarrow> False) \<Longrightarrow> \<exists>a. m = Inr (a, run_op m)"
  by (auto simp: run_op_def split: sum.splits)

end
