(* ===== verification/Exchange_Rate.thy ===== *)
theory Exchange_Rate
  imports Purchasing_Db Decimal_Scale4 Sample_Tables
begin

text \<open>
  The exchange rates of a company (\<open>services/exchange-rate-service.ts\<close>): a rate holds
  from its effective date on, and \<open>getRate\<close> finds the one in force at a date.  A rate is
  one unit of the foreign currency in the company's currency, with eight decimals; at most one
  row exists per currency and effective date (\<open>uk_exchange_rates_company_currency_date\<close>).
\<close>

section \<open>Operations\<close>

record ExchangeRate =
  x_id :: nat
  x_company_id :: nat
  x_currency_code :: string
  x_rate :: string
  x_effective_date :: int
  x_notes :: "string option"
  x_is_active :: bool
  x_created_by_user_id :: "nat option"
  x_updated_by_user_id :: "nat option"
  x_created_at :: int
  x_updated_at :: int

definition mapExchangeRate :: "exchange_rate_row \<Rightarrow> ExchangeRate" where
  "mapExchangeRate r =
     \<lparr>x_id = er_id r, x_company_id = er_company_id r, x_currency_code = er_currency_code r,
      x_rate = db_decimal 8 (er_rate r), x_effective_date = er_effective_date r,
      x_notes = er_notes r, x_is_active = (er_is_active r \<noteq> 0),
      x_created_by_user_id = er_created_by_user_id r,
      x_updated_by_user_id = er_updated_by_user_id r, x_created_at = er_created_at r,
      x_updated_at = er_updated_at r\<rparr>"

text \<open>\<open>ORDER BY effective_date DESC, created_at DESC\<close>\<close>

definition newest_first :: "exchange_rate_row list \<Rightarrow> exchange_rate_row list" where
  "newest_first rs = sort_key (\<lambda>r. - er_effective_date r) (sort_key (\<lambda>r. - er_created_at r) rs)"

record ListExchangeRatesParams =
  lx_companyId :: nat
  lx_currencyCode :: "string option"
  lx_isActive :: "bool option"
  lx_limit :: nat
  lx_offset :: nat

definition rate_matches :: "ListExchangeRatesParams \<Rightarrow> exchange_rate_row \<Rightarrow> bool" where
  "rate_matches ps r \<longleftrightarrow> er_company_id r = lx_companyId ps \<and>
     (\<forall>c \<in> set_option (truthy_str (lx_currencyCode ps)). er_currency_code r = c) \<and>
     (\<forall>a \<in> set_option (lx_isActive ps). er_is_active r = (if a then 1 else 0))"

definition listRates :: "db \<Rightarrow> ListExchangeRatesParams \<Rightarrow> ExchangeRate list \<times> nat \<times> nat \<times> nat" where
  "listRates d ps =
     (let matches = filter (rate_matches ps) (exchange_rates d)
      in (map mapExchangeRate (take (lx_limit ps) (drop (lx_offset ps) (newest_first matches))),
          length matches, lx_limit ps, lx_offset ps))"

definition find_rate :: "db \<Rightarrow> nat \<Rightarrow> nat \<Rightarrow> exchange_rate_row option" where
  "find_rate d companyId rateId =
     find (\<lambda>r. er_id r = rateId \<and> er_company_id r = companyId) (exchange_rates d)"

definition getRateById :: "db \<Rightarrow> nat \<Rightarrow> nat \<Rightarrow> ExchangeRate option" where
  "getRateById d companyId rateId = map_option mapExchangeRate (find_rate d companyId rateId)"

record CreateExchangeRateInput =
  ix_companyId :: nat
  ix_currencyCode :: string
  ix_rate :: string
  ix_effectiveDate :: int
  ix_notes :: "string option"
  ix_userId :: nat

definition same_rate_key :: "nat \<Rightarrow> string \<Rightarrow> int \<Rightarrow> exchange_rate_row \<Rightarrow> bool" where
  "same_rate_key companyId currency date r \<longleftrightarrow> er_company_id r = companyId \<and>
     er_currency_code r = currency \<and> er_effective_date r = date"

definition createRate :: "CreateExchangeRateInput \<Rightarrow> int \<Rightarrow> ExchangeRate op" where
  "createRate input now d =
     bindR (toScaled8 (ix_rate input)) (\<lambda>rate.
     bindR (require (\<forall>r \<in> set (exchange_rates d). \<not> same_rate_key (ix_companyId input)
         (ix_currencyCode input) (ix_effectiveDate input) r)
       (ER_DUP_ENTRY ''uk_exchange_rates_company_currency_date'')) (\<lambda>_.
       let insertedId = next_id d T_exchange_rate;
           d' = bump T_exchange_rate (d\<lparr>exchange_rates := exchange_rates d @
             [\<lparr>er_id = insertedId, er_company_id = ix_companyId input, er_created_at = now,
               er_created_by_user_id = Some (ix_userId input),
               er_currency_code = ix_currencyCode input,
               er_effective_date = ix_effectiveDate input, er_is_active = 1,
               er_notes = ix_notes input, er_rate = rate, er_updated_at = now,
               er_updated_by_user_id = None\<rparr>]\<rparr>)
       in bindR (from_opt (JsError ''Failed to load created exchange rate'')
            (getRateById d' (ix_companyId input) insertedId)) (\<lambda>created. Inr (created, d'))))"

record UpdateExchangeRateInput =
  ux_companyId :: nat
  ux_rateId :: nat
  ux_rate :: "string option"
  ux_effectiveDate :: "int option"
  ux_notes :: "string option"
  ux_isActive :: "bool option"
  ux_userId :: nat

definition update_rate_row :: "UpdateExchangeRateInput \<Rightarrow> int option \<Rightarrow> int \<Rightarrow> exchange_rate_row \<Rightarrow> exchange_rate_row" where
  "update_rate_row input rate now r =
     r\<lparr>er_updated_by_user_id := Some (ux_userId input),
       er_rate := (case rate of None \<Rightarrow> er_rate r | Some v \<Rightarrow> v),
       er_effective_date := (case ux_effectiveDate input of None \<Rightarrow> er_effective_date r | Some x \<Rightarrow> x),
       er_notes := (case ux_notes input of None \<Rightarrow> er_notes r | Some n \<Rightarrow> Some n),
       er_is_active := (case ux_isActive input of None \<Rightarrow> er_is_active r | Some a \<Rightarrow> if a then 1 else 0),
       er_updated_at := now\<rparr>"

definition updateRate :: "UpdateExchangeRateInput \<Rightarrow> int \<Rightarrow> ExchangeRate option op" where
  "updateRate input now d =
     (case find_rate d (ux_companyId input) (ux_rateId input) of
        None \<Rightarrow> Inr (None, d)
      | Some existing \<Rightarrow>
          bindR (case ux_rate input of None \<Rightarrow> Inr None | Some s \<Rightarrow> bindR (toScaled8 s) (\<lambda>v. Inr (Some v))) (\<lambda>rate.
            let f = update_rate_row input rate now;
                new = f existing
            in
            bindR (require (\<forall>r \<in> set (exchange_rates d). er_id r = er_id existing \<or>
                \<not> same_rate_key (er_company_id new) (er_currency_code new) (er_effective_date new) r)
              (ER_DUP_ENTRY ''uk_exchange_rates_company_currency_date'')) (\<lambda>_.
              let d' = d\<lparr>exchange_rates := update_where (\<lambda>r. er_id r = ux_rateId input \<and>
                    er_company_id r = ux_companyId input) f (exchange_rates d)\<rparr>
              in Inr (getRateById d' (ux_companyId input) (ux_rateId input), d'))))"

record ExchangeRateLookupResult =
  lr_currency_code :: string
  lr_rate :: string
  lr_effective_date :: int

definition in_force :: "nat \<Rightarrow> string \<Rightarrow> int \<Rightarrow> exchange_rate_row \<Rightarrow> bool" where
  "in_force companyId currencyCode date r \<longleftrightarrow> er_company_id r = companyId \<and>
     er_currency_code r = currencyCode \<and> er_effective_date r \<le> date \<and> er_is_active r = 1"

definition getRate_row :: "db \<Rightarrow> nat \<Rightarrow> string \<Rightarrow> int \<Rightarrow> exchange_rate_row option" where
  "getRate_row d companyId currencyCode date =
     (case newest_first (filter (in_force companyId currencyCode date) (exchange_rates d)) of
        [] \<Rightarrow> None | r # _ \<Rightarrow> Some r)"

definition getRate :: "db \<Rightarrow> nat \<Rightarrow> string \<Rightarrow> int \<Rightarrow> ExchangeRateLookupResult option" where
  "getRate d companyId currencyCode date =
     map_option (\<lambda>r. \<lparr>lr_currency_code = er_currency_code r, lr_rate = db_decimal 8 (er_rate r),
       lr_effective_date = er_effective_date r\<rparr>) (getRate_row d companyId currencyCode date)"

section \<open>Facts\<close>

text \<open>One row per currency and date.\<close>

definition rate_keys :: "db \<Rightarrow> bool" where
  "rate_keys d \<longleftrightarrow>
     distinct (map (\<lambda>r. (er_company_id r, er_currency_code r, er_effective_date r)) (exchange_rates d)) \<and>
     distinct (map er_id (exchange_rates d)) \<and>
     (\<forall>r \<in> set (exchange_rates d). er_id r \<le> auto_inc d T_exchange_rate)"

lemma hd_sort_key_le:
  fixes f :: "'a \<Rightarrow> 'b::linorder"
  assumes "sort_key f xs = y # ys" and "x \<in> set xs"
  shows "f y \<le> f x"
proof -
  have "sorted (map f (y # ys))" using sorted_sort_key [of f xs] by (simp add: assms(1))
  moreover have "x \<in> set (y # ys)" using assms set_sort [of f xs] by metis
  ultimately show ?thesis by auto
qed

lemma set_newest_first [simp]: "set (newest_first rs) = set rs"
  by (simp add: newest_first_def)

lemma getRate_row_spec:
  "getRate_row d c cur date = Some r \<Longrightarrow>
     r \<in> set (exchange_rates d) \<and> in_force c cur date r \<and>
     (\<forall>q \<in> set (exchange_rates d). in_force c cur date q \<longrightarrow> er_effective_date q \<le> er_effective_date r)"
proof -
  assume "getRate_row d c cur date = Some r"
  then obtain rs where eq: "newest_first (filter (in_force c cur date) (exchange_rates d)) = r # rs"
    by (auto simp: getRate_row_def split: list.splits)
  then have "r \<in> set (filter (in_force c cur date) (exchange_rates d))"
    by (metis list.set_intros(1) set_newest_first)
  moreover have "er_effective_date q \<le> er_effective_date r"
    if "q \<in> set (exchange_rates d)" "in_force c cur date q" for q
    using hd_sort_key_le [OF eq [unfolded newest_first_def], of q] that by simp
  ultimately show ?thesis by simp
qed

lemma getRate_row_None:
  "getRate_row d c cur date = None \<longleftrightarrow> (\<forall>q \<in> set (exchange_rates d). \<not> in_force c cur date q)"
proof -
  have "newest_first rs = [] \<longleftrightarrow> rs = []" for rs
    by (metis set_empty set_newest_first)
  then show ?thesis
    by (auto simp: getRate_row_def filter_empty_conv split: list.splits)
      (metis filter_empty_conv list.distinct(1))+
qed

text \<open>Among the rates in force, the row found is the only one with its date.\<close>

lemma rate_keys_unique:
  assumes "rate_keys d" and "r \<in> set (exchange_rates d)" and "q \<in> set (exchange_rates d)"
    and "same_rate_key (er_company_id r) (er_currency_code r) (er_effective_date r) q"
  shows "q = r"
  using assms distinct_map_eq [of "\<lambda>r. (er_company_id r, er_currency_code r, er_effective_date r)"]
  by (fastforce simp: rate_keys_def same_rate_key_def)

lemma createRate_keys:
  assumes "rate_keys d" and "createRate input now d = Inr (x, d')"
  shows "rate_keys d'"
proof -
  from assms(2) obtain rate where
    fresh: "\<forall>r \<in> set (exchange_rates d). \<not> same_rate_key (ix_companyId input) (ix_currencyCode input)
      (ix_effectiveDate input) r"
    and d': "exchange_rates d' = exchange_rates d @
             [\<lparr>er_id = next_id d T_exchange_rate, er_company_id = ix_companyId input, er_created_at = now,
               er_created_by_user_id = Some (ix_userId input),
               er_currency_code = ix_currencyCode input,
               er_effective_date = ix_effectiveDate input, er_is_active = 1,
               er_notes = ix_notes input, er_rate = rate, er_updated_at = now,
               er_updated_by_user_id = None\<rparr>]"
      "auto_inc d' T_exchange_rate = next_id d T_exchange_rate"
    by (auto simp: createRate_def inr_simps Let_def bump_def next_id_def)
  then show ?thesis using assms(1) by (fastforce simp: rate_keys_def same_rate_key_def next_id_def)
qed

section \<open>Properties\<close>

text \<open>
  A lookup returns a rate exactly when some active rate of the currency is in force at the
  date, and then it is the one that became effective last.
\<close>

theorem getRate_latest:
  assumes "rate_keys d"
  shows "getRate d c cur date = Some x \<longleftrightarrow>
    (\<exists>r \<in> set (exchange_rates d). in_force c cur date r \<and>
      (\<forall>q \<in> set (exchange_rates d). in_force c cur date q \<longrightarrow> q = r \<or> er_effective_date q < er_effective_date r) \<and>
      x = \<lparr>lr_currency_code = cur, lr_rate = db_decimal 8 (er_rate r), lr_effective_date = er_effective_date r\<rparr>)"
    (is "?L \<longleftrightarrow> ?R")
proof
  have uniq: "q = r" if "r \<in> set (exchange_rates d)" "q \<in> set (exchange_rates d)" "in_force c cur date r"
    "in_force c cur date q" "er_effective_date q = er_effective_date r" for q r
    using rate_keys_unique [OF assms that(1,2)] that by (simp add: in_force_def same_rate_key_def)
  show "?L \<Longrightarrow> ?R"
  proof -
    assume ?L
    then obtain r where r: "getRate_row d c cur date = Some r" and x:
      "x = \<lparr>lr_currency_code = er_currency_code r, lr_rate = db_decimal 8 (er_rate r), lr_effective_date = er_effective_date r\<rparr>"
      by (auto simp: getRate_def)
    note spec = getRate_row_spec [OF r]
    then have "q = r \<or> er_effective_date q < er_effective_date r"
      if "q \<in> set (exchange_rates d)" "in_force c cur date q" for q
      using uniq [of r q] that by (metis order_le_less)
    with spec x show ?R by (auto simp: in_force_def)
  qed
  show "?R \<Longrightarrow> ?L"
  proof -
    assume ?R
    then obtain r where r: "r \<in> set (exchange_rates d)" "in_force c cur date r"
      and max: "\<forall>q \<in> set (exchange_rates d). in_force c cur date q \<longrightarrow> q = r \<or> er_effective_date q < er_effective_date r"
      and x: "x = \<lparr>lr_currency_code = cur, lr_rate = db_decimal 8 (er_rate r), lr_effective_date = er_effective_date r\<rparr>"
      by blast
    obtain q where q: "getRate_row d c cur date = Some q"
      using r getRate_row_None [of d c cur date] by (cases "getRate_row d c cur date") auto
    with getRate_row_spec [OF q] max r have "q = r" by fastforce
    with q r x show ?L by (simp add: getRate_def in_force_def)
  qed
qed

theorem getRate_latest_witness:
  "getRate (sample_db\<lparr>exchange_rates := [sample_rate 1 20500 1500000000000, sample_rate 2 20570 1600000000000]\<rparr>)
     1 ''USD'' 20574 = Some \<lparr>lr_currency_code = ''USD'', lr_rate = db_decimal 8 1600000000000, lr_effective_date = 20570\<rparr>"
proof -
  have "rate_keys (sample_db\<lparr>exchange_rates := [sample_rate 1 20500 1500000000000, sample_rate 2 20570 1600000000000]\<rparr>)"
    by code_simp
  from getRate_latest [OF this] show ?thesis
    by (simp add: in_force_def sample_rate_def)
qed

text \<open>
  A rate that was just created is the one in force on its effective date, with the value
  that was given, and the uniqueness of rates per currency and date is kept.
\<close>

theorem createRate_in_force:
  assumes "rate_keys d" and "createRate input now d = Inr (x, d')"
  shows "rate_keys d' \<and> (\<exists>v. toScaled8 (ix_rate input) = Inr v \<and>
    getRate d' (ix_companyId input) (ix_currencyCode input) (ix_effectiveDate input) =
      Some \<lparr>lr_currency_code = ix_currencyCode input, lr_rate = db_decimal 8 v,
        lr_effective_date = ix_effectiveDate input\<rparr>)"
proof -
  have keys: "rate_keys d'" by (rule createRate_keys [OF assms])
  from assms(2) obtain v where v: "toScaled8 (ix_rate input) = Inr v"
    and d': "exchange_rates d' = exchange_rates d @
             [\<lparr>er_id = next_id d T_exchange_rate, er_company_id = ix_companyId input, er_created_at = now,
               er_created_by_user_id = Some (ix_userId input),
               er_currency_code = ix_currencyCode input,
               er_effective_date = ix_effectiveDate input, er_is_active = 1,
               er_notes = ix_notes input, er_rate = v, er_updated_at = now,
               er_updated_by_user_id = None\<rparr>]" (is "_ = _ @ [?r]")
    by (auto simp: createRate_def inr_simps Let_def bump_def next_id_def)
  have r: "?r \<in> set (exchange_rates d')" "in_force (ix_companyId input) (ix_currencyCode input) (ix_effectiveDate input) ?r"
    by (simp_all add: d' in_force_def)
  then obtain q where q: "getRate_row d' (ix_companyId input) (ix_currencyCode input) (ix_effectiveDate input) = Some q"
    using getRate_row_None by (metis not_None_eq)
  from getRate_row_spec [OF q] r(1) r(2) have "same_rate_key (er_company_id ?r) (er_currency_code ?r) (er_effective_date ?r) q"
    by (fastforce simp: in_force_def same_rate_key_def)
  then have "q = ?r" using rate_keys_unique [OF keys r(1)] getRate_row_spec [OF q] by blast
  with q v keys show ?thesis by (simp add: getRate_def)
qed

theorem createRate_in_force_witness:
  "\<exists>x d'. createRate \<lparr>ix_companyId = 1, ix_currencyCode = ''USD'', ix_rate = ''16000.5'', ix_effectiveDate = 20574,
       ix_notes = None, ix_userId = 7\<rparr> 100 sample_db = Inr (x, d') \<and>
     getRate d' 1 ''USD'' 20574 = Some \<lparr>lr_currency_code = ''USD'', lr_rate = db_decimal 8 1600050000000, lr_effective_date = 20574\<rparr>"
proof -
  let ?i = "\<lparr>ix_companyId = 1, ix_currencyCode = ''USD'', ix_rate = ''16000.5'', ix_effectiveDate = 20574,
       ix_notes = None, ix_userId = 7\<rparr>"
  have "\<not> isl (createRate ?i 100 sample_db)" by code_simp
  then obtain x d' where c: "createRate ?i 100 sample_db = Inr (x, d')"
    by (cases "createRate ?i 100 sample_db") auto
  have "rate_keys sample_db" by code_simp
  moreover have "toScaled8 ''16000.5'' = Inr 1600050000000" by code_simp
  ultimately show ?thesis using createRate_in_force [OF _ c] c by auto
qed

end
