(* ===== verification/Ledger.thy ===== *)
theory Ledger
  imports Purchasing_Db Decimal_Scale4
begin

text \<open>
  What the purchasing documents do to the general ledger: they insert one row of
  \<open>journal_batches\<close> and its rows of \<open>journal_lines\<close> inside their transaction, and
  they undo a posting by a second batch with debit and credit exchanged.  A company has one batch
  at most for a document of a type (the unique key of migration 0040).  The journal stores
  two decimals and its checks reject a line that is not one-sided and positive (migration
  0042); a rejected line aborts the transaction.  The period-close override that every
  posting may leave is here too, because the three services carry the same copy of it.
\<close>

section \<open>Inserting a batch\<close>

record ledger_entry =
  le_account :: nat
  le_debit :: int
  le_credit :: int
  le_description :: string

text \<open>A journal line as the services build it: amounts are decimal strings.\<close>

record journal_input =
  ji_account_id :: nat
  ji_debit :: string
  ji_credit :: string
  ji_description :: string

text \<open>Storing a string of four decimals in a \<open>DECIMAL(18,2)\<close> column rounds it.\<close>

definition column_dec2 :: "string \<Rightarrow> int res" where
  "column_dec2 s = bindR (toScaled4 s) (\<lambda>v. Inr (sql_round_div v 100))"

definition to_entry :: "journal_input \<Rightarrow> ledger_entry res" where
  "to_entry l =
     bindR (column_dec2 (ji_debit l)) (\<lambda>dr.
     bindR (column_dec2 (ji_credit l)) (\<lambda>cr.
       Inr \<lparr>le_account = ji_account_id l, le_debit = dr, le_credit = cr,
            le_description = ji_description l\<rparr>))"

text \<open>
  A row the table takes: the description is a \<open>VARCHAR(255)\<close> (migration 0042), whose overflow
  is an error in strict mode, and the checks want a one-sided, positive line.  The texts the
  services build never end in spaces, the only excess MySQL would cut off silently.
\<close>

definition description_fits :: "string \<Rightarrow> bool" where
  "description_fits s \<longleftrightarrow> length s \<le> 255"

definition entry_sided :: "ledger_entry \<Rightarrow> bool" where
  "entry_sided e \<longleftrightarrow> 0 \<le> le_debit e \<and> 0 \<le> le_credit e \<and>
     (0 < le_debit e \<and> le_credit e = 0 \<or> 0 < le_credit e \<and> le_debit e = 0)"

definition entry_ok :: "ledger_entry \<Rightarrow> bool" where
  "entry_ok e \<longleftrightarrow> description_fits (le_description e) \<and> entry_sided e"

definition journal_row :: "nat \<Rightarrow> nat \<Rightarrow> int \<Rightarrow> int \<Rightarrow> nat \<Rightarrow> ledger_entry \<Rightarrow> journal_line_row" where
  "journal_row batchId companyId date now k e =
     \<lparr>jl_id = k, jl_company_id = companyId, jl_account_id = le_account e, jl_created_at = now,
      jl_credit = le_credit e, jl_debit = le_debit e, jl_description = le_description e,
      jl_journal_batch_id = batchId, jl_line_date = date, jl_outlet_id = None,
      jl_updated_at = now\<rparr>"

definition insert_journal_line ::
  "nat \<Rightarrow> nat \<Rightarrow> int \<Rightarrow> int \<Rightarrow> db \<Rightarrow> ledger_entry \<Rightarrow> db res" where
  "insert_journal_line batchId companyId date now d e =
     bindR (require (description_fits (le_description e)) (ER_DATA_TOO_LONG ''description'')) (\<lambda>_.
     bindR (require (entry_sided e) (ER_CHECK_CONSTRAINT ''chk_journal_lines'')) (\<lambda>_.
       Inr (bump T_journal_line
         (d\<lparr>journal_lines := journal_lines d @
              [journal_row batchId companyId date now (next_id d T_journal_line) e]\<rparr>))))"

definition insert_journal_batch :: "nat \<Rightarrow> string \<Rightarrow> nat \<Rightarrow> int \<Rightarrow> db \<Rightarrow> nat \<times> db" where
  "insert_journal_batch companyId docType docId now d =
     (let batchId = next_id d T_journal_batch in
      (batchId, bump T_journal_batch
        (d\<lparr>journal_batches := journal_batches d @
             [\<lparr>jb_id = batchId, jb_company_id = companyId, jb_client_ref = None, jb_created_at = now,
               jb_doc_id = docId, jb_doc_type = docType, jb_outlet_id = None, jb_posted_at = now,
               jb_updated_at = now\<rparr>]\<rparr>)))"

definition batch_free :: "db \<Rightarrow> nat \<Rightarrow> string \<Rightarrow> nat \<Rightarrow> bool" where
  "batch_free d companyId docType docId \<longleftrightarrow>
     \<not> list_ex (\<lambda>b. jb_company_id b = companyId \<and> jb_doc_type b = docType \<and> jb_doc_id b = docId)
       (journal_batches d)"

definition post_journal ::
  "nat \<Rightarrow> string \<Rightarrow> nat \<Rightarrow> int \<Rightarrow> int \<Rightarrow> ledger_entry list \<Rightarrow> nat op" where
  "post_journal companyId docType docId date now es d =
     bindR (require (batch_free d companyId docType docId)
       (ER_DUP_ENTRY ''uq_journal_batches_company_doc'')) (\<lambda>_.
     let (batchId, d1) = insert_journal_batch companyId docType docId now d in
      bindR (foldM (insert_journal_line batchId companyId date now) d1 es)
        (\<lambda>d2. Inr (batchId, d2)))"

text \<open>
  The balance check of the services adds the strings up at four decimals; the insertion that
  follows stores each of them at two.
\<close>

definition journal_totals :: "journal_input list \<Rightarrow> (int \<times> int) res" where
  "journal_totals ls =
     foldM (\<lambda>(dr, cr) l. bindR (toScaled4 (ji_debit l)) (\<lambda>x. bindR (toScaled4 (ji_credit l))
       (\<lambda>y. Inr (dr + x, cr + y)))) (0, 0) ls"

definition post_inputs ::
  "nat \<Rightarrow> string \<Rightarrow> nat \<Rightarrow> int \<Rightarrow> int \<Rightarrow> journal_input list \<Rightarrow> nat op" where
  "post_inputs companyId docType docId date now ls d =
     bindR (mapM to_entry ls) (\<lambda>es. post_journal companyId docType docId date now es d)"

section \<open>Reading a batch\<close>

definition entry_of :: "journal_line_row \<Rightarrow> ledger_entry" where
  "entry_of l = \<lparr>le_account = jl_account_id l, le_debit = jl_debit l, le_credit = jl_credit l,
     le_description = jl_description l\<rparr>"

definition batch_entries :: "db \<Rightarrow> nat \<Rightarrow> nat \<Rightarrow> ledger_entry list" where
  "batch_entries d companyId batchId =
     map entry_of (filter (\<lambda>l. jl_journal_batch_id l = batchId \<and> jl_company_id l = companyId)
       (journal_lines d))"

text \<open>The line a void inserts for an original line, with a description of its own.\<close>

definition reverse_entry :: "(string \<Rightarrow> string) \<Rightarrow> ledger_entry \<Rightarrow> ledger_entry" where
  "reverse_entry f e = e\<lparr>le_debit := le_credit e, le_credit := le_debit e,
     le_description := f (le_description e)\<rparr>"

text \<open>The descriptions of the reversal fit their column.\<close>

definition reversal_fits :: "(string \<Rightarrow> string) \<Rightarrow> ledger_entry list \<Rightarrow> bool" where
  "reversal_fits f es \<longleftrightarrow> list_all (\<lambda>e. description_fits (f (le_description e))) es"

definition debits :: "ledger_entry list \<Rightarrow> int" where
  "debits es = sum_list (map le_debit es)"

definition credits :: "ledger_entry list \<Rightarrow> int" where
  "credits es = sum_list (map le_credit es)"

definition account_net :: "nat \<Rightarrow> ledger_entry list \<Rightarrow> int" where
  "account_net a es = sum_for le_account (\<lambda>e. le_debit e - le_credit e) a es"

section \<open>Period-close override\<close>

record GuardrailDecision =
  gd_allowed :: bool
  gd_overrideRequired :: bool
  gd_periodId :: "nat option"
  gd_blockReason :: "string option"
  gd_blockCode :: "string option"

definition insertPeriodCloseOverride ::
  "nat \<Rightarrow> nat \<Rightarrow> string \<Rightarrow> nat \<Rightarrow> nat \<Rightarrow> string \<Rightarrow> int \<Rightarrow> db \<Rightarrow> db" where
  "insertPeriodCloseOverride companyId userId transactionType transactionId periodId reason overriddenAt d =
     bump T_period_close_override
       (d\<lparr>period_close_overrides := period_close_overrides d @
            [\<lparr>pco_id = next_id d T_period_close_override, pco_company_id = companyId,
              pco_created_at = overriddenAt, pco_overridden_at = overriddenAt,
              pco_period_id = periodId, pco_reason = reason, pco_transaction_id = transactionId,
              pco_transaction_type = transactionType, pco_user_id = userId\<rparr>]\<rparr>)"

text \<open>The guard in front of it, the same at every posting and void.\<close>

definition record_override ::
  "GuardrailDecision option \<Rightarrow> string option \<Rightarrow> nat \<Rightarrow> nat \<Rightarrow> string \<Rightarrow> nat \<Rightarrow> int \<Rightarrow> db \<Rightarrow> db" where
  "record_override guardrailDecision validOverrideReason companyId userId transactionType transactionId now d =
     (case guardrailDecision of
        None \<Rightarrow> d
      | Some g \<Rightarrow>
          (case (gd_overrideRequired g, validOverrideReason, truthy_id (gd_periodId g)) of
             (True, Some reason, Some periodId) \<Rightarrow>
               insertPeriodCloseOverride companyId userId transactionType transactionId periodId reason now d
           | _ \<Rightarrow> d))"

section \<open>The effect of a posting\<close>

lemma reversal_sided: "list_all entry_ok es \<Longrightarrow> list_all entry_sided (map (reverse_entry f) es)"
  by (induction es) (auto simp: entry_ok_def entry_sided_def reverse_entry_def)

lemma reversal_ok:
  "list_all entry_ok es \<Longrightarrow> list_all entry_ok (map (reverse_entry f) es) \<longleftrightarrow> reversal_fits f es"
  by (induction es) (auto simp: entry_ok_def entry_sided_def reverse_entry_def reversal_fits_def)

lemma zero_string: "toScaled4 ''0.0000'' = Inr 0"
  by code_simp

lemma column_dec2_zero [simp]: "column_dec2 ''0.0000'' = Inr 0"
  by (simp add: column_dec2_def zero_string sql_round_div_def)

lemma column_dec2_fromScaled4: "0 \<le> v \<Longrightarrow> column_dec2 (fromScaled4 v) = Inr (sql_round_div v 100)"
  by (simp add: column_dec2_def toScaled4_fromScaled4)

lemma debits_simps [simp]: "debits [] = 0" "debits (e # es) = le_debit e + debits es"
    "debits (es @ fs) = debits es + debits fs"
  by (simp_all add: debits_def)

lemma credits_simps [simp]: "credits [] = 0" "credits (e # es) = le_credit e + credits es"
    "credits (es @ fs) = credits es + credits fs"
  by (simp_all add: credits_def)

lemma bump_simps [simp]:
  "auto_inc (bump t d) = (auto_inc d)(t := Suc (auto_inc d t))"
  "next_id (bump t d) t' = (if t' = t then Suc (next_id d t) else next_id d t')"
  by (simp_all add: bump_def next_id_def)

lemma bump_tables [simp]:
  "journal_lines (bump t d) = journal_lines d"
  "journal_batches (bump t d) = journal_batches d"
  by (simp_all add: bump_def)

text \<open>The rows a list of entries becomes, numbered from \<open>k\<close>.\<close>

fun journal_rows ::
  "nat \<Rightarrow> nat \<Rightarrow> int \<Rightarrow> int \<Rightarrow> nat \<Rightarrow> ledger_entry list \<Rightarrow> journal_line_row list" where
  "journal_rows b c date now k [] = []"
| "journal_rows b c date now k (e # es) =
     journal_row b c date now k e # journal_rows b c date now (Suc k) es"

lemma set_journal_rows:
  "l \<in> set (journal_rows b c date now k es) \<Longrightarrow> jl_journal_batch_id l = b \<and> jl_company_id l = c"
  by (induction es arbitrary: k) (auto simp: journal_row_def)

lemma entries_journal_rows: "map entry_of (journal_rows b c date now k es) = es"
  by (induction es arbitrary: k) (simp_all add: journal_row_def entry_of_def)

text \<open>The error of the first entry that the table refuses.\<close>

definition insert_error :: "ledger_entry list \<Rightarrow> perr" where
  "insert_error es =
     (case find (\<lambda>e. \<not> entry_ok e) es of
        Some e \<Rightarrow> if description_fits (le_description e) then ER_CHECK_CONSTRAINT ''chk_journal_lines''
                  else ER_DATA_TOO_LONG ''description''
      | None \<Rightarrow> ER_CHECK_CONSTRAINT ''chk_journal_lines'')"

lemma insert_error_Cons:
  "insert_error (e # es) =
     (if entry_ok e then insert_error es
      else if description_fits (le_description e) then ER_CHECK_CONSTRAINT ''chk_journal_lines''
      else ER_DATA_TOO_LONG ''description'')"
  by (simp add: insert_error_def)

text \<open>Entries with one-sided amounts are refused for their descriptions only.\<close>

lemma insert_error_long:
  assumes "list_all entry_sided es" and "\<not> list_all entry_ok es"
  shows "insert_error es = ER_DATA_TOO_LONG ''description''"
  using assms by (induction es) (auto simp: insert_error_Cons entry_ok_def)

lemma foldM_insert_journal_line:
  "foldM (insert_journal_line b c date now) d es =
     (if list_all entry_ok es
      then Inr (d\<lparr>journal_lines := journal_lines d @ journal_rows b c date now (next_id d T_journal_line) es,
                  auto_inc := (auto_inc d)(T_journal_line := auto_inc d T_journal_line + length es)\<rparr>)
      else Inl (insert_error es))"
proof (induction es arbitrary: d)
  case (Cons e es)
  then show ?case
    by (cases "description_fits (le_description e)"; cases "entry_sided e")
      (auto simp: insert_journal_line_def entry_ok_def insert_error_Cons bump_def next_id_def fun_eq_iff
        intro!: db.equality)
qed simp

text \<open>The tables after a posting, in one formula.\<close>

definition posted_db ::
  "nat \<Rightarrow> string \<Rightarrow> nat \<Rightarrow> int \<Rightarrow> int \<Rightarrow> ledger_entry list \<Rightarrow> db \<Rightarrow> db" where
  "posted_db c docType docId date now es d =
     d\<lparr>journal_batches := journal_batches d @
          [\<lparr>jb_id = next_id d T_journal_batch, jb_company_id = c, jb_client_ref = None,
            jb_created_at = now, jb_doc_id = docId, jb_doc_type = docType, jb_outlet_id = None,
            jb_posted_at = now, jb_updated_at = now\<rparr>],
       journal_lines := journal_lines d @
          journal_rows (next_id d T_journal_batch) c date now (next_id d T_journal_line) es,
       auto_inc := (auto_inc d)(T_journal_batch := Suc (auto_inc d T_journal_batch),
          T_journal_line := auto_inc d T_journal_line + length es)\<rparr>"

lemma post_journal_eq:
  "post_journal c docType docId date now es d =
     (if \<not> batch_free d c docType docId then Inl (ER_DUP_ENTRY ''uq_journal_batches_company_doc'')
      else if list_all entry_ok es
      then Inr (next_id d T_journal_batch, posted_db c docType docId date now es d)
      else Inl (insert_error es))"
  by (simp add: post_journal_def require_def insert_journal_batch_def Let_def foldM_insert_journal_line
      posted_db_def bump_def next_id_def)

lemma post_journal_Inr [inr_simps]:
  "post_journal c docType docId date now es d = Inr r \<longleftrightarrow>
     batch_free d c docType docId \<and> list_all entry_ok es \<and> r = (next_id d T_journal_batch, posted_db c docType docId date now es d)"
  by (auto simp: post_journal_eq)

text \<open>Posting the reversal of stored entries fails for the unique key or for a long text only.\<close>

lemma post_reversal_eq:
  assumes "list_all entry_ok es"
  shows "post_journal c docType docId date now (map (reverse_entry f) es) d =
     (if \<not> batch_free d c docType docId then Inl (ER_DUP_ENTRY ''uq_journal_batches_company_doc'')
      else if reversal_fits f es
      then Inr (next_id d T_journal_batch, posted_db c docType docId date now (map (reverse_entry f) es) d)
      else Inl (ER_DATA_TOO_LONG ''description''))"
  using reversal_ok [OF assms] insert_error_long [OF reversal_sided [OF assms], of f]
  by (auto simp: post_journal_eq)

lemma posted_db_frame [simp, frame]:
  "accounts (posted_db c t i date now es d) = accounts d"
  "companies (posted_db c t i date now es d) = companies d"
  "suppliers (posted_db c t i date now es d) = suppliers d"
  "exchange_rates (posted_db c t i date now es d) = exchange_rates d"
  "purchase_orders (posted_db c t i date now es d) = purchase_orders d"
  "purchase_order_lines (posted_db c t i date now es d) = purchase_order_lines d"
  "purchase_invoices (posted_db c t i date now es d) = purchase_invoices d"
  "purchase_invoice_lines (posted_db c t i date now es d) = purchase_invoice_lines d"
  "ap_payments (posted_db c t i date now es d) = ap_payments d"
  "ap_payment_lines (posted_db c t i date now es d) = ap_payment_lines d"
  "purchase_credits (posted_db c t i date now es d) = purchase_credits d"
  "purchase_credit_lines (posted_db c t i date now es d) = purchase_credit_lines d"
  "purchase_credit_applications (posted_db c t i date now es d) = purchase_credit_applications d"
  by (simp_all add: posted_db_def)

lemma posted_db_auto_inc [simp]:
  "t' \<noteq> T_journal_batch \<Longrightarrow> t' \<noteq> T_journal_line \<Longrightarrow>
     auto_inc (posted_db c t i date now es d) t' = auto_inc d t'"
  by (simp add: posted_db_def)

lemma record_override_frame [simp, frame]:
  "accounts (record_override g r c u t i now d) = accounts d"
  "companies (record_override g r c u t i now d) = companies d"
  "suppliers (record_override g r c u t i now d) = suppliers d"
  "exchange_rates (record_override g r c u t i now d) = exchange_rates d"
  "purchase_orders (record_override g r c u t i now d) = purchase_orders d"
  "purchase_order_lines (record_override g r c u t i now d) = purchase_order_lines d"
  "purchase_invoices (record_override g r c u t i now d) = purchase_invoices d"
  "purchase_invoice_lines (record_override g r c u t i now d) = purchase_invoice_lines d"
  "ap_payments (record_override g r c u t i now d) = ap_payments d"
  "ap_payment_lines (record_override g r c u t i now d) = ap_payment_lines d"
  "purchase_credits (record_override g r c u t i now d) = purchase_credits d"
  "purchase_credit_lines (record_override g r c u t i now d) = purchase_credit_lines d"
  "purchase_credit_applications (record_override g r c u t i now d) = purchase_credit_applications d"
  "journal_batches (record_override g r c u t i now d) = journal_batches d"
  "journal_lines (record_override g r c u t i now d) = journal_lines d"
  "t' \<noteq> T_period_close_override \<Longrightarrow> auto_inc (record_override g r c u t i now d) t' = auto_inc d t'"
  by (simp_all add: record_override_def insertPeriodCloseOverride_def bump_def
      split: option.splits bool.splits)

section \<open>The ledger as the documents see it\<close>

text \<open>
  What a document relies on: a posting creates a batch that holds exactly the entries given,
  under a number not used before, and leaves the other batches alone.  From that alone, a
  batch posted with debit and credit exchanged cancels the batch it was made from, account by
  account.
\<close>

locale ledger =
  fixes post :: "ledger_entry list \<Rightarrow> 's \<Rightarrow> (nat \<times> 's) res"
    and entries :: "'s \<Rightarrow> nat \<Rightarrow> ledger_entry list"
    and wf :: "'s \<Rightarrow> bool"
    and free :: "'s \<Rightarrow> bool"
  assumes post_fresh: "wf s \<Longrightarrow> post es s = Inr (b, s') \<Longrightarrow> entries s b = []"
    and post_entries: "wf s \<Longrightarrow> post es s = Inr (b, s') \<Longrightarrow> entries s' b = es"
    and post_other: "wf s \<Longrightarrow> post es s = Inr (b, s') \<Longrightarrow> b' \<noteq> b \<Longrightarrow> entries s' b' = entries s b'"
    and post_wf: "wf s \<Longrightarrow> post es s = Inr (b, s') \<Longrightarrow> wf s'"
    and post_accepts: "(\<exists>r. post es s = Inr r) \<longleftrightarrow> free s \<and> list_all entry_ok es"
begin

lemma post_reversal:
  assumes wf: "wf s" and orig: "entries s b \<noteq> []"
    and post: "post (map (reverse_entry f) (entries s b)) s = Inr (b', s')"
  shows "entries s' b = entries s b"
    and "account_net a (entries s' b) + account_net a (entries s' b') = 0"
    and "debits (entries s' b') = credits (entries s' b)"
    and "credits (entries s' b') = debits (entries s' b)"
proof -
  have "b \<noteq> b'" using post_fresh [OF wf post] orig by auto
  with post_other [OF wf post] show same: "entries s' b = entries s b" by blast
  have rev: "entries s' b' = map (reverse_entry f) (entries s b)"
    by (rule post_entries [OF wf post])
  have "account_net a es + account_net a (map (reverse_entry f) es) = 0" for es
    by (induction es) (simp_all add: account_net_def reverse_entry_def)
  with same rev show "account_net a (entries s' b) + account_net a (entries s' b') = 0" by simp
  show "debits (entries s' b') = credits (entries s' b)" "credits (entries s' b') = debits (entries s' b)"
    by (simp_all add: same rev debits_def credits_def reverse_entry_def comp_def)
qed

lemma reversal_accepted:
  assumes "wf s0" and "post es s0 = Inr (b, s)" and "wf s" and "free s"
  shows "(\<exists>r. post (map (reverse_entry f) (entries s b)) s = Inr r) \<longleftrightarrow> reversal_fits f (entries s b)"
proof -
  have "list_all entry_ok es" using assms(2) post_accepts by blast
  with assms(4) show ?thesis
    using post_accepts reversal_ok by (metis post_entries [OF assms(1,2)])
qed

end

text \<open>The tables of the program are such a ledger, for every company and document.\<close>

definition wf_ledger :: "db \<Rightarrow> bool" where
  "wf_ledger d \<longleftrightarrow> (\<forall>l \<in> set (journal_lines d). jl_journal_batch_id l \<le> auto_inc d T_journal_batch)"

lemma batch_entries_fresh: "wf_ledger d \<Longrightarrow> batch_entries d c (next_id d T_journal_batch) = []"
  by (fastforce simp: batch_entries_def wf_ledger_def next_id_def filter_empty_conv)

lemma filter_journal_rows:
  "filter (\<lambda>l. jl_journal_batch_id l = b' \<and> jl_company_id l = c') (journal_rows b c date now k es) =
     (if b' = b \<and> c' = c then journal_rows b c date now k es else [])"
  by (induction es arbitrary: k) (auto simp: journal_row_def)

lemma batch_entries_posted:
  assumes "wf_ledger d"
  shows "batch_entries (posted_db c t i date now es d) c' b =
    (if b = next_id d T_journal_batch then if c' = c then es else [] else batch_entries d c' b)"
  using batch_entries_fresh [OF assms, of c']
  by (simp add: batch_entries_def posted_db_def filter_journal_rows entries_journal_rows)

lemma batch_free_posted [simp]:
  "batch_free (posted_db c t i date now es d) c' t' i' \<longleftrightarrow> \<not> (c' = c \<and> t' = t \<and> i' = i) \<and> batch_free d c' t' i'"
  by (auto simp: batch_free_def posted_db_def)

lemma batch_free_cong: "journal_batches d' = journal_batches d \<Longrightarrow> batch_free d' = batch_free d"
  by (simp add: batch_free_def fun_eq_iff)

lemma batch_free_mono:
  "set (journal_batches d) \<subseteq> set (journal_batches d') \<Longrightarrow> batch_free d' c t i \<Longrightarrow> batch_free d c t i"
  by (auto simp: batch_free_def list_ex_iff)

lemma batch_entries_cong: "journal_lines d' = journal_lines d \<Longrightarrow> batch_entries d' c b = batch_entries d c b"
  by (simp add: batch_entries_def)

lemma wf_ledger_posted: "wf_ledger d \<Longrightarrow> wf_ledger (posted_db c t i date now es d)"
  by (auto simp: wf_ledger_def posted_db_def next_id_def dest: set_journal_rows)

interpretation gl: ledger "post_journal c docType docId date now" "\<lambda>d. batch_entries d c" wf_ledger
    "\<lambda>d. batch_free d c docType docId"
  for c docType docId date now
  by unfold_locales
    (auto simp: post_journal_eq batch_entries_fresh batch_entries_posted wf_ledger_posted
      split: if_splits)

end
