(* ===== verification/Open_Amount.thy ===== *)
theory Open_Amount
  imports Purchasing_Db Decimal_Scale4
begin

text \<open>
  What is still owed on an invoice, in the company's currency
  (\<open>services/purchase-invoice-open-amount.ts\<close>): the rounded base value of the invoice
  less the lines of posted payments and the applications of credits that are applied in part
  or in full.  The aggregate joins the lines with their header by primary key, so it is a sum
  over the lines whose header qualifies.
\<close>

definition base_grand_total :: "purchase_invoice_row \<Rightarrow> int" where
  "base_grand_total pi = sql_round_div (pi_grand_total pi * pi_exchange_rate pi) 100000000"

definition payment_counts :: "db \<Rightarrow> nat \<Rightarrow> ap_payment_line_row \<Rightarrow> bool" where
  "payment_counts d companyId l \<longleftrightarrow>
     (\<exists>p \<in> set (ap_payments d). ap_id p = apl_ap_payment_id l \<and> ap_company_id p = companyId \<and>
        ap_status p = AP_POSTED)"

definition credit_counts :: "db \<Rightarrow> nat \<Rightarrow> purchase_credit_application_row \<Rightarrow> bool" where
  "credit_counts d companyId a \<longleftrightarrow> pca_company_id a = companyId \<and>
     (\<exists>c \<in> set (purchase_credits d). pc_id c = pca_purchase_credit_id a \<and>
        pc_status c \<in> {PC_PARTIAL, PC_APPLIED})"

definition paid_total :: "db \<Rightarrow> nat \<Rightarrow> nat \<Rightarrow> int" where
  "paid_total d companyId invoiceId =
     sum_for apl_purchase_invoice_id apl_allocation_amount invoiceId
       (filter (payment_counts d companyId) (ap_payment_lines d))"

definition credited_total :: "db \<Rightarrow> nat \<Rightarrow> nat \<Rightarrow> int" where
  "credited_total d companyId invoiceId =
     sum_for pca_purchase_invoice_id pca_applied_amount invoiceId
       (filter (credit_counts d companyId) (purchase_credit_applications d))"

definition find_invoice :: "db \<Rightarrow> nat \<Rightarrow> nat \<Rightarrow> purchase_invoice_row option" where
  "find_invoice d companyId invoiceId =
     find (\<lambda>pi. pi_id pi = invoiceId \<and> pi_company_id pi = companyId) (purchase_invoices d)"

definition computePurchaseInvoiceOpenAmount :: "db \<Rightarrow> nat \<Rightarrow> nat \<Rightarrow> int res" where
  "computePurchaseInvoiceOpenAmount d companyId invoiceId =
     (case find_invoice d companyId invoiceId of
        None \<Rightarrow> Inr 0
      | Some pi \<Rightarrow>
          bindR (read_dec4 (base_grand_total pi)) (\<lambda>baseGrandTotal.
          bindR (read_dec4 (paid_total d companyId invoiceId)) (\<lambda>paidAmount.
          bindR (read_dec4 (credited_total d companyId invoiceId)) (\<lambda>creditedAmount.
            Inr (baseGrandTotal - paidAmount - creditedAmount)))))"

section \<open>Facts\<close>

text \<open>The ideal open amount, over the integers.\<close>

definition open_amount :: "db \<Rightarrow> purchase_invoice_row \<Rightarrow> int" where
  "open_amount d pi = base_grand_total pi -
     paid_total d (pi_company_id pi) (pi_id pi) - credited_total d (pi_company_id pi) (pi_id pi)"

definition amounts_nonneg :: "db \<Rightarrow> bool" where
  "amounts_nonneg d \<longleftrightarrow>
     (\<forall>pi \<in> set (purchase_invoices d). 0 \<le> pi_grand_total pi \<and> 0 \<le> pi_exchange_rate pi) \<and>
     (\<forall>l \<in> set (ap_payment_lines d). 0 \<le> apl_allocation_amount l) \<and>
     (\<forall>a \<in> set (purchase_credit_applications d). 0 \<le> pca_applied_amount a)"

lemma find_invoice_Some:
  "find_invoice d c i = Some pi \<Longrightarrow> pi \<in> set (purchase_invoices d) \<and> pi_id pi = i \<and> pi_company_id pi = c"
  unfolding find_invoice_def by (drule find_SomeD) simp

lemma paid_total_nonneg: "amounts_nonneg d \<Longrightarrow> 0 \<le> paid_total d c i"
  unfolding paid_total_def by (rule sum_for_nonneg) (simp add: amounts_nonneg_def)

lemma credited_total_nonneg: "amounts_nonneg d \<Longrightarrow> 0 \<le> credited_total d c i"
  unfolding credited_total_def by (rule sum_for_nonneg) (simp add: amounts_nonneg_def)

lemma base_grand_total_nonneg:
  "amounts_nonneg d \<Longrightarrow> pi \<in> set (purchase_invoices d) \<Longrightarrow> 0 \<le> base_grand_total pi"
  by (simp add: base_grand_total_def amounts_nonneg_def sql_round_div_pos)

text \<open>On tables with non-negative amounts the computation succeeds, with the ideal value.\<close>

lemma computeOpen_total:
  assumes "amounts_nonneg d" and "find_invoice d c i = Some pi"
  shows "computePurchaseInvoiceOpenAmount d c i = Inr (open_amount d pi)"
  using assms find_invoice_Some [OF assms(2)]
  by (simp add: computePurchaseInvoiceOpenAmount_def open_amount_def base_grand_total_nonneg
      paid_total_nonneg credited_total_nonneg)

lemma computeOpen_value:
  assumes "computePurchaseInvoiceOpenAmount d c i = Inr v" and "find_invoice d c i = Some pi"
  shows "v = open_amount d pi"
  using assms find_invoice_Some [OF assms(2)]
  by (auto simp: computePurchaseInvoiceOpenAmount_def open_amount_def inr_simps)

lemma open_amount_cong:
  assumes "ap_payments d' = ap_payments d" and "ap_payment_lines d' = ap_payment_lines d"
    and "purchase_credits d' = purchase_credits d"
    and "purchase_credit_applications d' = purchase_credit_applications d"
  shows "open_amount d' pi = open_amount d pi"
  using assms
  by (simp add: open_amount_def paid_total_def credited_total_def payment_counts_def [abs_def]
      credit_counts_def [abs_def])

end
