(* ===== verification/Dates.thy ===== *)
theory Dates
  imports Main
begin

text \<open>
  Calendar dates.  A date is the number of days since 1970-01-01 in the proleptic Gregorian
  calendar; \<open>civil_from_days\<close> gives year, month and day the way \<open>getFullYear\<close>,
  \<open>getMonth() + 1\<close> and \<open>getDate\<close> do for a \<open>Date\<close> at that midnight (UTC).
\<close>

definition days_from_civil :: "int \<Rightarrow> int \<Rightarrow> int \<Rightarrow> int" where
  "days_from_civil y m d =
     (let y' = (if m \<le> 2 then y - 1 else y);
          era = y' div 400;
          yoe = y' mod 400;
          doy = (153 * (if m > 2 then m - 3 else m + 9) + 2) div 5 + d - 1;
          doe = yoe * 365 + yoe div 4 - yoe div 100 + doy
      in era * 146097 + doe - 719468)"

definition civil_from_days :: "int \<Rightarrow> int \<times> int \<times> int" where
  "civil_from_days z0 =
     (let z = z0 + 719468;
          era = z div 146097;
          doe = z mod 146097;
          yoe = (doe - doe div 1460 + doe div 36524 - doe div 146096) div 365;
          doy = doe - (365 * yoe + yoe div 4 - yoe div 100);
          mp = (5 * doy + 2) div 153;
          d = doy - (153 * mp + 2) div 5 + 1;
          m = (if mp < 10 then mp + 3 else mp - 9);
          y = yoe + era * 400 + (if m \<le> 2 then 1 else 0)
      in (y, m, d))"

definition year_of :: "int \<Rightarrow> int" where
  "year_of z = fst (civil_from_days z)"

definition month_of :: "int \<Rightarrow> int" where
  "month_of z = fst (snd (civil_from_days z))"

lemma civil_from_days_examples:
  "civil_from_days 0 = (1970, 1, 1)"
  "civil_from_days 20574 = (2026, 5, 1)"
  "civil_from_days 11016 = (2000, 2, 29)"
  by code_simp+

end
