(* ===== verification/Ap_Payment.thy ===== *)
theory Ap_Payment
  imports Ledger Open_Amount Dates Sample_Tables "HOL-Library.List_Lexorder"
begin

text \<open>
  Payments to suppliers (\<open>services/ap-payment-service.ts\<close>): a draft with a number and its
  allocations to invoices, posting (bank against payables, one pair of journal lines per
  allocation) and voiding.  The bodies of the transactions are definitions of their own; the
  row locks they take make them run one after the other.
\<close>

section \<open>Bank account and payment number\<close>

definition usable_bank :: "account_row option \<Rightarrow> bool" where
  "usable_bank account = (case account of
      None \<Rightarrow> False
    | Some a \<Rightarrow> acc_is_active a = 1 \<and>
        (acc_type_name a = Some ''BANK'' \<or> acc_type_name a = Some ''CASH''))"

definition validateBankAccountOwnership :: "db \<Rightarrow> nat \<Rightarrow> nat \<Rightarrow> unit res" where
  "validateBankAccountOwnership d companyId bankAccountId =
     require (usable_bank (find_account d companyId bankAccountId))
       (APPaymentBankAccountNotFoundError bankAccountId)"

text \<open>The test \<open>APP\/\d{4}\/\d{2}\/(\d+)$\<close> and the group it captures.\<close>

definition match_payment_no :: "string \<Rightarrow> string option" where
  "match_payment_no s =
     (let digits = rev (takeWhile is_digit (rev s));
          before = rev (take 12 (dropWhile is_digit (rev s)))
      in if digits \<noteq> [] \<and> length before = 12 \<and> take 4 before = ''APP/'' \<and>
            list_all is_digit (take 4 (drop 4 before)) \<and> before ! 8 = CHR ''/'' \<and>
            list_all is_digit (take 2 (drop 9 before)) \<and> before ! 11 = CHR ''/''
         then Some digits else None)"

definition payment_prefix :: "int \<Rightarrow> string" where
  "payment_prefix paymentDate = ''APP/'' @ nat_str (nat (year_of paymentDate)) @ ''/'' @
     pad_start 2 (nat_str (nat (month_of paymentDate))) @ ''/''"

definition max_string :: "string list \<Rightarrow> string option" where
  "max_string xs = (case xs of [] \<Rightarrow> None | x # xs \<Rightarrow> Some (fold (\<lambda>y m. if m < y then y else m) xs x))"

definition generatePaymentNo :: "db \<Rightarrow> nat \<Rightarrow> int \<Rightarrow> string" where
  "generatePaymentNo d companyId paymentDate =
     (let prefix = payment_prefix paymentDate;
          lastPayment = max_string (map ap_payment_no (filter (\<lambda>p. ap_company_id p = companyId \<and>
              take (length prefix) (ap_payment_no p) = prefix) (ap_payments d)));
          nextSeq = (case lastPayment of
              None \<Rightarrow> 1
            | Some lastNo \<Rightarrow> (case match_payment_no lastNo of
                None \<Rightarrow> 1 | Some digits \<Rightarrow> nat_of_str digits + 1))
      in prefix @ pad_start 4 (nat_str nextSeq))"

section \<open>Reading a payment\<close>

definition find_payment :: "db \<Rightarrow> nat \<Rightarrow> nat \<Rightarrow> ap_payment_row option" where
  "find_payment d companyId paymentId =
     find (\<lambda>p. ap_id p = paymentId \<and> ap_company_id p = companyId) (ap_payments d)"

definition payment_lines :: "db \<Rightarrow> nat \<Rightarrow> ap_payment_line_row list" where
  "payment_lines d paymentId =
     sort_key apl_line_no (filter (\<lambda>l. apl_ap_payment_id l = paymentId) (ap_payment_lines d))"

record APPaymentLineResult =
  rapl_id :: nat
  rapl_line_no :: nat
  rapl_purchase_invoice_id :: nat
  rapl_allocation_amount :: string
  rapl_description :: "string option"
  rapl_created_at :: int
  rapl_updated_at :: int

record APPaymentGetResult =
  rap_id :: nat
  rap_company_id :: nat
  rap_payment_no :: string
  rap_payment_date :: int
  rap_bank_account_id :: nat
  rap_supplier_id :: nat
  rap_supplier_name :: "string option"
  rap_description :: "string option"
  rap_status :: string
  rap_journal_batch_id :: "nat option"
  rap_posted_at :: "int option"
  rap_posted_by_user_id :: "nat option"
  rap_voided_at :: "int option"
  rap_voided_by_user_id :: "nat option"
  rap_created_by_user_id :: "nat option"
  rap_updated_by_user_id :: "nat option"
  rap_created_at :: int
  rap_updated_at :: int
  rap_lines :: "APPaymentLineResult list"

text \<open>\<open>statusLabels[status] ?? String(status)\<close>\<close>

definition ap_status_label :: "nat \<Rightarrow> string" where
  "ap_status_label status =
     (case map_of AP_PAYMENT_STATUS_LABEL status of None \<Rightarrow> nat_str status | Some l \<Rightarrow> l)"

definition ap_line_result :: "ap_payment_line_row \<Rightarrow> APPaymentLineResult" where
  "ap_line_result l =
     \<lparr>rapl_id = apl_id l, rapl_line_no = apl_line_no l,
      rapl_purchase_invoice_id = apl_purchase_invoice_id l,
      rapl_allocation_amount = fromScaled4 (apl_allocation_amount l),
      rapl_description = apl_description l, rapl_created_at = apl_created_at l,
      rapl_updated_at = apl_updated_at l\<rparr>"

definition ap_header_result :: "db \<Rightarrow> ap_payment_row \<Rightarrow> APPaymentLineResult list \<Rightarrow> APPaymentGetResult" where
  "ap_header_result d h ls =
     \<lparr>rap_id = ap_id h, rap_company_id = ap_company_id h, rap_payment_no = ap_payment_no h,
      rap_payment_date = ap_payment_date h, rap_bank_account_id = ap_bank_account_id h,
      rap_supplier_id = ap_supplier_id h,
      rap_supplier_name = map_option sup_name (find_supplier d (ap_company_id h) (ap_supplier_id h)),
      rap_description = ap_description h, rap_status = ap_status_label (ap_status h),
      rap_journal_batch_id = ap_journal_batch_id h, rap_posted_at = ap_posted_at h,
      rap_posted_by_user_id = ap_posted_by_user_id h, rap_voided_at = ap_voided_at h,
      rap_voided_by_user_id = ap_voided_by_user_id h,
      rap_created_by_user_id = ap_created_by_user_id h, rap_updated_by_user_id = None,
      rap_created_at = ap_created_at h, rap_updated_at = ap_updated_at h, rap_lines = ls\<rparr>"

definition getAPPaymentById :: "db \<Rightarrow> nat \<Rightarrow> nat \<Rightarrow> APPaymentGetResult option" where
  "getAPPaymentById d companyId paymentId =
     map_option (\<lambda>h. ap_header_result d h (map ap_line_result (payment_lines d paymentId)))
       (find_payment d companyId paymentId)"

section \<open>Listing payments\<close>

record APPaymentListParams =
  lap_companyId :: nat
  lap_supplierId :: "nat option"
  lap_status :: "nat option"
  lap_dateFrom :: "int option"
  lap_dateTo :: "int option"
  lap_limit :: nat
  lap_offset :: nat

definition list_match :: "APPaymentListParams \<Rightarrow> ap_payment_row \<Rightarrow> bool" where
  "list_match ps p \<longleftrightarrow> ap_company_id p = lap_companyId ps \<and>
     (\<forall>s \<in> set_option (lap_supplierId ps). ap_supplier_id p = s) \<and>
     (\<forall>s \<in> set_option (lap_status ps). ap_status p = s) \<and>
     (\<forall>f \<in> set_option (lap_dateFrom ps). f \<le> ap_payment_date p) \<and>
     (\<forall>t \<in> set_option (lap_dateTo ps). ap_payment_date p \<le> t)"

text \<open>The listing: the count of the matches, and a page of them, newest first.\<close>

definition listAPPayments :: "db \<Rightarrow> APPaymentListParams \<Rightarrow> APPaymentGetResult list \<times> nat \<times> nat \<times> nat" where
  "listAPPayments d ps =
     (let matches = filter (list_match ps) (ap_payments d);
          page = take (lap_limit ps) (drop (lap_offset ps) (sort_key (\<lambda>p. - ap_created_at p) matches))
      in (map (\<lambda>p. (ap_header_result d p [])\<lparr>rap_posted_by_user_id := None, rap_voided_by_user_id := None\<rparr>) page,
          length matches, lap_limit ps, lap_offset ps))"

section \<open>Creating a draft\<close>

record APPaymentLineInput =
  ial_purchaseInvoiceId :: nat
  ial_allocationAmount :: string
  ial_description :: "string option"

record APPaymentCreateInput =
  iap_companyId :: nat
  iap_userId :: nat
  iap_idempotencyKey :: "string option"
  iap_paymentDate :: int
  iap_bankAccountId :: nat
  iap_supplierId :: nat
  iap_description :: "string option"
  iap_lines :: "APPaymentLineInput list"

definition find_payment_by_key :: "db \<Rightarrow> nat \<Rightarrow> string \<Rightarrow> ap_payment_row option" where
  "find_payment_by_key d companyId key =
     find (\<lambda>p. ap_company_id p = companyId \<and> ap_idempotency_key p = Some key) (ap_payments d)"

definition existing_payment :: "db \<Rightarrow> nat \<Rightarrow> string option \<Rightarrow> APPaymentGetResult option" where
  "existing_payment d companyId idempotencyKey =
     (case truthy_str idempotencyKey of
        None \<Rightarrow> None
      | Some key \<Rightarrow>
          (case find_payment_by_key d companyId key of
             None \<Rightarrow> None
           | Some p \<Rightarrow> getAPPaymentById d companyId (ap_id p)))"

text \<open>The amounts of the request, added up per invoice in order of first mention.\<close>

definition allocation_by_invoice :: "APPaymentLineInput list \<Rightarrow> (nat \<times> int) list res" where
  "allocation_by_invoice ls =
     foldM (\<lambda>m l. bindR (toScaled4 (ial_allocationAmount l)) (\<lambda>v.
       Inr (map_add (ial_purchaseInvoiceId l) v m))) [] ls"

text \<open>The invoice of an allocation: present, posted, of this supplier.\<close>

definition payable_invoice :: "db \<Rightarrow> nat \<Rightarrow> nat \<Rightarrow> nat \<Rightarrow> purchase_invoice_row res" where
  "payable_invoice d companyId supplierId invoiceId =
     bindR (from_opt (APPaymentInvoiceNotFoundError invoiceId) (find_invoice d companyId invoiceId)) (\<lambda>pi.
     bindR (require (pi_status pi = PI_POSTED) (APPaymentInvoiceNotPostedError invoiceId (pi_status pi))) (\<lambda>_.
     bindR (require (pi_supplier_id pi = supplierId)
       (APPaymentInvoiceSupplierMismatchError invoiceId supplierId (pi_supplier_id pi))) (\<lambda>_.
       Inr pi)))"

definition not_overpaid :: "db \<Rightarrow> nat \<Rightarrow> nat \<times> int \<Rightarrow> unit res" where
  "not_overpaid d companyId a =
     (case a of (invoiceId, allocatedAmount) \<Rightarrow>
       bindR (computePurchaseInvoiceOpenAmount d companyId invoiceId) (\<lambda>openAmount.
         require (allocatedAmount \<le> openAmount)
           (APPaymentOverpaymentError (fromScaled4 allocatedAmount) (fromScaled4 openAmount))))"

definition check_create_allocations :: "db \<Rightarrow> nat \<Rightarrow> nat \<Rightarrow> (nat \<times> int) list \<Rightarrow> unit res" where
  "check_create_allocations d companyId supplierId allocs =
     foldM (\<lambda>_ a. bindR (payable_invoice d companyId supplierId (fst a)) (\<lambda>_. not_overpaid d companyId a))
       () allocs"

definition new_payment_row :: "APPaymentCreateInput \<Rightarrow> string option \<Rightarrow> string \<Rightarrow> int \<Rightarrow> nat \<Rightarrow> ap_payment_row" where
  "new_payment_row input key paymentNo now k =
     \<lparr>ap_id = k, ap_company_id = iap_companyId input, ap_bank_account_id = iap_bankAccountId input,
      ap_created_at = now, ap_created_by_user_id = Some (iap_userId input),
      ap_description = iap_description input, ap_idempotency_key = key,
      ap_journal_batch_id = None, ap_payment_date = iap_paymentDate input, ap_payment_no = paymentNo,
      ap_posted_at = None, ap_posted_by_user_id = None, ap_status = AP_DRAFT,
      ap_supplier_id = iap_supplierId input, ap_updated_at = now, ap_voided_at = None,
      ap_voided_by_user_id = None\<rparr>"

definition payment_conflict :: "db \<Rightarrow> ap_payment_row \<Rightarrow> (string \<times> ap_payment_row) option" where
  "payment_conflict d r =
     (case find (\<lambda>p. ap_company_id p = ap_company_id r \<and> ap_payment_no p = ap_payment_no r) (ap_payments d) of
        Some p \<Rightarrow> Some (''uk_ap_payments_company_payment_no'', p)
      | None \<Rightarrow>
          (case ap_idempotency_key r of
             None \<Rightarrow> None
           | Some key \<Rightarrow> map_option (Pair ''uk_ap_payments_company_idempotency_key'')
               (find_payment_by_key d (ap_company_id r) key)))"

definition insert_payment :: "ap_payment_row \<Rightarrow> db \<Rightarrow> db" where
  "insert_payment r d = bump T_ap_payment (d\<lparr>ap_payments := ap_payments d @ [r]\<rparr>)"

definition new_payment_line_row :: "nat \<Rightarrow> nat \<Rightarrow> APPaymentLineInput \<Rightarrow> int \<Rightarrow> int \<Rightarrow> nat \<Rightarrow> ap_payment_line_row" where
  "new_payment_line_row paymentId lineNo l amount now k =
     \<lparr>apl_id = k, apl_ap_payment_id = paymentId, apl_created_at = now, apl_line_no = lineNo,
      apl_purchase_invoice_id = ial_purchaseInvoiceId l, apl_allocation_amount = amount,
      apl_description = ial_description l, apl_updated_at = now\<rparr>"

definition insert_payment_line :: "nat \<Rightarrow> int \<Rightarrow> db \<Rightarrow> nat \<times> APPaymentLineInput \<Rightarrow> db res" where
  "insert_payment_line paymentId now d nl =
     (case nl of (lineNo, l) \<Rightarrow>
       bindR (toScaled4 (ial_allocationAmount l)) (\<lambda>amount.
       bindR (require (\<forall>q \<in> set (ap_payment_lines d). \<not> (apl_ap_payment_id q = paymentId \<and> apl_line_no q = lineNo))
         (ER_DUP_ENTRY ''uk_ap_payment_lines_payment_line'')) (\<lambda>_.
         Inr (bump T_ap_payment_line (d\<lparr>ap_payment_lines := ap_payment_lines d @
           [new_payment_line_row paymentId lineNo l amount now (next_id d T_ap_payment_line)]\<rparr>)))))"

text \<open>\<open>catch\<close> around one line: a duplicate of the line's own key is ignored.\<close>

definition insert_payment_line_once :: "nat \<Rightarrow> int \<Rightarrow> db \<Rightarrow> nat \<times> APPaymentLineInput \<Rightarrow> db res" where
  "insert_payment_line_once paymentId now d nl =
     (case insert_payment_line paymentId now d nl of
        Inr d' \<Rightarrow> Inr d'
      | Inl e \<Rightarrow> if e = ER_DUP_ENTRY ''uk_ap_payment_lines_payment_line'' then Inr d else Inl e)"

text \<open>The insert with an idempotency key, an upsert that may find an older row.\<close>

definition insert_idempotent :: "APPaymentCreateInput \<Rightarrow> string \<Rightarrow> string \<Rightarrow> int \<Rightarrow> (nat \<times> string) op" where
  "insert_idempotent input key paymentNo now d =
     (let row = new_payment_row input (Some key) paymentNo now (next_id d T_ap_payment);
          (paymentId, d1) = (case payment_conflict d row of
              Some (_, p) \<Rightarrow> (ap_id p, d)
            | None \<Rightarrow> (ap_id row, insert_payment row d))
      in
      bindR (require (paymentId \<noteq> 0) (JsError ''Failed to create AP payment'')) (\<lambda>_.
      bindR (from_opt (JsError ''Failed to fetch idempotent AP payment row'')
        (find_payment d1 (iap_companyId input) paymentId)) (\<lambda>matchedRow.
      bindR (require (ap_idempotency_key matchedRow = Some key)
        (ER_DUP_ENTRY ''uk_ap_payments_company_payment_no'')) (\<lambda>_.
      bindR
        (if filter (\<lambda>l. apl_ap_payment_id l = paymentId) (ap_payment_lines d1) = []
         then foldM (insert_payment_line_once paymentId now) d1 (numbered (iap_lines input))
         else Inr d1) (\<lambda>d2.
        Inr ((paymentId, ap_payment_no matchedRow), d2))))))"

definition insert_plain :: "APPaymentCreateInput \<Rightarrow> string \<Rightarrow> int \<Rightarrow> (nat \<times> string) op" where
  "insert_plain input paymentNo now d =
     (let row = new_payment_row input None paymentNo now (next_id d T_ap_payment) in
      case payment_conflict d row of
        Some (uk, _) \<Rightarrow> Inl (ER_DUP_ENTRY uk)
      | None \<Rightarrow>
          bindR (require (ap_id row \<noteq> 0) (JsError ''Failed to create AP payment'')) (\<lambda>_.
          bindR (foldM (insert_payment_line (ap_id row) now) (insert_payment row d) (numbered (iap_lines input)))
            (\<lambda>d2. Inr ((ap_id row, paymentNo), d2))))"

definition create_payment_trx :: "APPaymentCreateInput \<Rightarrow> (nat \<times> int) list \<Rightarrow> int \<Rightarrow> (nat \<times> string) op" where
  "create_payment_trx input allocs now d =
     bindR (check_create_allocations d (iap_companyId input) (iap_supplierId input) allocs) (\<lambda>_.
       let paymentNo = generatePaymentNo d (iap_companyId input) (iap_paymentDate input) in
       case truthy_str (iap_idempotencyKey input) of
         Some key \<Rightarrow> insert_idempotent input key paymentNo now d
       | None \<Rightarrow> insert_plain input paymentNo now d)"

text \<open>
  The attempts: a duplicate may be another request with the same key, whose payment is then
  the answer; a duplicate payment number is tried again, three times in all.
\<close>

primrec create_payment_attempts ::
  "nat \<Rightarrow> APPaymentCreateInput \<Rightarrow> (nat \<times> int) list \<Rightarrow> int \<Rightarrow> (APPaymentGetResult + nat) op" where
  "create_payment_attempts 0 input allocs now d = Inl (JsError ''Failed to create AP payment'')"
| "create_payment_attempts (Suc n) input allocs now d =
     (case create_payment_trx input allocs now d of
        Inr ((paymentId, paymentNo), d') \<Rightarrow> Inr (Inr paymentId, d')
      | Inl e \<Rightarrow>
          (case (if is_duplicate e then existing_payment d (iap_companyId input) (iap_idempotencyKey input)
                 else None) of
             Some existingPayment \<Rightarrow> Inr (Inl existingPayment, d)
           | None \<Rightarrow>
               if n \<noteq> 0 \<and> e = ER_DUP_ENTRY ''uk_ap_payments_company_payment_no''
               then create_payment_attempts n input allocs now d
               else Inl e))"

definition createDraftAPPayment :: "APPaymentCreateInput \<Rightarrow> int \<Rightarrow> APPaymentGetResult op" where
  "createDraftAPPayment input now d =
     (case existing_payment d (iap_companyId input) (iap_idempotencyKey input) of
        Some existingPayment \<Rightarrow> Inr (existingPayment, d)
      | None \<Rightarrow>
          bindR (validateBankAccountOwnership d (iap_companyId input) (iap_bankAccountId input)) (\<lambda>_.
          bindR (from_opt SUPPLIER_NOT_FOUND (find_supplier d (iap_companyId input) (iap_supplierId input))) (\<lambda>supplier.
          bindR (require (sup_is_active supplier = 1) (APPaymentSupplierInactiveError (iap_supplierId input))) (\<lambda>_.
          bindR (allocation_by_invoice (iap_lines input)) (\<lambda>allocs.
          bindR (create_payment_attempts 3 input allocs now d) (\<lambda>(result, d').
            case result of
              Inl existingPayment \<Rightarrow> Inr (existingPayment, d')
            | Inr paymentId \<Rightarrow>
                bindR (from_opt (JsError ''Failed to fetch created AP payment'')
                  (getAPPaymentById d' (iap_companyId input) paymentId)) (\<lambda>payment.
                  Inr (payment, d'))))))))"

section \<open>Posting\<close>

text \<open>The allocations of the stored lines, each with the checks of its invoice.\<close>

definition post_allocations :: "db \<Rightarrow> nat \<Rightarrow> ap_payment_row \<Rightarrow> ap_payment_line_row list \<Rightarrow> (nat \<times> int) list res" where
  "post_allocations d companyId payment ls =
     foldM (\<lambda>m l.
       bindR (payable_invoice d companyId (ap_supplier_id payment) (apl_purchase_invoice_id l)) (\<lambda>_.
       bindR (read_dec4 (apl_allocation_amount l)) (\<lambda>paymentAmount.
         Inr (map_add (apl_purchase_invoice_id l) paymentAmount m)))) [] ls"

definition check_post_allocations :: "db \<Rightarrow> nat \<Rightarrow> (nat \<times> int) list \<Rightarrow> unit res" where
  "check_post_allocations d companyId allocs = foldM (\<lambda>_ a. not_overpaid d companyId a) () allocs"

definition payment_ap_account :: "db \<Rightarrow> nat \<Rightarrow> nat res" where
  "payment_ap_account d companyId =
     bindR (from_opt APPaymentMissingAPAccountError
       (Option.bind (purchasing_settings d companyId)
         (\<lambda>cm. truthy_id (cm_purchasing_default_ap_account_id cm)))) (\<lambda>apAccountId.
     bindR (from_opt APPaymentMissingAPAccountError (find_account d companyId apAccountId)) (\<lambda>apAccount.
     bindR (require (acc_type_name apAccount = Some ''LIABILITY'' \<or> acc_type_name apAccount = Some ''CREDITOR'')
       (APPaymentInvalidAPAccountTypeError apAccountId (acc_type_name apAccount))) (\<lambda>_.
       Inr apAccountId)))"

definition payment_active_supplier :: "db \<Rightarrow> nat \<Rightarrow> nat \<Rightarrow> supplier_row res" where
  "payment_active_supplier d companyId supplierId =
     bindR (from_opt SUPPLIER_NOT_FOUND (find_supplier d companyId supplierId)) (\<lambda>supplier.
     bindR (require (sup_is_active supplier = 1) (APPaymentSupplierInactiveError supplierId)) (\<lambda>_.
       Inr supplier))"

text \<open>Two journal lines per allocation: payables are debited, the bank is credited.\<close>

definition payment_journal_pair :: "nat \<Rightarrow> nat \<Rightarrow> string \<Rightarrow> nat \<times> ap_payment_line_row \<Rightarrow> journal_input list res" where
  "payment_journal_pair apAccountId bankAccountId paymentDesc nl =
     (case nl of (n, line) \<Rightarrow>
       bindR (read_dec4 (apl_allocation_amount line)) (\<lambda>v.
         let amount = fromScaled4 v;
             lineDesc = paymentDesc @ '' (line '' @ nat_str n @ '', PI '' @
               nat_str (apl_purchase_invoice_id line) @ '')''
         in Inr [\<lparr>ji_account_id = apAccountId, ji_debit = amount, ji_credit = ''0.0000'', ji_description = lineDesc\<rparr>,
                 \<lparr>ji_account_id = bankAccountId, ji_debit = ''0.0000'', ji_credit = amount, ji_description = lineDesc\<rparr>]))"

definition payment_journal :: "nat \<Rightarrow> ap_payment_row \<Rightarrow> supplier_row \<Rightarrow> ap_payment_line_row list \<Rightarrow> journal_input list res" where
  "payment_journal apAccountId payment supplier ls =
     (let paymentDesc = ''AP Payment '' @ ap_payment_no payment @ '' to '' @ sup_name supplier in
      bindR (mapM (payment_journal_pair apAccountId (ap_bank_account_id payment) paymentDesc) (numbered ls))
        (\<lambda>pairs. Inr (concat pairs)))"

definition mark_payment_posted :: "nat \<Rightarrow> nat \<Rightarrow> nat \<Rightarrow> int \<Rightarrow> db \<Rightarrow> db" where
  "mark_payment_posted paymentId batchId userId now d =
     d\<lparr>ap_payments := update_where (\<lambda>p. ap_id p = paymentId)
         (\<lambda>p. p\<lparr>ap_status := AP_POSTED, ap_journal_batch_id := Some batchId,
               ap_posted_at := Some now, ap_posted_by_user_id := Some userId, ap_updated_at := now\<rparr>)
         (ap_payments d)\<rparr>"

text \<open>Everything a posting does to a draft: the checks, the journal, the status.\<close>

definition payment_posting_journal :: "db \<Rightarrow> nat \<Rightarrow> ap_payment_row \<Rightarrow> journal_input list res" where
  "payment_posting_journal d companyId payment =
     (let ls = payment_lines d (ap_id payment) in
      bindR (post_allocations d companyId payment ls) (\<lambda>allocs.
      bindR (check_post_allocations d companyId allocs) (\<lambda>_.
      bindR (payment_ap_account d companyId) (\<lambda>apAccountId.
      bindR (payment_active_supplier d companyId (ap_supplier_id payment)) (\<lambda>supplier.
        payment_journal apAccountId payment supplier ls)))))"

definition commit_payment_posting ::
  "nat \<Rightarrow> nat \<Rightarrow> ap_payment_row \<Rightarrow> GuardrailDecision option \<Rightarrow> string option \<Rightarrow> int \<Rightarrow>
     journal_input list \<Rightarrow> (nat \<times> nat) op" where
  "commit_payment_posting companyId userId payment guardrailDecision validOverrideReason now ls d =
     bindR (journal_totals ls) (\<lambda>(totalDebits, totalCredits).
     bindR (require (totalDebits = totalCredits)
       (APPaymentJournalNotBalancedError (fromScaled4 totalDebits) (fromScaled4 totalCredits))) (\<lambda>_.
     bindR (post_inputs companyId ''AP_PAYMENT'' (ap_id payment) (ap_payment_date payment) now ls d)
       (\<lambda>(batchId, d1).
         Inr ((ap_id payment, batchId),
           record_override guardrailDecision validOverrideReason companyId userId ''AP_PAYMENT''
             (ap_id payment) now (mark_payment_posted (ap_id payment) batchId userId now d1)))))"

definition postAPPayment ::
  "nat \<Rightarrow> nat \<Rightarrow> nat \<Rightarrow> GuardrailDecision option \<Rightarrow> string option \<Rightarrow> int \<Rightarrow> (nat \<times> nat) op" where
  "postAPPayment companyId userId paymentId guardrailDecision validOverrideReason now d =
     bindR (from_opt (APPaymentNotFoundError paymentId) (find_payment d companyId paymentId)) (\<lambda>payment.
       if ap_status payment = AP_POSTED then
         bindR (from_opt (APPaymentError ''MISSING_JOURNAL_BATCH'') (truthy_id (ap_journal_batch_id payment)))
           (\<lambda>batchId. Inr ((paymentId, batchId), d))
       else
         bindR (require (ap_status payment = AP_DRAFT)
           (APPaymentInvalidStatusTransitionError (ap_status payment) AP_POSTED)) (\<lambda>_.
         bindR (require (usable_bank (find_account d companyId (ap_bank_account_id payment)))
           (APPaymentBankAccountNotFoundError (ap_bank_account_id payment))) (\<lambda>_.
         bindR (payment_posting_journal d companyId payment) (\<lambda>ls.
           commit_payment_posting companyId userId payment guardrailDecision validOverrideReason now ls d))))"

section \<open>Voiding\<close>

definition mark_payment_void :: "nat \<Rightarrow> nat \<Rightarrow> int \<Rightarrow> db \<Rightarrow> db" where
  "mark_payment_void paymentId userId now d =
     d\<lparr>ap_payments := update_where (\<lambda>p. ap_id p = paymentId \<and> ap_status p = AP_POSTED)
         (\<lambda>p. p\<lparr>ap_status := AP_VOID, ap_voided_at := Some now,
               ap_voided_by_user_id := Some userId, ap_updated_at := now\<rparr>)
         (ap_payments d)\<rparr>"

definition voidAPPayment ::
  "nat \<Rightarrow> nat \<Rightarrow> nat \<Rightarrow> GuardrailDecision option \<Rightarrow> string option \<Rightarrow> int \<Rightarrow> (nat \<times> nat) op" where
  "voidAPPayment companyId userId paymentId guardrailDecision validOverrideReason now d =
     bindR (from_opt (APPaymentNotFoundError paymentId) (find_payment d companyId paymentId)) (\<lambda>payment.
     bindR (require (ap_status payment = AP_POSTED)
       (APPaymentInvalidStatusTransitionError (ap_status payment) AP_VOID)) (\<lambda>_.
     bindR (from_opt (APPaymentError ''MISSING_JOURNAL_BATCH'') (truthy_id (ap_journal_batch_id payment))) (\<lambda>batchId.
     bindR (require (usable_bank (find_account d companyId (ap_bank_account_id payment)))
       (APPaymentBankAccountNotFoundError (ap_bank_account_id payment))) (\<lambda>_.
     bindR (payment_active_supplier d companyId (ap_supplier_id payment)) (\<lambda>_.
     bindR (post_journal companyId ''AP_PAYMENT_VOID'' paymentId (ap_payment_date payment) now
       (map (reverse_entry (\<lambda>s. ''VOID: '' @ s)) (batch_entries d companyId batchId)) d) (\<lambda>(reversalBatchId, d1).
       Inr ((paymentId, reversalBatchId),
         record_override guardrailDecision validOverrideReason companyId userId ''AP_PAYMENT_VOID''
           paymentId now (mark_payment_void paymentId userId now d1))))))))"

section \<open>What a successful posting has checked\<close>

lemma payable_invoice_Inr:
  "payable_invoice d c s i = Inr pi \<longleftrightarrow>
     find_invoice d c i = Some pi \<and> pi_status pi = PI_POSTED \<and> pi_supplier_id pi = s"
  by (auto simp: payable_invoice_def inr_simps)

lemma not_overpaid_Inr:
  "not_overpaid d c (i, a) = Inr u \<longleftrightarrow>
     (\<exists>v. computePurchaseInvoiceOpenAmount d c i = Inr v \<and> a \<le> v)"
  by (simp add: not_overpaid_def inr_simps)

lemma foldM_accumulate:
  assumes "foldM (\<lambda>m l. bindR (P l) (\<lambda>_. bindR (read_dec4 (amt l)) (\<lambda>v. Inr (map_add (key l) v m)))) m ls = Inr m'"
  shows "m' = accumulate key amt m ls" and "\<forall>l \<in> set ls. 0 \<le> amt l \<and> (\<exists>x. P l = Inr x)"
  using assms by (induction ls arbitrary: m) (auto simp: inr_simps)

lemma post_allocations_Inr:
  assumes "post_allocations d c p ls = Inr allocs"
  shows "allocs = accumulate apl_purchase_invoice_id apl_allocation_amount [] ls"
    and "l \<in> set ls \<Longrightarrow> 0 \<le> apl_allocation_amount l"
    and "l \<in> set ls \<Longrightarrow> \<exists>pi. find_invoice d c (apl_purchase_invoice_id l) = Some pi \<and>
           pi_status pi = PI_POSTED \<and> pi_supplier_id pi = ap_supplier_id p"
  using foldM_accumulate [OF assms [unfolded post_allocations_def]]
  by (auto simp: payable_invoice_Inr)

lemma check_post_allocations_Inr:
  "check_post_allocations d c allocs = Inr u \<longleftrightarrow>
     (\<forall>(i, a) \<in> set allocs. \<exists>v. computePurchaseInvoiceOpenAmount d c i = Inr v \<and> a \<le> v)"
  by (auto simp: check_post_allocations_def foldM_unit not_overpaid_Inr)

text \<open>Per invoice, what the payment allocates is at most what is open.\<close>

lemma payment_posting_journal_open:
  assumes "payment_posting_journal d c p = Inr js"
    and "find_invoice d c i = Some pi"
    and "i \<in> apl_purchase_invoice_id ` set (payment_lines d (ap_id p))"
  shows "sum_for apl_purchase_invoice_id apl_allocation_amount i (payment_lines d (ap_id p))
    \<le> open_amount d pi"
proof -
  let ?ls = "payment_lines d (ap_id p)"
  let ?m = "accumulate apl_purchase_invoice_id apl_allocation_amount [] ?ls"
  obtain allocs where "post_allocations d c p ?ls = Inr allocs"
    and chk: "check_post_allocations d c allocs = Inr ()"
    using assms(1) by (auto simp: payment_posting_journal_def Let_def inr_simps)
  then have allocs: "allocs = ?m" by (simp add: post_allocations_Inr)
  obtain a where a: "(i, a) \<in> set ?m"
    using assms(3) accumulate_keys [of apl_purchase_invoice_id apl_allocation_amount "[]" ?ls] by force
  with chk allocs obtain v where "computePurchaseInvoiceOpenAmount d c i = Inr v" "a \<le> v"
    by (auto simp: check_post_allocations_Inr)
  with accumulate_entry [OF a] computeOpen_value [OF _ assms(2)] show ?thesis by simp
qed

lemma postAPPayment_draft:
  assumes "postAPPayment c u pid g r now d = Inr (res, d')"
    and "find_payment d c pid = Some p" and "ap_status p = AP_DRAFT"
  obtains js es where "payment_posting_journal d c p = Inr js" and "mapM to_entry js = Inr es"
    and "list_all entry_ok es" and "res = (pid, next_id d T_journal_batch)"
    and "d' = record_override g r c u ''AP_PAYMENT'' pid now
      (mark_payment_posted pid (next_id d T_journal_batch) u now
        (posted_db c ''AP_PAYMENT'' pid (ap_payment_date p) now es d))"
proof -
  have "ap_id p = pid" using assms(2) find_SomeD unfolding find_payment_def by fastforce
  with assms that show thesis
    by (auto simp: postAPPayment_def commit_payment_posting_def post_inputs_def inr_simps)
qed

lemma mark_payment_posted_simps [simp]:
  "ap_payments (mark_payment_posted pid b u now d) = update_where (\<lambda>p. ap_id p = pid)
     (\<lambda>p. p\<lparr>ap_status := AP_POSTED, ap_journal_batch_id := Some b, ap_posted_at := Some now,
        ap_posted_by_user_id := Some u, ap_updated_at := now\<rparr>) (ap_payments d)"
  "ap_payment_lines (mark_payment_posted pid b u now d) = ap_payment_lines d"
  "purchase_invoices (mark_payment_posted pid b u now d) = purchase_invoices d"
  "purchase_credits (mark_payment_posted pid b u now d) = purchase_credits d"
  "purchase_credit_applications (mark_payment_posted pid b u now d) = purchase_credit_applications d"
  "accounts (mark_payment_posted pid b u now d) = accounts d"
  "companies (mark_payment_posted pid b u now d) = companies d"
  "suppliers (mark_payment_posted pid b u now d) = suppliers d"
  "exchange_rates (mark_payment_posted pid b u now d) = exchange_rates d"
  "purchase_orders (mark_payment_posted pid b u now d) = purchase_orders d"
  "purchase_order_lines (mark_payment_posted pid b u now d) = purchase_order_lines d"
  "purchase_invoice_lines (mark_payment_posted pid b u now d) = purchase_invoice_lines d"
  "purchase_credit_lines (mark_payment_posted pid b u now d) = purchase_credit_lines d"
  "journal_batches (mark_payment_posted pid b u now d) = journal_batches d"
  "journal_lines (mark_payment_posted pid b u now d) = journal_lines d"
  "auto_inc (mark_payment_posted pid b u now d) = auto_inc d"
  by (simp_all add: mark_payment_posted_def)

section \<open>Effect on the open amounts\<close>

definition payment_keys :: "db \<Rightarrow> bool" where
  "payment_keys d \<longleftrightarrow> distinct (map ap_id (ap_payments d))"

lemma find_payment_Some:
  "find_payment d c i = Some p \<Longrightarrow> p \<in> set (ap_payments d) \<and> ap_id p = i \<and> ap_company_id p = c"
  unfolding find_payment_def by (drule find_SomeD) simp

lemma paid_after_status_change:
  assumes keys: "payment_keys d" and p: "p \<in> set (ap_payments d)"
    and upd: "ap_payments d' = update_where (\<lambda>q. ap_id q = ap_id p \<and> Q q) f (ap_payments d)"
    and lines: "ap_payment_lines d' = ap_payment_lines d"
    and f: "\<And>q. ap_id (f q) = ap_id q" "\<And>q. ap_company_id (f q) = ap_company_id q" and "Q p"
  shows "payment_counts d' c l \<longleftrightarrow>
    (if apl_ap_payment_id l = ap_id p then ap_company_id p = c \<and> ap_status (f p) = AP_POSTED
     else payment_counts d c l)"
proof -
  have only: "q = p" if "q \<in> set (ap_payments d)" "ap_id q = ap_id p" for q
    using that p keys distinct_map_eq unfolding payment_keys_def by metis
  have counts: "payment_counts d' c l \<longleftrightarrow> (\<exists>q \<in> set (ap_payments d).
      if ap_id q = ap_id p \<and> Q q
      then ap_id q = apl_ap_payment_id l \<and> ap_company_id q = c \<and> ap_status (f q) = AP_POSTED
      else ap_id q = apl_ap_payment_id l \<and> ap_company_id q = c \<and> ap_status q = AP_POSTED)"
    by (simp add: payment_counts_def upd bex_update_where f)
  show ?thesis
  proof (cases "apl_ap_payment_id l = ap_id p")
    case True
    then show ?thesis unfolding counts using only p \<open>Q p\<close> by (auto split: if_splits)
  next
    case False
    then show ?thesis unfolding counts
      by (simp add: payment_counts_def) (rule bex_cong, auto)
  qed
qed

lemma payment_counts_draft:
  assumes "payment_keys d" and "p \<in> set (ap_payments d)" and "ap_status p \<noteq> AP_POSTED"
    and "apl_ap_payment_id l = ap_id p"
  shows "\<not> payment_counts d c l"
  using assms distinct_map_eq unfolding payment_counts_def payment_keys_def by metis

lemma payment_counts_posted:
  assumes "payment_keys d" and "p \<in> set (ap_payments d)" and "ap_status p = AP_POSTED"
    and "apl_ap_payment_id l = ap_id p"
  shows "payment_counts d c l \<longleftrightarrow> c = ap_company_id p"
  using assms distinct_map_eq unfolding payment_counts_def payment_keys_def by metis

lemma paid_total_posted:
  assumes "payment_keys d" and "p \<in> set (ap_payments d)" and "ap_status p \<noteq> AP_POSTED"
    and "ap_payments d' = update_where (\<lambda>q. ap_id q = ap_id p \<and> Q q) f (ap_payments d)"
    and "ap_payment_lines d' = ap_payment_lines d"
    and "\<And>q. ap_id (f q) = ap_id q" and "\<And>q. ap_company_id (f q) = ap_company_id q" and "Q p"
    and "ap_status (f p) = AP_POSTED"
  shows "paid_total d' c i = paid_total d c i +
    (if c = ap_company_id p then sum_for apl_purchase_invoice_id apl_allocation_amount i (payment_lines d (ap_id p))
     else 0)"
proof -
  note counts = paid_after_status_change [OF assms(1,2,4-8)]
  show ?thesis
  proof (cases "c = ap_company_id p")
    case True
    then show ?thesis
      unfolding paid_total_def payment_lines_def assms(5) sum_for_sort_key
      using payment_counts_draft [OF assms(1-3)] assms(9)
      by (subst sum_for_split [of _ "payment_counts d' c" "payment_counts d c"
            "\<lambda>l. apl_ap_payment_id l = ap_id p"]) (auto simp: counts)
  next
    case False
    then have "payment_counts d' c l = payment_counts d c l" for l
      using counts payment_counts_draft [OF assms(1-3)] by auto
    then show ?thesis using False by (simp add: paid_total_def assms(5) cong: filter_cong)
  qed
qed

lemma paid_total_unposted:
  assumes "payment_keys d" and "p \<in> set (ap_payments d)" and "ap_status p = AP_POSTED"
    and "ap_payments d' = update_where (\<lambda>q. ap_id q = ap_id p \<and> Q q) f (ap_payments d)"
    and "ap_payment_lines d' = ap_payment_lines d"
    and "\<And>q. ap_id (f q) = ap_id q" and "\<And>q. ap_company_id (f q) = ap_company_id q" and "Q p"
    and "ap_status (f p) \<noteq> AP_POSTED"
  shows "paid_total d c i = paid_total d' c i +
    (if c = ap_company_id p then sum_for apl_purchase_invoice_id apl_allocation_amount i (payment_lines d (ap_id p))
     else 0)"
proof -
  note counts = paid_after_status_change [OF assms(1,2,4-8)]
  show ?thesis
  proof (cases "c = ap_company_id p")
    case True
    then show ?thesis
      unfolding paid_total_def payment_lines_def assms(5) sum_for_sort_key
      using payment_counts_posted [OF assms(1-3)] assms(9)
      by (subst sum_for_split [of _ "payment_counts d c" "payment_counts d' c"
            "\<lambda>l. apl_ap_payment_id l = ap_id p"]) (auto simp: counts)
  next
    case False
    then have "payment_counts d' c l = payment_counts d c l" for l
      using counts payment_counts_posted [OF assms(1-3)] by auto
    then show ?thesis using False by (simp add: paid_total_def assms(5) cong: filter_cong)
  qed
qed

lemma postAPPayment_open_amount:
  assumes keys: "payment_keys d"
    and post: "postAPPayment c u pid g r now d = Inr (res, d')"
    and p: "find_payment d c pid = Some p" and draft: "ap_status p = AP_DRAFT"
  shows "open_amount d' pi = open_amount d pi -
    (if pi_company_id pi = c
     then sum_for apl_purchase_invoice_id apl_allocation_amount (pi_id pi) (payment_lines d pid) else 0)"
proof -
  from postAPPayment_draft [OF post p draft] obtain es where
    d': "d' = record_override g r c u ''AP_PAYMENT'' pid now
      (mark_payment_posted pid (next_id d T_journal_batch) u now
        (posted_db c ''AP_PAYMENT'' pid (ap_payment_date p) now es d))" by metis
  note pp = find_payment_Some [OF p]
  have "paid_total d' (pi_company_id pi) (pi_id pi) = paid_total d (pi_company_id pi) (pi_id pi) +
    (if pi_company_id pi = ap_company_id p
     then sum_for apl_purchase_invoice_id apl_allocation_amount (pi_id pi) (payment_lines d (ap_id p)) else 0)"
    by (rule paid_total_posted [OF keys, where Q = "\<lambda>_. True" and f = "\<lambda>p. p\<lparr>ap_status := AP_POSTED,
        ap_journal_batch_id := Some (next_id d T_journal_batch), ap_posted_at := Some now,
        ap_posted_by_user_id := Some u, ap_updated_at := now\<rparr>"])
      (use pp draft in \<open>simp_all add: d'\<close>)
  moreover have "credited_total d' (pi_company_id pi) (pi_id pi) = credited_total d (pi_company_id pi) (pi_id pi)"
    by (simp add: credited_total_def credit_counts_def [abs_def] d')
  ultimately show ?thesis using pp by (simp add: open_amount_def)
qed

lemma postAPPayment_never_overpays:
  assumes keys: "payment_keys d"
    and post: "postAPPayment c u pid g r now d = Inr (res, d')"
    and p: "find_payment d c pid = Some p" and draft: "ap_status p = AP_DRAFT"
    and pi: "find_invoice d c i = Some pi"
    and i: "i \<in> apl_purchase_invoice_id ` set (payment_lines d pid)"
  shows "0 \<le> open_amount d' pi"
proof -
  from postAPPayment_draft [OF post p draft] obtain js where
    "payment_posting_journal d c p = Inr js" by metis
  from payment_posting_journal_open [OF this pi] i find_payment_Some [OF p]
  have "sum_for apl_purchase_invoice_id apl_allocation_amount i (payment_lines d pid) \<le> open_amount d pi"
    by simp
  with postAPPayment_open_amount [OF keys post p draft, of pi] find_invoice_Some [OF pi]
  show ?thesis by simp
qed

section \<open>The journal of a posting\<close>

text \<open>The two entries an allocation becomes: the amount at two decimals, once on each side.\<close>

definition allocation_entries :: "nat \<Rightarrow> nat \<Rightarrow> string \<Rightarrow> nat \<times> ap_payment_line_row \<Rightarrow> ledger_entry list" where
  "allocation_entries apAcc bank desc nl =
     (let cents = sql_round_div (apl_allocation_amount (snd nl)) 100;
          descr = desc @ '' (line '' @ nat_str (fst nl) @ '', PI '' @
            nat_str (apl_purchase_invoice_id (snd nl)) @ '')''
      in [\<lparr>le_account = apAcc, le_debit = cents, le_credit = 0, le_description = descr\<rparr>,
          \<lparr>le_account = bank, le_debit = 0, le_credit = cents, le_description = descr\<rparr>])"

lemma payment_pair_entries:
  assumes "payment_journal_pair apAcc bank desc nl = Inr js" and "mapM to_entry js = Inr es"
  shows "es = allocation_entries apAcc bank desc nl"
  using assms
  by (auto simp: payment_journal_pair_def allocation_entries_def Let_def to_entry_def
      column_dec2_fromScaled4 inr_simps split: prod.splits)

lemma payment_pairs_entries:
  assumes "mapM (payment_journal_pair apAcc bank desc) nls = Inr jss" and "mapM to_entry (concat jss) = Inr es"
  shows "es = concat (map (allocation_entries apAcc bank desc) nls)"
  using assms
proof (induction nls arbitrary: jss es)
  case (Cons nl nls)
  from Cons.prems obtain js jss' where js: "payment_journal_pair apAcc bank desc nl = Inr js"
    "mapM (payment_journal_pair apAcc bank desc) nls = Inr jss'" "jss = js # jss'"
    by (auto simp: inr_simps)
  with Cons.prems(2) obtain e1 e2 where e: "mapM to_entry js = Inr e1"
    "mapM to_entry (concat jss') = Inr e2" "es = e1 @ e2"
    by (auto simp: mapM_append inr_simps)
  show ?case using Cons.IH [OF js(2) e(2)] payment_pair_entries [OF js(1) e(1)] e(3) by simp
qed simp

lemma allocation_entries_totals:
  "debits (concat (map (allocation_entries apAcc bank desc) nls)) =
     sum_list (map (\<lambda>nl. sql_round_div (apl_allocation_amount (snd nl)) 100) nls)"
  "credits (concat (map (allocation_entries apAcc bank desc) nls)) =
     sum_list (map (\<lambda>nl. sql_round_div (apl_allocation_amount (snd nl)) 100) nls)"
  by (induction nls) (simp_all add: allocation_entries_def Let_def)

lemma posting_entries:
  assumes "payment_posting_journal d c p = Inr js" and "mapM to_entry js = Inr es"
  obtains apAcc s where "payment_ap_account d c = Inr apAcc"
    and "find_supplier d c (ap_supplier_id p) = Some s"
    and "es = concat (map (allocation_entries apAcc (ap_bank_account_id p)
      (''AP Payment '' @ ap_payment_no p @ '' to '' @ sup_name s)) (numbered (payment_lines d (ap_id p))))"
proof -
  from assms(1) obtain apAcc s where acc: "payment_ap_account d c = Inr apAcc"
    and sup: "find_supplier d c (ap_supplier_id p) = Some s"
    and "payment_journal apAcc p s (payment_lines d (ap_id p)) = Inr js"
    by (auto simp: payment_posting_journal_def payment_active_supplier_def Let_def inr_simps)
  then obtain jss where "js = concat jss" and
    "mapM (payment_journal_pair apAcc (ap_bank_account_id p)
       (''AP Payment '' @ ap_payment_no p @ '' to '' @ sup_name s))
       (numbered (payment_lines d (ap_id p))) = Inr jss"
    by (auto simp: payment_journal_def Let_def inr_simps)
  with assms(2) payment_pairs_entries that acc sup show thesis by blast
qed

lemma postAPPayment_journal:
  assumes "wf_ledger d" and "postAPPayment c u pid g r now d = Inr ((i, b), d')"
    and p: "find_payment d c pid = Some p" and "ap_status p = AP_DRAFT"
  shows "debits (batch_entries d' c b) = credits (batch_entries d' c b)"
    and "debits (batch_entries d' c b) =
      sum_list (map (\<lambda>l. sql_round_div (apl_allocation_amount l) 100) (payment_lines d pid))"
proof -
  from postAPPayment_draft [OF assms(2-4)] obtain js es where
    js: "payment_posting_journal d c p = Inr js" "mapM to_entry js = Inr es"
    and b: "b = next_id d T_journal_batch"
    and d': "d' = record_override g r c u ''AP_PAYMENT'' pid now
      (mark_payment_posted pid (next_id d T_journal_batch) u now
        (posted_db c ''AP_PAYMENT'' pid (ap_payment_date p) now es d))" by (metis prod.inject)
  have "batch_entries d' c b = es"
    using batch_entries_posted [OF assms(1), of c "''AP_PAYMENT''" pid "ap_payment_date p" now es c b]
    by (simp add: b d' batch_entries_def)
  moreover from posting_entries [OF js] obtain apAcc desc where
    "es = concat (map (allocation_entries apAcc (ap_bank_account_id p) desc) (numbered (payment_lines d pid)))"
    using find_payment_Some [OF p] by metis
  ultimately show "debits (batch_entries d' c b) = credits (batch_entries d' c b)"
    and "debits (batch_entries d' c b) =
      sum_list (map (\<lambda>l. sql_round_div (apl_allocation_amount l) 100) (payment_lines d pid))"
    by (simp_all only: allocation_entries_totals
        map_numbered [of "\<lambda>l. sql_round_div (apl_allocation_amount l) 100"])
qed

section \<open>Voiding\<close>

lemma voidAPPayment_Inr:
  assumes "voidAPPayment c u pid g r now d = Inr (res, d')"
  obtains p b where "find_payment d c pid = Some p" and "ap_status p = AP_POSTED"
    and "ap_journal_batch_id p = Some b"
    and "post_journal c ''AP_PAYMENT_VOID'' pid (ap_payment_date p) now
      (map (reverse_entry (\<lambda>s. ''VOID: '' @ s)) (batch_entries d c b)) d =
      Inr (snd res, posted_db c ''AP_PAYMENT_VOID'' pid (ap_payment_date p) now
        (map (reverse_entry (\<lambda>s. ''VOID: '' @ s)) (batch_entries d c b)) d)"
    and "d' = record_override g r c u ''AP_PAYMENT_VOID'' pid now (mark_payment_void pid u now
      (posted_db c ''AP_PAYMENT_VOID'' pid (ap_payment_date p) now
        (map (reverse_entry (\<lambda>s. ''VOID: '' @ s)) (batch_entries d c b)) d))"
  using assms by (auto simp: voidAPPayment_def inr_simps intro: that)

lemma mark_payment_void_simps [simp]:
  "ap_payments (mark_payment_void pid u now d) =
     update_where (\<lambda>p. ap_id p = pid \<and> ap_status p = AP_POSTED)
       (\<lambda>p. p\<lparr>ap_status := AP_VOID, ap_voided_at := Some now, ap_voided_by_user_id := Some u,
          ap_updated_at := now\<rparr>) (ap_payments d)"
  "ap_payment_lines (mark_payment_void pid u now d) = ap_payment_lines d"
  "purchase_invoices (mark_payment_void pid u now d) = purchase_invoices d"
  "purchase_credits (mark_payment_void pid u now d) = purchase_credits d"
  "purchase_credit_applications (mark_payment_void pid u now d) = purchase_credit_applications d"
  "accounts (mark_payment_void pid u now d) = accounts d"
  "companies (mark_payment_void pid u now d) = companies d"
  "suppliers (mark_payment_void pid u now d) = suppliers d"
  "exchange_rates (mark_payment_void pid u now d) = exchange_rates d"
  "purchase_orders (mark_payment_void pid u now d) = purchase_orders d"
  "purchase_order_lines (mark_payment_void pid u now d) = purchase_order_lines d"
  "purchase_invoice_lines (mark_payment_void pid u now d) = purchase_invoice_lines d"
  "purchase_credit_lines (mark_payment_void pid u now d) = purchase_credit_lines d"
  "journal_batches (mark_payment_void pid u now d) = journal_batches d"
  "journal_lines (mark_payment_void pid u now d) = journal_lines d"
  "auto_inc (mark_payment_void pid u now d) = auto_inc d"
  by (simp_all add: mark_payment_void_def)

lemma voidAPPayment_reverses:
  assumes wf: "wf_ledger d" and void: "voidAPPayment c u pid g r now d = Inr ((i, b'), d')"
    and "find_payment d c pid = Some p" and "ap_journal_batch_id p = Some b"
    and "batch_entries d c b \<noteq> []"
  shows "account_net a (batch_entries d' c b) + account_net a (batch_entries d' c b') = 0"
proof -
  let ?es = "map (reverse_entry (\<lambda>s. ''VOID: '' @ s)) (batch_entries d c b)"
  let ?s = "posted_db c ''AP_PAYMENT_VOID'' pid (ap_payment_date p) now ?es d"
  have post: "post_journal c ''AP_PAYMENT_VOID'' pid (ap_payment_date p) now ?es d = Inr (b', ?s)"
    and "journal_lines d' = journal_lines ?s"
    by (rule voidAPPayment_Inr [OF void], use assms(3,4) in simp)+
  then have "batch_entries d' c = batch_entries ?s c" by (simp add: batch_entries_def fun_eq_iff)
  with gl.post_reversal(2) [OF wf assms(5) post] show ?thesis by simp
qed

lemma voidAPPayment_open_amount:
  assumes keys: "payment_keys d" and void: "voidAPPayment c u pid g r now d = Inr (res, d')"
  shows "open_amount d' pi = open_amount d pi +
    (if pi_company_id pi = c
     then sum_for apl_purchase_invoice_id apl_allocation_amount (pi_id pi) (payment_lines d pid) else 0)"
proof -
  from voidAPPayment_Inr [OF void] obtain p b where p: "find_payment d c pid = Some p"
    and posted: "ap_status p = AP_POSTED"
    and d': "d' = record_override g r c u ''AP_PAYMENT_VOID'' pid now (mark_payment_void pid u now
      (posted_db c ''AP_PAYMENT_VOID'' pid (ap_payment_date p) now
        (map (reverse_entry (\<lambda>s. ''VOID: '' @ s)) (batch_entries d c b)) d))" by metis
  note pp = find_payment_Some [OF p]
  have "paid_total d (pi_company_id pi) (pi_id pi) = paid_total d' (pi_company_id pi) (pi_id pi) +
    (if pi_company_id pi = ap_company_id p
     then sum_for apl_purchase_invoice_id apl_allocation_amount (pi_id pi) (payment_lines d (ap_id p)) else 0)"
    by (rule paid_total_unposted [OF keys, where Q = "\<lambda>p. ap_status p = AP_POSTED"
        and f = "\<lambda>p. p\<lparr>ap_status := AP_VOID, ap_voided_at := Some now, ap_voided_by_user_id := Some u,
          ap_updated_at := now\<rparr>"]) (use pp posted in \<open>simp_all add: d'\<close>)
  moreover have "credited_total d' (pi_company_id pi) (pi_id pi) = credited_total d (pi_company_id pi) (pi_id pi)"
    by (simp add: credited_total_def credit_counts_def [abs_def] d')
  ultimately show ?thesis using pp by (simp add: open_amount_def)
qed

lemma postAPPayment_state:
  assumes "wf_ledger d" and "payment_keys d"
    and post: "postAPPayment c u pid g r now d = Inr ((i, b), d')"
    and p: "find_payment d c pid = Some p" and "ap_status p = AP_DRAFT"
  shows "payment_keys d'" and "wf_ledger d'" and "payment_lines d' pid = payment_lines d pid"
    and "find_payment d' c pid = Some (p\<lparr>ap_status := AP_POSTED, ap_journal_batch_id := Some b,
      ap_posted_at := Some now, ap_posted_by_user_id := Some u, ap_updated_at := now\<rparr>)"
    and "payment_lines d pid \<noteq> [] \<Longrightarrow> batch_entries d' c b \<noteq> []"
proof -
  from postAPPayment_draft [OF assms(3-5)] obtain js es where
    js: "payment_posting_journal d c p = Inr js" "mapM to_entry js = Inr es"
    and b: "b = next_id d T_journal_batch"
    and d': "d' = record_override g r c u ''AP_PAYMENT'' pid now
      (mark_payment_posted pid b u now
        (posted_db c ''AP_PAYMENT'' pid (ap_payment_date p) now es d))" by (metis prod.inject)
  note pp = find_payment_Some [OF p]
  show "payment_keys d'" using assms(2) by (simp add: payment_keys_def d' update_where_map_id)
  show "wf_ledger d'"
    using wf_ledger_posted [OF assms(1), of c "''AP_PAYMENT''" pid "ap_payment_date p" now es]
    by (simp add: wf_ledger_def d')
  show "payment_lines d' pid = payment_lines d pid" by (simp add: payment_lines_def d')
  show "find_payment d' c pid = Some (p\<lparr>ap_status := AP_POSTED, ap_journal_batch_id := Some b,
      ap_posted_at := Some now, ap_posted_by_user_id := Some u, ap_updated_at := now\<rparr>)"
    using p pp by (simp add: find_payment_def d' find_update_where)
  have "batch_entries d' c b = es"
    using batch_entries_posted [OF assms(1), of c "''AP_PAYMENT''" pid "ap_payment_date p" now es c b]
    by (simp add: b d' batch_entries_def)
  moreover obtain apAcc desc where
    "es = concat (map (allocation_entries apAcc (ap_bank_account_id p) desc) (numbered (payment_lines d pid)))"
    using posting_entries [OF js] pp by metis
  moreover have "numbered (payment_lines d pid) \<noteq> []" if "payment_lines d pid \<noteq> []"
    using that map_numbered [of id "payment_lines d pid"] by auto
  ultimately show "payment_lines d pid \<noteq> [] \<Longrightarrow> batch_entries d' c b \<noteq> []"
    by (cases "numbered (payment_lines d pid)") (auto simp: allocation_entries_def Let_def)
qed

text \<open>A posting that succeeded can be undone at once: the void repeats checks that still hold.\<close>

text \<open>
  The void writes \<open>VOID: \<close> before the description of every line, which the column may refuse: the
  longest of them must leave room, 221 characters for the payment number, the supplier's name,
  the line number and the invoice id beside the fixed words.
\<close>

definition payment_void_fits :: "db \<Rightarrow> nat \<Rightarrow> ap_payment_row \<Rightarrow> bool" where
  "payment_void_fits d c p \<longleftrightarrow>
     (case find_supplier d c (ap_supplier_id p) of None \<Rightarrow> False
      | Some s \<Rightarrow> \<forall>nl \<in> set (numbered (payment_lines d (ap_id p))).
          length (ap_payment_no p) + length (sup_name s) + length (nat_str (fst nl)) +
          length (nat_str (apl_purchase_invoice_id (snd nl))) \<le> 221)"

lemma allocation_reversal_fits:
  "reversal_fits (\<lambda>s. ''VOID: '' @ s) (concat (map (allocation_entries apAcc bank
       (''AP Payment '' @ no @ '' to '' @ nm)) nls)) \<longleftrightarrow>
     (\<forall>nl \<in> set nls. length no + length nm + length (nat_str (fst nl)) +
        length (nat_str (apl_purchase_invoice_id (snd nl))) \<le> 221)"
  by (induction nls) (auto simp: reversal_fits_def allocation_entries_def Let_def description_fits_def)

lemma postAPPayment_voidable:
  assumes "wf_ledger d" and "payment_keys d"
    and post: "postAPPayment c u pid g r now d = Inr ((i, b), d')"
    and p: "find_payment d c pid = Some p" and draft: "ap_status p = AP_DRAFT"
    and free: "batch_free d c ''AP_PAYMENT_VOID'' pid"
  shows "if payment_void_fits d c p
    then \<exists>b' d''. voidAPPayment c u' pid g' r' now' d' = Inr ((pid, b'), d'')
    else voidAPPayment c u' pid g' r' now' d' = Inl (ER_DATA_TOO_LONG ''description'')"
proof -
  note st = postAPPayment_state [OF assms(1-5)]
  from postAPPayment_draft [OF post p draft] obtain js es where
    js: "payment_posting_journal d c p = Inr js" "mapM to_entry js = Inr es"
    and es: "list_all entry_ok es" and b: "b = next_id d T_journal_batch"
    and d': "d' = record_override g r c u ''AP_PAYMENT'' pid now
      (mark_payment_posted pid b u now
        (posted_db c ''AP_PAYMENT'' pid (ap_payment_date p) now es d))" by (metis prod.inject)
  have bank: "usable_bank (find_account d' c (ap_bank_account_id p))"
    using post p draft by (auto simp: postAPPayment_def inr_simps d' find_account_def)
  obtain s where s: "payment_active_supplier d' c (ap_supplier_id p) = Inr s"
    using js(1) by (auto simp: payment_posting_journal_def Let_def inr_simps payment_active_supplier_def
        d' find_supplier_def)
  have entries: "batch_entries d' c b = es"
    using batch_entries_posted [OF assms(1), of c "''AP_PAYMENT''" pid "ap_payment_date p" now es c b]
    by (simp add: b d' batch_entries_def)
  obtain apAcc s' where "find_supplier d c (ap_supplier_id p) = Some s'"
    and "es = concat (map (allocation_entries apAcc (ap_bank_account_id p)
      (''AP Payment '' @ ap_payment_no p @ '' to '' @ sup_name s')) (numbered (payment_lines d (ap_id p))))"
    by (rule posting_entries [OF js])
  then have fits: "reversal_fits (\<lambda>s. ''VOID: '' @ s) es \<longleftrightarrow> payment_void_fits d c p"
    by (simp only: payment_void_fits_def option.case allocation_reversal_fits)
  have "b \<noteq> 0" by (simp add: b next_id_def)
  moreover have "batch_free d' c ''AP_PAYMENT_VOID'' pid" using free by (simp add: d' batch_free_def posted_db_def)
  ultimately show ?thesis unfolding fits [symmetric]
    using st(4) s by (auto simp: voidAPPayment_def bank post_reversal_eq [OF es] truthy_id_def entries
        simp del: append.simps)
qed

section \<open>The sample payment\<close>

lemma sample_payment_posts:
  obtains d' where "postAPPayment 1 7 1 None None 100 sample_db = Inr ((1, 3), d')"
proof -
  have "case postAPPayment 1 7 1 None None 100 sample_db of Inr (r, d') \<Rightarrow> r = (1, 3) | _ \<Rightarrow> False"
    by code_simp
  with that show thesis by (auto split: sum.splits prod.splits)
qed

lemma sample_payment_state:
  "payment_keys sample_db" "wf_ledger sample_db"
  "find_payment sample_db 1 1 = Some (sample_payment 1 10 None)"
  "find_invoice sample_db 1 1 = Some (sample_invoice 1 2 1000000 (Some 1))"
  "payment_lines sample_db 1 = [sample_payment_line 1 1 1 250000, sample_payment_line 2 1 1 150000]"
  "ap_status (sample_payment 1 10 None) = 10"
  "open_amount sample_db (sample_invoice 1 2 1000000 (Some 1)) = 1000000"
  by code_simp+

lemma sample_payment_free:
  "batch_free sample_db 1 ''AP_PAYMENT_VOID'' 1"
  "payment_void_fits sample_db 1 (sample_payment 1 10 None)"
  by code_simp+

section \<open>Properties\<close>

text \<open>
  C16: Posting a draft payment takes exactly its allocations off the open amounts of its
  company's invoices, and no invoice it pays ends up below zero.
\<close>

theorem postAPPayment_settles:
  assumes "payment_keys d"
    and "postAPPayment c u pid g r now d = Inr (res, d')"
    and "find_payment d c pid = Some p" and "ap_status p = AP_DRAFT"
    and "find_invoice d c i = Some pi"
  shows "open_amount d' pi = open_amount d pi -
      sum_for apl_purchase_invoice_id apl_allocation_amount i (payment_lines d pid)
    \<and> (i \<in> apl_purchase_invoice_id ` set (payment_lines d pid) \<longrightarrow> 0 \<le> open_amount d' pi)"
  using postAPPayment_open_amount [OF assms(1-4), of pi] postAPPayment_never_overpays [OF assms]
    find_invoice_Some [OF assms(5)] by simp

theorem postAPPayment_settles_witness:
  "\<exists>d'. postAPPayment 1 7 1 None None 100 sample_db = Inr ((1, 3), d') \<and>
     open_amount d' (sample_invoice 1 2 1000000 (Some 1)) = 600000"
proof -
  obtain d' where post: "postAPPayment 1 7 1 None None 100 sample_db = Inr ((1, 3), d')"
    by (rule sample_payment_posts)
  from postAPPayment_settles [OF sample_payment_state(1) post sample_payment_state(3,6,4)]
  have "open_amount d' (sample_invoice 1 2 1000000 (Some 1)) = 600000"
    by (simp add: sample_payment_state sample_payment_line_def del: One_nat_def)
  with post show ?thesis by blast
qed

text \<open>
  The journal batch of a posted payment is balanced as the ledger stores it, at two
  decimals, and carries the sum of the allocations rounded one by one.
\<close>

theorem postAPPayment_balanced:
  assumes "wf_ledger d" and "postAPPayment c u pid g r now d = Inr ((i, b), d')"
    and "find_payment d c pid = Some p" and "ap_status p = AP_DRAFT"
  shows "debits (batch_entries d' c b) = credits (batch_entries d' c b) \<and>
    debits (batch_entries d' c b) =
      sum_list (map (\<lambda>l. sql_round_div (apl_allocation_amount l) 100) (payment_lines d pid))"
  using postAPPayment_journal [OF assms] by simp

theorem postAPPayment_balanced_witness:
  "\<exists>d'. postAPPayment 1 7 1 None None 100 sample_db = Inr ((1, 3), d') \<and>
     debits (batch_entries d' 1 3) = 4000 \<and> credits (batch_entries d' 1 3) = 4000"
proof -
  obtain d' where post: "postAPPayment 1 7 1 None None 100 sample_db = Inr ((1, 3), d')"
    by (rule sample_payment_posts)
  from postAPPayment_balanced [OF sample_payment_state(2) post sample_payment_state(3,6)]
  have "debits (batch_entries d' 1 3) = 4000 \<and> credits (batch_entries d' 1 3) = 4000"
    by (simp add: sample_payment_state sample_payment_line_def sql_round_div_def del: One_nat_def)
  with post show ?thesis by blast
qed

text \<open>
  C25: A payment that was just posted can be voided, as long as the ledger holds no void of it and
  the descriptions of the void fit their column; voiding it restores every open amount and leaves
  a zero balance on every account over the two batches.  If a description does not fit, the void
  is refused with the database's error.
\<close>

theorem post_void_payment:
  assumes "payment_keys d" and "wf_ledger d"
    and "postAPPayment c u pid g r now d = Inr ((i, b), d1)"
    and "find_payment d c pid = Some p" and "ap_status p = AP_DRAFT"
    and "payment_lines d pid \<noteq> []" and "batch_free d c ''AP_PAYMENT_VOID'' pid"
  shows "if payment_void_fits d c p
    then \<exists>b' d2. voidAPPayment c u' pid g' r' now' d1 = Inr ((pid, b'), d2) \<and>
      (\<forall>pi. open_amount d2 pi = open_amount d pi) \<and>
      (\<forall>a. account_net a (batch_entries d2 c b) + account_net a (batch_entries d2 c b') = 0)
    else voidAPPayment c u' pid g' r' now' d1 = Inl (ER_DATA_TOO_LONG ''description'')"
proof (cases "payment_void_fits d c p")
  case True
  note st = postAPPayment_state [OF assms(2,1,3-5)]
  obtain b' d2 where void: "voidAPPayment c u' pid g' r' now' d1 = Inr ((pid, b'), d2)"
    using postAPPayment_voidable [OF assms(2,1,3-5,7), of u' g' r' now'] True by auto
  have "open_amount d2 pi = open_amount d pi" for pi
    using postAPPayment_open_amount [OF assms(1,3-5), of pi] voidAPPayment_open_amount [OF st(1) void, of pi]
    by (simp add: st(3))
  moreover have "account_net a (batch_entries d2 c b) + account_net a (batch_entries d2 c b') = 0" for a
    by (rule voidAPPayment_reverses [OF st(2) void st(4)]) (use st(5) assms(6) in simp_all)
  ultimately show ?thesis using void True by auto
qed (use postAPPayment_voidable [OF assms(2,1,3-5,7), of u' g' r' now'] in simp)

theorem post_void_payment_witness:
  "\<exists>d1 d2 b'. postAPPayment 1 7 1 None None 100 sample_db = Inr ((1, 3), d1) \<and>
     voidAPPayment 1 7 1 None None 200 d1 = Inr ((1, b'), d2) \<and>
     account_net 1 (batch_entries d2 1 3) + account_net 1 (batch_entries d2 1 b') = 0"
proof -
  obtain d1 where post: "postAPPayment 1 7 1 None None 100 sample_db = Inr ((1, 3), d1)"
    by (rule sample_payment_posts)
  have "payment_lines sample_db 1 \<noteq> []" unfolding sample_payment_state by simp
  from post_void_payment [OF sample_payment_state(1,2) post sample_payment_state(3,6) this
      sample_payment_free(1), of 7 None None 200]
  obtain b' d2 where "voidAPPayment 1 7 1 None None 200 d1 = Inr ((1, b'), d2)"
    and "\<forall>a. account_net a (batch_entries d2 1 3) + account_net a (batch_entries d2 1 b') = 0"
    unfolding if_P [OF sample_payment_free(2)] by blast
  with post show ?thesis by blast
qed

end
