(* ===== verification/Purchase_Credit.thy ===== *)
theory Purchase_Credit
  imports Ledger Open_Amount Sample_Tables
begin

text \<open>
  Credits from suppliers (\<open>services/purchase-credit-service.ts\<close>): a draft with priced lines,
  its application to open invoices (the invoice a line names, otherwise the supplier's posted
  invoices from the oldest on) together with the journal batch, and the void that takes the
  application back.
\<close>

section \<open>Accounts\<close>

definition ap_account_type :: "string option \<Rightarrow> bool" where
  "ap_account_type t \<longleftrightarrow> t = Some ''LIABILITY'' \<or> t = Some ''CREDITOR''"

definition expense_account_type :: "string option \<Rightarrow> bool" where
  "expense_account_type t \<longleftrightarrow> t = Some ''EXPENSE'' \<or> t = Some ''COGS'' \<or> t = Some ''INVENTORY'' \<or>
     t = Some ''ASSET''"

definition getPurchasingAccountsForUpdate :: "db \<Rightarrow> nat \<Rightarrow> (nat \<times> nat) res" where
  "getPurchasingAccountsForUpdate d companyId =
     (let settings = purchasing_settings d companyId in
      bindR (from_opt PurchaseCreditMissingAPAccountError
        (Option.bind settings (\<lambda>cm. truthy_id (cm_purchasing_default_ap_account_id cm)))) (\<lambda>apAccountId.
      bindR (from_opt PurchaseCreditMissingExpenseAccountError
        (Option.bind settings (\<lambda>cm. truthy_id (cm_purchasing_default_expense_account_id cm)))) (\<lambda>expenseAccountId.
      bindR (from_opt PurchaseCreditMissingAPAccountError (find_account d companyId apAccountId)) (\<lambda>ap.
      bindR (require (acc_is_active ap = 1) PurchaseCreditMissingAPAccountError) (\<lambda>_.
      bindR (require (ap_account_type (acc_type_name ap))
        (PurchaseCreditInvalidAPAccountTypeError apAccountId (acc_type_name ap))) (\<lambda>_.
      bindR (from_opt PurchaseCreditMissingExpenseAccountError (find_account d companyId expenseAccountId)) (\<lambda>expense.
      bindR (require (acc_is_active expense = 1) PurchaseCreditMissingExpenseAccountError) (\<lambda>_.
      bindR (require (expense_account_type (acc_type_name expense))
        (PurchaseCreditInvalidExpenseAccountTypeError expenseAccountId (acc_type_name expense))) (\<lambda>_.
        Inr (apAccountId, expenseAccountId))))))))))"

section \<open>Reading a credit\<close>

definition find_credit :: "db \<Rightarrow> nat \<Rightarrow> nat \<Rightarrow> purchase_credit_row option" where
  "find_credit d companyId creditId =
     find (\<lambda>c. pc_id c = creditId \<and> pc_company_id c = companyId) (purchase_credits d)"

definition credit_lines :: "db \<Rightarrow> nat \<Rightarrow> purchase_credit_line_row list" where
  "credit_lines d creditId =
     sort_key pcl_line_no (filter (\<lambda>l. pcl_purchase_credit_id l = creditId) (purchase_credit_lines d))"

definition credit_applications :: "db \<Rightarrow> nat \<Rightarrow> nat \<Rightarrow> purchase_credit_application_row list" where
  "credit_applications d companyId creditId =
     sort_key pca_id (filter (\<lambda>a. pca_purchase_credit_id a = creditId \<and> pca_company_id a = companyId)
       (purchase_credit_applications d))"

record PurchaseCreditLineResult =
  rpcl_id :: nat
  rpcl_line_no :: nat
  rpcl_purchase_invoice_id :: "nat option"
  rpcl_purchase_invoice_line_id :: "nat option"
  rpcl_item_id :: "nat option"
  rpcl_description :: "string option"
  rpcl_qty :: string
  rpcl_unit_price :: string
  rpcl_line_amount :: string
  rpcl_reason :: "string option"
  rpcl_created_at :: int
  rpcl_updated_at :: int

record PurchaseCreditApplicationResult =
  rpca_id :: nat
  rpca_purchase_credit_line_id :: nat
  rpca_purchase_invoice_id :: nat
  rpca_applied_amount :: string
  rpca_applied_at :: int
  rpca_created_at :: int

record PurchaseCreditGetResult =
  rpc_id :: nat
  rpc_company_id :: nat
  rpc_supplier_id :: nat
  rpc_supplier_name :: "string option"
  rpc_credit_no :: string
  rpc_credit_date :: int
  rpc_description :: "string option"
  rpc_status :: string
  rpc_total_credit_amount :: string
  rpc_applied_amount :: string
  rpc_remaining_amount :: string
  rpc_journal_batch_id :: "nat option"
  rpc_posted_at :: "int option"
  rpc_posted_by_user_id :: "nat option"
  rpc_voided_at :: "int option"
  rpc_voided_by_user_id :: "nat option"
  rpc_created_by_user_id :: "nat option"
  rpc_created_at :: int
  rpc_updated_at :: int
  rpc_lines :: "PurchaseCreditLineResult list"
  rpc_applications :: "PurchaseCreditApplicationResult list"

definition credit_line_result :: "purchase_credit_line_row \<Rightarrow> PurchaseCreditLineResult" where
  "credit_line_result l =
     \<lparr>rpcl_id = pcl_id l, rpcl_line_no = pcl_line_no l,
      rpcl_purchase_invoice_id = pcl_purchase_invoice_id l,
      rpcl_purchase_invoice_line_id = pcl_purchase_invoice_line_id l, rpcl_item_id = pcl_item_id l,
      rpcl_description = pcl_description l, rpcl_qty = fromScaled4 (pcl_qty l),
      rpcl_unit_price = fromScaled4 (pcl_unit_price l),
      rpcl_line_amount = fromScaled4 (pcl_line_amount l), rpcl_reason = pcl_reason l,
      rpcl_created_at = pcl_created_at l, rpcl_updated_at = pcl_updated_at l\<rparr>"

definition credit_application_result :: "purchase_credit_application_row \<Rightarrow> PurchaseCreditApplicationResult" where
  "credit_application_result a =
     \<lparr>rpca_id = pca_id a, rpca_purchase_credit_line_id = pca_purchase_credit_line_id a,
      rpca_purchase_invoice_id = pca_purchase_invoice_id a,
      rpca_applied_amount = fromScaled4 (pca_applied_amount a), rpca_applied_at = pca_applied_at a,
      rpca_created_at = pca_created_at a\<rparr>"

definition credit_header_result ::
  "db \<Rightarrow> purchase_credit_row \<Rightarrow> PurchaseCreditLineResult list \<Rightarrow> PurchaseCreditApplicationResult list \<Rightarrow>
     PurchaseCreditGetResult res" where
  "credit_header_result d h ls apps =
     bindR (read_dec4 (pc_total_credit_amount h)) (\<lambda>totalCredit.
     bindR (read_dec4 (pc_applied_amount h)) (\<lambda>applied.
       let remaining = totalCredit - applied in
       Inr \<lparr>rpc_id = pc_id h, rpc_company_id = pc_company_id h, rpc_supplier_id = pc_supplier_id h,
         rpc_supplier_name = map_option sup_name (find_supplier d (pc_company_id h) (pc_supplier_id h)),
         rpc_credit_no = pc_credit_no h, rpc_credit_date = pc_credit_date h,
         rpc_description = pc_description h, rpc_status = toPurchaseCreditStatusLabel (pc_status h),
         rpc_total_credit_amount = fromScaled4 (pc_total_credit_amount h),
         rpc_applied_amount = fromScaled4 (pc_applied_amount h),
         rpc_remaining_amount = fromScaled4 (if remaining > 0 then remaining else 0),
         rpc_journal_batch_id = pc_journal_batch_id h, rpc_posted_at = pc_posted_at h,
         rpc_posted_by_user_id = pc_posted_by_user_id h, rpc_voided_at = pc_voided_at h,
         rpc_voided_by_user_id = pc_voided_by_user_id h,
         rpc_created_by_user_id = pc_created_by_user_id h, rpc_created_at = pc_created_at h,
         rpc_updated_at = pc_updated_at h, rpc_lines = ls, rpc_applications = apps\<rparr>))"

definition getPurchaseCreditById :: "db \<Rightarrow> nat \<Rightarrow> nat \<Rightarrow> PurchaseCreditGetResult option res" where
  "getPurchaseCreditById d companyId creditId =
     (case find_credit d companyId creditId of
        None \<Rightarrow> Inr None
      | Some h \<Rightarrow>
          bindR (credit_header_result d h (map credit_line_result (credit_lines d creditId))
              (map credit_application_result (credit_applications d companyId creditId)))
            (\<lambda>r. Inr (Some r)))"

record PurchaseCreditListParams =
  lpc_companyId :: nat
  lpc_supplierId :: "nat option"
  lpc_status :: "nat option"
  lpc_dateFrom :: "int option"
  lpc_dateTo :: "int option"
  lpc_limit :: nat
  lpc_offset :: nat

definition credit_list_match :: "PurchaseCreditListParams \<Rightarrow> purchase_credit_row \<Rightarrow> bool" where
  "credit_list_match ps c \<longleftrightarrow> pc_company_id c = lpc_companyId ps \<and>
     (\<forall>s \<in> set_option (lpc_supplierId ps). pc_supplier_id c = s) \<and>
     (\<forall>s \<in> set_option (lpc_status ps). pc_status c = s) \<and>
     (\<forall>f \<in> set_option (lpc_dateFrom ps). f \<le> pc_credit_date c) \<and>
     (\<forall>t \<in> set_option (lpc_dateTo ps). pc_credit_date c \<le> t)"

definition listPurchaseCredits ::
  "db \<Rightarrow> PurchaseCreditListParams \<Rightarrow> (PurchaseCreditGetResult list \<times> nat \<times> nat \<times> nat) res" where
  "listPurchaseCredits d ps =
     (let matches = filter (credit_list_match ps) (purchase_credits d);
          page = take (lpc_limit ps) (drop (lpc_offset ps) (sort_key (\<lambda>c. - pc_created_at c) matches))
      in bindR (mapM (\<lambda>c. credit_header_result d
             (c\<lparr>pc_posted_by_user_id := None, pc_voided_by_user_id := None\<rparr>) [] []) page)
           (\<lambda>rs. Inr (rs, length matches, lpc_limit ps, lpc_offset ps)))"

section \<open>Creating a draft\<close>

record PurchaseCreditLineInput =
  ipcl_purchaseInvoiceId :: "nat option"
  ipcl_purchaseInvoiceLineId :: "nat option"
  ipcl_itemId :: "nat option"
  ipcl_description :: "string option"
  ipcl_qty :: string
  ipcl_unitPrice :: string
  ipcl_reason :: "string option"

record PurchaseCreditCreateInput =
  ipc_companyId :: nat
  ipc_userId :: nat
  ipc_idempotencyKey :: "string option"
  ipc_supplierId :: nat
  ipc_creditNo :: string
  ipc_creditDate :: int
  ipc_description :: "string option"
  ipc_lines :: "PurchaseCreditLineInput list"

definition find_credit_by_key :: "db \<Rightarrow> nat \<Rightarrow> string \<Rightarrow> purchase_credit_row option" where
  "find_credit_by_key d companyId key =
     find (\<lambda>c. pc_company_id c = companyId \<and> pc_idempotency_key c = Some key) (purchase_credits d)"

definition existing_credit :: "db \<Rightarrow> nat \<Rightarrow> string option \<Rightarrow> PurchaseCreditGetResult option res" where
  "existing_credit d companyId idempotencyKey =
     (case truthy_str idempotencyKey of
        None \<Rightarrow> Inr None
      | Some key \<Rightarrow>
          (case find_credit_by_key d companyId key of
             None \<Rightarrow> Inr None
           | Some c \<Rightarrow> getPurchaseCreditById d companyId (pc_id c)))"

definition check_credit_invoices :: "db \<Rightarrow> nat \<Rightarrow> nat \<Rightarrow> PurchaseCreditLineInput list \<Rightarrow> unit res" where
  "check_credit_invoices d companyId supplierId ls =
     foldM (\<lambda>_ invoiceId.
       bindR (from_opt (PurchaseCreditInvoiceNotFoundError invoiceId) (find_invoice d companyId invoiceId)) (\<lambda>invoice.
         require (pi_supplier_id invoice = supplierId)
           (PurchaseCreditInvoiceSupplierMismatchError invoiceId supplierId (pi_supplier_id invoice))))
       () (js_set (List.map_filter ipcl_purchaseInvoiceId ls))"

definition new_credit_row :: "PurchaseCreditCreateInput \<Rightarrow> int \<Rightarrow> nat \<Rightarrow> purchase_credit_row" where
  "new_credit_row input now k =
     \<lparr>pc_id = k, pc_company_id = ipc_companyId input, pc_applied_amount = 0, pc_created_at = now,
      pc_created_by_user_id = Some (ipc_userId input), pc_credit_date = ipc_creditDate input,
      pc_credit_no = ipc_creditNo input, pc_description = ipc_description input,
      pc_idempotency_key = ipc_idempotencyKey input, pc_journal_batch_id = None,
      pc_posted_at = None, pc_posted_by_user_id = None, pc_status = PC_DRAFT,
      pc_supplier_id = ipc_supplierId input, pc_total_credit_amount = 0, pc_updated_at = now,
      pc_voided_at = None, pc_voided_by_user_id = None\<rparr>"

definition credit_conflict :: "db \<Rightarrow> purchase_credit_row \<Rightarrow> string option" where
  "credit_conflict d r =
     (if \<exists>c \<in> set (purchase_credits d). pc_company_id c = pc_company_id r \<and> pc_credit_no c = pc_credit_no r
      then Some ''uk_purchase_credits_company_credit_no''
      else if \<exists>c \<in> set (purchase_credits d). pc_company_id c = pc_company_id r \<and>
        pc_idempotency_key r \<noteq> None \<and> pc_idempotency_key c = pc_idempotency_key r
      then Some ''uk_purchase_credits_company_idempotency_key''
      else None)"

definition insert_credit :: "purchase_credit_row \<Rightarrow> db \<Rightarrow> db" where
  "insert_credit r d = bump T_purchase_credit (d\<lparr>purchase_credits := purchase_credits d @ [r]\<rparr>)"

text \<open>One line: its amount is quantity times price, cut to four decimals.\<close>

definition insert_credit_line ::
  "nat \<Rightarrow> int \<Rightarrow> int \<times> db \<Rightarrow> nat \<times> PurchaseCreditLineInput \<Rightarrow> (int \<times> db) res" where
  "insert_credit_line creditId now st nl =
     (case (st, nl) of ((totalCredit, d), (lineNo, l)) \<Rightarrow>
       bindR (toScaled4 (ipcl_qty l)) (\<lambda>qty.
       bindR (toScaled4 (ipcl_unitPrice l)) (\<lambda>unitPrice.
         let lineAmount = scale4Mul qty unitPrice in
         Inr (totalCredit + lineAmount,
           bump T_purchase_credit_line (d\<lparr>purchase_credit_lines := purchase_credit_lines d @
             [\<lparr>pcl_id = next_id d T_purchase_credit_line, pcl_created_at = now,
               pcl_description = ipcl_description l, pcl_item_id = ipcl_itemId l,
               pcl_line_amount = lineAmount, pcl_line_no = lineNo,
               pcl_purchase_credit_id = creditId, pcl_purchase_invoice_id = ipcl_purchaseInvoiceId l,
               pcl_purchase_invoice_line_id = ipcl_purchaseInvoiceLineId l, pcl_qty = qty,
               pcl_reason = ipcl_reason l, pcl_unit_price = unitPrice, pcl_updated_at = now\<rparr>]\<rparr>)))))"

definition create_credit_trx :: "PurchaseCreditCreateInput \<Rightarrow> int \<Rightarrow> nat op" where
  "create_credit_trx input now d =
     (let row = new_credit_row input now (next_id d T_purchase_credit) in
      case credit_conflict d row of
        Some uk \<Rightarrow> Inl (ER_DUP_ENTRY uk)
      | None \<Rightarrow>
          bindR (foldM (insert_credit_line (pc_id row) now) (0, insert_credit row d) (numbered (ipc_lines input)))
            (\<lambda>(totalCredit, d1).
              Inr (pc_id row, d1\<lparr>purchase_credits := update_where (\<lambda>c. pc_id c = pc_id row)
                (\<lambda>c. c\<lparr>pc_total_credit_amount := totalCredit, pc_updated_at := now\<rparr>) (purchase_credits d1)\<rparr>)))"

definition createDraftPurchaseCredit :: "PurchaseCreditCreateInput \<Rightarrow> int \<Rightarrow> PurchaseCreditGetResult op" where
  "createDraftPurchaseCredit input now d =
     bindR (existing_credit d (ipc_companyId input) (ipc_idempotencyKey input)) (\<lambda>existing.
       case existing of
         Some existingCredit \<Rightarrow> Inr (existingCredit, d)
       | None \<Rightarrow>
           bindR (from_opt SUPPLIER_NOT_FOUND (find_supplier d (ipc_companyId input) (ipc_supplierId input))) (\<lambda>supplier.
           bindR (require (sup_is_active supplier = 1) (PurchaseCreditSupplierInactiveError (ipc_supplierId input))) (\<lambda>_.
           bindR (check_credit_invoices d (ipc_companyId input) (ipc_supplierId input) (ipc_lines input)) (\<lambda>_.
             case create_credit_trx input now d of
               Inl e \<Rightarrow>
                 (if is_duplicate e
                  then bindR (existing_credit d (ipc_companyId input) (ipc_idempotencyKey input)) (\<lambda>ex.
                    case ex of Some c \<Rightarrow> Inr (c, d) | None \<Rightarrow> Inl e)
                  else Inl e)
             | Inr (creditId, d') \<Rightarrow>
                 bindR (getPurchaseCreditById d' (ipc_companyId input) creditId) (\<lambda>credit.
                 bindR (from_opt (JsError ''Failed to fetch created purchase credit'') credit) (\<lambda>c.
                   Inr (c, d')))))))"

section \<open>Applying\<close>

text \<open>The state of the application loop: the tables, the total applied so far, and the amount
  per invoice.\<close>

record apply_state =
  as_db :: db
  as_total :: int
  as_applied :: "(nat \<times> int) list"

definition eligible_invoice :: "db \<Rightarrow> nat \<Rightarrow> nat \<Rightarrow> nat \<Rightarrow> unit res" where
  "eligible_invoice d companyId supplierId invoiceId =
     bindR (from_opt (PurchaseCreditInvoiceNotFoundError invoiceId) (find_invoice d companyId invoiceId)) (\<lambda>invoice.
     bindR (require (pi_status invoice = PI_POSTED)
       (PurchaseCreditInvoiceNotPostedError invoiceId (pi_status invoice))) (\<lambda>_.
       require (pi_supplier_id invoice = supplierId)
         (PurchaseCreditInvoiceSupplierMismatchError invoiceId supplierId (pi_supplier_id invoice))))"

definition effective_open :: "nat \<Rightarrow> nat \<Rightarrow> apply_state \<Rightarrow> int res" where
  "effective_open companyId invoiceId st =
     bindR (computePurchaseInvoiceOpenAmount (as_db st) companyId invoiceId) (\<lambda>open_amt.
       let effectiveOpen = open_amt - map_get0 (as_applied st) invoiceId
       in Inr (if effectiveOpen > 0 then effectiveOpen else 0))"

definition insert_application ::
  "nat \<Rightarrow> nat \<Rightarrow> nat \<Rightarrow> int \<Rightarrow> nat \<Rightarrow> int \<Rightarrow> apply_state \<Rightarrow> apply_state" where
  "insert_application companyId creditId lineId now invoiceId applied st =
     (let d = as_db st in
      \<lparr>as_db = bump T_purchase_credit_application (d\<lparr>purchase_credit_applications :=
          purchase_credit_applications d @
          [\<lparr>pca_id = next_id d T_purchase_credit_application, pca_company_id = companyId,
            pca_applied_amount = applied, pca_applied_at = now, pca_created_at = now,
            pca_purchase_credit_id = creditId, pca_purchase_credit_line_id = lineId,
            pca_purchase_invoice_id = invoiceId\<rparr>]\<rparr>),
       as_total = as_total st + applied,
       as_applied = map_add invoiceId applied (as_applied st)\<rparr>)"

text \<open>A line that names its invoice.\<close>

definition apply_to_named ::
  "nat \<Rightarrow> nat \<Rightarrow> nat \<Rightarrow> nat \<Rightarrow> int \<Rightarrow> nat \<Rightarrow> int \<Rightarrow> apply_state \<Rightarrow> apply_state res" where
  "apply_to_named companyId supplierId creditId lineId now invoiceId remainingLineAmount st =
     bindR (eligible_invoice (as_db st) companyId supplierId invoiceId) (\<lambda>_.
     bindR (effective_open companyId invoiceId st) (\<lambda>effectiveOpenSafe.
       let applied = (if effectiveOpenSafe < remainingLineAmount then effectiveOpenSafe else remainingLineAmount)
       in Inr (if applied > 0 then insert_application companyId creditId lineId now invoiceId applied st else st)))"

text \<open>A line without invoice goes to the posted invoices from the oldest on.\<close>

definition apply_to_next ::
  "nat \<Rightarrow> nat \<Rightarrow> nat \<Rightarrow> int \<Rightarrow> int \<times> apply_state \<Rightarrow> nat \<Rightarrow> (int \<times> apply_state) res" where
  "apply_to_next companyId creditId lineId now rs invoiceId =
     (case rs of (remainingLineAmount, st) \<Rightarrow>
       if remainingLineAmount \<le> 0 then Inr rs
       else bindR (effective_open companyId invoiceId st) (\<lambda>effectiveOpenSafe.
         if effectiveOpenSafe \<le> 0 then Inr rs
         else
           let applied = (if effectiveOpenSafe < remainingLineAmount then effectiveOpenSafe else remainingLineAmount)
           in Inr (remainingLineAmount - applied,
                insert_application companyId creditId lineId now invoiceId applied st)))"

definition apply_line ::
  "nat \<Rightarrow> nat \<Rightarrow> nat \<Rightarrow> int \<Rightarrow> nat list \<Rightarrow> apply_state \<Rightarrow> purchase_credit_line_row \<Rightarrow> apply_state res" where
  "apply_line companyId supplierId creditId now fifoInvoiceIds st l =
     bindR (read_dec4 (pcl_line_amount l)) (\<lambda>remainingLineAmount.
       case truthy_id (pcl_purchase_invoice_id l) of
         Some invoiceId \<Rightarrow>
           apply_to_named companyId supplierId creditId (pcl_id l) now invoiceId remainingLineAmount st
       | None \<Rightarrow>
           bindR (foldM (apply_to_next companyId creditId (pcl_id l) now) (remainingLineAmount, st) fifoInvoiceIds)
             (\<lambda>(_, st'). Inr st'))"

definition fifo_invoices :: "db \<Rightarrow> nat \<Rightarrow> nat \<Rightarrow> nat list" where
  "fifo_invoices d companyId supplierId =
     map pi_id (sort_key pi_invoice_date (sort_key pi_id
       (filter (\<lambda>pi. pi_company_id pi = companyId \<and> pi_supplier_id pi = supplierId \<and> pi_status pi = PI_POSTED)
         (purchase_invoices d))))"

definition apply_lines :: "nat \<Rightarrow> purchase_credit_row \<Rightarrow> int \<Rightarrow> db \<Rightarrow> apply_state res" where
  "apply_lines companyId credit now d =
     foldM (apply_line companyId (pc_supplier_id credit) (pc_id credit) now
         (fifo_invoices d companyId (pc_supplier_id credit)))
       \<lparr>as_db = d, as_total = 0, as_applied = []\<rparr> (credit_lines d (pc_id credit))"

record PurchaseCreditApplyResult =
  rpa_id :: nat
  rpa_journal_batch_id :: nat
  rpa_applied_amount :: string
  rpa_remaining_amount :: string
  rpa_status :: string

definition mark_credit_applied :: "nat \<Rightarrow> nat \<Rightarrow> int \<Rightarrow> nat \<Rightarrow> nat \<Rightarrow> int \<Rightarrow> db \<Rightarrow> db" where
  "mark_credit_applied creditId newStatus newApplied batchId userId now d =
     d\<lparr>purchase_credits := update_where (\<lambda>c. pc_id c = creditId)
        (\<lambda>c. c\<lparr>pc_status := newStatus, pc_applied_amount := newApplied,
              pc_journal_batch_id := Some batchId, pc_posted_at := Some now,
              pc_posted_by_user_id := Some userId, pc_updated_at := now\<rparr>) (purchase_credits d)\<rparr>"

text \<open>The journal of an application: payables are debited, the expense is credited.\<close>

definition credit_journal :: "nat \<Rightarrow> nat \<Rightarrow> string \<Rightarrow> string \<Rightarrow> journal_input list" where
  "credit_journal apAccountId expenseAccountId amount desc =
     [\<lparr>ji_account_id = apAccountId, ji_debit = amount, ji_credit = ''0.0000'', ji_description = desc\<rparr>,
      \<lparr>ji_account_id = expenseAccountId, ji_debit = ''0.0000'', ji_credit = amount, ji_description = desc\<rparr>]"

definition commit_credit ::
  "nat \<Rightarrow> nat \<Rightarrow> purchase_credit_row \<Rightarrow> supplier_row \<Rightarrow> GuardrailDecision option \<Rightarrow> string option \<Rightarrow> int \<Rightarrow>
     int \<Rightarrow> PurchaseCreditApplyResult op" where
  "commit_credit companyId userId credit supplier guardrailDecision validOverrideReason now totalAppliedNow d =
     bindR (require (totalAppliedNow > 0) PurchaseCreditNoApplicableInvoiceError) (\<lambda>_.
     bindR (getPurchasingAccountsForUpdate d companyId) (\<lambda>(apAccountId, expenseAccountId).
       let desc = ''Purchase Credit '' @ pc_credit_no credit @ '' - '' @ sup_name supplier;
           amount = fromScaled4 totalAppliedNow
       in
       bindR (toScaled4 amount) (\<lambda>totalDebits.
       bindR (toScaled4 amount) (\<lambda>totalCredits.
       bindR (require (totalDebits = totalCredits)
         (PurchaseCreditJournalNotBalancedError (fromScaled4 totalDebits) (fromScaled4 totalCredits))) (\<lambda>_.
       bindR (post_inputs companyId ''PURCHASE_CREDIT'' (pc_id credit) (pc_credit_date credit) now
         (credit_journal apAccountId expenseAccountId amount desc) d) (\<lambda>(batchId, d1).
       bindR (read_dec4 (pc_applied_amount credit)) (\<lambda>previousApplied.
       bindR (read_dec4 (pc_total_credit_amount credit)) (\<lambda>totalCredit.
         let newApplied = previousApplied + totalAppliedNow;
             remaining = totalCredit - newApplied;
             newStatus = (if remaining > 0 then PC_PARTIAL else PC_APPLIED)
         in Inr (\<lparr>rpa_id = pc_id credit, rpa_journal_batch_id = batchId, rpa_applied_amount = amount,
                  rpa_remaining_amount = fromScaled4 (if remaining > 0 then remaining else 0),
                  rpa_status = (if newStatus = PC_APPLIED then ''APPLIED'' else ''PARTIAL'')\<rparr>,
               record_override guardrailDecision validOverrideReason companyId userId ''PURCHASE_CREDIT''
                 (pc_id credit) now
                 (mark_credit_applied (pc_id credit) newStatus newApplied batchId userId now d1))))))))))"

definition credit_active_supplier :: "db \<Rightarrow> nat \<Rightarrow> nat \<Rightarrow> supplier_row res" where
  "credit_active_supplier d companyId supplierId =
     bindR (from_opt SUPPLIER_NOT_FOUND (find_supplier d companyId supplierId)) (\<lambda>supplier.
     bindR (require (sup_is_active supplier = 1) (PurchaseCreditSupplierInactiveError supplierId)) (\<lambda>_.
       Inr supplier))"

definition applyPurchaseCredit ::
  "nat \<Rightarrow> nat \<Rightarrow> nat \<Rightarrow> GuardrailDecision option \<Rightarrow> string option \<Rightarrow> int \<Rightarrow> PurchaseCreditApplyResult op" where
  "applyPurchaseCredit companyId userId creditId guardrailDecision validOverrideReason now d =
     bindR (from_opt (PurchaseCreditNotFoundError creditId) (find_credit d companyId creditId)) (\<lambda>credit.
     bindR (require (pc_status credit = PC_DRAFT)
       (PurchaseCreditInvalidStatusTransitionError (pc_status credit) PC_APPLIED)) (\<lambda>_.
     bindR (credit_active_supplier d companyId (pc_supplier_id credit)) (\<lambda>supplier.
     bindR (apply_lines companyId credit now d) (\<lambda>st.
       commit_credit companyId userId credit supplier guardrailDecision validOverrideReason now
         (as_total st) (as_db st)))))"

section \<open>Voiding\<close>

definition last_reversal :: "db \<Rightarrow> nat \<Rightarrow> nat \<Rightarrow> nat option" where
  "last_reversal d companyId creditId =
     map_option jb_id (find (\<lambda>b. jb_company_id b = companyId \<and> jb_doc_type b = ''PURCHASE_CREDIT_VOID'' \<and>
        jb_doc_id b = creditId) (rev (sort_key jb_id (journal_batches d))))"

definition mark_credit_void :: "nat \<Rightarrow> nat \<Rightarrow> int \<Rightarrow> db \<Rightarrow> db" where
  "mark_credit_void creditId userId now d =
     d\<lparr>purchase_credits := update_where (\<lambda>c. pc_id c = creditId)
        (\<lambda>c. c\<lparr>pc_status := PC_VOID, pc_applied_amount := 0, pc_voided_at := Some now,
              pc_voided_by_user_id := Some userId, pc_updated_at := now\<rparr>) (purchase_credits d)\<rparr>"

definition void_description :: "nat \<Rightarrow> string \<Rightarrow> string" where
  "void_description creditId s =
     ''VOID purchase credit #'' @ nat_str creditId @ (if s = [] then [] else '' - '' @ s)"

definition voidPurchaseCredit ::
  "nat \<Rightarrow> nat \<Rightarrow> nat \<Rightarrow> GuardrailDecision option \<Rightarrow> string option \<Rightarrow> int \<Rightarrow> (nat \<times> nat option) op" where
  "voidPurchaseCredit companyId userId creditId guardrailDecision validOverrideReason now d =
     bindR (from_opt (PurchaseCreditNotFoundError creditId) (find_credit d companyId creditId)) (\<lambda>credit.
       if pc_status credit = PC_VOID then Inr ((creditId, last_reversal d companyId creditId), d)
       else
         bindR (require (pc_status credit = PC_PARTIAL \<or> pc_status credit = PC_APPLIED)
           (PurchaseCreditInvalidStatusTransitionError (pc_status credit) PC_VOID)) (\<lambda>_.
         bindR (from_opt (PurchaseCreditError ''MISSING_JOURNAL_BATCH'') (truthy_id (pc_journal_batch_id credit))) (\<lambda>batchId.
         bindR (credit_active_supplier d companyId (pc_supplier_id credit)) (\<lambda>_.
         bindR (require (batch_entries d companyId batchId \<noteq> []) (PurchaseCreditError ''MISSING_JOURNAL_LINES'')) (\<lambda>_.
         bindR (post_journal companyId ''PURCHASE_CREDIT_VOID'' creditId (pc_credit_date credit) now
           (map (reverse_entry (void_description creditId)) (batch_entries d companyId batchId)) d) (\<lambda>(reversalBatchId, d1).
           Inr ((creditId, Some reversalBatchId),
             record_override guardrailDecision validOverrideReason companyId userId ''PURCHASE_CREDIT_VOID''
               creditId now (mark_credit_void creditId userId now d1))))))))"

section \<open>The application loop\<close>

definition credit_keys :: "db \<Rightarrow> bool" where
  "credit_keys d \<longleftrightarrow> distinct (map pc_id (purchase_credits d))"

lemma find_credit_Some:
  "find_credit d c i = Some r \<Longrightarrow> r \<in> set (purchase_credits d) \<and> pc_id r = i \<and> pc_company_id r = c"
  unfolding find_credit_def by (drule find_SomeD) simp

abbreviation (input) "applied_to \<equiv> sum_for pca_purchase_invoice_id pca_applied_amount"

text \<open>The tables after some applications of the credit \<open>k\<close> were inserted.\<close>

definition with_applications :: "db \<Rightarrow> purchase_credit_application_row list \<Rightarrow> nat \<Rightarrow> db" where
  "with_applications d new n = d\<lparr>purchase_credit_applications := purchase_credit_applications d @ new,
     auto_inc := (auto_inc d)(T_purchase_credit_application := n)\<rparr>"

definition own_applications :: "nat \<Rightarrow> nat \<Rightarrow> purchase_credit_application_row list \<Rightarrow> bool" where
  "own_applications co k new \<longleftrightarrow> (\<forall>a \<in> set new. pca_purchase_credit_id a = k \<and> pca_company_id a = co \<and>
     0 < pca_applied_amount a)"

definition apply_inv :: "db \<Rightarrow> nat \<Rightarrow> nat \<Rightarrow> purchase_credit_application_row list \<Rightarrow> apply_state \<Rightarrow> bool" where
  "apply_inv d co k new st \<longleftrightarrow>
     (\<exists>n. auto_inc d T_purchase_credit_application \<le> n \<and> as_db st = with_applications d new n \<and>
        map pca_id new = [Suc (auto_inc d T_purchase_credit_application)..<Suc n]) \<and>
     own_applications co k new \<and>
     as_total st = sum_list (map pca_applied_amount new) \<and>
     (\<forall>i. map_get0 (as_applied st) i = applied_to i new) \<and>
     (\<forall>a \<in> set new. (\<exists>v. computePurchaseInvoiceOpenAmount d co (pca_purchase_invoice_id a) = Inr v \<and>
        applied_to (pca_purchase_invoice_id a) new \<le> v))"

text \<open>Applications of a draft do not count yet, so the open amounts stay as they were.\<close>

definition draft_credit :: "db \<Rightarrow> nat \<Rightarrow> bool" where
  "draft_credit d k \<longleftrightarrow> (\<forall>c \<in> set (purchase_credits d). pc_id c = k \<longrightarrow> pc_status c = PC_DRAFT)"

lemma computeOpen_with_applications:
  assumes "draft_credit d k" and "own_applications co k new"
  shows "computePurchaseInvoiceOpenAmount (with_applications d new n) c i =
    computePurchaseInvoiceOpenAmount d c i"
proof -
  have "filter (credit_counts (with_applications d new n) c)
      (purchase_credit_applications (with_applications d new n)) =
    filter (credit_counts d c) (purchase_credit_applications d)"
    using assms by (auto simp: with_applications_def credit_counts_def [abs_def] draft_credit_def
        own_applications_def filter_empty_conv)
  then have "credited_total (with_applications d new n) c i = credited_total d c i"
    by (simp add: credited_total_def)
  moreover have "paid_total (with_applications d new n) c i = paid_total d c i"
    by (simp add: paid_total_def with_applications_def payment_counts_def [abs_def])
  moreover have "find_invoice (with_applications d new n) c i = find_invoice d c i"
    by (simp add: find_invoice_def with_applications_def)
  ultimately show ?thesis by (simp add: computePurchaseInvoiceOpenAmount_def split: option.split)
qed

lemma effective_open_Inr:
  assumes "draft_credit d k" and "apply_inv d co k new st" and "effective_open co i st = Inr e" and "0 < e"
  shows "\<exists>v. computePurchaseInvoiceOpenAmount d co i = Inr v \<and> e = v - applied_to i new"
  using assms computeOpen_with_applications [OF assms(1)]
  by (auto simp: effective_open_def apply_inv_def inr_simps Let_def split: if_splits)

lemma insert_application_inv:
  assumes draft: "draft_credit d k" and inv: "apply_inv d co k new st"
    and eff: "effective_open co i st = Inr e" and a: "0 < a" "a \<le> e"
  obtains x where "apply_inv d co k (new @ [x]) (insert_application co k lineId now i a st)"
    and "pca_purchase_invoice_id x = i" and "pca_applied_amount x = a"
    and "as_total (insert_application co k lineId now i a st) = as_total st + a"
proof -
  from inv obtain n where n: "auto_inc d T_purchase_credit_application \<le> n"
    and db: "as_db st = with_applications d new n"
    and ids: "map pca_id new = [Suc (auto_inc d T_purchase_credit_application)..<Suc n]"
    by (auto simp: apply_inv_def)
  obtain v where v: "computePurchaseInvoiceOpenAmount d co i = Inr v" "e = v - applied_to i new"
    using effective_open_Inr [OF draft inv eff] a by auto
  define x where "x = \<lparr>pca_id = Suc n, pca_company_id = co, pca_applied_amount = a,
    pca_applied_at = now, pca_created_at = now, pca_purchase_credit_id = k,
    pca_purchase_credit_line_id = lineId, pca_purchase_invoice_id = i\<rparr>"
  have "as_db (insert_application co k lineId now i a st) = with_applications d (new @ [x]) (Suc n)"
    by (simp add: insert_application_def db with_applications_def bump_def next_id_def x_def Let_def)
  moreover have "map pca_id (new @ [x]) = [Suc (auto_inc d T_purchase_credit_application)..<Suc (Suc n)]"
    using n by (simp add: ids x_def)
  moreover have "\<forall>y \<in> set (new @ [x]). \<exists>v. computePurchaseInvoiceOpenAmount d co (pca_purchase_invoice_id y) = Inr v \<and>
      applied_to (pca_purchase_invoice_id y) (new @ [x]) \<le> v"
    using inv v a by (auto simp: apply_inv_def x_def)
  ultimately have "apply_inv d co k (new @ [x]) (insert_application co k lineId now i a st)"
    using inv n a(1) unfolding apply_inv_def
    by (auto simp: own_applications_def x_def insert_application_def map_get0_add Let_def intro!: exI [of _ "Suc n"])
  then show thesis
    by (rule that) (simp_all add: x_def insert_application_def Let_def)
qed

definition payable_by :: "db \<Rightarrow> nat \<Rightarrow> nat \<Rightarrow> nat \<Rightarrow> bool" where
  "payable_by d co s i \<longleftrightarrow> (\<exists>pi \<in> set (purchase_invoices d). pi_id pi = i \<and> pi_company_id pi = co \<and>
     pi_status pi = PI_POSTED \<and> pi_supplier_id pi = s)"

text \<open>
  What a step of the loop adds: applications of the credit to payable invoices, within the
  amount \<open>limit\<close>.
\<close>

definition extends ::
  "db \<Rightarrow> nat \<Rightarrow> nat \<Rightarrow> nat \<Rightarrow> purchase_credit_application_row list \<Rightarrow> apply_state \<Rightarrow> int \<Rightarrow>
     purchase_credit_application_row list \<Rightarrow> apply_state \<Rightarrow> bool" where
  "extends d co s k new st limit new' st' \<longleftrightarrow> apply_inv d co k (new @ new') st' \<and>
     as_total st' \<le> as_total st + limit \<and> (\<forall>x \<in> set new'. payable_by d co s (pca_purchase_invoice_id x))"

lemma find_invoice_with_applications:
  "find_invoice (with_applications d new n) c i = find_invoice d c i"
  by (simp add: find_invoice_def with_applications_def)

lemma with_applications_simps [simp]:
  "accounts (with_applications d new n) = accounts d"
  "companies (with_applications d new n) = companies d"
  "suppliers (with_applications d new n) = suppliers d"
  "exchange_rates (with_applications d new n) = exchange_rates d"
  "purchase_orders (with_applications d new n) = purchase_orders d"
  "purchase_order_lines (with_applications d new n) = purchase_order_lines d"
  "purchase_invoices (with_applications d new n) = purchase_invoices d"
  "purchase_invoice_lines (with_applications d new n) = purchase_invoice_lines d"
  "ap_payments (with_applications d new n) = ap_payments d"
  "ap_payment_lines (with_applications d new n) = ap_payment_lines d"
  "purchase_credits (with_applications d new n) = purchase_credits d"
  "purchase_credit_lines (with_applications d new n) = purchase_credit_lines d"
  "purchase_credit_applications (with_applications d new n) = purchase_credit_applications d @ new"
  "journal_batches (with_applications d new n) = journal_batches d"
  "journal_lines (with_applications d new n) = journal_lines d"
  "t \<noteq> T_purchase_credit_application \<Longrightarrow> auto_inc (with_applications d new n) t = auto_inc d t"
  "auto_inc (with_applications d new n) T_purchase_credit_application = n"
  by (simp_all add: with_applications_def)

lemma eligible_invoice_Inr:
  "eligible_invoice d c s i = Inr u \<longleftrightarrow>
     (\<exists>pi. find_invoice d c i = Some pi \<and> pi_status pi = PI_POSTED \<and> pi_supplier_id pi = s)"
  by (auto simp: eligible_invoice_def inr_simps)

lemma apply_to_named_extends:
  assumes draft: "draft_credit d k" and inv: "apply_inv d co k new st" and "0 \<le> limit"
    and step: "apply_to_named co s k lineId now i limit st = Inr st'"
  shows "\<exists>new'. extends d co s k new st limit new' st'"
proof -
  from step obtain e where "eligible_invoice (as_db st) co s i = Inr ()"
    and eff: "effective_open co i st = Inr e"
    and st': "st' = (let a = if e < limit then e else limit in
      if a > 0 then insert_application co k lineId now i a st else st)"
    by (auto simp: apply_to_named_def inr_simps Let_def)
  then have pay: "payable_by d co s i"
    using inv by (auto simp: eligible_invoice_Inr apply_inv_def find_invoice_with_applications payable_by_def
        dest!: find_invoice_Some)
  show ?thesis
  proof (cases "0 < (if e < limit then e else limit)")
    case True
    let ?a = "if e < limit then e else limit"
    obtain x where "apply_inv d co k (new @ [x]) (insert_application co k lineId now i ?a st)"
      and "pca_purchase_invoice_id x = i"
      and "as_total (insert_application co k lineId now i ?a st) = as_total st + ?a"
      by (rule insert_application_inv [OF draft inv eff True]) auto
    with st' True pay show ?thesis by (intro exI [of _ "[x]"]) (simp add: extends_def Let_def)
  next
    case False
    with st' have "st' = st" by (simp only: Let_def if_False)
    with inv \<open>0 \<le> limit\<close> show ?thesis by (intro exI [of _ "[]"]) (simp add: extends_def)
  qed
qed

lemma apply_to_next_extends:
  assumes draft: "draft_credit d k" and inv: "apply_inv d co k new st" and r: "0 \<le> r"
    and step: "apply_to_next co k lineId now (r, st) i = Inr (r', st')" and pay: "payable_by d co s i"
  shows "\<exists>new'. extends d co s k new st (r - r') new' st' \<and> 0 \<le> r'"
proof (cases "st' = st \<and> r' = r")
  case True
  with inv r show ?thesis by (intro exI [of _ "[]"]) (simp add: extends_def)
next
  case False
  with step obtain e where eff: "effective_open co i st = Inr e" and "0 < r" "0 < e"
    and r': "r' = r - (if e < r then e else r)"
    and st': "st' = insert_application co k lineId now i (if e < r then e else r) st"
    by (auto simp: apply_to_next_def inr_simps Let_def split: if_splits)
  let ?a = "if e < r then e else r"
  have a: "0 < ?a" "?a \<le> e" "?a \<le> r" using \<open>0 < r\<close> \<open>0 < e\<close> by auto
  obtain x where "apply_inv d co k (new @ [x]) (insert_application co k lineId now i ?a st)"
    and "pca_purchase_invoice_id x = i"
    and "as_total (insert_application co k lineId now i ?a st) = as_total st + ?a"
    by (rule insert_application_inv [OF draft inv eff a(1,2)])
  with st' r' a pay show ?thesis by (intro exI [of _ "[x]"]) (simp add: extends_def)
qed

lemma extends_trans:
  assumes "extends d co s k new st l1 n1 st1" and "extends d co s k (new @ n1) st1 l2 n2 st2"
  shows "extends d co s k new st (l1 + l2) (n1 @ n2) st2"
  using assms by (auto simp: extends_def)

lemma fifo_extends:
  assumes draft: "draft_credit d k" and inv: "apply_inv d co k new st" and "0 \<le> r"
    and "foldM (apply_to_next co k lineId now) (r, st) is = Inr (r', st')"
    and "\<forall>i \<in> set is. payable_by d co s i"
  shows "\<exists>new'. extends d co s k new st (r - r') new' st' \<and> 0 \<le> r'"
  using assms(2-5)
proof (induction "is" arbitrary: r st new)
  case Nil
  then show ?case by (intro exI [of _ "[]"]) (simp add: extends_def)
next
  case (Cons i "is")
  from Cons.prems(3) obtain r1 st1 where step: "apply_to_next co k lineId now (r, st) i = Inr (r1, st1)"
    and rest: "foldM (apply_to_next co k lineId now) (r1, st1) is = Inr (r', st')"
    by (auto simp: inr_simps)
  from apply_to_next_extends [OF draft Cons.prems(1,2) step] Cons.prems(4)
  obtain n1 where n1: "extends d co s k new st (r - r1) n1 st1" "0 \<le> r1" by auto
  then have "apply_inv d co k (new @ n1) st1" by (simp add: extends_def)
  from Cons.IH [OF this n1(2) rest] Cons.prems(4)
  obtain n2 where "extends d co s k (new @ n1) st1 (r1 - r') n2 st'" "0 \<le> r'" by auto
  with extends_trans [OF n1(1) this(1)] show ?case by auto
qed

lemma apply_line_extends:
  assumes draft: "draft_credit d k" and inv: "apply_inv d co k new st"
    and fifo: "\<forall>i \<in> set is. payable_by d co s i"
    and step: "apply_line co s k now is st l = Inr st'"
  shows "\<exists>new'. extends d co s k new st (pcl_line_amount l) new' st' \<and> 0 \<le> pcl_line_amount l"
proof -
  have pos: "0 \<le> pcl_line_amount l" using step by (auto simp: apply_line_def inr_simps)
  show ?thesis
  proof (cases "truthy_id (pcl_purchase_invoice_id l)")
    case None
    with step obtain r' where
      "foldM (apply_to_next co k (pcl_id l) now) (pcl_line_amount l, st) is = Inr (r', st')"
      by (auto simp: apply_line_def inr_simps)
    from fifo_extends [OF draft inv pos this fifo] pos show ?thesis by (auto simp: extends_def)
  next
    case (Some i)
    with step have "apply_to_named co s k (pcl_id l) now i (pcl_line_amount l) st = Inr st'"
      by (auto simp: apply_line_def inr_simps simp del: truthy_id_Some)
    from apply_to_named_extends [OF draft inv pos this] pos show ?thesis by blast
  qed
qed

lemma apply_loop_extends:
  assumes draft: "draft_credit d k" and inv: "apply_inv d co k new st"
    and fifo: "\<forall>i \<in> set is. payable_by d co s i"
    and "foldM (apply_line co s k now is) st ls = Inr st'"
  shows "\<exists>new'. extends d co s k new st (sum_list (map pcl_line_amount ls)) new' st'"
  using assms(2,4)
proof (induction ls arbitrary: st new)
  case Nil
  then show ?case by (intro exI [of _ "[]"]) (simp add: extends_def)
next
  case (Cons l ls)
  from Cons.prems(2) obtain st1 where step: "apply_line co s k now is st l = Inr st1"
    and rest: "foldM (apply_line co s k now is) st1 ls = Inr st'"
    by (auto simp: inr_simps)
  from apply_line_extends [OF draft Cons.prems(1) fifo step]
  obtain n1 where n1: "extends d co s k new st (pcl_line_amount l) n1 st1" by blast
  then have "apply_inv d co k (new @ n1) st1" by (simp add: extends_def)
  from Cons.IH [OF this rest] obtain n2 where
    "extends d co s k (new @ n1) st1 (sum_list (map pcl_line_amount ls)) n2 st'" by blast
  with extends_trans [OF n1 this] show ?case by auto
qed

lemma fifo_payable: "i \<in> set (fifo_invoices d co s) \<Longrightarrow> payable_by d co s i"
  by (auto simp: fifo_invoices_def payable_by_def)

text \<open>The loop as a whole.\<close>

lemma apply_lines_result:
  assumes "draft_credit d (pc_id c)" and "apply_lines co c now d = Inr st"
  obtains new n where "as_db st = with_applications d new n"
    and "auto_inc d T_purchase_credit_application \<le> n"
    and "map pca_id new = [Suc (auto_inc d T_purchase_credit_application)..<Suc n]"
    and "own_applications co (pc_id c) new"
    and "as_total st = sum_list (map pca_applied_amount new)"
    and "as_total st \<le> sum_list (map pcl_line_amount (credit_lines d (pc_id c)))"
    and "\<forall>a \<in> set new. payable_by d co (pc_supplier_id c) (pca_purchase_invoice_id a)"
    and "\<forall>a \<in> set new. \<exists>v. computePurchaseInvoiceOpenAmount d co (pca_purchase_invoice_id a) = Inr v \<and>
      applied_to (pca_purchase_invoice_id a) new \<le> v"
proof -
  let ?st0 = "\<lparr>as_db = d, as_total = 0, as_applied = []\<rparr>"
  have "apply_inv d co (pc_id c) [] ?st0"
    by (auto simp: apply_inv_def own_applications_def with_applications_def
        intro!: exI [of _ "auto_inc d T_purchase_credit_application"])
  from apply_loop_extends [OF assms(1) this _ assms(2) [unfolded apply_lines_def]] fifo_payable
  obtain new where "extends d co (pc_supplier_id c) (pc_id c) [] ?st0
      (sum_list (map pcl_line_amount (credit_lines d (pc_id c)))) new st" by blast
  then show thesis using that by (auto simp: extends_def apply_inv_def)
qed

section \<open>Effect on the open amounts\<close>

lemma credit_counts_change:
  assumes keys: "credit_keys d" and r: "r \<in> set (purchase_credits d)"
    and upd: "purchase_credits d' = update_where (\<lambda>q. pc_id q = pc_id r) f (purchase_credits d)"
    and f: "\<And>q. pc_id (f q) = pc_id q"
  shows "credit_counts d' c a \<longleftrightarrow>
    (if pca_purchase_credit_id a = pc_id r then pca_company_id a = c \<and> pc_status (f r) \<in> {PC_PARTIAL, PC_APPLIED}
     else credit_counts d c a)"
proof -
  have only: "q = r" if "q \<in> set (purchase_credits d)" "pc_id q = pc_id r" for q
    using that r keys distinct_map_eq unfolding credit_keys_def by metis
  have counts: "credit_counts d' c a \<longleftrightarrow> pca_company_id a = c \<and> (\<exists>q \<in> set (purchase_credits d).
      if pc_id q = pc_id r
      then pc_id q = pca_purchase_credit_id a \<and> pc_status (f q) \<in> {PC_PARTIAL, PC_APPLIED}
      else pc_id q = pca_purchase_credit_id a \<and> pc_status q \<in> {PC_PARTIAL, PC_APPLIED})"
    by (simp add: credit_counts_def upd bex_update_where f)
  show ?thesis
  proof (cases "pca_purchase_credit_id a = pc_id r")
    case True
    then show ?thesis unfolding counts using only r by (auto split: if_splits)
  next
    case False
    then show ?thesis unfolding counts
      by (simp add: credit_counts_def) (rule conj_cong [OF refl], rule bex_cong, auto)
  qed
qed

lemma draft_credit_keys:
  assumes "credit_keys d" and "r \<in> set (purchase_credits d)" and "pc_status r = PC_DRAFT"
  shows "draft_credit d (pc_id r)"
  using assms distinct_map_eq unfolding draft_credit_def credit_keys_def by metis

definition unapplied :: "db \<Rightarrow> nat \<Rightarrow> bool" where
  "unapplied d k \<longleftrightarrow> (\<forall>a \<in> set (purchase_credit_applications d). pca_purchase_credit_id a \<noteq> k)"

lemma credited_total_applied:
  assumes keys: "credit_keys d" and r: "r \<in> set (purchase_credits d)" and un: "unapplied d (pc_id r)"
    and new: "own_applications co (pc_id r) new"
    and upd: "purchase_credits d' = update_where (\<lambda>q. pc_id q = pc_id r) f (purchase_credits d)"
    and f: "\<And>q. pc_id (f q) = pc_id q" and st: "pc_status (f r) \<in> {PC_PARTIAL, PC_APPLIED}"
    and apps: "purchase_credit_applications d' = purchase_credit_applications d @ new"
  shows "credited_total d' c i = credited_total d c i + (if c = co then applied_to i new else 0)"
proof -
  note counts = credit_counts_change [OF keys r upd f]
  have "filter (credit_counts d' c) (purchase_credit_applications d) =
      filter (credit_counts d c) (purchase_credit_applications d)"
    using un by (intro filter_cong) (auto simp: counts unapplied_def)
  moreover have "filter (credit_counts d' c) new = (if c = co then new else [])"
    using new st by (auto simp: counts own_applications_def filter_id_conv filter_empty_conv)
  ultimately show ?thesis by (simp add: credited_total_def apps)
qed

text \<open>
  The void writes its own words and the credit's id before the description of the application,
  which already holds the credit number and the supplier's name: 211 characters are left for
  the three of them.
\<close>

definition credit_void_fits :: "db \<Rightarrow> nat \<Rightarrow> nat \<Rightarrow> bool" where
  "credit_void_fits d co k \<longleftrightarrow>
     (case find_credit d co k of None \<Rightarrow> False | Some r \<Rightarrow>
       (case find_supplier d co (pc_supplier_id r) of None \<Rightarrow> False | Some s \<Rightarrow>
          length (pc_credit_no r) + length (sup_name s) + length (nat_str k) \<le> 211))"

lemma void_description_fits:
  "description_fits (void_description k (''Purchase Credit '' @ no @ '' - '' @ nm)) \<longleftrightarrow>
     length no + length nm + length (nat_str k) \<le> 211"
  by (auto simp: description_fits_def void_description_def)

lemma applyPurchaseCredit_Inr:
  assumes "applyPurchaseCredit co u k g rs now d = Inr (res, d')"
  obtains r st newStatus newApplied es b apAcc expAcc desc where "find_credit d co k = Some r"
    and "pc_status r = PC_DRAFT" and "apply_lines co r now d = Inr st" and "0 < as_total st"
    and "getPurchasingAccountsForUpdate (as_db st) co = Inr (apAcc, expAcc)"
    and "mapM to_entry (credit_journal apAcc expAcc (fromScaled4 (as_total st)) desc) = Inr es"
    and "list_all entry_ok es" and "b = next_id (as_db st) T_journal_batch"
    and "newApplied = pc_applied_amount r + as_total st" and "rpa_journal_batch_id res = b"
    and "newStatus = (if pc_total_credit_amount r - newApplied > 0 then PC_PARTIAL else PC_APPLIED)"
    and "rpa_applied_amount res = fromScaled4 (as_total st)"
    and "d' = record_override g rs co u ''PURCHASE_CREDIT'' k now
      (mark_credit_applied k newStatus newApplied b u now
        (posted_db co ''PURCHASE_CREDIT'' k (pc_credit_date r) now es (as_db st)))"
    and "credit_void_fits d co k \<longleftrightarrow> description_fits (void_description k desc)"
proof -
  from assms obtain r s st where r: "find_credit d co k = Some r" "pc_status r = PC_DRAFT"
    and sup: "find_supplier d co (pc_supplier_id r) = Some s"
    and st: "apply_lines co r now d = Inr st"
    and commit: "commit_credit co u r s g rs now (as_total st) (as_db st) = Inr (res, d')"
    by (auto simp: applyPurchaseCredit_def credit_active_supplier_def inr_simps)
  have k: "pc_id r = k" using find_credit_Some [OF r(1)] by simp
  from commit obtain apAcc expAcc es where
    acc: "getPurchasingAccountsForUpdate (as_db st) co = Inr (apAcc, expAcc)"
    and es: "mapM to_entry (credit_journal apAcc expAcc (fromScaled4 (as_total st))
      (''Purchase Credit '' @ pc_credit_no r @ '' - '' @ sup_name s)) = Inr es"
    and ok: "list_all entry_ok es" and tot: "0 < as_total st"
    and res: "rpa_journal_batch_id res = next_id (as_db st) T_journal_batch"
      "rpa_applied_amount res = fromScaled4 (as_total st)"
    and d': "d' = record_override g rs co u ''PURCHASE_CREDIT'' k now
      (mark_credit_applied k
        (if pc_total_credit_amount r - (pc_applied_amount r + as_total st) > 0 then PC_PARTIAL else PC_APPLIED)
        (pc_applied_amount r + as_total st) (next_id (as_db st) T_journal_batch) u now
        (posted_db co ''PURCHASE_CREDIT'' k (pc_credit_date r) now es (as_db st)))"
    by (auto simp: commit_credit_def post_inputs_def inr_simps Let_def k)
  have "credit_void_fits d co k \<longleftrightarrow>
      description_fits (void_description k (''Purchase Credit '' @ pc_credit_no r @ '' - '' @ sup_name s))"
    by (simp only: credit_void_fits_def r(1) sup option.case void_description_fits)
  then show thesis by (rule that [OF r st tot acc es ok refl refl res(1) refl res(2) d'])
qed


lemma mark_credit_simps [simp]:
  "accounts (mark_credit_applied k ns na b u now d) = accounts d"
  "suppliers (mark_credit_applied k ns na b u now d) = suppliers d"
  "purchase_invoices (mark_credit_applied k ns na b u now d) = purchase_invoices d"
  "ap_payments (mark_credit_applied k ns na b u now d) = ap_payments d"
  "ap_payment_lines (mark_credit_applied k ns na b u now d) = ap_payment_lines d"
  "purchase_credit_lines (mark_credit_applied k ns na b u now d) = purchase_credit_lines d"
  "purchase_credit_applications (mark_credit_applied k ns na b u now d) = purchase_credit_applications d"
  "journal_lines (mark_credit_applied k ns na b u now d) = journal_lines d"
  "auto_inc (mark_credit_applied k ns na b u now d) = auto_inc d"
  "accounts (mark_credit_void k u now d) = accounts d"
  "suppliers (mark_credit_void k u now d) = suppliers d"
  "purchase_invoices (mark_credit_void k u now d) = purchase_invoices d"
  "ap_payments (mark_credit_void k u now d) = ap_payments d"
  "ap_payment_lines (mark_credit_void k u now d) = ap_payment_lines d"
  "purchase_credit_lines (mark_credit_void k u now d) = purchase_credit_lines d"
  "purchase_credit_applications (mark_credit_void k u now d) = purchase_credit_applications d"
  "journal_lines (mark_credit_void k u now d) = journal_lines d"
  "auto_inc (mark_credit_void k u now d) = auto_inc d"
  by (simp_all add: mark_credit_applied_def mark_credit_void_def)

lemma purchase_credits_mark [simp]:
  "purchase_credits (mark_credit_applied k ns na b u now d) = update_where (\<lambda>c. pc_id c = k)
     (\<lambda>c. c\<lparr>pc_status := ns, pc_applied_amount := na, pc_journal_batch_id := Some b,
        pc_posted_at := Some now, pc_posted_by_user_id := Some u, pc_updated_at := now\<rparr>) (purchase_credits d)"
  "purchase_credits (mark_credit_void k u now d) = update_where (\<lambda>c. pc_id c = k)
     (\<lambda>c. c\<lparr>pc_status := PC_VOID, pc_applied_amount := 0, pc_voided_at := Some now,
        pc_voided_by_user_id := Some u, pc_updated_at := now\<rparr>) (purchase_credits d)"
  by (simp_all add: mark_credit_applied_def mark_credit_void_def)

text \<open>
  An application: the new rows belong to the credit, add up to the amount applied, stay within
  the credit's lines and within what each invoice has open, and are taken off exactly there.
\<close>

lemma applyPurchaseCredit_effect:
  assumes keys: "credit_keys d" and un: "unapplied d k"
    and app: "applyPurchaseCredit co u k g rs now d = Inr (res, d')"
  obtains new where "purchase_credit_applications d' = purchase_credit_applications d @ new"
    and "own_applications co k new"
    and "sum_list (map pca_applied_amount new) \<le> sum_list (map pcl_line_amount (credit_lines d k))"
    and "rpa_applied_amount res = fromScaled4 (sum_list (map pca_applied_amount new))"
    and "0 < sum_list (map pca_applied_amount new)"
    and "\<forall>a \<in> set new. \<exists>s. payable_by d co s (pca_purchase_invoice_id a)"
    and "\<forall>pi. open_amount d' pi = open_amount d pi -
      (if pi_company_id pi = co then applied_to (pi_id pi) new else 0)"
    and "\<forall>a \<in> set new. \<forall>pi. find_invoice d co (pca_purchase_invoice_id a) = Some pi \<longrightarrow>
      0 \<le> open_amount d' pi"
    and "purchase_invoices d' = purchase_invoices d" and "ap_payments d' = ap_payments d"
    and "ap_payment_lines d' = ap_payment_lines d"
proof -
  from app obtain r st ns na es where r: "find_credit d co k = Some r" "pc_status r = PC_DRAFT"
    and st: "apply_lines co r now d = Inr st" and tot: "0 < as_total st"
    and ns: "ns = (if pc_total_credit_amount r - na > 0 then PC_PARTIAL else PC_APPLIED)"
    and res: "rpa_applied_amount res = fromScaled4 (as_total st)"
    and d': "d' = record_override g rs co u ''PURCHASE_CREDIT'' k now
      (mark_credit_applied k ns na (next_id (as_db st) T_journal_batch) u now
        (posted_db co ''PURCHASE_CREDIT'' k (pc_credit_date r) now es (as_db st)))"
    by (rule applyPurchaseCredit_Inr) blast
  note rr = find_credit_Some [OF r(1)]
  have draft: "draft_credit d (pc_id r)" using draft_credit_keys [OF keys] rr r(2) by blast
  obtain new n where db: "as_db st = with_applications d new n"
    and "auto_inc d T_purchase_credit_application \<le> n"
    and "map pca_id new = [Suc (auto_inc d T_purchase_credit_application)..<Suc n]" and own: "own_applications co (pc_id r) new"
    and sum: "as_total st = sum_list (map pca_applied_amount new)"
    and le: "as_total st \<le> sum_list (map pcl_line_amount (credit_lines d (pc_id r)))"
    and pay: "\<forall>a \<in> set new. payable_by d co (pc_supplier_id r) (pca_purchase_invoice_id a)"
    and open_le: "\<forall>a \<in> set new. \<exists>v. computePurchaseInvoiceOpenAmount d co (pca_purchase_invoice_id a) = Inr v \<and>
      applied_to (pca_purchase_invoice_id a) new \<le> v"
    by (rule apply_lines_result [OF draft st])
  have apps: "purchase_credit_applications d' = purchase_credit_applications d @ new"
    by (simp add: d' db)
  have credited: "credited_total d' c i = credited_total d c i + (if c = co then applied_to i new else 0)" for c i
    by (rule credited_total_applied [OF keys _ _ own, where f = "\<lambda>c. c\<lparr>pc_status := ns, pc_applied_amount := na,
        pc_journal_batch_id := Some (next_id (as_db st) T_journal_batch), pc_posted_at := Some now,
        pc_posted_by_user_id := Some u, pc_updated_at := now\<rparr>"])
      (use rr un ns in \<open>simp_all add: d' db\<close>)
  have paid: "paid_total d' c i = paid_total d c i" for c i
    by (simp add: paid_total_def d' db payment_counts_def [abs_def])
  have opens: "open_amount d' pi = open_amount d pi -
      (if pi_company_id pi = co then applied_to (pi_id pi) new else 0)" for pi
    by (simp add: open_amount_def credited paid)
  have nonneg: "0 \<le> open_amount d' pi"
    if a: "a \<in> set new" and pi: "find_invoice d co (pca_purchase_invoice_id a) = Some pi" for a pi
    using bspec [OF open_le a] computeOpen_value [OF _ pi] find_invoice_Some [OF pi] by (auto simp: opens)
  show thesis
    by (rule that [OF apps]) (use own rr le sum res tot pay opens nonneg in \<open>auto simp: d' db\<close>)
qed

section \<open>The journal of an application and its reversal\<close>

lemma credit_journal_entries:
  assumes "mapM to_entry (credit_journal apAcc expAcc (fromScaled4 v) desc) = Inr es" and "0 < v"
  shows "es = [\<lparr>le_account = apAcc, le_debit = sql_round_div v 100, le_credit = 0, le_description = desc\<rparr>,
    \<lparr>le_account = expAcc, le_debit = 0, le_credit = sql_round_div v 100, le_description = desc\<rparr>]"
  using assms by (auto simp: credit_journal_def to_entry_def column_dec2_fromScaled4 inr_simps)

lemma applyPurchaseCredit_state:
  assumes wf: "wf_ledger d" and keys: "credit_keys d"
    and app: "applyPurchaseCredit co u k g rs now d = Inr (res, d')"
  obtains r where "find_credit d' co k = Some r" and "pc_status r \<in> {PC_PARTIAL, PC_APPLIED}"
    and "pc_journal_batch_id r = Some (rpa_journal_batch_id res)" and "rpa_journal_batch_id res \<noteq> 0"
    and "wf_ledger d'" and "credit_keys d'"
    and "\<exists>x. credit_active_supplier d' co (pc_supplier_id r) = Inr x"
    and "\<exists>v apAcc expAcc desc. 0 < v \<and> rpa_applied_amount res = fromScaled4 v \<and>
      (credit_void_fits d co k \<longleftrightarrow> description_fits (void_description k desc)) \<and>
      list_all entry_ok (batch_entries d' co (rpa_journal_batch_id res)) \<and>
      batch_entries d' co (rpa_journal_batch_id res) =
       [\<lparr>le_account = apAcc, le_debit = sql_round_div v 100, le_credit = 0, le_description = desc\<rparr>,
        \<lparr>le_account = expAcc, le_debit = 0, le_credit = sql_round_div v 100, le_description = desc\<rparr>]"
proof -
  obtain r st ns na es apAcc expAcc desc where r: "find_credit d co k = Some r" "pc_status r = PC_DRAFT"
    and st: "apply_lines co r now d = Inr st" and tot: "0 < as_total st"
    and es: "mapM to_entry (credit_journal apAcc expAcc (fromScaled4 (as_total st)) desc) = Inr es"
    and ok: "list_all entry_ok es"
    and b: "rpa_journal_batch_id res = next_id (as_db st) T_journal_batch"
    and ns: "ns = (if pc_total_credit_amount r - na > 0 then PC_PARTIAL else PC_APPLIED)"
    and amt: "rpa_applied_amount res = fromScaled4 (as_total st)"
    and d': "d' = record_override g rs co u ''PURCHASE_CREDIT'' k now
      (mark_credit_applied k ns na (next_id (as_db st) T_journal_batch) u now
        (posted_db co ''PURCHASE_CREDIT'' k (pc_credit_date r) now es (as_db st)))"
    and fits: "credit_void_fits d co k \<longleftrightarrow> description_fits (void_description k desc)"
    by (rule applyPurchaseCredit_Inr [OF app]) blast
  note rr = find_credit_Some [OF r(1)]
  obtain new n where db: "as_db st = with_applications d new n"
    by (rule apply_lines_result [OF _ st]) (use draft_credit_keys [OF keys] rr r(2) in blast)+
  have wf1: "wf_ledger (with_applications d new n)" using wf by (simp add: wf_ledger_def)
  let ?b = "next_id (as_db st) T_journal_batch"
  let ?r = "r\<lparr>pc_status := ns, pc_applied_amount := na, pc_journal_batch_id := Some ?b,
      pc_posted_at := Some now, pc_posted_by_user_id := Some u, pc_updated_at := now\<rparr>"
  have find: "find_credit d' co k = Some ?r"
    using r(1) rr by (simp add: find_credit_def d' db find_update_where)
  have entries: "batch_entries d' co ?b = es"
    using batch_entries_posted [OF wf1, of co "''PURCHASE_CREDIT''" k "pc_credit_date r" now es co]
    by (simp add: d' db batch_entries_def)
  have wf': "wf_ledger d'"
    using wf_ledger_posted [OF wf1, of co "''PURCHASE_CREDIT''" k "pc_credit_date r" now es]
    by (simp add: d' db wf_ledger_def)
  have keys': "credit_keys d'"
    using keys by (simp add: credit_keys_def d' db update_where_map_id)
  have sup: "\<exists>x. credit_active_supplier d' co (pc_supplier_id ?r) = Inr x"
    using app r by (auto simp: applyPurchaseCredit_def inr_simps credit_active_supplier_def find_supplier_def d' db)
  show thesis
    by (rule that [of ?r])
      (use find ns sup wf' keys' tot ok amt fits entries credit_journal_entries [OF es tot]
        in \<open>auto simp: b next_id_def\<close>)
qed

lemma applyPurchaseCredit_void_free:
  assumes "applyPurchaseCredit co u k g rs now d = Inr (res, d')" and "batch_free d co ''PURCHASE_CREDIT_VOID'' k"
    and "credit_keys d"
  shows "batch_free d' co ''PURCHASE_CREDIT_VOID'' k"
proof -
  obtain r st ns na es where r: "find_credit d co k = Some r" "pc_status r = PC_DRAFT"
    and st: "apply_lines co r now d = Inr st"
    and d': "d' = record_override g rs co u ''PURCHASE_CREDIT'' k now
      (mark_credit_applied k ns na (next_id (as_db st) T_journal_batch) u now
        (posted_db co ''PURCHASE_CREDIT'' k (pc_credit_date r) now es (as_db st)))"
    by (rule applyPurchaseCredit_Inr [OF assms(1)]) blast
  obtain new n where "as_db st = with_applications d new n"
    by (rule apply_lines_result [OF _ st])
      (use draft_credit_keys [OF assms(3)] find_credit_Some [OF r(1)] r(2) in blast)+
  then have "journal_batches (as_db st) = journal_batches d" by simp
  with assms(2) show ?thesis by (simp add: d' batch_free_def posted_db_def mark_credit_applied_def)
qed

lemma voidPurchaseCredit_Inr:
  assumes "voidPurchaseCredit co u k g rs now d = Inr (res, d')" and "find_credit d co k = Some r"
    and "pc_status r \<noteq> PC_VOID"
  obtains b b' where "pc_status r \<in> {PC_PARTIAL, PC_APPLIED}" and "pc_journal_batch_id r = Some b"
    and "batch_entries d co b \<noteq> []" and "res = (k, Some b')"
    and "post_journal co ''PURCHASE_CREDIT_VOID'' k (pc_credit_date r) now
      (map (reverse_entry (void_description k)) (batch_entries d co b)) d =
      Inr (b', posted_db co ''PURCHASE_CREDIT_VOID'' k (pc_credit_date r) now
        (map (reverse_entry (void_description k)) (batch_entries d co b)) d)"
    and "d' = record_override g rs co u ''PURCHASE_CREDIT_VOID'' k now (mark_credit_void k u now
      (posted_db co ''PURCHASE_CREDIT_VOID'' k (pc_credit_date r) now
        (map (reverse_entry (void_description k)) (batch_entries d co b)) d))"
  using assms by (auto simp: voidPurchaseCredit_def inr_simps intro: that)

lemma voidPurchaseCredit_total:
  assumes "find_credit d co k = Some r" and "pc_status r \<in> {PC_PARTIAL, PC_APPLIED}"
    and "pc_journal_batch_id r = Some b" and "b \<noteq> 0"
    and "\<exists>x. credit_active_supplier d co (pc_supplier_id r) = Inr x"
    and "batch_entries d co b \<noteq> []" and ok: "list_all entry_ok (batch_entries d co b)"
    and "batch_free d co ''PURCHASE_CREDIT_VOID'' k"
  shows "if reversal_fits (void_description k) (batch_entries d co b)
    then \<exists>b' d'. voidPurchaseCredit co u k g rs now d = Inr ((k, Some b'), d')
    else voidPurchaseCredit co u k g rs now d = Inl (ER_DATA_TOO_LONG ''description'')"
  using assms(1-6,8) by (auto simp: voidPurchaseCredit_def truthy_id_def post_reversal_eq [OF ok])

lemma credited_total_void:
  assumes keys: "credit_keys d" and r: "r \<in> set (purchase_credits d)"
    and st: "pc_status r \<in> {PC_PARTIAL, PC_APPLIED}"
    and upd: "purchase_credits d' = update_where (\<lambda>q. pc_id q = pc_id r) f (purchase_credits d)"
    and f: "\<And>q. pc_id (f q) = pc_id q" and st': "pc_status (f r) = PC_VOID"
    and apps: "purchase_credit_applications d' = purchase_credit_applications d"
  shows "credited_total d c i = credited_total d' c i +
    applied_to i (filter (\<lambda>a. pca_purchase_credit_id a = pc_id r \<and> pca_company_id a = c)
      (purchase_credit_applications d))"
proof -
  note counts' = credit_counts_change [OF keys r upd f]
  have same: "purchase_credits d = update_where (\<lambda>q. pc_id q = pc_id r) id (purchase_credits d)"
    by (simp add: update_where_def map_idI)
  have counts: "credit_counts d c a \<longleftrightarrow> (if pca_purchase_credit_id a = pc_id r then pca_company_id a = c
      else credit_counts d' c a)" for a
  proof (cases "pca_purchase_credit_id a = pc_id r")
    case True
    then show ?thesis using st by (subst credit_counts_change [OF keys r same]) simp_all
  qed (simp add: counts')
  have voided: "pca_purchase_credit_id a = pc_id r \<Longrightarrow> \<not> credit_counts d' c a" for a
    by (simp add: counts' st')
  show ?thesis
    unfolding credited_total_def apps
    by (rule sum_for_split) (use voided in \<open>auto simp: counts\<close>)
qed


lemma voidPurchaseCredit_effect:
  assumes wf: "wf_ledger d" and keys: "credit_keys d"
    and void: "voidPurchaseCredit co u k g rs now d = Inr ((k', b'), d')"
    and r: "find_credit d co k = Some r" and "pc_status r \<noteq> PC_VOID"
    and batch: "pc_journal_batch_id r = Some b"
  shows "open_amount d' pi = open_amount d pi + applied_to (pi_id pi)
      (filter (\<lambda>a. pca_purchase_credit_id a = k \<and> pca_company_id a = pi_company_id pi)
        (purchase_credit_applications d))"
    and "\<exists>b''. b' = Some b'' \<and> (\<forall>a. account_net a (batch_entries d' co b) + account_net a (batch_entries d' co b'') = 0)"
    and "purchase_credit_applications d' = purchase_credit_applications d"
    and "credit_keys d'" and "wf_ledger d'"
proof -
  let ?es = "map (reverse_entry (void_description k)) (batch_entries d co b)"
  let ?s = "posted_db co ''PURCHASE_CREDIT_VOID'' k (pc_credit_date r) now ?es d"
  obtain b'' where st: "pc_status r \<in> {PC_PARTIAL, PC_APPLIED}" and ne: "batch_entries d co b \<noteq> []"
    and b': "b' = Some b''"
    and post: "post_journal co ''PURCHASE_CREDIT_VOID'' k (pc_credit_date r) now ?es d = Inr (b'', ?s)"
    and d': "d' = record_override g rs co u ''PURCHASE_CREDIT_VOID'' k now (mark_credit_void k u now ?s)"
    by (rule voidPurchaseCredit_Inr [OF void r assms(5)]) (use batch in auto)
  note rr = find_credit_Some [OF r]
  have "credited_total d c i = credited_total d' c i +
      applied_to i (filter (\<lambda>a. pca_purchase_credit_id a = pc_id r \<and> pca_company_id a = c)
        (purchase_credit_applications d))" for c i
    by (rule credited_total_void [OF keys _ st, where f = "\<lambda>c. c\<lparr>pc_status := PC_VOID, pc_applied_amount := 0,
        pc_voided_at := Some now, pc_voided_by_user_id := Some u, pc_updated_at := now\<rparr>"])
      (use rr in \<open>simp_all add: d'\<close>)
  moreover have "paid_total d' c i = paid_total d c i" for c i
    by (simp add: paid_total_def d' payment_counts_def [abs_def])
  ultimately show "open_amount d' pi = open_amount d pi + applied_to (pi_id pi)
      (filter (\<lambda>a. pca_purchase_credit_id a = k \<and> pca_company_id a = pi_company_id pi)
        (purchase_credit_applications d))"
    using rr by (simp add: open_amount_def)
  have "batch_entries d' co = batch_entries ?s co" by (simp add: batch_entries_def d' fun_eq_iff)
  with gl.post_reversal(2) [OF wf ne post]
  have "\<forall>a. account_net a (batch_entries d' co b) + account_net a (batch_entries d' co b'') = 0" by simp
  with b' show "\<exists>b''. b' = Some b'' \<and>
      (\<forall>a. account_net a (batch_entries d' co b) + account_net a (batch_entries d' co b'') = 0)" by blast
  show "purchase_credit_applications d' = purchase_credit_applications d" by (simp add: d')
  show "credit_keys d'" using keys by (simp add: credit_keys_def d' update_where_map_id)
  show "wf_ledger d'"
    using wf_ledger_posted [OF wf, of co "''PURCHASE_CREDIT_VOID''" k "pc_credit_date r" now ?es]
    by (simp add: wf_ledger_def d')
qed

section \<open>The sample credit\<close>

lemma sample_credit_applies:
  obtains res d' where "applyPurchaseCredit 1 7 1 None None 100 sample_db = Inr (res, d')"
    and "rpa_applied_amount res = ''30.0000''" and "rpa_status res = ''APPLIED''"
proof -
  have "case applyPurchaseCredit 1 7 1 None None 100 sample_db of
      Inr (res, d') \<Rightarrow> rpa_applied_amount res = ''30.0000'' \<and> rpa_status res = ''APPLIED'' | _ \<Rightarrow> False"
    by code_simp
  with that show thesis by (auto split: sum.splits prod.splits)
qed

lemma sample_credit_state:
  "credit_keys sample_db" "unapplied sample_db 1" "wf_ledger sample_db"
  by code_simp+

section \<open>Properties\<close>

text \<open>
  C17: Applying a credit adds positive applications that together are the reported amount and
  at most the credit's lines, all of them on posted invoices of the company; every open amount
  falls by exactly what was applied to it, and no invoice the credit touches ends below zero.
\<close>

theorem applyPurchaseCredit_within_limits:
  assumes "credit_keys d" and "unapplied d k"
    and "applyPurchaseCredit co u k g rs now d = Inr (res, d')"
  shows "\<exists>new. purchase_credit_applications d' = purchase_credit_applications d @ new \<and>
    (\<forall>a \<in> set new. pca_purchase_credit_id a = k \<and> pca_company_id a = co \<and> 0 < pca_applied_amount a) \<and>
    rpa_applied_amount res = fromScaled4 (sum_list (map pca_applied_amount new)) \<and>
    sum_list (map pca_applied_amount new) \<le> sum_list (map pcl_line_amount (credit_lines d k)) \<and>
    (\<forall>a \<in> set new. \<exists>s. payable_by d co s (pca_purchase_invoice_id a)) \<and>
    (\<forall>pi. open_amount d' pi = open_amount d pi -
       (if pi_company_id pi = co then sum_for pca_purchase_invoice_id pca_applied_amount (pi_id pi) new else 0)) \<and>
    (\<forall>a \<in> set new. \<forall>pi. find_invoice d co (pca_purchase_invoice_id a) = Some pi \<longrightarrow> 0 \<le> open_amount d' pi)"
  by (rule applyPurchaseCredit_effect [OF assms]) (auto simp: own_applications_def)

theorem applyPurchaseCredit_within_limits_witness:
  "\<exists>res d' new. applyPurchaseCredit 1 7 1 None None 100 sample_db = Inr (res, d') \<and>
     purchase_credit_applications d' = purchase_credit_applications sample_db @ new \<and>
     ''30.0000'' = fromScaled4 (sum_list (map pca_applied_amount new))"
proof -
  obtain res d' where app: "applyPurchaseCredit 1 7 1 None None 100 sample_db = Inr (res, d')"
    and "rpa_applied_amount res = ''30.0000''"
    by (rule sample_credit_applies)
  with applyPurchaseCredit_within_limits [OF sample_credit_state(1,2) app] show ?thesis by metis
qed

text \<open>
  C26: A credit that was just applied can be voided, as long as the ledger holds no void of it and
  the description of the void fits its column; the void restores every open amount and leaves
  every account at zero over the two balanced batches.  If the description does not fit, the void
  is refused with the database's error.
\<close>

theorem apply_void_credit:
  assumes "wf_ledger d" and "credit_keys d" and "unapplied d k"
    and "applyPurchaseCredit co u k g rs now d = Inr (res, d1)"
    and "batch_free d co ''PURCHASE_CREDIT_VOID'' k"
  shows "if credit_void_fits d co k
    then \<exists>b' d2. voidPurchaseCredit co u' k g' rs' now' d1 = Inr ((k, Some b'), d2) \<and>
      (\<forall>pi. open_amount d2 pi = open_amount d pi) \<and>
      debits (batch_entries d1 co (rpa_journal_batch_id res)) = credits (batch_entries d1 co (rpa_journal_batch_id res)) \<and>
      (\<forall>a. account_net a (batch_entries d2 co (rpa_journal_batch_id res)) +
         account_net a (batch_entries d2 co b') = 0)
    else voidPurchaseCredit co u' k g' rs' now' d1 = Inl (ER_DATA_TOO_LONG ''description'')"
proof -
  let ?b = "rpa_journal_batch_id res"
  obtain r where r: "find_credit d1 co k = Some r" "pc_status r \<in> {PC_PARTIAL, PC_APPLIED}"
    "pc_journal_batch_id r = Some ?b" "?b \<noteq> 0"
    and wf1: "wf_ledger d1" and keys1: "credit_keys d1"
    and sup: "\<exists>x. credit_active_supplier d1 co (pc_supplier_id r) = Inr x"
    and j: "\<exists>v apAcc expAcc desc. 0 < v \<and> rpa_applied_amount res = fromScaled4 v \<and>
      (credit_void_fits d co k \<longleftrightarrow> description_fits (void_description k desc)) \<and>
      list_all entry_ok (batch_entries d1 co ?b) \<and> batch_entries d1 co ?b =
       [\<lparr>le_account = apAcc, le_debit = sql_round_div v 100, le_credit = 0, le_description = desc\<rparr>,
        \<lparr>le_account = expAcc, le_debit = 0, le_credit = sql_round_div v 100, le_description = desc\<rparr>]"
    by (rule applyPurchaseCredit_state [OF assms(1,2,4)])
  obtain new where apps: "purchase_credit_applications d1 = purchase_credit_applications d @ new"
    and own: "own_applications co k new"
    and opens: "\<forall>pi. open_amount d1 pi = open_amount d pi -
      (if pi_company_id pi = co then applied_to (pi_id pi) new else 0)"
    by (rule applyPurchaseCredit_effect [OF assms(2-4)])
  have fits: "reversal_fits (void_description k) (batch_entries d1 co ?b) \<longleftrightarrow> credit_void_fits d co k"
    using j by (auto simp: reversal_fits_def)
  have total: "if credit_void_fits d co k
    then \<exists>b' d2. voidPurchaseCredit co u' k g' rs' now' d1 = Inr ((k, Some b'), d2)
    else voidPurchaseCredit co u' k g' rs' now' d1 = Inl (ER_DATA_TOO_LONG ''description'')"
    unfolding fits [symmetric]
    by (rule voidPurchaseCredit_total [OF r sup]) (use j applyPurchaseCredit_void_free [OF assms(4,5,2)] in auto)
  have not_void: "pc_status r \<noteq> PC_VOID" using r(2) by auto
  have opens_back: "open_amount d2 pi = open_amount d pi"
    if void: "voidPurchaseCredit co u' k g' rs' now' d1 = Inr ((k, Some b'), d2)" for b' d2 pi
  proof -
    have "filter (\<lambda>a. pca_purchase_credit_id a = k \<and> pca_company_id a = pi_company_id pi)
        (purchase_credit_applications d1) = (if pi_company_id pi = co then new else [])"
      using assms(3) own by (auto simp: apps unapplied_def own_applications_def filter_id_conv filter_empty_conv)
    with voidPurchaseCredit_effect(1) [OF wf1 keys1 void r(1) not_void r(3), of pi] opens show ?thesis by simp
  qed
  show ?thesis
  proof (cases "credit_void_fits d co k")
    case True
    with total obtain b' d2 where void: "voidPurchaseCredit co u' k g' rs' now' d1 = Inr ((k, Some b'), d2)"
      by auto
    from True void opens_back [OF void] voidPurchaseCredit_effect(2) [OF wf1 keys1 void r(1) not_void r(3)] j
    show ?thesis by auto
  qed (use total in simp)
qed

theorem apply_void_credit_witness:
  "\<exists>res d1 d2 b'. applyPurchaseCredit 1 7 1 None None 100 sample_db = Inr (res, d1) \<and>
     voidPurchaseCredit 1 7 1 None None 200 d1 = Inr ((1, Some b'), d2) \<and>
     (\<forall>pi. open_amount d2 pi = open_amount sample_db pi)"
proof -
  obtain res d1 where app: "applyPurchaseCredit 1 7 1 None None 100 sample_db = Inr (res, d1)"
    by (rule sample_credit_applies)
  have free: "batch_free sample_db 1 ''PURCHASE_CREDIT_VOID'' 1" and fits: "credit_void_fits sample_db 1 1"
    by code_simp+
  from apply_void_credit [OF sample_credit_state(3,1,2) app free, of 7 None None 200]
  show ?thesis unfolding if_P [OF fits] using app by blast
qed

text \<open>
  A credit that was applied in part stays so: no later application is accepted, although
  its balance is still shown as remaining.  Only a void is possible.
\<close>

theorem partial_credit_is_final:
  assumes "find_credit d co k = Some r" and "pc_status r = PC_PARTIAL"
  shows "applyPurchaseCredit co u k g rs now d =
    Inl (PurchaseCreditInvalidStatusTransitionError PC_PARTIAL PC_APPLIED)"
  using assms by (simp add: applyPurchaseCredit_def)

theorem partial_credit_is_final_witness:
  "applyPurchaseCredit 1 7 1 None None 100 (sample_db\<lparr>purchase_credits := [sample_credit 1 20 300000]\<rparr>) =
     Inl (PurchaseCreditInvalidStatusTransitionError 20 30)"
  by (rule partial_credit_is_final [where r = "sample_credit 1 20 300000"])
    (simp_all add: find_credit_def sample_credit_def)

end
