(* ===== verification/Purchase_Invoice.thy ===== *)
theory Purchase_Invoice
  imports Ledger Open_Amount Exchange_Rate
begin

text \<open>
  Invoices from suppliers (\<open>services/purchase-invoice-service.ts\<close>): a draft whose header
  totals come from its lines, posting (conversion to the company's currency, credit limit,
  journal by account, balance check) and voiding.  Posting reads everything first
  (\<open>preparePosting\<close>) and only then opens the transaction that writes
  (\<open>commitPosting\<close>); the two are separate definitions, because nothing locks the invoice
  in between.
\<close>

section \<open>Reading an invoice\<close>

definition invoice_lines :: "db \<Rightarrow> nat \<Rightarrow> nat \<Rightarrow> purchase_invoice_line_row list" where
  "invoice_lines d companyId piId =
     sort_key pil_line_no (filter (\<lambda>l. pil_invoice_id l = piId \<and> pil_company_id l = companyId)
       (purchase_invoice_lines d))"

record PILineResult =
  rpil_id :: nat
  rpil_line_no :: nat
  rpil_line_type :: string
  rpil_item_id :: "nat option"
  rpil_description :: string
  rpil_qty :: string
  rpil_unit_price :: string
  rpil_line_total :: string
  rpil_tax_rate_id :: "nat option"
  rpil_tax_amount :: string
  rpil_po_line_id :: "nat option"
  rpil_created_at :: int
  rpil_updated_at :: int

record PIGetResult =
  rpi_id :: nat
  rpi_company_id :: nat
  rpi_supplier_id :: nat
  rpi_supplier_name :: "string option"
  rpi_invoice_no :: string
  rpi_invoice_date :: int
  rpi_due_date :: "int option"
  rpi_reference_number :: "string option"
  rpi_status :: string
  rpi_currency_code :: string
  rpi_exchange_rate :: string
  rpi_subtotal :: string
  rpi_tax_amount :: string
  rpi_grand_total :: string
  rpi_notes :: "string option"
  rpi_journal_batch_id :: "nat option"
  rpi_posted_at :: "int option"
  rpi_posted_by_user_id :: "nat option"
  rpi_voided_at :: "int option"
  rpi_voided_by_user_id :: "nat option"
  rpi_created_by_user_id :: "nat option"
  rpi_updated_by_user_id :: "nat option"
  rpi_created_at :: int
  rpi_updated_at :: int
  rpi_lines :: "PILineResult list"

definition pi_status_label :: "nat \<Rightarrow> string" where
  "pi_status_label status =
     (case map_of PURCHASE_INVOICE_STATUS_LABEL status of None \<Rightarrow> nat_str status | Some l \<Rightarrow> l)"

definition pi_line_result :: "purchase_invoice_line_row \<Rightarrow> PILineResult" where
  "pi_line_result l =
     \<lparr>rpil_id = pil_id l, rpil_line_no = pil_line_no l, rpil_line_type = pil_line_type l,
      rpil_item_id = pil_item_id l, rpil_description = pil_description l,
      rpil_qty = fromScaled4 (pil_qty l), rpil_unit_price = fromScaled4 (pil_unit_price l),
      rpil_line_total = fromScaled4 (pil_line_total l), rpil_tax_rate_id = pil_tax_rate_id l,
      rpil_tax_amount = fromScaled4 (pil_tax_amount l), rpil_po_line_id = pil_po_line_id l,
      rpil_created_at = pil_created_at l, rpil_updated_at = pil_updated_at l\<rparr>"

definition pi_header_result :: "db \<Rightarrow> purchase_invoice_row \<Rightarrow> PILineResult list \<Rightarrow> PIGetResult" where
  "pi_header_result d h ls =
     \<lparr>rpi_id = pi_id h, rpi_company_id = pi_company_id h, rpi_supplier_id = pi_supplier_id h,
      rpi_supplier_name = map_option sup_name (find_supplier d (pi_company_id h) (pi_supplier_id h)),
      rpi_invoice_no = pi_invoice_no h, rpi_invoice_date = pi_invoice_date h,
      rpi_due_date = pi_due_date h, rpi_reference_number = pi_reference_number h,
      rpi_status = pi_status_label (pi_status h), rpi_currency_code = pi_currency_code h,
      rpi_exchange_rate = db_decimal 8 (pi_exchange_rate h), rpi_subtotal = db_decimal 4 (pi_subtotal h),
      rpi_tax_amount = db_decimal 4 (pi_tax_amount h), rpi_grand_total = db_decimal 4 (pi_grand_total h),
      rpi_notes = pi_notes h, rpi_journal_batch_id = pi_journal_batch_id h,
      rpi_posted_at = pi_posted_at h, rpi_posted_by_user_id = pi_posted_by_user_id h,
      rpi_voided_at = pi_voided_at h, rpi_voided_by_user_id = pi_voided_by_user_id h,
      rpi_created_by_user_id = pi_created_by_user_id h,
      rpi_updated_by_user_id = pi_updated_by_user_id h, rpi_created_at = pi_created_at h,
      rpi_updated_at = pi_updated_at h, rpi_lines = ls\<rparr>"

definition getPIById :: "db \<Rightarrow> nat \<Rightarrow> nat \<Rightarrow> PIGetResult option" where
  "getPIById d companyId piId =
     map_option (\<lambda>h. pi_header_result d h (map pi_line_result (invoice_lines d companyId piId)))
       (find_invoice d companyId piId)"

record PIListParams =
  lpi_companyId :: nat
  lpi_supplierId :: "nat option"
  lpi_status :: "nat option"
  lpi_dateFrom :: "int option"
  lpi_dateTo :: "int option"
  lpi_limit :: nat
  lpi_offset :: nat

definition pi_list_match :: "PIListParams \<Rightarrow> purchase_invoice_row \<Rightarrow> bool" where
  "pi_list_match ps h \<longleftrightarrow> pi_company_id h = lpi_companyId ps \<and>
     (\<forall>s \<in> set_option (lpi_supplierId ps). pi_supplier_id h = s) \<and>
     (\<forall>s \<in> set_option (lpi_status ps). pi_status h = s) \<and>
     (\<forall>f \<in> set_option (lpi_dateFrom ps). f \<le> pi_invoice_date h) \<and>
     (\<forall>t \<in> set_option (lpi_dateTo ps). pi_invoice_date h \<le> t)"

text \<open>A listed invoice is a header without rate and user columns, which the query leaves out.\<close>

definition listPIs :: "db \<Rightarrow> PIListParams \<Rightarrow> PIGetResult list \<times> nat \<times> nat \<times> nat" where
  "listPIs d ps =
     (let matches = filter (pi_list_match ps) (purchase_invoices d);
          page = take (lpi_limit ps) (drop (lpi_offset ps) (sort_key (\<lambda>h. - pi_created_at h) matches))
      in (map (\<lambda>h. (pi_header_result d h [])\<lparr>rpi_exchange_rate := [], rpi_posted_by_user_id := None,
            rpi_voided_by_user_id := None\<rparr>) page, length matches, lpi_limit ps, lpi_offset ps))"

section \<open>Creating a draft\<close>

record PILineInput =
  ipil_itemId :: "nat option"
  ipil_description :: string
  ipil_qty :: string
  ipil_unitPrice :: string
  ipil_taxRateId :: "nat option"
  ipil_lineType :: "string option"

record PICreateInput =
  ipi_companyId :: nat
  ipi_userId :: nat
  ipi_idempotencyKey :: "string option"
  ipi_supplierId :: nat
  ipi_invoiceNo :: string
  ipi_invoiceDate :: int
  ipi_dueDate :: "int option"
  ipi_referenceNumber :: "string option"
  ipi_currencyCode :: string
  ipi_exchangeRate :: "string option"
  ipi_notes :: "string option"
  ipi_lines :: "PILineInput list"

definition find_invoice_by_key :: "db \<Rightarrow> nat \<Rightarrow> string \<Rightarrow> purchase_invoice_row option" where
  "find_invoice_by_key d companyId key =
     find (\<lambda>h. pi_company_id h = companyId \<and> pi_idempotency_key h = Some key) (purchase_invoices d)"

definition existing_invoice :: "db \<Rightarrow> nat \<Rightarrow> string option \<Rightarrow> PIGetResult option" where
  "existing_invoice d companyId idempotencyKey =
     (case truthy_str idempotencyKey of
        None \<Rightarrow> None
      | Some key \<Rightarrow>
          (case find_invoice_by_key d companyId key of
             None \<Rightarrow> None
           | Some h \<Rightarrow> getPIById d companyId (pi_id h)))"

definition new_invoice_row :: "PICreateInput \<Rightarrow> int \<Rightarrow> int \<Rightarrow> nat \<Rightarrow> purchase_invoice_row" where
  "new_invoice_row input rate now k =
     \<lparr>pi_id = k, pi_company_id = ipi_companyId input, pi_created_at = now,
      pi_created_by_user_id = Some (ipi_userId input), pi_currency_code = ipi_currencyCode input,
      pi_due_date = ipi_dueDate input, pi_exchange_rate = rate, pi_grand_total = 0,
      pi_idempotency_key = ipi_idempotencyKey input, pi_invoice_date = ipi_invoiceDate input,
      pi_invoice_no = ipi_invoiceNo input, pi_journal_batch_id = None, pi_notes = ipi_notes input,
      pi_posted_at = None, pi_posted_by_user_id = None,
      pi_reference_number = ipi_referenceNumber input, pi_status = PI_DRAFT, pi_subtotal = 0,
      pi_supplier_id = ipi_supplierId input, pi_tax_amount = 0, pi_updated_at = now,
      pi_updated_by_user_id = None, pi_voided_at = None, pi_voided_by_user_id = None\<rparr>"

definition invoice_conflict :: "db \<Rightarrow> purchase_invoice_row \<Rightarrow> string option" where
  "invoice_conflict d r =
     (let same = filter (\<lambda>h. pi_company_id h = pi_company_id r) (purchase_invoices d) in
      if \<exists>h \<in> set same. pi_invoice_no h = pi_invoice_no r
      then Some ''uk_purchase_invoices_company_invoice_no''
      else if pi_reference_number r \<noteq> None \<and> (\<exists>h \<in> set same. pi_reference_number h = pi_reference_number r)
      then Some ''uk_purchase_invoices_company_reference''
      else if pi_idempotency_key r \<noteq> None \<and> (\<exists>h \<in> set same. pi_idempotency_key h = pi_idempotency_key r)
      then Some ''uk_purchase_invoices_company_idempotency_key''
      else None)"

definition insert_invoice :: "purchase_invoice_row \<Rightarrow> db \<Rightarrow> db" where
  "insert_invoice r d = bump T_purchase_invoice (d\<lparr>purchase_invoices := purchase_invoices d @ [r]\<rparr>)"

text \<open>The tax of a line: its total times the rate's percentage, cut to four decimals.\<close>

definition line_tax :: "db \<Rightarrow> nat \<Rightarrow> nat option \<Rightarrow> int \<Rightarrow> int res" where
  "line_tax d companyId taxRateId lineTotal =
     (case truthy_id taxRateId of
        None \<Rightarrow> Inr 0
      | Some i \<Rightarrow>
          (case find (\<lambda>t. tax_id t = i \<and> tax_company_id t = companyId) (tax_rates d) of
             None \<Rightarrow> Inr 0
           | Some t \<Rightarrow> bindR (read_dec4 (tax_rate_percent t)) (\<lambda>taxRatePercent.
               Inr (scale4Mul lineTotal taxRatePercent))))"

text \<open>The checks of migration 0179 on a line.\<close>

definition invoice_line_ok :: "purchase_invoice_line_row \<Rightarrow> bool" where
  "invoice_line_ok l \<longleftrightarrow> 0 < pil_qty l \<and> 0 \<le> pil_unit_price l \<and> 0 \<le> pil_line_total l \<and>
     0 \<le> pil_tax_amount l \<and>
     pil_line_type l \<in> {''ITEM'', ''SERVICE'', ''FREIGHT'', ''TAX'', ''DISCOUNT''}"

definition new_invoice_line_row ::
  "nat \<Rightarrow> nat \<Rightarrow> nat \<Rightarrow> PILineInput \<Rightarrow> int \<Rightarrow> int \<Rightarrow> int \<Rightarrow> int \<Rightarrow> int \<Rightarrow> nat \<Rightarrow> purchase_invoice_line_row" where
  "new_invoice_line_row companyId piId lineNo l qty unitPrice lineTotal taxAmount now k =
     \<lparr>pil_id = k, pil_company_id = companyId, pil_created_at = now,
      pil_description = ipil_description l, pil_invoice_id = piId, pil_item_id = ipil_itemId l,
      pil_line_no = lineNo, pil_line_total = lineTotal,
      pil_line_type = (case ipil_lineType l of None \<Rightarrow> ''ITEM'' | Some t \<Rightarrow> t),
      pil_po_line_id = None, pil_qty = qty, pil_tax_amount = taxAmount,
      pil_tax_rate_id = ipil_taxRateId l, pil_unit_price = unitPrice, pil_updated_at = now\<rparr>"

definition insert_invoice_line ::
  "nat \<Rightarrow> nat \<Rightarrow> int \<Rightarrow> int \<times> int \<times> db \<Rightarrow> nat \<times> PILineInput \<Rightarrow> (int \<times> int \<times> db) res" where
  "insert_invoice_line companyId piId now st nl =
     (case (st, nl) of ((subtotal, taxTotal, d), (lineNo, l)) \<Rightarrow>
       bindR (toScaled4 (ipil_qty l)) (\<lambda>qty.
       bindR (toScaled4 (ipil_unitPrice l)) (\<lambda>unitPrice.
         let lineTotal = scale4Mul qty unitPrice in
         bindR (line_tax d companyId (ipil_taxRateId l) lineTotal) (\<lambda>taxAmount.
           let row = new_invoice_line_row companyId piId lineNo l qty unitPrice lineTotal taxAmount now
                 (next_id d T_purchase_invoice_line)
           in bindR (require (invoice_line_ok row) (ER_CHECK_CONSTRAINT ''chk_purchase_invoice_lines'')) (\<lambda>_.
             Inr (subtotal + lineTotal, taxTotal + taxAmount,
               bump T_purchase_invoice_line
                 (d\<lparr>purchase_invoice_lines := purchase_invoice_lines d @ [row]\<rparr>)))))))"

definition create_invoice_trx :: "PICreateInput \<Rightarrow> int \<Rightarrow> nat op" where
  "create_invoice_trx input now d =
     bindR (toScaled8 (case ipi_exchangeRate input of None \<Rightarrow> ''1.00000000'' | Some r \<Rightarrow> r)) (\<lambda>rate.
       let row = new_invoice_row input rate now (next_id d T_purchase_invoice) in
       case invoice_conflict d row of
         Some uk \<Rightarrow> Inl (ER_DUP_ENTRY uk)
       | None \<Rightarrow>
           bindR (foldM (insert_invoice_line (ipi_companyId input) (pi_id row) now)
             (0, 0, insert_invoice row d) (numbered (ipi_lines input))) (\<lambda>(subtotal, taxTotal, d1).
             let grandTotal = subtotal + taxTotal in
             Inr (pi_id row, d1\<lparr>purchase_invoices := update_where (\<lambda>h. pi_id h = pi_id row)
               (\<lambda>h. h\<lparr>pi_subtotal := subtotal, pi_tax_amount := taxTotal,
                     pi_grand_total := grandTotal, pi_updated_at := now\<rparr>) (purchase_invoices d1)\<rparr>)))"

definition createDraftPI :: "PICreateInput \<Rightarrow> int \<Rightarrow> PIGetResult op" where
  "createDraftPI input now d =
     (case existing_invoice d (ipi_companyId input) (ipi_idempotencyKey input) of
        Some existingPI \<Rightarrow> Inr (existingPI, d)
      | None \<Rightarrow>
          bindR (from_opt SUPPLIER_NOT_FOUND (find_supplier d (ipi_companyId input) (ipi_supplierId input))) (\<lambda>_.
            case create_invoice_trx input now d of
              Inl e \<Rightarrow>
                (case (if is_duplicate e then existing_invoice d (ipi_companyId input) (ipi_idempotencyKey input)
                       else None) of
                   Some existingPI \<Rightarrow> Inr (existingPI, d)
                 | None \<Rightarrow> Inl e)
            | Inr (piId, d') \<Rightarrow>
                bindR (from_opt (JsError ''Failed to fetch created purchase invoice'')
                  (getPIById d' (ipi_companyId input) piId)) (\<lambda>pi. Inr (pi, d'))))"

section \<open>Posting: what is read\<close>

text \<open>The rate the invoice is converted at, as the string the services pass around.\<close>

definition posting_rate :: "db \<Rightarrow> nat \<Rightarrow> purchase_invoice_row \<Rightarrow> string res" where
  "posting_rate d companyId pi =
     bindR (from_opt COMPANY_NOT_FOUND (find (\<lambda>c. co_id c = companyId) (companies d))) (\<lambda>company.
       let companyCurrency = (case co_currency_code company of None \<Rightarrow> ''IDR'' | Some c \<Rightarrow> c);
           invoiceCurrency = pi_currency_code pi
       in if companyCurrency = invoiceCurrency then Inr ''1.00000000''
          else bindR (from_opt (PIExchangeRateMissingError invoiceCurrency (pi_invoice_date pi))
                 (getRate d companyId invoiceCurrency (pi_invoice_date pi))) (\<lambda>r. Inr (lr_rate r)))"

record posting_accounts =
  pa_ap :: nat
  pa_expense :: nat
  pa_creditLimitEnabled :: bool

definition posting_settings :: "db \<Rightarrow> nat \<Rightarrow> posting_accounts res" where
  "posting_settings d companyId =
     (let settings = purchasing_settings d companyId in
      bindR (from_opt (PIAccountMissingError ''AP'')
        (Option.bind settings (\<lambda>cm. truthy_id (cm_purchasing_default_ap_account_id cm)))) (\<lambda>apAccountId.
      bindR (from_opt (PIAccountMissingError ''Expense'')
        (Option.bind settings (\<lambda>cm. truthy_id (cm_purchasing_default_expense_account_id cm)))) (\<lambda>expenseAccountId.
      bindR (require (find_account d companyId apAccountId \<noteq> None) (PIAccountMissingError ''AP'')) (\<lambda>_.
      bindR (require (find_account d companyId expenseAccountId \<noteq> None) (PIAccountMissingError ''Expense'')) (\<lambda>_.
        Inr \<lparr>pa_ap = apAccountId, pa_expense = expenseAccountId,
          pa_creditLimitEnabled =
            (case settings of None \<Rightarrow> False | Some cm \<Rightarrow> cm_purchasing_credit_limit_enabled cm \<noteq> 0)\<rparr>)))))"

record CreditUtilization =
  cu_currentOustanding :: int
  cu_creditLimit :: int
  cu_utilizationPercent :: int
  cu_newOutstanding :: int
  cu_newUtilizationPercent :: int

definition posted_total :: "db \<Rightarrow> nat \<Rightarrow> nat \<Rightarrow> int" where
  "posted_total d companyId supplierId =
     sum_list (map pi_grand_total (filter (\<lambda>pi. pi_company_id pi = companyId \<and>
       pi_supplier_id pi = supplierId \<and> pi_status pi = PI_POSTED) (purchase_invoices d)))"

definition computeCreditUtilization :: "db \<Rightarrow> nat \<Rightarrow> nat \<Rightarrow> int \<Rightarrow> CreditUtilization option res" where
  "computeCreditUtilization d companyId supplierId invoiceGrandTotal =
     (case find_supplier d companyId supplierId of
        None \<Rightarrow> Inr None
      | Some supplier \<Rightarrow>
          bindR (read_dec4 (sup_credit_limit supplier)) (\<lambda>creditLimit.
            if creditLimit = 0 then Inr None
            else
              bindR (read_dec4 (posted_total d companyId supplierId)) (\<lambda>currentOutstanding.
                let newOutstanding = currentOutstanding + invoiceGrandTotal in
                Inr (Some \<lparr>cu_currentOustanding = currentOutstanding, cu_creditLimit = creditLimit,
                  cu_utilizationPercent = (if creditLimit > 0 then big_div (currentOutstanding * 100) creditLimit else 0),
                  cu_newOutstanding = newOutstanding,
                  cu_newUtilizationPercent =
                    (if creditLimit > 0 then big_div (newOutstanding * 100) creditLimit else 0)\<rparr>))))"

definition credit_limit_check :: "db \<Rightarrow> nat \<Rightarrow> purchase_invoice_row \<Rightarrow> string list res" where
  "credit_limit_check d companyId pi =
     bindR (read_dec4 (pi_grand_total pi)) (\<lambda>grandTotal.
     bindR (computeCreditUtilization d companyId (pi_supplier_id pi) grandTotal) (\<lambda>creditUtil.
       case creditUtil of
         None \<Rightarrow> Inr []
       | Some cu \<Rightarrow>
           if cu_newUtilizationPercent cu > 100
           then Inl (PICreditLimitExceededError (cu_newUtilizationPercent cu) (fromScaled4 (cu_creditLimit cu)))
           else if cu_newUtilizationPercent cu > 80
           then Inr [''Credit utilization will be '' @ int_str (cu_newUtilizationPercent cu) @ ''.0% of limit '' @
             fromScaled4 (cu_creditLimit cu)]
           else Inr []))"

section \<open>Posting: lines by account\<close>

record account_group =
  ag_base :: int
  ag_tax :: int
  ag_descriptions :: "string list"

definition no_group :: account_group where
  "no_group = \<lparr>ag_base = 0, ag_tax = 0, ag_descriptions = []\<rparr>"

definition add_to_group ::
  "nat \<Rightarrow> int \<Rightarrow> int \<Rightarrow> string \<Rightarrow> (nat \<times> account_group) list \<Rightarrow> (nat \<times> account_group) list" where
  "add_to_group accountId base tax description m =
     (let g = (case map_of m accountId of None \<Rightarrow> no_group | Some g \<Rightarrow> g) in
      AList.update accountId \<lparr>ag_base = ag_base g + base, ag_tax = ag_tax g + tax,
        ag_descriptions = (if description \<in> set (ag_descriptions g) then ag_descriptions g
          else ag_descriptions g @ [description])\<rparr> m)"

definition to_company_currency :: "int \<Rightarrow> int \<Rightarrow> int" where
  "to_company_currency amount rateScaled8 = big_div (amount * rateScaled8) 100000000"

definition tax_account :: "db \<Rightarrow> nat \<Rightarrow> nat \<Rightarrow> nat res" where
  "tax_account d companyId taxRateId =
     from_opt (PITaxAccountMissingError taxRateId)
       (Option.bind (find (\<lambda>t. tax_id t = taxRateId \<and> tax_company_id t = companyId) (tax_rates d))
         (\<lambda>t. truthy_id (tax_account_id t)))"

text \<open>The accounts of a line: where its amount goes, and where its tax goes.\<close>

definition line_accounts ::
  "db \<Rightarrow> nat \<Rightarrow> nat \<Rightarrow> purchase_invoice_line_row \<Rightarrow> (nat option \<times> nat option) res" where
  "line_accounts d companyId expenseAccountId l =
     (if pil_line_type l \<in> {''ITEM'', ''SERVICE'', ''FREIGHT''} then
        (case truthy_id (pil_tax_rate_id l) of
           None \<Rightarrow> Inr (Some expenseAccountId, None)
         | Some t \<Rightarrow> bindR (tax_account d companyId t) (\<lambda>a. Inr (Some expenseAccountId, Some a)))
      else if pil_line_type l = ''TAX'' then
        (case truthy_id (pil_tax_rate_id l) of
           None \<Rightarrow> Inr (Some expenseAccountId, None)
         | Some t \<Rightarrow> bindR (tax_account d companyId t) (\<lambda>a. Inr (None, Some a)))
      else Inr (Some expenseAccountId, None))"

definition group_line ::
  "db \<Rightarrow> nat \<Rightarrow> nat \<Rightarrow> int \<Rightarrow> (nat \<times> account_group) list \<Rightarrow> purchase_invoice_line_row \<Rightarrow>
     (nat \<times> account_group) list res" where
  "group_line d companyId expenseAccountId rateScaled8 m l =
     bindR (read_dec4 (pil_qty l)) (\<lambda>qty.
     bindR (read_dec4 (pil_unit_price l)) (\<lambda>unitPrice.
       let lineTotal = to_company_currency (scale4Mul qty unitPrice) rateScaled8 in
       bindR (read_dec4 (pil_tax_amount l)) (\<lambda>tax.
         let taxAmount = to_company_currency tax rateScaled8 in
         bindR (line_accounts d companyId expenseAccountId l) (\<lambda>(lineExpenseAccountId, lineTaxAccountId).
           let m1 = (case lineExpenseAccountId of
                 None \<Rightarrow> m
               | Some a \<Rightarrow> add_to_group a lineTotal (if lineTaxAccountId = None then taxAmount else 0)
                   (pil_description l) m)
           in Inr (case lineTaxAccountId of
                 None \<Rightarrow> m1
               | Some a \<Rightarrow> add_to_group a (if pil_line_type l = ''TAX'' then lineTotal else taxAmount) 0
                   (''Tax: '' @ pil_description l) m1)))))"

definition join_descriptions :: "string list \<Rightarrow> string" where
  "join_descriptions ds = (case take 2 ds of [] \<Rightarrow> [] | [a] \<Rightarrow> a | a # b # _ \<Rightarrow> a @ ''; '' @ b)"

definition group_journal :: "nat \<times> account_group \<Rightarrow> journal_input" where
  "group_journal ag =
     \<lparr>ji_account_id = fst ag, ji_debit = fromScaled4 (ag_base (snd ag) + ag_tax (snd ag)),
      ji_credit = ''0.0000'', ji_description = join_descriptions (ag_descriptions (snd ag))\<rparr>"

section \<open>Posting: preparation and commit\<close>

record posting_plan =
  plan_invoice :: purchase_invoice_row
  plan_rate :: string
  plan_lines :: "journal_input list"
  plan_warnings :: "string list"

definition plan_journal ::
  "db \<Rightarrow> nat \<Rightarrow> posting_accounts \<Rightarrow> purchase_invoice_row \<Rightarrow> string \<Rightarrow> (journal_input list \<times> string list) res" where
  "plan_journal d companyId acc pi exchangeRate =
     bindR (read_dec4 (pi_subtotal pi)) (\<lambda>subtotalScaled4.
     bindR (read_dec4 (pi_tax_amount pi)) (\<lambda>taxAmountScaled4.
     bindR (toScaled8 exchangeRate) (\<lambda>rateScaled8.
       let grandTotalInCompanyCurrency =
             to_company_currency subtotalScaled4 rateScaled8 + to_company_currency taxAmountScaled4 rateScaled8;
           supplierName = (case find_supplier d companyId (pi_supplier_id pi) of
               None \<Rightarrow> ''Supplier #'' @ nat_str (pi_supplier_id pi) | Some s \<Rightarrow> sup_name s);
           invoiceDesc = ''PI '' @ pi_invoice_no pi @ '' from '' @ supplierName
       in
       bindR (if pa_creditLimitEnabled acc then credit_limit_check d companyId pi else Inr []) (\<lambda>warnings.
       bindR (foldM (group_line d companyId (pa_expense acc) rateScaled8) []
         (invoice_lines d companyId (pi_id pi))) (\<lambda>groups.
         Inr (map group_journal groups @
           [\<lparr>ji_account_id = pa_ap acc, ji_debit = ''0.0000'',
             ji_credit = fromScaled4 grandTotalInCompanyCurrency, ji_description = invoiceDesc\<rparr>],
           warnings))))))"

definition preparePosting :: "db \<Rightarrow> nat \<Rightarrow> nat \<Rightarrow> posting_plan res" where
  "preparePosting d companyId piId =
     bindR (from_opt (PINotFoundError piId) (find_invoice d companyId piId)) (\<lambda>pi.
     bindR (require (pi_status pi = PI_DRAFT) (PIInvalidStatusTransitionError (pi_status pi) PI_POSTED)) (\<lambda>_.
     bindR (posting_rate d companyId pi) (\<lambda>exchangeRate.
     bindR (posting_settings d companyId) (\<lambda>acc.
     bindR (plan_journal d companyId acc pi exchangeRate) (\<lambda>(js, warnings).
     bindR (journal_totals js) (\<lambda>(totalDebits, totalCredits).
     bindR (require (totalDebits = totalCredits) (PIError ''JOURNAL_NOT_BALANCED'')) (\<lambda>_.
       Inr \<lparr>plan_invoice = pi, plan_rate = exchangeRate, plan_lines = js, plan_warnings = warnings\<rparr>)))))))"

definition mark_invoice_posted :: "nat \<Rightarrow> int \<Rightarrow> nat \<Rightarrow> nat \<Rightarrow> int \<Rightarrow> db \<Rightarrow> db" where
  "mark_invoice_posted piId rate batchId userId now d =
     d\<lparr>purchase_invoices := update_where (\<lambda>h. pi_id h = piId)
        (\<lambda>h. h\<lparr>pi_status := PI_POSTED, pi_exchange_rate := rate, pi_journal_batch_id := Some batchId,
              pi_posted_at := Some now, pi_posted_by_user_id := Some userId, pi_updated_at := now\<rparr>)
        (purchase_invoices d)\<rparr>"

record PIPostResult =
  rpp_id :: nat
  rpp_journal_batch_id :: nat
  rpp_warnings :: "string list"

definition commitPosting ::
  "nat \<Rightarrow> nat \<Rightarrow> posting_plan \<Rightarrow> GuardrailDecision option \<Rightarrow> string option \<Rightarrow> int \<Rightarrow> PIPostResult op" where
  "commitPosting companyId userId plan guardrailDecision validOverrideReason now d =
     (let pi = plan_invoice plan in
      bindR (post_inputs companyId ''PURCHASE_INVOICE'' (pi_id pi) (pi_invoice_date pi) now (plan_lines plan) d)
        (\<lambda>(batchId, d1).
      bindR (toScaled8 (plan_rate plan)) (\<lambda>rate.
        Inr (\<lparr>rpp_id = pi_id pi, rpp_journal_batch_id = batchId, rpp_warnings = plan_warnings plan\<rparr>,
          record_override guardrailDecision validOverrideReason companyId userId ''PURCHASE_INVOICE''
            (pi_id pi) now (mark_invoice_posted (pi_id pi) rate batchId userId now d1)))))"

definition postPI ::
  "nat \<Rightarrow> nat \<Rightarrow> nat \<Rightarrow> GuardrailDecision option \<Rightarrow> string option \<Rightarrow> int \<Rightarrow> PIPostResult op" where
  "postPI companyId userId piId guardrailDecision validOverrideReason now d =
     bindR (preparePosting d companyId piId) (\<lambda>plan.
       commitPosting companyId userId plan guardrailDecision validOverrideReason now d)"

section \<open>Voiding\<close>

record void_plan =
  vplan_invoice :: purchase_invoice_row
  vplan_entries :: "ledger_entry list"

definition prepareVoid :: "db \<Rightarrow> nat \<Rightarrow> nat \<Rightarrow> void_plan res" where
  "prepareVoid d companyId piId =
     bindR (from_opt (PINotFoundError piId) (find_invoice d companyId piId)) (\<lambda>pi.
     bindR (require (pi_status pi = PI_POSTED) (PIInvalidStatusTransitionError (pi_status pi) PI_VOID)) (\<lambda>_.
     bindR (from_opt (PIError ''MISSING_JOURNAL_BATCH'') (truthy_id (pi_journal_batch_id pi))) (\<lambda>batchId.
       Inr \<lparr>vplan_invoice = pi, vplan_entries = batch_entries d companyId batchId\<rparr>)))"

definition mark_invoice_void :: "nat \<Rightarrow> nat \<Rightarrow> int \<Rightarrow> db \<Rightarrow> db" where
  "mark_invoice_void piId userId now d =
     d\<lparr>purchase_invoices := update_where (\<lambda>h. pi_id h = piId)
        (\<lambda>h. h\<lparr>pi_status := PI_VOID, pi_voided_at := Some now, pi_voided_by_user_id := Some userId,
              pi_updated_at := now\<rparr>) (purchase_invoices d)\<rparr>"

definition commitVoid ::
  "nat \<Rightarrow> nat \<Rightarrow> void_plan \<Rightarrow> GuardrailDecision option \<Rightarrow> string option \<Rightarrow> int \<Rightarrow> (nat \<times> nat) op" where
  "commitVoid companyId userId plan guardrailDecision validOverrideReason now d =
     (let pi = vplan_invoice plan in
      bindR (post_journal companyId ''PURCHASE_INVOICE_VOID'' (pi_id pi) (pi_invoice_date pi) now
        (map (reverse_entry (\<lambda>s. ''VOID: '' @ s)) (vplan_entries plan)) d) (\<lambda>(reversalBatchId, d1).
        Inr ((pi_id pi, reversalBatchId),
          record_override guardrailDecision validOverrideReason companyId userId ''PURCHASE_INVOICE_VOID''
            (pi_id pi) now (mark_invoice_void (pi_id pi) userId now d1))))"

definition voidPI ::
  "nat \<Rightarrow> nat \<Rightarrow> nat \<Rightarrow> GuardrailDecision option \<Rightarrow> string option \<Rightarrow> int \<Rightarrow> (nat \<times> nat) op" where
  "voidPI companyId userId piId guardrailDecision validOverrideReason now d =
     bindR (prepareVoid d companyId piId) (\<lambda>plan.
       commitVoid companyId userId plan guardrailDecision validOverrideReason now d)"

end
