(* ===== verification/Invoice_Journal.thy ===== *)
theory Invoice_Journal
  imports Purchase_Invoice
begin

text \<open>
  Lemmas on the posting and voiding of an invoice: the grouping of the lines by account, the
  entries the groups become, the rounding of the conversion, the credit limit, the effect of
  \<open>postPI\<close> and \<open>voidPI\<close> on the tables, and what a second commit of one plan does.
\<close>

section \<open>The journal of an invoice\<close>

definition groups_total :: "(nat \<times> account_group) list \<Rightarrow> int" where
  "groups_total m = sum_list (map (\<lambda>ag. ag_base (snd ag) + ag_tax (snd ag)) m)"

definition groups_ok :: "(nat \<times> account_group) list \<Rightarrow> bool" where
  "groups_ok m \<longleftrightarrow> distinct (map fst m) \<and> (\<forall>ag \<in> set m. 0 \<le> ag_base (snd ag) \<and> 0 \<le> ag_tax (snd ag))"

lemma groups_total_update:
  assumes "distinct (map fst m)"
  shows "groups_total (AList.update a g m) = groups_total m + ag_base g + ag_tax g -
    (case map_of m a of None \<Rightarrow> 0 | Some h \<Rightarrow> ag_base h + ag_tax h)"
  using assms
proof (induction m)
  case (Cons x m)
  have "map_of m (fst x) = None" using Cons.prems by (simp add: map_of_eq_None_iff)
  with Cons show ?case by (cases x) (auto simp: groups_total_def)
qed (simp add: groups_total_def)

lemma add_to_group_total:
  "distinct (map fst m) \<Longrightarrow> groups_total (add_to_group a base tax s m) = groups_total m + base + tax"
  by (simp add: add_to_group_def Let_def groups_total_update no_group_def split: option.splits)

lemma groups_ok_update:
  assumes "groups_ok m" and "0 \<le> ag_base g" and "0 \<le> ag_tax g"
  shows "groups_ok (AList.update a g m)"
proof -
  have "set (AList.update a g m) \<subseteq> insert (a, g) (set m)"
    by (induction m) auto
  with assms show ?thesis by (fastforce simp: groups_ok_def distinct_update)
qed

lemma add_to_group_ok:
  assumes "groups_ok m" and "0 \<le> base" and "0 \<le> tax"
  shows "groups_ok (add_to_group a base tax s m)"
proof -
  have "0 \<le> ag_base g \<and> 0 \<le> ag_tax g" if "map_of m a = Some g" for g
    using assms(1) map_of_SomeD [OF that] by (auto simp: groups_ok_def)
  with assms show ?thesis
    by (auto simp: add_to_group_def Let_def no_group_def intro!: groups_ok_update split: option.splits)
qed

text \<open>What a line adds to the debit side: its amount and, unless it is a tax line with a rate, its tax.\<close>

definition line_debit :: "int \<Rightarrow> purchase_invoice_line_row \<Rightarrow> int" where
  "line_debit rate l =
     to_company_currency (scale4Mul (pil_qty l) (pil_unit_price l)) rate +
     (if pil_line_type l = ''TAX'' \<and> truthy_id (pil_tax_rate_id l) \<noteq> None then 0
      else to_company_currency (pil_tax_amount l) rate)"

lemma to_company_currency_nonneg: "0 \<le> v \<Longrightarrow> 0 \<le> r \<Longrightarrow> 0 \<le> to_company_currency v r"
  by (simp add: to_company_currency_def big_div_nonneg pos_imp_zdiv_nonneg_iff)

lemma line_accounts_tax:
  assumes "line_accounts d c e l = Inr (ea, ta)"
  shows "ea = None \<longleftrightarrow> pil_line_type l = ''TAX'' \<and> truthy_id (pil_tax_rate_id l) \<noteq> None"
    and "ea = None \<Longrightarrow> ta \<noteq> None"
  using assms
  by (auto simp: line_accounts_def inr_simps truthy_id_def split: if_splits option.splits)

lemma group_line_effect:
  assumes "group_line d c e rate m l = Inr m'" and "groups_ok m" and "0 \<le> rate"
  shows "groups_total m' = groups_total m + line_debit rate l" and "groups_ok m'"
proof -
  from assms(1) obtain ea ta where nn: "0 \<le> pil_qty l" "0 \<le> pil_unit_price l" "0 \<le> pil_tax_amount l"
    and acc: "line_accounts d c e l = Inr (ea, ta)"
    by (auto simp: group_line_def Let_def inr_simps)
  let ?x = "to_company_currency (scale4Mul (pil_qty l) (pil_unit_price l)) rate"
  let ?t = "to_company_currency (pil_tax_amount l) rate"
  have nx: "0 \<le> ?x" "0 \<le> ?t"
    using nn assms(3) by (simp_all add: to_company_currency_nonneg scale4Mul_nonneg)
  define m1 where "m1 = (case ea of None \<Rightarrow> m
    | Some a \<Rightarrow> add_to_group a ?x (if ta = None then ?t else 0) (pil_description l) m)"
  have m': "m' = (case ta of None \<Rightarrow> m1
    | Some a \<Rightarrow> add_to_group a (if pil_line_type l = ''TAX'' then ?x else ?t) 0 (''Tax: '' @ pil_description l) m1)"
    unfolding m1_def using assms(1) nn acc by (simp add: group_line_def Let_def)
  have ok1: "groups_ok m1" using assms(2) nx by (auto simp: m1_def add_to_group_ok split: option.splits)
  then show "groups_ok m'" using nx by (auto simp: m' add_to_group_ok split: option.splits)
  have dist: "distinct (map fst m)" "distinct (map fst m1)" using assms(2) ok1 by (simp_all add: groups_ok_def)
  have "groups_total m1 = groups_total m + (case ea of None \<Rightarrow> 0 | Some _ \<Rightarrow> ?x + (if ta = None then ?t else 0))"
    using dist by (simp add: m1_def add_to_group_total split: option.splits)
  moreover have "pil_line_type l = ''TAX'' \<Longrightarrow> ea \<noteq> None \<Longrightarrow> ta = None"
    using acc by (auto simp: line_accounts_def inr_simps split: if_splits option.splits)
  ultimately show "groups_total m' = groups_total m + line_debit rate l"
    using line_accounts_tax [OF acc] dist
    by (auto simp: m' line_debit_def add_to_group_total split: option.splits if_splits)
qed

lemma group_lines_effect:
  assumes "foldM (group_line d c e rate) m ls = Inr m'" and "groups_ok m" and "0 \<le> rate"
  shows "groups_total m' = groups_total m + sum_list (map (line_debit rate) ls) \<and> groups_ok m'"
  using assms
proof (induction ls arbitrary: m)
  case (Cons l ls)
  from Cons.prems(1) obtain m1 where "group_line d c e rate m l = Inr m1" "foldM (group_line d c e rate) m1 ls = Inr m'"
    by (auto simp: inr_simps)
  with Cons group_line_effect [of d c e rate m l m1] show ?case by simp
qed simp

text \<open>The totals of the journal, at four decimals.\<close>

lemma journal_totals_groups:
  assumes "groups_ok m"
  shows "foldM (\<lambda>(dr, cr) l. bindR (toScaled4 (ji_debit l)) (\<lambda>x. bindR (toScaled4 (ji_credit l))
       (\<lambda>y. Inr (dr + x, cr + y)))) (x, y) (map group_journal m) = Inr (x + groups_total m, y)"
  using assms
proof (induction m arbitrary: x)
  case (Cons ag m)
  then have "groups_ok m" "0 \<le> ag_base (snd ag) + ag_tax (snd ag)" by (auto simp: groups_ok_def)
  with Cons.IH show ?case
    by (simp add: group_journal_def toScaled4_fromScaled4 zero_string groups_total_def)
qed (simp add: groups_total_def)

lemma journal_totals_plan:
  assumes "groups_ok m" and "0 \<le> v"
  shows "journal_totals (map group_journal m @
    [\<lparr>ji_account_id = a, ji_debit = ''0.0000'', ji_credit = fromScaled4 v, ji_description = s\<rparr>]) =
    Inr (groups_total m, v)"
  using assms
  by (simp add: journal_totals_def foldM_append journal_totals_groups toScaled4_fromScaled4 zero_string)

lemma plan_journal_Inr:
  assumes "plan_journal d c acc pi rateStr = Inr (js, ws)" and "toScaled8 rateStr = Inr rate"
  obtains groups desc where
    "foldM (group_line d c (pa_expense acc) rate) [] (invoice_lines d c (pi_id pi)) = Inr groups"
    and "js = map group_journal groups @ [\<lparr>ji_account_id = pa_ap acc, ji_debit = ''0.0000'',
      ji_credit = fromScaled4 (to_company_currency (pi_subtotal pi) rate +
        to_company_currency (pi_tax_amount pi) rate), ji_description = desc\<rparr>]"
    and "0 \<le> pi_subtotal pi" and "0 \<le> pi_tax_amount pi" and "groups_ok groups"
    and "groups_total groups = sum_list (map (line_debit rate) (invoice_lines d c (pi_id pi)))"
    and "0 \<le> rate"
proof -
  from assms obtain groups where
    g: "foldM (group_line d c (pa_expense acc) rate) [] (invoice_lines d c (pi_id pi)) = Inr groups"
    and nn: "0 \<le> pi_subtotal pi" "0 \<le> pi_tax_amount pi"
    and js: "\<exists>desc. js = map group_journal groups @ [\<lparr>ji_account_id = pa_ap acc, ji_debit = ''0.0000'',
      ji_credit = fromScaled4 (to_company_currency (pi_subtotal pi) rate +
        to_company_currency (pi_tax_amount pi) rate), ji_description = desc\<rparr>]"
    by (auto simp: plan_journal_def Let_def inr_simps)
  have r: "0 \<le> rate" using assms(2) dec8.parse_sign by blast
  have "groups_ok []" by (simp add: groups_ok_def)
  from group_lines_effect [OF g this r] that g nn js r show thesis
    by (auto simp: groups_total_def)
qed

lemma plan_journal_totals:
  assumes "plan_journal d c acc pi rateStr = Inr (js, ws)" and "toScaled8 rateStr = Inr rate"
  shows "journal_totals js = Inr (sum_list (map (line_debit rate) (invoice_lines d c (pi_id pi))),
    to_company_currency (pi_subtotal pi) rate + to_company_currency (pi_tax_amount pi) rate)"
proof -
  from assms obtain groups desc where
    "js = map group_journal groups @ [\<lparr>ji_account_id = pa_ap acc, ji_debit = ''0.0000'',
      ji_credit = fromScaled4 (to_company_currency (pi_subtotal pi) rate +
        to_company_currency (pi_tax_amount pi) rate), ji_description = desc\<rparr>]"
    "0 \<le> pi_subtotal pi" "0 \<le> pi_tax_amount pi" "groups_ok groups" "0 \<le> rate"
    "groups_total groups = sum_list (map (line_debit rate) (invoice_lines d c (pi_id pi)))"
    by (rule plan_journal_Inr)
  then show ?thesis
    by (simp add: journal_totals_plan to_company_currency_nonneg)
qed

section \<open>The effect of posting\<close>

lemma preparePosting_Inr:
  assumes "preparePosting d c i = Inr plan"
  obtains pi acc where "find_invoice d c i = Some pi" and "pi_status pi = PI_DRAFT"
    and "posting_rate d c pi = Inr (plan_rate plan)" and "posting_settings d c = Inr acc"
    and "plan_journal d c acc pi (plan_rate plan) = Inr (plan_lines plan, plan_warnings plan)"
    and "\<exists>t. journal_totals (plan_lines plan) = Inr (t, t)" and "plan_invoice plan = pi"
  using assms by (auto simp: preparePosting_def inr_simps)

definition posted_invoice :: "int \<Rightarrow> nat \<Rightarrow> nat \<Rightarrow> int \<Rightarrow> purchase_invoice_row \<Rightarrow> purchase_invoice_row" where
  "posted_invoice rate batchId userId now h =
     h\<lparr>pi_status := PI_POSTED, pi_exchange_rate := rate, pi_journal_batch_id := Some batchId,
       pi_posted_at := Some now, pi_posted_by_user_id := Some userId, pi_updated_at := now\<rparr>"

lemma commitPosting_Inr:
  assumes "commitPosting c u plan g r now d = Inr (res, d')"
  obtains es rate where "mapM to_entry (plan_lines plan) = Inr es" and "list_all entry_ok es"
    and "toScaled8 (plan_rate plan) = Inr rate"
    and "res = \<lparr>rpp_id = pi_id (plan_invoice plan), rpp_journal_batch_id = next_id d T_journal_batch,
      rpp_warnings = plan_warnings plan\<rparr>"
    and "d' = record_override g r c u ''PURCHASE_INVOICE'' (pi_id (plan_invoice plan)) now
      (mark_invoice_posted (pi_id (plan_invoice plan)) rate (next_id d T_journal_batch) u now
        (posted_db c ''PURCHASE_INVOICE'' (pi_id (plan_invoice plan)) (pi_invoice_date (plan_invoice plan))
          now es d))"
  using assms by (auto simp: commitPosting_def Let_def post_inputs_def inr_simps)

lemma mark_invoice_posted_simps [simp]:
  "purchase_invoices (mark_invoice_posted i rate b u now d) =
     update_where (\<lambda>h. pi_id h = i) (posted_invoice rate b u now) (purchase_invoices d)"
  "journal_lines (mark_invoice_posted i rate b u now d) = journal_lines d"
  "journal_batches (mark_invoice_posted i rate b u now d) = journal_batches d"
  "ap_payments (mark_invoice_posted i rate b u now d) = ap_payments d"
  "ap_payment_lines (mark_invoice_posted i rate b u now d) = ap_payment_lines d"
  "purchase_credits (mark_invoice_posted i rate b u now d) = purchase_credits d"
  "purchase_credit_applications (mark_invoice_posted i rate b u now d) = purchase_credit_applications d"
  "purchase_invoice_lines (mark_invoice_posted i rate b u now d) = purchase_invoice_lines d"
  "auto_inc (mark_invoice_posted i rate b u now d) = auto_inc d"
  by (simp_all add: mark_invoice_posted_def posted_invoice_def [abs_def])

lemma find_invoice_update:
  assumes "purchase_invoices d' = update_where (\<lambda>h. pi_id h = i) f (purchase_invoices d)"
    and "\<And>h. pi_id (f h) = pi_id h" and "\<And>h. pi_company_id (f h) = pi_company_id h"
  shows "find_invoice d' c i = map_option f (find_invoice d c i)"
  unfolding find_invoice_def assms(1)
  by (subst find_update_where) (auto simp: assms(2,3) dest: find_SomeD intro!: option.map_cong)

text \<open>The entries a balanced plan becomes, rounded to the two decimals of the ledger.\<close>

definition group_entry :: "nat \<times> account_group \<Rightarrow> ledger_entry" where
  "group_entry ag = \<lparr>le_account = fst ag,
     le_debit = sql_round_div (ag_base (snd ag) + ag_tax (snd ag)) 100, le_credit = 0,
     le_description = join_descriptions (ag_descriptions (snd ag))\<rparr>"

lemma plan_entries:
  assumes "groups_ok m" and "0 \<le> v"
  shows "mapM to_entry (map group_journal m @
    [\<lparr>ji_account_id = a, ji_debit = ''0.0000'', ji_credit = fromScaled4 v, ji_description = s\<rparr>]) =
    Inr (map group_entry m @ [\<lparr>le_account = a, le_debit = 0, le_credit = sql_round_div v 100,
      le_description = s\<rparr>])"
proof -
  have "mapM to_entry (map group_journal m) = Inr (map group_entry m)"
    using assms(1)
  proof (induction m)
    case (Cons ag m)
    then have "0 \<le> ag_base (snd ag) + ag_tax (snd ag)" "groups_ok m" by (auto simp: groups_ok_def)
    with Cons.IH show ?case
      by (simp add: to_entry_def group_journal_def group_entry_def column_dec2_fromScaled4)
  qed simp
  with assms(2) show ?thesis
    by (simp add: mapM_append to_entry_def column_dec2_fromScaled4)
qed

lemma cents_error:
  assumes "0 \<le> v"
  shows "\<bar>100 * sql_round_div v 100 - v\<bar> \<le> 50"
  using sql_round_div_bounds [of v 100] assms by linarith

lemma group_entries_error:
  assumes "groups_ok m"
  shows "\<bar>100 * debits (map group_entry m) - groups_total m\<bar> \<le> 50 * int (length m)"
  using assms
proof (induction m)
  case (Cons ag m)
  then have "0 \<le> ag_base (snd ag) + ag_tax (snd ag)" "groups_ok m" by (auto simp: groups_ok_def)
  with Cons.IH cents_error [of "ag_base (snd ag) + ag_tax (snd ag)"] show ?case
    by (simp add: groups_total_def group_entry_def)
qed (simp add: groups_total_def)

lemma credits_group_entries [simp]: "credits (map group_entry m) = 0"
  by (induction m) (simp_all add: group_entry_def)

text \<open>
  Everything a successful posting has done: the batch holds one debit per account and one
  credit for the payable, balanced before rounding, and the invoice is marked.
\<close>

lemma postPI_effect:
  assumes "wf_ledger d" and "postPI c u i g r now d = Inr (res, d')"
  obtains pi rate groups a s where
    "find_invoice d c i = Some pi" and "pi_status pi = PI_DRAFT"
    and "bindR (posting_rate d c pi) toScaled8 = Inr rate" and "0 \<le> rate"
    and "rpp_id res = i" and "rpp_journal_batch_id res = next_id d T_journal_batch"
    and "batch_entries d' c (next_id d T_journal_batch) = map group_entry groups @
      [\<lparr>le_account = a, le_debit = 0, le_credit = sql_round_div (to_company_currency (pi_subtotal pi) rate +
        to_company_currency (pi_tax_amount pi) rate) 100, le_description = s\<rparr>]"
    and "groups_ok groups"
    and "groups_total groups = to_company_currency (pi_subtotal pi) rate + to_company_currency (pi_tax_amount pi) rate"
    and "find_invoice d' c i = Some (posted_invoice rate (next_id d T_journal_batch) u now pi)"
    and "wf_ledger d'"
proof -
  from assms(2) obtain plan where prep: "preparePosting d c i = Inr plan"
    and commit: "commitPosting c u plan g r now d = Inr (res, d')"
    by (auto simp: postPI_def inr_simps)
  from prep obtain pi acc where pi: "find_invoice d c i = Some pi" "pi_status pi = PI_DRAFT"
    and rs: "posting_rate d c pi = Inr (plan_rate plan)"
    and pj: "plan_journal d c acc pi (plan_rate plan) = Inr (plan_lines plan, plan_warnings plan)"
    and bal: "\<exists>t. journal_totals (plan_lines plan) = Inr (t, t)" and plan: "plan_invoice plan = pi"
    by (rule preparePosting_Inr)
  from commit obtain es rate where es: "mapM to_entry (plan_lines plan) = Inr es"
    and rate: "toScaled8 (plan_rate plan) = Inr rate"
    and res: "res = \<lparr>rpp_id = pi_id (plan_invoice plan), rpp_journal_batch_id = next_id d T_journal_batch,
      rpp_warnings = plan_warnings plan\<rparr>"
    and d': "d' = record_override g r c u ''PURCHASE_INVOICE'' (pi_id (plan_invoice plan)) now
      (mark_invoice_posted (pi_id (plan_invoice plan)) rate (next_id d T_journal_batch) u now
        (posted_db c ''PURCHASE_INVOICE'' (pi_id (plan_invoice plan)) (pi_invoice_date (plan_invoice plan))
          now es d))"
    by (rule commitPosting_Inr)
  let ?v = "to_company_currency (pi_subtotal pi) rate + to_company_currency (pi_tax_amount pi) rate"
  from pj rate obtain groups s where js: "plan_lines plan = map group_journal groups @
      [\<lparr>ji_account_id = pa_ap acc, ji_debit = ''0.0000'', ji_credit = fromScaled4 ?v, ji_description = s\<rparr>]"
    and nn: "0 \<le> pi_subtotal pi" "0 \<le> pi_tax_amount pi" and ok: "groups_ok groups" and r0: "0 \<le> rate"
    by (rule plan_journal_Inr)
  have v: "0 \<le> ?v" using nn r0 by (simp add: to_company_currency_nonneg)
  have i: "pi_id pi = i" using find_invoice_Some [OF pi(1)] by simp
  have ents: "batch_entries d' c (next_id d T_journal_batch) = es"
    using batch_entries_posted [OF assms(1), of c "''PURCHASE_INVOICE''" i "pi_invoice_date pi" now es c
      "next_id d T_journal_batch"] by (simp add: d' plan i batch_entries_def)
  have inv: "find_invoice d' c i = Some (posted_invoice rate (next_id d T_journal_batch) u now pi)"
    by (subst find_invoice_update [where d = d])
      (simp_all add: d' plan i pi posted_invoice_def [abs_def])
  have wf: "wf_ledger d'"
    using wf_ledger_posted [OF assms(1), of c "''PURCHASE_INVOICE''" i "pi_invoice_date pi" now es]
    by (simp add: d' plan i wf_ledger_def)
  show thesis
  proof (rule that [OF pi _ r0 _ _ _ ok _ inv wf])
    show "bindR (posting_rate d c pi) toScaled8 = Inr rate" using rs rate by simp
    show "rpp_id res = i" "rpp_journal_batch_id res = next_id d T_journal_batch"
      by (simp_all add: res plan i)
    show "batch_entries d' c (next_id d T_journal_batch) = map group_entry groups @
      [\<lparr>le_account = pa_ap acc, le_debit = 0, le_credit = sql_round_div ?v 100, le_description = s\<rparr>]"
      using es ents by (simp add: js plan_entries [OF ok v])
    show "groups_total groups = ?v"
      using bal by (simp add: js journal_totals_plan [OF ok v])
  qed
qed

text \<open>The payable credited and the open amount differ by the conversions' rounding only.\<close>

lemma payable_versus_base:
  assumes "0 \<le> s" and "0 \<le> t" and "0 \<le> rate" and "pi_grand_total pi = s + t" and "pi_exchange_rate pi = rate"
  shows "to_company_currency s rate + to_company_currency t rate \<le> base_grand_total pi"
    and "base_grand_total pi \<le> to_company_currency s rate + to_company_currency t rate + 2"
proof -
  let ?D = "100000000 :: int"
  let ?x = "big_div (s * rate) ?D" and ?y = "big_div (t * rate) ?D" and ?z = "sql_round_div ((s + t) * rate) ?D"
  have x: "?x * ?D \<le> s * rate" "s * rate < ?x * ?D + ?D"
    using big_div_bounds [of "s * rate" ?D] assms by simp_all
  have y: "?y * ?D \<le> t * rate" "t * rate < ?y * ?D + ?D"
    using big_div_bounds [of "t * rate" ?D] assms by simp_all
  have z: "2 * (?z * ?D) \<le> 2 * ((s + t) * rate) + ?D" "2 * ((s + t) * rate) - ?D < 2 * (?z * ?D)"
    using sql_round_div_bounds [of "(s + t) * rate" ?D] assms by simp_all
  have eq: "(s + t) * rate = s * rate + t * rate" by (simp add: distrib_right)
  show "to_company_currency s rate + to_company_currency t rate \<le> base_grand_total pi"
    unfolding base_grand_total_def to_company_currency_def assms(4,5) using x y z eq by linarith
  show "base_grand_total pi \<le> to_company_currency s rate + to_company_currency t rate + 2"
    unfolding base_grand_total_def to_company_currency_def assms(4,5) using x y z eq by linarith
qed

section \<open>Conversion line by line and of the total\<close>

lemma big_div_add:
  assumes "0 \<le> a" and "0 \<le> b" and "0 < k"
  shows "big_div a k + big_div b k \<le> big_div (a + b) k" and "big_div (a + b) k \<le> big_div a k + big_div b k + 1"
proof -
  have a: "big_div a k * k \<le> a" "a < big_div a k * k + k" using big_div_bounds assms by auto
  have b: "big_div b k * k \<le> b" "b < big_div b k * k + k" using big_div_bounds assms by auto
  have c: "big_div (a + b) k * k \<le> a + b" "a + b < big_div (a + b) k * k + k"
    using big_div_bounds [of "a + b" k] assms by auto
  from a b c have "(big_div a k + big_div b k) * k < (big_div (a + b) k + 1) * k"
    by (simp add: distrib_right)
  then show "big_div a k + big_div b k \<le> big_div (a + b) k" using assms(3) by simp
  from a b c have "big_div (a + b) k * k < (big_div a k + big_div b k + 2) * k"
    by (simp add: distrib_right)
  then show "big_div (a + b) k \<le> big_div a k + big_div b k + 1" using assms(3) by simp
qed

lemma conversion_of_sum:
  assumes "\<forall>x \<in> set xs. 0 \<le> x" and "xs \<noteq> []" and "0 \<le> rate"
  shows "sum_list (map (\<lambda>x. to_company_currency x rate) xs) \<le> to_company_currency (sum_list xs) rate"
    and "to_company_currency (sum_list xs) rate \<le>
      sum_list (map (\<lambda>x. to_company_currency x rate) xs) + int (length xs) - 1"
proof -
  have "sum_list (map (\<lambda>x. to_company_currency x rate) xs) \<le> to_company_currency (sum_list xs) rate \<and>
    to_company_currency (sum_list xs) rate \<le>
      sum_list (map (\<lambda>x. to_company_currency x rate) xs) + int (length xs) - 1"
    using assms(2,1)
  proof (induction xs rule: list_nonempty_induct)
    case (cons x xs)
    then have nn: "0 \<le> x" "0 \<le> sum_list xs" by (auto intro: sum_list_nonneg)
    then have "0 \<le> x * rate" "0 \<le> sum_list xs * rate" using assms(3) by simp_all
    from big_div_add [OF this, of 100000000] cons show ?case
      by (auto simp: to_company_currency_def distrib_right)
  qed simp
  then show "sum_list (map (\<lambda>x. to_company_currency x rate) xs) \<le> to_company_currency (sum_list xs) rate"
    and "to_company_currency (sum_list xs) rate \<le>
      sum_list (map (\<lambda>x. to_company_currency x rate) xs) + int (length xs) - 1" by simp_all
qed

text \<open>The header totals are the sums of the lines, and every line total is quantity times price.\<close>

definition invoice_consistent :: "db \<Rightarrow> purchase_invoice_row \<Rightarrow> bool" where
  "invoice_consistent d pi \<longleftrightarrow>
     (let ls = invoice_lines d (pi_company_id pi) (pi_id pi) in
      pi_subtotal pi = sum_list (map pil_line_total ls) \<and>
      pi_tax_amount pi = sum_list (map pil_tax_amount ls) \<and>
      pi_grand_total pi = pi_subtotal pi + pi_tax_amount pi \<and>
      (\<forall>l \<in> set ls. pil_line_total l = scale4Mul (pil_qty l) (pil_unit_price l) \<and> invoice_line_ok l))"

definition taxed_tax_line :: "purchase_invoice_line_row \<Rightarrow> bool" where
  "taxed_tax_line l \<longleftrightarrow> pil_line_type l = ''TAX'' \<and> truthy_id (pil_tax_rate_id l) \<noteq> None"

lemma journal_gap_bounds:
  assumes "invoice_consistent d pi" and ls: "ls = invoice_lines d (pi_company_id pi) (pi_id pi)"
    and "ls \<noteq> []" and "\<forall>l \<in> set ls. \<not> taxed_tax_line l" and "0 \<le> rate"
  defines "cr \<equiv> to_company_currency (pi_subtotal pi) rate + to_company_currency (pi_tax_amount pi) rate"
    and "dr \<equiv> sum_list (map (line_debit rate) ls)"
  shows "dr \<le> cr" and "cr \<le> dr + 2 * (int (length ls) - 1)"
proof -
  have sub: "pi_subtotal pi = sum_list (map pil_line_total ls)"
    and tax: "pi_tax_amount pi = sum_list (map pil_tax_amount ls)"
    and lt: "\<forall>l \<in> set ls. pil_line_total l = scale4Mul (pil_qty l) (pil_unit_price l) \<and> invoice_line_ok l"
    using assms(1) by (simp_all add: invoice_consistent_def Let_def ls)
  have "map (line_debit rate) ls =
    map (\<lambda>l. to_company_currency (pil_line_total l) rate + to_company_currency (pil_tax_amount l) rate) ls"
    using assms(4) lt by (auto simp: line_debit_def taxed_tax_line_def)
  then have dr: "dr = sum_list (map (\<lambda>x. to_company_currency x rate) (map pil_line_total ls)) +
    sum_list (map (\<lambda>x. to_company_currency x rate) (map pil_tax_amount ls))"
    by (simp only: dr_def sum_list_addf map_map comp_def)
  have nn: "\<forall>x \<in> set (map pil_line_total ls). 0 \<le> x" "\<forall>x \<in> set (map pil_tax_amount ls). 0 \<le> x"
    using lt by (auto simp: invoice_line_ok_def)
  note t = conversion_of_sum [OF nn(1) _ assms(5)] and x = conversion_of_sum [OF nn(2) _ assms(5)]
  show "dr \<le> cr" unfolding dr cr_def sub tax using t(1) x(1) assms(3) by simp
  show "cr \<le> dr + 2 * (int (length ls) - 1)" unfolding dr cr_def sub tax using t(2) x(2) assms(3) by simp
qed

section \<open>Credit limit\<close>

lemma credit_limit_check_Inr:
  assumes "credit_limit_check d c pi = Inr ws" and "find_supplier d c (pi_supplier_id pi) = Some s"
    and "0 < sup_credit_limit s"
  shows "(posted_total d c (pi_supplier_id pi) + pi_grand_total pi) * 100 < 101 * sup_credit_limit s"
proof -
  let ?new = "posted_total d c (pi_supplier_id pi) + pi_grand_total pi"
  have nn: "0 \<le> posted_total d c (pi_supplier_id pi)" "0 \<le> pi_grand_total pi"
    and le: "big_div (?new * 100) (sup_credit_limit s) \<le> 100"
    using assms by (auto simp: credit_limit_check_def computeCreditUtilization_def Let_def inr_simps
        split: if_splits)
  have "?new * 100 < big_div (?new * 100) (sup_credit_limit s) * sup_credit_limit s + sup_credit_limit s"
    using big_div_bounds(2) [of "?new * 100" "sup_credit_limit s"] nn assms(3) by simp
  also have "\<dots> \<le> 100 * sup_credit_limit s + sup_credit_limit s"
    using mult_right_mono [OF le, of "sup_credit_limit s"] assms(3) by simp
  finally show ?thesis by simp
qed

lemma postPI_credit_checked:
  assumes "postPI c u i g r now d = Inr res" and "find_invoice d c i = Some pi"
    and "posting_settings d c = Inr acc" and "pa_creditLimitEnabled acc"
  shows "\<exists>ws. credit_limit_check d c pi = Inr ws"
  using assms
  by (auto simp: postPI_def preparePosting_def plan_journal_def Let_def inr_simps)

lemma posted_total_split:
  assumes "distinct (map pi_id (purchase_invoices d))" and "find_invoice d c i = Some pi"
    and "pi_status pi = PI_DRAFT"
    and "purchase_invoices d' = update_where (\<lambda>h. pi_id h = i) (posted_invoice rate b u now) (purchase_invoices d)"
  shows "posted_total d' c (pi_supplier_id pi) = posted_total d c (pi_supplier_id pi) + pi_grand_total pi"
proof -
  have pi: "pi \<in> set (purchase_invoices d)" "pi_id pi = i" "pi_company_id pi = c"
    using find_invoice_Some [OF assms(2)] by simp_all
  let ?P = "\<lambda>h. pi_company_id h = c \<and> pi_supplier_id h = pi_supplier_id pi \<and> pi_status h = PI_POSTED"
  have none: "update_where (\<lambda>h. pi_id h = i) f hs = hs" if "i \<notin> pi_id ` set hs" for f hs
    using that by (intro update_where_no_match) auto
  have "sum_list (map pi_grand_total (filter ?P (update_where (\<lambda>h. pi_id h = i) (posted_invoice rate b u now) hs))) =
      sum_list (map pi_grand_total (filter ?P hs)) + pi_grand_total pi"
    if "distinct (map pi_id hs)" "pi \<in> set hs" for hs
    using that
  proof (induction hs)
    case (Cons h hs)
    show ?case
    proof (cases "h = pi")
      case True
      with Cons.prems(1) have "i \<notin> pi_id ` set hs" using pi(2) by auto
      with True show ?thesis using pi assms(3) by (simp add: none posted_invoice_def)
    next
      case False
      with Cons.prems have "pi \<in> set hs" "pi_id h \<noteq> i" using pi(2) by (auto simp: rev_image_eqI)
      with Cons show ?thesis by simp
    qed
  qed simp
  with assms(1) pi(1) show ?thesis by (simp add: posted_total_def assms(4))
qed

lemma postPI_invoices:
  assumes "postPI c u i g r now d = Inr (res, d')"
  shows "\<exists>rate. purchase_invoices d' =
    update_where (\<lambda>h. pi_id h = i) (posted_invoice rate (rpp_journal_batch_id res) u now) (purchase_invoices d)"
proof -
  from assms obtain plan where prep: "preparePosting d c i = Inr plan"
    and commit: "commitPosting c u plan g r now d = Inr (res, d')"
    by (auto simp: postPI_def inr_simps)
  have "pi_id (plan_invoice plan) = i"
    using preparePosting_Inr [OF prep] find_invoice_Some by metis
  with commit show ?thesis by (auto elim!: commitPosting_Inr)
qed

section \<open>One batch per invoice\<close>

text \<open>
  A commit leaves a batch of the invoice in the ledger, and from then on the unique key refuses
  every other commit for the invoice, with whatever plan it was prepared.
\<close>

lemma commitPosting_batch:
  assumes "commitPosting c u plan g r now d = Inr (res, d1)"
  shows "\<not> batch_free d1 c ''PURCHASE_INVOICE'' (pi_id (plan_invoice plan))"
  using assms by (auto elim!: commitPosting_Inr simp: batch_free_def posted_db_def)

lemma commitPosting_taken:
  assumes "\<not> batch_free d c ''PURCHASE_INVOICE'' (pi_id (plan_invoice plan))"
    and "mapM to_entry (plan_lines plan) = Inr es"
  shows "commitPosting c u plan g r now d = Inl (ER_DUP_ENTRY ''uq_journal_batches_company_doc'')"
  using assms by (simp add: commitPosting_def Let_def post_inputs_def post_journal_eq)

section \<open>Voiding\<close>

definition voided_invoice :: "nat \<Rightarrow> int \<Rightarrow> purchase_invoice_row \<Rightarrow> purchase_invoice_row" where
  "voided_invoice userId now h =
     h\<lparr>pi_status := PI_VOID, pi_voided_at := Some now, pi_voided_by_user_id := Some userId,
       pi_updated_at := now\<rparr>"

lemma mark_invoice_void_simps [simp]:
  "purchase_invoices (mark_invoice_void i u now d) =
     update_where (\<lambda>h. pi_id h = i) (voided_invoice u now) (purchase_invoices d)"
  "journal_lines (mark_invoice_void i u now d) = journal_lines d"
  "ap_payments (mark_invoice_void i u now d) = ap_payments d"
  "ap_payment_lines (mark_invoice_void i u now d) = ap_payment_lines d"
  "purchase_credits (mark_invoice_void i u now d) = purchase_credits d"
  "purchase_credit_applications (mark_invoice_void i u now d) = purchase_credit_applications d"
  "auto_inc (mark_invoice_void i u now d) = auto_inc d"
  by (simp_all add: mark_invoice_void_def voided_invoice_def [abs_def])

text \<open>The rows of the ledger satisfy its checks.\<close>

definition ledger_checked :: "db \<Rightarrow> bool" where
  "ledger_checked d \<longleftrightarrow> list_all entry_ok (map entry_of (journal_lines d))"

lemma batch_checked: "ledger_checked d \<Longrightarrow> list_all entry_ok (batch_entries d c b)"
  by (auto simp: ledger_checked_def batch_entries_def list_all_iff)

lemma voidPI_effect:
  assumes "wf_ledger d" and "find_invoice d c i = Some pi" and "pi_status pi = PI_POSTED"
    and "pi_journal_batch_id pi = Some b" and "b \<noteq> 0" and "list_all entry_ok (batch_entries d c b)"
    and "batch_free d c ''PURCHASE_INVOICE_VOID'' i"
    and "reversal_fits (\<lambda>s. ''VOID: '' @ s) (batch_entries d c b)"
  obtains d' where "voidPI c u i g r now d = Inr ((i, next_id d T_journal_batch), d')"
    and "purchase_invoices d' = update_where (\<lambda>h. pi_id h = i) (voided_invoice u now) (purchase_invoices d)"
    and "\<forall>b'. batch_entries d' c b' = (if b' = next_id d T_journal_batch
      then map (reverse_entry (\<lambda>s. ''VOID: '' @ s)) (batch_entries d c b) else batch_entries d c b')"
    and "ap_payments d' = ap_payments d" and "ap_payment_lines d' = ap_payment_lines d"
proof -
  let ?es = "map (reverse_entry (\<lambda>s. ''VOID: '' @ s)) (batch_entries d c b)"
  let ?d = "record_override g r c u ''PURCHASE_INVOICE_VOID'' i now (mark_invoice_void i u now
    (posted_db c ''PURCHASE_INVOICE_VOID'' i (pi_invoice_date pi) now ?es d))"
  have i: "pi_id pi = i" using find_invoice_Some [OF assms(2)] by simp
  have "voidPI c u i g r now d = Inr ((i, next_id d T_journal_batch), ?d)"
    using assms(3-5,7,8)
    by (simp add: voidPI_def prepareVoid_def assms(2) commitVoid_def Let_def post_reversal_eq [OF assms(6)] i
        truthy_id_def)
  moreover have "batch_entries ?d c b' = (if b' = next_id d T_journal_batch then ?es else batch_entries d c b')" for b'
    by (subst batch_entries_cong [where d = "posted_db c ''PURCHASE_INVOICE_VOID'' i (pi_invoice_date pi) now ?es d"])
      (simp_all add: batch_entries_posted [OF assms(1)] del: map_map)
  ultimately show thesis using that [of ?d] by simp
qed

lemma voidPI_taken:
  assumes "find_invoice d c i = Some pi" and "pi_status pi = PI_POSTED"
    and "truthy_id (pi_journal_batch_id pi) = Some b" and "\<not> batch_free d c ''PURCHASE_INVOICE_VOID'' i"
  shows "voidPI c u i g r now d = Inl (ER_DUP_ENTRY ''uq_journal_batches_company_doc'')"
  using assms find_invoice_Some [OF assms(1)]
  by (simp add: voidPI_def prepareVoid_def commitVoid_def Let_def post_journal_eq del: truthy_id_Some)

lemma voidPI_too_long:
  assumes "find_invoice d c i = Some pi" and "pi_status pi = PI_POSTED"
    and "pi_journal_batch_id pi = Some b" and "b \<noteq> 0" and "list_all entry_ok (batch_entries d c b)"
    and "batch_free d c ''PURCHASE_INVOICE_VOID'' i"
    and "\<not> reversal_fits (\<lambda>s. ''VOID: '' @ s) (batch_entries d c b)"
  shows "voidPI c u i g r now d = Inl (ER_DATA_TOO_LONG ''description'')"
  using assms find_invoice_Some [OF assms(1)]
  by (simp add: voidPI_def prepareVoid_def commitVoid_def Let_def post_reversal_eq [OF assms(5)] truthy_id_def)

lemma account_net_reversed:
  "account_net a es + account_net a (map (reverse_entry f) es) = 0"
  by (induction es) (simp_all add: account_net_def reverse_entry_def)

lemma voidPI_cases:
  "(\<exists>x. voidPI c u i g r now d = Inr x) \<Longrightarrow>
     \<exists>pi b. find_invoice d c i = Some pi \<and> pi_status pi = PI_POSTED \<and> pi_journal_batch_id pi = Some b \<and> b \<noteq> 0"
  by (auto simp: voidPI_def prepareVoid_def inr_simps)

end
