(* ===== verification/Contracts.thy ===== *)
theory Contracts
  imports Prelude
begin

text \<open>
  Contracts that several services share, stated once over an abstract state and interpreted by
  the theories of the services that meet them.
\<close>

section \<open>Creation under an idempotency key\<close>

text \<open>
  A client that does not know whether its request went through sends it again under the same
  key.  The service promises that a request whose key is stored is answered from the tables,
  and that a successful keyed request leaves its key stored with its answer.  Then every
  repetition gets the first answer and changes nothing, whatever else it asks for.
\<close>

locale idempotent_create =
  fixes existing :: "'s \<Rightarrow> 'i \<Rightarrow> 'r option"
    and create :: "'i \<Rightarrow> 's \<Rightarrow> 'e + 'r \<times> 's"
    and keyed :: "'i \<Rightarrow> bool"
    and same_key :: "'i \<Rightarrow> 'i \<Rightarrow> bool"
    and wf :: "'s \<Rightarrow> bool"
  assumes existing_key: "same_key i j \<Longrightarrow> existing s i = existing s j"
    and replay: "existing s i = Some r \<Longrightarrow> create i s = Inr (r, s)"
    and stored: "wf s \<Longrightarrow> keyed i \<Longrightarrow> create i s = Inr (r, s') \<Longrightarrow> existing s' i = Some r"
begin

lemma repeat_same:
  assumes "wf s" and "keyed i" and "create i s = Inr (r, s')" and "same_key i j"
  shows "create j s' = Inr (r, s')"
  using stored [OF assms(1-3)] existing_key [OF assms(4)] replay by metis

lemma repeat_all:
  assumes "wf s" and "keyed i" and "create i s = Inr (r, s')" and "\<forall>j \<in> set js. same_key i j"
  shows "mapM (\<lambda>j. create j s') js = Inr (map (\<lambda>_. (r, s')) js)"
  using repeat_same [OF assms(1-3)] assms(4) by (intro mapM_total) auto

end

section \<open>Services that run in steps\<close>

text \<open>
  Several operations work on the same tables in any order.  What holds of the tables at the start
  and is kept by every operation holds whenever no operation is under way.
\<close>

locale step_invariant =
  fixes start :: "'s \<Rightarrow> bool"
    and step :: "'s \<Rightarrow> 's \<Rightarrow> bool"
    and holds :: "'s \<Rightarrow> bool"
  assumes at_start: "start s \<Longrightarrow> holds s"
    and at_step: "holds s \<Longrightarrow> step s t \<Longrightarrow> holds t"
begin

lemma kept: "step\<^sup>*\<^sup>* s t \<Longrightarrow> holds s \<Longrightarrow> holds t"
  by (induction rule: rtranclp_induct) (auto intro: at_step)

lemma reachable: "start s \<Longrightarrow> step\<^sup>*\<^sup>* s t \<Longrightarrow> holds t"
  using kept at_start by blast

end

end
