(* ===== verification/Invoice_Draft.thy ===== *)
theory Invoice_Draft
  imports Invoice_Journal Contracts
begin

text \<open>
  Lemmas on the creation of an invoice: the rows it inserts, the agreement of the header with its
  lines, the interpretation of the contract of idempotent creation, and the fact that a draft in
  the company's currency can be posted unless a text overflows the journal.
\<close>

section \<open>The draft that is created\<close>

text \<open>Keys in use are below the counters, as the database guarantees.\<close>

definition invoice_keys :: "db \<Rightarrow> bool" where
  "invoice_keys d \<longleftrightarrow> (\<forall>h \<in> set (purchase_invoices d). pi_id h \<le> auto_inc d T_purchase_invoice) \<and>
     (\<forall>l \<in> set (purchase_invoice_lines d). pil_invoice_id l \<le> auto_inc d T_purchase_invoice)"

text \<open>The rows that the loop over the lines of the request inserts.\<close>

definition line_rows_for :: "nat \<Rightarrow> nat \<Rightarrow> PILineInput list \<Rightarrow> purchase_invoice_line_row list \<Rightarrow> bool" where
  "line_rows_for c i ls rows \<longleftrightarrow> (\<forall>r \<in> set rows. pil_company_id r = c \<and> pil_invoice_id r = i \<and>
     pil_line_total r = scale4Mul (pil_qty r) (pil_unit_price r) \<and> invoice_line_ok r \<and>
     (\<exists>l \<in> set ls. pil_line_type r = (case ipil_lineType l of None \<Rightarrow> ''ITEM'' | Some t \<Rightarrow> t) \<and>
        pil_tax_rate_id r = ipil_taxRateId l))"

definition lines_inserted ::
  "nat \<Rightarrow> nat \<Rightarrow> PILineInput list \<Rightarrow> db \<Rightarrow> int \<times> int \<times> db \<Rightarrow> bool" where
  "lines_inserted c i ls d0 st \<longleftrightarrow> (\<exists>rows k. line_rows_for c i ls rows \<and>
     k T_purchase_invoice = auto_inc d0 T_purchase_invoice \<and>
     st = (sum_list (map pil_line_total rows), sum_list (map pil_tax_amount rows),
       d0\<lparr>purchase_invoice_lines := purchase_invoice_lines d0 @ rows, auto_inc := k\<rparr>))"

lemma insert_invoice_line_Inr:
  assumes "insert_invoice_line c i now (s, t, d) (n, l) = Inr st'"
  obtains q p tax r where "r = new_invoice_line_row c i n l q p (scale4Mul q p) tax now (next_id d T_purchase_invoice_line)"
    and "invoice_line_ok r"
    and "st' = (s + scale4Mul q p, t + tax, bump T_purchase_invoice_line
      (d\<lparr>purchase_invoice_lines := purchase_invoice_lines d @ [r]\<rparr>))"
  using assms by (auto simp: insert_invoice_line_def Let_def inr_simps)

lemma insert_invoice_line_step:
  assumes "insert_invoice_line c i now st nl = Inr st'" and "lines_inserted c i ls d0 st" and "snd nl \<in> set ls"
  shows "lines_inserted c i ls d0 st'"
proof -
  obtain n l where nl: "nl = (n, l)" by fastforce
  from assms(2) obtain rows k where rows: "line_rows_for c i ls rows"
    and k: "k T_purchase_invoice = auto_inc d0 T_purchase_invoice"
    and st: "st = (sum_list (map pil_line_total rows), sum_list (map pil_tax_amount rows),
       d0\<lparr>purchase_invoice_lines := purchase_invoice_lines d0 @ rows, auto_inc := k\<rparr>)"
    by (auto simp: lines_inserted_def)
  let ?d = "d0\<lparr>purchase_invoice_lines := purchase_invoice_lines d0 @ rows, auto_inc := k\<rparr>"
  from assms(1) obtain q p t r' where
    "r' = new_invoice_line_row c i n l q p (scale4Mul q p) t now (next_id ?d T_purchase_invoice_line)"
    "invoice_line_ok r'"
    "st' = (sum_list (map pil_line_total rows) + scale4Mul q p, sum_list (map pil_tax_amount rows) + t,
      bump T_purchase_invoice_line (?d\<lparr>purchase_invoice_lines := purchase_invoice_lines ?d @ [r']\<rparr>))"
    unfolding nl st by (rule insert_invoice_line_Inr)
  then obtain r where ok: "invoice_line_ok r" and r: "pil_company_id r = c" "pil_invoice_id r = i"
      "pil_line_total r = scale4Mul (pil_qty r) (pil_unit_price r)"
      "pil_line_type r = (case ipil_lineType l of None \<Rightarrow> ''ITEM'' | Some t \<Rightarrow> t)"
      "pil_tax_rate_id r = ipil_taxRateId l"
    and st': "st' = (sum_list (map pil_line_total (rows @ [r])), sum_list (map pil_tax_amount (rows @ [r])),
       d0\<lparr>purchase_invoice_lines := purchase_invoice_lines d0 @ (rows @ [r]),
          auto_inc := k(T_purchase_invoice_line := Suc (k T_purchase_invoice_line))\<rparr>)"
    by (simp add: new_invoice_line_row_def bump_def)
  have "line_rows_for c i ls (rows @ [r])"
    using rows ok r assms(3) by (auto simp: line_rows_for_def nl)
  then show ?thesis unfolding lines_inserted_def st' using k
    by (intro exI [of _ "rows @ [r]"] exI [of _ "k(T_purchase_invoice_line := Suc (k T_purchase_invoice_line))"]) simp
qed

lemma insert_invoice_lines_effect:
  assumes "foldM (insert_invoice_line c i now) (0, 0, d0) (numbered ls) = Inr st"
  shows "lines_inserted c i ls d0 st"
  using assms
proof (rule foldM_invariant)
  have "lines_inserted c i ls d0 (0, 0, d0) \<longleftrightarrow> True"
    unfolding lines_inserted_def by (auto simp: line_rows_for_def intro!: exI [of _ "[]"] exI [of _ "auto_inc d0"])
  then show "lines_inserted c i ls d0 (0, 0, d0)" by simp
next
  fix x s s'
  assume x: "x \<in> set (numbered ls)" "lines_inserted c i ls d0 s" "insert_invoice_line c i now s x = Inr s'"
  then have "snd x \<in> set (map (\<lambda>nl. snd nl) (numbered ls))" by (simp only: set_map imageI)
  then have "snd x \<in> set ls" using map_numbered [of "\<lambda>l. l" ls] by simp
  with x show "lines_inserted c i ls d0 s'" by (metis insert_invoice_line_step)
qed

definition with_totals :: "int \<Rightarrow> int \<Rightarrow> int \<Rightarrow> purchase_invoice_row \<Rightarrow> purchase_invoice_row" where
  "with_totals s t now h =
     h\<lparr>pi_subtotal := s, pi_tax_amount := t, pi_grand_total := s + t, pi_updated_at := now\<rparr>"

lemma create_invoice_trx_effect:
  assumes "invoice_keys d" and "create_invoice_trx input now d = Inr (i, d')"
  obtains rate rows k where "line_rows_for (ipi_companyId input) i (ipi_lines input) rows"
    and "i = next_id d T_purchase_invoice" and "k T_purchase_invoice = i"
    and "toScaled8 (case ipi_exchangeRate input of None \<Rightarrow> ''1.00000000'' | Some r \<Rightarrow> r) = Inr rate"
    and "invoice_conflict d (new_invoice_row input rate now i) = None"
    and "d' = d\<lparr>purchase_invoices := purchase_invoices d @ [with_totals (sum_list (map pil_line_total rows))
        (sum_list (map pil_tax_amount rows)) now (new_invoice_row input rate now i)],
      purchase_invoice_lines := purchase_invoice_lines d @ rows, auto_inc := k\<rparr>"
proof -
  let ?i = "next_id d T_purchase_invoice"
  from assms(2) obtain rate s t d1 where
    rate: "toScaled8 (case ipi_exchangeRate input of None \<Rightarrow> ''1.00000000'' | Some r \<Rightarrow> r) = Inr rate"
    and conf: "invoice_conflict d (new_invoice_row input rate now ?i) = None"
    and fold: "foldM (insert_invoice_line (ipi_companyId input) ?i now)
      (0, 0, insert_invoice (new_invoice_row input rate now ?i) d) (numbered (ipi_lines input)) = Inr (s, t, d1)"
    and i: "i = ?i"
    and d': "d' = d1\<lparr>purchase_invoices := update_where (\<lambda>h. pi_id h = ?i) (with_totals s t now) (purchase_invoices d1)\<rparr>"
    by (auto simp: create_invoice_trx_def Let_def inr_simps new_invoice_row_def with_totals_def [abs_def]
        split: option.splits)
  from insert_invoice_lines_effect [OF fold] obtain rows k where
    rows: "line_rows_for (ipi_companyId input) ?i (ipi_lines input) rows"
    and k: "k T_purchase_invoice = auto_inc (insert_invoice (new_invoice_row input rate now ?i) d) T_purchase_invoice"
    and st: "s = sum_list (map pil_line_total rows)" "t = sum_list (map pil_tax_amount rows)"
    and d1: "d1 = (insert_invoice (new_invoice_row input rate now ?i) d)
       \<lparr>purchase_invoice_lines := purchase_invoice_lines (insert_invoice (new_invoice_row input rate now ?i) d) @ rows,
        auto_inc := k\<rparr>"
    unfolding lines_inserted_def by blast
  have old: "update_where (\<lambda>h. pi_id h = ?i) (with_totals s t now) (purchase_invoices d) = purchase_invoices d"
    using assms(1) by (intro update_where_no_match) (auto simp: invoice_keys_def next_id_def)
  have "d' = d\<lparr>purchase_invoices := purchase_invoices d @ [with_totals s t now (new_invoice_row input rate now ?i)],
      purchase_invoice_lines := purchase_invoice_lines d @ rows, auto_inc := k\<rparr>"
    by (simp add: d' d1 insert_invoice_def bump_def old) (simp add: new_invoice_row_def)
  moreover have "k T_purchase_invoice = i"
    by (simp add: k i insert_invoice_def next_id_def)
  ultimately show thesis using that [of rows k rate] rows rate conf i by (simp only: st)
qed

lemma getPIById_find:
  "getPIById d c i = Some r \<Longrightarrow> \<exists>h. find_invoice d c i = Some h \<and> rpi_id r = i"
  using find_invoice_Some by (fastforce simp: getPIById_def pi_header_result_def)

lemma existing_invoice_None:
  assumes "existing_invoice d c key = None" and "truthy_str key = Some k"
  shows "find_invoice_by_key d c k = None"
proof (rule ccontr)
  assume "find_invoice_by_key d c k \<noteq> None"
  then obtain h where h: "find_invoice_by_key d c k = Some h" by auto
  then have "h \<in> set (purchase_invoices d)" "pi_company_id h = c"
    unfolding find_invoice_by_key_def by (auto dest: find_SomeD)
  then have "find_invoice d c (pi_id h) \<noteq> None"
    by (auto simp: find_invoice_def find_None_iff_all)
  with assms h show False by (auto simp: existing_invoice_def getPIById_def split: option.splits)
qed

lemma createDraftPI_new:
  assumes "createDraftPI input now d = Inr (res, d')"
    and "existing_invoice d (ipi_companyId input) (ipi_idempotencyKey input) = None"
  obtains i where "create_invoice_trx input now d = Inr (i, d')"
    and "getPIById d' (ipi_companyId input) i = Some res"
    and "find_supplier d (ipi_companyId input) (ipi_supplierId input) \<noteq> None"
  using assms
  by (auto simp: createDraftPI_def inr_simps split: sum.splits if_splits option.splits)

lemma find_new_invoice:
  assumes "invoice_keys d" and "purchase_invoices d' = purchase_invoices d @ [h]"
    and "pi_id h = next_id d T_purchase_invoice" and "pi_company_id h = c"
  shows "find_invoice d' c (next_id d T_purchase_invoice) = Some h"
proof -
  have "find_invoice d c (next_id d T_purchase_invoice) = None"
    using assms(1) by (auto simp: find_invoice_def find_None_iff_all invoice_keys_def next_id_def)
  then show ?thesis
    using assms(2-4) by (simp add: find_invoice_def find_append)
qed

lemma sum_list_sort_key: "sum_list (map f (sort_key k xs)) = sum_list (map f xs)" for f :: "'a \<Rightarrow> int"
proof -
  have "sum_list (map f (insort_key k x ys)) = sum_list (map f (x # ys))" for x ys
    by (induction ys) simp_all
  then show ?thesis by (induction xs) simp_all
qed

lemma new_lines:
  assumes "invoice_keys d" and "line_rows_for c (next_id d T_purchase_invoice) ls rows"
    and "purchase_invoice_lines d' = purchase_invoice_lines d @ rows"
  shows "invoice_lines d' c (next_id d T_purchase_invoice) = sort_key pil_line_no rows"
proof -
  have "filter (\<lambda>l. pil_invoice_id l = next_id d T_purchase_invoice \<and> pil_company_id l = c)
    (purchase_invoice_lines d) = []"
    using assms(1) by (fastforce simp: filter_empty_conv invoice_keys_def next_id_def)
  moreover have "filter (\<lambda>l. pil_invoice_id l = next_id d T_purchase_invoice \<and> pil_company_id l = c) rows = rows"
    using assms(2) by (auto simp: filter_id_conv line_rows_for_def)
  ultimately show ?thesis by (simp add: invoice_lines_def assms(3))
qed

lemma createDraftPI_effect:
  assumes "invoice_keys d" and "createDraftPI input now d = Inr (res, d')"
    and "existing_invoice d (ipi_companyId input) (ipi_idempotencyKey input) = None"
  obtains pi rate rows where "find_invoice d' (ipi_companyId input) (rpi_id res) = Some pi"
    and "getPIById d' (ipi_companyId input) (rpi_id res) = Some res"
    and "pi = with_totals (sum_list (map pil_line_total rows)) (sum_list (map pil_tax_amount rows)) now
      (new_invoice_row input rate now (rpi_id res))"
    and "toScaled8 (case ipi_exchangeRate input of None \<Rightarrow> ''1.00000000'' | Some r \<Rightarrow> r) = Inr rate"
    and "line_rows_for (ipi_companyId input) (rpi_id res) (ipi_lines input) rows"
    and "invoice_lines d' (ipi_companyId input) (rpi_id res) = sort_key pil_line_no rows"
    and "\<exists>k. k T_purchase_invoice = rpi_id res \<and> d' = d\<lparr>purchase_invoices := purchase_invoices d @ [pi],
      purchase_invoice_lines := purchase_invoice_lines d @ rows, auto_inc := k\<rparr>"
    and "rpi_id res = next_id d T_purchase_invoice"
proof -
  let ?c = "ipi_companyId input"
  from assms(2,3) obtain i where trx: "create_invoice_trx input now d = Inr (i, d')"
    and res: "getPIById d' ?c i = Some res" by (rule createDraftPI_new)
  from assms(1) trx obtain rate rows k where rows: "line_rows_for ?c i (ipi_lines input) rows"
    and i: "i = next_id d T_purchase_invoice" and k: "k T_purchase_invoice = i"
    and rate: "toScaled8 (case ipi_exchangeRate input of None \<Rightarrow> ''1.00000000'' | Some r \<Rightarrow> r) = Inr rate"
    and d': "d' = d\<lparr>purchase_invoices := purchase_invoices d @ [with_totals (sum_list (map pil_line_total rows))
        (sum_list (map pil_tax_amount rows)) now (new_invoice_row input rate now i)],
      purchase_invoice_lines := purchase_invoice_lines d @ rows, auto_inc := k\<rparr>"
    by (rule create_invoice_trx_effect)
  let ?pi = "with_totals (sum_list (map pil_line_total rows)) (sum_list (map pil_tax_amount rows)) now
      (new_invoice_row input rate now i)"
  have ri: "rpi_id res = i" using getPIById_find [OF res] by blast
  have "find_invoice d' ?c i = Some ?pi" unfolding i
    by (rule find_new_invoice [OF assms(1)])
      (simp_all add: d' i with_totals_def new_invoice_row_def)
  moreover have "invoice_lines d' ?c i = sort_key pil_line_no rows" unfolding i
    by (rule new_lines [OF assms(1)]) (use rows i d' in simp_all)
  ultimately show thesis
    using that [of ?pi rows rate] res rate rows d' i k unfolding ri by blast
qed

lemma created_consistent:
  assumes "pi = with_totals (sum_list (map pil_line_total rows)) (sum_list (map pil_tax_amount rows)) now
      (new_invoice_row input rate now i)"
    and "line_rows_for (ipi_companyId input) i ls rows"
    and "invoice_lines d' (ipi_companyId input) i = sort_key pil_line_no rows"
  shows "invoice_consistent d' pi"
  using assms
  by (auto simp: invoice_consistent_def Let_def with_totals_def new_invoice_row_def sum_list_sort_key
      line_rows_for_def)

text \<open>Drafts are created idempotently under a key.\<close>

interpretation ic_invoice: idempotent_create
  "\<lambda>d (input, now). existing_invoice d (ipi_companyId input) (ipi_idempotencyKey input)"
  "\<lambda>(input, now). createDraftPI input now"
  "\<lambda>(input, now). truthy_str (ipi_idempotencyKey input) \<noteq> None"
  "\<lambda>(i, _) (j, _). ipi_companyId i = ipi_companyId j \<and> ipi_idempotencyKey i = ipi_idempotencyKey j"
  invoice_keys
proof unfold_locales
  fix d d' inow r
  assume wf: "invoice_keys d" and keyed: "case inow of (input, now) \<Rightarrow> truthy_str (ipi_idempotencyKey input) \<noteq> None"
    and "(case inow of (input, now) \<Rightarrow> createDraftPI input now) d = Inr (r, d')"
  then obtain input now key where cr: "createDraftPI input now d = Inr (r, d')"
    and inow: "inow = (input, now)" and key: "truthy_str (ipi_idempotencyKey input) = Some key"
    by (cases inow) auto
  let ?c = "ipi_companyId input"
  show "(case inow of (input, now) \<Rightarrow> existing_invoice d' (ipi_companyId input) (ipi_idempotencyKey input)) = Some r"
  proof (cases "existing_invoice d ?c (ipi_idempotencyKey input)")
    case None
    from wf cr None obtain pi rate rows where
      "getPIById d' ?c (rpi_id r) = Some r"
      "pi = with_totals (sum_list (map pil_line_total rows)) (sum_list (map pil_tax_amount rows)) now
        (new_invoice_row input rate now (rpi_id r))"
      "\<exists>k. k T_purchase_invoice = rpi_id r \<and> d' = d\<lparr>purchase_invoices := purchase_invoices d @ [pi],
        purchase_invoice_lines := purchase_invoice_lines d @ rows, auto_inc := k\<rparr>"
      by (rule createDraftPI_effect)
    moreover have "find_invoice_by_key d ?c key = None" by (rule existing_invoice_None [OF None key])
    ultimately show ?thesis
      using key by (auto simp: inow existing_invoice_def find_invoice_by_key_def find_append with_totals_def
          new_invoice_row_def split: option.splits)
  next
    case (Some r')
    then show ?thesis using cr by (simp add: inow createDraftPI_def)
  qed
qed (auto simp: createDraftPI_def)

section \<open>Invoices in the company's currency\<close>

text \<open>
  Half a cent is 50 ten-thousandths: an account whose total is at least that gets a non-zero
  journal line.
\<close>

definition groups_visible :: "(nat \<times> account_group) list \<Rightarrow> bool" where
  "groups_visible m \<longleftrightarrow> (\<forall>ag \<in> set m. 50 \<le> ag_base (snd ag) + ag_tax (snd ag))"

lemma add_to_group_visible:
  assumes "groups_visible m" and "50 \<le> base + tax"
  shows "groups_visible (add_to_group a base tax s m)"
proof -
  let ?g = "\<lambda>g. \<lparr>ag_base = ag_base g + base, ag_tax = ag_tax g + tax,
    ag_descriptions = (if s \<in> set (ag_descriptions g) then ag_descriptions g else ag_descriptions g @ [s])\<rparr>"
  have sub: "set (AList.update a g m) \<subseteq> insert (a, g) (set m)" for g :: account_group
    by (induction m) auto
  have "50 \<le> ag_base (?g g) + ag_tax (?g g)" if "map_of m a = Some g" for g
    using assms map_of_SomeD [OF that] by (fastforce simp: groups_visible_def)
  moreover have "50 \<le> ag_base (?g no_group) + ag_tax (?g no_group)"
    using assms(2) by (simp add: no_group_def)
  ultimately show ?thesis
    using assms(1) sub by (fastforce simp: groups_visible_def add_to_group_def Let_def split: option.splits)
qed

definition postable_line :: "db \<Rightarrow> nat \<Rightarrow> purchase_invoice_line_row \<Rightarrow> bool" where
  "postable_line d c l \<longleftrightarrow> invoice_line_ok l \<and>
     50 \<le> scale4Mul (pil_qty l) (pil_unit_price l) \<and>
     (\<forall>t. truthy_id (pil_tax_rate_id l) = Some t \<longrightarrow>
        pil_line_type l \<noteq> ''TAX'' \<and> 50 \<le> pil_tax_amount l \<and> (\<exists>a. tax_account d c t = Inr a))"

lemma to_company_currency_one: "0 \<le> v \<Longrightarrow> to_company_currency v 100000000 = v"
  by (simp add: to_company_currency_def big_div_nonneg)

lemma line_accounts_postable:
  assumes "postable_line d c l"
  obtains ea ta where "line_accounts d c e l = Inr (Some ea, ta)"
    and "ta \<noteq> None \<Longrightarrow> 50 \<le> pil_tax_amount l" and "ta \<noteq> None \<Longrightarrow> pil_line_type l \<noteq> ''TAX''"
  using assms
  by (fastforce simp: postable_line_def line_accounts_def split: option.splits if_splits)

lemma group_line_postable:
  assumes "postable_line d c l" and "groups_visible m"
  shows "\<exists>m'. group_line d c e 100000000 m l = Inr m' \<and> groups_visible m'"
proof -
  obtain ea ta where acc: "line_accounts d c e l = Inr (Some ea, ta)"
    and ta: "ta \<noteq> None \<Longrightarrow> 50 \<le> pil_tax_amount l" "ta \<noteq> None \<Longrightarrow> pil_line_type l \<noteq> ''TAX''"
    by (rule line_accounts_postable [OF assms(1)]) blast
  have nn: "0 \<le> pil_qty l" "0 \<le> pil_unit_price l" "0 \<le> pil_tax_amount l"
    and big: "50 \<le> scale4Mul (pil_qty l) (pil_unit_price l)"
    using assms(1) by (auto simp: postable_line_def invoice_line_ok_def)
  then show ?thesis
    using ta assms(2)
    by (cases ta) (simp_all add: group_line_def Let_def acc to_company_currency_one add_to_group_visible)
qed

lemma group_lines_postable:
  assumes "\<forall>l \<in> set ls. postable_line d c l" and "groups_visible m"
  shows "\<exists>m'. foldM (group_line d c e 100000000) m ls = Inr m' \<and> groups_visible m'"
  using assms
proof (induction ls arbitrary: m)
  case (Cons l ls)
  then obtain m1 where "group_line d c e 100000000 m l = Inr m1" "groups_visible m1"
    using group_line_postable by (meson list.set_intros(1))
  with Cons show ?case by simp
qed simp

lemma line_debit_postable:
  assumes "postable_line d c l"
  shows "line_debit 100000000 l = scale4Mul (pil_qty l) (pil_unit_price l) + pil_tax_amount l"
proof -
  have "0 \<le> pil_tax_amount l" "0 \<le> scale4Mul (pil_qty l) (pil_unit_price l)"
    using assms by (auto simp: postable_line_def invoice_line_ok_def)
  moreover have "\<not> (pil_line_type l = ''TAX'' \<and> truthy_id (pil_tax_rate_id l) \<noteq> None)"
    using assms by (auto simp: postable_line_def)
  ultimately show ?thesis by (auto simp: line_debit_def to_company_currency_one)
qed

lemma one_rate: "toScaled8 ''1.00000000'' = Inr 100000000"
  by code_simp

lemma cents_visible: "50 \<le> v \<Longrightarrow> 0 < sql_round_div v 100"
  using sql_round_div_bounds [of v 100] by linarith

lemma visible_entries:
  assumes "groups_visible m"
  shows "list_all entry_sided (map group_entry m)"
  using assms by (auto simp: list_all_iff groups_visible_def group_entry_def entry_sided_def
      intro!: less_imp_le dest!: cents_visible bspec)

lemma consistent_groups:
  assumes "find_invoice d c i = Some pi" and "invoice_consistent d pi"
    and ls: "\<forall>l \<in> set (invoice_lines d c i). postable_line d c l" "invoice_lines d c i \<noteq> []"
  obtains m where "foldM (group_line d c e 100000000) [] (invoice_lines d c i) = Inr m"
    and "groups_visible m" and "groups_ok m" and "groups_total m = pi_subtotal pi + pi_tax_amount pi"
    and "50 \<le> pi_subtotal pi" and "0 \<le> pi_tax_amount pi"
proof -
  let ?ls = "invoice_lines d c i"
  have ids: "pi_company_id pi = c" "pi_id pi = i" using find_invoice_Some [OF assms(1)] by simp_all
  have sub: "pi_subtotal pi = sum_list (map pil_line_total ?ls)"
    and tax: "pi_tax_amount pi = sum_list (map pil_tax_amount ?ls)"
    and lt: "\<forall>l \<in> set ?ls. pil_line_total l = scale4Mul (pil_qty l) (pil_unit_price l)"
    using assms(2) by (simp_all add: invoice_consistent_def Let_def ids)
  have nn: "\<forall>l \<in> set ?ls. 50 \<le> pil_line_total l \<and> 0 \<le> pil_tax_amount l"
    using ls(1) lt by (auto simp: postable_line_def invoice_line_ok_def)
  have tot: "50 * int (length xs) \<le> sum_list (map pil_line_total xs)" "0 \<le> sum_list (map pil_tax_amount xs)"
    if "set xs \<subseteq> set ?ls" for xs using that nn by (induction xs) auto
  have s0: "50 \<le> pi_subtotal pi" "0 \<le> pi_tax_amount pi"
    using tot [of ?ls] ls(2) by (cases ?ls; simp add: sub tax)+
  obtain m where m: "foldM (group_line d c e 100000000) [] ?ls = Inr m" "groups_visible m"
    using group_lines_postable [OF ls(1), of "[]"] by (auto simp: groups_visible_def)
  have gm: "groups_total m = sum_list (map (line_debit 100000000) ?ls)" "groups_ok m"
    using group_lines_effect [OF m(1)] by (simp_all add: groups_ok_def groups_total_def)
  have "map (line_debit 100000000) ?ls = map (\<lambda>l. pil_line_total l + pil_tax_amount l) ?ls"
    using ls(1) lt by (auto simp: line_debit_postable)
  then have "groups_total m = pi_subtotal pi + pi_tax_amount pi"
    by (simp only: gm sub tax sum_list_addf)
  with that m gm s0 show thesis by blast
qed

text \<open>
  The texts of the journal.  A debit of the journal joins the first two descriptions of its
  account, a tax line's with \<open>Tax: \<close> before it: two descriptions of 121 characters still fit.  The
  credit names the invoice and the supplier, which leaves 246 characters for both.
\<close>

definition invoice_texts_fit :: "db \<Rightarrow> nat \<Rightarrow> nat \<Rightarrow> bool" where
  "invoice_texts_fit d c i \<longleftrightarrow>
     (case find_invoice d c i of None \<Rightarrow> False | Some pi \<Rightarrow>
        (\<forall>l \<in> set (invoice_lines d c i). length (pil_description l) \<le> 121) \<and>
        length (pi_invoice_no pi) + length (case find_supplier d c (pi_supplier_id pi) of
            None \<Rightarrow> ''Supplier #'' @ nat_str (pi_supplier_id pi) | Some s \<Rightarrow> sup_name s) \<le> 246)"

definition groups_texts :: "(nat \<times> account_group) list \<Rightarrow> bool" where
  "groups_texts m \<longleftrightarrow> (\<forall>ag \<in> set m. \<forall>s \<in> set (ag_descriptions (snd ag)). length s \<le> 126)"

lemma add_to_group_texts:
  assumes "groups_texts m" and "length s \<le> 126"
  shows "groups_texts (add_to_group a base tax s m)"
proof -
  let ?old = "case map_of m a of None \<Rightarrow> no_group | Some g \<Rightarrow> g"
  let ?g = "\<lparr>ag_base = ag_base ?old + base, ag_tax = ag_tax ?old + tax,
    ag_descriptions = (if s \<in> set (ag_descriptions ?old) then ag_descriptions ?old
      else ag_descriptions ?old @ [s])\<rparr>"
  have "\<forall>x \<in> set (ag_descriptions ?old). length x \<le> 126"
  proof (cases "map_of m a")
    case (Some g)
    then have "(a, g) \<in> set m" by (rule map_of_SomeD)
    with assms(1) Some show ?thesis by (force simp: groups_texts_def)
  qed (simp add: no_group_def)
  with assms(2) have new: "\<forall>x \<in> set (ag_descriptions ?g). length x \<le> 126" by auto
  have sub: "set (AList.update a g m) \<subseteq> insert (a, g) (set m)" for g :: account_group
    by (induction m) auto
  have "\<forall>x \<in> set (ag_descriptions (snd ag)). length x \<le> 126" if "ag \<in> set (AList.update a ?g m)" for ag
    using that sub [of ?g] new assms(1) unfolding groups_texts_def by fastforce
  then show ?thesis by (simp add: groups_texts_def add_to_group_def Let_def)
qed

lemma group_lines_texts:
  assumes "foldM (group_line d c e rate) m ls = Inr m'" and "groups_texts m"
    and "\<forall>l \<in> set ls. length (pil_description l) \<le> 121"
  shows "groups_texts m'"
  using assms
proof (induction ls arbitrary: m)
  case (Cons l ls)
  then obtain m1 where m1: "group_line d c e rate m l = Inr m1" "foldM (group_line d c e rate) m1 ls = Inr m'"
    by (auto simp: inr_simps)
  have "groups_texts m1"
    using m1(1) Cons.prems(2,3)
    by (auto simp: group_line_def Let_def inr_simps add_to_group_texts split: option.splits)
  with Cons m1(2) show ?case by simp
qed simp

lemma join_descriptions_fits:
  assumes "\<forall>s \<in> set ds. length s \<le> 126"
  shows "description_fits (join_descriptions ds)"
proof (cases ds)
  case (Cons a rest)
  show ?thesis
  proof (cases rest)
    case (Cons b more)
    with \<open>ds = a # rest\<close> assms have "length a \<le> 126" "length b \<le> 126" by simp_all
    with Cons \<open>ds = a # rest\<close> show ?thesis by (simp add: join_descriptions_def description_fits_def)
  qed (use Cons assms in \<open>simp add: join_descriptions_def description_fits_def\<close>)
qed (simp add: join_descriptions_def description_fits_def)

lemma group_texts_ok:
  assumes "groups_texts m" and "list_all entry_sided (map group_entry m)"
  shows "list_all entry_ok (map group_entry m)"
  using assms by (auto simp: list_all_iff entry_ok_def groups_texts_def group_entry_def intro!: join_descriptions_fits)

text \<open>
  A draft whose header agrees with its lines posts, when its lines are worth a cent and its texts
  fit; a longer text is the only thing that can stop it.
\<close>

lemma consistent_postable:
  assumes pi: "find_invoice d c i = Some pi" "pi_status pi = PI_DRAFT" and cons: "invoice_consistent d pi"
    and co: "find (\<lambda>co. co_id co = c) (companies d) = Some co"
      "pi_currency_code pi = (case co_currency_code co of None \<Rightarrow> ''IDR'' | Some x \<Rightarrow> x)"
    and acc: "posting_settings d c = Inr acc" "\<not> pa_creditLimitEnabled acc"
    and ls: "\<forall>l \<in> set (invoice_lines d c i). postable_line d c l" "invoice_lines d c i \<noteq> []"
    and free: "batch_free d c ''PURCHASE_INVOICE'' i"
  shows "(\<exists>res d'. postPI c u i g r now d = Inr (res, d')) \<or>
    postPI c u i g r now d = Inl (ER_DATA_TOO_LONG ''description'') \<and> \<not> invoice_texts_fit d c i"
proof -
  define v where "v = pi_subtotal pi + pi_tax_amount pi"
  define desc where "desc = ''PI '' @ pi_invoice_no pi @ '' from '' @
    (case find_supplier d c (pi_supplier_id pi) of
       None \<Rightarrow> ''Supplier #'' @ nat_str (pi_supplier_id pi) | Some s \<Rightarrow> sup_name s)"
  obtain m where m: "foldM (group_line d c (pa_expense acc) 100000000) [] (invoice_lines d c i) = Inr m"
    "groups_visible m" "groups_ok m" "groups_total m = v"
    and s0: "50 \<le> pi_subtotal pi" "0 \<le> pi_tax_amount pi"
    unfolding v_def by (rule consistent_groups [OF pi(1) cons ls])
  then have v: "0 \<le> v" "50 \<le> v" by (simp_all add: v_def)
  define js where "js = map group_journal m @ [\<lparr>ji_account_id = pa_ap acc, ji_debit = ''0.0000'',
    ji_credit = fromScaled4 v, ji_description = desc\<rparr>]"
  have plan: "plan_journal d c acc pi ''1.00000000'' = Inr (js, [])"
    using s0 acc(2) m(1) find_invoice_Some [OF pi(1)]
    by (simp add: plan_journal_def Let_def one_rate to_company_currency_one js_def desc_def v_def)
  have rate: "posting_rate d c pi = Inr ''1.00000000''" using co by (simp add: posting_rate_def)
  have jt: "journal_totals js = Inr (v, v)"
    unfolding js_def using journal_totals_plan [OF m(3) v(1)] m(4) by simp
  have "preparePosting d c i = Inr \<lparr>plan_invoice = pi, plan_rate = ''1.00000000'', plan_lines = js,
      plan_warnings = []\<rparr>"
    by (simp add: preparePosting_def pi rate acc plan jt)
  moreover have "batch_free d c ''PURCHASE_INVOICE'' (pi_id pi)"
    using free find_invoice_Some [OF pi(1)] by simp
  moreover define es where "es = map group_entry m @
    [\<lparr>le_account = pa_ap acc, le_debit = 0, le_credit = sql_round_div v 100, le_description = desc\<rparr>]"
  moreover have "mapM to_entry js = Inr es"
    unfolding js_def es_def by (rule plan_entries [OF m(3) v(1)])
  moreover have sided: "list_all entry_sided es"
    unfolding es_def using visible_entries [OF m(2)] cents_visible [OF v(2)] by (simp add: entry_sided_def)
  moreover have "list_all entry_ok es" if "invoice_texts_fit d c i"
  proof -
    have "groups_texts m"
      by (rule group_lines_texts [OF m(1)]) (use that pi(1) in \<open>auto simp: groups_texts_def invoice_texts_fit_def\<close>)
    moreover have "description_fits desc"
      using that by (simp add: invoice_texts_fit_def pi(1) desc_def description_fits_def)
    ultimately show ?thesis
      using group_texts_ok sided by (simp add: es_def entry_ok_def)
  qed
  ultimately show ?thesis
    using insert_error_long [OF sided]
    by (auto simp: postPI_def commitPosting_def Let_def post_inputs_def post_journal_eq one_rate)
qed

end
