(* ===== verification/Settlement_Documents.thy ===== *)
theory Settlement_Documents
  imports Ap_Payment Purchase_Credit Invoice_Journal Invoice_Draft
begin

text \<open>
  What the creation of a payment stores: the closed form of \<open>createDraftAPPayment\<close>, with its
  retries and its idempotent insert, as one new draft with lines on posted invoices.
\<close>

section \<open>What the creation of a payment stores\<close>

definition draft_lines_for :: "db \<Rightarrow> nat \<Rightarrow> nat \<Rightarrow> ap_payment_line_row list \<Rightarrow> bool" where
  "draft_lines_for d c i ls \<longleftrightarrow> (\<forall>l \<in> set ls. apl_ap_payment_id l = i \<and> 0 \<le> apl_allocation_amount l \<and>
     (\<exists>pi. find_invoice d c (apl_purchase_invoice_id l) = Some pi \<and> pi_status pi = PI_POSTED))"

definition payment_created :: "db \<Rightarrow> nat \<Rightarrow> db \<Rightarrow> bool" where
  "payment_created d c d' \<longleftrightarrow> (\<exists>p ls k. ap_id p = next_id d T_ap_payment \<and> ap_status p = AP_DRAFT \<and>
     draft_lines_for d c (ap_id p) ls \<and> k T_ap_payment = ap_id p \<and>
     (\<forall>t. t \<noteq> T_ap_payment \<longrightarrow> t \<noteq> T_ap_payment_line \<longrightarrow> k t = auto_inc d t) \<and>
     d' = d\<lparr>ap_payments := ap_payments d @ [p], ap_payment_lines := ap_payment_lines d @ ls, auto_inc := k\<rparr>)"

lemma allocation_by_invoice_Inr:
  assumes "allocation_by_invoice ls = Inr allocs" and "l \<in> set ls"
  shows "ial_purchaseInvoiceId l \<in> fst ` set allocs"
proof -
  have "fst ` set m \<subseteq> fst ` set allocs \<and> (\<forall>l \<in> set ls. ial_purchaseInvoiceId l \<in> fst ` set allocs)"
    if "foldM (\<lambda>m l. bindR (toScaled4 (ial_allocationAmount l)) (\<lambda>v.
       Inr (map_add (ial_purchaseInvoiceId l) v m))) m ls = Inr allocs" for m ls
    using that
  proof (induction ls arbitrary: m)
    case (Cons l ls)
    from Cons.prems obtain v where "foldM (\<lambda>m l. bindR (toScaled4 (ial_allocationAmount l)) (\<lambda>v.
       Inr (map_add (ial_purchaseInvoiceId l) v m))) (map_add (ial_purchaseInvoiceId l) v m) ls = Inr allocs"
      by (auto simp: inr_simps)
    from Cons.IH [OF this] show ?case by (simp add: keys_map_add)
  qed simp
  from this [OF assms(1) [unfolded allocation_by_invoice_def]] assms(2) show ?thesis by blast
qed

lemma check_create_allocations_Inr:
  assumes "check_create_allocations d c s allocs = Inr u" and "i \<in> fst ` set allocs"
  shows "\<exists>pi. find_invoice d c i = Some pi \<and> pi_status pi = PI_POSTED"
  using assms by (force simp: check_create_allocations_def foldM_unit inr_simps payable_invoice_Inr)

text \<open>The loop over the lines, with or without the \<open>catch\<close> of a repeated line.\<close>

definition payment_lines_added :: "nat \<Rightarrow> APPaymentLineInput list \<Rightarrow> db \<Rightarrow> db \<Rightarrow> bool" where
  "payment_lines_added i inputs d0 d \<longleftrightarrow> (\<exists>ls k.
     (\<forall>l \<in> set ls. apl_ap_payment_id l = i \<and> 0 \<le> apl_allocation_amount l \<and>
       apl_purchase_invoice_id l \<in> ial_purchaseInvoiceId ` set inputs) \<and>
     (\<forall>t. t \<noteq> T_ap_payment_line \<longrightarrow> k t = auto_inc d0 t) \<and>
     d = d0\<lparr>ap_payment_lines := ap_payment_lines d0 @ ls, auto_inc := k\<rparr>)"

lemma payment_lines_added_refl: "payment_lines_added i inputs d d"
  unfolding payment_lines_added_def by (intro exI [of _ "[]"] exI [of _ "auto_inc d"]) simp

lemma insert_payment_line_added:
  assumes "insert_payment_line i now d nl = Inr d'" and "payment_lines_added i inputs d0 d" and "snd nl \<in> set inputs"
  shows "payment_lines_added i inputs d0 d'"
proof -
  obtain n l where nl: "nl = (n, l)" by fastforce
  from assms(2) obtain ls k where
    ls: "\<forall>l \<in> set ls. apl_ap_payment_id l = i \<and> 0 \<le> apl_allocation_amount l \<and>
      apl_purchase_invoice_id l \<in> ial_purchaseInvoiceId ` set inputs"
    and k: "\<forall>t. t \<noteq> T_ap_payment_line \<longrightarrow> k t = auto_inc d0 t"
    and d: "d = d0\<lparr>ap_payment_lines := ap_payment_lines d0 @ ls, auto_inc := k\<rparr>"
    by (auto simp: payment_lines_added_def)
  from assms(1) obtain amount where amount: "toScaled4 (ial_allocationAmount l) = Inr amount"
    and d': "d' = bump T_ap_payment_line (d\<lparr>ap_payment_lines := ap_payment_lines d @
      [new_payment_line_row i n l amount now (next_id d T_ap_payment_line)]\<rparr>)"
    by (auto simp: insert_payment_line_def nl inr_simps)
  let ?row = "new_payment_line_row i n l amount now (next_id d T_ap_payment_line)"
  show ?thesis
    unfolding payment_lines_added_def
    by (intro exI [of _ "ls @ [?row]"] exI [of _ "k(T_ap_payment_line := Suc (k T_ap_payment_line))"])
      (use ls k toScaled4_nonneg [OF amount] assms(3) in \<open>auto simp: d' d bump_def new_payment_line_row_def nl\<close>)
qed

lemma insert_payment_line_once_added:
  assumes "insert_payment_line_once i now d nl = Inr d'" and "payment_lines_added i inputs d0 d" and "snd nl \<in> set inputs"
  shows "payment_lines_added i inputs d0 d'"
  using assms insert_payment_line_added
  by (auto simp: insert_payment_line_once_def split: sum.splits if_splits)

lemma snd_numbered: "x \<in> set (numbered xs) \<Longrightarrow> snd x \<in> set xs"
  by (cases x) (auto simp: numbered_def simp del: upt_Suc dest: set_zip_rightD)

lemma payment_loop_added:
  assumes "foldM f d0 (numbered inputs) = Inr d"
    and "\<And>s x s'. f s x = Inr s' \<Longrightarrow> payment_lines_added i inputs d0 s \<Longrightarrow> snd x \<in> set inputs \<Longrightarrow>
      payment_lines_added i inputs d0 s'"
  shows "payment_lines_added i inputs d0 d"
  using assms(1) payment_lines_added_refl
  by (rule foldM_invariant) (blast intro: assms(2) snd_numbered)

lemma payment_created_lines:
  assumes row: "row = new_payment_row input key no now (next_id d T_ap_payment)"
    and added: "payment_lines_added (ap_id row) (iap_lines input) (insert_payment row d) d'"
    and posted: "\<forall>l \<in> set (iap_lines input). \<exists>pi. find_invoice d c (ial_purchaseInvoiceId l) = Some pi \<and> pi_status pi = PI_POSTED"
  shows "payment_created d c d'"
proof -
  from added obtain ls k where
    ls: "\<forall>l \<in> set ls. apl_ap_payment_id l = ap_id row \<and> 0 \<le> apl_allocation_amount l \<and>
      apl_purchase_invoice_id l \<in> ial_purchaseInvoiceId ` set (iap_lines input)"
    and k: "\<forall>t. t \<noteq> T_ap_payment_line \<longrightarrow> k t = auto_inc (insert_payment row d) t"
    and d': "d' = (insert_payment row d)\<lparr>ap_payment_lines := ap_payment_lines d @ ls, auto_inc := k\<rparr>"
    by (auto simp: payment_lines_added_def insert_payment_def bump_def)
  have "draft_lines_for d c (ap_id row) ls" using ls posted by (fastforce simp: draft_lines_for_def)
  moreover have "ap_id row = next_id d T_ap_payment" "ap_status row = AP_DRAFT" by (simp_all add: row new_payment_row_def)
  ultimately show ?thesis
    unfolding payment_created_def using k
    by (intro exI [of _ row] exI [of _ ls] exI [of _ k]) (simp add: d' insert_payment_def bump_def next_id_def)
qed

lemma existing_payment_None:
  assumes "existing_payment d c key = None" and "truthy_str key = Some k"
  shows "find_payment_by_key d c k = None"
proof (rule ccontr)
  assume "find_payment_by_key d c k \<noteq> None"
  then obtain p where p: "find_payment_by_key d c k = Some p" by auto
  then have "p \<in> set (ap_payments d)" "ap_company_id p = c"
    unfolding find_payment_by_key_def by (auto dest: find_SomeD)
  then have "find_payment d c (ap_id p) \<noteq> None"
    by (auto simp: find_payment_def find_None_iff_all)
  with assms p show False by (auto simp: existing_payment_def getAPPaymentById_def split: option.splits)
qed

lemma create_payment_trx_created:
  assumes "create_payment_trx input allocs now d = Inr (r, d')"
    and "existing_payment d (iap_companyId input) (iap_idempotencyKey input) = None"
    and allocs: "allocation_by_invoice (iap_lines input) = Inr allocs"
  shows "payment_created d (iap_companyId input) d'"
proof -
  let ?c = "iap_companyId input"
  let ?no = "generatePaymentNo d ?c (iap_paymentDate input)"
  have "check_create_allocations d ?c (iap_supplierId input) allocs = Inr ()"
    using assms(1) by (auto simp: create_payment_trx_def Let_def inr_simps)
  with allocs have posted: "\<forall>l \<in> set (iap_lines input). \<exists>pi. find_invoice d ?c (ial_purchaseInvoiceId l) = Some pi \<and> pi_status pi = PI_POSTED"
    by (blast intro: check_create_allocations_Inr allocation_by_invoice_Inr)
  show ?thesis
  proof (cases "truthy_str (iap_idempotencyKey input)")
    case None
    let ?row = "new_payment_row input None ?no now (next_id d T_ap_payment)"
    from assms(1) None obtain d2 where
      "foldM (insert_payment_line (ap_id ?row) now) (insert_payment ?row d) (numbered (iap_lines input)) = Inr d2"
      and d': "d' = d2"
      by (auto simp: create_payment_trx_def insert_plain_def Let_def inr_simps split: option.splits)
    from payment_loop_added [OF this(1) insert_payment_line_added]
    show ?thesis unfolding d' by (rule payment_created_lines [OF refl _ posted])
  next
    case (Some key)
    let ?row = "new_payment_row input (Some key) ?no now (next_id d T_ap_payment)"
    have none: "find_payment_by_key d ?c key = None" by (rule existing_payment_None [OF assms(2) Some])
    from assms(1) Some have ins: "insert_idempotent input key ?no now d = Inr (r, d')"
      by (auto simp: create_payment_trx_def Let_def inr_simps)
    have "payment_conflict d ?row = None"
    proof (rule ccontr)
      assume "payment_conflict d ?row \<noteq> None"
      then obtain uk p where "payment_conflict d ?row = Some (uk, p)" by (cases "payment_conflict d ?row") auto
      with ins obtain q where "find_payment d ?c (ap_id p) = Some q" "ap_idempotency_key q = Some key"
        by (auto simp: insert_idempotent_def Let_def inr_simps)
      with none show False
        using find_payment_Some by (fastforce simp: find_payment_by_key_def find_None_iff_all)
    qed
    with ins obtain d2 where d2: "(if filter (\<lambda>l. apl_ap_payment_id l = ap_id ?row) (ap_payment_lines (insert_payment ?row d)) = []
         then foldM (insert_payment_line_once (ap_id ?row) now) (insert_payment ?row d) (numbered (iap_lines input))
         else Inr (insert_payment ?row d)) = Inr d2" and d': "d' = d2"
      by (auto simp: insert_idempotent_def Let_def inr_simps)
    have "payment_lines_added (ap_id ?row) (iap_lines input) (insert_payment ?row d) d2"
    proof (cases "filter (\<lambda>l. apl_ap_payment_id l = ap_id ?row) (ap_payment_lines (insert_payment ?row d)) = []")
      case True
      with d2 have "foldM (insert_payment_line_once (ap_id ?row) now) (insert_payment ?row d) (numbered (iap_lines input)) = Inr d2"
        by (simp only: if_True refl)
      then show ?thesis by (rule payment_loop_added) (rule insert_payment_line_once_added)
    next
      case False
      with d2 show ?thesis by (simp only: if_False sum.inject) (simp add: payment_lines_added_refl)
    qed
    then show ?thesis unfolding d' by (rule payment_created_lines [OF refl _ posted])
  qed
qed

lemma create_payment_attempts_created:
  assumes "create_payment_attempts n input allocs now d = Inr (r, d')"
    and "existing_payment d (iap_companyId input) (iap_idempotencyKey input) = None"
    and "allocation_by_invoice (iap_lines input) = Inr allocs"
  shows "d' = d \<or> payment_created d (iap_companyId input) d'"
  using assms
  by (induction n) (auto split: sum.splits prod.splits option.splits if_splits dest: create_payment_trx_created)

lemma createDraftAPPayment_stores:
  assumes "createDraftAPPayment input now d = Inr (r, d')"
  shows "d' = d \<or> payment_created d (iap_companyId input) d'"
proof (cases "existing_payment d (iap_companyId input) (iap_idempotencyKey input)")
  case None
  with assms obtain allocs a b where "allocation_by_invoice (iap_lines input) = Inr allocs"
    "create_payment_attempts 3 input allocs now d = Inr (a, b)"
    and "(case a of Inl x \<Rightarrow> Inr (x, b) | Inr i \<Rightarrow>
      bindR (from_opt (JsError ''Failed to fetch created AP payment'') (getAPPaymentById b (iap_companyId input) i))
        (\<lambda>payment. Inr (payment, b))) = Inr (r, d')"
    by (auto simp: createDraftAPPayment_def bindR_Inr require_Inr from_opt_Inr simp del: create_payment_attempts.simps)
  moreover from this(3) have "b = d'" by (cases a) (simp_all add: inr_simps)
  ultimately have "allocation_by_invoice (iap_lines input) = Inr allocs"
    "create_payment_attempts 3 input allocs now d = Inr (a, d')" by simp_all
  from create_payment_attempts_created [OF this(2) None this(1)] show ?thesis .
next
  case (Some x)
  with assms show ?thesis by (simp add: createDraftAPPayment_def)
qed

end
