(* ===== verification/Settlement.thy ===== *)
theory Settlement
  imports Settlement_Documents
begin

text \<open>
  The three services that settle invoices, together: invoices, payments and credits of any
  companies, created, posted, applied and voided in any order.  The invariant is that no invoice
  is settled beyond its value; it composes the facts about each service and rests on the contract
  \<open>step_invariant\<close>.
\<close>

section \<open>The invariant\<close>

definition past_draft :: "db \<Rightarrow> nat \<Rightarrow> bool" where
  "past_draft d i \<longleftrightarrow> (\<exists>pi \<in> set (purchase_invoices d). pi_id pi = i \<and> pi_status pi \<noteq> PI_DRAFT)"

definition documents_keyed :: "db \<Rightarrow> bool" where
  "documents_keyed d \<longleftrightarrow> invoice_keys d \<and> distinct (map pi_id (purchase_invoices d)) \<and> payment_keys d \<and>
     (\<forall>p \<in> set (ap_payments d). ap_id p \<le> auto_inc d T_ap_payment) \<and> credit_keys d \<and>
     (\<forall>r \<in> set (purchase_credits d). pc_id r \<le> auto_inc d T_purchase_credit)"

definition settlements_linked :: "db \<Rightarrow> bool" where
  "settlements_linked d \<longleftrightarrow>
     (\<forall>l \<in> set (ap_payment_lines d). apl_ap_payment_id l \<le> auto_inc d T_ap_payment \<and>
        past_draft d (apl_purchase_invoice_id l)) \<and>
     (\<forall>a \<in> set (purchase_credit_applications d). pca_purchase_credit_id a \<le> auto_inc d T_purchase_credit \<and>
        \<not> (\<exists>r \<in> set (purchase_credits d). pc_id r = pca_purchase_credit_id a \<and> pc_status r = PC_DRAFT) \<and>
        past_draft d (pca_purchase_invoice_id a))"

definition within_base :: "db \<Rightarrow> bool" where
  "within_base d \<longleftrightarrow> (\<forall>pi \<in> set (purchase_invoices d). 0 \<le> open_amount d pi)"

definition settlement_ok :: "db \<Rightarrow> bool" where
  "settlement_ok d \<longleftrightarrow> documents_keyed d \<and> settlements_linked d \<and> amounts_nonneg d \<and> within_base d"

lemmas settlement_defs = settlement_ok_def documents_keyed_def settlements_linked_def within_base_def

subsection \<open>Invoices\<close>

text \<open>Nothing settles an invoice that no payment line and no application names.\<close>

definition unsettled :: "db \<Rightarrow> nat \<Rightarrow> bool" where
  "unsettled d i \<longleftrightarrow> i \<notin> apl_purchase_invoice_id ` set (ap_payment_lines d) \<and>
     i \<notin> pca_purchase_invoice_id ` set (purchase_credit_applications d)"

lemma open_amount_unsettled: "unsettled d (pi_id pi) \<Longrightarrow> open_amount d pi = base_grand_total pi"
  unfolding unsettled_def open_amount_def paid_total_def credited_total_def
  by (subst (1 2) sum_for_none) auto

lemma draft_unsettled:
  assumes "settlement_ok d" and "pi \<in> set (purchase_invoices d)" and "pi_status pi = PI_DRAFT"
  shows "unsettled d (pi_id pi)"
proof -
  have "\<not> past_draft d (pi_id pi)"
    using assms distinct_map_eq [of pi_id "purchase_invoices d" _ pi]
    unfolding past_draft_def settlement_defs by metis
  with assms(1) show ?thesis by (auto simp: unsettled_def settlement_defs)
qed

lemma fresh_unsettled: "settlement_ok d \<Longrightarrow> unsettled d (next_id d T_purchase_invoice)"
  by (fastforce simp: unsettled_def settlement_defs past_draft_def invoice_keys_def next_id_def)

text \<open>Tables that differ in invoices only: one by one, an invoice stays as it was settled, or has nothing on it.\<close>

lemma settlement_ok_invoices:
  assumes ok: "settlement_ok d"
    and frame: "ap_payments d' = ap_payments d" "ap_payment_lines d' = ap_payment_lines d"
      "purchase_credits d' = purchase_credits d" "purchase_credit_applications d' = purchase_credit_applications d"
      "auto_inc d' T_ap_payment = auto_inc d T_ap_payment" "auto_inc d' T_purchase_credit = auto_inc d T_purchase_credit"
    and keys: "invoice_keys d'" "distinct (map pi_id (purchase_invoices d'))"
    and kept: "\<And>i. past_draft d i \<Longrightarrow> past_draft d' i"
    and each: "\<And>pi. pi \<in> set (purchase_invoices d') \<Longrightarrow> 0 \<le> pi_grand_total pi \<and> 0 \<le> pi_exchange_rate pi \<and>
      (unsettled d (pi_id pi) \<or> (\<exists>q \<in> set (purchase_invoices d). pi_id pi = pi_id q \<and> pi_company_id pi = pi_company_id q \<and>
        pi_grand_total pi = pi_grand_total q \<and> pi_exchange_rate pi = pi_exchange_rate q))"
  shows "settlement_ok d'"
proof -
  have nn: "amounts_nonneg d'" using ok each by (simp add: amounts_nonneg_def settlement_ok_def frame)
  have "0 \<le> open_amount d' pi" if pi: "pi \<in> set (purchase_invoices d')" for pi
  proof -
    have same: "open_amount d' pi = open_amount d pi" by (rule open_amount_cong) (simp_all add: frame)
    from each [OF pi] show ?thesis
    proof (elim conjE disjE bexE)
      assume "unsettled d (pi_id pi)"
      then show ?thesis using same open_amount_unsettled base_grand_total_nonneg [OF nn pi] by simp
    next
      fix q assume q: "q \<in> set (purchase_invoices d)" "pi_id pi = pi_id q" "pi_company_id pi = pi_company_id q"
        "pi_grand_total pi = pi_grand_total q" "pi_exchange_rate pi = pi_exchange_rate q"
      then have "open_amount d pi = open_amount d q" by (simp add: open_amount_def base_grand_total_def)
      with ok q(1) same show ?thesis by (simp add: settlement_defs)
    qed
  qed
  with ok nn keys kept show ?thesis
    by (simp add: settlement_defs payment_keys_def credit_keys_def frame)
qed

lemma insert_invoice_line_counters:
  "insert_invoice_line c i now (s, t, d) nl = Inr (s', t', d') \<Longrightarrow> k \<noteq> T_purchase_invoice_line \<Longrightarrow>
   auto_inc d' k = auto_inc d k"
  by (cases nl) (auto simp: insert_invoice_line_def inr_simps bump_def Let_def)

lemma create_invoice_trx_counters:
  assumes "create_invoice_trx input now d = Inr (i, d')" and "k \<noteq> T_purchase_invoice" and "k \<noteq> T_purchase_invoice_line"
  shows "auto_inc d' k = auto_inc d k"
proof -
  from assms(1) obtain rate s t d1 where
    fold: "foldM (insert_invoice_line (ipi_companyId input) (next_id d T_purchase_invoice) now)
      (0, 0, insert_invoice (new_invoice_row input rate now (next_id d T_purchase_invoice)) d) (numbered (ipi_lines input)) = Inr (s, t, d1)"
    and d': "auto_inc d' = auto_inc d1"
    by (auto simp: create_invoice_trx_def Let_def inr_simps new_invoice_row_def split: option.splits)
  from fold have "case (s, t, d1) of (s, t, d1) \<Rightarrow> auto_inc d1 k = auto_inc d k"
    by (rule foldM_invariant) (use assms(2,3) insert_invoice_line_counters in
      \<open>auto simp: insert_invoice_def bump_def\<close>)
  then show ?thesis by (simp add: d')
qed

lemma createDraftPI_settlement:
  assumes ok: "settlement_ok d" and create: "createDraftPI input now d = Inr (r, d')"
  shows "settlement_ok d'"
proof (cases "existing_invoice d (ipi_companyId input) (ipi_idempotencyKey input)")
  case None
  from createDraftPI_new [OF create None] obtain i where trx: "create_invoice_trx input now d = Inr (i, d')" by metis
  have keys: "invoice_keys d" using ok by (simp add: settlement_defs)
  from create_invoice_trx_effect [OF keys trx] obtain rate rows k where
    rows: "line_rows_for (ipi_companyId input) i (ipi_lines input) rows"
    and i: "i = next_id d T_purchase_invoice" and k: "k T_purchase_invoice = i"
    and rate: "toScaled8 (case ipi_exchangeRate input of None \<Rightarrow> ''1.00000000'' | Some r \<Rightarrow> r) = Inr rate"
    and d': "d' = d\<lparr>purchase_invoices := purchase_invoices d @ [with_totals (sum_list (map pil_line_total rows))
        (sum_list (map pil_tax_amount rows)) now (new_invoice_row input rate now i)],
      purchase_invoice_lines := purchase_invoice_lines d @ rows, auto_inc := k\<rparr>" by metis
  let ?h = "with_totals (sum_list (map pil_line_total rows)) (sum_list (map pil_tax_amount rows)) now
    (new_invoice_row input rate now i)"
  have h: "pi_id ?h = i" "pi_exchange_rate ?h = rate"
    "pi_grand_total ?h = sum_list (map pil_line_total rows) + sum_list (map pil_tax_amount rows)"
    by (simp_all add: with_totals_def new_invoice_row_def)
  have "\<forall>x \<in> set rows. 0 \<le> pil_line_total x \<and> 0 \<le> pil_tax_amount x"
    using rows unfolding line_rows_for_def invoice_line_ok_def by blast
  then have nn: "0 \<le> pi_grand_total ?h" "0 \<le> pi_exchange_rate ?h"
    using toScaled_nonneg [OF rate [unfolded toScaled8_def]] unfolding h
    by (auto intro!: add_nonneg_nonneg sum_list_nonneg)
  show ?thesis
  proof (rule settlement_ok_invoices [OF ok])
    show "invoice_keys d'"
      using keys rows k h(1) by (fastforce simp: invoice_keys_def d' line_rows_for_def i next_id_def)
    show "distinct (map pi_id (purchase_invoices d'))"
      using ok keys h(1) by (fastforce simp: d' settlement_defs invoice_keys_def i next_id_def)
    show "past_draft d j \<Longrightarrow> past_draft d' j" for j by (auto simp: past_draft_def d')
    fix pi assume "pi \<in> set (purchase_invoices d')"
    then have "pi = ?h \<or> pi \<in> set (purchase_invoices d)" by (auto simp: d')
    then show "0 \<le> pi_grand_total pi \<and> 0 \<le> pi_exchange_rate pi \<and> (unsettled d (pi_id pi) \<or>
      (\<exists>q \<in> set (purchase_invoices d). pi_id pi = pi_id q \<and> pi_company_id pi = pi_company_id q \<and>
        pi_grand_total pi = pi_grand_total q \<and> pi_exchange_rate pi = pi_exchange_rate q))"
    proof
      assume "pi = ?h"
      then show ?thesis using nn h(1) i fresh_unsettled [OF ok] by simp
    next
      assume "pi \<in> set (purchase_invoices d)"
      then show ?thesis using ok by (auto simp: settlement_defs amounts_nonneg_def)
    qed
  qed (use create_invoice_trx_counters [OF trx] in \<open>simp_all add: d'\<close>)
next
  case (Some x)
  with create ok show ?thesis by (simp add: createDraftPI_def)
qed

lemma past_draft_update:
  assumes "past_draft d i" and "purchase_invoices d' = update_where P f (purchase_invoices d)"
    and "\<And>h. pi_id (f h) = pi_id h" and "\<And>h. pi_status (f h) \<noteq> PI_DRAFT"
  shows "past_draft d' i"
proof -
  from assms(1) obtain pi where pi: "pi \<in> set (purchase_invoices d)" "pi_id pi = i" "pi_status pi \<noteq> PI_DRAFT"
    by (auto simp: past_draft_def)
  then have "(if P pi then f pi else pi) \<in> set (purchase_invoices d')" by (auto simp: assms(2) update_where_def)
  with pi(2,3) assms(3,4) show ?thesis
    unfolding past_draft_def by (intro bexI [of _ "if P pi then f pi else pi"]) auto
qed

lemma postPI_settlement:
  assumes ok: "settlement_ok d" and post: "postPI c u i g r now d = Inr (res, d')"
  shows "settlement_ok d'"
proof -
  from post obtain plan where prep: "preparePosting d c i = Inr plan"
    and commit: "commitPosting c u plan g r now d = Inr (res, d')"
    by (auto simp: postPI_def inr_simps)
  from preparePosting_Inr [OF prep] obtain pi where pi: "find_invoice d c i = Some pi" "pi_status pi = PI_DRAFT"
    and plan: "plan_invoice plan = pi" by metis
  note pp = find_invoice_Some [OF pi(1)]
  from commitPosting_Inr [OF commit] obtain es rate where rate: "toScaled8 (plan_rate plan) = Inr rate"
    and d': "d' = record_override g r c u ''PURCHASE_INVOICE'' (pi_id (plan_invoice plan)) now
      (mark_invoice_posted (pi_id (plan_invoice plan)) rate (next_id d T_journal_batch) u now
        (posted_db c ''PURCHASE_INVOICE'' (pi_id (plan_invoice plan)) (pi_invoice_date (plan_invoice plan))
          now es d))" by metis
  let ?f = "posted_invoice rate (next_id d T_journal_batch) u now"
  have invs: "purchase_invoices d' = update_where (\<lambda>h. pi_id h = i) ?f (purchase_invoices d)"
    using pp by (simp add: d' plan)
  have rate0: "0 \<le> rate" using rate toScaled_nonneg by (auto simp: toScaled8_def)
  have un: "unsettled d i" using draft_unsettled [OF ok _ pi(2)] pp by simp
  show ?thesis
  proof (rule settlement_ok_invoices [OF ok])
    show "invoice_keys d'"
      using ok by (auto simp: settlement_defs invoice_keys_def d' set_update_where posted_invoice_def)
    show "distinct (map pi_id (purchase_invoices d'))"
      using ok by (simp add: invs update_where_map_id posted_invoice_def settlement_defs)
    show "past_draft d j \<Longrightarrow> past_draft d' j" for j
      by (erule past_draft_update [OF _ invs]) (simp_all add: posted_invoice_def)
    fix q assume "q \<in> set (purchase_invoices d')"
    then obtain q0 where "q0 \<in> set (purchase_invoices d)" "q = (if pi_id q0 = i then ?f q0 else q0)"
      by (auto simp: invs update_where_def)
    then show "0 \<le> pi_grand_total q \<and> 0 \<le> pi_exchange_rate q \<and> (unsettled d (pi_id q) \<or>
      (\<exists>q' \<in> set (purchase_invoices d). pi_id q = pi_id q' \<and> pi_company_id q = pi_company_id q' \<and>
        pi_grand_total q = pi_grand_total q' \<and> pi_exchange_rate q = pi_exchange_rate q'))"
      using ok rate0 un by (auto simp: settlement_defs amounts_nonneg_def posted_invoice_def)
  qed (simp_all add: d')
qed

lemma voidPI_settlement:
  assumes ok: "settlement_ok d" and void: "voidPI c u i g r now d = Inr (res, d')"
  shows "settlement_ok d'"
proof -
  from void obtain pi es where pi: "find_invoice d c i = Some pi"
    and d': "d' = record_override g r c u ''PURCHASE_INVOICE_VOID'' (pi_id pi) now
      (mark_invoice_void (pi_id pi) u now (posted_db c ''PURCHASE_INVOICE_VOID'' (pi_id pi) (pi_invoice_date pi) now es d))"
    by (auto simp: voidPI_def prepareVoid_def commitVoid_def inr_simps Let_def)
  let ?f = "voided_invoice u now"
  have invs: "purchase_invoices d' = update_where (\<lambda>h. pi_id h = pi_id pi) ?f (purchase_invoices d)"
    by (simp add: d')
  show ?thesis
  proof (rule settlement_ok_invoices [OF ok])
    show "invoice_keys d'"
      using ok by (auto simp: settlement_defs invoice_keys_def d' set_update_where voided_invoice_def mark_invoice_void_def)
    show "distinct (map pi_id (purchase_invoices d'))"
      using ok by (simp add: invs update_where_map_id voided_invoice_def settlement_defs)
    show "past_draft d j \<Longrightarrow> past_draft d' j" for j
      by (erule past_draft_update [OF _ invs]) (simp_all add: voided_invoice_def)
    fix q assume "q \<in> set (purchase_invoices d')"
    then obtain q0 where "q0 \<in> set (purchase_invoices d)" "q = (if pi_id q0 = pi_id pi then ?f q0 else q0)"
      by (auto simp: invs update_where_def)
    then show "0 \<le> pi_grand_total q \<and> 0 \<le> pi_exchange_rate q \<and> (unsettled d (pi_id q) \<or>
      (\<exists>q' \<in> set (purchase_invoices d). pi_id q = pi_id q' \<and> pi_company_id q = pi_company_id q' \<and>
        pi_grand_total q = pi_grand_total q' \<and> pi_exchange_rate q = pi_exchange_rate q'))"
      by (intro conjI disjI2 bexI [of _ q0]) (use ok in \<open>auto simp: settlement_defs amounts_nonneg_def voided_invoice_def\<close>)
  qed (simp_all add: d')
qed

subsection \<open>Payments\<close>

lemma past_draft_cong: "purchase_invoices d' = purchase_invoices d \<Longrightarrow> past_draft d' i = past_draft d i"
  by (simp add: past_draft_def)

lemma posted_past_draft: "find_invoice d c i = Some pi \<Longrightarrow> pi_status pi = PI_POSTED \<Longrightarrow> past_draft d i"
  using find_invoice_Some by (fastforce simp: past_draft_def)

text \<open>A new payment is a draft, so its lines do not count.\<close>

lemma payment_created_counts:
  assumes ok: "settlement_ok d" and created: "payment_created d c d'"
  shows "filter (payment_counts d' co) (ap_payment_lines d') = filter (payment_counts d co) (ap_payment_lines d)"
proof -
  from created obtain p ls k where p: "ap_id p = next_id d T_ap_payment" "ap_status p = AP_DRAFT"
    and ls: "draft_lines_for d c (ap_id p) ls"
    and d': "d' = d\<lparr>ap_payments := ap_payments d @ [p], ap_payment_lines := ap_payment_lines d @ ls, auto_inc := k\<rparr>"
    by (auto simp: payment_created_def)
  have fresh: "ap_id q \<noteq> ap_id p" if "q \<in> set (ap_payments d)" for q
    using ok that p(1) by (fastforce simp: settlement_defs next_id_def)
  have old: "apl_ap_payment_id l \<noteq> ap_id p" if "l \<in> set (ap_payment_lines d)" for l
    using ok that p(1) by (fastforce simp: settlement_defs next_id_def)
  have "\<not> payment_counts d' co l" if "l \<in> set ls" for l
    using that ls fresh p(2) by (auto simp: payment_counts_def d' draft_lines_for_def)
  moreover have "payment_counts d' co l = payment_counts d co l" if "l \<in> set (ap_payment_lines d)" for l
    using old [OF that] by (auto simp: payment_counts_def d')
  ultimately show ?thesis by (simp add: d' filter_False cong: filter_cong)
qed

lemma payment_created_opens:
  assumes "settlement_ok d" and "payment_created d c d'"
  shows "open_amount d' pi = open_amount d pi"
  using assms(2)
  by (auto simp: open_amount_def paid_total_def payment_created_counts [OF assms] credited_total_def
      credit_counts_def [abs_def] payment_created_def)

lemma createDraftAPPayment_settlement:
  assumes ok: "settlement_ok d" and create: "createDraftAPPayment input now d = Inr (r, d')"
  shows "settlement_ok d'"
proof (cases "d' = d")
  case False
  with createDraftAPPayment_stores [OF create] have created: "payment_created d (iap_companyId input) d'" by blast
  then obtain p ls k where
    p: "ap_id p = next_id d T_ap_payment" "ap_status p = AP_DRAFT"
    and ls: "draft_lines_for d (iap_companyId input) (ap_id p) ls" and k: "k T_ap_payment = ap_id p"
      "\<forall>t. t \<noteq> T_ap_payment \<longrightarrow> t \<noteq> T_ap_payment_line \<longrightarrow> k t = auto_inc d t"
    and d': "d' = d\<lparr>ap_payments := ap_payments d @ [p], ap_payment_lines := ap_payment_lines d @ ls, auto_inc := k\<rparr>"
    by (auto simp: payment_created_def)
  have fresh: "ap_id q \<noteq> ap_id p" if "q \<in> set (ap_payments d)" for q
    using ok that p(1) by (fastforce simp: settlement_defs next_id_def)
  have opens: "open_amount d' pi = open_amount d pi" for pi by (rule payment_created_opens [OF ok created])
  have lines: "\<forall>l \<in> set ls. apl_ap_payment_id l = ap_id p \<and> 0 \<le> apl_allocation_amount l \<and> past_draft d (apl_purchase_invoice_id l)"
    using ls posted_past_draft by (fastforce simp: draft_lines_for_def)
  have "documents_keyed d'" using ok p fresh k
    by (fastforce simp: settlement_defs invoice_keys_def payment_keys_def credit_keys_def d' next_id_def)
  moreover have "settlements_linked d'" using ok lines k p(1)
    by (fastforce simp: settlement_defs d' past_draft_cong [of d'] next_id_def past_draft_def)
  moreover have "amounts_nonneg d'" using ok lines by (auto simp: settlement_ok_def amounts_nonneg_def d')
  moreover have "within_base d'" using ok by (simp add: settlement_ok_def within_base_def opens) (simp add: d')
  ultimately show ?thesis by (simp add: settlement_ok_def)
qed (use ok in simp)

text \<open>Tables that differ in the status of payments only.\<close>

lemma settlement_ok_payments:
  assumes ok: "settlement_ok d"
    and frame: "purchase_invoices d' = purchase_invoices d" "purchase_invoice_lines d' = purchase_invoice_lines d"
      "ap_payment_lines d' = ap_payment_lines d"
      "purchase_credits d' = purchase_credits d" "purchase_credit_applications d' = purchase_credit_applications d"
      "auto_inc d' T_purchase_invoice = auto_inc d T_purchase_invoice"
      "auto_inc d' T_ap_payment = auto_inc d T_ap_payment" "auto_inc d' T_purchase_credit = auto_inc d T_purchase_credit"
    and payments: "ap_payments d' = update_where P f (ap_payments d)" "\<And>p. ap_id (f p) = ap_id p"
    and opens: "\<And>pi. pi \<in> set (purchase_invoices d) \<Longrightarrow> 0 \<le> open_amount d' pi"
  shows "settlement_ok d'"
proof -
  have "documents_keyed d'"
    using ok payments
    by (auto simp: settlement_defs payments update_where_map_id set_update_where invoice_keys_def payment_keys_def credit_keys_def frame)
  then show ?thesis using ok opens
    by (simp add: settlement_defs amounts_nonneg_def past_draft_cong [of d'] frame)
qed

lemma find_invoice_row:
  assumes "settlement_ok d" and "pi \<in> set (purchase_invoices d)"
  shows "find_invoice d (pi_company_id pi) (pi_id pi) = Some pi"
  unfolding find_invoice_def
  by (rule find_unique [where k = pi_id]) (use assms in \<open>auto simp: settlement_defs\<close>)

lemma postAPPayment_settlement:
  assumes ok: "settlement_ok d" and post: "postAPPayment c u pid g r now d = Inr (res, d')"
  shows "settlement_ok d'"
proof -
  have keys: "payment_keys d" using ok by (simp add: settlement_defs)
  from post obtain p where p: "find_payment d c pid = Some p" by (auto simp: postAPPayment_def inr_simps)
  show ?thesis
  proof (cases "ap_status p = AP_DRAFT")
    case True
    from postAPPayment_draft [OF post p True] obtain es where
      d': "d' = record_override g r c u ''AP_PAYMENT'' pid now
        (mark_payment_posted pid (next_id d T_journal_batch) u now
          (posted_db c ''AP_PAYMENT'' pid (ap_payment_date p) now es d))" by metis
    have opens: "0 \<le> open_amount d' pi" if pi: "pi \<in> set (purchase_invoices d)" for pi
    proof (cases "pi_company_id pi = c \<and> pi_id pi \<in> apl_purchase_invoice_id ` set (payment_lines d pid)")
      case True
      with find_invoice_row [OF ok pi] show ?thesis
        using postAPPayment_never_overpays [OF keys post p \<open>ap_status p = AP_DRAFT\<close>] by blast
    next
      case False
      then have "open_amount d' pi = open_amount d pi"
        by (auto simp: postAPPayment_open_amount [OF keys post p True] sum_for_none)
      with ok pi show ?thesis by (simp add: settlement_defs)
    qed
    show ?thesis
      by (rule settlement_ok_payments [OF ok, where P = "\<lambda>p. ap_id p = pid" and f = "\<lambda>p. p\<lparr>ap_status := AP_POSTED,
          ap_journal_batch_id := Some (next_id d T_journal_batch), ap_posted_at := Some now,
          ap_posted_by_user_id := Some u, ap_updated_at := now\<rparr>"]) (use opens in \<open>simp_all add: d'\<close>)
  next
    case False
    with post p have "d' = d" by (auto simp: postAPPayment_def inr_simps split: if_splits)
    with ok show ?thesis by simp
  qed
qed

lemma voidAPPayment_settlement:
  assumes ok: "settlement_ok d" and void: "voidAPPayment c u pid g r now d = Inr (res, d')"
  shows "settlement_ok d'"
proof -
  have keys: "payment_keys d" using ok by (simp add: settlement_defs)
  from voidAPPayment_Inr [OF void] obtain p b where p: "find_payment d c pid = Some p"
    and d': "d' = record_override g r c u ''AP_PAYMENT_VOID'' pid now (mark_payment_void pid u now
      (posted_db c ''AP_PAYMENT_VOID'' pid (ap_payment_date p) now
        (map (reverse_entry (\<lambda>s. ''VOID: '' @ s)) (batch_entries d c b)) d))" by metis
  have "0 \<le> sum_for apl_purchase_invoice_id apl_allocation_amount i (payment_lines d pid)" for i
    by (rule sum_for_nonneg) (use ok in \<open>auto simp: payment_lines_def settlement_ok_def amounts_nonneg_def\<close>)
  then have opens: "0 \<le> open_amount d' pi" if "pi \<in> set (purchase_invoices d)" for pi
    using ok that by (simp add: voidAPPayment_open_amount [OF keys void] settlement_defs)
  show ?thesis
    by (rule settlement_ok_payments [OF ok, where P = "\<lambda>p. ap_id p = pid \<and> ap_status p = AP_POSTED" and
        f = "\<lambda>p. p\<lparr>ap_status := AP_VOID, ap_voided_at := Some now, ap_voided_by_user_id := Some u,
          ap_updated_at := now\<rparr>"]) (use opens in \<open>simp_all add: d'\<close>)
qed

subsection \<open>Credits\<close>

text \<open>Tables that differ in credits and applications, where open amounts stay above zero.\<close>

lemma settlement_ok_credits:
  assumes ok: "settlement_ok d"
    and frame: "purchase_invoices d' = purchase_invoices d" "purchase_invoice_lines d' = purchase_invoice_lines d"
      "ap_payments d' = ap_payments d" "ap_payment_lines d' = ap_payment_lines d"
      "auto_inc d' T_purchase_invoice = auto_inc d T_purchase_invoice"
      "auto_inc d' T_ap_payment = auto_inc d T_ap_payment"
    and keys: "credit_keys d'" "\<And>r. r \<in> set (purchase_credits d') \<Longrightarrow> pc_id r \<le> auto_inc d' T_purchase_credit"
    and apps: "\<And>a. a \<in> set (purchase_credit_applications d') \<Longrightarrow> 0 \<le> pca_applied_amount a \<and>
      past_draft d (pca_purchase_invoice_id a) \<and> pca_purchase_credit_id a \<le> auto_inc d' T_purchase_credit \<and>
      \<not> (\<exists>r \<in> set (purchase_credits d'). pc_id r = pca_purchase_credit_id a \<and> pc_status r = PC_DRAFT)"
    and opens: "\<And>pi. pi \<in> set (purchase_invoices d) \<Longrightarrow> 0 \<le> open_amount d' pi"
  shows "settlement_ok d'"
  using ok keys apps opens
  by (simp add: settlement_defs amounts_nonneg_def past_draft_cong [of d'] frame invoice_keys_def payment_keys_def)

definition credit_created :: "db \<Rightarrow> db \<Rightarrow> bool" where
  "credit_created d d' \<longleftrightarrow> (\<exists>r ls k. pc_id r = next_id d T_purchase_credit \<and> pc_status r = PC_DRAFT \<and>
     k T_purchase_credit = pc_id r \<and> (\<forall>t. t \<noteq> T_purchase_credit \<longrightarrow> t \<noteq> T_purchase_credit_line \<longrightarrow> k t = auto_inc d t) \<and>
     d' = d\<lparr>purchase_credits := purchase_credits d @ [r], purchase_credit_lines := ls, auto_inc := k\<rparr>)"

lemma insert_credit_line_Inr:
  "insert_credit_line c now (t, d) nl = Inr (t', d') \<Longrightarrow>
   \<exists>x. d' = bump T_purchase_credit_line (d\<lparr>purchase_credit_lines := purchase_credit_lines d @ [x]\<rparr>)"
  by (cases nl) (auto simp: insert_credit_line_def inr_simps Let_def)

lemma create_credit_trx_created:
  assumes keys: "\<forall>r \<in> set (purchase_credits d). pc_id r \<le> auto_inc d T_purchase_credit"
    and trx: "create_credit_trx input now d = Inr (i, d')"
  shows "credit_created d d'"
proof -
  let ?i = "next_id d T_purchase_credit"
  let ?row = "new_credit_row input now ?i"
  let ?d0 = "insert_credit ?row d"
  from trx obtain t d1 where
    fold: "foldM (insert_credit_line ?i now) (0, ?d0) (numbered (ipc_lines input)) = Inr (t, d1)"
    and d': "d' = d1\<lparr>purchase_credits := update_where (\<lambda>c. pc_id c = ?i)
      (\<lambda>c. c\<lparr>pc_total_credit_amount := t, pc_updated_at := now\<rparr>) (purchase_credits d1)\<rparr>"
    by (auto simp: create_credit_trx_def Let_def inr_simps new_credit_row_def split: option.splits)
  let ?I = "\<lambda>d1. \<exists>ls k. (\<forall>t. t \<noteq> T_purchase_credit_line \<longrightarrow> k t = auto_inc ?d0 t) \<and>
    d1 = ?d0\<lparr>purchase_credit_lines := ls, auto_inc := k\<rparr>"
  have "case (t, d1) of (t, d1) \<Rightarrow> ?I d1"
  proof (rule foldM_invariant [OF fold])
    show "case (0, ?d0) of (t, d1) \<Rightarrow> ?I d1"
      by (auto intro!: exI [of _ "purchase_credit_lines ?d0"] exI [of _ "auto_inc ?d0"])
  next
    fix s x s'
    assume "case s of (t :: int, d1) \<Rightarrow> ?I d1" and step: "insert_credit_line ?i now s x = Inr s'"
    then obtain ls k where s: "\<forall>t. t \<noteq> T_purchase_credit_line \<longrightarrow> k t = auto_inc ?d0 t"
      "snd s = ?d0\<lparr>purchase_credit_lines := ls, auto_inc := k\<rparr>" by (auto split: prod.splits)
    from step obtain y where "snd s' = bump T_purchase_credit_line ((snd s)\<lparr>purchase_credit_lines := purchase_credit_lines (snd s) @ [y]\<rparr>)"
      using insert_credit_line_Inr [of ?i now "fst s" "snd s" x "fst s'" "snd s'"] by auto
    with s show "case s' of (t, d1) \<Rightarrow> ?I d1"
      by (auto simp: bump_def split: prod.splits intro!: exI [of _ "ls @ [y]"]
          exI [of _ "k(T_purchase_credit_line := Suc (k T_purchase_credit_line))"])
  qed
  then obtain ls k where k: "\<forall>t. t \<noteq> T_purchase_credit_line \<longrightarrow> k t = auto_inc ?d0 t"
    and d1: "d1 = ?d0\<lparr>purchase_credit_lines := ls, auto_inc := k\<rparr>" by auto
  have old: "update_where (\<lambda>c. pc_id c = Suc (auto_inc d T_purchase_credit)) f (purchase_credits d) = purchase_credits d" for f
    using keys by (intro update_where_no_match) auto
  show ?thesis
    unfolding credit_created_def using k
    by (intro exI [of _ "?row\<lparr>pc_total_credit_amount := t, pc_updated_at := now\<rparr>"] exI [of _ ls] exI [of _ k])
      (simp add: d' d1 insert_credit_def bump_def old new_credit_row_def next_id_def)
qed

lemma credit_created_counts:
  assumes "credit_created d d'"
  shows "credit_counts d' = credit_counts d"
  using assms by (auto simp: credit_created_def credit_counts_def fun_eq_iff)

lemma credit_created_opens:
  assumes "credit_created d d'"
  shows "open_amount d' pi = open_amount d pi"
  using assms credit_created_counts [OF assms]
  by (auto simp: open_amount_def credited_total_def paid_total_def payment_counts_def [abs_def] credit_created_def)

lemma createDraftPurchaseCredit_settlement:
  assumes ok: "settlement_ok d" and create: "createDraftPurchaseCredit input now d = Inr (x, d')"
  shows "settlement_ok d'"
proof (cases "d' = d")
  case False
  with create obtain i where "create_credit_trx input now d = Inr (i, d')"
    by (auto simp: createDraftPurchaseCredit_def inr_simps split: option.splits sum.splits if_splits)
  from create_credit_trx_created [OF _ this] ok have created: "credit_created d d'" by (simp add: settlement_defs)
  then obtain r ls k where
    r: "pc_id r = next_id d T_purchase_credit" "pc_status r = PC_DRAFT"
    and k: "k T_purchase_credit = pc_id r" "\<forall>t. t \<noteq> T_purchase_credit \<longrightarrow> t \<noteq> T_purchase_credit_line \<longrightarrow> k t = auto_inc d t"
    and d': "d' = d\<lparr>purchase_credits := purchase_credits d @ [r], purchase_credit_lines := ls, auto_inc := k\<rparr>"
    by (auto simp: credit_created_def settlement_defs)
  have fresh: "pc_id q \<noteq> pc_id r" if "q \<in> set (purchase_credits d)" for q
    using ok that r(1) by (fastforce simp: settlement_defs next_id_def)
  have opens: "open_amount d' pi = open_amount d pi" for pi by (rule credit_created_opens [OF created])
  show ?thesis
  proof (rule settlement_ok_credits [OF ok])
    show "credit_keys d'" using ok fresh by (fastforce simp: settlement_defs credit_keys_def d')
    show "q \<in> set (purchase_credits d') \<Longrightarrow> pc_id q \<le> auto_inc d' T_purchase_credit" for q
      using ok r(1) by (fastforce simp: settlement_defs d' k(1) next_id_def)
    show "a \<in> set (purchase_credit_applications d') \<Longrightarrow> 0 \<le> pca_applied_amount a \<and>
      past_draft d (pca_purchase_invoice_id a) \<and> pca_purchase_credit_id a \<le> auto_inc d' T_purchase_credit \<and>
      \<not> (\<exists>r \<in> set (purchase_credits d'). pc_id r = pca_purchase_credit_id a \<and> pc_status r = PC_DRAFT)" for a
      using ok r(1) by (fastforce simp: settlement_defs amounts_nonneg_def d' k(1) next_id_def)
    show "pi \<in> set (purchase_invoices d) \<Longrightarrow> 0 \<le> open_amount d' pi" for pi
      using ok by (simp add: opens settlement_defs)
  qed (simp_all add: d' k)
qed (use ok in simp)

lemma payable_past_draft: "payable_by d co s i \<Longrightarrow> past_draft d i"
  by (fastforce simp: payable_by_def past_draft_def)

lemma applyPurchaseCredit_settlement:
  assumes ok: "settlement_ok d" and app: "applyPurchaseCredit co u k g rs now d = Inr (res, d')"
  shows "settlement_ok d'"
proof -
  have keys: "credit_keys d" using ok by (simp add: settlement_defs)
  from app obtain r st ns na es where r: "find_credit d co k = Some r" "pc_status r = PC_DRAFT"
    and st: "apply_lines co r now d = Inr st"
    and ns: "ns = (if pc_total_credit_amount r - na > 0 then PC_PARTIAL else PC_APPLIED)"
    and d': "d' = record_override g rs co u ''PURCHASE_CREDIT'' k now
      (mark_credit_applied k ns na (next_id (as_db st) T_journal_batch) u now
        (posted_db co ''PURCHASE_CREDIT'' k (pc_credit_date r) now es (as_db st)))"
    by (rule applyPurchaseCredit_Inr) blast
  note rr = find_credit_Some [OF r(1)]
  have un: "unapplied d k" using ok rr r(2) by (auto simp: settlement_defs unapplied_def)
  have draft: "draft_credit d (pc_id r)" using draft_credit_keys [OF keys] rr r(2) by blast
  obtain new0 n where db: "as_db st = with_applications d new0 n" by (rule apply_lines_result [OF draft st])
  from applyPurchaseCredit_effect [OF keys un app] obtain new where
    apps: "purchase_credit_applications d' = purchase_credit_applications d @ new" and own: "own_applications co k new"
    and pay: "\<forall>a \<in> set new. \<exists>s. payable_by d co s (pca_purchase_invoice_id a)"
    and opens: "\<forall>pi. open_amount d' pi = open_amount d pi - (if pi_company_id pi = co then applied_to (pi_id pi) new else 0)"
    and nonneg: "\<forall>a \<in> set new. \<forall>pi. find_invoice d co (pca_purchase_invoice_id a) = Some pi \<longrightarrow> 0 \<le> open_amount d' pi"
    by metis
  have credits: "purchase_credits d' = update_where (\<lambda>c. pc_id c = k) (\<lambda>c. c\<lparr>pc_status := ns, pc_applied_amount := na,
      pc_journal_batch_id := Some (next_id (as_db st) T_journal_batch),
      pc_posted_at := Some now, pc_posted_by_user_id := Some u, pc_updated_at := now\<rparr>) (purchase_credits d)"
    by (simp add: d' db)
  have inc: "auto_inc d' T_purchase_credit = auto_inc d T_purchase_credit" by (simp add: d' db)
  show ?thesis
  proof (rule settlement_ok_credits [OF ok])
    show "credit_keys d'" using keys by (simp add: credit_keys_def credits update_where_map_id)
    show "q \<in> set (purchase_credits d') \<Longrightarrow> pc_id q \<le> auto_inc d' T_purchase_credit" for q
      using ok by (auto simp: settlement_defs credits set_update_where inc)
    show "a \<in> set (purchase_credit_applications d') \<Longrightarrow> 0 \<le> pca_applied_amount a \<and>
      past_draft d (pca_purchase_invoice_id a) \<and> pca_purchase_credit_id a \<le> auto_inc d' T_purchase_credit \<and>
      \<not> (\<exists>r \<in> set (purchase_credits d'). pc_id r = pca_purchase_credit_id a \<and> pc_status r = PC_DRAFT)" for a
    proof -
      assume "a \<in> set (purchase_credit_applications d')"
      then consider "a \<in> set (purchase_credit_applications d)" | "a \<in> set new" by (auto simp: apps)
      then show ?thesis
      proof cases
        case 1
        with ok un show ?thesis
          by (auto simp: settlement_defs amounts_nonneg_def unapplied_def credits set_update_where inc)
      next
        case 2
        with own pay rr ok ns show ?thesis
          by (auto simp: own_applications_def settlement_defs credits set_update_where inc dest: payable_past_draft)
      qed
    qed
    show "0 \<le> open_amount d' pi" if pi: "pi \<in> set (purchase_invoices d)" for pi
    proof (cases "pi_company_id pi = co \<and> pi_id pi \<in> pca_purchase_invoice_id ` set new")
      case True
      with nonneg find_invoice_row [OF ok pi] show ?thesis by auto
    next
      case False
      then have "open_amount d' pi = open_amount d pi" by (auto simp: opens sum_for_none)
      with ok pi show ?thesis by (simp add: settlement_defs)
    qed
  qed (simp_all add: d' db mark_credit_applied_def)
qed

lemma voidPurchaseCredit_settlement:
  assumes ok: "settlement_ok d" and void: "voidPurchaseCredit co u k g rs now d = Inr (res, d')"
  shows "settlement_ok d'"
proof -
  from void obtain r where r: "find_credit d co k = Some r" by (auto simp: voidPurchaseCredit_def inr_simps)
  show ?thesis
  proof (cases "pc_status r = PC_VOID")
    case True
    with void r have "d' = d" by (auto simp: voidPurchaseCredit_def inr_simps)
    with ok show ?thesis by simp
  next
    case False
    obtain b b' where st: "pc_status r \<in> {PC_PARTIAL, PC_APPLIED}"
      and d': "d' = record_override g rs co u ''PURCHASE_CREDIT_VOID'' k now (mark_credit_void k u now
        (posted_db co ''PURCHASE_CREDIT_VOID'' k (pc_credit_date r) now
          (map (reverse_entry (void_description k)) (batch_entries d co b)) d))"
      by (rule voidPurchaseCredit_Inr [OF void r False]) blast
    have keys: "credit_keys d" using ok by (simp add: settlement_defs)
    note rr = find_credit_Some [OF r]
    have "credited_total d c i = credited_total d' c i +
        applied_to i (filter (\<lambda>a. pca_purchase_credit_id a = pc_id r \<and> pca_company_id a = c)
          (purchase_credit_applications d))" for c i
      by (rule credited_total_void [OF keys _ st, where f = "\<lambda>c. c\<lparr>pc_status := PC_VOID, pc_applied_amount := 0,
          pc_voided_at := Some now, pc_voided_by_user_id := Some u, pc_updated_at := now\<rparr>"])
        (use rr in \<open>simp_all add: d'\<close>)
    moreover have "0 \<le> applied_to i (filter P (purchase_credit_applications d))" for i P
      by (rule sum_for_nonneg) (use ok in \<open>auto simp: settlement_ok_def amounts_nonneg_def\<close>)
    ultimately have "credited_total d' c i \<le> credited_total d c i" for c i by (metis le_add_same_cancel1)
    moreover have "paid_total d' c i = paid_total d c i" for c i
      by (simp add: paid_total_def d' payment_counts_def [abs_def])
    ultimately have opens: "open_amount d pi \<le> open_amount d' pi" for pi by (simp add: open_amount_def)
    have credits: "purchase_credits d' = update_where (\<lambda>c. pc_id c = k) (\<lambda>c. c\<lparr>pc_status := PC_VOID, pc_applied_amount := 0,
        pc_voided_at := Some now, pc_voided_by_user_id := Some u, pc_updated_at := now\<rparr>) (purchase_credits d)"
      by (simp add: d')
    show ?thesis
    proof (rule settlement_ok_credits [OF ok])
      show "credit_keys d'" using keys by (simp add: credit_keys_def credits update_where_map_id)
      show "q \<in> set (purchase_credits d') \<Longrightarrow> pc_id q \<le> auto_inc d' T_purchase_credit" for q
        using ok by (auto simp: settlement_defs d' set_update_where)
      show "a \<in> set (purchase_credit_applications d') \<Longrightarrow> 0 \<le> pca_applied_amount a \<and>
        past_draft d (pca_purchase_invoice_id a) \<and> pca_purchase_credit_id a \<le> auto_inc d' T_purchase_credit \<and>
        \<not> (\<exists>r \<in> set (purchase_credits d'). pc_id r = pca_purchase_credit_id a \<and> pc_status r = PC_DRAFT)" for a
        using ok by (auto simp: settlement_defs amounts_nonneg_def d' set_update_where)
      show "pi \<in> set (purchase_invoices d) \<Longrightarrow> 0 \<le> open_amount d' pi" for pi
        using ok opens [of pi] by (fastforce simp: settlement_defs)
    qed (simp_all add: d' mark_credit_void_def)
  qed
qed

section \<open>Steps\<close>

text \<open>
  Each step is one request that succeeded (a request that fails changes nothing).  The other
  services neither write these tables nor take keys from them.  Posting an invoice is one step
  here although the code reads it before its transaction starts.
\<close>

definition settlement_start :: "db \<Rightarrow> bool" where
  "settlement_start d \<longleftrightarrow> purchase_invoices d = [] \<and> purchase_invoice_lines d = [] \<and> ap_payments d = [] \<and>
     ap_payment_lines d = [] \<and> purchase_credits d = [] \<and> purchase_credit_applications d = []"

inductive settlement_step :: "db \<Rightarrow> db \<Rightarrow> bool" where
  create_invoice: "createDraftPI pin now d = Inr (pr, d') \<Longrightarrow> settlement_step d d'"
| post_invoice: "postPI c u i g rs now d = Inr (pp, d') \<Longrightarrow> settlement_step d d'"
| void_invoice: "voidPI c u i g rs now d = Inr (iv, d') \<Longrightarrow> settlement_step d d'"
| create_payment: "createDraftAPPayment ain now d = Inr (ar, d') \<Longrightarrow> settlement_step d d'"
| post_payment: "postAPPayment c u i g rs now d = Inr (iv, d') \<Longrightarrow> settlement_step d d'"
| void_payment: "voidAPPayment c u i g rs now d = Inr (iv, d') \<Longrightarrow> settlement_step d d'"
| create_credit: "createDraftPurchaseCredit cin now d = Inr (cr, d') \<Longrightarrow> settlement_step d d'"
| apply_credit: "applyPurchaseCredit c u i g rs now d = Inr (ca, d') \<Longrightarrow> settlement_step d d'"
| void_credit: "voidPurchaseCredit c u i g rs now d = Inr (cv, d') \<Longrightarrow> settlement_step d d'"
| other_service: "purchase_invoices d' = purchase_invoices d \<Longrightarrow> purchase_invoice_lines d' = purchase_invoice_lines d \<Longrightarrow>
    ap_payments d' = ap_payments d \<Longrightarrow> ap_payment_lines d' = ap_payment_lines d \<Longrightarrow>
    purchase_credits d' = purchase_credits d \<Longrightarrow> purchase_credit_applications d' = purchase_credit_applications d \<Longrightarrow>
    auto_inc d' T_purchase_invoice = auto_inc d T_purchase_invoice \<Longrightarrow>
    auto_inc d' T_ap_payment = auto_inc d T_ap_payment \<Longrightarrow>
    auto_inc d' T_purchase_credit = auto_inc d T_purchase_credit \<Longrightarrow> settlement_step d d'"

lemma settlement_start_ok: "settlement_start d \<Longrightarrow> settlement_ok d"
  by (simp add: settlement_start_def settlement_defs amounts_nonneg_def invoice_keys_def payment_keys_def credit_keys_def)

lemma settlement_step_ok:
  assumes ok: "settlement_ok d" and step: "settlement_step d d'"
  shows "settlement_ok d'"
  using step
proof cases
  case other_service
  have "open_amount d' pi = open_amount d pi" for pi by (rule open_amount_cong) (fact other_service)+
  with ok other_service show ?thesis
    by (simp add: settlement_defs amounts_nonneg_def past_draft_cong [of d'] invoice_keys_def payment_keys_def credit_keys_def)
qed (blast intro: createDraftPI_settlement [OF ok] postPI_settlement [OF ok] voidPI_settlement [OF ok]
    createDraftAPPayment_settlement [OF ok] postAPPayment_settlement [OF ok] voidAPPayment_settlement [OF ok]
    createDraftPurchaseCredit_settlement [OF ok] applyPurchaseCredit_settlement [OF ok]
    voidPurchaseCredit_settlement [OF ok])+

interpretation settlement: step_invariant settlement_start settlement_step settlement_ok
  by unfold_locales (fact settlement_start_ok settlement_step_ok)+

section \<open>Properties\<close>

text \<open>
  C1: However invoices, payments and credits are created, posted, applied and voided, what posted
  payments and applied credits together settle of an invoice is never more than its value in the
  company's currency.
\<close>

theorem never_oversettled:
  assumes "settlement_start d0" and "settlement_step\<^sup>*\<^sup>* d0 d" and "pi \<in> set (purchase_invoices d)"
  shows "paid_total d (pi_company_id pi) (pi_id pi) + credited_total d (pi_company_id pi) (pi_id pi)
    \<le> base_grand_total pi"
proof -
  have "0 \<le> open_amount d pi" using settlement.reachable [OF assms(1,2)] assms(3) by (simp add: settlement_defs)
  then show ?thesis by (simp add: open_amount_def)
qed

definition no_documents_db :: db where
  "no_documents_db = sample_db\<lparr>purchase_invoices := [], purchase_invoice_lines := [], ap_payments := [],
     ap_payment_lines := [], purchase_credits := [], purchase_credit_lines := [], journal_batches := [],
     journal_lines := []\<rparr>"

definition invoice_request :: PICreateInput where
  "invoice_request = \<lparr>ipi_companyId = 1, ipi_userId = 7, ipi_idempotencyKey = None, ipi_supplierId = 1,
     ipi_invoiceNo = ''INV-9'', ipi_invoiceDate = 20574, ipi_dueDate = None, ipi_referenceNumber = None,
     ipi_currencyCode = ''IDR'', ipi_exchangeRate = None, ipi_notes = None,
     ipi_lines = [\<lparr>ipil_itemId = None, ipil_description = ''Goods'', ipil_qty = ''2'',
       ipil_unitPrice = ''50'', ipil_taxRateId = None, ipil_lineType = None\<rparr>]\<rparr>"

definition payment_request :: APPaymentCreateInput where
  "payment_request = \<lparr>iap_companyId = 1, iap_userId = 7, iap_idempotencyKey = Some ''p'', iap_paymentDate = 20580,
     iap_bankAccountId = 1, iap_supplierId = 1, iap_description = None,
     iap_lines = [\<lparr>ial_purchaseInvoiceId = 3, ial_allocationAmount = ''60'', ial_description = None\<rparr>]\<rparr>"

lemma case_op_iff: "(case m of Inl _ \<Rightarrow> False | Inr (_, d) \<Rightarrow> P d) \<longleftrightarrow> (\<exists>r d. m = Inr (r, d) \<and> P d)"
  by (auto split: sum.splits prod.splits)

lemma paid_invoice_reachable:
  obtains d pi where "settlement_start no_documents_db" and "settlement_step\<^sup>*\<^sup>* no_documents_db d"
    and "purchase_invoices d = [pi]" and "pi_company_id pi = 1" and "pi_id pi = 3" and "paid_total d 1 3 = 600000"
proof -
  have "case createDraftPI invoice_request 50 no_documents_db of Inl _ \<Rightarrow> False | Inr (_, d1) \<Rightarrow>
      (case postPI 1 7 3 None None 100 d1 of Inl _ \<Rightarrow> False | Inr (_, d2) \<Rightarrow>
      (case createDraftAPPayment payment_request 60 d2 of Inl _ \<Rightarrow> False | Inr (_, d3) \<Rightarrow>
      (case postAPPayment 1 7 3 None None 100 d3 of Inl _ \<Rightarrow> False | Inr (_, d4) \<Rightarrow>
      map (\<lambda>pi. (pi_company_id pi, pi_id pi)) (purchase_invoices d4) = [(1, 3)] \<and> paid_total d4 1 3 = 600000)))"
    by code_simp
  then obtain r1 d1 r2 d2 r3 d3 r4 d4 pi where "createDraftPI invoice_request 50 no_documents_db = Inr (r1, d1)"
    "postPI 1 7 3 None None 100 d1 = Inr (r2, d2)" "createDraftAPPayment payment_request 60 d2 = Inr (r3, d3)"
    "postAPPayment 1 7 3 None None 100 d3 = Inr (r4, d4)" and d4: "purchase_invoices d4 = [pi]" "pi_company_id pi = 1"
    "pi_id pi = 3" "paid_total d4 1 3 = 600000"
    unfolding case_op_iff by (auto simp: map_eq_Cons_conv)
  then have "settlement_step no_documents_db d1" "settlement_step d1 d2" "settlement_step d2 d3" "settlement_step d3 d4"
    by (blast intro: settlement_step.intros)+
  then have "settlement_step\<^sup>*\<^sup>* no_documents_db d4"
    by (meson rtranclp.rtrancl_refl rtranclp.rtrancl_into_rtrancl)
  moreover have "settlement_start no_documents_db"
    by (simp add: settlement_start_def no_documents_db_def sample_db_def empty_db_def)
  ultimately show thesis using that d4 by blast
qed

theorem never_oversettled_witness:
  "\<exists>d pi. settlement_step\<^sup>*\<^sup>* no_documents_db d \<and> purchase_invoices d = [pi] \<and> paid_total d 1 3 = 600000 \<and>
    paid_total d 1 3 + credited_total d 1 3 \<le> base_grand_total pi"
proof -
  obtain d pi where "settlement_start no_documents_db" "settlement_step\<^sup>*\<^sup>* no_documents_db d"
    "purchase_invoices d = [pi]" "pi_company_id pi = 1" "pi_id pi = 3" "paid_total d 1 3 = 600000"
    by (rule paid_invoice_reachable)
  with never_oversettled [of no_documents_db d pi] show ?thesis by (intro exI [of _ d] exI [of _ pi]) simp
qed

end
