(* ===== verification/Invoice_Properties.thy ===== *)
theory Invoice_Properties
  imports Invoice_Draft Sample_Tables
begin

text \<open>The properties of invoices, with the sample tables their witnesses use.\<close>

section \<open>Sample invoices\<close>

text \<open>
  Invoice 2 of the sample tables is a draft: over 10.0050 with a tax of 1.1050 on an account of
  its own, or in dollars over two lines of 0.3333, or over 100.9999 for a supplier with a credit
  limit of 100.0000.
\<close>

definition sample_tax_rate :: tax_rate_row where
  "sample_tax_rate = \<lparr>tax_id = 1, tax_company_id = 1, tax_account_id = Some 4, tax_code = ''VAT'',
     tax_created_at = 0, tax_created_by_user_id = None, tax_is_active = 1, tax_is_inclusive = 0,
     tax_name = ''VAT'', tax_rate_percent = 110000, tax_updated_at = 0, tax_updated_by_user_id = None\<rparr>"

definition taxed_draft_db :: db where
  "taxed_draft_db = sample_db\<lparr>
     tax_rates := [sample_tax_rate],
     purchase_invoices := [(sample_invoice 2 1 0 None)\<lparr>pi_subtotal := 100050, pi_tax_amount := 11050,
       pi_grand_total := 111100\<rparr>],
     purchase_invoice_lines := [(sample_invoice_line 1 2 20000 50025)\<lparr>pil_tax_rate_id := Some 1,
       pil_tax_amount := 11050\<rparr>]\<rparr>"

definition dollar_draft_db :: db where
  "dollar_draft_db = sample_db\<lparr>
     exchange_rates := [sample_rate 1 20000 150000000],
     purchase_invoices := [(sample_invoice 2 1 6666 None)\<lparr>pi_currency_code := ''USD''\<rparr>],
     purchase_invoice_lines := [sample_invoice_line 1 2 10000 3333, sample_invoice_line 2 2 10000 3333]\<rparr>"

definition limited_draft_db :: db where
  "limited_draft_db = sample_db\<lparr>
     company_modules := [sample_settings\<lparr>cm_purchasing_credit_limit_enabled := 1\<rparr>],
     suppliers := [sample_supplier\<lparr>sup_credit_limit := 1000000\<rparr>],
     purchase_invoices := [sample_invoice 2 1 1009999 None],
     purchase_invoice_lines := [sample_invoice_line 1 2 10000 1009999]\<rparr>"

definition sample_invoice_input :: PICreateInput where
  "sample_invoice_input = \<lparr>ipi_companyId = 1, ipi_userId = 7, ipi_idempotencyKey = Some ''k1'',
     ipi_supplierId = 1, ipi_invoiceNo = ''INV-9'', ipi_invoiceDate = 20574, ipi_dueDate = None,
     ipi_referenceNumber = None, ipi_currencyCode = ''IDR'', ipi_exchangeRate = None,
     ipi_notes = None,
     ipi_lines = [\<lparr>ipil_itemId = None, ipil_description = ''Goods'', ipil_qty = ''2'',
       ipil_unitPrice = ''50.0000'', ipil_taxRateId = Some 1, ipil_lineType = None\<rparr>]\<rparr>"

lemma taxed_draft_posts:
  obtains r d' where "postPI 1 7 2 None None 100 taxed_draft_db = Inr (r, d')"
    and "rpp_journal_batch_id r = 3" and "length (batch_entries d' 1 3) = 3"
    and "debits (batch_entries d' 1 3) = 1112" and "credits (batch_entries d' 1 3) = 1111"
proof -
  have "case postPI 1 7 2 None None 100 taxed_draft_db of
      Inr (r, d') \<Rightarrow> rpp_journal_batch_id r = 3 \<and> length (batch_entries d' 1 3) = 3 \<and>
        debits (batch_entries d' 1 3) = 1112 \<and> credits (batch_entries d' 1 3) = 1111
    | Inl _ \<Rightarrow> False"
    by code_simp
  with that show thesis by (auto split: sum.splits prod.splits)
qed

lemma limited_draft_posts:
  obtains r d' where "postPI 1 7 2 None None 100 limited_draft_db = Inr (r, d')"
proof -
  have "case postPI 1 7 2 None None 100 limited_draft_db of Inr (r, d') \<Rightarrow> True | Inl _ \<Rightarrow> False"
    by code_simp
  with that show thesis by (auto split: sum.splits prod.splits)
qed

definition tax_db :: db where
  "tax_db = sample_db\<lparr>tax_rates := [sample_tax_rate]\<rparr>"

lemma sample_invoice_created:
  obtains r d' where "createDraftPI sample_invoice_input 50 tax_db = Inr (r, d')"
    and "rpi_id r = 3" and "rpi_grand_total r = ''1200.0000''" and "rpi_tax_amount r = ''1100.0000''"
    and "\<forall>l \<in> set (invoice_lines d' 1 3). postable_line d' 1 l" and "invoice_lines d' 1 3 \<noteq> []"
    and "invoice_texts_fit d' 1 3"
proof -
  have "case createDraftPI sample_invoice_input 50 tax_db of
      Inr (r, d') \<Rightarrow> rpi_id r = 3 \<and> rpi_grand_total r = ''1200.0000'' \<and> rpi_tax_amount r = ''1100.0000'' \<and>
        invoice_lines d' 1 3 \<noteq> [] \<and> invoice_texts_fit d' 1 3
    | Inl _ \<Rightarrow> False"
    by code_simp
  moreover have "case createDraftPI sample_invoice_input 50 tax_db of
      Inr (r, d') \<Rightarrow> list_all (\<lambda>l. invoice_line_ok l \<and> 50 \<le> scale4Mul (pil_qty l) (pil_unit_price l) \<and>
        pil_tax_rate_id l = Some 1 \<and> pil_line_type l = ''ITEM'' \<and> 50 \<le> pil_tax_amount l \<and>
        tax_account d' 1 1 = Inr 4) (invoice_lines d' 1 3)
    | Inl _ \<Rightarrow> False"
    by code_simp
  ultimately show thesis
    using that by (auto simp: postable_line_def list_all_iff split: sum.splits prod.splits)
qed

lemma header_total: "rpi_grand_total (pi_header_result d h ls) = fromScaled4 (pi_grand_total h)"
  by (simp add: pi_header_result_def fromScaled4_db)

section \<open>Properties\<close>

text \<open>
  The totals of a draft that was just created are those of its lines: the subtotal sums the
  line totals, each of them quantity times price cut to four decimals, the grand total adds the
  tax, and the answer shows exactly what is stored.
\<close>

theorem createDraftPI_totals:
  assumes "invoice_keys d" and "createDraftPI input now d = Inr (res, d')"
    and "existing_invoice d (ipi_companyId input) (ipi_idempotencyKey input) = None"
  shows "\<exists>pi. find_invoice d' (ipi_companyId input) (rpi_id res) = Some pi \<and> pi_status pi = PI_DRAFT \<and>
      pi_supplier_id pi = ipi_supplierId input \<and> invoice_consistent d' pi \<and>
      rpi_grand_total res = fromScaled4 (pi_grand_total pi) \<and>
      getPIById d' (ipi_companyId input) (rpi_id res) = Some res \<and> invoice_keys d'"
proof -
  from assms obtain pi rate rows where pi: "find_invoice d' (ipi_companyId input) (rpi_id res) = Some pi"
    and res: "getPIById d' (ipi_companyId input) (rpi_id res) = Some res"
    and eq: "pi = with_totals (sum_list (map pil_line_total rows)) (sum_list (map pil_tax_amount rows)) now
      (new_invoice_row input rate now (rpi_id res))"
    and rows: "line_rows_for (ipi_companyId input) (rpi_id res) (ipi_lines input) rows"
    and ls: "invoice_lines d' (ipi_companyId input) (rpi_id res) = sort_key pil_line_no rows"
    and d': "\<exists>k. k T_purchase_invoice = rpi_id res \<and> d' = d\<lparr>purchase_invoices := purchase_invoices d @ [pi],
      purchase_invoice_lines := purchase_invoice_lines d @ rows, auto_inc := k\<rparr>"
    and i: "rpi_id res = next_id d T_purchase_invoice"
    by (rule createDraftPI_effect)
  have "res = pi_header_result d' pi (map pi_line_result (invoice_lines d' (ipi_companyId input) (rpi_id res)))"
    using res pi by (simp add: getPIById_def)
  then have "rpi_grand_total res = fromScaled4 (pi_grand_total pi)"
    by (metis header_total)
  moreover have "invoice_keys d'"
    using assms(1) d' rows i by (fastforce simp: invoice_keys_def eq with_totals_def new_invoice_row_def
        next_id_def line_rows_for_def)
  ultimately show ?thesis
    using pi res created_consistent [OF eq rows ls] by (simp add: eq with_totals_def new_invoice_row_def)
qed

theorem createDraftPI_totals_witness:
  "\<exists>r d' pi. createDraftPI sample_invoice_input 50 tax_db = Inr (r, d') \<and>
     find_invoice d' 1 3 = Some pi \<and> invoice_consistent d' pi"
proof -
  obtain r d' where r: "createDraftPI sample_invoice_input 50 tax_db = Inr (r, d')" "rpi_id r = 3"
    by (rule sample_invoice_created)
  have keys: "invoice_keys tax_db" by code_simp
  have "existing_invoice tax_db (ipi_companyId sample_invoice_input) (ipi_idempotencyKey sample_invoice_input) = None"
    by code_simp
  from createDraftPI_totals [OF keys r(1) this] r show ?thesis
    by (auto simp: sample_invoice_input_def simp del: One_nat_def)
qed

text \<open>
  A draft created under a key is created once: every later request of the company with the
  key, whatever it asks for, gets the same answer and leaves the tables as they are.
\<close>

theorem createDraftPI_idempotent:
  assumes "invoice_keys d" and "truthy_str (ipi_idempotencyKey input) \<noteq> None"
    and "createDraftPI input now d = Inr (r, d')"
    and "\<forall>(input', now') \<in> set requests. ipi_companyId input = ipi_companyId input' \<and>
      ipi_idempotencyKey input = ipi_idempotencyKey input'"
  shows "mapM (\<lambda>(input', now'). createDraftPI input' now' d') requests = Inr (map (\<lambda>_. (r, d')) requests)"
  using ic_invoice.repeat_all [of d "(input, now)" r d' requests] assms
  by (simp add: case_prod_unfold)

theorem createDraftPI_idempotent_witness:
  "\<exists>r d'. createDraftPI sample_invoice_input 50 tax_db = Inr (r, d') \<and>
     createDraftPI (sample_invoice_input\<lparr>ipi_lines := []\<rparr>) 60 d' = Inr (r, d')"
proof -
  obtain r d' where r: "createDraftPI sample_invoice_input 50 tax_db = Inr (r, d')"
    by (rule sample_invoice_created)
  have keys: "invoice_keys tax_db" by code_simp
  have "truthy_str (ipi_idempotencyKey sample_invoice_input) \<noteq> None" by code_simp
  from createDraftPI_idempotent [OF keys this r, of "[(sample_invoice_input\<lparr>ipi_lines := []\<rparr>, 60)]"] r
  show ?thesis by (auto simp: inr_simps)
qed

text \<open>
  C34: A draft in the company's currency posts as it was created, when accounts are configured
  and no credit limit is on, it has lines, each worth half a cent with a tax of half a cent and
  an account for it where it names a rate, and no batch carries its number: it is never refused
  for its totals.  Only a text can stop it: the descriptions of the journal must fit their
  column, and they do when the lines' descriptions have 121 characters at most and the invoice
  number and the supplier's name 246 together.
\<close>

theorem created_invoice_posts:
  assumes "invoice_keys d" and "createDraftPI input now d = Inr (res, d')"
    and "existing_invoice d (ipi_companyId input) (ipi_idempotencyKey input) = None"
    and "find (\<lambda>co. co_id co = ipi_companyId input) (companies d) = Some co"
    and "ipi_currencyCode input = (case co_currency_code co of None \<Rightarrow> ''IDR'' | Some x \<Rightarrow> x)"
    and "posting_settings d (ipi_companyId input) = Inr acc" and "\<not> pa_creditLimitEnabled acc"
    and "\<forall>l \<in> set (invoice_lines d' (ipi_companyId input) (rpi_id res)). postable_line d' (ipi_companyId input) l"
    and "invoice_lines d' (ipi_companyId input) (rpi_id res) \<noteq> []"
    and "batch_free d (ipi_companyId input) ''PURCHASE_INVOICE'' (rpi_id res)"
  shows "(\<exists>r d''. postPI (ipi_companyId input) u (rpi_id res) g o' now' d' = Inr (r, d'')) \<or>
    postPI (ipi_companyId input) u (rpi_id res) g o' now' d' = Inl (ER_DATA_TOO_LONG ''description'') \<and>
    \<not> invoice_texts_fit d' (ipi_companyId input) (rpi_id res)"
proof -
  from assms(1-3) obtain pi rate rows where pi: "find_invoice d' (ipi_companyId input) (rpi_id res) = Some pi"
    and eq: "pi = with_totals (sum_list (map pil_line_total rows)) (sum_list (map pil_tax_amount rows)) now
      (new_invoice_row input rate now (rpi_id res))"
    and rows: "line_rows_for (ipi_companyId input) (rpi_id res) (ipi_lines input) rows"
    and ls: "invoice_lines d' (ipi_companyId input) (rpi_id res) = sort_key pil_line_no rows"
    and d': "\<exists>k. k T_purchase_invoice = rpi_id res \<and> d' = d\<lparr>purchase_invoices := purchase_invoices d @ [pi],
      purchase_invoice_lines := purchase_invoice_lines d @ rows, auto_inc := k\<rparr>"
    by (rule createDraftPI_effect)
  have same: "companies d' = companies d" "posting_settings d' c = posting_settings d c" for c
    using d' by (auto simp: posting_settings_def purchasing_settings_def find_account_def)
  have free: "batch_free d' (ipi_companyId input) ''PURCHASE_INVOICE'' (rpi_id res)"
    using assms(10) d' by (auto simp: batch_free_def)
  show ?thesis
  proof (rule consistent_postable [OF pi _ created_consistent [OF eq rows ls] _ _ _ assms(7-9) free])
    show "pi_status pi = PI_DRAFT" "find (\<lambda>co. co_id co = ipi_companyId input) (companies d') = Some co"
      "pi_currency_code pi = (case co_currency_code co of None \<Rightarrow> ''IDR'' | Some x \<Rightarrow> x)"
      "posting_settings d' (ipi_companyId input) = Inr acc"
      using assms(4-6) same by (simp_all add: eq with_totals_def new_invoice_row_def)
  qed
qed

theorem created_invoice_posts_witness:
  "\<exists>r d' r' d''. createDraftPI sample_invoice_input 50 tax_db = Inr (r, d') \<and>
     postPI 1 7 3 None None 100 d' = Inr (r', d'')"
proof -
  obtain r d' where r: "createDraftPI sample_invoice_input 50 tax_db = Inr (r, d')" "rpi_id r = 3"
    and ls: "\<forall>l \<in> set (invoice_lines d' 1 3). postable_line d' 1 l" "invoice_lines d' 1 3 \<noteq> []"
    and fits: "invoice_texts_fit d' 1 3"
    by (rule sample_invoice_created)
  have c: "ipi_companyId sample_invoice_input = 1" by (simp add: sample_invoice_input_def)
  have a: "invoice_keys tax_db" "existing_invoice tax_db 1 (ipi_idempotencyKey sample_invoice_input) = None"
    "find (\<lambda>co. co_id co = 1) (companies tax_db) = Some sample_company"
    "ipi_currencyCode sample_invoice_input =
       (case co_currency_code sample_company of None \<Rightarrow> ''IDR'' | Some x \<Rightarrow> x)"
    "posting_settings tax_db 1 = Inr \<lparr>pa_ap = 2, pa_expense = 3, pa_creditLimitEnabled = False\<rparr>"
    by code_simp+
  have "batch_free tax_db 1 ''PURCHASE_INVOICE'' 3" by code_simp
  from created_invoice_posts [OF a(1) r(1), unfolded c r(2), OF a(2-5) _ ls this, of 7 None None 100] r(1) fits
  show ?thesis by auto
qed

text \<open>
  C35: What a posting leaves in the ledger: one credit of the payable, which is the invoice's
  converted subtotal and tax rounded to cents, against the debits of the accounts.  They were
  equal at four decimals; as stored, they differ by at most half a cent for every entry.
\<close>

theorem postPI_journal:
  assumes "wf_ledger d" and "postPI c u i g r now d = Inr (res, d')"
  shows "\<exists>pi rate. find_invoice d c i = Some pi \<and> bindR (posting_rate d c pi) toScaled8 = Inr rate \<and>
    find_invoice d' c i = Some (posted_invoice rate (rpp_journal_batch_id res) u now pi) \<and>
    credits (batch_entries d' c (rpp_journal_batch_id res)) =
      sql_round_div (to_company_currency (pi_subtotal pi) rate + to_company_currency (pi_tax_amount pi) rate) 100 \<and>
    2 * \<bar>debits (batch_entries d' c (rpp_journal_batch_id res)) - credits (batch_entries d' c (rpp_journal_batch_id res))\<bar>
      \<le> int (length (batch_entries d' c (rpp_journal_batch_id res)))"
proof -
  from assms obtain pi rate groups a s where pi: "find_invoice d c i = Some pi"
    and rate: "bindR (posting_rate d c pi) toScaled8 = Inr rate" and r0: "0 \<le> rate"
    and b: "rpp_journal_batch_id res = next_id d T_journal_batch"
    and es: "batch_entries d' c (next_id d T_journal_batch) = map group_entry groups @
      [\<lparr>le_account = a, le_debit = 0, le_credit = sql_round_div (to_company_currency (pi_subtotal pi) rate +
        to_company_currency (pi_tax_amount pi) rate) 100, le_description = s\<rparr>]"
    and ok: "groups_ok groups"
    and tot: "groups_total groups = to_company_currency (pi_subtotal pi) rate + to_company_currency (pi_tax_amount pi) rate"
    and pi': "find_invoice d' c i = Some (posted_invoice rate (next_id d T_journal_batch) u now pi)"
    by (rule postPI_effect)
  have "0 \<le> groups_total groups"
    using ok by (fastforce simp: groups_total_def groups_ok_def intro!: sum_list_nonneg)
  from cents_error [OF this] group_entries_error [OF ok]
  have "2 * \<bar>debits (map group_entry groups) - sql_round_div (groups_total groups) 100\<bar> \<le> int (length groups) + 1"
    unfolding abs_le_iff by (simp add: abs_if split: if_splits)
  then show ?thesis using pi rate pi' by (simp add: b es tot)
qed

theorem postPI_journal_witness:
  "\<exists>r d'. postPI 1 7 2 None None 100 taxed_draft_db = Inr (r, d') \<and>
     2 * \<bar>debits (batch_entries d' 1 3) - credits (batch_entries d' 1 3)\<bar> \<le> 3"
proof -
  obtain r d' where post: "postPI 1 7 2 None None 100 taxed_draft_db = Inr (r, d')"
    and r: "rpp_journal_batch_id r = 3" "length (batch_entries d' 1 3) = 3"
    by (rule taxed_draft_posts)
  have "wf_ledger taxed_draft_db" by code_simp
  from postPI_journal [OF this post] have "2 * \<bar>debits (batch_entries d' 1 3) - credits (batch_entries d' 1 3)\<bar> \<le> 3"
    unfolding r by auto
  with post show ?thesis by blast
qed

text \<open>
  After posting, the open amount starts from a base that exceeds the credited payable (before
  its rounding to cents) by at most two ten-thousandths.
\<close>

theorem postPI_payable_matches_base:
  assumes "wf_ledger d" and "postPI c u i g r now d = Inr (res, d')"
    and "find_invoice d c i = Some pi" and "pi_grand_total pi = pi_subtotal pi + pi_tax_amount pi"
    and "0 \<le> pi_subtotal pi" and "0 \<le> pi_tax_amount pi"
  shows "\<exists>v pi'. credits (batch_entries d' c (rpp_journal_batch_id res)) = sql_round_div v 100 \<and>
    find_invoice d' c i = Some pi' \<and> pi_status pi' = PI_POSTED \<and>
    v \<le> base_grand_total pi' \<and> base_grand_total pi' \<le> v + 2"
proof -
  from assms(1,2) obtain pi2 rate groups a s where pi: "find_invoice d c i = Some pi2"
    and r0: "0 \<le> rate" and b: "rpp_journal_batch_id res = next_id d T_journal_batch"
    and es: "batch_entries d' c (next_id d T_journal_batch) = map group_entry groups @
      [\<lparr>le_account = a, le_debit = 0, le_credit = sql_round_div (to_company_currency (pi_subtotal pi2) rate +
        to_company_currency (pi_tax_amount pi2) rate) 100, le_description = s\<rparr>]"
    and pi': "find_invoice d' c i = Some (posted_invoice rate (next_id d T_journal_batch) u now pi2)"
    by (rule postPI_effect)
  have eq: "pi2 = pi" using pi assms(3) by simp
  let ?p = "posted_invoice rate (next_id d T_journal_batch) u now pi"
  note base = payable_versus_base [of "pi_subtotal pi" "pi_tax_amount pi" rate ?p, OF assms(5,6) r0]
  show ?thesis
  proof (intro exI conjI)
    show "credits (batch_entries d' c (rpp_journal_batch_id res)) = sql_round_div
      (to_company_currency (pi_subtotal pi) rate + to_company_currency (pi_tax_amount pi) rate) 100"
      by (simp add: b es eq)
    show "find_invoice d' c i = Some ?p" using pi' eq by simp
    show "pi_status ?p = PI_POSTED" by (simp add: posted_invoice_def)
  qed (use base assms(4) in \<open>simp_all add: posted_invoice_def\<close>)
qed

theorem postPI_payable_matches_base_witness:
  "\<exists>r d' v pi'. postPI 1 7 2 None None 100 taxed_draft_db = Inr (r, d') \<and>
     credits (batch_entries d' 1 3) = sql_round_div v 100 \<and> find_invoice d' 1 2 = Some pi' \<and>
     base_grand_total pi' \<le> v + 2"
proof -
  obtain r d' where post: "postPI 1 7 2 None None 100 taxed_draft_db = Inr (r, d')"
    and r: "rpp_journal_batch_id r = 3" by (rule taxed_draft_posts)
  let ?p = "(sample_invoice 2 1 0 None)\<lparr>pi_subtotal := 100050, pi_tax_amount := 11050, pi_grand_total := 111100\<rparr>"
  have a: "wf_ledger taxed_draft_db" "find_invoice taxed_draft_db 1 2 = Some ?p"
    by code_simp+
  from postPI_payable_matches_base [OF a(1) post a(2)] post r show ?thesis by (simp del: One_nat_def) blast
qed

text \<open>
  With the credit limit enforced, no posting brings the posted invoices of a supplier to 101
  per cent of its limit; the percentage is cut to an integer, so anything below that passes.
\<close>

theorem postPI_credit_limit:
  assumes "postPI c u i g r now d = Inr (res, d')" and "find_invoice d c i = Some pi"
    and "distinct (map pi_id (purchase_invoices d))"
    and "posting_settings d c = Inr acc" and "pa_creditLimitEnabled acc"
    and "find_supplier d c (pi_supplier_id pi) = Some s" and "0 < sup_credit_limit s"
  shows "100 * posted_total d' c (pi_supplier_id pi) < 101 * sup_credit_limit s"
proof -
  obtain ws where "credit_limit_check d c pi = Inr ws"
    using postPI_credit_checked [OF assms(1,2,4,5)] by blast
  from credit_limit_check_Inr [OF this assms(6,7)]
  have "(posted_total d c (pi_supplier_id pi) + pi_grand_total pi) * 100 < 101 * sup_credit_limit s" .
  moreover have "pi_status pi = PI_DRAFT"
    using assms(1,2) by (auto simp: postPI_def preparePosting_def inr_simps)
  moreover obtain rate where "purchase_invoices d' = update_where (\<lambda>h. pi_id h = i)
      (posted_invoice rate (rpp_journal_batch_id res) u now) (purchase_invoices d)"
    using postPI_invoices [OF assms(1)] by blast
  ultimately show ?thesis
    using posted_total_split [OF assms(3,2)] by (simp add: mult.commute)
qed

theorem postPI_credit_limit_witness:
  "\<exists>r d'. postPI 1 7 2 None None 100 limited_draft_db = Inr (r, d') \<and>
     100 * posted_total d' 1 1 < 101 * 1000000 \<and> pi_grand_total (sample_invoice 2 1 1009999 None) > 1000000"
proof -
  obtain r d' where post: "postPI 1 7 2 None None 100 limited_draft_db = Inr (r, d')"
    by (rule limited_draft_posts)
  have a: "find_invoice limited_draft_db 1 2 = Some (sample_invoice 2 1 1009999 None)"
    "distinct (map pi_id (purchase_invoices limited_draft_db))"
    "posting_settings limited_draft_db 1 = Inr \<lparr>pa_ap = 2, pa_expense = 3, pa_creditLimitEnabled = True\<rparr>"
    "find_supplier limited_draft_db 1 (pi_supplier_id (sample_invoice 2 1 1009999 None)) =
       Some (sample_supplier\<lparr>sup_credit_limit := 1000000\<rparr>)"
    by code_simp+
  have s: "pi_supplier_id (sample_invoice 2 1 1009999 None) = 1" by (simp add: sample_invoice_def)
  from postPI_credit_limit [OF post a(1-3) _ a(4), unfolded s] post show ?thesis
    by (simp add: sample_invoice_def del: One_nat_def)
qed

text \<open>
  C37: An invoice is in the ledger once.  After one session has posted it, a call that starts
  then is refused by its status.  A session that read the draft before still holds its plan, and
  nothing in the service stops it; the unique key of the journal batches does, now and as long
  as the batch is kept, and the session's caller sees the error of the database.
\<close>

theorem posted_once:
  assumes "preparePosting d c i = Inr plan" and "commitPosting c u plan g r now d = Inr (res, d1)"
    and "set (journal_batches d1) \<subseteq> set (journal_batches d2)"
  shows "postPI c u2 i g2 r2 now2 d1 = Inl (PIInvalidStatusTransitionError PI_POSTED PI_POSTED) \<and>
    commitPosting c u2 plan g2 r2 now2 d2 = Inl (ER_DUP_ENTRY ''uq_journal_batches_company_doc'') \<and>
    (\<forall>x. postPI c u2 i g2 r2 now2 d2 \<noteq> Inr x)"
proof -
  from assms(1) obtain pi where pi: "find_invoice d c i = Some pi" and plan: "plan_invoice plan = pi"
    by (rule preparePosting_Inr)
  have i: "pi_id pi = i" using find_invoice_Some [OF pi] by simp
  from assms(2) obtain es rate where es: "mapM to_entry (plan_lines plan) = Inr es"
    and inv: "purchase_invoices d1 = update_where (\<lambda>h. pi_id h = i)
      (posted_invoice rate (next_id d T_journal_batch) u now) (purchase_invoices d)"
    by (rule commitPosting_Inr) (auto simp: plan i)
  have "find_invoice d1 c i = Some (posted_invoice rate (next_id d T_journal_batch) u now pi)"
    by (subst find_invoice_update [OF inv]) (simp_all add: posted_invoice_def pi)
  then have refused: "postPI c u2 i g2 r2 now2 d1 = Inl (PIInvalidStatusTransitionError PI_POSTED PI_POSTED)"
    by (simp add: postPI_def preparePosting_def posted_invoice_def)
  have taken: "\<not> batch_free d2 c ''PURCHASE_INVOICE'' i"
    using commitPosting_batch [OF assms(2)] batch_free_mono [OF assms(3)] by (auto simp: plan i)
  have never: "postPI c u2 i g2 r2 now2 d2 \<noteq> Inr x" for x
  proof
    assume "postPI c u2 i g2 r2 now2 d2 = Inr x"
    then obtain plan2 where p2: "preparePosting d2 c i = Inr plan2"
      and c2: "commitPosting c u2 plan2 g2 r2 now2 d2 = Inr x" by (auto simp: postPI_def inr_simps)
    from p2 obtain pi2 where "find_invoice d2 c i = Some pi2" "plan_invoice plan2 = pi2"
      by (rule preparePosting_Inr)
    then have "pi_id (plan_invoice plan2) = i" using find_invoice_Some by blast
    moreover obtain es2 where "mapM to_entry (plan_lines plan2) = Inr es2"
      using c2 by (cases x) (auto elim!: commitPosting_Inr)
    ultimately show False using commitPosting_taken [of d2 c plan2 es2] taken c2 by simp
  qed
  show ?thesis
    using refused never commitPosting_taken [OF _ es, of d2 c u2 g2 r2 now2] taken by (simp add: plan i)
qed

theorem posted_once_witness:
  "\<exists>plan res d1. preparePosting taxed_draft_db 1 2 = Inr plan \<and>
     commitPosting 1 7 plan None None 100 taxed_draft_db = Inr (res, d1) \<and>
     commitPosting 1 8 plan None None 101 d1 = Inl (ER_DUP_ENTRY ''uq_journal_batches_company_doc'')"
proof -
  obtain res d1 where "postPI 1 7 2 None None 100 taxed_draft_db = Inr (res, d1)"
    by (rule taxed_draft_posts)
  then obtain plan where p: "preparePosting taxed_draft_db 1 2 = Inr plan"
    "commitPosting 1 7 plan None None 100 taxed_draft_db = Inr (res, d1)"
    by (auto simp: postPI_def inr_simps)
  from posted_once [OF p subset_refl, of 8 None None 101] p show ?thesis by blast
qed

text \<open>
  C38: A posted invoice with a batch can be voided once, whether or not payments or credits have
  been applied to it, and only such an invoice can: every other state is refused with its own
  error.  The void reverses the batch account by account, marks the invoice and leaves the
  payments where they are.  It fails on a description the batch holds already that has more than
  249 characters: \<open>VOID: \<close> before it overflows the column.
\<close>

theorem voidPI_reverses:
  assumes "wf_ledger d" and "ledger_checked d"
  shows "case find_invoice d c i of
      None \<Rightarrow> voidPI c u i g r now d = Inl (PINotFoundError i)
    | Some pi \<Rightarrow>
        if pi_status pi \<noteq> PI_POSTED
        then voidPI c u i g r now d = Inl (PIInvalidStatusTransitionError (pi_status pi) PI_VOID)
        else (case truthy_id (pi_journal_batch_id pi) of
            None \<Rightarrow> voidPI c u i g r now d = Inl (PIError ''MISSING_JOURNAL_BATCH'')
          | Some b \<Rightarrow> if \<not> batch_free d c ''PURCHASE_INVOICE_VOID'' i
            then voidPI c u i g r now d = Inl (ER_DUP_ENTRY ''uq_journal_batches_company_doc'')
            else if \<exists>e \<in> set (batch_entries d c b). 249 < length (le_description e)
            then voidPI c u i g r now d = Inl (ER_DATA_TOO_LONG ''description'')
            else (\<exists>b' d'. voidPI c u i g r now d = Inr ((i, b'), d') \<and>
              find_invoice d' c i = Some (voided_invoice u now pi) \<and>
              ap_payments d' = ap_payments d \<and> ap_payment_lines d' = ap_payment_lines d \<and>
              (batch_entries d c b \<noteq> [] \<longrightarrow>
                (\<forall>a. account_net a (batch_entries d' c b) + account_net a (batch_entries d' c b') = 0))))"
proof (cases "batch_free d c ''PURCHASE_INVOICE_VOID'' i \<and> (\<exists>pi b. find_invoice d c i = Some pi \<and>
    pi_status pi = PI_POSTED \<and> truthy_id (pi_journal_batch_id pi) = Some b)")
  case True
  then obtain pi b where free: "batch_free d c ''PURCHASE_INVOICE_VOID'' i"
    and pi: "find_invoice d c i = Some pi" "pi_status pi = PI_POSTED" "pi_journal_batch_id pi = Some b" "b \<noteq> 0"
    by auto
  note checked = batch_checked [OF assms(2)]
  show ?thesis
  proof (cases "reversal_fits (\<lambda>s. ''VOID: '' @ s) (batch_entries d c b)")
    case True
    then have short: "\<not> (\<exists>e \<in> set (batch_entries d c b). 249 < length (le_description e))"
      by (auto simp: reversal_fits_def description_fits_def list_all_iff)
    obtain d' where v: "voidPI c u i g r now d = Inr ((i, next_id d T_journal_batch), d')"
      and inv: "purchase_invoices d' = update_where (\<lambda>h. pi_id h = i) (voided_invoice u now) (purchase_invoices d)"
      and es: "\<forall>b'. batch_entries d' c b' = (if b' = next_id d T_journal_batch
        then map (reverse_entry (\<lambda>s. ''VOID: '' @ s)) (batch_entries d c b) else batch_entries d c b')"
      and pays: "ap_payments d' = ap_payments d" "ap_payment_lines d' = ap_payment_lines d"
      by (rule voidPI_effect [where u = u and g = g and r = r and now = now, OF assms(1) pi checked free True])
    have "find_invoice d' c i = Some (voided_invoice u now pi)"
      by (subst find_invoice_update [OF inv]) (simp_all add: voided_invoice_def pi)
    moreover have "b \<noteq> next_id d T_journal_batch" if "batch_entries d c b \<noteq> []"
      using that batch_entries_fresh [OF assms(1)] by auto
    ultimately show ?thesis
      using pi v pays free short by (auto simp: es truthy_id_def account_net_reversed)
  next
    case False
    then have "\<exists>e \<in> set (batch_entries d c b). 249 < length (le_description e)"
      by (auto simp: reversal_fits_def description_fits_def list_all_iff not_le)
    with voidPI_too_long [OF pi checked free False] pi free show ?thesis
      by (auto simp: truthy_id_def)
  qed
next
  case False
  show ?thesis
  proof (cases "batch_free d c ''PURCHASE_INVOICE_VOID'' i")
    case True
    with False show ?thesis by (auto simp: voidPI_def prepareVoid_def split: option.splits)
  next
    case taken: False
    show ?thesis
    proof (cases "\<exists>pi b. find_invoice d c i = Some pi \<and> pi_status pi = PI_POSTED \<and>
        truthy_id (pi_journal_batch_id pi) = Some b")
      case True
      then obtain pi b where pi: "find_invoice d c i = Some pi" "pi_status pi = PI_POSTED"
        "truthy_id (pi_journal_batch_id pi) = Some b" by blast
      show ?thesis using pi(2) taken voidPI_taken [OF pi taken]
        unfolding pi(1) option.case pi(3) by simp
    next
      case False
      with taken show ?thesis by (auto simp: voidPI_def prepareVoid_def split: option.splits)
    qed
  qed
qed

theorem voidPI_reverses_witness:
  "\<exists>b' d'. voidPI 1 7 1 None None 200 sample_db = Inr ((1, b'), d') \<and>
     account_net 2 (batch_entries d' 1 1) + account_net 2 (batch_entries d' 1 b') = 0"
proof -
  have a: "wf_ledger sample_db" "ledger_checked sample_db"
    "find_invoice sample_db 1 1 = Some (sample_invoice 1 2 1000000 (Some 1))"
    "truthy_id (pi_journal_batch_id (sample_invoice 1 2 1000000 (Some 1))) = Some 1"
    "pi_status (sample_invoice 1 2 1000000 (Some 1)) = 2"
    "batch_entries sample_db 1 1 \<noteq> []" "batch_free sample_db 1 ''PURCHASE_INVOICE_VOID'' 1"
    "\<not> (\<exists>e \<in> set (batch_entries sample_db 1 1). 249 < length (le_description e))"
    by code_simp+
  from voidPI_reverses [where c = 1 and i = 1 and u = 7 and g = None and r = None and now = 200, OF a(1,2)] show ?thesis
    unfolding a(3) option.case a(4,5) if_not_P [OF a(8)] using a(6,7) by (auto simp del: One_nat_def)
qed

text \<open>
  C36: The journal of a draft with lines, whose header agrees with them and whose tax lines carry
  no rate of their own, never has more debit than credit before posting, and the difference is
  at most two ten-thousandths for every line after the first: each line is converted and cut by
  itself, the header as a whole.  Posting refuses every difference, so an invoice in a foreign
  currency with several lines can be impossible to post.
\<close>

theorem journal_gap:
  assumes "find_invoice d c i = Some pi" and "pi_status pi = PI_DRAFT" and "invoice_consistent d pi"
    and "invoice_lines d c i \<noteq> []" and "\<forall>l \<in> set (invoice_lines d c i). \<not> taxed_tax_line l"
    and "posting_rate d c pi = Inr rate_string" and "toScaled8 rate_string = Inr rate"
    and "posting_settings d c = Inr acc" and "plan_journal d c acc pi rate_string = Inr (js, ws)"
  shows "\<exists>dr cr. journal_totals js = Inr (dr, cr) \<and> dr \<le> cr \<and>
    cr \<le> dr + 2 * (int (length (invoice_lines d c i)) - 1) \<and>
    (preparePosting d c i = Inl (PIError ''JOURNAL_NOT_BALANCED'') \<longleftrightarrow> dr < cr)"
proof -
  have ids: "pi_company_id pi = c" "pi_id pi = i" using find_invoice_Some [OF assms(1)] by simp_all
  have r: "0 \<le> rate" using assms(7) dec8.parse_sign by blast
  note tot = plan_journal_totals [OF assms(9,7), unfolded ids(2)]
  note gap = journal_gap_bounds [OF assms(3) refl _ _ r, unfolded ids, OF assms(4,5)]
  show ?thesis
    using gap assms(1,2,6,8,9) by (auto simp: preparePosting_def tot require_def)
qed

theorem journal_gap_witness:
  "preparePosting dollar_draft_db 1 2 = Inl (PIError ''JOURNAL_NOT_BALANCED'')"
proof -
  let ?p = "(sample_invoice 2 1 6666 None)\<lparr>pi_currency_code := ''USD''\<rparr>"
  have a: "find_invoice dollar_draft_db 1 2 = Some ?p" "pi_status ?p = 1" "invoice_consistent dollar_draft_db ?p"
    "invoice_lines dollar_draft_db 1 2 = [sample_invoice_line 1 2 10000 3333, sample_invoice_line 2 2 10000 3333]"
    "posting_rate dollar_draft_db 1 ?p = Inr ''1.50000000''" "toScaled8 ''1.50000000'' = Inr 150000000"
    "posting_settings dollar_draft_db 1 = Inr \<lparr>pa_ap = 2, pa_expense = 3, pa_creditLimitEnabled = False\<rparr>"
    by code_simp+
  have "case plan_journal dollar_draft_db 1 \<lparr>pa_ap = 2, pa_expense = 3, pa_creditLimitEnabled = False\<rparr> ?p ''1.50000000'' of
      Inr (js, ws) \<Rightarrow> journal_totals js = Inr (9998, 9999) | Inl _ \<Rightarrow> False"
    by code_simp
  then obtain js ws where js: "plan_journal dollar_draft_db 1 \<lparr>pa_ap = 2, pa_expense = 3, pa_creditLimitEnabled = False\<rparr>
      ?p ''1.50000000'' = Inr (js, ws)" "journal_totals js = Inr (9998, 9999)"
    by (auto split: sum.splits)
  have ls: "invoice_lines dollar_draft_db 1 2 \<noteq> []" "\<forall>l \<in> set (invoice_lines dollar_draft_db 1 2). \<not> taxed_tax_line l"
    unfolding a(4) by (simp_all add: sample_invoice_line_def taxed_tax_line_def)
  from journal_gap [OF a(1-3) ls a(5-7) js(1)] show ?thesis by (simp add: js(2))
qed

text \<open>
  The tax of a line is its total times the percentage, as if the percentage were a factor: a
  rate of 11 per cent makes the tax eleven times the line, a hundred times what it says.
\<close>

theorem line_tax_factor:
  assumes "find (\<lambda>t. tax_id t = i \<and> tax_company_id t = c) (tax_rates d) = Some t"
    and "i \<noteq> 0" and "0 \<le> lineTotal" and "0 \<le> tax_rate_percent t"
  shows "\<exists>tax. line_tax d c (Some i) lineTotal = Inr tax \<and>
    tax * 10000 \<le> lineTotal * tax_rate_percent t \<and> lineTotal * tax_rate_percent t < tax * 10000 + 10000 \<and>
    100 * (lineTotal * tax_rate_percent t div 1000000) \<le> tax"
proof -
  let ?n = "lineTotal * tax_rate_percent t"
  have eq: "line_tax d c (Some i) lineTotal = Inr (scale4Mul lineTotal (tax_rate_percent t))"
    using assms by (simp add: line_tax_def truthy_id_def)
  have "0 \<le> ?n" using assms by simp
  then have "scale4Mul lineTotal (tax_rate_percent t) = ?n div 10000"
    by (simp add: scale4Mul_def big_div_nonneg)
  moreover have "100 * (?n div 1000000) \<le> ?n div 10000" by linarith
  ultimately show ?thesis
    using eq scale4Mul_bounds [OF assms(3,4)] by auto
qed

theorem line_tax_factor_witness:
  "\<exists>tax. line_tax tax_db 1 (Some 1) 1000000 = Inr tax \<and> 11000000 \<le> tax"
proof -
  have "find (\<lambda>t. tax_id t = 1 \<and> tax_company_id t = 1) (tax_rates tax_db) = Some sample_tax_rate" by code_simp
  from line_tax_factor [OF this, of 1000000] show ?thesis
    by (auto simp: sample_tax_rate_def simp del: One_nat_def)
qed

end
