(* ===== verification/Supplier.thy ===== *)
theory Supplier
  imports Purchasing_Db Decimal_Scale4 "HOL-Library.List_Lexorder"
begin

text \<open>
  Suppliers and their contacts (\<open>services/supplier-service.ts\<close>,
  \<open>services/supplier-contact-service.ts\<close>).  A supplier with an order that is not closed
  cannot be deactivated, and at most one contact of a supplier is the primary one.  An optional
  field of a patch is an \<open>option\<close>: \<open>None\<close> is a missing field; where the field may be
  \<open>null\<close> the option is of an option.  Comparison of strings is by bytes, up to the case of
  ASCII letters in a search.
\<close>

section \<open>Results\<close>

record SupplierContact =
  ct_id :: nat
  ct_supplier_id :: nat
  ct_name :: string
  ct_email :: "string option"
  ct_phone :: "string option"
  ct_role :: "string option"
  ct_is_primary :: bool
  ct_notes :: "string option"
  ct_created_at :: int
  ct_updated_at :: int

record SupplierWithContacts =
  rs_id :: nat
  rs_company_id :: nat
  rs_code :: string
  rs_name :: string
  rs_email :: "string option"
  rs_phone :: "string option"
  rs_address_line1 :: "string option"
  rs_address_line2 :: "string option"
  rs_city :: "string option"
  rs_postal_code :: "string option"
  rs_country :: "string option"
  rs_currency :: string
  rs_credit_limit :: string
  rs_payment_terms_days :: "nat option"
  rs_notes :: "string option"
  rs_is_active :: bool
  rs_created_by_user_id :: "nat option"
  rs_updated_by_user_id :: "nat option"
  rs_created_at :: int
  rs_updated_at :: int
  rs_contacts :: "SupplierContact list option"

definition normalizeContact :: "supplier_contact_row \<Rightarrow> SupplierContact" where
  "normalizeContact row =
     \<lparr>ct_id = sc_id row, ct_supplier_id = sc_supplier_id row, ct_name = sc_name row,
      ct_email = sc_email row, ct_phone = sc_phone row, ct_role = sc_role row,
      ct_is_primary = (sc_is_primary row \<noteq> 0), ct_notes = sc_notes row,
      ct_created_at = sc_created_at row, ct_updated_at = sc_updated_at row\<rparr>"

definition normalizeSupplier :: "supplier_row \<Rightarrow> supplier_contact_row list option \<Rightarrow> SupplierWithContacts" where
  "normalizeSupplier row contacts =
     \<lparr>rs_id = sup_id row, rs_company_id = sup_company_id row, rs_code = sup_code row,
      rs_name = sup_name row, rs_email = sup_email row, rs_phone = sup_phone row,
      rs_address_line1 = sup_address_line1 row, rs_address_line2 = sup_address_line2 row,
      rs_city = sup_city row, rs_postal_code = sup_postal_code row, rs_country = sup_country row,
      rs_currency = sup_currency row, rs_credit_limit = db_decimal 4 (sup_credit_limit row),
      rs_payment_terms_days = sup_payment_terms_days row, rs_notes = sup_notes row,
      rs_is_active = (sup_is_active row \<noteq> 0), rs_created_by_user_id = sup_created_by_user_id row,
      rs_updated_by_user_id = sup_updated_by_user_id row, rs_created_at = sup_created_at row,
      rs_updated_at = sup_updated_at row, rs_contacts = map_option (map normalizeContact) contacts\<rparr>"

section \<open>Searching\<close>

definition fold_case :: "char \<Rightarrow> char" where
  "fold_case c = (if 65 \<le> (of_char c :: nat) \<and> (of_char c :: nat) \<le> 90 then char_of (of_char c + (32 :: nat)) else c)"

text \<open>\<open>LIKE\<close>: \<open>%\<close> matches any string, \<open>_\<close> any character, a backslash escapes.\<close>

fun sql_like :: "string \<Rightarrow> string \<Rightarrow> bool" where
  "sql_like [] s = (s = [])"
| "sql_like (p # ps) [] = (p = CHR ''%'' \<and> sql_like ps [])"
| "sql_like (p # ps) (c # s) =
     (if p = CHR ''%'' then sql_like ps (c # s) \<or> sql_like (p # ps) s
      else if p = CHR ''_'' then sql_like ps s
      else if p = CHR 92 \<and> ps \<noteq> [] then fold_case (hd ps) = fold_case c \<and> sql_like (tl ps) s
      else fold_case p = fold_case c \<and> sql_like ps s)"

definition contains_pattern :: "string \<Rightarrow> string \<Rightarrow> bool" where
  "contains_pattern search s = sql_like (''%'' @ search @ ''%'') s"

record SupplierListParams =
  lsp_companyId :: nat
  lsp_isActive :: "bool option"
  lsp_search :: "string option"
  lsp_limit :: nat
  lsp_offset :: nat

definition supplier_match :: "SupplierListParams \<Rightarrow> supplier_row \<Rightarrow> bool" where
  "supplier_match ps s \<longleftrightarrow> sup_company_id s = lsp_companyId ps \<and>
     sup_is_active s = (case lsp_isActive ps of None \<Rightarrow> 1 | Some a \<Rightarrow> if a then 1 else 0) \<and>
     (case truthy_str (lsp_search ps) of
        None \<Rightarrow> True
      | Some q \<Rightarrow> contains_pattern q (sup_name s) \<or> contains_pattern q (sup_code s) \<or>
          (case sup_email s of None \<Rightarrow> False | Some e \<Rightarrow> contains_pattern q e))"

definition listSuppliers :: "db \<Rightarrow> SupplierListParams \<Rightarrow> SupplierWithContacts list \<times> nat \<times> nat \<times> nat" where
  "listSuppliers d ps =
     (let matches = filter (supplier_match ps) (suppliers d);
          page = take (lsp_limit ps) (drop (lsp_offset ps) (sort_key sup_name matches))
      in (map (\<lambda>s. normalizeSupplier s None) page, length matches, lsp_limit ps, lsp_offset ps))"

section \<open>Suppliers\<close>

definition getSupplierById :: "db \<Rightarrow> nat \<Rightarrow> nat \<Rightarrow> bool \<Rightarrow> SupplierWithContacts option" where
  "getSupplierById d companyId supplierId includeInactive =
     map_option (\<lambda>s. normalizeSupplier s (Some (filter (\<lambda>ct. sc_supplier_id ct = supplierId) (supplier_contacts d))))
       (find (\<lambda>s. sup_id s = supplierId \<and> sup_company_id s = companyId \<and>
          (includeInactive \<or> sup_is_active s = 1)) (suppliers d))"

record CreateSupplierInput =
  is_companyId :: nat
  is_userId :: nat
  is_code :: string
  is_name :: string
  is_email :: "string option"
  is_phone :: "string option"
  is_address_line1 :: "string option"
  is_address_line2 :: "string option"
  is_city :: "string option"
  is_postal_code :: "string option"
  is_country :: "string option"
  is_currency :: string
  is_credit_limit :: string
  is_payment_terms_days :: "nat option"
  is_notes :: "string option"

definition new_supplier_row :: "CreateSupplierInput \<Rightarrow> int \<Rightarrow> int \<Rightarrow> nat \<Rightarrow> supplier_row" where
  "new_supplier_row p creditLimit now k =
     \<lparr>sup_id = k, sup_company_id = is_companyId p, sup_address_line1 = is_address_line1 p,
      sup_address_line2 = is_address_line2 p, sup_city = is_city p, sup_country = is_country p,
      sup_code = is_code p, sup_created_at = now, sup_created_by_user_id = Some (is_userId p),
      sup_credit_limit = creditLimit, sup_currency = is_currency p, sup_email = is_email p,
      sup_is_active = 1, sup_name = is_name p, sup_notes = is_notes p,
      sup_payment_terms_days = is_payment_terms_days p, sup_phone = is_phone p,
      sup_postal_code = is_postal_code p, sup_updated_at = now, sup_updated_by_user_id = None\<rparr>"

definition same_supplier_code :: "nat \<Rightarrow> string \<Rightarrow> supplier_row \<Rightarrow> bool" where
  "same_supplier_code companyId code s \<longleftrightarrow> sup_company_id s = companyId \<and> sup_code s = code"

definition createSupplier :: "CreateSupplierInput \<Rightarrow> int \<Rightarrow> SupplierWithContacts op" where
  "createSupplier p now d =
     bindR (toScaled4 (is_credit_limit p)) (\<lambda>creditLimit.
     bindR (require (\<not> list_ex (same_supplier_code (is_companyId p) (is_code p)) (suppliers d))
       (ER_DUP_ENTRY ''uk_suppliers_company_code'')) (\<lambda>_.
       let row = new_supplier_row p creditLimit now (next_id d T_supplier);
           d' = bump T_supplier (d\<lparr>suppliers := suppliers d @ [row]\<rparr>)
       in bindR (from_opt (JsError ''Failed to fetch created supplier'')
            (getSupplierById d' (is_companyId p) (sup_id row) False)) (\<lambda>supplier. Inr (supplier, d'))))"

record UpdateSupplierInput =
  us_companyId :: nat
  us_supplierId :: nat
  us_userId :: nat
  us_name :: "string option"
  us_email :: "string option option"
  us_phone :: "string option option"
  us_address_line1 :: "string option option"
  us_address_line2 :: "string option option"
  us_city :: "string option option"
  us_postal_code :: "string option option"
  us_country :: "string option option"
  us_currency :: "string option"
  us_credit_limit :: "string option"
  us_payment_terms_days :: "nat option option"
  us_notes :: "string option option"
  us_is_active :: "bool option"

text \<open>\<open>if (p.x !== undefined) updateValues.x = p.x\<close>\<close>

definition patched :: "'a option \<Rightarrow> 'a \<Rightarrow> 'a" where
  "patched field old = (case field of None \<Rightarrow> old | Some v \<Rightarrow> v)"

definition update_supplier_row :: "UpdateSupplierInput \<Rightarrow> int option \<Rightarrow> int \<Rightarrow> supplier_row \<Rightarrow> supplier_row" where
  "update_supplier_row p creditLimit now s =
     s\<lparr>sup_updated_by_user_id := Some (us_userId p), sup_name := patched (us_name p) (sup_name s),
       sup_email := patched (us_email p) (sup_email s), sup_phone := patched (us_phone p) (sup_phone s),
       sup_address_line1 := patched (us_address_line1 p) (sup_address_line1 s),
       sup_address_line2 := patched (us_address_line2 p) (sup_address_line2 s),
       sup_city := patched (us_city p) (sup_city s),
       sup_postal_code := patched (us_postal_code p) (sup_postal_code s),
       sup_country := patched (us_country p) (sup_country s),
       sup_currency := patched (us_currency p) (sup_currency s),
       sup_credit_limit := patched creditLimit (sup_credit_limit s),
       sup_payment_terms_days := patched (us_payment_terms_days p) (sup_payment_terms_days s),
       sup_notes := patched (us_notes p) (sup_notes s), sup_updated_at := now\<rparr>"

text \<open>An order blocks deactivation unless it is closed.\<close>

definition open_orders :: "db \<Rightarrow> nat \<Rightarrow> nat \<Rightarrow> purchase_order_row list" where
  "open_orders d companyId supplierId =
     filter (\<lambda>po. po_supplier_id po = supplierId \<and> po_company_id po = companyId \<and> po_status po \<noteq> 5)
       (purchase_orders d)"

definition supplier_key :: "nat \<Rightarrow> nat \<Rightarrow> supplier_row \<Rightarrow> bool" where
  "supplier_key companyId supplierId s \<longleftrightarrow> sup_id s = supplierId \<and> sup_company_id s = companyId"

definition updateSupplier :: "UpdateSupplierInput \<Rightarrow> int \<Rightarrow> SupplierWithContacts option op" where
  "updateSupplier p now d =
     (case find_supplier d (us_companyId p) (us_supplierId p) of
        None \<Rightarrow> Inr (None, d)
      | Some existing \<Rightarrow>
          bindR (require (\<not> (us_is_active p = Some False \<and> sup_is_active existing = 1 \<and>
              open_orders d (us_companyId p) (us_supplierId p) \<noteq> [])) SupplierHasOpenDocumentsError) (\<lambda>_.
          bindR (case us_credit_limit p of None \<Rightarrow> Inr None | Some v \<Rightarrow> bindR (toScaled4 v) (\<lambda>c. Inr (Some c)))
            (\<lambda>creditLimit.
            let d' = d\<lparr>suppliers := update_where (supplier_key (us_companyId p) (us_supplierId p))
                  (\<lambda>s. let s' = update_supplier_row p creditLimit now s in
                     if us_is_active p = Some False then s'\<lparr>sup_is_active := 0\<rparr> else s') (suppliers d)\<rparr>
            in Inr (getSupplierById d' (us_companyId p) (us_supplierId p) True, d'))))"

definition softDeleteSupplier :: "nat \<Rightarrow> nat \<Rightarrow> nat \<Rightarrow> int \<Rightarrow> bool op" where
  "softDeleteSupplier companyId supplierId userId now d =
     (case find_supplier d companyId supplierId of
        None \<Rightarrow> Inr (False, d)
      | Some _ \<Rightarrow>
          bindR (require (open_orders d companyId supplierId = []) SupplierHasOpenDocumentsError) (\<lambda>_.
            Inr (True, d\<lparr>suppliers := update_where (supplier_key companyId supplierId)
              (\<lambda>s. s\<lparr>sup_is_active := 0, sup_updated_by_user_id := Some userId, sup_updated_at := now\<rparr>)
              (suppliers d)\<rparr>)))"

section \<open>Contacts\<close>

definition verifySupplierAccess :: "db \<Rightarrow> nat \<Rightarrow> nat \<Rightarrow> bool" where
  "verifySupplierAccess d companyId supplierId \<longleftrightarrow>
     list_ex (\<lambda>s. sup_id s = supplierId \<and> sup_company_id s = companyId \<and> sup_is_active s = 1) (suppliers d)"

definition supplier_contacts_of :: "db \<Rightarrow> nat \<Rightarrow> supplier_contact_row list" where
  "supplier_contacts_of d supplierId = filter (\<lambda>ct. sc_supplier_id ct = supplierId) (supplier_contacts d)"

definition listContacts :: "db \<Rightarrow> nat \<Rightarrow> nat \<Rightarrow> SupplierContact list" where
  "listContacts d companyId supplierId =
     (case find_supplier d companyId supplierId of
        None \<Rightarrow> []
      | Some _ \<Rightarrow> map normalizeContact (sort_key (\<lambda>ct. - int (sc_is_primary ct))
          (sort_key sc_name (supplier_contacts_of d supplierId))))"

definition find_contact :: "db \<Rightarrow> nat \<Rightarrow> nat \<Rightarrow> supplier_contact_row option" where
  "find_contact d supplierId contactId =
     find (\<lambda>ct. sc_id ct = contactId \<and> sc_supplier_id ct = supplierId) (supplier_contacts d)"

definition getContactById :: "db \<Rightarrow> nat \<Rightarrow> nat \<Rightarrow> nat \<Rightarrow> SupplierContact option" where
  "getContactById d companyId supplierId contactId =
     (case find_supplier d companyId supplierId of
        None \<Rightarrow> None
      | Some _ \<Rightarrow> map_option normalizeContact (find_contact d supplierId contactId))"

record ContactPayload =
  cp_name :: string
  cp_email :: "string option"
  cp_phone :: "string option"
  cp_role :: "string option"
  cp_is_primary :: bool
  cp_notes :: "string option"

text \<open>Clearing the flag of the primary contact: of the first one, should there be several.\<close>

definition clear_primary :: "nat \<Rightarrow> int \<Rightarrow> db \<Rightarrow> db" where
  "clear_primary supplierId now d =
     (case filter (\<lambda>ct. sc_supplier_id ct = supplierId \<and> sc_is_primary ct = 1) (supplier_contacts d) of
        [] \<Rightarrow> d
      | existing # _ \<Rightarrow> d\<lparr>supplier_contacts := update_where (\<lambda>ct. sc_id ct = sc_id existing)
          (\<lambda>ct. ct\<lparr>sc_is_primary := 0, sc_updated_at := now\<rparr>) (supplier_contacts d)\<rparr>)"

definition new_contact_row :: "nat \<Rightarrow> ContactPayload \<Rightarrow> int \<Rightarrow> nat \<Rightarrow> supplier_contact_row" where
  "new_contact_row supplierId p now k =
     \<lparr>sc_id = k, sc_created_at = now, sc_email = cp_email p,
      sc_is_primary = (if cp_is_primary p then 1 else 0), sc_name = cp_name p, sc_notes = cp_notes p,
      sc_phone = cp_phone p, sc_role = cp_role p, sc_supplier_id = supplierId, sc_updated_at = now\<rparr>"

definition createContact :: "nat \<Rightarrow> nat \<Rightarrow> ContactPayload \<Rightarrow> int \<Rightarrow> SupplierContact op" where
  "createContact companyId supplierId p now d =
     bindR (require (verifySupplierAccess d companyId supplierId) SupplierNotFoundError) (\<lambda>_.
       let d1 = (if cp_is_primary p then clear_primary supplierId now d else d);
           row = new_contact_row supplierId p now (next_id d1 T_supplier_contact);
           d2 = bump T_supplier_contact (d1\<lparr>supplier_contacts := supplier_contacts d1 @ [row]\<rparr>)
       in bindR (from_opt (JsError ''Failed to fetch created supplier contact'')
            (getContactById d2 companyId supplierId (sc_id row))) (\<lambda>contact. Inr (contact, d2)))"

record ContactPatch =
  cu_name :: "string option"
  cu_email :: "string option option"
  cu_phone :: "string option option"
  cu_role :: "string option option"
  cu_notes :: "string option option"
  cu_is_primary :: "bool option"

definition empty_patch :: "ContactPatch \<Rightarrow> bool" where
  "empty_patch p \<longleftrightarrow> cu_name p = None \<and> cu_email p = None \<and> cu_phone p = None \<and> cu_role p = None \<and>
     cu_notes p = None \<and> cu_is_primary p = None"

definition update_contact_row :: "ContactPatch \<Rightarrow> int \<Rightarrow> supplier_contact_row \<Rightarrow> supplier_contact_row" where
  "update_contact_row p now ct =
     ct\<lparr>sc_name := patched (cu_name p) (sc_name ct), sc_email := patched (cu_email p) (sc_email ct),
        sc_phone := patched (cu_phone p) (sc_phone ct), sc_role := patched (cu_role p) (sc_role ct),
        sc_notes := patched (cu_notes p) (sc_notes ct),
        sc_is_primary := (case cu_is_primary p of None \<Rightarrow> sc_is_primary ct | Some b \<Rightarrow> if b then 1 else 0),
        sc_updated_at := now\<rparr>"

text \<open>A patch without fields becomes an \<open>UPDATE\<close> that sets nothing, which the database rejects.\<close>

definition updateContact :: "nat \<Rightarrow> nat \<Rightarrow> nat \<Rightarrow> ContactPatch \<Rightarrow> int \<Rightarrow> SupplierContact option op" where
  "updateContact companyId supplierId contactId p now d =
     (if \<not> verifySupplierAccess d companyId supplierId then Inr (None, d)
      else (case find_contact d supplierId contactId of
        None \<Rightarrow> Inr (None, d)
      | Some _ \<Rightarrow>
          let d1 = (if cu_is_primary p = Some True then clear_primary supplierId now d else d) in
          bindR (require (\<not> empty_patch p) ER_PARSE_ERROR) (\<lambda>_.
            let d2 = d1\<lparr>supplier_contacts := update_where (\<lambda>ct. sc_id ct = contactId \<and> sc_supplier_id ct = supplierId)
                  (update_contact_row p now) (supplier_contacts d1)\<rparr>
            in Inr (getContactById d2 companyId supplierId contactId, d2))))"

definition deleteContact :: "nat \<Rightarrow> nat \<Rightarrow> nat \<Rightarrow> bool op" where
  "deleteContact companyId supplierId contactId d =
     (if \<not> verifySupplierAccess d companyId supplierId then Inr (False, d)
      else (case find_contact d supplierId contactId of
        None \<Rightarrow> Inr (False, d)
      | Some _ \<Rightarrow> Inr (True, d\<lparr>supplier_contacts :=
          filter (\<lambda>ct. \<not> (sc_id ct = contactId \<and> sc_supplier_id ct = supplierId)) (supplier_contacts d)\<rparr>)))"

end
