(* ===== verification/Supplier_Steps.thy ===== *)
theory Supplier_Steps
  imports Supplier Sample_Tables
begin

text \<open>
  The two supplier services as a step relation on the tables: its invariants, shown operation by
  operation, and what a step can do to the activity of a supplier.
\<close>

section \<open>Steps\<close>

text \<open>
  The committed transactions of the two services, and any transaction of another service, which
  leaves both tables alone.
\<close>

inductive supplier_step :: "db \<Rightarrow> db \<Rightarrow> bool" where
  create_supplier: "createSupplier p now d = Inr (r, d') \<Longrightarrow> supplier_step d d'"
| update_supplier: "updateSupplier u now d = Inr (ro, d') \<Longrightarrow> supplier_step d d'"
| delete_supplier: "softDeleteSupplier c i usr now d = Inr (b, d') \<Longrightarrow> supplier_step d d'"
| create_contact: "createContact c i cp now d = Inr (ct, d') \<Longrightarrow> supplier_step d d'"
| update_contact: "updateContact c i k cu now d = Inr (co, d') \<Longrightarrow> supplier_step d d'"
| delete_contact: "deleteContact c i k d = Inr (b, d') \<Longrightarrow> supplier_step d d'"
| other_service: "suppliers d' = suppliers d \<Longrightarrow> supplier_contacts d' = supplier_contacts d \<Longrightarrow>
    auto_inc d' T_supplier = auto_inc d T_supplier \<Longrightarrow>
    auto_inc d' T_supplier_contact = auto_inc d T_supplier_contact \<Longrightarrow> supplier_step d d'"

inductive supplier_reachable :: "db \<Rightarrow> bool" where
  start: "suppliers d = [] \<Longrightarrow> supplier_contacts d = [] \<Longrightarrow> supplier_reachable d"
| step: "supplier_reachable d \<Longrightarrow> supplier_step d d' \<Longrightarrow> supplier_reachable d'"

section \<open>Invariants\<close>

definition primaries :: "nat \<Rightarrow> supplier_contact_row list \<Rightarrow> supplier_contact_row list" where
  "primaries i cts = filter (\<lambda>ct. sc_supplier_id ct = i \<and> sc_is_primary ct = 1) cts"

definition contacts_ok :: "db \<Rightarrow> bool" where
  "contacts_ok d \<longleftrightarrow> distinct (map sc_id (supplier_contacts d)) \<and>
     (\<forall>ct \<in> set (supplier_contacts d). sc_id ct \<le> auto_inc d T_supplier_contact) \<and>
     (\<forall>i. length (primaries i (supplier_contacts d)) \<le> 1)"

definition suppliers_ok :: "db \<Rightarrow> bool" where
  "suppliers_ok d \<longleftrightarrow> distinct (map sup_id (suppliers d)) \<and>
     (\<forall>s \<in> set (suppliers d). sup_id s \<le> auto_inc d T_supplier) \<and>
     distinct (map (\<lambda>s. (sup_company_id s, sup_code s)) (suppliers d))"

lemma primaries_append [simp]: "primaries i (xs @ ys) = primaries i xs @ primaries i ys"
  by (simp add: primaries_def)

lemma primaries_le: "(\<And>ct. ct \<in> set cts \<Longrightarrow> sc_is_primary (f ct) = 1 \<Longrightarrow> sc_is_primary ct = 1) \<Longrightarrow>
    (\<And>ct. sc_supplier_id (f ct) = sc_supplier_id ct) \<Longrightarrow>
    length (primaries i (map f cts)) \<le> length (primaries i cts)"
  unfolding primaries_def by (induction cts) (auto simp: le_SucI)

lemma clear_primary_tables [simp]:
  "suppliers (clear_primary i now d) = suppliers d"
  "auto_inc (clear_primary i now d) = auto_inc d"
  "map sc_id (supplier_contacts (clear_primary i now d)) = map sc_id (supplier_contacts d)"
  by (auto simp: clear_primary_def update_where_def split: list.splits)

lemma clear_primary_le:
  "length (primaries j (supplier_contacts (clear_primary i now d))) \<le> length (primaries j (supplier_contacts d))"
  by (auto simp: clear_primary_def update_where_def intro!: primaries_le split: list.splits if_splits)

text \<open>After the flag was cleared, the supplier has no primary contact.\<close>

lemma clear_primary_none:
  assumes "length (primaries i (supplier_contacts d)) \<le> 1"
  shows "primaries i (supplier_contacts (clear_primary i now d)) = []"
proof (cases "primaries i (supplier_contacts d)")
  case Nil
  then show ?thesis by (simp add: clear_primary_def primaries_def)
next
  case (Cons x xs)
  then have one: "primaries i (supplier_contacts d) = [x]" using assms by (cases xs) auto
  have "sc_is_primary (if sc_id ct = sc_id x then ct\<lparr>sc_is_primary := 0, sc_updated_at := now\<rparr> else ct) \<noteq> 1"
    if "ct \<in> set (supplier_contacts d)" "sc_supplier_id ct = i" for ct
  proof -
    have "ct \<in> set (primaries i (supplier_contacts d))" if "sc_is_primary ct = 1"
      using that \<open>ct \<in> _\<close> \<open>sc_supplier_id ct = i\<close> by (simp add: primaries_def)
    with one show ?thesis by auto
  qed
  then show ?thesis
    using one by (force simp: clear_primary_def primaries_def update_where_def filter_empty_conv split: if_splits)
qed

lemma contacts_ok_clear: "contacts_ok d \<Longrightarrow> contacts_ok (clear_primary i now d)"
  unfolding contacts_ok_def
  by (metis (no_types, lifting) clear_primary_le clear_primary_tables(2,3) imageE imageI le_trans list.set_map)

lemma contacts_ok_append:
  assumes "contacts_ok d" and "sc_id r = next_id d T_supplier_contact"
    and "sc_is_primary r = 1 \<Longrightarrow> primaries (sc_supplier_id r) (supplier_contacts d) = []"
  shows "contacts_ok (bump T_supplier_contact (d\<lparr>supplier_contacts := supplier_contacts d @ [r]\<rparr>))"
  using assms by (force simp: contacts_ok_def bump_def next_id_def primaries_def)

lemma createContact_ok:
  assumes "contacts_ok d" and "createContact c i p now d = Inr (ct, d')"
  shows "contacts_ok d'" and "suppliers d' = suppliers d" and "auto_inc d' T_supplier = auto_inc d T_supplier"
proof -
  let ?d1 = "if cp_is_primary p then clear_primary i now d else d"
  let ?row = "new_contact_row i p now (next_id ?d1 T_supplier_contact)"
  have d': "d' = bump T_supplier_contact (?d1\<lparr>supplier_contacts := supplier_contacts ?d1 @ [?row]\<rparr>)"
    using assms(2) by (auto simp: createContact_def Let_def inr_simps)
  have ok: "contacts_ok ?d1" using assms(1) contacts_ok_clear by simp
  have none: "primaries i (supplier_contacts (clear_primary i now d)) = []"
    using assms(1) clear_primary_none by (simp add: contacts_ok_def)
  show "contacts_ok d'" unfolding d'
    by (rule contacts_ok_append [OF ok]) (use none in \<open>auto simp: new_contact_row_def split: if_splits\<close>)
  show "suppliers d' = suppliers d" "auto_inc d' T_supplier = auto_inc d T_supplier"
    by (simp_all add: d' bump_def)
qed

text \<open>Setting the flag of one contact of a supplier that has no primary contact makes one.\<close>

lemma primaries_update:
  assumes "distinct (map sc_id cts)" and "\<And>ct. sc_supplier_id (f ct) = sc_supplier_id ct"
    and "\<And>ct. ct \<in> set cts \<Longrightarrow> sc_is_primary (f ct) = 1 \<Longrightarrow> sc_is_primary ct = 1 \<or> primaries j cts = []"
  shows "length (primaries j (update_where (\<lambda>ct. sc_id ct = k \<and> sc_supplier_id ct = i) f cts)) \<le>
    max 1 (length (primaries j cts))"
proof (cases "primaries j cts = []")
  case True
  have "length (primaries j (update_where (\<lambda>ct. sc_id ct = k \<and> sc_supplier_id ct = i) f cts)) \<le>
      length (filter (\<lambda>ct. sc_id ct = k) cts)"
    using True assms(2) by (induction cts) (auto simp: primaries_def split: if_splits)
  also have "\<dots> \<le> 1" using assms(1) by (induction cts) (auto simp: filter_empty_conv image_iff)
  finally show ?thesis by simp
next
  case False
  have "length (primaries j (update_where (\<lambda>ct. sc_id ct = k \<and> sc_supplier_id ct = i) f cts)) \<le> length (primaries j cts)"
    unfolding update_where_def using False assms(2,3) by (intro primaries_le) (auto split: if_splits)
  then show ?thesis by simp
qed

lemma updateContact_ok:
  assumes "contacts_ok d" and "updateContact c i k p now d = Inr (r, d')"
  shows "contacts_ok d'" and "suppliers d' = suppliers d" and "auto_inc d' T_supplier = auto_inc d T_supplier"
proof -
  let ?d1 = "if cu_is_primary p = Some True then clear_primary i now d else d"
  let ?P = "\<lambda>ct. sc_id ct = k \<and> sc_supplier_id ct = i"
  have d': "d' = d \<or> d' = ?d1\<lparr>supplier_contacts := update_where ?P (update_contact_row p now) (supplier_contacts ?d1)\<rparr>"
    using assms(2) by (auto simp: updateContact_def Let_def inr_simps split: if_splits option.splits)
  then show "suppliers d' = suppliers d" "auto_inc d' T_supplier = auto_inc d T_supplier" by auto
  have ok: "contacts_ok ?d1" using assms(1) contacts_ok_clear by simp
  have none: "primaries i (supplier_contacts (clear_primary i now d)) = []"
    using assms(1) clear_primary_none by (simp add: contacts_ok_def)
  have ids: "map sc_id (update_where ?P (update_contact_row p now) cts) = map sc_id cts" for cts
    by (rule update_where_map_id) (simp add: update_contact_row_def)
  have "length (primaries j (update_where ?P (update_contact_row p now) (supplier_contacts ?d1))) \<le> 1" for j
  proof (cases "j = i")
    case True
    have "length (primaries i (update_where ?P (update_contact_row p now) (supplier_contacts ?d1))) \<le>
        max 1 (length (primaries i (supplier_contacts ?d1)))"
      using ok none by (intro primaries_update)
        (auto simp: contacts_ok_def update_contact_row_def split: if_splits option.splits)
    then show ?thesis using ok True by (auto simp: contacts_ok_def)
  next
    case False
    have "primaries j (update_where ?P (update_contact_row p now) cts) = primaries j cts" for cts
      using False by (induction cts) (auto simp: primaries_def update_contact_row_def)
    then show ?thesis using ok by (simp add: contacts_ok_def)
  qed
  moreover have "\<forall>ct \<in> set (update_where ?P (update_contact_row p now) (supplier_contacts ?d1)).
      sc_id ct \<le> auto_inc d T_supplier_contact"
    using ok by (auto simp: contacts_ok_def set_update_where update_contact_row_def split: if_splits)
  ultimately have "contacts_ok (?d1\<lparr>supplier_contacts := update_where ?P (update_contact_row p now) (supplier_contacts ?d1)\<rparr>)"
    using ok by (simp add: contacts_ok_def ids)
  then show "contacts_ok d'" using d' assms(1) by metis
qed

lemma deleteContact_ok:
  assumes "contacts_ok d" and "deleteContact c i k d = Inr (b, d')"
  shows "contacts_ok d'" and "suppliers d' = suppliers d" and "auto_inc d' T_supplier = auto_inc d T_supplier"
proof -
  have d': "d' = d \<or> d' = d\<lparr>supplier_contacts :=
      filter (\<lambda>ct. \<not> (sc_id ct = k \<and> sc_supplier_id ct = i)) (supplier_contacts d)\<rparr>"
    using assms(2) by (auto simp: deleteContact_def split: if_splits option.splits)
  then show "suppliers d' = suppliers d" "auto_inc d' T_supplier = auto_inc d T_supplier" by auto
  have le: "length (primaries j (filter P cts)) \<le> length (primaries j cts)" for j P cts
    unfolding primaries_def by (induction cts) auto
  have "length (primaries j (filter P (supplier_contacts d))) \<le> 1" for j P
    using assms(1) le [of j P "supplier_contacts d"] by (metis contacts_ok_def order_trans)
  then show "contacts_ok d'"
    using d' assms(1) by (auto simp: contacts_ok_def distinct_map_filter simp del: One_nat_def)
qed

lemma getSupplierById_read: "suppliers d' = suppliers d \<Longrightarrow> supplier_contacts d' = supplier_contacts d \<Longrightarrow>
    getSupplierById d' c i b = getSupplierById d c i b"
  by (simp add: getSupplierById_def)

lemma createSupplier_Inr:
  assumes "createSupplier p now d = Inr (r, d')"
  obtains cl where "toScaled4 (is_credit_limit p) = Inr cl"
    and "\<not> list_ex (same_supplier_code (is_companyId p) (is_code p)) (suppliers d)"
    and "d' = bump T_supplier (d\<lparr>suppliers := suppliers d @ [new_supplier_row p cl now (next_id d T_supplier)]\<rparr>)"
  using assms by (auto simp: createSupplier_def Let_def inr_simps)

lemma createSupplier_ok:
  assumes "suppliers_ok d" and "createSupplier p now d = Inr (r, d')"
  shows "suppliers_ok d'" and "supplier_contacts d' = supplier_contacts d"
    and "auto_inc d' T_supplier_contact = auto_inc d T_supplier_contact"
proof -
  from assms(2) obtain cl where
    new: "\<not> list_ex (same_supplier_code (is_companyId p) (is_code p)) (suppliers d)"
    and d': "d' = bump T_supplier (d\<lparr>suppliers := suppliers d @ [new_supplier_row p cl now (next_id d T_supplier)]\<rparr>)"
    by (rule createSupplier_Inr)
  show "suppliers_ok d'" using assms(1) new
    by (fastforce simp: d' suppliers_ok_def bump_def new_supplier_row_def next_id_def list_ex_iff same_supplier_code_def)
  show "supplier_contacts d' = supplier_contacts d" "auto_inc d' T_supplier_contact = auto_inc d T_supplier_contact"
    by (simp_all add: d' bump_def)
qed

text \<open>What a patch or a deletion does to the rows: keys stay, and so does the flag unless cleared.\<close>

lemma update_where_keys:
  assumes "\<And>s. sup_id (f s) = sup_id s \<and> sup_company_id (f s) = sup_company_id s \<and> sup_code (f s) = sup_code s"
  shows "suppliers_ok (d\<lparr>suppliers := update_where P f (suppliers d)\<rparr>) \<longleftrightarrow> suppliers_ok d"
proof -
  have ids: "map sup_id (update_where P f ss) = map sup_id ss"
    "map (\<lambda>s. (sup_company_id s, sup_code s)) (update_where P f ss) = map (\<lambda>s. (sup_company_id s, sup_code s)) ss" for ss
    using assms by (auto intro: update_where_map_id)
  have "sup_id ` set (update_where P f ss) = sup_id ` set ss" for ss
    using ids(1) [of ss] by (metis list.set_map)
  then have "(\<forall>s \<in> set (update_where P f ss). sup_id s \<le> k) \<longleftrightarrow> (\<forall>s \<in> set ss. sup_id s \<le> k)" for ss k
    by (metis (no_types, lifting) image_iff)
  with ids show ?thesis by (simp add: suppliers_ok_def)
qed

definition deactivated :: "UpdateSupplierInput \<Rightarrow> int option \<Rightarrow> int \<Rightarrow> supplier_row \<Rightarrow> supplier_row" where
  "deactivated u cl now s = (let s' = update_supplier_row u cl now s in
     if us_is_active u = Some False then s'\<lparr>sup_is_active := 0\<rparr> else s')"

lemma updateSupplier_Inr:
  assumes "updateSupplier u now d = Inr (r, d')"
  shows "d' = d \<or> (\<exists>s cl. find_supplier d (us_companyId u) (us_supplierId u) = Some s \<and>
    (us_is_active u = Some False \<longrightarrow> sup_is_active s = 1 \<longrightarrow> open_orders d (us_companyId u) (us_supplierId u) = []) \<and>
    d' = d\<lparr>suppliers := update_where (supplier_key (us_companyId u) (us_supplierId u))
       (deactivated u cl now) (suppliers d)\<rparr>)"
  using assms
  by (auto simp: updateSupplier_def Let_def inr_simps deactivated_def [abs_def] split: option.splits)

lemma softDeleteSupplier_Inr:
  assumes "softDeleteSupplier c i u now d = Inr (r, d')"
  shows "d' = d \<or> (open_orders d c i = [] \<and> d' = d\<lparr>suppliers := update_where (supplier_key c i)
    (\<lambda>s. s\<lparr>sup_is_active := 0, sup_updated_by_user_id := Some u, sup_updated_at := now\<rparr>) (suppliers d)\<rparr>)"
  using assms by (auto simp: softDeleteSupplier_def inr_simps split: option.splits)

lemma deactivated_simps [simp]:
  "sup_id (deactivated u cl now s) = sup_id s" "sup_company_id (deactivated u cl now s) = sup_company_id s"
  "sup_code (deactivated u cl now s) = sup_code s"
  "sup_is_active (deactivated u cl now s) = (if us_is_active u = Some False then 0 else sup_is_active s)"
  by (simp_all add: deactivated_def update_supplier_row_def Let_def)

lemma step_invariants:
  assumes "supplier_step d d'" and "contacts_ok d" and "suppliers_ok d"
  shows "contacts_ok d' \<and> suppliers_ok d'"
  using assms
proof cases
  case (create_supplier p now r)
  then show ?thesis
    using createSupplier_ok [OF assms(3) create_supplier] assms(2) by (simp add: contacts_ok_def)
next
  case (update_supplier u now ro)
  from updateSupplier_Inr [OF this] assms(2,3) show ?thesis
    by (auto simp: update_where_keys) (simp_all add: contacts_ok_def)
next
  case (delete_supplier c i usr now b)
  from softDeleteSupplier_Inr [OF this] assms(2,3) show ?thesis
    by (auto simp: update_where_keys) (simp_all add: contacts_ok_def)
next
  case (create_contact c i cp now ct)
  from createContact_ok [OF assms(2) this] assms(3) show ?thesis by (simp add: suppliers_ok_def)
next
  case (update_contact c i k cu now co)
  from updateContact_ok [OF assms(2) this] assms(3) show ?thesis by (simp add: suppliers_ok_def)
next
  case (delete_contact c i k b)
  from deleteContact_ok [OF assms(2) this] assms(3) show ?thesis by (simp add: suppliers_ok_def)
next
  case other_service
  then show ?thesis using assms(2,3) by (simp add: contacts_ok_def suppliers_ok_def)
qed

lemma reachable_invariants: "supplier_reachable d \<Longrightarrow> contacts_ok d \<and> suppliers_ok d"
proof (induction rule: supplier_reachable.induct)
  case (start d)
  then show ?case by (simp add: contacts_ok_def suppliers_ok_def primaries_def)
next
  case (step d d')
  then show ?case using step_invariants by blast
qed

lemma find_supplier_update:
  assumes "find_supplier d c i = Some s"
    and "\<And>s. sup_id (f s) = sup_id s" and "\<And>s. sup_company_id (f s) = sup_company_id s"
  shows "find_supplier (d\<lparr>suppliers := update_where (supplier_key c' i') f (suppliers d)\<rparr>) c i =
    Some (if c' = c \<and> i' = i then f s else s)"
proof -
  have "find_supplier (d\<lparr>suppliers := update_where (supplier_key c' i') f (suppliers d)\<rparr>) c i =
    map_option (\<lambda>s. if supplier_key c' i' s then f s else s) (find_supplier d c i)"
    unfolding find_supplier_def by (simp add: find_update_where assms(2,3))
  then show ?thesis
    using assms(1) find_supplier_Some [OF assms(1)] by (auto simp: supplier_key_def)
qed

lemma contact_operations_suppliers:
  "createContact c i cp now d = Inr (ct, d') \<Longrightarrow> suppliers d' = suppliers d"
  "updateContact c i k cu now d = Inr (co, d') \<Longrightarrow> suppliers d' = suppliers d"
  "deleteContact c i k d = Inr (b, d') \<Longrightarrow> suppliers d' = suppliers d"
  by (auto simp: createContact_def updateContact_def deleteContact_def Let_def inr_simps bump_def
      split: if_splits option.splits)

section \<open>Sample suppliers\<close>

definition sample_supplier_input :: CreateSupplierInput where
  "sample_supplier_input = \<lparr>is_companyId = 1, is_userId = 7, is_code = ''S-1'', is_name = ''Supplier'',
     is_email = None, is_phone = None, is_address_line1 = None, is_address_line2 = None,
     is_city = None, is_postal_code = None, is_country = None, is_currency = ''IDR'',
     is_credit_limit = ''0'', is_payment_terms_days = Some 30, is_notes = None\<rparr>"

definition sample_contact :: ContactPayload where
  "sample_contact = \<lparr>cp_name = ''Ann'', cp_email = None, cp_phone = None, cp_role = None,
     cp_is_primary = True, cp_notes = None\<rparr>"

lemma sample_supplier_steps:
  obtains d1 d2 d3 r ct ct' where "createSupplier sample_supplier_input 0 empty_db = Inr (r, d1)"
    and "createContact 1 1 sample_contact 1 d1 = Inr (ct, d2)"
    and "createContact 1 1 sample_contact 2 d2 = Inr (ct', d3)" and "length (supplier_contacts d3) = 2"
proof -
  have "bindR (createSupplier sample_supplier_input 0 empty_db) (\<lambda>(r, d1).
      bindR (createContact 1 1 sample_contact 1 d1) (\<lambda>(ct, d2).
      bindR (createContact 1 1 sample_contact 2 d2) (\<lambda>(ct', d3).
        require (length (supplier_contacts d3) = 2) INVALID_REQUEST))) = Inr ()"
    by code_simp
  with that show thesis by (auto simp: inr_simps)
qed

section \<open>Properties\<close>

text \<open>
  C28: Whatever the two services and the rest of the program do, a supplier has at most one
  primary contact, and supplier codes are unique in a company.
\<close>

theorem primary_contact_unique:
  assumes "supplier_reachable d"
  shows "length (filter (\<lambda>ct. sc_supplier_id ct = i \<and> sc_is_primary ct = 1) (supplier_contacts d)) \<le> 1 \<and>
    distinct (map (\<lambda>s. (sup_company_id s, sup_code s)) (suppliers d))"
  using reachable_invariants [OF assms] by (simp add: contacts_ok_def primaries_def suppliers_ok_def)

theorem primary_contact_unique_witness:
  "\<exists>d. supplier_reachable d \<and> length (supplier_contacts d) = 2 \<and>
     length (filter (\<lambda>ct. sc_supplier_id ct = 1 \<and> sc_is_primary ct = 1) (supplier_contacts d)) \<le> 1"
proof -
  obtain d1 d2 d3 r ct ct' where "createSupplier sample_supplier_input 0 empty_db = Inr (r, d1)"
    and "createContact 1 1 sample_contact 1 d1 = Inr (ct, d2)"
    and "createContact 1 1 sample_contact 2 d2 = Inr (ct', d3)" and n: "length (supplier_contacts d3) = 2"
    by (rule sample_supplier_steps)
  then have "supplier_step empty_db d1" "supplier_step d1 d2" "supplier_step d2 d3"
    by (auto intro: supplier_step.intros)
  moreover have "supplier_reachable empty_db" by (rule supplier_reachable.start) (simp_all add: empty_db_def)
  ultimately have "supplier_reachable d3" by (blast intro: supplier_reachable.step)
  with primary_contact_unique [OF this, of 1] n show ?thesis by blast
qed

text \<open>
  No step of the program deactivates an active supplier that has an order that is not closed,
  and none makes an inactive supplier active again: the \<open>is_active: true\<close> of a patch has
  no effect.
\<close>

theorem supplier_activity:
  assumes "supplier_step d d'" and "find_supplier d c i = Some s"
  shows "\<exists>s'. find_supplier d' c i = Some s' \<and>
    (sup_is_active s' = sup_is_active s \<or>
     sup_is_active s' = 0 \<and> (sup_is_active s = 1 \<longrightarrow> open_orders d c i = []))"
  using assms(1)
proof cases
  case (create_supplier p now r)
  then show ?thesis
    using assms(2) by (auto elim!: createSupplier_Inr simp: find_supplier_def find_append bump_def)
next
  case (update_supplier u now ro)
  then show ?thesis
    using updateSupplier_Inr [OF update_supplier] assms(2) by (auto simp: find_supplier_update)
next
  case (delete_supplier c' i' usr now b)
  then show ?thesis
    using softDeleteSupplier_Inr [OF delete_supplier] assms(2) by (auto simp: find_supplier_update)
qed (use assms(2) contact_operations_suppliers in \<open>auto simp: find_supplier_def\<close>)

theorem supplier_activity_witness:
  "\<exists>d'. softDeleteSupplier 1 1 7 5 sample_db = Inr (True, d') \<and>
     (\<exists>s'. find_supplier d' 1 1 = Some s' \<and> (sup_is_active s' = 0 \<longrightarrow> open_orders sample_db 1 1 = []))"
proof -
  have "case softDeleteSupplier 1 1 7 5 sample_db of Inr (b, d') \<Rightarrow> b | Inl _ \<Rightarrow> False" by code_simp
  then obtain d' where d': "softDeleteSupplier 1 1 7 5 sample_db = Inr (True, d')"
    by (auto split: sum.splits prod.splits)
  have s: "find_supplier sample_db 1 1 = Some sample_supplier" "sup_is_active sample_supplier = 1" by code_simp+
  from supplier_activity [OF supplier_step.delete_supplier [OF d'] s(1)] d' s(2) show ?thesis by auto
qed

end
