(* ===== verification/Purchase_Order.thy ===== *)
theory Purchase_Order
  imports Purchasing_Db Purchasing_Constants Decimal_Scale4
begin

text \<open>
  Purchase orders (\<open>services/purchase-order-service.ts\<close>, \<open>types/purchase-order.ts\<close>):
  creation under a generated number with a bounded retry, changes while the order is a draft,
  and the transitions of its status.  The random bytes of a number are a parameter, one list per
  attempt, and so is the clock that each attempt reads.
\<close>

section \<open>Order numbers\<close>

definition base36_char :: "int \<Rightarrow> char" where
  "base36_char v = char_of (if v < 10 then 48 + v else 55 + v)"

text \<open>\<open>n.toString(36).toUpperCase()\<close>\<close>

function base36_digits :: "int \<Rightarrow> int list" where
  "base36_digits n = (if n < 36 then [n] else base36_digits (n div 36) @ [n mod 36])"
  by pat_completeness auto

termination
  by (relation "measure nat") auto

declare base36_digits.simps [simp del]

text \<open>\<open>randomBytes(5).toString("hex").toUpperCase()\<close>\<close>

definition hex_upper :: "int list \<Rightarrow> string" where
  "hex_upper bytes = concat (map (\<lambda>b. [base36_char (b div 16), base36_char (b mod 16)]) bytes)"

definition generatePurchaseOrderNo :: "int \<Rightarrow> int list \<Rightarrow> string" where
  "generatePurchaseOrderNo nowEpochMs bytes =
     ''PO-'' @ map base36_char (base36_digits nowEpochMs) @ ''-'' @ hex_upper bytes"

section \<open>Reading orders\<close>

record POLine =
  rpol_id :: nat
  rpol_line_no :: nat
  rpol_item_id :: "nat option"
  rpol_description :: "string option"
  rpol_qty :: string
  rpol_unit_price :: string
  rpol_tax_rate :: string
  rpol_received_qty :: string
  rpol_line_total :: string

record POResponse =
  rpo_id :: nat
  rpo_company_id :: nat
  rpo_supplier_id :: nat
  rpo_order_no :: string
  rpo_order_date :: int
  rpo_status :: nat
  rpo_currency_code :: string
  rpo_total_amount :: string
  rpo_expected_date :: "int option"
  rpo_notes :: "string option"
  rpo_created_by_user_id :: nat
  rpo_updated_by_user_id :: "nat option"
  rpo_created_at :: int
  rpo_updated_at :: int
  rpo_lines :: "POLine list"

definition format_line :: "purchase_order_line_row \<Rightarrow> POLine" where
  "format_line l =
     \<lparr>rpol_id = pol_id l, rpol_line_no = pol_line_no l, rpol_item_id = pol_item_id l,
      rpol_description = pol_description l, rpol_qty = db_decimal 4 (pol_qty l),
      rpol_unit_price = db_decimal 4 (pol_unit_price l), rpol_tax_rate = db_decimal 4 (pol_tax_rate l),
      rpol_received_qty = db_decimal 4 (pol_received_qty l),
      rpol_line_total = db_decimal 4 (pol_line_total l)\<rparr>"

definition formatOrderRow :: "purchase_order_row \<Rightarrow> purchase_order_line_row list \<Rightarrow> POResponse" where
  "formatOrderRow order ls =
     \<lparr>rpo_id = po_id order, rpo_company_id = po_company_id order, rpo_supplier_id = po_supplier_id order,
      rpo_order_no = po_order_no order, rpo_order_date = po_order_date order,
      rpo_status = po_status order, rpo_currency_code = po_currency_code order,
      rpo_total_amount = db_decimal 4 (po_total_amount order), rpo_expected_date = po_expected_date order,
      rpo_notes = po_notes order,
      rpo_created_by_user_id = (case po_created_by_user_id order of None \<Rightarrow> 0 | Some u \<Rightarrow> u),
      rpo_updated_by_user_id = po_updated_by_user_id order, rpo_created_at = po_created_at order,
      rpo_updated_at = po_updated_at order, rpo_lines = map format_line ls\<rparr>"

definition find_order :: "db \<Rightarrow> nat \<Rightarrow> nat \<Rightarrow> purchase_order_row option" where
  "find_order d companyId orderId =
     find (\<lambda>po. po_id po = orderId \<and> po_company_id po = companyId) (purchase_orders d)"

definition order_lines :: "db \<Rightarrow> nat \<Rightarrow> nat \<Rightarrow> purchase_order_line_row list" where
  "order_lines d companyId orderId =
     sort_key pol_line_no (filter (\<lambda>l. pol_order_id l = orderId \<and> pol_company_id l = companyId)
       (purchase_order_lines d))"

definition getPurchaseOrderById :: "db \<Rightarrow> nat \<Rightarrow> nat \<Rightarrow> POResponse option" where
  "getPurchaseOrderById d companyId orderId =
     map_option (\<lambda>order. formatOrderRow order (order_lines d companyId orderId)) (find_order d companyId orderId)"

record OrderListFilters =
  lpo_companyId :: nat
  lpo_supplierId :: "nat option"
  lpo_status :: "nat option"
  lpo_dateFrom :: "int option"
  lpo_dateTo :: "int option"
  lpo_limit :: nat
  lpo_offset :: nat

definition order_match :: "OrderListFilters \<Rightarrow> purchase_order_row \<Rightarrow> bool" where
  "order_match ps po \<longleftrightarrow> po_company_id po = lpo_companyId ps \<and>
     (\<forall>s \<in> set_option (lpo_supplierId ps). po_supplier_id po = s) \<and>
     (\<forall>s \<in> set_option (lpo_status ps). po_status po = s) \<and>
     (\<forall>f \<in> set_option (lpo_dateFrom ps). f \<le> po_order_date po) \<and>
     (\<forall>t \<in> set_option (lpo_dateTo ps). po_order_date po \<le> t)"

text \<open>A listed order has the supplier's name and no lines.\<close>

definition listPurchaseOrders :: "db \<Rightarrow> OrderListFilters \<Rightarrow> (POResponse \<times> string option) list \<times> nat \<times> nat \<times> nat" where
  "listPurchaseOrders d ps =
     (let matches = filter (order_match ps) (purchase_orders d);
          page = take (lpo_limit ps) (drop (lpo_offset ps) (sort_key (\<lambda>po. - po_created_at po) matches))
      in (map (\<lambda>po. (formatOrderRow po [],
            map_option sup_name (find_supplier d (po_company_id po) (po_supplier_id po)))) page,
          length matches, lpo_limit ps, lpo_offset ps))"

section \<open>Creating an order\<close>

record CreatePOLineInput =
  ipol_item_id :: "nat option"
  ipol_description :: "string option"
  ipol_qty :: string
  ipol_unit_price :: string
  ipol_tax_rate :: "string option"

record CreatePurchaseOrderInput =
  ipo_companyId :: nat
  ipo_userId :: nat
  ipo_idempotencyKey :: "string option"
  ipo_supplierId :: nat
  ipo_orderDate :: int
  ipo_expectedDate :: "int option"
  ipo_notes :: "string option"
  ipo_currencyCode :: "string option"
  ipo_lines :: "CreatePOLineInput list"

definition find_order_by_key :: "db \<Rightarrow> nat \<Rightarrow> string \<Rightarrow> purchase_order_row option" where
  "find_order_by_key d companyId key =
     find (\<lambda>po. po_company_id po = companyId \<and> po_idempotency_key po = Some key) (purchase_orders d)"

definition existing_order :: "db \<Rightarrow> nat \<Rightarrow> string option \<Rightarrow> POResponse option" where
  "existing_order d companyId idempotencyKey =
     (case truthy_str idempotencyKey of
        None \<Rightarrow> None
      | Some key \<Rightarrow>
          (case find_order_by_key d companyId key of
             None \<Rightarrow> None
           | Some po \<Rightarrow> getPurchaseOrderById d companyId (po_id po)))"

definition line_tax_rate :: "CreatePOLineInput \<Rightarrow> string" where
  "line_tax_rate l = (case ipol_tax_rate l of None \<Rightarrow> ''0'' | Some t \<Rightarrow> t)"

text \<open>The lines of a request with their numbers and totals.\<close>

definition process_lines :: "CreatePOLineInput list \<Rightarrow> (nat \<times> CreatePOLineInput \<times> string) list res" where
  "process_lines ls =
     mapM (\<lambda>(n, l). bindR (computeLineTotal (ipol_qty l) (ipol_unit_price l) (line_tax_rate l))
       (\<lambda>t. Inr (n, l, t))) (numbered ls)"

definition lines_total :: "(nat \<times> CreatePOLineInput \<times> string) list \<Rightarrow> string res" where
  "lines_total processedLines = computeTotalAmount (map (\<lambda>(_, _, lineTotal). lineTotal) processedLines)"

definition check_items :: "db \<Rightarrow> nat \<Rightarrow> CreatePOLineInput list \<Rightarrow> unit res" where
  "check_items d companyId ls =
     foldM (\<lambda>_ l. case ipol_item_id l of
         None \<Rightarrow> Inr ()
       | Some i \<Rightarrow> require (list_ex (\<lambda>it. item_id it = i \<and> item_company_id it = companyId) (items d))
           (ITEM_NOT_FOUND i)) () ls"

definition new_order_row :: "CreatePurchaseOrderInput \<Rightarrow> string \<Rightarrow> int \<Rightarrow> int \<Rightarrow> nat \<Rightarrow> purchase_order_row" where
  "new_order_row input orderNo totalAmount now k =
     \<lparr>po_id = k, po_company_id = ipo_companyId input, po_created_at = now,
      po_created_by_user_id = Some (ipo_userId input),
      po_currency_code = (case ipo_currencyCode input of None \<Rightarrow> ''IDR'' | Some c \<Rightarrow> c),
      po_expected_date = ipo_expectedDate input, po_idempotency_key = ipo_idempotencyKey input,
      po_notes = ipo_notes input, po_order_date = ipo_orderDate input, po_order_no = orderNo,
      po_status = PO_DRAFT, po_supplier_id = ipo_supplierId input, po_total_amount = totalAmount,
      po_updated_at = now, po_updated_by_user_id = None\<rparr>"

definition order_conflict :: "db \<Rightarrow> purchase_order_row \<Rightarrow> string option" where
  "order_conflict d r =
     (let same = filter (\<lambda>po. po_company_id po = po_company_id r) (purchase_orders d) in
      if \<exists>po \<in> set same. po_order_no po = po_order_no r then Some ''idx_po_company_order_no''
      else if po_idempotency_key r \<noteq> None \<and> (\<exists>po \<in> set same. po_idempotency_key po = po_idempotency_key r)
      then Some ''uk_purchase_orders_company_idempotency_key''
      else None)"

definition new_order_line_row ::
  "nat \<Rightarrow> nat \<Rightarrow> nat \<Rightarrow> CreatePOLineInput \<Rightarrow> int \<Rightarrow> int \<Rightarrow> int \<Rightarrow> int \<Rightarrow> int \<Rightarrow> nat \<Rightarrow> purchase_order_line_row" where
  "new_order_line_row companyId orderId lineNo l qty unitPrice taxRate lineTotal now k =
     \<lparr>pol_id = k, pol_company_id = companyId, pol_created_at = now, pol_description = ipol_description l,
      pol_item_id = ipol_item_id l, pol_line_no = lineNo, pol_line_total = lineTotal,
      pol_order_id = orderId, pol_qty = qty, pol_received_qty = 0, pol_tax_rate = taxRate,
      pol_unit_price = unitPrice, pol_updated_at = now\<rparr>"

definition insert_order_line ::
  "nat \<Rightarrow> nat \<Rightarrow> int \<Rightarrow> db \<Rightarrow> nat \<times> CreatePOLineInput \<times> string \<Rightarrow> db res" where
  "insert_order_line companyId orderId now d nlt =
     (case nlt of (lineNo, l, line_total) \<Rightarrow>
       bindR (toScaled4 (ipol_qty l)) (\<lambda>qty.
       bindR (toScaled4 (ipol_unit_price l)) (\<lambda>unitPrice.
       bindR (toScaled4 (line_tax_rate l)) (\<lambda>taxRate.
       bindR (toScaled4 line_total) (\<lambda>lineTotal.
         Inr (bump T_purchase_order_line (d\<lparr>purchase_order_lines := purchase_order_lines d @
           [new_order_line_row companyId orderId lineNo l qty unitPrice taxRate lineTotal now
             (next_id d T_purchase_order_line)]\<rparr>)))))))"

definition create_order_trx ::
  "CreatePurchaseOrderInput \<Rightarrow> (nat \<times> CreatePOLineInput \<times> string) list \<Rightarrow> string \<Rightarrow> int \<Rightarrow> string \<Rightarrow> nat op" where
  "create_order_trx input processedLines totalAmount now orderNo d =
     bindR (require (list_ex (\<lambda>s. sup_id s = ipo_supplierId input \<and> sup_company_id s = ipo_companyId input \<and>
         sup_is_active s = 1) (suppliers d)) SUPPLIER_NOT_FOUND) (\<lambda>_.
     bindR (check_items d (ipo_companyId input) (ipo_lines input)) (\<lambda>_.
     bindR (toScaled4 totalAmount) (\<lambda>total_amount.
       let row = new_order_row input orderNo total_amount now (next_id d T_purchase_order) in
       case order_conflict d row of
         Some uk \<Rightarrow> Inl (ER_DUP_ENTRY uk)
       | None \<Rightarrow>
           bindR (foldM (insert_order_line (ipo_companyId input) (po_id row) now)
             (bump T_purchase_order (d\<lparr>purchase_orders := purchase_orders d @ [row]\<rparr>)) processedLines)
             (\<lambda>d'. Inr (po_id row, d')))))"

text \<open>One round of the retry loop per order number that is still to be tried.\<close>

fun create_order_attempts ::
  "CreatePurchaseOrderInput \<Rightarrow> (nat \<times> CreatePOLineInput \<times> string) list \<Rightarrow> string \<Rightarrow> int \<Rightarrow> string list \<Rightarrow> perr \<Rightarrow>
     POResponse op" where
  "create_order_attempts input processedLines totalAmount now [] lastError d = Inl lastError"
| "create_order_attempts input processedLines totalAmount now (orderNo # orderNos) lastError d =
     (case create_order_trx input processedLines totalAmount now orderNo d of
        Inr (orderId, d') \<Rightarrow>
          bindR (from_opt (JsError ''Failed to fetch created purchase order'')
            (getPurchaseOrderById d' (ipo_companyId input) orderId)) (\<lambda>order. Inr (order, d'))
      | Inl err \<Rightarrow>
          if is_duplicate err then
            (case existing_order d (ipo_companyId input) (ipo_idempotencyKey input) of
               Some existingOrder \<Rightarrow> Inr (existingOrder, d)
             | None \<Rightarrow> create_order_attempts input processedLines totalAmount now orderNos err d)
          else Inl err)"

definition order_numbers :: "(nat \<Rightarrow> int) \<Rightarrow> (nat \<Rightarrow> int list) \<Rightarrow> string list" where
  "order_numbers epochMs randomBytes =
     map (\<lambda>attempt. generatePurchaseOrderNo (epochMs attempt) (randomBytes attempt)) [0..<5]"

definition createPurchaseOrder ::
  "CreatePurchaseOrderInput \<Rightarrow> int \<Rightarrow> (nat \<Rightarrow> int) \<Rightarrow> (nat \<Rightarrow> int list) \<Rightarrow> POResponse op" where
  "createPurchaseOrder input now epochMs randomBytes d =
     (case existing_order d (ipo_companyId input) (ipo_idempotencyKey input) of
        Some existingOrder \<Rightarrow> Inr (existingOrder, d)
      | None \<Rightarrow>
          bindR (process_lines (ipo_lines input)) (\<lambda>processedLines.
          bindR (lines_total processedLines) (\<lambda>totalAmount.
            create_order_attempts input processedLines totalAmount now (order_numbers epochMs randomBytes)
              (JsError ''Failed to create purchase order after multiple attempts'') d)))"

section \<open>Changing a draft\<close>

record UpdatePurchaseOrderInput =
  uo_companyId :: nat
  uo_userId :: nat
  uo_orderId :: nat
  uo_notes :: "string option"
  uo_expectedDate :: "int option"
  uo_lines :: "CreatePOLineInput list option"

definition update_order_header :: "UpdatePurchaseOrderInput \<Rightarrow> int \<Rightarrow> purchase_order_row \<Rightarrow> purchase_order_row" where
  "update_order_header input now po =
     po\<lparr>po_updated_by_user_id := Some (uo_userId input),
        po_notes := (case uo_notes input of None \<Rightarrow> po_notes po | Some n \<Rightarrow> Some n),
        po_expected_date := (case uo_expectedDate input of None \<Rightarrow> po_expected_date po | Some e \<Rightarrow> Some e),
        po_updated_at := now\<rparr>"

definition order_key :: "nat \<Rightarrow> nat \<Rightarrow> purchase_order_row \<Rightarrow> bool" where
  "order_key companyId orderId po \<longleftrightarrow> po_id po = orderId \<and> po_company_id po = companyId"

definition replace_lines :: "UpdatePurchaseOrderInput \<Rightarrow> CreatePOLineInput list \<Rightarrow> int \<Rightarrow> db \<Rightarrow> db res" where
  "replace_lines input ls now d =
     bindR (check_items d (uo_companyId input) ls) (\<lambda>_.
       let d1 = d\<lparr>purchase_order_lines := filter (\<lambda>l. \<not> (pol_order_id l = uo_orderId input \<and>
             pol_company_id l = uo_companyId input)) (purchase_order_lines d)\<rparr>
       in bindR (process_lines ls) (\<lambda>processedLines.
          bindR (foldM (insert_order_line (uo_companyId input) (uo_orderId input) now) d1 processedLines) (\<lambda>d2.
          bindR (lines_total processedLines) (\<lambda>totalAmount.
          bindR (toScaled4 totalAmount) (\<lambda>total_amount.
            Inr (d2\<lparr>purchase_orders := update_where (order_key (uo_companyId input) (uo_orderId input))
              (\<lambda>po. po\<lparr>po_total_amount := total_amount, po_updated_by_user_id := Some (uo_userId input),
                 po_updated_at := now\<rparr>) (purchase_orders d2)\<rparr>))))))"

text \<open>The answer of a change reads the order by its key alone.\<close>

definition read_order :: "db \<Rightarrow> nat \<Rightarrow> POResponse option" where
  "read_order d orderId =
     map_option (\<lambda>order. formatOrderRow order (sort_key pol_line_no
       (filter (\<lambda>l. pol_order_id l = orderId) (purchase_order_lines d))))
       (find (\<lambda>po. po_id po = orderId) (purchase_orders d))"

definition updatePurchaseOrder :: "UpdatePurchaseOrderInput \<Rightarrow> int \<Rightarrow> POResponse option op" where
  "updatePurchaseOrder input now d =
     bindR (require (uo_lines input \<noteq> Some []) INVALID_REQUEST) (\<lambda>_.
     case find_order d (uo_companyId input) (uo_orderId input) of
       None \<Rightarrow> Inr (None, d)
     | Some locked \<Rightarrow>
         bindR (require (po_status locked = PO_DRAFT) INVALID_STATUS) (\<lambda>_.
           let d1 = (if uo_notes input = None \<and> uo_expectedDate input = None then d
                 else d\<lparr>purchase_orders := update_where (order_key (uo_companyId input) (uo_orderId input))
                   (update_order_header input now) (purchase_orders d)\<rparr>)
           in bindR (case uo_lines input of None \<Rightarrow> Inr d1 | Some ls \<Rightarrow> replace_lines input ls now d1) (\<lambda>d2.
                Inr (read_order d2 (uo_orderId input), d2))))"

section \<open>Status transitions\<close>

definition VALID_TRANSITIONS :: "(string \<times> string list) list" where
  "VALID_TRANSITIONS =
     [(''DRAFT'', [''SENT'', ''CLOSED'']),
      (''SENT'', [''PARTIAL_RECEIVED'', ''RECEIVED'', ''CLOSED'']),
      (''PARTIAL_RECEIVED'', [''RECEIVED'', ''CLOSED'']),
      (''RECEIVED'', [''CLOSED'']),
      (''CLOSED'', [])]"

definition status_name :: "nat \<Rightarrow> string option" where
  "status_name code = map_option fst (find (\<lambda>(_, v). v = code) PURCHASE_ORDER_STATUS)"

definition allowed_transition :: "nat \<Rightarrow> nat \<Rightarrow> bool" where
  "allowed_transition current new =
     (let allowedNextLabels = (case status_name current of
            None \<Rightarrow> []
          | Some label \<Rightarrow> (case map_of VALID_TRANSITIONS label of None \<Rightarrow> [] | Some ls \<Rightarrow> ls))
      in case status_name new of None \<Rightarrow> False | Some label \<Rightarrow> label \<in> set allowedNextLabels)"

definition line_received :: "purchase_order_line_row \<Rightarrow> bool res" where
  "line_received l =
     bindR (read_dec4 (pol_qty l)) (\<lambda>qty.
     bindR (read_dec4 (pol_received_qty l)) (\<lambda>receivedQty. Inr (receivedQty \<ge> qty)))"

text \<open>\<open>lines.every\<close> stops at the first line that is not received.\<close>

fun all_received :: "purchase_order_line_row list \<Rightarrow> bool res" where
  "all_received [] = Inr True"
| "all_received (l # ls) = bindR (line_received l) (\<lambda>b. if b then all_received ls else Inr False)"

definition set_order_status :: "(purchase_order_row \<Rightarrow> bool) \<Rightarrow> nat \<Rightarrow> nat \<Rightarrow> int \<Rightarrow> db \<Rightarrow> db" where
  "set_order_status key status userId now d =
     d\<lparr>purchase_orders := update_where key (\<lambda>po. po\<lparr>po_status := status,
         po_updated_by_user_id := Some userId, po_updated_at := now\<rparr>) (purchase_orders d)\<rparr>"

definition transitionPurchaseOrderStatus :: "nat \<Rightarrow> nat \<Rightarrow> nat \<Rightarrow> nat \<Rightarrow> int \<Rightarrow> POResponse option op" where
  "transitionPurchaseOrderStatus companyId userId orderId newStatus now d =
     (case find_order d companyId orderId of
        None \<Rightarrow> Inr (None, d)
      | Some locked \<Rightarrow>
          bindR (require (allowed_transition (po_status locked) newStatus)
            (INVALID_TRANSITION (po_status locked) newStatus)) (\<lambda>_.
          bindR (if newStatus = PO_RECEIVED
              then bindR (all_received (filter (\<lambda>l. pol_order_id l = orderId \<and> pol_company_id l = companyId)
                (purchase_order_lines d))) (\<lambda>b. require b RECEIPT_INCOMPLETE)
              else Inr ()) (\<lambda>_.
            let d' = set_order_status (order_key companyId orderId) newStatus userId now d
            in Inr (read_order d' orderId, d'))))"

end
