(* ===== verification/Json_Text.thy ===== *)
theory Json_Text
  imports Decimal_Scale4
begin

text \<open>
  The JSON that the receipts store: \<open>JSON.stringify\<close> of a list of strings and
  \<open>JSON.parse\<close> of a text.  Characters are code points below 256, so an escape
  \<open>\u\<close> of a larger one is outside the model and rejected.  The parser has fuel: every
  second call consumes a character, so twice the length of the text and two is enough.
\<close>

section \<open>Printing\<close>

definition hex_lower :: "nat \<Rightarrow> char" where
  "hex_lower v = char_of (if v < 10 then 48 + v else 87 + v)"

definition json_char :: "char \<Rightarrow> string" where
  "json_char c =
     (let n = (of_char c :: nat) in
      if n = 34 then [CHR 92, CHR 34]
      else if n = 92 then [CHR 92, CHR 92]
      else if n = 8 then CHR 92 # ''b''
      else if n = 9 then CHR 92 # ''t''
      else if n = 10 then CHR 92 # ''n''
      else if n = 12 then CHR 92 # ''f''
      else if n = 13 then CHR 92 # ''r''
      else if n < 32 then CHR 92 # ''u00'' @ [hex_lower (n div 16), hex_lower (n mod 16)]
      else [c])"

definition json_string :: "string \<Rightarrow> string" where
  "json_string s = [CHR 34] @ concat (map json_char s) @ [CHR 34]"

fun comma_list :: "string list \<Rightarrow> string" where
  "comma_list [] = []"
| "comma_list [s] = json_string s"
| "comma_list (s # t # ss) = json_string s @ '','' @ comma_list (t # ss)"

definition json_stringify :: "string list \<Rightarrow> string" where
  "json_stringify ss = ''['' @ comma_list ss @ '']''"

section \<open>Parsing\<close>

datatype json =
    JNull
  | JBool bool
  | JNumber string
  | JString string
  | JArray "json list"
  | JObject "(string \<times> json) list"

definition skip_space :: "string \<Rightarrow> string" where
  "skip_space s = dropWhile (\<lambda>c. (of_char c :: nat) \<in> {9, 10, 13, 32}) s"

definition hex_value :: "char \<Rightarrow> nat option" where
  "hex_value c =
     (let n = (of_char c :: nat) in
      if 48 \<le> n \<and> n \<le> 57 then Some (n - 48)
      else if 65 \<le> n \<and> n \<le> 70 then Some (n - 55)
      else if 97 \<le> n \<and> n \<le> 102 then Some (n - 87)
      else None)"

definition simple_escape :: "char \<Rightarrow> char option" where
  "simple_escape c =
     (let n = (of_char c :: nat) in
      if n = 34 \<or> n = 92 \<or> n = 47 then Some c
      else if n = 98 then Some (char_of (8 :: nat))
      else if n = 116 then Some (char_of (9 :: nat))
      else if n = 110 then Some (char_of (10 :: nat))
      else if n = 102 then Some (char_of (12 :: nat))
      else if n = 114 then Some (char_of (13 :: nat))
      else None)"

definition unicode_escape :: "char \<Rightarrow> char \<Rightarrow> char \<Rightarrow> char \<Rightarrow> char option" where
  "unicode_escape a b c e =
     (case (hex_value a, hex_value b, hex_value c, hex_value e) of
        (Some 0, Some 0, Some x, Some y) \<Rightarrow> Some (char_of (16 * x + y))
      | _ \<Rightarrow> None)"

text \<open>The rest of a string after its opening quote.\<close>

fun string_rest :: "string \<Rightarrow> (string \<times> string) option" where
  "string_rest [] = None"
| "string_rest (c # s) =
     (if c = CHR 34 then Some ([], s)
      else if (of_char c :: nat) < 32 then None
      else if c = CHR 92 then
        (case s of
           [] \<Rightarrow> None
         | e # s' \<Rightarrow>
             if e = CHR ''u'' then
               (case s' of
                  h1 # h2 # h3 # h4 # s'' \<Rightarrow>
                    (case unicode_escape h1 h2 h3 h4 of
                       None \<Rightarrow> None
                     | Some u \<Rightarrow> map_option (\<lambda>(t, r). (u # t, r)) (string_rest s''))
                | _ \<Rightarrow> None)
             else (case simple_escape e of
                 None \<Rightarrow> None
               | Some u \<Rightarrow> map_option (\<lambda>(t, r). (u # t, r)) (string_rest s')))
      else map_option (\<lambda>(t, r). (c # t, r)) (string_rest s))"

definition drop_digits :: "string \<Rightarrow> string option" where
  "drop_digits s = (if takeWhile is_digit s = [] then None else Some (dropWhile is_digit s))"

text \<open>The text of a number: \<open>-?(0|[1-9]\d*)(\.\d+)?([eE][+-]?\d+)?\<close>.\<close>

definition number_ok :: "string \<Rightarrow> bool" where
  "number_ok s =
     (let s1 = (case s of CHR ''-'' # r \<Rightarrow> r | _ \<Rightarrow> s);
          after_int = (case s1 of
              [] \<Rightarrow> None
            | c # r \<Rightarrow> if c = CHR ''0'' then Some r else drop_digits s1);
          after_frac = (case after_int of
              None \<Rightarrow> None
            | Some r \<Rightarrow> (case r of CHR ''.'' # f \<Rightarrow> drop_digits f | _ \<Rightarrow> Some r));
          after_exp = (case after_frac of
              None \<Rightarrow> None
            | Some r \<Rightarrow> (case r of
                [] \<Rightarrow> Some []
              | e # f \<Rightarrow> if e \<in> {CHR ''e'', CHR ''E''}
                  then (case f of
                      [] \<Rightarrow> None
                    | g # h \<Rightarrow> if g \<in> {CHR ''+'', CHR ''-''} then drop_digits h else drop_digits f)
                  else Some r))
      in after_exp = Some [])"

definition number_char :: "char \<Rightarrow> bool" where
  "number_char c \<longleftrightarrow> is_digit c \<or> c \<in> {CHR ''-'', CHR ''+'', CHR ''.'', CHR ''e'', CHR ''E''}"

definition parse_literal :: "string \<Rightarrow> (json \<times> string) option" where
  "parse_literal s =
     (if take 4 s = ''null'' then Some (JNull, drop 4 s)
      else if take 4 s = ''true'' then Some (JBool True, drop 4 s)
      else if take 5 s = ''false'' then Some (JBool False, drop 5 s)
      else (let n = takeWhile number_char s in
        if number_ok n then Some (JNumber n, dropWhile number_char s) else None))"

fun parse_value :: "nat \<Rightarrow> string \<Rightarrow> (json \<times> string) option"
  and parse_elements :: "nat \<Rightarrow> string \<Rightarrow> (json list \<times> string) option"
  and parse_members :: "nat \<Rightarrow> string \<Rightarrow> ((string \<times> json) list \<times> string) option" where
  "parse_value 0 s = None"
| "parse_value (Suc n) s =
     (case skip_space s of
        [] \<Rightarrow> None
      | c # r \<Rightarrow>
          if c = CHR 34 then map_option (\<lambda>(t, r'). (JString t, r')) (string_rest r)
          else if c = CHR ''['' then
            (case skip_space r of
               [] \<Rightarrow> None
             | e # r' \<Rightarrow> if e = CHR '']'' then Some (JArray [], r')
                 else map_option (\<lambda>(vs, r''). (JArray vs, r'')) (parse_elements n r))
          else if c = CHR ''{'' then
            (case skip_space r of
               [] \<Rightarrow> None
             | e # r' \<Rightarrow> if e = CHR ''}'' then Some (JObject [], r')
                 else map_option (\<lambda>(ms, r''). (JObject ms, r'')) (parse_members n r))
          else parse_literal (c # r))"
| "parse_elements 0 s = None"
| "parse_elements (Suc n) s =
     (case parse_value n s of
        None \<Rightarrow> None
      | Some (v, r) \<Rightarrow>
          (case skip_space r of
             [] \<Rightarrow> None
           | e # r' \<Rightarrow>
               if e = CHR '']'' then Some ([v], r')
               else if e = CHR '','' then map_option (\<lambda>(vs, r''). (v # vs, r'')) (parse_elements n r')
               else None))"
| "parse_members 0 s = None"
| "parse_members (Suc n) s =
     (case skip_space s of
        [] \<Rightarrow> None
      | q # r \<Rightarrow>
          if q \<noteq> CHR 34 then None
          else (case string_rest r of
            None \<Rightarrow> None
          | Some (k, r1) \<Rightarrow>
              (case skip_space r1 of
                 [] \<Rightarrow> None
               | e # r2 \<Rightarrow>
                   if e \<noteq> CHR '':'' then None
                   else (case parse_value n r2 of
                     None \<Rightarrow> None
                   | Some (v, r3) \<Rightarrow>
                       (case skip_space r3 of
                          [] \<Rightarrow> None
                        | f # r4 \<Rightarrow>
                            if f = CHR ''}'' then Some ([(k, v)], r4)
                            else if f = CHR '','' then
                              map_option (\<lambda>(ms, r5). ((k, v) # ms, r5)) (parse_members n r4)
                            else None)))))"

definition json_parse :: "string \<Rightarrow> json option" where
  "json_parse s =
     (case parse_value (2 * length s + 2) s of
        None \<Rightarrow> None
      | Some (v, r) \<Rightarrow> if skip_space r = [] then Some v else None)"

section \<open>Parsing what was printed\<close>

lemma hex_round_trip: "v < 16 \<Longrightarrow> hex_value (hex_lower v) = Some v"
  by (auto simp: hex_value_def hex_lower_def Let_def)

lemma same_code: "of_char c = (of_char d :: nat) \<Longrightarrow> c = d"
  by simp

lemma special_codes:
  "(of_char c :: nat) = 34 \<Longrightarrow> c = CHR 34"
  "(of_char c :: nat) = 92 \<Longrightarrow> c = CHR 92"
  "(of_char c :: nat) = 8 \<Longrightarrow> c = CHR 8"
  "(of_char c :: nat) = 9 \<Longrightarrow> c = CHR 9"
  "(of_char c :: nat) = 10 \<Longrightarrow> c = CHR 10"
  "(of_char c :: nat) = 12 \<Longrightarrow> c = CHR 12"
  "(of_char c :: nat) = 13 \<Longrightarrow> c = CHR 13"
  by (rule same_code, simp)+

lemma special_escapes:
  "json_char (CHR 34) = [CHR 92, CHR 34]" "simple_escape (CHR 34) = Some (CHR 34)"
  "json_char (CHR 92) = [CHR 92, CHR 92]" "simple_escape (CHR 92) = Some (CHR 92)"
  "json_char (CHR 8) = [CHR 92, CHR ''b'']" "simple_escape (CHR ''b'') = Some (CHR 8)"
  "json_char (CHR 9) = [CHR 92, CHR ''t'']" "simple_escape (CHR ''t'') = Some (CHR 9)"
  "json_char (CHR 10) = [CHR 92, CHR ''n'']" "simple_escape (CHR ''n'') = Some (CHR 10)"
  "json_char (CHR 12) = [CHR 92, CHR ''f'']" "simple_escape (CHR ''f'') = Some (CHR 12)"
  "json_char (CHR 13) = [CHR 92, CHR ''r'']" "simple_escape (CHR ''r'') = Some (CHR 13)"
  by code_simp+

lemma unicode_round_trip:
  assumes "(of_char c :: nat) < 256"
  shows "unicode_escape (CHR ''0'') (CHR ''0'') (hex_lower (of_char c div 16)) (hex_lower (of_char c mod 16)) = Some c"
proof -
  have z: "hex_value (CHR ''0'') = Some 0" by code_simp
  have "(of_char c :: nat) div 16 < 16" "(of_char c :: nat) mod 16 < 16" using assms by linarith+
  then show ?thesis
    by (simp add: unicode_escape_def hex_round_trip z)
qed

lemma string_rest_char: "string_rest (json_char c @ s) = map_option (\<lambda>(t, r). (c # t, r)) (string_rest s)"
proof -
  let ?n = "of_char c :: nat"
  consider "?n = 34" | "?n = 92" | "?n = 8" | "?n = 9" | "?n = 10" | "?n = 12" | "?n = 13"
    | "?n < 32" "?n \<noteq> 8" "?n \<noteq> 9" "?n \<noteq> 10" "?n \<noteq> 12" "?n \<noteq> 13"
    | "\<not> ?n < 32" "?n \<noteq> 34" "?n \<noteq> 92" by blast
  then show ?thesis
  proof cases
    case 8
    then have "?n < 256" by simp
    from unicode_round_trip [OF this] 8 show ?thesis
      by (simp add: json_char_def Let_def)
  next
    case 9
    then have "c \<noteq> CHR 34" "c \<noteq> CHR 92" by auto
    with 9 show ?thesis by (simp add: json_char_def)
  qed (drule special_codes; simp add: special_escapes)+
qed

lemma string_rest_string: "string_rest (concat (map json_char t) @ CHR 34 # r) = Some (t, r)"
  by (induction t) (simp_all add: string_rest_char)

declare string_rest.simps [simp del]

lemma skip_space_simps [simp]:
  "skip_space [] = []"
  "skip_space (CHR 34 # s) = CHR 34 # s"
  "skip_space (CHR '']'' # s) = CHR '']'' # s"
  "skip_space (CHR ''['' # s) = CHR ''['' # s"
  "skip_space (CHR '','' # s) = CHR '','' # s"
  by (simp_all add: skip_space_def)

lemma parse_string: "parse_value (Suc n) (json_string t @ r) = Some (JString t, r)"
  by (simp add: json_string_def string_rest_string)

lemma comma_list_head: "ss \<noteq> [] \<Longrightarrow> \<exists>r. comma_list ss = CHR 34 # r"
  by (cases ss rule: comma_list.cases) (simp_all add: json_string_def)

lemma parse_comma_list:
  "ss \<noteq> [] \<Longrightarrow> parse_elements (Suc (Suc (length ss + n))) (comma_list ss @ CHR '']'' # r) = Some (map JString ss, r)"
proof (induction ss rule: comma_list.induct)
  case (2 s)
  show ?case
    using parse_string [of "length [s] + n" s "CHR '']'' # r"] by simp
next
  case (3 s t ss)
  then show ?case
    using parse_string [of "length (s # t # ss) + n" s "'','' @ comma_list (t # ss) @ CHR '']'' # r"] by simp
qed simp

lemma comma_list_length: "length ss \<le> length (comma_list ss)"
  by (induction ss rule: comma_list.induct) (simp_all add: json_string_def)

lemma json_round_trip: "json_parse (json_stringify ss) = Some (JArray (map JString ss))"
proof (cases "ss = []")
  case True
  then show ?thesis by (simp add: json_parse_def json_stringify_def numeral_2_eq_2)
next
  case False
  let ?s = "json_stringify ss"
  obtain r where r: "comma_list ss = CHR 34 # r" using comma_list_head [OF False] by blast
  have "length ss + 2 \<le> 2 * length ?s + 1"
    using comma_list_length [of ss] by (simp add: json_stringify_def)
  then obtain n where n: "2 * length ?s + 1 = Suc (Suc (length ss + n))"
    by (metis add_2_eq_Suc' le_Suc_ex add.commute add_Suc_right)
  have "parse_value (Suc (2 * length ?s + 1)) ?s = Some (JArray (map JString ss), [])"
    using parse_comma_list [OF False, of n "[]"] unfolding n
    by (simp add: json_stringify_def r)
  then show ?thesis by (simp add: json_parse_def)
qed

section \<open>The fuel is enough\<close>

text \<open>Every successful call of the parser consumes a character.\<close>

lemma skip_space_length: "length (skip_space s) \<le> length s"
  by (simp add: skip_space_def length_dropWhile_le)

lemma skip_space_Cons: "skip_space s = c # r \<Longrightarrow> length r < length s"
  using skip_space_length [of s] by simp

lemma string_rest_length: "string_rest s = Some (t, r) \<Longrightarrow> length r < length s"
proof (induction s arbitrary: t r rule: length_induct)
  case (1 s)
  then have shorter: "string_rest ys = Some (u, q) \<Longrightarrow> length ys < length s \<Longrightarrow> length q < length s" for ys u q
    using less_trans by blast
  from "1.prems" show ?case
    by (cases s) (auto simp: string_rest.simps split: if_splits list.splits option.splits dest!: shorter)
qed

lemma parse_literal_length: "parse_literal s = Some (v, r) \<Longrightarrow> length r < length s"
proof -
  have "\<not> number_ok []" by code_simp
  then have "length (dropWhile number_char s) < length s" if "number_ok (takeWhile number_char s)"
    using that by (cases s) (auto simp: length_dropWhile_le less_Suc_eq_le split: if_splits)
  then show "parse_literal s = Some (v, r) \<Longrightarrow> length r < length s"
    by (cases s) (auto simp: parse_literal_def Let_def split: if_splits)
qed

lemma parse_length:
  shows parse_value_length: "parse_value n s = Some (v, r) \<Longrightarrow> length r < length s"
    and parse_elements_length: "parse_elements n s = Some (vs, r) \<Longrightarrow> length r < length s"
    and parse_members_length: "parse_members n s = Some (ms, r) \<Longrightarrow> length r < length s"
proof (induction n arbitrary: s v r vs ms)
  case (Suc n)
  note shorter = skip_space_Cons string_rest_length parse_literal_length Suc.IH
  {
    case 1
    then show ?case by (auto split: list.splits if_splits dest!: shorter)
  next
    case 2
    then show ?case by (auto split: list.splits if_splits option.splits dest!: shorter)
  next
    case 3
    then show ?case by (auto split: list.splits if_splits option.splits dest!: shorter)
  }
qed simp_all

text \<open>With enough fuel one unit more changes nothing.\<close>

lemma parse_more:
  shows parse_value_more: "2 * length s + 1 \<le> n \<Longrightarrow> parse_value (Suc n) s = parse_value n s"
    and parse_elements_more: "2 * length s + 2 \<le> n \<Longrightarrow> parse_elements (Suc n) s = parse_elements n s"
    and parse_members_more: "2 * length s + 2 \<le> n \<Longrightarrow> parse_members (Suc n) s = parse_members n s"
proof (induction n arbitrary: s)
  case (Suc n)
  {
    case 1
    have eq: "parse_elements (Suc n) q = parse_elements n q" "parse_members (Suc n) q = parse_members n q"
      if "skip_space s = c # q" for c q
      using Suc.IH(2,3) [of q] skip_space_Cons [OF that] 1 by auto
    show ?case
      by (subst (1 2) parse_value.simps(2)) (auto simp: eq simp del: parse_elements.simps parse_members.simps split: list.split)
  next
    case 2
    have v: "parse_value (Suc n) s = parse_value n s" using 2 by (intro Suc.IH(1)) simp
    have eq: "parse_elements (Suc n) q = parse_elements n q" if "parse_value n s = Some (w, p)" "skip_space p = c # q" for w p c q
      using Suc.IH(2) [of q] skip_space_Cons [OF that(2)] parse_value_length [OF that(1)] 2 by auto
    show ?case
      by (subst (1 2) parse_elements.simps(2)) (auto simp: eq v simp del: parse_elements.simps parse_value.simps split: list.split option.split)
  next
    case 3
    have v: "parse_value (Suc n) q = parse_value n q" if "skip_space s = c # p" "string_rest p = Some (k, p')" "skip_space p' = e # q"
      for c p k p' e q
      using Suc.IH(1) [of q] skip_space_Cons [OF that(1)] string_rest_length [OF that(2)] skip_space_Cons [OF that(3)] 3 by simp
    have eq: "parse_members (Suc n) y = parse_members n y" if "skip_space s = c # p" "string_rest p = Some (k, p')" "skip_space p' = e # q"
      "parse_value n q = Some (w, x)" "skip_space x = f # y" for c p k p' e q w x f y
      using Suc.IH(3) [of y] skip_space_Cons [OF that(1)] string_rest_length [OF that(2)] skip_space_Cons [OF that(3)]
        parse_value_length [OF that(4)] skip_space_Cons [OF that(5)] 3 by simp
    show ?case
      by (subst (1 2) parse_members.simps(2)) (auto simp: eq v simp del: parse_members.simps parse_value.simps split: list.split option.split)
  }
qed simp_all

lemma parse_value_enough: "2 * length s + 1 \<le> n \<Longrightarrow> parse_value n s = parse_value (2 * length s + 1) s"
  by (induction n rule: dec_induct) (simp_all only: parse_value_more)

end
