(* ===== verification/Goods_Receipt.thy ===== *)
theory Goods_Receipt
  imports Purchase_Order Json_Text
begin

text \<open>
  Goods receipts (\<open>services/goods-receipt-service.ts\<close>).  A receipt records what arrived,
  raises the received quantity of the order lines it names and moves their orders to partly or
  fully received.  \<open>Line i: ...\<close> warnings are stored as JSON, so that a repeated request is
  answered with the warnings of the first.
\<close>

section \<open>Reading receipts\<close>

record GoodsReceiptLineResult =
  rgrl_id :: nat
  rgrl_line_no :: nat
  rgrl_po_line_id :: "nat option"
  rgrl_item_id :: "nat option"
  rgrl_description :: "string option"
  rgrl_qty :: string
  rgrl_unit :: "string option"
  rgrl_over_receipt_allowed :: nat

record GoodsReceiptResult =
  rgr_id :: nat
  rgr_company_id :: nat
  rgr_supplier_id :: nat
  rgr_supplier_name :: "string option"
  rgr_reference_number :: string
  rgr_receipt_date :: int
  rgr_status :: nat
  rgr_notes :: "string option"
  rgr_created_by_user_id :: "nat option"
  rgr_updated_by_user_id :: "nat option"
  rgr_created_at :: int
  rgr_updated_at :: int
  rgr_po_reference :: "string option"
  rgr_lines :: "GoodsReceiptLineResult list"

definition parseIdempotencyWarningsJson :: "string option \<Rightarrow> string list" where
  "parseIdempotencyWarningsJson v =
     (case truthy_str v of
        None \<Rightarrow> []
      | Some s \<Rightarrow>
          (case json_parse s of
             Some (JArray vs) \<Rightarrow> List.map_filter (\<lambda>j. case j of JString t \<Rightarrow> Some t | _ \<Rightarrow> None) vs
           | _ \<Rightarrow> []))"

definition find_receipt :: "db \<Rightarrow> nat \<Rightarrow> nat \<Rightarrow> goods_receipt_row option" where
  "find_receipt d companyId receiptId =
     find (\<lambda>gr. gr_id gr = receiptId \<and> gr_company_id gr = companyId) (goods_receipts d)"

definition receipt_lines :: "db \<Rightarrow> nat \<Rightarrow> nat \<Rightarrow> goods_receipt_line_row list" where
  "receipt_lines d companyId receiptId =
     sort_key grl_line_no (filter (\<lambda>l. grl_receipt_id l = receiptId \<and> grl_company_id l = companyId)
       (goods_receipt_lines d))"

definition find_order_line :: "db \<Rightarrow> nat \<Rightarrow> purchase_order_line_row option" where
  "find_order_line d poLineId = find (\<lambda>l. pol_id l = poLineId) (purchase_order_lines d)"

definition joined_order :: "db \<Rightarrow> nat \<Rightarrow> purchase_order_row option" where
  "joined_order d orderId = find (\<lambda>po. po_id po = orderId) (purchase_orders d)"

text \<open>The order number behind the first line that names an order line.\<close>

definition po_reference :: "db \<Rightarrow> goods_receipt_line_row list \<Rightarrow> string option" where
  "po_reference d ls =
     (case List.map_filter grl_po_line_id ls of
        [] \<Rightarrow> None
      | poLineId # _ \<Rightarrow>
          Option.bind (find_order_line d poLineId) (\<lambda>pol.
            map_option po_order_no (joined_order d (pol_order_id pol))))"

definition receipt_line_result :: "goods_receipt_line_row \<Rightarrow> GoodsReceiptLineResult" where
  "receipt_line_result l =
     \<lparr>rgrl_id = grl_id l, rgrl_line_no = grl_line_no l, rgrl_po_line_id = grl_po_line_id l,
      rgrl_item_id = grl_item_id l, rgrl_description = grl_description l,
      rgrl_qty = db_decimal 4 (grl_qty l), rgrl_unit = grl_unit l,
      rgrl_over_receipt_allowed = grl_over_receipt_allowed l\<rparr>"

definition receipt_result :: "db \<Rightarrow> goods_receipt_row \<Rightarrow> goods_receipt_line_row list \<Rightarrow> GoodsReceiptResult" where
  "receipt_result d receipt ls =
     \<lparr>rgr_id = gr_id receipt, rgr_company_id = gr_company_id receipt,
      rgr_supplier_id = gr_supplier_id receipt,
      rgr_supplier_name = map_option sup_name
        (find_supplier d (gr_company_id receipt) (gr_supplier_id receipt)),
      rgr_reference_number = gr_reference_number receipt, rgr_receipt_date = gr_receipt_date receipt,
      rgr_status = gr_status receipt, rgr_notes = gr_notes receipt,
      rgr_created_by_user_id = gr_created_by_user_id receipt,
      rgr_updated_by_user_id = gr_updated_by_user_id receipt, rgr_created_at = gr_created_at receipt,
      rgr_updated_at = gr_updated_at receipt, rgr_po_reference = po_reference d ls,
      rgr_lines = map receipt_line_result ls\<rparr>"

definition getGoodsReceiptById :: "db \<Rightarrow> nat \<Rightarrow> nat \<Rightarrow> GoodsReceiptResult option" where
  "getGoodsReceiptById d companyId receiptId =
     map_option (\<lambda>receipt. receipt_result d receipt (receipt_lines d companyId receiptId))
       (find_receipt d companyId receiptId)"

record ListGoodsReceiptsParams =
  lgr_companyId :: nat
  lgr_supplierId :: "nat option"
  lgr_dateFrom :: "int option"
  lgr_dateTo :: "int option"
  lgr_limit :: nat
  lgr_offset :: nat

record ListedReceipt =
  lsr_id :: nat
  lsr_company_id :: nat
  lsr_supplier_id :: nat
  lsr_supplier_name :: "string option"
  lsr_reference_number :: string
  lsr_receipt_date :: int
  lsr_status :: string
  lsr_notes :: "string option"
  lsr_created_by_user_id :: "nat option"
  lsr_updated_by_user_id :: "nat option"
  lsr_created_at :: int
  lsr_updated_at :: int
  lsr_po_reference :: "string option"

definition receipt_match :: "ListGoodsReceiptsParams \<Rightarrow> goods_receipt_row \<Rightarrow> bool" where
  "receipt_match ps gr \<longleftrightarrow> gr_company_id gr = lgr_companyId ps \<and>
     (\<forall>s \<in> set_option (truthy_id (lgr_supplierId ps)). gr_supplier_id gr = s) \<and>
     (\<forall>f \<in> set_option (lgr_dateFrom ps). f \<le> gr_receipt_date gr) \<and>
     (\<forall>t \<in> set_option (lgr_dateTo ps). gr_receipt_date gr \<le> t)"

text \<open>\<open>MIN\<close> of the order numbers, none when no line of the receipt names an order.\<close>

definition min_str :: "string list \<Rightarrow> string option" where
  "min_str ss = (case ss of [] \<Rightarrow> None
     | s # ts \<Rightarrow> Some (fold (\<lambda>t m. if ord_class.lexordp t m then t else m) ts s))"

definition listed_po_reference :: "db \<Rightarrow> nat \<Rightarrow> string option" where
  "listed_po_reference d receiptId =
     min_str (map po_order_no (List.map_filter (\<lambda>l.
       Option.bind (grl_po_line_id l) (\<lambda>i. Option.bind (find_order_line d i) (\<lambda>pol.
         joined_order d (pol_order_id pol))))
       (filter (\<lambda>l. grl_receipt_id l = receiptId) (goods_receipt_lines d))))"

definition listed_receipt :: "db \<Rightarrow> goods_receipt_row \<Rightarrow> ListedReceipt" where
  "listed_receipt d gr =
     \<lparr>lsr_id = gr_id gr, lsr_company_id = gr_company_id gr, lsr_supplier_id = gr_supplier_id gr,
      lsr_supplier_name = map_option sup_name (find_supplier d (gr_company_id gr) (gr_supplier_id gr)),
      lsr_reference_number = gr_reference_number gr, lsr_receipt_date = gr_receipt_date gr,
      lsr_status = nat_str (gr_status gr), lsr_notes = gr_notes gr,
      lsr_created_by_user_id = gr_created_by_user_id gr,
      lsr_updated_by_user_id = gr_updated_by_user_id gr, lsr_created_at = gr_created_at gr,
      lsr_updated_at = gr_updated_at gr, lsr_po_reference = listed_po_reference d (gr_id gr)\<rparr>"

definition listGoodsReceipts :: "db \<Rightarrow> ListGoodsReceiptsParams \<Rightarrow> ListedReceipt list \<times> nat \<times> nat \<times> nat" where
  "listGoodsReceipts d ps =
     (let matches = filter (receipt_match ps) (goods_receipts d) in
      (map (listed_receipt d) (take (lgr_limit ps) (drop (lgr_offset ps)
         (sort_key (\<lambda>gr. - gr_created_at gr) matches))),
       length matches, lgr_limit ps, lgr_offset ps))"

section \<open>Creating a receipt\<close>

record GoodsReceiptLine =
  igrl_po_line_id :: "nat option"
  igrl_item_id :: "nat option"
  igrl_description :: "string option"
  igrl_qty :: string
  igrl_unit :: "string option"

record GoodsReceiptCreate =
  igr_supplier_id :: nat
  igr_idempotency_key :: "string option"
  igr_reference_number :: string
  igr_receipt_date :: int
  igr_notes :: "string option"
  igr_lines :: "GoodsReceiptLine list"

type_synonym receipt_answer = "GoodsReceiptResult \<times> string list"

definition existing_receipt :: "db \<Rightarrow> nat \<Rightarrow> string option \<Rightarrow> receipt_answer option" where
  "existing_receipt d companyId idempotency_key =
     Option.bind (truthy_str idempotency_key) (\<lambda>key.
     Option.bind (find (\<lambda>gr. gr_company_id gr = companyId \<and> gr_idempotency_key gr = Some key)
         (goods_receipts d)) (\<lambda>existing.
       map_option (\<lambda>receipt. (receipt, parseIdempotencyWarningsJson (gr_idempotency_warnings_json existing)))
         (getGoodsReceiptById d companyId (gr_id existing))))"

text \<open>
  What a line does to the order line it names: the new received quantity, and the warning when
  more arrives than is outstanding.  Every line is judged on the stored quantity.
\<close>

record POLineUpdate =
  pu_po_line_id :: nat
  pu_gr_qty :: int
  pu_remaining :: int
  pu_new_received_qty :: int
  pu_over_receipt :: bool

definition over_receipt_warning :: "nat \<Rightarrow> string \<Rightarrow> int \<Rightarrow> string" where
  "over_receipt_warning n qty remaining =
     ''Line '' @ nat_str n @ '': Received qty '' @ qty @ '' exceeds remaining PO qty '' @
     fromScaled4 remaining @ ''. Over-receipt allowed.''"

definition receivable :: "nat \<Rightarrow> bool" where
  "receivable poStatus \<longleftrightarrow> poStatus = PO_SENT \<or> poStatus = PO_PARTIAL_RECEIVED"

definition check_receipt_line ::
  "db \<Rightarrow> nat \<Rightarrow> nat \<Rightarrow> GoodsReceiptLine \<Rightarrow> POLineUpdate option res" where
  "check_receipt_line d companyId supplierId line =
     (case igrl_po_line_id line of
        None \<Rightarrow> Inr None
      | Some poLineId \<Rightarrow>
          bindR (from_opt (PO_LINE_NOT_FOUND poLineId)
            (find (\<lambda>l. pol_id l = poLineId \<and> pol_company_id l = companyId) (purchase_order_lines d))) (\<lambda>poLine.
          let po = joined_order d (pol_order_id poLine);
              poStatus = (case po of None \<Rightarrow> 0 | Some p \<Rightarrow> po_status p) in
          bindR (require (receivable poStatus) INVALID_PO_STATUS) (\<lambda>_.
          bindR (require (map_option po_supplier_id po = Some supplierId) SUPPLIER_MISMATCH) (\<lambda>_.
          bindR (require (case (igrl_item_id line, pol_item_id poLine) of
              (Some i, Some j) \<Rightarrow> i = j | _ \<Rightarrow> True) ITEM_MISMATCH) (\<lambda>_.
          bindR (toScaled4 (igrl_qty line)) (\<lambda>grQty.
          bindR (read_dec4 (pol_qty poLine)) (\<lambda>poQty.
          bindR (read_dec4 (pol_received_qty poLine)) (\<lambda>poReceivedQty.
            let remaining = poQty - poReceivedQty in
            Inr (Some \<lparr>pu_po_line_id = poLineId, pu_gr_qty = grQty, pu_remaining = remaining,
              pu_new_received_qty = poReceivedQty + grQty, pu_over_receipt = grQty > remaining\<rparr>)))))))))"

definition check_receipt_lines ::
  "db \<Rightarrow> nat \<Rightarrow> GoodsReceiptCreate \<Rightarrow> (nat \<times> GoodsReceiptLine \<times> POLineUpdate option) list res" where
  "check_receipt_lines d companyId input =
     mapM (\<lambda>(n, line). bindR (check_receipt_line d companyId (igr_supplier_id input) line)
       (\<lambda>u. Inr (n, line, u))) (numbered (igr_lines input))"

definition overReceiptWarnings :: "(nat \<times> GoodsReceiptLine \<times> POLineUpdate option) list \<Rightarrow> string list" where
  "overReceiptWarnings checked =
     List.map_filter (\<lambda>(n, line, u). case u of
         None \<Rightarrow> None
       | Some upd \<Rightarrow> if pu_over_receipt upd
           then Some (over_receipt_warning n (igrl_qty line) (pu_remaining upd)) else None) checked"

definition new_receipt_row ::
  "nat \<Rightarrow> nat \<Rightarrow> GoodsReceiptCreate \<Rightarrow> string list \<Rightarrow> int \<Rightarrow> nat \<Rightarrow> goods_receipt_row" where
  "new_receipt_row companyId userId input warnings now k =
     \<lparr>gr_id = k, gr_company_id = companyId, gr_created_at = now, gr_created_by_user_id = Some userId,
      gr_idempotency_key = igr_idempotency_key input,
      gr_idempotency_warnings_json = Some (json_stringify warnings), gr_notes = igr_notes input,
      gr_receipt_date = igr_receipt_date input, gr_reference_number = igr_reference_number input,
      gr_status = PO_RECEIVED, gr_supplier_id = igr_supplier_id input, gr_updated_at = now,
      gr_updated_by_user_id = None\<rparr>"

definition receipt_conflict :: "db \<Rightarrow> goods_receipt_row \<Rightarrow> string option" where
  "receipt_conflict d r =
     (let same = filter (\<lambda>gr. gr_company_id gr = gr_company_id r) (goods_receipts d) in
      if \<exists>gr \<in> set same. gr_reference_number gr = gr_reference_number r then Some ''idx_gr_company_reference''
      else if gr_idempotency_key r \<noteq> None \<and> (\<exists>gr \<in> set same. gr_idempotency_key gr = gr_idempotency_key r)
      then Some ''uk_goods_receipts_company_idempotency_key''
      else None)"

definition new_receipt_line_row ::
  "nat \<Rightarrow> nat \<Rightarrow> nat \<Rightarrow> GoodsReceiptLine \<Rightarrow> int \<Rightarrow> bool \<Rightarrow> int \<Rightarrow> nat \<Rightarrow> goods_receipt_line_row" where
  "new_receipt_line_row companyId receiptId lineNo line qty over now k =
     \<lparr>grl_id = k, grl_company_id = companyId, grl_created_at = now,
      grl_description = igrl_description line, grl_item_id = igrl_item_id line, grl_line_no = lineNo,
      grl_over_receipt_allowed = (if over then 1 else 0), grl_po_line_id = igrl_po_line_id line,
      grl_qty = qty, grl_receipt_id = receiptId, grl_unit = igrl_unit line, grl_updated_at = now\<rparr>"

text \<open>The line goes in, then the order line it names gets its new received quantity.\<close>

definition set_received :: "nat \<Rightarrow> POLineUpdate \<Rightarrow> int \<Rightarrow> db \<Rightarrow> db" where
  "set_received companyId upd now d =
     d\<lparr>purchase_order_lines := update_where
       (\<lambda>l. pol_id l = pu_po_line_id upd \<and> pol_company_id l = companyId \<and>
            pol_received_qty l \<noteq> pu_new_received_qty upd)
       (\<lambda>l. l\<lparr>pol_received_qty := pu_new_received_qty upd, pol_updated_at := now\<rparr>) (purchase_order_lines d)\<rparr>"

definition insert_receipt_line ::
  "nat \<Rightarrow> nat \<Rightarrow> int \<Rightarrow> db \<Rightarrow> nat \<times> GoodsReceiptLine \<times> POLineUpdate option \<Rightarrow> db res" where
  "insert_receipt_line companyId receiptId now d entry =
     (case entry of (n, line, u) \<Rightarrow>
       bindR (toScaled4 (igrl_qty line)) (\<lambda>qty.
         let over = (case u of None \<Rightarrow> False | Some upd \<Rightarrow> pu_over_receipt upd);
             d1 = bump T_goods_receipt_line (d\<lparr>goods_receipt_lines := goods_receipt_lines d @
               [new_receipt_line_row companyId receiptId n line qty over now (next_id d T_goods_receipt_line)]\<rparr>)
         in Inr (case u of None \<Rightarrow> d1 | Some upd \<Rightarrow> set_received companyId upd now d1)))"

definition affectedPOIds :: "db \<Rightarrow> GoodsReceiptCreate \<Rightarrow> nat list" where
  "affectedPOIds d input =
     js_set (List.map_filter (\<lambda>line. Option.bind (igrl_po_line_id line) (\<lambda>i.
       map_option pol_order_id (find_order_line d i))) (igr_lines input))"

text \<open>\<open>allLines.some\<close> stops at the first line with an outstanding quantity.\<close>

fun any_outstanding :: "purchase_order_line_row list \<Rightarrow> bool res" where
  "any_outstanding [] = Inr False"
| "any_outstanding (l # ls) = bindR (line_received l) (\<lambda>b. if b then any_outstanding ls else Inr True)"

definition auto_status :: "nat \<Rightarrow> int \<Rightarrow> db \<Rightarrow> nat \<Rightarrow> db res" where
  "auto_status userId now d poId =
     (case joined_order d poId of
        None \<Rightarrow> Inr d
      | Some po \<Rightarrow>
          if \<not> receivable (po_status po) then Inr d
          else
            let allLines = filter (\<lambda>l. pol_order_id l = poId) (purchase_order_lines d) in
            bindR (all_received allLines) (\<lambda>allFullyReceived.
            bindR (any_outstanding allLines) (\<lambda>anyPartiallyReceived.
              let newStatus = (if allFullyReceived then Some PO_RECEIVED
                else if anyPartiallyReceived then Some PO_PARTIAL_RECEIVED else None)
              in case newStatus of
                   None \<Rightarrow> Inr d
                 | Some s \<Rightarrow> if s = po_status po then Inr d
                     else Inr (set_order_status (\<lambda>p. po_id p = poId) s userId now d))))"

definition create_receipt_trx :: "nat \<Rightarrow> nat \<Rightarrow> GoodsReceiptCreate \<Rightarrow> int \<Rightarrow> (nat \<times> string list) op" where
  "create_receipt_trx companyId userId input now d =
     bindR (check_receipt_lines d companyId input) (\<lambda>checked.
       let warnings = overReceiptWarnings checked;
           row = new_receipt_row companyId userId input warnings now (next_id d T_goods_receipt)
       in case receipt_conflict d row of
            Some uk \<Rightarrow> Inl (ER_DUP_ENTRY uk)
          | None \<Rightarrow>
              bindR (foldM (insert_receipt_line companyId (gr_id row) now)
                (bump T_goods_receipt (d\<lparr>goods_receipts := goods_receipts d @ [row]\<rparr>)) checked) (\<lambda>d1.
              bindR (foldM (auto_status userId now) d1 (affectedPOIds d1 input)) (\<lambda>d2.
                Inr ((gr_id row, warnings), d2))))"

definition createGoodsReceipt :: "nat \<Rightarrow> nat \<Rightarrow> GoodsReceiptCreate \<Rightarrow> int \<Rightarrow> receipt_answer op" where
  "createGoodsReceipt companyId userId input now d =
     (case existing_receipt d companyId (igr_idempotency_key input) of
        Some answer \<Rightarrow> Inr (answer, d)
      | None \<Rightarrow>
          bindR (from_opt SUPPLIER_NOT_FOUND (find_supplier d companyId (igr_supplier_id input))) (\<lambda>_.
          case create_receipt_trx companyId userId input now d of
            Inl err \<Rightarrow>
              (case (if is_duplicate err then existing_receipt d companyId (igr_idempotency_key input) else None) of
                 Some answer \<Rightarrow> Inr (answer, d)
               | None \<Rightarrow> Inl err)
          | Inr ((insertedId, warnings), d') \<Rightarrow>
              bindR (from_opt (JsError ''Failed to fetch created goods receipt'')
                (getGoodsReceiptById d' companyId insertedId)) (\<lambda>receipt. Inr ((receipt, warnings), d'))))"

section \<open>Reading stored warnings ends\<close>

text \<open>The fuel is enough: more of it, on any text, gives the same answer.\<close>

lemma stored_warnings_fuel:
  assumes "2 * length s + 2 \<le> n"
  shows "parseIdempotencyWarningsJson (Some s) =
    (case parse_value n s of
       Some (JArray vs, r) \<Rightarrow>
         if skip_space r = [] then List.map_filter (\<lambda>j. case j of JString t \<Rightarrow> Some t | _ \<Rightarrow> None) vs else []
     | _ \<Rightarrow> [])"
proof -
  have eq: "parse_value (2 * length s + 2) s = parse_value n s"
    using parse_value_enough [of s n] parse_value_enough [of s "2 * length s + 2"] assms by simp
  show ?thesis
  proof (cases "s = []")
    case True
    moreover obtain m where "n = Suc m" using assms by (cases n) auto
    ultimately show ?thesis by (simp add: parseIdempotencyWarningsJson_def truthy_str_def)
  next
    case False
    obtain p where p: "parse_value n s = p" by simp
    then have "json_parse s = (case p of None \<Rightarrow> None | Some (v, r) \<Rightarrow> if skip_space r = [] then Some v else None)"
      by (simp only: json_parse_def eq)
    then show ?thesis unfolding parseIdempotencyWarningsJson_def p using False
      by (cases p) (auto simp: truthy_str_def split: json.split)
  qed
qed

end
