(* ===== verification/Order_Creation.thy ===== *)
theory Order_Creation
  imports Purchase_Order Contracts Sample_Tables "HOL-Library.Multiset"
begin

text \<open>
  Lemmas and properties of the creation of a purchase order: the rows it inserts and their
  totals, the retry over order numbers, and the contract of idempotent creation.
\<close>

section \<open>The rows of a request\<close>

text \<open>Quantity times price times one plus the tax fraction, rounded to the nearest ten-thousandth.\<close>

definition line_amount :: "int \<Rightarrow> int \<Rightarrow> int \<Rightarrow> int" where
  "line_amount q p t = (q * p * (10000 + t) + 50000000) div 100000000"

definition line_row_for ::
  "nat \<Rightarrow> nat \<Rightarrow> nat \<times> CreatePOLineInput \<times> string \<Rightarrow> purchase_order_line_row \<Rightarrow> bool" where
  "line_row_for c i nlt r \<longleftrightarrow> (case nlt of (n, l, t) \<Rightarrow>
     toScaled4 (ipol_qty l) = Inr (pol_qty r) \<and> toScaled4 (ipol_unit_price l) = Inr (pol_unit_price r) \<and>
     toScaled4 (line_tax_rate l) = Inr (pol_tax_rate r) \<and> toScaled4 t = Inr (pol_line_total r) \<and>
     pol_company_id r = c \<and> pol_order_id r = i \<and> pol_line_no r = n \<and> pol_received_qty r = 0 \<and>
     pol_item_id r = ipol_item_id l \<and> pol_description r = ipol_description l)"

lemma insert_order_line_effect:
  assumes "insert_order_line c i now d nlt = Inr d'"
  obtains r where "line_row_for c i nlt r" and "pol_id r = next_id d T_purchase_order_line"
    and "d' = bump T_purchase_order_line (d\<lparr>purchase_order_lines := purchase_order_lines d @ [r]\<rparr>)"
proof -
  obtain n l t where nlt: "nlt = (n, l, t)" by (rule prod_cases3)
  from assms obtain q p x v where "toScaled4 (ipol_qty l) = Inr q" "toScaled4 (ipol_unit_price l) = Inr p"
      "toScaled4 (line_tax_rate l) = Inr x" "toScaled4 t = Inr v"
    and "d' = bump T_purchase_order_line (d\<lparr>purchase_order_lines := purchase_order_lines d @
      [new_order_line_row c i n l q p x v now (next_id d T_purchase_order_line)]\<rparr>)"
    by (auto simp: nlt insert_order_line_def inr_simps)
  then show thesis
    by (intro that [of "new_order_line_row c i n l q p x v now (next_id d T_purchase_order_line)"])
      (simp_all add: line_row_for_def nlt new_order_line_row_def)
qed

definition order_lines_inserted ::
  "nat \<Rightarrow> nat \<Rightarrow> db \<Rightarrow> (nat \<times> CreatePOLineInput \<times> string) list \<Rightarrow> purchase_order_line_row list \<Rightarrow> db \<Rightarrow> bool" where
  "order_lines_inserted c i d xs rows d' \<longleftrightarrow> list_all2 (line_row_for c i) xs rows \<and>
     map pol_id rows = [Suc (auto_inc d T_purchase_order_line)..<Suc (auto_inc d T_purchase_order_line + length xs)] \<and>
     d' = d\<lparr>purchase_order_lines := purchase_order_lines d @ rows,
       auto_inc := (auto_inc d)(T_purchase_order_line := auto_inc d T_purchase_order_line + length xs)\<rparr>"

lemma insert_order_lines_effect:
  "foldM (insert_order_line c i now) d xs = Inr d' \<Longrightarrow> \<exists>rows. order_lines_inserted c i d xs rows d'"
proof (induction xs arbitrary: d)
  case Nil
  then show ?case by (intro exI [of _ "[]"]) (simp add: order_lines_inserted_def)
next
  case (Cons x xs)
  then obtain d1 where one: "insert_order_line c i now d x = Inr d1"
    and rest: "foldM (insert_order_line c i now) d1 xs = Inr d'" by (auto simp: inr_simps)
  from one obtain r where r: "line_row_for c i x r" "pol_id r = next_id d T_purchase_order_line"
    and d1: "d1 = bump T_purchase_order_line (d\<lparr>purchase_order_lines := purchase_order_lines d @ [r]\<rparr>)"
    by (rule insert_order_line_effect)
  from Cons.IH [OF rest] obtain rows where rows: "order_lines_inserted c i d1 xs rows d'" by blast
  let ?a = "auto_inc d T_purchase_order_line"
  have "[Suc ?a..<Suc (?a + length (x # xs))] = Suc ?a # [Suc (Suc ?a)..<Suc (Suc ?a + length xs)]"
    by (simp add: upt_rec)
  with rows r show ?case
    by (intro exI [of _ "r # rows"]) (simp add: order_lines_inserted_def d1 bump_def next_id_def del: upt_Suc)
qed

lemma order_rows_facts:
  assumes "order_lines_inserted c i d xs rows d'" and "r \<in> set rows"
  shows "pol_company_id r = c" and "pol_order_id r = i" and "pol_received_qty r = 0" and "0 \<le> pol_qty r"
    and "auto_inc d T_purchase_order_line < pol_id r" and "pol_id r \<le> auto_inc d' T_purchase_order_line"
proof -
  from assms(1) have "list_all2 (line_row_for c i) xs rows" by (simp add: order_lines_inserted_def)
  from list_all2_right [OF this assms(2)] obtain x where "line_row_for c i x r" by blast
  then show "pol_company_id r = c" "pol_order_id r = i" "pol_received_qty r = 0" "0 \<le> pol_qty r"
    by (auto simp: line_row_for_def dest: toScaled4_nonneg)
  from assms have "pol_id r \<in> set [Suc (auto_inc d T_purchase_order_line)..<
      Suc (auto_inc d T_purchase_order_line + length xs)]"
    unfolding order_lines_inserted_def by (metis image_eqI list.set_map)
  with assms(1) show "auto_inc d T_purchase_order_line < pol_id r" "pol_id r \<le> auto_inc d' T_purchase_order_line"
    by (auto simp: order_lines_inserted_def)
qed

lemma order_rows_distinct: "order_lines_inserted c i d xs rows d' \<Longrightarrow> distinct (map pol_id rows)"
  unfolding order_lines_inserted_def by (metis distinct_upt)

text \<open>The total of a line and of the order, from the numbers that are stored.\<close>

definition totals_exact :: "int \<Rightarrow> purchase_order_line_row list \<Rightarrow> bool" where
  "totals_exact amount rows \<longleftrightarrow> amount = sum_list (map pol_line_total rows) \<and>
     (\<forall>r \<in> set rows. pol_line_total r = line_amount (pol_qty r) (pol_unit_price r) (pol_tax_rate r))"

lemma computed_line:
  assumes "computeLineTotal (ipol_qty l) (ipol_unit_price l) (line_tax_rate l) = Inr t"
    and "line_row_for c i (n, l, t) r"
  shows "pol_line_total r = line_amount (pol_qty r) (pol_unit_price r) (pol_tax_rate r)"
proof -
  have tax: "toScaled4 (line_tax_rate l) = Inr (pol_tax_rate r)" using assms(2) by (simp add: line_row_for_def)
  have "toScaled4 [] = Inl (InvalidDecimal [])" by code_simp
  with tax have "line_tax_rate l \<noteq> []" by auto
  with assms tax have t: "t = fromScaled4 (line_amount (pol_qty r) (pol_unit_price r) (pol_tax_rate r))"
    by (simp add: line_row_for_def line_amount_def computeLineTotal_value)
  have "0 \<le> pol_qty r" "0 \<le> pol_unit_price r" "0 \<le> pol_tax_rate r"
    using assms(2) by (auto simp: line_row_for_def dest: toScaled4_nonneg)
  then have "0 \<le> line_amount (pol_qty r) (pol_unit_price r) (pol_tax_rate r)"
    by (simp add: line_amount_def pos_imp_zdiv_nonneg_iff)
  then have "toScaled4 t = Inr (line_amount (pol_qty r) (pol_unit_price r) (pol_tax_rate r))"
    by (simp add: t toScaled4_fromScaled4)
  with assms(2) show ?thesis by (simp add: line_row_for_def)
qed

lemma process_lines_Inr:
  assumes "process_lines ls = Inr ps"
  shows "list_all (\<lambda>(n, l, t). computeLineTotal (ipol_qty l) (ipol_unit_price l) (line_tax_rate l) = Inr t) ps"
    and "map (\<lambda>(n, l, t). (n, l)) ps = numbered ls"
proof -
  let ?R = "\<lambda>(n, l) (n', l', t). n' = n \<and> l' = l \<and>
    computeLineTotal (ipol_qty l) (ipol_unit_price l) (line_tax_rate l) = Inr t"
  have R: "list_all2 ?R (numbered ls) ps"
    using assms unfolding process_lines_def mapM_Inr by (rule list_all2_mono) (auto simp: inr_simps)
  then show "list_all (\<lambda>(n, l, t). computeLineTotal (ipol_qty l) (ipol_unit_price l) (line_tax_rate l) = Inr t) ps"
    by (induction rule: list_all2_induct) auto
  from R show "map (\<lambda>(n, l, t). (n, l)) ps = numbered ls"
    by (induction rule: list_all2_induct) auto
qed

lemma processed_totals:
  assumes "process_lines ls = Inr ps" and "lines_total ps = Inr t" and "toScaled4 t = Inr amount"
    and "list_all2 (line_row_for c i) ps rows"
  shows "totals_exact amount rows"
proof -
  have "list_all2 (\<lambda>s v. toScaled4 s = Inr v) (map (\<lambda>(_, _, lineTotal). lineTotal) ps) (map pol_line_total rows)"
    using assms(4) by (induction rule: list_all2_induct) (auto simp: line_row_for_def)
  from computeTotalAmount_sum [OF this] assms(2)
  have t: "t = fromScaled4 (sum_list (map pol_line_total rows))" by (simp add: lines_total_def)
  have "list_all2 (\<lambda>_ r. pol_line_total r = line_amount (pol_qty r) (pol_unit_price r) (pol_tax_rate r)) ps rows"
    using assms(4) process_lines_Inr(1) [OF assms(1)]
    by (induction rule: list_all2_induct) (auto simp: computed_line)
  then have lines: "\<forall>r \<in> set rows. pol_line_total r = line_amount (pol_qty r) (pol_unit_price r) (pol_tax_rate r)"
    by (induction rule: list_all2_induct) auto
  have "list_all2 (\<lambda>_ r. 0 \<le> pol_line_total r) ps rows"
    using assms(4) by (rule list_all2_mono) (auto simp: line_row_for_def dest: toScaled4_nonneg)
  then have "0 \<le> sum_list (map pol_line_total rows)" by (induction rule: list_all2_induct) auto
  with t assms(3) lines show ?thesis by (simp add: totals_exact_def toScaled4_fromScaled4)
qed

section \<open>One attempt\<close>

definition active_supplier :: "db \<Rightarrow> nat \<Rightarrow> nat \<Rightarrow> bool" where
  "active_supplier d c i \<longleftrightarrow>
     list_ex (\<lambda>s. sup_id s = i \<and> sup_company_id s = c \<and> sup_is_active s = 1) (suppliers d)"

definition order_inserted ::
  "CreatePurchaseOrderInput \<Rightarrow> (nat \<times> CreatePOLineInput \<times> string) list \<Rightarrow> int \<Rightarrow> string \<Rightarrow> db \<Rightarrow> int \<Rightarrow>
     purchase_order_line_row list \<Rightarrow> db \<Rightarrow> bool" where
  "order_inserted input ps now no d amount rows d' \<longleftrightarrow>
     (let i = next_id d T_purchase_order; row = new_order_row input no amount now i in
      order_conflict d row = None \<and> active_supplier d (ipo_companyId input) (ipo_supplierId input) \<and>
      order_lines_inserted (ipo_companyId input) i (bump T_purchase_order (d\<lparr>purchase_orders := purchase_orders d @ [row]\<rparr>))
        ps rows d')"

lemma create_order_trx_effect:
  assumes "create_order_trx input ps t now no d = Inr (i, d')"
  obtains amount rows where "toScaled4 t = Inr amount" and "i = next_id d T_purchase_order"
    and "order_inserted input ps now no d amount rows d'"
proof -
  from assms obtain amount where
    amount: "toScaled4 t = Inr amount" and i: "i = next_id d T_purchase_order"
    and sup: "active_supplier d (ipo_companyId input) (ipo_supplierId input)"
    and conf: "order_conflict d (new_order_row input no amount now i) = None"
    and fold: "foldM (insert_order_line (ipo_companyId input) i now)
      (bump T_purchase_order (d\<lparr>purchase_orders := purchase_orders d @ [new_order_row input no amount now i]\<rparr>)) ps = Inr d'"
    by (auto simp: create_order_trx_def Let_def inr_simps active_supplier_def new_order_row_def split: option.splits)
  from insert_order_lines_effect [OF fold] obtain rows where "order_lines_inserted (ipo_companyId input) i
    (bump T_purchase_order (d\<lparr>purchase_orders := purchase_orders d @ [new_order_row input no amount now i]\<rparr>)) ps rows d'"
    by blast
  with amount i sup conf show thesis
    by (intro that [of amount rows]) (simp_all add: order_inserted_def Let_def)
qed

text \<open>A request that only its order number can make fail.\<close>

definition order_request_ok ::
  "db \<Rightarrow> CreatePurchaseOrderInput \<Rightarrow> (nat \<times> CreatePOLineInput \<times> string) list \<Rightarrow> string \<Rightarrow> bool" where
  "order_request_ok d input ps t \<longleftrightarrow> process_lines (ipo_lines input) = Inr ps \<and> lines_total ps = Inr t \<and>
     active_supplier d (ipo_companyId input) (ipo_supplierId input) \<and>
     check_items d (ipo_companyId input) (ipo_lines input) = Inr () \<and>
     (\<forall>l \<in> set (ipo_lines input). ipol_tax_rate l \<noteq> Some [])"

definition order_no_taken :: "db \<Rightarrow> nat \<Rightarrow> string \<Rightarrow> bool" where
  "order_no_taken d c no \<longleftrightarrow> (\<exists>po \<in> set (purchase_orders d). po_company_id po = c \<and> po_order_no po = no)"

lemma computed_line_parses:
  assumes "computeLineTotal (ipol_qty l) (ipol_unit_price l) (line_tax_rate l) = Inr t" and "ipol_tax_rate l \<noteq> Some []"
  shows "\<exists>q p x v. toScaled4 (ipol_qty l) = Inr q \<and> toScaled4 (ipol_unit_price l) = Inr p \<and>
    toScaled4 (line_tax_rate l) = Inr x \<and> toScaled4 t = Inr v"
proof -
  have ne: "line_tax_rate l \<noteq> []" using assms(2) by (auto simp: line_tax_rate_def split: option.splits)
  from assms(1) ne obtain q p x where qpx: "toScaled4 (ipol_qty l) = Inr q" "toScaled4 (ipol_unit_price l) = Inr p"
    "toScaled4 (line_tax_rate l) = Inr x" by (auto simp: computeLineTotal_def inr_simps)
  then have "0 \<le> q" "0 \<le> p" "0 \<le> x" by (auto dest: toScaled4_nonneg)
  then have "0 \<le> (q * p * (10000 + x) + 50000000) div 100000000" by (simp add: pos_imp_zdiv_nonneg_iff)
  moreover from qpx ne assms(1) have "t = fromScaled4 ((q * p * (10000 + x) + 50000000) div 100000000)"
    by (simp add: computeLineTotal_value)
  ultimately have "toScaled4 t = Inr ((q * p * (10000 + x) + 50000000) div 100000000)"
    by (simp add: toScaled4_fromScaled4)
  with qpx show ?thesis by blast
qed

lemma insert_order_lines_total:
  assumes "list_all (\<lambda>(n, l, t). computeLineTotal (ipol_qty l) (ipol_unit_price l) (line_tax_rate l) = Inr t) ps"
    and "\<forall>(n, l, t) \<in> set ps. ipol_tax_rate l \<noteq> Some []"
  shows "\<exists>d'. foldM (insert_order_line c i now) d ps = Inr d'"
  using assms
proof (induction ps arbitrary: d)
  case (Cons p ps)
  obtain n l t where p: "p = (n, l, t)" by (rule prod_cases3)
  with Cons.prems have "computeLineTotal (ipol_qty l) (ipol_unit_price l) (line_tax_rate l) = Inr t"
    and "ipol_tax_rate l \<noteq> Some []" by auto
  from computed_line_parses [OF this] obtain d1 where "insert_order_line c i now d p = Inr d1"
    by (auto simp: p insert_order_line_def)
  with Cons show ?case by auto
qed simp

lemma insert_processed_lines:
  assumes "order_request_ok d input ps t"
  shows "\<exists>d2. foldM (insert_order_line c i now) d1 ps = Inr d2"
proof -
  note comp = process_lines_Inr [of "ipo_lines input" ps]
  have proc: "process_lines (ipo_lines input) = Inr ps" using assms by (simp add: order_request_ok_def)
  have "map (\<lambda>(n, l, t). l) ps = map (\<lambda>nl. snd nl) (numbered (ipo_lines input))"
    unfolding comp(2) [OF proc, symmetric] by (simp add: case_prod_unfold)
  then have "map (\<lambda>(n, l, t). l) ps = ipo_lines input" using map_numbered [of "\<lambda>l. l"] by simp
  then have "(\<lambda>(n, l, t). l) ` set ps = set (ipo_lines input)" by (metis list.set_map)
  with assms have "\<forall>l \<in> (\<lambda>(n, l, t). l) ` set ps. ipol_tax_rate l \<noteq> Some []" by (simp add: order_request_ok_def)
  then have "\<forall>(n, l, t) \<in> set ps. ipol_tax_rate l \<noteq> Some []" by (simp add: case_prod_unfold)
  with comp(1) [OF proc] show ?thesis by (rule insert_order_lines_total)
qed

lemma request_total_parses:
  assumes "order_request_ok d input ps t"
  shows "\<exists>amount. toScaled4 t = Inr amount"
proof -
  from insert_processed_lines [OF assms, of 0 0 0 d] obtain d2 where
    "foldM (insert_order_line 0 0 0) d ps = Inr d2" by blast
  from insert_order_lines_effect [OF this] obtain rows where rows: "list_all2 (line_row_for 0 0) ps rows"
    by (auto simp: order_lines_inserted_def)
  then have all2: "list_all2 (\<lambda>s v. toScaled4 s = Inr v) (map (\<lambda>(_, _, lineTotal). lineTotal) ps) (map pol_line_total rows)"
    by (induction rule: list_all2_induct) (auto simp: line_row_for_def)
  have "0 \<le> sum_list (map pol_line_total rows)"
    using rows by (induction rule: list_all2_induct) (auto simp: line_row_for_def dest: toScaled4_nonneg)
  with computeTotalAmount_sum [OF all2] assms show ?thesis
    by (auto simp: order_request_ok_def lines_total_def toScaled4_fromScaled4)
qed

lemma existing_order_None:
  assumes "existing_order d c (Some key) = None" and "key \<noteq> []"
  shows "\<not> (\<exists>po \<in> set (purchase_orders d). po_company_id po = c \<and> po_idempotency_key po = Some key)"
proof
  assume "\<exists>po \<in> set (purchase_orders d). po_company_id po = c \<and> po_idempotency_key po = Some key"
  then have "find_order_by_key d c key \<noteq> None" by (auto simp: find_order_by_key_def find_None_iff_all)
  then obtain po where po: "find_order_by_key d c key = Some po" by auto
  then have "po \<in> set (purchase_orders d) \<and> po_company_id po = c"
    by (auto simp: find_order_by_key_def dest: find_SomeD)
  then have "find_order d c (po_id po) \<noteq> None" by (auto simp: find_order_def find_None_iff_all)
  then show False using po assms by (auto simp: existing_order_def getPurchaseOrderById_def truthy_str_def)
qed

lemma new_order_conflict:
  assumes "existing_order d (ipo_companyId input) (ipo_idempotencyKey input) = None"
    and "ipo_idempotencyKey input \<noteq> Some []"
  shows "order_conflict d (new_order_row input no amount now i) =
    (if order_no_taken d (ipo_companyId input) no then Some ''idx_po_company_order_no'' else None)"
proof (cases "ipo_idempotencyKey input")
  case None
  then show ?thesis by (auto simp: order_conflict_def Let_def order_no_taken_def new_order_row_def)
next
  case (Some key)
  with assms existing_order_None [of d "ipo_companyId input" key] show ?thesis
    by (auto simp: order_conflict_def Let_def order_no_taken_def new_order_row_def)
qed

lemma create_order_trx_result:
  assumes ok: "order_request_ok d input ps t"
    and new: "existing_order d (ipo_companyId input) (ipo_idempotencyKey input) = None" "ipo_idempotencyKey input \<noteq> Some []"
  shows "if order_no_taken d (ipo_companyId input) no
    then create_order_trx input ps t now no d = Inl (ER_DUP_ENTRY ''idx_po_company_order_no'')
    else \<exists>i d'. create_order_trx input ps t now no d = Inr (i, d')"
proof -
  let ?i = "next_id d T_purchase_order"
  obtain amount where amount: "toScaled4 t = Inr amount" using request_total_parses [OF ok] by blast
  obtain d' where fold: "foldM (insert_order_line (ipo_companyId input) ?i now) (bump T_purchase_order
      (d\<lparr>purchase_orders := purchase_orders d @ [new_order_row input no amount now ?i]\<rparr>)) ps = Inr d'"
    using insert_processed_lines [OF ok] by blast
  have i: "po_id (new_order_row input no amount now ?i) = ?i" by (simp add: new_order_row_def)
  have "create_order_trx input ps t now no d =
    (if order_no_taken d (ipo_companyId input) no then Inl (ER_DUP_ENTRY ''idx_po_company_order_no'') else Inr (?i, d'))"
    using ok amount fold unfolding create_order_trx_def Let_def active_supplier_def [symmetric] i
    by (simp only: require_simps bindR_simps new_order_conflict [OF new] order_request_ok_def option.case split: if_splits) (simp add: i)
  then show ?thesis by simp
qed

section \<open>The retry\<close>

lemma create_order_attempts_Inr:
  assumes "create_order_attempts input ps t now nos e d = Inr (r, d')"
    and "existing_order d (ipo_companyId input) (ipo_idempotencyKey input) = None"
  shows "\<exists>no \<in> set nos. \<exists>i. create_order_trx input ps t now no d = Inr (i, d') \<and>
    getPurchaseOrderById d' (ipo_companyId input) i = Some r"
  using assms
proof (induction nos arbitrary: e)
  case (Cons no nos)
  show ?case
  proof (cases "create_order_trx input ps t now no d")
    case (Inl err)
    with Cons show ?thesis by (auto split: if_splits)
  next
    case (Inr p)
    with Cons.prems show ?thesis by (cases p) (auto simp: inr_simps)
  qed
qed simp

lemma order_inserted_tables:
  assumes "order_inserted input ps now no d amount rows d'"
  shows "purchase_orders d' = purchase_orders d @ [new_order_row input no amount now (next_id d T_purchase_order)]"
    and "purchase_order_lines d' = purchase_order_lines d @ rows"
  using assms by (simp_all add: order_inserted_def order_lines_inserted_def Let_def bump_def)

text \<open>Keys in use are below the counters, as the database guarantees.\<close>

definition order_keys :: "db \<Rightarrow> bool" where
  "order_keys d \<longleftrightarrow> (\<forall>po \<in> set (purchase_orders d). po_id po \<le> auto_inc d T_purchase_order) \<and>
     (\<forall>l \<in> set (purchase_order_lines d). pol_order_id l \<le> auto_inc d T_purchase_order)"

lemma inserted_order_read:
  assumes "order_keys d" and "order_inserted input ps now no d amount rows d'"
  shows "find_order d' (ipo_companyId input) (next_id d T_purchase_order) =
      Some (new_order_row input no amount now (next_id d T_purchase_order))"
    and "order_lines d' (ipo_companyId input) (next_id d T_purchase_order) = sort_key pol_line_no rows"
proof -
  let ?i = "next_id d T_purchase_order"
  note tables = order_inserted_tables [OF assms(2)]
  have "find_order d (ipo_companyId input) ?i = None"
    using assms(1) by (auto simp: find_order_def find_None_iff_all order_keys_def next_id_def)
  then show "find_order d' (ipo_companyId input) ?i = Some (new_order_row input no amount now ?i)"
    by (simp add: find_order_def tables find_append new_order_row_def)
  have "\<forall>r \<in> set rows. pol_order_id r = ?i \<and> pol_company_id r = ipo_companyId input"
    using assms(2) order_rows_facts(1,2) unfolding order_inserted_def Let_def by blast
  then have "filter (\<lambda>l. pol_order_id l = ?i \<and> pol_company_id l = ipo_companyId input) rows = rows"
    by (simp add: filter_id_conv)
  moreover have "filter (\<lambda>l. pol_order_id l = ?i \<and> pol_company_id l = ipo_companyId input) (purchase_order_lines d) = []"
    using assms(1) by (fastforce simp: filter_empty_conv order_keys_def next_id_def)
  ultimately show "order_lines d' (ipo_companyId input) ?i = sort_key pol_line_no rows"
    by (simp add: order_lines_def tables)
qed

lemma createPurchaseOrder_effect:
  assumes "order_keys d" and "createPurchaseOrder input now epochMs rnd d = Inr (r, d')"
    and "existing_order d (ipo_companyId input) (ipo_idempotencyKey input) = None"
  obtains ps t amount rows no where "process_lines (ipo_lines input) = Inr ps" and "lines_total ps = Inr t"
    and "toScaled4 t = Inr amount" and "no \<in> set (order_numbers epochMs rnd)"
    and "order_inserted input ps now no d amount rows d'" and "totals_exact amount rows"
    and "r = formatOrderRow (new_order_row input no amount now (next_id d T_purchase_order)) (sort_key pol_line_no rows)"
proof -
  from assms(2,3) obtain ps t where ps: "process_lines (ipo_lines input) = Inr ps" "lines_total ps = Inr t"
    and att: "create_order_attempts input ps t now (order_numbers epochMs rnd)
      (JsError ''Failed to create purchase order after multiple attempts'') d = Inr (r, d')"
    unfolding createPurchaseOrder_def by (simp only: option.case inr_simps) blast
  from create_order_attempts_Inr [OF att assms(3)] obtain no i where
    no: "no \<in> set (order_numbers epochMs rnd)" and trx: "create_order_trx input ps t now no d = Inr (i, d')"
    and get: "getPurchaseOrderById d' (ipo_companyId input) i = Some r" by blast
  from trx obtain amount rows where amount: "toScaled4 t = Inr amount" and i: "i = next_id d T_purchase_order"
    and ins: "order_inserted input ps now no d amount rows d'" by (rule create_order_trx_effect)
  have "totals_exact amount rows"
  proof (rule processed_totals [OF ps amount])
    show "list_all2 (line_row_for (ipo_companyId input) i) ps rows"
      using ins by (simp add: order_inserted_def order_lines_inserted_def Let_def i)
  qed
  moreover have "r = formatOrderRow (new_order_row input no amount now (next_id d T_purchase_order)) (sort_key pol_line_no rows)"
    using get inserted_order_read [OF assms(1) ins] by (simp add: getPurchaseOrderById_def i)
  ultimately show thesis using that ps amount no ins by blast
qed

lemma create_order_attempts_result:
  assumes ok: "order_request_ok d input ps t"
    and new: "existing_order d (ipo_companyId input) (ipo_idempotencyKey input) = None" "ipo_idempotencyKey input \<noteq> Some []"
    and keys: "order_keys d"
  shows "case find (\<lambda>no. \<not> order_no_taken d (ipo_companyId input) no) nos of
      None \<Rightarrow> create_order_attempts input ps t now nos e d =
        Inl (if nos = [] then e else ER_DUP_ENTRY ''idx_po_company_order_no'')
    | Some no \<Rightarrow> \<exists>r d'. create_order_attempts input ps t now nos e d = Inr (r, d') \<and> rpo_order_no r = no"
proof (induction nos arbitrary: e)
  case (Cons no nos)
  note trx = create_order_trx_result [OF ok new, of no now]
  show ?case
  proof (cases "order_no_taken d (ipo_companyId input) no")
    case True
    with trx have "create_order_trx input ps t now no d = Inl (ER_DUP_ENTRY ''idx_po_company_order_no'')" by (simp only: if_True)
    then have "create_order_attempts input ps t now (no # nos) e d =
        create_order_attempts input ps t now nos (ER_DUP_ENTRY ''idx_po_company_order_no'') d"
      using new(1) by (simp add: is_duplicate_def)
    with Cons.IH [of "ER_DUP_ENTRY ''idx_po_company_order_no''"] True show ?thesis
      by (simp only: find.simps list.simps not_True_eq_False if_False if_cancel)
  next
    case False
    with trx obtain i d' where trx': "create_order_trx input ps t now no d = Inr (i, d')" by (simp only: if_False) blast
    then obtain amount rows where i: "i = next_id d T_purchase_order" and ins: "order_inserted input ps now no d amount rows d'"
      by (rule create_order_trx_effect)
    have "getPurchaseOrderById d' (ipo_companyId input) i = Some (formatOrderRow
        (new_order_row input no amount now i) (sort_key pol_line_no rows))"
      using inserted_order_read [OF keys ins] by (simp add: getPurchaseOrderById_def i)
    with trx' have "create_order_attempts input ps t now (no # nos) e d = Inr (formatOrderRow
        (new_order_row input no amount now i) (sort_key pol_line_no rows), d')" by simp
    with False show ?thesis by (simp add: formatOrderRow_def new_order_row_def)
  qed
qed simp

text \<open>Orders are created idempotently under a key.\<close>

interpretation ic_order: idempotent_create
  "\<lambda>d (input, now, epochMs, rnd). existing_order d (ipo_companyId input) (ipo_idempotencyKey input)"
  "\<lambda>(input, now, epochMs, rnd). createPurchaseOrder input now epochMs rnd"
  "\<lambda>(input, now, epochMs, rnd). truthy_str (ipo_idempotencyKey input) \<noteq> None"
  "\<lambda>(i, _) (j, _). ipo_companyId i = ipo_companyId j \<and> ipo_idempotencyKey i = ipo_idempotencyKey j"
  order_keys
proof unfold_locales
  fix d d' req r
  assume wf: "order_keys d"
    and keyed: "case req of (input, now, epochMs, rnd) \<Rightarrow> truthy_str (ipo_idempotencyKey input) \<noteq> None"
    and "(case req of (input, now, epochMs, rnd) \<Rightarrow> createPurchaseOrder input now epochMs rnd) d = Inr (r, d')"
  then obtain input now epochMs rnd key where cr: "createPurchaseOrder input now epochMs rnd d = Inr (r, d')"
    and req: "req = (input, now, epochMs, rnd)" and key: "ipo_idempotencyKey input = Some key" "key \<noteq> []"
    by (cases req) (auto simp: truthy_str_def split: if_splits)
  let ?c = "ipo_companyId input" and ?i = "next_id d T_purchase_order"
  show "(case req of (input, now, epochMs, rnd) \<Rightarrow> existing_order d' (ipo_companyId input) (ipo_idempotencyKey input)) = Some r"
  proof (cases "existing_order d ?c (ipo_idempotencyKey input)")
    case None
    from wf cr None obtain ps t amount rows no where ins: "order_inserted input ps now no d amount rows d'"
      and r: "r = formatOrderRow (new_order_row input no amount now ?i) (sort_key pol_line_no rows)"
      by (rule createPurchaseOrder_effect)
    have "find_order_by_key d ?c key = None"
      using existing_order_None [of d ?c key] None key by (auto simp: find_order_by_key_def find_None_iff_all)
    then have "find_order_by_key d' ?c key = Some (new_order_row input no amount now ?i)"
      using key by (simp add: find_order_by_key_def order_inserted_tables [OF ins] find_append new_order_row_def)
    then show ?thesis
      using inserted_order_read [OF wf ins] key
      by (simp add: req existing_order_def truthy_str_def getPurchaseOrderById_def r) (simp add: new_order_row_def)
  next
    case (Some r')
    then show ?thesis using cr by (simp add: req createPurchaseOrder_def)
  qed
qed (auto simp: createPurchaseOrder_def)

section \<open>Order numbers\<close>

lemma base36_char_code:
  assumes "0 \<le> v" and "v < 36"
  shows "(of_char (base36_char v) :: int) = (if v < 10 then 48 + v else 55 + v)"
proof -
  have "v \<in> {0..35}" using assms by simp
  moreover have "{0..35} = {0, 1, 2, 3, 4, 5, 6, 7, 8, 9, 10, 11, 12, 13, 14, 15, 16, 17, 18, 19, 20, 21, 22,
      23, 24, 25, 26, 27, 28, 29, 30, 31, 32, 33, 34, 35 :: int}" by (simp add: simp_from_to)
  ultimately have "v \<in> {0, 1, 2, 3, 4, 5, 6, 7, 8, 9, 10, 11, 12, 13, 14, 15, 16, 17, 18, 19, 20, 21, 22,
      23, 24, 25, 26, 27, 28, 29, 30, 31, 32, 33, 34, 35}" by simp
  then show ?thesis by (elim insertE emptyE; hypsubst; code_simp)
qed

lemma base36_char_inj:
  assumes "base36_char v = base36_char w" and "0 \<le> v" "v < 36" "0 \<le> w" "w < 36"
  shows "v = w"
proof -
  have "(if v < 10 then 48 + v else 55 + v) = (if w < 10 then 48 + w else 55 + w)"
    using base36_char_code assms by metis
  then show ?thesis by (auto split: if_splits)
qed

lemma base36_not_dash:
  assumes "0 \<le> v" and "v < 36"
  shows "base36_char v \<noteq> CHR ''-''"
proof
  assume "base36_char v = CHR ''-''"
  then have "(of_char (base36_char v) :: int) = 45" by simp
  with base36_char_code [OF assms] assms show False by (auto split: if_splits)
qed

lemma map_base36_inj:
  "map base36_char vs = map base36_char ws \<Longrightarrow> \<forall>v \<in> set vs \<union> set ws. 0 \<le> v \<and> v < 36 \<Longrightarrow> vs = ws"
proof (induction vs arbitrary: ws)
  case (Cons v vs)
  then show ?case using base36_char_inj by (cases ws) auto
qed simp

lemma base36_digits_bound: "0 \<le> n \<Longrightarrow> v \<in> set (base36_digits n) \<Longrightarrow> 0 \<le> v \<and> v < 36"
proof (induction n rule: base36_digits.induct)
  case (1 n)
  from 1(3) have "if n < 36 then v = n else v \<in> set (base36_digits (n div 36)) \<or> v = n mod 36"
    by (subst (asm) base36_digits.simps) (auto split: if_splits)
  with 1 show ?case by (auto split: if_splits)
qed

lemma base36_digits_value: "foldl (\<lambda>a v. 36 * a + v) 0 (base36_digits n) = n"
proof (induction n rule: base36_digits.induct)
  case (1 n)
  then show ?case by (subst base36_digits.simps) (simp add: mult.commute)
qed

lemma base36_digits_length: "36 ^ k \<le> n \<Longrightarrow> n < 36 ^ Suc k \<Longrightarrow> length (base36_digits n) = Suc k"
proof (induction k arbitrary: n)
  case 0
  then show ?case by (subst base36_digits.simps) simp
next
  case (Suc k)
  have ge: "36 ^ k \<le> n div 36" using Suc.prems(1) zdiv_mono1 [of "36 ^ Suc k" n 36] by simp
  moreover have "n div 36 < 36 ^ Suc k" using Suc.prems(2) by simp
  ultimately have "length (base36_digits (n div 36)) = Suc k" by (rule Suc.IH)
  moreover have "1 \<le> n div 36" using ge one_le_power [of "36 :: int" k] by linarith
  then have "\<not> n < 36" by presburger
  ultimately show ?case by (subst base36_digits.simps) simp
qed

lemma hex_upper_simps [simp]:
  "hex_upper [] = []"
  "hex_upper (b # bs) = base36_char (b div 16) # base36_char (b mod 16) # hex_upper bs"
  by (simp_all add: hex_upper_def)

lemma hex_upper_length: "length (hex_upper bs) = 2 * length bs"
  by (induction bs) simp_all

lemma byte_digits: "0 \<le> b \<Longrightarrow> b < 256 \<Longrightarrow> 0 \<le> b div 16 \<and> b div 16 < 36 \<and> 0 \<le> b mod 16 \<and> b mod 16 < (36 :: int)"
  by (auto simp: pos_imp_zdiv_nonneg_iff intro: order_less_trans [of _ 16])

lemma hex_upper_inj:
  "hex_upper bs = hex_upper cs \<Longrightarrow> \<forall>b \<in> set bs \<union> set cs. 0 \<le> b \<and> b < 256 \<Longrightarrow> bs = cs"
proof (induction bs arbitrary: cs)
  case Nil
  then show ?case by (cases cs) simp_all
next
  case (Cons b bs)
  then obtain c cs' where cs: "cs = c # cs'" by (cases cs) simp_all
  then have "base36_char (b div 16) = base36_char (c div 16)" "base36_char (b mod 16) = base36_char (c mod 16)"
    using Cons.prems by simp_all
  then have "b div 16 = c div 16" "b mod 16 = c mod 16"
    using Cons.prems(2) byte_digits [of b] byte_digits [of c] by (auto simp: cs intro: base36_char_inj)
  then have "b = c" by (metis div_mult_mod_eq)
  with Cons show ?case by (simp add: cs)
qed

lemma append_dash_inj:
  "xs @ CHR ''-'' # ys = us @ CHR ''-'' # vs \<Longrightarrow> CHR ''-'' \<notin> set xs \<Longrightarrow> CHR ''-'' \<notin> set us \<Longrightarrow> xs = us \<and> ys = vs"
proof (induction xs arbitrary: us)
  case Nil
  then show ?case by (cases us) simp_all
next
  case (Cons x xs)
  then show ?case by (cases us) auto
qed

text \<open>
  Two order numbers are equal only if the clock showed the same millisecond and the same
  random bytes were drawn, and until the year 2059 a number has 22 characters (the column holds
  32).
\<close>

theorem order_number_unique:
  assumes "0 \<le> ms" and "0 \<le> ms'" and "\<forall>b \<in> set bytes \<union> set bytes'. 0 \<le> b \<and> b < 256"
  shows "(generatePurchaseOrderNo ms bytes = generatePurchaseOrderNo ms' bytes' \<longleftrightarrow> ms = ms' \<and> bytes = bytes') \<and>
    (36 ^ 7 \<le> ms \<longrightarrow> ms < 36 ^ 8 \<longrightarrow> length bytes = 5 \<longrightarrow> length (generatePurchaseOrderNo ms bytes) = 22)"
proof (intro conjI impI iffI)
  assume eq: "generatePurchaseOrderNo ms bytes = generatePurchaseOrderNo ms' bytes'"
  have dash: "CHR ''-'' \<notin> set (map base36_char (base36_digits m))" if "0 \<le> m" for m
    using base36_digits_bound [OF that] base36_not_dash by fastforce
  from eq have "map base36_char (base36_digits ms) @ CHR ''-'' # hex_upper bytes =
      map base36_char (base36_digits ms') @ CHR ''-'' # hex_upper bytes'"
    by (simp add: generatePurchaseOrderNo_def)
  from append_dash_inj [OF this dash dash] assms
  have "map base36_char (base36_digits ms) = map base36_char (base36_digits ms')" and h: "hex_upper bytes = hex_upper bytes'"
    by simp_all
  then have "base36_digits ms = base36_digits ms'"
    using base36_digits_bound assms(1,2) by (intro map_base36_inj) auto
  then show "ms = ms'" by (metis base36_digits_value)
  show "bytes = bytes'" using h assms(3) by (rule hex_upper_inj)
next
  assume "36 ^ 7 \<le> ms" "ms < 36 ^ 8" "length bytes = 5"
  then show "length (generatePurchaseOrderNo ms bytes) = 22"
    using base36_digits_length [of 7 ms] by (simp add: generatePurchaseOrderNo_def hex_upper_length)
qed simp

theorem order_number_unique_witness:
  "generatePurchaseOrderNo 1770000000000 [0, 1, 2, 3, 255] \<noteq> generatePurchaseOrderNo 1770000000000 [0, 1, 2, 3, 254] \<and>
   length (generatePurchaseOrderNo 1770000000000 [0, 1, 2, 3, 255]) = 22"
  using order_number_unique [of 1770000000000 1770000000000 "[0, 1, 2, 3, 255]" "[0, 1, 2, 3, 254]"] by simp

section \<open>Sample orders\<close>

definition sample_order_input :: CreatePurchaseOrderInput where
  "sample_order_input = \<lparr>ipo_companyId = 1, ipo_userId = 7, ipo_idempotencyKey = Some ''K1'', ipo_supplierId = 1,
     ipo_orderDate = 20570, ipo_expectedDate = None, ipo_notes = None, ipo_currencyCode = None,
     ipo_lines = [\<lparr>ipol_item_id = None, ipol_description = Some ''Goods'', ipol_qty = ''2.5'',
       ipol_unit_price = ''1.3333'', ipol_tax_rate = Some ''0.1''\<rparr>]\<rparr>"

definition sample_clock :: "nat \<Rightarrow> int" where
  "sample_clock _ = 1770000000000"

definition sample_bytes :: "nat \<Rightarrow> int list" where
  "sample_bytes n = [0, 1, 2, 3, int n]"

lemma sample_order_keys: "order_keys sample_db"
  by (simp add: order_keys_def sample_db_def empty_db_def)

lemma sample_order:
  obtains r d' where "createPurchaseOrder sample_order_input 0 sample_clock sample_bytes sample_db = Inr (r, d')"
    and "existing_order sample_db 1 (Some ''K1'') = None" and "rpo_total_amount r = ''3.6666''"
proof -
  have "bindR (createPurchaseOrder sample_order_input 0 sample_clock sample_bytes sample_db) (\<lambda>(r, d').
    require (existing_order sample_db 1 (Some ''K1'') = None \<and> rpo_total_amount r = ''3.6666'') INVALID_REQUEST) = Inr ()"
    by code_simp
  with that show thesis by (auto simp: inr_simps)
qed

section \<open>Properties of creation\<close>

text \<open>
  A request whose key is not stored yet, when it succeeds, inserts one draft order under one of
  the five generated numbers, with one line per line of the request and nothing received; a
  line's total is quantity times price times one plus the tax fraction, rounded to the nearest
  ten-thousandth, and the order's total is the sum of the line totals.
\<close>

theorem createPurchaseOrder_totals:
  assumes "order_keys d" and "createPurchaseOrder input now epochMs rnd d = Inr (r, d')"
    and "existing_order d (ipo_companyId input) (ipo_idempotencyKey input) = None"
  shows "\<exists>po ls. find_order d' (ipo_companyId input) (rpo_id r) = Some po \<and>
    order_lines d' (ipo_companyId input) (rpo_id r) = ls \<and> r = formatOrderRow po ls \<and>
    purchase_orders d' = purchase_orders d @ [po] \<and> po_status po = PO_DRAFT \<and>
    po_order_no po \<in> set (order_numbers epochMs rnd) \<and> length ls = length (ipo_lines input) \<and>
    po_total_amount po = sum_list (map pol_line_total ls) \<and>
    (\<forall>l \<in> set ls. pol_received_qty l = 0 \<and>
       2 * \<bar>pol_line_total l * 100000000 - pol_qty l * pol_unit_price l * (10000 + pol_tax_rate l)\<bar> \<le> 100000000)"
proof -
  let ?c = "ipo_companyId input" and ?i = "next_id d T_purchase_order"
  from assms obtain ps t amount rows no where ps: "process_lines (ipo_lines input) = Inr ps"
    and no: "no \<in> set (order_numbers epochMs rnd)" and ins: "order_inserted input ps now no d amount rows d'"
    and tot: "totals_exact amount rows"
    and r: "r = formatOrderRow (new_order_row input no amount now ?i) (sort_key pol_line_no rows)"
    by (rule createPurchaseOrder_effect)
  have i: "rpo_id r = ?i" by (simp add: r formatOrderRow_def new_order_row_def)
  note read = inserted_order_read [OF assms(1) ins]
  have "sum_list (map pol_line_total (sort_key pol_line_no rows)) = sum_list (map pol_line_total rows)"
    by (metis mset_map mset_sort sum_mset_sum_list)
  moreover have "length rows = length (ipo_lines input)"
  proof -
    have "length ps = length (numbered (ipo_lines input))" using mapM_length ps unfolding process_lines_def by fast
    moreover have "length rows = length ps"
      using ins by (auto simp: order_inserted_def order_lines_inserted_def Let_def dest: list_all2_lengthD)
    ultimately show ?thesis by (simp add: numbered_def del: upt_Suc)
  qed
  moreover have "\<forall>l \<in> set rows. pol_received_qty l = 0"
    using ins order_rows_facts(3) unfolding order_inserted_def Let_def by blast
  moreover have "\<forall>l \<in> set rows. 2 * \<bar>pol_line_total l * 100000000 -
      pol_qty l * pol_unit_price l * (10000 + pol_tax_rate l)\<bar> \<le> 100000000"
    using tot nearest_div by (simp add: totals_exact_def line_amount_def)
  ultimately show ?thesis
    using read tot no order_inserted_tables(1) [OF ins] unfolding i
    by (intro exI [of _ "new_order_row input no amount now ?i"] exI [of _ "sort_key pol_line_no rows"])
      (simp add: r totals_exact_def new_order_row_def)
qed

theorem createPurchaseOrder_totals_witness:
  "\<exists>r d' po. createPurchaseOrder sample_order_input 0 sample_clock sample_bytes sample_db = Inr (r, d') \<and>
     find_order d' 1 (rpo_id r) = Some po \<and> po_status po = PO_DRAFT \<and> rpo_total_amount r = ''3.6666''"
proof -
  obtain r d' where cr: "createPurchaseOrder sample_order_input 0 sample_clock sample_bytes sample_db = Inr (r, d')"
    and none: "existing_order sample_db 1 (Some ''K1'') = None" and tot: "rpo_total_amount r = ''3.6666''"
    by (rule sample_order)
  have "ipo_companyId sample_order_input = 1" "ipo_idempotencyKey sample_order_input = Some ''K1''"
    by (simp_all add: sample_order_input_def)
  with createPurchaseOrder_totals [OF sample_order_keys cr] none cr tot show ?thesis by metis
qed

text \<open>
  Creation gives up only when all five generated numbers are taken in the company: otherwise
  the order gets the first free one, and with none free the database's duplicate-key error comes
  through.
\<close>

theorem createPurchaseOrder_retries:
  assumes "order_keys d" and "order_request_ok d input ps t" and "ipo_idempotencyKey input \<noteq> Some []"
    and "existing_order d (ipo_companyId input) (ipo_idempotencyKey input) = None"
  shows "case find (\<lambda>no. \<not> order_no_taken d (ipo_companyId input) no) (order_numbers epochMs rnd) of
      None \<Rightarrow> createPurchaseOrder input now epochMs rnd d = Inl (ER_DUP_ENTRY ''idx_po_company_order_no'')
    | Some no \<Rightarrow> \<exists>r d'. createPurchaseOrder input now epochMs rnd d = Inr (r, d') \<and> rpo_order_no r = no"
proof -
  have ps: "process_lines (ipo_lines input) = Inr ps" "lines_total ps = Inr t"
    using assms(2) by (simp_all add: order_request_ok_def)
  have five: "order_numbers epochMs rnd \<noteq> []" by (simp add: order_numbers_def)
  show ?thesis
    using create_order_attempts_result [OF assms(2,4,3,1), where nos = "order_numbers epochMs rnd" and now = now
        and e = "JsError ''Failed to create purchase order after multiple attempts''"] five
    unfolding createPurchaseOrder_def by (simp only: assms(4) ps option.case bindR_simps if_False)
qed

definition crowded_db :: db where
  "crowded_db = sample_db\<lparr>purchase_orders := map (\<lambda>n. new_order_row sample_order_input
     (generatePurchaseOrderNo (sample_clock n) (sample_bytes n)) 0 0 1 \<lparr>po_idempotency_key := None\<rparr>) [0..<3]\<rparr>"

theorem createPurchaseOrder_retries_witness:
  "\<exists>r d'. createPurchaseOrder sample_order_input 0 sample_clock sample_bytes crowded_db = Inr (r, d') \<and>
     rpo_order_no r = generatePurchaseOrderNo 1770000000000 [0, 1, 2, 3, 3]"
proof -
  have "bindR (process_lines (ipo_lines sample_order_input)) (\<lambda>ps. bindR (lines_total ps) (\<lambda>t.
      require (order_request_ok crowded_db sample_order_input ps t) INVALID_REQUEST)) = Inr ()" by code_simp
  then obtain ps t where ok: "order_request_ok crowded_db sample_order_input ps t" by (auto simp: inr_simps)
  have keys: "order_keys crowded_db" by (simp add: order_keys_def crowded_db_def sample_db_def empty_db_def new_order_row_def)
  have key: "ipo_idempotencyKey sample_order_input \<noteq> Some []" by (simp add: sample_order_input_def)
  have none: "existing_order crowded_db (ipo_companyId sample_order_input) (ipo_idempotencyKey sample_order_input) = None"
    by code_simp
  have "find (\<lambda>no. \<not> order_no_taken crowded_db (ipo_companyId sample_order_input) no)
      (order_numbers sample_clock sample_bytes) = Some (generatePurchaseOrderNo 1770000000000 [0, 1, 2, 3, 3])"
    by code_simp
  with createPurchaseOrder_retries [OF keys ok key none, where epochMs = sample_clock and rnd = sample_bytes and now = 0] show ?thesis
    by (simp only: option.case)
qed

text \<open>
  Repeating a creation under its idempotency key, with whatever content, returns the first
  answer and changes nothing.
\<close>

theorem createPurchaseOrder_idempotent:
  assumes "order_keys d" and "ipo_idempotencyKey input = Some key" and "key \<noteq> []"
    and "createPurchaseOrder input now epochMs rnd d = Inr (r, d')"
    and "ipo_companyId input' = ipo_companyId input" and "ipo_idempotencyKey input' = Some key"
  shows "createPurchaseOrder input' now' epochMs' rnd' d' = Inr (r, d')"
  using ic_order.repeat_same [of d "(input, now, epochMs, rnd)" r d' "(input', now', epochMs', rnd')"] assms
  by (simp add: truthy_str_def)

theorem createPurchaseOrder_idempotent_witness:
  "\<exists>r d'. createPurchaseOrder sample_order_input 0 sample_clock sample_bytes sample_db = Inr (r, d') \<and>
     createPurchaseOrder (sample_order_input\<lparr>ipo_lines := []\<rparr>) 5 (\<lambda>_. 0) (\<lambda>_. []) d' = Inr (r, d')"
proof -
  obtain r d' where cr: "createPurchaseOrder sample_order_input 0 sample_clock sample_bytes sample_db = Inr (r, d')"
    by (rule sample_order)
  have "createPurchaseOrder (sample_order_input\<lparr>ipo_lines := []\<rparr>) 5 (\<lambda>_. 0) (\<lambda>_. []) d' = Inr (r, d')"
    by (rule createPurchaseOrder_idempotent [OF sample_order_keys _ _ cr, where key = "''K1''"])
      (simp_all add: sample_order_input_def)
  with cr show ?thesis by blast
qed

end
