(* ===== verification/Receipt_Effect.thy ===== *)
theory Receipt_Effect
  imports Goods_Receipt Order_Creation
begin

text \<open>
  What a goods receipt does to the tables, in closed form: the rows it adds, the received
  quantity of every order line as a fold over the lines of the request, and the status of every
  order it touches.
\<close>

section \<open>Checking the lines\<close>

lemma check_receipt_line_Some:
  assumes "check_receipt_line d c s line = Inr (Some u)"
  obtains l po where "igrl_po_line_id line = Some (pol_id l)" and "l \<in> set (purchase_order_lines d)"
    and "find (\<lambda>m. pol_id m = pol_id l \<and> pol_company_id m = c) (purchase_order_lines d) = Some l"
    and "pol_company_id l = c" and "joined_order d (pol_order_id l) = Some po" and "receivable (po_status po)"
    and "po_supplier_id po = s" and "pu_po_line_id u = pol_id l" and "toScaled4 (igrl_qty line) = Inr (pu_gr_qty u)"
    and "pu_remaining u = pol_qty l - pol_received_qty l"
    and "pu_new_received_qty u = pol_received_qty l + pu_gr_qty u"
    and "pu_over_receipt u \<longleftrightarrow> pu_gr_qty u > pu_remaining u" and "0 \<le> pol_received_qty l" and "0 \<le> pol_qty l"
proof -
  from assms obtain i l where i: "igrl_po_line_id line = Some i"
    and l: "find (\<lambda>m. pol_id m = i \<and> pol_company_id m = c) (purchase_order_lines d) = Some l"
    by (auto simp: check_receipt_line_def inr_simps split: option.splits)
  with find_SomeD have "l \<in> set (purchase_order_lines d)" "pol_id l = i" "pol_company_id l = c" by fastforce+
  with assms i l that show thesis
    by (auto simp: check_receipt_line_def Let_def inr_simps split: option.splits)
qed

lemma check_receipt_line_None: "check_receipt_line d c s line = Inr None \<Longrightarrow> igrl_po_line_id line = None"
  by (auto simp: check_receipt_line_def Let_def inr_simps split: option.splits)

lemma check_receipt_lines_Inr:
  assumes "check_receipt_lines d c input = Inr checked"
  shows "list_all (\<lambda>(n, line, u). check_receipt_line d c (igr_supplier_id input) line = Inr u) checked"
    and "map (\<lambda>(n, line, u). (n, line)) checked = numbered (igr_lines input)"
proof -
  let ?R = "\<lambda>(n, l) (n', l', u). n' = n \<and> l' = l \<and> check_receipt_line d c (igr_supplier_id input) l = Inr u"
  have R: "list_all2 ?R (numbered (igr_lines input)) checked"
    using assms unfolding check_receipt_lines_def mapM_Inr by (rule list_all2_mono) (auto simp: inr_simps)
  then show "list_all (\<lambda>(n, line, u). check_receipt_line d c (igr_supplier_id input) line = Inr u) checked"
    by (induction rule: list_all2_induct) auto
  from R show "map (\<lambda>(n, line, u). (n, line)) checked = numbered (igr_lines input)"
    by (induction rule: list_all2_induct) auto
qed

section \<open>The rows of a receipt\<close>

definition receipt_row_for ::
  "nat \<Rightarrow> nat \<Rightarrow> nat \<times> GoodsReceiptLine \<times> POLineUpdate option \<Rightarrow> goods_receipt_line_row \<Rightarrow> bool" where
  "receipt_row_for c i e r \<longleftrightarrow> (case e of (n, line, u) \<Rightarrow>
     toScaled4 (igrl_qty line) = Inr (grl_qty r) \<and> grl_po_line_id r = igrl_po_line_id line \<and>
     grl_company_id r = c \<and> grl_receipt_id r = i \<and> grl_line_no r = n \<and>
     grl_over_receipt_allowed r = (case u of Some v \<Rightarrow> if pu_over_receipt v then 1 else 0 | None \<Rightarrow> 0))"

text \<open>What one line does to an order line.\<close>

definition receive_line :: "nat \<Rightarrow> int \<Rightarrow> POLineUpdate \<Rightarrow> purchase_order_line_row \<Rightarrow> purchase_order_line_row" where
  "receive_line c now u l =
     (if pol_id l = pu_po_line_id u \<and> pol_company_id l = c \<and> pol_received_qty l \<noteq> pu_new_received_qty u
      then l\<lparr>pol_received_qty := pu_new_received_qty u, pol_updated_at := now\<rparr> else l)"

definition updates_of :: "(nat \<times> GoodsReceiptLine \<times> POLineUpdate option) list \<Rightarrow> POLineUpdate list" where
  "updates_of checked = List.map_filter (\<lambda>(n, line, u). u) checked"

lemma updates_of_simps [simp]:
  "updates_of [] = []"
  "updates_of ((n, line, None) # es) = updates_of es"
  "updates_of ((n, line, Some u) # es) = u # updates_of es"
  by (simp_all add: updates_of_def List.map_filter_simps)


lemma set_updates_of: "u \<in> set (updates_of checked) \<longleftrightarrow> (\<exists>n line. (n, line, Some u) \<in> set checked)"
  by (force simp: updates_of_def set_map_filter_iff split: prod.splits)

lemma set_received_lines:
  "set_received c u now d = d\<lparr>purchase_order_lines := map (receive_line c now u) (purchase_order_lines d)\<rparr>"
  by (simp add: set_received_def update_where_def receive_line_def [abs_def])

lemma receive_lines_simps [simp]:
  "pol_id (fold (receive_line c now) us l) = pol_id l"
  "pol_company_id (fold (receive_line c now) us l) = pol_company_id l"
  "pol_order_id (fold (receive_line c now) us l) = pol_order_id l"
  "pol_qty (fold (receive_line c now) us l) = pol_qty l"
  "pol_line_no (fold (receive_line c now) us l) = pol_line_no l"
  "pol_item_id (fold (receive_line c now) us l) = pol_item_id l"
  "pol_description (fold (receive_line c now) us l) = pol_description l"
  "pol_unit_price (fold (receive_line c now) us l) = pol_unit_price l"
  "pol_tax_rate (fold (receive_line c now) us l) = pol_tax_rate l"
  "pol_line_total (fold (receive_line c now) us l) = pol_line_total l"
  by (induction us arbitrary: l) (simp_all add: receive_line_def)

lemma received_after:
  "pol_received_qty (fold (receive_line c now) us l) =
     fold (\<lambda>u r. if pol_id l = pu_po_line_id u \<and> pol_company_id l = c then pu_new_received_qty u else r) us
       (pol_received_qty l)"
proof (induction us arbitrary: l)
  case (Cons u us)
  have "pol_received_qty (receive_line c now u l) =
      (if pol_id l = pu_po_line_id u \<and> pol_company_id l = c then pu_new_received_qty u else pol_received_qty l)"
    "pol_id (receive_line c now u l) = pol_id l" "pol_company_id (receive_line c now u l) = pol_company_id l"
    by (simp_all add: receive_line_def)
  with Cons show ?case by simp
qed simp

definition receipt_lines_inserted ::
  "nat \<Rightarrow> nat \<Rightarrow> int \<Rightarrow> db \<Rightarrow> (nat \<times> GoodsReceiptLine \<times> POLineUpdate option) list \<Rightarrow> goods_receipt_line_row list \<Rightarrow> db \<Rightarrow> bool" where
  "receipt_lines_inserted c i now d es rows d' \<longleftrightarrow> list_all2 (receipt_row_for c i) es rows \<and>
     d' = d\<lparr>goods_receipt_lines := goods_receipt_lines d @ rows,
       purchase_order_lines := map (fold (receive_line c now) (updates_of es)) (purchase_order_lines d),
       auto_inc := (auto_inc d)(T_goods_receipt_line := auto_inc d T_goods_receipt_line + length es)\<rparr>"

lemma insert_receipt_line_effect:
  assumes "insert_receipt_line c i now d e = Inr d'"
  shows "\<exists>r. receipt_lines_inserted c i now d [e] [r] d'"
proof -
  obtain n line u where e: "e = (n, line, u)" by (rule prod_cases3)
  from assms obtain q where q: "toScaled4 (igrl_qty line) = Inr q"
    by (auto simp: insert_receipt_line_def e inr_simps)
  with assms show ?thesis
    by (cases u) (auto simp: receipt_lines_inserted_def e insert_receipt_line_def Let_def bump_def
        receipt_row_for_def new_receipt_line_row_def set_received_lines
        intro!: exI [of _ "new_receipt_line_row c i n line q (case u of None \<Rightarrow> False | Some upd \<Rightarrow> pu_over_receipt upd)
          now (next_id d T_goods_receipt_line)"])
qed

lemma insert_receipt_lines_effect:
  "foldM (insert_receipt_line c i now) d es = Inr d' \<Longrightarrow> \<exists>rows. receipt_lines_inserted c i now d es rows d'"
proof (induction es arbitrary: d)
  case Nil
  then show ?case by (intro exI [of _ "[]"]) (simp add: receipt_lines_inserted_def)
next
  case (Cons e es)
  then obtain d1 where one: "insert_receipt_line c i now d e = Inr d1"
    and rest: "foldM (insert_receipt_line c i now) d1 es = Inr d'" by (auto simp: inr_simps)
  from insert_receipt_line_effect [OF one] obtain r where r: "receipt_lines_inserted c i now d [e] [r] d1" by blast
  from Cons.IH [OF rest] obtain rows where rows: "receipt_lines_inserted c i now d1 es rows d'" by blast
  obtain n line u where e: "e = (n, line, u)" by (rule prod_cases3)
  have "updates_of (e # es) = updates_of [e] @ updates_of es" by (cases u) (simp_all add: e)
  with r rows show ?case
    by (intro exI [of _ "r # rows"]) (simp add: receipt_lines_inserted_def)
qed

section \<open>The status of the orders\<close>

definition fully_received :: "db \<Rightarrow> nat \<Rightarrow> bool" where
  "fully_received d i \<longleftrightarrow> (\<forall>l \<in> set (purchase_order_lines d). pol_order_id l = i \<longrightarrow> pol_qty l \<le> pol_received_qty l)"

text \<open>An order after a receipt that touched it.\<close>

definition auto_order :: "db \<Rightarrow> nat \<Rightarrow> int \<Rightarrow> purchase_order_row \<Rightarrow> purchase_order_row" where
  "auto_order d userId now p =
     (let s = (if fully_received d (po_id p) then PO_RECEIVED else PO_PARTIAL_RECEIVED) in
      if \<not> receivable (po_status p) \<or> s = po_status p then p
      else p\<lparr>po_status := s, po_updated_by_user_id := Some userId, po_updated_at := now\<rparr>)"

lemma line_received_Inr: "line_received l = Inr b \<longleftrightarrow> 0 \<le> pol_qty l \<and> 0 \<le> pol_received_qty l \<and> b = (pol_qty l \<le> pol_received_qty l)"
  by (auto simp: line_received_def inr_simps)

lemma all_received_Inr:
  "all_received ls = Inr b \<Longrightarrow> b = (\<forall>l \<in> set ls. pol_qty l \<le> pol_received_qty l)"
  by (induction ls rule: all_received.induct) (auto simp: inr_simps line_received_Inr split: if_splits)

lemma any_outstanding_Inr:
  "any_outstanding ls = Inr b \<Longrightarrow> b = (\<exists>l \<in> set ls. pol_received_qty l < pol_qty l)"
  by (induction ls rule: any_outstanding.induct) (auto simp: inr_simps line_received_Inr split: if_splits)

lemma auto_status_effect:
  assumes "auto_status u now d i = Inr d'" and "distinct (map po_id (purchase_orders d))"
  shows "d' = d\<lparr>purchase_orders := map (\<lambda>p. if po_id p = i then auto_order d u now p else p) (purchase_orders d)\<rparr>"
proof (cases "joined_order d i")
  case None
  then have "\<forall>p \<in> set (purchase_orders d). po_id p \<noteq> i" by (simp add: joined_order_def find_None_iff_all)
  then have "map (\<lambda>p. if po_id p = i then auto_order d u now p else p) (purchase_orders d) = purchase_orders d"
    by (intro map_idI) simp
  with assms(1) None show ?thesis by (simp add: auto_status_def)
next
  case (Some q)
  then have q: "q \<in> set (purchase_orders d)" "po_id q = i"
    unfolding joined_order_def by (auto dest: find_SomeD)
  have only: "p = q" if "p \<in> set (purchase_orders d)" "po_id p = i" for p
    using distinct_map_eq [OF assms(2) that(1) q(1)] that q by simp
  have id: "map (\<lambda>p. if po_id p = i then auto_order d u now p else p) (purchase_orders d) = purchase_orders d"
    if "auto_order d u now q = q" using that only by (intro map_idI) auto
  show ?thesis
  proof (cases "receivable (po_status q)")
    case False
    with assms(1) Some id show ?thesis by (simp add: auto_status_def auto_order_def Let_def)
  next
    case True
    let ?ls = "filter (\<lambda>l. pol_order_id l = i) (purchase_order_lines d)"
    from assms(1) Some True obtain a b where all: "all_received ?ls = Inr a" "any_outstanding ?ls = Inr b"
      by (auto simp: auto_status_def Let_def inr_simps)
    then have ab: "a = fully_received d i" "b = (\<not> fully_received d i)"
      using all_received_Inr [OF all(1)] any_outstanding_Inr [OF all(2)]
      by (auto simp: fully_received_def not_le)
    let ?s = "if fully_received d i then PO_RECEIVED else PO_PARTIAL_RECEIVED"
    have d': "d' = (if ?s = po_status q then d else set_order_status (\<lambda>p. po_id p = i) ?s u now d)"
      using assms(1) Some True all ab by (auto simp: auto_status_def Let_def split: if_splits)
    show ?thesis
    proof (cases "?s = po_status q")
      case same: True
      have "auto_order d u now q = q" using same q(2) unfolding auto_order_def Let_def by (simp only: simp_thms if_True)
      from id [OF this] show ?thesis using d' same by (simp only: if_True) simp
    next
      case False
      have "auto_order d u now p = p\<lparr>po_status := ?s, po_updated_by_user_id := Some u, po_updated_at := now\<rparr>"
        if "p \<in> set (purchase_orders d)" "po_id p = i" for p
        using only [OF that] True False that(2) unfolding auto_order_def Let_def by (simp only: simp_thms if_False)
      then have "map (\<lambda>p. if po_id p = i then auto_order d u now p else p) (purchase_orders d) =
          update_where (\<lambda>p. po_id p = i) (\<lambda>p. p\<lparr>po_status := ?s, po_updated_by_user_id := Some u,
            po_updated_at := now\<rparr>) (purchase_orders d)"
        by (simp add: update_where_def)
      with d' False show ?thesis by (simp only: if_False set_order_status_def)
    qed
  qed
qed

lemma auto_order_simps [simp]:
  "po_id (auto_order d u now p) = po_id p" "po_company_id (auto_order d u now p) = po_company_id p"
  "po_supplier_id (auto_order d u now p) = po_supplier_id p" "po_order_no (auto_order d u now p) = po_order_no p"
  "po_idempotency_key (auto_order d u now p) = po_idempotency_key p"
  "po_total_amount (auto_order d u now p) = po_total_amount p"
  by (simp_all add: auto_order_def Let_def)

lemma auto_order_status:
  "po_status (auto_order d u now p) = (if \<not> receivable (po_status p) then po_status p
     else if fully_received d (po_id p) then PO_RECEIVED else PO_PARTIAL_RECEIVED)"
  by (auto simp: auto_order_def Let_def)

lemma auto_order_orders [simp]: "auto_order (d\<lparr>purchase_orders := x\<rparr>) u now p = auto_order d u now p"
  by (simp add: auto_order_def fully_received_def)

lemma auto_statuses_effect:
  assumes "foldM (auto_status u now) d is = Inr d'" and "distinct is" and "distinct (map po_id (purchase_orders d))"
  shows "d' = d\<lparr>purchase_orders := map (\<lambda>p. if po_id p \<in> set is then auto_order d u now p else p) (purchase_orders d)\<rparr>"
  using assms
proof (induction "is" arbitrary: d)
  case (Cons i "is")
  then obtain d1 where one: "auto_status u now d i = Inr d1" and rest: "foldM (auto_status u now) d1 is = Inr d'"
    by (auto simp: inr_simps)
  note d1 = auto_status_effect [OF one Cons.prems(3)]
  let ?f = "\<lambda>p. if po_id p = i then auto_order d u now p else p"
  have "map po_id (map ?f pos) = map po_id pos" for pos by simp
  then have "distinct (map po_id (purchase_orders d1))" using Cons.prems(3) by (simp add: d1 del: map_map)
  with Cons.IH [OF rest] Cons.prems(2) have d': "d' = d1\<lparr>purchase_orders := map (\<lambda>p. if po_id p \<in> set is
      then auto_order d1 u now p else p) (purchase_orders d1)\<rparr>" by simp
  have eq: "(if po_id (?f p) \<in> set is then auto_order d u now (?f p) else ?f p) =
      (if po_id p \<in> set (i # is) then auto_order d u now p else p)" for p
    using Cons.prems(2) by simp
  have same: "auto_order d1 u now = auto_order d u now" by (rule ext) (simp add: d1)
  have d1o: "purchase_orders d1 = map ?f (purchase_orders d)" by (simp add: d1)
  have "purchase_orders d' = map (\<lambda>p. if po_id p \<in> set is then auto_order d u now p else p) (purchase_orders d1)"
    by (simp add: d' same)
  also have "\<dots> = map (\<lambda>p. if po_id p \<in> set (i # is) then auto_order d u now p else p) (purchase_orders d)"
    unfolding d1o by (simp only: map_map comp_def eq)
  finally show ?case by (simp add: d' d1 del: map_map)
qed simp

section \<open>The whole receipt\<close>

definition touched_orders :: "db \<Rightarrow> GoodsReceiptCreate \<Rightarrow> nat set" where
  "touched_orders d input = set (affectedPOIds d input)"

definition received ::
  "nat \<Rightarrow> nat \<Rightarrow> GoodsReceiptCreate \<Rightarrow> int \<Rightarrow> db \<Rightarrow> (nat \<times> GoodsReceiptLine \<times> POLineUpdate option) list \<Rightarrow>
     goods_receipt_line_row list \<Rightarrow> db \<Rightarrow> bool" where
  "received c u input now d es rows d' \<longleftrightarrow>
     check_receipt_lines d c input = Inr es \<and>
     list_all2 (receipt_row_for c (next_id d T_goods_receipt)) es rows \<and>
     goods_receipts d' = goods_receipts d @ [new_receipt_row c u input (overReceiptWarnings es) now (next_id d T_goods_receipt)] \<and>
     goods_receipt_lines d' = goods_receipt_lines d @ rows \<and>
     purchase_order_lines d' = map (fold (receive_line c now) (updates_of es)) (purchase_order_lines d) \<and>
     purchase_orders d' = map (\<lambda>p. if po_id p \<in> touched_orders d input then auto_order d' u now p else p) (purchase_orders d) \<and>
     auto_inc d' = (auto_inc d)(T_goods_receipt := next_id d T_goods_receipt,
       T_goods_receipt_line := auto_inc d T_goods_receipt_line + length es) \<and>
     suppliers d' = suppliers d \<and> items d' = items d"

lemma affected_after:
  assumes "purchase_order_lines d' = map f (purchase_order_lines d)"
    and "\<And>l. pol_id (f l) = pol_id l" and "\<And>l. pol_order_id (f l) = pol_order_id l"
  shows "affectedPOIds d' input = affectedPOIds d input"
proof -
  have "find (\<lambda>l. pol_id l = i) (map f ls) = map_option f (find (\<lambda>l. pol_id l = i) ls)" for i ls
    using assms(2) by (induction ls) auto
  then show ?thesis by (simp add: affectedPOIds_def find_order_line_def assms(1,3) option.map_comp comp_def)
qed

lemma create_receipt_trx_effect:
  assumes "create_receipt_trx c u input now d = Inr ((i, ws), d')" and "distinct (map po_id (purchase_orders d))"
  obtains es rows where "received c u input now d es rows d'" and "i = next_id d T_goods_receipt"
    and "ws = overReceiptWarnings es"
    and "receipt_conflict d (new_receipt_row c u input ws now i) = None"
proof -
  let ?i = "next_id d T_goods_receipt"
  from assms(1) obtain es d1 where es: "check_receipt_lines d c input = Inr es"
    and conf: "receipt_conflict d (new_receipt_row c u input (overReceiptWarnings es) now ?i) = None"
    and fold: "foldM (insert_receipt_line c ?i now) (bump T_goods_receipt (d\<lparr>goods_receipts := goods_receipts d @
      [new_receipt_row c u input (overReceiptWarnings es) now ?i]\<rparr>)) es = Inr d1"
    and auto: "foldM (auto_status u now) d1 (affectedPOIds d1 input) = Inr d'"
    and i: "i = ?i" "ws = overReceiptWarnings es"
    by (auto simp: create_receipt_trx_def Let_def inr_simps new_receipt_row_def split: option.splits)
  from insert_receipt_lines_effect [OF fold] obtain rows where
    rows: "list_all2 (receipt_row_for c ?i) es rows"
    and d1: "d1 = (bump T_goods_receipt (d\<lparr>goods_receipts := goods_receipts d @
      [new_receipt_row c u input (overReceiptWarnings es) now ?i]\<rparr>))\<lparr>goods_receipt_lines := goods_receipt_lines d @ rows,
       purchase_order_lines := map (fold (receive_line c now) (updates_of es)) (purchase_order_lines d),
       auto_inc := (auto_inc d)(T_goods_receipt := ?i, T_goods_receipt_line := auto_inc d T_goods_receipt_line + length es)\<rparr>"
    by (auto simp: receipt_lines_inserted_def bump_def next_id_def)
  have "distinct (map po_id (purchase_orders d1))" using assms(2) by (simp add: d1 bump_def)
  moreover have ids: "affectedPOIds d1 input = affectedPOIds d input"
    by (rule affected_after [where f = "fold (receive_line c now) (updates_of es)"]) (simp_all add: d1)
  moreover have "distinct (affectedPOIds d input)" by (simp add: affectedPOIds_def)
  ultimately have d': "d' = d1\<lparr>purchase_orders := map (\<lambda>p. if po_id p \<in> touched_orders d input
      then auto_order d1 u now p else p) (purchase_orders d1)\<rparr>"
    using auto_statuses_effect [OF auto] by (simp add: touched_orders_def)
  have "auto_order d' u now = auto_order d1 u now" by (rule ext) (simp add: d')
  then have "received c u input now d es rows d'"
    using es rows by (simp add: received_def d') (simp add: d1 bump_def)
  with i conf show thesis using that by blast
qed

lemma createGoodsReceipt_new:
  assumes "createGoodsReceipt c u input now d = Inr ((r, ws), d')"
    and "existing_receipt d c (igr_idempotency_key input) = None"
  obtains i where "create_receipt_trx c u input now d = Inr ((i, ws), d')" and "getGoodsReceiptById d' c i = Some r"
    and "find_supplier d c (igr_supplier_id input) \<noteq> None"
  using assms by (auto simp: createGoodsReceipt_def inr_simps split: sum.splits if_splits option.splits)

end
