(* ===== verification/Order_Lifecycle.thy ===== *)
theory Order_Lifecycle
  imports Receipt_Effect
begin

text \<open>
  The life of a purchase order under the two services that change it: the steps of the program
  on orders, their lines and the receipts, and the invariants that all reachable tables satisfy.
\<close>

section \<open>Steps\<close>

inductive order_step :: "db \<Rightarrow> db \<Rightarrow> bool" where
  create_order: "createPurchaseOrder input now epochMs rnd d = Inr (r, d') \<Longrightarrow> order_step d d'"
| update_order: "updatePurchaseOrder input now d = Inr (ro, d') \<Longrightarrow> order_step d d'"
| change_status: "transitionPurchaseOrderStatus c u i s now d = Inr (ro, d') \<Longrightarrow> order_step d d'"
| receive_goods: "createGoodsReceipt c u g now d = Inr (a, d') \<Longrightarrow> order_step d d'"
| other_service: "purchase_orders d' = purchase_orders d \<Longrightarrow> purchase_order_lines d' = purchase_order_lines d \<Longrightarrow>
    goods_receipts d' = goods_receipts d \<Longrightarrow> goods_receipt_lines d' = goods_receipt_lines d \<Longrightarrow>
    auto_inc d' T_purchase_order = auto_inc d T_purchase_order \<Longrightarrow>
    auto_inc d' T_purchase_order_line = auto_inc d T_purchase_order_line \<Longrightarrow> order_step d d'"

inductive order_reachable :: "db \<Rightarrow> bool" where
  start: "purchase_orders d = [] \<Longrightarrow> purchase_order_lines d = [] \<Longrightarrow> goods_receipt_lines d = [] \<Longrightarrow> order_reachable d"
| step: "order_reachable d \<Longrightarrow> order_step d d' \<Longrightarrow> order_reachable d'"

section \<open>The invariant\<close>

definition nothing_received :: "db \<Rightarrow> nat \<Rightarrow> bool" where
  "nothing_received d i \<longleftrightarrow> (\<forall>l \<in> set (purchase_order_lines d). pol_order_id l = i \<longrightarrow> pol_received_qty l = 0)"

definition order_ok :: "db \<Rightarrow> purchase_order_row \<Rightarrow> bool" where
  "order_ok d po \<longleftrightarrow> 1 \<le> po_status po \<and> po_status po \<le> 5 \<and>
     (po_status po \<le> 2 \<longrightarrow> nothing_received d (po_id po)) \<and>
     (po_status po = 4 \<longrightarrow> fully_received d (po_id po)) \<and>
     po_total_amount po = sum_for pol_order_id pol_line_total (po_id po) (purchase_order_lines d)"

definition line_ok :: "db \<Rightarrow> purchase_order_line_row \<Rightarrow> bool" where
  "line_ok d l \<longleftrightarrow> 0 \<le> pol_qty l \<and> 0 \<le> pol_received_qty l \<and>
     pol_received_qty l \<le> sum_for grl_po_line_id grl_qty (Some (pol_id l)) (goods_receipt_lines d) \<and>
     (\<exists>po \<in> set (purchase_orders d). po_id po = pol_order_id l \<and> po_company_id po = pol_company_id l)"

definition orders_ok :: "db \<Rightarrow> bool" where
  "orders_ok d \<longleftrightarrow> distinct (map po_id (purchase_orders d)) \<and> distinct (map pol_id (purchase_order_lines d)) \<and>
     (\<forall>po \<in> set (purchase_orders d). po_id po \<le> auto_inc d T_purchase_order \<and> order_ok d po) \<and>
     (\<forall>l \<in> set (purchase_order_lines d). pol_id l \<le> auto_inc d T_purchase_order_line \<and> line_ok d l) \<and>
     (\<forall>g \<in> set (goods_receipt_lines d). 0 \<le> grl_qty g)"

lemma orders_okD:
  assumes "orders_ok d"
  shows "distinct (map po_id (purchase_orders d))" and "distinct (map pol_id (purchase_order_lines d))"
    and "po \<in> set (purchase_orders d) \<Longrightarrow> po_id po \<le> auto_inc d T_purchase_order \<and> order_ok d po"
    and "l \<in> set (purchase_order_lines d) \<Longrightarrow> pol_id l \<le> auto_inc d T_purchase_order_line \<and> line_ok d l"
    and "order_keys d"
proof -
  show "order_keys d" using assms by (fastforce simp: orders_ok_def order_keys_def line_ok_def)
qed (use assms in \<open>auto simp: orders_ok_def\<close>)

lemma same_order:
  assumes "orders_ok d" and "po \<in> set (purchase_orders d)" and "q \<in> set (purchase_orders d)" and "po_id po = po_id q"
  shows "po = q"
  using distinct_map_eq [OF orders_okD(1) [OF assms(1)] assms(2,3,4)] .

subsection \<open>Creation\<close>

lemma create_order_db:
  assumes "createPurchaseOrder input now epochMs rnd d = Inr (r, d')" and "order_keys d"
  shows "d' = d \<or> (\<exists>ps amount rows no. order_inserted input ps now no d amount rows d' \<and> totals_exact amount rows)"
proof (cases "existing_order d (ipo_companyId input) (ipo_idempotencyKey input)")
  case None
  with assms show ?thesis by (auto elim!: createPurchaseOrder_effect)
next
  case (Some r')
  with assms(1) show ?thesis by (simp add: createPurchaseOrder_def)
qed

lemma create_order_ok:
  assumes "orders_ok d" and "order_inserted input ps now no d amount rows d'" and "totals_exact amount rows"
  shows "orders_ok d'"
proof -
  let ?i = "next_id d T_purchase_order" and ?c = "ipo_companyId input"
  let ?row = "new_order_row input no amount now ?i"
  have ins: "order_lines_inserted ?c ?i (bump T_purchase_order (d\<lparr>purchase_orders := purchase_orders d @ [?row]\<rparr>)) ps rows d'"
    using assms(2) by (simp add: order_inserted_def Let_def)
  note rows = order_rows_facts [OF ins] order_rows_distinct [OF ins]
  have d': "purchase_orders d' = purchase_orders d @ [?row]" "purchase_order_lines d' = purchase_order_lines d @ rows"
    "goods_receipt_lines d' = goods_receipt_lines d" "auto_inc d' T_purchase_order = ?i"
    "auto_inc d T_purchase_order_line \<le> auto_inc d' T_purchase_order_line"
    using ins by (simp_all add: order_lines_inserted_def bump_def next_id_def)
  have row: "po_id ?row = ?i" "po_company_id ?row = ?c" "po_status ?row = 1" "po_total_amount ?row = amount"
    by (simp_all add: new_order_row_def)
  have fresh: "po_id po \<noteq> ?i" if "po \<in> set (purchase_orders d)" for po
    using orders_okD(3) [OF assms(1) that] by (auto simp: next_id_def)
  have fresh_line: "pol_order_id l \<noteq> ?i" if "l \<in> set (purchase_order_lines d)" for l
    using orders_okD(4) [OF assms(1) that] fresh by (auto simp: line_ok_def)
  have row_sum: "sum_for pol_order_id pol_line_total j rows = (if j = ?i then amount else 0)" for j
  proof -
    have "\<forall>r \<in> set rows. pol_order_id r = ?i" using rows(2) by blast
    then have "sum_for pol_order_id pol_line_total j rows = (if j = ?i then sum_list (map pol_line_total rows) else 0)"
      by (induction rows) auto
    with assms(3) show ?thesis by (simp add: totals_exact_def)
  qed
  have old_sum: "sum_for pol_order_id pol_line_total ?i (purchase_order_lines d) = 0"
    using fresh_line by (intro sum_for_none) fastforce
  have "order_ok d' po" if "po \<in> set (purchase_orders d)" for po
    using orders_okD(3) [OF assms(1) that] fresh [OF that] rows(2)
    by (auto simp: order_ok_def row_sum nothing_received_def fully_received_def d')
  moreover have "order_ok d' ?row"
    using fresh_line rows(3) by (auto simp: order_ok_def row row_sum old_sum nothing_received_def d')
  moreover have "line_ok d' l" if "l \<in> set (purchase_order_lines d)" for l
    using orders_okD(4) [OF assms(1) that] by (auto simp: line_ok_def d')
  moreover have "line_ok d' l" if "l \<in> set rows" for l
  proof -
    have "0 \<le> sum_for grl_po_line_id grl_qty (Some (pol_id l)) (goods_receipt_lines d)"
      using assms(1) by (intro sum_for_nonneg) (simp add: orders_ok_def)
    then show ?thesis using rows(1-4) [OF that] row by (auto simp: line_ok_def d')
  qed
  moreover have "pol_id l \<noteq> pol_id r" if "l \<in> set (purchase_order_lines d)" "r \<in> set rows" for l r
    using orders_okD(4) [OF assms(1) that(1)] rows(5) [OF that(2)] by (simp add: bump_def)
  then have "distinct (map pol_id (purchase_order_lines d'))"
    using orders_okD(2) [OF assms(1)] rows(7) by (auto simp: d')
  moreover have "pol_id l \<le> auto_inc d' T_purchase_order_line" if "l \<in> set (purchase_order_lines d')" for l
    using that orders_okD(4) [OF assms(1), of l] rows(6) [of l] d'(5) by (auto simp: d'(2))
  moreover have "po_id po \<le> ?i" if "po \<in> set (purchase_orders d)" for po
    using orders_okD(3) [OF assms(1) that] by (simp add: next_id_def)
  moreover have "?i \<notin> po_id ` set (purchase_orders d)" using fresh by fastforce
  ultimately show ?thesis
    using assms(1) unfolding orders_ok_def d'(1) d'(4) by (auto simp: d'(2,3) row)
qed

subsection \<open>Changes of rows in place\<close>

text \<open>
  A change of order rows that keeps their keys, and a change of the lines of one order, described
  by what they keep.
\<close>

definition keeps_order :: "(purchase_order_row \<Rightarrow> purchase_order_row) \<Rightarrow> bool" where
  "keeps_order f \<longleftrightarrow> (\<forall>p. po_id (f p) = po_id p \<and> po_company_id (f p) = po_company_id p \<and>
     po_order_no (f p) = po_order_no p \<and> po_supplier_id (f p) = po_supplier_id p)"

lemma keeps_orderD:
  assumes "keeps_order f"
  shows "po_id (f p) = po_id p" "po_company_id (f p) = po_company_id p"
    "po_order_no (f p) = po_order_no p" "po_supplier_id (f p) = po_supplier_id p"
  using assms by (simp_all add: keeps_order_def)

lemma orders_ok_map:
  assumes "orders_ok d" and "keeps_order f" and "purchase_orders d' = map f (purchase_orders d)"
    and "purchase_order_lines d' = purchase_order_lines d" and "goods_receipt_lines d' = goods_receipt_lines d"
    and "auto_inc d' = auto_inc d"
    and "\<And>p. p \<in> set (purchase_orders d) \<Longrightarrow> order_ok d p \<Longrightarrow> order_ok d' (f p)"
  shows "orders_ok d'"
proof -
  note keep = keeps_orderD [OF assms(2)]
  have "line_ok d' l \<longleftrightarrow> line_ok d l" for l
    by (simp add: line_ok_def assms(3-5) keep)
  moreover have "distinct (map po_id (purchase_orders d'))"
    using orders_okD(1) [OF assms(1)] by (simp add: assms(3) comp_def keep)
  ultimately show ?thesis
    using assms(1,7) by (simp add: orders_ok_def assms(3-6) keep)
qed

subsection \<open>Changing a draft\<close>

definition draft_lines :: "db \<Rightarrow> nat \<Rightarrow> nat \<Rightarrow> purchase_order_line_row list" where
  "draft_lines d c i = filter (\<lambda>l. \<not> (pol_order_id l = i \<and> pol_company_id l = c)) (purchase_order_lines d)"

lemma replace_lines_effect:
  assumes "replace_lines input ls now d = Inr d'"
  obtains ps rows amount d2 where
    "order_lines_inserted (uo_companyId input) (uo_orderId input)
      (d\<lparr>purchase_order_lines := draft_lines d (uo_companyId input) (uo_orderId input)\<rparr>) ps rows d2"
    and "totals_exact amount rows"
    and "d' = d2\<lparr>purchase_orders := update_where (order_key (uo_companyId input) (uo_orderId input))
      (\<lambda>po. po\<lparr>po_total_amount := amount, po_updated_by_user_id := Some (uo_userId input), po_updated_at := now\<rparr>)
      (purchase_orders d)\<rparr>"
proof -
  from assms obtain ps t amount d2 where ps: "process_lines ls = Inr ps" "lines_total ps = Inr t" "toScaled4 t = Inr amount"
    and fold: "foldM (insert_order_line (uo_companyId input) (uo_orderId input) now)
      (d\<lparr>purchase_order_lines := draft_lines d (uo_companyId input) (uo_orderId input)\<rparr>) ps = Inr d2"
    and d': "d' = d2\<lparr>purchase_orders := update_where (order_key (uo_companyId input) (uo_orderId input))
      (\<lambda>po. po\<lparr>po_total_amount := amount, po_updated_by_user_id := Some (uo_userId input), po_updated_at := now\<rparr>)
      (purchase_orders d2)\<rparr>"
    by (auto simp: replace_lines_def Let_def inr_simps draft_lines_def)
  from insert_order_lines_effect [OF fold] obtain rows where rows:
    "order_lines_inserted (uo_companyId input) (uo_orderId input)
      (d\<lparr>purchase_order_lines := draft_lines d (uo_companyId input) (uo_orderId input)\<rparr>) ps rows d2" by blast
  then have "list_all2 (line_row_for (uo_companyId input) (uo_orderId input)) ps rows" "purchase_orders d2 = purchase_orders d"
    by (simp_all add: order_lines_inserted_def)
  with that [OF rows, of amount] processed_totals [OF ps] d' show thesis by simp
qed

lemma updatePurchaseOrder_db:
  assumes "updatePurchaseOrder input now d = Inr (ro, d')"
  shows "d' = d \<or> (\<exists>po d1. find_order d (uo_companyId input) (uo_orderId input) = Some po \<and> po_status po = PO_DRAFT \<and>
    (d1 = d \<or> d1 = d\<lparr>purchase_orders := update_where (order_key (uo_companyId input) (uo_orderId input))
      (update_order_header input now) (purchase_orders d)\<rparr>) \<and>
    (d' = d1 \<or> (\<exists>ls. replace_lines input ls now d1 = Inr d')))"
proof (cases "find_order d (uo_companyId input) (uo_orderId input)")
  case None
  with assms show ?thesis by (auto simp: updatePurchaseOrder_def inr_simps)
next
  case (Some po)
  let ?d1 = "if uo_notes input = None \<and> uo_expectedDate input = None then d
    else d\<lparr>purchase_orders := update_where (order_key (uo_companyId input) (uo_orderId input))
      (update_order_header input now) (purchase_orders d)\<rparr>"
  from assms Some have draft: "po_status po = PO_DRAFT"
    and "(case uo_lines input of None \<Rightarrow> Inr ?d1 | Some ls \<Rightarrow> replace_lines input ls now ?d1) = Inr d'"
    unfolding updatePurchaseOrder_def Let_def by (simp_all only: option.case inr_simps) blast+
  then have "d' = ?d1 \<or> (\<exists>ls. replace_lines input ls now ?d1 = Inr d')" by (auto split: option.splits)
  moreover have "?d1 = d \<or> ?d1 = d\<lparr>purchase_orders := update_where (order_key (uo_companyId input) (uo_orderId input))
      (update_order_header input now) (purchase_orders d)\<rparr>" by simp
  ultimately show ?thesis using Some draft by blast
qed

lemma order_ok_cong:
  "purchase_order_lines d' = purchase_order_lines d \<Longrightarrow> po_id q = po_id p \<Longrightarrow> po_status q = po_status p \<Longrightarrow>
   po_total_amount q = po_total_amount p \<Longrightarrow> order_ok d' q = order_ok d p"
  by (simp add: order_ok_def nothing_received_def fully_received_def)

lemma update_header_ok:
  assumes "orders_ok d"
  shows "orders_ok (d\<lparr>purchase_orders := update_where (order_key c i) (update_order_header input now) (purchase_orders d)\<rparr>)"
proof (rule orders_ok_map [OF assms, where f = "\<lambda>p. if order_key c i p then update_order_header input now p else p"])
  let ?d = "d\<lparr>purchase_orders := update_where (order_key c i) (update_order_header input now) (purchase_orders d)\<rparr>"
  fix p assume "order_ok d p"
  moreover have "order_ok ?d (if order_key c i p then update_order_header input now p else p) = order_ok d p"
    by (rule order_ok_cong) (simp_all add: update_order_header_def)
  ultimately show "order_ok ?d (if order_key c i p then update_order_header input now p else p)" by simp
qed (simp_all add: update_where_def keeps_order_def update_order_header_def)

lemma order_company:
  assumes "orders_ok d" and "l \<in> set (purchase_order_lines d)" and "po \<in> set (purchase_orders d)"
    and "po_id po = pol_order_id l"
  shows "pol_company_id l = po_company_id po"
  using orders_okD(4) [OF assms(1,2)] same_order [OF assms(1,3)] assms(4) by (auto simp: line_ok_def)

lemma sum_for_other:
  "(\<And>x. x \<in> set xs \<Longrightarrow> key x = k \<Longrightarrow> P x) \<Longrightarrow> sum_for key amt k (filter P xs) = sum_for key amt k xs"
  by (induction xs) auto

lemma rows_sum_for:
  assumes "order_lines_inserted c i d0 ps rows d2" and "totals_exact amount rows"
  shows "sum_for pol_order_id pol_line_total j rows = (if j = i then amount else 0)"
proof -
  have "\<forall>r \<in> set rows. pol_order_id r = i" using order_rows_facts(2) [OF assms(1)] by blast
  then have "sum_for pol_order_id pol_line_total j rows = (if j = i then sum_list (map pol_line_total rows) else 0)"
    by (induction rows) auto
  with assms(2) show ?thesis by (simp add: totals_exact_def)
qed

lemma replace_lines_ok:
  assumes ok: "orders_ok d" and po: "po \<in> set (purchase_orders d)" "order_key (uo_companyId input) (uo_orderId input) po"
      "po_status po = 1"
    and "replace_lines input ls now d = Inr d'"
  shows "orders_ok d'"
proof -
  let ?c = "uo_companyId input" and ?i = "uo_orderId input"
  from assms(5) obtain ps rows amount d2 where
    ins: "order_lines_inserted ?c ?i (d\<lparr>purchase_order_lines := draft_lines d ?c ?i\<rparr>) ps rows d2"
    and tot: "totals_exact amount rows"
    and d2: "d' = d2\<lparr>purchase_orders := update_where (order_key ?c ?i) (\<lambda>po. po\<lparr>po_total_amount := amount,
      po_updated_by_user_id := Some (uo_userId input), po_updated_at := now\<rparr>) (purchase_orders d)\<rparr>"
    by (rule replace_lines_effect)
  define f where "f p = (if order_key ?c ?i p then p\<lparr>po_total_amount := amount,
      po_updated_by_user_id := Some (uo_userId input), po_updated_at := now\<rparr> else p)" for p
  have keep: "po_id (f p) = po_id p" "po_company_id (f p) = po_company_id p" for p by (simp_all add: f_def)
  note rows = order_rows_facts [OF ins] order_rows_distinct [OF ins]
  have d': "purchase_orders d' = map f (purchase_orders d)" "purchase_order_lines d' = draft_lines d ?c ?i @ rows"
    "goods_receipt_lines d' = goods_receipt_lines d" "auto_inc d' T_purchase_order = auto_inc d T_purchase_order"
    "auto_inc d T_purchase_order_line \<le> auto_inc d' T_purchase_order_line"
    using ins by (simp_all add: d2 order_lines_inserted_def update_where_def f_def [abs_def])
  have ai: "auto_inc d' = auto_inc d2" by (simp add: d2)
  have mine: "pol_company_id l = ?c" if "l \<in> set (purchase_order_lines d)" "pol_order_id l = ?i" for l
    using order_company [OF ok that(1) po(1)] po(2) that(2) by (simp add: order_key_def)
  have key: "order_key ?c ?i p \<longleftrightarrow> po_id p = ?i" if "p \<in> set (purchase_orders d)" for p
    using same_order [OF ok that po(1)] po(2) by (auto simp: order_key_def)
  have old: "l \<in> set (purchase_order_lines d) \<and> pol_order_id l \<noteq> ?i" if "l \<in> set (draft_lines d ?c ?i)" for l
    using that mine by (auto simp: draft_lines_def)
  have others: "sum_for pol_order_id pol_line_total j (draft_lines d ?c ?i) =
      (if j = ?i then 0 else sum_for pol_order_id pol_line_total j (purchase_order_lines d))" for j
  proof (cases "j = ?i")
    case True
    with old show ?thesis using sum_for_none [of j pol_order_id "draft_lines d ?c ?i"] by fastforce
  next
    case False
    then have "sum_for pol_order_id pol_line_total j (draft_lines d ?c ?i) =
        sum_for pol_order_id pol_line_total j (purchase_order_lines d)"
      unfolding draft_lines_def by (intro sum_for_other) simp
    with False show ?thesis by simp
  qed
  note sums = others rows_sum_for [OF ins tot]
  have "order_ok d' (f p)" if p: "p \<in> set (purchase_orders d)" for p
  proof (cases "po_id p = ?i")
    case True
    then have "p = po" using same_order [OF ok p po(1)] po(2) by (simp add: order_key_def)
    with True po key [OF p] show ?thesis
      using rows(3) old by (auto simp: order_ok_def f_def d'(2) sums nothing_received_def)
  next
    case False
    have "order_ok d p" using orders_okD(3) [OF ok p] by simp
    moreover have "f p = p" using False key [OF p] by (simp add: f_def)
    ultimately show ?thesis
      using False rows(2) old by (auto simp: order_ok_def d'(2) sums nothing_received_def fully_received_def)
  qed
  moreover have "line_ok d' l" if "l \<in> set (draft_lines d ?c ?i)" for l
    using orders_okD(4) [OF ok, of l] old [OF that] by (auto simp: line_ok_def d' keep)
  moreover have "line_ok d' l" if "l \<in> set rows" for l
  proof -
    have "0 \<le> sum_for grl_po_line_id grl_qty (Some (pol_id l)) (goods_receipt_lines d)"
      using ok by (intro sum_for_nonneg) (simp add: orders_ok_def)
    then show ?thesis using rows(1-4) [OF that] po by (auto simp: line_ok_def d' order_key_def keep)
  qed
  moreover have "pol_id l \<noteq> pol_id r" if "l \<in> set (draft_lines d ?c ?i)" "r \<in> set rows" for l r
    using orders_okD(4) [OF ok, of l] old [OF that(1)] rows(5) [OF that(2)] by simp
  then have "distinct (map pol_id (purchase_order_lines d'))"
    using orders_okD(2) [OF ok] rows(7) by (auto simp: d' draft_lines_def distinct_map_filter)
  moreover have "distinct (map po_id (purchase_orders d'))"
    using orders_okD(1) [OF ok] by (simp add: d' comp_def keep)
  moreover have "pol_id l \<le> auto_inc d' T_purchase_order_line" if "l \<in> set (purchase_order_lines d')" for l
    using that orders_okD(4) [OF ok, of l] old [of l] rows(6) [of l] d'(5) by (auto simp: d'(2) ai)
  ultimately show ?thesis
    using ok unfolding orders_ok_def d'(4) by (auto simp: d'(1-3) keep)
qed

lemma find_order_Some: "find_order d c i = Some po \<Longrightarrow> po \<in> set (purchase_orders d) \<and> order_key c i po"
  unfolding find_order_def order_key_def by (drule find_SomeD) simp

lemma update_order_ok:
  assumes "orders_ok d" and "updatePurchaseOrder input now d = Inr (ro, d')"
  shows "orders_ok d'"
proof -
  let ?c = "uo_companyId input" and ?i = "uo_orderId input"
  from updatePurchaseOrder_db [OF assms(2)] consider "d' = d" | po d1 where
    "find_order d ?c ?i = Some po" "po_status po = PO_DRAFT"
    "d1 = d \<or> d1 = d\<lparr>purchase_orders := update_where (order_key ?c ?i) (update_order_header input now) (purchase_orders d)\<rparr>"
    "d' = d1 \<or> (\<exists>ls. replace_lines input ls now d1 = Inr d')" by blast
  then show ?thesis
  proof cases
    case 2
    have ok: "orders_ok d1" using assms(1) update_header_ok 2(3) by metis
    have "\<exists>q \<in> set (purchase_orders d1). order_key ?c ?i q \<and> po_status q = 1"
      using find_order_Some [OF 2(1)] 2(2,3)
      by (elim disjE) (auto simp: bex_update_where update_order_header_def order_key_def)
    with ok 2(4) replace_lines_ok show ?thesis by metis
  qed (use assms(1) in simp)
qed

subsection \<open>Transitions\<close>

lemma allowed_transition_iff:
  "allowed_transition a b \<longleftrightarrow> (a, b) \<in> {(1, 2), (1, 5), (2, 3), (2, 4), (2, 5), (3, 4), (3, 5), (4, 5)}"
proof -
  have name: "status_name s = (if s = 1 then Some ''DRAFT'' else if s = 2 then Some ''SENT'' else
      if s = 3 then Some ''PARTIAL_RECEIVED'' else if s = 4 then Some ''RECEIVED'' else
      if s = 5 then Some ''CLOSED'' else None)" for s
    by (simp add: status_name_def PURCHASE_ORDER_STATUS_def)
  show ?thesis
    by (simp add: allowed_transition_def name VALID_TRANSITIONS_def)
qed

lemma transition_db:
  assumes "transitionPurchaseOrderStatus c u i s now d = Inr (ro, d')"
  shows "d' = d \<or> (\<exists>po. find_order d c i = Some po \<and> allowed_transition (po_status po) s \<and>
    (s = 4 \<longrightarrow> (\<forall>l \<in> set (purchase_order_lines d). pol_order_id l = i \<longrightarrow> pol_company_id l = c \<longrightarrow>
      pol_qty l \<le> pol_received_qty l)) \<and> d' = set_order_status (order_key c i) s u now d)"
  using assms
  by (auto dest!: all_received_Inr simp: transitionPurchaseOrderStatus_def Let_def inr_simps split: option.splits if_splits)

lemma transition_ok:
  assumes "orders_ok d" and "transitionPurchaseOrderStatus c u i s now d = Inr (ro, d')"
  shows "orders_ok d'"
  using transition_db [OF assms(2)]
proof
  assume "\<exists>po. find_order d c i = Some po \<and> allowed_transition (po_status po) s \<and>
    (s = 4 \<longrightarrow> (\<forall>l \<in> set (purchase_order_lines d). pol_order_id l = i \<longrightarrow> pol_company_id l = c \<longrightarrow>
      pol_qty l \<le> pol_received_qty l)) \<and> d' = set_order_status (order_key c i) s u now d"
  then obtain po where po: "find_order d c i = Some po" and allowed: "allowed_transition (po_status po) s"
    and full: "s = 4 \<Longrightarrow> l \<in> set (purchase_order_lines d) \<Longrightarrow> pol_order_id l = i \<Longrightarrow> pol_company_id l = c \<Longrightarrow>
      pol_qty l \<le> pol_received_qty l" and d': "d' = set_order_status (order_key c i) s u now d" for l by blast
  note po = find_order_Some [OF po]
  let ?f = "\<lambda>p. if order_key c i p then p\<lparr>po_status := s, po_updated_by_user_id := Some u, po_updated_at := now\<rparr> else p"
  show ?thesis
  proof (rule orders_ok_map [OF assms(1), where f = ?f])
    fix p assume p: "p \<in> set (purchase_orders d)" "order_ok d p"
    show "order_ok d' (?f p)"
    proof (cases "order_key c i p")
      case True
      then have "p = po" using same_order [OF assms(1) p(1)] po by (auto simp: order_key_def)
      have "fully_received d i" if "s = 4"
        using full [OF that] order_company [OF assms(1) _ p(1)] True by (auto simp: fully_received_def order_key_def)
      with allowed p(2) True show ?thesis unfolding \<open>p = po\<close>
        by (auto simp: order_ok_def allowed_transition_iff nothing_received_def fully_received_def d'
            set_order_status_def order_key_def)
    next
      case False
      have "order_ok d' p = order_ok d p" by (rule order_ok_cong) (simp_all add: d' set_order_status_def)
      with p False show ?thesis by simp
    qed
  qed (simp_all add: d' set_order_status_def update_where_def keeps_order_def)
qed (use assms(1) in simp)

subsection \<open>Receipts\<close>

lemma checked_line_list:
  assumes "check_receipt_lines d c input = Inr es"
  shows "map (\<lambda>(n, line, u). line) es = igr_lines input"
proof -
  have "map (\<lambda>(n, line, u). line) es = map (\<lambda>nl. snd nl) (map (\<lambda>(n, line, u). (n, line)) es)"
    by (simp add: case_prod_unfold)
  also have "\<dots> = igr_lines input"
    using map_numbered [of "\<lambda>l. l" "igr_lines input"] by (simp only: check_receipt_lines_Inr(2) [OF assms] list.map_ident)
  finally show ?thesis .
qed

lemma checked_lines:
  "check_receipt_lines d c input = Inr es \<Longrightarrow> (\<lambda>(n, line, u). line) ` set es = set (igr_lines input)"
  by (metis checked_line_list list.set_map)

lemma receipt_update:
  assumes "orders_ok d" and "check_receipt_lines d c input = Inr es" and "(n, line, Some u) \<in> set es"
  obtains l po where "l \<in> set (purchase_order_lines d)" and "pol_id l = pu_po_line_id u" and "pol_company_id l = c"
    and "igrl_po_line_id line = Some (pol_id l)" and "line \<in> set (igr_lines input)"
    and "po \<in> set (purchase_orders d)" and "po_id po = pol_order_id l" and "receivable (po_status po)"
    and "toScaled4 (igrl_qty line) = Inr (pu_gr_qty u)" and "pu_new_received_qty u = pol_received_qty l + pu_gr_qty u"
proof -
  have "check_receipt_line d c (igr_supplier_id input) line = Inr (Some u)"
    using check_receipt_lines_Inr(1) [OF assms(2)] assms(3) by (auto simp: list_all_iff)
  then obtain l po where l: "igrl_po_line_id line = Some (pol_id l)" "l \<in> set (purchase_order_lines d)"
    "pol_company_id l = c" "joined_order d (pol_order_id l) = Some po" "receivable (po_status po)"
    "pu_po_line_id u = pol_id l" "toScaled4 (igrl_qty line) = Inr (pu_gr_qty u)"
    "pu_new_received_qty u = pol_received_qty l + pu_gr_qty u"
    by (rule check_receipt_line_Some)
  moreover have "po \<in> set (purchase_orders d)" "po_id po = pol_order_id l"
    using l(4) unfolding joined_order_def by (auto dest: find_SomeD)
  moreover have "line \<in> set (igr_lines input)" using checked_lines [OF assms(2)] assms(3) by force
  ultimately show thesis using that [of l po] by simp
qed

lemma find_order_line_unique:
  assumes "orders_ok d" and "l \<in> set (purchase_order_lines d)"
  shows "find_order_line d (pol_id l) = Some l"
  unfolding find_order_line_def
  by (rule find_unique [where k = pol_id, OF orders_okD(2) [OF assms(1)] assms(2)]) simp_all

lemma touched_orders_iff:
  "i \<in> touched_orders d input \<longleftrightarrow> (\<exists>line \<in> set (igr_lines input). \<exists>k l. igrl_po_line_id line = Some k \<and>
     find_order_line d k = Some l \<and> i = pol_order_id l)"
  by (fastforce simp: touched_orders_def affectedPOIds_def set_map_filter_iff Option.bind_eq_Some_conv)

text \<open>The received quantity of an order line after the receipt, with the receipt line behind it.\<close>

lemma received_qty_after:
  assumes ok: "orders_ok d" and rec: "received c u input now d es rows d'" and l: "l \<in> set (purchase_order_lines d)"
  defines "l' \<equiv> fold (receive_line c now) (updates_of es) l"
  shows "pol_received_qty l' = pol_received_qty l \<or>
    (\<exists>r \<in> set rows. grl_po_line_id r = Some (pol_id l) \<and> pol_received_qty l' = pol_received_qty l + grl_qty r) \<and>
      pol_order_id l \<in> touched_orders d input"
proof -
  have es: "check_receipt_lines d c input = Inr es"
    and rows: "list_all2 (receipt_row_for c (next_id d T_goods_receipt)) es rows"
    using rec by (simp_all add: received_def)
  let ?hit = "\<lambda>u. pol_id l = pu_po_line_id u \<and> pol_company_id l = c"
  have "fold (\<lambda>u r. if ?hit u then pu_new_received_qty u else r) us q = q \<or>
      (\<exists>u \<in> set us. ?hit u \<and> fold (\<lambda>u r. if ?hit u then pu_new_received_qty u else r) us q = pu_new_received_qty u)" for us q
    by (induction us arbitrary: q) (auto, metis)
  from this [of "updates_of es" "pol_received_qty l"] consider
    "pol_received_qty l' = pol_received_qty l"
    | v where "v \<in> set (updates_of es)" "?hit v" "pol_received_qty l' = pu_new_received_qty v"
    unfolding l'_def received_after by blast
  then show ?thesis
  proof cases
    case 2
    then obtain n line where e: "(n, line, Some v) \<in> set es" by (auto simp: set_updates_of)
    from ok es e obtain m po where m: "m \<in> set (purchase_order_lines d)" "pol_id m = pu_po_line_id v"
      "igrl_po_line_id line = Some (pol_id m)" "line \<in> set (igr_lines input)" "toScaled4 (igrl_qty line) = Inr (pu_gr_qty v)"
      "pu_new_received_qty v = pol_received_qty m + pu_gr_qty v" by (rule receipt_update)
    have ml: "m = l" using distinct_map_eq [OF orders_okD(2) [OF ok] m(1) l] m(2) 2(2) by simp
    obtain r where "r \<in> set rows" "receipt_row_for c (next_id d T_goods_receipt) (n, line, Some v) r"
      using list_all2_left [OF rows e] by blast
    with m ml 2(3) have "\<exists>r \<in> set rows. grl_po_line_id r = Some (pol_id l) \<and>
        pol_received_qty l' = pol_received_qty l + grl_qty r" by (auto simp: receipt_row_for_def)
    moreover have "pol_order_id l \<in> touched_orders d input"
      using m(3,4) ml find_order_line_unique [OF ok l] by (auto simp: touched_orders_iff)
    ultimately show ?thesis by blast
  qed simp
qed

lemma touched_receivable:
  assumes "orders_ok d" and "check_receipt_lines d c input = Inr es"
    and "po \<in> set (purchase_orders d)" and "po_id po \<in> touched_orders d input"
  shows "receivable (po_status po)"
proof -
  from assms(4) obtain line k l where line: "line \<in> set (igr_lines input)" "igrl_po_line_id line = Some k"
      "find_order_line d k = Some l" "po_id po = pol_order_id l" by (auto simp: touched_orders_iff)
  then obtain n w where e: "(n, line, w) \<in> set es" using checked_lines [OF assms(2)] by force
  then have "check_receipt_line d c (igr_supplier_id input) line = Inr w"
    using check_receipt_lines_Inr(1) [OF assms(2)] by (auto simp: list_all_iff)
  with line(2) obtain u where "w = Some u" using check_receipt_line_None by (cases w) auto
  with e have "(n, line, Some u) \<in> set es" by simp
  with assms(1,2) obtain m q where m: "m \<in> set (purchase_order_lines d)" "igrl_po_line_id line = Some (pol_id m)"
    "q \<in> set (purchase_orders d)" "po_id q = pol_order_id m" "receivable (po_status q)" by (rule receipt_update)
  have "m = l" using find_order_line_unique [OF assms(1) m(1)] m(2) line(2,3) by simp
  with m(4) line(4) have "q = po" using same_order [OF assms(1) m(3) assms(3)] by simp
  with m(5) show ?thesis by simp
qed

lemma sum_for_map:
  "(\<And>x. key (f x) = key x) \<Longrightarrow> (\<And>x. amt (f x) = amt x) \<Longrightarrow> sum_for key amt k (map f xs) = sum_for key amt k xs"
  by (induction xs) simp_all

lemma received_rows_nonneg:
  assumes "received c u input now d es rows d'"
  shows "\<forall>r \<in> set rows. 0 \<le> grl_qty r"
proof -
  have "list_all2 (receipt_row_for c (next_id d T_goods_receipt)) es rows" using assms by (simp add: received_def)
  then have "list_all2 (\<lambda>_ r. 0 \<le> grl_qty r) es rows"
    by (rule list_all2_mono) (auto simp: receipt_row_for_def dest: toScaled4_nonneg)
  then show ?thesis by (induction rule: list_all2_induct) auto
qed

lemma received_facts:
  assumes ok: "orders_ok d" and rec: "received c u input now d es rows d'" and l: "l \<in> set (purchase_order_lines d)"
  shows "pol_received_qty l \<le> pol_received_qty (fold (receive_line c now) (updates_of es) l)"
    and "pol_received_qty (fold (receive_line c now) (updates_of es) l) \<le>
      pol_received_qty l + sum_for grl_po_line_id grl_qty (Some (pol_id l)) rows"
    and "pol_order_id l \<notin> touched_orders d input \<Longrightarrow>
      pol_received_qty (fold (receive_line c now) (updates_of es) l) = pol_received_qty l"
proof -
  note nn = received_rows_nonneg [OF rec]
  have le: "grl_qty r \<le> sum_for grl_po_line_id grl_qty (grl_po_line_id r) rows" if "r \<in> set rows" for r
    using that nn
  proof (induction rows)
    case (Cons x xs)
    then have "0 \<le> sum_for grl_po_line_id grl_qty k xs" for k by (intro sum_for_nonneg) simp
    with Cons show ?case by (auto simp: add_increasing)
  qed simp
  note after = received_qty_after [OF ok rec l]
  have "0 \<le> sum_for grl_po_line_id grl_qty (Some (pol_id l)) rows" using nn by (intro sum_for_nonneg) simp
  with after nn le show
    "pol_received_qty l \<le> pol_received_qty (fold (receive_line c now) (updates_of es) l)"
    "pol_received_qty (fold (receive_line c now) (updates_of es) l) \<le>
      pol_received_qty l + sum_for grl_po_line_id grl_qty (Some (pol_id l)) rows"
    by fastforce+
  show "pol_received_qty (fold (receive_line c now) (updates_of es) l) = pol_received_qty l"
    if "pol_order_id l \<notin> touched_orders d input" using after that by blast
qed

lemma received_ok:
  assumes ok: "orders_ok d" and rec: "received c u input now d es rows d'"
  shows "orders_ok d'"
proof -
  let ?F = "fold (receive_line c now) (updates_of es)"
  let ?f = "\<lambda>p. if po_id p \<in> touched_orders d input then auto_order d' u now p else p"
  have d': "purchase_orders d' = map ?f (purchase_orders d)" "purchase_order_lines d' = map ?F (purchase_order_lines d)"
    "goods_receipt_lines d' = goods_receipt_lines d @ rows" "auto_inc d' T_purchase_order = auto_inc d T_purchase_order"
    "auto_inc d' T_purchase_order_line = auto_inc d T_purchase_order_line"
    and es: "check_receipt_lines d c input = Inr es"
    using rec by (simp_all add: received_def)
  note facts = received_facts [OF ok rec]
  have keep: "po_id (?f p) = po_id p" "po_company_id (?f p) = po_company_id p" "po_total_amount (?f p) = po_total_amount p" for p
    by simp_all
  have "line_ok d' (?F l)" if l: "l \<in> set (purchase_order_lines d)" for l
  proof -
    have lok: "line_ok d l" using orders_okD(4) [OF ok l] by simp
    then obtain po where po: "po \<in> set (purchase_orders d)" "po_id po = pol_order_id l" "po_company_id po = pol_company_id l"
      by (auto simp: line_ok_def)
    then have "\<exists>q \<in> set (purchase_orders d'). po_id q = pol_order_id l \<and> po_company_id q = pol_company_id l"
      unfolding d'(1) set_map by (intro bexI [of _ "?f po"] imageI) simp_all
    then show ?thesis using lok facts(1,2) [OF l] unfolding line_ok_def d'(3) by simp
  qed
  moreover have f_ok: "order_ok d' (?f p)" if p: "p \<in> set (purchase_orders d)" for p
  proof -
    have okp: "order_ok d p" using orders_okD(3) [OF ok p] by simp
    have "sum_for pol_order_id pol_line_total (po_id p) (purchase_order_lines d') =
        sum_for pol_order_id pol_line_total (po_id p) (purchase_order_lines d)"
      unfolding d'(2) by (rule sum_for_map) simp_all
    with okp have tot: "po_total_amount (?f p) = sum_for pol_order_id pol_line_total (po_id (?f p)) (purchase_order_lines d')"
      by (simp add: order_ok_def keep)
    show ?thesis
    proof (cases "po_id p \<in> touched_orders d input")
      case True
      then have "po_status (?f p) = (if fully_received d' (po_id p) then 4 else 3)"
        using touched_receivable [OF ok es p] by (simp add: auto_order_status)
      with tot keep show ?thesis by (simp add: order_ok_def)
    next
      case False
      then have "nothing_received d' (po_id p) = nothing_received d (po_id p)"
          "fully_received d' (po_id p) = fully_received d (po_id p)"
        using facts(3) by (auto simp: nothing_received_def fully_received_def d'(2))
      with okp tot False show ?thesis by (simp add: order_ok_def)
    qed
  qed
  moreover have "\<forall>q \<in> set (purchase_orders d'). po_id q \<le> auto_inc d' T_purchase_order \<and> order_ok d' q"
  proof
    fix q assume "q \<in> set (purchase_orders d')"
    then obtain p where p: "p \<in> set (purchase_orders d)" and q: "q = ?f p" unfolding d'(1) set_map by blast
    have "po_id q = po_id p" unfolding q by (rule keep)
    with f_ok [OF p] orders_okD(3) [OF ok p] show "po_id q \<le> auto_inc d' T_purchase_order \<and> order_ok d' q"
      unfolding q d'(4) by simp
  qed
  moreover have "distinct (map po_id (purchase_orders d'))" "distinct (map pol_id (purchase_order_lines d'))"
    using orders_okD(1,2) [OF ok] by (simp_all add: d' comp_def keep)
  moreover have "\<forall>g \<in> set (goods_receipt_lines d'). 0 \<le> grl_qty g"
    using ok received_rows_nonneg [OF rec] by (auto simp: orders_ok_def d'(3))
  ultimately show ?thesis
    using ok unfolding orders_ok_def by (simp add: d'(2,5))
qed

lemma receive_db:
  assumes "createGoodsReceipt c u input now d = Inr (a, d')" and "orders_ok d"
  shows "d' = d \<or> (\<exists>es rows. received c u input now d es rows d')"
proof (cases "existing_receipt d c (igr_idempotency_key input)")
  case None
  obtain r ws where a: "a = (r, ws)" by fastforce
  from assms(1) None obtain i where "create_receipt_trx c u input now d = Inr ((i, ws), d')"
    unfolding a by (rule createGoodsReceipt_new)
  from create_receipt_trx_effect [OF this orders_okD(1) [OF assms(2)]] show ?thesis by blast
next
  case (Some a')
  with assms(1) show ?thesis by (simp add: createGoodsReceipt_def)
qed

section \<open>Reachable tables\<close>

lemma order_step_ok:
  assumes "order_step d d'" and "orders_ok d"
  shows "orders_ok d'"
  using assms
proof cases
  case (create_order input now epochMs rnd r)
  from create_order_db [OF this orders_okD(5) [OF assms(2)]] assms(2) create_order_ok show ?thesis by blast
next
  case (update_order input now ro)
  then show ?thesis using update_order_ok assms(2) by blast
next
  case (change_status c u i s now ro)
  then show ?thesis using transition_ok assms(2) by blast
next
  case (receive_goods c u g now a)
  from receive_db [OF this assms(2)] received_ok assms(2) show ?thesis by blast
next
  case other_service
  then have "line_ok d' l = line_ok d l" "order_ok d' p = order_ok d p" for l p
    by (simp_all add: line_ok_def order_ok_def nothing_received_def fully_received_def)
  with other_service assms(2) show ?thesis by (simp add: orders_ok_def)
qed

lemma order_reachable_ok: "order_reachable d \<Longrightarrow> orders_ok d"
proof (induction rule: order_reachable.induct)
  case (start d)
  then show ?case by (simp add: orders_ok_def)
next
  case (step d d')
  then show ?case using order_step_ok by blast
qed

end
