(* ===== verification/Order_Properties.thy ===== *)
theory Order_Properties
  imports Order_Lifecycle
begin

text \<open>
  The properties of purchase orders and goods receipts: the invariant of the reachable tables,
  how an order moves on, when a status change is accepted, what a receipt does, and the
  repetition of a receipt under its key.
\<close>

section \<open>Lemmas\<close>

text \<open>An order line without what receiving changes.\<close>

definition ordered :: "purchase_order_line_row \<Rightarrow> purchase_order_line_row" where
  "ordered l = l\<lparr>pol_received_qty := 0, pol_updated_at := 0\<rparr>"

definition ordered_lines :: "db \<Rightarrow> nat \<Rightarrow> purchase_order_line_row list" where
  "ordered_lines d i = map ordered (filter (\<lambda>l. pol_order_id l = i) (purchase_order_lines d))"

lemma ordered_receive_lines: "ordered (fold (receive_line c now) us l) = ordered l"
proof (induction us arbitrary: l)
  case (Cons u us)
  have "ordered (receive_line c now u l) = ordered l" by (simp add: receive_line_def ordered_def)
  with Cons show ?case by simp
qed simp

lemma ordered_lines_map:
  "purchase_order_lines d' = map f (purchase_order_lines d) \<Longrightarrow> (\<And>l. pol_order_id (f l) = pol_order_id l) \<Longrightarrow>
   (\<And>l. ordered (f l) = ordered l) \<Longrightarrow> ordered_lines d' i = ordered_lines d i"
  unfolding ordered_lines_def by (simp add: filter_map comp_def)

lemma find_order_map:
  assumes "purchase_orders d' = map f (purchase_orders d)" and "\<And>p. po_id (f p) = po_id p"
    and "\<And>p. po_company_id (f p) = po_company_id p"
  shows "find_order d' c i = map_option f (find_order d c i)"
proof -
  have "find (\<lambda>p. po_id p = i \<and> po_company_id p = c) (map f pos) =
      map_option f (find (\<lambda>p. po_id p = i \<and> po_company_id p = c) pos)" for pos
    using assms(2,3) by (induction pos) auto
  then show ?thesis by (simp add: find_order_def assms(1))
qed

text \<open>What one step does to one order.\<close>

definition moves_on :: "db \<Rightarrow> db \<Rightarrow> purchase_order_row \<Rightarrow> purchase_order_row \<Rightarrow> bool" where
  "moves_on d d' po po' \<longleftrightarrow> po_status po \<le> po_status po' \<and> (po_status po = PO_CLOSED \<longrightarrow> po' = po) \<and>
     po_order_no po' = po_order_no po \<and> po_supplier_id po' = po_supplier_id po \<and>
     (po_status po \<noteq> PO_DRAFT \<longrightarrow> ordered_lines d' (po_id po) = ordered_lines d (po_id po))"

lemma moves_on_refl: "purchase_order_lines d' = purchase_order_lines d \<Longrightarrow> moves_on d d' po po"
  by (simp add: moves_on_def ordered_lines_def)

lemma allowed_transition_increases: "allowed_transition a b \<Longrightarrow> a < b \<and> a \<noteq> 5"
  by (auto simp: allowed_transition_iff)

lemma create_moves_on:
  assumes "orders_ok d" and "createPurchaseOrder input now epochMs rnd d = Inr (r, d')" and "find_order d c i = Some po"
  shows "find_order d' c i = Some po \<and> moves_on d d' po po"
proof -
  from create_order_db [OF assms(2) orders_okD(5) [OF assms(1)]] consider "d' = d"
    | ps amount rows no where "order_inserted input ps now no d amount rows d'" by blast
  then show ?thesis
  proof cases
    case 2
    note tables = order_inserted_tables [OF 2]
    from 2 have "\<forall>r \<in> set rows. pol_order_id r = next_id d T_purchase_order"
      unfolding order_inserted_def Let_def using order_rows_facts(2) by blast
    moreover have "po_id po \<noteq> next_id d T_purchase_order"
      using find_order_Some [OF assms(3)] orders_okD(3) [OF assms(1), of po] by (auto simp: next_id_def)
    ultimately have "filter (\<lambda>l. pol_order_id l = po_id po) rows = []" by (simp add: filter_empty_conv)
    with assms(3) show ?thesis
      by (simp add: find_order_def find_append tables moves_on_def ordered_lines_def)
  qed (use assms(3) in \<open>simp add: moves_on_refl\<close>)
qed

lemma replace_moves_on:
  assumes "replace_lines input ls now d = Inr d'" and "find_order d c i = Some po" and "orders_ok d"
    and "locked \<in> set (purchase_orders d)" and "order_key (uo_companyId input) (uo_orderId input) locked"
    and "po_status locked = PO_DRAFT"
  shows "\<exists>po'. find_order d' c i = Some po' \<and> moves_on d d' po po'"
proof -
  let ?c = "uo_companyId input" and ?i = "uo_orderId input"
  from assms(1) obtain ps rows amount d2 where
    ins: "order_lines_inserted ?c ?i (d\<lparr>purchase_order_lines := draft_lines d ?c ?i\<rparr>) ps rows d2"
    and d': "d' = d2\<lparr>purchase_orders := update_where (order_key ?c ?i) (\<lambda>po. po\<lparr>po_total_amount := amount,
      po_updated_by_user_id := Some (uo_userId input), po_updated_at := now\<rparr>) (purchase_orders d)\<rparr>"
    by (rule replace_lines_effect)
  let ?f = "\<lambda>p. if order_key ?c ?i p then p\<lparr>po_total_amount := amount,
      po_updated_by_user_id := Some (uo_userId input), po_updated_at := now\<rparr> else p"
  have "find_order d' c i = map_option ?f (find_order d c i)"
    by (rule find_order_map) (simp_all add: d' update_where_def)
  moreover have "moves_on d d' po (?f po)"
  proof (cases "po_id po = ?i")
    case True
    then have "po = locked"
      using same_order [OF assms(3) _ assms(4)] find_order_Some [OF assms(2)] assms(5) by (simp add: order_key_def)
    with assms(6) show ?thesis by (simp add: moves_on_def)
  next
    case False
    have "filter (\<lambda>l. pol_order_id l = po_id po) rows = []"
      using order_rows_facts(2) [OF ins] False by (auto simp: filter_empty_conv)
    moreover have "filter (\<lambda>l. pol_order_id l = po_id po) (draft_lines d ?c ?i) =
        filter (\<lambda>l. pol_order_id l = po_id po) (purchase_order_lines d)"
      using False unfolding draft_lines_def filter_filter by (intro filter_cong) auto
    moreover have "purchase_order_lines d' = draft_lines d ?c ?i @ rows"
      using ins by (simp add: d' order_lines_inserted_def)
    ultimately have "ordered_lines d' (po_id po) = ordered_lines d (po_id po)" by (simp add: ordered_lines_def)
    moreover have "?f po = po" using False by (simp add: order_key_def)
    ultimately show ?thesis by (simp add: moves_on_def)
  qed
  ultimately show ?thesis using assms(2) by auto
qed

lemma moves_on_trans:
  assumes "moves_on d d1 po po1" and "moves_on d1 d2 po1 po2" and "po_id po1 = po_id po" and "po_status po1 = po_status po"
  shows "moves_on d d2 po po2"
  using assms by (auto simp: moves_on_def)

lemma update_moves_on:
  assumes ok: "orders_ok d" and "updatePurchaseOrder input now d = Inr (ro, d')" and po: "find_order d c i = Some po"
  shows "\<exists>po'. find_order d' c i = Some po' \<and> moves_on d d' po po'"
proof -
  let ?c = "uo_companyId input" and ?i = "uo_orderId input"
  let ?h = "update_where (order_key ?c ?i) (update_order_header input now) (purchase_orders d)"
  let ?f = "\<lambda>p. if order_key ?c ?i p then update_order_header input now p else p"
  from updatePurchaseOrder_db [OF assms(2)] consider "d' = d" | locked d1 where
    "find_order d ?c ?i = Some locked" "po_status locked = PO_DRAFT"
    "d1 = d \<or> d1 = d\<lparr>purchase_orders := ?h\<rparr>" "d' = d1 \<or> (\<exists>ls. replace_lines input ls now d1 = Inr d')" by blast
  then show ?thesis
  proof cases
    case 2
    note locked = find_order_Some [OF 2(1)]
    have "\<exists>po1. find_order d1 c i = Some po1 \<and> po_id po1 = po_id po \<and> po_status po1 = po_status po \<and> moves_on d d1 po po1"
      using 2(3)
    proof
      assume d1: "d1 = d\<lparr>purchase_orders := ?h\<rparr>"
      have "find_order d1 c i = map_option ?f (find_order d c i)"
        by (rule find_order_map) (simp_all add: d1 update_where_def update_order_header_def)
      moreover have "po = locked" if "order_key ?c ?i po"
        using same_order [OF ok _ conjunct1 [OF locked]] find_order_Some [OF po] locked that by (simp add: order_key_def)
      ultimately show ?thesis
        using po 2(2) by (auto simp: moves_on_def update_order_header_def d1 ordered_lines_def)
    qed (use po in \<open>simp add: moves_on_refl\<close>)
    then obtain po1 where po1: "find_order d1 c i = Some po1" "po_id po1 = po_id po" "po_status po1 = po_status po"
      "moves_on d d1 po po1" by blast
    have "\<exists>q \<in> set (purchase_orders d1). order_key ?c ?i q \<and> po_status q = PO_DRAFT"
      using locked 2(2,3) by (elim disjE) (auto simp: bex_update_where update_order_header_def order_key_def)
    then obtain q where q: "q \<in> set (purchase_orders d1)" "order_key ?c ?i q" "po_status q = PO_DRAFT" by blast
    have ok1: "orders_ok d1" using ok update_header_ok 2(3) by metis
    from 2(4) show ?thesis
    proof
      assume "\<exists>ls. replace_lines input ls now d1 = Inr d'"
      then obtain ls where "replace_lines input ls now d1 = Inr d'" by blast
      from replace_moves_on [OF this po1(1) ok1 q] moves_on_trans [OF po1(4) _ po1(2,3)] show ?thesis by blast
    qed (use po1 in blast)
  qed (use po in \<open>auto simp: moves_on_refl\<close>)
qed

lemma transition_moves_on:
  assumes ok: "orders_ok d" and "transitionPurchaseOrderStatus c' u i' s now d = Inr (ro, d')" and po: "find_order d c i = Some po"
  shows "\<exists>po'. find_order d' c i = Some po' \<and> moves_on d d' po po'"
  using transition_db [OF assms(2)]
proof (elim disjE exE conjE)
  fix q assume q: "find_order d c' i' = Some q" "allowed_transition (po_status q) s"
    and d': "d' = set_order_status (order_key c' i') s u now d"
  let ?f = "\<lambda>p. if order_key c' i' p then p\<lparr>po_status := s, po_updated_by_user_id := Some u, po_updated_at := now\<rparr> else p"
  have "find_order d' c i = map_option ?f (find_order d c i)"
    by (rule find_order_map) (simp_all add: d' set_order_status_def update_where_def)
  moreover have "po = q" if "order_key c' i' po"
    using same_order [OF ok, of po q] find_order_Some [OF po] find_order_Some [OF q(1)] that by (simp add: order_key_def)
  ultimately show ?thesis
    using po allowed_transition_increases [OF q(2)]
    by (auto simp: moves_on_def d' set_order_status_def ordered_lines_def)
qed (use po in \<open>auto simp: moves_on_refl\<close>)

lemma receive_moves_on:
  assumes ok: "orders_ok d" and "createGoodsReceipt c' u g now d = Inr (a, d')" and po: "find_order d c i = Some po"
  shows "\<exists>po'. find_order d' c i = Some po' \<and> moves_on d d' po po'"
  using receive_db [OF assms(2) ok]
proof (elim disjE exE)
  fix es rows assume rec: "received c' u g now d es rows d'"
  then have es: "check_receipt_lines d c' g = Inr es" by (simp add: received_def)
  let ?f = "\<lambda>p. if po_id p \<in> touched_orders d g then auto_order d' u now p else p"
  have "find_order d' c i = map_option ?f (find_order d c i)"
    by (rule find_order_map) (use rec in \<open>simp_all add: received_def\<close>)
  moreover have "ordered_lines d' (po_id po) = ordered_lines d (po_id po)"
    by (rule ordered_lines_map [where f = "fold (receive_line c' now) (updates_of es)"])
      (use rec in \<open>simp_all add: received_def ordered_receive_lines\<close>)
  moreover have "receivable (po_status po)" if "po_id po \<in> touched_orders d g"
    using touched_receivable [OF ok es _ that] find_order_Some [OF po] by simp
  ultimately show ?thesis
    using po by (auto simp: moves_on_def auto_order_status receivable_def)
qed (use po in \<open>auto simp: moves_on_refl\<close>)

text \<open>
  The received quantity of an order line is fixed by the last line of the request that names it:
  every line is judged on the stored quantity.
\<close>

definition line_quantity :: "GoodsReceiptLine \<Rightarrow> int" where
  "line_quantity line = (case toScaled4 (igrl_qty line) of Inr q \<Rightarrow> q | Inl _ \<Rightarrow> 0)"

lemma received_by_last:
  assumes ok: "orders_ok d" and l: "l \<in> set (purchase_order_lines d)"
    and "list_all (\<lambda>(n, line, u). check_receipt_line d c s line = Inr u) es"
  shows "fold (\<lambda>u r. if pol_id l = pu_po_line_id u \<and> pol_company_id l = c then pu_new_received_qty u else r)
      (updates_of es) (pol_received_qty l) =
    (case rev (filter (\<lambda>line. igrl_po_line_id line = Some (pol_id l)) (map (\<lambda>(n, line, u). line) es)) of
       [] \<Rightarrow> pol_received_qty l | line # _ \<Rightarrow> pol_received_qty l + line_quantity line)"
  using assms(3)
proof (induction es rule: rev_induct)
  case (snoc e es)
  obtain n line w where e: "e = (n, line, w)" by (rule prod_cases3)
  have app: "updates_of (es @ [e]) = updates_of es @ updates_of [e]"
    by (simp add: updates_of_def List.map_filter_def)
  have chk: "check_receipt_line d c s line = Inr w" using snoc.prems by (simp add: e)
  show ?case
  proof (cases w)
    case None
    with chk check_receipt_line_None have "igrl_po_line_id line = None" by blast
    with None snoc.IH snoc.prems show ?thesis unfolding app by (simp add: e)
  next
    case (Some u)
    with chk obtain m po where m: "igrl_po_line_id line = Some (pol_id m)" "m \<in> set (purchase_order_lines d)"
      "pol_company_id m = c" "pu_po_line_id u = pol_id m" "toScaled4 (igrl_qty line) = Inr (pu_gr_qty u)"
      "pu_new_received_qty u = pol_received_qty m + pu_gr_qty u" by (metis check_receipt_line_Some)
    show ?thesis
    proof (cases "pol_id l = pol_id m")
      case True
      then have "m = l" using distinct_map_eq [OF orders_okD(2) [OF ok] m(2) l] by simp
      with m have "igrl_po_line_id line = Some (pol_id l)" "pol_company_id l = c" "pu_po_line_id u = pol_id l"
        "pu_new_received_qty u = pol_received_qty l + line_quantity line" by (simp_all add: line_quantity_def)
      then show ?thesis unfolding app by (simp add: e Some)
    next
      case False
      with m(1,4) have "igrl_po_line_id line \<noteq> Some (pol_id l)" "pol_id l \<noteq> pu_po_line_id u" by simp_all
      with snoc.IH snoc.prems show ?thesis unfolding app by (simp add: e Some)
    qed
  qed
qed simp

lemma all_received_total:
  "\<forall>l \<in> set ls. 0 \<le> pol_qty l \<and> 0 \<le> pol_received_qty l \<Longrightarrow>
   all_received ls = Inr (\<forall>l \<in> set ls. pol_qty l \<le> pol_received_qty l)"
proof (induction ls)
  case (Cons l ls)
  then have "line_received l = Inr (pol_qty l \<le> pol_received_qty l)" by (simp add: line_received_def)
  with Cons show ?case by simp
qed simp

lemma receipt_line_quantity:
  assumes "orders_ok d" and "check_receipt_lines d c input = Inr es" and "line \<in> set (igr_lines input)"
    and "igrl_po_line_id line = Some k"
  shows "\<exists>q. toScaled4 (igrl_qty line) = Inr q"
proof -
  from assms(3) obtain n w where e: "(n, line, w) \<in> set es" using checked_lines [OF assms(2)] by force
  then have "check_receipt_line d c (igr_supplier_id input) line = Inr w"
    using check_receipt_lines_Inr(1) [OF assms(2)] by (auto simp: list_all_iff)
  with assms(4) show ?thesis
    by (cases w) (auto dest: check_receipt_line_None elim!: check_receipt_line_Some)
qed

section \<open>Sample tables\<close>

text \<open>The sample order, sent: order 3 with line 3 over 2.5 units.\<close>

definition draft_order_db :: db where
  "draft_order_db = run_op (createPurchaseOrder sample_order_input 0 sample_clock sample_bytes sample_db)"

definition sent_order_db :: db where
  "sent_order_db = run_op (transitionPurchaseOrderStatus 1 7 3 PO_SENT 10 draft_order_db)"

definition sample_receipt :: "string \<Rightarrow> string list \<Rightarrow> GoodsReceiptCreate" where
  "sample_receipt ref qtys = \<lparr>igr_supplier_id = 1, igr_idempotency_key = Some ref, igr_reference_number = ref,
     igr_receipt_date = 20575, igr_notes = None,
     igr_lines = map (\<lambda>q. \<lparr>igrl_po_line_id = Some 3, igrl_item_id = None, igrl_description = None,
       igrl_qty = q, igrl_unit = None\<rparr>) qtys\<rparr>"

lemma sent_order_reachable: "order_reachable draft_order_db" "order_reachable sent_order_db"
proof -
  have "case createPurchaseOrder sample_order_input 0 sample_clock sample_bytes sample_db of Inr _ \<Rightarrow> True | Inl _ \<Rightarrow> False"
    by code_simp
  from run_op_Inr [OF this] have "order_step sample_db draft_order_db"
    unfolding draft_order_db_def by (auto intro: order_step.create_order)
  moreover have "order_reachable sample_db" by (rule order_reachable.start) (simp_all add: sample_db_def empty_db_def)
  ultimately show draft: "order_reachable draft_order_db" by (blast intro: order_reachable.step)
  have "case transitionPurchaseOrderStatus 1 7 3 PO_SENT 10 draft_order_db of Inr _ \<Rightarrow> True | Inl _ \<Rightarrow> False"
    by code_simp
  from run_op_Inr [OF this] have "order_step draft_order_db sent_order_db"
    unfolding sent_order_db_def by (auto intro: order_step.change_status)
  with draft show "order_reachable sent_order_db" by (blast intro: order_reachable.step)
qed

lemma sample_receipt_accepted:
  "case createGoodsReceipt 1 7 (sample_receipt ''G-1'' [''1.5'']) 20 sent_order_db of Inr _ \<Rightarrow> True | Inl _ \<Rightarrow> False"
  "case createGoodsReceipt 1 7 (sample_receipt ''G-2'' [''2.5'', ''0.5'']) 20 sent_order_db of Inr _ \<Rightarrow> True | Inl _ \<Rightarrow> False"
  by code_simp+

section \<open>Properties\<close>

text \<open>
  C7: In every reachable state an order has one of the five statuses; until something arrives (draft
  or sent) nothing is received on its lines; when it is fully received, every line has at least the
  ordered quantity; what a line has received is never more than the receipts recorded for it; and
  the order's total is the sum of its line totals.
\<close>

theorem order_invariant:
  assumes "order_reachable d" and "po \<in> set (purchase_orders d)" and "l \<in> set (purchase_order_lines d)"
    and "pol_order_id l = po_id po"
  shows "PO_DRAFT \<le> po_status po \<and> po_status po \<le> PO_CLOSED \<and>
    (po_status po \<le> PO_SENT \<longrightarrow> pol_received_qty l = 0) \<and>
    (po_status po = PO_RECEIVED \<longrightarrow> pol_qty l \<le> pol_received_qty l) \<and>
    pol_received_qty l \<le> sum_list (map grl_qty (filter (\<lambda>g. grl_po_line_id g = Some (pol_id l)) (goods_receipt_lines d))) \<and>
    po_total_amount po = sum_list (map pol_line_total (filter (\<lambda>m. pol_order_id m = po_id po) (purchase_order_lines d)))"
proof -
  note ok = order_reachable_ok [OF assms(1)]
  have "order_ok d po" "line_ok d l" using orders_okD(3,4) [OF ok] assms(2,3) by simp_all
  then show ?thesis
    using assms(3,4) by (simp add: order_ok_def line_ok_def nothing_received_def fully_received_def sum_for_def)
qed

theorem order_invariant_witness:
  "\<exists>d po l. order_reachable d \<and> po \<in> set (purchase_orders d) \<and> l \<in> set (purchase_order_lines d) \<and>
     po_status po = PO_PARTIAL_RECEIVED \<and> pol_received_qty l = 15000 \<and>
     pol_received_qty l \<le> sum_list (map grl_qty (filter (\<lambda>g. grl_po_line_id g = Some (pol_id l)) (goods_receipt_lines d)))"
proof -
  let ?d = "run_op (createGoodsReceipt 1 7 (sample_receipt ''G-1'' [''1.5'']) 20 sent_order_db)"
  have "order_step sent_order_db ?d"
    using run_op_Inr [OF sample_receipt_accepted(1)] by (auto intro: order_step.receive_goods)
  with sent_order_reachable(2) have reach: "order_reachable ?d" by (blast intro: order_reachable.step)
  have "case (purchase_orders ?d, purchase_order_lines ?d) of ([po], [l]) \<Rightarrow>
      pol_order_id l = po_id po \<and> po_status po = PO_PARTIAL_RECEIVED \<and> pol_received_qty l = 15000 | _ \<Rightarrow> False"
    by code_simp
  then obtain po l where "purchase_orders ?d = [po]" "purchase_order_lines ?d = [l]" "pol_order_id l = po_id po"
    "po_status po = PO_PARTIAL_RECEIVED" "pol_received_qty l = 15000"
    by (auto split: list.splits)
  with order_invariant [OF reach, of po l] reach show ?thesis
    by (intro exI [of _ ?d] exI [of _ po] exI [of _ l]) simp
qed

text \<open>
  C29: A step never takes an order away, never lowers its status and never changes a closed order;
  its number and supplier stay, and once it is no draft so do its lines, up to what they have
  received.
\<close>

theorem order_moves_on:
  assumes "order_reachable d" and "order_step d d'" and "find_order d c i = Some po"
  shows "\<exists>po'. find_order d' c i = Some po' \<and> po_status po \<le> po_status po' \<and>
    (po_status po = PO_CLOSED \<longrightarrow> po' = po) \<and> po_order_no po' = po_order_no po \<and>
    po_supplier_id po' = po_supplier_id po \<and>
    (po_status po \<noteq> PO_DRAFT \<longrightarrow> ordered_lines d' (po_id po) = ordered_lines d (po_id po))"
proof -
  note ok = order_reachable_ok [OF assms(1)]
  have "\<exists>po'. find_order d' c i = Some po' \<and> moves_on d d' po po'"
    using assms(2)
  proof cases
    case other_service
    with assms(3) show ?thesis by (simp add: find_order_def moves_on_refl)
  next
    case (create_order input now epochMs rnd r)
    from create_moves_on [OF ok this assms(3)] show ?thesis by blast
  next
    case (update_order input now ro)
    from update_moves_on [OF ok this assms(3)] show ?thesis .
  next
    case (change_status c' u i' s now ro)
    from transition_moves_on [OF ok this assms(3)] show ?thesis .
  next
    case (receive_goods c' u g now a)
    from receive_moves_on [OF ok this assms(3)] show ?thesis .
  qed
  then show ?thesis by (auto simp: moves_on_def)
qed

theorem order_moves_on_witness:
  "\<exists>d' po po'. order_step sent_order_db d' \<and> find_order sent_order_db 1 3 = Some po \<and> find_order d' 1 3 = Some po' \<and>
     po_status po \<le> po_status po' \<and> ordered_lines d' 3 = ordered_lines sent_order_db 3"
proof -
  let ?d = "run_op (createGoodsReceipt 1 7 (sample_receipt ''G-1'' [''1.5'']) 20 sent_order_db)"
  have step: "order_step sent_order_db ?d"
    using run_op_Inr [OF sample_receipt_accepted(1)] by (auto intro: order_step.receive_goods)
  have "case find_order sent_order_db 1 3 of Some po \<Rightarrow> po_status po = PO_SENT \<and> po_id po = 3 | None \<Rightarrow> False" by code_simp
  then obtain po where po: "find_order sent_order_db 1 3 = Some po" "po_status po = PO_SENT" "po_id po = 3"
    by (auto split: option.splits)
  from order_moves_on [OF sent_order_reachable(2) step po(1)] po(2,3) obtain po' where
    "find_order ?d 1 3 = Some po'" "po_status po \<le> po_status po'" "ordered_lines ?d 3 = ordered_lines sent_order_db 3"
    by auto
  with step po(1) show ?thesis by blast
qed

text \<open>
  A status change is accepted exactly when it is one of eight forward moves and, towards fully
  received, every line has its ordered quantity; otherwise the error names both statuses, or says
  that the receipt is incomplete, and nothing changes.
\<close>

theorem transition_exact:
  assumes "order_reachable d" and "find_order d c i = Some po"
  shows "(if (po_status po, s) \<in> {(1, 2), (1, 5), (2, 3), (2, 4), (2, 5), (3, 4), (3, 5), (4, 5)}
     then if s = PO_RECEIVED \<and> \<not> (\<forall>l \<in> set (purchase_order_lines d). pol_order_id l = i \<longrightarrow> pol_qty l \<le> pol_received_qty l)
       then transitionPurchaseOrderStatus c u i s now d = Inl RECEIPT_INCOMPLETE
       else \<exists>r. transitionPurchaseOrderStatus c u i s now d =
         Inr (Some r, set_order_status (\<lambda>p. po_id p = i \<and> po_company_id p = c) s u now d) \<and> rpo_status r = s
     else transitionPurchaseOrderStatus c u i s now d = Inl (INVALID_TRANSITION (po_status po) s))"
proof -
  note ok = order_reachable_ok [OF assms(1)]
  note po = find_order_Some [OF assms(2)]
  let ?ls = "filter (\<lambda>l. pol_order_id l = i \<and> pol_company_id l = c) (purchase_order_lines d)"
  let ?full = "\<forall>l \<in> set (purchase_order_lines d). pol_order_id l = i \<longrightarrow> pol_qty l \<le> pol_received_qty l"
  have "\<forall>l \<in> set ?ls. 0 \<le> pol_qty l \<and> 0 \<le> pol_received_qty l"
    using orders_okD(4) [OF ok] by (simp add: line_ok_def)
  note b = all_received_total [OF this]
  have "pol_company_id l = c" if "l \<in> set (purchase_order_lines d)" "pol_order_id l = i" for l
    using order_company [OF ok that(1), of po] po that(2) by (simp add: order_key_def)
  then have full: "(\<forall>l \<in> set ?ls. pol_qty l \<le> pol_received_qty l) \<longleftrightarrow> ?full" by auto
  have key: "order_key c i = (\<lambda>p. po_id p = i \<and> po_company_id p = c)" by (rule ext) (simp add: order_key_def)
  let ?d = "set_order_status (order_key c i) s u now d"
  have "find (\<lambda>p. po_id p = i) (purchase_orders d) = Some po"
    by (rule find_unique [where k = po_id, OF orders_okD(1) [OF ok]]) (use po in \<open>auto simp: order_key_def\<close>)
  then have "find (\<lambda>p. po_id p = i) (purchase_orders ?d) =
      Some (po\<lparr>po_status := s, po_updated_by_user_id := Some u, po_updated_at := now\<rparr>)"
    using po by (simp add: set_order_status_def find_update_where)
  then obtain r where r: "read_order ?d i = Some r" "rpo_status r = s"
    by (auto simp: read_order_def formatOrderRow_def)
  have run: "transitionPurchaseOrderStatus c u i s now d =
      bindR (require (allowed_transition (po_status po) s) (INVALID_TRANSITION (po_status po) s)) (\<lambda>_.
      bindR (if s = PO_RECEIVED then require ?full RECEIPT_INCOMPLETE else Inr ()) (\<lambda>_. Inr (Some r, ?d)))"
    unfolding transitionPurchaseOrderStatus_def assms(2) b full Let_def r(1) by (simp only: option.case bindR_simps)
  show ?thesis
  proof (cases "allowed_transition (po_status po) s")
    case True
    then have "(po_status po, s) \<in> {(1, 2), (1, 5), (2, 3), (2, 4), (2, 5), (3, 4), (3, 5), (4, 5)}"
      by (simp only: allowed_transition_iff)
    moreover have "transitionPurchaseOrderStatus c u i s now d =
        (if s = PO_RECEIVED \<and> \<not> ?full then Inl RECEIPT_INCOMPLETE else Inr (Some r, ?d))"
    proof -
      define F where "F \<longleftrightarrow> ?full"
      show ?thesis using True unfolding run F_def [symmetric] by (cases "s = PO_RECEIVED"; cases F) simp_all
    qed
    ultimately show ?thesis using r(2) unfolding key by (simp only: if_True split: if_split) blast
  next
    case False
    then have "(po_status po, s) \<notin> {(1, 2), (1, 5), (2, 3), (2, 4), (2, 5), (3, 4), (3, 5), (4, 5)}"
      by (simp only: allowed_transition_iff not_False_eq_True)
    moreover have "transitionPurchaseOrderStatus c u i s now d = Inl (INVALID_TRANSITION (po_status po) s)"
      unfolding run using False by simp
    ultimately show ?thesis by (simp only: if_False)
  qed
qed

theorem transition_exact_witness:
  "transitionPurchaseOrderStatus 1 7 3 PO_RECEIVED 20 sent_order_db = Inl RECEIPT_INCOMPLETE \<and>
   transitionPurchaseOrderStatus 1 7 3 PO_DRAFT 20 sent_order_db = Inl (INVALID_TRANSITION PO_SENT PO_DRAFT) \<and>
   (\<exists>r. transitionPurchaseOrderStatus 1 7 3 PO_CLOSED 20 sent_order_db =
      Inr (Some r, set_order_status (\<lambda>p. po_id p = 3 \<and> po_company_id p = 1) PO_CLOSED 7 20 sent_order_db) \<and> rpo_status r = PO_CLOSED)"
proof -
  have "case find_order sent_order_db 1 3 of Some po \<Rightarrow> po_status po = PO_SENT | None \<Rightarrow> False" by code_simp
  then obtain po where po: "find_order sent_order_db 1 3 = Some po" "po_status po = PO_SENT" by (auto split: option.splits)
  have partly: "\<not> (\<forall>l \<in> set (purchase_order_lines sent_order_db). pol_order_id l = 3 \<longrightarrow> pol_qty l \<le> pol_received_qty l)"
    by code_simp
  note exact = transition_exact [OF sent_order_reachable(2) po(1), where u = 7 and now = 20]
  from exact [of PO_RECEIVED] exact [of PO_DRAFT] exact [of PO_CLOSED] partly po(2) show ?thesis by simp
qed

text \<open>No line of an order is named by two lines of the request.\<close>

definition named_once :: "GoodsReceiptCreate \<Rightarrow> bool" where
  "named_once input \<longleftrightarrow> distinct (List.map_filter igrl_po_line_id (igr_lines input))"

lemma named_once_filter:
  "distinct (List.map_filter f xs) \<Longrightarrow> rev (filter (\<lambda>x. f x = Some k) xs) = x # rest \<Longrightarrow>
     filter (\<lambda>x. f x = Some k) xs = [x]"
proof (induction xs)
  case (Cons a xs)
  show ?case
  proof (cases "f a = Some k")
    case True
    with Cons.prems(1) have "filter (\<lambda>x. f x = Some k) xs = []"
      by (auto simp: List.map_filter_simps set_map_filter_iff filter_empty_conv)
    with True Cons.prems(2) show ?thesis by simp
  next
    case False
    with Cons.prems(1) have "distinct (List.map_filter f xs)" by (cases "f a") (simp_all add: List.map_filter_simps)
    with False Cons show ?thesis by simp
  qed
qed simp

text \<open>
  C13: A receipt under a new key adds to every order line of the company it names the quantity of the
  last request line that names it, leaves the other lines alone, and moves each order it touches to
  fully received when no line is outstanding and to partly received otherwise.  When no order line
  is named twice, every line grows by the sum of the quantities that name it, as specified; a line
  that is named twice grows by the last quantity only.
\<close>

theorem receipt_effect:
  assumes "order_reachable d" and "createGoodsReceipt c u input now d = Inr ((r, ws), d')"
    and "existing_receipt d c (igr_idempotency_key input) = None"
  shows "list_all2 (\<lambda>l l'. ordered l' = ordered l \<and>
      (named_once input \<longrightarrow> pol_received_qty l' = pol_received_qty l +
        sum_list (map line_quantity (filter (\<lambda>line. igrl_po_line_id line = Some (pol_id l)) (igr_lines input)))) \<and>
      (case rev (filter (\<lambda>line. igrl_po_line_id line = Some (pol_id l)) (igr_lines input)) of
         [] \<Rightarrow> pol_received_qty l' = pol_received_qty l
       | line # _ \<Rightarrow> (\<exists>q. toScaled4 (igrl_qty line) = Inr q \<and> pol_received_qty l' = pol_received_qty l + q) \<and>
           (\<exists>po' \<in> set (purchase_orders d'). po_id po' = pol_order_id l \<and>
             po_status po' = (if \<forall>m \<in> set (purchase_order_lines d'). pol_order_id m = pol_order_id l \<longrightarrow>
               pol_qty m \<le> pol_received_qty m then PO_RECEIVED else PO_PARTIAL_RECEIVED))))
    (purchase_order_lines d) (purchase_order_lines d')"
proof -
  note ok = order_reachable_ok [OF assms(1)]
  from assms(2,3) obtain i where "create_receipt_trx c u input now d = Inr ((i, ws), d')"
    by (rule createGoodsReceipt_new)
  from create_receipt_trx_effect [OF this orders_okD(1) [OF ok]] obtain es rows where
    rec: "received c u input now d es rows d'" by blast
  then have es: "check_receipt_lines d c input = Inr es"
    and lines: "purchase_order_lines d' = map (fold (receive_line c now) (updates_of es)) (purchase_order_lines d)"
    and orders: "purchase_orders d' = map (\<lambda>p. if po_id p \<in> touched_orders d input then auto_order d' u now p else p) (purchase_orders d)"
    by (simp_all add: received_def)
  have es_lines: "map (\<lambda>(n, line, u). line) es = igr_lines input" by (rule checked_line_list [OF es])
  let ?F = "fold (receive_line c now) (updates_of es)"
  let ?Q = "\<lambda>l l'. ordered l' = ordered l \<and>
      (named_once input \<longrightarrow> pol_received_qty l' = pol_received_qty l +
        sum_list (map line_quantity (filter (\<lambda>line. igrl_po_line_id line = Some (pol_id l)) (igr_lines input)))) \<and>
      (case rev (filter (\<lambda>line. igrl_po_line_id line = Some (pol_id l)) (igr_lines input)) of
         [] \<Rightarrow> pol_received_qty l' = pol_received_qty l
       | line # _ \<Rightarrow> (\<exists>q. toScaled4 (igrl_qty line) = Inr q \<and> pol_received_qty l' = pol_received_qty l + q) \<and>
           (\<exists>po' \<in> set (purchase_orders d'). po_id po' = pol_order_id l \<and>
             po_status po' = (if \<forall>m \<in> set (purchase_order_lines d'). pol_order_id m = pol_order_id l \<longrightarrow>
               pol_qty m \<le> pol_received_qty m then PO_RECEIVED else PO_PARTIAL_RECEIVED)))"
  have "?Q l (?F l)" if l: "l \<in> set (purchase_order_lines d)" for l
  proof (cases "rev (filter (\<lambda>line. igrl_po_line_id line = Some (pol_id l)) (igr_lines input))")
    case Nil
    with received_by_last [OF ok l check_receipt_lines_Inr(1) [OF es]] show ?thesis
      by (simp add: es_lines received_after ordered_receive_lines)
  next
    case (Cons line rest)
    then have "line \<in> set (rev (filter (\<lambda>line. igrl_po_line_id line = Some (pol_id l)) (igr_lines input)))" by simp
    then have line: "line \<in> set (igr_lines input)" "igrl_po_line_id line = Some (pol_id l)" by simp_all
    obtain q where q: "toScaled4 (igrl_qty line) = Inr q" using receipt_line_quantity [OF ok es line] by blast
    have touched: "pol_order_id l \<in> touched_orders d input"
      using line find_order_line_unique [OF ok l] by (auto simp: touched_orders_iff)
    obtain po where po: "po \<in> set (purchase_orders d)" "po_id po = pol_order_id l"
      using orders_okD(4) [OF ok l] by (auto simp: line_ok_def)
    have "auto_order d' u now po \<in> set (purchase_orders d')"
      using po touched unfolding orders set_map by (intro image_eqI [of _ _ po]) simp_all
    moreover have "po_status (auto_order d' u now po) = (if fully_received d' (pol_order_id l) then PO_RECEIVED else PO_PARTIAL_RECEIVED)"
      using touched_receivable [OF ok es po(1)] touched po(2) by (simp add: auto_order_status)
    moreover have "pol_received_qty (?F l) = pol_received_qty l + q"
      using received_by_last [OF ok l check_receipt_lines_Inr(1) [OF es]] Cons q
      by (simp add: es_lines received_after line_quantity_def)
    moreover have "filter (\<lambda>line. igrl_po_line_id line = Some (pol_id l)) (igr_lines input) = [line]" if "named_once input"
      using named_once_filter [OF _ Cons] that by (simp add: named_once_def)
    moreover have "line_quantity line = q" using q by (simp add: line_quantity_def)
    ultimately show ?thesis
      using Cons q po(2) by (auto simp: ordered_receive_lines fully_received_def intro!: bexI [of _ "auto_order d' u now po"])
  qed
  then have "list_all2 ?Q (purchase_order_lines d) (map ?F (purchase_order_lines d))"
    by (simp only: list_all2_map2 list_all2_same) blast
  then show ?thesis unfolding lines [symmetric] .
qed

theorem receipt_effect_witness:
  "\<exists>r ws d'. createGoodsReceipt 1 7 (sample_receipt ''G-1'' [''1.5'']) 20 sent_order_db = Inr ((r, ws), d') \<and>
     map pol_received_qty (purchase_order_lines sent_order_db) = [0] \<and>
     map pol_received_qty (purchase_order_lines d') = [15000]"
proof -
  from run_op_Inr [OF sample_receipt_accepted(1)] obtain r ws d' where
    cr: "createGoodsReceipt 1 7 (sample_receipt ''G-1'' [''1.5'']) 20 sent_order_db = Inr ((r, ws), d')" by auto
  have none: "existing_receipt sent_order_db 1 (igr_idempotency_key (sample_receipt ''G-1'' [''1.5''])) = None" by code_simp
  have "case purchase_order_lines sent_order_db of [l] \<Rightarrow> pol_received_qty l = 0 \<and> pol_id l = 3 | _ \<Rightarrow> False" by code_simp
  then obtain l where l: "purchase_order_lines sent_order_db = [l]" "pol_received_qty l = 0" "pol_id l = 3"
    by (auto split: list.splits)
  have q: "toScaled4 ''1.5'' = Inr 15000" by code_simp
  from receipt_effect [OF sent_order_reachable(2) cr none] q show ?thesis using cr
    by (auto simp: l list_all2_Cons1 sample_receipt_def simp del: toScaled4_def)
qed

text \<open>
  A request that names the same order line twice records both receipt lines but adds only the
  last quantity: received and recorded quantities drift apart.
\<close>

theorem duplicate_line_lost:
  "\<exists>a d'. createGoodsReceipt 1 7 (sample_receipt ''G-2'' [''2.5'', ''0.5'']) 20 sent_order_db = Inr (a, d') \<and>
     order_reachable sent_order_db \<and> map pol_received_qty (purchase_order_lines d') = [5000] \<and>
     map grl_qty (goods_receipt_lines d') = [25000, 5000] \<and>
     map po_status (purchase_orders d') = [PO_PARTIAL_RECEIVED]"
proof -
  have "(case createGoodsReceipt 1 7 (sample_receipt ''G-2'' [''2.5'', ''0.5'']) 20 sent_order_db of
      Inr (a, d') \<Rightarrow> map pol_received_qty (purchase_order_lines d') = [5000] \<and>
        map grl_qty (goods_receipt_lines d') = [25000, 5000] \<and> map po_status (purchase_orders d') = [PO_PARTIAL_RECEIVED]
    | Inl _ \<Rightarrow> False)" by code_simp
  with sent_order_reachable(2) show ?thesis by (auto split: sum.splits)
qed

section \<open>Repeated receipts\<close>

definition receipt_keys :: "db \<Rightarrow> bool" where
  "receipt_keys d \<longleftrightarrow> distinct (map po_id (purchase_orders d))"

lemma parse_stored_warnings: "parseIdempotencyWarningsJson (Some (json_stringify ws)) = ws"
proof -
  have "json_stringify ws \<noteq> []" by (simp add: json_stringify_def)
  moreover have "List.map_filter (\<lambda>j. case j of JString t \<Rightarrow> Some t | _ \<Rightarrow> None) (map JString ws) = ws"
    by (induction ws) (simp_all add: List.map_filter_simps)
  ultimately show ?thesis by (simp add: parseIdempotencyWarningsJson_def truthy_str_def json_round_trip)
qed

lemma existing_receipt_None:
  assumes "existing_receipt d c (Some key) = None" and "key \<noteq> []"
  shows "find (\<lambda>gr. gr_company_id gr = c \<and> gr_idempotency_key gr = Some key) (goods_receipts d) = None"
proof (rule ccontr)
  assume "find (\<lambda>gr. gr_company_id gr = c \<and> gr_idempotency_key gr = Some key) (goods_receipts d) \<noteq> None"
  then obtain gr where gr: "find (\<lambda>gr. gr_company_id gr = c \<and> gr_idempotency_key gr = Some key) (goods_receipts d) = Some gr"
    by auto
  then have "gr \<in> set (goods_receipts d)" "gr_company_id gr = c" by (auto dest: find_SomeD)
  then have "find_receipt d c (gr_id gr) \<noteq> None" by (auto simp: find_receipt_def find_None_iff_all)
  with assms gr show False
    by (auto simp: existing_receipt_def truthy_str_def getGoodsReceiptById_def)
qed

interpretation ic_receipt: idempotent_create
  "\<lambda>d (c, u, input, now). existing_receipt d c (igr_idempotency_key input)"
  "\<lambda>(c, u, input, now). createGoodsReceipt c u input now"
  "\<lambda>(c, u, input, now). truthy_str (igr_idempotency_key input) \<noteq> None"
  "\<lambda>(c, u, i, _) (c', u', j, _). c = c' \<and> igr_idempotency_key i = igr_idempotency_key j"
  receipt_keys
proof unfold_locales
  fix d d' req a
  assume wf: "receipt_keys d"
    and keyed: "case req of (c, u, input, now) \<Rightarrow> truthy_str (igr_idempotency_key input) \<noteq> None"
    and "(case req of (c, u, input, now) \<Rightarrow> createGoodsReceipt c u input now) d = Inr (a, d')"
  then obtain c u input now key r ws where cr: "createGoodsReceipt c u input now d = Inr ((r, ws), d')"
    and req: "req = (c, u, input, now)" and key: "igr_idempotency_key input = Some key" "key \<noteq> []"
    and a: "a = (r, ws)"
    by (cases req; cases a) (auto simp: truthy_str_def split: if_splits)
  show "(case req of (c, u, input, now) \<Rightarrow> existing_receipt d' c (igr_idempotency_key input)) = Some a"
  proof (cases "existing_receipt d c (igr_idempotency_key input)")
    case None
    from cr None obtain i where trx: "create_receipt_trx c u input now d = Inr ((i, ws), d')"
      and get: "getGoodsReceiptById d' c i = Some r" by (rule createGoodsReceipt_new)
    from wf have "distinct (map po_id (purchase_orders d))" by (simp add: receipt_keys_def)
    from create_receipt_trx_effect [OF trx this] obtain es rows where "received c u input now d es rows d'"
      and i: "i = next_id d T_goods_receipt" and ws: "ws = overReceiptWarnings es" by blast
    then have grs: "goods_receipts d' = goods_receipts d @ [new_receipt_row c u input ws now i]" by (simp add: received_def)
    have "find (\<lambda>gr. gr_company_id gr = c \<and> gr_idempotency_key gr = Some key) (goods_receipts d) = None"
      using existing_receipt_None None key by metis
    then have "find (\<lambda>gr. gr_company_id gr = c \<and> gr_idempotency_key gr = Some key) (goods_receipts d') =
        Some (new_receipt_row c u input ws now i)"
      by (simp add: grs find_append new_receipt_row_def key)
    then show ?thesis
      using get key by (simp add: req a existing_receipt_def truthy_str_def new_receipt_row_def parse_stored_warnings)
  next
    case (Some a')
    then show ?thesis using cr by (simp add: req a createGoodsReceipt_def)
  qed
qed (auto simp: createGoodsReceipt_def)

text \<open>
  Repeating a receipt under its key answers with the first receipt as it now reads and with the
  over-receipt warnings of the first time, read back from the JSON that was stored, and changes
  nothing.
\<close>

theorem createGoodsReceipt_idempotent:
  assumes "order_reachable d" and "igr_idempotency_key input = Some key" and "key \<noteq> []"
    and "createGoodsReceipt c u input now d = Inr ((r, ws), d')" and "igr_idempotency_key input' = Some key"
  shows "createGoodsReceipt c u' input' now' d' = Inr ((r, ws), d')"
proof -
  have "receipt_keys d" using orders_okD(1) [OF order_reachable_ok [OF assms(1)]] by (simp add: receipt_keys_def)
  then show ?thesis
    using ic_receipt.repeat_same [of d "(c, u, input, now)" "(r, ws)" d' "(c, u', input', now')"] assms(2-)
    by (simp add: truthy_str_def)
qed

lemma answer_with_warnings:
  "(case m of Inr ((r, ws), d') \<Rightarrow> ws = w | Inl _ \<Rightarrow> False) \<Longrightarrow> \<exists>r d'. m = Inr ((r, w), d')"
  by (auto split: sum.splits prod.splits)

theorem createGoodsReceipt_idempotent_witness:
  "\<exists>r d'. createGoodsReceipt 1 7 (sample_receipt ''G-2'' [''2.5'', ''3'']) 20 sent_order_db =
       Inr ((r, [''Line 2: Received qty 3 exceeds remaining PO qty 2.5000. Over-receipt allowed.'']), d') \<and>
     createGoodsReceipt 1 7 (sample_receipt ''G-2'' []) 30 d' =
       Inr ((r, [''Line 2: Received qty 3 exceeds remaining PO qty 2.5000. Over-receipt allowed.'']), d')"
proof -
  let ?w = "[''Line 2: Received qty 3 exceeds remaining PO qty 2.5000. Over-receipt allowed.'']"
  have "(case createGoodsReceipt 1 7 (sample_receipt ''G-2'' [''2.5'', ''3'']) 20 sent_order_db of
      Inr ((r, ws), d') \<Rightarrow> ws = ?w | Inl _ \<Rightarrow> False)" by code_simp
  from answer_with_warnings [OF this] obtain r d' where
    cr: "createGoodsReceipt 1 7 (sample_receipt ''G-2'' [''2.5'', ''3'']) 20 sent_order_db = Inr ((r, ?w), d')" by blast
  have key: "igr_idempotency_key (sample_receipt ''G-2'' qs) = Some ''G-2''" for qs by (simp add: sample_receipt_def)
  have ne: "''G-2'' \<noteq> []" by simp
  from createGoodsReceipt_idempotent [OF sent_order_reachable(2) key ne cr key, of 7 "[]" 30] cr show ?thesis by blast
qed

end
