(* ===== verification/Ap_Aging.thy ===== *)
theory Ap_Aging
  imports Open_Amount Sample_Tables
begin

text \<open>
  The aging of what a company owes (\<open>services/ap-aging-report-service.ts\<close>): every posted
  invoice that is not settled falls into one of five buckets by the days since it was due, and
  the report adds up per supplier, per currency and overall.  A date is a day count and the
  service's clock runs in UTC.  The rows of \<open>settings_numbers\<close> are a parameter
  (\<open>setting_value\<close> has six decimals, and so have the days of a payment term), and so is
  \<open>le\<close>, the order of \<open>localeCompare\<close>.
\<close>

section \<open>Buckets\<close>

datatype AgingBucketKey = B_current | B_due_1_30 | B_due_31_60 | B_due_61_90 | B_due_over_90

fun bucket_rank :: "AgingBucketKey \<Rightarrow> nat" where
  "bucket_rank B_current = 0"
| "bucket_rank B_due_1_30 = 1"
| "bucket_rank B_due_31_60 = 2"
| "bucket_rank B_due_61_90 = 3"
| "bucket_rank B_due_over_90 = 4"

text \<open>Buckets are ordered by age.\<close>

instantiation AgingBucketKey :: linorder
begin

definition less_eq_AgingBucketKey :: "AgingBucketKey \<Rightarrow> AgingBucketKey \<Rightarrow> bool" where
  "less_eq_AgingBucketKey a b \<longleftrightarrow> bucket_rank a \<le> bucket_rank b"

definition less_AgingBucketKey :: "AgingBucketKey \<Rightarrow> AgingBucketKey \<Rightarrow> bool" where
  "less_AgingBucketKey a b \<longleftrightarrow> bucket_rank a < bucket_rank b"

instance
proof
  fix a b :: AgingBucketKey
  show "a \<le> b \<Longrightarrow> b \<le> a \<Longrightarrow> a = b" by (cases a; cases b) (simp_all add: less_eq_AgingBucketKey_def)
qed (auto simp: less_eq_AgingBucketKey_def less_AgingBucketKey_def)

end

definition dateWithOffset :: "int \<Rightarrow> int \<Rightarrow> int" where
  "dateWithOffset baseDate offsetMillionths = baseDate + offsetMillionths div 1000000"

definition daysPastDue :: "int \<Rightarrow> int \<Rightarrow> int" where
  "daysPastDue asOfDate dueDate = asOfDate - dueDate"

definition resolveBucket :: "int \<Rightarrow> int \<Rightarrow> AgingBucketKey" where
  "resolveBucket asOfDate dueDate =
     (let overdueDays = daysPastDue asOfDate dueDate in
      if overdueDays \<le> 0 then B_current
      else if overdueDays \<le> 30 then B_due_1_30
      else if overdueDays \<le> 60 then B_due_31_60
      else if overdueDays \<le> 90 then B_due_61_90
      else B_due_over_90)"

type_synonym buckets = "AgingBucketKey \<Rightarrow> int"

definition zeroBuckets :: buckets where
  "zeroBuckets = (\<lambda>_. 0)"

definition add_bucket :: "AgingBucketKey \<Rightarrow> int \<Rightarrow> buckets \<Rightarrow> buckets" where
  "add_bucket k v b = b(k := b k + v)"

record APAgingBuckets =
  ab_current :: string
  ab_due_1_30 :: string
  ab_due_31_60 :: string
  ab_due_61_90 :: string
  ab_due_over_90 :: string

definition formatBuckets :: "buckets \<Rightarrow> APAgingBuckets" where
  "formatBuckets b =
     \<lparr>ab_current = fromScaled4 (b B_current), ab_due_1_30 = fromScaled4 (b B_due_1_30),
      ab_due_31_60 = fromScaled4 (b B_due_31_60), ab_due_61_90 = fromScaled4 (b B_due_61_90),
      ab_due_over_90 = fromScaled4 (b B_due_over_90)\<rparr>"

definition divScaled4 :: "int \<Rightarrow> int \<Rightarrow> int" where
  "divScaled4 numeratorScaled4 denominatorScaled8 =
     (if denominatorScaled8 \<le> 0 then numeratorScaled4
      else big_div (numeratorScaled4 * 100000000 + big_div denominatorScaled8 2) denominatorScaled8)"

section \<open>Open invoices\<close>

record settings_number_row =
  sn_company_id :: nat
  sn_outlet_id :: "nat option"
  sn_setting_key :: string
  sn_setting_value :: "int option"

record RawInvoiceBalanceRow =
  rw_purchase_invoice_id :: nat
  rw_invoice_no :: string
  rw_invoice_date :: int
  rw_due_date :: "int option"
  rw_supplier_id :: nat
  rw_supplier_name :: string
  rw_supplier_currency :: string
  rw_invoice_currency :: string
  rw_supplier_payment_terms_days :: "nat option"
  rw_company_payment_terms_days :: "int option"
  rw_exchange_rate :: int
  rw_grand_total :: int
  rw_base_total :: int
  rw_paid_base :: int
  rw_credited_base :: int

definition raw_row :: "db \<Rightarrow> nat \<Rightarrow> purchase_invoice_row \<Rightarrow> supplier_row \<Rightarrow> int option \<Rightarrow> RawInvoiceBalanceRow" where
  "raw_row d companyId pi s terms =
     \<lparr>rw_purchase_invoice_id = pi_id pi, rw_invoice_no = pi_invoice_no pi, rw_invoice_date = pi_invoice_date pi,
      rw_due_date = pi_due_date pi, rw_supplier_id = pi_supplier_id pi, rw_supplier_name = sup_name s,
      rw_supplier_currency = sup_currency s, rw_invoice_currency = pi_currency_code pi,
      rw_supplier_payment_terms_days = sup_payment_terms_days s, rw_company_payment_terms_days = terms,
      rw_exchange_rate = pi_exchange_rate pi, rw_grand_total = pi_grand_total pi,
      rw_base_total = base_grand_total pi, rw_paid_base = paid_total d companyId (pi_id pi),
      rw_credited_base = credited_total d companyId (pi_id pi)\<rparr>"

text \<open>The left join with the settings: one row per matching setting, or one without.\<close>

definition joined_terms :: "settings_number_row list \<Rightarrow> nat \<Rightarrow> int option list" where
  "joined_terms cs companyId =
     (let matches = filter (\<lambda>r. sn_company_id r = companyId \<and> sn_outlet_id r = None \<and>
            sn_setting_key r = ''purchase_payment_terms_days'') cs
      in if matches = [] then [None] else map sn_setting_value matches)"

definition open_invoice :: "nat \<Rightarrow> nat option \<Rightarrow> purchase_invoice_row \<Rightarrow> bool" where
  "open_invoice companyId supplierId pi \<longleftrightarrow> pi_company_id pi = companyId \<and> pi_status pi = PI_POSTED \<and>
     (\<forall>s \<in> set_option supplierId. pi_supplier_id pi = s)"

definition getRawOpenInvoiceRows ::
  "settings_number_row list \<Rightarrow> db \<Rightarrow> nat \<Rightarrow> nat option \<Rightarrow> RawInvoiceBalanceRow list" where
  "getRawOpenInvoiceRows cs d companyId supplierId =
     concat (map (\<lambda>pi. case find_supplier d companyId (pi_supplier_id pi) of
         None \<Rightarrow> []
       | Some s \<Rightarrow> map (raw_row d companyId pi s) (joined_terms cs companyId))
       (sort_key pi_invoice_date (sort_key pi_id (filter (open_invoice companyId supplierId) (purchase_invoices d)))))"

text \<open>Days in millionths, as the settings store them.\<close>

definition resolvePaymentTermsDays :: "RawInvoiceBalanceRow \<Rightarrow> int" where
  "resolvePaymentTermsDays row =
     (case rw_supplier_payment_terms_days row of
        Some days \<Rightarrow> int days * 1000000
      | None \<Rightarrow>
          (case rw_company_payment_terms_days row of
             Some companyDefault \<Rightarrow> if companyDefault \<ge> 0 then companyDefault else 30000000
           | None \<Rightarrow> 30000000))"

definition resolveDueDate :: "RawInvoiceBalanceRow \<Rightarrow> int" where
  "resolveDueDate row =
     (case rw_due_date row of
        Some due \<Rightarrow> due
      | None \<Rightarrow> dateWithOffset (rw_invoice_date row) (resolvePaymentTermsDays row))"

text \<open>
  The head of the loop body that both reports share: a row that is settled is skipped, any other
  has its open amount in the company's and in the invoice's currency.
\<close>

definition open_balance :: "RawInvoiceBalanceRow \<Rightarrow> (int \<times> int) option res" where
  "open_balance row =
     bindR (read_dec4 (rw_base_total row)) (\<lambda>baseTotal.
     bindR (read_dec4 (rw_paid_base row)) (\<lambda>paidBase.
     bindR (read_dec4 (rw_credited_base row)) (\<lambda>creditedBase.
       let openBase = baseTotal - paidBase - creditedBase in
       if openBase \<le> 0 then Inr None
       else bindR (toScaled8 (db_decimal 8 (rw_exchange_rate row))) (\<lambda>rate.
         Inr (Some (openBase, divScaled4 openBase rate))))))"

section \<open>Summary\<close>

record supplier_aging =
  sa_supplier_id :: nat
  sa_supplier_name :: string
  sa_currency :: string
  sa_total_open :: int
  sa_base_open :: int
  sa_buckets :: buckets

record aging_totals =
  at_suppliers :: "(nat \<times> supplier_aging) list"
  at_base :: int
  at_buckets :: buckets
  at_currencies :: "(string \<times> int) list"

definition no_totals :: aging_totals where
  "no_totals = \<lparr>at_suppliers = [], at_base = 0, at_buckets = zeroBuckets, at_currencies = []\<rparr>"

definition supplier_entry :: "aging_totals \<Rightarrow> RawInvoiceBalanceRow \<Rightarrow> supplier_aging" where
  "supplier_entry t row =
     (case map_of (at_suppliers t) (rw_supplier_id row) of
        Some e \<Rightarrow> e
      | None \<Rightarrow> \<lparr>sa_supplier_id = rw_supplier_id row, sa_supplier_name = rw_supplier_name row,
          sa_currency = rw_supplier_currency row, sa_total_open = 0, sa_base_open = 0, sa_buckets = zeroBuckets\<rparr>)"

definition add_to_summary :: "int \<Rightarrow> aging_totals \<Rightarrow> RawInvoiceBalanceRow \<Rightarrow> aging_totals res" where
  "add_to_summary asOfDate t row =
     bindR (open_balance row) (\<lambda>balance.
       case balance of
         None \<Rightarrow> Inr t
       | Some (openBase, openSupplier) \<Rightarrow>
           let bucket = resolveBucket asOfDate (resolveDueDate row);
               existing = supplier_entry t row;
               existing' = existing\<lparr>sa_total_open := sa_total_open existing + openSupplier,
                 sa_base_open := sa_base_open existing + openBase,
                 sa_buckets := add_bucket bucket openSupplier (sa_buckets existing)\<rparr>
           in Inr (t\<lparr>at_suppliers := AList.update (rw_supplier_id row) existing' (at_suppliers t),
                at_base := at_base t + openBase, at_buckets := add_bucket bucket openBase (at_buckets t),
                at_currencies := map_add (rw_supplier_currency row) openSupplier (at_currencies t)\<rparr>))"

record APAgingSupplierRow =
  asr_supplier_id :: nat
  asr_supplier_name :: string
  asr_currency :: string
  asr_total_open_amount :: string
  asr_base_open_amount :: string
  asr_exchange_rate_note :: string
  asr_buckets :: APAgingBuckets

record APAgingSummary =
  asu_as_of_date :: int
  asu_suppliers :: "APAgingSupplierRow list"
  asu_base_open_amount :: string
  asu_buckets :: APAgingBuckets
  asu_currency_totals :: "(string \<times> string) list"

text \<open>\<open>Array.prototype.sort\<close> is stable.\<close>

fun insert_by :: "('a \<Rightarrow> 'a \<Rightarrow> bool) \<Rightarrow> 'a \<Rightarrow> 'a list \<Rightarrow> 'a list" where
  "insert_by le x [] = [x]"
| "insert_by le x (y # ys) = (if le x y then x # y # ys else y # insert_by le x ys)"

definition sort_by :: "('a \<Rightarrow> 'a \<Rightarrow> bool) \<Rightarrow> 'a list \<Rightarrow> 'a list" where
  "sort_by le xs = foldr (insert_by le) xs []"

definition supplier_aging_row :: "supplier_aging \<Rightarrow> APAgingSupplierRow" where
  "supplier_aging_row e =
     \<lparr>asr_supplier_id = sa_supplier_id e, asr_supplier_name = sa_supplier_name e, asr_currency = sa_currency e,
      asr_total_open_amount = fromScaled4 (sa_total_open e), asr_base_open_amount = fromScaled4 (sa_base_open e),
      asr_exchange_rate_note = ''per_invoice_rate'', asr_buckets = formatBuckets (sa_buckets e)\<rparr>"

definition getAPAgingSummary ::
  "(string \<Rightarrow> string \<Rightarrow> bool) \<Rightarrow> settings_number_row list \<Rightarrow> db \<Rightarrow> nat \<Rightarrow> int \<Rightarrow> APAgingSummary res" where
  "getAPAgingSummary le cs d companyId asOfDate =
     bindR (foldM (add_to_summary asOfDate) no_totals (getRawOpenInvoiceRows cs d companyId None)) (\<lambda>t.
       Inr \<lparr>asu_as_of_date = asOfDate,
         asu_suppliers = map supplier_aging_row
           (sort_by (\<lambda>a b. le (sa_supplier_name a) (sa_supplier_name b)) (map snd (at_suppliers t))),
         asu_base_open_amount = fromScaled4 (at_base t), asu_buckets = formatBuckets (at_buckets t),
         asu_currency_totals = map (\<lambda>(currency, v). (currency, fromScaled4 v))
           (sort_by (\<lambda>a b. le (fst a) (fst b)) (at_currencies t))\<rparr>)"

section \<open>Detail of a supplier\<close>

record APAgingDetailRow =
  adr_purchase_invoice_id :: nat
  adr_pi_number :: string
  adr_pi_date :: int
  adr_due_date :: int
  adr_payment_terms_days :: int
  adr_currency :: string
  adr_exchange_rate :: string
  adr_original_amount :: string
  adr_balance :: string
  adr_base_balance :: string
  adr_bucket :: AgingBucketKey

record APAgingSupplierDetail =
  asd_as_of_date :: int
  asd_supplier_id :: nat
  asd_supplier_name :: string
  asd_currency :: string
  asd_invoices :: "APAgingDetailRow list"
  asd_total_open_amount :: string
  asd_base_open_amount :: string
  asd_buckets :: APAgingBuckets

definition add_to_detail ::
  "int \<Rightarrow> int \<times> int \<times> buckets \<times> APAgingDetailRow list \<Rightarrow> RawInvoiceBalanceRow \<Rightarrow>
     (int \<times> int \<times> buckets \<times> APAgingDetailRow list) res" where
  "add_to_detail asOfDate st row =
     (case st of (totalOpen, totalBaseOpen, buckets, invoices) \<Rightarrow>
       bindR (open_balance row) (\<lambda>balance.
         case balance of
           None \<Rightarrow> Inr st
         | Some (openBase, openSupplier) \<Rightarrow>
             let dueDate = resolveDueDate row; bucket = resolveBucket asOfDate dueDate in
             Inr (totalOpen + openSupplier, totalBaseOpen + openBase, add_bucket bucket openSupplier buckets,
               invoices @ [\<lparr>adr_purchase_invoice_id = rw_purchase_invoice_id row, adr_pi_number = rw_invoice_no row,
                 adr_pi_date = rw_invoice_date row, adr_due_date = dueDate,
                 adr_payment_terms_days = resolvePaymentTermsDays row, adr_currency = rw_invoice_currency row,
                 adr_exchange_rate = db_decimal 8 (rw_exchange_rate row),
                 adr_original_amount = db_decimal 4 (rw_grand_total row), adr_balance = fromScaled4 openSupplier,
                 adr_base_balance = fromScaled4 openBase, adr_bucket = bucket\<rparr>])))"

definition getAPAgingSupplierDetail ::
  "settings_number_row list \<Rightarrow> db \<Rightarrow> nat \<Rightarrow> nat \<Rightarrow> int \<Rightarrow> APAgingSupplierDetail option res" where
  "getAPAgingSupplierDetail cs d companyId supplierId asOfDate =
     (case getRawOpenInvoiceRows cs d companyId (Some supplierId) of
        [] \<Rightarrow> Inr (map_option (\<lambda>s. \<lparr>asd_as_of_date = asOfDate, asd_supplier_id = sup_id s,
            asd_supplier_name = sup_name s, asd_currency = sup_currency s, asd_invoices = [],
            asd_total_open_amount = ''0.0000'', asd_base_open_amount = ''0.0000'',
            asd_buckets = formatBuckets zeroBuckets\<rparr>) (find_supplier d companyId supplierId))
      | row # rows \<Rightarrow>
          bindR (foldM (add_to_detail asOfDate) (0, 0, zeroBuckets, []) (row # rows))
            (\<lambda>(totalOpen, totalBaseOpen, buckets, invoices).
            Inr (Some \<lparr>asd_as_of_date = asOfDate, asd_supplier_id = supplierId,
              asd_supplier_name = rw_supplier_name row, asd_currency = rw_supplier_currency row,
              asd_invoices = sort_key adr_due_date (sort_key adr_purchase_invoice_id invoices),
              asd_total_open_amount = fromScaled4 totalOpen, asd_base_open_amount = fromScaled4 totalBaseOpen,
              asd_buckets = formatBuckets buckets\<rparr>)))"

section \<open>Facts\<close>

text \<open>A younger invoice, or an earlier report, never falls into an older bucket.\<close>

lemma resolveBucket_mono: "asOf \<le> asOf' \<Longrightarrow> due' \<le> due \<Longrightarrow> resolveBucket asOf due \<le> resolveBucket asOf' due'"
  by (auto simp: resolveBucket_def daysPastDue_def Let_def less_eq_AgingBucketKey_def)

lemma set_insert_by: "set (insert_by le x ys) = insert x (set ys)"
  by (induction ys) auto

lemma set_sort_by [simp]: "set (sort_by le xs) = set xs"
  by (induction xs) (simp_all add: sort_by_def set_insert_by)

text \<open>What is owed on a row, in the company's and in the invoice's currency.\<close>

definition owed :: "RawInvoiceBalanceRow \<Rightarrow> int" where
  "owed row = rw_base_total row - rw_paid_base row - rw_credited_base row"

definition owed_local :: "RawInvoiceBalanceRow \<Rightarrow> int" where
  "owed_local row = divScaled4 (owed row) (rw_exchange_rate row)"

definition row_bucket :: "int \<Rightarrow> RawInvoiceBalanceRow \<Rightarrow> AgingBucketKey" where
  "row_bucket asOf row = resolveBucket asOf (resolveDueDate row)"

definition row_nonneg :: "RawInvoiceBalanceRow \<Rightarrow> bool" where
  "row_nonneg row \<longleftrightarrow> 0 \<le> rw_base_total row \<and> 0 \<le> rw_paid_base row \<and> 0 \<le> rw_credited_base row \<and>
     0 \<le> rw_exchange_rate row"

definition due_rows :: "RawInvoiceBalanceRow list \<Rightarrow> RawInvoiceBalanceRow list" where
  "due_rows rows = filter (\<lambda>row. 0 < owed row) rows"

lemma open_balance_nonneg:
  "row_nonneg row \<Longrightarrow> open_balance row = Inr (if 0 < owed row then Some (owed row, owed_local row) else None)"
  by (simp add: row_nonneg_def open_balance_def owed_def owed_local_def Let_def dec8.parse_render)

subsection \<open>The summary as a fold without errors\<close>

definition summary_step :: "int \<Rightarrow> RawInvoiceBalanceRow \<Rightarrow> aging_totals \<Rightarrow> aging_totals" where
  "summary_step asOf row t =
     (let e = supplier_entry t row in
      t\<lparr>at_suppliers := AList.update (rw_supplier_id row) (e\<lparr>sa_total_open := sa_total_open e + owed_local row,
          sa_base_open := sa_base_open e + owed row,
          sa_buckets := add_bucket (row_bucket asOf row) (owed_local row) (sa_buckets e)\<rparr>) (at_suppliers t),
        at_base := at_base t + owed row, at_buckets := add_bucket (row_bucket asOf row) (owed row) (at_buckets t),
        at_currencies := map_add (rw_supplier_currency row) (owed_local row) (at_currencies t)\<rparr>)"

lemma summary_fold:
  "\<forall>row \<in> set rows. row_nonneg row \<Longrightarrow>
   foldM (add_to_summary asOf) t rows = Inr (fold (summary_step asOf) (due_rows rows) t)"
  by (induction rows arbitrary: t)
    (simp_all add: add_to_summary_def open_balance_nonneg summary_step_def due_rows_def Let_def row_bucket_def)

text \<open>What the totals hold after the rows of a list.\<close>

definition entry_ok :: "int \<Rightarrow> RawInvoiceBalanceRow list \<Rightarrow> nat \<Rightarrow> supplier_aging \<Rightarrow> bool" where
  "entry_ok asOf rows s e \<longleftrightarrow> sa_supplier_id e = s \<and>
     sa_total_open e = sum_for rw_supplier_id owed_local s rows \<and>
     sa_base_open e = sum_for rw_supplier_id owed s rows \<and>
     (\<forall>k. sa_buckets e k = sum_for (\<lambda>r. (rw_supplier_id r, row_bucket asOf r)) owed_local (s, k) rows) \<and>
     (\<exists>r \<in> set rows. rw_supplier_id r = s \<and> rw_supplier_name r = sa_supplier_name e \<and> rw_supplier_currency r = sa_currency e)"

definition totals_ok :: "int \<Rightarrow> RawInvoiceBalanceRow list \<Rightarrow> aging_totals \<Rightarrow> bool" where
  "totals_ok asOf rows t \<longleftrightarrow> at_base t = sum_list (map owed rows) \<and>
     (\<forall>k. at_buckets t k = sum_for (row_bucket asOf) owed k rows) \<and>
     (\<forall>c. map_get0 (at_currencies t) c = sum_for rw_supplier_currency owed_local c rows) \<and>
     distinct (map fst (at_suppliers t)) \<and>
     (\<forall>s. case map_of (at_suppliers t) s of None \<Rightarrow> s \<notin> rw_supplier_id ` set rows | Some e \<Rightarrow> entry_ok asOf rows s e)"

lemma entry_ok_other:
  "entry_ok asOf rows s e \<Longrightarrow> rw_supplier_id row \<noteq> s \<Longrightarrow> entry_ok asOf (rows @ [row]) s e"
  by (auto simp: entry_ok_def)

lemma totals_step:
  assumes "totals_ok asOf rows t"
  shows "totals_ok asOf (rows @ [row]) (summary_step asOf row t)"
proof -
  let ?s = "rw_supplier_id row" and ?e = "supplier_entry t row"
  let ?e' = "?e\<lparr>sa_total_open := sa_total_open ?e + owed_local row, sa_base_open := sa_base_open ?e + owed row,
      sa_buckets := add_bucket (row_bucket asOf row) (owed_local row) (sa_buckets ?e)\<rparr>"
  have entries: "case map_of (at_suppliers t) s of None \<Rightarrow> s \<notin> rw_supplier_id ` set rows | Some e \<Rightarrow> entry_ok asOf rows s e" for s
    using assms by (simp add: totals_ok_def)
  have new: "entry_ok asOf (rows @ [row]) ?s ?e'"
  proof (cases "map_of (at_suppliers t) ?s")
    case None
    with entries [of ?s] have "?s \<notin> rw_supplier_id ` set rows" by simp
    then have "sum_for rw_supplier_id amt ?s rows = 0"
        "sum_for (\<lambda>r. (rw_supplier_id r, row_bucket asOf r)) amt (?s, k) rows = 0" for amt k
      by (auto intro!: sum_for_none)
    with None show ?thesis by (simp add: entry_ok_def supplier_entry_def add_bucket_def zeroBuckets_def)
  next
    case (Some e)
    with entries [of ?s] have "entry_ok asOf rows ?s e" by simp
    with Some show ?thesis by (auto simp: entry_ok_def supplier_entry_def add_bucket_def)
  qed
  have "case map_of (AList.update ?s ?e' (at_suppliers t)) s of
      None \<Rightarrow> s \<notin> rw_supplier_id ` set (rows @ [row]) | Some e \<Rightarrow> entry_ok asOf (rows @ [row]) s e" for s
  proof (cases "s = ?s")
    case True
    with new show ?thesis by (simp add: update_conv')
  next
    case False
    with entries [of s] show ?thesis by (auto simp: update_conv' split: option.splits intro: entry_ok_other)
  qed
  with assms show ?thesis
    by (simp add: totals_ok_def summary_step_def Let_def add_bucket_def map_get0_add distinct_update)
qed

lemma totals_ok_fold: "totals_ok asOf rows (fold (summary_step asOf) rows no_totals)"
proof (induction rows rule: rev_induct)
  case Nil
  show ?case by (simp add: totals_ok_def no_totals_def zeroBuckets_def)
qed (simp add: totals_step)

lemma detail_fold:
  "\<forall>row \<in> set rows. row_nonneg row \<Longrightarrow> \<exists>is. foldM (add_to_detail asOf) (a, b, bs, js) rows =
     Inr (a + sum_list (map owed_local (due_rows rows)), b + sum_list (map owed (due_rows rows)),
       (\<lambda>k. bs k + sum_for (row_bucket asOf) owed_local k (due_rows rows)), is)"
proof (induction rows arbitrary: a b bs js)
  case Nil
  show ?case by (simp add: due_rows_def)
next
  case (Cons row rows)
  then have nn: "row_nonneg row" and rest: "\<forall>row \<in> set rows. row_nonneg row" by simp_all
  show ?case
  proof (cases "0 < owed row")
    case True
    then obtain js' where one: "add_to_detail asOf (a, b, bs, js) row =
        Inr (a + owed_local row, b + owed row, add_bucket (row_bucket asOf row) (owed_local row) bs, js')"
      by (simp add: add_to_detail_def open_balance_nonneg [OF nn] Let_def row_bucket_def)
    from Cons.IH [OF rest] obtain is' where
      "foldM (add_to_detail asOf) (a + owed_local row, b + owed row, add_bucket (row_bucket asOf row) (owed_local row) bs, js') rows =
        Inr (a + owed_local row + sum_list (map owed_local (due_rows rows)), b + owed row + sum_list (map owed (due_rows rows)),
          (\<lambda>k. add_bucket (row_bucket asOf row) (owed_local row) bs k + sum_for (row_bucket asOf) owed_local k (due_rows rows)), is')"
      by blast
    with one True show ?thesis by (auto simp: due_rows_def add_bucket_def fun_eq_iff)
  next
    case False
    then have "add_to_detail asOf (a, b, bs, js) row = Inr (a, b, bs, js)"
      by (simp add: add_to_detail_def open_balance_nonneg [OF nn])
    with Cons.IH [OF rest, of a b bs js] False show ?thesis by (simp add: due_rows_def)
  qed
qed

subsection \<open>The rows of a company and of one of its suppliers\<close>

lemma rows_nonneg:
  assumes "amounts_nonneg d"
  shows "\<forall>row \<in> set (getRawOpenInvoiceRows cs d c s). row_nonneg row"
  using assms base_grand_total_nonneg [OF assms] paid_total_nonneg [OF assms] credited_total_nonneg [OF assms]
  by (auto simp: getRawOpenInvoiceRows_def raw_row_def row_nonneg_def amounts_nonneg_def open_invoice_def split: option.splits)

lemma sum_sort_key: "sum_list (map f (sort_key k xs)) = sum_list (map f xs)" for f :: "'a \<Rightarrow> int"
  using sum_for_sort_key [of "\<lambda>_. ()" f "()" k xs] by (simp add: sum_for_def)

lemma filter_concat: "filter P (concat xss) = concat (map (filter P) xss)"
  by (induction xss) simp_all

lemma supplier_rows:
  "getRawOpenInvoiceRows cs d c (Some s) = filter (\<lambda>row. rw_supplier_id row = s) (getRawOpenInvoiceRows cs d c None)"
proof -
  let ?rows = "\<lambda>pi. case find_supplier d c (pi_supplier_id pi) of None \<Rightarrow> []
    | Some s \<Rightarrow> map (raw_row d c pi s) (joined_terms cs c)"
  have one: "filter (\<lambda>row. rw_supplier_id row = s) (?rows pi) = (if pi_supplier_id pi = s then ?rows pi else [])" for pi
    by (auto simp: raw_row_def comp_def split: option.splits)
  have some: "concat (map (\<lambda>pi. if pi_supplier_id pi = s then ?rows pi else []) pis) =
      concat (map ?rows (filter (\<lambda>pi. pi_supplier_id pi = s) pis))" for pis
    by (induction pis) simp_all
  have "filter (open_invoice c (Some s)) pis = filter (\<lambda>pi. pi_supplier_id pi = s) (filter (open_invoice c None) pis)" for pis
    by (induction pis) (auto simp: open_invoice_def)
  then show ?thesis
    by (simp add: getRawOpenInvoiceRows_def filter_concat comp_def one some filter_sort [symmetric])
qed

lemma sum_for_filter: "sum_list (map amt (filter (\<lambda>r. key r = k) rows)) = sum_for key amt k rows"
  by (simp add: sum_for_def)

lemma sum_for_pair:
  "sum_for f amt k (filter (\<lambda>r. key r = s) rows) = sum_for (\<lambda>r. (key r, f r)) amt (s, k) rows"
  by (induction rows) auto

lemma due_rows_filter: "due_rows (filter P rows) = filter P (due_rows rows)"
  unfolding due_rows_def filter_filter by (intro filter_cong) auto

lemma row_supplier:
  assumes "row \<in> set (getRawOpenInvoiceRows cs d c s)"
  shows "\<exists>sup. find_supplier d c (rw_supplier_id row) = Some sup \<and> rw_supplier_name row = sup_name sup \<and>
    rw_supplier_currency row = sup_currency sup"
proof -
  from assms obtain pi where "row \<in> set (case find_supplier d c (pi_supplier_id pi) of None \<Rightarrow> []
      | Some s \<Rightarrow> map (raw_row d c pi s) (joined_terms cs c))"
    by (auto simp: getRawOpenInvoiceRows_def)
  then show ?thesis by (cases "find_supplier d c (pi_supplier_id pi)") (auto simp: raw_row_def)
qed

text \<open>The base total, from the invoices: each counts once per row of the settings.\<close>

definition reported_invoice :: "db \<Rightarrow> nat \<Rightarrow> purchase_invoice_row \<Rightarrow> bool" where
  "reported_invoice d c pi \<longleftrightarrow> open_invoice c None pi \<and> find_supplier d c (pi_supplier_id pi) \<noteq> None"

lemma sum_due_rows:
  "sum_list (map owed (due_rows (getRawOpenInvoiceRows cs d c None))) =
     int (length (joined_terms cs c)) *
       sum_list (map (\<lambda>pi. max 0 (open_amount d pi)) (filter (reported_invoice d c) (purchase_invoices d)))"
proof -
  let ?rows = "\<lambda>pi. case find_supplier d c (pi_supplier_id pi) of None \<Rightarrow> []
    | Some s \<Rightarrow> map (raw_row d c pi s) (joined_terms cs c)"
  let ?n = "int (length (joined_terms cs c))"
  have pos: "sum_list (map owed (due_rows rows)) = sum_list (map (\<lambda>r. max 0 (owed r)) rows)" for rows
    by (induction rows) (auto simp: due_rows_def)
  have const: "sum_list (map (\<lambda>x. k) (xs :: int option list)) = int (length xs) * k" for k xs
    by (induction xs) (simp_all add: algebra_simps)
  have inv: "sum_list (map (\<lambda>r. max 0 (owed r)) (?rows pi)) =
      (if find_supplier d c (pi_supplier_id pi) \<noteq> None then ?n * max 0 (open_amount d pi) else 0)"
    if "pi_company_id pi = c" for pi
    using that by (auto simp: raw_row_def owed_def open_amount_def comp_def const split: option.splits)
  have "sum_list (map (\<lambda>r. max 0 (owed r)) (concat (map ?rows pis))) =
      ?n * sum_list (map (\<lambda>pi. max 0 (open_amount d pi)) (filter (\<lambda>pi. find_supplier d c (pi_supplier_id pi) \<noteq> None) pis))"
    if "\<forall>pi \<in> set pis. pi_company_id pi = c" for pis
    using that by (induction pis) (simp_all add: inv distrib_left)
  then have "sum_list (map owed (due_rows (getRawOpenInvoiceRows cs d c None))) =
      ?n * sum_list (map (\<lambda>pi. max 0 (open_amount d pi)) (filter (\<lambda>pi. find_supplier d c (pi_supplier_id pi) \<noteq> None)
        (sort_key pi_invoice_date (sort_key pi_id (filter (open_invoice c None) (purchase_invoices d))))))"
    unfolding getRawOpenInvoiceRows_def pos by (simp add: open_invoice_def)
  also have "\<dots> = ?n * sum_list (map (\<lambda>pi. max 0 (open_amount d pi)) (filter (reported_invoice d c) (purchase_invoices d)))"
    by (simp add: filter_sort filter_filter reported_invoice_def [abs_def] sum_sort_key)
  finally show ?thesis .
qed

section \<open>Properties\<close>

lemma sum_for_buckets:
  "sum_for f amt B_current rows + sum_for f amt B_due_1_30 rows + sum_for f amt B_due_31_60 rows +
   sum_for f amt B_due_61_90 rows + sum_for f amt B_due_over_90 rows = sum_list (map amt rows)"
proof (induction rows)
  case (Cons row rows)
  then show ?case by (cases "f row") (simp_all add: sum_for_def)
qed (simp add: sum_for_def)

lemma summary_totals:
  assumes "amounts_nonneg d"
  shows "\<exists>t. totals_ok asOf (due_rows (getRawOpenInvoiceRows cs d c None)) t \<and>
    getAPAgingSummary le cs d c asOf = Inr \<lparr>asu_as_of_date = asOf,
      asu_suppliers = map supplier_aging_row
        (sort_by (\<lambda>a b. le (sa_supplier_name a) (sa_supplier_name b)) (map snd (at_suppliers t))),
      asu_base_open_amount = fromScaled4 (at_base t), asu_buckets = formatBuckets (at_buckets t),
      asu_currency_totals = map (\<lambda>(currency, v). (currency, fromScaled4 v))
        (sort_by (\<lambda>a b. le (fst a) (fst b)) (at_currencies t))\<rparr>"
  using totals_ok_fold [of asOf "due_rows (getRawOpenInvoiceRows cs d c None)"]
  by (intro exI [of _ "fold (summary_step asOf) (due_rows (getRawOpenInvoiceRows cs d c None)) no_totals"])
    (simp add: getAPAgingSummary_def summary_fold [OF rows_nonneg [OF assms]])

text \<open>
  C33: On tables without negative amounts the summary never fails; its total is what is open on the
  posted invoices of known suppliers, once per row the settings hold for the company's payment
  terms, and the five buckets share that total without remainder.
\<close>

theorem aging_summary_totals:
  assumes "amounts_nonneg d"
  shows "\<exists>r b. getAPAgingSummary le cs d c asOf = Inr r \<and>
    asu_base_open_amount r = fromScaled4 (int (length (joined_terms cs c)) *
      sum_list (map (\<lambda>pi. max 0 (open_amount d pi)) (filter (reported_invoice d c) (purchase_invoices d)))) \<and>
    asu_buckets r = formatBuckets b \<and>
    b B_current + b B_due_1_30 + b B_due_31_60 + b B_due_61_90 + b B_due_over_90 =
      int (length (joined_terms cs c)) *
      sum_list (map (\<lambda>pi. max 0 (open_amount d pi)) (filter (reported_invoice d c) (purchase_invoices d)))"
proof -
  from summary_totals [OF assms, of asOf cs c le] obtain t r where
    t: "totals_ok asOf (due_rows (getRawOpenInvoiceRows cs d c None)) t" and
    r: "getAPAgingSummary le cs d c asOf = Inr r" "asu_base_open_amount r = fromScaled4 (at_base t)"
      "asu_buckets r = formatBuckets (at_buckets t)"
    by auto
  from t have "at_base t = sum_list (map owed (due_rows (getRawOpenInvoiceRows cs d c None)))"
    "at_buckets t B_current + at_buckets t B_due_1_30 + at_buckets t B_due_31_60 + at_buckets t B_due_61_90 +
       at_buckets t B_due_over_90 = sum_list (map owed (due_rows (getRawOpenInvoiceRows cs d c None)))"
    by (simp_all add: totals_ok_def sum_for_buckets)
  with r show ?thesis by (intro exI [of _ r] exI [of _ "at_buckets t"]) (simp add: sum_due_rows)
qed

definition two_settings :: "settings_number_row list" where
  "two_settings = replicate 2 \<lparr>sn_company_id = 1, sn_outlet_id = None,
     sn_setting_key = ''purchase_payment_terms_days'', sn_setting_value = Some 30000000\<rparr>"

theorem aging_summary_totals_witness:
  "\<exists>r. getAPAgingSummary (\<lambda>a b. True) two_settings sample_db 1 20700 = Inr r \<and> asu_base_open_amount r = ''200.0000''"
proof -
  have "amounts_nonneg sample_db" by code_simp
  from aging_summary_totals [OF this, of "\<lambda>a b. True" two_settings 1 20700] obtain r where
    "getAPAgingSummary (\<lambda>a b. True) two_settings sample_db 1 20700 = Inr r"
    "asu_base_open_amount r = fromScaled4 (int (length (joined_terms two_settings 1)) *
      sum_list (map (\<lambda>pi. max 0 (open_amount sample_db pi)) (filter (reported_invoice sample_db 1) (purchase_invoices sample_db))))"
    by blast
  moreover have "fromScaled4 (int (length (joined_terms two_settings 1)) *
      sum_list (map (\<lambda>pi. max 0 (open_amount sample_db pi)) (filter (reported_invoice sample_db 1) (purchase_invoices sample_db)))) =
      ''200.0000''" by code_simp
  ultimately show ?thesis by simp
qed

text \<open>
  Every supplier row of the summary is what the supplier's own report shows: the same name and
  currency, the same totals and the same buckets.
\<close>

theorem aging_detail_agrees:
  assumes "amounts_nonneg d" and "getAPAgingSummary le cs d c asOf = Inr r" and "row \<in> set (asu_suppliers r)"
  shows "\<exists>det. getAPAgingSupplierDetail cs d c (asr_supplier_id row) asOf = Inr (Some det) \<and>
    asd_supplier_id det = asr_supplier_id row \<and> asd_supplier_name det = asr_supplier_name row \<and>
    asd_currency det = asr_currency row \<and> asd_total_open_amount det = asr_total_open_amount row \<and>
    asd_base_open_amount det = asr_base_open_amount row \<and> asd_buckets det = asr_buckets row"
proof -
  let ?rows = "getRawOpenInvoiceRows cs d c None"
  from summary_totals [OF assms(1), of asOf cs c le] assms(2,3) obtain t s e where
    t: "totals_ok asOf (due_rows ?rows) t" and "(s, e) \<in> set (at_suppliers t)" and e: "row = supplier_aging_row e"
    by auto
  then have s: "map_of (at_suppliers t) s = Some e" by (simp add: totals_ok_def)
  with t have ok: "entry_ok asOf (due_rows ?rows) s e" by (auto simp: totals_ok_def dest: spec [of _ s])
  let ?mine = "getRawOpenInvoiceRows cs d c (Some s)"
  from ok obtain due where due: "due \<in> set ?mine" "rw_supplier_name due = sa_supplier_name e"
    "rw_supplier_currency due = sa_currency e"
    by (auto simp: entry_ok_def supplier_rows [of _ _ _ s] due_rows_def)
  then obtain first rest where first: "?mine = first # rest" by (cases ?mine) auto
  have "\<forall>x \<in> set ?mine. rw_supplier_id x = s" by (simp add: supplier_rows [of _ _ _ s])
  with due first row_supplier [OF due(1)] row_supplier [of first cs d c "Some s"]
  have names: "rw_supplier_name first = sa_supplier_name e" "rw_supplier_currency first = sa_currency e" by auto
  have "due_rows ?mine = filter (\<lambda>r. rw_supplier_id r = s) (due_rows ?rows)"
    by (simp add: supplier_rows [of _ _ _ s] due_rows_filter)
  then have sums: "sum_list (map owed_local (due_rows ?mine)) = sa_total_open e"
    "sum_list (map owed (due_rows ?mine)) = sa_base_open e"
    "(\<lambda>k. sum_for (row_bucket asOf) owed_local k (due_rows ?mine)) = sa_buckets e"
    using ok by (simp_all add: entry_ok_def sum_for_filter sum_for_pair fun_eq_iff)
  from detail_fold [OF rows_nonneg [OF assms(1)], of asOf 0 0 zeroBuckets "[]" cs c "Some s"] obtain invs where
    "foldM (add_to_detail asOf) (0, 0, zeroBuckets, []) (first # rest) =
       Inr (sa_total_open e, sa_base_open e, sa_buckets e, invs)"
    by (auto simp: sums zeroBuckets_def first [symmetric])
  with first names ok e show ?thesis
    by (simp add: getAPAgingSupplierDetail_def supplier_aging_row_def entry_ok_def)
qed

theorem aging_detail_agrees_witness:
  "\<exists>r row det. getAPAgingSummary (\<lambda>a b. True) [] sample_db 1 20700 = Inr r \<and> asu_suppliers r = [row] \<and>
    getAPAgingSupplierDetail [] sample_db 1 1 20700 = Inr (Some det) \<and>
    asd_base_open_amount det = asr_base_open_amount row \<and> asr_base_open_amount row = ''100.0000''"
proof -
  have nn: "amounts_nonneg sample_db" by code_simp
  have "case getAPAgingSummary (\<lambda>a b. True) [] sample_db 1 20700 of Inl _ \<Rightarrow> False
    | Inr r \<Rightarrow> (case asu_suppliers r of [row] \<Rightarrow> asr_supplier_id row = 1 \<and> asr_base_open_amount row = ''100.0000'' | _ \<Rightarrow> False)"
    by code_simp
  then obtain r row where r: "getAPAgingSummary (\<lambda>a b. True) [] sample_db 1 20700 = Inr r" "asu_suppliers r = [row]"
    "asr_supplier_id row = 1" "asr_base_open_amount row = ''100.0000''"
    by (auto split: sum.splits list.splits)
  with aging_detail_agrees [OF nn r(1), of row] show ?thesis by auto
qed

end
