(* ===== verification/Js_Number.thy ===== *)
theory Js_Number
  imports Prelude "HOL-Library.Log_Nat"
begin

text \<open>
  JavaScript numbers: IEEE doubles, as the rational numbers they stand for.  \<open>fl\<close> rounds an exact
  result to the nearest double, ties to even, so \<open>a * b\<close> of the source is \<open>fl (a * b)\<close>.  Amounts
  stay far from the ends of the range, so there are no infinities, subnormals or \<open>NaN\<close> here.
\<close>

section \<open>Rounding to an integer\<close>

definition round_even :: "rat \<Rightarrow> int" where
  "round_even x =
     (let f = \<lfloor>x\<rfloor>; r = x - of_int f in
      if r < 1 / 2 then f else if 1 / 2 < r then f + 1 else if even f then f else f + 1)"

text \<open>The database rounds halves away from zero when it stores a \<open>DECIMAL\<close>.\<close>

definition round_away :: "rat \<Rightarrow> int" where
  "round_away x = (if 0 \<le> x then \<lfloor>x + 1 / 2\<rfloor> else - \<lfloor>1 / 2 - x\<rfloor>)"

lemma round_even_error: "\<bar>of_int (round_even x) - x\<bar> \<le> 1 / 2"
proof -
  have "of_int \<lfloor>x\<rfloor> \<le> x" "x < of_int \<lfloor>x\<rfloor> + 1" by linarith+
  then show ?thesis by (auto simp: round_even_def Let_def abs_le_iff)
qed

lemma round_even_int [simp]: "round_even (of_int n) = n"
  by (simp add: round_even_def)

lemma round_away_error: "\<bar>of_int (round_away x) - x\<bar> \<le> 1 / 2"
proof -
  have "\<bar>of_int \<lfloor>x + 1 / 2\<rfloor> - x\<bar> \<le> 1 / 2" "\<bar>- of_int \<lfloor>1 / 2 - x\<rfloor> - x\<bar> \<le> 1 / 2" by linarith+
  then show ?thesis by (simp add: round_away_def del: abs_le_iff)
qed

lemma round_away_near: "\<bar>x - of_int n\<bar> < 1 / 2 \<Longrightarrow> round_away x = n"
proof -
  assume near: "\<bar>x - of_int n\<bar> < 1 / 2"
  have "\<bar>of_int (round_away x) - x\<bar> \<le> 1 / 2" by (rule round_away_error)
  with near have "\<bar>of_int (round_away x - n)\<bar> < (1 :: rat)" by linarith
  then have "\<bar>round_away x - n\<bar> < 1" by linarith
  then show ?thesis by linarith
qed

section \<open>Rounding to a double\<close>

text \<open>The exponent of the leading binary digit.\<close>

definition binary_exponent :: "rat \<Rightarrow> int" where
  "binary_exponent x =
     (let (n, d) = quotient_of x; e = bitlen n - bitlen d in
      if 2 powi e \<le> x then e else e - 1)"

lemma binary_exponent:
  assumes "0 < x"
  shows "2 powi binary_exponent x \<le> x" and "x < 2 powi (binary_exponent x + 1)"
proof -
  obtain n d where q: "quotient_of x = (n, d)" by (cases "quotient_of x")
  then have d: "0 < d" and x: "x = of_int n / of_int d"
    by (simp_all add: quotient_of_denom_pos quotient_of_div)
  with assms have n: "0 < n" by (simp add: zero_less_divide_iff)
  have bounds: "(2 :: rat) powi (bitlen m - 1) \<le> of_int m \<and> of_int m < (2 :: rat) powi bitlen m" if "0 < m" for m
  proof -
    have b: "0 < bitlen m" and "2 ^ nat (bitlen m - 1) \<le> m \<and> m < 2 ^ nat (bitlen m)"
      using that bitlen_bounds [of m] bitlen_nonneg [of m] bitlen_eq_zero_iff [of m] by linarith+
    then have "(of_int (2 ^ nat (bitlen m - 1)) :: rat) \<le> of_int m \<and> (of_int m :: rat) < of_int (2 ^ nat (bitlen m))"
      by (simp only: of_int_le_iff of_int_less_iff)
    with b show ?thesis by (simp add: power_int_def)
  qed
  let ?e = "bitlen n - bitlen d"
  have up: "x < 2 powi (?e + 1)"
  proof -
    have "of_int n < (2 :: rat) powi (?e + 1) * of_int d"
    proof -
      have "(2 :: rat) powi bitlen n = 2 powi (?e + 1) * 2 powi (bitlen d - 1)"
        by (simp flip: power_int_add)
      also have "\<dots> \<le> 2 powi (?e + 1) * of_int d"
        using bounds [OF d] by (intro mult_left_mono) simp_all
      finally show ?thesis using bounds [OF n] by linarith
    qed
    with d show ?thesis by (simp add: x divide_less_eq)
  qed
  have low: "2 powi (?e - 1) < x"
  proof -
    have "(2 :: rat) powi (?e - 1) * of_int d < of_int n"
    proof -
      have "(2 :: rat) powi (?e - 1) * of_int d < 2 powi (?e - 1) * 2 powi bitlen d"
        using bounds [OF d] by (intro mult_strict_left_mono) simp_all
      also have "\<dots> = 2 powi (bitlen n - 1)" by (simp flip: power_int_add)
      finally show ?thesis using bounds [OF n] by linarith
    qed
    with d show ?thesis by (simp add: x less_divide_eq)
  qed
  show "2 powi binary_exponent x \<le> x" "x < 2 powi (binary_exponent x + 1)"
    using up low by (auto simp: binary_exponent_def q Let_def)
qed

definition fl :: "rat \<Rightarrow> rat" where
  "fl x =
     (if x = 0 then 0
      else let u = 2 powi (binary_exponent \<bar>x\<bar> - 52) in of_int (round_even (x / u)) * u)"

lemma fl_0 [simp]: "fl 0 = 0"
  by (simp add: fl_def)

lemma fl_error: "\<bar>fl x - x\<bar> \<le> \<bar>x\<bar> / 2 ^ 53"
proof (cases "x = 0")
  case False
  let ?e = "binary_exponent \<bar>x\<bar>"
  define u :: rat where "u = 2 powi (?e - 52)"
  have u: "0 < u" by (simp add: u_def)
  have "\<bar>of_int (round_even (x / u)) - x / u\<bar> * u \<le> 1 / 2 * u"
    using round_even_error u by (intro mult_right_mono) simp_all
  moreover have "\<bar>of_int (round_even (x / u)) - x / u\<bar> * u = \<bar>fl x - x\<bar>"
  proof -
    have "\<bar>of_int (round_even (x / u)) - x / u\<bar> * u = \<bar>(of_int (round_even (x / u)) - x / u) * u\<bar>"
      using u by (simp add: abs_mult)
    also have "(of_int (round_even (x / u)) - x / u) * u = fl x - x"
      using u False by (simp add: fl_def Let_def u_def left_diff_distrib)
    finally show ?thesis .
  qed
  ultimately have "\<bar>fl x - x\<bar> \<le> u / 2" by simp
  also have "u = 2 powi ?e / 2 ^ 52" by (simp add: u_def power_int_diff)
  also have "2 powi ?e / 2 ^ 52 / 2 \<le> \<bar>x\<bar> / 2 ^ 52 / 2"
    using False by (intro divide_right_mono binary_exponent(1)) simp_all
  finally show ?thesis by simp
qed simp

text \<open>The doubles are the integers of 53 bits times a power of two; rounding keeps them.\<close>

lemma fl_dyadic:
  assumes "\<bar>m\<bar> \<le> 2 ^ 53"
  shows "fl (of_int m * 2 powi k) = of_int m * 2 powi k"
proof (cases "m = 0")
  case False
  define x :: rat where "x = of_int m * 2 powi k"
  let ?e = "binary_exponent \<bar>x\<bar>"
  have "x \<noteq> 0" using False by (simp add: x_def)
  then have low: "2 powi ?e \<le> \<bar>x\<bar>" by (intro binary_exponent(1)) simp
  have absx: "\<bar>x\<bar> = of_int \<bar>m\<bar> * 2 powi k" by (simp add: x_def abs_mult)
  have "(of_int \<bar>m\<bar> :: rat) \<le> of_int (2 ^ 53)" using assms by (simp only: of_int_le_iff)
  then have "\<bar>x\<bar> \<le> of_int (2 ^ 53) * 2 powi k" unfolding absx by (intro mult_right_mono) simp_all
  also have "\<dots> = 2 powi (53 + k)" by (simp add: power_int_add)
  finally have "(2 :: rat) powi ?e \<le> 2 powi (53 + k)" using low by simp
  then have e: "?e \<le> 53 + k" by (meson one_less_numeral_iff power_int_strict_increasing not_less semiring_norm(76))
  have "\<exists>i. x / 2 powi (?e - 52) = of_int i"
  proof (cases "?e = 53 + k")
    case True
    with low absx have "2 powi k * of_int (2 ^ 53) \<le> 2 powi k * (of_int \<bar>m\<bar> :: rat)"
      by (simp add: power_int_add mult.commute)
    then have "of_int (2 ^ 53) \<le> (of_int \<bar>m\<bar> :: rat)" by (simp only: mult_le_cancel_left_pos zero_less_power_int zero_less_numeral)
    with assms have "\<bar>m\<bar> = 2 ^ 53" by (simp only: of_int_le_iff)
    then have "m = 2 ^ 53 \<or> m = - (2 ^ 53)" by linarith
    then have "m = 2 * (m div 2)" by auto
    then have "(of_int m :: rat) / 2 = of_int (m div 2)" by (metis of_int_mult of_int_numeral nonzero_mult_div_cancel_left zero_neq_numeral)
    moreover have "(2 :: rat) powi (?e - 52) = 2 powi k * 2"
      unfolding True by (simp add: power_int_diff power_int_add)
    then have "x / 2 powi (?e - 52) = of_int m / 2" by (simp only:) (simp add: x_def)
    ultimately show ?thesis by metis
  next
    case False
    with e have n: "0 \<le> k + 52 - ?e" by simp
    have "x / 2 powi (?e - 52) = of_int m * 2 powi (k + 52 - ?e)"
      by (simp add: x_def power_int_diff power_int_add)
    also have "(2 :: rat) powi (k + 52 - ?e) = of_int (2 ^ nat (k + 52 - ?e))" using n by (simp add: power_int_def)
    finally show ?thesis by (metis of_int_mult)
  qed
  then have "fl x = x" using \<open>x \<noteq> 0\<close> by (auto simp: fl_def Let_def) (simp add: field_simps)
  then show ?thesis by (simp add: x_def)
qed simp

lemma fl_int: "\<bar>n\<bar> \<le> 2 ^ 53 \<Longrightarrow> fl (of_int n) = of_int n"
  using fl_dyadic [of n 0] by simp

lemma fl_fl [simp]: "fl (fl x) = fl x"
proof (cases "x = 0")
  case False
  let ?e = "binary_exponent \<bar>x\<bar>"
  define u :: rat where "u = 2 powi (?e - 52)"
  have u: "0 < u" by (simp add: u_def)
  have "\<bar>x\<bar> < 2 powi (?e + 1)" using False by (intro binary_exponent(2)) simp
  also have "\<dots> = 2 ^ 53 * u" by (simp add: u_def power_int_diff power_int_add)
  finally have "\<bar>x / u\<bar> < 2 ^ 53" using u by (simp add: abs_divide divide_less_eq)
  with round_even_error [of "x / u"] have "\<bar>of_int (round_even (x / u))\<bar> < (2 :: rat) ^ 53 + 1"
    by linarith
  then have "(of_int \<bar>round_even (x / u)\<bar> :: rat) < of_int (2 ^ 53 + 1)" by simp
  then have "\<bar>round_even (x / u)\<bar> \<le> 2 ^ 53" by (simp only: of_int_less_iff)
  then have "fl (of_int (round_even (x / u)) * u) = of_int (round_even (x / u)) * u"
    unfolding u_def by (rule fl_dyadic)
  then show ?thesis using False by (simp add: fl_def [of x] Let_def u_def)
qed simp

text \<open>How an error grows with one more operation.\<close>

lemma fl_close: "\<bar>x - t\<bar> \<le> \<delta> \<Longrightarrow> \<bar>fl x - t\<bar> \<le> \<delta> + (\<bar>t\<bar> + \<delta>) / 2 ^ 53"
proof -
  assume a: "\<bar>x - t\<bar> \<le> \<delta>"
  then have "\<bar>x\<bar> \<le> \<bar>t\<bar> + \<delta>" by linarith
  then have "\<bar>x\<bar> / 2 ^ 53 \<le> (\<bar>t\<bar> + \<delta>) / 2 ^ 53" by (intro divide_right_mono) simp_all
  with fl_error [of x] a show ?thesis by linarith
qed

text \<open>One more rounding, near a value of size at most \<open>M\<close>.\<close>

lemma fl_step:
  assumes "\<bar>x - t\<bar> \<le> of_nat k * M / 2 ^ 53" and "\<bar>t\<bar> \<le> M" and "k \<le> 100"
  shows "\<bar>fl x - t\<bar> \<le> of_nat (k + 2) * M / 2 ^ 53"
proof -
  let ?\<delta> = "of_nat k * M / 2 ^ 53"
  have M: "0 \<le> M" using assms(2) by linarith
  have "of_nat k * M \<le> 100 * M" using M assms(3) by (intro mult_right_mono) simp_all
  also have "\<dots> \<le> M * 2 ^ 53" using M by simp
  finally have "?\<delta> \<le> M" by (simp add: divide_le_eq)
  then have "(\<bar>t\<bar> + ?\<delta>) / 2 ^ 53 \<le> 2 * M / 2 ^ 53" using assms(2) by (intro divide_right_mono) simp_all
  with fl_close [OF assms(1)] show ?thesis by (simp add: field_simps)
qed

section \<open>Numbers as decimal text\<close>

text \<open>
  A number is printed with as few digits as identify it (\<open>Number::toString\<close>): of the decimals with
  \<open>n\<close> digits around the number, the nearer one that reads back as the number, for the least such
  \<open>n\<close>; with 17 digits there is always one.  \<open>decimal_exponent\<close> is the number of digits before the
  decimal point.
\<close>

definition decimal_exponent :: "rat \<Rightarrow> int" where
  "decimal_exponent x =
     (let e = binary_exponent x * 30103 div 100000 in if 10 powi (e + 1) \<le> x then e + 2 else e + 1)"

definition decimal_candidates :: "rat \<Rightarrow> nat \<Rightarrow> rat list" where
  "decimal_candidates x n =
     (let u = 10 powi (decimal_exponent x - int n); k = \<lfloor>x / u\<rfloor>;
          below = of_int k * u; above = of_int (k + 1) * u in
      filter (\<lambda>c. fl c = x) (if x - below \<le> above - x then [below, above] else [above, below]))"

fun shortest_from :: "nat \<Rightarrow> nat \<Rightarrow> rat \<Rightarrow> rat" where
  "shortest_from 0 n x = x"
| "shortest_from (Suc k) n x =
     (case decimal_candidates x n of [] \<Rightarrow> shortest_from k (n + 1) x | c # _ \<Rightarrow> c)"

definition shortest_decimal :: "rat \<Rightarrow> rat" where
  "shortest_decimal x = shortest_from 17 1 x"

definition decimal_text :: "rat \<Rightarrow> rat" where
  "decimal_text x =
     (if x = 0 then 0 else if 0 < x then shortest_decimal x else - shortest_decimal (- x))"

text \<open>Storing a number in a column with \<open>k\<close> decimals, in units of the last decimal.\<close>

definition to_decimal :: "nat \<Rightarrow> rat \<Rightarrow> int" where
  "to_decimal k x = round_away (decimal_text x * 10 ^ k)"

text \<open>\<open>parseFloat\<close> and \<open>Number\<close> on the text of such a column.\<close>

definition of_decimal :: "nat \<Rightarrow> int \<Rightarrow> rat" where
  "of_decimal k v = fl (of_int v / 10 ^ k)"

lemma round_even_minus: "round_even (- x) = - round_even x"
proof -
  have fl: "\<lfloor>- x\<rfloor> = (if x = of_int \<lfloor>x\<rfloor> then - \<lfloor>x\<rfloor> else - \<lfloor>x\<rfloor> - 1)"
    by (auto simp: floor_minus ceiling_altdef)
  have "of_int \<lfloor>x\<rfloor> \<le> x" "x < of_int \<lfloor>x\<rfloor> + 1" by linarith+
  then show ?thesis unfolding round_even_def Let_def fl by (cases "x = of_int \<lfloor>x\<rfloor>") auto
qed

lemma fl_minus: "fl (- x) = - fl x"
  by (simp add: fl_def Let_def round_even_minus)

lemma decimal_candidates_read: "decimal_candidates x n = c # cs \<Longrightarrow> fl c = x"
proof -
  have "\<forall>c \<in> set (decimal_candidates x n). fl c = x" by (auto simp: decimal_candidates_def Let_def)
  then show "decimal_candidates x n = c # cs \<Longrightarrow> fl c = x" by simp
qed

lemma shortest_from_reads: "fl x = x \<Longrightarrow> fl (shortest_from k n x) = x"
  by (induction k n x rule: shortest_from.induct) (simp_all add: decimal_candidates_read split: list.splits)

lemma shortest_decimal_reads: "fl x = x \<Longrightarrow> fl (shortest_decimal x) = x"
  by (simp add: shortest_decimal_def shortest_from_reads)

lemma decimal_text_reads: "fl x = x \<Longrightarrow> fl (decimal_text x) = x"
  using shortest_decimal_reads [of x] shortest_decimal_reads [of "- x"]
  by (simp add: decimal_text_def fl_minus)

text \<open>What is stored is the decimal that the number is close to.\<close>

lemma close_scaled:
  fixes t x :: rat
  assumes "\<bar>x - t\<bar> \<le> \<bar>t\<bar> / 2 ^ 53"
  shows "\<bar>t - x\<bar> \<le> \<bar>x\<bar> / 2 ^ 52"
proof -
  have "\<bar>t\<bar> \<le> \<bar>x\<bar> + \<bar>x - t\<bar>" by linarith
  with assms have "\<bar>x - t\<bar> \<le> (\<bar>x\<bar> + \<bar>x - t\<bar>) / 2 ^ 53" by (simp add: divide_simps)
  then show ?thesis by (simp add: field_simps abs_minus_commute)
qed

lemma to_decimal_near:
  assumes "fl x = x" and "\<bar>x - of_int v / 10 ^ k\<bar> + \<bar>x\<bar> / 2 ^ 52 < 1 / (2 * 10 ^ k)"
  shows "to_decimal k x = v"
proof -
  let ?t = "decimal_text x"
  have "\<bar>x - ?t\<bar> \<le> \<bar>?t\<bar> / 2 ^ 53" using fl_error [of ?t] decimal_text_reads [OF assms(1)] by simp
  then have "\<bar>?t - x\<bar> \<le> \<bar>x\<bar> / 2 ^ 52" by (rule close_scaled)
  with assms(2) have near: "\<bar>?t - of_int v / 10 ^ k\<bar> < 1 / (2 * 10 ^ k)" by linarith
  have "?t * 10 ^ k - of_int v = (?t - of_int v / 10 ^ k) * 10 ^ k" by (simp add: left_diff_distrib)
  then have "\<bar>?t * 10 ^ k - of_int v\<bar> = \<bar>?t - of_int v / 10 ^ k\<bar> * 10 ^ k" by (simp add: abs_mult)
  also have "\<dots> < 1 / (2 * 10 ^ k) * 10 ^ k" using near by (intro mult_strict_right_mono) simp_all
  finally show ?thesis unfolding to_decimal_def by (intro round_away_near) simp
qed


end
