(* ===== verification/Reservation_Db.thy ===== *)
theory Reservation_Db
  imports Js_Number
begin

text \<open>
  The tables of the reservations module (\<open>packages/db/src/kysely/schema.ts\<close>), its errors and the
  checks the database makes on its rows.  Keys and statuses are natural numbers, times are
  milliseconds since 1970 (\<open>bigint\<close> columns and \<open>DATETIME\<close> alike).
\<close>

section \<open>Rows\<close>

record outlet_table_row =
  ot_id :: nat
  ot_company_id :: nat
  ot_outlet_id :: nat
  ot_capacity :: "nat option"
  ot_code :: string
  ot_created_at :: int
  ot_name :: string
  ot_status :: string
  ot_status_id :: nat
  ot_updated_at :: int
  ot_zone :: "string option"

record reservation_group_row =
  rg_id :: nat
  rg_company_id :: nat
  rg_created_at :: int
  rg_group_name :: "string option"
  rg_outlet_id :: nat
  rg_total_guest_count :: nat
  rg_updated_at :: int

record reservation_row =
  rv_id :: nat
  rv_company_id :: nat
  rv_outlet_id :: nat
  rv_arrived_at :: "int option"
  rv_cancelled_at :: "int option"
  rv_created_at :: int
  rv_customer_name :: string
  rv_customer_phone :: "string option"
  rv_duration_minutes :: "nat option"
  rv_guest_count :: nat
  rv_linked_order_id :: "string option"
  rv_notes :: "string option"
  rv_reservation_at :: "int option"
  rv_reservation_end_ts :: int
  rv_reservation_group_id :: "nat option"
  rv_reservation_start_ts :: int
  rv_seated_at :: "int option"
  rv_status :: string
  rv_status_id :: nat
  rv_table_id :: "nat option"
  rv_updated_at :: int

text \<open>
  What the events store as JSON (\<open>event_data\<close>), one constructor per shape of object, kept here
  unprinted.  Amounts in it are JavaScript numbers.  A point of sale sends its events with a
  payload, an object of which the service reads the keys below; a key that is absent or null is
  \<open>None\<close>, and its values have the types that the service casts them to.
\<close>

record table_payload =
  tp_guest_count :: "nat option"
  tp_guest_name :: "string option"
  tp_reservation_id :: "nat option"
  tp_reserved_until :: "int option"
  tp_status_id :: "nat option"
  tp_target_table_id :: "nat option"
  tp_notes :: "string option"

text \<open>What the table synchronisation adds to the payload of an event before it stores it.\<close>

datatype sync_note =
    Sn_payload
  | Sn_opened nat nat
  | Sn_reserved int nat
  | Sn_transferred nat
  | Sn_unknown_type nat
  | Sn_conflict nat nat

datatype event_data =
    Ev_held string int
  | Ev_seated string nat "string option"
  | Ev_released string
  | Ev_session string nat nat "string option" "string option"
  | Ev_line_added nat nat string nat rat rat
  | Ev_line_updated nat "nat option" "rat option" "rat option" "rat option" "string option"
      "bool option" "string option" "rat option"
  | Ev_line_removed nat nat string nat rat
  | Ev_batch nat nat string "string option"
  | Ev_cancelled nat string
  | Ev_reduced nat int
  | Ev_synced table_payload sync_note

record table_event_row =
  te_id :: nat
  te_company_id :: nat
  te_outlet_id :: nat
  te_client_tx_id :: string
  te_conflict_reason :: "string option"
  te_created_at :: int
  te_created_by :: "string option"
  te_event_data :: "event_data option"
  te_event_type_id :: nat
  te_is_conflict :: bool
  te_occupancy_version_after :: "nat option"
  te_occupancy_version_before :: "nat option"
  te_occurred_at :: int
  te_pos_order_id :: "string option"
  te_reservation_id :: "nat option"
  te_service_session_id :: "nat option"
  te_status_id_after :: "nat option"
  te_status_id_before :: "nat option"
  te_table_id :: nat

record table_occupancy_row =
  occ_id :: nat
  occ_company_id :: nat
  occ_outlet_id :: nat
  occ_created_at :: int
  occ_created_by :: "string option"
  occ_guest_count :: "nat option"
  occ_notes :: "string option"
  occ_occupied_at :: "int option"
  occ_reservation_id :: "nat option"
  occ_reserved_until :: "int option"
  occ_service_session_id :: "nat option"
  occ_status_id :: nat
  occ_table_id :: nat
  occ_updated_at :: int
  occ_updated_by :: "string option"
  occ_version :: nat

record table_service_session_row =
  tss_id :: nat
  tss_company_id :: nat
  tss_outlet_id :: nat
  tss_closed_at :: "int option"
  tss_created_at :: int
  tss_created_by :: "string option"
  tss_guest_count :: nat
  tss_guest_name :: "string option"
  tss_last_finalized_batch_no :: nat
  tss_locked_at :: "int option"
  tss_notes :: "string option"
  tss_pos_order_snapshot_id :: "string option"
  tss_reservation_id :: "nat option"
  tss_session_version :: nat
  tss_started_at :: int
  tss_status_id :: nat
  tss_table_id :: nat
  tss_updated_at :: int
  tss_updated_by :: "string option"

text \<open>A line's amounts are \<open>DECIMAL(15,4)\<close>, here in units of the fourth decimal.\<close>

record session_line_row =
  tsl_id :: nat
  tsl_session_id :: nat
  tsl_batch_no :: "nat option"
  tsl_created_at :: int
  tsl_discount_amount :: int
  tsl_is_voided :: bool
  tsl_line_number :: nat
  tsl_line_state :: nat
  tsl_line_total :: int
  tsl_notes :: "string option"
  tsl_product_id :: nat
  tsl_product_name :: string
  tsl_product_sku :: "string option"
  tsl_quantity :: nat
  tsl_tax_amount :: int
  tsl_unit_price :: int
  tsl_updated_at :: int
  tsl_void_reason :: "string option"
  tsl_voided_at :: "int option"

record session_checkpoint_row =
  tsc_id :: nat
  tsc_company_id :: nat
  tsc_outlet_id :: nat
  tsc_batch_no :: nat
  tsc_client_tx_id :: string
  tsc_finalized_at :: int
  tsc_finalized_by :: "string option"
  tsc_session_id :: nat
  tsc_snapshot_id :: string

text \<open>
  Of the orders of the point of sale and of the items only the columns that this module reads or
  writes.  Prices and discounts of a snapshot line are \<open>DECIMAL(18,2)\<close>, its quantity
  \<open>DECIMAL(18,4)\<close>.
\<close>

record pos_order_snapshot_row =
  pos_order_id :: string
  pos_company_id :: nat
  pos_outlet_id :: nat
  pos_closed_at :: "int option"
  pos_is_finalized :: bool
  pos_order_state :: string
  pos_order_status :: string
  pos_service_type :: string
  pos_table_id :: "nat option"
  pos_updated_at :: int

record pos_order_snapshot_line_row =
  psl_id :: nat
  psl_order_id :: string
  psl_company_id :: nat
  psl_outlet_id :: nat
  psl_discount_amount :: int
  psl_item_id :: nat
  psl_item_type_snapshot :: string
  psl_name_snapshot :: string
  psl_qty :: int
  psl_sku_snapshot :: "string option"
  psl_unit_price_snapshot :: int
  psl_updated_at :: int
  psl_updated_at_ts :: int

record item_row =
  it_id :: nat
  it_company_id :: nat

section \<open>The database and its errors\<close>

datatype rtbl = RT_reservation | RT_group | RT_event | RT_occupancy | RT_session
  | RT_session_line | RT_checkpoint | RT_snapshot_line

record rdb =
  outlet_tables :: "outlet_table_row list"
  reservations :: "reservation_row list"
  reservation_groups :: "reservation_group_row list"
  table_occupancy :: "table_occupancy_row list"
  table_service_sessions :: "table_service_session_row list"
  table_events :: "table_event_row list"
  session_lines :: "session_line_row list"
  session_checkpoints :: "session_checkpoint_row list"
  pos_order_snapshots :: "pos_order_snapshot_row list"
  snapshot_lines :: "pos_order_snapshot_line_row list"
  items :: "item_row list"
  last_key :: "rtbl \<Rightarrow> nat"

definition new_key :: "rdb \<Rightarrow> rtbl \<Rightarrow> nat" where
  "new_key d t = Suc (last_key d t)"

definition take_key :: "rtbl \<Rightarrow> rdb \<Rightarrow> rdb" where
  "take_key t d = d\<lparr>last_key := (last_key d)(t := Suc (last_key d t))\<rparr>"

definition empty_rdb :: rdb where
  "empty_rdb = \<lparr>outlet_tables = [], reservations = [], reservation_groups = [], table_occupancy = [],
     table_service_sessions = [], table_events = [], session_lines = [], session_checkpoints = [],
     pos_order_snapshots = [], snapshot_lines = [], items = [], last_key = (\<lambda>_. 0)\<rparr>"

text \<open>
  One constructor per error class, \<open>R_Error\<close> for a plain \<open>new Error\<close> and \<open>R_Database\<close> for a
  statement that the database rejects.  Of a message only the text that names the case is kept.
\<close>

datatype session_ref = Session nat | Line_in_session nat nat

datatype rerr =
    ReservationNotFoundError nat
  | ReservationValidationError string
  | ReservationConflictError string
  | InvalidStatusTransitionError nat nat
  | TableOccupancyNotFoundError nat
  | TableOccupancyConflictError string table_occupancy_row
  | TableNotAvailableError nat nat
  | TableNotOccupiedError nat nat
  | SessionNotFoundError session_ref
  | SessionConflictError string
  | SessionValidationError string
  | InvalidSessionStatusError nat "nat list"
  | R_Error string
  | R_Database string

type_synonym 'a rop = "rdb \<Rightarrow> rerr + 'a \<times> rdb"

section \<open>Checks of the database\<close>

text \<open>
  The triggers of migration 0101 and 0107 set a column that may not be null to \<open>NULL\<close> when a row breaks
  their rule, which aborts the statement: a row of \<open>table_occupancy\<close> with status 3 needs a
  reservation and one with status 2 a service session; by that of migration 0107 a service session
  changes its status only from 1 to 2 or 3 and from 2 to 3.  The checks of the tables bound the statuses and want positive guest
  counts.  The triggers' tenant checks are those of foreign keys and not modelled.
\<close>

definition occupancy_ok :: "table_occupancy_row \<Rightarrow> bool" where
  "occupancy_ok r \<longleftrightarrow>
     \<not> (occ_status_id r = 3 \<and> occ_reservation_id r = None) \<and>
     \<not> (occ_status_id r = 2 \<and> occ_service_session_id r = None) \<and>
     1 \<le> occ_status_id r \<and> occ_status_id r \<le> 5 \<and> 0 < occ_version r \<and>
     (case occ_guest_count r of None \<Rightarrow> True | Some n \<Rightarrow> 0 < n)"

definition session_change_ok :: "table_service_session_row \<Rightarrow> table_service_session_row \<Rightarrow> bool" where
  "session_change_ok old new \<longleftrightarrow> tss_status_id new = tss_status_id old \<or>
     (tss_status_id old = 1 \<and> (tss_status_id new = 2 \<or> tss_status_id new = 3)) \<or>
     (tss_status_id old = 2 \<and> tss_status_id new = 3)"

text \<open>\<open>UPDATE ... WHERE\<close> with a check on every changed row; the count is of the rows that matched.\<close>

definition checked_update :: "('r \<Rightarrow> 'r \<Rightarrow> bool) \<Rightarrow> ('r \<Rightarrow> bool) \<Rightarrow> ('r \<Rightarrow> 'r) \<Rightarrow> 'r list \<Rightarrow>
    rerr + 'r list \<times> nat" where
  "checked_update ok P f rs =
     (if \<forall>r \<in> set rs. P r \<longrightarrow> ok r (f r) then Inr (update_where P f rs, length (filter P rs))
      else Inl (R_Database ''ER_BAD_NULL_ERROR''))"

lemma checked_update_Inr [inr_simps]:
  "checked_update ok P f rs = Inr y \<longleftrightarrow> (\<forall>r \<in> set rs. P r \<longrightarrow> ok r (f r)) \<and>
     y = (update_where P f rs, length (filter P rs))"
  by (auto simp: checked_update_def)

lemma find_filter: "find P rs = (case filter P rs of [] \<Rightarrow> None | r # _ \<Rightarrow> Some r)"
  by (induction rs) auto

lemma filter_empty_find: "filter P rs = [] \<longleftrightarrow> find P rs = None"
  by (auto simp: find_filter split: list.splits)

lemma filter_key_unique:
  assumes "distinct (map k rs)" and "\<And>r. P r \<Longrightarrow> k r = i"
  shows "length (filter P rs) \<le> 1"
proof -
  have "distinct (map k (filter P rs))"
    using assms(1) by (induction rs) auto
  moreover have "set (map k (filter P rs)) \<subseteq> {i}"
    using assms(2) by auto
  ultimately have "card (set (map k (filter P rs))) = length (filter P rs)"
    by (metis distinct_card length_map)
  then show ?thesis
    using card_mono [OF _ \<open>set (map k (filter P rs)) \<subseteq> {i}\<close>] by simp
qed

end
