(* ===== verification/Reservation_Policy.thy ===== *)
theory Reservation_Policy
  imports Reservation_Db Complex_Main
begin

text \<open>
  The rules of the reservations module that touch no table: overlapping times
  (\<open>time/overlap.ts\<close>, \<open>time/timestamp.ts\<close>), statuses (\<open>interfaces/shared.ts\<close>,
  \<open>reservations/status-policy.ts\<close>) and the helpers of \<open>reservations/utils.ts\<close>.  A finite
  number of the language that need not be whole, such as a duration in minutes, is a rational.
\<close>

section \<open>Times\<close>

definition reservationsOverlap :: "int \<Rightarrow> int \<Rightarrow> int \<Rightarrow> int \<Rightarrow> bool" where
  "reservationsOverlap aStart aEnd bStart bEnd \<longleftrightarrow> aStart < bEnd \<and> bStart < aEnd"

definition hasOverlap :: "int \<Rightarrow> int \<Rightarrow> (int \<times> int) list \<Rightarrow> bool" where
  "hasOverlap newStart newEnd existingRanges \<longleftrightarrow>
     list_ex (\<lambda>(s, e). reservationsOverlap newStart newEnd s e) existingRanges"

definition findOverlappingRanges :: "int \<Rightarrow> int \<Rightarrow> (int \<times> int) list \<Rightarrow> (int \<times> int) list" where
  "findOverlappingRanges newStart newEnd existingRanges =
     filter (\<lambda>(s, e). reservationsOverlap newStart newEnd s e) existingRanges"

definition isValidRange :: "int \<Rightarrow> int \<Rightarrow> bool" where
  "isValidRange s e \<longleftrightarrow> e > s"

definition RESERVATION_DEFAULT_DURATION_MINUTES :: int where
  "RESERVATION_DEFAULT_DURATION_MINUTES = 90"

definition calculateEndTs :: "int \<Rightarrow> rat \<Rightarrow> rat" where
  "calculateEndTs startTs durationMinutes = of_int startTs + durationMinutes * 60000"

text \<open>\<open>Math.round\<close> rounds halves up.\<close>

definition calculateDurationMinutes :: "int \<Rightarrow> int \<Rightarrow> int" where
  "calculateDurationMinutes startTs endTs = \<lfloor>(of_int (endTs - startTs) :: rat) / 60000 + 1 / 2\<rfloor>"

definition assertValidDurationMinutes :: "rat \<Rightarrow> rerr + unit" where
  "assertValidDurationMinutes durationMinutes =
     require (of_int \<lfloor>durationMinutes\<rfloor> = durationMinutes \<and> 0 < durationMinutes)
       (ReservationValidationError ''duration_minutes must be a positive integer'')"

text \<open>Two ranges overlap exactly when they share an instant: the start counts, the end does not.\<close>

lemma overlap_shared_instant:
  assumes "isValidRange a b" and "isValidRange c e"
  shows "reservationsOverlap a b c e \<longleftrightarrow> {a..<b} \<inter> {c..<e} \<noteq> {}"
proof
  assume "reservationsOverlap a b c e"
  with assms have "max a c \<in> {a..<b} \<inter> {c..<e}"
    by (auto simp: reservationsOverlap_def isValidRange_def)
  then show "{a..<b} \<inter> {c..<e} \<noteq> {}" by blast
qed (auto simp: reservationsOverlap_def)

lemma overlap_sym: "reservationsOverlap a b c e = reservationsOverlap c e a b"
  by (auto simp: reservationsOverlap_def)

lemma findOverlappingRanges_empty: "findOverlappingRanges s e rs = [] \<longleftrightarrow> \<not> hasOverlap s e rs"
  by (induction rs) (auto simp: findOverlappingRanges_def hasOverlap_def)

lemma duration_of_end:
  assumes "assertValidDurationMinutes m = Inr ()"
  shows "calculateDurationMinutes s \<lfloor>calculateEndTs s m\<rfloor> = \<lfloor>m\<rfloor>"
proof -
  from assms have "of_int \<lfloor>m\<rfloor> = m"
    by (simp add: assertValidDurationMinutes_def inr_simps)
  then have "calculateEndTs s m = of_int (s + \<lfloor>m\<rfloor> * 60000)"
    unfolding calculateEndTs_def by (metis of_int_add of_int_mult of_int_numeral)
  then have e: "\<lfloor>calculateEndTs s m\<rfloor> = s + \<lfloor>m\<rfloor> * 60000" by (simp only: floor_of_int)
  show ?thesis
    unfolding calculateDurationMinutes_def e by (simp add: floor_eq_iff)
qed

section \<open>Statuses\<close>

abbreviation (input) "RS_PENDING \<equiv> (1 :: nat)"
abbreviation (input) "RS_CONFIRMED \<equiv> (2 :: nat)"
abbreviation (input) "RS_CHECKED_IN \<equiv> (3 :: nat)"
abbreviation (input) "RS_COMPLETED \<equiv> (4 :: nat)"
abbreviation (input) "RS_CANCELLED \<equiv> (5 :: nat)"
abbreviation (input) "RS_NO_SHOW \<equiv> (6 :: nat)"

definition VALID_STATUS_TRANSITIONS :: "(nat \<times> nat list) list" where
  "VALID_STATUS_TRANSITIONS =
     [(RS_PENDING, [RS_CONFIRMED, RS_CANCELLED]),
      (RS_CONFIRMED, [RS_CHECKED_IN, RS_NO_SHOW, RS_CANCELLED]),
      (RS_CHECKED_IN, [RS_COMPLETED]),
      (RS_NO_SHOW, []), (RS_CANCELLED, []), (RS_COMPLETED, [])]"

definition FINAL_STATUSES :: "nat list" where
  "FINAL_STATUSES = [RS_COMPLETED, RS_CANCELLED, RS_NO_SHOW]"

definition isFinalStatus :: "nat \<Rightarrow> bool" where
  "isFinalStatus st \<longleftrightarrow> st \<in> set FINAL_STATUSES"

definition canTransition :: "nat \<Rightarrow> nat \<Rightarrow> bool" where
  "canTransition from to =
     (case map_of VALID_STATUS_TRANSITIONS from of None \<Rightarrow> False | Some ss \<Rightarrow> to \<in> set ss)"

definition ACTIVE_STATUS_IDS :: "nat list" where
  "ACTIVE_STATUS_IDS = [1, 2, 3]"

definition BLOCKING_STATUS_IDS :: "nat list" where
  "BLOCKING_STATUS_IDS = [1, 2, 3]"

definition TERMINAL_STATUS_IDS :: "nat list" where
  "TERMINAL_STATUS_IDS = [4, 5, 6]"

definition LEGACY_STATUS_TO_ID :: "(string \<times> nat) list" where
  "LEGACY_STATUS_TO_ID =
     [(''BOOKED'', 1), (''CONFIRMED'', 2), (''ARRIVED'', 3), (''SEATED'', 3),
      (''COMPLETED'', 4), (''CANCELLED'', 5), (''NO_SHOW'', 6)]"

definition ID_TO_LEGACY_STATUS :: "(nat \<times> string) list" where
  "ID_TO_LEGACY_STATUS =
     [(1, ''BOOKED''), (2, ''CONFIRMED''), (3, ''ARRIVED''),
      (4, ''COMPLETED''), (5, ''CANCELLED''), (6, ''NO_SHOW'')]"

definition legacyStatusToStatusId :: "string option \<Rightarrow> rerr + nat option" where
  "legacyStatusToStatusId status =
     (case status of
        None \<Rightarrow> Inr None
      | Some s \<Rightarrow> (case map_of LEGACY_STATUS_TO_ID s of
            None \<Rightarrow> Inl (R_Error ''Unknown legacy reservation status'')
          | Some i \<Rightarrow> Inr (Some i)))"

definition statusIdToLegacyStatus :: "nat \<Rightarrow> string" where
  "statusIdToLegacyStatus i =
     (case map_of ID_TO_LEGACY_STATUS i of None \<Rightarrow> ''BOOKED'' | Some s \<Rightarrow> s)"

definition resolveStatusId :: "nat option \<Rightarrow> string option \<Rightarrow> rerr + nat" where
  "resolveStatusId status_id status =
     (case status_id of
        Some i \<Rightarrow> Inr i
      | None \<Rightarrow> (case status of
            Some s \<Rightarrow> (case map_of LEGACY_STATUS_TO_ID s of
                Some i \<Rightarrow> Inr i
              | None \<Rightarrow> Inl (R_Error ''Unknown legacy reservation status''))
          | None \<Rightarrow> Inl (R_Error ''Reservation row has neither status_id nor status'')))"

definition isBlockingStatusId :: "nat \<Rightarrow> bool" where
  "isBlockingStatusId i \<longleftrightarrow> i \<in> set BLOCKING_STATUS_IDS"

definition isTerminalStatusId :: "nat \<Rightarrow> bool" where
  "isTerminalStatusId i \<longleftrightarrow> i \<in> set TERMINAL_STATUS_IDS"

definition isActiveStatusId :: "nat \<Rightarrow> bool" where
  "isActiveStatusId i \<longleftrightarrow> i \<in> set ACTIVE_STATUS_IDS"

lemma status_trichotomy:
  "1 \<le> i \<Longrightarrow> i \<le> 6 \<Longrightarrow> isBlockingStatusId i \<noteq> isTerminalStatusId i"
  "isFinalStatus i \<longleftrightarrow> isTerminalStatusId i"
  by (auto simp: isBlockingStatusId_def BLOCKING_STATUS_IDS_def isTerminalStatusId_def
      TERMINAL_STATUS_IDS_def isFinalStatus_def FINAL_STATUSES_def)

lemma canTransition_iff: "canTransition from to \<longleftrightarrow>
    (from, to) \<in> {(1, 2), (1, 5), (2, 3), (2, 6), (2, 5), (3, 4)}"
  by (auto simp: canTransition_def VALID_STATUS_TRANSITIONS_def split: if_splits)

lemma final_no_transition: "isFinalStatus from \<Longrightarrow> \<not> canTransition from to"
  by (auto simp: canTransition_iff isFinalStatus_def FINAL_STATUSES_def)

lemma legacy_roundtrip:
  "1 \<le> i \<Longrightarrow> i \<le> 6 \<Longrightarrow> legacyStatusToStatusId (Some (statusIdToLegacyStatus i)) = Inr (Some i)"
proof -
  assume "1 \<le> i" "i \<le> 6"
  then have "i \<in> {1, 2, 3, 4, 5, 6}" by auto
  then show ?thesis
    by (elim insertE emptyE) (simp_all add: legacyStatusToStatusId_def statusIdToLegacyStatus_def
        LEGACY_STATUS_TO_ID_def ID_TO_LEGACY_STATUS_def)
qed

section \<open>Rows as records\<close>

text \<open>
  A row as a \<open>SELECT\<close> hands it to \<open>mapDbRowToReservation\<close>: a column that is null or was not
  selected is \<open>None\<close>.
\<close>

record ReservationDbRow =
  dr_id :: nat
  dr_company_id :: nat
  dr_outlet_id :: nat
  dr_table_id :: "nat option"
  dr_reservation_code :: "string option"
  dr_status_id :: "nat option"
  dr_status :: "string option"
  dr_guest_count :: "nat option"
  dr_customer_name :: "string option"
  dr_customer_phone :: "string option"
  dr_customer_email :: "string option"
  dr_reservation_start_ts :: "int option"
  dr_reservation_end_ts :: "int option"
  dr_duration_minutes :: "nat option"
  dr_notes :: "string option"
  dr_cancellation_reason :: "string option"
  dr_created_by :: "string option"
  dr_updated_by :: "string option"
  dr_created_at :: int
  dr_updated_at :: int

record ReservationRecord =
  rr_id :: nat
  rr_companyId :: nat
  rr_outletId :: nat
  rr_tableId :: "nat option"
  rr_reservationCode :: string
  rr_status :: nat
  rr_partySize :: nat
  rr_customerName :: string
  rr_customerPhone :: "string option"
  rr_customerEmail :: "string option"
  rr_reservationStartTs :: int
  rr_reservationEndTs :: int
  rr_notes :: "string option"
  rr_cancellationReason :: "string option"
  rr_createdBy :: string
  rr_updatedBy :: "string option"
  rr_createdAt :: int
  rr_updatedAt :: int

definition or_else :: "'a \<Rightarrow> 'a option \<Rightarrow> 'a" where
  "or_else x v = (case v of None \<Rightarrow> x | Some y \<Rightarrow> y)"

lemma or_else_simps [simp]: "or_else x None = x" "or_else x (Some y) = y"
  by (simp_all add: or_else_def)

definition upper :: "string \<Rightarrow> string" where
  "upper = map (\<lambda>c. let n = (of_char c :: nat) in if 97 \<le> n \<and> n \<le> 122 then char_of (n - 32) else c)"

text \<open>The status of a row: the number, or what the legacy word means (a falsy word is PENDING).\<close>

definition row_status_id :: "nat option \<Rightarrow> string option \<Rightarrow> nat" where
  "row_status_id status_id status =
     (case status_id of
        Some i \<Rightarrow> i
      | None \<Rightarrow> (case truthy_str status of
            Some s \<Rightarrow> or_else 1 (map_of LEGACY_STATUS_TO_ID (upper s))
          | None \<Rightarrow> 1))"

definition mapDbRowToReservation :: "ReservationDbRow \<Rightarrow> rerr + ReservationRecord" where
  "mapDbRowToReservation row =
     bindR (from_opt (ReservationValidationError ''reservation_start_ts is required for reservation mapping'')
       (dr_reservation_start_ts row)) (\<lambda>startTs.
     let durationMinutes = or_else (nat RESERVATION_DEFAULT_DURATION_MINUTES) (dr_duration_minutes row);
         endTs = or_else (startTs + int durationMinutes * 60000) (dr_reservation_end_ts row)
     in Inr \<lparr>rr_id = dr_id row, rr_companyId = dr_company_id row, rr_outletId = dr_outlet_id row,
          rr_tableId = dr_table_id row, rr_reservationCode = or_else [] (dr_reservation_code row),
          rr_status = row_status_id (dr_status_id row) (dr_status row),
          rr_partySize = or_else 0 (dr_guest_count row),
          rr_customerName = or_else [] (dr_customer_name row),
          rr_customerPhone = dr_customer_phone row, rr_customerEmail = dr_customer_email row,
          rr_reservationStartTs = startTs, rr_reservationEndTs = endTs,
          rr_notes = dr_notes row, rr_cancellationReason = dr_cancellation_reason row,
          rr_createdBy = or_else [] (dr_created_by row), rr_updatedBy = dr_updated_by row,
          rr_createdAt = dr_created_at row, rr_updatedAt = dr_updated_at row\<rparr>)"

section \<open>Columns and codes\<close>

text \<open>
  The columns of \<open>reservations\<close> in \<open>schema.ts\<close>: the service asks \<open>information_schema\<close> for
  the optional ones.  There is no \<open>reservation_code\<close>, so a code is made up and not stored.
\<close>

definition reservation_columns :: "string list" where
  "reservation_columns = [''arrived_at'', ''cancelled_at'', ''company_id'', ''created_at'',
     ''customer_name'', ''customer_phone'', ''duration_minutes'', ''guest_count'', ''id'',
     ''linked_order_id'', ''notes'', ''outlet_id'', ''reservation_at'', ''reservation_end_ts'',
     ''reservation_group_id'', ''reservation_start_ts'', ''seated_at'', ''status'', ''status_id'',
     ''table_id'', ''updated_at'']"

definition columnExists :: "string list \<Rightarrow> string \<Rightarrow> bool" where
  "columnExists cols column \<longleftrightarrow> column \<in> set cols"

text \<open>
  \<open>codes\<close> are the random codes of the attempts (at most three are used), \<open>taken\<close> says which codes
  the outlet has, \<open>stamp\<close> is the last part of the clock that the fallback uses.
\<close>

fun try_codes :: "(string \<Rightarrow> bool) \<Rightarrow> string list \<Rightarrow> nat \<Rightarrow> string option" where
  "try_codes taken (c # cs) (Suc n) =
     (let code = ''RES-'' @ c in if taken code then try_codes taken cs n else Some code)"
| "try_codes taken _ _ = None"

definition generateReservationCodeWithConnection ::
    "string list \<Rightarrow> (string \<Rightarrow> bool) \<Rightarrow> string list \<Rightarrow> string \<Rightarrow> string" where
  "generateReservationCodeWithConnection cols taken codes stamp =
     (if \<not> columnExists cols ''reservation_code'' then ''RES-'' @ hd codes
      else or_else (''RES-'' @ stamp) (try_codes taken codes 3))"

lemma try_codes_free: "try_codes taken cs n = Some c \<Longrightarrow> \<not> taken c"
  by (induction taken cs n rule: try_codes.induct) (auto simp: Let_def split: if_splits)

end
