(* ===== verification/Table_Occupancy.thy ===== *)
theory Table_Occupancy
  imports Reservation_Policy
begin

text \<open>
  The physical state of the tables (\<open>table-occupancy/service.ts\<close>): a table is held for a
  reservation, guests are seated at it, and it is released.  Every operation names the version of
  the row it has seen.  The services read the row without a lock and then update it under its
  version, so the two halves are definitions of their own: another session may commit in between.

  After the update the code looks at the field \<open>affectedRows\<close> of the result.  What that field
  holds is the query builder's matter: \<open>aff n\<close> is its value when \<open>n\<close> rows were changed, \<open>None\<close>
  when there is no such field.
\<close>

section \<open>Reading\<close>

abbreviation (input) "OCC_AVAILABLE \<equiv> (1 :: nat)"
abbreviation (input) "OCC_RESERVED \<equiv> (2 :: nat)"
abbreviation (input) "OCC_OCCUPIED \<equiv> (3 :: nat)"

definition occ_of :: "nat \<Rightarrow> nat \<Rightarrow> nat \<Rightarrow> table_occupancy_row \<Rightarrow> bool" where
  "occ_of companyId outletId tableId r \<longleftrightarrow>
     occ_company_id r = companyId \<and> occ_outlet_id r = outletId \<and> occ_table_id r = tableId"

definition getTableOccupancy :: "rdb \<Rightarrow> nat \<Rightarrow> nat \<Rightarrow> nat \<Rightarrow> table_occupancy_row option" where
  "getTableOccupancy d companyId outletId tableId =
     find (occ_of companyId outletId tableId) (table_occupancy d)"

definition verifyTableExists :: "rdb \<Rightarrow> nat \<Rightarrow> nat \<Rightarrow> nat \<Rightarrow> bool" where
  "verifyTableExists d companyId outletId tableId \<longleftrightarrow>
     list_ex (\<lambda>t. ot_company_id t = companyId \<and> ot_outlet_id t = outletId \<and> ot_id t = tableId)
       (outlet_tables d)"

record TableBoardItem =
  tb_tableId :: nat
  tb_tableCode :: string
  tb_tableName :: string
  tb_capacity :: "nat option"
  tb_zone :: "string option"
  tb_occupancyStatusId :: nat
  tb_availableNow :: bool
  tb_currentSessionId :: "nat option"
  tb_currentReservationId :: "nat option"
  tb_guestCount :: "nat option"
  tb_version :: nat
  tb_nextReservationStartAt :: "int option"
  tb_updatedAt :: int

definition upcoming :: "rdb \<Rightarrow> int \<Rightarrow> outlet_table_row \<Rightarrow> reservation_row list" where
  "upcoming d now t = filter (\<lambda>r. rv_company_id r = ot_company_id t \<and>
     rv_outlet_id r = ot_outlet_id t \<and> rv_table_id r = Some (ot_id t) \<and>
     (rv_status_id r = 1 \<or> rv_status_id r = 2) \<and>
     rv_reservation_start_ts r \<ge> now div 1000 * 1000) (reservations d)"

definition min_start :: "reservation_row list \<Rightarrow> int option" where
  "min_start rs = (case map rv_reservation_start_ts rs of [] \<Rightarrow> None | x # xs \<Rightarrow> Some (fold min xs x))"

definition board_item :: "rdb \<Rightarrow> int \<Rightarrow> outlet_table_row \<Rightarrow> TableBoardItem" where
  "board_item d now t =
     (let occ = getTableOccupancy d (ot_company_id t) (ot_outlet_id t) (ot_id t);
          st = or_else OCC_AVAILABLE (map_option occ_status_id occ)
      in \<lparr>tb_tableId = ot_id t, tb_tableCode = ot_code t, tb_tableName = ot_name t,
          tb_capacity = ot_capacity t, tb_zone = ot_zone t, tb_occupancyStatusId = st,
          tb_availableNow = (st = OCC_AVAILABLE),
          tb_currentSessionId = Option.bind occ occ_service_session_id,
          tb_currentReservationId = Option.bind occ occ_reservation_id,
          tb_guestCount = Option.bind occ occ_guest_count,
          tb_version = or_else 1 (map_option occ_version occ),
          tb_nextReservationStartAt = min_start (upcoming d now t),
          tb_updatedAt = or_else (ot_updated_at t) (map_option occ_updated_at occ)\<rparr>)"

text \<open>\<open>rank\<close> is the place of a zone and a code in the order of the collation.\<close>

definition getTableBoard :: "(string option \<Rightarrow> string \<Rightarrow> nat) \<Rightarrow> rdb \<Rightarrow> int \<Rightarrow> nat \<Rightarrow> nat \<Rightarrow>
    TableBoardItem list" where
  "getTableBoard rank d now companyId outletId =
     map (board_item d now) (sort_key (\<lambda>t. rank (ot_zone t) (ot_code t))
       (filter (\<lambda>t. ot_company_id t = companyId \<and> ot_outlet_id t = outletId) (outlet_tables d)))"

section \<open>Events\<close>

text \<open>An event is a row without its key and time; \<open>tx\<close> is the random id it carries.\<close>

record event_in =
  ei_companyId :: nat
  ei_outletId :: nat
  ei_tableId :: nat
  ei_eventTypeId :: nat
  ei_versionBefore :: nat
  ei_versionAfter :: nat
  ei_eventData :: event_data
  ei_statusBefore :: nat
  ei_statusAfter :: nat
  ei_serviceSessionId :: "nat option"
  ei_reservationId :: "nat option"
  ei_createdBy :: string

definition event_row :: "nat \<Rightarrow> string \<Rightarrow> int \<Rightarrow> event_in \<Rightarrow> table_event_row" where
  "event_row i tx now e =
     \<lparr>te_id = i, te_company_id = ei_companyId e, te_outlet_id = ei_outletId e,
      te_client_tx_id = tx, te_conflict_reason = None, te_created_at = now, te_created_by = Some (ei_createdBy e),
      te_event_data = Some (ei_eventData e), te_event_type_id = ei_eventTypeId e, te_is_conflict = False,
      te_occupancy_version_after = Some (ei_versionAfter e),
      te_occupancy_version_before = Some (ei_versionBefore e), te_occurred_at = now,
      te_pos_order_id = None, te_reservation_id = ei_reservationId e,
      te_service_session_id = ei_serviceSessionId e, te_status_id_after = Some (ei_statusAfter e),
      te_status_id_before = Some (ei_statusBefore e), te_table_id = ei_tableId e\<rparr>"

text \<open>\<open>uk_table_events_client_tx\<close> keeps the ids of one outlet apart.\<close>

definition event_tx_free :: "rdb \<Rightarrow> nat \<Rightarrow> nat \<Rightarrow> string \<Rightarrow> bool" where
  "event_tx_free d companyId outletId tx \<longleftrightarrow>
     \<not> list_ex (\<lambda>e. te_company_id e = companyId \<and> te_outlet_id e = outletId \<and> te_client_tx_id e = tx)
       (table_events d)"

definition logTableEventWithKysely :: "string \<Rightarrow> int \<Rightarrow> event_in \<Rightarrow> unit rop" where
  "logTableEventWithKysely tx now e d =
     bindR (require (event_tx_free d (ei_companyId e) (ei_outletId e) tx) (R_Database ''ER_DUP_ENTRY'')) (\<lambda>_.
     Inr ((), take_key RT_event
       (d\<lparr>table_events := table_events d @ [event_row (new_key d RT_event) tx now e]\<rparr>)))"

section \<open>Updating under a version\<close>

definition update_occupancy :: "(nat \<Rightarrow> nat option) \<Rightarrow> rerr \<Rightarrow> nat \<Rightarrow> nat \<Rightarrow> nat \<Rightarrow> nat \<Rightarrow>
    (table_occupancy_row \<Rightarrow> table_occupancy_row) \<Rightarrow> unit rop" where
  "update_occupancy aff stale companyId outletId tableId expectedVersion f d =
     bindR (checked_update (\<lambda>_. occupancy_ok)
       (\<lambda>r. occ_of companyId outletId tableId r \<and> occ_version r = expectedVersion) f
       (table_occupancy d)) (\<lambda>(rows, n).
     bindR (require (aff n \<noteq> Some 0) stale) (\<lambda>_.
     Inr ((), d\<lparr>table_occupancy := rows\<rparr>)))"

text \<open>The row that was just updated is read back.\<close>

definition reread :: "nat \<Rightarrow> nat \<Rightarrow> nat \<Rightarrow> rdb \<Rightarrow> rerr + table_occupancy_row" where
  "reread companyId outletId tableId d =
     from_opt (R_Error ''Failed to retrieve updated occupancy state'')
       (getTableOccupancy d companyId outletId tableId)"

definition read_current :: "nat \<Rightarrow> nat \<Rightarrow> nat \<Rightarrow> nat \<Rightarrow> rdb \<Rightarrow> rerr + table_occupancy_row" where
  "read_current companyId outletId tableId expectedVersion d =
     bindR (from_opt (TableOccupancyNotFoundError tableId)
       (getTableOccupancy d companyId outletId tableId)) (\<lambda>cur.
     bindR (require (occ_version cur = expectedVersion)
       (TableOccupancyConflictError ''Table state has changed'' cur)) (\<lambda>_.
     Inr cur))"

section \<open>Holding\<close>

record HoldTableInput =
  hi_companyId :: nat
  hi_outletId :: nat
  hi_tableId :: nat
  hi_heldUntil :: int
  hi_reservationId :: "nat option"
  hi_notes :: "string option"
  hi_expectedVersion :: nat
  hi_createdBy :: string

definition hold_read :: "HoldTableInput \<Rightarrow> rdb \<Rightarrow> rerr + table_occupancy_row" where
  "hold_read inp d =
     bindR (read_current (hi_companyId inp) (hi_outletId inp) (hi_tableId inp) (hi_expectedVersion inp) d) (\<lambda>cur.
     bindR (require (occ_status_id cur = OCC_AVAILABLE)
       (TableNotAvailableError (hi_tableId inp) (occ_status_id cur))) (\<lambda>_.
     Inr cur))"

definition hold_row :: "int \<Rightarrow> HoldTableInput \<Rightarrow> table_occupancy_row \<Rightarrow> table_occupancy_row" where
  "hold_row now inp r = r\<lparr>occ_status_id := OCC_RESERVED, occ_reserved_until := Some (hi_heldUntil inp),
     occ_reservation_id := hi_reservationId inp, occ_notes := hi_notes inp,
     occ_version := occ_version r + 1, occ_updated_at := now, occ_updated_by := Some (hi_createdBy inp)\<rparr>"

definition hold_event :: "HoldTableInput \<Rightarrow> nat \<Rightarrow> nat \<Rightarrow> event_in" where
  "hold_event inp version status =
     \<lparr>ei_companyId = hi_companyId inp, ei_outletId = hi_outletId inp, ei_tableId = hi_tableId inp,
      ei_eventTypeId = 1, ei_versionBefore = version, ei_versionAfter = version + 1,
      ei_eventData = Ev_held ''Table held for reservation'' (hi_heldUntil inp),
      ei_statusBefore = status, ei_statusAfter = OCC_RESERVED, ei_serviceSessionId = None,
      ei_reservationId = hi_reservationId inp, ei_createdBy = hi_createdBy inp\<rparr>"

definition hold_write :: "(nat \<Rightarrow> nat option) \<Rightarrow> string \<Rightarrow> int \<Rightarrow> HoldTableInput \<Rightarrow>
    table_occupancy_row \<Rightarrow> (table_occupancy_row \<times> nat) rop" where
  "hold_write aff tx now inp cur d =
     bindR (update_occupancy aff (TableOccupancyConflictError ''Table state has changed during update'' cur)
       (hi_companyId inp) (hi_outletId inp) (hi_tableId inp) (hi_expectedVersion inp)
       (hold_row now inp) d) (\<lambda>(_, d1).
     bindR (logTableEventWithKysely tx now (hold_event inp (occ_version cur) (occ_status_id cur)) d1) (\<lambda>(_, d2).
     bindR (reread (hi_companyId inp) (hi_outletId inp) (hi_tableId inp) d2) (\<lambda>upd.
     Inr ((upd, occ_version upd), d2))))"

definition holdTable :: "(nat \<Rightarrow> nat option) \<Rightarrow> string \<Rightarrow> int \<Rightarrow> HoldTableInput \<Rightarrow>
    (table_occupancy_row \<times> nat) rop" where
  "holdTable aff tx now inp d = bindR (hold_read inp d) (\<lambda>cur. hold_write aff tx now inp cur d)"

section \<open>Seating\<close>

record SeatTableInput =
  si_companyId :: nat
  si_outletId :: nat
  si_tableId :: nat
  si_guestCount :: nat
  si_guestName :: "string option"
  si_reservationId :: "nat option"
  si_notes :: "string option"
  si_expectedVersion :: nat
  si_createdBy :: string

definition seat_read :: "SeatTableInput \<Rightarrow> rdb \<Rightarrow> rerr + table_occupancy_row" where
  "seat_read inp d =
     bindR (read_current (si_companyId inp) (si_outletId inp) (si_tableId inp) (si_expectedVersion inp) d) (\<lambda>cur.
     bindR (require (occ_status_id cur \<noteq> OCC_OCCUPIED)
       (TableNotAvailableError (si_tableId inp) (occ_status_id cur))) (\<lambda>_.
     Inr cur))"

definition session_row :: "nat \<Rightarrow> int \<Rightarrow> SeatTableInput \<Rightarrow> table_service_session_row" where
  "session_row i now inp =
     \<lparr>tss_id = i, tss_company_id = si_companyId inp, tss_outlet_id = si_outletId inp,
      tss_closed_at = None, tss_created_at = now, tss_created_by = Some (si_createdBy inp),
      tss_guest_count = si_guestCount inp, tss_guest_name = si_guestName inp,
      tss_last_finalized_batch_no = 0, tss_locked_at = None, tss_notes = si_notes inp,
      tss_pos_order_snapshot_id = None, tss_reservation_id = None, tss_session_version = 1,
      tss_started_at = now, tss_status_id = 1,
      tss_table_id = si_tableId inp, tss_updated_at = now, tss_updated_by = None\<rparr>"

definition insert_session :: "int \<Rightarrow> SeatTableInput \<Rightarrow> nat rop" where
  "insert_session now inp d =
     bindR (require (0 < si_guestCount inp) (R_Database ''ER_CHECK_CONSTRAINT'')) (\<lambda>_.
     let i = new_key d RT_session in
     Inr (i, take_key RT_session (d\<lparr>table_service_sessions :=
       table_service_sessions d @ [session_row i now inp]\<rparr>)))"

definition seat_row :: "int \<Rightarrow> SeatTableInput \<Rightarrow> nat \<Rightarrow> table_occupancy_row \<Rightarrow> table_occupancy_row" where
  "seat_row now inp sessionId r = r\<lparr>occ_status_id := OCC_OCCUPIED, occ_service_session_id := Some sessionId,
     occ_occupied_at := Some now, occ_guest_count := Some (si_guestCount inp),
     occ_reservation_id := si_reservationId inp, occ_version := occ_version r + 1,
     occ_updated_at := now, occ_updated_by := Some (si_createdBy inp)\<rparr>"

definition seat_event :: "SeatTableInput \<Rightarrow> nat \<Rightarrow> nat \<Rightarrow> nat \<Rightarrow> event_in" where
  "seat_event inp version status sessionId =
     \<lparr>ei_companyId = si_companyId inp, ei_outletId = si_outletId inp, ei_tableId = si_tableId inp,
      ei_eventTypeId = 2, ei_versionBefore = version, ei_versionAfter = version + 1,
      ei_eventData = Ev_seated ''Guests seated'' (si_guestCount inp) (si_guestName inp),
      ei_statusBefore = status, ei_statusAfter = OCC_OCCUPIED, ei_serviceSessionId = Some sessionId,
      ei_reservationId = si_reservationId inp, ei_createdBy = si_createdBy inp\<rparr>"

definition seat_write :: "(nat \<Rightarrow> nat option) \<Rightarrow> string \<Rightarrow> int \<Rightarrow> SeatTableInput \<Rightarrow>
    table_occupancy_row \<Rightarrow> (nat \<times> table_occupancy_row) rop" where
  "seat_write aff tx now inp cur d =
     bindR (insert_session now inp d) (\<lambda>(sessionId, d1).
     bindR (update_occupancy aff (TableOccupancyConflictError ''Table state has changed during update'' cur)
       (si_companyId inp) (si_outletId inp) (si_tableId inp) (si_expectedVersion inp)
       (seat_row now inp sessionId) d1) (\<lambda>(_, d2).
     bindR (logTableEventWithKysely tx now
       (seat_event inp (occ_version cur) (occ_status_id cur) sessionId) d2) (\<lambda>(_, d3).
     bindR (reread (si_companyId inp) (si_outletId inp) (si_tableId inp) d3) (\<lambda>upd.
     Inr ((sessionId, upd), d3)))))"

definition seatTable :: "(nat \<Rightarrow> nat option) \<Rightarrow> string \<Rightarrow> int \<Rightarrow> SeatTableInput \<Rightarrow>
    (nat \<times> table_occupancy_row) rop" where
  "seatTable aff tx now inp d = bindR (seat_read inp d) (\<lambda>cur. seat_write aff tx now inp cur d)"

section \<open>Releasing\<close>

record ReleaseTableInput =
  ri_companyId :: nat
  ri_outletId :: nat
  ri_tableId :: nat
  ri_notes :: "string option"
  ri_expectedVersion :: nat
  ri_updatedBy :: string

definition release_read :: "ReleaseTableInput \<Rightarrow> rdb \<Rightarrow> rerr + table_occupancy_row" where
  "release_read inp d =
     bindR (read_current (ri_companyId inp) (ri_outletId inp) (ri_tableId inp) (ri_expectedVersion inp) d) (\<lambda>cur.
     bindR (require (occ_status_id cur = OCC_OCCUPIED)
       (TableNotOccupiedError (ri_tableId inp) (occ_status_id cur))) (\<lambda>_.
     Inr cur))"

definition close_session_row :: "int \<Rightarrow> string \<Rightarrow> table_service_session_row \<Rightarrow> table_service_session_row" where
  "close_session_row now updatedBy s = s\<lparr>tss_status_id := 3, tss_closed_at := Some now,
     tss_updated_at := now, tss_updated_by := Some updatedBy\<rparr>"

definition close_session :: "int \<Rightarrow> string \<Rightarrow> (table_service_session_row \<Rightarrow> bool) \<Rightarrow> unit rop" where
  "close_session now updatedBy P d =
     bindR (checked_update session_change_ok P (close_session_row now updatedBy)
       (table_service_sessions d)) (\<lambda>(rows, _).
     Inr ((), d\<lparr>table_service_sessions := rows\<rparr>))"

definition release_row :: "int \<Rightarrow> ReleaseTableInput \<Rightarrow> table_occupancy_row \<Rightarrow> table_occupancy_row" where
  "release_row now inp r = r\<lparr>occ_status_id := OCC_AVAILABLE, occ_service_session_id := None,
     occ_occupied_at := None, occ_guest_count := None, occ_reservation_id := None,
     occ_notes := ri_notes inp, occ_version := occ_version r + 1, occ_updated_at := now,
     occ_updated_by := Some (ri_updatedBy inp)\<rparr>"

definition release_event :: "ReleaseTableInput \<Rightarrow> table_occupancy_row \<Rightarrow> event_in" where
  "release_event inp cur =
     \<lparr>ei_companyId = ri_companyId inp, ei_outletId = ri_outletId inp, ei_tableId = ri_tableId inp,
      ei_eventTypeId = 3, ei_versionBefore = occ_version cur, ei_versionAfter = occ_version cur + 1,
      ei_eventData = Ev_released ''Table released'', ei_statusBefore = occ_status_id cur,
      ei_statusAfter = OCC_AVAILABLE, ei_serviceSessionId = occ_service_session_id cur,
      ei_reservationId = occ_reservation_id cur, ei_createdBy = ri_updatedBy inp\<rparr>"

definition release_write :: "(nat \<Rightarrow> nat option) \<Rightarrow> string \<Rightarrow> int \<Rightarrow> ReleaseTableInput \<Rightarrow>
    table_occupancy_row \<Rightarrow> (table_occupancy_row \<times> nat) rop" where
  "release_write aff tx now inp cur d =
     bindR (case truthy_id (occ_service_session_id cur) of
         None \<Rightarrow> Inr ((), d)
       | Some sid \<Rightarrow> close_session now (ri_updatedBy inp) (\<lambda>s. tss_id s = sid \<and>
           tss_company_id s = ri_companyId inp \<and> tss_outlet_id s = ri_outletId inp) d) (\<lambda>(_, d1).
     bindR (update_occupancy aff (TableOccupancyConflictError ''Table state has changed during update'' cur)
       (ri_companyId inp) (ri_outletId inp) (ri_tableId inp) (ri_expectedVersion inp)
       (release_row now inp) d1) (\<lambda>(_, d2).
     bindR (logTableEventWithKysely tx now (release_event inp cur) d2) (\<lambda>(_, d3).
     bindR (reread (ri_companyId inp) (ri_outletId inp) (ri_tableId inp) d3) (\<lambda>upd.
     Inr ((upd, occ_version upd), d3)))))"

definition releaseTable :: "(nat \<Rightarrow> nat option) \<Rightarrow> string \<Rightarrow> int \<Rightarrow> ReleaseTableInput \<Rightarrow>
    (table_occupancy_row \<times> nat) rop" where
  "releaseTable aff tx now inp d = bindR (release_read inp d) (\<lambda>cur. release_write aff tx now inp cur d)"

section \<open>The first row of a table\<close>

text \<open>\<open>uk_table_occupancy_table\<close> allows one row per table.\<close>

definition ensureTableOccupancy :: "int \<Rightarrow> nat \<Rightarrow> nat \<Rightarrow> nat \<Rightarrow> string \<Rightarrow> unit rop" where
  "ensureTableOccupancy now companyId outletId tableId createdBy d =
     (case getTableOccupancy d companyId outletId tableId of
        Some _ \<Rightarrow> Inr ((), d)
      | None \<Rightarrow>
          bindR (require (\<not> list_ex (\<lambda>r. occ_table_id r = tableId) (table_occupancy d))
            (R_Database ''ER_DUP_ENTRY'')) (\<lambda>_.
          Inr ((), take_key RT_occupancy (d\<lparr>table_occupancy := table_occupancy d @
            [\<lparr>occ_id = new_key d RT_occupancy, occ_company_id = companyId, occ_outlet_id = outletId,
              occ_created_at = now, occ_created_by = Some createdBy, occ_guest_count = None,
              occ_notes = None, occ_occupied_at = None, occ_reservation_id = None,
              occ_reserved_until = None, occ_service_session_id = None, occ_status_id = OCC_AVAILABLE,
              occ_table_id = tableId, occ_updated_at = now, occ_updated_by = None,
              occ_version = 1\<rparr>]\<rparr>))))"

end
