(* ===== verification/Reservations.thy ===== *)
theory Reservations
  imports Table_Occupancy
begin

text \<open>
  Single reservations (\<open>reservations/availability.ts\<close>, \<open>crud.ts\<close>, \<open>status.ts\<close>): reading,
  creation, update, and the change of status with its effects on the occupancy of the table.  A
  user id is the string the code prints it as.
\<close>

section \<open>Availability\<close>

text \<open>
  \<open>status NOT IN (4, 5, 6)\<close> compares the word in the column \<open>status\<close> with numbers, for which the
  database reads the word as a number: its leading digits, so 0 for every word that the check
  \<open>chk_reservations_status\<close> admits.
\<close>

definition sql_number :: "string \<Rightarrow> int" where
  "sql_number s = foldl (\<lambda>n c. 10 * n + (of_char c - 48)) 0
     (takeWhile (\<lambda>c. 48 \<le> (of_char c :: nat) \<and> (of_char c :: nat) \<le> 57) (dropWhile (\<lambda>c. c = CHR 32) s))"

definition status_not_final_sql :: "string \<Rightarrow> bool" where
  "status_not_final_sql status \<longleftrightarrow> sql_number status \<notin> {4, 5, 6}"

record occupancy_snapshot =
  os_statusId :: nat
  os_version :: nat
  os_reservationId :: "nat option"

definition getTableOccupancySnapshotWithConnection :: "rdb \<Rightarrow> nat \<Rightarrow> nat \<Rightarrow> nat \<Rightarrow> occupancy_snapshot option" where
  "getTableOccupancySnapshotWithConnection d companyId outletId tableId =
     map_option (\<lambda>r. \<lparr>os_statusId = occ_status_id r, os_version = occ_version r,
         os_reservationId = occ_reservation_id r\<rparr>)
       (getTableOccupancy d companyId outletId tableId)"

definition readTableForUpdate :: "rdb \<Rightarrow> nat \<Rightarrow> nat \<Rightarrow> nat \<Rightarrow> outlet_table_row option" where
  "readTableForUpdate d companyId outletId tableId =
     find (\<lambda>t. ot_company_id t = companyId \<and> ot_outlet_id t = outletId \<and> ot_id t = tableId)
       (outlet_tables d)"

definition hasOpenDineInOrderOnTable :: "rdb \<Rightarrow> nat \<Rightarrow> nat \<Rightarrow> nat \<Rightarrow> bool" where
  "hasOpenDineInOrderOnTable d companyId outletId tableId \<longleftrightarrow>
     0 < length (filter (\<lambda>p. pos_company_id p = companyId \<and> pos_outlet_id p = outletId \<and>
       pos_table_id p = Some tableId \<and> pos_order_state p = ''OPEN'' \<and>
       pos_service_type p = ''DINE_IN'') (pos_order_snapshots d))"

definition on_table :: "nat \<Rightarrow> nat \<Rightarrow> nat \<Rightarrow> reservation_row \<Rightarrow> bool" where
  "on_table companyId outletId tableId r \<longleftrightarrow>
     rv_company_id r = companyId \<and> rv_outlet_id r = outletId \<and> rv_table_id r = Some tableId"

definition checkReservationOverlap :: "rdb \<Rightarrow> nat \<Rightarrow> nat \<Rightarrow> nat option \<Rightarrow> int \<Rightarrow> rat \<Rightarrow> nat option \<Rightarrow> bool" where
  "checkReservationOverlap d companyId outletId tableId startTs durationMinutes exclude =
     (case truthy_id tableId of
        None \<Rightarrow> False
      | Some t \<Rightarrow>
          let endTs = of_int startTs + durationMinutes * 60000 in
          0 < length (filter (\<lambda>r. on_table companyId outletId t r \<and>
            status_not_final_sql (rv_status r) \<and>
            of_int (rv_reservation_start_ts r) < endTs \<and> rv_reservation_end_ts r > startTs \<and>
            (case truthy_id exclude of None \<Rightarrow> True | Some i \<Rightarrow> rv_id r \<noteq> i)) (reservations d)))"

definition hasActiveReservationOnTable :: "rdb \<Rightarrow> nat \<Rightarrow> nat \<Rightarrow> nat \<Rightarrow> nat option \<Rightarrow> bool" where
  "hasActiveReservationOnTable d companyId outletId tableId except =
     (0 < length (filter (\<lambda>r. on_table companyId outletId tableId r \<and>
        status_not_final_sql (rv_status r) \<and>
        (case truthy_id except of None \<Rightarrow> True | Some i \<Rightarrow> rv_id r \<noteq> i)) (reservations d)))"

section \<open>Reading reservations\<close>

definition select_reservation :: "reservation_row \<Rightarrow> ReservationDbRow" where
  "select_reservation r =
     \<lparr>dr_id = rv_id r, dr_company_id = rv_company_id r, dr_outlet_id = rv_outlet_id r,
      dr_table_id = rv_table_id r, dr_reservation_code = None, dr_status_id = Some (rv_status_id r),
      dr_status = Some (rv_status r), dr_guest_count = Some (rv_guest_count r),
      dr_customer_name = Some (rv_customer_name r), dr_customer_phone = rv_customer_phone r,
      dr_customer_email = None, dr_reservation_start_ts = Some (rv_reservation_start_ts r),
      dr_reservation_end_ts = Some (rv_reservation_end_ts r),
      dr_duration_minutes = rv_duration_minutes r, dr_notes = rv_notes r,
      dr_cancellation_reason = None, dr_created_by = None, dr_updated_by = None,
      dr_created_at = rv_created_at r, dr_updated_at = rv_updated_at r\<rparr>"

definition find_reservation :: "rdb \<Rightarrow> nat \<Rightarrow> nat \<Rightarrow> reservation_row option" where
  "find_reservation d companyId reservationId =
     find (\<lambda>r. rv_id r = reservationId \<and> rv_company_id r = companyId) (reservations d)"

definition getReservation :: "rdb \<Rightarrow> nat \<Rightarrow> nat \<Rightarrow> rerr + ReservationRecord option" where
  "getReservation d companyId reservationId =
     (case find_reservation d companyId reservationId of
        None \<Rightarrow> Inr None
      | Some r \<Rightarrow> bindR (mapDbRowToReservation (select_reservation r)) (\<lambda>rec. Inr (Some rec)))"

definition readReservationOutletId :: "rdb \<Rightarrow> nat \<Rightarrow> nat \<Rightarrow> nat option" where
  "readReservationOutletId d companyId reservationId =
     map_option rv_outlet_id (find_reservation d companyId reservationId)"

record ListReservationsParams =
  lp_outletId :: nat
  lp_limit :: nat
  lp_offset :: nat
  lp_status :: "nat option"
  lp_tableId :: "nat option"
  lp_customerName :: "string option"
  lp_fromDate :: "int option"
  lp_toDate :: "int option"
  lp_useOverlapFilter :: bool

definition date_filter :: "ListReservationsParams \<Rightarrow> reservation_row \<Rightarrow> bool" where
  "date_filter p r =
     (case (lp_fromDate p, lp_toDate p) of
        (Some from, Some to) \<Rightarrow>
          if lp_useOverlapFilter p
          then rv_reservation_start_ts r < to + 1 \<and> rv_reservation_end_ts r > from
          else rv_reservation_start_ts r \<ge> from \<and> rv_reservation_start_ts r \<le> to
      | (Some from, None) \<Rightarrow>
          if lp_useOverlapFilter p then rv_reservation_end_ts r > from else rv_reservation_start_ts r \<ge> from
      | (None, Some to) \<Rightarrow>
          if lp_useOverlapFilter p then rv_reservation_start_ts r < to + 1 else rv_reservation_start_ts r \<le> to
      | (None, None) \<Rightarrow> True)"

text \<open>\<open>like\<close> is the pattern match of the database.\<close>

definition list_filter :: "(string \<Rightarrow> string \<Rightarrow> bool) \<Rightarrow> nat \<Rightarrow> ListReservationsParams \<Rightarrow> reservation_row \<Rightarrow> bool" where
  "list_filter like companyId p r \<longleftrightarrow>
     rv_company_id r = companyId \<and> rv_outlet_id r = lp_outletId p \<and>
     (case lp_status p of None \<Rightarrow> True | Some s \<Rightarrow> rv_status_id r = s) \<and>
     (case lp_tableId p of None \<Rightarrow> True | Some t \<Rightarrow> rv_table_id r = Some t) \<and>
     (case truthy_str (lp_customerName p) of
        None \<Rightarrow> True | Some n \<Rightarrow> like (''%'' @ n @ ''%'') (rv_customer_name r)) \<and>
     date_filter p r"

definition listReservations :: "(string \<Rightarrow> string \<Rightarrow> bool) \<Rightarrow> rdb \<Rightarrow> nat \<Rightarrow> ListReservationsParams \<Rightarrow>
    rerr + ReservationRecord list \<times> nat" where
  "listReservations like d companyId p =
     (let rows = filter (list_filter like companyId p) (reservations d);
          page = take (lp_limit p) (drop (lp_offset p)
            (sort_key rv_reservation_start_ts (sort_key rv_id rows)))
      in bindR (mapM (\<lambda>r. mapDbRowToReservation (select_reservation r)) page) (\<lambda>recs.
         Inr (recs, length rows)))"

section \<open>Creation\<close>

record CreateReservationInput =
  ci_companyId :: nat
  ci_outletId :: nat
  ci_tableId :: "nat option"
  ci_partySize :: nat
  ci_customerName :: string
  ci_customerPhone :: "string option"
  ci_reservationStartTs :: int
  ci_durationMinutes :: rat
  ci_notes :: "string option"

definition assertCanonicalReservationTimestampSchema :: "string list \<Rightarrow> rerr + unit" where
  "assertCanonicalReservationTimestampSchema cols =
     require (columnExists cols ''reservation_start_ts'' \<and> columnExists cols ''reservation_end_ts'')
       (ReservationValidationError ''Reservation canonical timestamp columns are required'')"

definition check_table_free :: "CreateReservationInput \<Rightarrow> rdb \<Rightarrow> rerr + unit" where
  "check_table_free inp d =
     (case truthy_id (ci_tableId inp) of
        None \<Rightarrow> Inr ()
      | Some tableId \<Rightarrow>
          bindR (from_opt (ReservationValidationError ''Table not found in outlet'')
            (readTableForUpdate d (ci_companyId inp) (ci_outletId inp) tableId)) (\<lambda>table.
          bindR (require (ot_status table \<notin> {''OCCUPIED'', ''UNAVAILABLE'', ''RESERVED''})
            (ReservationValidationError ''Selected table is not available for reservation'')) (\<lambda>_.
          require (\<not> hasActiveReservationOnTable d (ci_companyId inp) (ci_outletId inp) tableId None)
            (ReservationValidationError ''Selected table is not available for reservation''))))"

definition new_reservation_row :: "nat \<Rightarrow> int \<Rightarrow> CreateReservationInput \<Rightarrow> reservation_row" where
  "new_reservation_row i now inp =
     \<lparr>rv_id = i, rv_company_id = ci_companyId inp, rv_outlet_id = ci_outletId inp,
      rv_arrived_at = None, rv_cancelled_at = None, rv_created_at = now,
      rv_customer_name = ci_customerName inp, rv_customer_phone = ci_customerPhone inp,
      rv_duration_minutes = Some (nat \<lfloor>ci_durationMinutes inp\<rfloor>), rv_guest_count = ci_partySize inp,
      rv_linked_order_id = None, rv_notes = ci_notes inp, rv_reservation_at = None,
      rv_reservation_end_ts = ci_reservationStartTs inp + \<lfloor>ci_durationMinutes inp\<rfloor> * 60000,
      rv_reservation_group_id = None, rv_reservation_start_ts = ci_reservationStartTs inp,
      rv_seated_at = None, rv_status = ''BOOKED'', rv_status_id = 1,
      rv_table_id = ci_tableId inp, rv_updated_at = now\<rparr>"

definition createReservation :: "int \<Rightarrow> CreateReservationInput \<Rightarrow> ReservationRecord rop" where
  "createReservation now inp d =
     bindR (check_table_free inp d) (\<lambda>_.
     bindR (assertValidDurationMinutes (ci_durationMinutes inp)) (\<lambda>_.
     bindR (assertCanonicalReservationTimestampSchema reservation_columns) (\<lambda>_.
     bindR (require (0 < ci_partySize inp) (R_Database ''ER_CHECK_CONSTRAINT'')) (\<lambda>_.
     let i = new_key d RT_reservation;
         d1 = take_key RT_reservation (d\<lparr>reservations := reservations d @ [new_reservation_row i now inp]\<rparr>)
     in bindR (getReservation d1 (ci_companyId inp) i) (\<lambda>r.
        bindR (from_opt (R_Error ''Failed to retrieve created reservation'') r) (\<lambda>rec.
        Inr (rec, d1)))))))"

section \<open>Update\<close>

record UpdateReservationInput =
  ui_tableId :: "nat option"
  ui_partySize :: "nat option"
  ui_customerName :: "string option"
  ui_customerPhone :: "string option"
  ui_reservationStartTs :: "int option"
  ui_durationMinutes :: "rat option"
  ui_notes :: "string option"

text \<open>Every field falls back to what was read.\<close>

definition keep :: "'a option \<Rightarrow> 'a option \<Rightarrow> 'a option" where
  "keep new old = (case new of None \<Rightarrow> old | Some x \<Rightarrow> Some x)"

definition updated_reservation_row :: "int \<Rightarrow> UpdateReservationInput \<Rightarrow> ReservationRecord \<Rightarrow> int \<Rightarrow> rat \<Rightarrow>
    reservation_row \<Rightarrow> reservation_row" where
  "updated_reservation_row now inp cur startTs minutes r = r\<lparr>
     rv_table_id := keep (ui_tableId inp) (rr_tableId cur),
     rv_customer_name := or_else (rr_customerName cur) (ui_customerName inp),
     rv_customer_phone := keep (ui_customerPhone inp) (rr_customerPhone cur),
     rv_guest_count := or_else (rr_partySize cur) (ui_partySize inp),
     rv_duration_minutes := Some (nat \<lfloor>minutes\<rfloor>),
     rv_notes := keep (ui_notes inp) (rr_notes cur), rv_updated_at := now,
     rv_reservation_start_ts := startTs, rv_reservation_end_ts := startTs + \<lfloor>minutes\<rfloor> * 60000\<rparr>"

definition updateReservation :: "int \<Rightarrow> nat \<Rightarrow> nat \<Rightarrow> UpdateReservationInput \<Rightarrow> ReservationRecord rop" where
  "updateReservation now companyId reservationId inp d =
     bindR (getReservation d companyId reservationId) (\<lambda>found.
     bindR (from_opt (ReservationNotFoundError reservationId) found) (\<lambda>cur.
     let startTs = or_else (rr_reservationStartTs cur) (ui_reservationStartTs inp);
         minutes = or_else (of_int (rr_reservationEndTs cur - rr_reservationStartTs cur) / 60000)
           (ui_durationMinutes inp)
     in bindR (assertValidDurationMinutes minutes) (\<lambda>_.
        bindR (assertCanonicalReservationTimestampSchema reservation_columns) (\<lambda>_.
        bindR (checked_update (\<lambda>_ r. 0 < rv_guest_count r)
          (\<lambda>r. rv_company_id r = companyId \<and> rv_id r = reservationId)
          (updated_reservation_row now inp cur startTs minutes) (reservations d)) (\<lambda>(rows, _).
        let d1 = d\<lparr>reservations := rows\<rparr> in
        bindR (getReservation d1 companyId reservationId) (\<lambda>upd.
        bindR (from_opt (ReservationNotFoundError reservationId) upd) (\<lambda>rec.
        Inr (rec, d1))))))))"

section \<open>The table of a reservation\<close>

text \<open>
  \<open>status.ts\<close> has its own copies of holding, seating and releasing.  They check nothing but the
  version and write the statuses before and after as constants.
\<close>

definition holdTableWithKysely :: "(nat \<Rightarrow> nat option) \<Rightarrow> string \<Rightarrow> int \<Rightarrow> HoldTableInput \<Rightarrow> unit rop" where
  "holdTableWithKysely aff tx now inp d =
     bindR (update_occupancy aff (ReservationConflictError ''Table state has changed'')
       (hi_companyId inp) (hi_outletId inp) (hi_tableId inp) (hi_expectedVersion inp)
       (hold_row now inp) d) (\<lambda>(_, d1).
     logTableEventWithKysely tx now (hold_event inp (hi_expectedVersion inp) OCC_AVAILABLE) d1)"

definition seatTableWithKysely :: "(nat \<Rightarrow> nat option) \<Rightarrow> string \<Rightarrow> int \<Rightarrow> SeatTableInput \<Rightarrow> unit rop" where
  "seatTableWithKysely aff tx now inp d =
     bindR (insert_session now inp d) (\<lambda>(sessionId, d1).
     bindR (update_occupancy aff (ReservationConflictError ''Table state has changed'')
       (si_companyId inp) (si_outletId inp) (si_tableId inp) (si_expectedVersion inp)
       (seat_row now inp sessionId) d1) (\<lambda>(_, d2).
     logTableEventWithKysely tx now
       (seat_event inp (si_expectedVersion inp) OCC_RESERVED sessionId) d2))"

definition plain_release_row :: "int \<Rightarrow> ReleaseTableInput \<Rightarrow> table_occupancy_row \<Rightarrow> table_occupancy_row" where
  "plain_release_row now inp r = r\<lparr>occ_status_id := OCC_AVAILABLE, occ_service_session_id := None,
     occ_occupied_at := None, occ_guest_count := None, occ_reservation_id := None,
     occ_version := occ_version r + 1, occ_updated_at := now,
     occ_updated_by := Some (ri_updatedBy inp)\<rparr>"

definition plain_release_event :: "ReleaseTableInput \<Rightarrow> event_in" where
  "plain_release_event inp =
     \<lparr>ei_companyId = ri_companyId inp, ei_outletId = ri_outletId inp, ei_tableId = ri_tableId inp,
      ei_eventTypeId = 3, ei_versionBefore = ri_expectedVersion inp,
      ei_versionAfter = ri_expectedVersion inp + 1, ei_eventData = Ev_released ''Table released'',
      ei_statusBefore = OCC_OCCUPIED, ei_statusAfter = OCC_AVAILABLE, ei_serviceSessionId = None,
      ei_reservationId = None, ei_createdBy = ri_updatedBy inp\<rparr>"

definition releaseTableWithKysely :: "(nat \<Rightarrow> nat option) \<Rightarrow> string \<Rightarrow> int \<Rightarrow> ReleaseTableInput \<Rightarrow> unit rop" where
  "releaseTableWithKysely aff tx now inp d =
     bindR (case Option.bind (getTableOccupancy d (ri_companyId inp) (ri_outletId inp) (ri_tableId inp))
         (\<lambda>o'. truthy_id (occ_service_session_id o')) of
         None \<Rightarrow> Inr ((), d)
       | Some sid \<Rightarrow> close_session now (ri_updatedBy inp) (\<lambda>s. tss_id s = sid) d) (\<lambda>(_, d1).
     bindR (update_occupancy aff (ReservationConflictError ''Table state has changed'')
       (ri_companyId inp) (ri_outletId inp) (ri_tableId inp) (ri_expectedVersion inp)
       (plain_release_row now inp) d1) (\<lambda>(_, d2).
     logTableEventWithKysely tx now (plain_release_event inp) d2))"

section \<open>Status\<close>

record UpdateReservationStatusInput =
  us_status :: nat
  us_tableId :: "nat option"
  us_notes :: "string option"
  us_userId :: string

definition overlap_check :: "nat \<Rightarrow> nat \<Rightarrow> UpdateReservationStatusInput \<Rightarrow> ReservationRecord \<Rightarrow>
    nat option \<Rightarrow> rdb \<Rightarrow> rerr + unit" where
  "overlap_check companyId reservationId inp cur tableId d =
     (if truthy_id tableId \<noteq> None \<and> us_status inp = RS_CONFIRMED
      then require (\<not> checkReservationOverlap d companyId (rr_outletId cur) tableId
          (rr_reservationStartTs cur)
          (of_int (rr_reservationEndTs cur - rr_reservationStartTs cur) / 60000) (Some reservationId))
        (ReservationConflictError ''Table is already reserved for this time slot'')
      else Inr ())"

definition release_if_held :: "(nat \<Rightarrow> nat option) \<Rightarrow> string \<Rightarrow> int \<Rightarrow> nat \<Rightarrow> nat \<Rightarrow>
    UpdateReservationStatusInput \<Rightarrow> ReservationRecord \<Rightarrow> nat \<Rightarrow> unit rop" where
  "release_if_held aff tx now companyId reservationId inp cur tableId d =
     (case getTableOccupancySnapshotWithConnection d companyId (rr_outletId cur) tableId of
        None \<Rightarrow> Inr ((), d)
      | Some occ \<Rightarrow>
          if os_reservationId occ = Some reservationId
          then releaseTableWithKysely aff tx now
            \<lparr>ri_companyId = companyId, ri_outletId = rr_outletId cur, ri_tableId = tableId,
             ri_notes = None, ri_expectedVersion = os_version occ, ri_updatedBy = us_userId inp\<rparr> d
          else Inr ((), d))"

definition table_effect :: "(nat \<Rightarrow> nat option) \<Rightarrow> string \<Rightarrow> int \<Rightarrow> nat \<Rightarrow> nat \<Rightarrow>
    UpdateReservationStatusInput \<Rightarrow> ReservationRecord \<Rightarrow> nat option \<Rightarrow> unit rop" where
  "table_effect aff tx now companyId reservationId inp cur tableId d =
     (case truthy_id tableId of
        None \<Rightarrow> Inr ((), d)
      | Some t \<Rightarrow>
          if us_status inp = RS_CONFIRMED then
            holdTableWithKysely aff tx now
              \<lparr>hi_companyId = companyId, hi_outletId = rr_outletId cur, hi_tableId = t,
               hi_heldUntil = rr_reservationEndTs cur, hi_reservationId = Some reservationId,
               hi_notes = Some ''Held for reservation'',
               hi_expectedVersion = or_else 1 (map_option os_version
                 (getTableOccupancySnapshotWithConnection d companyId (rr_outletId cur) t)),
               hi_createdBy = us_userId inp\<rparr> d
          else if us_status inp = RS_CANCELLED then
            release_if_held aff tx now companyId reservationId inp cur t d
          else if us_status inp = RS_CHECKED_IN then
            (case getTableOccupancySnapshotWithConnection d companyId (rr_outletId cur) t of
               None \<Rightarrow> Inl (ReservationValidationError ''Table is not reserved for this reservation'')
             | Some occ \<Rightarrow>
                 bindR (require (os_reservationId occ = Some reservationId)
                   (ReservationValidationError ''Table is not reserved for this reservation'')) (\<lambda>_.
                 seatTableWithKysely aff tx now
                   \<lparr>si_companyId = companyId, si_outletId = rr_outletId cur, si_tableId = t,
                    si_guestCount = rr_partySize cur, si_guestName = None,
                    si_reservationId = Some reservationId, si_notes = None,
                    si_expectedVersion = os_version occ, si_createdBy = us_userId inp\<rparr> d))
          else if us_status inp = RS_NO_SHOW then
            bindR (require (rr_reservationEndTs cur + 15 * 60000 \<le> now)
              (ReservationValidationError ''Grace period not yet passed'')) (\<lambda>_.
            release_if_held aff tx now companyId reservationId inp cur t d)
          else Inr ((), d))"

definition status_row :: "int \<Rightarrow> UpdateReservationStatusInput \<Rightarrow> reservation_row \<Rightarrow> reservation_row" where
  "status_row now inp r = r\<lparr>rv_status := statusIdToLegacyStatus (us_status inp),
     rv_status_id := us_status inp,
     rv_table_id := keep (us_tableId inp) (rv_table_id r),
     rv_notes := keep (us_notes inp) (rv_notes r),
     rv_updated_at := now\<rparr>"

definition updateReservationStatus :: "(nat \<Rightarrow> nat option) \<Rightarrow> string \<Rightarrow> int \<Rightarrow> nat \<Rightarrow> nat \<Rightarrow>
    UpdateReservationStatusInput \<Rightarrow> ReservationRecord rop" where
  "updateReservationStatus aff tx now companyId reservationId inp d =
     bindR (getReservation d companyId reservationId) (\<lambda>found.
     bindR (from_opt (ReservationNotFoundError reservationId) found) (\<lambda>cur.
     bindR (require (canTransition (rr_status cur) (us_status inp))
       (InvalidStatusTransitionError (rr_status cur) (us_status inp))) (\<lambda>_.
     let tableId = keep (us_tableId inp) (rr_tableId cur) in
     bindR (overlap_check companyId reservationId inp cur tableId d) (\<lambda>_.
     bindR (table_effect aff tx now companyId reservationId inp cur tableId d) (\<lambda>(_, d1).
     let P = (\<lambda>r. rv_id r = reservationId \<and> rv_company_id r = companyId);
         d2 = d1\<lparr>reservations := update_where P (status_row now inp) (reservations d1)\<rparr>
     in bindR (require (aff (length (filter P (reservations d1))) \<noteq> Some 0)
          (ReservationNotFoundError reservationId)) (\<lambda>_.
        bindR (getReservation d2 companyId reservationId) (\<lambda>upd.
        bindR (from_opt (R_Error ''Failed to retrieve updated reservation'') upd) (\<lambda>rec.
        Inr (rec, d2)))))))))"

end
