(* ===== verification/Reservation_Groups.thy ===== *)
theory Reservation_Groups
  imports Reservations
begin

text \<open>
  Reservations of several tables (\<open>reservation-groups/service.ts\<close>): creation, the check of
  availability, suggestions of tables for a party, reading, deletion and update.  A group is a
  row of \<open>reservation_groups\<close> and one reservation per table.  The audit port is the caller's and
  changes no table; durations are whole minutes, as the request schema has them.
\<close>

section \<open>Times of a request\<close>

text \<open>
  A request carries its time as text: \<open>Instant\<close> for a text that \<open>Date\<close> reads (with its
  milliseconds), \<open>Unreadable\<close> for one that it does not, \<open>Empty_text\<close> for the falsy empty text.
\<close>

datatype iso_text = Instant int | Unreadable | Empty_text

fun toUnixMs :: "iso_text \<Rightarrow> rerr + int" where
  "toUnixMs (Instant ms) = Inr ms"
| "toUnixMs Unreadable = Inl (R_Error ''Invalid UTC instant'')"
| "toUnixMs Empty_text = Inl (R_Error ''Invalid UTC instant'')"

text \<open>A \<open>DATETIME\<close> keeps whole seconds.\<close>

definition mysql_time :: "int \<Rightarrow> int" where
  "mysql_time ms = ms div 1000 * 1000"

section \<open>Conflicts\<close>

definition blocking :: "reservation_row \<Rightarrow> bool" where
  "blocking r \<longleftrightarrow> isBlockingStatusId (rv_status_id r)"

definition table_exists :: "rdb \<Rightarrow> nat option \<Rightarrow> bool" where
  "table_exists d tableId \<longleftrightarrow> list_ex (\<lambda>t. Some (ot_id t) = tableId) (outlet_tables d)"

text \<open>
  The reservations that block one of the tables at a time.  The join with \<open>outlet_tables\<close> is by
  primary key, so it keeps a reservation exactly when its table exists.
\<close>

definition conflicts :: "rdb \<Rightarrow> nat \<Rightarrow> nat \<Rightarrow> nat list \<Rightarrow> int \<Rightarrow> int \<Rightarrow> nat list \<Rightarrow> reservation_row list" where
  "conflicts d companyId outletId tableIds startTs endTs excluded =
     filter (\<lambda>r. rv_company_id r = companyId \<and> rv_outlet_id r = outletId \<and>
         (case rv_table_id r of None \<Rightarrow> False | Some t \<Rightarrow> t \<in> set tableIds) \<and>
         table_exists d (rv_table_id r) \<and> blocking r \<and>
         rv_reservation_start_ts r < endTs \<and> rv_reservation_end_ts r > startTs \<and>
         rv_id r \<notin> set excluded) (reservations d)"

definition available_tables :: "rdb \<Rightarrow> nat \<Rightarrow> nat \<Rightarrow> nat list \<Rightarrow> outlet_table_row list" where
  "available_tables d companyId outletId tableIds =
     filter (\<lambda>t. ot_company_id t = companyId \<and> ot_outlet_id t = outletId \<and>
       ot_id t \<in> set tableIds \<and> ot_status t = ''AVAILABLE'') (outlet_tables d)"

section \<open>Creation\<close>

record CreateReservationGroupInput =
  cg_companyId :: nat
  cg_outletId :: nat
  cg_customerName :: string
  cg_customerPhone :: "string option"
  cg_guestCount :: nat
  cg_tableIds :: "nat list"
  cg_reservationAt :: iso_text
  cg_durationMinutes :: "nat option"
  cg_notes :: "string option"

text \<open>What the rows of one group share.\<close>

record group_booking =
  gb_companyId :: nat
  gb_outletId :: nat
  gb_groupId :: nat
  gb_customerName :: string
  gb_customerPhone :: "string option"
  gb_guestCount :: nat
  gb_startTs :: int
  gb_endTs :: int
  gb_duration :: nat
  gb_notes :: "string option"

definition group_reservation_row :: "nat \<Rightarrow> int \<Rightarrow> group_booking \<Rightarrow> nat \<Rightarrow> reservation_row" where
  "group_reservation_row i now g tableId =
     \<lparr>rv_id = i, rv_company_id = gb_companyId g, rv_outlet_id = gb_outletId g,
      rv_arrived_at = None, rv_cancelled_at = None, rv_created_at = now,
      rv_customer_name = gb_customerName g, rv_customer_phone = gb_customerPhone g,
      rv_duration_minutes = Some (gb_duration g), rv_guest_count = gb_guestCount g,
      rv_linked_order_id = None, rv_notes = gb_notes g,
      rv_reservation_at = Some (mysql_time (gb_startTs g)),
      rv_reservation_end_ts = gb_endTs g, rv_reservation_group_id = Some (gb_groupId g),
      rv_reservation_start_ts = gb_startTs g, rv_seated_at = None, rv_status = ''BOOKED'',
      rv_status_id = RS_PENDING, rv_table_id = Some tableId, rv_updated_at = now\<rparr>"

definition insert_group_reservation :: "int \<Rightarrow> group_booking \<Rightarrow> nat list \<times> rdb \<Rightarrow> nat \<Rightarrow> rerr + nat list \<times> rdb" where
  "insert_group_reservation now g st tableId =
     (case st of (ids, d) \<Rightarrow>
        bindR (require (0 < gb_guestCount g) (R_Database ''ER_CHECK_CONSTRAINT'')) (\<lambda>_.
        let i = new_key d RT_reservation in
        Inr (ids @ [i], take_key RT_reservation
          (d\<lparr>reservations := reservations d @ [group_reservation_row i now g tableId]\<rparr>))))"

text \<open>The rows the loop over the tables inserts.\<close>

fun group_rows :: "nat \<Rightarrow> int \<Rightarrow> group_booking \<Rightarrow> nat list \<Rightarrow> reservation_row list" where
  "group_rows i now g [] = []"
| "group_rows i now g (t # ts) = group_reservation_row i now g t # group_rows (Suc i) now g ts"

lemma length_group_rows [simp]: "length (group_rows i now g ts) = length ts"
  by (induction ts arbitrary: i) simp_all

definition with_group_rows :: "int \<Rightarrow> group_booking \<Rightarrow> nat list \<Rightarrow> rdb \<Rightarrow> rdb" where
  "with_group_rows now g ts d = d\<lparr>
     reservations := reservations d @ group_rows (new_key d RT_reservation) now g ts,
     last_key := (last_key d)(RT_reservation := last_key d RT_reservation + length ts)\<rparr>"

lemma insert_group_reservations:
  "foldM (insert_group_reservation now g) (ids, d) ts =
    (if ts = [] \<or> 0 < gb_guestCount g
     then Inr (ids @ [new_key d RT_reservation ..< new_key d RT_reservation + length ts], with_group_rows now g ts d)
     else Inl (R_Database ''ER_CHECK_CONSTRAINT''))"
proof (induction ts arbitrary: ids d)
  case Nil
  show ?case by (simp add: with_group_rows_def)
next
  case (Cons t ts)
  let ?d = "take_key RT_reservation (d\<lparr>reservations := reservations d @
    [group_reservation_row (new_key d RT_reservation) now g t]\<rparr>)"
  have step: "insert_group_reservation now g (ids, d) t =
      (if 0 < gb_guestCount g then Inr (ids @ [new_key d RT_reservation], ?d) else Inl (R_Database ''ER_CHECK_CONSTRAINT''))"
    by (simp add: insert_group_reservation_def Let_def)
  have rows: "with_group_rows now g ts ?d = with_group_rows now g (t # ts) d"
    by (simp add: with_group_rows_def take_key_def new_key_def)
  have key: "new_key ?d RT_reservation = Suc (new_key d RT_reservation)"
    by (simp add: take_key_def new_key_def)
  show ?case
  proof (cases "0 < gb_guestCount g")
    case True
    then show ?thesis
      by (simp only: foldM.simps step if_True bindR_simps Cons rows key simp_thms)
        (simp add: upt_conv_Cons del: upt_Suc)
  qed (simp add: step)
qed

definition group_minutes :: "nat option \<Rightarrow> nat" where
  "group_minutes m = or_else 120 m"

definition insert_group :: "int \<Rightarrow> CreateReservationGroupInput \<Rightarrow> rdb \<Rightarrow> rdb" where
  "insert_group now inp d = take_key RT_group (d\<lparr>reservation_groups := reservation_groups d @
     [\<lparr>rg_id = new_key d RT_group, rg_company_id = cg_companyId inp, rg_created_at = now,
       rg_group_name = None, rg_outlet_id = cg_outletId inp,
       rg_total_guest_count = cg_guestCount inp, rg_updated_at = now\<rparr>]\<rparr>)"

definition requested_booking :: "CreateReservationGroupInput \<Rightarrow> nat \<Rightarrow> int \<Rightarrow> group_booking" where
  "requested_booking inp groupId startTs =
     (let minutes = group_minutes (cg_durationMinutes inp) in
      \<lparr>gb_companyId = cg_companyId inp, gb_outletId = cg_outletId inp, gb_groupId = groupId,
       gb_customerName = cg_customerName inp, gb_customerPhone = cg_customerPhone inp,
       gb_guestCount = cg_guestCount inp, gb_startTs = startTs,
       gb_endTs = startTs + int minutes * 60 * 1000, gb_duration = minutes, gb_notes = cg_notes inp\<rparr>)"

definition createReservationGroupWithTables :: "int \<Rightarrow> CreateReservationGroupInput \<Rightarrow> (nat \<times> nat list) rop" where
  "createReservationGroupWithTables now inp d =
     bindR (require (2 \<le> length (cg_tableIds inp)) (R_Error ''Multi-table reservation requires at least 2 tables'')) (\<lambda>_.
     bindR (require (length (cg_tableIds inp) \<le> 10) (R_Error ''Cannot reserve more than 10 tables at once'')) (\<lambda>_.
     bindR (toUnixMs (cg_reservationAt inp)) (\<lambda>startTs.
     let groupId = new_key d RT_group; g = requested_booking inp groupId startTs in
     bindR (require (length (available_tables d (cg_companyId inp) (cg_outletId inp) (cg_tableIds inp))
         = length (cg_tableIds inp)) (R_Error ''One or more tables are not available'')) (\<lambda>_.
     bindR (require (conflicts d (cg_companyId inp) (cg_outletId inp) (cg_tableIds inp)
         (gb_startTs g) (gb_endTs g) [] = []) (R_Error ''Tables not available'')) (\<lambda>_.
     bindR (foldM (insert_group_reservation now g) ([], insert_group now inp d) (cg_tableIds inp)) (\<lambda>(ids, d').
     Inr ((groupId, ids), d')))))))"

section \<open>Availability\<close>

record table_conflict =
  tc_tableId :: "nat option"
  tc_conflictingReservationId :: nat
  tc_conflictStart :: int
  tc_conflictEnd :: int

record availability_result =
  av_available :: bool
  av_conflicts :: "table_conflict list"
  av_tables :: "outlet_table_row list"
  av_totalCapacity :: nat

definition capacity_of :: "outlet_table_row list \<Rightarrow> nat" where
  "capacity_of ts = sum_list (map (\<lambda>t. or_else 0 (ot_capacity t)) ts)"

text \<open>The outlet of a table belongs to the table's company (a foreign key on both).\<close>

definition checkMultiTableAvailability :: "rdb \<Rightarrow> nat \<Rightarrow> nat \<Rightarrow> nat list \<Rightarrow> int \<Rightarrow> int \<Rightarrow> nat list \<Rightarrow>
    availability_result" where
  "checkMultiTableAvailability d companyId outletId tableIds startTs endTs excludeReservationIds =
     (let tables = available_tables d companyId outletId tableIds;
          found = conflicts d companyId outletId tableIds startTs endTs excludeReservationIds
      in \<lparr>av_available = (found = []),
          av_conflicts = map (\<lambda>r. \<lparr>tc_tableId = rv_table_id r, tc_conflictingReservationId = rv_id r,
            tc_conflictStart = rv_reservation_start_ts r, tc_conflictEnd = rv_reservation_end_ts r\<rparr>) found,
          av_tables = tables, av_totalCapacity = capacity_of tables\<rparr>)"

section \<open>Suggestions\<close>

fun getCombinations :: "'a list \<Rightarrow> nat \<Rightarrow> 'a list list" where
  "getCombinations xs 0 = [[]]"
| "getCombinations [] (Suc k) = []"
| "getCombinations (x # xs) (Suc k) =
     map (\<lambda>combo. x # combo) (getCombinations xs k) @ getCombinations xs (Suc k)"

definition scoreCombination :: "outlet_table_row list \<Rightarrow> nat \<Rightarrow> int" where
  "scoreCombination tables guestCount =
     int (length tables) * 100 + \<bar>int (capacity_of tables) - int guestCount\<bar> * 10"

record TableSuggestion =
  ts_tables :: "outlet_table_row list"
  ts_total_capacity :: nat
  ts_excess_capacity :: int
  ts_score :: int

definition free_tables :: "rdb \<Rightarrow> nat \<Rightarrow> nat \<Rightarrow> int \<Rightarrow> int \<Rightarrow> outlet_table_row list" where
  "free_tables d companyId outletId startTs endTs =
     sort_key (\<lambda>t. case ot_capacity t of None \<Rightarrow> 1 | Some c \<Rightarrow> - int c)
       (sort_key ot_id
         (filter (\<lambda>t. ot_company_id t = companyId \<and> ot_outlet_id t = outletId \<and>
            ot_status t = ''AVAILABLE'' \<and>
            \<not> list_ex (\<lambda>r. rv_company_id r = companyId \<and> rv_outlet_id r = outletId \<and>
                rv_table_id r = Some (ot_id t) \<and> blocking r \<and>
                rv_reservation_start_ts r < endTs \<and> rv_reservation_end_ts r > startTs)
              (reservations d)) (outlet_tables d)))"

definition max_capacity :: "outlet_table_row list \<Rightarrow> nat" where
  "max_capacity ts = fold max (map (\<lambda>t. or_else 0 (ot_capacity t)) ts) 0"

definition fits :: "nat \<Rightarrow> outlet_table_row list \<Rightarrow> bool" where
  "fits guestCount combo \<longleftrightarrow> guestCount \<le> capacity_of combo \<and> 2 * capacity_of combo \<le> 3 * guestCount"

text \<open>
  The loop over the number of tables starts at \<open>Math.ceil(guestCount / maxCapacity)\<close>; a division
  by zero gives \<open>Infinity\<close> or \<open>NaN\<close> and no round.
\<close>

definition table_counts :: "outlet_table_row list \<Rightarrow> nat \<Rightarrow> nat list" where
  "table_counts ts guestCount =
     (let m = max_capacity ts in
      if m = 0 then []
      else [(guestCount + m - 1) div m ..< Suc (min 5 (length ts))])"

definition suggestion :: "nat \<Rightarrow> outlet_table_row list \<Rightarrow> TableSuggestion" where
  "suggestion guestCount combo =
     \<lparr>ts_tables = combo, ts_total_capacity = capacity_of combo,
      ts_excess_capacity = int (capacity_of combo) - int guestCount,
      ts_score = scoreCombination combo guestCount\<rparr>"

definition suggestTableCombinations :: "rdb \<Rightarrow> nat \<Rightarrow> nat \<Rightarrow> nat \<Rightarrow> int \<Rightarrow> int \<Rightarrow> nat option \<Rightarrow> TableSuggestion list" where
  "suggestTableCombinations d companyId outletId guestCount startTs endTs maxSuggestions =
     (let available = free_tables d companyId outletId startTs endTs in
      if available = [] then []
      else take (or_else 5 maxSuggestions) (sort_key ts_score (map (suggestion guestCount)
        (concat (map (\<lambda>count. filter (fits guestCount) (getCombinations available count))
           (table_counts available guestCount))))))"

section \<open>Reading a group\<close>

record group_member =
  gm_reservation_id :: nat
  gm_table_id :: "nat option"
  gm_status :: string
  gm_reservation_at :: "int option"

definition find_group :: "rdb \<Rightarrow> nat \<Rightarrow> nat \<Rightarrow> reservation_group_row option" where
  "find_group d companyId groupId =
     find (\<lambda>g. rg_id g = groupId \<and> rg_company_id g = companyId) (reservation_groups d)"

definition getReservationGroup :: "rdb \<Rightarrow> nat \<Rightarrow> nat \<Rightarrow> (reservation_group_row \<times> group_member list) option" where
  "getReservationGroup d companyId groupId =
     map_option (\<lambda>g. (g, map (\<lambda>r. \<lparr>gm_reservation_id = rv_id r, gm_table_id = rv_table_id r,
           gm_status = rv_status r, gm_reservation_at = rv_reservation_at r\<rparr>)
         (sort_key (\<lambda>r. or_else 0 (rv_table_id r))
           (filter (\<lambda>r. rv_reservation_group_id r = Some (rg_id g) \<and>
              rv_company_id r = rg_company_id g \<and> rv_outlet_id r = rg_outlet_id g \<and>
              table_exists d (rv_table_id r)) (reservations d)))))
       (find_group d companyId groupId)"

section \<open>Deletion\<close>

definition in_group :: "nat \<Rightarrow> nat \<Rightarrow> reservation_row \<Rightarrow> bool" where
  "in_group companyId groupId r \<longleftrightarrow>
     rv_reservation_group_id r = Some groupId \<and> rv_company_id r = companyId"

definition resolved :: "reservation_row \<Rightarrow> rerr + nat" where
  "resolved r = resolveStatusId (Some (rv_status_id r)) (Some (rv_status r))"

definition check_not_started :: "reservation_row \<Rightarrow> rerr + unit" where
  "check_not_started r =
     bindR (resolved r) (\<lambda>s.
     require (\<not> (isBlockingStatusId s \<and> s \<noteq> RS_PENDING \<and> s \<noteq> RS_CONFIRMED))
       (R_Error ''Cannot cancel group with reservations that have already started''))"

definition cancel_row :: "int \<Rightarrow> reservation_row \<Rightarrow> reservation_row" where
  "cancel_row now r = r\<lparr>rv_status := ''CANCELLED'', rv_status_id := RS_CANCELLED,
     rv_cancelled_at := Some now, rv_reservation_group_id := None, rv_updated_at := now\<rparr>"

definition deleteReservationGroupSafe :: "int \<Rightarrow> nat \<Rightarrow> nat \<Rightarrow> (bool \<times> nat) rop" where
  "deleteReservationGroupSafe now companyId groupId d =
     bindR (from_opt (R_Error ''Reservation group not found or access denied'')
       (find_group d companyId groupId)) (\<lambda>_.
     let rows = filter (in_group companyId groupId) (reservations d) in
     bindR (foldM (\<lambda>_ r. check_not_started r) () rows) (\<lambda>_.
     bindR (mapM resolved rows) (\<lambda>statuses.
     bindR (require (\<not> list_ex (\<lambda>s. s = RS_COMPLETED \<or> s = RS_CANCELLED \<or> s = RS_NO_SHOW) statuses)
       (R_Error ''Cannot cancel group with reservations that have already started'')) (\<lambda>_.
     Inr ((True, length rows),
       d\<lparr>reservations := update_where (in_group companyId groupId) (cancel_row now) (reservations d),
         reservation_groups := filter (\<lambda>g. \<not> (rg_id g = groupId \<and> rg_company_id g = companyId))
           (reservation_groups d)\<rparr>)))))"

section \<open>Update\<close>

record group_updates =
  gu_customerName :: "string option"
  gu_customerPhone :: "string option option"
  gu_guestCount :: "nat option"
  gu_reservationAt :: "iso_text option"
  gu_durationMinutes :: "nat option"
  gu_notes :: "string option option"
  gu_tableIds :: "nat list option"

record UpdateReservationGroupResult =
  gr_groupId :: nat
  gr_reservationIds :: "nat list"
  gr_updatedTables :: "nat option list"
  gr_removedTables :: "nat option list"

definition truthy_iso :: "iso_text option \<Rightarrow> iso_text option" where
  "truthy_iso v = (if v = Some Empty_text then None else v)"

definition first_of_group :: "rdb \<Rightarrow> nat \<Rightarrow> reservation_row option" where
  "first_of_group d groupId = find (\<lambda>r. rv_reservation_group_id r = Some groupId) (reservations d)"

definition getFirstReservationTime :: "rdb \<Rightarrow> nat \<Rightarrow> rerr + int" where
  "getFirstReservationTime d groupId =
     bindR (from_opt (R_Error ''Reservation group has no reservations - data integrity violation'')
       (first_of_group d groupId)) (\<lambda>r. Inr (rv_reservation_start_ts r))"

definition requested_start :: "group_updates \<Rightarrow> rdb \<Rightarrow> nat \<Rightarrow> rerr + int" where
  "requested_start u d groupId =
     (case truthy_iso (gu_reservationAt u) of
        Some t \<Rightarrow> toUnixMs t
      | None \<Rightarrow> getFirstReservationTime d groupId)"

definition requested_end :: "group_updates \<Rightarrow> int \<Rightarrow> int" where
  "requested_end u startTs = startTs + int (group_minutes (gu_durationMinutes u)) * 60 * 1000"

definition started :: "reservation_row \<Rightarrow> rerr + bool" where
  "started r = bindR (resolved r) (\<lambda>s.
     Inr (s = 3 \<or> s = RS_COMPLETED \<or> s = RS_CANCELLED \<or> s = RS_NO_SHOW))"

text \<open>\<open>IN ()\<close> is a syntax error of the database; \<open>IN\<close> matches no null.\<close>

definition some_ids :: "'a option list \<Rightarrow> 'a list" where
  "some_ids xs = List.map_filter id xs"

definition check_tables :: "group_updates \<Rightarrow> nat \<Rightarrow> nat \<Rightarrow> reservation_group_row \<Rightarrow> nat option list \<Rightarrow>
    nat list \<Rightarrow> rdb \<Rightarrow> rerr + unit" where
  "check_tables u companyId groupId grp currentTableIds tableIds d =
     bindR (require (2 \<le> length tableIds) (R_Error ''Multi-table reservation requires at least 2 tables'')) (\<lambda>_.
     bindR (require (length tableIds \<le> 10) (R_Error ''Cannot reserve more than 10 tables'')) (\<lambda>_.
     let added = filter (\<lambda>t. Some t \<notin> set currentTableIds) tableIds in
     bindR (requested_start u d groupId) (\<lambda>startTs.
     bindR (if added = [] then Inr ()
         else bindR (require (length (available_tables d companyId (rg_outlet_id grp) added) = length added)
             (R_Error ''One or more new tables are not available'')) (\<lambda>_.
           require (conflicts d companyId (rg_outlet_id grp) added startTs (requested_end u startTs) [] = [])
             (R_Error ''New tables not available during requested time''))) (\<lambda>_.
     require (or_else (rg_total_guest_count grp) (gu_guestCount u) \<le>
         capacity_of (filter (\<lambda>t. ot_company_id t = companyId \<and> ot_outlet_id t = rg_outlet_id grp \<and>
           ot_id t \<in> set tableIds) (outlet_tables d)))
       (R_Error ''Insufficient capacity'')))))"

definition check_times :: "group_updates \<Rightarrow> nat \<Rightarrow> nat \<Rightarrow> reservation_group_row \<Rightarrow> nat list \<Rightarrow>
    nat option list \<Rightarrow> rdb \<Rightarrow> rerr + unit" where
  "check_times u companyId groupId grp currentIds finalTableIds d =
     (if gu_reservationAt u = None \<and> gu_durationMinutes u = None then Inr ()
      else bindR (requested_start u d groupId) (\<lambda>startTs.
        bindR (require (finalTableIds \<noteq> []) (R_Database ''ER_PARSE_ERROR'')) (\<lambda>_.
        require (conflicts d companyId (rg_outlet_id grp) (some_ids finalTableIds) startTs
            (requested_end u startTs) currentIds = [])
          (R_Error ''Time conflict detected''))))"

definition metadata_row :: "int \<Rightarrow> group_updates \<Rightarrow> int option \<Rightarrow> reservation_row \<Rightarrow> reservation_row" where
  "metadata_row now u startTs r =
     (let r1 = r\<lparr>rv_updated_at := now\<rparr>;
          r2 = (case truthy_str (gu_customerName u) of None \<Rightarrow> r1 | Some n \<Rightarrow> r1\<lparr>rv_customer_name := n\<rparr>);
          r3 = (case gu_customerPhone u of None \<Rightarrow> r2 | Some p \<Rightarrow> r2\<lparr>rv_customer_phone := p\<rparr>);
          r4 = (case truthy_id (gu_guestCount u) of None \<Rightarrow> r3 | Some n \<Rightarrow> r3\<lparr>rv_guest_count := n\<rparr>);
          r5 = (case startTs of None \<Rightarrow> r4 | Some s \<Rightarrow> r4\<lparr>rv_reservation_at := Some (mysql_time s),
             rv_reservation_start_ts := s, rv_reservation_end_ts := requested_end u s,
             rv_duration_minutes := Some (group_minutes (gu_durationMinutes u))\<rparr>)
      in (case gu_notes u of None \<Rightarrow> r5 | Some n \<Rightarrow> r5\<lparr>rv_notes := n\<rparr>))"

definition has_metadata :: "group_updates \<Rightarrow> bool" where
  "has_metadata u \<longleftrightarrow> truthy_str (gu_customerName u) \<noteq> None \<or> gu_customerPhone u \<noteq> None \<or>
     truthy_id (gu_guestCount u) \<noteq> None \<or> truthy_iso (gu_reservationAt u) \<noteq> None \<or> gu_notes u \<noteq> None"

definition update_metadata :: "int \<Rightarrow> group_updates \<Rightarrow> nat \<Rightarrow> nat \<Rightarrow> unit rop" where
  "update_metadata now u companyId groupId d =
     (let d1 = (case gu_guestCount u of None \<Rightarrow> d
        | Some n \<Rightarrow> d\<lparr>reservation_groups := update_where (\<lambda>g. rg_id g = groupId \<and> rg_company_id g = companyId)
            (\<lambda>g. g\<lparr>rg_total_guest_count := n, rg_updated_at := now\<rparr>) (reservation_groups d)\<rparr>) in
      if \<not> has_metadata u then Inr ((), d1)
      else bindR (case truthy_iso (gu_reservationAt u) of None \<Rightarrow> Inr None
          | Some t \<Rightarrow> bindR (toUnixMs t) (\<lambda>s. Inr (Some s))) (\<lambda>startTs.
        Inr ((), d1\<lparr>reservations := update_where (in_group companyId groupId)
          (metadata_row now u startTs) (reservations d1)\<rparr>)))"

definition unlink_removed :: "int \<Rightarrow> nat \<Rightarrow> nat \<Rightarrow> nat option list \<Rightarrow> rdb \<Rightarrow> rdb" where
  "unlink_removed now companyId groupId removed d =
     d\<lparr>reservations := update_where
         (\<lambda>r. in_group companyId groupId r \<and> rv_table_id r \<noteq> None \<and> rv_table_id r \<in> set removed)
         (\<lambda>r. r\<lparr>rv_reservation_group_id := None, rv_updated_at := now\<rparr>) (reservations d)\<rparr>"

definition added_booking :: "group_updates \<Rightarrow> nat \<Rightarrow> reservation_group_row \<Rightarrow> nat \<Rightarrow> int \<Rightarrow> rdb \<Rightarrow> group_booking" where
  "added_booking u companyId grp groupId startTs d =
     (let first = first_of_group d groupId in
      \<lparr>gb_companyId = companyId, gb_outletId = rg_outlet_id grp, gb_groupId = groupId,
       gb_customerName = or_else (or_else ''Group Reservation'' (map_option rv_customer_name first))
         (gu_customerName u),
       gb_customerPhone = or_else (Option.bind first rv_customer_phone) (gu_customerPhone u),
       gb_guestCount = or_else (rg_total_guest_count grp) (gu_guestCount u),
       gb_startTs = startTs, gb_endTs = requested_end u startTs,
       gb_duration = group_minutes (gu_durationMinutes u),
       gb_notes = or_else (Option.bind first rv_notes) (gu_notes u)\<rparr>)"

definition add_tables :: "int \<Rightarrow> group_updates \<Rightarrow> nat \<Rightarrow> reservation_group_row \<Rightarrow> nat \<Rightarrow> nat list \<Rightarrow> nat list rop" where
  "add_tables now u companyId grp groupId added d =
     (if added = [] then Inr ([], d)
      else bindR (requested_start u d groupId) (\<lambda>startTs.
        foldM (insert_group_reservation now (added_booking u companyId grp groupId startTs d)) ([], d) added))"

text \<open>
  The tables the group ends with, those it loses and those it gains, for the tables of its current
  reservations.
\<close>

definition final_tables :: "group_updates \<Rightarrow> nat option list \<Rightarrow> nat option list" where
  "final_tables u current = (case gu_tableIds u of None \<Rightarrow> current | Some ts \<Rightarrow> map Some ts)"

definition removed_tables :: "group_updates \<Rightarrow> nat option list \<Rightarrow> nat option list" where
  "removed_tables u current =
     (case gu_tableIds u of None \<Rightarrow> [] | Some _ \<Rightarrow> filter (\<lambda>t. t \<notin> set (final_tables u current)) current)"

definition added_tables :: "group_updates \<Rightarrow> nat option list \<Rightarrow> nat list" where
  "added_tables u current = some_ids (filter (\<lambda>t. t \<notin> set current) (final_tables u current))"

definition updateReservationGroup :: "int \<Rightarrow> nat \<Rightarrow> nat \<Rightarrow> nat \<Rightarrow> group_updates \<Rightarrow>
    UpdateReservationGroupResult rop" where
  "updateReservationGroup now companyId outletId groupId u d =
     bindR (from_opt (R_Error ''Reservation group not found or access denied'')
       (find (\<lambda>g. rg_id g = groupId \<and> rg_company_id g = companyId \<and> rg_outlet_id g = outletId)
         (reservation_groups d))) (\<lambda>grp.
     let rows = filter (in_group companyId groupId) (reservations d);
         current = map rv_table_id rows;
         removed = removed_tables u current
     in
     bindR (mapM started rows) (\<lambda>ss.
     bindR (require (True \<notin> set ss)
       (R_Error ''Cannot edit group with reservations that have already started'')) (\<lambda>_.
     bindR (case gu_tableIds u of None \<Rightarrow> Inr ()
       | Some ts \<Rightarrow> check_tables u companyId groupId grp current ts d) (\<lambda>_.
     bindR (check_times u companyId groupId grp (map rv_id rows) (final_tables u current) d) (\<lambda>_.
     bindR (update_metadata now u companyId groupId d) (\<lambda>(_, d1).
     let d2 = (if removed = [] then d1 else unlink_removed now companyId groupId removed d1) in
     bindR (add_tables now u companyId grp groupId (added_tables u current) d2) (\<lambda>(newIds, d3).
     Inr (\<lparr>gr_groupId = groupId,
       gr_reservationIds = map rv_id (filter (\<lambda>r. rv_table_id r \<notin> set removed) rows) @ newIds,
       gr_updatedTables = final_tables u current, gr_removedTables = removed\<rparr>, d3))))))))"

end
