(* ===== verification/Sample_Reservations.thy ===== *)
theory Sample_Reservations
  imports Reservation_Groups
begin

text \<open>The tables of a small restaurant, on which the witnesses of the reservations run.\<close>

definition sample_table :: "nat \<Rightarrow> string \<Rightarrow> nat \<Rightarrow> outlet_table_row" where
  "sample_table i code seats = \<lparr>ot_id = i, ot_company_id = 1, ot_outlet_id = 1, ot_capacity = Some seats,
     ot_code = code, ot_created_at = 0, ot_name = code, ot_status = ''AVAILABLE'', ot_status_id = 1,
     ot_updated_at = 0, ot_zone = None\<rparr>"

definition sample_reservation :: "nat \<Rightarrow> nat option \<Rightarrow> int \<Rightarrow> int \<Rightarrow> nat \<Rightarrow> reservation_row" where
  "sample_reservation i tableId startTs endTs st = \<lparr>rv_id = i, rv_company_id = 1, rv_outlet_id = 1,
     rv_arrived_at = None, rv_cancelled_at = None, rv_created_at = 0, rv_customer_name = ''Ann'',
     rv_customer_phone = None, rv_duration_minutes = None, rv_guest_count = 2,
     rv_linked_order_id = None, rv_notes = None, rv_reservation_at = None,
     rv_reservation_end_ts = endTs, rv_reservation_group_id = None, rv_reservation_start_ts = startTs,
     rv_seated_at = None, rv_status = statusIdToLegacyStatus st, rv_status_id = st,
     rv_table_id = tableId, rv_updated_at = 0\<rparr>"

definition sample_occupancy :: "nat \<Rightarrow> nat \<Rightarrow> nat option \<Rightarrow> table_occupancy_row" where
  "sample_occupancy i st reservation = \<lparr>occ_id = i, occ_company_id = 1, occ_outlet_id = 1,
     occ_created_at = 0, occ_created_by = None, occ_guest_count = None, occ_notes = None,
     occ_occupied_at = None, occ_reservation_id = reservation, occ_reserved_until = None,
     occ_service_session_id = None, occ_status_id = st, occ_table_id = i, occ_updated_at = 0,
     occ_updated_by = None, occ_version = 1\<rparr>"

text \<open>
  Three tables of four, two and four seats, and a reservation of the third from 0:00 to 1:30.
\<close>

definition sample_rdb :: rdb where
  "sample_rdb = \<lparr>
     outlet_tables = [sample_table 1 ''A1'' 4, sample_table 2 ''A2'' 2, sample_table 3 ''B1'' 4],
     reservations = [sample_reservation 1 (Some 3) 0 5400000 1],
     reservation_groups = [],
     table_occupancy = [sample_occupancy 1 1 None, sample_occupancy 2 1 None, sample_occupancy 3 1 None],
     table_service_sessions = [], table_events = [], session_lines = [],
     session_checkpoints = [], pos_order_snapshots = [], snapshot_lines = [], items = [],
     last_key = (\<lambda>t. case t of RT_reservation \<Rightarrow> 1 | RT_occupancy \<Rightarrow> 3 | _ \<Rightarrow> 0)\<rparr>"

definition party_request :: "nat list \<Rightarrow> CreateReservationGroupInput" where
  "party_request ids = \<lparr>cg_companyId = 1, cg_outletId = 1, cg_customerName = ''Smith'', cg_customerPhone = None,
     cg_guestCount = 5, cg_tableIds = ids, cg_reservationAt = Instant 7200000,
     cg_durationMinutes = Some 60, cg_notes = None\<rparr>"

text \<open>Reading off a computed run.\<close>

lemma case_run_iff:
  "(case m of Inl e \<Rightarrow> False | Inr (x, d) \<Rightarrow> P x d) \<longleftrightarrow> (\<exists>x d. m = Inr (x, d) \<and> P x d)"
  by (auto split: sum.splits)

end
