(* ===== verification/Table_Holding.thy ===== *)
theory Table_Holding
  imports Sample_Reservations
begin

text \<open>
  What holding, seating and releasing do to a table: the trigger of the database rejects every
  hold, a table that was seated is released to where it was, and a writer that lost the race for
  the version notices it only if the result of the update says so.
\<close>

section \<open>The update of one row\<close>

definition one_row_per_table :: "rdb \<Rightarrow> bool" where
  "one_row_per_table d \<longleftrightarrow> distinct (map occ_table_id (table_occupancy d))"

lemma getTableOccupancy_Some:
  "getTableOccupancy d c o' t = Some r \<Longrightarrow> r \<in> set (table_occupancy d) \<and> occ_of c o' t r"
  unfolding getTableOccupancy_def by (drule find_SomeD) simp

lemma row_of_table:
  assumes "one_row_per_table d" and "r \<in> set (table_occupancy d)" and "occ_of c o' t r"
  shows "getTableOccupancy d c o' t = Some r" and "filter (occ_of c o' t) (table_occupancy d) = [r]"
proof -
  have uniq: "q = r" if "q \<in> set (table_occupancy d)" "occ_of c o' t q" for q
  proof (rule distinct_map_eq [of occ_table_id "table_occupancy d" q r, OF _ that(1) assms(2)])
    show "distinct (map occ_table_id (table_occupancy d))" using assms(1) by (simp add: one_row_per_table_def)
    show "occ_table_id q = occ_table_id r" using assms(3) that(2) by (simp add: occ_of_def)
  qed
  have "set (filter (occ_of c o' t) (table_occupancy d)) = {r}"
    unfolding set_filter using assms(2,3) uniq by blast
  moreover have "length (filter (occ_of c o' t) (table_occupancy d)) \<le> 1"
    by (rule filter_key_unique [of occ_table_id _ _ t])
      (use assms(1) in \<open>simp_all add: one_row_per_table_def occ_of_def\<close>)
  ultimately show "filter (occ_of c o' t) (table_occupancy d) = [r]"
    by (cases "filter (occ_of c o' t) (table_occupancy d)") auto
  then show "getTableOccupancy d c o' t = Some r" by (simp add: getTableOccupancy_def find_filter)
qed

lemma filter_version:
  "filter (\<lambda>r. P r \<and> occ_version r = v) rs = filter (\<lambda>r. occ_version r = v) (filter P rs)"
  by (induction rs) auto

text \<open>An update under the version of the row changes it, an update under another version nothing.\<close>

lemma update_occupancy_row:
  assumes "one_row_per_table d" and "getTableOccupancy d c o' t = Some r"
  shows "update_occupancy aff stale c o' t v f d =
    (if occ_version r = v
     then if \<not> occupancy_ok (f r) then Inl (R_Database ''ER_BAD_NULL_ERROR'')
       else if aff 1 = Some 0 then Inl stale
       else Inr ((), d\<lparr>table_occupancy := update_where (occ_of c o' t) f (table_occupancy d)\<rparr>)
     else if aff 0 = Some 0 then Inl stale else Inr ((), d))"
proof -
  have r: "r \<in> set (table_occupancy d)" "occ_of c o' t r"
    using getTableOccupancy_Some [OF assms(2)] by simp_all
  have fil: "filter (occ_of c o' t) (table_occupancy d) = [r]"
    by (rule row_of_table(2) [OF assms(1) r])
  have only: "q = r" if "q \<in> set (table_occupancy d)" "occ_of c o' t q" for q
  proof -
    from that have "q \<in> set (filter (occ_of c o' t) (table_occupancy d))" by simp
    then show ?thesis by (simp add: fil)
  qed
  show ?thesis
  proof (cases "occ_version r = v")
    case True
    have "update_where (\<lambda>r. occ_of c o' t r \<and> occ_version r = v) f (table_occupancy d) =
        update_where (occ_of c o' t) f (table_occupancy d)"
      unfolding update_where_def by (rule map_cong) (use only True in auto)
    moreover have "(\<forall>q \<in> set (table_occupancy d). occ_of c o' t q \<and> occ_version q = v \<longrightarrow> occupancy_ok (f q)) \<longleftrightarrow>
        occupancy_ok (f r)"
      using only r True by blast
    ultimately show ?thesis
      using True fil by (simp add: update_occupancy_def checked_update_def filter_version require_def)
  next
    case False
    then have none: "\<not> (occ_of c o' t q \<and> occ_version q = v)" if "q \<in> set (table_occupancy d)" for q
      using only that by blast
    then have "update_where (\<lambda>r. occ_of c o' t r \<and> occ_version r = v) f (table_occupancy d) = table_occupancy d"
      by (rule update_where_no_match)
    moreover have "\<forall>q \<in> set (table_occupancy d). occ_of c o' t q \<and> occ_version q = v \<longrightarrow> occupancy_ok (f q)"
      using none by blast
    ultimately show ?thesis using False fil
      by (simp add: update_occupancy_def checked_update_def filter_version require_def)
  qed
qed

lemma log_event_frame:
  "logTableEventWithKysely tx now e d = Inr (u, d') \<Longrightarrow>
    table_occupancy d' = table_occupancy d \<and> table_service_sessions d' = table_service_sessions d \<and>
    reservations d' = reservations d \<and> outlet_tables d' = outlet_tables d \<and>
    reservation_groups d' = reservation_groups d \<and>
    last_key d' = (last_key d)(RT_event := Suc (last_key d RT_event)) \<and>
    length (table_events d') = Suc (length (table_events d))"
  by (auto simp: logTableEventWithKysely_def inr_simps take_key_def)

section \<open>Holding is rejected\<close>

text \<open>
  The code writes status 2 for a held table, which the trigger reads as occupied: a row with that
  status needs a service session.
\<close>

lemma hold_row_rejected: "occ_service_session_id r = None \<Longrightarrow> \<not> occupancy_ok (hold_row now inp r)"
  by (simp add: occupancy_ok_def hold_row_def)

lemma hold_update_rejected:
  assumes "getTableOccupancy d c o' t = Some r" and "occ_service_session_id r = None"
  shows "update_occupancy aff stale c o' t (occ_version r) (hold_row now inp) d =
    Inl (R_Database ''ER_BAD_NULL_ERROR'')"
  using getTableOccupancy_Some [OF assms(1)] hold_row_rejected [OF assms(2)]
  by (auto simp: update_occupancy_def checked_update_def)

lemma getReservation_found:
  "find_reservation d c i = Some rv \<Longrightarrow> getReservation d c i = Inr (Some
    \<lparr>rr_id = rv_id rv, rr_companyId = rv_company_id rv, rr_outletId = rv_outlet_id rv,
     rr_tableId = rv_table_id rv, rr_reservationCode = [], rr_status = rv_status_id rv,
     rr_partySize = rv_guest_count rv, rr_customerName = rv_customer_name rv,
     rr_customerPhone = rv_customer_phone rv, rr_customerEmail = None,
     rr_reservationStartTs = rv_reservation_start_ts rv, rr_reservationEndTs = rv_reservation_end_ts rv,
     rr_notes = rv_notes rv, rr_cancellationReason = None, rr_createdBy = [], rr_updatedBy = None,
     rr_createdAt = rv_created_at rv, rr_updatedAt = rv_updated_at rv\<rparr>)"
  by (simp add: getReservation_def mapDbRowToReservation_def select_reservation_def row_status_id_def)

text \<open>
  A table without guests can never be held: \<open>holdTable\<close> fails for it whatever its input, and
  so does the confirmation of every reservation that names a table with a row of occupancy.  When
  nothing else is wrong with the confirmation, it is the database's trigger that rejects it.
\<close>

theorem confirmation_rejected:
  assumes "find_reservation d c i = Some rv" and "us_status inp = RS_CONFIRMED"
    and "keep (us_tableId inp) (rv_table_id rv) = Some t" and "t \<noteq> 0"
    and "getTableOccupancy d c (rv_outlet_id rv) t = Some r" and "occ_service_session_id r = None"
  shows "(\<exists>e. updateReservationStatus aff tx now c i inp d = Inl e) \<and>
    (rv_status_id rv = RS_PENDING \<and>
       \<not> checkReservationOverlap d c (rv_outlet_id rv) (Some t) (rv_reservation_start_ts rv)
         (of_int (rv_reservation_end_ts rv - rv_reservation_start_ts rv) / 60000) (Some i) \<longrightarrow>
     updateReservationStatus aff tx now c i inp d = Inl (R_Database ''ER_BAD_NULL_ERROR'')) \<and>
    (\<forall>h. hi_companyId h = c \<and> hi_outletId h = rv_outlet_id rv \<and> hi_tableId h = t \<longrightarrow>
     (\<exists>e. holdTable aff tx now h d = Inl e))"
proof (intro conjI allI impI)
  have effect: "table_effect aff tx now c i inp cur (Some t) d = Inl (R_Database ''ER_BAD_NULL_ERROR'')"
    if "rr_outletId cur = rv_outlet_id rv" for cur
    using assms(2,4,5) hold_update_rejected [OF assms(5,6)] that
    by (simp add: table_effect_def truthy_id_def holdTableWithKysely_def
        getTableOccupancySnapshotWithConnection_def)
  have run: "updateReservationStatus aff tx now c i inp d =
      (if \<not> canTransition (rv_status_id rv) RS_CONFIRMED
       then Inl (InvalidStatusTransitionError (rv_status_id rv) RS_CONFIRMED)
       else if checkReservationOverlap d c (rv_outlet_id rv) (Some t) (rv_reservation_start_ts rv)
         (of_int (rv_reservation_end_ts rv - rv_reservation_start_ts rv) / 60000) (Some i)
       then Inl (ReservationConflictError ''Table is already reserved for this time slot'')
       else Inl (R_Database ''ER_BAD_NULL_ERROR''))"
    using assms(2-4) effect
    by (simp add: updateReservationStatus_def getReservation_found [OF assms(1)] Let_def
        overlap_check_def truthy_id_def require_def)
  show "\<exists>e. updateReservationStatus aff tx now c i inp d = Inl e" by (simp add: run)
  show "updateReservationStatus aff tx now c i inp d = Inl (R_Database ''ER_BAD_NULL_ERROR'')"
    if "rv_status_id rv = RS_PENDING \<and> \<not> checkReservationOverlap d c (rv_outlet_id rv) (Some t)
      (rv_reservation_start_ts rv)
      (of_int (rv_reservation_end_ts rv - rv_reservation_start_ts rv) / 60000) (Some i)"
    using that by (simp add: run canTransition_iff)
  fix h :: HoldTableInput
  assume h: "hi_companyId h = c \<and> hi_outletId h = rv_outlet_id rv \<and> hi_tableId h = t"
  show "\<exists>e. holdTable aff tx now h d = Inl e"
  proof (cases "hold_read h d")
    case (Inr cur)
    with h assms(5) have "cur = r" "hi_expectedVersion h = occ_version r"
      by (auto simp: hold_read_def read_current_def inr_simps)
    with Inr h hold_update_rejected [OF assms(5,6)] show ?thesis
      by (simp add: holdTable_def hold_write_def)
  qed (simp add: holdTable_def)
qed

definition confirm_request :: UpdateReservationStatusInput where
  "confirm_request = \<lparr>us_status = 2, us_tableId = None, us_notes = None, us_userId = ''7''\<rparr>"

theorem confirmation_rejected_witness:
  "\<forall>aff tx now. updateReservationStatus aff tx now 1 1 confirm_request sample_rdb = Inl (R_Database ''ER_BAD_NULL_ERROR'')"
proof -
  have "find_reservation sample_rdb 1 1 = Some (sample_reservation 1 (Some 3) 0 5400000 1)"
    and "getTableOccupancy sample_rdb 1 1 3 = Some (sample_occupancy 3 1 None)"
    by code_simp+
  moreover have "\<not> checkReservationOverlap sample_rdb 1 1 (Some 3) 0 (of_int 5400000 / 60000) (Some 1)"
    by (simp add: checkReservationOverlap_def sample_rdb_def sample_reservation_def truthy_id_def)
  ultimately show ?thesis
    using confirmation_rejected [of sample_rdb 1 1 "sample_reservation 1 (Some 3) 0 5400000 1" confirm_request 3
        "sample_occupancy 3 1 None"]
    by (simp add: sample_reservation_def sample_occupancy_def confirm_request_def keep_def)
qed

section \<open>Seating and releasing\<close>

definition session_keys :: "rdb \<Rightarrow> bool" where
  "session_keys d \<longleftrightarrow> (\<forall>s \<in> set (table_service_sessions d). tss_id s \<le> last_key d RT_session)"

lemma read_current_Inr:
  "read_current c o' t v d = Inr cur \<longleftrightarrow> getTableOccupancy d c o' t = Some cur \<and> occ_version cur = v"
  by (auto simp: read_current_def inr_simps)

lemma insert_session_Inr:
  "insert_session now inp d = Inr (i, d') \<longleftrightarrow> 0 < si_guestCount inp \<and> i = new_key d RT_session \<and>
    d' = take_key RT_session (d\<lparr>table_service_sessions := table_service_sessions d @ [session_row i now inp]\<rparr>)"
  by (auto simp: insert_session_def inr_simps Let_def)

lemma getTableOccupancy_update:
  assumes "getTableOccupancy d c o' t = Some r" and "\<And>q. occ_of c o' t (f q) = occ_of c o' t q"
    and "table_occupancy d' = update_where (occ_of c o' t) f (table_occupancy d)"
  shows "getTableOccupancy d' c o' t = Some (f r)"
  using assms find_update_where [of "occ_of c o' t" f "occ_of c o' t" "table_occupancy d"]
    getTableOccupancy_Some [OF assms(1)]
  by (simp add: getTableOccupancy_def)

lemma getTableOccupancy_other:
  assumes "t \<noteq> t'" and "\<And>q. occ_of c o' t (f q) = occ_of c o' t q"
    and "table_occupancy d' = update_where (occ_of c o' t') f (table_occupancy d)"
  shows "getTableOccupancy d' c o' t = getTableOccupancy d c o' t"
proof (cases "getTableOccupancy d c o' t")
  case (Some r)
  with getTableOccupancy_Some [OF Some] assms(1) have "\<not> occ_of c o' t' r" by (simp add: occ_of_def)
  with Some assms(2,3) find_update_where [of "occ_of c o' t" f] show ?thesis
    by (simp add: getTableOccupancy_def)
qed (use assms(2,3) find_update_where [of "occ_of c o' t" f] in \<open>simp add: getTableOccupancy_def\<close>)

lemma one_row_per_table_update:
  assumes "one_row_per_table d" and "\<And>q. occ_table_id (f q) = occ_table_id q"
    and "table_occupancy d' = update_where P f (table_occupancy d)"
  shows "one_row_per_table d'"
  using assms by (simp add: one_row_per_table_def update_where_map_id)

text \<open>What a successful seating leaves.\<close>

lemma seatTable_effect:
  assumes "one_row_per_table d" and "seatTable aff tx now inp d = Inr ((sid, occ), d')"
  obtains cur where "getTableOccupancy d (si_companyId inp) (si_outletId inp) (si_tableId inp) = Some cur"
    and "occ_version cur = si_expectedVersion inp" and "occ_status_id cur \<noteq> OCC_OCCUPIED"
    and "si_reservationId inp \<noteq> None" and "0 < si_guestCount inp" and "aff 1 \<noteq> Some 0"
    and "sid = new_key d RT_session" and "occ = seat_row now inp sid cur"
    and "getTableOccupancy d' (si_companyId inp) (si_outletId inp) (si_tableId inp) = Some occ"
    and "table_occupancy d' = update_where (occ_of (si_companyId inp) (si_outletId inp) (si_tableId inp))
      (seat_row now inp sid) (table_occupancy d)"
    and "table_service_sessions d' = table_service_sessions d @ [session_row sid now inp]"
proof -
  let ?c = "si_companyId inp" and ?o = "si_outletId inp" and ?t = "si_tableId inp" and ?v = "si_expectedVersion inp"
  from assms(2) obtain cur d1 d2 u where cur: "getTableOccupancy d ?c ?o ?t = Some cur" "occ_version cur = ?v"
      "occ_status_id cur \<noteq> OCC_OCCUPIED"
    and ses: "0 < si_guestCount inp" "sid = new_key d RT_session"
      "d1 = take_key RT_session (d\<lparr>table_service_sessions := table_service_sessions d @ [session_row sid now inp]\<rparr>)"
    and upd: "update_occupancy aff (TableOccupancyConflictError ''Table state has changed during update'' cur)
       ?c ?o ?t ?v (seat_row now inp sid) d1 = Inr ((), d2)"
    and log: "logTableEventWithKysely tx now (seat_event inp (occ_version cur) (occ_status_id cur) sid) d2 = Inr (u, d')"
    and re: "getTableOccupancy d' ?c ?o ?t = Some occ"
    by (auto simp: seatTable_def seat_read_def seat_write_def read_current_Inr insert_session_Inr reread_def inr_simps
        split: prod.splits)
  have d1: "table_occupancy d1 = table_occupancy d" by (simp add: ses(3) take_key_def)
  then have "one_row_per_table d1" "getTableOccupancy d1 ?c ?o ?t = Some cur"
    using assms(1) cur(1) by (simp_all add: one_row_per_table_def getTableOccupancy_def)
  from upd [unfolded update_occupancy_row [OF this]] cur(2)
  have ok: "occupancy_ok (seat_row now inp sid cur)" and aff: "aff 1 \<noteq> Some 0"
    and d2: "d2 = d1\<lparr>table_occupancy := update_where (occ_of ?c ?o ?t) (seat_row now inp sid) (table_occupancy d1)\<rparr>"
    by (simp_all split: if_splits)
  have occs: "table_occupancy d' = update_where (occ_of ?c ?o ?t) (seat_row now inp sid) (table_occupancy d)"
    using log_event_frame [OF log] by (simp add: d2 d1)
  have "getTableOccupancy d' ?c ?o ?t = Some (seat_row now inp sid cur)"
    by (rule getTableOccupancy_update [OF cur(1) _ occs]) (simp add: occ_of_def seat_row_def)
  with re have "occ = seat_row now inp sid cur" by simp
  moreover have "si_reservationId inp \<noteq> None" using ok by (auto simp: occupancy_ok_def seat_row_def)
  moreover have "table_service_sessions d' = table_service_sessions d @ [session_row sid now inp]"
    using log_event_frame [OF log] by (simp add: d2 ses(3) take_key_def)
  ultimately show thesis using that cur ses(1,2) aff re occs by blast
qed

text \<open>
  C27: Guests who were seated can always be released again by who saw the seating: the table is
  available with nothing of the visit left on it, its version has gone up by two, the session of
  the visit is closed, and every other table and session is as it was before the guests came.
\<close>

theorem seat_then_release:
  assumes "one_row_per_table d" and "session_keys d"
    and "seatTable aff tx now inp d = Inr ((sid, occ), d1)"
    and "ri_companyId rin = si_companyId inp" and "ri_outletId rin = si_outletId inp"
    and "ri_tableId rin = si_tableId inp" and "ri_expectedVersion rin = occ_version occ"
    and "event_tx_free d1 (si_companyId inp) (si_outletId inp) tx'"
  shows "\<exists>upd d2. releaseTable aff tx' now' rin d1 = Inr ((upd, si_expectedVersion inp + 2), d2) \<and>
    occ_status_id upd = OCC_AVAILABLE \<and> occ_service_session_id upd = None \<and>
    occ_reservation_id upd = None \<and> occ_guest_count upd = None \<and>
    (\<forall>t. t \<noteq> si_tableId inp \<longrightarrow> getTableOccupancy d2 (si_companyId inp) (si_outletId inp) t =
      getTableOccupancy d (si_companyId inp) (si_outletId inp) t) \<and>
    (\<exists>s. table_service_sessions d2 = table_service_sessions d @ [s] \<and> tss_id s = sid \<and> tss_status_id s = 3)"
proof -
  let ?c = "si_companyId inp" and ?o = "si_outletId inp" and ?t = "si_tableId inp"
  from seatTable_effect [OF assms(1,3)] obtain cur where cur: "occ_version cur = si_expectedVersion inp"
      "aff 1 \<noteq> Some 0" "0 < si_guestCount inp"
    and sid: "sid = new_key d RT_session" and occ: "occ = seat_row now inp sid cur"
    and occ1: "getTableOccupancy d1 ?c ?o ?t = Some occ"
    and occs1: "table_occupancy d1 = update_where (occ_of ?c ?o ?t) (seat_row now inp sid) (table_occupancy d)"
    and ses1: "table_service_sessions d1 = table_service_sessions d @ [session_row sid now inp]"
    by blast
  have uniq1: "one_row_per_table d1"
    by (rule one_row_per_table_update [OF assms(1) _ occs1]) (simp add: seat_row_def)
  let ?P = "\<lambda>s. tss_id s = sid \<and> tss_company_id s = ?c \<and> tss_outlet_id s = ?o"
  let ?close = "close_session_row now' (ri_updatedBy rin)"
  have old: "\<not> ?P s" if "s \<in> set (table_service_sessions d)" for s
    using that assms(2) sid by (fastforce simp: session_keys_def new_key_def)
  then have upd_ses: "update_where ?P ?close (table_service_sessions d1) =
      table_service_sessions d @ [?close (session_row sid now inp)]"
    by (simp add: ses1 update_where_no_match session_row_def)
  have close: "close_session now' (ri_updatedBy rin) ?P d1 =
      Inr ((), d1\<lparr>table_service_sessions := table_service_sessions d @ [?close (session_row sid now inp)]\<rparr>)"
    using old unfolding close_session_def checked_update_def upd_ses
    by (auto simp: ses1 session_change_ok_def session_row_def close_session_row_def)
  define d2 where "d2 = d1\<lparr>table_service_sessions := table_service_sessions d @ [?close (session_row sid now inp)]\<rparr>"
  have occ2: "getTableOccupancy d2 ?c ?o ?t = Some occ" and uniq2: "one_row_per_table d2"
    using occ1 uniq1 by (simp_all add: d2_def getTableOccupancy_def one_row_per_table_def)
  have ok: "occupancy_ok (release_row now' rin occ)" by (simp add: occupancy_ok_def release_row_def)
  define d3 where "d3 = d2\<lparr>table_occupancy := update_where (occ_of ?c ?o ?t) (release_row now' rin) (table_occupancy d2)\<rparr>"
  have free: "event_tx_free d3 ?c ?o tx'" using assms(8) by (simp add: d3_def d2_def event_tx_free_def)
  define d4 where "d4 = take_key RT_event (d3\<lparr>table_events := table_events d3 @
    [event_row (new_key d3 RT_event) tx' now' (release_event rin occ)]\<rparr>)"
  have log: "logTableEventWithKysely tx' now' (release_event rin occ) d3 = Inr ((), d4)"
    using free assms(4-6) by (simp add: logTableEventWithKysely_def release_event_def d4_def require_def)
  have occ4: "getTableOccupancy d4 ?c ?o ?t = Some (release_row now' rin occ)"
    by (rule getTableOccupancy_update [OF occ2])
      (simp add: release_row_def occ_of_def, simp add: d4_def d3_def take_key_def)
  have "releaseTable aff tx' now' rin d1 = Inr ((release_row now' rin occ, si_expectedVersion inp + 2), d4)"
    using occ1 assms(4-7) cur occ close [folded d2_def] update_occupancy_row [OF uniq2 occ2] ok log occ4
    by (simp add: releaseTable_def release_read_def read_current_def release_write_def reread_def seat_row_def
        d3_def [symmetric] release_row_def truthy_id_def sid new_key_def)
  moreover have "getTableOccupancy d4 ?c ?o t = getTableOccupancy d ?c ?o t" if "t \<noteq> ?t" for t
  proof -
    have "getTableOccupancy d4 ?c ?o t = getTableOccupancy d1 ?c ?o t"
      by (rule getTableOccupancy_other [OF that, of _ _ "release_row now' rin"])
        (simp add: release_row_def occ_of_def, simp add: d4_def d3_def d2_def take_key_def)
    also have "\<dots> = getTableOccupancy d ?c ?o t"
      by (rule getTableOccupancy_other [OF that _ occs1]) (simp add: seat_row_def occ_of_def)
    finally show ?thesis .
  qed
  moreover have "table_service_sessions d4 = table_service_sessions d @ [?close (session_row sid now inp)]"
    by (simp add: d4_def d3_def d2_def take_key_def)
  ultimately show ?thesis
    by (intro exI [of _ "release_row now' rin occ"] exI [of _ d4])
      (simp add: release_row_def session_row_def close_session_row_def)
qed

definition seat_request :: SeatTableInput where
  "seat_request = \<lparr>si_companyId = 1, si_outletId = 1, si_tableId = 3, si_guestCount = 2,
     si_guestName = None, si_reservationId = Some 1, si_notes = None, si_expectedVersion = 1,
     si_createdBy = ''7''\<rparr>"

definition release_request :: ReleaseTableInput where
  "release_request = \<lparr>ri_companyId = 1, ri_outletId = 1, ri_tableId = 3, ri_notes = None,
     ri_expectedVersion = 2, ri_updatedBy = ''7''\<rparr>"

lemma sample_rdb_rows: "one_row_per_table sample_rdb" "session_keys sample_rdb"
  by code_simp+

lemma sample_seated:
  obtains occ d1 where "seatTable Some ''a'' 0 seat_request sample_rdb = Inr ((1, occ), d1)"
    and "occ_version occ = 2" and "event_tx_free d1 1 1 ''b''"
proof -
  have "case seatTable Some ''a'' 0 seat_request sample_rdb of
      Inl _ \<Rightarrow> False
    | Inr ((sid, occ), d1) \<Rightarrow> sid = 1 \<and> occ_version occ = 2 \<and> event_tx_free d1 1 1 ''b''"
    by code_simp
  then show thesis
    using that by (cases "seatTable Some ''a'' 0 seat_request sample_rdb") auto
qed

theorem seat_then_release_witness:
  "\<exists>occ d1 upd d2. seatTable Some ''a'' 0 seat_request sample_rdb = Inr ((1, occ), d1) \<and>
    releaseTable Some ''b'' 9 release_request d1 = Inr ((upd, 3), d2) \<and> occ_status_id upd = OCC_AVAILABLE"
proof -
  obtain occ d1 where seat: "seatTable Some ''a'' 0 seat_request sample_rdb = Inr ((1, occ), d1)"
    and occ: "occ_version occ = 2" "event_tx_free d1 1 1 ''b''"
    by (rule sample_seated)
  then have "\<exists>upd d2. releaseTable Some ''b'' 9 release_request d1 = Inr ((upd, si_expectedVersion seat_request + 2), d2) \<and>
      occ_status_id upd = OCC_AVAILABLE"
    using seat_then_release [OF sample_rdb_rows seat, of release_request "''b''" 9]
    by (auto simp: seat_request_def release_request_def)
  with seat show ?thesis by (auto simp: seat_request_def)
qed

section \<open>Losing the race for the version\<close>

text \<open>
  Two sessions that both read a table as free both seat their guests if the result of an
  update has no field \<open>affectedRows\<close>: the second changes no row of occupancy, reports success, and
  leaves an active session and an event for a visit the table does not show.  If the field is
  there, the second is told of the conflict and nothing of it stays.
\<close>

theorem late_seating:
  assumes "one_row_per_table d'" and "seat_read inp d = Inr cur"
    and "getTableOccupancy d' (si_companyId inp) (si_outletId inp) (si_tableId inp) = Some row"
    and "occ_version row \<noteq> si_expectedVersion inp" and "0 < si_guestCount inp"
    and "event_tx_free d' (si_companyId inp) (si_outletId inp) tx"
  shows "(aff 0 = Some 0 \<longrightarrow> seat_write aff tx now inp cur d' =
      Inl (TableOccupancyConflictError ''Table state has changed during update'' cur)) \<and>
    (aff 0 = None \<longrightarrow> (\<exists>d2. seat_write aff tx now inp cur d' = Inr ((new_key d' RT_session, row), d2) \<and>
      table_occupancy d2 = table_occupancy d' \<and>
      table_service_sessions d2 = table_service_sessions d' @ [session_row (new_key d' RT_session) now inp] \<and>
      length (table_events d2) = Suc (length (table_events d'))))"
proof -
  let ?c = "si_companyId inp" and ?o = "si_outletId inp" and ?t = "si_tableId inp" and ?i = "new_key d' RT_session"
  define d1 where "d1 = take_key RT_session (d'\<lparr>table_service_sessions :=
    table_service_sessions d' @ [session_row ?i now inp]\<rparr>)"
  have d1: "table_occupancy d1 = table_occupancy d'" "table_events d1 = table_events d'"
    "table_service_sessions d1 = table_service_sessions d' @ [session_row ?i now inp]"
    by (simp_all add: d1_def take_key_def)
  then have occ1: "one_row_per_table d1" "getTableOccupancy d1 ?c ?o ?t = Some row"
    using assms(1,3) by (simp_all add: one_row_per_table_def getTableOccupancy_def)
  have ins: "insert_session now inp d' = Inr (?i, d1)" by (simp add: insert_session_Inr assms(5) d1_def)
  let ?e = "seat_event inp (occ_version cur) (occ_status_id cur) ?i"
  have "event_tx_free d1 (ei_companyId ?e) (ei_outletId ?e) tx"
    using assms(6) by (simp add: event_tx_free_def d1 seat_event_def)
  then obtain u d2 where log: "logTableEventWithKysely tx now ?e d1 = Inr (u, d2)"
    by (simp add: logTableEventWithKysely_def)
  note frame = log_event_frame [OF log]
  then have "getTableOccupancy d2 ?c ?o ?t = Some row" using occ1(2) by (simp add: getTableOccupancy_def)
  then show ?thesis
    using assms(4) ins update_occupancy_row [OF occ1] log frame
    by (simp add: seat_write_def reread_def d1)
qed

definition second_seat_request :: SeatTableInput where
  "second_seat_request = seat_request\<lparr>si_guestCount := 4\<rparr>"

theorem late_seating_witness:
  "\<exists>occ d1 cur sid row d2. seatTable Some ''a'' 0 seat_request sample_rdb = Inr ((1, occ), d1) \<and>
    seat_read second_seat_request sample_rdb = Inr cur \<and>
    seat_write (\<lambda>_. None) ''b'' 0 second_seat_request cur d1 = Inr ((sid, row), d2) \<and>
    table_occupancy d2 = table_occupancy d1 \<and>
    (\<exists>e. seat_write Some ''b'' 0 second_seat_request cur d1 = Inl e)"
proof -
  obtain occ d1 where seat: "seatTable Some ''a'' 0 seat_request sample_rdb = Inr ((1, occ), d1)"
    and occ: "occ_version occ = 2" "event_tx_free d1 1 1 ''b''"
    by (rule sample_seated)
  have read: "seat_read second_seat_request sample_rdb = Inr (sample_occupancy 3 1 None)" by code_simp
  have row: "getTableOccupancy d1 (si_companyId seat_request) (si_outletId seat_request) (si_tableId seat_request) = Some occ"
    and occs: "table_occupancy d1 = update_where (occ_of (si_companyId seat_request) (si_outletId seat_request)
      (si_tableId seat_request)) (seat_row 0 seat_request 1) (table_occupancy sample_rdb)"
    by (rule seatTable_effect [OF sample_rdb_rows(1) seat], assumption)+
  have uniq: "one_row_per_table d1"
    by (rule one_row_per_table_update [OF sample_rdb_rows(1) _ occs]) (simp add: seat_row_def)
  have "getTableOccupancy d1 (si_companyId second_seat_request) (si_outletId second_seat_request)
      (si_tableId second_seat_request) = Some occ"
    and "occ_version occ \<noteq> si_expectedVersion second_seat_request" and "0 < si_guestCount second_seat_request"
    and "event_tx_free d1 (si_companyId second_seat_request) (si_outletId second_seat_request) ''b''"
    using row occ by (simp_all add: second_seat_request_def seat_request_def)
  note late = late_seating [OF uniq read this]
  from late [of "\<lambda>_. None" 0] obtain d2 where
    "seat_write (\<lambda>_. None) ''b'' 0 second_seat_request (sample_occupancy 3 1 None) d1 =
      Inr ((new_key d1 RT_session, occ), d2)" "table_occupancy d2 = table_occupancy d1"
    by auto
  moreover from late [of Some 0] have
    "\<exists>e. seat_write Some ''b'' 0 second_seat_request (sample_occupancy 3 1 None) d1 = Inl e"
    by simp
  ultimately show ?thesis using seat read by blast
qed

end
