(* ===== verification/Table_Sync.thy ===== *)
theory Table_Sync
  imports Table_Holding Decimal_Scale4
begin

text \<open>
  What a point of sale does to the tables after it was offline (\<open>table-sync/service.ts\<close>,
  \<open>pushTableEvents\<close>): it pushes the events it has recorded, each under an id of its own and with
  the version of the table it has seen, and the service applies them one by one.

  Every event runs in a transaction that reads the row of the table with a lock.  Deadlocks and
  lock timeouts, which the code answers by trying again, have no counterpart here: events are
  applied one after the other.  Unlike \<open>Table_Occupancy\<close>, this service writes the statuses of
  \<open>packages/shared/src/constants/table-states.ts\<close>, where 2 is occupied and 3 is reserved, as the
  triggers of the database have them.
\<close>

section \<open>Events and answers\<close>

abbreviation (input) "ST_AVAILABLE \<equiv> (1 :: nat)"
abbreviation (input) "ST_OCCUPIED \<equiv> (2 :: nat)"
abbreviation (input) "ST_RESERVED \<equiv> (3 :: nat)"

record sync_event =
  sy_client_tx_id :: string
  sy_table_id :: int
  sy_expected_table_version :: nat
  sy_event_type :: nat
  sy_payload :: table_payload
  sy_recorded_at :: int

record conflict_payload =
  cp_status_id :: nat
  cp_guest_count :: "nat option"
  cp_service_session_id :: "nat option"
  cp_active_session :: "(nat \<times> nat \<times> int) option"
  cp_current_version :: nat

datatype push_status = Push_OK | Push_DUPLICATE | Push_ERROR

text \<open>An error message is kept as the error it tells of.\<close>

record push_result =
  pr_clientTxId :: string
  pr_status :: push_status
  pr_tableVersion :: "nat option"
  pr_conflictPayload :: "conflict_payload option"
  pr_error :: "rerr option"

definition buildConflictPayload :: "rdb \<Rightarrow> nat \<Rightarrow> nat \<Rightarrow> nat \<Rightarrow> conflict_payload" where
  "buildConflictPayload d tableId companyId outletId =
     (let occ = (if verifyTableExists d companyId outletId tableId
            then getTableOccupancy d companyId outletId tableId else None);
          session = Option.bind (Option.bind occ (\<lambda>r. truthy_id (occ_service_session_id r)))
            (\<lambda>i. find (\<lambda>s. tss_company_id s = companyId \<and> tss_outlet_id s = outletId \<and> tss_id s = i \<and>
               (tss_status_id s = 1 \<or> tss_status_id s = 2)) (table_service_sessions d))
      in \<lparr>cp_status_id = or_else ST_AVAILABLE (map_option occ_status_id occ),
          cp_guest_count = Option.bind occ occ_guest_count,
          cp_service_session_id = Option.bind occ (\<lambda>r. truthy_id (occ_service_session_id r)),
          cp_active_session = map_option (\<lambda>s. (tss_id s, tss_status_id s, tss_started_at s)) session,
          cp_current_version = or_else 1 (map_option occ_version occ)\<rparr>)"

section \<open>Writing the occupancy\<close>

record occupancy_params =
  uo_companyId :: nat
  uo_outletId :: nat
  uo_tableId :: nat
  uo_statusId :: nat
  uo_serviceSessionId :: "nat option"
  uo_guestCount :: "nat option"
  uo_reservationId :: "nat option"
  uo_reservedUntil :: "int option"
  uo_newVersion :: nat
  uo_actorId :: nat

definition occupancy_written :: "int \<Rightarrow> occupancy_params \<Rightarrow> table_occupancy_row \<Rightarrow> table_occupancy_row" where
  "occupancy_written now p r = r\<lparr>occ_status_id := uo_statusId p,
     occ_service_session_id := uo_serviceSessionId p, occ_guest_count := uo_guestCount p,
     occ_reservation_id := uo_reservationId p, occ_reserved_until := uo_reservedUntil p,
     occ_version := uo_newVersion p,
     occ_occupied_at := (if uo_statusId p = ST_OCCUPIED then Some now else occ_occupied_at r),
     occ_updated_at := now, occ_updated_by := Some (nat_str (uo_actorId p))\<rparr>"

definition occupancy_inserted :: "nat \<Rightarrow> int \<Rightarrow> occupancy_params \<Rightarrow> table_occupancy_row" where
  "occupancy_inserted i now p =
     \<lparr>occ_id = i, occ_company_id = uo_companyId p, occ_outlet_id = uo_outletId p,
      occ_created_at = now, occ_created_by = Some (nat_str (uo_actorId p)),
      occ_guest_count = uo_guestCount p, occ_notes = None,
      occ_occupied_at = (if uo_statusId p = ST_OCCUPIED then Some now else None),
      occ_reservation_id = uo_reservationId p, occ_reserved_until = uo_reservedUntil p,
      occ_service_session_id = uo_serviceSessionId p, occ_status_id = uo_statusId p,
      occ_table_id = uo_tableId p, occ_updated_at = now, occ_updated_by = None,
      occ_version = uo_newVersion p\<rparr>"

definition change_occupancy :: "nat \<Rightarrow> nat \<Rightarrow> nat \<Rightarrow> (table_occupancy_row \<Rightarrow> table_occupancy_row) \<Rightarrow> unit rop" where
  "change_occupancy companyId outletId tableId f d =
     bindR (checked_update (\<lambda>_. occupancy_ok) (occ_of companyId outletId tableId) f (table_occupancy d)) (\<lambda>(rows, _).
     Inr ((), d\<lparr>table_occupancy := rows\<rparr>))"

definition updateOccupancy :: "int \<Rightarrow> occupancy_params \<Rightarrow> unit rop" where
  "updateOccupancy now p d =
     (case getTableOccupancy d (uo_companyId p) (uo_outletId p) (uo_tableId p) of
        Some _ \<Rightarrow> change_occupancy (uo_companyId p) (uo_outletId p) (uo_tableId p) (occupancy_written now p) d
      | None \<Rightarrow>
          let r = occupancy_inserted (new_key d RT_occupancy) now p in
          bindR (require (occupancy_ok r) (R_Database ''ER_BAD_NULL_ERROR'')) (\<lambda>_.
          bindR (require (\<not> list_ex (\<lambda>q. occ_table_id q = uo_tableId p) (table_occupancy d))
            (R_Database ''ER_DUP_ENTRY'')) (\<lambda>_.
          Inr ((), take_key RT_occupancy (d\<lparr>table_occupancy := table_occupancy d @ [r]\<rparr>)))))"

definition occupancy_reset :: "int \<Rightarrow> nat \<Rightarrow> nat \<Rightarrow> string option \<Rightarrow> table_occupancy_row \<Rightarrow> table_occupancy_row" where
  "occupancy_reset now newVersion actorId notes r = r\<lparr>occ_status_id := ST_AVAILABLE,
     occ_service_session_id := None, occ_guest_count := None, occ_reservation_id := None,
     occ_occupied_at := None, occ_notes := notes, occ_version := newVersion, occ_updated_at := now,
     occ_updated_by := Some (nat_str actorId)\<rparr>"

definition resetOccupancy :: "int \<Rightarrow> nat \<Rightarrow> nat \<Rightarrow> nat \<Rightarrow> nat \<Rightarrow> nat \<Rightarrow> string option \<Rightarrow> unit rop" where
  "resetOccupancy now companyId outletId tableId newVersion actorId notes =
     change_occupancy companyId outletId tableId (occupancy_reset now newVersion actorId notes)"

section \<open>One event\<close>

text \<open>Where an event is applied, by whom and when, and the row that the transaction has locked.\<close>

record sync_at =
  sa_companyId :: nat
  sa_outletId :: nat
  sa_tableId :: nat
  sa_actorId :: nat
  sa_now :: int
  sa_row :: "table_occupancy_row option"

definition current_version :: "sync_at \<Rightarrow> nat" where
  "current_version x = or_else 1 (map_option occ_version (sa_row x))"

definition current_status :: "sync_at \<Rightarrow> nat" where
  "current_status x = or_else ST_AVAILABLE (map_option occ_status_id (sa_row x))"

definition current_session :: "sync_at \<Rightarrow> nat option" where
  "current_session x = Option.bind (sa_row x) occ_service_session_id"

definition current_reservation :: "sync_at \<Rightarrow> nat option" where
  "current_reservation x = Option.bind (sa_row x) occ_reservation_id"

definition session_here :: "sync_at \<Rightarrow> nat \<Rightarrow> table_service_session_row \<Rightarrow> bool" where
  "session_here x i s \<longleftrightarrow> tss_id s = i \<and> tss_company_id s = sa_companyId x \<and> tss_outlet_id s = sa_outletId x"

definition occupancy_at :: "sync_at \<Rightarrow> nat \<Rightarrow> nat option \<Rightarrow> nat option \<Rightarrow> nat option \<Rightarrow> int option \<Rightarrow>
    occupancy_params" where
  "occupancy_at x status session guests reservation until =
     \<lparr>uo_companyId = sa_companyId x, uo_outletId = sa_outletId x, uo_tableId = sa_tableId x,
      uo_statusId = status, uo_serviceSessionId = session, uo_guestCount = guests,
      uo_reservationId = reservation, uo_reservedUntil = until,
      uo_newVersion = Suc (current_version x), uo_actorId = sa_actorId x\<rparr>"

text \<open>
  Each kind of event answers with the status, the session and the reservation that the log names
  afterwards, and what is added to its payload there.
\<close>

type_synonym sync_applied = "nat \<times> nat option \<times> nat option \<times> sync_note"

definition opened_session :: "sync_at \<Rightarrow> table_payload \<Rightarrow> SeatTableInput" where
  "opened_session x p =
     \<lparr>si_companyId = sa_companyId x, si_outletId = sa_outletId x, si_tableId = sa_tableId x,
      si_guestCount = or_else 1 (tp_guest_count p), si_guestName = tp_guest_name p,
      si_reservationId = None, si_notes = tp_notes p, si_expectedVersion = current_version x,
      si_createdBy = nat_str (sa_actorId x)\<rparr>"

definition apply_opened :: "sync_at \<Rightarrow> table_payload \<Rightarrow> sync_applied rop" where
  "apply_opened x p d =
     (let guestCount = or_else 1 (tp_guest_count p);
          reservationId = truthy_id (tp_reservation_id p)
      in
      bindR (require (current_status x \<noteq> ST_OCCUPIED) (R_Error ''Table is already occupied'')) (\<lambda>_.
      bindR (insert_session (sa_now x) (opened_session x p) d) (\<lambda>(sessionId, d1).
      bindR (updateOccupancy (sa_now x)
        (occupancy_at x ST_OCCUPIED (Some sessionId) (Some guestCount) reservationId None) d1) (\<lambda>(_, d2).
      Inr ((ST_OCCUPIED, Some sessionId, reservationId, Sn_opened sessionId guestCount), d2)))))"

definition apply_closed :: "sync_at \<Rightarrow> table_payload \<Rightarrow> sync_applied rop" where
  "apply_closed x p d =
     bindR (require (current_status x = ST_OCCUPIED) (R_Error ''Table is not occupied'')) (\<lambda>_.
     bindR (case truthy_id (current_session x) of
         None \<Rightarrow> Inr ((), d)
       | Some i \<Rightarrow> close_session (sa_now x) (nat_str (sa_actorId x)) (session_here x i) d) (\<lambda>(_, d1).
     bindR (resetOccupancy (sa_now x) (sa_companyId x) (sa_outletId x) (sa_tableId x)
       (Suc (current_version x)) (sa_actorId x) (tp_notes p) d1) (\<lambda>(_, d2).
     Inr ((ST_AVAILABLE, None, current_reservation x, Sn_payload), d2))))"

text \<open>
  A hold without a reservation inserts one to stand for it, but the statement names no
  \<open>status_id\<close>, a column that may not be null and has no default since migration 0096: the database
  rejects it.
\<close>

definition held_reservation :: "sync_at \<Rightarrow> table_payload \<Rightarrow> rdb \<Rightarrow> rerr + nat" where
  "held_reservation x p d =
     (case truthy_id (tp_reservation_id p) of
        None \<Rightarrow> Inl (R_Database ''ER_NO_DEFAULT_FOR_FIELD'')
      | Some i \<Rightarrow>
          bindR (from_opt (R_Error ''Reservation not found for company/outlet scope'')
            (find (\<lambda>r. rv_id r = i \<and> rv_company_id r = sa_companyId x \<and> rv_outlet_id r = sa_outletId x)
              (reservations d))) (\<lambda>r.
          bindR (require (rv_table_id r \<in> {None, Some (sa_tableId x)}) (R_Error ''Reservation table mismatch'')) (\<lambda>_.
          Inr i)))"

definition apply_reserved :: "sync_at \<Rightarrow> table_payload \<Rightarrow> sync_applied rop" where
  "apply_reserved x p d =
     bindR (require (current_status x = ST_AVAILABLE) (R_Error ''Table is not available for reservation'')) (\<lambda>_.
     let reservedUntil = or_else (sa_now x + 30 * 60 * 1000) (tp_reserved_until p) in
     bindR (held_reservation x p d) (\<lambda>reservationId.
     bindR (updateOccupancy (sa_now x)
       (occupancy_at x ST_RESERVED None None (Some reservationId) (Some reservedUntil)) d) (\<lambda>(_, d1).
     Inr ((ST_RESERVED, current_session x, Some reservationId, Sn_reserved reservedUntil reservationId), d1))))"

definition apply_status :: "sync_at \<Rightarrow> table_payload \<Rightarrow> sync_applied rop" where
  "apply_status x p d =
     bindR (from_opt (R_Error ''Invalid table status'')
       (Option.bind (tp_status_id p) (\<lambda>s. if s \<in> {1, 2, 3, 4, 5} then Some s else None))) (\<lambda>newStatus.
     bindR (updateOccupancy (sa_now x)
       (occupancy_at x newStatus (current_session x) (Option.bind (sa_row x) occ_guest_count)
         (current_reservation x) (Option.bind (sa_row x) occ_reserved_until)) d) (\<lambda>(_, d1).
     Inr ((newStatus, current_session x, current_reservation x, Sn_payload), d1)))"

text \<open>The guest count of a session may not be null: without one its row is refused.\<close>

definition guests_changed :: "int \<Rightarrow> nat \<Rightarrow> nat option \<Rightarrow> table_service_session_row \<Rightarrow> table_service_session_row" where
  "guests_changed now actorId n s = s\<lparr>tss_guest_count := or_else 0 n, tss_updated_at := now,
     tss_updated_by := Some (nat_str actorId)\<rparr>"

definition change_guests :: "sync_at \<Rightarrow> nat option \<Rightarrow> nat \<Rightarrow> unit rop" where
  "change_guests x n i d =
     bindR (checked_update (\<lambda>old new. session_change_ok old new \<and> n \<noteq> None \<and> 0 < tss_guest_count new)
       (session_here x i) (guests_changed (sa_now x) (sa_actorId x) n) (table_service_sessions d)) (\<lambda>(rows, _).
     Inr ((), d\<lparr>table_service_sessions := rows\<rparr>))"

definition apply_guests :: "sync_at \<Rightarrow> table_payload \<Rightarrow> sync_applied rop" where
  "apply_guests x p d =
     bindR (require (current_status x = ST_OCCUPIED)
       (R_Error ''Cannot change guest count - table is not occupied'')) (\<lambda>_.
     bindR (change_occupancy (sa_companyId x) (sa_outletId x) (sa_tableId x)
       (\<lambda>r. r\<lparr>occ_guest_count := tp_guest_count p, occ_version := Suc (current_version x),
          occ_updated_at := sa_now x, occ_updated_by := Some (nat_str (sa_actorId x))\<rparr>) d) (\<lambda>(_, d1).
     bindR (case truthy_id (current_session x) of
         None \<Rightarrow> Inr ((), d1)
       | Some i \<Rightarrow> change_guests x (tp_guest_count p) i d1) (\<lambda>(_, d2).
     Inr ((current_status x, current_session x, current_reservation x, Sn_payload), d2))))"

text \<open>
  A transfer looks the target table up with \<open>is_active = 1\<close>, a column that \<open>outlet_tables\<close> does not
  have: the statement is rejected, and what the code would do after it is never reached.
\<close>

definition apply_transferred :: "sync_at \<Rightarrow> table_payload \<Rightarrow> sync_applied rop" where
  "apply_transferred x p d =
     bindR (from_opt (R_Error ''Target table ID required for transfer'')
       (truthy_id (tp_target_table_id p))) (\<lambda>_.
     bindR (require (current_status x = ST_OCCUPIED) (R_Error ''Cannot transfer - table is not occupied'')) (\<lambda>_.
     Inl (R_Database ''ER_BAD_FIELD_ERROR'')))"

definition apply_unknown :: "nat \<Rightarrow> sync_at \<Rightarrow> table_payload \<Rightarrow> sync_applied rop" where
  "apply_unknown eventType x p d =
     bindR (change_occupancy (sa_companyId x) (sa_outletId x) (sa_tableId x)
       (\<lambda>r. r\<lparr>occ_version := Suc (current_version x), occ_updated_at := sa_now x,
          occ_updated_by := Some (nat_str (sa_actorId x))\<rparr>) d) (\<lambda>(_, d1).
     Inr ((current_status x, current_session x, current_reservation x, Sn_unknown_type eventType), d1))"

definition apply_event :: "nat \<Rightarrow> sync_at \<Rightarrow> table_payload \<Rightarrow> sync_applied rop" where
  "apply_event eventType =
     (if eventType = 1 then apply_opened
      else if eventType = 2 then apply_closed
      else if eventType = 3 then apply_reserved
      else if eventType = 6 then apply_status
      else if eventType = 7 then apply_guests
      else if eventType = 8 then apply_transferred
      else apply_unknown eventType)"

section \<open>The log and the transaction\<close>

definition synced_event_row :: "nat \<Rightarrow> sync_at \<Rightarrow> sync_event \<Rightarrow> nat \<Rightarrow> sync_applied \<Rightarrow> rerr option \<Rightarrow> table_event_row" where
  "synced_event_row i x e versionAfter after conflict =
     (case after of (statusAfter, sessionId, reservationId, note) \<Rightarrow>
     \<lparr>te_id = i, te_company_id = sa_companyId x, te_outlet_id = sa_outletId x,
      te_client_tx_id = sy_client_tx_id e,
      te_conflict_reason = map_option (\<lambda>_. ''Optimistic version mismatch: expected '' @
        nat_str (sy_expected_table_version e) @ '', got '' @ nat_str (current_version x)) conflict,
      te_created_at = sa_now x, te_created_by = Some (nat_str (sa_actorId x)),
      te_event_data = Some (Ev_synced (sy_payload e) note), te_event_type_id = sy_event_type e,
      te_is_conflict = (conflict \<noteq> None), te_occupancy_version_after = Some versionAfter,
      te_occupancy_version_before = Some (current_version x), te_occurred_at = sy_recorded_at e,
      te_pos_order_id = None, te_reservation_id = reservationId, te_service_session_id = sessionId,
      te_status_id_after = Some statusAfter, te_status_id_before = Some (current_status x),
      te_table_id = sa_tableId x\<rparr>)"

definition log_synced :: "sync_at \<Rightarrow> sync_event \<Rightarrow> nat \<Rightarrow> sync_applied \<Rightarrow> rerr option \<Rightarrow> rdb \<Rightarrow> rerr + rdb" where
  "log_synced x e versionAfter after conflict d =
     bindR (require (event_tx_free d (sa_companyId x) (sa_outletId x) (sy_client_tx_id e))
       (R_Database ''ER_DUP_ENTRY'')) (\<lambda>_.
     Inr (take_key RT_event (d\<lparr>table_events := table_events d @
       [synced_event_row (new_key d RT_event) x e versionAfter after conflict]\<rparr>)))"

definition version_mismatch :: rerr where
  "version_mismatch = R_Error ''Optimistic version mismatch''"

definition applyTableEventWithTransaction :: "int \<Rightarrow> nat \<Rightarrow> nat \<Rightarrow> nat \<Rightarrow> nat \<Rightarrow> sync_event \<Rightarrow> push_result rop" where
  "applyTableEventWithTransaction now companyId outletId actorId tableId e d =
     (let x = \<lparr>sa_companyId = companyId, sa_outletId = outletId, sa_tableId = tableId,
            sa_actorId = actorId, sa_now = now, sa_row = getTableOccupancy d companyId outletId tableId\<rparr>
      in
      if sy_expected_table_version e \<noteq> current_version x then
        bindR (log_synced x e (current_version x)
          (current_status x, current_session x, current_reservation x,
           Sn_conflict (sy_expected_table_version e) (current_version x)) (Some version_mismatch) d) (\<lambda>d1.
        Inr (\<lparr>pr_clientTxId = sy_client_tx_id e, pr_status = Push_ERROR,
              pr_tableVersion = Some (current_version x),
              pr_conflictPayload = Some (buildConflictPayload d tableId companyId outletId),
              pr_error = Some version_mismatch\<rparr>, d1))
      else
        bindR (apply_event (sy_event_type e) x (sy_payload e) d) (\<lambda>(after, d1).
        bindR (log_synced x e (Suc (current_version x)) after None d1) (\<lambda>d2.
        Inr (\<lparr>pr_clientTxId = sy_client_tx_id e, pr_status = Push_OK,
              pr_tableVersion = Some (Suc (current_version x)), pr_conflictPayload = None,
              pr_error = None\<rparr>, d2))))"

section \<open>Pushing\<close>

definition existing_event :: "rdb \<Rightarrow> nat \<Rightarrow> nat \<Rightarrow> string \<Rightarrow> table_event_row option" where
  "existing_event d companyId outletId tx =
     find (\<lambda>e. te_company_id e = companyId \<and> te_outlet_id e = outletId \<and> te_client_tx_id e = tx) (table_events d)"

definition duplicate_result :: "rdb \<Rightarrow> nat \<Rightarrow> nat \<Rightarrow> string \<Rightarrow> push_result" where
  "duplicate_result d companyId outletId tx =
     \<lparr>pr_clientTxId = tx, pr_status = Push_DUPLICATE,
      pr_tableVersion = Option.bind (existing_event d companyId outletId tx) te_occupancy_version_after,
      pr_conflictPayload = None, pr_error = None\<rparr>"

definition error_result :: "string \<Rightarrow> rerr \<Rightarrow> push_result" where
  "error_result tx err = \<lparr>pr_clientTxId = tx, pr_status = Push_ERROR, pr_tableVersion = None,
     pr_conflictPayload = None, pr_error = Some err\<rparr>"

text \<open>One round of the loop: an error of the transaction is the answer, and nothing is kept of it.\<close>

definition push_event :: "int \<Rightarrow> nat \<Rightarrow> nat \<Rightarrow> nat \<Rightarrow> sync_event \<Rightarrow> rdb \<Rightarrow> push_result \<times> rdb" where
  "push_event now companyId outletId actorId e d =
     (let tx = sy_client_tx_id e in
      if sy_table_id e \<le> 0 then (error_result tx (R_Error ''Invalid table_id''), d)
      else let tableId = nat (sy_table_id e) in
      if \<not> verifyTableExists d companyId outletId tableId then (error_result tx (R_Error ''Table not found''), d)
      else if existing_event d companyId outletId tx \<noteq> None then (duplicate_result d companyId outletId tx, d)
      else (case applyTableEventWithTransaction now companyId outletId actorId tableId e d of
              Inr r \<Rightarrow> r
            | Inl err \<Rightarrow>
                if err = R_Database ''ER_DUP_ENTRY'' then (duplicate_result d companyId outletId tx, d)
                else (error_result tx err, d)))"

fun pushTableEvents :: "int \<Rightarrow> nat \<Rightarrow> nat \<Rightarrow> nat \<Rightarrow> sync_event list \<Rightarrow> rdb \<Rightarrow> push_result list \<times> rdb" where
  "pushTableEvents now companyId outletId actorId [] d = ([], d)"
| "pushTableEvents now companyId outletId actorId (e # es) d =
     (let (r, d1) = push_event now companyId outletId actorId e d;
          (rs, d2) = pushTableEvents now companyId outletId actorId es d1
      in (r # rs, d2))"

end
