(* ===== verification/Bookings.thy ===== *)
theory Bookings
  imports Table_Sync Contracts
begin

text \<open>
  What the operations do to the rows of \<open>reservations\<close>, and the facts that hold of them whatever
  the order of the operations: a reservation moves along the permitted transitions, and tables
  are not booked twice as long as nothing moves a reservation.
\<close>

section \<open>What the table operations leave alone\<close>

definition books :: "rdb \<Rightarrow> reservation_row list \<times> nat \<times> outlet_table_row list \<times> reservation_group_row list" where
  "books d = (reservations d, last_key d RT_reservation, outlet_tables d, reservation_groups d)"

lemma books_update_occupancy: "update_occupancy aff e c o' t v f d = Inr (u, d') \<Longrightarrow> books d' = books d"
  by (auto simp: update_occupancy_def inr_simps books_def split: prod.splits)

lemma books_log: "logTableEventWithKysely tx now e d = Inr (u, d') \<Longrightarrow> books d' = books d"
  by (auto simp: logTableEventWithKysely_def inr_simps books_def take_key_def)

lemma books_session: "insert_session now inp d = Inr (i, d') \<Longrightarrow> books d' = books d"
  by (auto simp: insert_session_Inr books_def take_key_def)

lemma books_close: "close_session now by P d = Inr (u, d') \<Longrightarrow> books d' = books d"
  by (auto simp: close_session_def inr_simps books_def split: prod.splits)

lemmas books_frame = books_update_occupancy books_log books_session books_close

lemma books_hold: "holdTableWithKysely aff tx now inp d = Inr (u, d') \<Longrightarrow> books d' = books d"
  unfolding holdTableWithKysely_def bindR_Inr by (auto dest!: books_frame)

lemma books_seat: "seatTableWithKysely aff tx now inp d = Inr (u, d') \<Longrightarrow> books d' = books d"
  unfolding seatTableWithKysely_def bindR_Inr by (auto simp: bindR_Inr dest!: books_frame)

lemma books_release: "releaseTableWithKysely aff tx now inp d = Inr (u, d') \<Longrightarrow> books d' = books d"
  unfolding releaseTableWithKysely_def bindR_Inr
  by (auto simp: bindR_Inr dest!: books_frame split: option.splits)

lemma books_release_if_held:
  "release_if_held aff tx now c i inp cur t d = Inr (u, d') \<Longrightarrow> books d' = books d"
  by (auto simp: release_if_held_def dest: books_release split: option.splits if_splits)

lemma books_table_effect:
  "table_effect aff tx now c i inp cur tableId d = Inr (u, d') \<Longrightarrow> books d' = books d"
  by (auto simp: table_effect_def inr_simps dest: books_hold books_seat books_release_if_held
      split: option.splits if_splits)

text \<open>Nor does the synchronisation of the tables change a booking.\<close>

lemma books_change_occupancy: "change_occupancy c o' t f d = Inr (u, d') \<Longrightarrow> books d' = books d"
  by (auto simp: change_occupancy_def inr_simps books_def split: prod.splits)

lemma books_updateOccupancy: "updateOccupancy now p d = Inr (u, d') \<Longrightarrow> books d' = books d"
  by (auto simp: updateOccupancy_def inr_simps Let_def take_key_def books_def dest: books_change_occupancy
      split: option.splits)

lemma books_change_guests: "change_guests x n i d = Inr (u, d') \<Longrightarrow> books d' = books d"
  by (auto simp: change_guests_def inr_simps books_def split: prod.splits)

lemma books_log_synced: "log_synced x e v after conflict d = Inr d' \<Longrightarrow> books d' = books d"
  by (auto simp: log_synced_def inr_simps take_key_def books_def)

lemmas books_sync = books_change_occupancy books_updateOccupancy books_change_guests books_session books_close

lemma books_apply_event:
  assumes "apply_event k x p d = Inr (after, d')"
  shows "books d' = books d"
proof -
  have "apply_opened x p d = Inr (after, d') \<Longrightarrow> books d' = books d"
    unfolding apply_opened_def Let_def by (auto simp: bindR_Inr dest!: books_sync)
  moreover have "apply_closed x p d = Inr (after, d') \<Longrightarrow> books d' = books d"
    unfolding apply_closed_def resetOccupancy_def by (auto simp: bindR_Inr dest!: books_sync split: option.splits)
  moreover have "apply_reserved x p d = Inr (after, d') \<Longrightarrow> books d' = books d"
    unfolding apply_reserved_def Let_def by (auto simp: bindR_Inr dest!: books_sync)
  moreover have "apply_status x p d = Inr (after, d') \<Longrightarrow> books d' = books d"
    unfolding apply_status_def by (auto simp: bindR_Inr dest!: books_sync)
  moreover have "apply_guests x p d = Inr (after, d') \<Longrightarrow> books d' = books d"
    unfolding apply_guests_def by (auto simp: bindR_Inr dest!: books_sync split: option.splits)
  moreover have "apply_transferred x p d = Inr (after, d') \<Longrightarrow> books d' = books d"
    by (simp add: apply_transferred_def inr_simps)
  moreover have "apply_unknown k x p d = Inr (after, d') \<Longrightarrow> books d' = books d"
    unfolding apply_unknown_def by (auto simp: bindR_Inr dest!: books_sync)
  ultimately show ?thesis using assms by (simp add: apply_event_def split: if_splits)
qed

lemma books_apply_transaction:
  "applyTableEventWithTransaction now c o' u t e d = Inr (r, d') \<Longrightarrow> books d' = books d"
  unfolding applyTableEventWithTransaction_def Let_def
  by (auto simp: bindR_Inr dest!: books_log_synced books_apply_event split: if_splits)

lemma books_push_event: "push_event now c o' u e d = (r, d') \<Longrightarrow> books d' = books d"
  by (auto simp: push_event_def Let_def dest: books_apply_transaction split: if_splits sum.splits)

lemma books_push: "pushTableEvents now c o' u es d = (rs, d') \<Longrightarrow> books d' = books d"
proof (induction es arbitrary: d rs)
  case (Cons e es)
  obtain r d1 where one: "push_event now c o' u e d = (r, d1)" by fastforce
  obtain rs' d2 where rest: "pushTableEvents now c o' u es d1 = (rs', d2)" by fastforce
  from Cons.prems one rest have rest': "pushTableEvents now c o' u es d1 = (rs', d')" by simp
  with Cons.IH [OF rest'] books_push_event [OF one] show ?case by simp
qed simp

section \<open>The effect on the reservations\<close>

lemma find_reservation_Some:
  "find_reservation d c i = Some r \<Longrightarrow> r \<in> set (reservations d) \<and> rv_id r = i \<and> rv_company_id r = c"
  unfolding find_reservation_def by (drule find_SomeD) simp

lemma getReservation_Inr_Some:
  assumes "getReservation d c i = Inr (Some cur)"
  obtains r where "find_reservation d c i = Some r" and "rr_status cur = rv_status_id r"
    and "rr_tableId cur = rv_table_id r" and "rr_outletId cur = rv_outlet_id r"
    and "rr_reservationStartTs cur = rv_reservation_start_ts r"
    and "rr_reservationEndTs cur = rv_reservation_end_ts r" and "rr_partySize cur = rv_guest_count r"
proof (cases "find_reservation d c i")
  case None
  with assms show thesis by (simp add: getReservation_def)
next
  case (Some r)
  with assms that show thesis by (auto simp: getReservation_found)
qed

lemma createReservation_effect:
  assumes "createReservation now inp d = Inr (rec, d')"
  shows "check_table_free inp d = Inr ()"
    and "reservations d' = reservations d @ [new_reservation_row (new_key d RT_reservation) now inp]"
    and "last_key d' RT_reservation = Suc (last_key d RT_reservation)" and "outlet_tables d' = outlet_tables d"
  using assms by (auto simp: createReservation_def inr_simps Let_def take_key_def)

lemma updateReservation_effect:
  assumes "updateReservation now c i inp d = Inr (rec, d')"
  obtains cur minutes where "getReservation d c i = Inr (Some cur)"
    and "assertValidDurationMinutes minutes = Inr ()"
    and "minutes = or_else (of_int (rr_reservationEndTs cur - rr_reservationStartTs cur) / 60000) (ui_durationMinutes inp)"
    and "reservations d' = update_where (\<lambda>r. rv_company_id r = c \<and> rv_id r = i)
      (updated_reservation_row now inp cur (or_else (rr_reservationStartTs cur) (ui_reservationStartTs inp)) minutes)
      (reservations d)"
    and "last_key d' = last_key d" and "outlet_tables d' = outlet_tables d"
  using assms by (auto simp: updateReservation_def inr_simps Let_def)

lemma updateReservationStatus_effect:
  assumes "updateReservationStatus aff tx now c i inp d = Inr (rec, d')"
  obtains cur where "getReservation d c i = Inr (Some cur)"
    and "canTransition (rr_status cur) (us_status inp)"
    and "overlap_check c i inp cur (keep (us_tableId inp) (rr_tableId cur)) d = Inr ()"
    and "reservations d' = update_where (\<lambda>r. rv_id r = i \<and> rv_company_id r = c) (status_row now inp) (reservations d)"
    and "last_key d' RT_reservation = last_key d RT_reservation" and "outlet_tables d' = outlet_tables d"
proof -
  from assms obtain cur u d1 where cur: "getReservation d c i = Inr (Some cur)"
    "canTransition (rr_status cur) (us_status inp)"
    "overlap_check c i inp cur (keep (us_tableId inp) (rr_tableId cur)) d = Inr ()"
    and eff: "table_effect aff tx now c i inp cur (keep (us_tableId inp) (rr_tableId cur)) d = Inr (u, d1)"
    and d': "d' = d1\<lparr>reservations := update_where (\<lambda>r. rv_id r = i \<and> rv_company_id r = c)
      (status_row now inp) (reservations d1)\<rparr>"
    by (auto simp: updateReservationStatus_def inr_simps Let_def)
  with that show thesis using books_table_effect [OF eff] by (simp add: books_def)
qed

lemma createGroup_effect:
  assumes "createReservationGroupWithTables now inp d = Inr (r, d')"
  obtains g where
    "length (available_tables d (cg_companyId inp) (cg_outletId inp) (cg_tableIds inp)) = length (cg_tableIds inp)"
    and "conflicts d (cg_companyId inp) (cg_outletId inp) (cg_tableIds inp) (gb_startTs g) (gb_endTs g) [] = []"
    and "gb_companyId g = cg_companyId inp" and "gb_outletId g = cg_outletId inp"
    and "reservations d' = reservations d @ group_rows (new_key d RT_reservation) now g (cg_tableIds inp)"
    and "last_key d' RT_reservation = last_key d RT_reservation + length (cg_tableIds inp)"
    and "outlet_tables d' = outlet_tables d"
proof -
  from assms obtain startTs g ids where
    pre: "length (available_tables d (cg_companyId inp) (cg_outletId inp) (cg_tableIds inp)) = length (cg_tableIds inp)"
      "conflicts d (cg_companyId inp) (cg_outletId inp) (cg_tableIds inp) (gb_startTs g) (gb_endTs g) [] = []"
    and g: "g = requested_booking inp (new_key d RT_group) startTs"
    and loop: "foldM (insert_group_reservation now g) ([], insert_group now inp d) (cg_tableIds inp) = Inr (ids, d')"
    by (auto simp: createReservationGroupWithTables_def inr_simps Let_def)
  from loop have "d' = with_group_rows now g (cg_tableIds inp) (insert_group now inp d)"
    by (simp add: insert_group_reservations split: if_splits)
  moreover have "gb_companyId g = cg_companyId inp" "gb_outletId g = cg_outletId inp"
    by (simp_all add: g requested_booking_def Let_def)
  ultimately show thesis
    using pre by (intro that [of g]) (simp_all add: with_group_rows_def insert_group_def take_key_def new_key_def)
qed

lemma deleteGroup_effect:
  assumes "deleteReservationGroupSafe now c g d = Inr (r, d')"
  shows "\<And>q. q \<in> set (reservations d) \<Longrightarrow> in_group c g q \<Longrightarrow> rv_status_id q \<notin> {3, 4, 5, 6}"
    and "reservations d' = update_where (in_group c g) (cancel_row now) (reservations d)"
    and "last_key d' = last_key d" and "outlet_tables d' = outlet_tables d"
proof -
  from assms have loop: "foldM (\<lambda>_ r. check_not_started r) () (filter (in_group c g) (reservations d)) = Inr ()"
    and stats: "\<exists>ss. mapM resolved (filter (in_group c g) (reservations d)) = Inr ss \<and>
      \<not> list_ex (\<lambda>s. s = RS_COMPLETED \<or> s = RS_CANCELLED \<or> s = RS_NO_SHOW) ss"
    and d': "d' = d\<lparr>reservations := update_where (in_group c g) (cancel_row now) (reservations d),
         reservation_groups := filter (\<lambda>gr. \<not> (rg_id gr = g \<and> rg_company_id gr = c)) (reservation_groups d)\<rparr>"
    by (auto simp: deleteReservationGroupSafe_def inr_simps Let_def)
  have res: "resolved q = Inr (rv_status_id q)" for q by (simp add: resolved_def resolveStatusId_def)
  then have "mapM resolved qs = Inr (map rv_status_id qs)" for qs by (simp add: mapM_total)
  with stats have "\<not> list_ex (\<lambda>s. s = RS_COMPLETED \<or> s = RS_CANCELLED \<or> s = RS_NO_SHOW)
      (map rv_status_id (filter (in_group c g) (reservations d)))" by simp
  moreover from loop have "\<forall>q \<in> set (reservations d). in_group c g q \<longrightarrow> check_not_started q = Inr ()"
    by (simp add: foldM_unit)
  ultimately show "\<And>q. q \<in> set (reservations d) \<Longrightarrow> in_group c g q \<Longrightarrow> rv_status_id q \<notin> {3, 4, 5, 6}"
    by (fastforce simp: list_ex_iff check_not_started_def res inr_simps isBlockingStatusId_def BLOCKING_STATUS_IDS_def)
  show "reservations d' = update_where (in_group c g) (cancel_row now) (reservations d)"
    and "last_key d' = last_key d" and "outlet_tables d' = outlet_tables d"
    by (simp_all add: d')
qed

subsection \<open>The update of a group\<close>

text \<open>An update of rows that keeps what the table is booked for, or moreover when.\<close>

definition same_booking :: "reservation_row \<Rightarrow> reservation_row \<Rightarrow> bool" where
  "same_booking r q \<longleftrightarrow> rv_id q = rv_id r \<and> rv_company_id q = rv_company_id r \<and>
     rv_outlet_id q = rv_outlet_id r \<and> rv_table_id q = rv_table_id r \<and>
     rv_status q = rv_status r \<and> rv_status_id q = rv_status_id r"

definition same_times :: "reservation_row \<Rightarrow> reservation_row \<Rightarrow> bool" where
  "same_times r q \<longleftrightarrow> rv_reservation_start_ts q = rv_reservation_start_ts r \<and>
     rv_reservation_end_ts q = rv_reservation_end_ts r"

lemma metadata_row_keeps:
  "same_booking r (metadata_row now u s r)"
  "rv_reservation_group_id (metadata_row now u s r) = rv_reservation_group_id r"
  "s = None \<Longrightarrow> same_times r (metadata_row now u s r)"
  by (auto simp: metadata_row_def same_booking_def same_times_def Let_def split: option.splits)

lemma update_metadata_effect:
  assumes "update_metadata now u c g d = Inr (x, d1)"
  obtains F where "reservations d1 = map F (reservations d)" and "\<forall>r. same_booking r (F r)"
    and "\<forall>r. rv_reservation_group_id (F r) = rv_reservation_group_id r"
    and "gu_reservationAt u = None \<longrightarrow> (\<forall>r. same_times r (F r))"
    and "last_key d1 = last_key d" and "outlet_tables d1 = outlet_tables d"
proof (cases "has_metadata u")
  case False
  with assms that [of id] show thesis
    by (auto simp: update_metadata_def same_booking_def same_times_def split: option.splits)
next
  case True
  with assms obtain s where s: "s = None \<or> (\<exists>t. truthy_iso (gu_reservationAt u) = Some t)"
    and d1: "reservations d1 = update_where (in_group c g) (metadata_row now u s) (reservations d)"
      "last_key d1 = last_key d" "outlet_tables d1 = outlet_tables d"
    by (auto simp: update_metadata_def inr_simps Let_def split: option.splits)
  from s have "gu_reservationAt u = None \<Longrightarrow> s = None" by (auto simp: truthy_iso_def)
  with d1 that [of "\<lambda>r. if in_group c g r then metadata_row now u s r else r"] show thesis
    using metadata_row_keeps by (auto simp: update_where_def same_booking_def same_times_def)
qed

lemma unlink_removed_effect:
  obtains F where "reservations (unlink_removed now c g removed d) = map F (reservations d)"
    and "\<forall>r. same_booking r (F r)" and "\<forall>r. same_times r (F r)"
    and "last_key (unlink_removed now c g removed d) = last_key d"
    and "outlet_tables (unlink_removed now c g removed d) = outlet_tables d"
  using that [of "\<lambda>r. if in_group c g r \<and> rv_table_id r \<noteq> None \<and> rv_table_id r \<in> set removed
      then r\<lparr>rv_reservation_group_id := None, rv_updated_at := now\<rparr> else r"]
  by (simp add: unlink_removed_def update_where_def same_booking_def same_times_def)

lemma add_tables_effect:
  assumes "add_tables now u c grp g added d = Inr (ids, d')"
  obtains b where "reservations d' = reservations d @ group_rows (new_key d RT_reservation) now b added"
    and "last_key d' RT_reservation = last_key d RT_reservation + length added"
    and "outlet_tables d' = outlet_tables d"
    and "added \<noteq> [] \<Longrightarrow> gb_companyId b = c \<and> gb_outletId b = rg_outlet_id grp \<and>
      requested_start u d g = Inr (gb_startTs b) \<and> gb_endTs b = requested_end u (gb_startTs b)"
proof (cases "added = []")
  case True
  with assms that show thesis by (simp add: add_tables_def)
next
  case False
  with assms obtain startTs where st: "requested_start u d g = Inr startTs"
    and loop: "foldM (insert_group_reservation now (added_booking u c grp g startTs d)) ([], d) added = Inr (ids, d')"
    by (auto simp: add_tables_def inr_simps)
  from loop have "d' = with_group_rows now (added_booking u c grp g startTs d) added d"
    by (simp add: insert_group_reservations split: if_splits)
  with st show thesis
    by (intro that [of "added_booking u c grp g startTs d"])
      (simp_all add: with_group_rows_def added_booking_def Let_def)
qed

lemma started_Inr: "started r = Inr s \<longleftrightarrow> s = (rv_status_id r \<in> {3, 4, 5, 6})"
  by (auto simp: started_def resolved_def resolveStatusId_def)

lemma updateGroup_steps:
  assumes "updateReservationGroup now c o' g u d = Inr (res, d')"
  defines "current \<equiv> map rv_table_id (filter (in_group c g) (reservations d))"
  obtains grp d1 x newIds where
    "\<And>q. q \<in> set (reservations d) \<Longrightarrow> in_group c g q \<Longrightarrow> rv_status_id q \<notin> {3, 4, 5, 6}"
    and "(case gu_tableIds u of None \<Rightarrow> Inr () | Some ts \<Rightarrow> check_tables u c g grp current ts d) = Inr ()"
    and "update_metadata now u c g d = Inr (x, d1)"
    and "add_tables now u c grp g (added_tables u current)
      (if removed_tables u current = [] then d1 else unlink_removed now c g (removed_tables u current) d1) =
      Inr (newIds, d')"
proof -
  have started: "mapM started rs = Inr (map (\<lambda>r. rv_status_id r \<in> {3, 4, 5, 6}) rs)" for rs
    by (rule mapM_total) (simp add: started_Inr)
  from assms(1) obtain grp x d1 newIds where
    "True \<notin> set (map (\<lambda>r. rv_status_id r \<in> {3, 4, 5, 6}) (filter (in_group c g) (reservations d)))"
    and "(case gu_tableIds u of None \<Rightarrow> Inr () | Some ts \<Rightarrow> check_tables u c g grp current ts d) = Inr ()"
    and "update_metadata now u c g d = Inr (x, d1)"
    and "add_tables now u c grp g (added_tables u current)
      (if removed_tables u current = [] then d1 else unlink_removed now c g (removed_tables u current) d1) =
      Inr (newIds, d')"
    unfolding updateReservationGroup_def Let_def bindR_Inr require_Inr from_opt_Inr started current_def
    by (auto simp: bindR_Inr)
  then show thesis by (intro that) auto
qed

lemma updateGroup_effect:
  assumes "updateReservationGroup now c o' g u d = Inr (res, d')"
  defines "current \<equiv> map rv_table_id (filter (in_group c g) (reservations d))"
  obtains F b where
    "reservations d' = map F (reservations d) @ group_rows (new_key d RT_reservation) now b (added_tables u current)"
    and "\<forall>r. same_booking r (F r)"
    and "gu_reservationAt u = None \<longrightarrow> (\<forall>r. same_times r (F r))"
    and "last_key d' RT_reservation = last_key d RT_reservation + length (added_tables u current)"
    and "outlet_tables d' = outlet_tables d"
proof -
  from assms(1) obtain grp d1 x newIds where
    meta: "update_metadata now u c g d = Inr (x, d1)"
    and add: "add_tables now u c grp g (added_tables u current)
      (if removed_tables u current = [] then d1 else unlink_removed now c g (removed_tables u current) d1) =
      Inr (newIds, d')"
    unfolding current_def by (rule updateGroup_steps) blast
  let ?d2 = "if removed_tables u current = [] then d1 else unlink_removed now c g (removed_tables u current) d1"
  from update_metadata_effect [OF meta] obtain F where F: "reservations d1 = map F (reservations d)"
    "\<forall>r. same_booking r (F r)" "gu_reservationAt u = None \<longrightarrow> (\<forall>r. same_times r (F r))"
    "last_key d1 = last_key d" "outlet_tables d1 = outlet_tables d" by metis
  obtain G where G: "reservations ?d2 = map G (reservations d1)" "\<forall>r. same_booking r (G r)" "\<forall>r. same_times r (G r)"
    "last_key ?d2 = last_key d1" "outlet_tables ?d2 = outlet_tables d1"
  proof (cases "removed_tables u current = []")
    case True
    then show thesis using that [of id] by (simp add: same_booking_def same_times_def)
  next
    case False
    show thesis
      by (rule unlink_removed_effect [of now c g "removed_tables u current" d1]) (use False that in auto)
  qed
  from add_tables_effect [OF add] obtain b where
    "reservations d' = reservations ?d2 @ group_rows (new_key ?d2 RT_reservation) now b (added_tables u current)"
    "last_key d' RT_reservation = last_key ?d2 RT_reservation + length (added_tables u current)"
    "outlet_tables d' = outlet_tables ?d2" by metis
  moreover have "same_booking r (G (F r))" for r using F(2) G(2) by (simp add: same_booking_def)
  moreover have "same_times r (G (F r))" if "gu_reservationAt u = None" for r
    using F(3) G(3) that by (simp add: same_times_def)
  ultimately show thesis
    using F(1,4,5) G(1,4,5) by (intro that [of "G \<circ> F" b]) (simp_all add: new_key_def)
qed

section \<open>Steps\<close>

inductive reservation_step :: "rdb \<Rightarrow> rdb \<Rightarrow> bool" where
  create_one: "createReservation now ci d = Inr (rec, d') \<Longrightarrow> reservation_step d d'"
| update_one: "updateReservation now c i ui d = Inr (rec, d') \<Longrightarrow> reservation_step d d'"
| change_status: "updateReservationStatus aff tx now c i us d = Inr (rec, d') \<Longrightarrow> reservation_step d d'"
| create_group: "createReservationGroupWithTables now cg d = Inr (r, d') \<Longrightarrow> reservation_step d d'"
| update_group: "updateReservationGroup now c o' g gu d = Inr (ur, d') \<Longrightarrow> reservation_step d d'"
| delete_group: "deleteReservationGroupSafe now c g d = Inr (b, d') \<Longrightarrow> reservation_step d d'"
| other_service: "reservations d' = reservations d \<Longrightarrow>
    last_key d' RT_reservation = last_key d RT_reservation \<Longrightarrow> reservation_step d d'"

text \<open>Pushing the events of a point of sale is a step of the last kind.\<close>

lemma push_is_step: "pushTableEvents now c o' u es d = (rs, d') \<Longrightarrow> reservation_step d d'"
  using books_push by (fastforce simp: books_def intro: other_service)

text \<open>
  The rows of \<open>reservations\<close> have keys of their own, and the word and the number of the status
  agree (the legacy word ARRIVED for both checked-in states).
\<close>

definition row_ok :: "reservation_row \<Rightarrow> bool" where
  "row_ok r \<longleftrightarrow> map_of LEGACY_STATUS_TO_ID (rv_status r) = Some (rv_status_id r)"

definition rows_ok :: "rdb \<Rightarrow> bool" where
  "rows_ok d \<longleftrightarrow> distinct (map rv_id (reservations d)) \<and>
     (\<forall>r \<in> set (reservations d). rv_id r \<le> last_key d RT_reservation \<and> row_ok r)"

definition no_reservations :: "rdb \<Rightarrow> bool" where
  "no_reservations d \<longleftrightarrow> reservations d = []"

text \<open>What a step may do to a reservation: keep it and move its status along the transitions.\<close>

definition moved_on :: "reservation_row \<Rightarrow> reservation_row \<Rightarrow> bool" where
  "moved_on r q \<longleftrightarrow> rv_id q = rv_id r \<and> (rv_status_id q = rv_status_id r \<or> canTransition (rv_status_id r) (rv_status_id q))"

lemma row_ok_statuses: "row_ok r \<Longrightarrow> rv_status_id r \<in> {1, 2, 3, 4, 5, 6}"
  by (auto simp: row_ok_def LEGACY_STATUS_TO_ID_def split: if_splits)

lemma row_ok_status_row: "canTransition s (us_status inp) \<Longrightarrow> row_ok (status_row now inp r)"
  unfolding canTransition_iff
  by (auto simp: row_ok_def status_row_def statusIdToLegacyStatus_def LEGACY_STATUS_TO_ID_def ID_TO_LEGACY_STATUS_def)

lemma row_ok_new: "rv_status r = ''BOOKED'' \<Longrightarrow> rv_status_id r = 1 \<Longrightarrow> row_ok r"
  by (simp add: row_ok_def LEGACY_STATUS_TO_ID_def)

lemma row_ok_cancel: "row_ok (cancel_row now r)"
  by (simp add: row_ok_def cancel_row_def LEGACY_STATUS_TO_ID_def)

lemma group_rows_status:
  "r \<in> set (group_rows i now g ts) \<Longrightarrow> rv_status r = ''BOOKED'' \<and> rv_status_id r = 1 \<and>
    i \<le> rv_id r \<and> rv_id r < i + length ts"
  by (induction ts arbitrary: i) (auto simp: group_reservation_row_def, fastforce+)

lemma group_rows_ids: "map rv_id (group_rows i now g ts) = [i ..< i + length ts]"
  by (induction ts arbitrary: i) (simp_all add: group_reservation_row_def upt_conv_Cons del: upt_Suc)

text \<open>Every step changes the rows in place and appends new ones.\<close>

lemma rows_ok_extend:
  assumes "rows_ok d" and "reservations d' = map F (reservations d) @ new"
    and "\<And>r. r \<in> set (reservations d) \<Longrightarrow> rv_id (F r) = rv_id r \<and> row_ok (F r)"
    and "map rv_id new = [new_key d RT_reservation ..< new_key d RT_reservation + length new]"
    and "\<And>r. r \<in> set new \<Longrightarrow> row_ok r"
    and "last_key d' RT_reservation = last_key d RT_reservation + length new"
  shows "rows_ok d'"
proof -
  have ids: "map rv_id (map F (reservations d)) = map rv_id (reservations d)" using assms(3) by simp
  have new: "new_key d RT_reservation \<le> rv_id r \<and> rv_id r \<le> last_key d' RT_reservation" if "r \<in> set new" for r
  proof -
    from that have "rv_id r \<in> set (map rv_id new)" by simp
    then show ?thesis unfolding assms(4,6) by (auto simp: new_key_def)
  qed
  have "distinct (map rv_id (reservations d'))"
    unfolding assms(2) map_append ids
    using assms(1,4) by (fastforce simp: rows_ok_def new_key_def)
  moreover have "rv_id q \<le> last_key d' RT_reservation \<and> row_ok q" if "q \<in> set (reservations d')" for q
    using that assms(1,3,5,6) new by (fastforce simp: assms(2) rows_ok_def)
  ultimately show ?thesis by (simp add: rows_ok_def)
qed

lemma status_effect:
  assumes "rows_ok d" and "getReservation d c i = Inr (Some cur)" and "r \<in> set (reservations d)"
    and "rv_id r = i"
  shows "rr_status cur = rv_status_id r" and "rr_tableId cur = rv_table_id r" and "rr_outletId cur = rv_outlet_id r"
    and "rr_reservationStartTs cur = rv_reservation_start_ts r" and "rr_reservationEndTs cur = rv_reservation_end_ts r"
    and "rv_company_id r = c"
proof -
  from getReservation_Inr_Some [OF assms(2)] obtain q where q: "find_reservation d c i = Some q"
    "rr_status cur = rv_status_id q" "rr_tableId cur = rv_table_id q" "rr_outletId cur = rv_outlet_id q"
    "rr_reservationStartTs cur = rv_reservation_start_ts q" "rr_reservationEndTs cur = rv_reservation_end_ts q"
    by metis
  with find_reservation_Some [OF q(1)] assms(1,3,4) distinct_map_eq [of rv_id "reservations d" q r]
  have "q = r" "rv_company_id q = c" by (simp_all add: rows_ok_def)
  with q show "rr_status cur = rv_status_id r" "rr_tableId cur = rv_table_id r" "rr_outletId cur = rv_outlet_id r"
    "rr_reservationStartTs cur = rv_reservation_start_ts r" "rr_reservationEndTs cur = rv_reservation_end_ts r"
    "rv_company_id r = c" by simp_all
qed

text \<open>One step, for all operations at once.\<close>

lemma reservation_step_shape:
  assumes "reservation_step d d'" and "rows_ok d"
  obtains F new where "reservations d' = map F (reservations d) @ new"
    and "\<And>r. r \<in> set (reservations d) \<Longrightarrow> moved_on r (F r) \<and> row_ok (F r)"
    and "map rv_id new = [new_key d RT_reservation ..< new_key d RT_reservation + length new]"
    and "\<And>r. r \<in> set new \<Longrightarrow> row_ok r"
    and "last_key d' RT_reservation = last_key d RT_reservation + length new"
  using assms(1)
proof cases
  case (create_one now ci rec)
  note e = createReservation_effect [OF create_one]
  show thesis
    by (rule that [of id "[new_reservation_row (new_key d RT_reservation) now ci]"])
      (use e assms(2) in \<open>auto simp: moved_on_def rows_ok_def new_reservation_row_def intro: row_ok_new\<close>)
next
  case (update_one now c i ui rec)
  then show thesis
  proof (rule updateReservation_effect)
    fix cur minutes
    let ?f = "updated_reservation_row now ui cur (or_else (rr_reservationStartTs cur) (ui_reservationStartTs ui)) minutes"
    assume e: "reservations d' = update_where (\<lambda>r. rv_company_id r = c \<and> rv_id r = i) ?f (reservations d)"
      "last_key d' = last_key d"
    show thesis
      by (rule that [of "\<lambda>r. if rv_company_id r = c \<and> rv_id r = i then ?f r else r" "[]"])
        (use e assms(2) in \<open>auto simp: update_where_def moved_on_def rows_ok_def row_ok_def updated_reservation_row_def\<close>)
  qed
next
  case (change_status aff tx now c i us rec)
  then show thesis
  proof (rule updateReservationStatus_effect)
    fix cur
    assume cur: "getReservation d c i = Inr (Some cur)" "canTransition (rr_status cur) (us_status us)"
      and e: "reservations d' = update_where (\<lambda>r. rv_id r = i \<and> rv_company_id r = c) (status_row now us) (reservations d)"
      "last_key d' RT_reservation = last_key d RT_reservation"
    have "moved_on r (status_row now us r) \<and> row_ok (status_row now us r)"
      if "r \<in> set (reservations d)" "rv_id r = i" for r
      using cur(2) status_effect(1) [OF assms(2) cur(1) that] row_ok_status_row [OF cur(2)]
      by (simp add: moved_on_def status_row_def)
    then show thesis
      by (intro that [of "\<lambda>r. if rv_id r = i \<and> rv_company_id r = c then status_row now us r else r" "[]"])
        (use e assms(2) in \<open>auto simp: update_where_def moved_on_def rows_ok_def\<close>)
  qed
next
  case (create_group now cg r)
  then show thesis
  proof (rule createGroup_effect)
    fix g
    let ?new = "group_rows (new_key d RT_reservation) now g (cg_tableIds cg)"
    assume e: "reservations d' = reservations d @ ?new"
      "last_key d' RT_reservation = last_key d RT_reservation + length (cg_tableIds cg)"
    show thesis
      by (rule that [of id ?new])
        (use e assms(2) in \<open>auto simp: moved_on_def rows_ok_def group_rows_ids intro: row_ok_new dest!: group_rows_status\<close>)
  qed
next
  case (delete_group now c g b)
  note e = deleteGroup_effect [OF delete_group]
  have "moved_on r (cancel_row now r)" if "r \<in> set (reservations d)" "in_group c g r" for r
  proof -
    have "row_ok r" using assms(2) that(1) by (simp add: rows_ok_def)
    with row_ok_statuses [OF this] e(1) [OF that] have "rv_status_id r = 1 \<or> rv_status_id r = 2" by auto
    then show ?thesis by (auto simp: moved_on_def cancel_row_def canTransition_iff)
  qed
  then show thesis
    by (intro that [of "\<lambda>r. if in_group c g r then cancel_row now r else r" "[]"])
      (use e assms(2) row_ok_cancel in \<open>auto simp: update_where_def moved_on_def rows_ok_def\<close>)
next
  case other_service
  then show thesis
    by (intro that [of id "[]"]) (use assms(2) in \<open>auto simp: moved_on_def rows_ok_def\<close>)
next
  case (update_group now c o' g gu ur)
  then show thesis
  proof (rule updateGroup_effect)
    fix F b
    let ?added = "added_tables gu (map rv_table_id (filter (in_group c g) (reservations d)))"
    assume e: "reservations d' = map F (reservations d) @ group_rows (new_key d RT_reservation) now b ?added"
      "last_key d' RT_reservation = last_key d RT_reservation + length ?added"
      and same: "\<forall>r. same_booking r (F r)"
    have "moved_on r (F r) \<and> row_ok (F r)" if "r \<in> set (reservations d)" for r
      using same assms(2) that by (simp add: same_booking_def moved_on_def rows_ok_def row_ok_def)
    with e show thesis
      by (intro that [of F "group_rows (new_key d RT_reservation) now b ?added"])
        (auto simp: group_rows_ids intro: row_ok_new dest!: group_rows_status)
  qed
qed

end
