(* ===== verification/Double_Booking.thy ===== *)
theory Double_Booking
  imports Booking_Properties
begin

text \<open>
  No table is booked twice for the same time as long as reservations and groups are created,
  extended, confirmed, seated, cancelled and relabelled; moving a reservation to another table can
  book the table twice.
\<close>

section \<open>Two bookings that clash\<close>

definition has_table :: "reservation_row \<Rightarrow> bool" where
  "has_table r \<longleftrightarrow> (case rv_table_id r of None \<Rightarrow> False | Some t \<Rightarrow> t \<noteq> 0)"

definition clash :: "reservation_row \<Rightarrow> reservation_row \<Rightarrow> bool" where
  "clash r q \<longleftrightarrow> blocking r \<and> blocking q \<and> rv_company_id r = rv_company_id q \<and>
     rv_outlet_id r = rv_outlet_id q \<and> rv_table_id r = rv_table_id q \<and> has_table r \<and>
     reservationsOverlap (rv_reservation_start_ts r) (rv_reservation_end_ts r)
       (rv_reservation_start_ts q) (rv_reservation_end_ts q)"

definition booked_once :: "rdb \<Rightarrow> bool" where
  "booked_once d \<longleftrightarrow> (\<forall>r \<in> set (reservations d). \<forall>q \<in> set (reservations d). rv_id r \<noteq> rv_id q \<longrightarrow> \<not> clash r q)"

definition tables_distinct :: "rdb \<Rightarrow> bool" where
  "tables_distinct d \<longleftrightarrow> distinct (map ot_id (outlet_tables d))"

lemma clash_sym: "clash r q = clash q r"
  by (auto simp: clash_def overlap_sym has_table_def)

lemma has_tableE:
  assumes "has_table r"
  obtains t where "rv_table_id r = Some t" and "t \<noteq> 0"
  using assms by (auto simp: has_table_def split: option.splits)

lemma booked_once_extend:
  assumes "booked_once d" and "reservations d' = map F (reservations d) @ new"
    and "\<And>r. r \<in> set (reservations d) \<Longrightarrow> rv_id (F r) = rv_id r"
    and "\<And>r q. r \<in> set (reservations d) \<Longrightarrow> q \<in> set (reservations d) \<Longrightarrow> rv_id r \<noteq> rv_id q \<Longrightarrow>
      clash (F r) (F q) \<Longrightarrow> clash r q"
    and "\<And>r q. r \<in> set new \<Longrightarrow> q \<in> set new \<Longrightarrow> rv_id r \<noteq> rv_id q \<Longrightarrow> \<not> clash r q"
    and "\<And>r q. r \<in> set (reservations d) \<Longrightarrow> q \<in> set new \<Longrightarrow> \<not> clash (F r) q"
  shows "booked_once d'"
  unfolding booked_once_def
proof (intro ballI impI)
  fix r q assume r: "r \<in> set (reservations d')" and q: "q \<in> set (reservations d')" and ne: "rv_id r \<noteq> rv_id q"
  from r consider (old) r0 where "r0 \<in> set (reservations d)" "r = F r0" | (new) "r \<in> set new" unfolding assms(2) by auto
  then show "\<not> clash r q"
  proof cases
    case old
    from q consider (old') q0 where "q0 \<in> set (reservations d)" "q = F q0" | (new') "q \<in> set new" unfolding assms(2) by auto
    then show ?thesis
    proof cases
      case old'
      with old ne assms(1,3,4) show ?thesis unfolding booked_once_def by metis
    qed (use old assms(6) in blast)
  next
    case new
    from q consider (old') q0 where "q0 \<in> set (reservations d)" "q = F q0" | (new') "q \<in> set new" unfolding assms(2) by auto
    then show ?thesis
    proof cases
      case old'
      with assms(6) [of q0 r] new show ?thesis by (simp add: clash_sym)
    next
      case new'
      from assms(5) [OF new this ne] show ?thesis .
    qed
  qed
qed

lemma booked_once_rows:
  assumes "booked_once d" and "reservations d' = map F (reservations d)"
    and "\<And>r. r \<in> set (reservations d) \<Longrightarrow> rv_id (F r) = rv_id r"
    and "\<And>r q. r \<in> set (reservations d) \<Longrightarrow> q \<in> set (reservations d) \<Longrightarrow> rv_id r \<noteq> rv_id q \<Longrightarrow>
      clash (F r) (F q) \<Longrightarrow> clash r q"
  shows "booked_once d'"
  by (rule booked_once_extend [OF assms(1) _ assms(3,4), of _ "[]"]) (simp_all add: assms(2))

text \<open>A change of rows that frees tables or leaves the bookings as they are.\<close>

definition no_new_claim :: "reservation_row \<Rightarrow> reservation_row \<Rightarrow> bool" where
  "no_new_claim r q \<longleftrightarrow> rv_id q = rv_id r \<and> (blocking q \<longrightarrow> blocking r \<and>
     rv_company_id q = rv_company_id r \<and> rv_outlet_id q = rv_outlet_id r \<and> rv_table_id q = rv_table_id r \<and>
     same_times r q)"

lemma no_new_claim_clash: "no_new_claim r r' \<Longrightarrow> no_new_claim q q' \<Longrightarrow> clash r' q' \<Longrightarrow> clash r q"
  by (auto simp: no_new_claim_def clash_def same_times_def has_table_def)

lemma no_new_claim_refl [simp]: "no_new_claim r r"
  by (simp add: no_new_claim_def same_times_def)

lemma booked_once_no_new_claim:
  assumes "booked_once d" and "reservations d' = map F (reservations d)"
    and "\<And>r. r \<in> set (reservations d) \<Longrightarrow> no_new_claim r (F r)"
  shows "booked_once d'"
  using assms(3) by (intro booked_once_rows [OF assms(1,2)])
    (auto simp: no_new_claim_def intro: no_new_claim_clash [OF assms(3) assms(3)])

section \<open>The operations that keep it\<close>

subsection \<open>Creation\<close>

lemma create_one_booked_once:
  assumes "createReservation now inp d = Inr (rec, d')" and "rows_ok d" and "booked_once d"
  shows "booked_once d'"
proof (rule booked_once_extend [OF assms(3), of _ id "[new_reservation_row (new_key d RT_reservation) now inp]"])
  note e = createReservation_effect [OF assms(1)]
  show "reservations d' = map id (reservations d) @ [new_reservation_row (new_key d RT_reservation) now inp]"
    using e(2) by simp
  fix r q assume r: "r \<in> set (reservations d)" and q: "q \<in> set [new_reservation_row (new_key d RT_reservation) now inp]"
  show "\<not> clash (id r) q"
  proof
    assume "clash (id r) q"
    then have "has_table r" and same: "rv_company_id r = ci_companyId inp" "rv_outlet_id r = ci_outletId inp"
      "rv_table_id r = ci_tableId inp"
      using q by (simp_all add: clash_def new_reservation_row_def)
    then obtain t where "ci_tableId inp = Some t" "t \<noteq> 0" "on_table (ci_companyId inp) (ci_outletId inp) t r"
      using has_tableE by (metis on_table_def)
    moreover have "row_ok r" using r assms(2) by (simp add: rows_ok_def)
    ultimately show False using check_table_free_no_rows [OF e(1)] r by blast
  qed
qed auto

text \<open>
  The rows for several tables clash with nothing when the tables are different ones that exist and
  no blocking reservation of theirs overlaps.
\<close>

lemma available_tables_distinct:
  assumes "tables_distinct d" and "length (available_tables d c o' ts) = length ts"
  shows "distinct ts" and "\<And>t. t \<in> set ts \<Longrightarrow> table_exists d (Some t)"
proof -
  let ?av = "map ot_id (available_tables d c o' ts)"
  have "distinct ?av"
    using assms(1) by (auto simp: tables_distinct_def available_tables_def distinct_map inj_on_def)
  then have card: "card (set ?av) = length ts" using assms(2) by (metis distinct_card length_map)
  have sub: "set ?av \<subseteq> set ts" by (auto simp: available_tables_def)
  then have "length ts \<le> card (set ts)" using card by (metis List.finite_set card_mono)
  then have eq: "card (set ts) = length ts" using card_length [of ts] by simp
  then show "distinct ts" by (rule card_distinct)
  from sub eq card have "set ?av = set ts" by (metis List.finite_set card_subset_eq)
  then have "t \<in> ot_id ` set (outlet_tables d)" if "t \<in> set ts" for t
    using that by (auto simp: available_tables_def)
  then show "\<And>t. t \<in> set ts \<Longrightarrow> table_exists d (Some t)"
    by (fastforce simp: table_exists_def list_ex_iff)
qed

lemma group_rows_fields:
  "r \<in> set (group_rows i now g ts) \<Longrightarrow> (\<exists>t \<in> set ts. rv_table_id r = Some t) \<and>
    rv_company_id r = gb_companyId g \<and> rv_outlet_id r = gb_outletId g \<and>
    rv_reservation_start_ts r = gb_startTs g \<and> rv_reservation_end_ts r = gb_endTs g"
  by (induction ts arbitrary: i) (auto simp: group_reservation_row_def)

lemma map_table_group_rows: "map rv_table_id (group_rows i now g ts) = map Some ts"
  by (induction ts arbitrary: i) (simp_all add: group_reservation_row_def)

lemma group_rows_no_clash:
  assumes "distinct ts" and "r \<in> set (group_rows i now g ts)" and "q \<in> set (group_rows i now g ts)"
    and "rv_id r \<noteq> rv_id q"
  shows "\<not> clash r q"
proof
  assume "clash r q"
  then have "rv_table_id r = rv_table_id q" by (simp add: clash_def)
  moreover have "distinct (map rv_table_id (group_rows i now g ts))"
    using assms(1) by (simp add: map_table_group_rows distinct_map)
  ultimately have "r = q" using distinct_map_eq assms(2,3) by metis
  with assms(4) show False by simp
qed

lemma group_rows_no_old_clash:
  assumes "conflicts d (gb_companyId g) (gb_outletId g) ts (gb_startTs g) (gb_endTs g) [] = []"
    and "\<And>t. t \<in> set ts \<Longrightarrow> table_exists d (Some t)"
    and "r \<in> set (reservations d)" and "q \<in> set (group_rows i now g ts)"
  shows "\<not> clash r q"
proof
  assume cl: "clash r q"
  from group_rows_fields [OF assms(4)] obtain t where t: "t \<in> set ts" "rv_table_id q = Some t"
    and q: "rv_company_id q = gb_companyId g" "rv_outlet_id q = gb_outletId g"
      "rv_reservation_start_ts q = gb_startTs g" "rv_reservation_end_ts q = gb_endTs g" by blast
  have "r \<in> set (conflicts d (gb_companyId g) (gb_outletId g) ts (gb_startTs g) (gb_endTs g) [])"
    using cl t q assms(2) [OF t(1)] assms(3)
    by (auto simp: conflicts_def clash_def reservationsOverlap_def)
  with assms(1) show False by simp
qed

lemma create_group_booked_once:
  assumes "createReservationGroupWithTables now inp d = Inr (r, d')" and "tables_distinct d" and "booked_once d"
  shows "booked_once d'"
  using assms(1)
proof (rule createGroup_effect)
  fix g
  let ?new = "group_rows (new_key d RT_reservation) now g (cg_tableIds inp)"
  assume av: "length (available_tables d (cg_companyId inp) (cg_outletId inp) (cg_tableIds inp)) = length (cg_tableIds inp)"
    and con: "conflicts d (cg_companyId inp) (cg_outletId inp) (cg_tableIds inp) (gb_startTs g) (gb_endTs g) [] = []"
    and g: "gb_companyId g = cg_companyId inp" "gb_outletId g = cg_outletId inp"
    and rows: "reservations d' = reservations d @ ?new"
  note tab = available_tables_distinct [OF assms(2) av]
  show ?thesis
    by (rule booked_once_extend [OF assms(3), of _ id ?new])
      (use rows group_rows_no_clash [OF tab(1)] group_rows_no_old_clash [OF con [folded g] tab(2)] in auto)
qed

subsection \<open>Changes of one reservation\<close>

lemma relabel_booked_once:
  assumes "updateReservation now c i inp d = Inr (rec, d')" and "rows_ok d" and "booked_once d"
    and "ui_tableId inp = None" and "ui_reservationStartTs inp = None" and "ui_durationMinutes inp = None"
  shows "booked_once d'"
  using assms(1)
proof (rule updateReservation_effect)
  fix cur minutes
  let ?P = "\<lambda>r. rv_company_id r = c \<and> rv_id r = i"
  let ?f = "updated_reservation_row now inp cur (or_else (rr_reservationStartTs cur) (ui_reservationStartTs inp)) minutes"
  assume cur: "getReservation d c i = Inr (Some cur)" and ok: "assertValidDurationMinutes minutes = Inr ()"
    and m: "minutes = or_else (of_int (rr_reservationEndTs cur - rr_reservationStartTs cur) / 60000) (ui_durationMinutes inp)"
    and rows: "reservations d' = update_where ?P ?f (reservations d)"
  have "no_new_claim r (?f r)" if "r \<in> set (reservations d)" "rv_id r = i" for r
  proof -
    note eff = status_effect [OF assms(2) cur that]
    have "of_int \<lfloor>minutes\<rfloor> = minutes" using ok by (simp add: assertValidDurationMinutes_def inr_simps)
    moreover have "minutes * 60000 = of_int (rr_reservationEndTs cur - rr_reservationStartTs cur)"
      using m assms(6) by simp
    ultimately have "(of_int (\<lfloor>minutes\<rfloor> * 60000) :: rat) = of_int (rr_reservationEndTs cur - rr_reservationStartTs cur)"
      by (simp only: of_int_mult of_int_numeral)
    then have "\<lfloor>minutes\<rfloor> * 60000 = rr_reservationEndTs cur - rr_reservationStartTs cur" by (simp only: of_int_eq_iff)
    then show ?thesis
      using eff assms(4,5)
      by (simp add: no_new_claim_def updated_reservation_row_def same_times_def blocking_def keep_def)
  qed
  then show ?thesis
    by (intro booked_once_no_new_claim [OF assms(3), of _ "\<lambda>r. if ?P r then ?f r else r"])
      (use rows in \<open>simp_all add: update_where_def\<close>)
qed

lemma overlap_check_no_clash:
  assumes "overlap_check c i inp cur (Some t) d = Inr ()" and "t \<noteq> 0" and "us_status inp = RS_CONFIRMED"
    and "q \<in> set (reservations d)" and "row_ok q" and "rv_id q \<noteq> i"
    and "on_table c (rr_outletId cur) t q"
  shows "\<not> reservationsOverlap (rr_reservationStartTs cur) (rr_reservationEndTs cur)
    (rv_reservation_start_ts q) (rv_reservation_end_ts q)"
proof
  assume ov: "reservationsOverlap (rr_reservationStartTs cur) (rr_reservationEndTs cur)
    (rv_reservation_start_ts q) (rv_reservation_end_ts q)"
  let ?s = "rr_reservationStartTs cur" and ?e = "rr_reservationEndTs cur"
  let ?Q = "\<lambda>r. on_table c (rr_outletId cur) t r \<and> status_not_final_sql (rv_status r) \<and>
    rv_reservation_start_ts r < ?e \<and> rv_reservation_end_ts r > ?s \<and>
    (case truthy_id (Some i) of None \<Rightarrow> True | Some j \<Rightarrow> rv_id r \<noteq> j)"
  have "x / 60000 * 60000 = x" for x :: rat by simp
  then have "(of_int ?s + of_int (?e - ?s) / 60000 * 60000 :: rat) = of_int ?e" by (simp only: of_int_add [symmetric])
  then have eq: "checkReservationOverlap d c (rr_outletId cur) (Some t) ?s (of_int (?e - ?s) / 60000) (Some i) \<longleftrightarrow>
      0 < length (filter ?Q (reservations d))"
    using assms(2) by (simp add: checkReservationOverlap_def truthy_id_def Let_def)
  have "q \<in> set (filter ?Q (reservations d))"
    using ov assms(4,6,7) row_ok_sql [OF assms(5)] by (simp add: reservationsOverlap_def truthy_id_def)
  then have "0 < length (filter ?Q (reservations d))" by (rule length_pos_if_in_set)
  then have "checkReservationOverlap d c (rr_outletId cur) (Some t) ?s (of_int (?e - ?s) / 60000) (Some i)"
    by (simp only: eq)
  with assms(1-3) show False by (simp add: overlap_check_def truthy_id_def)
qed

lemma change_status_booked_once:
  assumes "updateReservationStatus aff tx now c i inp d = Inr (rec, d')" and "rows_ok d" and "booked_once d"
    and "us_status inp = RS_CHECKED_IN \<longrightarrow> us_tableId inp = None"
  shows "booked_once d'"
  using assms(1)
proof (rule updateReservationStatus_effect)
  fix cur
  let ?P = "\<lambda>r. rv_id r = i \<and> rv_company_id r = c"
  let ?F = "\<lambda>r. if ?P r then status_row now inp r else r"
  assume cur: "getReservation d c i = Inr (Some cur)" and tr: "canTransition (rr_status cur) (us_status inp)"
    and ov: "overlap_check c i inp cur (keep (us_tableId inp) (rr_tableId cur)) d = Inr ()"
    and rows: "reservations d' = update_where ?P (status_row now inp) (reservations d)"
  have one: "clash r q" if r: "r \<in> set (reservations d)" "?P r" and q: "q \<in> set (reservations d)" "rv_id q \<noteq> i"
    and cl: "clash (status_row now inp r) q" for r q
  proof -
    note eff = status_effect [OF assms(2) cur r(1)]
    have "blocking (status_row now inp r)" using cl by (simp add: clash_def)
    with tr eff(1) r(2) consider (confirmed) "us_status inp = RS_CONFIRMED" | (seated) "us_status inp = RS_CHECKED_IN"
        "rv_status_id r = RS_CONFIRMED"
      by (auto simp: canTransition_iff blocking_def isBlockingStatusId_def BLOCKING_STATUS_IDS_def status_row_def)
    then show ?thesis
    proof cases
      case confirmed
      from cl have "has_table (status_row now inp r)" by (simp add: clash_def)
      then obtain t where t: "rv_table_id (status_row now inp r) = Some t" "t \<noteq> 0" by (rule has_tableE)
      then have "keep (us_tableId inp) (rr_tableId cur) = Some t"
        using eff(2) r(2) by (simp add: status_row_def)
      moreover have "on_table c (rr_outletId cur) t q"
        using cl t eff(3,6) r(2) by (auto simp: clash_def on_table_def status_row_def)
      moreover have "row_ok q" using q(1) assms(2) by (simp add: rows_ok_def)
      ultimately have "\<not> reservationsOverlap (rr_reservationStartTs cur) (rr_reservationEndTs cur)
          (rv_reservation_start_ts q) (rv_reservation_end_ts q)"
        using overlap_check_no_clash ov t(2) confirmed q by metis
      then show ?thesis using cl eff(4,5) r(2) by (simp add: clash_def status_row_def)
    next
      case seated
      with assms(4) cl show ?thesis
        by (auto simp: clash_def status_row_def keep_def has_table_def blocking_def isBlockingStatusId_def
            BLOCKING_STATUS_IDS_def)
    qed
  qed
  show ?thesis
  proof (rule booked_once_rows [OF assms(3), of _ ?F])
    show "reservations d' = map ?F (reservations d)" using rows by (simp add: update_where_def)
    fix r q assume r: "r \<in> set (reservations d)" and q: "q \<in> set (reservations d)" and ne: "rv_id r \<noteq> rv_id q"
      and cl: "clash (?F r) (?F q)"
    show "clash r q"
    proof (cases "?P r")
      case True
      with ne have "rv_id q \<noteq> i" by simp
      with one [OF r True q] cl True show ?thesis by simp
    next
      case False
      show ?thesis
      proof (cases "?P q")
        case True
        with ne have "rv_id r \<noteq> i" by simp
        with one [OF q True r] cl True False show ?thesis by (simp add: clash_sym)
      next
        case out: False
        have "?F r = r" "?F q = q" using False out by (simp_all only: if_False)
        with cl show ?thesis by simp
      qed
    qed
  qed (simp add: status_row_def)
qed

lemma delete_group_booked_once:
  assumes "deleteReservationGroupSafe now c g d = Inr (b, d')" and "booked_once d"
  shows "booked_once d'"
  by (rule booked_once_no_new_claim [OF assms(2), of _ "\<lambda>r. if in_group c g r then cancel_row now r else r"])
    (use deleteGroup_effect(2) [OF assms(1)] in \<open>auto simp: update_where_def no_new_claim_def cancel_row_def same_times_def
      blocking_def isBlockingStatusId_def BLOCKING_STATUS_IDS_def\<close>)

subsection \<open>More tables for a group\<close>

lemma first_of_group_map:
  assumes "reservations d' = map F (reservations d)" and "\<forall>r. rv_reservation_group_id (F r) = rv_reservation_group_id r"
  shows "first_of_group d' g = map_option F (first_of_group d g)"
proof -
  have "find (\<lambda>r. rv_reservation_group_id r = Some g) (map F rs) =
      map_option F (find (\<lambda>r. rv_reservation_group_id r = Some g) rs)" for rs
    using assms(2) by (induction rs) auto
  with assms(1) show ?thesis by (simp add: first_of_group_def)
qed

lemma added_tables_Some:
  "gu_tableIds u = Some ts \<Longrightarrow> added_tables u current = filter (\<lambda>t. Some t \<notin> set current) ts"
proof -
  have "List.map_filter id (filter (\<lambda>t. t \<notin> set current) (map Some ts)) = filter (\<lambda>t. Some t \<notin> set current) ts" for ts :: "nat list"
    by (induction ts) (simp_all add: List.map_filter_simps)
  moreover assume "gu_tableIds u = Some ts"
  ultimately show ?thesis by (simp add: added_tables_def final_tables_def some_ids_def)
qed

lemma added_tables_None: "gu_tableIds u = None \<Longrightarrow> added_tables u current = []"
  by (simp add: added_tables_def final_tables_def some_ids_def List.map_filter_simps)

lemma extend_group_effect:
  assumes "updateReservationGroup now c o' g u d = Inr (res, d')" and "gu_reservationAt u = None"
  defines "current \<equiv> map rv_table_id (filter (in_group c g) (reservations d))"
  assumes "removed_tables u current = []"
  obtains F b where
    "reservations d' = map F (reservations d) @ group_rows (new_key d RT_reservation) now b (added_tables u current)"
    and "\<forall>r. same_booking r (F r) \<and> same_times r (F r)" and "outlet_tables d' = outlet_tables d"
    and "added_tables u current \<noteq> [] \<Longrightarrow>
      length (available_tables d (gb_companyId b) (gb_outletId b) (added_tables u current)) = length (added_tables u current) \<and>
      conflicts d (gb_companyId b) (gb_outletId b) (added_tables u current) (gb_startTs b) (gb_endTs b) [] = []"
proof -
  from assms(1) obtain grp d1 x newIds where
    check: "(case gu_tableIds u of None \<Rightarrow> Inr () | Some ts \<Rightarrow> check_tables u c g grp current ts d) = Inr ()"
    and meta: "update_metadata now u c g d = Inr (x, d1)"
    and add': "add_tables now u c grp g (added_tables u current)
      (if removed_tables u current = [] then d1 else unlink_removed now c g (removed_tables u current) d1) =
      Inr (newIds, d')"
    unfolding current_def by (rule updateGroup_steps) blast
  have add: "add_tables now u c grp g (added_tables u current) d1 = Inr (newIds, d')"
    using add' assms(4) by (simp add: current_def)
  from update_metadata_effect [OF meta] assms(2) obtain F where F: "reservations d1 = map F (reservations d)"
    "\<forall>r. same_booking r (F r)" "\<forall>r. same_times r (F r)"
    "\<forall>r. rv_reservation_group_id (F r) = rv_reservation_group_id r"
    "last_key d1 = last_key d" "outlet_tables d1 = outlet_tables d" by metis
  from add_tables_effect [OF add] obtain b where
    b: "reservations d' = reservations d1 @ group_rows (new_key d1 RT_reservation) now b (added_tables u current)"
      "outlet_tables d' = outlet_tables d1"
    and fields: "added_tables u current \<noteq> [] \<Longrightarrow> gb_companyId b = c \<and> gb_outletId b = rg_outlet_id grp \<and>
      requested_start u d1 g = Inr (gb_startTs b) \<and> gb_endTs b = requested_end u (gb_startTs b)" by metis
  have start: "requested_start u d1 g = requested_start u d g"
    using first_of_group_map [OF F(1,4), of g] F(3) assms(2)
    by (cases "first_of_group d g")
      (simp_all add: requested_start_def truthy_iso_def getFirstReservationTime_def same_times_def)
  have "length (available_tables d (gb_companyId b) (gb_outletId b) (added_tables u current)) = length (added_tables u current) \<and>
      conflicts d (gb_companyId b) (gb_outletId b) (added_tables u current) (gb_startTs b) (gb_endTs b) [] = []"
    if ne: "added_tables u current \<noteq> []"
  proof (cases "gu_tableIds u")
    case None
    with ne show ?thesis by (simp add: added_tables_None)
  next
    case (Some ts)
    with check fields [OF ne] start ne show ?thesis
      by (simp add: check_tables_def inr_simps Let_def added_tables_Some [OF Some] split: if_splits)
  qed
  with F b show thesis by (intro that [of F b]) (simp_all add: new_key_def)
qed

lemma extend_group_booked_once:
  assumes "updateReservationGroup now c o' g u d = Inr (res, d')" and "gu_reservationAt u = None"
    and "removed_tables u (map rv_table_id (filter (in_group c g) (reservations d))) = []"
    and "tables_distinct d" and "booked_once d"
  shows "booked_once d'"
  using assms(1-3)
proof (rule extend_group_effect)
  fix F b
  let ?added = "added_tables u (map rv_table_id (filter (in_group c g) (reservations d)))"
  let ?new = "group_rows (new_key d RT_reservation) now b ?added"
  assume rows: "reservations d' = map F (reservations d) @ ?new"
    and same: "\<forall>r. same_booking r (F r) \<and> same_times r (F r)"
    and checks: "?added \<noteq> [] \<Longrightarrow>
      length (available_tables d (gb_companyId b) (gb_outletId b) ?added) = length ?added \<and>
      conflicts d (gb_companyId b) (gb_outletId b) ?added (gb_startTs b) (gb_endTs b) [] = []"
  have clash_F: "clash (F r) q = clash r q" for r q
    using same by (simp add: clash_def same_booking_def same_times_def blocking_def has_table_def)
  show ?thesis
  proof (rule booked_once_extend [OF assms(5) rows])
    show "rv_id (F r) = rv_id r" for r using same by (simp add: same_booking_def)
    show "clash (F r) (F q) \<Longrightarrow> clash r q" for r q by (metis clash_F clash_sym)
    fix r q assume q: "q \<in> set ?new"
    then have "?added \<noteq> []" by auto
    note ok = checks [OF this]
    note tab = available_tables_distinct [OF assms(4) conjunct1 [OF ok]]
    show "r \<in> set ?new \<Longrightarrow> rv_id r \<noteq> rv_id q \<Longrightarrow> \<not> clash r q"
      using group_rows_no_clash [OF tab(1)] q by blast
    show "r \<in> set (reservations d) \<Longrightarrow> \<not> clash (F r) q"
      using group_rows_no_old_clash [OF conjunct2 [OF ok] tab(2)] q by (simp add: clash_F)
  qed
qed

section \<open>Steps\<close>

inductive booking_step :: "rdb \<Rightarrow> rdb \<Rightarrow> bool" where
  create_one: "createReservation now ci d = Inr (rec, d') \<Longrightarrow> booking_step d d'"
| relabel: "updateReservation now c i ui d = Inr (rec, d') \<Longrightarrow> ui_tableId ui = None \<Longrightarrow>
    ui_reservationStartTs ui = None \<Longrightarrow> ui_durationMinutes ui = None \<Longrightarrow> booking_step d d'"
| change_status: "updateReservationStatus aff tx now c i us d = Inr (rec, d') \<Longrightarrow>
    us_status us = RS_CHECKED_IN \<longrightarrow> us_tableId us = None \<Longrightarrow> booking_step d d'"
| create_group: "createReservationGroupWithTables now cg d = Inr (r, d') \<Longrightarrow> booking_step d d'"
| extend_group: "updateReservationGroup now c o' g gu d = Inr (ur, d') \<Longrightarrow> gu_reservationAt gu = None \<Longrightarrow>
    removed_tables gu (map rv_table_id (filter (in_group c g) (reservations d))) = [] \<Longrightarrow> booking_step d d'"
| delete_group: "deleteReservationGroupSafe now c g d = Inr (b, d') \<Longrightarrow> booking_step d d'"
| other_service: "reservations d' = reservations d \<Longrightarrow>
    last_key d' RT_reservation = last_key d RT_reservation \<Longrightarrow> tables_distinct d' \<Longrightarrow> booking_step d d'"

definition bookings_ok :: "rdb \<Rightarrow> bool" where
  "bookings_ok d \<longleftrightarrow> rows_ok d \<and> tables_distinct d \<and> booked_once d"

definition first_day :: "rdb \<Rightarrow> bool" where
  "first_day d \<longleftrightarrow> no_reservations d \<and> tables_distinct d"

text \<open>So is a push of events by a point of sale: it leaves reservations and tables alone.\<close>

lemma push_is_booking_step:
  "pushTableEvents now c o' u es d = (rs, d') \<Longrightarrow> tables_distinct d \<Longrightarrow> booking_step d d'"
  using books_push by (fastforce simp: books_def tables_distinct_def intro: other_service)

lemma booking_step_reservation_step: "booking_step d d' \<Longrightarrow> reservation_step d d'"
  by (erule booking_step.cases) (auto intro: reservation_step.intros)

lemma booking_step_tables:
  assumes "booking_step d d'" and "tables_distinct d"
  shows "tables_distinct d'"
proof -
  have "outlet_tables d' = outlet_tables d \<or> tables_distinct d'"
    using assms(1)
  proof cases
    case create_one
    then show ?thesis using createReservation_effect(4) by blast
  next
    case relabel
    then show ?thesis by (metis updateReservation_effect)
  next
    case change_status
    then show ?thesis by (metis updateReservationStatus_effect)
  next
    case create_group
    then show ?thesis by (metis createGroup_effect)
  next
    case extend_group
    then show ?thesis by (metis updateGroup_effect)
  next
    case delete_group
    then show ?thesis using deleteGroup_effect(4) by blast
  qed simp
  with assms(2) show ?thesis by (auto simp: tables_distinct_def)
qed

lemma bookings_ok_step:
  assumes "bookings_ok d" and "booking_step d d'"
  shows "bookings_ok d'"
proof -
  from assms(1) have ok: "rows_ok d" "tables_distinct d" "booked_once d" by (simp_all add: bookings_ok_def)
  have "booked_once d'"
    using assms(2) ok
  proof cases
    case other_service
    with ok(3) show ?thesis by (simp add: booked_once_def)
  qed (auto intro: create_one_booked_once relabel_booked_once change_status_booked_once
      create_group_booked_once extend_group_booked_once delete_group_booked_once)
  then show ?thesis
    using rows_ok_step [OF ok(1) booking_step_reservation_step [OF assms(2)]] booking_step_tables [OF assms(2) ok(2)]
    by (simp add: bookings_ok_def)
qed

lemma first_day_ok: "first_day d \<Longrightarrow> bookings_ok d"
  by (simp add: first_day_def bookings_ok_def no_reservations_ok no_reservations_def booked_once_def)

interpretation bookings: step_invariant first_day booking_step bookings_ok
  by unfold_locales (fact first_day_ok bookings_ok_step)+

section \<open>Properties\<close>

text \<open>
  C2: However reservations and groups are created, extended with tables, confirmed, seated,
  cancelled and relabelled, two reservations that hold the same table never overlap in time.
\<close>

theorem no_double_booking:
  assumes "first_day d0" and "booking_step\<^sup>*\<^sup>* d0 d" and "r \<in> set (reservations d)" and "q \<in> set (reservations d)"
    and "rv_id r \<noteq> rv_id q" and "on_table c o' t r" and "on_table c o' t q" and "t \<noteq> 0"
    and "isBlockingStatusId (rv_status_id r)" and "isBlockingStatusId (rv_status_id q)"
  shows "\<not> reservationsOverlap (rv_reservation_start_ts r) (rv_reservation_end_ts r)
    (rv_reservation_start_ts q) (rv_reservation_end_ts q)"
proof -
  have "booked_once d" using bookings.reachable [OF assms(1,2)] by (simp add: bookings_ok_def)
  with assms(3-5) have "\<not> clash r q" by (simp add: booked_once_def)
  with assms(6-10) show ?thesis by (simp add: clash_def on_table_def blocking_def has_table_def)
qed

definition two_tables :: "nat list \<Rightarrow> int \<Rightarrow> CreateReservationGroupInput" where
  "two_tables ids startTs = (party_request ids)\<lparr>cg_reservationAt := Instant startTs\<rparr>"

lemma two_parties:
  obtains r1 d1 r2 d2 where "createReservationGroupWithTables 0 (two_tables [1, 2] 0) open_restaurant = Inr (r1, d1)"
    and "createReservationGroupWithTables 0 (two_tables [1, 3] 7200000) d1 = Inr (r2, d2)"
    and "map (\<lambda>r. (rv_id r, on_table 1 1 1 r, isBlockingStatusId (rv_status_id r), rv_reservation_end_ts r)) (reservations d2) =
      [(2, True, True, 3600000), (3, False, True, 3600000), (4, True, True, 10800000), (5, False, True, 10800000)]"
proof -
  have "case createReservationGroupWithTables 0 (two_tables [1, 2] 0) open_restaurant of
      Inl _ \<Rightarrow> False
    | Inr (_, d1) \<Rightarrow> (case createReservationGroupWithTables 0 (two_tables [1, 3] 7200000) d1 of
          Inl _ \<Rightarrow> False
        | Inr (_, d2) \<Rightarrow> map (\<lambda>r. (rv_id r, on_table 1 1 1 r, isBlockingStatusId (rv_status_id r), rv_reservation_end_ts r))
            (reservations d2) =
            [(2, True, True, 3600000), (3, False, True, 3600000), (4, True, True, 10800000), (5, False, True, 10800000)])"
    by code_simp
  then show thesis unfolding case_run_iff by (elim exE conjE) (rule that)
qed

theorem no_double_booking_witness:
  "\<exists>d r q. booking_step\<^sup>*\<^sup>* open_restaurant d \<and> r \<in> set (reservations d) \<and> q \<in> set (reservations d) \<and>
    rv_id r \<noteq> rv_id q \<and> on_table 1 1 1 r \<and> on_table 1 1 1 q \<and>
    \<not> reservationsOverlap (rv_reservation_start_ts r) (rv_reservation_end_ts r)
      (rv_reservation_start_ts q) (rv_reservation_end_ts q)"
proof (rule two_parties)
  fix r1 d1 r2 d2
  assume one: "createReservationGroupWithTables 0 (two_tables [1, 2] 0) open_restaurant = Inr (r1, d1)"
    and two: "createReservationGroupWithTables 0 (two_tables [1, 3] 7200000) d1 = Inr (r2, d2)"
    and rows: "map (\<lambda>r. (rv_id r, on_table 1 1 1 r, isBlockingStatusId (rv_status_id r), rv_reservation_end_ts r)) (reservations d2) =
      [(2, True, True, 3600000), (3, False, True, 3600000), (4, True, True, 10800000), (5, False, True, 10800000)]"
  have start: "first_day open_restaurant" by code_simp
  have reach: "booking_step\<^sup>*\<^sup>* open_restaurant d2"
    using booking_step.create_group [OF one] booking_step.create_group [OF two] by (meson converse_rtranclp_into_rtranclp r_into_rtranclp)
  from rows obtain r r' q q' where "reservations d2 = [r, r', q, q']" "rv_id r = 2" "rv_id q = 4"
    "on_table 1 1 1 r" "on_table 1 1 1 q" "isBlockingStatusId (rv_status_id r)" "isBlockingStatusId (rv_status_id q)"
    by (auto simp: map_eq_Cons_conv)
  with no_double_booking [OF start reach, of r q 1 1 1] reach show ?thesis
    by (intro exI [of _ d2] exI [of _ r] exI [of _ q]) simp
qed

definition to_table :: "nat \<Rightarrow> UpdateReservationInput" where
  "to_table t = \<lparr>ui_tableId = Some t, ui_partySize = None, ui_customerName = None, ui_customerPhone = None,
     ui_reservationStartTs = None, ui_durationMinutes = None, ui_notes = None\<rparr>"

text \<open>
  C32: Moving is not checked: whenever two active reservations of an outlet overlap in time and one
  of them has a table, \<open>updateReservation\<close> moves the other to the same table, and the table is
  booked twice.  All it asks for is a whole number of minutes and a guest.
\<close>

theorem moving_double_books:
  assumes "rows_ok d" and r: "r \<in> set (reservations d)" and q: "q \<in> set (reservations d)"
    and ne: "rv_id q \<noteq> rv_id r" and act: "blocking r" "blocking q"
    and same: "rv_company_id q = rv_company_id r" "rv_outlet_id q = rv_outlet_id r"
    and t: "rv_table_id q = Some t" "t \<noteq> 0"
    and ov: "reservationsOverlap (rv_reservation_start_ts r) (rv_reservation_end_ts r)
      (rv_reservation_start_ts q) (rv_reservation_end_ts q)"
    and m: "rv_reservation_end_ts r = rv_reservation_start_ts r + m * 60000" "0 < m" and guests: "0 < rv_guest_count r"
  shows "\<exists>rec d'. updateReservation now (rv_company_id r) (rv_id r) (to_table t) d = Inr (rec, d') \<and> \<not> booked_once d'"
proof -
  let ?c = "rv_company_id r" and ?i = "rv_id r"
  have only: "x = r" if "x \<in> set (reservations d)" "rv_id x = ?i" for x
    using assms(1) that r distinct_map_eq unfolding rows_ok_def by metis
  have found: "find_reservation d ?c ?i = Some r"
    unfolding find_reservation_def
    by (rule find_unique [of rv_id]) (use assms(1) r only in \<open>auto simp: rows_ok_def\<close>)
  note cur = getReservation_found [OF found]
  obtain rec where rec: "getReservation d ?c ?i = Inr (Some rec)" "rr_reservationStartTs rec = rv_reservation_start_ts r"
    "rr_reservationEndTs rec = rv_reservation_end_ts r" "rr_partySize rec = rv_guest_count r"
    using cur by simp
  let ?f = "updated_reservation_row now (to_table t) rec (rv_reservation_start_ts r) (of_int m)"
  let ?P = "\<lambda>x. rv_company_id x = ?c \<and> rv_id x = ?i"
  let ?d' = "d\<lparr>reservations := update_where ?P ?f (reservations d)\<rparr>"
  have minutes: "of_int (rv_reservation_end_ts r - rv_reservation_start_ts r) / 60000 = (of_int m :: rat)"
    using m(1) by simp
  have valid: "assertValidDurationMinutes (of_int m) = Inr ()" using m(2) by (simp add: assertValidDurationMinutes_def)
  have schema: "assertCanonicalReservationTimestampSchema reservation_columns = Inr ()" by code_simp
  have "find_reservation ?d' ?c ?i = Some (?f r)"
    using found find_update_where [of "\<lambda>x. rv_id x = ?i \<and> rv_company_id x = ?c" ?f ?P "reservations d"]
    by (simp add: find_reservation_def updated_reservation_row_def)
  from getReservation_found [OF this] obtain rec' where "getReservation ?d' ?c ?i = Inr (Some rec')" by simp
  then have run: "updateReservation now ?c ?i (to_table t) d = Inr (rec', ?d')"
    using guests rec minutes valid
    by (simp add: updateReservation_def Let_def to_table_def checked_update_def updated_reservation_row_def schema)
  have "?f r \<in> set (reservations ?d')" using r by (auto simp: update_where_def)
  moreover have "q \<in> set (reservations ?d')" using q ne by (auto simp: update_where_def intro!: image_eqI [of _ _ q])
  moreover have "clash (?f r) q"
    using act same t ov m(1)
    by (simp add: clash_def updated_reservation_row_def to_table_def keep_def has_table_def blocking_def)
  moreover have "rv_id (?f r) \<noteq> rv_id q" using ne by (simp add: updated_reservation_row_def)
  ultimately have "\<not> booked_once ?d'" unfolding booked_once_def by blast
  with run show ?thesis by blast
qed

text \<open>The guest of 0:00 to 1:30 is moved to a table of a party of 1:00 to 2:00.\<close>

definition movable_pair :: "reservation_row \<Rightarrow> reservation_row \<Rightarrow> bool" where
  "movable_pair r q \<longleftrightarrow> rv_id r = 1 \<and> rv_id q = 2 \<and> blocking r \<and> blocking q \<and>
     rv_company_id r = 1 \<and> rv_company_id q = 1 \<and> rv_outlet_id q = rv_outlet_id r \<and> rv_table_id q = Some 1 \<and>
     reservationsOverlap (rv_reservation_start_ts r) (rv_reservation_end_ts r)
       (rv_reservation_start_ts q) (rv_reservation_end_ts q) \<and>
     rv_reservation_end_ts r = rv_reservation_start_ts r + 90 * 60000 \<and> 0 < rv_guest_count r"

theorem moving_double_books_witness:
  "\<exists>a d1 b d2. createReservationGroupWithTables 0 (two_tables [1, 2] 3600000) sample_rdb = Inr (a, d1) \<and>
     booked_once d1 \<and> updateReservation 0 1 1 (to_table 1) d1 = Inr (b, d2) \<and> \<not> booked_once d2"
proof -
  have "case createReservationGroupWithTables 0 (two_tables [1, 2] 3600000) sample_rdb of
      Inl _ \<Rightarrow> False
    | Inr (_, d1) \<Rightarrow> rows_ok d1 \<and> booked_once d1 \<and>
        list_ex (\<lambda>r. list_ex (movable_pair r) (reservations d1)) (reservations d1)"
    by code_simp
  then obtain a d1 r q where run: "createReservationGroupWithTables 0 (two_tables [1, 2] 3600000) sample_rdb = Inr (a, d1)"
    and ok: "rows_ok d1" "booked_once d1" and r: "r \<in> set (reservations d1)" and q: "q \<in> set (reservations d1)"
    and pair: "movable_pair r q"
    unfolding case_run_iff list_ex_iff by blast
  have "\<exists>rec d'. updateReservation 0 (rv_company_id r) (rv_id r) (to_table 1) d1 = Inr (rec, d') \<and> \<not> booked_once d'"
    by (rule moving_double_books [where q = q and m = 90, OF ok(1) r q]) (use pair in \<open>auto simp: movable_pair_def\<close>)
  then show ?thesis using run ok(2) pair by (auto simp: movable_pair_def)
qed

end
