(* ===== verification/Table_Suggestions.thy ===== *)
theory Table_Suggestions
  imports Sample_Reservations
begin

text \<open>
  What the suggestions of tables promise: \<open>getCombinations\<close> lists the sublists of a length, the
  loop over the counts misses no combination that fits, and a suggested combination can be booked.
\<close>

section \<open>Combinations\<close>

lemma subseqs_length_0: "filter (\<lambda>c. length c = 0) (subseqs xs) = [[]]"
proof (induction xs)
  case (Cons x xs)
  have "filter (\<lambda>c. length c = 0) (map ((#) x) (subseqs xs)) = []"
    by (simp add: filter_map comp_def)
  with Cons show ?case by (simp add: Let_def)
qed simp

lemma getCombinations_subseqs: "getCombinations xs k = filter (\<lambda>c. length c = k) (subseqs xs)"
proof (induction xs k rule: getCombinations.induct)
  case (1 xs)
  show ?case using subseqs_length_0 [of xs] by simp
next
  case (3 x xs k)
  have "filter (\<lambda>c. length c = Suc k) (map ((#) x) (subseqs xs)) =
      map ((#) x) (filter (\<lambda>c. length c = k) (subseqs xs))"
    by (simp add: filter_map comp_def)
  with 3 show ?case by (simp add: Let_def)
qed simp

lemma length_getCombinations: "length (getCombinations xs k) = length xs choose k"
  by (induction xs k rule: getCombinations.induct) simp_all

lemma set_getCombinations: "set (getCombinations xs k) = {c \<in> set (subseqs xs). length c = k}"
  by (auto simp: getCombinations_subseqs)

lemma subseqs_subset: "c \<in> set (subseqs xs) \<Longrightarrow> set c \<subseteq> set xs"
  by (metis PowI Pow_iff image_eqI subseqs_powset)

lemma subseqs_distinct_map:
  "c \<in> set (subseqs xs) \<Longrightarrow> distinct (map f xs) \<Longrightarrow> distinct (map f c)"
proof (induction xs arbitrary: c)
  case (Cons x xs)
  from Cons.prems(1) consider (with_x) c' where "c = x # c'" "c' \<in> set (subseqs xs)" | (without) "c \<in> set (subseqs xs)"
    by (auto simp: Let_def)
  then show ?case
  proof cases
    case with_x
    moreover from this have "set c' \<subseteq> set xs" by (simp add: subseqs_subset)
    ultimately show ?thesis using Cons.IH [of c'] Cons.prems(2) by auto
  next
    case without
    then show ?thesis using Cons.IH Cons.prems(2) by simp
  qed
qed simp

section \<open>The smallest number of tables\<close>

lemma fold_max_bounds: "(m :: nat) \<le> fold max xs m \<and> (\<forall>x \<in> set xs. x \<le> fold max xs m)"
proof (induction xs arbitrary: m)
  case (Cons y ys)
  from Cons [of "max y m"] show ?case by auto
qed simp

lemma capacity_bound:
  assumes "set c \<subseteq> set ts"
  shows "capacity_of c \<le> length c * max_capacity ts"
  using assms
proof (induction c)
  case (Cons t c)
  then have "or_else 0 (ot_capacity t) \<le> max_capacity ts"
    unfolding max_capacity_def using fold_max_bounds by auto
  with Cons show ?case by (simp add: capacity_of_def)
qed (simp add: capacity_of_def)

lemma ceiling_div:
  fixes g m k :: nat
  assumes "0 < m"
  shows "(g + m - 1) div m \<le> k \<longleftrightarrow> g \<le> k * m"
proof -
  have "(g + m - 1) div m \<le> k \<longleftrightarrow> g + m - 1 < Suc k * m"
    by (metis assms div_less_iff_less_mult le_simps(2) less_Suc_eq_le)
  also have "\<dots> \<longleftrightarrow> g \<le> k * m" using assms by auto
  finally show ?thesis .
qed

text \<open>Every combination that fits has one of the counts the loop goes through.\<close>

lemma fitting_count:
  assumes "0 < g" and "c \<in> set (subseqs ts)" and "fits g c" and "length c \<le> 5"
  shows "length c \<in> set (table_counts ts g)"
proof -
  have cap: "g \<le> length c * max_capacity ts"
    using assms(3) capacity_bound [OF subseqs_subset [OF assms(2)]] by (simp add: fits_def)
  with assms(1) have m: "0 < max_capacity ts" by (cases "max_capacity ts") simp_all
  have "length c \<le> length ts"
    using assms(2) by (induction ts arbitrary: c) (auto simp: Let_def le_SucI)
  moreover have "(g + max_capacity ts - 1) div max_capacity ts \<le> length c"
    using cap ceiling_div [OF m] by simp
  ultimately show ?thesis
    using m assms(4) by (simp add: table_counts_def Let_def del: upt_Suc)
qed

definition fitting :: "outlet_table_row list \<Rightarrow> nat \<Rightarrow> outlet_table_row list list" where
  "fitting ts g = concat (map (\<lambda>count. filter (fits g) (getCombinations ts count)) (table_counts ts g))"

lemma set_fitting: "set (fitting ts g) = {c \<in> set (subseqs ts). fits g c \<and> length c \<in> set (table_counts ts g)}"
  by (auto simp: fitting_def set_getCombinations)

lemma set_fitting_pos:
  "0 < g \<Longrightarrow> set (fitting ts g) = {c \<in> set (subseqs ts). fits g c \<and> length c \<le> 5}"
  by (auto simp: set_fitting fitting_count) (auto simp: table_counts_def Let_def split: if_splits)

lemma suggestions_fold:
  "suggestTableCombinations d c o' g s e n =
    (if free_tables d c o' s e = [] then []
     else take (or_else 5 n) (sort_key ts_score (map (suggestion g) (fitting (free_tables d c o' s e) g))))"
  by (simp add: suggestTableCombinations_def fitting_def Let_def)

lemma suggestions_sublist:
  "\<exists>rest. sort_key ts_score (map (suggestion g) (fitting (free_tables d c o' s e) g)) =
     suggestTableCombinations d c o' g s e n @ rest \<and>
   (length (suggestTableCombinations d c o' g s e n) < or_else 5 n \<longrightarrow> rest = [])"
proof (cases "free_tables d c o' s e = []")
  case True
  have "fitting [] g = []" by (simp add: fitting_def table_counts_def max_capacity_def)
  with True show ?thesis by (simp add: suggestions_fold)
next
  case False
  let ?xs = "sort_key ts_score (map (suggestion g) (fitting (free_tables d c o' s e) g))"
  from False have "?xs = suggestTableCombinations d c o' g s e n @ drop (or_else 5 n) ?xs"
    by (simp add: suggestions_fold)
  with False show ?thesis
    by (intro exI [of _ "drop (or_else 5 n) ?xs"]) (auto simp: suggestions_fold)
qed

lemma sorted_append_le:
  "sorted (map f (xs @ ys)) \<Longrightarrow> x \<in> set xs \<Longrightarrow> y \<in> set ys \<Longrightarrow> f x \<le> (f y :: int)"
  by (auto simp: sorted_append)

section \<open>Properties\<close>

text \<open>
  C8: The suggestions for a party are exactly the best of all combinations: each is a combination
  of at most five free tables whose seats suffice and exceed the party by at most half; they come
  in order of their score; and every combination of that kind that is missing is only missing
  because as many as were asked for are suggested, none with a worse score.
\<close>

theorem suggestions_best:
  assumes "0 < guests" and "sug = suggestTableCombinations d companyId outletId guests startTs endTs n"
    and "good = {c \<in> set (subseqs (free_tables d companyId outletId startTs endTs)).
      fits guests c \<and> length c \<le> 5}"
  shows "set sug \<subseteq> suggestion guests ` good \<and> sorted (map ts_score sug) \<and> length sug \<le> or_else 5 n \<and>
    (\<forall>c \<in> good. suggestion guests c \<in> set sug \<or>
      (length sug = or_else 5 n \<and> (\<forall>s \<in> set sug. ts_score s \<le> scoreCombination c guests)))"
proof -
  let ?xs = "sort_key ts_score (map (suggestion guests) (fitting (free_tables d companyId outletId startTs endTs) guests))"
  from suggestions_sublist [of guests d companyId outletId startTs endTs n] obtain rest where
    xs: "?xs = sug @ rest" and rest: "length sug < or_else 5 n \<Longrightarrow> rest = []"
    using assms(2) by auto
  have good: "set ?xs = suggestion guests ` good"
    using assms(1,3) by (simp add: set_fitting_pos)
  have sorted: "sorted (map ts_score (sug @ rest))" using xs [symmetric] by simp
  have len: "length sug \<le> or_else 5 n" by (simp add: assms(2) suggestions_fold)
  have "\<forall>c \<in> good. suggestion guests c \<in> set sug \<or>
      (length sug = or_else 5 n \<and> (\<forall>s \<in> set sug. ts_score s \<le> scoreCombination c guests))"
  proof
    fix c assume "c \<in> good"
    with good xs have "suggestion guests c \<in> set sug \<union> set rest" by (metis imageI set_append)
    then consider "suggestion guests c \<in> set sug" | "suggestion guests c \<in> set rest" by blast
    then show "suggestion guests c \<in> set sug \<or>
      (length sug = or_else 5 n \<and> (\<forall>s \<in> set sug. ts_score s \<le> scoreCombination c guests))"
    proof cases
      case 2
      moreover from this rest len have "length sug = or_else 5 n" by (cases "length sug < or_else 5 n") auto
      moreover have "\<forall>s \<in> set sug. ts_score s \<le> ts_score (suggestion guests c)"
        using sorted_append_le [OF sorted _ 2] by simp
      ultimately show ?thesis by (simp add: suggestion_def)
    qed simp
  qed
  with good xs sorted len show ?thesis by (simp add: sorted_append) (metis Un_upper1 set_append)
qed

section \<open>Booking a suggestion\<close>

lemma available_tables_all:
  assumes "distinct (map ot_id (outlet_tables d))" and "distinct ids"
    and "\<And>i. i \<in> set ids \<Longrightarrow> \<exists>t \<in> set (outlet_tables d). ot_id t = i \<and> ot_company_id t = c \<and>
      ot_outlet_id t = o' \<and> ot_status t = ''AVAILABLE''"
  shows "length (available_tables d c o' ids) = length ids"
proof -
  let ?ts = "available_tables d c o' ids"
  have "distinct (map ot_id ?ts)"
    using assms(1) unfolding available_tables_def by (auto simp: distinct_map inj_on_def)
  moreover have "set (map ot_id ?ts) = set ids"
    using assms(3) by (fastforce simp: available_tables_def)
  ultimately have "length (map ot_id ?ts) = length ids"
    using assms(2) by (metis distinct_card)
  then show ?thesis by simp
qed

lemma free_tablesD:
  assumes "t \<in> set (free_tables d c o' s e)"
  shows "t \<in> set (outlet_tables d) \<and> ot_company_id t = c \<and> ot_outlet_id t = o' \<and> ot_status t = ''AVAILABLE''"
    and "r \<in> set (reservations d) \<Longrightarrow> rv_company_id r = c \<Longrightarrow> rv_outlet_id r = o' \<Longrightarrow>
      rv_table_id r = Some (ot_id t) \<Longrightarrow> blocking r \<Longrightarrow> rv_reservation_start_ts r < e \<Longrightarrow>
      \<not> rv_reservation_end_ts r > s"
  using assms by (auto simp: free_tables_def list_ex_iff)

lemma suggested_tables:
  assumes "sg \<in> set (suggestTableCombinations d c o' g s e n)" and "distinct (map ot_id (outlet_tables d))"
  shows "set (ts_tables sg) \<subseteq> set (free_tables d c o' s e)" and "distinct (map ot_id (ts_tables sg))"
    and "length (ts_tables sg) \<le> 5"
proof -
  from assms(1) obtain combo where "sg = suggestion g combo" and "combo \<in> set (fitting (free_tables d c o' s e) g)"
    using suggestions_sublist [of g d c o' s e n] by (metis (no_types, lifting) Un_iff imageE set_append set_map set_sort)
  then have sg: "ts_tables sg = combo" and combo: "combo \<in> set (subseqs (free_tables d c o' s e))"
    and len: "length combo \<in> set (table_counts (free_tables d c o' s e) g)"
    by (auto simp: suggestion_def set_fitting)
  have "distinct (map ot_id (free_tables d c o' s e))"
    using assms(2) by (auto simp: free_tables_def distinct_map inj_on_def)
  then show "distinct (map ot_id (ts_tables sg))" using sg combo subseqs_distinct_map by metis
  show "set (ts_tables sg) \<subseteq> set (free_tables d c o' s e)" using sg combo subseqs_subset by metis
  show "length (ts_tables sg) \<le> 5"
    using len sg by (auto simp: table_counts_def Let_def split: if_splits)
qed

text \<open>
  C30: What is suggested can be booked: a group over the tables of a suggestion (two or more), for
  the time that was asked about, is created, with one reservation per table.
\<close>

theorem suggestion_bookable:
  assumes "distinct (map ot_id (outlet_tables d))"
    and "sg \<in> set (suggestTableCombinations d (cg_companyId inp) (cg_outletId inp) guests startTs endTs n)"
    and "2 \<le> length (ts_tables sg)" and "cg_tableIds inp = map ot_id (ts_tables sg)"
    and "cg_reservationAt inp = Instant startTs" and "0 < cg_guestCount inp"
    and "endTs = startTs + int (group_minutes (cg_durationMinutes inp)) * 60 * 1000"
  shows "\<exists>groupId ids d'. createReservationGroupWithTables now inp d = Inr ((groupId, ids), d') \<and>
    length ids = length (ts_tables sg) \<and> length (reservations d') = length (reservations d) + length ids"
proof -
  let ?c = "cg_companyId inp" and ?o = "cg_outletId inp" and ?ids = "cg_tableIds inp"
  note tables = suggested_tables [OF assms(2,1)]
  have free: "\<exists>t \<in> set (free_tables d ?c ?o startTs endTs). ot_id t = i" if "i \<in> set ?ids" for i
    using that tables(1) assms(4) by auto
  have "length (available_tables d ?c ?o ?ids) = length ?ids"
  proof (rule available_tables_all [OF assms(1)])
    show "distinct ?ids" using tables(2) assms(4) by simp
    fix i assume "i \<in> set ?ids"
    then show "\<exists>t \<in> set (outlet_tables d). ot_id t = i \<and> ot_company_id t = ?c \<and> ot_outlet_id t = ?o \<and>
        ot_status t = ''AVAILABLE''"
      using free free_tablesD(1) by blast
  qed
  moreover have "conflicts d ?c ?o ?ids startTs endTs [] = []"
    unfolding conflicts_def filter_empty_conv
  proof (intro ballI notI, elim conjE)
    fix r assume r: "r \<in> set (reservations d)" "rv_company_id r = ?c" "rv_outlet_id r = ?o" "blocking r"
      "rv_reservation_start_ts r < endTs" "startTs < rv_reservation_end_ts r"
      and "case rv_table_id r of None \<Rightarrow> False | Some t \<Rightarrow> t \<in> set ?ids"
    then obtain i where i: "rv_table_id r = Some i" "i \<in> set ?ids" by (auto split: option.splits)
    from free [OF i(2)] obtain t where "t \<in> set (free_tables d ?c ?o startTs endTs)" "ot_id t = i" by blast
    from free_tablesD(2) [OF this(1) r(1-3) _ r(4,5)] i(1) r(6) this(2) show False by simp
  qed
  ultimately show ?thesis
    using assms(3-6) tables(3)
    by (simp add: createReservationGroupWithTables_def Let_def assms(7) insert_group_reservations
        with_group_rows_def take_key_def requested_booking_def insert_group_def)
qed

section \<open>Witnesses\<close>

lemma sample_suggestions:
  "map (\<lambda>s. (map ot_id (ts_tables s), ts_score s)) (suggestTableCombinations sample_rdb 1 1 5 7200000 10800000 None) =
    [([1, 2], 210), ([3, 2], 210)]"
  by code_simp

theorem suggestions_best_witness:
  "\<exists>sug. sug = suggestTableCombinations sample_rdb 1 1 5 7200000 10800000 None \<and> length sug = 2 \<and>
    sorted (map ts_score sug) \<and> length sug \<le> or_else 5 None"
proof -
  have "length (suggestTableCombinations sample_rdb 1 1 5 7200000 10800000 None) = 2"
    using arg_cong [OF sample_suggestions, of length] by simp
  with suggestions_best [of 5 _ sample_rdb 1 1 7200000 10800000 None, OF _ refl refl] show ?thesis by simp
qed

theorem suggestion_bookable_witness:
  "\<exists>sg groupId ids d'. sg \<in> set (suggestTableCombinations sample_rdb 1 1 5 7200000 10800000 None) \<and>
    createReservationGroupWithTables 0 (party_request (map ot_id (ts_tables sg))) sample_rdb =
      Inr ((groupId, ids), d') \<and> length ids = 2"
proof -
  from sample_suggestions obtain sg rest where
    "suggestTableCombinations sample_rdb 1 1 5 7200000 10800000 None = sg # rest" "map ot_id (ts_tables sg) = [1, 2]"
    by (auto simp: map_eq_Cons_conv)
  then have sg: "sg \<in> set (suggestTableCombinations sample_rdb 1 1 5 7200000 10800000 None)"
    and len: "length (ts_tables sg) = 2"
    by (simp, metis length_map length_Cons list.size(3) numeral_2_eq_2)
  have "distinct (map ot_id (outlet_tables sample_rdb))" by code_simp
  then have "\<exists>groupId ids d'. createReservationGroupWithTables 0 (party_request (map ot_id (ts_tables sg))) sample_rdb =
      Inr ((groupId, ids), d') \<and> length ids = length (ts_tables sg) \<and>
      length (reservations d') = length (reservations sample_rdb) + length ids"
    by (rule suggestion_bookable [where guests = 5 and startTs = 7200000 and endTs = 10800000 and n = None])
      (use sg len in \<open>simp_all add: party_request_def group_minutes_def\<close>)
  with sg len show ?thesis by metis
qed

end
