(* ===== verification/Service_Sessions.thy ===== *)
theory Service_Sessions
  imports Reservations
begin

text \<open>
  Service sessions, the visits of guests at a table: the helpers of
  \<open>service-sessions/session-utils.ts\<close> and the lifecycle of \<open>service-sessions/lifecycle.ts\<close>.  Every
  operation carries a transaction id of the client; the event it logs under that id makes a
  repetition recognisable.
\<close>

section \<open>What a client sees\<close>

abbreviation (input) "SS_ACTIVE \<equiv> (1 :: nat)"
abbreviation (input) "SS_LOCKED \<equiv> (2 :: nat)"
abbreviation (input) "SS_CLOSED \<equiv> (3 :: nat)"

abbreviation (input) "LINE_OPEN \<equiv> (1 :: nat)"
abbreviation (input) "LINE_FINALIZED \<equiv> (2 :: nat)"
abbreviation (input) "LINE_VOIDED \<equiv> (3 :: nat)"

record SessionLine =
  sl_id :: nat
  sl_sessionId :: nat
  sl_lineNumber :: nat
  sl_lineState :: nat
  sl_productId :: nat
  sl_productName :: string
  sl_productSku :: "string option"
  sl_quantity :: nat
  sl_unitPrice :: rat
  sl_discountAmount :: rat
  sl_taxAmount :: rat
  sl_lineTotal :: rat
  sl_notes :: "string option"
  sl_isVoided :: bool
  sl_voidedAt :: "int option"
  sl_voidReason :: "string option"
  sl_createdAt :: int
  sl_updatedAt :: int

record ServiceSession =
  sv_id :: nat
  sv_companyId :: nat
  sv_outletId :: nat
  sv_tableId :: nat
  sv_tableCode :: "string option"
  sv_tableName :: "string option"
  sv_statusId :: nat
  sv_statusLabel :: string
  sv_startedAt :: int
  sv_lockedAt :: "int option"
  sv_closedAt :: "int option"
  sv_guestCount :: nat
  sv_guestName :: "string option"
  sv_notes :: "string option"
  sv_posOrderSnapshotId :: "string option"
  sv_reservationId :: "nat option"
  sv_createdBy :: "string option"
  sv_updatedBy :: "string option"
  sv_createdAt :: int
  sv_updatedAt :: int
  sv_lines :: "SessionLine list"

text \<open>The first argument is the column \<open>line_state\<close>, \<open>None\<close> where the query does not select it.\<close>

definition mapDbRowToSessionLine :: "nat option \<Rightarrow> session_line_row \<Rightarrow> SessionLine" where
  "mapDbRowToSessionLine line_state row =
     \<lparr>sl_id = tsl_id row, sl_sessionId = tsl_session_id row, sl_lineNumber = tsl_line_number row,
      sl_lineState = or_else LINE_OPEN line_state, sl_productId = tsl_product_id row,
      sl_productName = tsl_product_name row, sl_productSku = tsl_product_sku row,
      sl_quantity = tsl_quantity row, sl_unitPrice = of_decimal 4 (tsl_unit_price row),
      sl_discountAmount = of_decimal 4 (tsl_discount_amount row),
      sl_taxAmount = of_decimal 4 (tsl_tax_amount row), sl_lineTotal = of_decimal 4 (tsl_line_total row),
      sl_notes = tsl_notes row, sl_isVoided = tsl_is_voided row, sl_voidedAt = tsl_voided_at row,
      sl_voidReason = tsl_void_reason row, sl_createdAt = tsl_created_at row,
      sl_updatedAt = tsl_updated_at row\<rparr>"

definition sessionStatusLabel :: "nat \<Rightarrow> string" where
  "sessionStatusLabel s =
     (if s = SS_ACTIVE then ''Active'' else if s = SS_LOCKED then ''Locked for Payment''
      else if s = SS_CLOSED then ''Closed'' else ''Unknown'')"

text \<open>A session's row comes with the table it is joined to, if there is one.\<close>

definition mapDbRowToServiceSession ::
    "table_service_session_row \<times> outlet_table_row option \<Rightarrow> SessionLine list \<Rightarrow> ServiceSession" where
  "mapDbRowToServiceSession st lines =
     (let (s, t) = st in
      \<lparr>sv_id = tss_id s, sv_companyId = tss_company_id s, sv_outletId = tss_outlet_id s,
       sv_tableId = tss_table_id s, sv_tableCode = map_option ot_code t,
       sv_tableName = map_option ot_name t, sv_statusId = tss_status_id s,
       sv_statusLabel = sessionStatusLabel (tss_status_id s), sv_startedAt = tss_started_at s,
       sv_lockedAt = tss_locked_at s, sv_closedAt = tss_closed_at s,
       sv_guestCount = tss_guest_count s, sv_guestName = tss_guest_name s, sv_notes = tss_notes s,
       sv_posOrderSnapshotId = tss_pos_order_snapshot_id s,
       sv_reservationId = truthy_id (tss_reservation_id s), sv_createdBy = tss_created_by s,
       sv_updatedBy = tss_updated_by s, sv_createdAt = tss_created_at s,
       sv_updatedAt = tss_updated_at s, sv_lines = lines\<rparr>)"

section \<open>Reading inside a transaction\<close>

definition checkClientTxIdExists :: "rdb \<Rightarrow> nat \<Rightarrow> nat \<Rightarrow> string \<Rightarrow> bool" where
  "checkClientTxIdExists d companyId outletId clientTxId \<longleftrightarrow>
     \<not> event_tx_free d companyId outletId clientTxId"

definition session_of :: "nat \<Rightarrow> nat \<Rightarrow> nat \<Rightarrow> table_service_session_row \<Rightarrow> bool" where
  "session_of companyId outletId sessionId s \<longleftrightarrow>
     tss_id s = sessionId \<and> tss_company_id s = companyId \<and> tss_outlet_id s = outletId"

definition joined_table :: "rdb \<Rightarrow> table_service_session_row \<Rightarrow> outlet_table_row option" where
  "joined_table d s =
     find (\<lambda>t. ot_id t = tss_table_id s \<and> ot_company_id t = tss_company_id s \<and>
       ot_outlet_id t = tss_outlet_id s) (outlet_tables d)"

definition getSessionWithConnection :: "rdb \<Rightarrow> nat \<Rightarrow> nat \<Rightarrow> nat \<Rightarrow>
    (table_service_session_row \<times> outlet_table_row option) option" where
  "getSessionWithConnection d companyId outletId sessionId =
     map_option (\<lambda>s. (s, joined_table d s))
       (find (session_of companyId outletId sessionId) (table_service_sessions d))"

definition getSessionLineWithConnection :: "rdb \<Rightarrow> nat \<Rightarrow> nat \<Rightarrow> nat \<Rightarrow> nat \<Rightarrow> session_line_row option" where
  "getSessionLineWithConnection d companyId outletId sessionId lineId =
     (if list_ex (session_of companyId outletId sessionId) (table_service_sessions d)
      then find (\<lambda>l. tsl_id l = lineId \<and> tsl_session_id l = sessionId) (session_lines d) else None)"

definition lines_of :: "rdb \<Rightarrow> nat \<Rightarrow> session_line_row list" where
  "lines_of d sessionId =
     sort_key tsl_line_number (sort_key tsl_id (filter (\<lambda>l. tsl_session_id l = sessionId) (session_lines d)))"

definition getSessionLinesWithConnection :: "rdb \<Rightarrow> nat \<Rightarrow> SessionLine list" where
  "getSessionLinesWithConnection d sessionId =
     map (\<lambda>l. mapDbRowToSessionLine (Some (tsl_line_state l)) l) (lines_of d sessionId)"

definition getSessionVersionWithConnection :: "rdb \<Rightarrow> nat \<Rightarrow> nat \<Rightarrow> nat \<Rightarrow> nat" where
  "getSessionVersionWithConnection d companyId outletId sessionId =
     (case find (session_of companyId outletId sessionId) (table_service_sessions d) of
        None \<Rightarrow> 1 | Some s \<Rightarrow> tss_session_version s)"

section \<open>Logging\<close>

text \<open>
  \<open>logTableEventWithConnection\<close> and \<open>logSessionEvent\<close> insert the same row; a second event under the
  same transaction id violates the unique key.
\<close>

definition session_event_row :: "nat \<Rightarrow> int \<Rightarrow> nat \<Rightarrow> nat \<Rightarrow> nat \<Rightarrow> nat \<Rightarrow> nat \<Rightarrow> string \<Rightarrow> event_data \<Rightarrow> string \<Rightarrow>
    table_event_row" where
  "session_event_row i now companyId outletId tableId sessionId eventTypeId clientTxId eventData createdBy =
     \<lparr>te_id = i, te_company_id = companyId, te_outlet_id = outletId, te_client_tx_id = clientTxId,
      te_conflict_reason = None, te_created_at = now, te_created_by = Some createdBy, te_event_data = Some eventData,
      te_event_type_id = eventTypeId, te_is_conflict = False, te_occupancy_version_after = None,
      te_occupancy_version_before = None, te_occurred_at = now, te_pos_order_id = None,
      te_reservation_id = None, te_service_session_id = Some sessionId, te_status_id_after = None,
      te_status_id_before = None, te_table_id = tableId\<rparr>"

definition logSessionEvent :: "int \<Rightarrow> nat \<Rightarrow> nat \<Rightarrow> nat \<Rightarrow> nat \<Rightarrow> nat \<Rightarrow> string \<Rightarrow> event_data \<Rightarrow> string \<Rightarrow> rdb \<Rightarrow>
    rerr + rdb" where
  "logSessionEvent now companyId outletId tableId sessionId eventTypeId clientTxId eventData createdBy d =
     bindR (require (event_tx_free d companyId outletId clientTxId) (R_Database ''ER_DUP_ENTRY'')) (\<lambda>_.
     Inr (take_key RT_event (d\<lparr>table_events := table_events d @
       [session_event_row (new_key d RT_event) now companyId outletId tableId sessionId eventTypeId
          clientTxId eventData createdBy]\<rparr>)))"

text \<open>A change of sessions, under the trigger on their status.\<close>

definition update_sessions :: "(table_service_session_row \<Rightarrow> bool) \<Rightarrow>
    (table_service_session_row \<Rightarrow> table_service_session_row) \<Rightarrow> rdb \<Rightarrow> rerr + rdb" where
  "update_sessions P f d =
     bindR (checked_update session_change_ok P f (table_service_sessions d)) (\<lambda>(rows, _).
     Inr (d\<lparr>table_service_sessions := rows\<rparr>))"

section \<open>The lines of the order snapshot\<close>

text \<open>
  Several lines of one product become one line of the snapshot: quantities and discounts are
  added, of prices and names the greatest is taken.  Texts are compared in the collation of the
  column; \<open>later\<close> gives the greater of two.
\<close>

definition max_text :: "(string \<Rightarrow> string \<Rightarrow> string) \<Rightarrow> string list \<Rightarrow> string option" where
  "max_text later ts = (case ts of [] \<Rightarrow> None | t # us \<Rightarrow> Some (foldl later t us))"

definition snapshot_line :: "(string \<Rightarrow> string \<Rightarrow> string) \<Rightarrow> string \<Rightarrow> nat \<Rightarrow> nat \<Rightarrow> nat \<Rightarrow> session_line_row list \<Rightarrow>
    nat \<Rightarrow> pos_order_snapshot_line_row" where
  "snapshot_line later snapshotId companyId outletId i ls productId =
     (let g = filter (\<lambda>l. tsl_product_id l = productId) ls;
          updated = Max (set (map tsl_updated_at g)) in
      \<lparr>psl_id = i, psl_order_id = snapshotId, psl_company_id = companyId, psl_outlet_id = outletId,
       psl_discount_amount = sql_round_div (sum_list (map tsl_discount_amount g)) 100,
       psl_item_id = productId, psl_item_type_snapshot = ''PRODUCT'',
       psl_name_snapshot = or_else [] (max_text later (map tsl_product_name g)),
       psl_qty = int (sum_list (map tsl_quantity g)) * 10000,
       psl_sku_snapshot = max_text later (List.map_filter tsl_product_sku g),
       psl_unit_price_snapshot = sql_round_div (Max (set (map tsl_unit_price g))) 100,
       psl_updated_at = updated, psl_updated_at_ts = updated\<rparr>)"

definition snapshot_products :: "session_line_row list \<Rightarrow> nat list" where
  "snapshot_products ls = js_set (map tsl_product_id ls)"

definition numbered_from :: "nat \<Rightarrow> 'a list \<Rightarrow> (nat \<times> 'a) list" where
  "numbered_from k xs = zip [k ..< k + length xs] xs"

definition synced_lines :: "rdb \<Rightarrow> nat \<Rightarrow> bool \<Rightarrow> session_line_row list" where
  "synced_lines d sessionId onlyFinalized =
     filter (\<lambda>l. tsl_session_id l = sessionId \<and> \<not> tsl_is_voided l \<and>
       (onlyFinalized \<longrightarrow> tsl_line_state l = LINE_FINALIZED)) (session_lines d)"

definition syncSnapshotLinesFromSession :: "(string \<Rightarrow> string \<Rightarrow> string) \<Rightarrow> string \<Rightarrow> nat \<Rightarrow> nat \<Rightarrow> nat \<Rightarrow> bool \<Rightarrow>
    nat rop" where
  "syncSnapshotLinesFromSession later snapshotId companyId outletId sessionId onlyFinalized d =
     (let others = filter (\<lambda>p. \<not> (psl_order_id p = snapshotId \<and> psl_company_id p = companyId \<and>
            psl_outlet_id p = outletId)) (snapshot_lines d);
          ls = synced_lines d sessionId onlyFinalized;
          products = snapshot_products ls;
          k = new_key d RT_snapshot_line;
          new = map (\<lambda>(i, p). snapshot_line later snapshotId companyId outletId i ls p) (numbered_from k products) in
      bindR (require (\<not> list_ex (\<lambda>p. psl_order_id p = snapshotId \<and> psl_item_id p \<in> set products) others)
        (R_Database ''ER_DUP_ENTRY'')) (\<lambda>_.
      Inr (length new, d\<lparr>snapshot_lines := others @ new,
        last_key := (last_key d)(RT_snapshot_line := last_key d RT_snapshot_line + length new)\<rparr>)))"

section \<open>Events of a session\<close>

definition TableEventTypeLabels :: "(nat \<times> string) list" where
  "TableEventTypeLabels =
     [(1, ''Table Opened''), (2, ''Table Closed''), (3, ''Reservation Created''),
      (4, ''Reservation Confirmed''), (5, ''Reservation Cancelled''), (6, ''Status Changed''),
      (7, ''Guest Count Changed''), (8, ''Table Transferred''), (9, ''Session Line Added''),
      (10, ''Session Line Updated''), (11, ''Session Line Removed''), (12, ''Session Locked''),
      (13, ''Session Closed''), (14, ''Session Batch Finalized''), (15, ''Session Line Adjusted''),
      (16, ''Session Version Bumped'')]"

record SessionEvent =
  sn_id :: nat
  sn_eventTypeId :: nat
  sn_eventTypeLabel :: string
  sn_clientTxId :: string
  sn_eventData :: "event_data option"
  sn_occurredAt :: int
  sn_createdBy :: "string option"

definition getSessionEvents :: "rdb \<Rightarrow> nat \<Rightarrow> nat \<Rightarrow> nat \<Rightarrow> nat option \<Rightarrow> SessionEvent list" where
  "getSessionEvents d companyId outletId sessionId limit =
     map (\<lambda>e. \<lparr>sn_id = te_id e, sn_eventTypeId = te_event_type_id e,
         sn_eventTypeLabel = or_else ''Unknown'' (map_of TableEventTypeLabels (te_event_type_id e)),
         sn_clientTxId = te_client_tx_id e, sn_eventData = te_event_data e,
         sn_occurredAt = te_occurred_at e, sn_createdBy = te_created_by e\<rparr>)
       (take (or_else 20 limit) (rev (sort_key te_occurred_at (sort_key te_id
         (filter (\<lambda>e. te_company_id e = companyId \<and> te_outlet_id e = outletId \<and>
            te_service_session_id e = Some sessionId) (table_events d))))))"

section \<open>Validation\<close>

definition validateSessionModifiable :: "ServiceSession \<Rightarrow> string \<Rightarrow> rerr + unit" where
  "validateSessionModifiable session operation =
     bindR (require (sv_statusId session \<noteq> SS_LOCKED)
       (SessionConflictError (''Cannot '' @ operation @ '': Session is locked for payment''))) (\<lambda>_.
     require (sv_statusId session \<noteq> SS_CLOSED)
       (SessionConflictError (''Cannot '' @ operation @ '': Session is closed'')))"

definition isValidSessionStateTransition :: "nat \<Rightarrow> nat \<Rightarrow> bool" where
  "isValidSessionStateTransition fromStatus toStatus =
     (if fromStatus = SS_ACTIVE then toStatus = SS_LOCKED \<or> toStatus = SS_CLOSED
      else if fromStatus = SS_LOCKED then toStatus = SS_CLOSED \<or> toStatus = SS_ACTIVE
      else False)"

section \<open>Reading sessions\<close>

text \<open>The query of \<open>getSessionLines\<close> does not select \<open>line_state\<close>.\<close>

definition getSessionLines :: "rdb \<Rightarrow> nat \<Rightarrow> SessionLine list" where
  "getSessionLines d sessionId = map (mapDbRowToSessionLine None) (lines_of d sessionId)"

definition getSession :: "rdb \<Rightarrow> nat \<Rightarrow> nat \<Rightarrow> nat \<Rightarrow> ServiceSession option" where
  "getSession d companyId outletId sessionId =
     map_option (\<lambda>st. mapDbRowToServiceSession st (getSessionLines d sessionId))
       (getSessionWithConnection d companyId outletId sessionId)"

record ListSessionsParams =
  lp_companyId :: nat
  lp_outletId :: nat
  lp_limit :: "nat option"
  lp_offset :: "nat option"
  lp_statusId :: "nat option"
  lp_tableId :: "nat option"
  lp_fromDate :: "int option"
  lp_toDate :: "int option"

definition session_filter :: "ListSessionsParams \<Rightarrow> table_service_session_row \<Rightarrow> bool" where
  "session_filter p s \<longleftrightarrow>
     tss_company_id s = lp_companyId p \<and> tss_outlet_id s = lp_outletId p \<and>
     (case lp_statusId p of None \<Rightarrow> True | Some x \<Rightarrow> tss_status_id s = x) \<and>
     (case lp_tableId p of None \<Rightarrow> True | Some x \<Rightarrow> tss_table_id s = x) \<and>
     (case lp_fromDate p of None \<Rightarrow> True | Some x \<Rightarrow> tss_started_at s \<ge> x) \<and>
     (case lp_toDate p of None \<Rightarrow> True | Some x \<Rightarrow> tss_started_at s \<le> x)"

record ListSessionsResult =
  lr_sessions :: "ServiceSession list"
  lr_total :: nat
  lr_limit :: nat
  lr_offset :: nat

definition listSessions :: "rdb \<Rightarrow> ListSessionsParams \<Rightarrow> ListSessionsResult" where
  "listSessions d params =
     (let limit = or_else 20 (lp_limit params); offset = or_else 0 (lp_offset params);
          found = filter (session_filter params) (table_service_sessions d);
          page = take limit (drop offset (rev (sort_key tss_started_at (sort_key tss_id found)))) in
      \<lparr>lr_sessions = map (\<lambda>s. mapDbRowToServiceSession (s, joined_table d s) (getSessionLines d (tss_id s))) page,
       lr_total = length found, lr_limit = limit, lr_offset = offset\<rparr>)"

section \<open>Locking for payment\<close>

record LockSessionInput =
  lk_companyId :: nat
  lk_outletId :: nat
  lk_sessionId :: nat
  lk_clientTxId :: string
  lk_posOrderSnapshotId :: "string option"
  lk_notes :: "string option"
  lk_updatedBy :: string

definition read_session :: "rdb \<Rightarrow> nat \<Rightarrow> nat \<Rightarrow> nat \<Rightarrow>
    rerr + table_service_session_row \<times> outlet_table_row option" where
  "read_session d companyId outletId sessionId =
     from_opt (SessionNotFoundError (Session sessionId)) (getSessionWithConnection d companyId outletId sessionId)"

text \<open>The session as it is now, with its lines: the answer of the operations and of their repetitions.\<close>

definition session_answer :: "nat \<Rightarrow> nat \<Rightarrow> nat \<Rightarrow> ServiceSession rop" where
  "session_answer companyId outletId sessionId d =
     bindR (read_session d companyId outletId sessionId) (\<lambda>st.
     Inr (mapDbRowToServiceSession st (getSessionLinesWithConnection d sessionId), d))"

definition lock_row :: "int \<Rightarrow> LockSessionInput \<Rightarrow> table_service_session_row \<Rightarrow> table_service_session_row" where
  "lock_row now params s = s\<lparr>tss_status_id := SS_LOCKED, tss_locked_at := Some now, tss_updated_at := now,
     tss_updated_by := Some (lk_updatedBy params), tss_notes := keep (lk_notes params) (tss_notes s),
     tss_pos_order_snapshot_id := keep (lk_posOrderSnapshotId params) (tss_pos_order_snapshot_id s)\<rparr>"

definition lockSessionForPayment :: "int \<Rightarrow> LockSessionInput \<Rightarrow> ServiceSession rop" where
  "lockSessionForPayment now params d =
     (let c = lk_companyId params; o' = lk_outletId params; i = lk_sessionId params in
      if checkClientTxIdExists d c o' (lk_clientTxId params) then session_answer c o' i d
      else
        bindR (read_session d c o' i) (\<lambda>(s, _).
        bindR (require (tss_status_id s = SS_ACTIVE)
          (InvalidSessionStatusError (tss_status_id s) [SS_ACTIVE])) (\<lambda>_.
        bindR (update_sessions (\<lambda>r. session_of c o' i r \<and> tss_status_id r = SS_ACTIVE)
          (lock_row now params) d) (\<lambda>d1.
        bindR (logSessionEvent now c o' (tss_table_id s) i 12 (lk_clientTxId params)
          (Ev_session ''Session locked for payment'' SS_ACTIVE SS_LOCKED (lk_notes params) None)
          (lk_updatedBy params) d1) (\<lambda>d2.
        session_answer c o' i d2)))))"

section \<open>Closing\<close>

record CloseSessionInput =
  cl_companyId :: nat
  cl_outletId :: nat
  cl_sessionId :: nat
  cl_clientTxId :: string
  cl_notes :: "string option"
  cl_updatedBy :: string

definition close_row :: "int \<Rightarrow> CloseSessionInput \<Rightarrow> table_service_session_row \<Rightarrow> table_service_session_row" where
  "close_row now params s = s\<lparr>tss_status_id := SS_CLOSED, tss_closed_at := Some now, tss_updated_at := now,
     tss_updated_by := Some (cl_updatedBy params), tss_notes := keep (cl_notes params) (tss_notes s)\<rparr>"

definition snapshot_of :: "string \<Rightarrow> nat \<Rightarrow> nat \<Rightarrow> pos_order_snapshot_row \<Rightarrow> bool" where
  "snapshot_of snapshotId companyId outletId p \<longleftrightarrow>
     pos_order_id p = snapshotId \<and> pos_company_id p = companyId \<and> pos_outlet_id p = outletId"

definition finalize_snapshot :: "int \<Rightarrow> string \<Rightarrow> nat \<Rightarrow> nat \<Rightarrow> rdb \<Rightarrow> rerr + rdb" where
  "finalize_snapshot now snapshotId companyId outletId d =
     bindR (require (list_ex (snapshot_of snapshotId companyId outletId) (pos_order_snapshots d))
       (SessionValidationError ''Linked pos order snapshot not found for finalization'')) (\<lambda>_.
     Inr (d\<lparr>pos_order_snapshots := update_where (snapshot_of snapshotId companyId outletId)
       (\<lambda>p. p\<lparr>pos_is_finalized := True, pos_order_state := ''CLOSED'', pos_order_status := ''COMPLETED'',
          pos_closed_at := Some now, pos_updated_at := now\<rparr>) (pos_order_snapshots d)\<rparr>))"

text \<open>The status code here is that of \<open>packages/shared\<close>, where 1 is AVAILABLE as well.\<close>

definition free_row :: "int \<Rightarrow> string \<Rightarrow> table_occupancy_row \<Rightarrow> table_occupancy_row" where
  "free_row now updatedBy r = r\<lparr>occ_status_id := OCC_AVAILABLE, occ_service_session_id := None,
     occ_guest_count := None, occ_occupied_at := None, occ_updated_at := now,
     occ_updated_by := Some updatedBy\<rparr>"

definition free_table :: "int \<Rightarrow> string \<Rightarrow> nat \<Rightarrow> nat \<Rightarrow> nat \<Rightarrow> rdb \<Rightarrow> rerr + rdb" where
  "free_table now updatedBy companyId outletId tableId d =
     bindR (checked_update (\<lambda>_. occupancy_ok) (occ_of companyId outletId tableId) (free_row now updatedBy)
       (table_occupancy d)) (\<lambda>(rows, _).
     Inr (d\<lparr>table_occupancy := rows\<rparr>))"

definition close_answer :: "CloseSessionInput \<Rightarrow> ServiceSession rop" where
  "close_answer params d =
     (let c = cl_companyId params; o' = cl_outletId params; i = cl_sessionId params in
      bindR (read_session d c o' i) (\<lambda>(s, _).
      bindR (require (tss_status_id s = SS_CLOSED)
        (SessionConflictError ''Duplicate transaction but session not in CLOSED state'')) (\<lambda>_.
      session_answer c o' i d)))"

definition closeSession :: "(string \<Rightarrow> string \<Rightarrow> string) \<Rightarrow> int \<Rightarrow> CloseSessionInput \<Rightarrow> ServiceSession rop" where
  "closeSession later now params d =
     (let c = cl_companyId params; o' = cl_outletId params; i = cl_sessionId params in
      if checkClientTxIdExists d c o' (cl_clientTxId params) then close_answer params d
      else
        bindR (read_session d c o' i) (\<lambda>(s, _).
        bindR (require (tss_status_id s \<in> {SS_ACTIVE, SS_LOCKED})
          (InvalidSessionStatusError (tss_status_id s) [SS_ACTIVE, SS_LOCKED])) (\<lambda>_.
        bindR (from_opt (SessionValidationError ''Session must be locked with a finalized snapshot before closing'')
          (truthy_str (tss_pos_order_snapshot_id s))) (\<lambda>snapshotId.
        bindR (update_sessions (session_of c o' i) (close_row now params) d) (\<lambda>d1.
        bindR (finalize_snapshot now snapshotId c o' d1) (\<lambda>d2.
        bindR (syncSnapshotLinesFromSession later snapshotId c o' i False d2) (\<lambda>(_, d3).
        bindR (free_table now (cl_updatedBy params) c o' (tss_table_id s) d3) (\<lambda>d4.
        bindR (logSessionEvent now c o' (tss_table_id s) i 13 (cl_clientTxId params)
          (Ev_session ''Session closed'' (tss_status_id s) SS_CLOSED (cl_notes params) (Some snapshotId))
          (cl_updatedBy params) d4) (\<lambda>d5.
        session_answer c o' i d5)))))))))"

end
