(* ===== verification/Session_Lines.thy ===== *)
theory Session_Lines
  imports Service_Sessions
begin

text \<open>
  The lines of a service session: adding, changing and removing them
  (\<open>service-sessions/lines.ts\<close>), finalizing them in batches and adjusting finalized ones
  (\<open>service-sessions/checkpoint.ts\<close>).  Amounts are computed in JavaScript numbers and stored with
  four decimals; quantities are whole, as their column is.
\<close>

text \<open>The total of a line as the code computes it: \<open>quantity * unitPrice - discountAmount + taxAmount\<close>.\<close>

definition line_total :: "nat \<Rightarrow> rat \<Rightarrow> rat \<Rightarrow> rat \<Rightarrow> rat" where
  "line_total quantity unitPrice discountAmount taxAmount =
     fl (fl (fl (of_nat quantity * unitPrice) - discountAmount) + taxAmount)"

definition require_active :: "table_service_session_row \<Rightarrow> rerr + unit" where
  "require_active s =
     require (tss_status_id s = SS_ACTIVE) (InvalidSessionStatusError (tss_status_id s) [SS_ACTIVE])"

section \<open>Adding a line\<close>

record AddSessionLineInput =
  al_companyId :: nat
  al_outletId :: nat
  al_sessionId :: nat
  al_productId :: nat
  al_productName :: string
  al_productSku :: "string option"
  al_quantity :: nat
  al_unitPrice :: rat
  al_discountAmount :: "rat option"
  al_taxAmount :: "rat option"
  al_notes :: "string option"
  al_createdBy :: string
  al_clientTxId :: string

text \<open>\<open>JSON_EXTRACT(event_data, '$.lineId')\<close>.\<close>

fun event_line_id :: "event_data option \<Rightarrow> nat option" where
  "event_line_id (Some (Ev_line_added lineId _ _ _ _ _)) = Some lineId"
| "event_line_id (Some (Ev_line_updated lineId _ _ _ _ _ _ _ _)) = Some lineId"
| "event_line_id (Some (Ev_line_removed lineId _ _ _ _)) = Some lineId"
| "event_line_id (Some (Ev_cancelled lineId _)) = Some lineId"
| "event_line_id (Some (Ev_reduced lineId _)) = Some lineId"
| "event_line_id _ = None"

definition select_line :: "rdb \<Rightarrow> nat \<Rightarrow> session_line_row option" where
  "select_line d lineId = find (\<lambda>l. tsl_id l = lineId) (session_lines d)"

definition line_answer :: "session_line_row \<Rightarrow> SessionLine" where
  "line_answer l = mapDbRowToSessionLine (Some (tsl_line_state l)) l"

text \<open>A repetition finds the line through the event of the first request.\<close>

definition replay_add :: "AddSessionLineInput \<Rightarrow> rdb \<Rightarrow> rerr + SessionLine" where
  "replay_add inp d =
     bindR (from_opt (SessionConflictError ''Duplicate transaction belongs to a different session'')
       (find (\<lambda>e. te_company_id e = al_companyId inp \<and> te_outlet_id e = al_outletId inp \<and>
          te_client_tx_id e = al_clientTxId inp \<and> te_service_session_id e = Some (al_sessionId inp) \<and>
          te_event_type_id e = 9) (table_events d))) (\<lambda>e.
     bindR (from_opt (SessionConflictError ''Duplicate transaction found but original line reference missing'')
       (event_line_id (te_event_data e))) (\<lambda>lineId.
     bindR (from_opt (SessionConflictError ''Duplicate transaction found but original line not found'')
       (find (\<lambda>l. tsl_id l = lineId \<and> tsl_session_id l = al_sessionId inp) (session_lines d))) (\<lambda>l.
     Inr (line_answer l))))"

definition next_line_number :: "rdb \<Rightarrow> nat \<Rightarrow> nat" where
  "next_line_number d sessionId =
     Max (insert 0 (tsl_line_number ` set (filter (\<lambda>l. tsl_session_id l = sessionId) (session_lines d)))) + 1"

definition new_line :: "nat \<Rightarrow> nat \<Rightarrow> int \<Rightarrow> AddSessionLineInput \<Rightarrow> rat \<Rightarrow> session_line_row" where
  "new_line i lineNumber now inp total' =
     \<lparr>tsl_id = i, tsl_session_id = al_sessionId inp, tsl_batch_no = None, tsl_created_at = now,
      tsl_discount_amount = to_decimal 4 (or_else 0 (al_discountAmount inp)), tsl_is_voided = False,
      tsl_line_number = lineNumber, tsl_line_state = LINE_OPEN, tsl_line_total = to_decimal 4 total',
      tsl_notes = al_notes inp, tsl_product_id = al_productId inp,
      tsl_product_name = al_productName inp, tsl_product_sku = al_productSku inp,
      tsl_quantity = al_quantity inp, tsl_tax_amount = to_decimal 4 (or_else 0 (al_taxAmount inp)),
      tsl_unit_price = to_decimal 4 (al_unitPrice inp), tsl_updated_at = now,
      tsl_void_reason = None, tsl_voided_at = None\<rparr>"

definition addSessionLine :: "int \<Rightarrow> AddSessionLineInput \<Rightarrow> SessionLine rop" where
  "addSessionLine now inp d =
     (let c = al_companyId inp; o' = al_outletId inp; s = al_sessionId inp in
      if checkClientTxIdExists d c o' (al_clientTxId inp)
      then bindR (replay_add inp d) (\<lambda>l. Inr (l, d))
      else
        bindR (read_session d c o' s) (\<lambda>(session, _).
        bindR (require_active session) (\<lambda>_.
        bindR (require (list_ex (\<lambda>it. it_id it = al_productId inp \<and> it_company_id it = c) (items d))
          (SessionValidationError ''Product not found or not accessible'')) (\<lambda>_.
        let total' = line_total (al_quantity inp) (al_unitPrice inp) (or_else 0 (al_discountAmount inp))
              (or_else 0 (al_taxAmount inp));
            i = new_key d RT_session_line;
            l = new_line i (next_line_number d s) now inp total';
            d1 = take_key RT_session_line (d\<lparr>session_lines := session_lines d @ [l]\<rparr>) in
        bindR (logSessionEvent now c o' (tss_table_id session) s 9 (al_clientTxId inp)
          (Ev_line_added i (al_productId inp) (al_productName inp) (al_quantity inp) (al_unitPrice inp) total')
          (al_createdBy inp) d1) (\<lambda>d2.
        bindR (from_opt (R_Error ''Failed to retrieve created line'') (select_line d2 i)) (\<lambda>l.
        Inr (line_answer l, d2)))))))"

section \<open>Changing a line\<close>

record UpdateSessionLineInput =
  ul_companyId :: nat
  ul_outletId :: nat
  ul_sessionId :: nat
  ul_lineId :: nat
  ul_quantity :: "nat option"
  ul_unitPrice :: "rat option"
  ul_discountAmount :: "rat option"
  ul_taxAmount :: "rat option"
  ul_notes :: "string option"
  ul_isVoided :: "bool option"
  ul_voidReason :: "string option"
  ul_updatedBy :: string
  ul_clientTxId :: string

text \<open>The new total, when a field it depends on is given.\<close>

definition updated_total :: "UpdateSessionLineInput \<Rightarrow> session_line_row \<Rightarrow> rat option" where
  "updated_total inp l =
     (if ul_quantity inp = None \<and> ul_unitPrice inp = None \<and> ul_discountAmount inp = None \<and>
         ul_taxAmount inp = None then None
      else Some (line_total (or_else (tsl_quantity l) (ul_quantity inp))
        (or_else (of_decimal 4 (tsl_unit_price l)) (ul_unitPrice inp))
        (or_else (of_decimal 4 (tsl_discount_amount l)) (ul_discountAmount inp))
        (or_else (of_decimal 4 (tsl_tax_amount l)) (ul_taxAmount inp))))"

text \<open>The assignments that follow one another, each to the row of this key.\<close>

definition updated_line :: "int \<Rightarrow> UpdateSessionLineInput \<Rightarrow> rat option \<Rightarrow> session_line_row \<Rightarrow> session_line_row" where
  "updated_line now inp total' l =
     l\<lparr>tsl_quantity := or_else (tsl_quantity l) (ul_quantity inp),
       tsl_unit_price := (case ul_unitPrice inp of None \<Rightarrow> tsl_unit_price l | Some p \<Rightarrow> to_decimal 4 p),
       tsl_discount_amount := (case ul_discountAmount inp of None \<Rightarrow> tsl_discount_amount l
         | Some p \<Rightarrow> to_decimal 4 p),
       tsl_tax_amount := (case ul_taxAmount inp of None \<Rightarrow> tsl_tax_amount l | Some p \<Rightarrow> to_decimal 4 p),
       tsl_notes := keep (ul_notes inp) (tsl_notes l),
       tsl_is_voided := or_else (tsl_is_voided l) (ul_isVoided inp),
       tsl_voided_at := (case ul_isVoided inp of None \<Rightarrow> tsl_voided_at l
         | Some v \<Rightarrow> if v then Some now else None),
       tsl_void_reason := keep (ul_voidReason inp) (tsl_void_reason l),
       tsl_line_total := (case total' of None \<Rightarrow> tsl_line_total l | Some t \<Rightarrow> to_decimal 4 t),
       tsl_updated_at := now\<rparr>"

definition read_line :: "rdb \<Rightarrow> nat \<Rightarrow> nat \<Rightarrow> nat \<Rightarrow> nat \<Rightarrow> rerr + session_line_row" where
  "read_line d companyId outletId sessionId lineId =
     from_opt (SessionNotFoundError (Line_in_session lineId sessionId))
       (getSessionLineWithConnection d companyId outletId sessionId lineId)"

definition updateSessionLine :: "int \<Rightarrow> UpdateSessionLineInput \<Rightarrow> SessionLine rop" where
  "updateSessionLine now inp d =
     (let c = ul_companyId inp; o' = ul_outletId inp; s = ul_sessionId inp; i = ul_lineId inp in
      if checkClientTxIdExists d c o' (ul_clientTxId inp)
      then bindR (from_opt (SessionConflictError ''Duplicate update transaction but line not found'')
             (getSessionLineWithConnection d c o' s i)) (\<lambda>l. Inr (line_answer l, d))
      else
        bindR (read_session d c o' s) (\<lambda>(session, _).
        bindR (require_active session) (\<lambda>_.
        bindR (read_line d c o' s i) (\<lambda>old.
        let total' = updated_total inp old;
            d1 = d\<lparr>session_lines := update_where (\<lambda>l. tsl_id l = i) (updated_line now inp total') (session_lines d)\<rparr> in
        bindR (logSessionEvent now c o' (tss_table_id session) s 10 (ul_clientTxId inp)
          (Ev_line_updated i (ul_quantity inp) (ul_unitPrice inp) (ul_discountAmount inp) (ul_taxAmount inp)
             (ul_notes inp) (ul_isVoided inp) (ul_voidReason inp) total')
          (ul_updatedBy inp) d1) (\<lambda>d2.
        bindR (from_opt (R_Error ''Failed to retrieve updated line'') (select_line d2 i)) (\<lambda>l.
        Inr (line_answer l, d2)))))))"

section \<open>Removing a line\<close>

record RemoveSessionLineInput =
  rl_companyId :: nat
  rl_outletId :: nat
  rl_sessionId :: nat
  rl_lineId :: nat
  rl_updatedBy :: string
  rl_clientTxId :: string

definition removeSessionLine :: "int \<Rightarrow> RemoveSessionLineInput \<Rightarrow> (bool \<times> nat) rop" where
  "removeSessionLine now inp d =
     (let c = rl_companyId inp; o' = rl_outletId inp; s = rl_sessionId inp; i = rl_lineId inp in
      if checkClientTxIdExists d c o' (rl_clientTxId inp) then Inr ((True, i), d)
      else
        bindR (read_session d c o' s) (\<lambda>(session, _).
        bindR (require_active session) (\<lambda>_.
        bindR (read_line d c o' s i) (\<lambda>old.
        let d1 = d\<lparr>session_lines := filter (\<lambda>l. tsl_id l \<noteq> i) (session_lines d)\<rparr> in
        bindR (logSessionEvent now c o' (tss_table_id session) s 11 (rl_clientTxId inp)
          (Ev_line_removed i (tsl_product_id old) (tsl_product_name old) (tsl_quantity old)
             (of_decimal 4 (tsl_line_total old))) (rl_updatedBy inp) d1) (\<lambda>d2.
        Inr ((True, i), d2))))))"

section \<open>Finalizing a batch\<close>

record FinalizeSessionBatchInput =
  fb_companyId :: nat
  fb_outletId :: nat
  fb_sessionId :: nat
  fb_clientTxId :: string
  fb_notes :: "string option"
  fb_updatedBy :: string

record FinalizeSessionBatchResult =
  fr_sessionId :: nat
  fr_batchNo :: nat
  fr_sessionVersion :: nat
  fr_syncedLinesCount :: nat

definition find_checkpoint :: "rdb \<Rightarrow> FinalizeSessionBatchInput \<Rightarrow> session_checkpoint_row option" where
  "find_checkpoint d inp =
     find (\<lambda>k. tsc_company_id k = fb_companyId inp \<and> tsc_outlet_id k = fb_outletId inp \<and>
       tsc_client_tx_id k = fb_clientTxId inp) (session_checkpoints d)"

definition replay_batch :: "FinalizeSessionBatchInput \<Rightarrow> session_checkpoint_row \<Rightarrow> rdb \<Rightarrow> FinalizeSessionBatchResult" where
  "replay_batch inp k d =
     \<lparr>fr_sessionId = fb_sessionId inp, fr_batchNo = tsc_batch_no k,
      fr_sessionVersion = getSessionVersionWithConnection d (fb_companyId inp) (fb_outletId inp) (tsc_session_id k),
      fr_syncedLinesCount = length (filter (\<lambda>l. tsl_session_id l = fb_sessionId inp \<and>
        tsl_batch_no l = Some (tsc_batch_no k) \<and> \<not> tsl_is_voided l) (session_lines d))\<rparr>"

definition open_line :: "nat \<Rightarrow> session_line_row \<Rightarrow> bool" where
  "open_line sessionId l \<longleftrightarrow> tsl_session_id l = sessionId \<and> \<not> tsl_is_voided l \<and> tsl_line_state l = LINE_OPEN"

definition finalize_lines :: "int \<Rightarrow> nat \<Rightarrow> nat \<Rightarrow> rdb \<Rightarrow> rerr + rdb" where
  "finalize_lines now sessionId batchNo d =
     bindR (require (list_ex (open_line sessionId) (session_lines d))
       (SessionValidationError ''No open lines to finalize'')) (\<lambda>_.
     Inr (d\<lparr>session_lines := update_where (open_line sessionId)
       (\<lambda>l. l\<lparr>tsl_batch_no := Some batchNo, tsl_line_state := LINE_FINALIZED, tsl_updated_at := now\<rparr>)
       (session_lines d)\<rparr>))"

definition insert_checkpoint :: "int \<Rightarrow> FinalizeSessionBatchInput \<Rightarrow> nat \<Rightarrow> string \<Rightarrow> rdb \<Rightarrow> rerr + rdb" where
  "insert_checkpoint now inp batchNo snapshotId d =
     bindR (require (\<not> list_ex (\<lambda>k. tsc_session_id k = fb_sessionId inp \<and> tsc_batch_no k = batchNo)
       (session_checkpoints d)) (R_Database ''ER_DUP_ENTRY'')) (\<lambda>_.
     Inr (take_key RT_checkpoint (d\<lparr>session_checkpoints := session_checkpoints d @
       [\<lparr>tsc_id = new_key d RT_checkpoint, tsc_company_id = fb_companyId inp,
         tsc_outlet_id = fb_outletId inp, tsc_batch_no = batchNo, tsc_client_tx_id = fb_clientTxId inp,
         tsc_finalized_at = now, tsc_finalized_by = Some (fb_updatedBy inp),
         tsc_session_id = fb_sessionId inp, tsc_snapshot_id = snapshotId\<rparr>]\<rparr>)))"

definition bump_session :: "int \<Rightarrow> string \<Rightarrow> nat option \<Rightarrow> table_service_session_row \<Rightarrow> table_service_session_row" where
  "bump_session now updatedBy batchNo s = s\<lparr>
     tss_last_finalized_batch_no := or_else (tss_last_finalized_batch_no s) batchNo,
     tss_session_version := tss_session_version s + 1, tss_updated_at := now,
     tss_updated_by := Some updatedBy\<rparr>"

definition finalizeSessionBatch :: "(string \<Rightarrow> string \<Rightarrow> string) \<Rightarrow> int \<Rightarrow> FinalizeSessionBatchInput \<Rightarrow>
    FinalizeSessionBatchResult rop" where
  "finalizeSessionBatch later now inp d =
     (let c = fb_companyId inp; o' = fb_outletId inp; s = fb_sessionId inp in
      case find_checkpoint d inp of
        Some k \<Rightarrow> Inr (replay_batch inp k d, d)
      | None \<Rightarrow>
        bindR (read_session d c o' s) (\<lambda>(session, _).
        bindR (require_active session) (\<lambda>_.
        bindR (from_opt (SessionValidationError ''Cannot finalize batch without linked pos order snapshot'')
          (truthy_str (tss_pos_order_snapshot_id session))) (\<lambda>snapshotId.
        let batchNo = tss_last_finalized_batch_no session + 1 in
        bindR (finalize_lines now s batchNo d) (\<lambda>d1.
        bindR (syncSnapshotLinesFromSession later snapshotId c o' s True d1) (\<lambda>(synced, d2).
        bindR (insert_checkpoint now inp batchNo snapshotId d2) (\<lambda>d3.
        bindR (update_sessions (session_of c o' s) (bump_session now (fb_updatedBy inp) (Some batchNo)) d3) (\<lambda>d4.
        bindR (logSessionEvent now c o' (tss_table_id session) s 14 (fb_clientTxId inp)
          (Ev_batch batchNo synced snapshotId (fb_notes inp)) (fb_updatedBy inp) d4) (\<lambda>d5.
        Inr (\<lparr>fr_sessionId = s, fr_batchNo = batchNo,
              fr_sessionVersion = getSessionVersionWithConnection d4 c o' s,
              fr_syncedLinesCount = synced\<rparr>, d5))))))))))"

section \<open>Adjusting a line\<close>

datatype adjust_action = CANCEL | REDUCE_QTY

record AdjustSessionLineInput =
  aj_companyId :: nat
  aj_outletId :: nat
  aj_sessionId :: nat
  aj_lineId :: nat
  aj_action :: adjust_action
  aj_qtyDelta :: "int option"
  aj_reason :: string
  aj_clientTxId :: string
  aj_updatedBy :: string

definition cancelled_line :: "int \<Rightarrow> AdjustSessionLineInput \<Rightarrow> session_line_row \<Rightarrow> session_line_row" where
  "cancelled_line now inp l = l\<lparr>tsl_is_voided := True, tsl_voided_at := Some now,
     tsl_void_reason := Some (aj_reason inp), tsl_line_state := LINE_VOIDED, tsl_updated_at := now\<rparr>"

text \<open>Discount and tax are reduced in proportion, by a price per unit that is a JavaScript number.\<close>

definition prorated :: "int \<Rightarrow> nat \<Rightarrow> nat \<Rightarrow> rat" where
  "prorated amount quantity newQuantity = fl (fl (of_decimal 4 amount / of_nat quantity) * of_nat newQuantity)"

definition reduced_line :: "int \<Rightarrow> session_line_row \<Rightarrow> nat \<Rightarrow> session_line_row \<Rightarrow> session_line_row" where
  "reduced_line now old newQuantity l =
     (let newDiscount = prorated (tsl_discount_amount old) (tsl_quantity old) newQuantity;
          newTax = prorated (tsl_tax_amount old) (tsl_quantity old) newQuantity in
      l\<lparr>tsl_quantity := newQuantity, tsl_discount_amount := to_decimal 4 newDiscount,
        tsl_tax_amount := to_decimal 4 newTax,
        tsl_line_total := to_decimal 4 (line_total newQuantity (of_decimal 4 (tsl_unit_price old)) newDiscount newTax),
        tsl_updated_at := now\<rparr>)"

definition adjust_line :: "int \<Rightarrow> AdjustSessionLineInput \<Rightarrow> session_line_row \<Rightarrow>
    rerr + (session_line_row \<Rightarrow> session_line_row) \<times> event_data" where
  "adjust_line now inp old =
     (case aj_action inp of
        CANCEL \<Rightarrow> Inr (cancelled_line now inp, Ev_cancelled (aj_lineId inp) (aj_reason inp))
      | REDUCE_QTY \<Rightarrow>
        bindR (from_opt (SessionValidationError ''qtyDelta is required for REDUCE_QTY adjustment'')
          (aj_qtyDelta inp)) (\<lambda>delta.
        bindR (require (0 < delta) (SessionValidationError ''qtyDelta is required for REDUCE_QTY adjustment'')) (\<lambda>_.
        bindR (require (delta < int (tsl_quantity old))
          (SessionValidationError ''qtyDelta must be less than current quantity'')) (\<lambda>_.
        Inr (reduced_line now old (tsl_quantity old - nat delta), Ev_reduced (aj_lineId inp) delta)))))"

definition sync_finalized :: "(string \<Rightarrow> string \<Rightarrow> string) \<Rightarrow> nat \<Rightarrow> nat \<Rightarrow> nat \<Rightarrow> string option \<Rightarrow> nat \<Rightarrow> rdb \<Rightarrow>
    rerr + rdb" where
  "sync_finalized later companyId outletId sessionId snapshotId lineState d =
     (case truthy_str snapshotId of
        Some sid \<Rightarrow>
          if lineState = LINE_FINALIZED
          then bindR (syncSnapshotLinesFromSession later sid companyId outletId sessionId True d) (\<lambda>(_, d'). Inr d')
          else Inr d
      | None \<Rightarrow> Inr d)"

definition adjustSessionLine :: "(string \<Rightarrow> string \<Rightarrow> string) \<Rightarrow> int \<Rightarrow> AdjustSessionLineInput \<Rightarrow>
    (SessionLine \<times> nat) rop" where
  "adjustSessionLine later now inp d =
     (let c = aj_companyId inp; o' = aj_outletId inp; s = aj_sessionId inp; i = aj_lineId inp in
      if checkClientTxIdExists d c o' (aj_clientTxId inp)
      then bindR (from_opt (SessionConflictError ''Duplicate adjust transaction but line not found'')
             (getSessionLineWithConnection d c o' s i)) (\<lambda>l.
           Inr ((line_answer l, getSessionVersionWithConnection d c o' s), d))
      else
        bindR (read_session d c o' s) (\<lambda>(session, _).
        bindR (require_active session) (\<lambda>_.
        bindR (read_line d c o' s i) (\<lambda>old.
        bindR (require (\<not> tsl_is_voided old) (SessionValidationError ''Cannot adjust a voided line'')) (\<lambda>_.
        bindR (adjust_line now inp old) (\<lambda>(f, ev).
        let d1 = d\<lparr>session_lines := update_where (\<lambda>l. tsl_id l = i) f (session_lines d)\<rparr> in
        bindR (update_sessions (session_of c o' s) (bump_session now (aj_updatedBy inp) None) d1) (\<lambda>d2.
        bindR (sync_finalized later c o' s (tss_pos_order_snapshot_id session) (tsl_line_state old) d2) (\<lambda>d3.
        bindR (logSessionEvent now c o' (tss_table_id session) s 10 (aj_clientTxId inp) ev
          (aj_updatedBy inp) d3) (\<lambda>d4.
        bindR (read_line d4 c o' s i) (\<lambda>l.
        Inr ((line_answer l, getSessionVersionWithConnection d3 c o' s), d4)))))))))))"

end
