(* ===== verification/Session_Steps.thy ===== *)
theory Session_Steps
  imports Session_Lines Contracts
begin

text \<open>
  What the operations do to the rows of visits, and the steps of the module on them: the seven
  operations on service sessions, seating and releasing a table, and the change of a
  reservation's status, which seats and releases as well.
\<close>

section \<open>Events are only appended\<close>

definition event_seen :: "rdb \<Rightarrow> nat \<times> nat \<times> string \<Rightarrow> bool" where
  "event_seen d k \<longleftrightarrow> (\<exists>e \<in> set (table_events d). (te_company_id e, te_outlet_id e, te_client_tx_id e) = k)"

lemma event_seen_iff: "event_seen d (c, o', tx) \<longleftrightarrow> checkClientTxIdExists d c o' tx"
  by (auto simp: event_seen_def checkClientTxIdExists_def event_tx_free_def list_ex_iff)

lemma logSessionEvent_Inr [inr_simps]:
  "logSessionEvent now c o' t i ty tx ev by' d = Inr d' \<longleftrightarrow>
     \<not> checkClientTxIdExists d c o' tx \<and>
     d' = take_key RT_event (d\<lparr>table_events := table_events d @
       [session_event_row (new_key d RT_event) now c o' t i ty tx ev by']\<rparr>)"
  by (auto simp: logSessionEvent_def checkClientTxIdExists_def inr_simps)

lemma session_answer_Inr [inr_simps]:
  "session_answer c o' i d = Inr (r, d') \<longleftrightarrow>
     d' = d \<and> (\<exists>st. getSessionWithConnection d c o' i = Some st \<and>
       r = mapDbRowToServiceSession st (getSessionLinesWithConnection d i))"
  by (auto simp: session_answer_def read_session_def inr_simps)

lemma read_session_Inr [inr_simps]:
  "read_session d c o' i = Inr st \<longleftrightarrow> getSessionWithConnection d c o' i = Some st"
  by (simp add: read_session_def inr_simps)

lemma update_sessions_Inr [inr_simps]:
  "update_sessions P f d = Inr d' \<longleftrightarrow>
     (\<forall>s \<in> set (table_service_sessions d). P s \<longrightarrow> session_change_ok s (f s)) \<and>
     d' = d\<lparr>table_service_sessions := update_where P f (table_service_sessions d)\<rparr>"
  by (auto simp: update_sessions_def inr_simps checked_update_def split: if_splits)

lemma finalize_snapshot_Inr:
  "finalize_snapshot now sid c o' d = Inr d' \<Longrightarrow>
     \<exists>ps. d' = d\<lparr>pos_order_snapshots := ps\<rparr>"
  by (auto simp: finalize_snapshot_def inr_simps)

lemma free_table_Inr:
  "free_table now u c o' t d = Inr d' \<Longrightarrow> \<exists>os. d' = d\<lparr>table_occupancy := os\<rparr>"
  by (auto simp: free_table_def inr_simps)

lemma sync_Inr:
  "syncSnapshotLinesFromSession later sid c o' i fin d = Inr (n, d') \<Longrightarrow>
     \<exists>ls k. d' = d\<lparr>snapshot_lines := ls, last_key := (last_key d)(RT_snapshot_line := k)\<rparr>"
  by (auto simp: syncSnapshotLinesFromSession_def Let_def inr_simps)

lemma sync_finalized_Inr:
  assumes "sync_finalized later c o' i sid st d = Inr d'"
  shows "\<exists>ls k. d' = d\<lparr>snapshot_lines := ls, last_key := (last_key d)(RT_snapshot_line := k)\<rparr>"
proof -
  from assms have "d' = d \<or> (\<exists>x n. syncSnapshotLinesFromSession later x c o' i True d = Inr (n, d'))"
    by (auto simp: sync_finalized_def inr_simps split: option.splits if_splits)
  then show ?thesis
  proof
    assume "d' = d"
    then have "d' = d\<lparr>snapshot_lines := snapshot_lines d,
      last_key := (last_key d)(RT_snapshot_line := last_key d RT_snapshot_line)\<rparr>" by simp
    then show ?thesis by blast
  qed (auto dest: sync_Inr)
qed

lemma getSession_Some:
  "getSessionWithConnection d c o' i = Some (s, t) \<Longrightarrow>
     s \<in> set (table_service_sessions d) \<and> session_of c o' i s"
  by (auto simp: getSessionWithConnection_def dest: find_SomeD)

lemma read_line_Inr:
  "read_line d c o' s i = Inr l \<Longrightarrow> l \<in> set (session_lines d) \<and> tsl_id l = i \<and> tsl_session_id l = s"
  by (auto simp: read_line_def inr_simps getSessionLineWithConnection_def dest: find_SomeD split: if_splits)

section \<open>Effects\<close>

text \<open>
  The parts of the state that visits are made of, and one shape for every operation on a session:
  it either repeats an answer or works on a session that is not closed.
\<close>

definition visits :: "rdb \<Rightarrow> session_line_row list \<times> nat \<times> table_service_session_row list \<times> nat" where
  "visits d = (session_lines d, last_key d RT_session_line, table_service_sessions d, last_key d RT_session)"

lemma lock_effect:
  assumes "lockSessionForPayment now p d = Inr (r, d')"
  shows "d' = d \<or> (\<exists>s. s \<in> set (table_service_sessions d) \<and> session_of (lk_companyId p) (lk_outletId p) (lk_sessionId p) s \<and>
    tss_status_id s = SS_ACTIVE \<and>
    visits d' = (session_lines d, last_key d RT_session_line,
      update_where (\<lambda>r. session_of (lk_companyId p) (lk_outletId p) (lk_sessionId p) r \<and> tss_status_id r = SS_ACTIVE)
        (lock_row now p) (table_service_sessions d), last_key d RT_session))"
  using assms
  by (auto simp: lockSessionForPayment_def Let_def inr_simps visits_def take_key_def dest!: getSession_Some split: if_splits)

lemma close_effect:
  assumes "closeSession later now p d = Inr (r, d')"
  shows "d' = d \<or> (\<exists>s. s \<in> set (table_service_sessions d) \<and> session_of (cl_companyId p) (cl_outletId p) (cl_sessionId p) s \<and>
    tss_status_id s \<in> {SS_ACTIVE, SS_LOCKED} \<and>
    (\<forall>s \<in> set (table_service_sessions d). session_of (cl_companyId p) (cl_outletId p) (cl_sessionId p) s \<longrightarrow>
      session_change_ok s (close_row now p s)) \<and>
    visits d' = (session_lines d, last_key d RT_session_line,
      update_where (session_of (cl_companyId p) (cl_outletId p) (cl_sessionId p))
        (close_row now p) (table_service_sessions d), last_key d RT_session))"
  using assms
  by (auto simp: closeSession_def close_answer_def Let_def inr_simps visits_def take_key_def
      dest!: getSession_Some finalize_snapshot_Inr free_table_Inr sync_Inr split: if_splits)

lemma add_effect:
  assumes "addSessionLine now p d = Inr (r, d')"
  shows "d' = d \<or> (\<exists>s. s \<in> set (table_service_sessions d) \<and>
    session_of (al_companyId p) (al_outletId p) (al_sessionId p) s \<and> tss_status_id s = SS_ACTIVE \<and>
    visits d' = (session_lines d @ [new_line (new_key d RT_session_line) (next_line_number d (al_sessionId p)) now p
        (line_total (al_quantity p) (al_unitPrice p) (or_else 0 (al_discountAmount p)) (or_else 0 (al_taxAmount p)))],
      Suc (last_key d RT_session_line), table_service_sessions d, last_key d RT_session))"
  using assms
  by (auto simp: addSessionLine_def require_active_def Let_def inr_simps visits_def take_key_def
      dest!: getSession_Some split: if_splits)

lemma update_effect:
  assumes "updateSessionLine now p d = Inr (r, d')"
  shows "d' = d \<or> (\<exists>s l. s \<in> set (table_service_sessions d) \<and>
    session_of (ul_companyId p) (ul_outletId p) (ul_sessionId p) s \<and> tss_status_id s = SS_ACTIVE \<and>
    l \<in> set (session_lines d) \<and> tsl_id l = ul_lineId p \<and> tsl_session_id l = ul_sessionId p \<and>
    visits d' = (update_where (\<lambda>l. tsl_id l = ul_lineId p) (updated_line now p (updated_total p l)) (session_lines d),
      last_key d RT_session_line, table_service_sessions d, last_key d RT_session))"
  using assms
  by (auto simp: updateSessionLine_def require_active_def Let_def inr_simps visits_def take_key_def
      dest!: getSession_Some read_line_Inr split: if_splits) blast

lemma remove_effect:
  assumes "removeSessionLine now p d = Inr (r, d')"
  shows "d' = d \<or> (\<exists>s l. s \<in> set (table_service_sessions d) \<and>
    session_of (rl_companyId p) (rl_outletId p) (rl_sessionId p) s \<and> tss_status_id s = SS_ACTIVE \<and>
    l \<in> set (session_lines d) \<and> tsl_id l = rl_lineId p \<and> tsl_session_id l = rl_sessionId p \<and>
    visits d' = (filter (\<lambda>l. tsl_id l \<noteq> rl_lineId p) (session_lines d),
      last_key d RT_session_line, table_service_sessions d, last_key d RT_session))"
  using assms
  by (auto simp: removeSessionLine_def require_active_def Let_def inr_simps visits_def take_key_def
      dest!: getSession_Some read_line_Inr split: if_splits)

lemma insert_checkpoint_Inr:
  "insert_checkpoint now p n sid d = Inr d' \<Longrightarrow> \<exists>ks. d' = take_key RT_checkpoint (d\<lparr>session_checkpoints := ks\<rparr>)"
  by (auto simp: insert_checkpoint_def inr_simps)

lemma finalize_effect:
  assumes "finalizeSessionBatch later now p d = Inr (r, d')"
  shows "d' = d \<or> (\<exists>s. s \<in> set (table_service_sessions d) \<and>
    session_of (fb_companyId p) (fb_outletId p) (fb_sessionId p) s \<and> tss_status_id s = SS_ACTIVE \<and>
    visits d' = (update_where (open_line (fb_sessionId p))
       (\<lambda>l. l\<lparr>tsl_batch_no := Some (Suc (tss_last_finalized_batch_no s)), tsl_line_state := LINE_FINALIZED, tsl_updated_at := now\<rparr>) (session_lines d),
      last_key d RT_session_line,
      update_where (session_of (fb_companyId p) (fb_outletId p) (fb_sessionId p))
        (bump_session now (fb_updatedBy p) (Some (Suc (tss_last_finalized_batch_no s)))) (table_service_sessions d), last_key d RT_session))"
  using assms
  by (auto simp: finalizeSessionBatch_def finalize_lines_def require_active_def Let_def inr_simps visits_def take_key_def
      dest!: getSession_Some sync_Inr insert_checkpoint_Inr split: option.splits)

lemma adjust_effect:
  assumes "adjustSessionLine later now p d = Inr (r, d')"
  shows "d' = d \<or> (\<exists>s l f ev. s \<in> set (table_service_sessions d) \<and>
    session_of (aj_companyId p) (aj_outletId p) (aj_sessionId p) s \<and> tss_status_id s = SS_ACTIVE \<and>
    l \<in> set (session_lines d) \<and> tsl_id l = aj_lineId p \<and> tsl_session_id l = aj_sessionId p \<and>
    adjust_line now p l = Inr (f, ev) \<and>
    visits d' = (update_where (\<lambda>l. tsl_id l = aj_lineId p) f (session_lines d), last_key d RT_session_line,
      update_where (session_of (aj_companyId p) (aj_outletId p) (aj_sessionId p))
        (bump_session now (aj_updatedBy p) None) (table_service_sessions d), last_key d RT_session))"
  using assms
  by (auto simp: adjustSessionLine_def require_active_def Let_def inr_simps visits_def take_key_def
      dest!: getSession_Some sync_finalized_Inr read_line_Inr split: if_splits) blast

section \<open>One transaction id, one effect\<close>

text \<open>
  The contract of the operations: whoever finds its transaction id among the events leaves the
  tables alone, and who changes the tables leaves the id among the events.  As events are never
  deleted, no two operations under one id change anything.
\<close>

locale logged_operation =
  fixes seen :: "'s \<Rightarrow> 'k \<Rightarrow> bool"
    and tx :: "'i \<Rightarrow> 'k"
    and op :: "'i \<Rightarrow> 's \<Rightarrow> 'e + 'r \<times> 's"
  assumes repeated: "seen s (tx i) \<Longrightarrow> op i s = Inr (r, t) \<Longrightarrow> t = s"
    and logged: "op i s = Inr (r, t) \<Longrightarrow> t \<noteq> s \<Longrightarrow> seen t (tx i)"
begin

lemma once:
  assumes "op i s = Inr (r, t)" and "t \<noteq> s" and "\<And>k. seen t k \<Longrightarrow> seen u k" and "tx j = tx i" and "op j u = Inr (q, v)"
  shows "v = u"
  using repeated [of u j q v] logged [OF assms(1,2)] assms(3-5) by simp

end

definition "lock_tx p = (lk_companyId p, lk_outletId p, lk_clientTxId p)" for p :: LockSessionInput
definition "close_tx p = (cl_companyId p, cl_outletId p, cl_clientTxId p)" for p :: CloseSessionInput
definition "add_tx p = (al_companyId p, al_outletId p, al_clientTxId p)" for p :: AddSessionLineInput
definition "update_tx p = (ul_companyId p, ul_outletId p, ul_clientTxId p)" for p :: UpdateSessionLineInput
definition "remove_tx p = (rl_companyId p, rl_outletId p, rl_clientTxId p)" for p :: RemoveSessionLineInput
definition "batch_tx p = (fb_companyId p, fb_outletId p, fb_clientTxId p)" for p :: FinalizeSessionBatchInput
definition "adjust_tx p = (aj_companyId p, aj_outletId p, aj_clientTxId p)" for p :: AdjustSessionLineInput

lemmas tx_defs = lock_tx_def close_tx_def add_tx_def update_tx_def remove_tx_def batch_tx_def adjust_tx_def

lemma seen_logged:
  "checkClientTxIdExists (take_key t (d\<lparr>table_events := es @
      [session_event_row i now c o' tb s ty tx ev by']\<rparr>)) c o' tx"
  by (simp add: checkClientTxIdExists_def event_tx_free_def take_key_def session_event_row_def)

interpretation locking: logged_operation event_seen lock_tx "lockSessionForPayment now" for now
  by unfold_locales
    (auto simp: lockSessionForPayment_def Let_def inr_simps tx_defs event_seen_iff seen_logged split: if_splits)

interpretation closing: logged_operation event_seen close_tx "closeSession later now" for later now
  by unfold_locales
    (auto simp: closeSession_def close_answer_def Let_def inr_simps tx_defs event_seen_iff seen_logged split: if_splits)

interpretation adding: logged_operation event_seen add_tx "addSessionLine now" for now
  by unfold_locales
    (auto simp: addSessionLine_def Let_def inr_simps tx_defs event_seen_iff seen_logged split: if_splits)

interpretation updating: logged_operation event_seen update_tx "updateSessionLine now" for now
  by unfold_locales
    (auto simp: updateSessionLine_def Let_def inr_simps tx_defs event_seen_iff seen_logged split: if_splits)

interpretation removing: logged_operation event_seen remove_tx "removeSessionLine now" for now
  by unfold_locales
    (auto simp: removeSessionLine_def Let_def inr_simps tx_defs event_seen_iff seen_logged split: if_splits)

interpretation adjusting: logged_operation event_seen adjust_tx "adjustSessionLine later now" for later now
  by unfold_locales
    (auto simp: adjustSessionLine_def Let_def inr_simps tx_defs event_seen_iff seen_logged split: if_splits)


lemma finalize_logged:
  "finalizeSessionBatch later now p d = Inr (r, d') \<Longrightarrow> d' = d \<or>
    (\<not> checkClientTxIdExists d (fb_companyId p) (fb_outletId p) (fb_clientTxId p) \<and>
     checkClientTxIdExists d' (fb_companyId p) (fb_outletId p) (fb_clientTxId p))"
  by (auto simp: finalizeSessionBatch_def finalize_lines_def Let_def inr_simps take_key_def session_event_row_def
      checkClientTxIdExists_def event_tx_free_def dest!: sync_Inr insert_checkpoint_Inr split: option.splits)

interpretation batching: logged_operation event_seen batch_tx "finalizeSessionBatch later now" for later now
  by unfold_locales (auto simp: tx_defs event_seen_iff dest: finalize_logged)

text \<open>The operations as steps, labelled with their company, outlet and transaction id.\<close>

inductive session_step :: "nat \<times> nat \<times> string \<Rightarrow> rdb \<Rightarrow> rdb \<Rightarrow> bool" where
  step_lock: "lockSessionForPayment now lk d = Inr (r, d') \<Longrightarrow> session_step (lock_tx lk) d d'"
| step_close: "closeSession later now cl d = Inr (r, d') \<Longrightarrow> session_step (close_tx cl) d d'"
| step_add: "addSessionLine now al d = Inr (l, d') \<Longrightarrow> session_step (add_tx al) d d'"
| step_update: "updateSessionLine now ul d = Inr (l, d') \<Longrightarrow> session_step (update_tx ul) d d'"
| step_remove: "removeSessionLine now rl d = Inr (b, d') \<Longrightarrow> session_step (remove_tx rl) d d'"
| step_batch: "finalizeSessionBatch later now fb d = Inr (f, d') \<Longrightarrow> session_step (batch_tx fb) d d'"
| step_adjust: "adjustSessionLine later now aj d = Inr (a, d') \<Longrightarrow> session_step (adjust_tx aj) d d'"

lemma session_step_repeated:
  assumes "session_step k d d'" and "event_seen d k"
  shows "d' = d"
  using assms
  by cases (auto dest: locking.repeated closing.repeated adding.repeated updating.repeated removing.repeated
      batching.repeated adjusting.repeated)

lemma session_step_logged:
  assumes "session_step k d d'" and "d' \<noteq> d"
  shows "event_seen d' k"
  using assms
  by cases (auto dest: locking.logged closing.logged adding.logged updating.logged removing.logged
      batching.logged adjusting.logged)

end
