(* ===== verification/Session_Freeze.thy ===== *)
theory Session_Freeze
  imports Session_Steps Bookings
begin

text \<open>
  The invariant of visits and what it gives.  Keys identify sessions and lines, and a session that
  is still active has no order of the point of sale linked to it; once a session is locked for
  payment or closed, its bill does not change any more.
\<close>

section \<open>Keys\<close>

definition visits_ok :: "rdb \<Rightarrow> bool" where
  "visits_ok d \<longleftrightarrow> distinct (map tss_id (table_service_sessions d)) \<and>
     (\<forall>s \<in> set (table_service_sessions d). tss_id s \<le> last_key d RT_session \<and>
       (tss_status_id s = SS_ACTIVE \<longrightarrow> tss_pos_order_snapshot_id s = None)) \<and>
     distinct (map tsl_id (session_lines d)) \<and>
     (\<forall>l \<in> set (session_lines d). tsl_id l \<le> last_key d RT_session_line)"

definition no_visits :: "rdb \<Rightarrow> bool" where
  "no_visits d \<longleftrightarrow> table_service_sessions d = [] \<and> session_lines d = []"

definition bill :: "rdb \<Rightarrow> nat \<Rightarrow> session_line_row list" where
  "bill d i = filter (\<lambda>l. tsl_session_id l = i) (session_lines d)"

definition later_visit :: "table_service_session_row \<Rightarrow> table_service_session_row \<Rightarrow> bool" where
  "later_visit s t \<longleftrightarrow> tss_id t = tss_id s \<and> tss_company_id t = tss_company_id s \<and>
     tss_outlet_id t = tss_outlet_id s \<and> tss_table_id t = tss_table_id s \<and> session_change_ok s t \<and>
     (tss_status_id s \<noteq> SS_ACTIVE \<or> tss_status_id t = SS_ACTIVE \<longrightarrow>
       tss_pos_order_snapshot_id t = tss_pos_order_snapshot_id s)"

definition frozen :: "rdb \<Rightarrow> rdb \<Rightarrow> bool" where
  "frozen d d' \<longleftrightarrow> (\<forall>s \<in> set (table_service_sessions d). \<exists>t \<in> set (table_service_sessions d'). later_visit s t \<and>
     (tss_status_id s \<noteq> SS_ACTIVE \<longrightarrow> bill d' (tss_id s) = bill d (tss_id s)))"

lemma session_change_refl [simp]: "session_change_ok s s"
  by (simp add: session_change_ok_def)

lemma later_visit_refl [simp]: "later_visit s s"
  by (simp add: later_visit_def)

lemma later_visit_trans: "later_visit s t \<Longrightarrow> later_visit t u \<Longrightarrow> later_visit s u"
  by (auto simp: later_visit_def session_change_ok_def)

lemma frozen_refl [simp]: "frozen d d"
  unfolding frozen_def by (blast intro: later_visit_refl)

lemma frozen_trans: "frozen d d' \<Longrightarrow> frozen d' d'' \<Longrightarrow> frozen d d''"
proof -
  assume a: "frozen d d'" "frozen d' d''"
  show ?thesis unfolding frozen_def
  proof
    fix s assume "s \<in> set (table_service_sessions d)"
    with a(1) obtain t where t: "t \<in> set (table_service_sessions d')" "later_visit s t"
      "tss_status_id s \<noteq> SS_ACTIVE \<longrightarrow> bill d' (tss_id s) = bill d (tss_id s)" by (auto simp: frozen_def)
    with a(2) obtain u where u: "u \<in> set (table_service_sessions d'')" "later_visit t u"
      "tss_status_id t \<noteq> SS_ACTIVE \<longrightarrow> bill d'' (tss_id t) = bill d' (tss_id t)" by (auto simp: frozen_def)
    from t(2) have "tss_id t = tss_id s" "tss_status_id s \<noteq> SS_ACTIVE \<longrightarrow> tss_status_id t \<noteq> SS_ACTIVE"
      by (auto simp: later_visit_def session_change_ok_def)
    with t(3) u(3) have "tss_status_id s \<noteq> SS_ACTIVE \<longrightarrow> bill d'' (tss_id s) = bill d (tss_id s)" by simp
    with u(1) later_visit_trans [OF t(2) u(2)] show "\<exists>t \<in> set (table_service_sessions d''). later_visit s t \<and>
       (tss_status_id s \<noteq> SS_ACTIVE \<longrightarrow> bill d'' (tss_id s) = bill d (tss_id s))" by blast
  qed
qed

section \<open>Shapes of steps\<close>

text \<open>
  A step changes sessions in place and may append new ones, and it changes the lines of one
  active session only.
\<close>

lemma step_shape:
  assumes ok: "visits_ok d"
    and sess: "table_service_sessions d' = map F (table_service_sessions d) @ new"
    and F: "\<And>s. s \<in> set (table_service_sessions d) \<Longrightarrow> later_visit s (F s)"
    and new: "map tss_id new = [Suc (last_key d RT_session) ..< Suc (last_key d RT_session) + length new]"
    and unlinked: "\<And>s. s \<in> set new \<Longrightarrow> tss_pos_order_snapshot_id s = None"
    and key: "last_key d' RT_session = last_key d RT_session + length new"
    and lines: "distinct (map tsl_id (session_lines d'))"
      "\<And>l. l \<in> set (session_lines d') \<Longrightarrow> tsl_id l \<le> last_key d' RT_session_line"
    and bills: "\<And>s. s \<in> set (table_service_sessions d) \<Longrightarrow> tss_status_id s \<noteq> SS_ACTIVE \<Longrightarrow>
      bill d' (tss_id s) = bill d (tss_id s)"
  shows "visits_ok d' \<and> frozen d d'"
proof
  have ids: "map tss_id (map F (table_service_sessions d)) = map tss_id (table_service_sessions d)"
    using F by (simp add: later_visit_def)
  have bound: "\<forall>i \<in> set (map tss_id (table_service_sessions d)). i \<le> last_key d RT_session"
    using ok by (auto simp: visits_ok_def)
  have "distinct (map tss_id (table_service_sessions d'))"
    unfolding sess map_append ids new using ok bound by (auto simp: visits_ok_def)
  moreover have "\<forall>i \<in> set (map tss_id (table_service_sessions d')). i \<le> last_key d' RT_session"
    unfolding sess map_append ids new key using bound by auto
  moreover have "tss_pos_order_snapshot_id s = None" if s: "s \<in> set (table_service_sessions d')"
    and active: "tss_status_id s = SS_ACTIVE" for s
  proof (cases "s \<in> set new")
    case False
    with s obtain r where r: "r \<in> set (table_service_sessions d)" "s = F r" by (auto simp: sess)
    with F [OF r(1)] active have "tss_status_id r = SS_ACTIVE" "tss_pos_order_snapshot_id s = tss_pos_order_snapshot_id r"
      by (auto simp: later_visit_def session_change_ok_def)
    with ok r(1) show ?thesis by (simp add: visits_ok_def)
  qed (rule unlinked)
  ultimately show "visits_ok d'" using lines by (auto simp: visits_ok_def)
  show "frozen d d'" unfolding frozen_def sess using F bills by auto
qed

lemma bill_update:
  assumes "\<And>l. l \<in> set ls \<Longrightarrow> P l \<Longrightarrow> tsl_session_id l = i \<and> tsl_session_id (f l) = i" and "j \<noteq> i"
  shows "filter (\<lambda>l. tsl_session_id l = j) (update_where P f ls) = filter (\<lambda>l. tsl_session_id l = j) ls"
  using assms by (induction ls) auto

lemma one_session:
  assumes "visits_ok d" and "s \<in> set (table_service_sessions d)" and "t \<in> set (table_service_sessions d)"
    and "tss_id s = tss_id t"
  shows "s = t"
  using assms distinct_map_eq [of tss_id "table_service_sessions d" s t] by (simp add: visits_ok_def)

lemma one_line:
  assumes "visits_ok d" and "l \<in> set (session_lines d)" and "k \<in> set (session_lines d)" and "tsl_id l = tsl_id k"
  shows "l = k"
  using assms distinct_map_eq [of tsl_id "session_lines d" l k] by (simp add: visits_ok_def)

text \<open>One active session, whose rows change in place.\<close>

lemma active_step:
  assumes ok: "visits_ok d" and s: "s \<in> set (table_service_sessions d)" "tss_id s = i" "tss_status_id s = SS_ACTIVE"
    and d': "visits d' = (update_where P f (session_lines d), last_key d RT_session_line,
      update_where Q g (table_service_sessions d), last_key d RT_session)"
    and P: "\<And>l. l \<in> set (session_lines d) \<Longrightarrow> P l \<Longrightarrow> tsl_session_id l = i"
    and f: "\<And>l. tsl_session_id (f l) = tsl_session_id l \<and> tsl_id (f l) = tsl_id l"
    and Q: "\<And>r. r \<in> set (table_service_sessions d) \<Longrightarrow> Q r \<Longrightarrow> tss_id r = i"
    and g: "\<And>r. tss_status_id r = SS_ACTIVE \<Longrightarrow> later_visit r (g r)"
  shows "visits_ok d' \<and> frozen d d'"
proof (rule step_shape [OF ok, of d' "\<lambda>r. if Q r then g r else r" "[]"])
  show "table_service_sessions d' = map (\<lambda>r. if Q r then g r else r) (table_service_sessions d) @ []"
    using d' by (simp add: visits_def update_where_def)
  fix r assume r: "r \<in> set (table_service_sessions d)"
  have eq: "r = s" if "tss_id r = i" using one_session [OF ok r s(1)] that s(2) by simp
  show "later_visit r (if Q r then g r else r)" using eq Q [OF r] g [of r] s(3) by auto
  show "bill d' (tss_id r) = bill d (tss_id r)" if "tss_status_id r \<noteq> SS_ACTIVE"
  proof -
    have "tss_id r \<noteq> i" using eq that s(3) by auto
    then show ?thesis using d' bill_update [of "session_lines d" P i f "tss_id r"] P f
      by (simp add: visits_def bill_def)
  qed
next
  have ids: "map tsl_id (session_lines d') = map tsl_id (session_lines d)"
    using d' f update_where_map_id [of P tsl_id f "session_lines d"] by (simp add: visits_def)
  then show "distinct (map tsl_id (session_lines d'))" using ok by (simp add: visits_ok_def)
  fix l assume "l \<in> set (session_lines d')"
  then have "tsl_id l \<in> set (map tsl_id (session_lines d))" by (metis ids image_eqI list.set_map)
  then show "tsl_id l \<le> last_key d' RT_session_line" using ok d' by (auto simp: visits_ok_def visits_def)
qed (use d' in \<open>simp_all add: visits_def\<close>)

section \<open>Each operation\<close>

lemma same_lines: "update_where (\<lambda>_. False) id ls = ls"
  by (rule update_where_no_match) simp

lemma session_of_id: "session_of c o' i s \<Longrightarrow> tss_id s = i"
  by (simp add: session_of_def)

lemma freeze_lock:
  assumes "visits_ok d" and "lockSessionForPayment now p d = Inr (r, d')"
  shows "visits_ok d' \<and> frozen d d'"
  using lock_effect [OF assms(2)]
proof (elim disjE exE conjE)
  fix s assume s: "s \<in> set (table_service_sessions d)"
    "session_of (lk_companyId p) (lk_outletId p) (lk_sessionId p) s" "tss_status_id s = SS_ACTIVE"
    and d': "visits d' = (session_lines d, last_key d RT_session_line,
      update_where (\<lambda>r. session_of (lk_companyId p) (lk_outletId p) (lk_sessionId p) r \<and> tss_status_id r = SS_ACTIVE)
        (lock_row now p) (table_service_sessions d), last_key d RT_session)"
  show ?thesis
    by (rule active_step [OF assms(1) s(1) session_of_id [OF s(2)] s(3), where P = "\<lambda>_. False" and f = id
        and Q = "\<lambda>r. session_of (lk_companyId p) (lk_outletId p) (lk_sessionId p) r \<and> tss_status_id r = SS_ACTIVE"
        and g = "lock_row now p"])
      (use d' in \<open>auto simp: same_lines later_visit_def lock_row_def session_change_ok_def dest: session_of_id\<close>)
qed (use assms(1) in simp)

lemma freeze_update:
  assumes "visits_ok d" and "updateSessionLine now p d = Inr (r, d')"
  shows "visits_ok d' \<and> frozen d d'"
  using update_effect [OF assms(2)]
proof (elim disjE exE conjE)
  fix s l assume s: "s \<in> set (table_service_sessions d)"
    "session_of (ul_companyId p) (ul_outletId p) (ul_sessionId p) s" "tss_status_id s = SS_ACTIVE"
    and l: "l \<in> set (session_lines d)" "tsl_id l = ul_lineId p" "tsl_session_id l = ul_sessionId p"
    and d': "visits d' = (update_where (\<lambda>l. tsl_id l = ul_lineId p) (updated_line now p (updated_total p l))
      (session_lines d), last_key d RT_session_line, table_service_sessions d, last_key d RT_session)"
  have "k = l" if "k \<in> set (session_lines d)" "tsl_id k = ul_lineId p" for k
    using one_line [OF assms(1) that(1) l(1)] that(2) l(2) by simp
  then show ?thesis
    using d' l(3)
    by (intro active_step [OF assms(1) s(1) session_of_id [OF s(2)] s(3), where Q = "\<lambda>_. False" and g = id
        and P = "\<lambda>l. tsl_id l = ul_lineId p" and f = "updated_line now p (updated_total p l)"])
      (simp_all add: update_where_no_match updated_line_def)
qed (use assms(1) in simp)

lemma adjust_line_keeps:
  "adjust_line now p l = Inr (f, ev) \<Longrightarrow> tsl_session_id (f k) = tsl_session_id k \<and> tsl_id (f k) = tsl_id k"
  by (auto simp: adjust_line_def cancelled_line_def reduced_line_def Let_def inr_simps split: adjust_action.splits)

lemma later_bump [simp]: "later_visit s (bump_session now u b s)"
  by (simp add: later_visit_def bump_session_def session_change_ok_def)

lemma freeze_adjust:
  assumes "visits_ok d" and "adjustSessionLine later now p d = Inr (r, d')"
  shows "visits_ok d' \<and> frozen d d'"
  using adjust_effect [OF assms(2)]
proof (elim disjE exE conjE)
  fix s l f ev assume s: "s \<in> set (table_service_sessions d)"
    "session_of (aj_companyId p) (aj_outletId p) (aj_sessionId p) s" "tss_status_id s = SS_ACTIVE"
    and l: "l \<in> set (session_lines d)" "tsl_id l = aj_lineId p" "tsl_session_id l = aj_sessionId p"
    and f: "adjust_line now p l = Inr (f, ev)"
    and d': "visits d' = (update_where (\<lambda>l. tsl_id l = aj_lineId p) f (session_lines d), last_key d RT_session_line,
      update_where (session_of (aj_companyId p) (aj_outletId p) (aj_sessionId p))
        (bump_session now (aj_updatedBy p) None) (table_service_sessions d), last_key d RT_session)"
  have "k = l" if "k \<in> set (session_lines d)" "tsl_id k = aj_lineId p" for k
    using one_line [OF assms(1) that(1) l(1)] that(2) l(2) by simp
  then show ?thesis
    by (intro active_step [OF assms(1) s(1) session_of_id [OF s(2)] s(3) d'])
      (use l(3) adjust_line_keeps [OF f] in \<open>auto simp: session_of_def\<close>)
qed (use assms(1) in simp)

lemma freeze_batch:
  assumes "visits_ok d" and "finalizeSessionBatch later now p d = Inr (r, d')"
  shows "visits_ok d' \<and> frozen d d'"
  using finalize_effect [OF assms(2)]
proof (elim disjE exE conjE)
  fix s assume s: "s \<in> set (table_service_sessions d)"
    "session_of (fb_companyId p) (fb_outletId p) (fb_sessionId p) s" "tss_status_id s = SS_ACTIVE"
    and d': "visits d' = (update_where (open_line (fb_sessionId p))
       (\<lambda>l. l\<lparr>tsl_batch_no := Some (Suc (tss_last_finalized_batch_no s)), tsl_line_state := LINE_FINALIZED,
          tsl_updated_at := now\<rparr>) (session_lines d),
      last_key d RT_session_line,
      update_where (session_of (fb_companyId p) (fb_outletId p) (fb_sessionId p))
        (bump_session now (fb_updatedBy p) (Some (Suc (tss_last_finalized_batch_no s)))) (table_service_sessions d),
      last_key d RT_session)"
  show ?thesis
    by (rule active_step [OF assms(1) s(1) session_of_id [OF s(2)] s(3) d'])
      (auto simp: session_of_def open_line_def)
qed (use assms(1) in simp)

text \<open>The other four change the lists of rows themselves, or a session that may be locked.\<close>

lemma unchanged_sessions:
  assumes "visits_ok d" and s: "s \<in> set (table_service_sessions d)" "tss_id s = i" "tss_status_id s = SS_ACTIVE"
    and d': "table_service_sessions d' = table_service_sessions d" "last_key d' RT_session = last_key d RT_session"
    and "distinct (map tsl_id (session_lines d'))"
    and "\<And>l. l \<in> set (session_lines d') \<Longrightarrow> tsl_id l \<le> last_key d' RT_session_line"
    and "\<And>j. j \<noteq> i \<Longrightarrow> bill d' j = bill d j"
  shows "visits_ok d' \<and> frozen d d'"
proof (rule step_shape [OF assms(1), of d' id "[]"])
  fix r assume "r \<in> set (table_service_sessions d)" and "tss_status_id r \<noteq> SS_ACTIVE"
  then have "tss_id r \<noteq> i" using one_session [OF assms(1) _ s(1), of r] s(2,3) by auto
  then show "bill d' (tss_id r) = bill d (tss_id r)" by (rule assms(9))
next
  show "table_service_sessions d' = map id (table_service_sessions d) @ []" by (simp add: d'(1))
  show "last_key d' RT_session = last_key d RT_session + length ([] :: table_service_session_row list)"
    by (simp add: d'(2))
qed (use assms(7,8) in simp_all)

lemma freeze_add:
  assumes "visits_ok d" and "addSessionLine now p d = Inr (r, d')"
  shows "visits_ok d' \<and> frozen d d'"
  using add_effect [OF assms(2)]
proof (elim disjE exE conjE)
  fix s assume s: "s \<in> set (table_service_sessions d)"
    "session_of (al_companyId p) (al_outletId p) (al_sessionId p) s" "tss_status_id s = SS_ACTIVE"
    and d': "visits d' = (session_lines d @ [new_line (new_key d RT_session_line) (next_line_number d (al_sessionId p)) now p
        (line_total (al_quantity p) (al_unitPrice p) (or_else 0 (al_discountAmount p)) (or_else 0 (al_taxAmount p)))],
      Suc (last_key d RT_session_line), table_service_sessions d, last_key d RT_session)"
  show ?thesis
    by (rule unchanged_sessions [OF assms(1) s(1) session_of_id [OF s(2)] s(3)])
      (use d' assms(1) in \<open>fastforce simp: visits_def visits_ok_def new_line_def new_key_def bill_def\<close>)+
qed (use assms(1) in simp)

lemma freeze_remove:
  assumes "visits_ok d" and "removeSessionLine now p d = Inr (r, d')"
  shows "visits_ok d' \<and> frozen d d'"
  using remove_effect [OF assms(2)]
proof (elim disjE exE conjE)
  fix s l assume s: "s \<in> set (table_service_sessions d)"
    "session_of (rl_companyId p) (rl_outletId p) (rl_sessionId p) s" "tss_status_id s = SS_ACTIVE"
    and l: "l \<in> set (session_lines d)" "tsl_id l = rl_lineId p" "tsl_session_id l = rl_sessionId p"
    and d': "visits d' = (filter (\<lambda>l. tsl_id l \<noteq> rl_lineId p) (session_lines d),
      last_key d RT_session_line, table_service_sessions d, last_key d RT_session)"
  have "k = l" if "k \<in> set (session_lines d)" "tsl_id k = rl_lineId p" for k
    using one_line [OF assms(1) that(1) l(1)] that(2) l(2) by simp
  then have "bill d' j = bill d j" if "j \<noteq> rl_sessionId p" for j
    using d' l(3) that by (auto simp: visits_def bill_def intro: filter_cong)
  then show ?thesis
    by (intro unchanged_sessions [OF assms(1) s(1) session_of_id [OF s(2)] s(3)])
      (use d' assms(1) in \<open>auto simp: visits_def visits_ok_def distinct_map inj_on_def\<close>)
qed (use assms(1) in simp)

lemma freeze_close:
  assumes "visits_ok d" and "closeSession later now p d = Inr (r, d')"
  shows "visits_ok d' \<and> frozen d d'"
  using close_effect [OF assms(2)]
proof (elim disjE exE conjE)
  let ?Q = "session_of (cl_companyId p) (cl_outletId p) (cl_sessionId p)"
  assume trig: "\<forall>s \<in> set (table_service_sessions d). ?Q s \<longrightarrow> session_change_ok s (close_row now p s)"
    and d': "visits d' = (session_lines d, last_key d RT_session_line,
      update_where ?Q (close_row now p) (table_service_sessions d), last_key d RT_session)"
  show ?thesis
    by (rule step_shape [OF assms(1), of d' "\<lambda>r. if ?Q r then close_row now p r else r" "[]"])
      (use d' trig assms(1) in \<open>auto simp: visits_def visits_ok_def update_where_def bill_def later_visit_def
        close_row_def session_change_ok_def\<close>)
qed (use assms(1) in simp)

section \<open>Seating and releasing\<close>

definition goes_on :: "rdb \<Rightarrow> rdb \<Rightarrow> bool" where
  "goes_on d d' \<longleftrightarrow> (visits_ok d \<longrightarrow> visits_ok d' \<and> frozen d d')"

lemma goes_on_trans: "goes_on d d' \<Longrightarrow> goes_on d' d'' \<Longrightarrow> goes_on d d''"
  by (auto simp: goes_on_def intro: frozen_trans)

lemma goes_on_visits: "visits d' = visits d \<Longrightarrow> goes_on d d'"
  unfolding goes_on_def by (auto simp: visits_def visits_ok_def frozen_def bill_def intro: later_visit_refl)

lemma goes_on_insert: "insert_session now inp d = Inr (i, d') \<Longrightarrow> goes_on d d'"
  unfolding goes_on_def insert_session_Inr
proof (intro impI, elim conjE)
  assume ok: "visits_ok d"
    and d': "d' = take_key RT_session (d\<lparr>table_service_sessions := table_service_sessions d @ [session_row i now inp]\<rparr>)"
    "i = new_key d RT_session"
  show "visits_ok d' \<and> frozen d d'"
    by (rule step_shape [OF ok, of d' id "[session_row i now inp]"])
      (use ok in \<open>auto simp: d' take_key_def session_row_def new_key_def bill_def visits_ok_def\<close>)
qed

lemma goes_on_close_session: "close_session now by' P d = Inr (u, d') \<Longrightarrow> goes_on d d'"
  unfolding goes_on_def
proof
  assume ok: "visits_ok d" and run: "close_session now by' P d = Inr (u, d')"
  from run have trig: "\<forall>s \<in> set (table_service_sessions d). P s \<longrightarrow> session_change_ok s (close_session_row now by' s)"
    and d': "d' = d\<lparr>table_service_sessions := update_where P (close_session_row now by') (table_service_sessions d)\<rparr>"
    by (auto simp: close_session_def checked_update_def inr_simps split: if_splits)
  show "visits_ok d' \<and> frozen d d'"
    by (rule step_shape [OF ok, of d' "\<lambda>r. if P r then close_session_row now by' r else r" "[]"])
      (use ok trig in \<open>auto simp: d' update_where_def bill_def visits_ok_def later_visit_def close_session_row_def\<close>)
qed

lemma goes_on_occupancy: "update_occupancy aff e c o' t v f d = Inr (u, d') \<Longrightarrow> goes_on d d'"
  by (rule goes_on_visits) (auto simp: update_occupancy_def inr_simps visits_def split: prod.splits)

lemma goes_on_log: "logTableEventWithKysely tx now e d = Inr (u, d') \<Longrightarrow> goes_on d d'"
  by (rule goes_on_visits) (auto simp: logTableEventWithKysely_def inr_simps visits_def take_key_def)

lemmas goes_on_parts = goes_on_insert goes_on_close_session goes_on_occupancy goes_on_log

lemma goes_on_seat: "seatTable aff tx now inp d = Inr (r, d') \<Longrightarrow> goes_on d d'"
  unfolding seatTable_def seat_write_def bindR_Inr
  by (auto simp: bindR_Inr dest!: goes_on_parts intro: goes_on_trans)

lemma goes_on_release: "releaseTable aff tx now inp d = Inr (r, d') \<Longrightarrow> goes_on d d'"
  unfolding releaseTable_def release_write_def bindR_Inr
  by (auto simp: bindR_Inr dest!: goes_on_parts split: option.splits) (blast intro: goes_on_trans)+

lemma goes_on_hold: "holdTable aff tx now inp d = Inr (r, d') \<Longrightarrow> goes_on d d'"
  unfolding holdTable_def hold_write_def bindR_Inr
  by (auto simp: bindR_Inr dest!: goes_on_parts intro: goes_on_trans)

lemma goes_on_plain:
  "holdTableWithKysely aff tx now hi d = Inr (u, d') \<Longrightarrow> goes_on d d'"
  "seatTableWithKysely aff tx now si d = Inr (u, d') \<Longrightarrow> goes_on d d'"
  "releaseTableWithKysely aff tx now ri d = Inr (u, d') \<Longrightarrow> goes_on d d'"
  unfolding holdTableWithKysely_def seatTableWithKysely_def releaseTableWithKysely_def bindR_Inr
  by (auto simp: bindR_Inr dest!: goes_on_parts intro: goes_on_trans split: option.splits)

lemma goes_on_release_if_held: "release_if_held aff tx now c i inp cur t d = Inr (u, d') \<Longrightarrow> goes_on d d'"
  by (auto simp: release_if_held_def split: option.splits if_splits
      intro: goes_on_plain goes_on_visits)

lemma goes_on_table_effect: "table_effect aff tx now c i inp cur tableId d = Inr (u, d') \<Longrightarrow> goes_on d d'"
  by (auto simp: table_effect_def inr_simps split: option.splits if_splits
      intro: goes_on_plain goes_on_release_if_held goes_on_visits)

lemma goes_on_status:
  assumes "updateReservationStatus aff tx now c i inp d = Inr (rec, d')"
  shows "goes_on d d'"
proof -
  from assms obtain cur u d1 where
    "table_effect aff tx now c i inp cur (keep (us_tableId inp) (rr_tableId cur)) d = Inr (u, d1)"
    and "visits d' = visits d1"
    by (auto simp: updateReservationStatus_def inr_simps Let_def visits_def)
  then show ?thesis by (blast intro: goes_on_trans goes_on_table_effect goes_on_visits)
qed

section \<open>Synchronising\<close>

text \<open>
  An event of a point of sale may open or close a session or change its number of guests; it
  leaves the lines of every session alone.
\<close>

lemma goes_on_change_occupancy: "change_occupancy c o' t f d = Inr (u, d') \<Longrightarrow> goes_on d d'"
  by (rule goes_on_visits) (auto simp: change_occupancy_def inr_simps visits_def split: prod.splits)

lemma goes_on_updateOccupancy: "updateOccupancy now p d = Inr (u, d') \<Longrightarrow> goes_on d d'"
  by (auto simp: updateOccupancy_def inr_simps Let_def take_key_def visits_def
      intro: goes_on_change_occupancy goes_on_visits split: option.splits)

lemma goes_on_guests: "change_guests x n i d = Inr (u, d') \<Longrightarrow> goes_on d d'"
  unfolding goes_on_def
proof
  let ?f = "guests_changed (sa_now x) (sa_actorId x) n"
  assume ok: "visits_ok d" and run: "change_guests x n i d = Inr (u, d')"
  from run have d': "d' = d\<lparr>table_service_sessions := update_where (session_here x i) ?f (table_service_sessions d)\<rparr>"
    by (auto simp: change_guests_def checked_update_def inr_simps split: if_splits)
  show "visits_ok d' \<and> frozen d d'"
    by (rule step_shape [OF ok, of d' "\<lambda>r. if session_here x i r then ?f r else r" "[]"])
      (use ok in \<open>auto simp: d' update_where_def bill_def visits_ok_def later_visit_def guests_changed_def
        session_change_ok_def\<close>)
qed

lemma goes_on_log_synced: "log_synced x e v after conflict d = Inr d' \<Longrightarrow> goes_on d d'"
  by (rule goes_on_visits) (auto simp: log_synced_def inr_simps take_key_def visits_def)

lemmas goes_on_sync = goes_on_insert goes_on_close_session goes_on_change_occupancy goes_on_updateOccupancy
  goes_on_guests

lemma goes_on_apply_event:
  assumes "apply_event k x p d = Inr (after, d')"
  shows "goes_on d d'"
proof -
  have "apply_opened x p d = Inr (after, d') \<Longrightarrow> goes_on d d'"
    unfolding apply_opened_def Let_def by (auto simp: bindR_Inr dest!: goes_on_sync intro: goes_on_trans)
  moreover have "apply_closed x p d = Inr (after, d') \<Longrightarrow> goes_on d d'"
    unfolding apply_closed_def resetOccupancy_def
    by (auto simp: bindR_Inr dest!: goes_on_sync intro: goes_on_trans split: option.splits)
  moreover have "apply_reserved x p d = Inr (after, d') \<Longrightarrow> goes_on d d'"
    unfolding apply_reserved_def Let_def by (auto simp: bindR_Inr dest!: goes_on_sync)
  moreover have "apply_status x p d = Inr (after, d') \<Longrightarrow> goes_on d d'"
    unfolding apply_status_def by (auto simp: bindR_Inr dest!: goes_on_sync)
  moreover have "apply_guests x p d = Inr (after, d') \<Longrightarrow> goes_on d d'"
    unfolding apply_guests_def
    by (auto simp: bindR_Inr dest!: goes_on_sync intro: goes_on_trans split: option.splits)
  moreover have "apply_transferred x p d = Inr (after, d') \<Longrightarrow> goes_on d d'"
    by (simp add: apply_transferred_def inr_simps)
  moreover have "apply_unknown k x p d = Inr (after, d') \<Longrightarrow> goes_on d d'"
    unfolding apply_unknown_def by (auto simp: bindR_Inr dest!: goes_on_sync)
  ultimately show ?thesis using assms by (simp add: apply_event_def split: if_splits)
qed

lemma goes_on_transaction:
  "applyTableEventWithTransaction now c o' u t e d = Inr (r, d') \<Longrightarrow> goes_on d d'"
  unfolding applyTableEventWithTransaction_def Let_def
  by (auto simp: bindR_Inr dest!: goes_on_log_synced goes_on_apply_event intro: goes_on_trans split: if_splits)

lemma goes_on_push_event: "push_event now c o' u e d = (r, d') \<Longrightarrow> goes_on d d'"
  by (auto simp: push_event_def Let_def intro: goes_on_transaction goes_on_visits split: if_splits sum.splits)

lemma goes_on_push: "pushTableEvents now c o' u es d = (rs, d') \<Longrightarrow> goes_on d d'"
proof (induction es arbitrary: d rs)
  case (Cons e es)
  obtain r d1 where one: "push_event now c o' u e d = (r, d1)" by fastforce
  obtain rs' d2 where rest: "pushTableEvents now c o' u es d1 = (rs', d2)" by fastforce
  from Cons.prems one rest have rest': "pushTableEvents now c o' u es d1 = (rs', d')" by simp
  with Cons.IH [OF rest'] goes_on_push_event [OF one] show ?case by (blast intro: goes_on_trans)
qed (simp add: goes_on_visits)

section \<open>Steps\<close>

text \<open>
  The steps on visits.  The last one stands for the operations of the module that touch neither
  sessions nor their lines.
\<close>

inductive visit_step :: "rdb \<Rightarrow> rdb \<Rightarrow> bool" where
  on_session: "session_step k d d' \<Longrightarrow> visit_step d d'"
| on_hold: "holdTable aff tx now hi d = Inr (hr, d') \<Longrightarrow> visit_step d d'"
| on_seat: "seatTable aff tx now si d = Inr (sr, d') \<Longrightarrow> visit_step d d'"
| on_release: "releaseTable aff tx now ri d = Inr (rr, d') \<Longrightarrow> visit_step d d'"
| on_status: "updateReservationStatus aff tx now c i us d = Inr (rec, d') \<Longrightarrow> visit_step d d'"
| on_sync: "pushTableEvents now c o' u es d = (prs, d') \<Longrightarrow> visit_step d d'"
| elsewhere: "visits d' = visits d \<Longrightarrow> visit_step d d'"

lemma goes_on_session: "session_step k d d' \<Longrightarrow> goes_on d d'"
  unfolding goes_on_def
  by (cases rule: session_step.cases)
    (auto dest: freeze_lock freeze_close freeze_add freeze_update freeze_remove freeze_batch freeze_adjust)

lemma goes_on_step: "visit_step d d' \<Longrightarrow> goes_on d d'"
  by (cases rule: visit_step.cases)
    (auto intro: goes_on_session goes_on_hold goes_on_seat goes_on_release goes_on_status goes_on_push goes_on_visits)

interpretation visiting: step_invariant no_visits visit_step visits_ok
proof
  show "no_visits d \<Longrightarrow> visits_ok d" for d by (simp add: no_visits_def visits_ok_def)
  show "visits_ok d \<Longrightarrow> visit_step d d' \<Longrightarrow> visits_ok d'" for d d'
    using goes_on_step by (auto simp: goes_on_def)
qed

lemma frozen_steps: "visit_step\<^sup>*\<^sup>* d d' \<Longrightarrow> visits_ok d \<Longrightarrow> frozen d d'"
proof (induction rule: rtranclp_induct)
  case (step d1 d2)
  then have "goes_on d1 d2" "visits_ok d1" by (auto intro: goes_on_step visiting.kept)
  with step show ?case by (auto simp: goes_on_def intro: frozen_trans)
qed simp

end
