(* ===== verification/Session_Properties.thy ===== *)
theory Session_Properties
  imports Session_Freeze Sample_Reservations
begin

text \<open>The properties of service sessions.\<close>

section \<open>A visit to run on\<close>

definition visit_start :: rdb where
  "visit_start = sample_rdb\<lparr>items := [\<lparr>it_id = 7, it_company_id = 1\<rparr>],
     pos_order_snapshots := [\<lparr>pos_order_id = ''S1'', pos_company_id = 1, pos_outlet_id = 1, pos_closed_at = None,
       pos_is_finalized = False, pos_order_state = ''OPEN'', pos_order_status = ''OPEN'',
       pos_service_type = ''DINE_IN'', pos_table_id = Some 3, pos_updated_at = 0\<rparr>]\<rparr>"

definition visit_seat :: SeatTableInput where
  "visit_seat = \<lparr>si_companyId = 1, si_outletId = 1, si_tableId = 3, si_guestCount = 2, si_guestName = None,
     si_reservationId = Some 1, si_notes = None, si_expectedVersion = 1, si_createdBy = ''7''\<rparr>"

definition visit_order :: AddSessionLineInput where
  "visit_order = \<lparr>al_companyId = 1, al_outletId = 1, al_sessionId = 1, al_productId = 7, al_productName = ''Tea'',
     al_productSku = None, al_quantity = 2, al_unitPrice = 10, al_discountAmount = None, al_taxAmount = None,
     al_notes = None, al_createdBy = ''7'', al_clientTxId = ''t1''\<rparr>"

definition visit_lock :: LockSessionInput where
  "visit_lock = \<lparr>lk_companyId = 1, lk_outletId = 1, lk_sessionId = 1, lk_clientTxId = ''t2'',
     lk_posOrderSnapshotId = Some ''S1'', lk_notes = None, lk_updatedBy = ''7''\<rparr>"

definition visit_close :: CloseSessionInput where
  "visit_close = \<lparr>cl_companyId = 1, cl_outletId = 1, cl_sessionId = 1, cl_clientTxId = ''t3'', cl_notes = None,
     cl_updatedBy = ''7''\<rparr>"

text \<open>The guests are seated, order, and the session is locked and closed.\<close>

lemma whole_visit:
  obtains a d1 b d2 c d3 e d4 where "seatTable Some ''t0'' 0 visit_seat visit_start = Inr (a, d1)"
    and "addSessionLine 1 visit_order d1 = Inr (b, d2)" and "lockSessionForPayment 2 visit_lock d2 = Inr (c, d3)"
    and "closeSession (\<lambda>x y. x) 3 visit_close d3 = Inr (e, d4)"
    and "map (\<lambda>s. (tss_id s, tss_status_id s)) (table_service_sessions d2) = [(1, SS_ACTIVE)]"
    and "map (\<lambda>s. (tss_id s, tss_status_id s)) (table_service_sessions d3) = [(1, SS_LOCKED)]"
    and "map (\<lambda>s. (tss_id s, tss_status_id s)) (table_service_sessions d4) = [(1, SS_CLOSED)]"
    and "map tsl_line_total (bill d3 1) = [200000]" and "\<exists>q u. lockSessionForPayment 5 visit_lock d3 = Inr (q, u)"
    and "session_lines d1 = []" and "map (\<lambda>l. (tsl_id l, tsl_unit_price l, tsl_discount_amount l, tsl_tax_amount l, tsl_quantity l)) (session_lines d2) =
      [(1, 100000, 0, 0, 2)]"
    and "session_checkpoints d2 = []" and "map psl_unit_price_snapshot (snapshot_lines d4) = [1000]"
proof -
  have "case seatTable Some ''t0'' 0 visit_seat visit_start of Inl _ \<Rightarrow> False
    | Inr (_, d1) \<Rightarrow> (case addSessionLine 1 visit_order d1 of Inl _ \<Rightarrow> False
    | Inr (_, d2) \<Rightarrow> session_lines d1 = [] \<and>
      map (\<lambda>l. (tsl_id l, tsl_unit_price l, tsl_discount_amount l, tsl_tax_amount l, tsl_quantity l)) (session_lines d2) =
        [(1, 100000, 0, 0, 2)] \<and>
      map (\<lambda>s. (tss_id s, tss_status_id s)) (table_service_sessions d2) = [(1, SS_ACTIVE)] \<and>
      (case lockSessionForPayment 2 visit_lock d2 of Inl _ \<Rightarrow> False
    | Inr (_, d3) \<Rightarrow> map (\<lambda>s. (tss_id s, tss_status_id s)) (table_service_sessions d3) = [(1, SS_LOCKED)] \<and>
      map tsl_line_total (bill d3 1) = [200000] \<and>
      (case lockSessionForPayment 5 visit_lock d3 of Inl _ \<Rightarrow> False | Inr (_, _) \<Rightarrow> True) \<and> session_checkpoints d2 = [] \<and>
      (case closeSession (\<lambda>x y. x) 3 visit_close d3 of Inl _ \<Rightarrow> False
    | Inr (_, d4) \<Rightarrow> map (\<lambda>s. (tss_id s, tss_status_id s)) (table_service_sessions d4) = [(1, SS_CLOSED)] \<and>
      map psl_unit_price_snapshot (snapshot_lines d4) = [1000])))"
    by code_simp
  then show thesis unfolding case_run_iff by (elim exE conjE) (rule that, blast+)
qed

lemma visit_start_empty: "no_visits visit_start"
  by (simp add: no_visits_def visit_start_def sample_rdb_def)

lemma sample_visit:
  obtains d1 d2 d3 d4 where "visit_step\<^sup>*\<^sup>* visit_start d2" and "visit_step\<^sup>*\<^sup>* d2 d3" and "visit_step\<^sup>*\<^sup>* d3 d4"
    and "map (\<lambda>s. (tss_id s, tss_status_id s)) (table_service_sessions d2) = [(1, SS_ACTIVE)]"
    and "map (\<lambda>s. (tss_id s, tss_status_id s)) (table_service_sessions d3) = [(1, SS_LOCKED)]"
    and "map (\<lambda>s. (tss_id s, tss_status_id s)) (table_service_sessions d4) = [(1, SS_CLOSED)]"
    and "map tsl_line_total (bill d3 1) = [200000]" and "session_checkpoints d2 = []"
    and "\<exists>r. lockSessionForPayment 2 visit_lock d2 = Inr (r, d3)"
    and "\<exists>q u. lockSessionForPayment 5 visit_lock d3 = Inr (q, u)"
    and "\<exists>r. closeSession (\<lambda>x y. x) 3 visit_close d3 = Inr (r, d4)"
proof (rule whole_visit)
  fix a d1 b d2 c d3 e d4
  assume run: "seatTable Some ''t0'' 0 visit_seat visit_start = Inr (a, d1)" "addSessionLine 1 visit_order d1 = Inr (b, d2)"
    "lockSessionForPayment 2 visit_lock d2 = Inr (c, d3)" "closeSession (\<lambda>x y. x) 3 visit_close d3 = Inr (e, d4)"
    and rows: "map (\<lambda>s. (tss_id s, tss_status_id s)) (table_service_sessions d2) = [(1, SS_ACTIVE)]"
    "map (\<lambda>s. (tss_id s, tss_status_id s)) (table_service_sessions d3) = [(1, SS_LOCKED)]"
    "map (\<lambda>s. (tss_id s, tss_status_id s)) (table_service_sessions d4) = [(1, SS_CLOSED)]"
    "map tsl_line_total (bill d3 1) = [200000]" "session_checkpoints d2 = []"
    "\<exists>q u. lockSessionForPayment 5 visit_lock d3 = Inr (q, u)"
  have "visit_step visit_start d1" "visit_step d1 d2" "visit_step d2 d3" "visit_step d3 d4"
    using on_seat [OF run(1)] on_session [OF step_add [OF run(2)]] on_session [OF step_lock [OF run(3)]]
      on_session [OF step_close [OF run(4)]] by blast+
  with rows run(3,4) show thesis by (intro that [of d2 d3 d4]) auto
qed

section \<open>Once locked\<close>

text \<open>
  C3: From the moment a service session is locked for payment, whatever operations of the module
  follow (seating, holding and releasing tables, changing reservations and applying the events of
  a point of sale included): the session stays in the tables and at its table, its status only
  goes from locked to closed, its link to the order of the point of sale does not change, and no
  line is added to its bill, changed on it or removed from it.  What is not kept is its number of
  guests, which a pushed event changes in a locked session as well.
\<close>

theorem session_frozen:
  assumes "no_visits d0" and "visit_step\<^sup>*\<^sup>* d0 d" and "visit_step\<^sup>*\<^sup>* d d'"
    and "s \<in> set (table_service_sessions d)" and "tss_status_id s \<noteq> SS_ACTIVE"
  shows "(\<exists>t \<in> set (table_service_sessions d'). tss_id t = tss_id s \<and> tss_table_id t = tss_table_id s \<and>
      (tss_status_id t = tss_status_id s \<or> tss_status_id s = SS_LOCKED \<and> tss_status_id t = SS_CLOSED) \<and>
      tss_pos_order_snapshot_id t = tss_pos_order_snapshot_id s) \<and>
    bill d' (tss_id s) = bill d (tss_id s)"
proof -
  have "frozen d d'" using assms(1-3) by (intro frozen_steps visiting.reachable)
  then obtain t where "t \<in> set (table_service_sessions d')" and "later_visit s t"
    and "bill d' (tss_id s) = bill d (tss_id s)" using assms(4,5) by (auto simp: frozen_def)
  then show ?thesis using assms(5) by (auto simp: later_visit_def session_change_ok_def)
qed

theorem session_frozen_witness:
  "\<exists>d d' s. visit_step\<^sup>*\<^sup>* visit_start d \<and> visit_step\<^sup>*\<^sup>* d d' \<and> s \<in> set (table_service_sessions d) \<and>
     tss_status_id s = SS_LOCKED \<and> map tsl_line_total (bill d (tss_id s)) = [200000] \<and>
     map tss_status_id (table_service_sessions d') = [SS_CLOSED] \<and> bill d' (tss_id s) = bill d (tss_id s)"
proof (rule sample_visit)
  fix d1 d2 d3 d4
  assume run: "visit_step\<^sup>*\<^sup>* visit_start d2" "visit_step\<^sup>*\<^sup>* d2 d3" "visit_step\<^sup>*\<^sup>* d3 d4"
    and rows: "map (\<lambda>s. (tss_id s, tss_status_id s)) (table_service_sessions d3) = [(1, SS_LOCKED)]"
    "map (\<lambda>s. (tss_id s, tss_status_id s)) (table_service_sessions d4) = [(1, SS_CLOSED)]"
    "map tsl_line_total (bill d3 1) = [200000]"
  from rows(1) obtain s where s: "table_service_sessions d3 = [s]" "tss_id s = 1" "tss_status_id s = SS_LOCKED"
    by (auto simp: map_eq_Cons_conv)
  from rows(2) have "map tss_status_id (table_service_sessions d4) = [SS_CLOSED]"
    by (auto simp: map_eq_Cons_conv)
  with session_frozen [OF visit_start_empty rtranclp_trans [OF run(1,2)] run(3), of s] s rows(3)
    rtranclp_trans [OF run(1,2)] run(3)
  show ?thesis by (intro exI [of _ d3] exI [of _ d4] exI [of _ s]) simp
qed

section \<open>Batches and closing\<close>

text \<open>
  C12: An order of the point of sale is linked to a session by locking it only, and a locked session
  is never unlocked.  As a batch of lines is finalized only in an active session with a linked
  order, no state that the module reaches lets a batch be finalized: every request for one that is
  not a repetition fails.
\<close>

theorem batches_refused:
  assumes "no_visits d0" and "visit_step\<^sup>*\<^sup>* d0 d" and "find_checkpoint d p = None"
  shows "\<exists>e. finalizeSessionBatch later now p d = Inl e"
proof (cases "finalizeSessionBatch later now p d")
  case (Inr r)
  have ok: "visits_ok d" using assms(1,2) by (rule visiting.reachable)
  from Inr assms(3) obtain s t where "getSessionWithConnection d (fb_companyId p) (fb_outletId p) (fb_sessionId p) = Some (s, t)"
    and "tss_status_id s = SS_ACTIVE" and "truthy_str (tss_pos_order_snapshot_id s) \<noteq> None"
    by (auto simp: finalizeSessionBatch_def require_active_def Let_def inr_simps split: sum.splits)
  with ok have False by (auto simp: visits_ok_def truthy_str_def dest!: getSession_Some)
  then show ?thesis ..
qed simp

definition visit_batch :: FinalizeSessionBatchInput where
  "visit_batch = \<lparr>fb_companyId = 1, fb_outletId = 1, fb_sessionId = 1, fb_clientTxId = ''t9'', fb_notes = None,
     fb_updatedBy = ''7''\<rparr>"

theorem batches_refused_witness:
  "\<exists>d. visit_step\<^sup>*\<^sup>* visit_start d \<and> map tss_status_id (table_service_sessions d) = [SS_ACTIVE] \<and>
     (\<exists>e. finalizeSessionBatch (\<lambda>x y. x) 2 visit_batch d = Inl e)"
proof (rule sample_visit)
  fix d1 d2 d3 d4
  assume run: "visit_step\<^sup>*\<^sup>* visit_start d2"
    and rows: "map (\<lambda>s. (tss_id s, tss_status_id s)) (table_service_sessions d2) = [(1, SS_ACTIVE)]"
    and none: "session_checkpoints d2 = []"
  from none have "find_checkpoint d2 visit_batch = None" by (simp add: find_checkpoint_def)
  with batches_refused [OF visit_start_empty run] run rows show ?thesis
    by (intro exI [of _ d2]) (auto simp: map_eq_Cons_conv)
qed

lemma closed_rows:
  assumes "closeSession later now p d = Inr (r, d')"
    and "\<not> checkClientTxIdExists d (cl_companyId p) (cl_outletId p) (cl_clientTxId p)"
  shows "\<forall>s \<in> set (table_service_sessions d'). session_of (cl_companyId p) (cl_outletId p) (cl_sessionId p) s \<longrightarrow>
      tss_status_id s = SS_CLOSED"
    and "sv_statusId r = SS_CLOSED"
proof -
  from assms obtain st where rows: "table_service_sessions d' = update_where (session_of (cl_companyId p) (cl_outletId p) (cl_sessionId p))
      (close_row now p) (table_service_sessions d)"
    and st: "getSessionWithConnection d' (cl_companyId p) (cl_outletId p) (cl_sessionId p) = Some st"
    and r: "r = mapDbRowToServiceSession st (getSessionLinesWithConnection d' (cl_sessionId p))"
    by (auto simp: closeSession_def Let_def inr_simps take_key_def
      dest!: finalize_snapshot_Inr free_table_Inr sync_Inr)
  show closed: "\<forall>s \<in> set (table_service_sessions d'). session_of (cl_companyId p) (cl_outletId p) (cl_sessionId p) s \<longrightarrow>
      tss_status_id s = SS_CLOSED"
    unfolding rows update_where_def by (auto simp: close_row_def session_of_def)
  obtain s t where "st = (s, t)" by (cases st)
  with getSession_Some [of d' _ _ _ s t] st closed show "sv_statusId r = SS_CLOSED"
    unfolding r by (auto simp: mapDbRowToServiceSession_def)
qed

text \<open>
  A session that is closed was locked for payment first and has an order of the point of sale
  linked to it: \<open>closeSession\<close>, which accepts active sessions by its status check, closes none
  that the module can reach.
\<close>

theorem closed_after_lock:
  assumes "no_visits d0" and "visit_step\<^sup>*\<^sup>* d0 d" and "closeSession later now p d = Inr (r, d')"
    and "\<not> checkClientTxIdExists d (cl_companyId p) (cl_outletId p) (cl_clientTxId p)"
  shows "\<exists>s snapshotId. s \<in> set (table_service_sessions d) \<and> tss_id s = cl_sessionId p \<and> tss_status_id s = SS_LOCKED \<and>
    tss_pos_order_snapshot_id s = Some snapshotId \<and> snapshotId \<noteq> [] \<and> sv_statusId r = SS_CLOSED"
proof -
  have ok: "visits_ok d" using assms(1,2) by (rule visiting.reachable)
  from assms(3,4) obtain s t where s: "getSessionWithConnection d (cl_companyId p) (cl_outletId p) (cl_sessionId p) = Some (s, t)"
    "tss_status_id s \<in> {SS_ACTIVE, SS_LOCKED}" "truthy_str (tss_pos_order_snapshot_id s) \<noteq> None"
    by (auto simp: closeSession_def Let_def inr_simps)
  have "s \<in> set (table_service_sessions d)" "tss_id s = cl_sessionId p" using getSession_Some [OF s(1)] by (auto simp: session_of_def)
  moreover from this s ok have "tss_status_id s = SS_LOCKED" by (auto simp: visits_ok_def truthy_str_def)
  moreover have "sv_statusId r = SS_CLOSED" by (rule closed_rows [OF assms(3,4)])
  ultimately show ?thesis using s(3) by (auto simp: truthy_str_def split: option.splits if_splits)
qed

theorem closed_after_lock_witness:
  "\<exists>d d' r s. visit_step\<^sup>*\<^sup>* visit_start d \<and> closeSession (\<lambda>x y. x) 3 visit_close d = Inr (r, d') \<and>
     table_service_sessions d = [s] \<and> tss_status_id s = SS_LOCKED \<and> sv_statusId r = SS_CLOSED"
proof (rule sample_visit)
  fix d1 d2 d3 d4
  assume run: "visit_step\<^sup>*\<^sup>* visit_start d2" "visit_step\<^sup>*\<^sup>* d2 d3"
    and rows: "map (\<lambda>s. (tss_id s, tss_status_id s)) (table_service_sessions d3) = [(1, SS_LOCKED)]"
    "map (\<lambda>s. (tss_id s, tss_status_id s)) (table_service_sessions d4) = [(1, SS_CLOSED)]"
    and close: "\<exists>r. closeSession (\<lambda>x y. x) 3 visit_close d3 = Inr (r, d4)"
  from close obtain r where r: "closeSession (\<lambda>x y. x) 3 visit_close d3 = Inr (r, d4)" ..
  from rows have "d4 \<noteq> d3" by (auto simp: map_eq_Cons_conv)
  then have fresh: "\<not> event_seen d3 (close_tx visit_close)" using closing.repeated [OF _ r] by blast
  have reach: "visit_step\<^sup>*\<^sup>* visit_start d3" using run by (rule rtranclp_trans)
  from closed_after_lock [OF visit_start_empty reach r] fresh
  have "sv_statusId r = SS_CLOSED" by (auto simp: close_tx_def event_seen_iff)
  with reach r rows(1) show ?thesis by (auto simp: map_eq_Cons_conv)
qed

section \<open>One transaction id, one change\<close>

text \<open>
  C9: When an operation on a session has changed the tables, no operation under the same company,
  outlet and transaction id changes them again, as long as no event is deleted: repeated requests
  of a client that saw no answer are harmless, in any order with other requests, and whatever
  operation the id is repeated for.
\<close>

theorem session_once:
  assumes "session_step k d d1" and "d1 \<noteq> d" and "set (table_events d1) \<subseteq> set (table_events d2)"
    and "session_step k d2 d3"
  shows "d3 = d2"
proof -
  have "event_seen d1 k" by (rule session_step_logged [OF assms(1,2)])
  then have "event_seen d2 k" using assms(3) by (auto simp: event_seen_def)
  with assms(4) show ?thesis by (rule session_step_repeated)
qed

theorem session_once_witness:
  "\<exists>d d1 d2. session_step (lock_tx visit_lock) d d1 \<and> d1 \<noteq> d \<and> session_step (lock_tx visit_lock) d1 d2 \<and> d2 = d1"
proof (rule sample_visit)
  fix d1 d2 d3 d4
  assume rows: "map (\<lambda>s. (tss_id s, tss_status_id s)) (table_service_sessions d2) = [(1, SS_ACTIVE)]"
    "map (\<lambda>s. (tss_id s, tss_status_id s)) (table_service_sessions d3) = [(1, SS_LOCKED)]"
    and locks: "\<exists>r. lockSessionForPayment 2 visit_lock d2 = Inr (r, d3)"
    "\<exists>q u. lockSessionForPayment 5 visit_lock d3 = Inr (q, u)"
  from locks obtain r q u where "lockSessionForPayment 2 visit_lock d2 = Inr (r, d3)"
    "lockSessionForPayment 5 visit_lock d3 = Inr (q, u)" by blast
  then have steps: "session_step (lock_tx visit_lock) d2 d3" "session_step (lock_tx visit_lock) d3 u"
    by (auto intro: step_lock)
  from rows have "d3 \<noteq> d2" by auto
  with session_once [OF steps(1) _ _ steps(2)] steps show ?thesis by blast
qed

end
