(* ===== verification/Session_Amounts.thy ===== *)
theory Session_Amounts
  imports Session_Properties
begin

text \<open>
  The amounts of service sessions: totals of lines, which are computed in JavaScript numbers, are
  stored exactly; and what the lines of the point-of-sale order make of several lines of a product.
\<close>

section \<open>Amounts with four decimals\<close>

definition cents4 :: "int \<Rightarrow> rat" where
  "cents4 v = of_int v / 10 ^ 4"

lemma of_decimal_near: "0 \<le> v \<Longrightarrow> \<bar>of_decimal 4 v - cents4 v\<bar> \<le> cents4 v / 2 ^ 53"
  using fl_error [of "cents4 v"] by (simp add: of_decimal_def cents4_def)

lemma stored_amount:
  assumes "0 \<le> v" and "v \<le> 10 ^ 14"
  shows "to_decimal 4 (of_decimal 4 v) = v"
proof (rule to_decimal_near)
  let ?x = "of_decimal 4 v"
  show "fl ?x = ?x" by (simp add: of_decimal_def)
  have "cents4 v \<le> 10 ^ 10" using assms(2) by (simp add: cents4_def)
  with of_decimal_near [OF assms(1)] show "\<bar>?x - of_int v / 10 ^ 4\<bar> + \<bar>?x\<bar> / 2 ^ 52 < 1 / (2 * 10 ^ 4)"
    unfolding cents4_def [symmetric] by (simp add: abs_if split: if_splits)
qed

lemma line_total_near:
  fixes q :: nat
  assumes "0 \<le> P" and "0 \<le> D" and "0 \<le> T"
  defines "M \<equiv> cents4 (int q * P + D + T)"
  shows "\<bar>line_total q (of_decimal 4 P) (of_decimal 4 D) (of_decimal 4 T) - cents4 (int q * P - D + T)\<bar> \<le> 9 * M / 2 ^ 53"
proof -
  let ?p = "of_decimal 4 P" and ?d = "of_decimal 4 D" and ?t = "of_decimal 4 T"
  have A: "cents4 (int q * P) = of_nat q * cents4 P" by (simp add: cents4_def)
  have pos: "0 \<le> cents4 (int q * P)" "0 \<le> cents4 D" "0 \<le> cents4 T" using assms(1-3) by (simp_all add: cents4_def)
  have M: "M = cents4 (int q * P) + cents4 D + cents4 T" by (simp add: M_def cents4_def add_divide_distrib)
  have "\<bar>of_nat q * ?p - cents4 (int q * P)\<bar> = of_nat q * \<bar>?p - cents4 P\<bar>"
    unfolding A by (simp add: abs_mult flip: right_diff_distrib)
  also have "\<dots> \<le> of_nat q * (cents4 P / 2 ^ 53)" by (intro mult_left_mono of_decimal_near assms(1)) simp
  also have "\<dots> = cents4 (int q * P) / 2 ^ 53" by (simp add: A)
  also have "\<dots> \<le> of_nat 1 * M / 2 ^ 53" using pos M by (simp add: divide_right_mono)
  finally have "\<bar>fl (of_nat q * ?p) - cents4 (int q * P)\<bar> \<le> of_nat (1 + 2) * M / 2 ^ 53"
    using pos M by (intro fl_step) auto
  moreover have "cents4 D / 2 ^ 53 \<le> M / 2 ^ 53" "cents4 T / 2 ^ 53 \<le> M / 2 ^ 53"
    using pos M by (simp_all add: divide_right_mono)
  then have "\<bar>?d - cents4 D\<bar> \<le> M / 2 ^ 53" "\<bar>?t - cents4 T\<bar> \<le> M / 2 ^ 53"
    using of_decimal_near [OF assms(2)] of_decimal_near [OF assms(3)] by linarith+
  ultimately have "\<bar>fl (of_nat q * ?p) - ?d - (cents4 (int q * P) - cents4 D)\<bar> \<le> of_nat 4 * M / 2 ^ 53"
    and t: "\<bar>?t - cents4 T\<bar> \<le> M / 2 ^ 53" by (simp_all add: abs_if split: if_splits)
  then have "\<bar>fl (fl (of_nat q * ?p) - ?d) - (cents4 (int q * P) - cents4 D)\<bar> \<le> of_nat (4 + 2) * M / 2 ^ 53"
    using pos M by (intro fl_step) auto
  with t have "\<bar>fl (fl (of_nat q * ?p) - ?d) + ?t - (cents4 (int q * P) - cents4 D + cents4 T)\<bar> \<le> of_nat 7 * M / 2 ^ 53"
    by (simp add: abs_if split: if_splits)
  then have "\<bar>line_total q ?p ?d ?t - (cents4 (int q * P) - cents4 D + cents4 T)\<bar> \<le> of_nat (7 + 2) * M / 2 ^ 53"
    unfolding line_total_def using pos M by (intro fl_step) auto
  moreover have "cents4 (int q * P - D + T) = cents4 (int q * P) - cents4 D + cents4 T"
    by (simp add: cents4_def add_divide_distrib diff_divide_distrib)
  ultimately show ?thesis by simp
qed

lemma line_total_stored:
  assumes "0 \<le> P" and "0 \<le> D" and "0 \<le> T" and "int q * P + D + T \<le> 10 ^ 14"
  shows "to_decimal 4 (line_total q (of_decimal 4 P) (of_decimal 4 D) (of_decimal 4 T)) = int q * P - D + T"
proof (rule to_decimal_near)
  let ?x = "line_total q (of_decimal 4 P) (of_decimal 4 D) (of_decimal 4 T)" and ?v = "int q * P - D + T"
  let ?M = "cents4 (int q * P + D + T)"
  show "fl ?x = ?x" by (simp add: line_total_def)
  have "0 \<le> int q * P" using assms(1) by simp
  then have "\<bar>?v\<bar> \<le> int q * P + D + T" using assms(2,3) by linarith
  then have "\<bar>cents4 ?v\<bar> \<le> ?M" by (simp add: cents4_def divide_right_mono flip: of_int_abs of_int_add of_int_mult)
  moreover have "?M \<le> 10 ^ 10"
  proof -
    have "(of_int (int q * P + D + T) :: rat) \<le> of_int (10 ^ 14)" using assms(4) by (simp only: of_int_le_iff)
    then show ?thesis by (simp add: cents4_def)
  qed
  ultimately show "\<bar>?x - of_int ?v / 10 ^ 4\<bar> + \<bar>?x\<bar> / 2 ^ 52 < 1 / (2 * 10 ^ 4)"
    using line_total_near [OF assms(1-3), of q] unfolding cents4_def [symmetric] by (simp add: abs_if split: if_splits)
qed

section \<open>Lines\<close>

text \<open>
  Amounts of a request have at most four decimals and are no greater than \<open>10 ^ 10\<close>; so are those of
  a line, its price times its quantity included.
\<close>

definition amount :: "rat \<Rightarrow> bool" where
  "amount x \<longleftrightarrow> (\<exists>v. 0 \<le> v \<and> v \<le> 10 ^ 14 \<and> x = of_decimal 4 v)"

definition line_in_range :: "session_line_row \<Rightarrow> bool" where
  "line_in_range l \<longleftrightarrow> 0 \<le> tsl_unit_price l \<and> tsl_unit_price l \<le> 10 ^ 14 \<and> 0 \<le> tsl_discount_amount l \<and> 0 \<le> tsl_tax_amount l \<and>
     int (tsl_quantity l) * tsl_unit_price l + tsl_discount_amount l + tsl_tax_amount l \<le> 10 ^ 14"

definition line_exact :: "session_line_row \<Rightarrow> bool" where
  "line_exact l \<longleftrightarrow> tsl_line_total l = int (tsl_quantity l) * tsl_unit_price l - tsl_discount_amount l + tsl_tax_amount l"

lemma amount_0 [simp]: "amount 0"
  by (auto simp: amount_def of_decimal_def intro: exI [of _ 0])

lemma amount_stored: "amount x \<Longrightarrow> of_decimal 4 (to_decimal 4 x) = x"
  by (auto simp: amount_def stored_amount)

lemma line_total_amounts:
  assumes "amount p" and "amount d" and "amount t"
    and "int q * to_decimal 4 p + to_decimal 4 d + to_decimal 4 t \<le> 10 ^ 14"
  shows "to_decimal 4 (line_total q p d t) = int q * to_decimal 4 p - to_decimal 4 d + to_decimal 4 t"
proof -
  from assms(1-3) obtain P D T where "p = of_decimal 4 P" "0 \<le> P" "P \<le> 10 ^ 14" "d = of_decimal 4 D" "0 \<le> D" "D \<le> 10 ^ 14"
    "t = of_decimal 4 T" "0 \<le> T" "T \<le> 10 ^ 14" unfolding amount_def by blast
  with assms(4) show ?thesis by (simp add: stored_amount line_total_stored)
qed

lemma new_line_exact:
  assumes "amount (al_unitPrice inp)" and "amount (or_else 0 (al_discountAmount inp))" and "amount (or_else 0 (al_taxAmount inp))"
    and "line_in_range l" and "l = new_line i n now inp (line_total (al_quantity inp) (al_unitPrice inp)
      (or_else 0 (al_discountAmount inp)) (or_else 0 (al_taxAmount inp)))"
  shows "line_exact l"
  using line_total_amounts [OF assms(1-3), of "al_quantity inp"] assms(4) unfolding assms(5)
  by (simp add: line_exact_def line_in_range_def new_line_def)

definition given_amounts :: "UpdateSessionLineInput \<Rightarrow> bool" where
  "given_amounts inp \<longleftrightarrow> (\<forall>v \<in> {ul_unitPrice inp, ul_discountAmount inp, ul_taxAmount inp}. \<forall>x. v = Some x \<longrightarrow> amount x)"

lemma row_amount: "0 \<le> v \<Longrightarrow> v \<le> 10 ^ 14 \<Longrightarrow> amount (of_decimal 4 v)"
  by (auto simp: amount_def)

lemma kept_or_given:
  assumes "\<forall>x. v = Some x \<longrightarrow> amount x" and "0 \<le> old" and "old \<le> 10 ^ 14"
  shows "amount (or_else (of_decimal 4 old) v)"
    and "(case v of None \<Rightarrow> old | Some p \<Rightarrow> to_decimal 4 p) = to_decimal 4 (or_else (of_decimal 4 old) v)"
  using assms by (cases v; simp add: row_amount stored_amount)+

lemma updated_line_exact:
  assumes "given_amounts inp" and "line_exact l" and "line_in_range l"
    and "line_in_range (updated_line now inp (updated_total inp l) l)"
  shows "line_exact (updated_line now inp (updated_total inp l) l)"
proof (cases "updated_total inp l")
  case None
  then have "ul_quantity inp = None \<and> ul_unitPrice inp = None \<and> ul_discountAmount inp = None \<and> ul_taxAmount inp = None"
    by (simp add: updated_total_def split: if_splits)
  with None assms(2) show ?thesis by (simp add: updated_line_def line_exact_def)
next
  case (Some t)
  then have t: "t = line_total (or_else (tsl_quantity l) (ul_quantity inp))
        (or_else (of_decimal 4 (tsl_unit_price l)) (ul_unitPrice inp))
        (or_else (of_decimal 4 (tsl_discount_amount l)) (ul_discountAmount inp))
        (or_else (of_decimal 4 (tsl_tax_amount l)) (ul_taxAmount inp))"
    by (simp add: updated_total_def split: if_splits)
  have rng: "0 \<le> tsl_unit_price l" "tsl_unit_price l \<le> 10 ^ 14" "0 \<le> tsl_discount_amount l" "tsl_discount_amount l \<le> 10 ^ 14"
    "0 \<le> tsl_tax_amount l" "tsl_tax_amount l \<le> 10 ^ 14"
  proof -
    have "0 \<le> int (tsl_quantity l) * tsl_unit_price l" using assms(3) by (simp add: line_in_range_def)
    with assms(3) show "0 \<le> tsl_unit_price l" "tsl_unit_price l \<le> 10 ^ 14" "0 \<le> tsl_discount_amount l"
      "tsl_discount_amount l \<le> 10 ^ 14" "0 \<le> tsl_tax_amount l" "tsl_tax_amount l \<le> 10 ^ 14"
      unfolding line_in_range_def by linarith+
  qed
  have given: "\<forall>x. ul_unitPrice inp = Some x \<longrightarrow> amount x" "\<forall>x. ul_discountAmount inp = Some x \<longrightarrow> amount x"
    "\<forall>x. ul_taxAmount inp = Some x \<longrightarrow> amount x" using assms(1) by (simp_all add: given_amounts_def)
  note p = kept_or_given [OF given(1) rng(1,2)] and d = kept_or_given [OF given(2) rng(3,4)]
    and x = kept_or_given [OF given(3) rng(5,6)]
  show ?thesis using line_total_amounts [OF p(1) d(1) x(1)] assms(4) unfolding Some line_exact_def line_in_range_def updated_line_def
    by (simp add: t p(2) d(2) x(2))
qed

section \<open>The operations\<close>

text \<open>
  C10: While amounts have at most four decimals and stay below ten thousand million, the JavaScript
  numbers lose nothing: adding a line or changing one, with any of its fields, leaves every line
  with the total that is exactly its quantity times its price, less its discount, plus its tax.
  Lowering a quantity by \<open>adjustSessionLine\<close> is not among these operations: it divides discount and
  tax, rounds each when it is stored, and may store a total that is one ten-thousandth off.
\<close>

theorem lines_stay_exact:
  assumes "\<forall>l \<in> set (session_lines d). line_exact l \<and> line_in_range l"
    and "\<forall>l \<in> set (session_lines d'). line_in_range l" and "distinct (map tsl_id (session_lines d))"
    and "(\<exists>inp r. addSessionLine now inp d = Inr (r, d') \<and> amount (al_unitPrice inp) \<and>
        amount (or_else 0 (al_discountAmount inp)) \<and> amount (or_else 0 (al_taxAmount inp))) \<or>
      (\<exists>upd r. updateSessionLine now upd d = Inr (r, d') \<and> given_amounts upd)"
  shows "\<forall>l \<in> set (session_lines d'). line_exact l"
  using assms(4)
proof (elim disjE exE conjE)
  fix inp r
  assume run: "addSessionLine now inp d = Inr (r, d')" and amounts: "amount (al_unitPrice inp)"
    "amount (or_else 0 (al_discountAmount inp))" "amount (or_else 0 (al_taxAmount inp))"
  show ?thesis using add_effect [OF run] assms(1,2) new_line_exact [OF amounts _ refl]
    by (auto simp: visits_def)
next
  fix upd r
  assume run: "updateSessionLine now upd d = Inr (r, d')" and given: "given_amounts upd"
  show ?thesis using update_effect [OF run]
  proof (elim disjE exE conjE)
    fix s l
    assume ids: "l \<in> set (session_lines d)" "tsl_id l = ul_lineId upd" "tsl_session_id l = ul_sessionId upd"
      and eff: "visits d' = (update_where (\<lambda>l. tsl_id l = ul_lineId upd) (updated_line now upd (updated_total upd l)) (session_lines d),
        last_key d RT_session_line, table_service_sessions d, last_key d RT_session)"
    show ?thesis
    proof
      fix k assume k: "k \<in> set (session_lines d')"
      with eff obtain m where m: "m \<in> set (session_lines d)"
        "k = (if tsl_id m = ul_lineId upd then updated_line now upd (updated_total upd l) m else m)"
        by (auto simp: visits_def update_where_def)
      have "m = l" if "tsl_id m = ul_lineId upd"
        using assms(3) m(1) ids(1,2) that by (auto simp: distinct_map inj_on_def)
      with m k ids(1) assms(1,2) updated_line_exact [OF given, of l now] show "line_exact k" by auto
    qed
  qed (use assms(1) in simp)
qed

theorem lines_stay_exact_witness:
  "\<exists>d d' r. addSessionLine 1 visit_order d = Inr (r, d') \<and> map tsl_unit_price (session_lines d') = [100000] \<and>
     (\<forall>l \<in> set (session_lines d'). line_exact l)"
proof (rule whole_visit)
  fix a d1 b d2 c d3 e d4
  assume run: "addSessionLine 1 visit_order d1 = Inr (b, d2)"
    and rows: "session_lines d1 = []" "map (\<lambda>l. (tsl_id l, tsl_unit_price l, tsl_discount_amount l, tsl_tax_amount l, tsl_quantity l))
      (session_lines d2) = [(1, 100000, 0, 0, 2)]"
  from rows(2) obtain l where l: "session_lines d2 = [l]" "tsl_unit_price l = 100000" and rng: "line_in_range l"
    by (auto simp: map_eq_Cons_conv line_in_range_def)
  have ten: "al_unitPrice visit_order = of_decimal 4 100000"
    using fl_int [of 10] by (simp add: visit_order_def of_decimal_def)
  have "amount (al_unitPrice visit_order)" unfolding ten by (rule row_amount) simp_all
  moreover have "amount (or_else 0 (al_discountAmount visit_order))" "amount (or_else 0 (al_taxAmount visit_order))"
    by (simp_all add: visit_order_def)
  ultimately have "\<forall>l \<in> set (session_lines d2). line_exact l"
    using run rows(1) l(1) rng by (intro lines_stay_exact [of d1 d2 1]) auto
  with run l show ?thesis by (intro exI [of _ d1] exI [of _ d2] exI [of _ b]) simp
qed

section \<open>Lines of the point-of-sale order\<close>

lemma sum_list_by_key:
  fixes g :: "'a \<Rightarrow> 'b :: comm_monoid_add"
  assumes "distinct ks" and "\<forall>x \<in> set xs. key x \<in> set ks"
  shows "(\<Sum>k \<leftarrow> ks. \<Sum>x \<leftarrow> filter (\<lambda>x. key x = k) xs. g x) = sum_list (map g xs)"
  using assms(2)
proof (induction xs)
  case (Cons x xs)
  have "(\<Sum>k \<leftarrow> ks. \<Sum>y \<leftarrow> filter (\<lambda>y. key y = k) (x # xs). g y) =
      (\<Sum>k \<leftarrow> ks. (if k = key x then g x else 0) + (\<Sum>y \<leftarrow> filter (\<lambda>y. key y = k) xs. g y))"
    by (intro arg_cong [where f = sum_list] map_cong) auto
  also have "\<dots> = (\<Sum>k \<leftarrow> ks. if k = key x then g x else 0) + (\<Sum>k \<leftarrow> ks. \<Sum>y \<leftarrow> filter (\<lambda>y. key y = k) xs. g y)"
    by (simp add: sum_list_addf)
  also have "(\<Sum>k \<leftarrow> ks. if k = key x then g x else 0) = g x"
    using assms(1) Cons.prems by (simp add: sum_list_distinct_conv_sum_set sum.delta)
  finally show ?case using Cons by simp
qed simp

text \<open>The greatest price of a product among lines, and what a line of the order charges, in hundredths.\<close>

definition dearest :: "session_line_row list \<Rightarrow> nat \<Rightarrow> int" where
  "dearest ls p = Max (set (map tsl_unit_price (filter (\<lambda>l. tsl_product_id l = p) ls)))"

definition charge :: "pos_order_snapshot_line_row \<Rightarrow> int" where
  "charge p = psl_qty p div 10000 * psl_unit_price_snapshot p - psl_discount_amount p"

lemma charged_at:
  "(\<Sum>l \<leftarrow> ls. int (tsl_quantity l) * c - tsl_discount_amount l) =
     int (sum_list (map tsl_quantity ls)) * c - sum_list (map tsl_discount_amount ls)"
  by (induction ls) (simp_all add: algebra_simps)

lemma snapshot_line_charge:
  assumes "\<forall>l \<in> set ls. 100 dvd tsl_unit_price l \<and> 100 dvd tsl_discount_amount l" and "p \<in> set (map tsl_product_id ls)"
  shows "100 * charge (snapshot_line later s c o' i ls p) =
    (\<Sum>l \<leftarrow> filter (\<lambda>l. tsl_product_id l = p) ls. int (tsl_quantity l) * dearest ls p - tsl_discount_amount l)"
proof -
  let ?g = "filter (\<lambda>l. tsl_product_id l = p) ls"
  have "dearest ls p \<in> set (map tsl_unit_price ?g)"
    unfolding dearest_def using assms(2) by (intro Max_in) auto
  then obtain m where m: "dearest ls p = m * 100" using assms(1) by (auto elim!: dvdE)
  have "100 dvd sum_list (map tsl_discount_amount ?g)" using assms(1) by (induction ls) auto
  then obtain k where k: "sum_list (map tsl_discount_amount ?g) = k * 100" by (auto elim!: dvdE)
  have "(\<Sum>l \<leftarrow> ?g. int (tsl_quantity l) * dearest ls p - tsl_discount_amount l) =
      int (sum_list (map tsl_quantity ?g)) * dearest ls p - sum_list (map tsl_discount_amount ?g)"
    by (rule charged_at)
  moreover have "sql_round_div (Max (set (map tsl_unit_price ?g))) 100 = m"
    unfolding dearest_def [symmetric] m by (rule sql_round_div_exact) simp
  then have "charge (snapshot_line later s c o' i ls p) = int (sum_list (map tsl_quantity ?g)) * m - k"
    using k by (simp add: charge_def snapshot_line_def Let_def sql_round_div_exact)
  ultimately show ?thesis by (simp add: m k)
qed

text \<open>
  C11: What the lines of the point-of-sale order charge for a visit after its lines were copied to
  it: the value of the visit's lines (quantity times price, less the discount), and on top of it,
  for every line, its quantity times what the dearest line of the same product costs more.  So the
  guests are charged the value of what they ordered exactly if no product was ordered at two prices.
  Prices and discounts are whole hundredths, which is what the lines of that order can hold.
\<close>

theorem snapshot_charges:
  assumes "syncSnapshotLinesFromSession later sid c o' i fin d = Inr (n, d')"
    and "\<forall>l \<in> set (synced_lines d i fin). 100 dvd tsl_unit_price l \<and> 100 dvd tsl_discount_amount l"
  shows "100 * (\<Sum>p \<leftarrow> filter (\<lambda>p. psl_order_id p = sid \<and> psl_company_id p = c \<and> psl_outlet_id p = o') (snapshot_lines d'). charge p) =
    (\<Sum>l \<leftarrow> synced_lines d i fin. int (tsl_quantity l) * tsl_unit_price l - tsl_discount_amount l) +
    (\<Sum>l \<leftarrow> synced_lines d i fin. int (tsl_quantity l) * (dearest (synced_lines d i fin) (tsl_product_id l) - tsl_unit_price l))"
proof -
  let ?ls = "synced_lines d i fin" and ?F = "\<lambda>p. psl_order_id p = sid \<and> psl_company_id p = c \<and> psl_outlet_id p = o'"
  let ?f = "\<lambda>l. int (tsl_quantity l) * dearest ?ls (tsl_product_id l) - tsl_discount_amount l"
  obtain ks where ks: "ks = numbered_from (new_key d RT_snapshot_line) (snapshot_products ?ls)" by simp
  then have snd: "map snd ks = snapshot_products ?ls" by (simp add: numbered_from_def)
  from assms(1) have "snapshot_lines d' = filter (\<lambda>p. \<not> ?F p) (snapshot_lines d) @
      map (\<lambda>(k, p). snapshot_line later sid c o' k ?ls p) ks"
    by (auto simp: syncSnapshotLinesFromSession_def Let_def inr_simps ks)
  then have "filter ?F (snapshot_lines d') = map (\<lambda>(k, p). snapshot_line later sid c o' k ?ls p) ks"
    by (auto simp: filter_map o_def snapshot_line_def Let_def case_prod_beta)
  then have "100 * (\<Sum>p \<leftarrow> filter ?F (snapshot_lines d'). charge p) =
      (\<Sum>(k, p) \<leftarrow> ks. 100 * charge (snapshot_line later sid c o' k ?ls p))"
    by (simp add: o_def case_prod_unfold flip: sum_list_const_mult)
  also have "\<dots> = (\<Sum>(k, p) \<leftarrow> ks. \<Sum>l \<leftarrow> filter (\<lambda>l. tsl_product_id l = p) ?ls. ?f l)"
  proof (intro arg_cong [where f = sum_list] map_cong refl, clarify)
    fix k p assume "(k, p) \<in> set ks"
    then have "p \<in> set (map snd ks)" by force
    then have "p \<in> set (map tsl_product_id ?ls)" by (simp add: snd snapshot_products_def)
    from snapshot_line_charge [OF assms(2) this]
    show "100 * charge (snapshot_line later sid c o' k ?ls p) = (\<Sum>l \<leftarrow> filter (\<lambda>l. tsl_product_id l = p) ?ls. ?f l)"
      by (auto intro!: arg_cong [where f = sum_list] map_cong)
  qed
  also have "\<dots> = (\<Sum>p \<leftarrow> map snd ks. \<Sum>l \<leftarrow> filter (\<lambda>l. tsl_product_id l = p) ?ls. ?f l)"
    by (simp add: o_def case_prod_unfold)
  also have "\<dots> = sum_list (map ?f ?ls)"
    unfolding snd by (rule sum_list_by_key) (auto simp: snapshot_products_def)
  also have "\<dots> = (\<Sum>l \<leftarrow> ?ls. int (tsl_quantity l) * tsl_unit_price l - tsl_discount_amount l) +
    (\<Sum>l \<leftarrow> ?ls. int (tsl_quantity l) * (dearest ?ls (tsl_product_id l) - tsl_unit_price l))"
    by (simp add: right_diff_distrib flip: sum_list_addf)
  finally show ?thesis .
qed

definition tea_line :: "nat \<Rightarrow> int \<Rightarrow> session_line_row" where
  "tea_line i price = \<lparr>tsl_id = i, tsl_session_id = 1, tsl_batch_no = None, tsl_created_at = 0, tsl_discount_amount = 0,
     tsl_is_voided = False, tsl_line_number = i, tsl_line_state = LINE_OPEN, tsl_line_total = price, tsl_notes = None,
     tsl_product_id = 7, tsl_product_name = ''Tea'', tsl_product_sku = None, tsl_quantity = 1, tsl_tax_amount = 0,
     tsl_unit_price = price, tsl_updated_at = 0, tsl_void_reason = None, tsl_voided_at = None\<rparr>"

definition two_prices :: rdb where
  "two_prices = visit_start\<lparr>session_lines := [tea_line 1 100000, tea_line 2 120000]\<rparr>"

text \<open>Two cups of tea, one at 10 and one at 12, are charged at 24.\<close>

theorem snapshot_charges_witness:
  "\<exists>d'. syncSnapshotLinesFromSession (\<lambda>x y. x) ''S1'' 1 1 1 False two_prices = Inr (1, d') \<and>
     (\<Sum>p \<leftarrow> filter (\<lambda>p. psl_order_id p = ''S1'' \<and> psl_company_id p = 1 \<and> psl_outlet_id p = 1) (snapshot_lines d'). charge p) = 2400 \<and>
     (\<Sum>l \<leftarrow> synced_lines two_prices 1 False. int (tsl_quantity l) * tsl_unit_price l - tsl_discount_amount l) = 220000"
proof -
  have "case syncSnapshotLinesFromSession (\<lambda>x y. x) ''S1'' 1 1 1 False two_prices of Inl _ \<Rightarrow> False | Inr (n, _) \<Rightarrow> n = 1"
    by code_simp
  then obtain d' where run: "syncSnapshotLinesFromSession (\<lambda>x y. x) ''S1'' 1 1 1 False two_prices = Inr (1, d')"
    unfolding case_run_iff by blast
  have ls: "synced_lines two_prices 1 False = [tea_line 1 100000, tea_line 2 120000]"
    by (simp add: synced_lines_def two_prices_def tea_line_def)
  have fields: "tsl_unit_price (tea_line k v) = v" "tsl_quantity (tea_line k v) = 1" "tsl_product_id (tea_line k v) = 7"
    "tsl_discount_amount (tea_line k v) = 0" for k v by (simp_all add: tea_line_def)
  then have "dearest [tea_line 1 100000, tea_line 2 120000] 7 = 120000" by (simp add: dearest_def)
  with fields snapshot_charges [OF run]
  have "(\<Sum>p \<leftarrow> filter (\<lambda>p. psl_order_id p = ''S1'' \<and> psl_company_id p = 1 \<and> psl_outlet_id p = 1) (snapshot_lines d'). charge p) = 2400"
    by (simp add: ls del: One_nat_def)
  with run fields show ?thesis by (simp add: ls del: One_nat_def)
qed

end
