(* ===== verification/Cash_Bank.thy ===== *)
theory Cash_Bank
  imports Js_Number Ledger
begin

text \<open>
  Cash and bank transactions (\<open>packages/modules/treasury\<close>): their types and errors, the helpers on
  money and accounts, the builder of journal lines, the posting mapper, and the posting service of
  \<open>packages/modules/accounting\<close> that the treasury hands its lines to.  Money is a JavaScript number
  here, so every operation on it rounds (\<open>fl\<close>); the lemmas at the end say up to which amount this
  does no harm.
\<close>

section \<open>Types and errors\<close>

datatype CashBankType = MUTATION | TOP_UP | WITHDRAWAL | FOREX

datatype CashBankStatus = DRAFT | POSTED | VOID

datatype AccountClass = CASH | BANK

text \<open>The error classes of the module, those of the services it calls, and what the database reports.\<close>

datatype terr =
    CashBankValidationError string
  | CashBankStatusError string
  | CashBankNotFoundError string
  | CashBankForbiddenError string
  | FiscalYearNotOpenError string
  | UnbalancedJournalError
  | JsError string
  | Er_Dup_Entry string
  | Er_Check_Violated string
  | Er_No_Referenced_Row string
  | Er_Data_Too_Long string
  | Er_Out_Of_Range string

type_synonym 'a tres = "terr + 'a"

text \<open>A transaction as the services see it: money is read from \<open>DECIMAL\<close> columns with \<open>Number\<close>.\<close>

record CashBankTransaction =
  t_id :: nat
  t_company_id :: nat
  t_outlet_id :: "nat option"
  t_transaction_type :: CashBankType
  t_transaction_date :: int
  t_reference :: "string option"
  t_description :: string
  t_source_account_id :: nat
  t_source_account_name :: "string option"
  t_destination_account_id :: nat
  t_destination_account_name :: "string option"
  t_amount :: rat
  t_currency_code :: string
  t_exchange_rate :: "rat option"
  t_base_amount :: "rat option"
  t_fx_gain_loss :: "rat option"
  t_fx_account_id :: "nat option"
  t_fx_account_name :: "string option"
  t_status :: CashBankStatus
  t_posted_at :: "int option"
  t_created_by_user_id :: "nat option"
  t_created_at :: int
  t_updated_at :: int

record AccountInfo =
  ai_id :: nat
  ai_company_id :: nat
  ai_name :: string
  ai_type_name :: "string option"

record CreateCashBankInput =
  in_outlet_id :: "nat option"
  in_transaction_type :: CashBankType
  in_transaction_date :: int
  in_reference :: "string option"
  in_description :: string
  in_source_account_id :: nat
  in_destination_account_id :: nat
  in_amount :: rat
  in_currency_code :: "string option"
  in_exchange_rate :: "rat option"
  in_base_amount :: "rat option"
  in_fx_account_id :: "nat option"

record CashBankListFilters =
  f_outletId :: "nat option"
  f_transactionType :: "CashBankType option"
  f_status :: "CashBankStatus option"
  f_dateFrom :: "int option"
  f_dateTo :: "int option"
  f_limit :: "nat option"
  f_offset :: "nat option"

section \<open>Helpers\<close>

text \<open>\<open>Math.round\<close> takes a half upwards.\<close>

definition math_round :: "rat \<Rightarrow> int" where
  "math_round x = \<lfloor>x + 1 / 2\<rfloor>"

definition toMinorUnits :: "rat \<Rightarrow> int" where
  "toMinorUnits value = math_round (fl (value * 100))"

definition normalizeMoney :: "rat \<Rightarrow> rat" where
  "normalizeMoney value = fl (of_int (toMinorUnits value) / 100)"

text \<open>\<open>includes\<close>\<close>

fun js_includes :: "string \<Rightarrow> string \<Rightarrow> bool" where
  "js_includes [] w \<longleftrightarrow> w = []"
| "js_includes (c # s) w \<longleftrightarrow> take (length w) (c # s) = w \<or> js_includes s w"

definition isCashBankTypeName :: "string option \<Rightarrow> bool" where
  "isCashBankTypeName typeName =
     (let v = js_lower (case typeName of None \<Rightarrow> '''' | Some n \<Rightarrow> n) in
      js_includes v ''kas'' \<or> js_includes v ''cash'' \<or> js_includes v ''bank'')"

definition classifyCashBankAccount :: "string option \<Rightarrow> AccountClass option" where
  "classifyCashBankAccount typeName =
     (let v = js_lower (case typeName of None \<Rightarrow> '''' | Some n \<Rightarrow> n);
          hasCash = js_includes v ''kas'' \<or> js_includes v ''cash'';
          hasBank = js_includes v ''bank'' in
      if hasCash \<and> \<not> hasBank then Some CASH
      else if hasBank \<and> \<not> hasCash then Some BANK
      else None)"

definition validateDirectionByTransactionType ::
  "CashBankType \<Rightarrow> string option \<Rightarrow> string option \<Rightarrow> unit tres" where
  "validateDirectionByTransactionType transactionType sourceTypeName destinationTypeName =
     (case transactionType of
        TOP_UP \<Rightarrow> require (classifyCashBankAccount sourceTypeName = Some CASH \<and>
            classifyCashBankAccount destinationTypeName = Some BANK)
          (CashBankValidationError ''TOP_UP requires source cash and destination bank accounts'')
      | WITHDRAWAL \<Rightarrow> require (classifyCashBankAccount sourceTypeName = Some BANK \<and>
            classifyCashBankAccount destinationTypeName = Some CASH)
          (CashBankValidationError ''WITHDRAWAL requires source bank and destination cash accounts'')
      | _ \<Rightarrow> Inr ())"

section \<open>Journal lines\<close>

record JournalLine =
  ln_account_id :: nat
  ln_debit :: rat
  ln_credit :: rat
  ln_description :: string

record BuildJournalLinesInput =
  bi_transactionType :: CashBankType
  bi_sourceAccountId :: nat
  bi_destinationAccountId :: nat
  bi_amount :: rat
  bi_baseAmount :: "rat option"
  bi_fxAccountId :: "nat option"
  bi_referenceLabel :: string

text \<open>The sum of the minor units, itself a sum of JavaScript numbers.\<close>

definition minor_sum :: "(JournalLine \<Rightarrow> rat) \<Rightarrow> JournalLine list \<Rightarrow> rat" where
  "minor_sum f ls = foldl (\<lambda>s l. fl (s + of_int (toMinorUnits (f l)))) 0 ls"

definition forex_lines :: "BuildJournalLinesInput \<Rightarrow> JournalLine list tres" where
  "forex_lines inp =
     (let label = bi_referenceLabel inp;
          forexBaseAmount = (case bi_baseAmount inp of None \<Rightarrow> normalizeMoney (bi_amount inp) | Some b \<Rightarrow> b);
          diff = normalizeMoney (fl (forexBaseAmount - bi_amount inp));
          lines = [
            \<lparr>ln_account_id = bi_destinationAccountId inp, ln_debit = normalizeMoney forexBaseAmount,
             ln_credit = 0, ln_description = label @ '' debit destination''\<rparr>,
            \<lparr>ln_account_id = bi_sourceAccountId inp, ln_debit = 0,
             ln_credit = normalizeMoney (bi_amount inp), ln_description = label @ '' credit source''\<rparr>] in
      if diff = 0 then Inr lines
      else (case truthy_id (bi_fxAccountId inp) of
          None \<Rightarrow> Inl (CashBankValidationError ''fx_account_id is required when FOREX has gain/loss'')
        | Some fx \<Rightarrow> Inr (lines @ [
            if diff > 0
            then \<lparr>ln_account_id = fx, ln_debit = 0, ln_credit = normalizeMoney diff,
              ln_description = label @ '' forex gain''\<rparr>
            else \<lparr>ln_account_id = fx, ln_debit = normalizeMoney \<bar>diff\<bar>, ln_credit = 0,
              ln_description = label @ '' forex loss''\<rparr>])))"

definition buildCashBankJournalLines :: "BuildJournalLinesInput \<Rightarrow> JournalLine list tres" where
  "buildCashBankJournalLines inp =
     bindR (require (\<not> bi_amount inp \<le> 0) (CashBankValidationError ''amount must be positive'')) (\<lambda>_.
     if bi_transactionType inp \<noteq> FOREX then Inr [
       \<lparr>ln_account_id = bi_destinationAccountId inp, ln_debit = normalizeMoney (bi_amount inp),
        ln_credit = 0, ln_description = bi_referenceLabel inp @ '' debit destination''\<rparr>,
       \<lparr>ln_account_id = bi_sourceAccountId inp, ln_debit = 0, ln_credit = normalizeMoney (bi_amount inp),
        ln_description = bi_referenceLabel inp @ '' credit source''\<rparr>]
     else bindR (forex_lines inp) (\<lambda>lines.
       bindR (require (minor_sum ln_debit lines = minor_sum ln_credit lines)
         (CashBankValidationError ''Cash/bank journal lines are not balanced'')) (\<lambda>_. Inr lines)))"

section \<open>The posting mapper\<close>

fun type_label :: "CashBankType \<Rightarrow> string" where
  "type_label MUTATION = ''MUTATION''"
| "type_label TOP_UP = ''TOP_UP''"
| "type_label WITHDRAWAL = ''WITHDRAWAL''"
| "type_label FOREX = ''FOREX''"

definition void_line :: "JournalLine \<Rightarrow> JournalLine" where
  "void_line l = \<lparr>ln_account_id = ln_account_id l, ln_debit = ln_credit l, ln_credit = ln_debit l,
     ln_description = ''Void '' @ ln_description l\<rparr>"

definition mapToJournal :: "CashBankTransaction \<Rightarrow> bool \<Rightarrow> JournalLine list tres" where
  "mapToJournal tx voidMode =
     bindR (buildCashBankJournalLines
       \<lparr>bi_transactionType = t_transaction_type tx, bi_sourceAccountId = t_source_account_id tx,
        bi_destinationAccountId = t_destination_account_id tx, bi_amount = t_amount tx,
        bi_baseAmount = t_base_amount tx, bi_fxAccountId = t_fx_account_id tx,
        bi_referenceLabel = ''Cash/Bank '' @ type_label (t_transaction_type tx) @ '' #'' @ nat_str (t_id tx)\<rparr>)
       (\<lambda>original. Inr (if voidMode then map void_line original else original))"

section \<open>The posting service\<close>

record PostingRequest =
  pr_company_id :: nat
  pr_outlet_id :: "nat option"
  pr_doc_type :: string
  pr_doc_id :: nat

record PostingResult =
  po_journal_batch_id :: nat
  po_lines :: "JournalLine list"

datatype TransactionOwner = Service | External

type_synonym PostingMapper = "PostingRequest \<Rightarrow> JournalLine list tres"

text \<open>
  The posting repository over a state \<open>'s\<close>.  An operation returns the new state or throws; what it
  changed before it threw is gone, because somebody's transaction is rolled back.  \<open>now\<close> is the
  instant that \<open>new Date()\<close> returns, in milliseconds.
\<close>

record 's PostingRepository =
  begin_transaction :: "('s \<Rightarrow> 's) option"
  commit_transaction :: "('s \<Rightarrow> 's) option"
  rollback_transaction :: "('s \<Rightarrow> 's) option"
  createJournalBatch :: "int \<Rightarrow> PostingRequest \<Rightarrow> 's \<Rightarrow> terr + nat \<times> 's"
  insertJournalLines :: "int \<Rightarrow> nat \<Rightarrow> PostingRequest \<Rightarrow> JournalLine list \<Rightarrow> 's \<Rightarrow> terr + 's"

definition assertBalancedLines :: "JournalLine list \<Rightarrow> unit tres" where
  "assertBalancedLines lines =
     bindR (require (lines \<noteq> []) UnbalancedJournalError) (\<lambda>_.
       require (minor_sum ln_debit lines = minor_sum ln_credit lines) UnbalancedJournalError)"

definition post_lines ::
  "'s PostingRepository \<Rightarrow> PostingMapper \<Rightarrow> int \<Rightarrow> PostingRequest \<Rightarrow> 's \<Rightarrow> terr + PostingResult \<times> 's" where
  "post_lines repository mapper now request s =
     bindR (mapper request) (\<lambda>lines.
     bindR (assertBalancedLines lines) (\<lambda>_.
     bindR (createJournalBatch repository now request s) (\<lambda>(batchId, s1).
     bindR (insertJournalLines repository now batchId request lines s1) (\<lambda>s2.
       Inr (\<lparr>po_journal_batch_id = batchId, po_lines = lines\<rparr>, s2)))))"

definition requireTransactionMethod :: "string \<Rightarrow> 'a option \<Rightarrow> 'a tres" where
  "requireTransactionMethod methodName m =
     from_opt (JsError (''Posting repository missing required method: '' @ methodName)) m"

definition posting_service_post ::
  "'s PostingRepository \<Rightarrow> (string \<times> PostingMapper) list \<Rightarrow> int \<Rightarrow> PostingRequest \<Rightarrow> TransactionOwner \<Rightarrow>
   's \<Rightarrow> terr + PostingResult \<times> 's" where
  "posting_service_post repository mapperByDocType now request transactionOwner s =
     bindR (from_opt (JsError (''No posting mapper for doc_type='' @ pr_doc_type request))
       (map_of mapperByDocType (pr_doc_type request))) (\<lambda>mapper.
     case transactionOwner of
       External \<Rightarrow> post_lines repository mapper now request s
     | Service \<Rightarrow>
         bindR (requireTransactionMethod ''begin'' (begin_transaction repository)) (\<lambda>begin_fn.
         bindR (requireTransactionMethod ''commit'' (commit_transaction repository)) (\<lambda>commit_fn.
         bindR (requireTransactionMethod ''rollback'' (rollback_transaction repository)) (\<lambda>rollback_fn.
         bindR (post_lines repository mapper now request (begin_fn s)) (\<lambda>(result, s1).
           Inr (result, commit_fn s1))))))"

end
