(* ===== verification/Cash_Bank_Service.thy ===== *)
theory Cash_Bank_Service
  imports Cash_Bank
begin

text \<open>
  \<open>CashBankService\<close>: the operations on cash and bank transactions over the ports that its
  constructor takes.  A port that reads is a function of the state, one that writes returns the new
  state; \<open>withTransaction\<close> is the convention that an operation which throws leaves the state of the
  caller.  What the service needs of the repository to keep its promises of idempotence is the locale
  \<open>cash_bank_repository\<close>.
\<close>

section \<open>Ports\<close>

text \<open>What \<open>processForexFields\<close> adds to the input.\<close>

record ForexFields =
  fx_exchange_rate :: "rat option"
  fx_base_amount :: "rat option"
  fx_fx_account_id :: "nat option"
  fx_fx_gain_loss :: rat

record 's TreasuryPorts =
  findById :: "nat \<Rightarrow> nat \<Rightarrow> 's \<Rightarrow> CashBankTransaction option"
  findByIdForUpdate :: "nat \<Rightarrow> nat \<Rightarrow> 's \<Rightarrow> CashBankTransaction option"
  listTransactions :: "nat \<Rightarrow> CashBankListFilters \<Rightarrow> 's \<Rightarrow> nat \<times> CashBankTransaction list"
  createTransaction :: "int \<Rightarrow> CreateCashBankInput \<Rightarrow> ForexFields \<Rightarrow> nat \<Rightarrow> nat option \<Rightarrow> 's \<Rightarrow>
    terr + CashBankTransaction \<times> 's"
  updateStatus :: "int \<Rightarrow> nat \<Rightarrow> nat \<Rightarrow> CashBankStatus \<Rightarrow> int option \<Rightarrow> 's \<Rightarrow> 's"
  findAccount :: "nat \<Rightarrow> nat \<Rightarrow> 's \<Rightarrow> AccountInfo option"
  outletBelongsToCompany :: "nat \<Rightarrow> nat \<Rightarrow> 's \<Rightarrow> bool"
  postingRepository :: "'s PostingRepository"
  userHasOutletAccess :: "nat \<Rightarrow> nat \<Rightarrow> nat \<Rightarrow> bool"
  ensureDateWithinOpenFiscalYear :: "nat \<Rightarrow> int \<Rightarrow> 's \<Rightarrow> unit tres"

text \<open>The posting service that \<open>postingServiceFactory\<close> makes of a repository and mappers.\<close>

type_synonym 's PostingServiceFactory =
  "'s PostingRepository \<Rightarrow> (string \<times> PostingMapper) list \<Rightarrow> int \<Rightarrow> PostingRequest \<Rightarrow> TransactionOwner \<Rightarrow>
   's \<Rightarrow> terr + PostingResult \<times> 's"

section \<open>Private helpers\<close>

definition ensureAccount :: "'s TreasuryPorts \<Rightarrow> nat \<Rightarrow> nat \<Rightarrow> string \<Rightarrow> 's \<Rightarrow> AccountInfo tres" where
  "ensureAccount ports accountId companyId roleLabel s =
     bindR (from_opt (CashBankValidationError (roleLabel @ '' account not found''))
       (findAccount ports accountId companyId s)) (\<lambda>account.
     bindR (require (isCashBankTypeName (ai_type_name account))
       (CashBankValidationError (roleLabel @ '' account must be cash/bank classified''))) (\<lambda>_.
       Inr account))"

definition check_accounts :: "'s TreasuryPorts \<Rightarrow> CashBankType \<Rightarrow> nat \<Rightarrow> nat \<Rightarrow> nat \<Rightarrow> 's \<Rightarrow> unit tres" where
  "check_accounts ports transactionType sourceId destinationId companyId s =
     bindR (ensureAccount ports sourceId companyId ''source'' s) (\<lambda>sourceAccount.
     bindR (ensureAccount ports destinationId companyId ''destination'' s) (\<lambda>destAccount.
       validateDirectionByTransactionType transactionType (ai_type_name sourceAccount)
         (ai_type_name destAccount)))"

definition processForexFields :: "CreateCashBankInput \<Rightarrow> ForexFields tres" where
  "processForexFields input =
     (if in_transaction_type input \<noteq> FOREX
      then Inr \<lparr>fx_exchange_rate = None, fx_base_amount = None, fx_fx_account_id = None, fx_fx_gain_loss = 0\<rparr>
      else
        bindR (case in_exchange_rate input of
            None \<Rightarrow> Inl (CashBankValidationError ''FOREX requires exchange_rate > 0'')
          | Some r \<Rightarrow> bindR (require (r > 0) (CashBankValidationError ''FOREX requires exchange_rate > 0''))
              (\<lambda>_. Inr r)) (\<lambda>exchangeRate.
        let currencyCode = js_upper (case in_currency_code input of None \<Rightarrow> ''IDR'' | Some c \<Rightarrow> c) in
        bindR (require (length currencyCode = 3)
          (CashBankValidationError ''FOREX requires 3-char currency_code'')) (\<lambda>_.
        let baseAmount = (case in_base_amount input of
              None \<Rightarrow> normalizeMoney (fl (in_amount input * exchangeRate)) | Some b \<Rightarrow> b) in
        bindR (require (\<not> baseAmount \<le> 0)
          (CashBankValidationError ''FOREX base_amount must be positive'')) (\<lambda>_.
        let fxGainLoss = normalizeMoney (fl (baseAmount - in_amount input)) in
        bindR (require (fxGainLoss = 0 \<or> truthy_id (in_fx_account_id input) \<noteq> None)
          (CashBankValidationError ''fx_account_id is required when FOREX produces gain/loss'')) (\<lambda>_.
          Inr \<lparr>fx_exchange_rate = Some exchangeRate, fx_base_amount = Some baseAmount,
            fx_fx_account_id = in_fx_account_id input, fx_fx_gain_loss = fxGainLoss\<rparr>)))))"

fun base_doc_type :: "CashBankType \<Rightarrow> string" where
  "base_doc_type MUTATION = ''CASH_BANK_MUTATION''"
| "base_doc_type TOP_UP = ''CASH_BANK_TOP_UP''"
| "base_doc_type WITHDRAWAL = ''CASH_BANK_WITHDRAWAL''"
| "base_doc_type FOREX = ''CASH_BANK_FOREX''"

definition doc_type_of :: "CashBankType \<Rightarrow> bool \<Rightarrow> string" where
  "doc_type_of ty voidMode = (if voidMode then base_doc_type ty @ ''_VOID'' else base_doc_type ty)"

definition postToJournal ::
  "'s TreasuryPorts \<Rightarrow> 's PostingServiceFactory option \<Rightarrow> int \<Rightarrow> CashBankTransaction \<Rightarrow> bool \<Rightarrow> 's \<Rightarrow>
   terr + PostingResult \<times> 's" where
  "postToJournal ports factory now tx voidMode s =
     bindR (from_opt (JsError ''postToJournal requires postingServiceFactory - deferred to story 25.4'')
       factory) (\<lambda>make_service.
     let docType = doc_type_of (t_transaction_type tx) voidMode;
         request = \<lparr>pr_company_id = t_company_id tx, pr_outlet_id = t_outlet_id tx,
           pr_doc_type = docType, pr_doc_id = t_id tx\<rparr>;
         mappers = [(docType, \<lambda>_. mapToJournal tx voidMode)] in
     make_service (postingRepository ports) mappers now request External s)"

text \<open>The outlet of a transaction is checked when it has one and the caller is known.\<close>

definition check_outlet_access ::
  "'s TreasuryPorts \<Rightarrow> CashBankTransaction \<Rightarrow> nat \<Rightarrow> nat option \<Rightarrow> unit tres" where
  "check_outlet_access ports current companyId actor =
     (case (truthy_id (t_outlet_id current), actor) of
        (Some outlet, Some userId) \<Rightarrow> require (userHasOutletAccess ports userId companyId outlet)
          (CashBankForbiddenError ''User cannot access outlet'')
      | _ \<Rightarrow> Inr ())"

section \<open>Operations\<close>

definition cb_get :: "'s TreasuryPorts \<Rightarrow> nat \<Rightarrow> nat \<Rightarrow> 's \<Rightarrow> CashBankTransaction tres" where
  "cb_get ports transactionId companyId s =
     from_opt (CashBankNotFoundError ''Cash/bank transaction not found'')
       (findById ports transactionId companyId s)"

definition cb_list ::
  "'s TreasuryPorts \<Rightarrow> nat \<Rightarrow> CashBankListFilters \<Rightarrow> 's \<Rightarrow> nat \<times> CashBankTransaction list" where
  "cb_list ports companyId filters s = listTransactions ports companyId filters s"

definition check_create_outlet ::
  "'s TreasuryPorts \<Rightarrow> nat option \<Rightarrow> nat \<Rightarrow> nat option \<Rightarrow> 's \<Rightarrow> unit tres" where
  "check_create_outlet ports outletId companyId actor s =
     (case outletId of
        None \<Rightarrow> Inr ()
      | Some outlet \<Rightarrow>
          bindR (require (outletBelongsToCompany ports outlet companyId s)
            (CashBankValidationError ''Outlet not found for company'')) (\<lambda>_.
          case actor of
            None \<Rightarrow> Inr ()
          | Some userId \<Rightarrow> require (userHasOutletAccess ports userId companyId outlet)
              (CashBankForbiddenError ''User cannot access outlet'')))"

definition cb_create ::
  "'s TreasuryPorts \<Rightarrow> int \<Rightarrow> CreateCashBankInput \<Rightarrow> nat \<Rightarrow> nat option \<Rightarrow> 's \<Rightarrow>
   terr + CashBankTransaction \<times> 's" where
  "cb_create ports now input companyId actor s =
     bindR (require (in_source_account_id input \<noteq> in_destination_account_id input)
       (CashBankValidationError ''Source and destination accounts must differ'')) (\<lambda>_.
     bindR (require (\<not> in_amount input \<le> 0) (CashBankValidationError ''Amount must be positive'')) (\<lambda>_.
     bindR (check_create_outlet ports (in_outlet_id input) companyId actor s) (\<lambda>_.
     bindR (check_accounts ports (in_transaction_type input) (in_source_account_id input)
       (in_destination_account_id input) companyId s) (\<lambda>_.
     bindR (processForexFields input) (\<lambda>processed.
       createTransaction ports now input processed companyId actor s)))))"

definition cb_post ::
  "'s TreasuryPorts \<Rightarrow> 's PostingServiceFactory option \<Rightarrow> int \<Rightarrow> nat \<Rightarrow> nat \<Rightarrow> nat option \<Rightarrow> 's \<Rightarrow>
   terr + CashBankTransaction \<times> 's" where
  "cb_post ports factory now transactionId companyId actor s =
     bindR (from_opt (CashBankNotFoundError ''Cash/bank transaction not found'')
       (findByIdForUpdate ports transactionId companyId s)) (\<lambda>current.
     bindR (check_outlet_access ports current companyId actor) (\<lambda>_.
     if t_status current = POSTED then Inr (current, s)
     else
       bindR (require (t_status current = DRAFT)
         (CashBankStatusError ''Only DRAFT transaction can be posted'')) (\<lambda>_.
       bindR (check_accounts ports (t_transaction_type current) (t_source_account_id current)
         (t_destination_account_id current) companyId s) (\<lambda>_.
       bindR (ensureDateWithinOpenFiscalYear ports companyId (t_transaction_date current) s) (\<lambda>_.
       let s1 = updateStatus ports now transactionId companyId POSTED (Some now) s in
       bindR (from_opt (CashBankNotFoundError ''Posted transaction not found'')
         (findByIdForUpdate ports transactionId companyId s1)) (\<lambda>posted.
       bindR (postToJournal ports factory now posted False s1) (\<lambda>(_, s2).
         Inr (posted, s2))))))))"

definition cb_void ::
  "'s TreasuryPorts \<Rightarrow> 's PostingServiceFactory option \<Rightarrow> int \<Rightarrow> nat \<Rightarrow> nat \<Rightarrow> nat option \<Rightarrow> 's \<Rightarrow>
   terr + CashBankTransaction \<times> 's" where
  "cb_void ports factory now transactionId companyId actor s =
     bindR (from_opt (CashBankNotFoundError ''Cash/bank transaction not found'')
       (findByIdForUpdate ports transactionId companyId s)) (\<lambda>current.
     bindR (check_outlet_access ports current companyId actor) (\<lambda>_.
     if t_status current = VOID then Inr (current, s)
     else
       bindR (require (t_status current = POSTED)
         (CashBankStatusError ''Only POSTED transaction can be voided'')) (\<lambda>_.
       bindR (ensureDateWithinOpenFiscalYear ports companyId (t_transaction_date current) s) (\<lambda>_.
       let s1 = updateStatus ports now transactionId companyId VOID None s in
       bindR (from_opt (CashBankNotFoundError ''Voided transaction not found'')
         (findByIdForUpdate ports transactionId companyId s1)) (\<lambda>voided.
       bindR (postToJournal ports factory now voided True s1) (\<lambda>(_, s2).
         Inr (voided, s2)))))))"

section \<open>What the service needs of its repository\<close>

text \<open>Two readings of a transaction that differ in its state only.\<close>

definition same_terms :: "CashBankTransaction \<Rightarrow> CashBankTransaction \<Rightarrow> bool" where
  "same_terms t t' \<longleftrightarrow> (\<exists>st p u. t' = t\<lparr>t_status := st, t_posted_at := p, t_updated_at := u\<rparr>)"

lemma same_terms_simps:
  "same_terms t t' \<Longrightarrow> t_outlet_id t' = t_outlet_id t"
  "same_terms t t' \<Longrightarrow> t_transaction_type t' = t_transaction_type t"
  "same_terms t t' \<Longrightarrow> t_id t' = t_id t"
  "same_terms t t' \<Longrightarrow> t_company_id t' = t_company_id t"
  by (auto simp: same_terms_def)

lemma post_lines_Inr:
  "post_lines repository mapper now request s = Inr (r, s2) \<longleftrightarrow>
     (\<exists>lines b s1. mapper request = Inr lines \<and> assertBalancedLines lines = Inr () \<and>
       createJournalBatch repository now request s = Inr (b, s1) \<and>
       insertJournalLines repository now b request lines s1 = Inr s2 \<and>
       r = \<lparr>po_journal_batch_id = b, po_lines = lines\<rparr>)"
  by (auto simp: post_lines_def inr_simps)

lemma postToJournal_Inr:
  "postToJournal ports (Some posting_service_post) now tx v s = Inr (r, s2) \<longleftrightarrow>
     post_lines (postingRepository ports) (\<lambda>_. mapToJournal tx v) now
       \<lparr>pr_company_id = t_company_id tx, pr_outlet_id = t_outlet_id tx,
        pr_doc_type = doc_type_of (t_transaction_type tx) v, pr_doc_id = t_id tx\<rparr> s = Inr (r, s2)"
  by (simp add: postToJournal_def posting_service_post_def Let_def)

lemma cb_post_Inr:
  "cb_post ports f now i c actor s = Inr (t, s2) \<longleftrightarrow>
     (\<exists>cur. findByIdForUpdate ports i c s = Some cur \<and> check_outlet_access ports cur c actor = Inr () \<and>
       (if t_status cur = POSTED then t = cur \<and> s2 = s
        else t_status cur = DRAFT \<and>
          check_accounts ports (t_transaction_type cur) (t_source_account_id cur)
            (t_destination_account_id cur) c s = Inr () \<and>
          ensureDateWithinOpenFiscalYear ports c (t_transaction_date cur) s = Inr () \<and>
          findByIdForUpdate ports i c (updateStatus ports now i c POSTED (Some now) s) = Some t \<and>
          (\<exists>r. postToJournal ports f now t False (updateStatus ports now i c POSTED (Some now) s) = Inr (r, s2))))"
  by (auto simp: cb_post_def Let_def inr_simps)

lemma cb_void_Inr:
  "cb_void ports f now i c actor s = Inr (t, s2) \<longleftrightarrow>
     (\<exists>cur. findByIdForUpdate ports i c s = Some cur \<and> check_outlet_access ports cur c actor = Inr () \<and>
       (if t_status cur = VOID then t = cur \<and> s2 = s
        else t_status cur = POSTED \<and>
          ensureDateWithinOpenFiscalYear ports c (t_transaction_date cur) s = Inr () \<and>
          findByIdForUpdate ports i c (updateStatus ports now i c VOID None s) = Some t \<and>
          (\<exists>r. postToJournal ports f now t True (updateStatus ports now i c VOID None s) = Inr (r, s2))))"
  by (auto simp: cb_void_def Let_def inr_simps)

locale cash_bank_repository =
  fixes ports :: "'s TreasuryPorts"
  assumes for_update: "findByIdForUpdate ports i c s = findById ports i c s"
    and update_status: "findById ports i c s = Some t \<Longrightarrow>
      \<exists>t'. findById ports i c (updateStatus ports now i c st p s) = Some t' \<and> t_status t' = st \<and> same_terms t t'"
    and batch_keeps: "createJournalBatch (postingRepository ports) now request s = Inr (b, s') \<Longrightarrow>
      findById ports i c s' = findById ports i c s"
    and lines_keep: "insertJournalLines (postingRepository ports) now b request lines s = Inr s' \<Longrightarrow>
      findById ports i c s' = findById ports i c s"
begin

lemma journal_keeps:
  "postToJournal ports (Some posting_service_post) now tx v s = Inr (r, s') \<Longrightarrow>
     findById ports i c s' = findById ports i c s"
  unfolding postToJournal_Inr post_lines_Inr using batch_keeps lines_keep by fastforce

lemma same_access:
  "same_terms t t' \<Longrightarrow> check_outlet_access ports t' c actor = check_outlet_access ports t c actor"
  by (simp add: check_outlet_access_def same_terms_simps)

lemma posted_state:
  assumes "findById ports i c s = Some cur" and "check_outlet_access ports cur c actor = Inr ()"
    and "findById ports i c (updateStatus ports now i c st p s) = Some t"
    and "postToJournal ports (Some posting_service_post) now t v (updateStatus ports now i c st p s) = Inr (r, s')"
  shows "findById ports i c s' = Some t" and "t_status t = st" and "check_outlet_access ports t c actor = Inr ()"
proof -
  obtain t' where "findById ports i c (updateStatus ports now i c st p s) = Some t'" "t_status t' = st"
    "same_terms cur t'"
    using update_status [OF assms(1)] by blast
  with assms(3) have "t_status t = st" "same_terms cur t" by simp_all
  with journal_keeps [OF assms(4)] assms(2,3) show "findById ports i c s' = Some t" "t_status t = st"
    "check_outlet_access ports t c actor = Inr ()"
    by (simp_all add: same_access)
qed

lemma post_done:
  assumes "cb_post ports (Some posting_service_post) now i c actor s = Inr (t, s')"
  shows "findById ports i c s' = Some t \<and> t_status t = POSTED \<and> check_outlet_access ports t c actor = Inr ()"
proof -
  from assms obtain cur where cur: "findById ports i c s = Some cur" "check_outlet_access ports cur c actor = Inr ()"
    and rest: "if t_status cur = POSTED then t = cur \<and> s' = s
      else findById ports i c (updateStatus ports now i c POSTED (Some now) s) = Some t \<and>
        (\<exists>r. postToJournal ports (Some posting_service_post) now t False
          (updateStatus ports now i c POSTED (Some now) s) = Inr (r, s'))"
    unfolding cb_post_Inr for_update by (auto split: if_splits)
  show ?thesis
  proof (cases "t_status cur = POSTED")
    case False
    with rest show ?thesis by (auto intro: posted_state [OF cur])
  qed (use cur rest in simp)
qed

lemma void_done:
  assumes "cb_void ports (Some posting_service_post) now i c actor s = Inr (t, s')"
  shows "findById ports i c s' = Some t \<and> t_status t = VOID \<and> check_outlet_access ports t c actor = Inr ()"
proof -
  from assms obtain cur where cur: "findById ports i c s = Some cur" "check_outlet_access ports cur c actor = Inr ()"
    and rest: "if t_status cur = VOID then t = cur \<and> s' = s
      else findById ports i c (updateStatus ports now i c VOID None s) = Some t \<and>
        (\<exists>r. postToJournal ports (Some posting_service_post) now t True
          (updateStatus ports now i c VOID None s) = Inr (r, s'))"
    unfolding cb_void_Inr for_update by (auto split: if_splits)
  show ?thesis
  proof (cases "t_status cur = VOID")
    case False
    with rest show ?thesis by (auto intro: posted_state [OF cur])
  qed (use cur rest in simp)
qed

lemma post_again:
  assumes "cb_post ports (Some posting_service_post) now i c actor s = Inr (t, s')"
  shows "cb_post ports f now' i c actor s' = Inr (t, s')"
  using post_done [OF assms] by (simp add: cb_post_def for_update)

lemma void_again:
  assumes "cb_void ports (Some posting_service_post) now i c actor s = Inr (t, s')"
  shows "cb_void ports f now' i c actor s' = Inr (t, s')"
  using void_done [OF assms] by (simp add: cb_void_def for_update)

lemma post_after_void:
  assumes "cb_void ports (Some posting_service_post) now i c actor s = Inr (t, s')"
  shows "cb_post ports f now' i c actor s' = Inl (CashBankStatusError ''Only DRAFT transaction can be posted'')"
  using void_done [OF assms] by (simp add: cb_post_def for_update)

end

end
