(* ===== verification/Treasury_Tables.thy ===== *)
theory Treasury_Tables
  imports Cash_Bank_Service
begin

text \<open>
  The treasury adapter of the API server (\<open>apps/api/src/lib/treasury-adapter.ts\<close>): the ports of
  \<open>CashBankService\<close> over the tables of the database, with the columns, keys and checks of the
  migrations 0030, 0040, 0042 and 0077.  The accounts and the journal are the tables that the
  purchasing documents use.  Amounts are kept in units of their last decimal, dates in days since
  1970-01-01, and date-times in seconds.
\<close>

section \<open>Tables\<close>

record cash_bank_row =
  cbt_id :: nat
  cbt_company_id :: nat
  cbt_outlet_id :: "nat option"
  cbt_transaction_type :: CashBankType
  cbt_transaction_date :: int
  cbt_reference :: "string option"
  cbt_description :: string
  cbt_source_account_id :: nat
  cbt_destination_account_id :: nat
  cbt_amount :: int
  cbt_currency_code :: string
  cbt_exchange_rate :: "int option"
  cbt_base_amount :: "int option"
  cbt_fx_gain_loss :: "int option"
  cbt_fx_account_id :: "nat option"
  cbt_status :: CashBankStatus
  cbt_posted_at :: "int option"
  cbt_created_by_user_id :: "nat option"
  cbt_created_at :: int
  cbt_updated_at :: int

record fiscal_year_row =
  fy_id :: nat
  fy_company_id :: nat
  fy_code :: string
  fy_created_at :: int
  fy_created_by_user_id :: "nat option"
  fy_end_date :: int
  fy_name :: string
  fy_start_date :: int
  fy_status :: string
  fy_updated_at :: int
  fy_updated_by_user_id :: "nat option"

text \<open>An outlet is a pair of its number and its company; \<open>tr_last_id\<close> is the last number given to a
  transaction.\<close>

record treasury_db =
  tr_db :: db
  tr_outlets :: "(nat \<times> nat) list"
  tr_fiscal_years :: "fiscal_year_row list"
  cash_bank_transactions :: "cash_bank_row list"
  tr_last_id :: nat

text \<open>
  A \<open>DATETIME\<close> column rounds to seconds; \<open>current_timestamp()\<close> cuts; the date of an instant is that
  in UTC.
\<close>

definition to_datetime :: "int \<Rightarrow> int" where
  "to_datetime ms = (ms + 500) div 1000"

definition current_timestamp :: "int \<Rightarrow> int" where
  "current_timestamp ms = ms div 1000"

definition date_only :: "int \<Rightarrow> int" where
  "date_only ms = ms div 86400000"

text \<open>A \<open>DECIMAL(18,k)\<close> column refuses a value with more than 18 digits.\<close>

definition in_decimal18 :: "int \<Rightarrow> bool" where
  "in_decimal18 v \<longleftrightarrow> \<bar>v\<bar> < 10 ^ 18"

section \<open>Reading\<close>

definition account_name :: "treasury_db \<Rightarrow> nat \<Rightarrow> nat \<Rightarrow> string option" where
  "account_name s companyId accountId = map_option acc_name (find_account (tr_db s) companyId accountId)"

definition toCashBankTransaction :: "treasury_db \<Rightarrow> cash_bank_row \<Rightarrow> CashBankTransaction" where
  "toCashBankTransaction s r =
     \<lparr>t_id = cbt_id r, t_company_id = cbt_company_id r, t_outlet_id = cbt_outlet_id r,
      t_transaction_type = cbt_transaction_type r, t_transaction_date = cbt_transaction_date r,
      t_reference = cbt_reference r, t_description = cbt_description r,
      t_source_account_id = cbt_source_account_id r,
      t_source_account_name = account_name s (cbt_company_id r) (cbt_source_account_id r),
      t_destination_account_id = cbt_destination_account_id r,
      t_destination_account_name = account_name s (cbt_company_id r) (cbt_destination_account_id r),
      t_amount = of_decimal 2 (cbt_amount r), t_currency_code = cbt_currency_code r,
      t_exchange_rate = map_option (of_decimal 8) (cbt_exchange_rate r),
      t_base_amount = map_option (of_decimal 2) (cbt_base_amount r),
      t_fx_gain_loss = map_option (of_decimal 2) (cbt_fx_gain_loss r),
      t_fx_account_id = cbt_fx_account_id r,
      t_fx_account_name = Option.bind (cbt_fx_account_id r) (account_name s (cbt_company_id r)),
      t_status = cbt_status r, t_posted_at = cbt_posted_at r,
      t_created_by_user_id = cbt_created_by_user_id r, t_created_at = cbt_created_at r,
      t_updated_at = cbt_updated_at r\<rparr>"

definition find_cash_bank_row :: "nat \<Rightarrow> nat \<Rightarrow> treasury_db \<Rightarrow> cash_bank_row option" where
  "find_cash_bank_row i companyId s =
     find (\<lambda>r. cbt_id r = i \<and> cbt_company_id r = companyId) (cash_bank_transactions s)"

definition kysely_findById :: "nat \<Rightarrow> nat \<Rightarrow> treasury_db \<Rightarrow> CashBankTransaction option" where
  "kysely_findById i companyId s =
     map_option (toCashBankTransaction s) (find_cash_bank_row i companyId s)"

text \<open>A filter that is absent lets every row pass.\<close>

definition passes :: "CashBankListFilters \<Rightarrow> cash_bank_row \<Rightarrow> bool" where
  "passes f r \<longleftrightarrow>
     (case f_outletId f of None \<Rightarrow> True | Some x \<Rightarrow> cbt_outlet_id r = Some x) \<and>
     (case f_transactionType f of None \<Rightarrow> True | Some x \<Rightarrow> cbt_transaction_type r = x) \<and>
     (case f_status f of None \<Rightarrow> True | Some x \<Rightarrow> cbt_status r = x) \<and>
     (case f_dateFrom f of None \<Rightarrow> True | Some x \<Rightarrow> x \<le> cbt_transaction_date r) \<and>
     (case f_dateTo f of None \<Rightarrow> True | Some x \<Rightarrow> cbt_transaction_date r \<le> x)"

definition kysely_list :: "nat \<Rightarrow> CashBankListFilters \<Rightarrow> treasury_db \<Rightarrow> nat \<times> CashBankTransaction list" where
  "kysely_list companyId filters s =
     (let limit = (case f_limit filters of None \<Rightarrow> 50 | Some n \<Rightarrow> n);
          offset = (case f_offset filters of None \<Rightarrow> 0 | Some n \<Rightarrow> n);
          rows = filter (\<lambda>r. cbt_company_id r = companyId \<and> passes filters r) (cash_bank_transactions s);
          newest_first = sort_key (\<lambda>r. - cbt_transaction_date r) (sort_key (\<lambda>r. - int (cbt_id r)) rows) in
      (length rows, map (toCashBankTransaction s) (take limit (drop offset newest_first))))"

definition kysely_findAccount :: "nat \<Rightarrow> nat \<Rightarrow> treasury_db \<Rightarrow> AccountInfo option" where
  "kysely_findAccount accountId companyId s =
     map_option (\<lambda>a. \<lparr>ai_id = acc_id a, ai_company_id = acc_company_id a, ai_name = acc_name a,
       ai_type_name = acc_type_name a\<rparr>) (find_account (tr_db s) companyId accountId)"

definition kysely_outletBelongsToCompany :: "nat \<Rightarrow> nat \<Rightarrow> treasury_db \<Rightarrow> bool" where
  "kysely_outletBelongsToCompany outletId companyId s \<longleftrightarrow> (outletId, companyId) \<in> set (tr_outlets s)"

definition open_fiscal_years :: "nat \<Rightarrow> int \<Rightarrow> treasury_db \<Rightarrow> fiscal_year_row list" where
  "open_fiscal_years companyId date s =
     sort_key fy_start_date (sort_key fy_id
       (filter (\<lambda>y. fy_company_id y = companyId \<and> fy_status y = ''OPEN'' \<and>
         fy_start_date y \<le> date \<and> date \<le> fy_end_date y) (tr_fiscal_years s)))"

definition ensure_open_fiscal_year :: "nat \<Rightarrow> int \<Rightarrow> treasury_db \<Rightarrow> unit tres" where
  "ensure_open_fiscal_year companyId date s =
     require (open_fiscal_years companyId date s \<noteq> [])
       (FiscalYearNotOpenError ''Date is outside any open fiscal year'')"

section \<open>Writing\<close>

definition new_cash_bank_row ::
  "int \<Rightarrow> CreateCashBankInput \<Rightarrow> ForexFields \<Rightarrow> nat \<Rightarrow> nat option \<Rightarrow> nat \<Rightarrow> cash_bank_row" where
  "new_cash_bank_row now input processed companyId createdByUserId i =
     \<lparr>cbt_id = i, cbt_company_id = companyId, cbt_outlet_id = in_outlet_id input,
      cbt_transaction_type = in_transaction_type input,
      cbt_transaction_date = in_transaction_date input, cbt_reference = in_reference input,
      cbt_description = in_description input, cbt_source_account_id = in_source_account_id input,
      cbt_destination_account_id = in_destination_account_id input,
      cbt_amount = to_decimal 2 (normalizeMoney (in_amount input)),
      cbt_currency_code = js_upper (case in_currency_code input of None \<Rightarrow> ''IDR'' | Some c \<Rightarrow> c),
      cbt_exchange_rate = map_option (to_decimal 8) (fx_exchange_rate processed),
      cbt_base_amount = map_option (to_decimal 2) (fx_base_amount processed),
      cbt_fx_gain_loss = Some (to_decimal 2 (fx_fx_gain_loss processed)),
      cbt_fx_account_id = fx_fx_account_id processed, cbt_status = DRAFT, cbt_posted_at = None,
      cbt_created_by_user_id = createdByUserId, cbt_created_at = current_timestamp now,
      cbt_updated_at = current_timestamp now\<rparr>"

text \<open>
  What the table refuses.  \<open>collate\<close> gives the text that the collation of the column compares, so
  that two references which it does not tell apart clash.
\<close>

definition row_in_columns :: "cash_bank_row \<Rightarrow> bool" where
  "row_in_columns r \<longleftrightarrow> in_decimal18 (cbt_amount r) \<and>
     list_all (\<lambda>v. case v of None \<Rightarrow> True | Some x \<Rightarrow> in_decimal18 x)
       [cbt_exchange_rate r, cbt_base_amount r, cbt_fx_gain_loss r]"

definition texts_fit :: "cash_bank_row \<Rightarrow> bool" where
  "texts_fit r \<longleftrightarrow> length (cbt_description r) \<le> 500 \<and> length (cbt_currency_code r) \<le> 3 \<and>
     (case cbt_reference r of None \<Rightarrow> True | Some x \<Rightarrow> length x \<le> 100)"

definition reference_free :: "(string \<Rightarrow> string) \<Rightarrow> cash_bank_row \<Rightarrow> treasury_db \<Rightarrow> bool" where
  "reference_free collate r s \<longleftrightarrow>
     (case cbt_reference r of None \<Rightarrow> True
      | Some x \<Rightarrow> \<not> list_ex (\<lambda>q. cbt_company_id q = cbt_company_id r \<and>
          (case cbt_reference q of None \<Rightarrow> False | Some y \<Rightarrow> collate y = collate x)) (cash_bank_transactions s))"

definition references_exist :: "cash_bank_row \<Rightarrow> treasury_db \<Rightarrow> bool" where
  "references_exist r s \<longleftrightarrow>
     find_account (tr_db s) (cbt_company_id r) (cbt_source_account_id r) \<noteq> None \<and>
     find_account (tr_db s) (cbt_company_id r) (cbt_destination_account_id r) \<noteq> None \<and>
     (case cbt_fx_account_id r of None \<Rightarrow> True
      | Some a \<Rightarrow> find_account (tr_db s) (cbt_company_id r) a \<noteq> None) \<and>
     (case cbt_outlet_id r of None \<Rightarrow> True
      | Some x \<Rightarrow> kysely_outletBelongsToCompany x (cbt_company_id r) s)"

definition insert_cash_bank_row ::
  "(string \<Rightarrow> string) \<Rightarrow> cash_bank_row \<Rightarrow> treasury_db \<Rightarrow> treasury_db tres" where
  "insert_cash_bank_row collate r s =
     bindR (require (texts_fit r) (Er_Data_Too_Long ''cash_bank_transactions'')) (\<lambda>_.
     bindR (require (row_in_columns r) (Er_Out_Of_Range ''cash_bank_transactions'')) (\<lambda>_.
     bindR (require (cbt_amount r > 0) (Er_Check_Violated ''chk_cash_bank_tx_amount_positive'')) (\<lambda>_.
     bindR (require (cbt_source_account_id r \<noteq> cbt_destination_account_id r)
       (Er_Check_Violated ''chk_cash_bank_tx_source_dest_diff'')) (\<lambda>_.
     bindR (require (reference_free collate r s) (Er_Dup_Entry ''uq_cash_bank_tx_company_reference'')) (\<lambda>_.
     bindR (require (references_exist r s) (Er_No_Referenced_Row ''cash_bank_transactions'')) (\<lambda>_.
       Inr (s\<lparr>cash_bank_transactions := cash_bank_transactions s @ [r], tr_last_id := cbt_id r\<rparr>)))))))"

definition kysely_create ::
  "(string \<Rightarrow> string) \<Rightarrow> int \<Rightarrow> CreateCashBankInput \<Rightarrow> ForexFields \<Rightarrow> nat \<Rightarrow> nat option \<Rightarrow> treasury_db \<Rightarrow>
   terr + CashBankTransaction \<times> treasury_db" where
  "kysely_create collate now input processed companyId createdByUserId s =
     (let i = Suc (tr_last_id s) in
      bindR (insert_cash_bank_row collate
        (new_cash_bank_row now input processed companyId createdByUserId i) s) (\<lambda>s1.
      bindR (from_opt (JsError ''Created transaction not found'') (kysely_findById i companyId s1))
        (\<lambda>created. Inr (created, s1))))"

definition set_status :: "int \<Rightarrow> CashBankStatus \<Rightarrow> int option \<Rightarrow> cash_bank_row \<Rightarrow> cash_bank_row" where
  "set_status now status postedAt r =
     r\<lparr>cbt_status := status, cbt_updated_at := to_datetime now,
       cbt_posted_at := (case postedAt of None \<Rightarrow> cbt_posted_at r | Some p \<Rightarrow> Some (to_datetime p))\<rparr>"

definition kysely_updateStatus ::
  "int \<Rightarrow> nat \<Rightarrow> nat \<Rightarrow> CashBankStatus \<Rightarrow> int option \<Rightarrow> treasury_db \<Rightarrow> treasury_db" where
  "kysely_updateStatus now i companyId status postedAt s =
     s\<lparr>cash_bank_transactions := update_where (\<lambda>r. cbt_id r = i \<and> cbt_company_id r = companyId)
        (set_status now status postedAt) (cash_bank_transactions s)\<rparr>"

definition kysely_createJournalBatch ::
  "int \<Rightarrow> PostingRequest \<Rightarrow> treasury_db \<Rightarrow> terr + nat \<times> treasury_db" where
  "kysely_createJournalBatch now request s =
     (let d = tr_db s; batchId = next_id d T_journal_batch in
      bindR (require (batch_free d (pr_company_id request) (pr_doc_type request) (pr_doc_id request))
        (Er_Dup_Entry ''uq_journal_batches_company_doc'')) (\<lambda>_.
      Inr (batchId, s\<lparr>tr_db := bump T_journal_batch
        (d\<lparr>journal_batches := journal_batches d @
             [\<lparr>jb_id = batchId, jb_company_id = pr_company_id request, jb_client_ref = None,
               jb_created_at = current_timestamp now, jb_doc_id = pr_doc_id request,
               jb_doc_type = pr_doc_type request, jb_outlet_id = pr_outlet_id request,
               jb_posted_at = to_datetime now, jb_updated_at = current_timestamp now\<rparr>]\<rparr>)\<rparr>)))"

text \<open>
  A line as the ledger keeps it.  Its account and outlet exist, since the transaction refers to
  them, and its description is far shorter than the column.
\<close>

definition stored_entry :: "JournalLine \<Rightarrow> ledger_entry" where
  "stored_entry l = \<lparr>le_account = ln_account_id l, le_debit = to_decimal 2 (ln_debit l),
     le_credit = to_decimal 2 (ln_credit l), le_description = ln_description l\<rparr>"

definition insert_posting_line ::
  "int \<Rightarrow> nat \<Rightarrow> PostingRequest \<Rightarrow> db \<Rightarrow> JournalLine \<Rightarrow> db tres" where
  "insert_posting_line now batchId request d l =
     (let e = stored_entry l in
      bindR (require (in_decimal18 (le_debit e) \<and> in_decimal18 (le_credit e))
        (Er_Out_Of_Range ''journal_lines'')) (\<lambda>_.
      bindR (require (entry_sided e) (Er_Check_Violated ''chk_journal_lines'')) (\<lambda>_.
      Inr (bump T_journal_line (d\<lparr>journal_lines := journal_lines d @
        [\<lparr>jl_id = next_id d T_journal_line, jl_company_id = pr_company_id request,
          jl_account_id = le_account e, jl_created_at = current_timestamp now, jl_credit = le_credit e,
          jl_debit = le_debit e, jl_description = le_description e, jl_journal_batch_id = batchId,
          jl_line_date = date_only now, jl_outlet_id = pr_outlet_id request,
          jl_updated_at = current_timestamp now\<rparr>]\<rparr>)))))"

definition kysely_insertJournalLines ::
  "int \<Rightarrow> nat \<Rightarrow> PostingRequest \<Rightarrow> JournalLine list \<Rightarrow> treasury_db \<Rightarrow> treasury_db tres" where
  "kysely_insertJournalLines now batchId request lines s =
     (if lines = [] then Inr s
      else bindR (foldM (insert_posting_line now batchId request) (tr_db s) lines)
        (\<lambda>d. Inr (s\<lparr>tr_db := d\<rparr>)))"

section \<open>The service as the API server composes it\<close>

definition kysely_posting :: "treasury_db PostingRepository" where
  "kysely_posting =
     \<lparr>begin_transaction = None, commit_transaction = None, rollback_transaction = None,
      createJournalBatch = kysely_createJournalBatch, insertJournalLines = kysely_insertJournalLines\<rparr>"

definition kysely_ports ::
  "(string \<Rightarrow> string) \<Rightarrow> (nat \<Rightarrow> nat \<Rightarrow> nat \<Rightarrow> bool) \<Rightarrow> treasury_db TreasuryPorts" where
  "kysely_ports collate access =
     \<lparr>findById = kysely_findById, findByIdForUpdate = kysely_findById, listTransactions = kysely_list,
      createTransaction = kysely_create collate, updateStatus = kysely_updateStatus,
      findAccount = kysely_findAccount, outletBelongsToCompany = kysely_outletBelongsToCompany,
      postingRepository = kysely_posting, userHasOutletAccess = access,
      ensureDateWithinOpenFiscalYear = ensure_open_fiscal_year\<rparr>"

definition treasury_create ::
  "(string \<Rightarrow> string) \<Rightarrow> (nat \<Rightarrow> nat \<Rightarrow> nat \<Rightarrow> bool) \<Rightarrow> int \<Rightarrow> CreateCashBankInput \<Rightarrow> nat \<Rightarrow> nat option \<Rightarrow>
   treasury_db \<Rightarrow> terr + CashBankTransaction \<times> treasury_db" where
  "treasury_create collate access = cb_create (kysely_ports collate access)"

definition treasury_post ::
  "(string \<Rightarrow> string) \<Rightarrow> (nat \<Rightarrow> nat \<Rightarrow> nat \<Rightarrow> bool) \<Rightarrow> int \<Rightarrow> nat \<Rightarrow> nat \<Rightarrow> nat option \<Rightarrow>
   treasury_db \<Rightarrow> terr + CashBankTransaction \<times> treasury_db" where
  "treasury_post collate access = cb_post (kysely_ports collate access) (Some posting_service_post)"

definition treasury_void ::
  "(string \<Rightarrow> string) \<Rightarrow> (nat \<Rightarrow> nat \<Rightarrow> nat \<Rightarrow> bool) \<Rightarrow> int \<Rightarrow> nat \<Rightarrow> nat \<Rightarrow> nat option \<Rightarrow>
   treasury_db \<Rightarrow> terr + CashBankTransaction \<times> treasury_db" where
  "treasury_void collate access = cb_void (kysely_ports collate access) (Some posting_service_post)"

section \<open>The adapter keeps the contract\<close>

lemma toCashBankTransaction_cong:
  "accounts (tr_db s') = accounts (tr_db s) \<Longrightarrow> toCashBankTransaction s' = toCashBankTransaction s"
  by (simp add: toCashBankTransaction_def account_name_def [abs_def] find_account_def fun_eq_iff)

lemma find_cash_bank_row_Some:
  "find_cash_bank_row i c s = Some r \<Longrightarrow>
     r \<in> set (cash_bank_transactions s) \<and> cbt_id r = i \<and> cbt_company_id r = c"
  unfolding find_cash_bank_row_def by (drule find_SomeD) simp

lemma find_after_update:
  "find_cash_bank_row i c s = Some r \<Longrightarrow>
     find_cash_bank_row i c (kysely_updateStatus now i c st p s) =
       Some (set_status now st p r)"
  using find_cash_bank_row_Some [of i c s r]
  by (simp add: find_cash_bank_row_def kysely_updateStatus_def find_update_where set_status_def)

lemma findById_update:
  assumes "kysely_findById i c s = Some t"
  shows "\<exists>t'. kysely_findById i c (kysely_updateStatus now i c st p s) = Some t' \<and> t_status t' = st \<and>
    same_terms t t'"
proof -
  obtain r where r: "find_cash_bank_row i c s = Some r" "t = toCashBankTransaction s r"
    using assms by (auto simp: kysely_findById_def)
  have acc: "toCashBankTransaction (kysely_updateStatus now i c st p s) = toCashBankTransaction s"
    by (rule toCashBankTransaction_cong) (simp add: kysely_updateStatus_def)
  show ?thesis
    by (simp add: kysely_findById_def find_after_update [OF r(1)] acc r(2))
      (auto simp: toCashBankTransaction_def same_terms_def set_status_def)
qed

lemma findById_cong:
  "cash_bank_transactions s' = cash_bank_transactions s \<Longrightarrow> accounts (tr_db s') = accounts (tr_db s) \<Longrightarrow>
     kysely_findById i c s' = kysely_findById i c s"
  by (simp add: kysely_findById_def find_cash_bank_row_def toCashBankTransaction_cong [of s' s])

lemma createJournalBatch_frame:
  "kysely_createJournalBatch now request s = Inr (b, s') \<Longrightarrow>
     cash_bank_transactions s' = cash_bank_transactions s \<and> accounts (tr_db s') = accounts (tr_db s)"
  by (auto simp: kysely_createJournalBatch_def Let_def inr_simps bump_def)

lemma insert_posting_lines_frame:
  assumes "foldM (insert_posting_line now b request) d lines = Inr d'"
  shows "accounts d' = accounts d"
  using assms
proof (rule foldM_invariant [where I = "\<lambda>x. accounts x = accounts d"])
  show "accounts x = accounts d \<Longrightarrow> insert_posting_line now b request x l = Inr x' \<Longrightarrow> accounts x' = accounts d" for x l x'
    by (auto simp: insert_posting_line_def Let_def inr_simps bump_def)
qed simp

lemma insertJournalLines_frame:
  "kysely_insertJournalLines now b request lines s = Inr s' \<Longrightarrow>
     cash_bank_transactions s' = cash_bank_transactions s \<and> accounts (tr_db s') = accounts (tr_db s)"
  by (auto simp: kysely_insertJournalLines_def inr_simps dest: insert_posting_lines_frame split: if_splits)

interpretation kb: cash_bank_repository "kysely_ports collate access"
  for collate access
proof
  fix i c and s :: treasury_db
  show "findByIdForUpdate (kysely_ports collate access) i c s = findById (kysely_ports collate access) i c s"
    by (simp add: kysely_ports_def)
next
  fix i c and s :: treasury_db and t now st p
  show "findById (kysely_ports collate access) i c s = Some t \<Longrightarrow>
    \<exists>t'. findById (kysely_ports collate access) i c (updateStatus (kysely_ports collate access) now i c st p s) =
      Some t' \<and> t_status t' = st \<and> same_terms t t'"
    by (simp add: kysely_ports_def findById_update)
next
  fix now request and s :: treasury_db and b s' i c
  show "createJournalBatch (postingRepository (kysely_ports collate access)) now request s = Inr (b, s') \<Longrightarrow>
    findById (kysely_ports collate access) i c s' = findById (kysely_ports collate access) i c s"
    by (simp add: kysely_ports_def kysely_posting_def) (metis createJournalBatch_frame findById_cong)
next
  fix now b request lines and s s' :: treasury_db and i c
  show "insertJournalLines (postingRepository (kysely_ports collate access)) now b request lines s = Inr s' \<Longrightarrow>
    findById (kysely_ports collate access) i c s' = findById (kysely_ports collate access) i c s"
    by (simp add: kysely_ports_def kysely_posting_def) (metis insertJournalLines_frame findById_cong)
qed

end
