(* ===== verification/Treasury_Amounts.thy ===== *)
theory Treasury_Amounts
  imports Treasury_Tables
begin

text \<open>
  What the arithmetic of the treasury does to amounts: up to \<open>10 ^ 14\<close> cents no rounding of
  JavaScript numbers is visible, and the journal of a stored transaction is the one that integers
  of cents would give.
\<close>

section \<open>Cents\<close>

lemma of_decimal2_near: "\<bar>of_decimal 2 v - of_int v / 100\<bar> \<le> \<bar>of_int v / 100\<bar> / 2 ^ 53"
  using fl_error [of "of_int v / 100"] by (simp add: of_decimal_def)

lemma of_decimal2_0 [simp]: "of_decimal 2 0 = 0"
  by (simp add: of_decimal_def)

lemma of_decimal2_minus: "of_decimal 2 (- v) = - of_decimal 2 v"
  using fl_minus [of "of_int v / 100"] by (simp add: of_decimal_def)

lemma normalizeMoney_minor: "normalizeMoney x = of_decimal 2 (toMinorUnits x)"
  by (simp add: normalizeMoney_def of_decimal_def)

lemma math_round_near: "\<bar>y - of_int k\<bar> < 1 / 2 \<Longrightarrow> math_round y = k"
  unfolding math_round_def by (rule floor_unique) (simp_all add: abs_if split: if_splits)

lemma minor_near:
  assumes "\<bar>x - of_int k / 100\<bar> \<le> of_nat n * M / 2 ^ 53" and "\<bar>of_int k / 100\<bar> \<le> M"
    and "n \<le> 20" and "M \<le> 10 ^ 12"
  shows "toMinorUnits x = k"
proof -
  have "x * 100 - of_int k = (x - of_int k / 100) * 100" by (simp add: left_diff_distrib)
  then have "\<bar>x * 100 - of_int k\<bar> = \<bar>x - of_int k / 100\<bar> * 100" by (simp only: abs_mult)
  also have "\<dots> \<le> of_nat n * M / 2 ^ 53 * 100" using assms(1) by (intro mult_right_mono) simp_all
  finally have "\<bar>x * 100 - of_int k\<bar> \<le> of_nat n * (100 * M) / 2 ^ 53" by simp
  then have "\<bar>fl (x * 100) - of_int k\<bar> \<le> of_nat (n + 2) * (100 * M) / 2 ^ 53"
    using assms(2,3) by (intro fl_step) (simp_all add: abs_if split: if_splits)
  also have "\<dots> \<le> 22 * (100 * 10 ^ 12) / 2 ^ 53"
    using assms(2-4) by (intro divide_right_mono mult_mono) simp_all
  finally show ?thesis unfolding toMinorUnits_def by (intro math_round_near) simp
qed

lemma rat_cents:
  assumes "\<bar>k\<bar> \<le> 10 ^ 14"
  shows "\<bar>of_int k / 100 :: rat\<bar> \<le> 10 ^ 12"
proof -
  have "of_int \<bar>k\<bar> \<le> (of_int (10 ^ 14) :: rat)" using assms unfolding of_int_le_iff .
  then show ?thesis by (simp add: abs_divide)
qed

lemma toMinorUnits_cents:
  assumes "\<bar>k\<bar> \<le> 10 ^ 14"
  shows "toMinorUnits (of_decimal 2 k) = k"
proof (rule minor_near [where n = 1 and M = "\<bar>of_int k / 100\<bar>"])
  show "\<bar>of_int k / 100 :: rat\<bar> \<le> 10 ^ 12" by (rule rat_cents) (rule assms)
qed (use of_decimal2_near [of k] in simp_all)

lemma toMinorUnits_0 [simp]: "toMinorUnits 0 = 0"
  using toMinorUnits_cents [of 0] by simp

lemma normalizeMoney_cents: "\<bar>k\<bar> \<le> 10 ^ 14 \<Longrightarrow> normalizeMoney (of_decimal 2 k) = of_decimal 2 k"
  by (simp add: normalizeMoney_minor toMinorUnits_cents)

lemma toMinorUnits_difference:
  assumes "0 \<le> a" and "a \<le> 10 ^ 14" and "0 \<le> b" and "b \<le> 10 ^ 14"
  shows "toMinorUnits (fl (of_decimal 2 b - of_decimal 2 a)) = b - a"
proof (rule minor_near [where n = 4 and M = "10 ^ 12"])
  have small: "\<bar>of_decimal 2 v - of_int v / 100\<bar> \<le> 10 ^ 12 / 2 ^ 53" if "0 \<le> v" "v \<le> 10 ^ 14" for v
  proof -
    have "\<bar>of_int v / 100 :: rat\<bar> / 2 ^ 53 \<le> 10 ^ 12 / 2 ^ 53"
      using that by (intro divide_right_mono rat_cents) simp_all
    with of_decimal2_near [of v] show ?thesis by linarith
  qed
  have "\<bar>of_decimal 2 b - of_decimal 2 a - of_int (b - a) / 100\<bar> \<le> of_nat 2 * 10 ^ 12 / 2 ^ 53"
    using small [OF assms(1,2)] small [OF assms(3,4)] by (simp add: diff_divide_distrib abs_if split: if_splits)
  moreover show "\<bar>of_int (b - a) / 100 :: rat\<bar> \<le> 10 ^ 12"
    by (rule rat_cents) (use assms in linarith)
  ultimately have "\<bar>fl (of_decimal 2 b - of_decimal 2 a) - of_int (b - a) / 100\<bar> \<le> of_nat (2 + 2) * 10 ^ 12 / 2 ^ 53"
    by (intro fl_step) simp_all
  then show "\<bar>fl (of_decimal 2 b - of_decimal 2 a) - of_int (b - a) / 100\<bar> \<le> of_nat 4 * 10 ^ 12 / 2 ^ 53"
    by simp
qed simp_all

lemma normalizeMoney_difference:
  "0 \<le> a \<Longrightarrow> a \<le> 10 ^ 14 \<Longrightarrow> 0 \<le> b \<Longrightarrow> b \<le> 10 ^ 14 \<Longrightarrow>
     normalizeMoney (fl (of_decimal 2 b - of_decimal 2 a)) = of_decimal 2 (b - a)"
  by (simp add: normalizeMoney_minor toMinorUnits_difference)

lemma to_decimal_cents:
  assumes "\<bar>k\<bar> \<le> 10 ^ 14"
  shows "to_decimal 2 (of_decimal 2 k) = k"
proof (rule to_decimal_near)
  let ?x = "of_decimal 2 k" and ?t = "of_int k / 100 :: rat"
  show "fl ?x = ?x" by (simp add: of_decimal_def)
  have "\<bar>?t\<bar> \<le> 10 ^ 12" by (rule rat_cents) (rule assms)
  with of_decimal2_near [of k] have "\<bar>?x - ?t\<bar> + \<bar>?x\<bar> / 2 ^ 52 < 1 / 200"
    by (simp add: abs_if split: if_splits)
  then show "\<bar>?x - of_int k / 10 ^ 2\<bar> + \<bar>?x\<bar> / 2 ^ 52 < 1 / (2 * 10 ^ 2)" by simp
qed

lemma of_decimal2_eq_0: "\<bar>k\<bar> \<le> 10 ^ 14 \<Longrightarrow> of_decimal 2 k = 0 \<longleftrightarrow> k = 0"
  using to_decimal_cents [of k] to_decimal_cents [of 0] by auto

lemma of_decimal2_pos:
  assumes "\<bar>k\<bar> \<le> 10 ^ 14"
  shows "0 < of_decimal 2 k \<longleftrightarrow> 0 < k"
proof -
  have *: "0 \<le> of_decimal 2 v" if "0 \<le> v" for v
  proof -
    have "\<bar>of_int v / 100 :: rat\<bar> / 2 ^ 53 \<le> of_int v / 100" using that by simp
    with of_decimal2_near [of v] show ?thesis by linarith
  qed
  show ?thesis
    using * [of k] * [of "- k"] of_decimal2_eq_0 [OF assms] of_decimal2_minus [of k]
    by (cases "0 \<le> k") auto
qed

section \<open>The journal in cents\<close>

text \<open>What a transaction books, in cents: the definition that the journal is measured by.\<close>

definition booked_value :: "cash_bank_row \<Rightarrow> int" where
  "booked_value r =
     (if cbt_transaction_type r = FOREX
      then (case cbt_base_amount r of None \<Rightarrow> cbt_amount r | Some b \<Rightarrow> b) else cbt_amount r)"

definition booked :: "cash_bank_row \<Rightarrow> ledger_entry list" where
  "booked r =
     (let label = ''Cash/Bank '' @ type_label (cbt_transaction_type r) @ '' #'' @ nat_str (cbt_id r);
          diff = booked_value r - cbt_amount r;
          fx = (case cbt_fx_account_id r of None \<Rightarrow> 0 | Some a \<Rightarrow> a) in
      [\<lparr>le_account = cbt_destination_account_id r, le_debit = booked_value r, le_credit = 0,
        le_description = label @ '' debit destination''\<rparr>,
       \<lparr>le_account = cbt_source_account_id r, le_debit = 0, le_credit = cbt_amount r,
        le_description = label @ '' credit source''\<rparr>] @
      (if diff = 0 then []
       else [\<lparr>le_account = fx, le_debit = max 0 (- diff), le_credit = max 0 diff,
              le_description = label @ (if diff > 0 then '' forex gain'' else '' forex loss'')\<rparr>]))"

definition in_range :: "cash_bank_row \<Rightarrow> bool" where
  "in_range r \<longleftrightarrow> 0 < cbt_amount r \<and> cbt_amount r \<le> 10 ^ 14 \<and>
     0 \<le> booked_value r \<and> booked_value r \<le> 10 ^ 14"

definition fx_given :: "cash_bank_row \<Rightarrow> bool" where
  "fx_given r \<longleftrightarrow> booked_value r = cbt_amount r \<or> truthy_id (cbt_fx_account_id r) \<noteq> None"

definition void_entries :: "bool \<Rightarrow> ledger_entry list \<Rightarrow> ledger_entry list" where
  "void_entries voidMode es = (if voidMode then map (reverse_entry (\<lambda>d. ''Void '' @ d)) es else es)"

lemma booked_status [simp]:
  "booked_value (set_status now st p r) = booked_value r"
  "booked (set_status now st p r) = booked r"
  "in_range (set_status now st p r) = in_range r"
  "cbt_id (set_status now st p r) = cbt_id r"
  "cbt_company_id (set_status now st p r) = cbt_company_id r"
  "cbt_status (set_status now st p r) = st"
proof -
  show v: "booked_value (set_status now st p r) = booked_value r"
    by (cases "cbt_base_amount r") (simp_all add: booked_value_def set_status_def)
  show "booked (set_status now st p r) = booked r" unfolding booked_def v by (simp add: set_status_def)
  show "in_range (set_status now st p r) = in_range r" unfolding in_range_def v by (simp add: set_status_def)
qed (simp_all add: set_status_def)

lemma booked_balanced: "debits (booked r) = credits (booked r)"
  by (simp add: booked_def Let_def debits_def credits_def max_def)

lemma account_net_void: "account_net a (void_entries True es) = - account_net a es"
  by (induction es) (simp_all add: account_net_def reverse_entry_def void_entries_def)

lemma fl_add: "\<bar>a + b\<bar> \<le> 2 ^ 53 \<Longrightarrow> fl (of_int a + of_int b) = of_int (a + b)"
  using fl_int [of "a + b"] by simp

text \<open>Lines whose amounts are cents add up in JavaScript as they do in cents.\<close>

definition cents_line :: "JournalLine \<Rightarrow> bool" where
  "cents_line l \<longleftrightarrow> (\<exists>a b. \<bar>a\<bar> \<le> 10 ^ 14 \<and> \<bar>b\<bar> \<le> 10 ^ 14 \<and> ln_debit l = of_decimal 2 a \<and> ln_credit l = of_decimal 2 b)"

lemma cents_line_stored:
  assumes "cents_line l"
  shows "toMinorUnits (ln_debit l) = le_debit (stored_entry l)"
    and "toMinorUnits (ln_credit l) = le_credit (stored_entry l)"
    and "\<bar>le_debit (stored_entry l)\<bar> \<le> 10 ^ 14" and "\<bar>le_credit (stored_entry l)\<bar> \<le> 10 ^ 14"
  using assms by (auto simp: cents_line_def stored_entry_def toMinorUnits_cents to_decimal_cents)

lemma minor_sum_cents:
  assumes "\<forall>l \<in> set ls. toMinorUnits (f l) = g l \<and> \<bar>g l\<bar> \<le> 10 ^ 14" and "length ls \<le> 10"
  shows "minor_sum f ls = of_int (sum_list (map g ls))"
proof -
  have "foldl (\<lambda>s l. fl (s + of_int (toMinorUnits (f l)))) (of_int s) ls = of_int (s + sum_list (map g ls))"
    if "\<forall>l \<in> set ls. toMinorUnits (f l) = g l \<and> \<bar>g l\<bar> \<le> 10 ^ 14" "\<bar>s\<bar> + int (length ls) * 10 ^ 14 \<le> 2 ^ 53" for s ls
    using that
  proof (induction ls arbitrary: s)
    case (Cons l ls)
    have "\<bar>s + g l\<bar> + int (length ls) * 10 ^ 14 \<le> 2 ^ 53" using Cons.prems by (simp add: abs_if algebra_simps split: if_splits)
    moreover from this have "fl (of_int s + of_int (g l)) = of_int (s + g l)" by (intro fl_add) simp
    ultimately show ?case using Cons by (simp add: add.assoc del: of_int_add)
  qed simp
  from this [OF assms(1), of 0] assms(2) show ?thesis by (simp add: minor_sum_def)
qed

lemma minor_sums_stored:
  assumes "\<forall>l \<in> set ls. cents_line l" and "length ls \<le> 10"
  shows "minor_sum ln_debit ls = of_int (debits (map stored_entry ls))"
    and "minor_sum ln_credit ls = of_int (credits (map stored_entry ls))"
  using minor_sum_cents [of ls ln_debit "\<lambda>l. le_debit (stored_entry l)"]
    minor_sum_cents [of ls ln_credit "\<lambda>l. le_credit (stored_entry l)"] assms cents_line_stored
  by (simp_all add: debits_def credits_def comp_def)

text \<open>An entry of cents as the journal builder writes it.\<close>

definition cents_of :: "ledger_entry \<Rightarrow> JournalLine" where
  "cents_of e = \<lparr>ln_account_id = le_account e, ln_debit = of_decimal 2 (le_debit e),
     ln_credit = of_decimal 2 (le_credit e), ln_description = le_description e\<rparr>"

definition small_entry :: "ledger_entry \<Rightarrow> bool" where
  "small_entry e \<longleftrightarrow> \<bar>le_debit e\<bar> \<le> 10 ^ 14 \<and> \<bar>le_credit e\<bar> \<le> 10 ^ 14"

lemma stored_cents_of: "small_entry e \<Longrightarrow> stored_entry (cents_of e) = e"
  by (simp add: stored_entry_def cents_of_def small_entry_def to_decimal_cents)

lemma stored_cents_of_map: "\<forall>e \<in> set es. small_entry e \<Longrightarrow> map stored_entry (map cents_of es) = es"
  by (simp add: stored_cents_of map_idI)

lemma cents_line_cents_of: "small_entry e \<Longrightarrow> cents_line (cents_of e)"
  by (auto simp: small_entry_def cents_line_def cents_of_def)

lemma void_cents_of: "map void_line (map cents_of es) = map cents_of (void_entries True es)"
  by (simp add: void_entries_def void_line_def cents_of_def reverse_entry_def)

lemma booked_small: "in_range r \<Longrightarrow> \<forall>e \<in> set (void_entries v (booked r)). small_entry e"
  by (auto simp: void_entries_def booked_def Let_def small_entry_def in_range_def reverse_entry_def)

lemma booked_length: "length (void_entries v (booked r)) \<in> {2, 3}"
  by (simp add: void_entries_def booked_def Let_def)

lemma minor_sums_cents_of:
  assumes "\<forall>e \<in> set es. small_entry e" and "length es \<le> 10"
  shows "minor_sum ln_debit (map cents_of es) = of_int (debits es)"
    and "minor_sum ln_credit (map cents_of es) = of_int (credits es)"
  using minor_sums_stored [of "map cents_of es"] assms cents_line_cents_of stored_cents_of_map [OF assms(1)]
  by (simp_all del: map_map)

lemma forex_lines_booked:
  assumes r: "in_range r" and ty: "cbt_transaction_type r = FOREX"
  shows "forex_lines \<lparr>bi_transactionType = FOREX, bi_sourceAccountId = cbt_source_account_id r,
      bi_destinationAccountId = cbt_destination_account_id r, bi_amount = of_decimal 2 (cbt_amount r),
      bi_baseAmount = map_option (of_decimal 2) (cbt_base_amount r), bi_fxAccountId = cbt_fx_account_id r,
      bi_referenceLabel = ''Cash/Bank '' @ type_label FOREX @ '' #'' @ nat_str (cbt_id r)\<rparr> =
    (if fx_given r then Inr (map cents_of (booked r))
     else Inl (CashBankValidationError ''fx_account_id is required when FOREX has gain/loss''))"
proof -
  let ?a = "cbt_amount r" and ?b = "booked_value r"
  have rng: "\<bar>?a\<bar> \<le> 10 ^ 14" "\<bar>?b\<bar> \<le> 10 ^ 14" "\<bar>?b - ?a\<bar> \<le> 10 ^ 14" using r by (auto simp: in_range_def)
  have base: "(case map_option (of_decimal 2) (cbt_base_amount r) of
      None \<Rightarrow> normalizeMoney (of_decimal 2 ?a) | Some b \<Rightarrow> b) = of_decimal 2 ?b"
    using rng ty by (simp add: booked_value_def normalizeMoney_cents split: option.splits)
  have diff: "normalizeMoney (fl (of_decimal 2 ?b - of_decimal 2 ?a)) = of_decimal 2 (?b - ?a)"
    using r by (intro normalizeMoney_difference) (auto simp: in_range_def)
  have neg: "\<bar>of_decimal 2 (?b - ?a)\<bar> = of_decimal 2 (?a - ?b)" if "?b < ?a"
    using that of_decimal2_minus [of "?b - ?a"] of_decimal2_pos [OF rng(3)] of_decimal2_eq_0 [OF rng(3)] by simp
  have flip: "\<bar>?a - ?b\<bar> \<le> 10 ^ 14" using rng(3) by linarith
  note facts = normalizeMoney_cents [OF rng(1)] normalizeMoney_cents [OF rng(2)] normalizeMoney_cents [OF rng(3)]
    normalizeMoney_cents [OF flip] of_decimal2_eq_0 [OF rng(3)] of_decimal2_pos [OF rng(3)]
  show ?thesis
  proof (cases "?b = ?a")
    case True
    then show ?thesis
      unfolding forex_lines_def Let_def BuildJournalLinesInput.simps base diff
      by (simp add: facts fx_given_def booked_def Let_def cents_of_def ty)
  next
    case False
    show ?thesis
    proof (cases "truthy_id (cbt_fx_account_id r)")
      case None
      with False show ?thesis
        unfolding forex_lines_def Let_def BuildJournalLinesInput.simps base diff
        by (simp add: facts fx_given_def)
    next
      case (Some fx)
      have given: "fx_given r" using Some by (simp add: fx_given_def)
      have acc: "cbt_fx_account_id r = Some fx" using Some by simp
      show ?thesis
      proof (cases "?a < ?b")
        case True
        then show ?thesis
          unfolding forex_lines_def Let_def BuildJournalLinesInput.simps base diff Some
          by (simp add: facts given booked_def Let_def cents_of_def ty acc)
      next
        case less: False
        then show ?thesis
          using False neg flip
          unfolding forex_lines_def Let_def BuildJournalLinesInput.simps base diff Some
          by (simp add: facts given booked_def Let_def cents_of_def ty acc)
      qed
    qed
  qed
qed

lemma mapToJournal_booked:
  assumes r: "in_range r"
  shows "mapToJournal (toCashBankTransaction s r) v =
    (if fx_given r then Inr (map cents_of (void_entries v (booked r)))
     else Inl (CashBankValidationError ''fx_account_id is required when FOREX has gain/loss''))"
proof -
  have a: "\<bar>cbt_amount r\<bar> \<le> 10 ^ 14" "0 < cbt_amount r" using r by (auto simp: in_range_def)
  have pos: "\<not> of_decimal 2 (cbt_amount r) \<le> 0" using a by (simp add: not_le of_decimal2_pos)
  have bal: "minor_sum ln_debit (map cents_of (booked r)) = minor_sum ln_credit (map cents_of (booked r))"
    using minor_sums_cents_of [of "booked r"] booked_small [OF r, of False] booked_length [of False r]
      booked_balanced [of r] by (auto simp: void_entries_def)
  have void: "map void_line (map cents_of (booked r)) = map cents_of (void_entries True (booked r))"
    by (rule void_cents_of)
  show ?thesis
  proof (cases "cbt_transaction_type r = FOREX")
    case True
    have lines: "mapToJournal (toCashBankTransaction s r) v =
        bindR (if fx_given r then Inr (map cents_of (booked r))
          else Inl (CashBankValidationError ''fx_account_id is required when FOREX has gain/loss''))
          (\<lambda>lines. bindR (require (minor_sum ln_debit lines = minor_sum ln_credit lines)
            (CashBankValidationError ''Cash/bank journal lines are not balanced''))
            (\<lambda>_. Inr (if v then map void_line lines else lines)))"
      unfolding forex_lines_booked [OF r True, symmetric]
      using pos by (simp add: mapToJournal_def buildCashBankJournalLines_def toCashBankTransaction_def True
        bindR_def split: sum.splits)
    show ?thesis unfolding lines using bal void by (simp add: void_entries_def del: map_map)
  next
    case False
    then have "fx_given r" and b: "booked r = [
        \<lparr>le_account = cbt_destination_account_id r, le_debit = cbt_amount r, le_credit = 0,
         le_description = ''Cash/Bank '' @ type_label (cbt_transaction_type r) @ '' #'' @ nat_str (cbt_id r) @ '' debit destination''\<rparr>,
        \<lparr>le_account = cbt_source_account_id r, le_debit = 0, le_credit = cbt_amount r,
         le_description = ''Cash/Bank '' @ type_label (cbt_transaction_type r) @ '' #'' @ nat_str (cbt_id r) @ '' credit source''\<rparr>]"
      by (simp_all add: fx_given_def booked_def booked_value_def)
    then show ?thesis
      using False pos a
      by (simp add: mapToJournal_def buildCashBankJournalLines_def toCashBankTransaction_def normalizeMoney_cents
        cents_of_def void_entries_def void_line_def reverse_entry_def)
  qed
qed

lemma assertBalancedLines_booked:
  "in_range r \<Longrightarrow> assertBalancedLines (map cents_of (void_entries v (booked r))) = Inr ()"
proof -
  assume r: "in_range r"
  let ?es = "void_entries v (booked r)"
  have "debits ?es = credits ?es"
    using booked_balanced [of r]
    by (simp add: void_entries_def debits_def credits_def comp_def reverse_entry_def)
  with minor_sums_cents_of [OF booked_small [OF r, of v]] booked_length [of v r]
  show ?thesis by (auto simp: assertBalancedLines_def require_def)
qed

end
