(* ===== verification/Treasury_Steps.thy ===== *)
theory Treasury_Steps
  imports Treasury_Amounts
begin

text \<open>
  What posting and voiding do to the tables and to the ledger, the runs of the service with their
  books, and when the journal of a transaction is accepted.
\<close>

section \<open>The ledger after a posting\<close>

definition company_entries :: "nat \<Rightarrow> treasury_db \<Rightarrow> ledger_entry list" where
  "company_entries c s = map entry_of (filter (\<lambda>l. jl_company_id l = c) (journal_lines (tr_db s)))"

definition accepted_line :: "JournalLine \<Rightarrow> bool" where
  "accepted_line l \<longleftrightarrow> in_decimal18 (le_debit (stored_entry l)) \<and> in_decimal18 (le_credit (stored_entry l)) \<and>
     entry_sided (stored_entry l)"

lemma insert_posting_line_Inr:
  "insert_posting_line now b request d l = Inr d' \<longleftrightarrow>
     accepted_line l \<and> d' = bump T_journal_line (d\<lparr>journal_lines := journal_lines d @
        [\<lparr>jl_id = next_id d T_journal_line, jl_company_id = pr_company_id request,
          jl_account_id = le_account (stored_entry l), jl_created_at = current_timestamp now,
          jl_credit = le_credit (stored_entry l), jl_debit = le_debit (stored_entry l),
          jl_description = le_description (stored_entry l), jl_journal_batch_id = b,
          jl_line_date = date_only now, jl_outlet_id = pr_outlet_id request,
          jl_updated_at = current_timestamp now\<rparr>]\<rparr>)"
  by (auto simp: insert_posting_line_def accepted_line_def Let_def inr_simps)

lemma insert_posting_lines:
  "foldM (insert_posting_line now b request) d lines = Inr d' \<Longrightarrow>
     list_all accepted_line lines \<and> journal_batches d' = journal_batches d \<and>
     (\<exists>rows. journal_lines d' = journal_lines d @ rows \<and> map entry_of rows = map stored_entry lines \<and>
       (\<forall>l \<in> set rows. jl_company_id l = pr_company_id request \<and> jl_journal_batch_id l = b \<and>
         jl_line_date l = date_only now))"
proof (induction lines arbitrary: d)
  case (Cons l lines)
  then obtain d1 where d1: "insert_posting_line now b request d l = Inr d1"
    and rest: "foldM (insert_posting_line now b request) d1 lines = Inr d'"
    by (auto simp: inr_simps)
  obtain row where row: "journal_lines d1 = journal_lines d @ [row]" "entry_of row = stored_entry l"
    "jl_company_id row = pr_company_id request" "jl_journal_batch_id row = b" "jl_line_date row = date_only now"
    and b: "journal_batches d1 = journal_batches d" and ok: "accepted_line l"
    using d1 by (auto simp: insert_posting_line_Inr bump_def entry_of_def)
  from Cons.IH [OF rest] obtain rows where "journal_lines d' = journal_lines d1 @ rows"
    "map entry_of rows = map stored_entry lines" "list_all accepted_line lines"
    "journal_batches d' = journal_batches d1"
    "\<forall>l \<in> set rows. jl_company_id l = pr_company_id request \<and> jl_journal_batch_id l = b \<and>
         jl_line_date l = date_only now" by auto
  with row b ok show ?case by (auto intro!: exI [of _ "row # rows"])
qed simp

lemma insert_posting_lines_total:
  "list_all accepted_line lines \<Longrightarrow> \<exists>d'. foldM (insert_posting_line now b request) d lines = Inr d'"
proof (induction lines arbitrary: d)
  case (Cons l lines)
  then obtain d1 where "insert_posting_line now b request d l = Inr d1" by (auto simp: insert_posting_line_Inr)
  with Cons show ?case by simp
qed simp

definition request_of :: "cash_bank_row \<Rightarrow> bool \<Rightarrow> PostingRequest" where
  "request_of r v = \<lparr>pr_company_id = cbt_company_id r, pr_outlet_id = cbt_outlet_id r,
     pr_doc_type = doc_type_of (cbt_transaction_type r) v, pr_doc_id = cbt_id r\<rparr>"

abbreviation journal_free :: "cash_bank_row \<Rightarrow> bool \<Rightarrow> treasury_db \<Rightarrow> bool" where
  "journal_free r v s \<equiv> batch_free (tr_db s) (cbt_company_id r) (doc_type_of (cbt_transaction_type r) v) (cbt_id r)"

lemma post_to_journal_effect:
  assumes "postToJournal (kysely_ports collate access) (Some posting_service_post) now (toCashBankTransaction s0 r) v s =
      Inr (res, s')"
  obtains lines where "mapToJournal (toCashBankTransaction s0 r) v = Inr lines" and "journal_free r v s"
    and "\<And>c. company_entries c s' = company_entries c s @ (if c = cbt_company_id r then map stored_entry lines else [])"
    and "cash_bank_transactions s' = cash_bank_transactions s" and "tr_last_id s' = tr_last_id s"
    and "assertBalancedLines lines = Inr ()" and "list_all accepted_line lines"
    and "tr_fiscal_years s' = tr_fiscal_years s"
    and "\<And>c t i. t \<noteq> doc_type_of (cbt_transaction_type r) v \<Longrightarrow> batch_free (tr_db s') c t i = batch_free (tr_db s) c t i"
proof -
  have req: "\<lparr>pr_company_id = t_company_id (toCashBankTransaction s0 r), pr_outlet_id = t_outlet_id (toCashBankTransaction s0 r),
      pr_doc_type = doc_type_of (t_transaction_type (toCashBankTransaction s0 r)) v,
      pr_doc_id = t_id (toCashBankTransaction s0 r)\<rparr> = request_of r v"
    by (simp add: request_of_def toCashBankTransaction_def)
  from assms obtain lines b s1 where lines: "mapToJournal (toCashBankTransaction s0 r) v = Inr lines"
    and bal: "assertBalancedLines lines = Inr ()"
    and batch: "kysely_createJournalBatch now (request_of r v) s = Inr (b, s1)"
    and ins: "kysely_insertJournalLines now b (request_of r v) lines s1 = Inr s'"
    unfolding postToJournal_Inr post_lines_Inr req by (auto simp: kysely_ports_def kysely_posting_def)
  have free: "journal_free r v s"
    and s1: "journal_lines (tr_db s1) = journal_lines (tr_db s)" "cash_bank_transactions s1 = cash_bank_transactions s"
      "tr_last_id s1 = tr_last_id s" "tr_fiscal_years s1 = tr_fiscal_years s"
    and b1: "batch_free (tr_db s1) c t i \<longleftrightarrow> \<not> (c = cbt_company_id r \<and>
      t = doc_type_of (cbt_transaction_type r) v \<and> i = cbt_id r) \<and> batch_free (tr_db s) c t i" for c t i
    using batch by (auto simp: kysely_createJournalBatch_def Let_def inr_simps bump_def batch_free_def request_of_def)
  have s': "\<exists>rows. journal_lines (tr_db s') = journal_lines (tr_db s1) @ rows \<and> map entry_of rows = map stored_entry lines \<and>
      (\<forall>l \<in> set rows. jl_company_id l = cbt_company_id r)"
    and keep: "cash_bank_transactions s' = cash_bank_transactions s1" "tr_last_id s' = tr_last_id s1"
      "journal_batches (tr_db s') = journal_batches (tr_db s1)" "tr_fiscal_years s' = tr_fiscal_years s1"
    and ok: "list_all accepted_line lines"
    using ins by (fastforce simp: kysely_insertJournalLines_def inr_simps request_of_def
        dest: insert_posting_lines split: if_splits)+
  from s' obtain rows where rows: "journal_lines (tr_db s') = journal_lines (tr_db s1) @ rows"
    "map entry_of rows = map stored_entry lines" "\<forall>l \<in> set rows. jl_company_id l = cbt_company_id r" by blast
  have entries: "company_entries c s' = company_entries c s @ (if c = cbt_company_id r then map stored_entry lines else [])" for c
    using rows s1(1) by (auto simp: company_entries_def filter_empty_conv filter_id_conv)
  have bf: "batch_free (tr_db s') = batch_free (tr_db s1)" by (rule batch_free_cong) (rule keep(3))
  show thesis
    by (rule that [OF lines free entries]) (simp_all add: keep s1 bf b1 bal ok)
qed

section \<open>What an operation changes\<close>

lemma mapToJournal_set_status [simp]:
  "mapToJournal (toCashBankTransaction s' (set_status now st p r)) v = mapToJournal (toCashBankTransaction s r) v"
  by (simp add: mapToJournal_def toCashBankTransaction_def set_status_def)

lemma company_entries_update [simp]: "company_entries c (kysely_updateStatus now i k st p s) = company_entries c s"
  by (simp add: company_entries_def kysely_updateStatus_def)

text \<open>The change of status of one row, with the lines that go with it.\<close>

definition status_change ::
  "int \<Rightarrow> cash_bank_row \<Rightarrow> CashBankStatus \<Rightarrow> int option \<Rightarrow> bool \<Rightarrow> treasury_db \<Rightarrow> treasury_db \<Rightarrow> bool" where
  "status_change now r st p v s s' \<longleftrightarrow>
     cash_bank_transactions s' = update_where (\<lambda>q. cbt_id q = cbt_id r \<and> cbt_company_id q = cbt_company_id r)
       (set_status now st p) (cash_bank_transactions s) \<and>
     tr_last_id s' = tr_last_id s \<and>
     (\<exists>lines. mapToJournal (toCashBankTransaction s r) v = Inr lines \<and>
       (\<forall>c. company_entries c s' = company_entries c s @ (if c = cbt_company_id r then map stored_entry lines else [])))"

lemma status_changed:
  assumes r: "find_cash_bank_row i c s = Some r"
    and t: "kysely_findById i c (kysely_updateStatus now i c st p s) = Some t"
    and post: "postToJournal (kysely_ports collate access) (Some posting_service_post) now t v
      (kysely_updateStatus now i c st p s) = Inr (res, s')"
  shows "status_change now r st p v s s'" and "t = toCashBankTransaction (kysely_updateStatus now i c st p s) (set_status now st p r)"
    and "journal_free r v s"
proof -
  let ?s1 = "kysely_updateStatus now i c st p s"
  show teq: "t = toCashBankTransaction ?s1 (set_status now st p r)"
    using t by (simp add: kysely_findById_def find_after_update [OF r])
  have ic: "cbt_id r = i" "cbt_company_id r = c" using find_cash_bank_row_Some [OF r] by simp_all
  have free: "journal_free q v ?s1 = journal_free r v s" if "q = set_status now st p r" for q
    by (simp add: that kysely_updateStatus_def set_status_def)
  from post [unfolded teq] obtain lines where
    "mapToJournal (toCashBankTransaction ?s1 (set_status now st p r)) v = Inr lines"
    and f: "journal_free (set_status now st p r) v ?s1"
    and "\<And>k. company_entries k s' = company_entries k ?s1 @
      (if k = cbt_company_id (set_status now st p r) then map stored_entry lines else [])"
    and "cash_bank_transactions s' = cash_bank_transactions ?s1" and "tr_last_id s' = tr_last_id ?s1"
    by (rule post_to_journal_effect) blast
  then show "status_change now r st p v s s'"
    unfolding status_change_def mapToJournal_set_status [where s = s]
    by (simp add: ic kysely_updateStatus_def) (simp add: company_entries_def)
  show "journal_free r v s" using f free by simp
qed

lemma treasury_post_effect:
  assumes "treasury_post collate access now i c actor s = Inr (t, s')"
  obtains r where "find_cash_bank_row i c s = Some r" and "cbt_status r = POSTED" and "s' = s"
  | r where "find_cash_bank_row i c s = Some r" and "cbt_status r = DRAFT"
    and "status_change now r POSTED (Some now) False s s'" and "journal_free r False s"
proof -
  from assms obtain cur where cur: "kysely_findById i c s = Some cur"
    and rest: "if t_status cur = POSTED then t = cur \<and> s' = s
        else t_status cur = DRAFT \<and> kysely_findById i c (kysely_updateStatus now i c POSTED (Some now) s) = Some t \<and>
          (\<exists>r. postToJournal (kysely_ports collate access) (Some posting_service_post) now t False
            (kysely_updateStatus now i c POSTED (Some now) s) = Inr (r, s'))"
    unfolding treasury_post_def cb_post_Inr by (auto simp: kysely_ports_def split: if_splits)
  from cur obtain r where r: "find_cash_bank_row i c s = Some r" and st: "t_status cur = cbt_status r"
    by (auto simp: kysely_findById_def toCashBankTransaction_def)
  show thesis
  proof (cases "cbt_status r = POSTED")
    case True
    with rest st that(1) [OF r] show thesis by simp
  next
    case False
    with rest st status_changed [OF r] that(2) [OF r] show thesis by auto
  qed
qed

lemma treasury_void_effect:
  assumes "treasury_void collate access now i c actor s = Inr (t, s')"
  obtains r where "find_cash_bank_row i c s = Some r" and "cbt_status r = VOID" and "s' = s"
  | r where "find_cash_bank_row i c s = Some r" and "cbt_status r = POSTED"
    and "status_change now r VOID None True s s'"
proof -
  from assms obtain cur where cur: "kysely_findById i c s = Some cur"
    and rest: "if t_status cur = VOID then t = cur \<and> s' = s
        else t_status cur = POSTED \<and> kysely_findById i c (kysely_updateStatus now i c VOID None s) = Some t \<and>
          (\<exists>r. postToJournal (kysely_ports collate access) (Some posting_service_post) now t True
            (kysely_updateStatus now i c VOID None s) = Inr (r, s'))"
    unfolding treasury_void_def cb_void_Inr by (auto simp: kysely_ports_def split: if_splits)
  from cur obtain r where r: "find_cash_bank_row i c s = Some r" and st: "t_status cur = cbt_status r"
    by (auto simp: kysely_findById_def toCashBankTransaction_def)
  show thesis
  proof (cases "cbt_status r = VOID")
    case True
    with rest st that(1) [OF r] show thesis by simp
  next
    case False
    with rest st status_changed [OF r] that(2) [OF r] show thesis by auto
  qed
qed

lemma treasury_create_effect:
  assumes "treasury_create collate access now input c actor s = Inr (t, s')"
  obtains processed r where "processForexFields input = Inr processed"
    and "r = new_cash_bank_row now input processed c actor (Suc (tr_last_id s))"
    and "insert_cash_bank_row collate r s = Inr s'"
    and "s' = s\<lparr>cash_bank_transactions := cash_bank_transactions s @ [r], tr_last_id := Suc (tr_last_id s)\<rparr>"
    and "check_create_outlet (kysely_ports collate access) (in_outlet_id input) c actor s = Inr ()"
    and "check_accounts (kysely_ports collate access) (in_transaction_type input) (in_source_account_id input)
      (in_destination_account_id input) c s = Inr ()"
    and "kysely_findById (Suc (tr_last_id s)) c s' = Some t"
proof -
  from assms obtain processed where a: "check_create_outlet (kysely_ports collate access) (in_outlet_id input) c actor s = Inr ()"
    "check_accounts (kysely_ports collate access) (in_transaction_type input) (in_source_account_id input)
      (in_destination_account_id input) c s = Inr ()"
    "processForexFields input = Inr processed"
    and ins: "kysely_create collate now input processed c actor s = Inr (t, s')"
    unfolding treasury_create_def cb_create_def
    by (auto simp: inr_simps) (simp add: kysely_ports_def)
  let ?r = "new_cash_bank_row now input processed c actor (Suc (tr_last_id s))"
  have i: "insert_cash_bank_row collate ?r s = Inr s'" and f: "kysely_findById (Suc (tr_last_id s)) c s' = Some t"
    using ins by (auto simp: kysely_create_def Let_def inr_simps)
  have "s' = s\<lparr>cash_bank_transactions := cash_bank_transactions s @ [?r], tr_last_id := Suc (tr_last_id s)\<rparr>"
    using i by (auto simp: insert_cash_bank_row_def inr_simps new_cash_bank_row_def)
  then show thesis by (rule that [OF a(3) refl i _ a(1,2) f])
qed

section \<open>Runs of the service\<close>

inductive treasury_step :: "(string \<Rightarrow> string) \<Rightarrow> (nat \<Rightarrow> nat \<Rightarrow> nat \<Rightarrow> bool) \<Rightarrow> treasury_db \<Rightarrow> treasury_db \<Rightarrow> bool"
  for collate access where
  create: "treasury_create collate access now input c actor s = Inr (t, s') \<Longrightarrow> treasury_step collate access s s'"
| post: "treasury_post collate access now i c actor s = Inr (t, s') \<Longrightarrow> treasury_step collate access s s'"
| void: "treasury_void collate access now i c actor s = Inr (t, s') \<Longrightarrow> treasury_step collate access s s'"

definition rows_numbered :: "treasury_db \<Rightarrow> bool" where
  "rows_numbered s \<longleftrightarrow> distinct (map cbt_id (cash_bank_transactions s)) \<and>
     (\<forall>r \<in> set (cash_bank_transactions s). cbt_id r \<le> tr_last_id s)"

text \<open>The three ways a step can change the rows.\<close>

lemma treasury_step_shape:
  assumes "treasury_step collate access s s'"
  obtains "s' = s"
  | r where "cbt_id r = Suc (tr_last_id s)" and "cbt_status r = DRAFT"
    and "s' = s\<lparr>cash_bank_transactions := cash_bank_transactions s @ [r], tr_last_id := Suc (tr_last_id s)\<rparr>"
  | r now st p v where "r \<in> set (cash_bank_transactions s)" and "status_change now r st p v s s'"
    and "(cbt_status r, st, v) \<in> {(DRAFT, POSTED, False), (POSTED, VOID, True)}"
  using assms
proof cases
  case (create now input c actor t)
  then show thesis
    by (rule treasury_create_effect) (rule that(2), auto simp: new_cash_bank_row_def)
next
  case (post now i c actor t)
  then show thesis
    by (rule treasury_post_effect) (use that find_cash_bank_row_Some in \<open>blast+\<close>)
next
  case (void now i c actor t)
  then show thesis
    by (rule treasury_void_effect) (use that find_cash_bank_row_Some in \<open>blast+\<close>)
qed

lemma update_one:
  assumes "distinct (map cbt_id rows)" and "r \<in> set rows"
  shows "sum_list (map f (update_where (\<lambda>q. cbt_id q = cbt_id r \<and> cbt_company_id q = cbt_company_id r) g rows)) =
    sum_list (map f rows) - f r + (f (g r) :: int)"
  using assms
proof (induction rows)
  case (Cons q rows)
  show ?case
  proof (cases "q = r")
    case True
    with Cons.prems have "cbt_id r \<notin> cbt_id ` set rows" by simp
    then have "\<forall>x \<in> set rows. cbt_id x \<noteq> cbt_id r" by (metis imageI)
    then have "update_where (\<lambda>q. cbt_id q = cbt_id r \<and> cbt_company_id q = cbt_company_id r) g rows = rows"
      by (auto simp: update_where_def intro!: map_idI)
    with True show ?thesis by (simp add: update_where_def)
  next
    case False
    with Cons.prems have "r \<in> set rows" "cbt_id q \<noteq> cbt_id r" by (auto simp: rev_image_eqI)
    with Cons show ?thesis by (simp add: update_where_def)
  qed
qed simp

lemma rows_numbered_step:
  assumes "treasury_step collate access s s'" and "rows_numbered s"
  shows "rows_numbered s'"
  using assms(1)
proof (cases rule: treasury_step_shape)
  case 1
  with assms(2) show ?thesis by simp
next
  case (2 r)
  with assms(2) show ?thesis by (fastforce simp: rows_numbered_def)
next
  case (3 r now st p v)
  from 3(2) have rows: "cash_bank_transactions s' = update_where (\<lambda>q. cbt_id q = cbt_id r \<and> cbt_company_id q = cbt_company_id r)
      (set_status now st p) (cash_bank_transactions s)" "tr_last_id s' = tr_last_id s"
    by (simp_all add: status_change_def)
  have "map cbt_id (cash_bank_transactions s') = map cbt_id (cash_bank_transactions s)"
    unfolding rows(1) by (rule update_where_map_id) simp
  with assms(2) rows(2) show ?thesis unfolding rows_numbered_def by (metis image_eqI list.set_map imageE)
qed

text \<open>Rows are never lost and never change their terms, so an early row is in range when all rows are at the end.\<close>

lemma all_in_range_back:
  assumes "treasury_step collate access s s'" and "\<forall>r \<in> set (cash_bank_transactions s'). in_range r"
  shows "\<forall>r \<in> set (cash_bank_transactions s). in_range r"
  using assms(1)
proof (cases rule: treasury_step_shape)
  case (3 r now st p v)
  then have rows: "cash_bank_transactions s' = update_where (\<lambda>q. cbt_id q = cbt_id r \<and> cbt_company_id q = cbt_company_id r)
      (set_status now st p) (cash_bank_transactions s)" by (simp add: status_change_def)
  show ?thesis
  proof
    fix q assume "q \<in> set (cash_bank_transactions s)"
    then have "q \<in> set (cash_bank_transactions s') \<or> set_status now st p q \<in> set (cash_bank_transactions s')"
      unfolding rows set_update_where by auto
    with assms(2) show "in_range q" by force
  qed
qed (use assms(2) in auto)

definition posted_net :: "nat \<Rightarrow> nat \<Rightarrow> treasury_db \<Rightarrow> int" where
  "posted_net c a s = sum_list (map (\<lambda>r. if cbt_company_id r = c \<and> cbt_status r = POSTED
     then account_net a (booked r) else 0) (cash_bank_transactions s))"

lemma account_net_append [simp]: "account_net a (xs @ ys) = account_net a xs + account_net a ys"
  by (induction xs) (simp_all add: account_net_def)

lemma account_net_Nil [simp]: "account_net a [] = 0"
  by (simp add: account_net_def)

lemma books_step:
  assumes step: "treasury_step collate access s s'" and num: "rows_numbered s"
    and rng: "\<forall>r \<in> set (cash_bank_transactions s). in_range r"
  shows "account_net a (company_entries c s') - posted_net c a s' = account_net a (company_entries c s) - posted_net c a s"
  using step
proof (cases rule: treasury_step_shape)
  case (2 r)
  then show ?thesis by (simp add: posted_net_def company_entries_def)
next
  case (3 r now st p v)
  have r: "in_range r" using 3(1) rng by blast
  from 3(2) obtain lines where rows: "cash_bank_transactions s' =
      update_where (\<lambda>q. cbt_id q = cbt_id r \<and> cbt_company_id q = cbt_company_id r)
        (set_status now st p) (cash_bank_transactions s)"
    and l: "mapToJournal (toCashBankTransaction s r) v = Inr lines"
    and e: "company_entries c s' = company_entries c s @ (if c = cbt_company_id r then map stored_entry lines else [])"
    unfolding status_change_def by blast
  have "lines = map cents_of (void_entries v (booked r))"
    using l unfolding mapToJournal_booked [OF r] by (simp split: if_splits)
  then have "map stored_entry lines = void_entries v (booked r)"
    using stored_cents_of_map [OF booked_small [OF r]] by simp
  moreover have "account_net a (void_entries v (booked r)) = (if v then - account_net a (booked r) else account_net a (booked r))"
    using account_net_void [of a "booked r"] by (simp add: void_entries_def)
  moreover have "posted_net c a s' = posted_net c a s -
      (if cbt_company_id r = c \<and> cbt_status r = POSTED then account_net a (booked r) else 0) +
      (if cbt_company_id r = c \<and> st = POSTED then account_net a (booked r) else 0)"
    unfolding posted_net_def rows
    by (subst update_one) (use num 3(1) in \<open>auto simp: rows_numbered_def\<close>)
  ultimately show ?thesis using 3(3) e by auto
qed simp

lemma books_steps:
  assumes "(treasury_step collate access)\<^sup>*\<^sup>* s0 s" and "rows_numbered s0"
    and "\<forall>r \<in> set (cash_bank_transactions s). in_range r"
  shows "rows_numbered s \<and>
    account_net a (company_entries c s) - posted_net c a s = account_net a (company_entries c s0) - posted_net c a s0"
  using assms(1,3)
proof (induction rule: rtranclp_induct)
  case (step s s')
  from all_in_range_back [OF step.hyps(2) step.prems] step.IH
  have "rows_numbered s" "\<forall>r \<in> set (cash_bank_transactions s). in_range r"
    and "account_net a (company_entries c s) - posted_net c a s = account_net a (company_entries c s0) - posted_net c a s0"
    by auto
  with books_step [OF step.hyps(2)] rows_numbered_step [OF step.hyps(2)] show ?case by simp
qed (use assms(2) in simp)

text \<open>A row keeps its terms, and its status only moves forward.\<close>

fun status_rank :: "CashBankStatus \<Rightarrow> nat" where
  "status_rank DRAFT = 0"
| "status_rank POSTED = 1"
| "status_rank VOID = 2"

definition later_row :: "cash_bank_row \<Rightarrow> cash_bank_row \<Rightarrow> bool" where
  "later_row r r' \<longleftrightarrow> r' = r \<or> (\<exists>st u p. status_rank (cbt_status r) < status_rank st \<and>
     r' = r\<lparr>cbt_status := st, cbt_updated_at := u, cbt_posted_at := p\<rparr>)"

lemma later_row_set_status:
  "status_rank (cbt_status r) < status_rank st \<Longrightarrow> later_row r (set_status now st p r)"
  by (auto simp: later_row_def set_status_def)

lemma later_row_trans: "later_row q r \<Longrightarrow> later_row r r' \<Longrightarrow> later_row q r'"
  unfolding later_row_def by (elim disjE conjE exE) (auto intro: less_trans)

lemma later_row_step:
  assumes "treasury_step collate access s s'" and "rows_numbered s" and "r \<in> set (cash_bank_transactions s)"
  shows "\<exists>r' \<in> set (cash_bank_transactions s'). later_row r r'"
  using assms(1)
proof (cases rule: treasury_step_shape)
  case (3 q now st p v)
  then have rows: "cash_bank_transactions s' = update_where (\<lambda>x. cbt_id x = cbt_id q \<and> cbt_company_id x = cbt_company_id q)
      (set_status now st p) (cash_bank_transactions s)" by (simp add: status_change_def)
  show ?thesis
  proof (cases "r = q")
    case True
    with 3 rows have "set_status now st p q \<in> set (cash_bank_transactions s')" by (auto simp: set_update_where)
    with True 3(3) later_row_set_status [of q st now p] show ?thesis by auto
  next
    case False
    with assms(2,3) 3(1) have "cbt_id r \<noteq> cbt_id q" by (auto simp: rows_numbered_def distinct_map inj_on_def)
    with assms(3) rows have "r \<in> set (cash_bank_transactions s')" by (auto simp: set_update_where)
    then show ?thesis by (auto simp: later_row_def)
  qed
qed (use assms(3) in \<open>auto simp: later_row_def\<close>)

lemma later_row_steps:
  assumes "(treasury_step collate access)\<^sup>*\<^sup>* s s'" and "rows_numbered s"
    and "r \<in> set (cash_bank_transactions s)"
  shows "rows_numbered s' \<and> (\<exists>r' \<in> set (cash_bank_transactions s'). later_row r r')"
  using assms(1)
proof (induction rule: rtranclp_induct)
  case base
  then show ?case using assms(2,3) by (auto simp: later_row_def)
next
  case (step t t')
  then obtain q where q: "q \<in> set (cash_bank_transactions t)" "later_row r q" and num: "rows_numbered t" by auto
  from later_row_step [OF step.hyps(2) num q(1)] obtain q' where "q' \<in> set (cash_bank_transactions t')" "later_row q q'"
    by blast
  with later_row_trans [OF q(2)] rows_numbered_step [OF step.hyps(2) num] show ?case by blast
qed

section \<open>Voiding what was posted\<close>

lemma accepted_void: "accepted_line l \<Longrightarrow> accepted_line (void_line l)"
  by (auto simp: accepted_line_def stored_entry_def void_line_def entry_sided_def)

lemma map_void_void: "mapToJournal (toCashBankTransaction s r) False = Inr lines \<Longrightarrow>
    mapToJournal (toCashBankTransaction s r) True = Inr (map void_line lines)"
  by (auto simp: mapToJournal_def inr_simps)

lemma account_net_void_lines: "account_net a (map stored_entry (map void_line lines)) = - account_net a (map stored_entry lines)"
  by (induction lines) (simp_all add: account_net_def stored_entry_def void_line_def)

lemma balanced_void: "assertBalancedLines lines = Inr () \<Longrightarrow> assertBalancedLines (map void_line lines) = Inr ()"
proof -
  have "minor_sum ln_debit (map void_line ls) = minor_sum ln_credit ls"
    "minor_sum ln_credit (map void_line ls) = minor_sum ln_debit ls" for ls
    unfolding minor_sum_def by (simp_all add: foldl_map void_line_def)
  then show "assertBalancedLines lines = Inr () \<Longrightarrow> ?thesis"
    by (auto simp: assertBalancedLines_def inr_simps)
qed

text \<open>When the journal of a row is accepted.\<close>

lemma post_to_journal_total:
  assumes "mapToJournal (toCashBankTransaction s0 r) v = Inr lines" and "assertBalancedLines lines = Inr ()"
    and "journal_free r v s" and "list_all accepted_line lines"
  shows "\<exists>res s'. postToJournal (kysely_ports collate access) (Some posting_service_post) now (toCashBankTransaction s0 r) v s =
      Inr (res, s')"
proof -
  have req: "\<lparr>pr_company_id = t_company_id (toCashBankTransaction s0 r), pr_outlet_id = t_outlet_id (toCashBankTransaction s0 r),
      pr_doc_type = doc_type_of (t_transaction_type (toCashBankTransaction s0 r)) v,
      pr_doc_id = t_id (toCashBankTransaction s0 r)\<rparr> = request_of r v"
    by (simp add: request_of_def toCashBankTransaction_def)
  obtain b s1 where "kysely_createJournalBatch now (request_of r v) s = Inr (b, s1)"
    using assms(3) by (simp add: kysely_createJournalBatch_def Let_def request_of_def)
  moreover obtain d where "foldM (insert_posting_line now b (request_of r v)) (tr_db s1) lines = Inr d"
    using insert_posting_lines_total [OF assms(4)] by blast
  then have "\<exists>s'. kysely_insertJournalLines now b (request_of r v) lines s1 = Inr s'"
    by (simp add: kysely_insertJournalLines_def)
  ultimately show ?thesis
    unfolding postToJournal_Inr post_lines_Inr req using assms(1,2) by (auto simp: kysely_ports_def kysely_posting_def)
qed

lemma doc_type_void: "doc_type_of ty True \<noteq> doc_type_of ty' False"
  by (cases ty; cases ty') (simp_all add: doc_type_of_def)

lemma treasury_void_after_post:
  assumes r: "find_cash_bank_row i c s = Some r" and draft: "cbt_status r = DRAFT"
    and post: "treasury_post collate access now i c actor s = Inr (t, s1)" and free: "journal_free r True s"
  shows "\<exists>t' s2. treasury_void collate access now' i c actor s1 = Inr (t', s2)"
proof -
  let ?P = "kysely_ports collate access" and ?u = "kysely_updateStatus now i c POSTED (Some now) s"
  have ic: "cbt_id r = i" "cbt_company_id r = c" using find_cash_bank_row_Some [OF r] by simp_all
  have cur: "kysely_findById i c s = Some (toCashBankTransaction s r)" by (simp add: kysely_findById_def r)
  from post cur draft obtain res where fy: "ensure_open_fiscal_year c (cbt_transaction_date r) s = Inr ()"
    and t: "kysely_findById i c ?u = Some t"
    and j: "postToJournal ?P (Some posting_service_post) now t False ?u = Inr (res, s1)"
    unfolding treasury_post_def cb_post_Inr
    by (auto simp: kysely_ports_def toCashBankTransaction_def split: if_splits)
  note ch = status_changed [OF r t j]
  from j [unfolded ch(2)] obtain lines where
    m: "mapToJournal (toCashBankTransaction ?u (set_status now POSTED (Some now) r)) False = Inr lines"
    and rows: "cash_bank_transactions s1 = cash_bank_transactions ?u" and fys: "tr_fiscal_years s1 = tr_fiscal_years ?u"
    and ok: "assertBalancedLines lines = Inr ()" "list_all accepted_line lines"
    and bf: "\<And>c t i. t \<noteq> doc_type_of (cbt_transaction_type (set_status now POSTED (Some now) r)) False \<Longrightarrow>
      batch_free (tr_db s1) c t i = batch_free (tr_db ?u) c t i"
    by (rule post_to_journal_effect) blast
  let ?r1 = "set_status now POSTED (Some now) r"
  have r1: "find_cash_bank_row i c s1 = Some ?r1"
    using find_after_update [OF r, of now POSTED "Some now"] rows by (simp add: find_cash_bank_row_def)
  let ?v = "kysely_updateStatus now' i c VOID None s1" and ?r2 = "set_status now' VOID None ?r1"
  have r2: "kysely_findById i c ?v = Some (toCashBankTransaction ?v ?r2)"
    by (simp add: kysely_findById_def find_after_update [OF r1])
  have free2: "journal_free ?r2 True ?v"
    using free bf [OF doc_type_void] by (simp add: kysely_updateStatus_def set_status_def)
  have m2: "mapToJournal (toCashBankTransaction ?v ?r2) True = Inr (map void_line lines)"
    using map_void_void [OF m] unfolding mapToJournal_set_status [where s = ?u] mapToJournal_set_status [where s = s] .
  have "list_all accepted_line (map void_line lines)"
    using ok(2) accepted_void by (auto simp: list_all_iff)
  then obtain res2 s2 where j2: "postToJournal ?P (Some posting_service_post) now' (toCashBankTransaction ?v ?r2) True ?v =
      Inr (res2, s2)"
    using post_to_journal_total [OF m2 balanced_void [OF ok(1)] free2] by blast
  have done_: "kysely_findById i c s1 = Some t" "t_status t = POSTED" "check_outlet_access ?P t c actor = Inr ()"
    using kb.post_done [OF post [unfolded treasury_post_def]] by (simp_all add: kysely_ports_def)
  have "ensure_open_fiscal_year c (t_transaction_date t) s1 = Inr ()"
    using fy fys by (simp add: ch(2) toCashBankTransaction_def set_status_def ensure_open_fiscal_year_def
        open_fiscal_years_def kysely_updateStatus_def)
  then have "treasury_void collate access now' i c actor s1 = Inr (toCashBankTransaction ?v ?r2, s2)"
    unfolding treasury_void_def cb_void_Inr using done_ r2 j2 by (simp add: kysely_ports_def)
  then show ?thesis by blast
qed

lemma treasury_void_restores:
  assumes r: "find_cash_bank_row i c s = Some r" and "cbt_status r = DRAFT"
    and post: "treasury_post collate access now i c actor s = Inr (t, s1)"
    and void: "treasury_void collate access now' i c actor s1 = Inr (t', s2)"
  shows "account_net a (company_entries k s2) = account_net a (company_entries k s)"
  using post
proof (cases rule: treasury_post_effect)
  case (2 q)
  then have q: "q = r" using r by simp
  from 2(3) obtain lines where l: "mapToJournal (toCashBankTransaction s r) False = Inr lines"
    and e1: "\<And>k. company_entries k s1 = company_entries k s @ (if k = cbt_company_id r then map stored_entry lines else [])"
    and rows: "cash_bank_transactions s1 = update_where (\<lambda>x. cbt_id x = cbt_id r \<and> cbt_company_id x = cbt_company_id r)
      (set_status now POSTED (Some now)) (cash_bank_transactions s)"
    unfolding status_change_def q by blast
  have ic: "cbt_id r = i" "cbt_company_id r = c" using find_cash_bank_row_Some [OF r] by simp_all
  have r1: "find_cash_bank_row i c s1 = Some (set_status now POSTED (Some now) r)"
    using find_after_update [OF r, of now POSTED "Some now"]
    by (simp add: find_cash_bank_row_def rows ic kysely_updateStatus_def)
  from void show ?thesis
  proof (cases rule: treasury_void_effect)
    case (2 x)
    then have x: "x = set_status now POSTED (Some now) r" using r1 by simp
    from 2(3) obtain lines2 where l2: "mapToJournal (toCashBankTransaction s1 x) True = Inr lines2"
      and e2: "\<And>k. company_entries k s2 = company_entries k s1 @ (if k = cbt_company_id x then map stored_entry lines2 else [])"
      unfolding status_change_def by blast
    have "lines2 = map void_line lines"
      using l2 map_void_void [OF l] unfolding x mapToJournal_set_status [where s = s] by simp
    then show ?thesis using account_net_void_lines [of a lines] by (simp add: e1 e2 x del: map_map)
  qed (use r1 in simp)
qed (use assms(1,2) in simp)

end
