(* ===== verification/Treasury_Properties.thy ===== *)
theory Treasury_Properties
  imports Treasury_Steps Sample_Tables
begin

text \<open>
  The properties of the treasury: its journals in cents, its books over every run, what a repeated
  or a reversed request does, and which drafts can be posted.
\<close>

section \<open>A created draft\<close>

text \<open>An amount that is a number of cents, as a client that rounds before sending gives it.\<close>

definition whole_cents :: "rat \<Rightarrow> bool" where
  "whole_cents x \<longleftrightarrow> toMinorUnits x \<le> 10 ^ 14 \<and> 0 \<le> toMinorUnits x \<and> x = of_decimal 2 (toMinorUnits x)"

lemma whole_cents_stored: "whole_cents x \<Longrightarrow> to_decimal 2 x = toMinorUnits x"
  using to_decimal_cents [of "toMinorUnits x"] unfolding whole_cents_def by (metis abs_of_nonneg)

lemma whole_cents_normalize: "whole_cents x \<Longrightarrow> normalizeMoney x = x"
  unfolding whole_cents_def by (metis normalizeMoney_minor)

lemma whole_cents_pos: "whole_cents x \<Longrightarrow> 0 < x \<longleftrightarrow> 0 < toMinorUnits x"
  using of_decimal2_pos [of "toMinorUnits x"] unfolding whole_cents_def by (metis abs_of_nonneg)

definition base_of :: "CreateCashBankInput \<Rightarrow> rat" where
  "base_of input = (case in_base_amount input of
     None \<Rightarrow> normalizeMoney (fl (in_amount input * (case in_exchange_rate input of None \<Rightarrow> 0 | Some r \<Rightarrow> r)))
   | Some b \<Rightarrow> b)"

lemma forex_processed:
  assumes "processForexFields input = Inr processed"
  shows "if in_transaction_type input = FOREX
    then fx_base_amount processed = Some (base_of input) \<and> 0 < base_of input \<and>
      fx_fx_account_id processed = in_fx_account_id input \<and>
      (normalizeMoney (fl (base_of input - in_amount input)) = 0 \<or> truthy_id (in_fx_account_id input) \<noteq> None)
    else fx_base_amount processed = None"
  using assms
  by (auto simp: processForexFields_def Let_def inr_simps base_of_def split: if_splits option.splits)

lemma whole_cents_difference:
  "whole_cents a \<Longrightarrow> whole_cents b \<Longrightarrow>
     normalizeMoney (fl (b - a)) = of_decimal 2 (toMinorUnits b - toMinorUnits a)"
  using normalizeMoney_difference [of "toMinorUnits a" "toMinorUnits b"] unfolding whole_cents_def by metis

lemma created_row:
  assumes p: "processForexFields input = Inr processed" and amt: "whole_cents (in_amount input)" "0 < in_amount input"
    and base: "in_transaction_type input = FOREX \<longrightarrow> whole_cents (base_of input)"
    and row: "r = new_cash_bank_row now input processed c actor k"
  shows "in_range r" and "fx_given r" and "list_all entry_sided (booked r)"
proof -
  let ?a = "toMinorUnits (in_amount input)" and ?b = "toMinorUnits (base_of input)"
  have a: "cbt_amount r = ?a" and a0: "0 < ?a" "?a \<le> 10 ^ 14"
    using amt whole_cents_pos [OF amt(1)]
    by (simp_all add: row new_cash_bank_row_def whole_cents_normalize whole_cents_stored whole_cents_def)
  have b: "booked_value r = (if in_transaction_type input = FOREX then ?b else ?a)"
    using forex_processed [OF p] base a
    by (auto simp: row new_cash_bank_row_def booked_value_def whole_cents_stored)
  have b0: "0 < booked_value r" "booked_value r \<le> 10 ^ 14"
    using b a0 base forex_processed [OF p] whole_cents_pos [of "base_of input"] by (auto simp: whole_cents_def split: if_splits)
  show "in_range r" using a a0 b0 by (simp add: in_range_def)
  show "fx_given r"
  proof (cases "in_transaction_type input = FOREX")
    case True
    have "\<bar>?b - ?a\<bar> \<le> 10 ^ 14" using b b0 a0 True by auto
    then have "of_decimal 2 (?b - ?a) = 0 \<longleftrightarrow> ?b = ?a" using of_decimal2_eq_0 by simp
    with forex_processed [OF p] whole_cents_difference [OF amt(1), of "base_of input"] base True a b
    show ?thesis by (auto simp: fx_given_def row new_cash_bank_row_def)
  qed (use a b in \<open>simp add: fx_given_def\<close>)
  show "list_all entry_sided (booked r)"
    using a a0 b0 by (auto simp: booked_def Let_def entry_sided_def max_def)
qed

lemma accepted_cents_of: "small_entry e \<Longrightarrow> entry_sided e \<Longrightarrow> accepted_line (cents_of e)"
  by (simp add: accepted_line_def stored_cents_of in_decimal18_def small_entry_def)

text \<open>A draft that was created posts.\<close>

lemma treasury_create_posts:
  assumes create: "treasury_create collate access now input c actor s = Inr (t, s1)" and num: "rows_numbered s"
    and amt: "whole_cents (in_amount input)"
    and base: "in_transaction_type input = FOREX \<longrightarrow> whole_cents (base_of input)"
    and fy: "open_fiscal_years c (in_transaction_date input) s \<noteq> []"
    and free: "batch_free (tr_db s) c (doc_type_of (in_transaction_type input) False) (Suc (tr_last_id s))"
  obtains r t' s2 where "t_id t = cbt_id r" and "find_cash_bank_row (t_id t) c s1 = Some r"
    and "in_range r" and "cbt_amount r = toMinorUnits (in_amount input)"
    and "treasury_post collate access now' (t_id t) c actor s1 = Inr (t', s2)"
    and "company_entries c s2 = company_entries c s1 @ booked r" and "company_entries c s1 = company_entries c s"
proof -
  let ?P = "kysely_ports collate access"
  from create obtain processed r where p: "processForexFields input = Inr processed"
    and row: "r = new_cash_bank_row now input processed c actor (Suc (tr_last_id s))"
    and ins: "insert_cash_bank_row collate r s = Inr s1"
    and s1: "s1 = s\<lparr>cash_bank_transactions := cash_bank_transactions s @ [r], tr_last_id := Suc (tr_last_id s)\<rparr>"
    and outlet: "check_create_outlet ?P (in_outlet_id input) c actor s = Inr ()"
    and acc: "check_accounts ?P (in_transaction_type input) (in_source_account_id input)
      (in_destination_account_id input) c s = Inr ()"
    and t: "kysely_findById (Suc (tr_last_id s)) c s1 = Some t"
    by (rule treasury_create_effect)
  have "0 < in_amount input" using create by (auto simp: treasury_create_def cb_create_def inr_simps)
  note cr = created_row [OF p amt this base row]
  let ?i = "Suc (tr_last_id s)"
  have r_fields: "cbt_id r = ?i" "cbt_company_id r = c" "cbt_status r = DRAFT" "cbt_outlet_id r = in_outlet_id input"
    "cbt_transaction_type r = in_transaction_type input" "cbt_transaction_date r = in_transaction_date input"
    "cbt_source_account_id r = in_source_account_id input"
    "cbt_destination_account_id r = in_destination_account_id input"
    by (simp_all add: row new_cash_bank_row_def)
  have found: "find_cash_bank_row ?i c s1 = Some r"
  proof -
    have "find (\<lambda>q. cbt_id q = ?i \<and> cbt_company_id q = c) (cash_bank_transactions s) = None"
      using num by (fastforce simp: rows_numbered_def find_None_iff)
    then show ?thesis by (simp add: find_cash_bank_row_def s1 find_append r_fields)
  qed
  have tt: "t = toCashBankTransaction s1 r" using t by (simp add: kysely_findById_def found)
  then have tid: "t_id t = ?i" by (simp add: toCashBankTransaction_def r_fields)
  let ?u = "kysely_updateStatus now' ?i c POSTED (Some now') s1" and ?r1 = "set_status now' POSTED (Some now') r"
  have lines: "mapToJournal (toCashBankTransaction ?u ?r1) False = Inr (map cents_of (void_entries False (booked r)))"
    using mapToJournal_booked [OF cr(1), of s1 False] cr(2) unfolding mapToJournal_set_status [where s = s1] by simp
  have free1: "journal_free ?r1 False ?u"
    using free by (simp add: kysely_updateStatus_def s1 set_status_def r_fields)
  have "list_all accepted_line (map cents_of (void_entries False (booked r)))"
    using accepted_cents_of booked_small [OF cr(1), of False] cr(3) by (simp add: list_all_iff void_entries_def)
  then obtain res s2 where j: "postToJournal ?P (Some posting_service_post) now' (toCashBankTransaction ?u ?r1) False ?u =
      Inr (res, s2)"
    using post_to_journal_total [OF lines assertBalancedLines_booked [OF cr(1)] free1] by blast
  have t1: "kysely_findById ?i c ?u = Some (toCashBankTransaction ?u ?r1)"
    by (simp add: kysely_findById_def find_after_update [OF found])
  have access: "check_outlet_access ?P t c actor = Inr ()"
    using outlet by (auto simp: check_outlet_access_def check_create_outlet_def tt toCashBankTransaction_def r_fields
        inr_simps truthy_id_def split: option.splits)
  have accounts1: "findAccount ?P a c s1 = findAccount ?P a c s" for a
    by (simp add: kysely_ports_def kysely_findAccount_def s1)
  have acc1: "check_accounts ?P (in_transaction_type input) (in_source_account_id input)
      (in_destination_account_id input) c s1 = Inr ()"
    using acc by (simp add: check_accounts_def ensureAccount_def accounts1)
  have fy1: "ensure_open_fiscal_year c (in_transaction_date input) s1 = Inr ()"
    using fy by (simp add: ensure_open_fiscal_year_def open_fiscal_years_def s1)
  have "treasury_post collate access now' ?i c actor s1 = Inr (toCashBankTransaction ?u ?r1, s2)"
    unfolding treasury_post_def cb_post_Inr
    using t t1 j access acc1 fy1
    by (auto simp: kysely_ports_def tt toCashBankTransaction_def r_fields)
  note post = this
  from status_changed [OF found t1 j] have "company_entries c s2 = company_entries c s1 @
      map stored_entry (map cents_of (void_entries False (booked r)))"
    using mapToJournal_booked [OF cr(1), of s1 False] cr(2) by (auto simp: status_change_def r_fields)
  then have "company_entries c s2 = company_entries c s1 @ booked r"
    using stored_cents_of_map [OF booked_small [OF cr(1), of False]] by (simp add: void_entries_def del: map_map)
  moreover have "cbt_amount r = toMinorUnits (in_amount input)"
    using amt by (simp add: row new_cash_bank_row_def whole_cents_normalize whole_cents_stored)
  moreover have "company_entries c s1 = company_entries c s" by (simp add: company_entries_def s1)
  ultimately show thesis using that [of r] found cr(1) post r_fields(1) by (simp add: tid)
qed

section \<open>A sample treasury\<close>

text \<open>Two accounts for cash, one of a bank and one for exchange differences; the year is open.\<close>

definition sample_treasury :: treasury_db where
  "sample_treasury = \<lparr>tr_db = empty_db\<lparr>accounts := [sample_account 1 ''Kas Kecil'', sample_account 2 ''Bank'',
       sample_account 3 ''Cash on hand'', sample_account 4 ''Income'']\<rparr>,
     tr_outlets = [], tr_fiscal_years = [\<lparr>fy_id = 1, fy_company_id = 1, fy_code = ''FY26'', fy_created_at = 0,
       fy_created_by_user_id = None, fy_end_date = 20818, fy_name = ''2026'', fy_start_date = 20454,
       fy_status = ''OPEN'', fy_updated_at = 0, fy_updated_by_user_id = None\<rparr>],
     cash_bank_transactions = [], tr_last_id = 0\<rparr>"

definition sample_top_up :: CreateCashBankInput where
  "sample_top_up = \<lparr>in_outlet_id = None, in_transaction_type = TOP_UP, in_transaction_date = 20500,
     in_reference = Some ''TU-1'', in_description = ''deposit'', in_source_account_id = 1,
     in_destination_account_id = 2, in_amount = 150, in_currency_code = None, in_exchange_rate = None,
     in_base_amount = None, in_fx_account_id = None\<rparr>"

definition treasury_after :: "'e + 'a \<times> treasury_db \<Rightarrow> treasury_db" where
  "treasury_after m = (case m of Inr (_, s) \<Rightarrow> s | Inl _ \<Rightarrow> sample_treasury)"

definition created_sample :: treasury_db where
  "created_sample = treasury_after (treasury_create id (\<lambda>_ _ _. True) 1771200000000 sample_top_up 1 (Some 7) sample_treasury)"

definition posted_sample :: treasury_db where
  "posted_sample = treasury_after (treasury_post id (\<lambda>_ _ _. True) 1771200060000 1 1 (Some 7) created_sample)"

definition single_row :: "(cash_bank_row \<Rightarrow> bool) \<Rightarrow> treasury_db \<Rightarrow> bool" where
  "single_row P s \<longleftrightarrow> (case cash_bank_transactions s of [r] \<Rightarrow> P r | _ \<Rightarrow> False)"

lemma single_rowE:
  assumes "single_row P s"
  obtains r where "cash_bank_transactions s = [r]" and "P r"
  using assms unfolding single_row_def by (auto split: list.splits)

lemma sample_created:
  obtains t r where "treasury_create id (\<lambda>_ _ _. True) 1771200000000 sample_top_up 1 (Some 7) sample_treasury =
      Inr (t, created_sample)" and "t_id t = 1" and "rows_numbered created_sample"
    and "cash_bank_transactions created_sample = [r]" and "cbt_id r = 1" and "cbt_company_id r = 1"
    and "cbt_status r = DRAFT" and "cbt_amount r = 15000" and "journal_free r True created_sample"
    and "account_net 2 (company_entries 1 created_sample) = 0"
proof -
  have "case treasury_create id (\<lambda>_ _ _. True) 1771200000000 sample_top_up 1 (Some 7) sample_treasury of
      Inr (t, s) \<Rightarrow> t_id t = 1 \<and> rows_numbered s \<and> single_row (\<lambda>r. cbt_id r = 1 \<and> cbt_company_id r = 1 \<and>
        cbt_status r = DRAFT \<and> cbt_amount r = 15000 \<and> journal_free r True s) s \<and>
        account_net 2 (company_entries 1 s) = 0 | Inl _ \<Rightarrow> False"
    by code_simp
  then obtain t where t: "treasury_create id (\<lambda>_ _ _. True) 1771200000000 sample_top_up 1 (Some 7) sample_treasury =
      Inr (t, created_sample)" "t_id t = 1" "rows_numbered created_sample"
      "account_net 2 (company_entries 1 created_sample) = 0"
    and row: "single_row (\<lambda>r. cbt_id r = 1 \<and> cbt_company_id r = 1 \<and>
        cbt_status r = DRAFT \<and> cbt_amount r = 15000 \<and> journal_free r True created_sample) created_sample"
    by (auto simp: created_sample_def treasury_after_def simp del: One_nat_def split: sum.splits)
  from row show thesis by (rule single_rowE) (use that t in blast)
qed

lemma sample_posted:
  obtains t r where "treasury_post id (\<lambda>_ _ _. True) 1771200060000 1 1 (Some 7) created_sample = Inr (t, posted_sample)"
    and "cash_bank_transactions posted_sample = [r]" and "cbt_status r = POSTED" and "in_range r"
    and "posted_net 1 2 posted_sample = 15000"
proof -
  have "case treasury_post id (\<lambda>_ _ _. True) 1771200060000 1 1 (Some 7) created_sample of
      Inr (t, s) \<Rightarrow> single_row (\<lambda>r. cbt_status r = POSTED \<and> in_range r) s \<and> posted_net 1 2 s = 15000 | Inl _ \<Rightarrow> False"
    by code_simp
  then obtain t where t: "treasury_post id (\<lambda>_ _ _. True) 1771200060000 1 1 (Some 7) created_sample = Inr (t, posted_sample)"
    "posted_net 1 2 posted_sample = 15000"
    and row: "single_row (\<lambda>r. cbt_status r = POSTED \<and> in_range r) posted_sample"
    by (auto simp: posted_sample_def treasury_after_def simp del: One_nat_def split: sum.splits)
  from row show thesis by (rule single_rowE) (use that t in blast)
qed

lemma sample_numbered: "rows_numbered sample_treasury" "posted_net c a sample_treasury = 0"
  "account_net a (company_entries c sample_treasury) = 0"
  by (simp_all add: rows_numbered_def posted_net_def company_entries_def sample_treasury_def empty_db_def)

lemma sample_run: "(treasury_step id (\<lambda>_ _ _. True))\<^sup>*\<^sup>* sample_treasury posted_sample"
proof -
  have "treasury_step id (\<lambda>_ _ _. True) sample_treasury created_sample"
    by (rule sample_created) (rule treasury_step.create)
  moreover have "treasury_step id (\<lambda>_ _ _. True) created_sample posted_sample"
    by (rule sample_posted) (rule treasury_step.post)
  ultimately show ?thesis by simp
qed

section \<open>Properties\<close>

text \<open>
  C20: Up to \<open>10 ^ 14\<close> cents the journal of a stored transaction, computed in JavaScript numbers, is
  stored as the entries that integers of cents give, and the posting service finds it balanced.
  The one way to fail is a difference of exchange without an account to book it on.
\<close>

theorem journal_exact:
  assumes "in_range r"
  shows "case mapToJournal (toCashBankTransaction s r) voidMode of
      Inl e \<Rightarrow> e = CashBankValidationError ''fx_account_id is required when FOREX has gain/loss'' \<and>
        booked_value r \<noteq> cbt_amount r \<and> truthy_id (cbt_fx_account_id r) = None
    | Inr lines \<Rightarrow> map stored_entry lines = void_entries voidMode (booked r) \<and>
        debits (map stored_entry lines) = credits (map stored_entry lines) \<and>
        assertBalancedLines lines = Inr ()"
proof -
  have "debits (void_entries voidMode (booked r)) = credits (void_entries voidMode (booked r))"
    using booked_balanced [of r]
    by (simp add: void_entries_def debits_def credits_def comp_def reverse_entry_def)
  then show ?thesis
    using assertBalancedLines_booked [OF assms] stored_cents_of_map [OF booked_small [OF assms]]
    by (auto simp: mapToJournal_booked [OF assms] fx_given_def simp del: truthy_id_Some)
qed

definition sample_forex_row :: cash_bank_row where
  "sample_forex_row = \<lparr>cbt_id = 1, cbt_company_id = 1, cbt_outlet_id = None, cbt_transaction_type = FOREX,
     cbt_transaction_date = 20500, cbt_reference = None, cbt_description = ''dollars'', cbt_source_account_id = 1,
     cbt_destination_account_id = 2, cbt_amount = 10010, cbt_currency_code = ''USD'', cbt_exchange_rate = None,
     cbt_base_amount = Some 10030, cbt_fx_gain_loss = Some 20, cbt_fx_account_id = Some 4, cbt_status = DRAFT,
     cbt_posted_at = None, cbt_created_by_user_id = None, cbt_created_at = 0, cbt_updated_at = 0\<rparr>"

theorem journal_exact_witness:
  "\<exists>lines. mapToJournal (toCashBankTransaction sample_treasury sample_forex_row) False = Inr lines \<and>
     map stored_entry lines = booked sample_forex_row \<and> map le_credit (booked sample_forex_row) = [0, 10010, 20]"
proof -
  have r: "in_range sample_forex_row" "truthy_id (cbt_fx_account_id sample_forex_row) = Some 4"
    "map le_credit (booked sample_forex_row) = [0, 10010, 20]" by code_simp+
  from journal_exact [OF r(1), where s = sample_treasury and voidMode = False] r(2,3)
  show ?thesis by (simp add: void_entries_def truthy_id_def split: sum.splits)
qed

text \<open>
  C4: The books of the treasury: over every run of creations, postings and voids, the balance of
  each account of a company moves by what its posted transactions book and by nothing else; a
  voided transaction leaves no trace in a balance.  The amounts of the transactions stay within the
  10^14 cents up to which the JavaScript numbers are exact.
\<close>

theorem treasury_books:
  assumes "(treasury_step collate access)\<^sup>*\<^sup>* s0 s" and "rows_numbered s0"
    and "\<forall>r \<in> set (cash_bank_transactions s). in_range r"
  shows "account_net a (company_entries c s) - account_net a (company_entries c s0) =
    posted_net c a s - posted_net c a s0"
  using books_steps [OF assms, of a c] by linarith

theorem treasury_books_witness:
  "account_net 2 (company_entries 1 posted_sample) = 15000"
proof -
  obtain r where r: "cash_bank_transactions posted_sample = [r]" "in_range r" "posted_net 1 2 posted_sample = 15000"
    by (rule sample_posted)
  have "\<forall>r \<in> set (cash_bank_transactions posted_sample). in_range r" using r(1,2) by simp
  from treasury_books [OF sample_run sample_numbered(1) this, of 2 1] r(3) show ?thesis
    by (simp add: sample_numbered del: One_nat_def)
qed

text \<open>
  Repeating a request is harmless: posting what was posted, or voiding what was voided, returns
  the same transaction and changes nothing, whenever it is repeated; and what was voided is never
  posted again.
\<close>

theorem repeated_requests:
  assumes "treasury_post collate access now i c actor s = Inr (t, s1)"
    and "treasury_void collate access now2 i c actor s1 = Inr (t2, s2)"
  shows "treasury_post collate access now3 i c actor s1 = Inr (t, s1) \<and>
    treasury_void collate access now3 i c actor s2 = Inr (t2, s2) \<and>
    treasury_post collate access now3 i c actor s2 =
      Inl (CashBankStatusError ''Only DRAFT transaction can be posted'')"
  using assms unfolding treasury_post_def treasury_void_def
  by (simp add: kb.post_again kb.void_again kb.post_after_void)

theorem repeated_requests_witness:
  "\<exists>t t2 s2. treasury_void id (\<lambda>_ _ _. True) 1771200090000 1 1 (Some 7) posted_sample = Inr (t2, s2) \<and>
     treasury_post id (\<lambda>_ _ _. True) 0 1 1 (Some 7) posted_sample = Inr (t, posted_sample) \<and>
     treasury_void id (\<lambda>_ _ _. True) 0 1 1 (Some 7) s2 = Inr (t2, s2)"
proof -
  obtain t where p: "treasury_post id (\<lambda>_ _ _. True) 1771200060000 1 1 (Some 7) created_sample = Inr (t, posted_sample)"
    by (rule sample_posted)
  have "case treasury_void id (\<lambda>_ _ _. True) 1771200090000 1 1 (Some 7) posted_sample of Inr _ \<Rightarrow> True | Inl _ \<Rightarrow> False"
    by code_simp
  then obtain t2 s2 where v: "treasury_void id (\<lambda>_ _ _. True) 1771200090000 1 1 (Some 7) posted_sample = Inr (t2, s2)"
    by (auto split: sum.splits)
  from repeated_requests [OF p v, of 0] v show ?thesis by blast
qed

text \<open>
  No run loses a transaction or changes its terms: accounts, amounts, date and reference stay,
  and the status only moves from draft to posted to void.
\<close>

theorem transaction_moves_on:
  assumes "(treasury_step collate access)\<^sup>*\<^sup>* s s'" and "rows_numbered s"
    and "r \<in> set (cash_bank_transactions s)"
  shows "\<exists>r' \<in> set (cash_bank_transactions s'). r' = r \<or>
    (cbt_status r, cbt_status r') \<in> {(DRAFT, POSTED), (DRAFT, VOID), (POSTED, VOID)} \<and>
    (\<exists>st u p. r' = r\<lparr>cbt_status := st, cbt_updated_at := u, cbt_posted_at := p\<rparr>)"
proof -
  obtain r' where r': "r' \<in> set (cash_bank_transactions s')" "later_row r r'"
    using later_row_steps [OF assms] by blast
  have up: "(x, y) \<in> {(DRAFT, POSTED), (DRAFT, VOID), (POSTED, VOID)}" if "status_rank x < status_rank y" for x y
    using that by (cases x; cases y) simp_all
  from r'(2) consider "r' = r" | st u p where "status_rank (cbt_status r) < status_rank st"
      "r' = r\<lparr>cbt_status := st, cbt_updated_at := u, cbt_posted_at := p\<rparr>"
    unfolding later_row_def by blast
  then show ?thesis
  proof cases
    case (2 st u p)
    then have "(cbt_status r, cbt_status r') \<in> {(DRAFT, POSTED), (DRAFT, VOID), (POSTED, VOID)}" using up by simp
    with 2(2) show ?thesis by (intro bexI [OF _ r'(1)]) blast
  qed (use r'(1) in blast)
qed

theorem transaction_moves_on_witness:
  "\<exists>r \<in> set (cash_bank_transactions created_sample). \<exists>r' \<in> set (cash_bank_transactions posted_sample).
     cbt_amount r = 15000 \<and> cbt_amount r' = 15000 \<and> cbt_status r = DRAFT \<and> cbt_status r' = POSTED"
proof -
  obtain r where r: "rows_numbered created_sample" "cash_bank_transactions created_sample = [r]"
    "cbt_amount r = 15000" "cbt_status r = DRAFT"
    by (rule sample_created)
  obtain q where q: "cash_bank_transactions posted_sample = [q]" "cbt_status q = POSTED" by (rule sample_posted)
  have "treasury_step id (\<lambda>_ _ _. True) created_sample posted_sample"
    by (rule sample_posted) (rule treasury_step.post)
  then have "(treasury_step id (\<lambda>_ _ _. True))\<^sup>*\<^sup>* created_sample posted_sample" by simp
  from transaction_moves_on [OF this r(1), of r] r(2-4) q show ?thesis by auto
qed

text \<open>
  C19: What was just posted can be voided, if the ledger holds no void of it: the fiscal year that
  let the posting pass lets the void pass, and the void restores the balance of every account.
\<close>

theorem posted_can_be_voided:
  assumes "find_cash_bank_row i c s = Some r" and "cbt_status r = DRAFT"
    and "treasury_post collate access now i c actor s = Inr (t, s1)" and "journal_free r True s"
  shows "\<exists>t' s2. treasury_void collate access now' i c actor s1 = Inr (t', s2) \<and>
    (\<forall>k a. account_net a (company_entries k s2) = account_net a (company_entries k s))"
  using treasury_void_after_post [OF assms] treasury_void_restores [OF assms(1-3)] by blast

theorem posted_can_be_voided_witness:
  "\<exists>t' s2. treasury_void id (\<lambda>_ _ _. True) 1771200090000 1 1 (Some 7) posted_sample = Inr (t', s2) \<and>
     account_net 2 (company_entries 1 s2) = 0"
proof -
  obtain t where p: "treasury_post id (\<lambda>_ _ _. True) 1771200060000 1 1 (Some 7) created_sample = Inr (t, posted_sample)"
    by (rule sample_posted)
  obtain r where r: "cash_bank_transactions created_sample = [r]" "cbt_id r = 1" "cbt_company_id r = 1"
    "cbt_status r = DRAFT" "journal_free r True created_sample" "account_net 2 (company_entries 1 created_sample) = 0"
    by (rule sample_created)
  have "find_cash_bank_row 1 1 created_sample = Some r" by (simp add: find_cash_bank_row_def r(1-3))
  from posted_can_be_voided [OF this r(4) p r(5)] r(6) show ?thesis by metis
qed

text \<open>
  C18: A draft created with amounts in whole cents posts, when its date lies in an open fiscal year
  and no batch carries its number, and its batch is balanced and credits the source account with
  the amount of the request.
\<close>

theorem created_draft_posts:
  assumes "treasury_create collate access now input c actor s = Inr (t, s1)" and "rows_numbered s"
    and "whole_cents (in_amount input)"
    and "in_transaction_type input = FOREX \<longrightarrow> whole_cents (base_of input)"
    and "open_fiscal_years c (in_transaction_date input) s \<noteq> []"
    and "batch_free (tr_db s) c (doc_type_of (in_transaction_type input) False) (Suc (tr_last_id s))"
  shows "\<exists>t' s2 es. treasury_post collate access now' (t_id t) c actor s1 = Inr (t', s2) \<and>
    company_entries c s2 = company_entries c s @ es \<and> debits es = credits es \<and>
    (\<exists>e \<in> set es. le_credit e = toMinorUnits (in_amount input))"
proof (rule treasury_create_posts [OF assms, of now'])
  fix r t' s2
  assume r: "cbt_amount r = toMinorUnits (in_amount input)"
    and post: "treasury_post collate access now' (t_id t) c actor s1 = Inr (t', s2)"
    and e: "company_entries c s2 = company_entries c s1 @ booked r" "company_entries c s1 = company_entries c s"
  have "\<exists>e \<in> set (booked r). le_credit e = toMinorUnits (in_amount input)"
    using r by (auto simp: booked_def Let_def)
  with post e booked_balanced [of r] show ?thesis by auto
qed

theorem created_draft_posts_witness:
  "\<exists>t' s2. treasury_post id (\<lambda>_ _ _. True) 1771200060000 1 1 (Some 7) created_sample = Inr (t', s2)"
proof -
  obtain t where t: "treasury_create id (\<lambda>_ _ _. True) 1771200000000 sample_top_up 1 (Some 7) sample_treasury =
      Inr (t, created_sample)" "t_id t = 1" by (rule sample_created)
  have a: "rows_numbered sample_treasury" "whole_cents (in_amount sample_top_up)"
    "in_transaction_type sample_top_up = FOREX \<longrightarrow> whole_cents (base_of sample_top_up)"
    "open_fiscal_years 1 (in_transaction_date sample_top_up) sample_treasury \<noteq> []"
    "batch_free (tr_db sample_treasury) 1 (doc_type_of (in_transaction_type sample_top_up) False)
      (Suc (tr_last_id sample_treasury))" by code_simp+
  from created_draft_posts [OF t(1) a, of 1771200060000] show ?thesis unfolding t(2) by blast
qed

text \<open>
  C39: A draft in foreign currency whose stored amounts differ, and that names no account for the
  difference, stays a draft in every run: no posting of it ever succeeds.  The creation lets such
  a draft in, because it compares the amounts before they are rounded to cents.
\<close>

theorem forex_draft_stuck:
  assumes "(treasury_step collate access)\<^sup>*\<^sup>* s s'" and "rows_numbered s"
    and "r \<in> set (cash_bank_transactions s)" and "cbt_status r = DRAFT" and "in_range r" and "\<not> fx_given r"
  shows "r \<in> set (cash_bank_transactions s') \<and>
    (\<forall>now actor x. treasury_post collate access now (cbt_id r) (cbt_company_id r) actor s' \<noteq> Inr x)"
proof -
  have "rows_numbered s' \<and> r \<in> set (cash_bank_transactions s')"
    using assms(1)
  proof (induction rule: rtranclp_induct)
    case (step t t')
    then have num: "rows_numbered t" and r: "r \<in> set (cash_bank_transactions t)" by simp_all
    from step.hyps(2) have "r \<in> set (cash_bank_transactions t')"
    proof (cases rule: treasury_step_shape)
      case (3 q now st p v)
      have "q \<noteq> r"
      proof
        assume "q = r"
        with 3(2) obtain lines where "mapToJournal (toCashBankTransaction t r) v = Inr lines"
          unfolding status_change_def by blast
        with mapToJournal_booked [OF assms(5)] assms(6) show False by simp
      qed
      with num r 3(1) have "cbt_id r \<noteq> cbt_id q" by (auto simp: rows_numbered_def distinct_map inj_on_def)
      with r 3(2) show ?thesis by (auto simp: status_change_def set_update_where)
    qed (use r in auto)
    with rows_numbered_step [OF step.hyps(2) num] show ?case ..
  qed (use assms(2,3) in simp)
  then have num: "rows_numbered s'" and r: "r \<in> set (cash_bank_transactions s')" by simp_all
  have "treasury_post collate access now (cbt_id r) (cbt_company_id r) actor s' \<noteq> Inr (t, s2)" for now actor t s2
  proof
    assume "treasury_post collate access now (cbt_id r) (cbt_company_id r) actor s' = Inr (t, s2)"
    then show False
    proof (cases rule: treasury_post_effect)
      case (1 q)
      with find_cash_bank_row_Some [OF 1(1)] num r have "q = r" by (auto simp: rows_numbered_def distinct_map inj_on_def)
      with 1 assms(4) show False by simp
    next
      case (2 q)
      with find_cash_bank_row_Some [OF 2(1)] num r have "q = r" by (auto simp: rows_numbered_def distinct_map inj_on_def)
      with 2(3) obtain lines where "mapToJournal (toCashBankTransaction s' r) False = Inr lines"
        unfolding status_change_def by blast
      with mapToJournal_booked [OF assms(5)] assms(6) show False by simp
    qed
  qed
  with r show ?thesis by (metis surj_pair)
qed

text \<open>A request over 100.004 with the base amount 100.008 is stored as 100.00 and 100.01.\<close>

definition half_cent_input :: CreateCashBankInput where
  "half_cent_input = sample_top_up\<lparr>in_transaction_type := FOREX, in_amount := fl (100004 / 1000),
     in_exchange_rate := Some 1, in_base_amount := Some (fl (100008 / 1000))\<rparr>"

theorem forex_draft_stuck_witness:
  "\<exists>t s1. treasury_create id (\<lambda>_ _ _. True) 1771200000000 half_cent_input 1 (Some 7) sample_treasury = Inr (t, s1) \<and>
     (\<forall>now actor x. treasury_post id (\<lambda>_ _ _. True) now 1 1 actor s1 \<noteq> Inr x)"
proof -
  let ?create = "treasury_create id (\<lambda>_ _ _. True) 1771200000000 half_cent_input 1 (Some 7) sample_treasury"
  let ?ok = "\<lambda>r. cbt_id r = 1 \<and> cbt_company_id r = 1 \<and> cbt_status r = DRAFT \<and> cbt_amount r = 10000 \<and>
    booked_value r = 10001 \<and> cbt_fx_account_id r = None"
  have "case ?create of Inr (t, s) \<Rightarrow> rows_numbered s \<and> single_row ?ok s | Inl _ \<Rightarrow> False" by code_simp
  then obtain t s1 where t: "?create = Inr (t, s1)" "rows_numbered s1" and row: "single_row ?ok s1"
    by (auto simp del: One_nat_def split: sum.splits)
  note num = t(2)
  from row obtain r where r: "cash_bank_transactions s1 = [r]" "cbt_id r = 1" "cbt_company_id r = 1" "cbt_status r = DRAFT"
    and v: "cbt_amount r = 10000" "booked_value r = 10001" "cbt_fx_account_id r = None"
    by (rule single_rowE) blast
  have "r \<in> set (cash_bank_transactions s1)" "in_range r" "\<not> fx_given r"
    using v by (simp_all add: r(1) in_range_def fx_given_def)
  from forex_draft_stuck [OF rtranclp.rtrancl_refl num this(1) r(4) this(2,3), of id "\<lambda>_ _ _. True"] t
  show ?thesis unfolding r(2,3) by blast
qed

end
