(* ===== verification/Signed_Decimal.thy ===== *)
theory Signed_Decimal
  imports Decimal_Scale4
begin

text \<open>
  \<open>toScaled\<close> and \<open>fromScaled\<close> of \<open>services/ap-reconciliation-service.ts\<close>, which
  the reconciliation and the statements of suppliers share: unlike the parser of the documents
  this one takes a sign.  An invalid text is the plain error \<open>Inl\<close> with that text; the services
  give it their own type by \<open>with_error\<close>.
\<close>

definition signed_toScaled :: "string \<Rightarrow> nat \<Rightarrow> string + int" where
  "signed_toScaled value scale =
     (let trimmed = js_trim value;
          negative = (take 1 trimmed = ''-'');
          unsigned = (if negative then drop 1 trimmed else trimmed)
      in if \<not> decimal_ok scale unsigned then Inl value
      else
        let sign = (if negative then -1 else 1);
            (integer, fraction) = split_dot unsigned;
            fracScaled = take scale (fraction @ replicate scale (CHR ''0''));
            magnitude = int_of_str integer * 10 ^ scale + int_of_str fracScaled
        in Inr (sign * magnitude))"

definition signed_fromScaled :: "int \<Rightarrow> nat \<Rightarrow> string" where
  "signed_fromScaled v scale =
     (let sign = (if v < 0 then ''-'' else '''');
          a = (if v < 0 then - v else v);
          intPart = a div 10 ^ scale;
          fracPart = pad_start scale (int_str (a mod 10 ^ scale))
      in sign @ int_str intPart @ ''.'' @ fracPart)"

definition signed_fromScaled4 :: "int \<Rightarrow> string" where
  "signed_fromScaled4 v = signed_fromScaled v 4"

definition with_error :: "('e \<Rightarrow> 'f) \<Rightarrow> 'e + 'a \<Rightarrow> 'f + 'a" where
  "with_error f m = (case m of Inl e \<Rightarrow> Inl (f e) | Inr x \<Rightarrow> Inr x)"

lemma with_error_simps [simp]: "with_error f (Inl e) = Inl (f e)" "with_error f (Inr x) = Inr x"
  by (simp_all add: with_error_def)

lemma with_error_Inr [inr_simps]: "with_error f m = Inr x \<longleftrightarrow> m = Inr x"
  by (cases m) simp_all

section \<open>Parsing what was printed\<close>

lemma signed_fromScaled_db: "signed_fromScaled v k = db_decimal k v"
  by (simp add: signed_fromScaled_def db_decimal_def Let_def)

lemma signed_parts:
  assumes "toScaled k t = Inr v" and "js_trim t = t"
  shows "take 1 t \<noteq> ''-'' \<Longrightarrow> signed_toScaled t k = Inr v"
    and "js_trim (CHR ''-'' # t) = CHR ''-'' # t \<Longrightarrow> signed_toScaled (CHR ''-'' # t) k = Inr (- v)"
  using assms
  by (auto simp: toScaled_def signed_toScaled_def Let_def split: if_splits prod.splits)

lemma db_decimal_trim:
  assumes "0 \<le> v" and "0 < k"
  shows "js_trim (db_decimal k v) = db_decimal k v" and "take 1 (db_decimal k v) \<noteq> ''-''"
    and "js_trim (CHR ''-'' # db_decimal k v) = CHR ''-'' # db_decimal k v"
proof -
  let ?a = "int_str (v div 10 ^ k)" and ?f = "pad_start k (int_str (v mod 10 ^ k))"
  have eq: "db_decimal k v = ?a @ CHR ''.'' # ?f" using assms(1) by (simp add: db_decimal_def)
  have digits: "list_all is_digit ?a" "list_all is_digit ?f" "?a \<noteq> []"
    using assms(1) by (simp_all add: pos_imp_zdiv_nonneg_iff pad_start_facts)
  have f: "?f \<noteq> []" by (simp add: pad_start_def)
  from trim_digits [OF digits(1,3,2) f] show trim: "js_trim (db_decimal k v) = db_decimal k v" by (simp add: eq)
  from digits(1,3) obtain c a where a: "?a = c # a" and c: "is_digit c" by (cases ?a) auto
  have "c \<noteq> CHR ''-''" using c by (auto simp: is_digit_def)
  then show "take 1 (db_decimal k v) \<noteq> ''-''" by (simp add: eq a)
  obtain f' l where l: "?f = f' @ [l]" using f by (cases ?f rule: rev_cases) auto
  then have "\<not> js_space l" using digits(2) digit_not_space by auto
  then show "js_trim (CHR ''-'' # db_decimal k v) = CHR ''-'' # db_decimal k v"
    by (simp add: js_trim_def js_space_def eq l)
qed

lemma signed_db_decimal [simp]:
  assumes "0 < k"
  shows "signed_toScaled (db_decimal k v) k = Inr v"
proof (cases "v < 0")
  case False
  then show ?thesis
    using db_decimal_trim [of v k] assms by (intro signed_parts) (simp_all add: toScaled_db_decimal)
next
  case True
  then have "db_decimal k v = CHR ''-'' # db_decimal k (- v)" by (simp add: db_decimal_def)
  with True show ?thesis
    using db_decimal_trim [of "- v" k] assms signed_parts(2) [of k "db_decimal k (- v)" "- v"]
    by (simp add: toScaled_db_decimal)
qed

end
