(* ===== verification/Supplier_Statement.thy ===== *)
theory Supplier_Statement
  imports Open_Amount Exchange_Rate Signed_Decimal
begin

text \<open>
  The statements that suppliers send (\<open>services/supplier-statement-service.ts\<close>): a statement
  is stored with its closing balance, compared with what the invoices, payments and credits of the
  supplier say as of its date, and marked as reconciled.  The service reads the purchasing tables
  and owns one more (\<open>supplier_statements\<close>, migration 0187); only that table changes.
  Dates are days and instants seconds since 1970, both in the session's time zone.
\<close>

section \<open>Errors and constants\<close>

text \<open>
  The error classes of \<open>types/supplier-statements.ts\<close>.  \<open>Statement_failed\<close> is the
  base class with a code of its own, \<open>Invalid_decimal\<close> the plain error of the parser.
\<close>

datatype statement_error =
    Statement_failed string
  | Statement_not_found nat
  | Supplier_not_owned nat nat
  | Supplier_not_active nat
  | Already_reconciled nat
  | Statement_duplicate nat int
  | Currency_mismatch string string
  | Rate_missing string int
  | Invalid_tolerance string
  | Invalid_decimal string

type_synonym 'a sres = "statement_error + 'a"

definition statement_decimal :: "string \<Rightarrow> nat \<Rightarrow> int sres" where
  "statement_decimal value scale = with_error Invalid_decimal (signed_toScaled value scale)"

abbreviation (input) STATEMENT_PENDING :: nat where "STATEMENT_PENDING \<equiv> 1"
abbreviation (input) STATEMENT_RECONCILED :: nat where "STATEMENT_RECONCILED \<equiv> 2"

definition DEFAULT_VARIANCE_TOLERANCE :: string where
  "DEFAULT_VARIANCE_TOLERANCE = ''1.0000''"

section \<open>The table\<close>

record supplier_statement_row =
  ss_id :: nat
  ss_company_id :: nat
  ss_supplier_id :: nat
  ss_statement_date :: int
  ss_closing_balance :: int
  ss_currency_code :: string
  ss_status :: nat
  ss_reconciled_at :: "int option"
  ss_reconciled_by_user_id :: "nat option"
  ss_created_by_user_id :: "nat option"
  ss_created_at :: int
  ss_updated_at :: int

text \<open>The purchasing tables, the statements, and the last key given to a statement.\<close>

record statement_db =
  sd_db :: db
  supplier_statements :: "supplier_statement_row list"
  sd_last_id :: nat

record SupplierStatement =
  st_id :: nat
  st_companyId :: nat
  st_supplierId :: nat
  st_statementDate :: int
  st_closingBalance :: string
  st_currencyCode :: string
  st_status :: nat
  st_reconciledAt :: "int option"
  st_reconciledByUserId :: "nat option"
  st_createdByUserId :: "nat option"
  st_createdAt :: int
  st_updatedAt :: int

definition mapRowToStatement :: "supplier_statement_row \<Rightarrow> SupplierStatement" where
  "mapRowToStatement r =
     \<lparr>st_id = ss_id r, st_companyId = ss_company_id r, st_supplierId = ss_supplier_id r,
      st_statementDate = ss_statement_date r, st_closingBalance = db_decimal 4 (ss_closing_balance r),
      st_currencyCode = ss_currency_code r, st_status = ss_status r,
      st_reconciledAt = ss_reconciled_at r, st_reconciledByUserId = ss_reconciled_by_user_id r,
      st_createdByUserId = ss_created_by_user_id r, st_createdAt = ss_created_at r,
      st_updatedAt = ss_updated_at r\<rparr>"

section \<open>Conversions\<close>

definition nextDay :: "int \<Rightarrow> int" where
  "nextDay date = date + 1"

text \<open>The instant at which a day begins.\<close>

definition midnight :: "int \<Rightarrow> int" where
  "midnight date = 86400 * date"

definition statement_computeBaseAmount :: "string \<Rightarrow> string \<Rightarrow> int sres" where
  "statement_computeBaseAmount originalAmount exchangeRate =
     bindR (statement_decimal originalAmount 4) (\<lambda>originalScaled.
     bindR (statement_decimal exchangeRate 8) (\<lambda>rateScaled.
       let scaleFactor = 10 ^ 8;
           half = big_div scaleFactor 2;
           product = originalScaled * rateScaled
       in Inr (if 0 \<le> originalScaled then big_div (product + half) scaleFactor
               else big_div (product - half) scaleFactor)))"

text \<open>
  The rate in force, as a big integer with eight decimals.  The cache the code threads through
  only remembers earlier answers of the same query inside one call, so it is left out.
\<close>

definition getEffectiveRateToBase :: "db \<Rightarrow> nat \<Rightarrow> string \<Rightarrow> int \<Rightarrow> int sres" where
  "getEffectiveRateToBase d companyId currencyCode onDate =
     (if currencyCode = ''IDR'' then statement_decimal ''1.00000000'' 8
      else bindR (from_opt (Rate_missing currencyCode onDate) (getRate_row d companyId currencyCode onDate))
        (\<lambda>rateRow. statement_decimal (db_decimal 8 (er_rate rateRow)) 8))"

text \<open>The rounded quotient both branches of \<open>convertBaseToCurrency\<close> compute.\<close>

definition divide_by_rate :: "int \<Rightarrow> int \<Rightarrow> int" where
  "divide_by_rate baseAmountScaled4 rateScaled8 =
     (let numerator = baseAmountScaled4 * 10 ^ 8;
          half = big_div rateScaled8 2
      in if 0 \<le> baseAmountScaled4 then big_div (numerator + half) rateScaled8
         else big_div (numerator - half) rateScaled8)"

definition convertBaseToCurrency :: "db \<Rightarrow> nat \<Rightarrow> int \<Rightarrow> string \<Rightarrow> int \<Rightarrow> string \<Rightarrow> string \<Rightarrow> int sres" where
  "convertBaseToCurrency d companyId baseAmountScaled4 targetCurrencyCode onDate originalCurrencyCode originalExchangeRate =
     (if targetCurrencyCode = ''IDR'' then Inr baseAmountScaled4
      else if originalCurrencyCode \<noteq> [] \<and> originalExchangeRate \<noteq> [] \<and> targetCurrencyCode = originalCurrencyCode then
        bindR (statement_decimal originalExchangeRate 8) (\<lambda>txRateScaled8.
        bindR (require (txRateScaled8 \<noteq> 0) (Rate_missing originalCurrencyCode onDate)) (\<lambda>_.
          Inr (divide_by_rate baseAmountScaled4 txRateScaled8)))
      else
        bindR (getEffectiveRateToBase d companyId targetCurrencyCode onDate) (\<lambda>rateScaled8.
        bindR (require (rateScaled8 \<noteq> 0) (Rate_missing targetCurrencyCode onDate)) (\<lambda>_.
          Inr (divide_by_rate baseAmountScaled4 rateScaled8))))"

section \<open>Validation\<close>

definition validateSupplierOwnership :: "db \<Rightarrow> nat \<Rightarrow> nat \<Rightarrow> string sres" where
  "validateSupplierOwnership d companyId supplierId =
     bindR (from_opt (Supplier_not_owned supplierId companyId)
       (find (\<lambda>s. sup_id s = supplierId) (suppliers d))) (\<lambda>supplier.
     bindR (require (sup_company_id supplier = companyId) (Supplier_not_owned supplierId companyId)) (\<lambda>_.
     bindR (require (sup_is_active supplier = 1) (Supplier_not_active supplierId)) (\<lambda>_.
       Inr (sup_currency supplier))))"

definition validateStatementCurrency :: "db \<Rightarrow> nat \<Rightarrow> string \<Rightarrow> int \<Rightarrow> unit sres" where
  "validateStatementCurrency d companyId currencyCode statementDate =
     (if currencyCode = ''IDR'' then Inr ()
      else require (getRate_row d companyId currencyCode statementDate \<noteq> None)
        (Rate_missing currencyCode statementDate))"

section \<open>Storing and reading statements\<close>

definition find_statement :: "statement_db \<Rightarrow> nat \<Rightarrow> nat \<Rightarrow> supplier_statement_row option" where
  "find_statement d companyId statementId =
     find (\<lambda>r. ss_id r = statementId \<and> ss_company_id r = companyId) (supplier_statements d)"

definition getSupplierStatement :: "statement_db \<Rightarrow> nat \<Rightarrow> nat \<Rightarrow> SupplierStatement option" where
  "getSupplierStatement d companyId statementId =
     map_option mapRowToStatement (find_statement d companyId statementId)"

record SupplierStatementCreateInput =
  is_supplierId :: nat
  is_statementDate :: int
  is_closingBalance :: string
  is_currencyCode :: string

text \<open>\<open>uk_supplier_statements_company_supplier_date\<close>\<close>

definition same_statement_key :: "nat \<Rightarrow> nat \<Rightarrow> int \<Rightarrow> supplier_statement_row \<Rightarrow> bool" where
  "same_statement_key companyId supplierId date r \<longleftrightarrow>
     ss_company_id r = companyId \<and> ss_supplier_id r = supplierId \<and> ss_statement_date r = date"

definition createSupplierStatement ::
  "nat \<Rightarrow> nat \<Rightarrow> SupplierStatementCreateInput \<Rightarrow> int \<Rightarrow> statement_db \<Rightarrow> (SupplierStatement \<times> statement_db) sres" where
  "createSupplierStatement companyId userId input now d =
     bindR (validateStatementCurrency (sd_db d) companyId (is_currencyCode input) (is_statementDate input)) (\<lambda>_.
     bindR (validateSupplierOwnership (sd_db d) companyId (is_supplierId input)) (\<lambda>currency.
     bindR (require (is_currencyCode input = currency) (Currency_mismatch (is_currencyCode input) currency)) (\<lambda>_.
     bindR (statement_decimal (is_closingBalance input) 4) (\<lambda>balance.
     bindR (require (\<forall>r \<in> set (supplier_statements d).
         \<not> same_statement_key companyId (is_supplierId input) (is_statementDate input) r)
       (Statement_duplicate (is_supplierId input) (is_statementDate input))) (\<lambda>_.
       let insertedId = Suc (sd_last_id d);
           d' = d\<lparr>supplier_statements := supplier_statements d @
                  [\<lparr>ss_id = insertedId, ss_company_id = companyId, ss_supplier_id = is_supplierId input,
                    ss_statement_date = is_statementDate input, ss_closing_balance = balance,
                    ss_currency_code = is_currencyCode input, ss_status = STATEMENT_PENDING,
                    ss_reconciled_at = None, ss_reconciled_by_user_id = None,
                    ss_created_by_user_id = Some userId, ss_created_at = now, ss_updated_at = now\<rparr>],
                  sd_last_id := insertedId\<rparr>
       in bindR (from_opt (Statement_failed ''CREATE_FAILED'')
              (find (\<lambda>r. ss_id r = insertedId) (supplier_statements d'))) (\<lambda>row.
            Inr (mapRowToStatement row, d')))))))"

record SupplierStatementListFilters =
  lf_supplierId :: "nat option"
  lf_dateFrom :: "int option"
  lf_dateTo :: "int option"
  lf_status :: "nat option"
  lf_limit :: "nat option"
  lf_offset :: "nat option"

definition statement_matches :: "nat \<Rightarrow> SupplierStatementListFilters \<Rightarrow> supplier_statement_row \<Rightarrow> bool" where
  "statement_matches companyId filters r \<longleftrightarrow> ss_company_id r = companyId \<and>
     (\<forall>s \<in> set_option (lf_supplierId filters). ss_supplier_id r = s) \<and>
     (\<forall>f \<in> set_option (lf_dateFrom filters). f \<le> ss_statement_date r) \<and>
     (\<forall>t \<in> set_option (lf_dateTo filters). ss_statement_date r \<le> t) \<and>
     (\<forall>s \<in> set_option (lf_status filters). ss_status r = s)"

text \<open>\<open>ORDER BY statement_date DESC, id DESC\<close>\<close>

definition latest_first :: "supplier_statement_row list \<Rightarrow> supplier_statement_row list" where
  "latest_first rs = sort_key (\<lambda>r. - ss_statement_date r) (sort_key (\<lambda>r. - int (ss_id r)) rs)"

definition listSupplierStatements ::
  "statement_db \<Rightarrow> nat \<Rightarrow> SupplierStatementListFilters \<Rightarrow> SupplierStatement list \<times> nat" where
  "listSupplierStatements d companyId filters =
     (let limit = (case lf_limit filters of None \<Rightarrow> 20 | Some n \<Rightarrow> n);
          offset = (case lf_offset filters of None \<Rightarrow> 0 | Some n \<Rightarrow> n);
          matches = filter (statement_matches companyId filters) (supplier_statements d);
          count = length matches;
          rows = take limit (drop offset (latest_first matches))
      in (map mapRowToStatement rows, count))"

section \<open>The balance of the subledger\<close>

text \<open>One row of the joined query: an invoice with the totals paid and credited by the date.\<close>

record subledger_row =
  sl_grand_total :: string
  sl_exchange_rate :: string
  sl_currency_code :: string
  sl_invoice_date :: int
  sl_paid_base :: string
  sl_credited_base :: string

definition payment_counts_by :: "db \<Rightarrow> nat \<Rightarrow> nat \<Rightarrow> int \<Rightarrow> ap_payment_line_row \<Rightarrow> bool" where
  "payment_counts_by d companyId supplierId asOfDate l \<longleftrightarrow>
     (\<exists>p \<in> set (ap_payments d). ap_id p = apl_ap_payment_id l \<and> ap_company_id p = companyId \<and>
        ap_supplier_id p = supplierId \<and> ap_status p = AP_POSTED \<and> ap_payment_date p \<le> asOfDate)"

definition credit_counts_by :: "db \<Rightarrow> nat \<Rightarrow> nat \<Rightarrow> int \<Rightarrow> purchase_credit_application_row \<Rightarrow> bool" where
  "credit_counts_by d companyId supplierId asOfDate a \<longleftrightarrow> pca_company_id a = companyId \<and>
     (\<exists>c \<in> set (purchase_credits d). pc_id c = pca_purchase_credit_id a \<and>
        pc_supplier_id c = supplierId \<and> pc_status c \<in> {PC_PARTIAL, PC_APPLIED}) \<and>
     pca_applied_at a < midnight (nextDay asOfDate)"

definition subledger_invoice :: "nat \<Rightarrow> nat \<Rightarrow> int \<Rightarrow> purchase_invoice_row \<Rightarrow> bool" where
  "subledger_invoice companyId supplierId asOfDate pi \<longleftrightarrow> pi_company_id pi = companyId \<and>
     pi_supplier_id pi = supplierId \<and> pi_status pi = PI_POSTED \<and> pi_invoice_date pi \<le> asOfDate"

definition subledger_row_of :: "db \<Rightarrow> nat \<Rightarrow> nat \<Rightarrow> int \<Rightarrow> purchase_invoice_row \<Rightarrow> subledger_row" where
  "subledger_row_of d companyId supplierId asOfDate pi =
     \<lparr>sl_grand_total = db_decimal 4 (pi_grand_total pi), sl_exchange_rate = db_decimal 8 (pi_exchange_rate pi),
      sl_currency_code = pi_currency_code pi, sl_invoice_date = pi_invoice_date pi,
      sl_paid_base = db_decimal 4 (sum_for apl_purchase_invoice_id apl_allocation_amount (pi_id pi)
        (filter (payment_counts_by d companyId supplierId asOfDate) (ap_payment_lines d))),
      sl_credited_base = db_decimal 4 (sum_for pca_purchase_invoice_id pca_applied_amount (pi_id pi)
        (filter (credit_counts_by d companyId supplierId asOfDate) (purchase_credit_applications d)))\<rparr>"

definition subledger_rows :: "db \<Rightarrow> nat \<Rightarrow> nat \<Rightarrow> int \<Rightarrow> subledger_row list" where
  "subledger_rows d companyId supplierId asOfDate =
     map (subledger_row_of d companyId supplierId asOfDate)
       (filter (subledger_invoice companyId supplierId asOfDate) (purchase_invoices d))"

definition add_subledger_row :: "db \<Rightarrow> nat \<Rightarrow> string \<Rightarrow> int \<Rightarrow> subledger_row \<Rightarrow> int sres" where
  "add_subledger_row d companyId statementCurrencyCode acc r =
     bindR (statement_computeBaseAmount (sl_grand_total r) (sl_exchange_rate r)) (\<lambda>baseTotal.
     bindR (statement_decimal (sl_paid_base r) 4) (\<lambda>paidBase.
     bindR (statement_decimal (sl_credited_base r) 4) (\<lambda>creditedBase.
       let openBase = baseTotal - paidBase - creditedBase
       in if openBase = 0 then Inr acc
          else bindR (convertBaseToCurrency d companyId openBase statementCurrencyCode
                   (sl_invoice_date r) (sl_currency_code r) (sl_exchange_rate r)) (\<lambda>v.
                 Inr (acc + v)))))"

definition getSupplierSubledgerBalance :: "db \<Rightarrow> nat \<Rightarrow> nat \<Rightarrow> int \<Rightarrow> string \<Rightarrow> int sres" where
  "getSupplierSubledgerBalance d companyId supplierId asOfDate statementCurrencyCode =
     foldM (add_subledger_row d companyId statementCurrencyCode) 0
       (subledger_rows d companyId supplierId asOfDate)"

section \<open>Reconciling\<close>

record SupplierStatementReconcileResult =
  rc_statementId :: nat
  rc_supplierId :: nat
  rc_statementDate :: int
  rc_statementBalance :: string
  rc_subledgerBalance :: string
  rc_variance :: string
  rc_varianceWithinTolerance :: bool
  rc_tolerance :: string
  rc_currencyCode :: string

definition reconcileSupplierStatement ::
  "nat \<Rightarrow> nat \<Rightarrow> string option \<Rightarrow> statement_db \<Rightarrow> SupplierStatementReconcileResult sres" where
  "reconcileSupplierStatement companyId statementId toleranceParam d =
     (let tolerance = (case toleranceParam of None \<Rightarrow> DEFAULT_VARIANCE_TOLERANCE | Some t \<Rightarrow> t) in
      bindR (from_opt (Statement_not_found statementId) (getSupplierStatement d companyId statementId)) (\<lambda>statement.
      bindR (validateSupplierOwnership (sd_db d) companyId (st_supplierId statement)) (\<lambda>currency.
      bindR (require (st_currencyCode statement = currency)
        (Currency_mismatch (st_currencyCode statement) currency)) (\<lambda>_.
      bindR (validateStatementCurrency (sd_db d) companyId (st_currencyCode statement) (st_statementDate statement)) (\<lambda>_.
      bindR (getSupplierSubledgerBalance (sd_db d) companyId (st_supplierId statement)
        (st_statementDate statement) (st_currencyCode statement)) (\<lambda>subledgerBalance.
      bindR (statement_decimal (st_closingBalance statement) 4) (\<lambda>statementBalance.
      let variance = statementBalance - subledgerBalance in
      bindR (statement_decimal tolerance 4) (\<lambda>toleranceScaled.
      bindR (require (0 < toleranceScaled) (Invalid_tolerance tolerance)) (\<lambda>_.
        let varianceWithinTolerance = (if variance < 0 then - variance \<le> toleranceScaled
              else variance \<le> toleranceScaled)
        in Inr \<lparr>rc_statementId = st_id statement, rc_supplierId = st_supplierId statement,
             rc_statementDate = st_statementDate statement,
             rc_statementBalance = signed_fromScaled4 statementBalance,
             rc_subledgerBalance = signed_fromScaled4 subledgerBalance,
             rc_variance = signed_fromScaled4 variance,
             rc_varianceWithinTolerance = varianceWithinTolerance, rc_tolerance = tolerance,
             rc_currencyCode = st_currencyCode statement\<rparr>)))))))))"

definition reconcile_row :: "nat \<Rightarrow> int \<Rightarrow> supplier_statement_row \<Rightarrow> supplier_statement_row" where
  "reconcile_row userId now r = r\<lparr>ss_status := STATEMENT_RECONCILED, ss_reconciled_at := Some now,
     ss_reconciled_by_user_id := Some userId, ss_updated_at := now\<rparr>"

definition pending_statement :: "nat \<Rightarrow> nat \<Rightarrow> supplier_statement_row \<Rightarrow> bool" where
  "pending_statement companyId statementId r \<longleftrightarrow>
     ss_id r = statementId \<and> ss_company_id r = companyId \<and> ss_status r = STATEMENT_PENDING"

definition markSupplierStatementReconciled ::
  "nat \<Rightarrow> nat \<Rightarrow> nat \<Rightarrow> int \<Rightarrow> statement_db \<Rightarrow> (SupplierStatement \<times> statement_db) sres" where
  "markSupplierStatementReconciled companyId statementId userId now d =
     bindR (from_opt (Statement_not_found statementId) (getSupplierStatement d companyId statementId)) (\<lambda>statement.
     bindR (require (st_status statement \<noteq> STATEMENT_RECONCILED) (Already_reconciled statementId)) (\<lambda>_.
     bindR (validateSupplierOwnership (sd_db d) companyId (st_supplierId statement)) (\<lambda>_.
       let affected = length (filter (pending_statement companyId statementId) (supplier_statements d));
           d' = d\<lparr>supplier_statements := update_where (pending_statement companyId statementId)
                  (reconcile_row userId now) (supplier_statements d)\<rparr>
       in
       bindR (require (affected \<noteq> 0) (Already_reconciled statementId)) (\<lambda>_.
       bindR (from_opt (Statement_failed ''UPDATE_FAILED'') (getSupplierStatement d' companyId statementId)) (\<lambda>updated.
         Inr (updated, d'))))))"

section \<open>Answers of the routes\<close>

text \<open>
  What \<open>routes/purchasing/supplier-statements.ts\<close> answers to each error: the HTTP status and
  the code.  Errors a route does not name are answered with 500.
\<close>

definition error_code :: "statement_error \<Rightarrow> string" where
  "error_code e = (case e of
       Statement_failed code \<Rightarrow> code
     | Statement_not_found _ \<Rightarrow> ''SUPPLIER_STATEMENT_NOT_FOUND''
     | Supplier_not_owned _ _ \<Rightarrow> ''SUPPLIER_STATEMENT_SUPPLIER_NOT_OWNED''
     | Supplier_not_active _ \<Rightarrow> ''SUPPLIER_STATEMENT_SUPPLIER_NOT_ACTIVE''
     | Already_reconciled _ \<Rightarrow> ''SUPPLIER_STATEMENT_ALREADY_RECONCILED''
     | Statement_duplicate _ _ \<Rightarrow> ''SUPPLIER_STATEMENT_DUPLICATE''
     | Currency_mismatch _ _ \<Rightarrow> ''SUPPLIER_STATEMENT_CURRENCY_MISMATCH''
     | Rate_missing _ _ \<Rightarrow> ''SUPPLIER_STATEMENT_EXCHANGE_RATE_MISSING''
     | Invalid_tolerance _ \<Rightarrow> ''SUPPLIER_STATEMENT_INVALID_TOLERANCE''
     | Invalid_decimal _ \<Rightarrow> '''')"

definition internal_error :: "nat \<times> string" where
  "internal_error = (500, ''INTERNAL_SERVER_ERROR'')"

definition answer_to_create :: "statement_error \<Rightarrow> nat \<times> string" where
  "answer_to_create e = (case e of
       Statement_duplicate _ _ \<Rightarrow> (409, error_code e)
     | Supplier_not_owned _ _ \<Rightarrow> (403, error_code e)
     | Supplier_not_active _ \<Rightarrow> (400, error_code e)
     | Currency_mismatch _ _ \<Rightarrow> (400, error_code e)
     | Rate_missing _ _ \<Rightarrow> (400, error_code e)
     | _ \<Rightarrow> internal_error)"

definition answer_to_reconcile :: "statement_error \<Rightarrow> nat \<times> string" where
  "answer_to_reconcile e = (case e of
       Statement_not_found _ \<Rightarrow> (404, ''NOT_FOUND'')
     | Supplier_not_owned _ _ \<Rightarrow> (403, error_code e)
     | Currency_mismatch _ _ \<Rightarrow> (400, error_code e)
     | Rate_missing _ _ \<Rightarrow> (400, error_code e)
     | Invalid_tolerance _ \<Rightarrow> (400, error_code e)
     | _ \<Rightarrow> internal_error)"

definition answer_to_mark :: "statement_error \<Rightarrow> nat \<times> string" where
  "answer_to_mark e = (case e of
       Statement_not_found _ \<Rightarrow> (404, ''NOT_FOUND'')
     | Already_reconciled _ \<Rightarrow> (409, error_code e)
     | Supplier_not_owned _ _ \<Rightarrow> (403, error_code e)
     | Supplier_not_active _ \<Rightarrow> (400, error_code e)
     | _ \<Rightarrow> internal_error)"

end
