(* ===== verification/Statement_Properties.thy ===== *)
theory Statement_Properties
  imports Supplier_Statement
begin

text \<open>
  The balance that statements are compared with, over the ideal amounts; what marking a statement
  needs and does; and what runs of the operations keep of the stored statements.
\<close>

section \<open>Conversions\<close>

lemma statement_db_decimal [simp]: "0 < k \<Longrightarrow> statement_decimal (db_decimal k v) k = Inr v"
  by (simp add: statement_decimal_def)

lemma base_amount [simp]:
  assumes "0 \<le> pi_grand_total pi" and "0 \<le> pi_exchange_rate pi"
  shows "statement_computeBaseAmount (db_decimal 4 (pi_grand_total pi)) (db_decimal 8 (pi_exchange_rate pi)) =
    Inr (base_grand_total pi)"
proof -
  let ?n = "pi_grand_total pi * pi_exchange_rate pi"
  have n: "0 \<le> ?n" using assms by simp
  have "(2 * (?n + 50000000)) div (2 * 100000000) = (?n + 50000000) div 100000000"
    by (rule div_mult_mult1) simp
  then have "sql_round_div ?n 100000000 = (?n + 50000000) div 100000000"
    using n by (simp add: sql_round_div_nonneg distrib_left)
  then show ?thesis
    using assms n by (simp add: statement_computeBaseAmount_def Let_def base_grand_total_def big_div_nonneg)
qed

text \<open>An amount converted to the company's currency at a rate of at least one comes back exactly.\<close>

lemma divide_by_rate_base:
  assumes "0 \<le> g" and "100000000 \<le> r"
  shows "divide_by_rate (sql_round_div (g * r) 100000000) r = g"
proof -
  let ?b = "sql_round_div (g * r) 100000000" and ?h = "r div 2"
  have nn: "0 \<le> g * r" using assms by simp
  from sql_round_div_bounds [OF nn, of 100000000]
  have b: "?b * 100000000 \<le> g * r + 50000000" "g * r - 50000000 < ?b * 100000000" by simp_all
  have b0: "0 \<le> ?b" using nn by (simp add: sql_round_div_pos)
  have "?b * 100000000 + ?h < g * r + r"
  proof (cases "r = 100000000")
    case True
    then show ?thesis using sql_round_div_exact [of 100000000 g] by simp
  next
    case False
    with assms(2) have "50000000 + ?h < r" by linarith
    with b show ?thesis by linarith
  qed
  moreover have "50000000 \<le> ?h" using assms(2) by linarith
  then have "g * r \<le> ?b * 100000000 + ?h" using b(2) by linarith
  ultimately have "(?b * 100000000 + ?h) div r = g"
    using assms(2) by (intro int_div_pos_eq [where r = "?b * 100000000 + ?h - g * r"]) (simp_all add: mult.commute)
  then show ?thesis
    using b0 assms(2) by (simp add: divide_by_rate_def Let_def big_div_nonneg)
qed

section \<open>The balance of the subledger\<close>

text \<open>What was open on an invoice at the end of a day.\<close>

definition paid_by :: "db \<Rightarrow> nat \<Rightarrow> nat \<Rightarrow> int \<Rightarrow> purchase_invoice_row \<Rightarrow> int" where
  "paid_by d c s asOf pi = sum_for apl_purchase_invoice_id apl_allocation_amount (pi_id pi)
     (filter (payment_counts_by d c s asOf) (ap_payment_lines d))"

definition credited_by :: "db \<Rightarrow> nat \<Rightarrow> nat \<Rightarrow> int \<Rightarrow> purchase_invoice_row \<Rightarrow> int" where
  "credited_by d c s asOf pi = sum_for pca_purchase_invoice_id pca_applied_amount (pi_id pi)
     (filter (credit_counts_by d c s asOf) (purchase_credit_applications d))"

definition open_by :: "db \<Rightarrow> nat \<Rightarrow> nat \<Rightarrow> int \<Rightarrow> purchase_invoice_row \<Rightarrow> int" where
  "open_by d c s asOf pi = base_grand_total pi - paid_by d c s asOf pi - credited_by d c s asOf pi"

lemma subledger_row_step:
  assumes "0 \<le> pi_grand_total pi" and "0 \<le> pi_exchange_rate pi"
  shows "add_subledger_row d c cur acc (subledger_row_of d c s asOf pi) =
    (if open_by d c s asOf pi = 0 then Inr acc
     else bindR (convertBaseToCurrency d c (open_by d c s asOf pi) cur (pi_invoice_date pi) (pi_currency_code pi)
       (db_decimal 8 (pi_exchange_rate pi))) (\<lambda>v. Inr (acc + v)))"
  using assms
  by (simp add: add_subledger_row_def subledger_row_of_def open_by_def paid_by_def credited_by_def Let_def)

lemma subledger_loop:
  assumes "\<And>pi acc. pi \<in> set pis \<Longrightarrow>
    add_subledger_row d c cur acc (subledger_row_of d c s asOf pi) = Inr (acc + f pi)"
  shows "foldM (add_subledger_row d c cur) a (map (subledger_row_of d c s asOf) pis) = Inr (a + sum_list (map f pis))"
  using assms by (induction pis arbitrary: a) simp_all

lemma subledger_balance:
  assumes "\<And>pi acc. pi \<in> set (purchase_invoices d) \<Longrightarrow> subledger_invoice c s asOf pi \<Longrightarrow>
    add_subledger_row d c cur acc (subledger_row_of d c s asOf pi) = Inr (acc + f pi)"
  shows "getSupplierSubledgerBalance d c s asOf cur =
    Inr (sum_list (map f (filter (subledger_invoice c s asOf) (purchase_invoices d))))"
  unfolding getSupplierSubledgerBalance_def subledger_rows_def
  using subledger_loop [of "filter (subledger_invoice c s asOf) (purchase_invoices d)" d c cur s asOf f 0] assms
  by simp

lemma filter_sum_for_cong:
  "(\<And>x. x \<in> set xs \<Longrightarrow> key x = k \<Longrightarrow> P x = Q x) \<Longrightarrow>
   sum_for key amt k (filter P xs) = sum_for key amt k (filter Q xs)"
  by (induction xs) auto

text \<open>Nothing that settles the supplier's invoices lies after the date or belongs to another supplier.\<close>

definition settled_by :: "db \<Rightarrow> nat \<Rightarrow> nat \<Rightarrow> int \<Rightarrow> bool" where
  "settled_by d c s asOf \<longleftrightarrow>
     (\<forall>pi \<in> set (purchase_invoices d). subledger_invoice c s asOf pi \<longrightarrow>
       (\<forall>l \<in> set (ap_payment_lines d). apl_purchase_invoice_id l = pi_id pi \<longrightarrow> payment_counts d c l \<longrightarrow>
          payment_counts_by d c s asOf l) \<and>
       (\<forall>a \<in> set (purchase_credit_applications d). pca_purchase_invoice_id a = pi_id pi \<longrightarrow> credit_counts d c a \<longrightarrow>
          credit_counts_by d c s asOf a))"

lemma counts_by_counts:
  "payment_counts_by d c s asOf l \<Longrightarrow> payment_counts d c l"
  "credit_counts_by d c s asOf a \<Longrightarrow> credit_counts d c a"
  by (auto simp: payment_counts_by_def payment_counts_def credit_counts_by_def credit_counts_def)

lemma open_by_settled:
  assumes "settled_by d c s asOf" and "pi \<in> set (purchase_invoices d)" and "subledger_invoice c s asOf pi"
  shows "open_by d c s asOf pi = open_amount d pi"
proof -
  have "pi_company_id pi = c" using assms(3) by (simp add: subledger_invoice_def)
  moreover have "paid_by d c s asOf pi = paid_total d c (pi_id pi)"
    unfolding paid_by_def paid_total_def
    using assms counts_by_counts(1) by (intro filter_sum_for_cong) (auto simp: settled_by_def)
  moreover have "credited_by d c s asOf pi = credited_total d c (pi_id pi)"
    unfolding credited_by_def credited_total_def
    using assms counts_by_counts(2) by (intro filter_sum_for_cong) (auto simp: settled_by_def)
  ultimately show ?thesis by (simp add: open_by_def open_amount_def)
qed

text \<open>Nothing was paid or credited by the date, and every invoice is in one foreign currency.\<close>

definition untouched :: "db \<Rightarrow> nat \<Rightarrow> nat \<Rightarrow> int \<Rightarrow> string \<Rightarrow> bool" where
  "untouched d c s asOf cur \<longleftrightarrow>
     (\<forall>pi \<in> set (purchase_invoices d). subledger_invoice c s asOf pi \<longrightarrow>
       0 \<le> pi_grand_total pi \<and> 100000000 \<le> pi_exchange_rate pi \<and> pi_currency_code pi = cur \<and>
       paid_by d c s asOf pi = 0 \<and> credited_by d c s asOf pi = 0)"

lemma untouched_balance:
  assumes "untouched d c s asOf cur" and "cur \<noteq> ''IDR''" and "cur \<noteq> []"
  shows "getSupplierSubledgerBalance d c s asOf cur =
    Inr (sum_list (map pi_grand_total (filter (subledger_invoice c s asOf) (purchase_invoices d))))"
proof (rule subledger_balance)
  fix pi acc
  assume "pi \<in> set (purchase_invoices d)" "subledger_invoice c s asOf pi"
  with assms(1) have pi: "0 \<le> pi_grand_total pi" "100000000 \<le> pi_exchange_rate pi" "pi_currency_code pi = cur"
    "open_by d c s asOf pi = base_grand_total pi" by (auto simp: untouched_def open_by_def)
  then have returns: "divide_by_rate (base_grand_total pi) (pi_exchange_rate pi) = pi_grand_total pi"
    by (simp add: base_grand_total_def divide_by_rate_base)
  have "db_decimal 8 v \<noteq> []" for v by (simp add: db_decimal_def)
  moreover have "pi_grand_total pi = 0" if "base_grand_total pi = 0"
    using returns that pi(2) by (simp add: divide_by_rate_def Let_def big_div_nonneg)
  ultimately show "add_subledger_row d c cur acc (subledger_row_of d c s asOf pi) = Inr (acc + pi_grand_total pi)"
    using pi assms(2,3) returns by (auto simp: subledger_row_step convertBaseToCurrency_def)
qed

section \<open>Runs of the operations\<close>

text \<open>
  What every run keeps: keys are unique and given in order, a company stores one statement per
  supplier and day, and a statement is either pending or was reconciled by somebody at some time.
\<close>

definition statement_key :: "supplier_statement_row \<Rightarrow> nat \<times> nat \<times> int" where
  "statement_key r = (ss_company_id r, ss_supplier_id r, ss_statement_date r)"

definition statement_ok :: "supplier_statement_row \<Rightarrow> bool" where
  "statement_ok r \<longleftrightarrow>
     (ss_status r = STATEMENT_PENDING \<and> ss_reconciled_at r = None \<and> ss_reconciled_by_user_id r = None) \<or>
     (ss_status r = STATEMENT_RECONCILED \<and> ss_reconciled_at r \<noteq> None \<and> ss_reconciled_by_user_id r \<noteq> None)"

definition statements_ok :: "statement_db \<Rightarrow> bool" where
  "statements_ok d \<longleftrightarrow> distinct (map ss_id (supplier_statements d)) \<and>
     distinct (map statement_key (supplier_statements d)) \<and>
     (\<forall>r \<in> set (supplier_statements d). ss_id r \<le> sd_last_id d \<and> statement_ok r)"

text \<open>The purchasing operations change the other tables at will.\<close>

inductive statement_step :: "statement_db \<Rightarrow> statement_db \<Rightarrow> bool" where
  Create: "createSupplierStatement companyId userId input now d = Inr (s, d') \<Longrightarrow> statement_step d d'"
| Mark: "markSupplierStatementReconciled companyId statementId userId now d = Inr (s, d') \<Longrightarrow> statement_step d d'"
| Purchasing: "statement_step d (d\<lparr>sd_db := db'\<rparr>)"

inductive_cases statement_stepE: "statement_step d d'"

text \<open>The row that creating a statement adds.\<close>

definition new_statement_row :: "nat \<Rightarrow> nat \<Rightarrow> SupplierStatementCreateInput \<Rightarrow> int \<Rightarrow> nat \<Rightarrow> int \<Rightarrow> supplier_statement_row" where
  "new_statement_row companyId userId input now i balance =
     \<lparr>ss_id = i, ss_company_id = companyId, ss_supplier_id = is_supplierId input,
      ss_statement_date = is_statementDate input, ss_closing_balance = balance,
      ss_currency_code = is_currencyCode input, ss_status = STATEMENT_PENDING,
      ss_reconciled_at = None, ss_reconciled_by_user_id = None,
      ss_created_by_user_id = Some userId, ss_created_at = now, ss_updated_at = now\<rparr>"

lemma create_statement_effect:
  assumes "statements_ok d" and "createSupplierStatement c u input now d = Inr (st, d')"
  obtains balance where "statement_decimal (is_closingBalance input) 4 = Inr balance"
    and "validateStatementCurrency (sd_db d) c (is_currencyCode input) (is_statementDate input) = Inr ()"
    and "validateSupplierOwnership (sd_db d) c (is_supplierId input) = Inr (is_currencyCode input)"
    and "\<forall>r \<in> set (supplier_statements d). \<not> same_statement_key c (is_supplierId input) (is_statementDate input) r"
    and "d' = d\<lparr>supplier_statements := supplier_statements d @
          [new_statement_row c u input now (Suc (sd_last_id d)) balance], sd_last_id := Suc (sd_last_id d)\<rparr>"
    and "st = mapRowToStatement (new_statement_row c u input now (Suc (sd_last_id d)) balance)"
proof -
  let ?i = "Suc (sd_last_id d)"
  have "\<forall>r \<in> set (supplier_statements d). ss_id r \<noteq> ?i" using assms(1) by (auto simp: statements_ok_def)
  then have none: "find (\<lambda>r. ss_id r = ?i) (supplier_statements d) = None" by (simp add: find_None_iff_all)
  from assms(2) none show thesis
    by (auto simp: createSupplierStatement_def inr_simps Let_def find_append new_statement_row_def intro: that)
qed

lemma mark_statement_effect:
  assumes "markSupplierStatementReconciled c i u now d = Inr (st, d')"
  obtains r where "find_statement d c i = Some r" and "ss_status r \<noteq> STATEMENT_RECONCILED"
    and "d' = d\<lparr>supplier_statements :=
          update_where (pending_statement c i) (reconcile_row u now) (supplier_statements d)\<rparr>"
  using assms
  by (auto simp: markSupplierStatementReconciled_def getSupplierStatement_def mapRowToStatement_def inr_simps Let_def)

lemma reconcile_row_simps [simp]:
  "ss_id (reconcile_row u now r) = ss_id r" "ss_company_id (reconcile_row u now r) = ss_company_id r"
  "ss_supplier_id (reconcile_row u now r) = ss_supplier_id r"
  "ss_statement_date (reconcile_row u now r) = ss_statement_date r"
  "statement_key (reconcile_row u now r) = statement_key r" "statement_ok (reconcile_row u now r)"
  "ss_status (reconcile_row u now r) = STATEMENT_RECONCILED"
  "ss_closing_balance (reconcile_row u now r) = ss_closing_balance r"
  "ss_currency_code (reconcile_row u now r) = ss_currency_code r"
  "ss_created_at (reconcile_row u now r) = ss_created_at r"
  "ss_created_by_user_id (reconcile_row u now r) = ss_created_by_user_id r"
  by (simp_all add: reconcile_row_def statement_key_def statement_ok_def)

lemma statements_ok_update:
  assumes "statements_ok d"
  shows "statements_ok (d\<lparr>supplier_statements := update_where P (reconcile_row u now) (supplier_statements d)\<rparr>)"
  using assms
  by (auto simp: statements_ok_def update_where_map_id set_update_where)

text \<open>How a stored statement may go on: what the supplier sent stays, a reconciled one stays whole.\<close>

definition later_statement :: "supplier_statement_row \<Rightarrow> supplier_statement_row \<Rightarrow> bool" where
  "later_statement r r' \<longleftrightarrow> ss_id r' = ss_id r \<and> statement_key r' = statement_key r \<and>
     ss_closing_balance r' = ss_closing_balance r \<and> ss_currency_code r' = ss_currency_code r \<and>
     ss_created_at r' = ss_created_at r \<and> ss_created_by_user_id r' = ss_created_by_user_id r \<and>
     (ss_status r = STATEMENT_RECONCILED \<longrightarrow> r' = r)"

lemma later_statement_refl [simp]: "later_statement r r"
  by (simp add: later_statement_def)

lemma later_statement_trans: "later_statement r q \<Longrightarrow> later_statement q s \<Longrightarrow> later_statement r s"
  by (auto simp: later_statement_def)

definition goes_on_statements :: "statement_db \<Rightarrow> statement_db \<Rightarrow> bool" where
  "goes_on_statements d d' \<longleftrightarrow>
     (\<forall>r \<in> set (supplier_statements d). \<exists>r' \<in> set (supplier_statements d'). later_statement r r')"

lemma goes_on_statements_refl [simp]: "goes_on_statements d d"
  unfolding goes_on_statements_def by (blast intro: later_statement_refl)

lemma statement_step_ok:
  assumes "statement_step d d'" and ok: "statements_ok d"
  shows "statements_ok d' \<and> goes_on_statements d d'"
  using assms(1)
proof cases
  case (Create companyId userId input now s)
  from create_statement_effect [OF ok this] obtain balance where
    fresh: "\<forall>r \<in> set (supplier_statements d). \<not> same_statement_key companyId (is_supplierId input) (is_statementDate input) r"
    and d': "d' = d\<lparr>supplier_statements := supplier_statements d @
          [new_statement_row companyId userId input now (Suc (sd_last_id d)) balance], sd_last_id := Suc (sd_last_id d)\<rparr>"
    by metis
  have "\<forall>r \<in> set (supplier_statements d). ss_id r \<noteq> Suc (sd_last_id d)" using ok by (auto simp: statements_ok_def)
  with ok fresh have "statements_ok d'"
    by (auto simp: d' statements_ok_def new_statement_row_def statement_key_def statement_ok_def same_statement_key_def)
  then show ?thesis using goes_on_statements_refl [of d, unfolded goes_on_statements_def] by (auto simp: d' goes_on_statements_def)
next
  case (Mark companyId statementId userId now s)
  then show ?thesis
  proof (rule mark_statement_effect)
    assume d': "d' = d\<lparr>supplier_statements :=
      update_where (pending_statement companyId statementId) (reconcile_row userId now) (supplier_statements d)\<rparr>"
    have "later_statement r (if pending_statement companyId statementId r then reconcile_row userId now r else r)" for r
      by (simp add: later_statement_def pending_statement_def)
    then have "goes_on_statements d d'"
      unfolding goes_on_statements_def d' by (intro ballI bexI) (assumption, simp add: update_where_def)
    with ok show ?thesis by (simp add: d' statements_ok_update)
  qed
next
  case (Purchasing db')
  with ok goes_on_statements_refl [of d, unfolded goes_on_statements_def] show ?thesis
    by (simp add: statements_ok_def goes_on_statements_def)
qed

lemma goes_on_statements_trans:
  "goes_on_statements d q \<Longrightarrow> goes_on_statements q d' \<Longrightarrow> goes_on_statements d d'"
  unfolding goes_on_statements_def by (meson later_statement_trans)

lemma statement_steps_ok:
  assumes "statement_step\<^sup>*\<^sup>* d d'" and "statements_ok d"
  shows "statements_ok d' \<and> goes_on_statements d d'"
  using assms
proof (induction rule: rtranclp_induct)
  case base
  then show ?case by simp
next
  case (step q d')
  then show ?case using statement_step_ok goes_on_statements_trans by blast
qed

lemma find_reconciled:
  assumes "find_statement d c i = Some r"
  shows "find_statement (d\<lparr>supplier_statements := update_where (pending_statement c i) (reconcile_row u now)
      (supplier_statements d)\<rparr>) c j =
    map_option (\<lambda>r. if pending_statement c i r then reconcile_row u now r else r) (find_statement d c j)"
  unfolding find_statement_def by (simp add: find_update_where)

lemma mark_pending:
  fixes u :: nat and now :: int
  assumes "find_statement d c i = Some r" and "ss_status r = STATEMENT_PENDING"
    and "validateSupplierOwnership (sd_db d) c (ss_supplier_id r) = Inr cur"
  defines "d' \<equiv> d\<lparr>supplier_statements := update_where (pending_statement c i) (reconcile_row u now) (supplier_statements d)\<rparr>"
  shows "markSupplierStatementReconciled c i u now d = Inr (mapRowToStatement (reconcile_row u now r), d')"
    and "find_statement d' c i = Some (reconcile_row u now r)"
proof -
  have r: "r \<in> set (supplier_statements d)" "pending_statement c i r"
    using find_SomeD [OF assms(1) [unfolded find_statement_def]] assms(2) by (auto simp: pending_statement_def)
  then have some: "filter (pending_statement c i) (supplier_statements d) \<noteq> []" by (auto simp: filter_empty_conv)
  show found: "find_statement d' c i = Some (reconcile_row u now r)"
    using find_reconciled [OF assms(1), of u now i] assms(1) r(2) by (simp add: d'_def)
  then show "markSupplierStatementReconciled c i u now d = Inr (mapRowToStatement (reconcile_row u now r), d')"
    using assms(1-3) some
    by (simp add: markSupplierStatementReconciled_def getSupplierStatement_def mapRowToStatement_def Let_def d'_def)
qed

section \<open>A sample\<close>

text \<open>
  Supplier 2 invoices in dollars: 1234.5678 and 10.0001, posted at 16000 and 15912.345.  A third
  invoice lies after the day of the statements (20600).
\<close>

definition dollar_supplier :: supplier_row where
  "dollar_supplier = sample_supplier\<lparr>sup_id := 2, sup_code := ''S-2'', sup_currency := ''USD''\<rparr>"

definition dollar_invoice :: "nat \<Rightarrow> int \<Rightarrow> int \<Rightarrow> int \<Rightarrow> purchase_invoice_row" where
  "dollar_invoice i date amount rate = (sample_invoice i 2 amount (Some i))
     \<lparr>pi_supplier_id := 2, pi_currency_code := ''USD'', pi_invoice_date := date, pi_exchange_rate := rate\<rparr>"

definition dollar_db :: db where
  "dollar_db = sample_db\<lparr>suppliers := [sample_supplier, dollar_supplier],
     exchange_rates := [sample_rate 1 20500 1600000000000],
     purchase_invoices := [sample_invoice 1 2 1000000 (Some 1), dollar_invoice 2 20574 12345678 1600000000000,
       dollar_invoice 3 20590 100001 1591234500000, dollar_invoice 4 20610 50000 1600000000000]\<rparr>"

definition no_statements :: "db \<Rightarrow> statement_db" where
  "no_statements d = \<lparr>sd_db = d, supplier_statements = [], sd_last_id = 0\<rparr>"

definition dollar_request :: "string \<Rightarrow> SupplierStatementCreateInput" where
  "dollar_request balance = \<lparr>is_supplierId = 2, is_statementDate = 20600, is_closingBalance = balance,
     is_currencyCode = ''USD''\<rparr>"

definition statement_run :: "(SupplierStatement \<times> statement_db) sres \<Rightarrow> statement_db" where
  "statement_run m = (case m of Inr (_, d) \<Rightarrow> d | Inl _ \<Rightarrow> no_statements empty_db)"

lemma statement_run_Inr:
  "(case m of Inr _ \<Rightarrow> True | Inl _ \<Rightarrow> False) \<Longrightarrow> \<exists>s. m = Inr (s, statement_run m)"
  by (auto simp: statement_run_def split: sum.splits)

lemma no_statements_ok [simp]: "statements_ok (no_statements d)"
  by (simp add: statements_ok_def no_statements_def)

section \<open>Properties\<close>

text \<open>
  C14: In the company's currency the balance a statement is compared with is the sum of what is open
  on the supplier's posted invoices, invoice by invoice the amount that payments and credits are
  checked against, when nothing was settled after the day and nothing through another supplier.
\<close>

theorem subledger_is_open_total:
  assumes "amounts_nonneg d" and "settled_by d c s asOf"
  shows "getSupplierSubledgerBalance d c s asOf ''IDR'' =
    Inr (sum_list (map (open_amount d) (filter (subledger_invoice c s asOf) (purchase_invoices d))))"
proof (rule subledger_balance)
  fix pi acc
  assume pi: "pi \<in> set (purchase_invoices d)" "subledger_invoice c s asOf pi"
  with assms(1) have "0 \<le> pi_grand_total pi" "0 \<le> pi_exchange_rate pi" by (auto simp: amounts_nonneg_def)
  then show "add_subledger_row d c ''IDR'' acc (subledger_row_of d c s asOf pi) = Inr (acc + open_amount d pi)"
    using open_by_settled [OF assms(2) pi] by (simp add: subledger_row_step convertBaseToCurrency_def)
qed


theorem subledger_is_open_total_witness:
  "getSupplierSubledgerBalance sample_db 1 1 20600 ''IDR'' = Inr 1000000"
proof -
  have "amounts_nonneg sample_db" and "settled_by sample_db 1 1 20600" by code_simp+
  from subledger_is_open_total [OF this]
  have "getSupplierSubledgerBalance sample_db 1 1 20600 ''IDR'' = Inr (sum_list (map (open_amount sample_db)
      (filter (subledger_invoice 1 1 20600) (purchase_invoices sample_db))))" .
  also have "sum_list (map (open_amount sample_db) (filter (subledger_invoice 1 1 20600) (purchase_invoices sample_db))) = 1000000"
    by code_simp
  finally show ?thesis .
qed

text \<open>
  C15: A supplier that sends in a foreign currency exactly the total of its invoices up to the day,
  none of them touched by payments or credits and all at rates of at least one, gets a statement
  that reconciles with variance zero: the rounding into the company's currency is undone exactly.
\<close>

theorem matching_statement_reconciles:
  assumes "statements_ok d" and "createSupplierStatement c u input now d = Inr (st, d')"
    and "is_currencyCode input \<noteq> ''IDR''" and "is_currencyCode input \<noteq> []"
    and "untouched (sd_db d) c (is_supplierId input) (is_statementDate input) (is_currencyCode input)"
    and "statement_decimal (is_closingBalance input) 4 = Inr (sum_list (map pi_grand_total
      (filter (subledger_invoice c (is_supplierId input) (is_statementDate input)) (purchase_invoices (sd_db d)))))"
  shows "\<exists>r. reconcileSupplierStatement c (st_id st) None d' = Inr r \<and>
    rc_statementBalance r = st_closingBalance st \<and> rc_subledgerBalance r = st_closingBalance st \<and>
    rc_variance r = ''0.0000'' \<and> rc_varianceWithinTolerance r"
proof -
  let ?T = "sum_list (map pi_grand_total
      (filter (subledger_invoice c (is_supplierId input) (is_statementDate input)) (purchase_invoices (sd_db d))))"
  let ?row = "new_statement_row c u input now (Suc (sd_last_id d)) ?T"
  from create_statement_effect [OF assms(1,2)] assms(6) have
    currency: "validateStatementCurrency (sd_db d) c (is_currencyCode input) (is_statementDate input) = Inr ()" and
    owner: "validateSupplierOwnership (sd_db d) c (is_supplierId input) = Inr (is_currencyCode input)" and
    d': "d' = d\<lparr>supplier_statements := supplier_statements d @ [?row], sd_last_id := Suc (sd_last_id d)\<rparr>" and
    st: "st = mapRowToStatement ?row"
    by (metis sum.inject(2))+
  have "find (\<lambda>r. ss_id r = Suc (sd_last_id d) \<and> ss_company_id r = c) (supplier_statements d) = None"
    using assms(1) by (auto simp: find_None_iff_all statements_ok_def)
  then have found: "getSupplierStatement d' c (st_id st) = Some st"
    by (simp add: getSupplierStatement_def find_statement_def d' find_append st mapRowToStatement_def new_statement_row_def)
  have fields: "st_supplierId st = is_supplierId input" "st_statementDate st = is_statementDate input"
    "st_currencyCode st = is_currencyCode input" "st_closingBalance st = db_decimal 4 ?T" "sd_db d' = sd_db d"
    by (simp_all add: st mapRowToStatement_def new_statement_row_def d')
  have tolerance: "statement_decimal DEFAULT_VARIANCE_TOLERANCE 4 = Inr 10000" by code_simp
  have zero: "signed_fromScaled4 0 = ''0.0000''" by code_simp
  show ?thesis
    using currency owner untouched_balance [OF assms(5,3,4)] zero
    by (simp add: reconcileSupplierStatement_def found fields tolerance Let_def signed_fromScaled4_def signed_fromScaled_db)
qed

theorem matching_statement_reconciles_witness:
  "\<exists>st d' r. createSupplierStatement 1 7 (dollar_request ''1244.5679'') 0 (no_statements dollar_db) = Inr (st, d') \<and>
    reconcileSupplierStatement 1 (st_id st) None d' = Inr r \<and> rc_variance r = ''0.0000''"
proof -
  let ?m = "createSupplierStatement 1 7 (dollar_request ''1244.5679'') 0 (no_statements dollar_db)"
  have "case ?m of Inr _ \<Rightarrow> True | Inl _ \<Rightarrow> False" by code_simp
  from statement_run_Inr [OF this] obtain st d' where m: "?m = Inr (st, d')" by blast
  have "untouched dollar_db 1 2 20600 ''USD''" by code_simp
  moreover have "statement_decimal ''1244.5679'' 4 = Inr (sum_list (map pi_grand_total
      (filter (subledger_invoice 1 2 20600) (purchase_invoices dollar_db))))" by code_simp
  ultimately show ?thesis
    using matching_statement_reconciles [OF no_statements_ok m] m
    by (auto simp: dollar_request_def no_statements_def)
qed

text \<open>
  C21: A pending statement of an active supplier can be marked, whatever it compares to: the
  statement is then reconciled by that user at that time, with the balance it had, no other
  statement and no other table changes, and a second request is refused.
\<close>

theorem pending_statement_marked:
  assumes "find_statement d c i = Some r" and "ss_status r = STATEMENT_PENDING"
    and "validateSupplierOwnership (sd_db d) c (ss_supplier_id r) = Inr cur"
  shows "\<exists>d'. markSupplierStatementReconciled c i u now d = Inr (mapRowToStatement (reconcile_row u now r), d') \<and>
    sd_db d' = sd_db d \<and> find_statement d' c i = Some (reconcile_row u now r) \<and>
    (\<forall>j. j \<noteq> i \<longrightarrow> find_statement d' c j = find_statement d c j) \<and>
    (\<forall>u' now'. markSupplierStatementReconciled c i u' now' d' = Inl (Already_reconciled i))"
proof -
  let ?d' = "d\<lparr>supplier_statements := update_where (pending_statement c i) (reconcile_row u now) (supplier_statements d)\<rparr>"
  note marked = mark_pending [OF assms, of u now]
  have "find_statement ?d' c j = find_statement d c j" if "j \<noteq> i" for j
  proof -
    have "\<not> pending_statement c i q" if "find_statement d c j = Some q" for q
      using find_SomeD [OF that [unfolded find_statement_def]] \<open>j \<noteq> i\<close> by (auto simp: pending_statement_def)
    then show ?thesis
      using find_reconciled [OF assms(1), of u now j] by (cases "find_statement d c j") auto
  qed
  moreover have "markSupplierStatementReconciled c i u' now' ?d' = Inl (Already_reconciled i)" for u' now'
    using marked(2) by (simp add: markSupplierStatementReconciled_def getSupplierStatement_def mapRowToStatement_def)
  ultimately show ?thesis using marked by (intro exI [of _ ?d']) simp
qed

text \<open>A statement that is 244.5679 short is outside the tolerance, and is marked all the same.\<close>

theorem pending_statement_marked_witness:
  "\<exists>d r st d'. reconcileSupplierStatement 1 1 None d = Inr r \<and> rc_variance r = ''-244.5679'' \<and>
    \<not> rc_varianceWithinTolerance r \<and> markSupplierStatementReconciled 1 1 7 9 d = Inr (st, d') \<and>
    markSupplierStatementReconciled 1 1 7 10 d' = Inl (Already_reconciled 1)"
proof -
  let ?d = "statement_run (createSupplierStatement 1 7 (dollar_request ''1000'') 0 (no_statements dollar_db))"
  let ?r = "new_statement_row 1 7 (dollar_request ''1000'') 0 1 10000000"
  have "case reconcileSupplierStatement 1 1 None ?d of Inr r \<Rightarrow> rc_variance r = ''-244.5679'' \<and>
      \<not> rc_varianceWithinTolerance r | Inl _ \<Rightarrow> False" by code_simp
  then obtain r where "reconcileSupplierStatement 1 1 None ?d = Inr r" "rc_variance r = ''-244.5679''"
    "\<not> rc_varianceWithinTolerance r" by (cases "reconcileSupplierStatement 1 1 None ?d") auto
  moreover have "find_statement ?d 1 1 = Some ?r" and "ss_status ?r = STATEMENT_PENDING"
    and "validateSupplierOwnership (sd_db ?d) 1 (ss_supplier_id ?r) = Inr ''USD''" by code_simp+
  note pending_statement_marked [OF this, of 7 9]
  ultimately show ?thesis by blast
qed

text \<open>
  Over every run of the operations, with the purchasing tables changing in between, a company
  keeps one statement per supplier and day, no statement is lost or altered in what the supplier
  sent, and one that was reconciled stays exactly as it is.
\<close>

theorem statements_kept:
  assumes "statement_step\<^sup>*\<^sup>* d d'" and "statements_ok d"
  shows "distinct (map statement_key (supplier_statements d')) \<and>
    (\<forall>r \<in> set (supplier_statements d). \<exists>r' \<in> set (supplier_statements d'). later_statement r r' \<and> statement_ok r' \<and>
      (ss_status r = STATEMENT_RECONCILED \<longrightarrow> r' = r))"
proof -
  have ok: "statements_ok d'" and on: "goes_on_statements d d'" using statement_steps_ok [OF assms] by simp_all
  have "\<exists>r' \<in> set (supplier_statements d'). later_statement r r' \<and> statement_ok r' \<and>
      (ss_status r = STATEMENT_RECONCILED \<longrightarrow> r' = r)" if r: "r \<in> set (supplier_statements d)" for r
  proof -
    from on r obtain r' where r': "r' \<in> set (supplier_statements d')" "later_statement r r'"
      unfolding goes_on_statements_def by blast
    from r'(1) ok have "statement_ok r'" by (simp add: statements_ok_def)
    moreover have "ss_status r = STATEMENT_RECONCILED \<longrightarrow> r' = r" using r'(2) unfolding later_statement_def by blast
    ultimately show ?thesis using r' by blast
  qed
  with ok show ?thesis by (simp add: statements_ok_def)
qed

theorem statements_kept_witness:
  "\<exists>d'. statement_step\<^sup>*\<^sup>* (no_statements dollar_db) d' \<and> map ss_status (supplier_statements d') = [STATEMENT_RECONCILED] \<and>
    distinct (map statement_key (supplier_statements d'))"
proof -
  let ?m = "createSupplierStatement 1 7 (dollar_request ''1000'') 0 (no_statements dollar_db)"
  let ?d = "statement_run ?m"
  let ?r = "new_statement_row 1 7 (dollar_request ''1000'') 0 1 10000000"
  let ?d' = "?d\<lparr>supplier_statements := update_where (pending_statement 1 1) (reconcile_row 7 9) (supplier_statements ?d)\<rparr>"
  have "case ?m of Inr _ \<Rightarrow> True | Inl _ \<Rightarrow> False" by code_simp
  from statement_run_Inr [OF this] have "statement_step (no_statements dollar_db) ?d"
    by (blast intro: statement_step.intros)
  moreover have "find_statement ?d 1 1 = Some ?r" and "ss_status ?r = STATEMENT_PENDING"
    and "validateSupplierOwnership (sd_db ?d) 1 (ss_supplier_id ?r) = Inr ''USD''" by code_simp+
  note mark_pending(1) [OF this, of 7 9]
  then have "statement_step ?d ?d'" by (rule statement_step.intros)
  ultimately have run: "statement_step\<^sup>*\<^sup>* (no_statements dollar_db) ?d'"
    by (rule converse_rtranclp_into_rtranclp [OF _ r_into_rtranclp])
  have "supplier_statements ?d = [?r]" by code_simp
  then have status: "map ss_status (supplier_statements ?d') = [STATEMENT_RECONCILED]"
    by (simp add: pending_statement_def new_statement_row_def)
  from statements_kept [OF run no_statements_ok]
  have "distinct (map statement_key (supplier_statements ?d'))" by (rule conjunct1)
  with run status show ?thesis by (intro exI [of _ ?d'] conjI)
qed

text \<open>
  When the supplier of a stored statement has been deactivated, comparing it fails with the
  same error as marking it, but only the marking route knows it: the comparing route answers with
  an internal error.
\<close>

theorem inactive_supplier_answers:
  assumes "find_statement d c i = Some r" and "ss_status r = STATEMENT_PENDING"
    and "find (\<lambda>s. sup_id s = ss_supplier_id r) (suppliers (sd_db d)) = Some supp"
    and "sup_company_id supp = c" and "sup_is_active supp \<noteq> 1"
  shows "reconcileSupplierStatement c i tol d = Inl (Supplier_not_active (ss_supplier_id r)) \<and>
    markSupplierStatementReconciled c i u now d = Inl (Supplier_not_active (ss_supplier_id r)) \<and>
    answer_to_reconcile (Supplier_not_active (ss_supplier_id r)) = (500, ''INTERNAL_SERVER_ERROR'') \<and>
    answer_to_mark (Supplier_not_active (ss_supplier_id r)) = (400, ''SUPPLIER_STATEMENT_SUPPLIER_NOT_ACTIVE'')"
  using assms
  by (simp add: reconcileSupplierStatement_def markSupplierStatementReconciled_def getSupplierStatement_def
      mapRowToStatement_def validateSupplierOwnership_def answer_to_reconcile_def answer_to_mark_def
      internal_error_def error_code_def Let_def)

theorem inactive_supplier_answers_witness:
  "\<exists>d e. reconcileSupplierStatement 1 1 None d = Inl e \<and> fst (answer_to_reconcile e) = 500 \<and>
    markSupplierStatementReconciled 1 1 7 9 d = Inl e \<and> fst (answer_to_mark e) = 400"
proof -
  let ?sup = "dollar_supplier\<lparr>sup_is_active := 0\<rparr>"
  let ?d = "statement_run (createSupplierStatement 1 7 (dollar_request ''1000'') 0 (no_statements dollar_db))
    \<lparr>sd_db := dollar_db\<lparr>suppliers := [sample_supplier, ?sup]\<rparr>\<rparr>"
  let ?r = "new_statement_row 1 7 (dollar_request ''1000'') 0 1 10000000"
  have "find_statement ?d 1 1 = Some ?r" and "ss_status ?r = STATEMENT_PENDING"
    and "find (\<lambda>s. sup_id s = ss_supplier_id ?r) (suppliers (sd_db ?d)) = Some ?sup"
    and "sup_company_id ?sup = 1" and "sup_is_active ?sup \<noteq> 1" by code_simp+
  from inactive_supplier_answers [OF this, of None 7 9] show ?thesis
    by (intro exI [of _ ?d] exI [of _ "Supplier_not_active (ss_supplier_id ?r)"]) simp
qed

end
