(* ===== verification/Control_Account.thy ===== *)
theory Control_Account
  imports Settlement
begin

text \<open>
  The invoices of a company against its payables account: what every operation adds to the sum of
  the open amounts (\<open>owed\<close>, at four decimals) and to the account (\<open>control\<close>, in cents).
  Every run keeps their difference (\<open>gap\<close>), and that the batch of every posted document is worth
  what the document settles or owes (\<open>ledger_kept\<close>), so a void, which reverses the batch, takes
  back as much.
\<close>

definition control :: "db \<Rightarrow> nat \<Rightarrow> nat \<Rightarrow> int" where
  "control d c a = sum_list (map (\<lambda>l. jl_credit l - jl_debit l)
     (filter (\<lambda>l. jl_company_id l = c \<and> jl_account_id l = a) (journal_lines d)))"

definition posted_of :: "nat \<Rightarrow> purchase_invoice_row \<Rightarrow> bool" where
  "posted_of c pi \<longleftrightarrow> pi_company_id pi = c \<and> pi_status pi = PI_POSTED"

definition owed :: "db \<Rightarrow> nat \<Rightarrow> int" where
  "owed d c = sum_list (map (open_amount d) (filter (posted_of c) (purchase_invoices d)))"

section \<open>The account\<close>

lemma control_rows:
  "sum_list (map (\<lambda>l. jl_credit l - jl_debit l)
     (filter (\<lambda>l. jl_company_id l = c \<and> jl_account_id l = a) (journal_rows b c' date now k es))) =
   (if c' = c then - account_net a es else 0)"
proof (cases "c' = c")
  case True
  then show ?thesis by (induction es arbitrary: k) (simp_all add: journal_row_def account_net_def)
next
  case False
  then show ?thesis by (induction es arbitrary: k) (simp_all add: journal_row_def)
qed

lemma control_cong: "journal_lines d' = journal_lines d \<Longrightarrow> control d' c a = control d c a"
  by (simp add: control_def)

lemma whole_cents: "100 dvd v \<Longrightarrow> 100 * sql_round_div v 100 = v"
  using sql_round_div_exact [of 100 "v div 100"] by simp

section \<open>The sum of the open amounts\<close>

lemma sum_over_keys:
  fixes amt :: "'x \<Rightarrow> int"
  assumes "distinct (map f hs)" and "\<forall>x \<in> set xs. key x \<in> f ` set hs"
  shows "sum_list (map (\<lambda>h. sum_for key amt (f h) xs) hs) = sum_list (map amt xs)"
  using assms(2)
proof (induction xs)
  case (Cons x xs)
  then obtain h where h: "h \<in> set hs" "f h = key x" by auto
  have one: "sum_list (map (\<lambda>h. if key x = f h then amt x else 0) gs) = (if key x \<in> f ` set gs then amt x else 0)"
    if "distinct (map f gs)" for gs using that by (induction gs) auto
  have "sum_list (map (\<lambda>h. sum_for key amt (f h) (x # xs)) hs) =
      sum_list (map (\<lambda>h. (if key x = f h then amt x else 0) + sum_for key amt (f h) xs) hs)"
    by (intro arg_cong [where f = sum_list] map_cong) auto
  also have "\<dots> = amt x + sum_list (map amt xs)"
    using one [OF assms(1)] Cons by (simp add: sum_list_addf)
  finally show ?case by simp
qed simp

lemma owed_settled:
  assumes "purchase_invoices d' = purchase_invoices d" and "distinct (map pi_id (purchase_invoices d))"
    and opens: "\<And>pi. open_amount d' pi = open_amount d pi - (if pi_company_id pi = c then sum_for key amt (pi_id pi) xs else 0)"
    and named: "\<forall>x \<in> set xs. \<exists>pi \<in> set (purchase_invoices d). pi_id pi = key x \<and> posted_of c pi"
  shows "owed d' c' = owed d c' - (if c' = c then sum_list (map amt xs) else 0)"
proof -
  let ?hs = "filter (posted_of c') (purchase_invoices d)"
  have "owed d' c' = sum_list (map (\<lambda>h. open_amount d h - (if c' = c then sum_for key amt (pi_id h) xs else 0)) ?hs)"
    unfolding owed_def assms(1) by (intro arg_cong [where f = sum_list] map_cong) (auto simp: opens posted_of_def)
  also have "\<dots> = owed d c' - (if c' = c then sum_list (map (\<lambda>h. sum_for key amt (pi_id h) xs) ?hs) else 0)"
    by (simp add: owed_def sum_list_subtractf)
  finally have owed: "owed d' c' = owed d c' - (if c' = c then sum_list (map (\<lambda>h. sum_for key amt (pi_id h) xs) ?hs) else 0)" .
  have "sum_list (map (\<lambda>h. sum_for key amt (pi_id h) xs) ?hs) = sum_list (map amt xs)" if "c' = c"
  proof (rule sum_over_keys)
    show "distinct (map pi_id ?hs)" using assms(2) by (rule distinct_map_filter)
    show "\<forall>x \<in> set xs. key x \<in> pi_id ` set ?hs" using named that by (fastforce simp: image_iff)
  qed
  with owed show ?thesis by auto
qed

lemma owed_drafts:
  assumes "\<And>pi. open_amount d' pi = open_amount d pi"
    and "\<exists>hs. purchase_invoices d' = purchase_invoices d @ hs \<and> (\<forall>h \<in> set hs. pi_status h \<noteq> PI_POSTED)"
  shows "owed d' c = owed d c"
proof -
  from assms(2) obtain hs where "purchase_invoices d' = purchase_invoices d @ hs" "\<forall>h \<in> set hs. pi_status h \<noteq> PI_POSTED"
    by blast
  moreover from this(2) have "filter (posted_of c) hs = []" by (auto simp: filter_empty_conv posted_of_def)
  ultimately show ?thesis by (simp add: owed_def assms(1) [abs_def])
qed

definition gap :: "db \<Rightarrow> nat \<Rightarrow> nat \<Rightarrow> int" where
  "gap d c a = owed d c - 100 * control d c a"

section \<open>Batches\<close>

text \<open>One batch of the company with the entries \<open>es\<close> is all that was added to the ledger.\<close>

definition booked :: "nat \<Rightarrow> ledger_entry list \<Rightarrow> db \<Rightarrow> db \<Rightarrow> bool" where
  "booked c es d d' \<longleftrightarrow> auto_inc d' T_journal_batch = next_id d T_journal_batch \<and>
     (\<exists>date now k. journal_lines d' = journal_lines d @ journal_rows (next_id d T_journal_batch) c date now k es)"

lemma booked_posted:
  assumes "journal_lines d' = journal_lines (posted_db c t i date now es d)"
    and "auto_inc d' T_journal_batch = auto_inc (posted_db c t i date now es d) T_journal_batch"
  shows "booked c es d d'"
  using assms by (auto simp: booked_def posted_db_def next_id_def)

lemma booked_control:
  "booked c' es d d' \<Longrightarrow> control d' c a = control d c a - (if c' = c then account_net a es else 0)"
  by (auto simp: booked_def control_def control_rows)

text \<open>What a document's batch adds to an account, in hundredths of cents.\<close>

definition worth :: "db \<Rightarrow> nat \<Rightarrow> nat \<Rightarrow> nat option \<Rightarrow> int \<Rightarrow> bool" where
  "worth d c a bo v \<longleftrightarrow> (case bo of
     None \<Rightarrow> False
   | Some b \<Rightarrow> b \<le> auto_inc d T_journal_batch \<and> 100 * account_net a (batch_entries d c b) = v)"

lemma booked_batch_entries:
  assumes "booked c' es d d'"
  shows "batch_entries d' c b = batch_entries d c b @ (if b = next_id d T_journal_batch \<and> c' = c then es else [])"
  using assms by (auto simp: booked_def batch_entries_def filter_journal_rows entries_journal_rows)

lemma booked_wf: "booked c' es d d' \<Longrightarrow> wf_ledger d \<Longrightarrow> wf_ledger d'"
  by (fastforce simp: booked_def wf_ledger_def next_id_def dest: set_journal_rows)

lemma worth_booked: "booked c' es d d' \<Longrightarrow> worth d c a bo v \<Longrightarrow> worth d' c a bo v"
  by (auto simp: worth_def booked_batch_entries next_id_def split: option.splits) (simp add: booked_def next_id_def)

lemma worth_new:
  assumes "booked c es d d'" and "wf_ledger d" and "100 * account_net a es = v"
  shows "worth d' c a (Some (next_id d T_journal_batch)) v"
  using assms by (simp add: worth_def booked_batch_entries batch_entries_fresh) (simp add: booked_def)

lemma worth_cong:
  "journal_lines d' = journal_lines d \<Longrightarrow> auto_inc d' T_journal_batch = auto_inc d T_journal_batch \<Longrightarrow>
   worth d' c a bo v = worth d c a bo v"
  by (simp add: worth_def batch_entries_def split: option.splits)

lemma net_reversed: "account_net a (map (reverse_entry f) es) = - account_net a es"
  by (induction es) (simp_all add: account_net_def reverse_entry_def)

section \<open>The documents that count\<close>

definition live_payment :: "nat \<Rightarrow> ap_payment_row \<Rightarrow> bool" where
  "live_payment c p \<longleftrightarrow> ap_company_id p = c \<and> ap_status p = AP_POSTED"

definition live_credit :: "nat \<Rightarrow> purchase_credit_row \<Rightarrow> bool" where
  "live_credit c r \<longleftrightarrow> pc_company_id r = c \<and> pc_status r \<in> {PC_PARTIAL, PC_APPLIED}"

definition paid_by :: "db \<Rightarrow> nat \<Rightarrow> int" where
  "paid_by d i = sum_list (map apl_allocation_amount (payment_lines d i))"

definition applied_by :: "db \<Rightarrow> nat \<Rightarrow> nat \<Rightarrow> int" where
  "applied_by d c k = sum_list (map pca_applied_amount
     (filter (\<lambda>x. pca_purchase_credit_id x = k \<and> pca_company_id x = c) (purchase_credit_applications d)))"

text \<open>The batches of the posted documents, each with what it should add to the payables account.\<close>

definition live_batches :: "db \<Rightarrow> nat \<Rightarrow> (nat option \<times> int) set" where
  "live_batches d c =
     (\<lambda>iv. (pi_journal_batch_id iv, - base_grand_total iv)) ` {iv \<in> set (purchase_invoices d). posted_of c iv} \<union>
     (\<lambda>p. (ap_journal_batch_id p, paid_by d (ap_id p))) ` {p \<in> set (ap_payments d). live_payment c p} \<union>
     (\<lambda>r. (pc_journal_batch_id r, applied_by d c (pc_id r))) ` {r \<in> set (purchase_credits d). live_credit c r}"

text \<open>The invoices that posted payments and applied credits name.\<close>

definition settled_invoices :: "db \<Rightarrow> nat \<Rightarrow> nat set" where
  "settled_invoices d c =
     apl_purchase_invoice_id ` {l \<in> set (ap_payment_lines d). payment_counts d c l} \<union>
     pca_purchase_invoice_id ` {x \<in> set (purchase_credit_applications d). credit_counts d c x}"

definition posted_invoices :: "db \<Rightarrow> nat \<Rightarrow> nat set" where
  "posted_invoices d c = pi_id ` {iv \<in> set (purchase_invoices d). posted_of c iv}"

text \<open>An application is of its credit's company.\<close>

definition own_companies :: "db \<Rightarrow> bool" where
  "own_companies d \<longleftrightarrow> (\<forall>x \<in> set (purchase_credit_applications d). \<forall>r \<in> set (purchase_credits d).
     pc_id r = pca_purchase_credit_id x \<longrightarrow> pca_company_id x = pc_company_id r)"

definition ledger_kept :: "nat \<Rightarrow> nat \<Rightarrow> db \<Rightarrow> bool" where
  "ledger_kept c a d \<longleftrightarrow> wf_ledger d \<and> (\<forall>(bo, v) \<in> live_batches d c. worth d c a bo v) \<and>
     settled_invoices d c \<subseteq> posted_invoices d c \<and> own_companies d"

lemma own_same:
  assumes "purchase_credits d' = purchase_credits d" and "purchase_credit_applications d' = purchase_credit_applications d"
    and "ledger_kept c a d"
  shows "own_companies d'"
  using assms by (simp add: ledger_kept_def own_companies_def)

lemma live_worth: "ledger_kept c a d \<Longrightarrow> (bo, v) \<in> live_batches d c \<Longrightarrow> worth d c a bo v"
  by (auto simp: ledger_kept_def)

lemma settled_posted: "ledger_kept c a d \<Longrightarrow> settled_invoices d c \<subseteq> posted_invoices d c"
  by (simp add: ledger_kept_def)

lemma ledger_kept_booked:
  assumes "ledger_kept c a d" and "booked c' es d d'"
    and "live_batches d' c \<subseteq> live_batches d c \<union> {(Some (next_id d T_journal_batch), v)}"
    and "c' = c \<Longrightarrow> 100 * account_net a es = v" and "c' \<noteq> c \<Longrightarrow> live_batches d' c \<subseteq> live_batches d c"
    and "settled_invoices d' c \<subseteq> posted_invoices d' c" and "own_companies d'"
  shows "ledger_kept c a d'"
proof -
  have wf: "wf_ledger d" and old: "\<forall>(bo, v) \<in> live_batches d c. worth d c a bo v" using assms(1) by (simp_all add: ledger_kept_def)
  have "worth d' c a bo w" if "(bo, w) \<in> live_batches d' c" for bo w
  proof (cases "(bo, w) \<in> live_batches d c")
    case True
    then show ?thesis using old worth_booked [OF assms(2)] by blast
  next
    case False
    with that assms(3,5) have "c' = c" "bo = Some (next_id d T_journal_batch)" "w = v" by auto
    then show ?thesis using worth_new [OF _ wf] assms(2,4) by simp
  qed
  then show ?thesis using booked_wf [OF assms(2) wf] assms(6,7) by (auto simp: ledger_kept_def)
qed

lemma ledger_kept_cong:
  assumes "ledger_kept c a d" and "journal_lines d' = journal_lines d"
    and "auto_inc d' T_journal_batch = auto_inc d T_journal_batch"
    and "live_batches d' c \<subseteq> live_batches d c" and "settled_invoices d' c \<subseteq> settled_invoices d c"
    and "posted_invoices d c \<subseteq> posted_invoices d' c" and "own_companies d'"
  shows "ledger_kept c a d'"
  using assms worth_cong [OF assms(2,3)] by (fastforce simp: ledger_kept_def wf_ledger_def)

section \<open>Posting a payment\<close>

lemma bank_not_payable:
  assumes "usable_bank (find_account d c bank)" and "payment_ap_account d c = Inr a"
  shows "bank \<noteq> a"
  using assms by (auto simp: usable_bank_def payment_ap_account_def inr_simps split: option.splits)

lemma net_allocation_entries:
  assumes "bank \<noteq> a"
  shows "account_net a (concat (map (allocation_entries a bank desc) nls)) =
    sum_list (map (\<lambda>nl. sql_round_div (apl_allocation_amount (snd nl)) 100) nls)"
  using assms by (induction nls) (simp_all add: account_net_def allocation_entries_def Let_def)

lemma payment_worth:
  assumes js: "payment_posting_journal d c p = Inr js" "mapM to_entry js = Inr es"
    and a: "payment_ap_account d c = Inr a" and bank: "usable_bank (find_account d c (ap_bank_account_id p))"
    and whole: "\<forall>l \<in> set (payment_lines d (ap_id p)). 100 dvd apl_allocation_amount l"
  shows "100 * account_net a es = paid_by d (ap_id p)"
proof -
  from posting_entries [OF js] a obtain desc where
    es: "es = concat (map (allocation_entries a (ap_bank_account_id p) desc) (numbered (payment_lines d (ap_id p))))"
    by (metis sum.inject(2))
  have "account_net a es = sum_list (map (\<lambda>l. sql_round_div (apl_allocation_amount l) 100) (payment_lines d (ap_id p)))"
    using net_allocation_entries [OF bank_not_payable [OF bank a], of desc "numbered (payment_lines d (ap_id p))"]
      map_numbered [of "\<lambda>l. sql_round_div (apl_allocation_amount l) 100" "payment_lines d (ap_id p)"]
    by (simp add: es)
  moreover have "100 * sum_list (map (\<lambda>l. sql_round_div (apl_allocation_amount l) 100) ls) =
      sum_list (map apl_allocation_amount ls)" if "\<forall>l \<in> set ls. 100 dvd apl_allocation_amount l" for ls
    using that by (induction ls) (simp_all add: distrib_left whole_cents)
  ultimately show ?thesis using whole by (simp add: paid_by_def)
qed

lemma payment_names_posted:
  assumes "payment_posting_journal d c p = Inr js" and "ap_company_id p = c"
  shows "apl_purchase_invoice_id ` set (payment_lines d (ap_id p)) \<subseteq> posted_invoices d c"
proof (rule image_subsetI)
  fix l assume l: "l \<in> set (payment_lines d (ap_id p))"
  from assms obtain allocs where "post_allocations d c p (payment_lines d (ap_id p)) = Inr allocs"
    by (auto simp: payment_posting_journal_def Let_def inr_simps)
  from post_allocations_Inr(3) [OF this l] obtain q where
    q: "find_invoice d c (apl_purchase_invoice_id l) = Some q" "pi_status q = PI_POSTED" by blast
  show "apl_purchase_invoice_id l \<in> posted_invoices d c"
    unfolding posted_invoices_def
    by (rule image_eqI [of _ _ q]) (use find_invoice_Some [OF q(1)] q(2) in \<open>simp_all add: posted_of_def\<close>)
qed

text \<open>A payment changes its status and nothing else.\<close>

lemma payment_changed:
  assumes keys: "payment_keys d" and p: "p \<in> set (ap_payments d)"
    and upd: "ap_payments d' = update_where (\<lambda>q. ap_id q = ap_id p \<and> Q q) f (ap_payments d)" and "Q p"
    and lines: "ap_payment_lines d' = ap_payment_lines d"
    and f: "\<And>q. ap_id (f q) = ap_id q" "\<And>q. ap_company_id (f q) = ap_company_id q"
    and rest: "purchase_invoices d' = purchase_invoices d" "purchase_credits d' = purchase_credits d"
      "purchase_credit_applications d' = purchase_credit_applications d"
  shows "live_batches d' c \<subseteq> live_batches d c \<union>
      (if live_payment c (f p) then {(ap_journal_batch_id (f p), paid_by d (ap_id p))} else {})"
    and "settled_invoices d' c \<subseteq> settled_invoices d c \<union>
      (if live_payment c (f p) then apl_purchase_invoice_id ` set (payment_lines d (ap_id p)) else {})"
proof -
  have only: "q = p" if "q \<in> set (ap_payments d)" "ap_id q = ap_id p" for q
    using distinct_map_eq [of ap_id "ap_payments d" q p] keys that p by (simp add: payment_keys_def)
  have rows: "set (ap_payments d') \<subseteq> insert (f p) (set (ap_payments d))"
    using only by (auto simp: upd set_update_where)
  have "paid_by d' = paid_by d" "applied_by d' = applied_by d"
    by (simp_all add: paid_by_def applied_by_def payment_lines_def lines rest fun_eq_iff)
  then show "live_batches d' c \<subseteq> live_batches d c \<union>
      (if live_payment c (f p) then {(ap_journal_batch_id (f p), paid_by d (ap_id p))} else {})"
    using rows f(1) [of p] unfolding live_batches_def rest by (auto split: if_splits)
  note counts = paid_after_status_change [OF keys p upd lines f assms(4)]
  have "credit_counts d' c = credit_counts d c" by (simp add: credit_counts_def [abs_def] rest)
  then show "settled_invoices d' c \<subseteq> settled_invoices d c \<union>
      (if live_payment c (f p) then apl_purchase_invoice_id ` set (payment_lines d (ap_id p)) else {})"
    using f(2) [of p]
    by (auto simp: settled_invoices_def counts lines rest live_payment_def payment_lines_def split: if_splits)
qed

lemma payment_kept:
  assumes ok: "settlement_ok d" and kept: "ledger_kept c a d"
    and post: "postAPPayment c' u pid g r now d = Inr (res, d')"
    and a: "c' = c \<Longrightarrow> payment_ap_account d c = Inr a"
    and whole: "c' = c \<Longrightarrow> \<forall>l \<in> set (payment_lines d pid). 100 dvd apl_allocation_amount l"
  shows "ledger_kept c a d' \<and> gap d' c a = gap d c a"
proof -
  from post obtain p where p: "find_payment d c' pid = Some p" by (auto simp: postAPPayment_def inr_simps)
  show ?thesis
  proof (cases "ap_status p = AP_DRAFT")
    case False
    with post p have "d' = d" by (auto simp: postAPPayment_def inr_simps split: if_splits)
    with kept show ?thesis by simp
  next
    case True
    have keys: "payment_keys d" "distinct (map pi_id (purchase_invoices d))" using ok by (simp_all add: settlement_defs)
    note pp = find_payment_Some [OF p]
    have bank: "usable_bank (find_account d c' (ap_bank_account_id p))"
      using post p True by (auto simp: postAPPayment_def inr_simps)
    from postAPPayment_draft [OF post p True] obtain js es where
      js: "payment_posting_journal d c' p = Inr js" "mapM to_entry js = Inr es"
      and d': "d' = record_override g r c' u ''AP_PAYMENT'' pid now
        (mark_payment_posted pid (next_id d T_journal_batch) u now
          (posted_db c' ''AP_PAYMENT'' pid (ap_payment_date p) now es d))" by metis
    let ?f = "\<lambda>p. p\<lparr>ap_status := AP_POSTED, ap_journal_batch_id := Some (next_id d T_journal_batch),
      ap_posted_at := Some now, ap_posted_by_user_id := Some u, ap_updated_at := now\<rparr>"
    have booked: "booked c' es d d'" by (rule booked_posted) (simp_all add: d')
    have worth: "100 * account_net a es = paid_by d pid" if "c' = c"
      using payment_worth [OF js] a whole bank that pp by simp
    have names: "apl_purchase_invoice_id ` set (payment_lines d pid) \<subseteq> posted_invoices d c'"
      using payment_names_posted [OF js(1)] pp by simp
    then have "\<forall>l \<in> set (payment_lines d pid). \<exists>iv \<in> set (purchase_invoices d). pi_id iv = apl_purchase_invoice_id l \<and> posted_of c' iv"
      by (fastforce simp: posted_invoices_def)
    then have "owed d' c = owed d c - (if c = c' then paid_by d pid else 0)"
      unfolding paid_by_def
      using postAPPayment_open_amount [OF keys(1) post p True] keys(2) by (intro owed_settled) (auto simp: d')
    with booked_control [OF booked, of c a] worth have gap: "gap d' c a = gap d c a" by (auto simp: gap_def)
    have live: "live_payment c (?f p) \<longleftrightarrow> c' = c" using pp by (auto simp: live_payment_def)
    have sub: "live_batches d' c \<subseteq> live_batches d c \<union> (if live_payment c (?f p) then {(ap_journal_batch_id (?f p), paid_by d (ap_id p))} else {})"
      "settled_invoices d' c \<subseteq> settled_invoices d c \<union> (if live_payment c (?f p) then apl_purchase_invoice_id ` set (payment_lines d (ap_id p)) else {})"
      by (rule payment_changed [OF keys(1), where Q = "\<lambda>_. True"]; use pp in \<open>simp add: d'\<close>)+
    have "posted_invoices d' c = posted_invoices d c" by (simp add: posted_invoices_def d')
    with sub(2) names pp kept have "settled_invoices d' c \<subseteq> posted_invoices d' c"
      unfolding live ledger_kept_def by (cases "c' = c") (simp_all, blast+)
    moreover have "own_companies d'" by (rule own_same [OF _ _ kept]) (simp_all add: d')
    ultimately have "ledger_kept c a d'"
      using pp sub(1) unfolding live
      by (intro ledger_kept_booked [OF kept booked, where v = "paid_by d pid"]) (auto simp: worth split: if_splits)
    with gap show ?thesis by blast
  qed
qed

section \<open>Voiding a payment\<close>

lemma owed_other:
  assumes "purchase_invoices d' = purchase_invoices d"
    and "\<And>iv. pi_company_id iv = c \<Longrightarrow> open_amount d' iv = open_amount d iv"
  shows "owed d' c = owed d c"
  unfolding owed_def assms(1) by (intro arg_cong [where f = sum_list] map_cong) (auto simp: assms(2) posted_of_def)

lemma payment_void_kept:
  assumes ok: "settlement_ok d" and kept: "ledger_kept c a d"
    and void: "voidAPPayment c' u pid g r now d = Inr (res, d')"
  shows "ledger_kept c a d' \<and> gap d' c a = gap d c a"
proof -
  have keys: "payment_keys d" "distinct (map pi_id (purchase_invoices d))" using ok by (simp_all add: settlement_defs)
  from void obtain p b f where p: "find_payment d c' pid = Some p" "ap_status p = AP_POSTED" "ap_journal_batch_id p = Some b"
    and d': "d' = record_override g r c' u ''AP_PAYMENT_VOID'' pid now (mark_payment_void pid u now
      (posted_db c' ''AP_PAYMENT_VOID'' pid (ap_payment_date p) now (map (reverse_entry f) (batch_entries d c' b)) d))"
    by (elim voidAPPayment_Inr) metis
  note pp = find_payment_Some [OF p(1)]
  let ?f = "\<lambda>p. p\<lparr>ap_status := AP_VOID, ap_voided_at := Some now, ap_voided_by_user_id := Some u, ap_updated_at := now\<rparr>"
  have booked: "booked c' (map (reverse_entry f) (batch_entries d c' b)) d d'" by (rule booked_posted) (simp_all add: d')
  have dead: "\<not> live_payment c (?f p)" by (simp add: live_payment_def)
  have "live_batches d' c \<subseteq> live_batches d c \<union> (if live_payment c (?f p) then {(ap_journal_batch_id (?f p), paid_by d (ap_id p))} else {})"
    "settled_invoices d' c \<subseteq> settled_invoices d c \<union> (if live_payment c (?f p) then apl_purchase_invoice_id ` set (payment_lines d (ap_id p)) else {})"
    by (rule payment_changed [OF keys(1), where Q = "\<lambda>p. ap_status p = AP_POSTED"]; use pp p(2) in \<open>simp add: d'\<close>)+
  then have sub: "live_batches d' c \<subseteq> live_batches d c" "settled_invoices d' c \<subseteq> settled_invoices d c"
    unfolding if_not_P [OF dead] by simp_all
  have "ledger_kept c a d'"
    by (rule ledger_kept_booked [OF kept booked, where v = "100 * account_net a (map (reverse_entry f) (batch_entries d c' b))"])
      (use sub kept in \<open>auto simp: ledger_kept_def own_companies_def posted_invoices_def d'\<close>)
  moreover have "gap d' c a = gap d c a"
  proof (cases "c' = c")
    case False
    have "owed d' c = owed d c"
      using voidAPPayment_open_amount [OF keys(1) void] False by (intro owed_other) (simp_all add: d')
    then show ?thesis using booked_control [OF booked, of c a] False by (simp add: gap_def)
  next
    case True
    have live: "live_payment c p" using pp p(2) True by (simp add: live_payment_def)
    then have "(Some b, paid_by d pid) \<in> live_batches d c"
      unfolding live_batches_def by (intro UnI1 UnI2 image_eqI [of _ _ p]) (use pp p(3) in simp_all)
    then have "worth d c a (Some b) (paid_by d pid)" by (rule live_worth [OF kept])
    then have "100 * account_net a (map (reverse_entry f) (batch_entries d c' b)) = - paid_by d pid"
      using True by (simp add: worth_def net_reversed)
    moreover have "\<forall>l \<in> set (payment_lines d pid). payment_counts d c l"
      using live pp by (auto simp: payment_lines_def payment_counts_def live_payment_def)
    then have "apl_purchase_invoice_id ` set (payment_lines d pid) \<subseteq> posted_invoices d c"
      using kept by (fastforce simp: ledger_kept_def settled_invoices_def payment_lines_def)
    then have "\<forall>l \<in> set (payment_lines d pid). \<exists>iv \<in> set (purchase_invoices d). pi_id iv = apl_purchase_invoice_id l \<and> posted_of c iv"
      by (fastforce simp: posted_invoices_def)
    then have "owed d c = owed d' c - (if c = c then paid_by d pid else 0)"
      unfolding paid_by_def
      using voidAPPayment_open_amount [OF keys(1) void] keys(2) True by (intro owed_settled) (auto simp: d')
    ultimately show ?thesis using booked_control [OF booked, of c a] True by (simp add: gap_def)
  qed
  ultimately show ?thesis by blast
qed

section \<open>Applying a credit\<close>

lemma credit_accounts_apart:
  assumes "getPurchasingAccountsForUpdate d c = Inr (ap, expense)"
  shows "ap \<noteq> expense"
  using assms
  by (auto simp: getPurchasingAccountsForUpdate_def inr_simps Let_def ap_account_type_def expense_account_type_def)

lemma credit_payables:
  assumes "getPurchasingAccountsForUpdate d c = Inr (ap, expense)" and "purchasing_settings d c = Some cm"
    and "cm_purchasing_default_ap_account_id cm = Some a"
  shows "ap = a"
  using assms(1)
  by (auto simp: getPurchasingAccountsForUpdate_def assms(2,3) truthy_id_def Let_def inr_simps split: if_splits)

text \<open>A credit changes its status, and applications of its own may be added.\<close>

lemma credit_changed:
  assumes keys: "credit_keys d" and r: "r \<in> set (purchase_credits d)" and co: "pc_company_id r = c'"
    and upd: "purchase_credits d' = update_where (\<lambda>q. pc_id q = pc_id r) f (purchase_credits d)"
    and f: "\<And>q. pc_id (f q) = pc_id q" "\<And>q. pc_company_id (f q) = pc_company_id q"
    and apps: "purchase_credit_applications d' = purchase_credit_applications d @ new" "own_applications c' (pc_id r) new"
    and un: "unapplied d (pc_id r) \<or> new = [] \<and> \<not> live_credit c' (f r)"
    and rest: "purchase_invoices d' = purchase_invoices d" "ap_payments d' = ap_payments d"
      "ap_payment_lines d' = ap_payment_lines d"
  shows "live_batches d' c \<subseteq> live_batches d c \<union>
      (if live_credit c (f r) then {(pc_journal_batch_id (f r), sum_list (map pca_applied_amount new))} else {})"
    and "settled_invoices d' c \<subseteq> settled_invoices d c \<union> (if c' = c then pca_purchase_invoice_id ` set new else {})"
    and "own_companies d \<Longrightarrow> own_companies d'"
proof -
  have only: "q = r" if "q \<in> set (purchase_credits d)" "pc_id q = pc_id r" for q
    using distinct_map_eq [of pc_id "purchase_credits d" q r] keys that r by (simp add: credit_keys_def)
  have rows: "set (purchase_credits d') \<subseteq> insert (f r) {q \<in> set (purchase_credits d). pc_id q \<noteq> pc_id r}"
    using only by (auto simp: upd set_update_where)
  have "paid_by d' = paid_by d" by (simp add: paid_by_def payment_lines_def rest fun_eq_iff)
  moreover have "applied_by d' c k = applied_by d c k" if "k \<noteq> pc_id r" for k
    using that apps(2) by (auto simp: applied_by_def apps(1) own_applications_def filter_empty_conv)
  moreover have "applied_by d' c (pc_id r) = sum_list (map pca_applied_amount new)" if "live_credit c (f r)"
  proof -
    have c: "c' = c" using that f(2) [of r] co by (simp add: live_credit_def)
    have "unapplied d (pc_id r)" using un that c by blast
    then have "filter (\<lambda>x. pca_purchase_credit_id x = pc_id r \<and> pca_company_id x = c) (purchase_credit_applications d) = []"
      by (auto simp: unapplied_def filter_empty_conv)
    moreover have "filter (\<lambda>x. pca_purchase_credit_id x = pc_id r \<and> pca_company_id x = c) new = new"
      using apps(2) c by (auto simp: own_applications_def)
    ultimately show ?thesis by (simp add: applied_by_def apps(1))
  qed
  ultimately show "live_batches d' c \<subseteq> live_batches d c \<union>
      (if live_credit c (f r) then {(pc_journal_batch_id (f r), sum_list (map pca_applied_amount new))} else {})"
    using rows f(1) [of r] unfolding live_batches_def rest by (auto split: if_splits)
  note counts = credit_counts_change [OF keys r upd f(1)]
  have "payment_counts d' c = payment_counts d c" by (simp add: payment_counts_def [abs_def] rest)
  moreover have "{x \<in> set (purchase_credit_applications d'). credit_counts d' c x} \<subseteq>
      {x \<in> set (purchase_credit_applications d). credit_counts d c x} \<union> (if c' = c then set new else {})"
  proof
    fix x assume "x \<in> {x \<in> set (purchase_credit_applications d'). credit_counts d' c x}"
    then have x: "x \<in> set (purchase_credit_applications d) \<or> x \<in> set new" "credit_counts d' c x" by (auto simp: apps(1))
    show "x \<in> {x \<in> set (purchase_credit_applications d). credit_counts d c x} \<union> (if c' = c then set new else {})"
    proof (cases "x \<in> set new")
      case True
      with apps(2) x(2) have "c' = c" by (auto simp: own_applications_def credit_counts_def)
      with True show ?thesis by simp
    next
      case False
      with x have "x \<in> set (purchase_credit_applications d)" by simp
      moreover have "credit_counts d c x"
        using x(2) un \<open>x \<in> set (purchase_credit_applications d)\<close> co f(2) [of r] False
        by (auto simp: counts unapplied_def live_credit_def split: if_splits)
      ultimately show ?thesis by simp
    qed
  qed
  ultimately show "settled_invoices d' c \<subseteq> settled_invoices d c \<union> (if c' = c then pca_purchase_invoice_id ` set new else {})"
    unfolding settled_invoices_def rest by (cases "c' = c") (simp_all, blast+)
  show "own_companies d'" if own: "own_companies d"
  proof -
    have "pca_company_id x = pc_company_id q" if "x \<in> set (purchase_credit_applications d)" "q \<in> set (purchase_credits d')"
      "pc_id q = pca_purchase_credit_id x" for x q
      using own rows that f [of r] r by (auto simp: own_companies_def)
    moreover have "pca_company_id x = pc_company_id q" if "x \<in> set new" "q \<in> set (purchase_credits d')"
      "pc_id q = pca_purchase_credit_id x" for x q
      using rows that apps(2) f(2) [of r] co by (auto simp: own_applications_def)
    ultimately show ?thesis by (auto simp: own_companies_def apps(1))
  qed
qed

lemma payable_posted: "payable_by d c s i \<Longrightarrow> i \<in> posted_invoices d c"
  by (auto simp: payable_by_def posted_invoices_def posted_of_def)

lemma credit_kept:
  assumes ok: "settlement_ok d" and kept: "ledger_kept c a d"
    and app: "applyPurchaseCredit c' u k g rs now d = Inr (res, d')"
    and a: "c' = c \<Longrightarrow> \<exists>cm. purchasing_settings d c = Some cm \<and> cm_purchasing_default_ap_account_id cm = Some a"
    and whole: "c' = c \<Longrightarrow> \<exists>v. toScaled4 (rpa_applied_amount res) = Inr v \<and> 100 dvd v"
  shows "ledger_kept c a d' \<and> gap d' c a = gap d c a"
proof -
  have keys: "credit_keys d" "distinct (map pi_id (purchase_invoices d))" using ok by (simp_all add: settlement_defs)
  obtain r st ns na es b apAcc expAcc desc where r: "find_credit d c' k = Some r" "pc_status r = PC_DRAFT"
    and st: "apply_lines c' r now d = Inr st" and tot: "0 < as_total st"
    and acc: "getPurchasingAccountsForUpdate (as_db st) c' = Inr (apAcc, expAcc)"
    and es: "mapM to_entry (credit_journal apAcc expAcc (fromScaled4 (as_total st)) desc) = Inr es"
    and b: "b = next_id (as_db st) T_journal_batch"
    and ns: "ns = (if pc_total_credit_amount r - na > 0 then PC_PARTIAL else PC_APPLIED)"
    and amt: "rpa_applied_amount res = fromScaled4 (as_total st)"
    and d': "d' = record_override g rs c' u ''PURCHASE_CREDIT'' k now (mark_credit_applied k ns na b u now
        (posted_db c' ''PURCHASE_CREDIT'' k (pc_credit_date r) now es (as_db st)))"
    by (rule applyPurchaseCredit_Inr [OF app]) blast
  note rr = find_credit_Some [OF r(1)]
  have un: "unapplied d k" using ok rr r(2) by (auto simp: settlement_defs unapplied_def)
  have draft: "draft_credit d (pc_id r)" using draft_credit_keys [OF keys(1)] rr r(2) by blast
  obtain new0 n where db: "as_db st = with_applications d new0 n" by (rule apply_lines_result [OF draft st])
  obtain new :: "purchase_credit_application_row list" where
    apps: "purchase_credit_applications d' = purchase_credit_applications d @ new" "own_applications c' k new"
    and pay: "\<forall>x \<in> set new. \<exists>s. payable_by d c' s (pca_purchase_invoice_id x)"
    and amount: "rpa_applied_amount res = fromScaled4 (sum_list (map pca_applied_amount new))"
      "0 < sum_list (map pca_applied_amount new)"
    and opens: "\<forall>pi. open_amount d' pi = open_amount d pi - (if pi_company_id pi = c' then applied_to (pi_id pi) new else 0)"
    and invs: "purchase_invoices d' = purchase_invoices d"
    by (rule applyPurchaseCredit_effect [OF keys(1) un app]) blast
  have total: "sum_list (map pca_applied_amount new) = as_total st"
    using amt amount tot dec4.render_inj [of "as_total st" "sum_list (map pca_applied_amount new)"] by simp
  have batch: "b = next_id d T_journal_batch" by (simp add: b db with_applications_def next_id_def)
  have booked: "booked c' es d d'"
    by (rule booked_posted) (simp_all add: d' posted_db_def db with_applications_def next_id_def)
  have worth: "100 * account_net a es = as_total st" if c: "c' = c"
  proof -
    from a [OF c] obtain cm where cm: "purchasing_settings d c = Some cm" "cm_purchasing_default_ap_account_id cm = Some a"
      by blast
    have "purchasing_settings (as_db st) c = Some cm"
      using cm(1) by (simp add: purchasing_settings_def db with_applications_def)
    with acc c cm(2) have "apAcc = a" using credit_payables by blast
    moreover have "apAcc \<noteq> expAcc" by (rule credit_accounts_apart [OF acc])
    moreover have "100 dvd as_total st" using whole [OF c] tot by (auto simp: amt toScaled4_fromScaled4)
    ultimately show ?thesis
      using credit_journal_entries [OF es tot] by (simp add: account_net_def whole_cents)
  qed
  have "owed d' c = owed d c - (if c = c' then sum_list (map pca_applied_amount new) else 0)"
    using opens pay by (intro owed_settled [OF invs keys(2)]) (auto simp: payable_by_def posted_of_def)
  with booked_control [OF booked, of c a] worth total have gap: "gap d' c a = gap d c a" by (auto simp: gap_def)
  let ?f = "\<lambda>q. q\<lparr>pc_status := ns, pc_applied_amount := na, pc_journal_batch_id := Some b, pc_posted_at := Some now,
    pc_posted_by_user_id := Some u, pc_updated_at := now\<rparr>"
  have rest: "purchase_credits d' = update_where (\<lambda>q. pc_id q = pc_id r) ?f (purchase_credits d)"
    "ap_payments d' = ap_payments d" "ap_payment_lines d' = ap_payment_lines d"
    using rr by (simp_all add: d' db with_applications_def)
  have live: "live_credit c (?f r) \<longleftrightarrow> c' = c" using rr by (auto simp: live_credit_def ns)
  have sub: "live_batches d' c \<subseteq> live_batches d c \<union>
      (if live_credit c (?f r) then {(pc_journal_batch_id (?f r), sum_list (map pca_applied_amount new))} else {})"
    "settled_invoices d' c \<subseteq> settled_invoices d c \<union> (if c' = c then pca_purchase_invoice_id ` set new else {})"
    by (rule credit_changed [OF keys(1) _ _ rest(1)]; use rr apps un invs rest in simp)+
  have own: "own_companies d'"
    by (rule credit_changed(3) [OF keys(1) _ _ rest(1)]; use rr apps un invs rest kept in \<open>simp add: ledger_kept_def\<close>)
  have "pca_purchase_invoice_id ` set new \<subseteq> posted_invoices d c'" using pay payable_posted by blast
  moreover have "posted_invoices d' c = posted_invoices d c" by (simp add: posted_invoices_def invs)
  moreover note settled_posted [OF kept]
  ultimately have "settled_invoices d' c \<subseteq> posted_invoices d' c"
    by (intro subset_trans [OF sub(2)]) (auto split: if_splits)
  with sub(1) have "ledger_kept c a d'"
    unfolding live
    by (intro ledger_kept_booked [OF kept booked, where v = "as_total st"]) (auto simp: worth total batch own split: if_splits)
  with gap show ?thesis by blast
qed

section \<open>Voiding a credit\<close>

lemma credit_void_kept:
  assumes ok: "settlement_ok d" and kept: "ledger_kept c a d"
    and void: "voidPurchaseCredit c' u k g rs now d = Inr (res, d')"
  shows "ledger_kept c a d' \<and> gap d' c a = gap d c a"
proof -
  from void obtain r where r: "find_credit d c' k = Some r" by (auto simp: voidPurchaseCredit_def inr_simps)
  show ?thesis
  proof (cases "pc_status r = PC_VOID")
    case True
    with void r have "d' = d" by (auto simp: voidPurchaseCredit_def inr_simps)
    with kept show ?thesis by simp
  next
    case False
    have keys: "credit_keys d" "distinct (map pi_id (purchase_invoices d))" using ok by (simp_all add: settlement_defs)
    have wf: "wf_ledger d" and own: "own_companies d" using kept by (simp_all add: ledger_kept_def)
    note rr = find_credit_Some [OF r]
    let ?es = "\<lambda>b. map (reverse_entry (void_description k)) (batch_entries d c' b)"
    obtain b where st: "pc_status r \<in> {PC_PARTIAL, PC_APPLIED}" and b: "pc_journal_batch_id r = Some b"
      and d': "d' = record_override g rs c' u ''PURCHASE_CREDIT_VOID'' k now (mark_credit_void k u now
        (posted_db c' ''PURCHASE_CREDIT_VOID'' k (pc_credit_date r) now (?es b) d))"
      by (rule voidPurchaseCredit_Inr [OF void r False]) blast
    have booked: "booked c' (?es b) d d'" by (rule booked_posted) (simp_all add: d')
    let ?f = "\<lambda>q. q\<lparr>pc_status := PC_VOID, pc_applied_amount := 0, pc_voided_at := Some now,
      pc_voided_by_user_id := Some u, pc_updated_at := now\<rparr>"
    have rest: "purchase_credits d' = update_where (\<lambda>q. pc_id q = pc_id r) ?f (purchase_credits d)"
      "purchase_invoices d' = purchase_invoices d" "ap_payments d' = ap_payments d" "ap_payment_lines d' = ap_payment_lines d"
      "purchase_credit_applications d' = purchase_credit_applications d @ []"
      using rr by (simp_all add: d')
    have dead: "\<not> live_credit co (?f r)" for co by (simp add: live_credit_def)
    let ?none = "[] :: purchase_credit_application_row list"
    have "live_batches d' c \<subseteq> live_batches d c \<union>
        (if live_credit c (?f r) then {(pc_journal_batch_id (?f r), sum_list (map pca_applied_amount ?none))} else {})"
      "settled_invoices d' c \<subseteq> settled_invoices d c \<union> (if c' = c then pca_purchase_invoice_id ` set ?none else {})"
      by (rule credit_changed [OF keys(1) _ _ rest(1)]; use rr rest dead in \<open>simp add: own_applications_def\<close>)+
    then have sub: "live_batches d' c \<subseteq> live_batches d c" "settled_invoices d' c \<subseteq> settled_invoices d c"
      unfolding if_not_P [OF dead] by (simp_all split: if_splits)
    have "own_companies d'"
      by (rule credit_changed(3) [OF keys(1) _ _ rest(1), where new = ?none];
          use rr rest dead own in \<open>simp add: own_applications_def\<close>)
    then have "ledger_kept c a d'"
      by (rule ledger_kept_booked [OF kept booked, where v = "100 * account_net a (?es b)", rotated -1])
        (use sub kept in \<open>auto simp: ledger_kept_def posted_invoices_def d'\<close>)
    moreover have "gap d' c a = gap d c a"
    proof -
      let ?old = "\<lambda>c. filter (\<lambda>x. pca_purchase_credit_id x = k \<and> pca_company_id x = c) (purchase_credit_applications d)"
      obtain k' b' where res: "res = (k', b')" by (cases res)
      have none: "?old co = []" if "co \<noteq> c'" for co
        using own rr that by (auto simp: own_companies_def filter_empty_conv)
      have opens: "open_amount d' iv = open_amount d iv + (if pi_company_id iv = c' then applied_to (pi_id iv) (?old c') else 0)" for iv
        using voidPurchaseCredit_effect(1) [OF wf keys(1) void [unfolded res] r False b] none [of "pi_company_id iv"] by simp
      show ?thesis
      proof (cases "c' = c")
        case True
        have live: "live_credit c r" using rr st True by (simp add: live_credit_def)
        then have "(Some b, applied_by d c k) \<in> live_batches d c"
          unfolding live_batches_def by (intro UnI2 image_eqI [of _ _ r]) (use rr b in simp_all)
        then have "worth d c a (Some b) (applied_by d c k)" by (rule live_worth [OF kept])
        then have "100 * account_net a (?es b) = - applied_by d c k" using True by (simp add: worth_def net_reversed)
        moreover have "\<forall>x \<in> set (?old c). credit_counts d c x" using live rr by (auto simp: credit_counts_def live_credit_def)
        then have "pca_purchase_invoice_id ` set (?old c) \<subseteq> settled_invoices d c"
          unfolding settled_invoices_def by (intro le_supI2 image_mono) auto
        then have "pca_purchase_invoice_id ` set (?old c) \<subseteq> posted_invoices d c"
          using settled_posted [OF kept] by (rule subset_trans)
        then have "\<forall>x \<in> set (?old c). \<exists>iv \<in> set (purchase_invoices d). pi_id iv = pca_purchase_invoice_id x \<and> posted_of c iv"
          by (fastforce simp: posted_invoices_def)
        then have named: "\<forall>x \<in> set (?old c). \<exists>iv \<in> set (purchase_invoices d'). pi_id iv = pca_purchase_invoice_id x \<and> posted_of c iv"
          unfolding rest(2) .
        have "owed d c = owed d' c - (if c = c then sum_list (map pca_applied_amount (?old c)) else 0)"
        proof (rule owed_settled [OF _ _ _ named])
          show "open_amount d iv = open_amount d' iv - (if pi_company_id iv = c then applied_to (pi_id iv) (?old c) else 0)" for iv
            unfolding opens True by simp
        qed (use keys(2) in \<open>simp_all only: rest(2)\<close>)
        ultimately show ?thesis using booked_control [OF booked, of c a] True by (simp add: gap_def applied_by_def)
      next
        case False
        have "owed d' c = owed d c" using opens False by (intro owed_other) (simp_all add: rest)
        then show ?thesis using booked_control [OF booked, of c a] False by (simp add: gap_def)
      qed
    qed
    ultimately show ?thesis by blast
  qed
qed

section \<open>Posting an invoice\<close>

text \<open>The accounts that an invoice of the company may debit are not its payables account.\<close>

definition payables_apart :: "db \<Rightarrow> nat \<Rightarrow> nat \<Rightarrow> bool" where
  "payables_apart d c a \<longleftrightarrow>
     (case purchasing_settings d c of
        None \<Rightarrow> False
      | Some cm \<Rightarrow> cm_purchasing_default_ap_account_id cm = Some a \<and>
          cm_purchasing_default_expense_account_id cm \<noteq> Some a) \<and>
     (\<forall>t \<in> set (tax_rates d). tax_company_id t = c \<longrightarrow> tax_account_id t \<noteq> Some a)"

lemma payables_apartE:
  assumes "payables_apart d c a"
  obtains cm where "purchasing_settings d c = Some cm" and "cm_purchasing_default_ap_account_id cm = Some a"
    and "cm_purchasing_default_expense_account_id cm \<noteq> Some a"
  using assms by (auto simp: payables_apart_def split: option.splits)

lemma line_accounts_apart:
  assumes "payables_apart d c a" and "line_accounts d c e l = Inr (x, y)" and "e \<noteq> a"
  shows "x \<noteq> Some a \<and> y \<noteq> Some a"
proof -
  have "t \<noteq> a" if "tax_account d c i = Inr t" for i t
    using assms(1) that
    by (auto simp: payables_apart_def tax_account_def inr_simps truthy_id_def split: if_splits
        Option.bind_splits dest!: find_SomeD)
  with assms(2,3) show ?thesis
    by (auto simp: line_accounts_def inr_simps split: if_splits option.splits)
qed

lemma add_to_group_accounts: "fst ` set (add_to_group x base tax s m) = insert x (fst ` set m)"
  by (simp add: add_to_group_def Let_def dom_map_of_conv_image_fst [symmetric] update_conv' dom_fun_upd)

lemma groups_apart:
  assumes "payables_apart d c a" and "e \<noteq> a" and "foldM (group_line d c e rate) [] ls = Inr groups"
  shows "a \<notin> fst ` set groups"
proof (rule foldM_invariant [OF assms(3), where I = "\<lambda>m. a \<notin> fst ` set m"])
  fix m l m'
  assume "a \<notin> fst ` set m" "group_line d c e rate m l = Inr m'"
  moreover from this(2) obtain x y b1 t1 s1 b2 s2 where la: "line_accounts d c e l = Inr (x, y)" and
    m': "m' = (let m1 = (case x of None \<Rightarrow> m | Some k \<Rightarrow> add_to_group k b1 t1 s1 m)
      in case y of None \<Rightarrow> m1 | Some k \<Rightarrow> add_to_group k b2 0 s2 m1)"
    unfolding group_line_def bindR_Inr Let_def by (auto split: prod.splits)
  ultimately show "a \<notin> fst ` set m'"
    using line_accounts_apart [OF assms(1) la assms(2)]
    by (cases x; cases y) (auto simp: m' add_to_group_accounts)
qed simp

text \<open>An invoice in the company's own currency, in whole cents, whose total is that of its parts.\<close>

definition home_invoice :: "db \<Rightarrow> nat \<Rightarrow> nat \<Rightarrow> bool" where
  "home_invoice d c i \<longleftrightarrow>
     (case find_invoice d c i of
        None \<Rightarrow> False
      | Some pi \<Rightarrow> posting_rate d c pi = Inr ''1.00000000'' \<and>
          pi_grand_total pi = pi_subtotal pi + pi_tax_amount pi \<and> 100 dvd pi_grand_total pi)"

lemma posted_invoice_iff:
  assumes "distinct (map pi_id (purchase_invoices d))" and "iv \<in> set (purchase_invoices d)" and "pi_id iv = i"
  shows "i \<in> posted_invoices d c \<longleftrightarrow> posted_of c iv"
proof
  assume "i \<in> posted_invoices d c"
  then obtain h where h: "h \<in> set (purchase_invoices d)" "posted_of c h" "pi_id h = i" by (auto simp: posted_invoices_def)
  have "h = iv" by (rule distinct_map_eq [OF assms(1) h(1) assms(2)]) (simp add: h(3) assms(3))
  with h(2) show "posted_of c iv" by simp
next
  assume "posted_of c iv"
  then show "i \<in> posted_invoices d c"
    unfolding posted_invoices_def by (intro image_eqI [of _ _ iv]) (simp_all add: assms)
qed

text \<open>The row of one invoice changes: what that does to the sum, and to the documents that count.\<close>

lemma invoice_changed:
  assumes "distinct (map pi_id (purchase_invoices d))" and iv: "iv \<in> set (purchase_invoices d)" "pi_id iv = i"
    and upd: "purchase_invoices d' = update_where (\<lambda>h. pi_id h = i) f (purchase_invoices d)"
    and f: "pi_id (f iv) = i" "pi_company_id (f iv) = pi_company_id iv"
    and rest: "ap_payments d' = ap_payments d" "ap_payment_lines d' = ap_payment_lines d"
      "purchase_credits d' = purchase_credits d" "purchase_credit_applications d' = purchase_credit_applications d"
  shows "owed d' c = owed d c + (if posted_of c (f iv) then open_amount d (f iv) else 0) -
      (if posted_of c iv then open_amount d iv else 0)"
    and "live_batches d' c \<subseteq> live_batches d c \<union>
      (if posted_of c (f iv) then {(pi_journal_batch_id (f iv), - base_grand_total (f iv))} else {})"
    and "settled_invoices d' c = settled_invoices d c"
    and "posted_invoices d c - {i} \<subseteq> posted_invoices d' c"
    and "posted_of c (f iv) \<Longrightarrow> posted_invoices d c \<subseteq> posted_invoices d' c"
proof -
  have opens: "open_amount d' h = open_amount d h" for h by (rule open_amount_cong) (fact rest)+
  have only: "h = iv" if "h \<in> set (purchase_invoices d)" "pi_id h = i" for h
    using distinct_map_eq [OF assms(1) that(1) iv(1)] that(2) iv(2) by simp
  have "sum_list (map (open_amount d) (filter (posted_of c) (update_where (\<lambda>h. pi_id h = i) f hs))) =
      sum_list (map (open_amount d) (filter (posted_of c) hs)) +
      (if iv \<in> set hs then (if posted_of c (f iv) then open_amount d (f iv) else 0) -
        (if posted_of c iv then open_amount d iv else 0) else 0)"
    if "set hs \<subseteq> set (purchase_invoices d)" "distinct (map pi_id hs)" for hs
    using that
  proof (induction hs)
    case (Cons h hs)
    show ?case
    proof (cases "pi_id h = i")
      case True
      with Cons.prems only have h: "h = iv" by simp
      have "\<forall>q \<in> set hs. pi_id q \<noteq> i" using Cons.prems(2) True by (metis distinct.simps(2) image_eqI list.set_map list.simps(9))
      then have "update_where (\<lambda>h. pi_id h = i) f hs = hs" "iv \<notin> set hs"
        using iv by (auto intro!: update_where_no_match)
      then show ?thesis using iv by (simp add: h)
    next
      case False
      then have "h \<noteq> iv" using iv by auto
      with Cons False show ?thesis by auto
    qed
  qed simp
  from this [of "purchase_invoices d"] show "owed d' c = owed d c + (if posted_of c (f iv) then open_amount d (f iv) else 0) -
      (if posted_of c iv then open_amount d iv else 0)"
    using assms(1) iv by (simp add: owed_def upd opens [abs_def])
  have rows: "set (purchase_invoices d') = insert (f iv) {h \<in> set (purchase_invoices d). pi_id h \<noteq> i}"
  proof -
    have "{h \<in> set (purchase_invoices d). pi_id h = i} = {iv}" using only iv by blast
    then show ?thesis by (simp add: upd set_update_where)
  qed
  have "paid_by d' = paid_by d" "applied_by d' = applied_by d"
    by (simp_all add: paid_by_def applied_by_def payment_lines_def rest fun_eq_iff)
  then show "live_batches d' c \<subseteq> live_batches d c \<union>
      (if posted_of c (f iv) then {(pi_journal_batch_id (f iv), - base_grand_total (f iv))} else {})"
    unfolding live_batches_def rest rows by auto
  show "settled_invoices d' c = settled_invoices d c"
    by (simp add: settled_invoices_def payment_counts_def [abs_def] credit_counts_def [abs_def] rest)
  show kept: "posted_invoices d c - {i} \<subseteq> posted_invoices d' c" by (auto simp: posted_invoices_def rows)
  show "posted_invoices d c \<subseteq> posted_invoices d' c" if "posted_of c (f iv)"
  proof -
    have "i \<in> posted_invoices d' c"
      unfolding posted_invoices_def by (rule image_eqI [of _ _ "f iv"]) (simp_all add: f rows that)
    with kept show ?thesis by blast
  qed
qed

lemma invoice_entries_worth:
  assumes apart: "payables_apart d c a" and home: "home_invoice d c i" and pi: "find_invoice d c i = Some pi"
    and rs: "posting_rate d c pi = Inr s" and acc: "posting_settings d c = Inr acc"
    and pj: "plan_journal d c acc pi s = Inr (lines, warnings)"
    and es: "mapM to_entry lines = Inr es" and rate: "toScaled8 s = Inr rate"
  shows "rate = 100000000" and "100 * account_net a es = - pi_grand_total pi"
proof -
  from apart obtain cm where cm: "purchasing_settings d c = Some cm" "cm_purchasing_default_ap_account_id cm = Some a"
    "cm_purchasing_default_expense_account_id cm \<noteq> Some a" by (rule payables_apartE)
  have ap: "pa_ap acc = a" "pa_expense acc \<noteq> a"
    using acc cm by (auto simp: posting_settings_def inr_simps Let_def truthy_id_def split: if_splits)
  from home rs pi have "s = ''1.00000000''"
    and tot: "pi_grand_total pi = pi_subtotal pi + pi_tax_amount pi" "100 dvd pi_grand_total pi"
    by (auto simp: home_invoice_def)
  moreover have "toScaled8 ''1.00000000'' = Inr 100000000" by code_simp
  ultimately show one: "rate = 100000000" using rate by simp
  from plan_journal_Inr [OF pj rate] obtain groups desc where
    g: "foldM (group_line d c (pa_expense acc) rate) [] (invoice_lines d c (pi_id pi)) = Inr groups"
    and js: "lines = map group_journal groups @ [\<lparr>ji_account_id = pa_ap acc, ji_debit = ''0.0000'',
      ji_credit = fromScaled4 (to_company_currency (pi_subtotal pi) rate +
        to_company_currency (pi_tax_amount pi) rate), ji_description = desc\<rparr>]"
    and nn: "0 \<le> pi_subtotal pi" "0 \<le> pi_tax_amount pi" and gok: "groups_ok groups"
    by metis
  have "to_company_currency (pi_subtotal pi) rate + to_company_currency (pi_tax_amount pi) rate = pi_grand_total pi"
    using nn tot(1) by (simp add: one to_company_currency_one)
  then have entries: "es = map group_entry groups @ [\<lparr>le_account = a, le_debit = 0,
      le_credit = sql_round_div (pi_grand_total pi) 100, le_description = desc\<rparr>]"
    using es plan_entries [OF gok, of "pi_grand_total pi" "pa_ap acc" desc] js nn tot(1) ap(1) by simp
  have "a \<notin> fst ` set groups" by (rule groups_apart [OF apart ap(2) g])
  then have "account_net a (map group_entry groups) = 0"
    unfolding account_net_def by (intro sum_for_none) (force simp: group_entry_def)
  then show "100 * account_net a es = - pi_grand_total pi"
    using whole_cents [OF tot(2)] by (simp add: entries account_net_def sum_for_def)
qed

lemma invoice_kept:
  assumes ok: "settlement_ok d" and kept: "ledger_kept c a d"
    and post: "postPI c' u i g r now d = Inr (res, d')"
    and apart: "c' = c \<Longrightarrow> payables_apart d c a" and home: "c' = c \<Longrightarrow> home_invoice d c i"
  shows "ledger_kept c a d' \<and> gap d' c a = gap d c a"
proof -
  from post obtain plan where prep: "preparePosting d c' i = Inr plan"
    and commit: "commitPosting c' u plan g r now d = Inr (res, d')"
    by (auto simp: postPI_def inr_simps)
  from preparePosting_Inr [OF prep] obtain pi acc where pi: "find_invoice d c' i = Some pi" "pi_status pi = PI_DRAFT"
    and rs: "posting_rate d c' pi = Inr (plan_rate plan)" and acc: "posting_settings d c' = Inr acc"
    and pj: "plan_journal d c' acc pi (plan_rate plan) = Inr (plan_lines plan, plan_warnings plan)"
    and plan: "plan_invoice plan = pi" by metis
  note pp = find_invoice_Some [OF pi(1)]
  from commitPosting_Inr [OF commit] obtain es rate where es: "mapM to_entry (plan_lines plan) = Inr es"
    and rate: "toScaled8 (plan_rate plan) = Inr rate"
    and d': "d' = record_override g r c' u ''PURCHASE_INVOICE'' (pi_id (plan_invoice plan)) now
      (mark_invoice_posted (pi_id (plan_invoice plan)) rate (next_id d T_journal_batch) u now
        (posted_db c' ''PURCHASE_INVOICE'' (pi_id (plan_invoice plan)) (pi_invoice_date (plan_invoice plan))
          now es d))" by metis
  let ?f = "posted_invoice rate (next_id d T_journal_batch) u now"
  have booked: "booked c' es d d'" by (rule booked_posted) (simp_all add: d')
  have worth: "100 * account_net a es = - base_grand_total (?f pi)" if c: "c' = c"
    using invoice_entries_worth [OF apart [OF c] home [OF c] pi(1) [unfolded c] rs [unfolded c] acc [unfolded c]
        pj [unfolded c] es rate] sql_round_div_exact [of 100000000 "pi_grand_total pi"]
    by (simp add: posted_invoice_def base_grand_total_def)
  have open_new: "open_amount d (?f pi) = base_grand_total (?f pi)"
    using draft_unsettled [OF ok _ pi(2)] pp by (intro open_amount_unsettled) (simp add: posted_invoice_def)
  have live: "posted_of c (?f pi) \<longleftrightarrow> c' = c" "\<not> posted_of c pi" "pi_journal_batch_id (?f pi) = Some (next_id d T_journal_batch)"
    using pp pi(2) by (auto simp: posted_of_def posted_invoice_def)
  have dist: "distinct (map pi_id (purchase_invoices d))" using ok by (simp add: settlement_defs)
  have upd: "purchase_invoices d' = update_where (\<lambda>h. pi_id h = i) ?f (purchase_invoices d)" using pp by (simp add: d' plan)
  note changed = invoice_changed [OF dist _ _ upd, of pi, where c = c]
  have "owed d' c = owed d c + (if c' = c then open_amount d (?f pi) else 0)"
    using changed(1) pp live by (simp add: d' posted_invoice_def)
  with booked_control [OF booked, of c a] worth open_new have gap: "gap d' c a = gap d c a" by (auto simp: gap_def)
  have "live_batches d' c \<subseteq> live_batches d c \<union>
      (if posted_of c (?f pi) then {(pi_journal_batch_id (?f pi), - base_grand_total (?f pi))} else {})"
    and same: "settled_invoices d' c = settled_invoices d c"
    by (rule changed; use pp in \<open>simp add: d' posted_invoice_def\<close>)+
  moreover have "posted_invoices d c \<subseteq> posted_invoices d' c"
  proof -
    have "i \<notin> posted_invoices d c"
      using posted_invoice_iff [OF dist] pp live(2) by blast
    moreover have "posted_invoices d c - {i} \<subseteq> posted_invoices d' c"
      by (rule changed; use pp in \<open>simp add: d' posted_invoice_def\<close>)
    ultimately show ?thesis by blast
  qed
  moreover note settled_posted [OF kept]
  moreover have "own_companies d'" by (rule own_same [OF _ _ kept]) (simp_all add: d')
  ultimately have "ledger_kept c a d'"
    unfolding live
    by (intro ledger_kept_booked [OF kept booked, where v = "- base_grand_total (?f pi)"])
      (auto simp: worth split: if_splits)
  with gap show ?thesis by blast
qed

section \<open>Voiding an invoice\<close>

lemma voidPI_Inr:
  assumes "voidPI c u i g r now d = Inr (res, d')"
  obtains pi b f where "find_invoice d c i = Some pi" and "pi_status pi = PI_POSTED" and "pi_journal_batch_id pi = Some b"
    and "d' = record_override g r c u ''PURCHASE_INVOICE_VOID'' i now (mark_invoice_void i u now
      (posted_db c ''PURCHASE_INVOICE_VOID'' i (pi_invoice_date pi) now (map (reverse_entry f) (batch_entries d c b)) d))"
proof -
  from assms obtain pi b where pi: "find_invoice d c i = Some pi" "pi_status pi = PI_POSTED" "pi_journal_batch_id pi = Some b"
    and commit: "commitVoid c u \<lparr>vplan_invoice = pi, vplan_entries = batch_entries d c b\<rparr> g r now d = Inr (res, d')"
    by (auto simp: voidPI_def prepareVoid_def inr_simps)
  have "pi_id pi = i" using find_invoice_Some [OF pi(1)] by simp
  with commit show thesis by (intro that [OF pi]) (auto simp: commitVoid_def inr_simps Let_def)
qed

lemma invoice_voided:
  assumes ok: "settlement_ok d" and void: "voidPI c' u i g r now d = Inr (res, d')"
  obtains iv b f where "find_invoice d c' i = Some iv" and "iv \<in> set (purchase_invoices d)" and "posted_of c' iv"
    and "pi_journal_batch_id iv = Some b" and "booked c' (map (reverse_entry f) (batch_entries d c' b)) d d'"
    and "\<forall>c. owed d' c = owed d c - (if c' = c then open_amount d iv else 0)"
    and "\<forall>c. live_batches d' c \<subseteq> live_batches d c" and "\<forall>c. settled_invoices d' c = settled_invoices d c"
    and "\<forall>c. posted_invoices d c - (if c' = c then {i} else {}) \<subseteq> posted_invoices d' c"
    and "own_companies d \<Longrightarrow> own_companies d'"
proof -
  from void obtain iv b f where iv: "find_invoice d c' i = Some iv" "pi_status iv = PI_POSTED" "pi_journal_batch_id iv = Some b"
    and d': "d' = record_override g r c' u ''PURCHASE_INVOICE_VOID'' i now (mark_invoice_void i u now
      (posted_db c' ''PURCHASE_INVOICE_VOID'' i (pi_invoice_date iv) now (map (reverse_entry f) (batch_entries d c' b)) d))"
    by (rule voidPI_Inr)
  note pp = find_invoice_Some [OF iv(1)]
  have dist: "distinct (map pi_id (purchase_invoices d))" using ok by (simp add: settlement_defs)
  have upd: "purchase_invoices d' = update_where (\<lambda>h. pi_id h = i) (voided_invoice u now) (purchase_invoices d)" by (simp add: d')
  note changed = invoice_changed [OF dist _ _ upd, of iv]
  have dead: "\<not> posted_of c (voided_invoice u now iv)" for c by (simp add: posted_of_def voided_invoice_def)
  have live: "posted_of c iv \<longleftrightarrow> c' = c" for c using pp iv(2) by (auto simp: posted_of_def)
  have frame: "pi_id (voided_invoice u now iv) = i" "pi_company_id (voided_invoice u now iv) = pi_company_id iv"
    using pp by (simp_all add: voided_invoice_def)
  have sum: "owed d' c = owed d c - (if c' = c then open_amount d iv else 0)" for c
    using changed(1) [of c] pp frame dead [of c] live [of c] by (simp add: d')
  have batches: "live_batches d' c \<subseteq> live_batches d c" for c
    using changed(2) [of c] pp frame dead [of c] by (simp add: d')
  have settled: "settled_invoices d' c = settled_invoices d c" for c
    using changed(3) [of c] pp frame by (simp add: d')
  have posted: "posted_invoices d c - (if c' = c then {i} else {}) \<subseteq> posted_invoices d' c" for c
  proof -
    have "posted_invoices d c - {i} \<subseteq> posted_invoices d' c" using changed(4) [of c] pp frame by (simp add: d')
    moreover have "i \<notin> posted_invoices d c" if "c' \<noteq> c"
      using posted_invoice_iff [OF dist, of iv i c] pp live [of c] that by blast
    ultimately show ?thesis by auto
  qed
  have "booked c' (map (reverse_entry f) (batch_entries d c' b)) d d'" by (rule booked_posted) (simp_all add: d')
  moreover have "posted_of c' iv" by (simp add: live)
  moreover have "own_companies d \<Longrightarrow> own_companies d'" by (simp add: own_companies_def d')
  ultimately show thesis using iv pp sum batches settled posted by (intro that [of iv b f]) simp_all
qed

text \<open>The sum and the account part by what posted payments and applied credits have settled.\<close>

lemma invoice_void_gap:
  assumes ok: "settlement_ok d" and kept: "ledger_kept c a d" and void: "voidPI c u i g r now d = Inr (res, d')"
  shows "gap d' c a = gap d c a + paid_total d c i + credited_total d c i"
proof (rule invoice_voided [OF ok void])
  fix iv b f
  assume iv: "find_invoice d c i = Some iv" "iv \<in> set (purchase_invoices d)" "posted_of c iv" "pi_journal_batch_id iv = Some b"
    and booked: "booked c (map (reverse_entry f) (batch_entries d c b)) d d'"
    and sum: "\<forall>c'. owed d' c' = owed d c' - (if c = c' then open_amount d iv else 0)"
  have "(Some b, - base_grand_total iv) \<in> live_batches d c"
    unfolding live_batches_def by (intro UnI1 image_eqI [of _ _ iv]) (use iv in simp_all)
  then have "worth d c a (Some b) (- base_grand_total iv)" by (rule live_worth [OF kept])
  then have "100 * account_net a (map (reverse_entry f) (batch_entries d c b)) = base_grand_total iv"
    by (simp add: worth_def net_reversed)
  with booked_control [OF booked, of c a] sum find_invoice_Some [OF iv(1)] show ?thesis
    by (simp add: gap_def open_amount_def)
qed

lemma unsettled_totals:
  assumes "i \<notin> settled_invoices d c"
  shows "paid_total d c i = 0" and "credited_total d c i = 0"
  using assms by (auto simp: settled_invoices_def paid_total_def credited_total_def intro!: sum_for_none)

lemma invoice_void_kept:
  assumes ok: "settlement_ok d" and kept: "ledger_kept c a d"
    and void: "voidPI c' u i g r now d = Inr (res, d')"
    and free: "c' = c \<Longrightarrow> i \<notin> settled_invoices d c"
  shows "ledger_kept c a d' \<and> gap d' c a = gap d c a"
proof (rule invoice_voided [OF ok void])
  fix iv b f
  assume booked: "booked c' (map (reverse_entry f) (batch_entries d c' b)) d d'"
    and sum: "\<forall>c. owed d' c = owed d c - (if c' = c then open_amount d iv else 0)"
    and sub: "\<forall>c. live_batches d' c \<subseteq> live_batches d c" "\<forall>c. settled_invoices d' c = settled_invoices d c"
      "\<forall>c. posted_invoices d c - (if c' = c then {i} else {}) \<subseteq> posted_invoices d' c"
    and own: "own_companies d \<Longrightarrow> own_companies d'"
  have "posted_invoices d c - (if c' = c then {i} else {}) \<subseteq> posted_invoices d' c" using sub(3) by blast
  with settled_posted [OF kept] free have "settled_invoices d' c \<subseteq> posted_invoices d' c"
    unfolding sub(2) [rule_format] by (cases "c' = c") auto
  moreover have "own_companies d'" using own kept by (simp add: ledger_kept_def)
  ultimately have "ledger_kept c a d'"
    using sub(1)
    by (intro ledger_kept_booked [OF kept booked, where v = "100 * account_net a (map (reverse_entry f) (batch_entries d c' b))"]) auto
  moreover have "gap d' c a = gap d c a"
  proof (cases "c' = c")
    case True
    with void show ?thesis using invoice_void_gap [OF ok kept] unsettled_totals [OF free [OF True]] by simp
  next
    case False
    with booked_control [OF booked, of c a] sum show ?thesis by (simp add: gap_def)
  qed
  ultimately show ?thesis by blast
qed

section \<open>Drafts\<close>

lemma invoice_draft_kept:
  assumes ok: "settlement_ok d" and kept: "ledger_kept c a d" and create: "createDraftPI input now d = Inr (r, d')"
  shows "ledger_kept c a d' \<and> gap d' c a = gap d c a"
proof (cases "existing_invoice d (ipi_companyId input) (ipi_idempotencyKey input)")
  case None
  from createDraftPI_new [OF create None] obtain i where trx: "create_invoice_trx input now d = Inr (i, d')" by metis
  have keys: "invoice_keys d" using ok by (simp add: settlement_defs)
  from create_invoice_trx_effect [OF keys trx] obtain rate rows k where
    d': "d' = d\<lparr>purchase_invoices := purchase_invoices d @ [with_totals (sum_list (map pil_line_total rows))
        (sum_list (map pil_tax_amount rows)) now (new_invoice_row input rate now i)],
      purchase_invoice_lines := purchase_invoice_lines d @ rows, auto_inc := k\<rparr>" by metis
  let ?h = "with_totals (sum_list (map pil_line_total rows)) (sum_list (map pil_tax_amount rows)) now
    (new_invoice_row input rate now i)"
  have draft: "\<not> posted_of c ?h" by (simp add: posted_of_def with_totals_def new_invoice_row_def)
  have inc: "auto_inc d' T_journal_batch = auto_inc d T_journal_batch" by (rule create_invoice_trx_counters [OF trx]) simp_all
  have "owed d' c = owed d c"
  proof (rule owed_drafts)
    show "open_amount d' pi = open_amount d pi" for pi by (rule open_amount_cong) (simp_all add: d')
  qed (simp add: d' with_totals_def new_invoice_row_def)
  moreover have "control d' c a = control d c a" by (rule control_cong) (simp add: d')
  ultimately have "gap d' c a = gap d c a" by (simp add: gap_def)
  have same: "paid_by d' = paid_by d" "applied_by d' = applied_by d" "settled_invoices d' c = settled_invoices d c"
    by (simp_all add: d' fun_eq_iff paid_by_def applied_by_def payment_lines_def settled_invoices_def
        payment_counts_def [abs_def] credit_counts_def [abs_def])
  have posted: "posted_invoices d' c = posted_invoices d c" using draft by (auto simp: d' posted_invoices_def)
  have batches: "live_batches d' c \<subseteq> live_batches d c" using draft unfolding live_batches_def same by (auto simp: d')
  have "own_companies d'" by (rule own_same [OF _ _ kept]) (simp_all add: d')
  then have "ledger_kept c a d'"
    by (intro ledger_kept_cong [OF kept _ inc batches]) (simp_all only: same posted order_refl, simp add: d')
  with \<open>gap d' c a = gap d c a\<close> show ?thesis by blast
next
  case (Some old)
  with create have "d' = d" by (auto simp: createDraftPI_def inr_simps split: if_splits)
  with kept show ?thesis by simp
qed

lemma payment_draft_kept:
  assumes ok: "settlement_ok d" and kept: "ledger_kept c a d" and create: "createDraftAPPayment input now d = Inr (r, d')"
  shows "ledger_kept c a d' \<and> gap d' c a = gap d c a"
proof (cases "d' = d")
  case False
  with createDraftAPPayment_stores [OF create] have created: "payment_created d (iap_companyId input) d'" by blast
  then obtain p ls k where p: "ap_id p = next_id d T_ap_payment" "ap_status p = AP_DRAFT"
    and ls: "draft_lines_for d (iap_companyId input) (ap_id p) ls"
    and k: "\<forall>t. t \<noteq> T_ap_payment \<longrightarrow> t \<noteq> T_ap_payment_line \<longrightarrow> k t = auto_inc d t"
    and d': "d' = d\<lparr>ap_payments := ap_payments d @ [p], ap_payment_lines := ap_payment_lines d @ ls, auto_inc := k\<rparr>"
    by (auto simp: payment_created_def)
  have "ap_id q \<noteq> ap_id p" if "q \<in> set (ap_payments d)" for q
    using ok that p(1) by (fastforce simp: settlement_defs next_id_def)
  moreover have "paid_by d' i = paid_by d i" if "i \<noteq> ap_id p" for i
    using ls that by (simp add: paid_by_def payment_lines_def d' draft_lines_for_def filter_False)
  ultimately have paid: "\<forall>q \<in> set (ap_payments d). paid_by d' (ap_id q) = paid_by d (ap_id q)" by blast
  have other: "applied_by d' = applied_by d" "credit_counts d' = credit_counts d" "posted_invoices d' c = posted_invoices d c"
    by (simp_all add: d' fun_eq_iff applied_by_def credit_counts_def posted_invoices_def)
  have "\<not> live_payment c p" using p(2) by (simp add: live_payment_def)
  then have batches: "live_batches d' c \<subseteq> live_batches d c"
    using paid unfolding live_batches_def other by (auto simp: d')
  have apps: "purchase_credit_applications d' = purchase_credit_applications d" by (simp add: d')
  have lines: "{l \<in> set (ap_payment_lines d'). payment_counts d' c l} = {l \<in> set (ap_payment_lines d). payment_counts d c l}"
    using arg_cong [OF payment_created_counts [OF ok created, of c], where f = set] by (simp only: set_filter)
  have settled: "settled_invoices d' c = settled_invoices d c" unfolding settled_invoices_def lines other apps ..
  have "owed d' c = owed d c"
    by (rule owed_drafts [OF payment_created_opens [OF ok created]]) (simp add: d')
  moreover have "control d' c a = control d c a" by (rule control_cong) (simp add: d')
  moreover have "own_companies d'" by (rule own_same [OF _ _ kept]) (simp_all add: d')
  then have "ledger_kept c a d'"
    by (intro ledger_kept_cong [OF kept _ _ batches]) (simp_all only: settled other(3) order_refl, simp_all add: d' k)
  ultimately show ?thesis by (simp add: gap_def)
qed (use kept in simp)

lemma credit_draft_kept:
  assumes ok: "settlement_ok d" and kept: "ledger_kept c a d" and create: "createDraftPurchaseCredit input now d = Inr (x, d')"
  shows "ledger_kept c a d' \<and> gap d' c a = gap d c a"
proof (cases "d' = d")
  case False
  with create obtain i where trx: "create_credit_trx input now d = Inr (i, d')"
    by (auto simp: createDraftPurchaseCredit_def inr_simps split: option.splits sum.splits if_splits)
  have created: "credit_created d d'" using create_credit_trx_created [OF _ trx] ok by (simp add: settlement_defs)
  then obtain r ls k where r: "pc_id r = next_id d T_purchase_credit" "pc_status r = PC_DRAFT"
    and k: "\<forall>t. t \<noteq> T_purchase_credit \<longrightarrow> t \<noteq> T_purchase_credit_line \<longrightarrow> k t = auto_inc d t"
    and d': "d' = d\<lparr>purchase_credits := purchase_credits d @ [r], purchase_credit_lines := ls, auto_inc := k\<rparr>"
    by (auto simp: credit_created_def)
  have same: "applied_by d' = applied_by d" "paid_by d' = paid_by d" "posted_invoices d' c = posted_invoices d c"
    "payment_counts d' = payment_counts d"
    by (simp_all add: d' fun_eq_iff applied_by_def paid_by_def payment_lines_def posted_invoices_def payment_counts_def)
  have "\<not> live_credit c r" using r(2) by (simp add: live_credit_def)
  then have batches: "live_batches d' c \<subseteq> live_batches d c" unfolding live_batches_def same by (auto simp: d')
  have settled: "settled_invoices d' c = settled_invoices d c"
    unfolding settled_invoices_def same credit_created_counts [OF created] by (simp add: d')
  have "owed d' c = owed d c" by (rule owed_drafts [OF credit_created_opens [OF created]]) (simp add: d')
  moreover have "control d' c a = control d c a" by (rule control_cong) (simp add: d')
  moreover have "own_companies d'"
    using ok kept r(1) by (fastforce simp: own_companies_def ledger_kept_def settlement_defs d' next_id_def)
  then have "ledger_kept c a d'"
    by (intro ledger_kept_cong [OF kept _ _ batches]) (simp_all only: settled same(3) order_refl, simp_all add: d' k)
  ultimately show ?thesis by (simp add: gap_def)
qed (use kept in simp)

section \<open>Runs\<close>

text \<open>
  The operations on payables, under the conditions that make the invoices of the company \<open>c\<close> and
  its account \<open>a\<close> move alike: the account is the payables account of the company and of nothing
  else, amounts are whole cents of its own currency, and no invoice is voided while payments or
  credits are settled with it.  For any other company the operations run as they may; other
  services leave the account alone and add to the ledger only.
\<close>

definition whole_cent_lines :: "db \<Rightarrow> nat \<Rightarrow> bool" where
  "whole_cent_lines d i \<longleftrightarrow> (\<forall>l \<in> set (payment_lines d i). 100 dvd apl_allocation_amount l)"

definition whole_cent_credit :: "PurchaseCreditApplyResult \<Rightarrow> bool" where
  "whole_cent_credit res \<longleftrightarrow> (case toScaled4 (rpa_applied_amount res) of Inl _ \<Rightarrow> False | Inr v \<Rightarrow> 100 dvd v)"

definition ledger_extended :: "db \<Rightarrow> db \<Rightarrow> bool" where
  "ledger_extended d d' \<longleftrightarrow> auto_inc d T_journal_batch \<le> auto_inc d' T_journal_batch \<and>
     (\<exists>ls. journal_lines d' = journal_lines d @ ls \<and> (\<forall>l \<in> set ls. auto_inc d T_journal_batch < jl_journal_batch_id l \<and>
        jl_journal_batch_id l \<le> auto_inc d' T_journal_batch))"

inductive payables_step :: "nat \<Rightarrow> nat \<Rightarrow> db \<Rightarrow> db \<Rightarrow> bool" for c a where
  draft_invoice: "createDraftPI pin now d = Inr (pr, d') \<Longrightarrow> payables_step c a d d'"
| post_invoice: "postPI c' u i g rs now d = Inr (pp, d') \<Longrightarrow>
    c' = c \<longrightarrow> payables_apart d c a \<and> home_invoice d c i \<Longrightarrow> payables_step c a d d'"
| void_invoice: "voidPI c' u i g rs now d = Inr (iv, d') \<Longrightarrow>
    c' = c \<longrightarrow> i \<notin> settled_invoices d c \<Longrightarrow> payables_step c a d d'"
| draft_payment: "createDraftAPPayment ain now d = Inr (ar, d') \<Longrightarrow> payables_step c a d d'"
| post_payment: "postAPPayment c' u i g rs now d = Inr (iv, d') \<Longrightarrow>
    c' = c \<longrightarrow> payment_ap_account d c = Inr a \<and> whole_cent_lines d i \<Longrightarrow> payables_step c a d d'"
| void_payment: "voidAPPayment c' u i g rs now d = Inr (iv, d') \<Longrightarrow> payables_step c a d d'"
| draft_credit: "createDraftPurchaseCredit cin now d = Inr (cr, d') \<Longrightarrow> payables_step c a d d'"
| apply_credit: "applyPurchaseCredit c' u i g rs now d = Inr (ca, d') \<Longrightarrow>
    c' = c \<longrightarrow> payables_apart d c a \<and> whole_cent_credit ca \<Longrightarrow> payables_step c a d d'"
| void_credit: "voidPurchaseCredit c' u i g rs now d = Inr (cv, d') \<Longrightarrow> payables_step c a d d'"
| other_service: "purchase_invoices d' = purchase_invoices d \<Longrightarrow> purchase_invoice_lines d' = purchase_invoice_lines d \<Longrightarrow>
    ap_payments d' = ap_payments d \<Longrightarrow> ap_payment_lines d' = ap_payment_lines d \<Longrightarrow>
    purchase_credits d' = purchase_credits d \<Longrightarrow> purchase_credit_applications d' = purchase_credit_applications d \<Longrightarrow>
    auto_inc d' T_purchase_invoice = auto_inc d T_purchase_invoice \<Longrightarrow>
    auto_inc d' T_ap_payment = auto_inc d T_ap_payment \<Longrightarrow>
    auto_inc d' T_purchase_credit = auto_inc d T_purchase_credit \<Longrightarrow>
    ledger_extended d d' \<Longrightarrow> control d' c a = control d c a \<Longrightarrow> payables_step c a d d'"

inductive_cases payables_stepE: "payables_step c a d d'"

lemma payables_settlement: "payables_step c a d d' \<Longrightarrow> settlement_step d d'"
  by (erule payables_stepE) (blast intro: settlement_step.intros)+

lemma extended_worth:
  assumes "ledger_extended d d'" and "worth d c a bo v"
  shows "worth d' c a bo v"
proof -
  have "batch_entries d' c b = batch_entries d c b" if "b \<le> auto_inc d T_journal_batch" for b
    using assms(1) that by (fastforce simp: ledger_extended_def batch_entries_def filter_empty_conv)
  with assms show ?thesis by (auto simp: worth_def ledger_extended_def split: option.splits)
qed

lemma other_service_kept:
  assumes kept: "ledger_kept c a d" and frame: "purchase_invoices d' = purchase_invoices d"
    "ap_payments d' = ap_payments d" "ap_payment_lines d' = ap_payment_lines d"
    "purchase_credits d' = purchase_credits d" "purchase_credit_applications d' = purchase_credit_applications d"
    and ext: "ledger_extended d d'" and control: "control d' c a = control d c a"
  shows "ledger_kept c a d' \<and> gap d' c a = gap d c a"
proof -
  have "open_amount d' pi = open_amount d pi" for pi by (rule open_amount_cong) (fact frame)+
  then have "owed d' c = owed d c" by (intro owed_drafts) (simp_all add: frame)
  moreover have "live_batches d' c = live_batches d c" "settled_invoices d' c = settled_invoices d c"
    "posted_invoices d' c = posted_invoices d c"
    by (simp_all add: live_batches_def settled_invoices_def posted_invoices_def paid_by_def applied_by_def
        payment_lines_def payment_counts_def [abs_def] credit_counts_def [abs_def] frame)
  moreover have "wf_ledger d'"
    using kept ext unfolding ledger_kept_def wf_ledger_def ledger_extended_def by (auto intro: le_trans)
  moreover have "own_companies d'" by (rule own_same [OF frame(4,5) kept])
  ultimately show ?thesis
    using kept extended_worth [OF ext] by (auto simp: gap_def control ledger_kept_def)
qed

lemma payables_step_kept:
  assumes ok: "settlement_ok d" and kept: "ledger_kept c a d" and "payables_step c a d d'"
  shows "ledger_kept c a d' \<and> gap d' c a = gap d c a"
  using assms(3)
proof cases
  case (post_invoice c' u i g rs now pp)
  then show ?thesis by (intro invoice_kept [OF ok kept]) auto
next
  case (void_invoice c' u i g rs now iv)
  then show ?thesis by (intro invoice_void_kept [OF ok kept]) auto
next
  case (post_payment c' u i g rs now iv)
  then show ?thesis by (intro payment_kept [OF ok kept]) (auto simp: whole_cent_lines_def)
next
  case (apply_credit c' u i g rs now ca)
  then show ?thesis
    by (intro credit_kept [OF ok kept]) (auto simp: whole_cent_credit_def split: sum.splits elim: payables_apartE)
next
  case other_service
  then show ?thesis by (intro other_service_kept [OF kept])
qed (erule invoice_draft_kept [OF ok kept] payment_draft_kept [OF ok kept] credit_draft_kept [OF ok kept]
    payment_void_kept [OF ok kept] credit_void_kept [OF ok kept])+

text \<open>What every run keeps, from a difference that is given.\<close>

definition payables_kept :: "nat \<Rightarrow> nat \<Rightarrow> int \<Rightarrow> db \<Rightarrow> bool" where
  "payables_kept c a v d \<longleftrightarrow> settlement_ok d \<and> ledger_kept c a d \<and> gap d c a = v"

interpretation payables: step_invariant "payables_kept c a v" "payables_step c a" "payables_kept c a v"
  by unfold_locales
    (auto simp: payables_kept_def payables_step_kept intro: settlement_step_ok dest: payables_settlement)

text \<open>A company that starts without documents and without entries on the account.\<close>

lemma payables_start:
  assumes "settlement_start d" and "wf_ledger d" and "control d c a = 0"
  shows "payables_kept c a 0 d"
  using assms settlement_start_ok
  by (simp add: payables_kept_def gap_def owed_def ledger_kept_def live_batches_def settled_invoices_def
      own_companies_def settlement_start_def)

end
