(* ===== verification/Ap_Reconciliation.thy ===== *)
theory Ap_Reconciliation
  imports Open_Amount Signed_Decimal Json_Text Js_Number
begin

text \<open>
  The reconciliation of the payables with the general ledger
  (\<open>services/ap-reconciliation-service.ts\<close>): which control accounts count (a setting of the
  company, or the default account of the purchasing module), what the invoices of the company have
  open, what the control accounts show, and the difference.  The time zone database is a parameter:
  \<open>valid_zone\<close> is \<open>isValidTimeZone\<close>, and \<open>day_end\<close> the instant that
  \<open>toUtcIso.businessDate(date, zone, "end")\<close> names, on the clock of \<open>posted_at\<close>.
\<close>

section \<open>Errors and constants\<close>

datatype recon_error =
    Recon_settings_required
  | Recon_invalid_account nat string
  | Recon_cross_tenant nat
  | Recon_timezone_required nat "string option" "string option"
  | Recon_invalid_decimal string
  | Recon_sql_error

type_synonym 'a rres = "recon_error + 'a"

definition recon_decimal :: "string \<Rightarrow> nat \<Rightarrow> int rres" where
  "recon_decimal value scale = with_error Recon_invalid_decimal (signed_toScaled value scale)"

definition AP_RECONCILIATION_ACCOUNT_IDS_KEY :: string where
  "AP_RECONCILIATION_ACCOUNT_IDS_KEY = ''ap_reconciliation_account_ids''"

definition AP_CONTROL_ACCOUNT_TYPE_NAMES :: "string list" where
  "AP_CONTROL_ACCOUNT_TYPE_NAMES = [''CREDITOR'', ''CREDITORS'', ''ACCOUNTS_PAYABLE'', ''TRADE_CREDITORS'',
     ''SUPPLIER_CREDITORS'', ''LIABILITY'', ''CURRENT_LIABILITY'', ''TRADE_LIABILITY'']"

section \<open>The tables\<close>

record settings_string_row =
  str_company_id :: nat
  str_created_at :: int
  str_id :: nat
  str_outlet_id :: "nat option"
  str_setting_key :: string
  str_setting_value :: "string option"
  str_updated_at :: int

text \<open>Of the outlets only the columns that the service reads.\<close>

record outlet_row =
  out_company_id :: nat
  out_code :: string
  out_timezone :: "string option"

text \<open>The purchasing tables, the settings with the last key given, and the outlets.\<close>

record recon_db =
  rd_db :: db
  settings_strings :: "settings_string_row list"
  rd_last_setting :: nat
  rd_outlets :: "outlet_row list"

section \<open>\<open>Number\<close>\<close>

text \<open>
  \<open>Number(v)\<close> of a parsed JSON value; \<open>None\<close> is NaN or infinite.  A number's text is read
  to the nearest double; an array is turned into text first, so one element counts as itself
  and several never as a number.
\<close>

definition exponent_of :: "string \<Rightarrow> int option" where
  "exponent_of s =
     (case s of
        [] \<Rightarrow> Some 0
      | e # f \<Rightarrow>
          if e \<notin> {CHR ''e'', CHR ''E''} then None
          else
            let negative = (take 1 f = ''-'');
                ds = (if take 1 f \<in> {''-'', ''+''} then drop 1 f else f)
            in if ds = [] \<or> \<not> list_all is_digit ds then None
               else Some (if negative then - int_of_str ds else int_of_str ds))"

definition decimal_number :: "string \<Rightarrow> rat option" where
  "decimal_number s =
     (let negative = (take 1 s = ''-'');
          u = (if take 1 s \<in> {''-'', ''+''} then drop 1 s else s);
          whole = takeWhile is_digit u;
          r = dropWhile is_digit u;
          frac = (if take 1 r = ''.'' then takeWhile is_digit (drop 1 r) else []);
          rest = (if take 1 r = ''.'' then dropWhile is_digit (drop 1 r) else r)
      in if whole = [] \<and> frac = [] then None
         else map_option (\<lambda>e. (if negative then -1 else 1) *
             fl (of_int (int_of_str (whole @ frac)) * 10 powi (e - int (length frac)))) (exponent_of rest))"

definition radix_digit :: "char \<Rightarrow> nat" where
  "radix_digit c = (case hex_value c of None \<Rightarrow> 16 | Some v \<Rightarrow> v)"

definition radix_number :: "nat \<Rightarrow> string \<Rightarrow> rat option" where
  "radix_number b s =
     (if s = [] \<or> \<not> list_all (\<lambda>c. radix_digit c < b) s then None
      else Some (fl (of_nat (foldl (\<lambda>n c. b * n + radix_digit c) 0 s))))"

definition string_number :: "string \<Rightarrow> rat option" where
  "string_number s =
     (let t = js_trim s; p = take 2 t in
      if t = [] then Some 0
      else if p \<in> {''0x'', ''0X''} then radix_number 16 (drop 2 t)
      else if p \<in> {''0o'', ''0O''} then radix_number 8 (drop 2 t)
      else if p \<in> {''0b'', ''0B''} then radix_number 2 (drop 2 t)
      else decimal_number t)"

fun element_number :: "json \<Rightarrow> rat option" where
  "element_number JNull = Some 0"
| "element_number (JBool b) = None"
| "element_number (JNumber s) = decimal_number s"
| "element_number (JString s) = string_number s"
| "element_number (JArray []) = Some 0"
| "element_number (JArray [v]) = element_number v"
| "element_number (JArray (v # w # vs)) = None"
| "element_number (JObject ms) = None"

definition json_number :: "json \<Rightarrow> rat option" where
  "json_number v = (case v of JBool b \<Rightarrow> Some (if b then 1 else 0) | _ \<Rightarrow> element_number v)"

text \<open>\<open>Number.isSafeInteger(n) && n > 0\<close>\<close>

definition safe_key :: "rat \<Rightarrow> bool" where
  "safe_key n \<longleftrightarrow> of_int \<lfloor>n\<rfloor> = n \<and> n < 2 ^ 53 \<and> 0 < n"

section \<open>The control accounts\<close>

definition isAPControlAccount :: "db \<Rightarrow> nat \<Rightarrow> nat \<Rightarrow> bool" where
  "isAPControlAccount d companyId accountId \<longleftrightarrow>
     list_ex (\<lambda>a. acc_id a = accountId \<and> acc_company_id a = companyId \<and> acc_is_active a = 1 \<and>
       (acc_is_payable a = 1 \<or>
        (case acc_type_name a of None \<Rightarrow> False | Some t \<Rightarrow> js_upper t \<in> set AP_CONTROL_ACCOUNT_TYPE_NAMES)))
       (accounts d)"

definition account_ids_setting :: "nat \<Rightarrow> settings_string_row \<Rightarrow> bool" where
  "account_ids_setting companyId r \<longleftrightarrow> str_company_id r = companyId \<and> str_outlet_id r = None \<and>
     str_setting_key r = AP_RECONCILIATION_ACCOUNT_IDS_KEY"

definition parse_account_ids :: "string \<Rightarrow> nat list option" where
  "parse_account_ids settingValue =
     (case json_parse settingValue of
        Some (JArray parsed) \<Rightarrow>
          Some (map (\<lambda>n. nat \<lfloor>n\<rfloor>) (filter safe_key (List.map_filter json_number parsed)))
      | _ \<Rightarrow> None)"

text \<open>
  The setting is read with \<open>LIMIT 1\<close> and no \<open>ORDER BY\<close>: which of several matching rows the database
  answers is not determined, and \<open>pick\<close> stands for its choice.
\<close>

type_synonym row_choice = "settings_string_row list \<Rightarrow> settings_string_row"

definition getAPReconciliationAccountIds :: "row_choice \<Rightarrow> recon_db \<Rightarrow> nat \<Rightarrow> nat list option" where
  "getAPReconciliationAccountIds pick d companyId =
     (let rows = filter (account_ids_setting companyId) (settings_strings d) in
      if rows = [] then None
      else parse_account_ids (case str_setting_value (pick rows) of None \<Rightarrow> ''null'' | Some s \<Rightarrow> s))"

datatype account_source = From_settings | From_company_default | No_accounts

record APReconciliationSettings =
  rs_accountIds :: "nat list"
  rs_source :: account_source

definition default_control_account :: "db \<Rightarrow> nat \<Rightarrow> nat option" where
  "default_control_account d companyId =
     Option.bind (find (\<lambda>cm. cm_company_id cm = companyId \<and>
         (\<exists>m \<in> set (modules d). mod_id m = cm_module_id cm \<and> mod_code m = ''purchasing'') \<and>
         cm_purchasing_default_ap_account_id cm \<noteq> None) (company_modules d))
       cm_purchasing_default_ap_account_id"

definition getAPReconciliationSettings :: "row_choice \<Rightarrow> recon_db \<Rightarrow> nat \<Rightarrow> APReconciliationSettings" where
  "getAPReconciliationSettings pick d companyId =
     (let settingAccountIds = (case getAPReconciliationAccountIds pick d companyId of None \<Rightarrow> [] | Some ids \<Rightarrow> ids);
          validAccounts = filter (isAPControlAccount (rd_db d) companyId) settingAccountIds
      in if validAccounts \<noteq> [] then \<lparr>rs_accountIds = validAccounts, rs_source = From_settings\<rparr>
         else (case default_control_account (rd_db d) companyId of
             Some defaultAccountId \<Rightarrow>
               if isAPControlAccount (rd_db d) companyId defaultAccountId
               then \<lparr>rs_accountIds = [defaultAccountId], rs_source = From_company_default\<rparr>
               else \<lparr>rs_accountIds = [], rs_source = No_accounts\<rparr>
           | None \<Rightarrow> \<lparr>rs_accountIds = [], rs_source = No_accounts\<rparr>))"

definition validate_account :: "db \<Rightarrow> nat \<Rightarrow> nat \<Rightarrow> unit rres" where
  "validate_account d companyId accountId =
     bindR (from_opt (Recon_invalid_account accountId ''Account not found or inactive'')
       (find (\<lambda>a. acc_id a = accountId) (accounts d))) (\<lambda>account.
     bindR (require (acc_company_id account = companyId) (Recon_cross_tenant accountId)) (\<lambda>_.
     bindR (require (acc_is_active account = 1) (Recon_invalid_account accountId ''Account is inactive'')) (\<lambda>_.
       let isPayable = (acc_is_payable account = 1);
           typeName = js_upper (case acc_type_name account of None \<Rightarrow> [] | Some t \<Rightarrow> t);
           isCreditorType = (typeName \<in> set AP_CONTROL_ACCOUNT_TYPE_NAMES)
       in require (isPayable \<or> isCreditorType)
            (Recon_invalid_account accountId (''Account type '' @ [CHR 39] @
              (case acc_type_name account of None \<Rightarrow> ''NULL'' | Some t \<Rightarrow> t) @ [CHR 39] @
              '' is not AP-control compatible. Set is_payable=1 or use a creditor/liability account type.'')))))"

text \<open>An empty list makes the query \<open>WHERE id IN ()\<close>, which the database rejects.\<close>

definition validateAPReconciliationAccountIds :: "db \<Rightarrow> nat \<Rightarrow> nat list \<Rightarrow> unit rres" where
  "validateAPReconciliationAccountIds d companyId accountIds =
     bindR (require (accountIds \<noteq> []) Recon_sql_error) (\<lambda>_.
       foldM (\<lambda>_ accountId. validate_account d companyId accountId) () accountIds)"

fun comma_separated :: "string list \<Rightarrow> string" where
  "comma_separated [] = []"
| "comma_separated [s] = s"
| "comma_separated (s # t # ss) = s @ '','' @ comma_separated (t # ss)"

definition stringify_ids :: "nat list \<Rightarrow> string" where
  "stringify_ids ids = ''['' @ comma_separated (map nat_str ids) @ '']''"

text \<open>Two values are the same to a unique key when neither is \<open>NULL\<close>.\<close>

definition sql_same :: "'a option \<Rightarrow> 'a option \<Rightarrow> bool" where
  "sql_same x y \<longleftrightarrow> x \<noteq> None \<and> x = y"

definition setting_conflict :: "nat \<Rightarrow> nat option \<Rightarrow> string \<Rightarrow> settings_string_row \<Rightarrow> bool" where
  "setting_conflict companyId outletId key r \<longleftrightarrow> str_company_id r = companyId \<and>
     sql_same (str_outlet_id r) outletId \<and> str_setting_key r = key"

definition saveAPReconciliationSettings :: "nat \<Rightarrow> nat list \<Rightarrow> int \<Rightarrow> recon_db \<Rightarrow> recon_db rres" where
  "saveAPReconciliationSettings companyId accountIds now d =
     bindR (validateAPReconciliationAccountIds (rd_db d) companyId accountIds) (\<lambda>_.
       let settingValue = stringify_ids accountIds;
           conflict = setting_conflict companyId None AP_RECONCILIATION_ACCOUNT_IDS_KEY
       in Inr (if list_ex conflict (settings_strings d)
          then d\<lparr>settings_strings := update_where conflict
                 (\<lambda>r. r\<lparr>str_setting_value := Some settingValue, str_updated_at := now\<rparr>) (settings_strings d)\<rparr>
          else d\<lparr>settings_strings := settings_strings d @
                 [\<lparr>str_company_id = companyId, str_created_at = now, str_id = Suc (rd_last_setting d),
                   str_outlet_id = None, str_setting_key = AP_RECONCILIATION_ACCOUNT_IDS_KEY,
                   str_setting_value = Some settingValue, str_updated_at = now\<rparr>],
                 rd_last_setting := Suc (rd_last_setting d)\<rparr>))"

section \<open>The time zone of the company\<close>

definition resolveCompanyTimezone :: "(string \<Rightarrow> bool) \<Rightarrow> recon_db \<Rightarrow> nat \<Rightarrow> string rres" where
  "resolveCompanyTimezone valid_zone d companyId =
     (let outletTimezone = Option.bind (find (\<lambda>r. out_company_id r = companyId \<and> out_code r = ''MAIN'')
            (rd_outlets d)) out_timezone;
          companyTimezone = Option.bind (find (\<lambda>r. co_id r = companyId) (companies (rd_db d))) co_timezone;
          usable = (\<lambda>z. Option.bind (truthy_str z) (\<lambda>t. if valid_zone t then Some t else None))
      in case usable outletTimezone of
           Some z \<Rightarrow> Inr z
         | None \<Rightarrow> (case usable companyTimezone of
             Some z \<Rightarrow> Inr z
           | None \<Rightarrow> Inl (Recon_timezone_required companyId outletTimezone companyTimezone)))"

section \<open>The two balances\<close>

definition recon_computeBaseAmount :: "string \<Rightarrow> string \<Rightarrow> int rres" where
  "recon_computeBaseAmount originalAmount exchangeRate =
     bindR (recon_decimal originalAmount 4) (\<lambda>originalScaled.
     bindR (recon_decimal exchangeRate 8) (\<lambda>rateScaled.
       let scaleFactor = 10 ^ 8
       in Inr (big_div (originalScaled * rateScaled + big_div scaleFactor 2) scaleFactor)))"

definition ap_subledger_invoice :: "nat \<Rightarrow> int \<Rightarrow> purchase_invoice_row \<Rightarrow> bool" where
  "ap_subledger_invoice companyId asOfDate iv \<longleftrightarrow> pi_company_id iv = companyId \<and>
     pi_status iv = PI_POSTED \<and> pi_invoice_date iv \<le> asOfDate"

text \<open>
  One round of the loop over the joined rows; the columns \<open>paid_base\<close> and \<open>credited_base\<close>
  are the aggregates of \<open>Open_Amount\<close>, without any condition on dates.
\<close>

definition add_open_base :: "db \<Rightarrow> nat \<Rightarrow> int \<Rightarrow> purchase_invoice_row \<Rightarrow> int rres" where
  "add_open_base d companyId totalBase iv =
     bindR (recon_computeBaseAmount (db_decimal 4 (pi_grand_total iv)) (db_decimal 8 (pi_exchange_rate iv))) (\<lambda>baseTotal.
     bindR (recon_decimal (db_decimal 4 (paid_total d companyId (pi_id iv))) 4) (\<lambda>paidBase.
     bindR (recon_decimal (db_decimal 4 (credited_total d companyId (pi_id iv))) 4) (\<lambda>creditedBase.
       let openBase = baseTotal - paidBase - creditedBase
       in Inr (if 0 < openBase then totalBase + openBase else totalBase))))"

definition getAPSubledgerBalance :: "db \<Rightarrow> nat \<Rightarrow> int \<Rightarrow> int rres" where
  "getAPSubledgerBalance d companyId asOfDate =
     foldM (add_open_base d companyId) 0 (filter (ap_subledger_invoice companyId asOfDate) (purchase_invoices d))"

definition control_line :: "db \<Rightarrow> nat \<Rightarrow> nat list \<Rightarrow> int \<Rightarrow> journal_line_row \<Rightarrow> bool" where
  "control_line d companyId accountIds asOfDateUtcEnd l \<longleftrightarrow> jl_company_id l = companyId \<and>
     jl_account_id l \<in> set accountIds \<and>
     (\<exists>b \<in> set (journal_batches d). jb_id b = jl_journal_batch_id l \<and> jb_posted_at b \<le> asOfDateUtcEnd)"

text \<open>\<open>SUM\<close> of a column with two decimals: \<open>NULL\<close> over no rows.\<close>

definition sql_sum2 :: "int list \<Rightarrow> string option" where
  "sql_sum2 vs = (if vs = [] then None else Some (db_decimal 2 (sum_list vs)))"

definition getGLControlBalance :: "db \<Rightarrow> nat \<Rightarrow> nat list \<Rightarrow> int \<Rightarrow> int rres" where
  "getGLControlBalance d companyId accountIds asOfDateUtcEnd =
     (if accountIds = [] then Inr 0
      else
        let rows = filter (control_line d companyId accountIds asOfDateUtcEnd) (journal_lines d);
            or_zero = (\<lambda>v. case v of None \<Rightarrow> ''0'' | Some s \<Rightarrow> s)
        in bindR (recon_decimal (or_zero (sql_sum2 (map jl_debit rows))) 4) (\<lambda>totalDebit.
           bindR (recon_decimal (or_zero (sql_sum2 (map jl_credit rows))) 4) (\<lambda>totalCredit.
             Inr (totalCredit - totalDebit))))"

section \<open>The summary\<close>

record APReconciliationSummaryResult =
  sm_asOfDate :: int
  sm_apSubledgerBalance :: string
  sm_glControlBalance :: string
  sm_variance :: string
  sm_configuredAccountIds :: "nat list"
  sm_accountSource :: account_source
  sm_currency :: string

definition getAPReconciliationSummary ::
  "row_choice \<Rightarrow> (string \<Rightarrow> bool) \<Rightarrow> (string \<Rightarrow> int \<Rightarrow> int) \<Rightarrow> recon_db \<Rightarrow> nat \<Rightarrow> int \<Rightarrow>
     APReconciliationSummaryResult rres" where
  "getAPReconciliationSummary pick valid_zone day_end d companyId asOfDate =
     (let settings = getAPReconciliationSettings pick d companyId in
      bindR (require (rs_accountIds settings \<noteq> []) Recon_settings_required) (\<lambda>_.
      bindR (resolveCompanyTimezone valid_zone d companyId) (\<lambda>timezone.
        let asOfDateUtcEnd = day_end timezone asOfDate in
        bindR (getAPSubledgerBalance (rd_db d) companyId asOfDate) (\<lambda>apBalance.
        bindR (getGLControlBalance (rd_db d) companyId (rs_accountIds settings) asOfDateUtcEnd) (\<lambda>glBalance.
          let variance = apBalance - glBalance in
          Inr \<lparr>sm_asOfDate = asOfDate, sm_apSubledgerBalance = signed_fromScaled4 apBalance,
            sm_glControlBalance = signed_fromScaled4 glBalance, sm_variance = signed_fromScaled4 variance,
            sm_configuredAccountIds = rs_accountIds settings, sm_accountSource = rs_source settings,
            sm_currency = ''BASE''\<rparr>)))))"

end
