(* ===== verification/Reconciliation_Settings.thy ===== *)
theory Reconciliation_Settings
  imports Ap_Reconciliation Sample_Tables
begin

text \<open>
  What a company reads back of the control accounts it saved: the list goes through
  \<open>JSON.stringify\<close>, the database, \<open>JSON.parse\<close> and \<open>Number\<close>.
\<close>

section \<open>The text of a key\<close>

lemma int_digits_head: "0 < n \<Longrightarrow> 0 < hd (int_digits n)"
proof (induction n rule: int_digits.induct)
  case (1 n)
  show ?case
  proof (cases "n < 10")
    case True
    with "1.prems" show ?thesis by (subst int_digits.simps) simp
  next
    case False
    with "1.IH" have "0 < hd (int_digits (n div 10))" by simp
    with False show ?thesis by (subst int_digits.simps) simp
  qed
qed

lemma nat_str_head:
  assumes "0 < k"
  obtains c ds where "nat_str k = c # ds" and "is_digit c" and "c \<noteq> CHR ''0''" and "list_all is_digit ds"
proof -
  obtain d ds where ds: "int_digits (int k) = d # ds" using int_digits_not_Nil by (cases "int_digits (int k)") auto
  have d: "0 < d" using int_digits_head [of "int k"] assms by (simp add: ds)
  have "d < 10" using int_digits_bound [of d "int k"] by (simp add: ds)
  then have "is_digit (digit_char d)" "digit_val (digit_char d) = d" using d by simp_all
  moreover have "digit_char d \<noteq> CHR ''0''" using d calculation(2) digit_zero(2) by fastforce
  moreover have "list_all is_digit (nat_str k)" by simp
  moreover have "nat_str k = digit_char d # map digit_char ds" by (simp add: nat_str_def int_str_def ds)
  ultimately show thesis using that by simp
qed

lemma digit_codes:
  assumes "is_digit c"
  shows "number_char c" "skip_space (c # s) = c # s" "c \<noteq> CHR 34" "c \<noteq> CHR ''[''" "c \<noteq> CHR '']''" "c \<noteq> CHR ''{''"
    "c \<noteq> CHR ''-''" "c \<noteq> CHR ''+''" "c \<noteq> CHR ''n''" "c \<noteq> CHR ''t''" "c \<noteq> CHR ''f''"
  using assms by (auto simp: number_char_def skip_space_def is_digit_def)

lemma nat_str_number:
  assumes "0 < k"
  shows "number_ok (nat_str k)"
proof -
  obtain c ds where s: "nat_str k = c # ds" "is_digit c" "c \<noteq> CHR ''0''" "list_all is_digit ds"
    by (rule nat_str_head [OF assms])
  have "drop_digits (c # ds) = Some []"
    using s(2,4) by (simp add: drop_digits_def list_all_iff)
  moreover have "(case c # ds of CHR ''-'' # r \<Rightarrow> r | _ \<Rightarrow> c # ds) = c # ds"
    using digit_codes(7) [OF s(2)] by (auto split: char.splits bool.splits)
  ultimately show ?thesis
    using s(3) by (simp add: number_ok_def s(1) Let_def)
qed

lemma parse_key:
  assumes "0 < k" and "q = [] \<or> \<not> number_char (hd q)"
  shows "parse_value (Suc n) (nat_str k @ q) = Some (JNumber (nat_str k), q)"
proof -
  obtain c ds where s: "nat_str k = c # ds" "is_digit c" "list_all is_digit ds"
    by (rule nat_str_head [OF assms(1)])
  have all: "\<forall>x \<in> set (nat_str k). number_char x"
    using digit_codes(1) s by (simp add: list_all_iff)
  have "takeWhile number_char (nat_str k @ q) = nat_str k" "dropWhile number_char (nat_str k @ q) = q"
    using all assms(2) by (cases q; simp add: takeWhile_append2 dropWhile_append2)+
  moreover have "take 4 (nat_str k @ q) \<noteq> ''null''" "take 4 (nat_str k @ q) \<noteq> ''true''" "take 5 (nat_str k @ q) \<noteq> ''false''"
    using digit_codes(9-11) [OF s(2)] by (simp_all add: s(1) numeral_eq_Suc)
  ultimately have "parse_literal (nat_str k @ q) = Some (JNumber (nat_str k), q)"
    using nat_str_number [OF assms(1)] by (simp add: parse_literal_def)
  then show ?thesis using digit_codes [OF s(2)] by (simp add: s(1))
qed

lemma key_number:
  assumes "0 < k" and "k < 2 ^ 53"
  shows "json_number (JNumber (nat_str k)) = Some (of_nat k)"
proof -
  obtain c ds where s: "nat_str k = c # ds" "is_digit c" "list_all is_digit ds"
    by (rule nat_str_head [OF assms(1)])
  have v: "int_of_str (nat_str k) = int k" by (simp add: nat_str_def)
  have "\<bar>int k\<bar> \<le> 2 ^ 53"
    using assms(2) by (metis abs_of_nat less_imp_le of_nat_le_iff of_nat_numeral of_nat_power)
  then have "fl (of_int (int k)) = of_int (int k)" by (rule fl_int)
  moreover have "takeWhile is_digit (c # ds) = c # ds" "dropWhile is_digit (c # ds) = []"
    using s(2,3) by (simp_all add: list_all_iff)
  ultimately show ?thesis
    using digit_codes(7,8) [OF s(2)] v
    by (simp add: json_number_def decimal_number_def Let_def s(1) exponent_of_def)
qed

section \<open>The list\<close>

lemma comma_separated_head:
  assumes "ids \<noteq> []" and "\<forall>k \<in> set ids. 0 < k"
  obtains c r where "comma_separated (map nat_str ids) = c # r" and "is_digit c"
proof -
  obtain k ks where ids: "ids = k # ks" using assms(1) by (cases ids) auto
  then obtain c ds where "nat_str k = c # ds" "is_digit c" using assms(2) by (metis list.set_intros(1) nat_str_head)
  then show thesis using that ids by (cases ks) auto
qed

lemma element_end:
  "parse_value n s = Some (v, CHR '']'' # r) \<Longrightarrow> parse_elements (Suc n) s = Some ([v], r)"
  by (simp add: skip_space_def)

lemma element_next:
  "parse_value n s = Some (v, CHR '','' # r) \<Longrightarrow>
    parse_elements (Suc n) s = map_option (\<lambda>(vs, r'). (v # vs, r')) (parse_elements n r)"
  by (simp add: skip_space_def)

lemma separators: "\<not> number_char (CHR '','')" "\<not> number_char (CHR '']'')"
  by code_simp+

lemma parse_keys:
  "ids \<noteq> [] \<Longrightarrow> \<forall>k \<in> set ids. 0 < k \<Longrightarrow>
    parse_elements (Suc (Suc (length ids + n))) (comma_separated (map nat_str ids) @ CHR '']'' # r) =
      Some (map (\<lambda>k. JNumber (nat_str k)) ids, r)"
proof (induction ids rule: induct_list012)
  case (2 k)
  then have "parse_value (Suc (Suc n)) (nat_str k @ CHR '']'' # r) = Some (JNumber (nat_str k), CHR '']'' # r)"
    by (intro parse_key) (simp_all add: separators)
  from element_end [OF this] show ?case by (simp del: parse_elements.simps)
next
  case (3 k l ids)
  let ?q = "comma_separated (map nat_str (l # ids)) @ CHR '']'' # r"
  have "parse_value (Suc (length (l # ids) + Suc n)) (nat_str k @ CHR '','' # ?q) = Some (JNumber (nat_str k), CHR '','' # ?q)"
    using "3.prems" by (intro parse_key) (simp_all add: separators)
  from element_next [OF this] "3.IH"(2) "3.prems" show ?case by (simp del: parse_elements.simps)
qed simp

lemma comma_separated_length: "length ids \<le> length (comma_separated (map nat_str ids))"
proof (induction ids rule: induct_list012)
  case (2 k)
  then show ?case by (cases "nat_str k") auto
next
  case (3 k l ids)
  then show ?case by (cases "nat_str k") auto
qed simp

lemma parse_stringify_ids:
  assumes "ids \<noteq> []" and "\<forall>k \<in> set ids. 0 < k"
  shows "json_parse (stringify_ids ids) = Some (JArray (map (\<lambda>k. JNumber (nat_str k)) ids))"
proof -
  let ?s = "stringify_ids ids"
  obtain c r where r: "comma_separated (map nat_str ids) = c # r" "is_digit c"
    by (rule comma_separated_head [OF assms])
  have "length ids + 2 \<le> 2 * length ?s + 1"
    using comma_separated_length [of ids] by (simp add: stringify_ids_def)
  then obtain n where n: "2 * length ?s + 1 = Suc (Suc (length ids + n))"
    by (metis add_2_eq_Suc' le_Suc_ex add.commute add_Suc_right)
  have "parse_value (Suc (2 * length ?s + 1)) ?s = Some (JArray (map (\<lambda>k. JNumber (nat_str k)) ids), [])"
    using parse_keys [OF assms, of n "[]"] digit_codes [OF r(2)] unfolding n
    by (simp add: stringify_ids_def r skip_space_def)
  then show ?thesis by (simp add: json_parse_def skip_space_def)
qed

lemma parse_saved_ids:
  assumes "ids \<noteq> []" and "\<forall>k \<in> set ids. 0 < k \<and> k < 2 ^ 53"
  shows "parse_account_ids (stringify_ids ids) = Some ids"
proof -
  have "List.map_filter json_number (map (\<lambda>k. JNumber (nat_str k)) ids) = map of_nat ids"
    using assms(2) key_number by (induction ids) (simp_all add: List.map_filter_def)
  moreover have "safe_key (of_nat k)" if "k \<in> set ids" for k
  proof -
    have "k < 2 ^ 53" "0 < k" using assms(2) that by auto
    moreover from this(1) have "of_nat k < (2 :: rat) ^ 53" by (metis of_nat_less_iff of_nat_numeral of_nat_power)
    ultimately show ?thesis by (simp add: safe_key_def)
  qed
  then have "filter safe_key (map of_nat ids) = map of_nat ids" by (simp add: filter_id_conv)
  ultimately show ?thesis
    using assms parse_stringify_ids [of ids] by (simp add: parse_account_ids_def comp_def map_idI)
qed

section \<open>Saving and reading\<close>

lemma validated_control:
  assumes "validateAPReconciliationAccountIds d c ids = Inr u"
  shows "ids \<noteq> []" and "\<forall>k \<in> set ids. isAPControlAccount d c k"
proof -
  show "ids \<noteq> []" using assms by (auto simp: validateAPReconciliationAccountIds_def inr_simps)
  have "isAPControlAccount d c k" if ok: "validate_account d c k = Inr ()" for k
  proof -
    from ok obtain a where a: "find (\<lambda>a. acc_id a = k) (accounts d) = Some a" "acc_company_id a = c" "acc_is_active a = 1"
      and kind: "acc_is_payable a = 1 \<or> js_upper (case acc_type_name a of None \<Rightarrow> [] | Some t \<Rightarrow> t) \<in> set AP_CONTROL_ACCOUNT_TYPE_NAMES"
      by (auto simp: validate_account_def inr_simps Let_def)
    have "js_upper [] \<notin> set AP_CONTROL_ACCOUNT_TYPE_NAMES" by code_simp
    with kind have "acc_is_payable a = 1 \<or>
        (case acc_type_name a of None \<Rightarrow> False | Some t \<Rightarrow> js_upper t \<in> set AP_CONTROL_ACCOUNT_TYPE_NAMES)"
      by (cases "acc_type_name a") auto
    with a find_SomeD [OF a(1)] show ?thesis unfolding isAPControlAccount_def list_ex_iff by blast
  qed
  with assms show "\<forall>k \<in> set ids. isAPControlAccount d c k"
    by (auto simp: validateAPReconciliationAccountIds_def inr_simps foldM_unit)
qed

text \<open>The row a save adds: the unique key never sees the other row, since its outlet is \<open>NULL\<close>.\<close>

definition saved_row :: "nat \<Rightarrow> nat list \<Rightarrow> int \<Rightarrow> nat \<Rightarrow> settings_string_row" where
  "saved_row companyId accountIds now i =
     \<lparr>str_company_id = companyId, str_created_at = now, str_id = i, str_outlet_id = None,
      str_setting_key = AP_RECONCILIATION_ACCOUNT_IDS_KEY, str_setting_value = Some (stringify_ids accountIds),
      str_updated_at = now\<rparr>"

lemma save_effect:
  assumes "saveAPReconciliationSettings c ids now d = Inr d'"
  shows "validateAPReconciliationAccountIds (rd_db d) c ids = Inr ()"
    and "d' = d\<lparr>settings_strings := settings_strings d @ [saved_row c ids now (Suc (rd_last_setting d))],
      rd_last_setting := Suc (rd_last_setting d)\<rparr>"
proof -
  have "\<not> list_ex (setting_conflict c None key) rs" for key rs
    by (auto simp: list_ex_iff setting_conflict_def sql_same_def)
  with assms show "validateAPReconciliationAccountIds (rd_db d) c ids = Inr ()"
    and "d' = d\<lparr>settings_strings := settings_strings d @ [saved_row c ids now (Suc (rd_last_setting d))],
      rd_last_setting := Suc (rd_last_setting d)\<rparr>"
    by (auto simp: saveAPReconciliationSettings_def inr_simps Let_def saved_row_def)
qed

lemma saved_settings_read:
  assumes "filter (account_ids_setting c) (settings_strings d) = rows" and "rows \<noteq> []"
    and "pick rows = saved_row c ids now i"
    and "validateAPReconciliationAccountIds (rd_db d) c ids = Inr ()" and "\<forall>k \<in> set ids. 0 < k \<and> k < 2 ^ 53"
  shows "getAPReconciliationSettings pick d c = \<lparr>rs_accountIds = ids, rs_source = From_settings\<rparr>"
proof -
  note valid = validated_control [OF assms(4)]
  have "getAPReconciliationAccountIds pick d c = Some ids"
    using parse_saved_ids [OF valid(1) assms(5)] assms(1-3)
    by (simp add: getAPReconciliationAccountIds_def saved_row_def)
  moreover have "filter (isAPControlAccount (rd_db d) c) ids = ids" using valid(2) by (simp add: filter_id_conv)
  ultimately show ?thesis using valid(1) by (simp add: getAPReconciliationSettings_def Let_def)
qed

text \<open>The database answers one of the rows that match.\<close>

definition picks_row :: "row_choice \<Rightarrow> bool" where
  "picks_row pick \<longleftrightarrow> (\<forall>rows. rows \<noteq> [] \<longrightarrow> pick rows \<in> set rows)"

text \<open>
  C22: The control accounts that a company saves first are read back as they were saved, through
  the text of the setting.  A second save does not replace them: the insertion is meant to update
  the setting on a duplicate key, but the key contains the outlet, which is \<open>NULL\<close>, so the company
  then has two rows, and reading answers the one or the other, whichever the database picks: with
  a choice of the first row the old accounts, with a choice of the last row the new ones.
\<close>

theorem saved_settings_read_back:
  assumes "filter (account_ids_setting c) (settings_strings d) = []" and "picks_row pick"
    and "saveAPReconciliationSettings c ids now d = Inr d'"
    and "saveAPReconciliationSettings c ids' now' d' = Inr d''"
    and "\<forall>k \<in> set ids \<union> set ids'. 0 < k \<and> k < 2 ^ 53"
  shows "getAPReconciliationSettings pick d' c = \<lparr>rs_accountIds = ids, rs_source = From_settings\<rparr> \<and>
    length (filter (account_ids_setting c) (settings_strings d'')) = 2 \<and>
    getAPReconciliationSettings pick d'' c \<in>
      {\<lparr>rs_accountIds = ids, rs_source = From_settings\<rparr>, \<lparr>rs_accountIds = ids', rs_source = From_settings\<rparr>} \<and>
    getAPReconciliationSettings hd d'' c = \<lparr>rs_accountIds = ids, rs_source = From_settings\<rparr> \<and>
    getAPReconciliationSettings last d'' c = \<lparr>rs_accountIds = ids', rs_source = From_settings\<rparr>"
proof -
  note first = save_effect [OF assms(3)] and second = save_effect [OF assms(4)]
  let ?row = "saved_row c ids now (Suc (rd_last_setting d))"
  let ?row' = "saved_row c ids' now' (Suc (rd_last_setting d'))"
  have "account_ids_setting c (saved_row c js t i)" for js t i by (simp add: account_ids_setting_def saved_row_def)
  with assms(1) first(2) second(2) have rows: "filter (account_ids_setting c) (settings_strings d') = [?row]"
    "filter (account_ids_setting c) (settings_strings d'') = [?row, ?row']" by simp_all
  have valid: "validateAPReconciliationAccountIds (rd_db d') c ids = Inr ()"
    "validateAPReconciliationAccountIds (rd_db d'') c ids = Inr ()"
    "validateAPReconciliationAccountIds (rd_db d'') c ids' = Inr ()" using first second by simp_all
  have keys: "\<forall>k \<in> set ids. 0 < k \<and> k < 2 ^ 53" "\<forall>k \<in> set ids'. 0 < k \<and> k < 2 ^ 53" using assms(5) by auto
  have "pick [?row] \<in> set [?row]" "pick [?row, ?row'] \<in> set [?row, ?row']"
    using assms(2) unfolding picks_row_def by blast+
  then have picked: "pick [?row] = ?row" "pick [?row, ?row'] = ?row \<or> pick [?row, ?row'] = ?row'" by auto
  have old: "getAPReconciliationSettings f d'' c = \<lparr>rs_accountIds = ids, rs_source = From_settings\<rparr>"
    if "f [?row, ?row'] = ?row" for f
    by (rule saved_settings_read [where pick = f and rows = "[?row, ?row']", OF rows(2) _ that valid(2) keys(1)]) simp
  have new: "getAPReconciliationSettings f d'' c = \<lparr>rs_accountIds = ids', rs_source = From_settings\<rparr>"
    if "f [?row, ?row'] = ?row'" for f
    by (rule saved_settings_read [where pick = f and rows = "[?row, ?row']", OF rows(2) _ that valid(3) keys(2)]) simp
  have "getAPReconciliationSettings pick d' c = \<lparr>rs_accountIds = ids, rs_source = From_settings\<rparr>"
    by (rule saved_settings_read [where pick = pick and rows = "[?row]", OF rows(1) _ picked(1) valid(1) keys(1)]) simp
  with picked(2) old [of pick] new [of pick]
    old [of hd] new [of last] rows(2)
  show ?thesis by auto
qed

definition recon_sample :: "db \<Rightarrow> recon_db" where
  "recon_sample d = \<lparr>rd_db = d, settings_strings = [], rd_last_setting = 0,
     rd_outlets = [\<lparr>out_company_id = 1, out_code = ''MAIN'', out_timezone = Some ''Asia/Jakarta''\<rparr>]\<rparr>"

text \<open>Accounts 2 and 4 are liabilities; after the change from 4 to 2 the old one may still be read.\<close>

theorem saved_settings_read_back_witness:
  "\<exists>d' d''. saveAPReconciliationSettings 1 [4] 5 (recon_sample sample_db) = Inr d' \<and>
    saveAPReconciliationSettings 1 [2] 6 d' = Inr d'' \<and> rs_accountIds (getAPReconciliationSettings hd d'' 1) = [4]"
proof -
  let ?d = "recon_sample sample_db"
  have valid: "validateAPReconciliationAccountIds sample_db 1 [4] = Inr ()"
    "validateAPReconciliationAccountIds sample_db 1 [2] = Inr ()" by code_simp+
  then obtain d' where d': "saveAPReconciliationSettings 1 [4] 5 ?d = Inr d'"
    by (simp add: saveAPReconciliationSettings_def Let_def recon_sample_def)
  have "rd_db d' = sample_db" using save_effect(2) [OF d'] by (simp add: recon_sample_def)
  with valid(2) obtain d'' where d'': "saveAPReconciliationSettings 1 [2] 6 d' = Inr d''"
    by (simp add: saveAPReconciliationSettings_def Let_def)
  have "filter (account_ids_setting 1) (settings_strings ?d) = []" "picks_row hd"
    by (simp_all add: recon_sample_def picks_row_def)
  from saved_settings_read_back [OF this d' d''] d' d'' show ?thesis by auto
qed

end
