(* ===== verification/Payables_Reconciled.thy ===== *)
theory Payables_Reconciled
  imports Control_Account Statement_Properties Reconciliation_Settings
begin

text \<open>
  What \<open>getAPReconciliationSummary\<close> (\<open>services/ap-reconciliation-service.ts\<close>) answers
  after the purchasing operations have run: how its two balances relate to the invoices and to the
  payables account, and that nothing the operations do makes them differ.
\<close>

section \<open>The balance of the invoices\<close>

lemma recon_db_decimal [simp]: "0 < k \<Longrightarrow> recon_decimal (db_decimal k v) k = Inr v"
  by (simp add: recon_decimal_def)

text \<open>The two services convert an amount with the same arithmetic.\<close>

lemma recon_base_amount [simp]:
  assumes "0 \<le> pi_grand_total iv" and "0 \<le> pi_exchange_rate iv"
  shows "recon_computeBaseAmount (db_decimal 4 (pi_grand_total iv)) (db_decimal 8 (pi_exchange_rate iv)) =
    Inr (base_grand_total iv)"
  using base_amount [OF assms] by (simp add: recon_computeBaseAmount_def statement_computeBaseAmount_def assms(1) Let_def)

lemma add_open_base_value:
  assumes "0 \<le> pi_grand_total iv" and "0 \<le> pi_exchange_rate iv" and "0 \<le> open_amount d iv" and "pi_company_id iv = c"
  shows "add_open_base d c acc iv = Inr (acc + open_amount d iv)"
  using assms by (simp add: add_open_base_def open_amount_def Let_def)

lemma subledger_total:
  assumes "settlement_ok d"
  shows "getAPSubledgerBalance d c asOf =
    Inr (sum_list (map (open_amount d) (filter (ap_subledger_invoice c asOf) (purchase_invoices d))))"
proof -
  have "foldM (add_open_base d c) acc ivs = Inr (acc + sum_list (map (open_amount d) ivs))"
    if "\<forall>iv \<in> set ivs. 0 \<le> pi_grand_total iv \<and> 0 \<le> pi_exchange_rate iv \<and> 0 \<le> open_amount d iv \<and>
      pi_company_id iv = c" for acc ivs
    using that by (induction ivs arbitrary: acc) (simp_all add: add_open_base_value)
  note this [of "filter (ap_subledger_invoice c asOf) (purchase_invoices d)" 0]
  with assms show ?thesis
    by (simp add: getAPSubledgerBalance_def settlement_defs amounts_nonneg_def ap_subledger_invoice_def)
qed

section \<open>The balance of the account\<close>

text \<open>Reading a column of cents at four decimals multiplies it by a hundred.\<close>

lemma toScaled_cents:
  assumes "0 \<le> v"
  shows "toScaled 4 (db_decimal 2 v) = Inr (100 * v)"
proof -
  let ?a = "int_str (v div 100)" and ?f = "pad_start 2 (int_str (v mod 100))"
  let ?s = "?a @ CHR ''.'' # ?f"
  have eq: "db_decimal 2 v = ?s" using assms by (simp add: db_decimal_def)
  have a: "list_all is_digit ?a" "?a \<noteq> []" using assms by (simp_all add: pos_imp_zdiv_nonneg_iff)
  have "length (int_str (v mod 100)) \<le> 2" using int_digits_length [of "v mod 100" 1] by (simp add: int_str_def)
  then have f: "list_all is_digit ?f" "length ?f = 2" by (simp_all add: pad_start_facts)
  then have f0: "?f \<noteq> []" by auto
  have digits: "takeWhile is_digit ?s = ?a" "dropWhile is_digit ?s = CHR ''.'' # ?f"
    using span_digits [OF a(1), of is_digit] by (auto dest: digit_not_dot)
  have "split_dot ?s = (?a, ?f)"
    using span_digits [OF a(1), of "\<lambda>c. c \<noteq> CHR ''.''"] by (auto simp: split_dot_def digit_not_dot)
  moreover have "decimal_ok 4 ?s" unfolding decimal_ok_def digits using a f f0 by simp
  moreover have "int_of_str (s @ ''00'') = 100 * int_of_str s" for s by (simp add: int_of_str_def digit_val_def)
  moreover have "replicate 4 (CHR ''0'') = ''0000''" by (simp add: eval_nat_numeral)
  moreover have "v div 100 * 10000 + 100 * (v mod 100) = 100 * v" by presburger
  then have "int_of_str ?a * 10000 + 100 * int_of_str ?f = 100 * v"
    using assms by (simp add: pos_imp_zdiv_nonneg_iff)
  ultimately show ?thesis
    using a f f0 by (simp add: eq toScaled_def Let_def trim_digits)
qed

lemma recon_cents [simp]: "recon_decimal (db_decimal 2 v) 4 = Inr (100 * v)"
proof (cases "v < 0")
  case False
  then show ?thesis
    using db_decimal_trim [of v 2] signed_parts(1) [OF toScaled_cents, of v] by (simp add: recon_decimal_def)
next
  case True
  then have "db_decimal 2 v = CHR ''-'' # db_decimal 2 (- v)" by (simp add: db_decimal_def)
  with True show ?thesis
    using db_decimal_trim [of "- v" 2] signed_parts(2) [OF toScaled_cents, of "- v"] by (simp add: recon_decimal_def)
qed

text \<open>Every entry on the account was posted by then.\<close>

definition all_posted_by :: "db \<Rightarrow> nat \<Rightarrow> nat \<Rightarrow> int \<Rightarrow> bool" where
  "all_posted_by d c a latest \<longleftrightarrow> (\<forall>l \<in> set (journal_lines d). jl_company_id l = c \<longrightarrow> jl_account_id l = a \<longrightarrow>
     control_line d c [a] latest l)"

lemma control_balance:
  assumes "all_posted_by d c a latest"
  shows "getGLControlBalance d c [a] latest = Inr (100 * control d c a)"
proof -
  have "filter (control_line d c [a] latest) (journal_lines d) =
      filter (\<lambda>l. jl_company_id l = c \<and> jl_account_id l = a) (journal_lines d)"
    using assms by (intro filter_cong) (auto simp: all_posted_by_def control_line_def)
  moreover have "recon_decimal (case sql_sum2 vs of None \<Rightarrow> ''0'' | Some s \<Rightarrow> s) 4 = Inr (100 * sum_list vs)" for vs
  proof -
    have "recon_decimal ''0'' 4 = Inr 0" by code_simp
    then show ?thesis by (simp add: sql_sum2_def)
  qed
  ultimately show ?thesis
    by (simp add: getGLControlBalance_def Let_def control_def sum_list_subtractf right_diff_distrib)
qed

section \<open>The variance\<close>

text \<open>Every posted invoice of the company is dated by then.\<close>

definition all_dated_by :: "db \<Rightarrow> nat \<Rightarrow> int \<Rightarrow> bool" where
  "all_dated_by d c asOf \<longleftrightarrow> (\<forall>iv \<in> set (purchase_invoices d). posted_of c iv \<longrightarrow> pi_invoice_date iv \<le> asOf)"

lemma summary_gap:
  assumes ok: "settlement_ok (rd_db d)"
    and "rs_accountIds (getAPReconciliationSettings pick d c) = [a]" and "resolveCompanyTimezone valid_zone d c = Inr zone"
    and "all_dated_by (rd_db d) c asOf" and "all_posted_by (rd_db d) c a (day_end zone asOf)"
  shows "\<exists>s. getAPReconciliationSummary pick valid_zone day_end d c asOf = Inr s \<and>
    sm_variance s = signed_fromScaled4 (gap (rd_db d) c a) \<and>
    sm_apSubledgerBalance s = signed_fromScaled4 (owed (rd_db d) c) \<and>
    sm_glControlBalance s = signed_fromScaled4 (100 * control (rd_db d) c a)"
proof -
  have "filter (ap_subledger_invoice c asOf) (purchase_invoices (rd_db d)) =
      filter (posted_of c) (purchase_invoices (rd_db d))"
    using assms(4) by (intro filter_cong) (auto simp: all_dated_by_def ap_subledger_invoice_def posted_of_def)
  then have "getAPSubledgerBalance (rd_db d) c asOf = Inr (owed (rd_db d) c)"
    by (simp add: subledger_total [OF ok] owed_def)
  then show ?thesis
    using control_balance [OF assms(5)] by (simp add: getAPReconciliationSummary_def Let_def assms(2,3) gap_def)
qed

text \<open>
  C5: However invoices, payments and credits are drafted, posted, applied and voided, in whole cents
  of the company's own currency and with the payables account used for nothing else, the
  reconciliation of a day by which all is posted shows no variance, as long as no invoice is voided
  that payments or credits are settled with: both balances are the sum of the open amounts.
\<close>

theorem variance_stays_zero:
  assumes "settlement_start d0" and "wf_ledger d0" and "control d0 c a = 0"
    and "(payables_step c a)\<^sup>*\<^sup>* d0 (rd_db d)"
    and "rs_accountIds (getAPReconciliationSettings pick d c) = [a]" and "resolveCompanyTimezone valid_zone d c = Inr zone"
    and "all_dated_by (rd_db d) c asOf" and "all_posted_by (rd_db d) c a (day_end zone asOf)"
  shows "\<exists>s. getAPReconciliationSummary pick valid_zone day_end d c asOf = Inr s \<and> sm_variance s = ''0.0000'' \<and>
    sm_apSubledgerBalance s = signed_fromScaled4 (owed (rd_db d) c) \<and>
    sm_glControlBalance s = sm_apSubledgerBalance s"
proof -
  from payables.kept [OF assms(4) payables_start [OF assms(1-3)]]
  have ok: "settlement_ok (rd_db d)" and same: "gap (rd_db d) c a = 0" by (simp_all add: payables_kept_def)
  moreover have "signed_fromScaled4 0 = ''0.0000''" by code_simp
  ultimately show ?thesis using summary_gap [where day_end = day_end, OF ok assms(5-8)] by (auto simp: gap_def)
qed

text \<open>What a void of an invoice leaves alone, and the postings it adds.\<close>

lemma voidPI_frame:
  assumes "voidPI c u i g r now d = Inr (res, d')"
  shows "accounts d' = accounts d" and "companies d' = companies d" and "modules d' = modules d"
    and "company_modules d' = company_modules d"
    and "all_dated_by d c' asOf \<Longrightarrow> all_dated_by d' c' asOf"
    and "all_posted_by d c' a latest \<Longrightarrow> now \<le> latest \<Longrightarrow> all_posted_by d' c' a latest"
proof -
  from assms obtain iv b f where iv: "find_invoice d c i = Some iv" "pi_status iv = PI_POSTED"
    and d': "d' = record_override g r c u ''PURCHASE_INVOICE_VOID'' i now (mark_invoice_void i u now
      (posted_db c ''PURCHASE_INVOICE_VOID'' i (pi_invoice_date iv) now (map (reverse_entry f) (batch_entries d c b)) d))"
    by (rule voidPI_Inr)
  show "accounts d' = accounts d" "companies d' = companies d" "modules d' = modules d"
    "company_modules d' = company_modules d"
    by (simp_all add: d' mark_invoice_void_def posted_db_def record_override_def insertPeriodCloseOverride_def bump_def
      split: option.splits bool.splits)
  show "all_dated_by d' c' asOf" if "all_dated_by d c' asOf"
    using that by (auto simp: d' all_dated_by_def posted_of_def update_where_def voided_invoice_def)
  show "all_posted_by d' c' a latest" if old: "all_posted_by d c' a latest" and "now \<le> latest"
  proof -
    let ?p = "posted_db c ''PURCHASE_INVOICE_VOID'' i (pi_invoice_date iv) now (map (reverse_entry f) (batch_entries d c b)) d"
    have "journal_lines d' = journal_lines ?p" "journal_batches d' = journal_batches ?p"
      by (simp_all add: d' mark_invoice_void_def)
    then show ?thesis
      using old \<open>now \<le> latest\<close>
      by (auto simp: all_posted_by_def control_line_def posted_db_def dest: set_journal_rows)
  qed
qed

lemma settings_frame:
  assumes "accounts d' = accounts (rd_db d)" and "companies d' = companies (rd_db d)"
    and "modules d' = modules (rd_db d)" and "company_modules d' = company_modules (rd_db d)"
  shows "getAPReconciliationSettings pick (d\<lparr>rd_db := d'\<rparr>) c = getAPReconciliationSettings pick d c"
    and "resolveCompanyTimezone valid_zone (d\<lparr>rd_db := d'\<rparr>) c = resolveCompanyTimezone valid_zone d c"
proof -
  have "isAPControlAccount d' c = isAPControlAccount (rd_db d) c"
    by (simp add: isAPControlAccount_def assms fun_eq_iff)
  moreover have "default_control_account d' c = default_control_account (rd_db d) c"
    by (simp add: default_control_account_def assms)
  moreover have "rd_db (d\<lparr>rd_db := d'\<rparr>) = d'" "settings_strings (d\<lparr>rd_db := d'\<rparr>) = settings_strings d" by simp_all
  ultimately show "getAPReconciliationSettings pick (d\<lparr>rd_db := d'\<rparr>) c = getAPReconciliationSettings pick d c"
    by (simp only: getAPReconciliationSettings_def getAPReconciliationAccountIds_def)
  show "resolveCompanyTimezone valid_zone (d\<lparr>rd_db := d'\<rparr>) c = resolveCompanyTimezone valid_zone d c"
    by (simp add: resolveCompanyTimezone_def assms)
qed

text \<open>
  C6: A posted invoice of the ledger can be voided although payments or credits are settled with
  it, when no void of it is in the ledger and its descriptions leave room for the word before
  them, and the void sets the reconciliation off by exactly what they had settled: the invoice
  leaves the balance of the invoices with what was open, while its whole value is taken back from
  the account.
\<close>

theorem void_leaves_variance:
  assumes "settlement_start d0" and "wf_ledger d0" and "control d0 c a = 0"
    and "(payables_step c a)\<^sup>*\<^sup>* d0 (rd_db d)"
    and "find_invoice (rd_db d) c i = Some iv" and "pi_status iv = PI_POSTED"
    and "pi_journal_batch_id iv = Some b" and "b \<noteq> 0" and "ledger_checked (rd_db d)"
    and "batch_free (rd_db d) c ''PURCHASE_INVOICE_VOID'' i"
    and "\<forall>e \<in> set (batch_entries (rd_db d) c b). length (le_description e) \<le> 249"
    and "rs_accountIds (getAPReconciliationSettings pick d c) = [a]" and "resolveCompanyTimezone valid_zone d c = Inr zone"
    and "all_dated_by (rd_db d) c asOf" and "all_posted_by (rd_db d) c a (day_end zone asOf)"
    and "now \<le> day_end zone asOf"
  shows "\<exists>b' d' s. voidPI c u i g r now (rd_db d) = Inr ((i, b'), d') \<and>
    getAPReconciliationSummary pick valid_zone day_end (d\<lparr>rd_db := d'\<rparr>) c asOf = Inr s \<and>
    sm_variance s = signed_fromScaled4 (paid_total (rd_db d) c i + credited_total (rd_db d) c i)"
proof -
  from payables.kept [OF assms(4) payables_start [OF assms(1-3)]]
  have ok: "settlement_ok (rd_db d)" and kept: "ledger_kept c a (rd_db d)" and same: "gap (rd_db d) c a = 0"
    by (simp_all add: payables_kept_def)
  have wf: "wf_ledger (rd_db d)" using kept by (simp add: ledger_kept_def)
  have fits: "reversal_fits (\<lambda>s. ''VOID: '' @ s) (batch_entries (rd_db d) c b)"
    using assms(11) by (auto simp: reversal_fits_def description_fits_def list_all_iff)
  obtain d' where void: "voidPI c u i g r now (rd_db d) = Inr ((i, next_id (rd_db d) T_journal_batch), d')"
    by (rule voidPI_effect [OF wf assms(5-8) batch_checked [OF assms(9)] assms(10) fits]) blast
  note frame = voidPI_frame [OF void]
  have "gap d' c a = paid_total (rd_db d) c i + credited_total (rd_db d) c i"
    using invoice_void_gap [OF ok kept void] same by simp
  moreover have "rs_accountIds (getAPReconciliationSettings pick (d\<lparr>rd_db := d'\<rparr>) c) = [a]"
    "resolveCompanyTimezone valid_zone (d\<lparr>rd_db := d'\<rparr>) c = Inr zone"
    using assms(12,13) settings_frame [OF frame(1-4)] by simp_all
  moreover have "all_dated_by d' c asOf" "all_posted_by d' c a (day_end zone asOf)"
    using frame(5) [OF assms(14)] frame(6) [OF assms(15,16)] .
  ultimately show ?thesis
    using void summary_gap [where day_end = day_end and d = "d\<lparr>rd_db := d'\<rparr>" and c = c and a = a and pick = pick
        and valid_zone = valid_zone and zone = zone and asOf = asOf]
      voidPI_settlement [OF ok void] by auto
qed

section \<open>A run\<close>

text \<open>An invoice of 100 is posted, and 60 are paid; then it may be voided.\<close>

definition shows_account :: "db \<Rightarrow> bool" where
  "shows_account d \<longleftrightarrow> rs_accountIds (getAPReconciliationSettings hd (recon_sample d) 1) = [2] \<and>
     all_dated_by d 1 20600 \<and> all_posted_by d 1 2 1000"

definition voidable_here :: "db \<Rightarrow> bool" where
  "voidable_here d \<longleftrightarrow> ledger_checked d \<and> batch_free d 1 ''PURCHASE_INVOICE_VOID'' 3 \<and>
     (case find_invoice d 1 3 of None \<Rightarrow> False | Some iv \<Rightarrow> pi_status iv = PI_POSTED \<and>
        pi_journal_batch_id iv = Some 3 \<and> list_all (\<lambda>e. length (le_description e) \<le> 249) (batch_entries d 1 3))"

lemma sample_payables_run:
  obtains d where "(payables_step 1 2)\<^sup>*\<^sup>* no_documents_db d" and "owed d 1 = 400000" and "shows_account d"
    and "voidable_here d" and "paid_total d 1 3 = 600000" and "credited_total d 1 3 = 0"
proof -
  have "case createDraftPI invoice_request 50 no_documents_db of Inl _ \<Rightarrow> False | Inr (_, d1) \<Rightarrow>
      payables_apart d1 1 2 \<and> home_invoice d1 1 3 \<and>
      (case postPI 1 7 3 None None 100 d1 of Inl _ \<Rightarrow> False | Inr (_, d2) \<Rightarrow>
      (case createDraftAPPayment payment_request 60 d2 of Inl _ \<Rightarrow> False | Inr (_, d3) \<Rightarrow>
      payment_ap_account d3 1 = Inr 2 \<and> whole_cent_lines d3 3 \<and>
      (case postAPPayment 1 7 3 None None 100 d3 of Inl _ \<Rightarrow> False | Inr (_, d4) \<Rightarrow>
      owed d4 1 = 400000 \<and> shows_account d4 \<and> paid_total d4 1 3 = 600000 \<and> credited_total d4 1 3 = 0 \<and>
      voidable_here d4)))"
    by code_simp
  then obtain r1 d1 r2 d2 r3 d3 r4 d4 where m: "createDraftPI invoice_request 50 no_documents_db = Inr (r1, d1)"
    "postPI 1 7 3 None None 100 d1 = Inr (r2, d2)" "createDraftAPPayment payment_request 60 d2 = Inr (r3, d3)"
    "postAPPayment 1 7 3 None None 100 d3 = Inr (r4, d4)"
    and cond: "payables_apart d1 1 2" "home_invoice d1 1 3" "payment_ap_account d3 1 = Inr 2" "whole_cent_lines d3 3"
    and d4: "owed d4 1 = 400000" "shows_account d4" "paid_total d4 1 3 = 600000" "credited_total d4 1 3 = 0" "voidable_here d4"
    unfolding case_op_iff by auto
  from m(1) have "payables_step 1 2 no_documents_db d1" by (rule payables_step.intros)
  moreover from m(2) cond(1,2) have "payables_step 1 2 d1 d2" by (blast intro: payables_step.intros)
  moreover from m(3) have "payables_step 1 2 d2 d3" by (rule payables_step.intros)
  moreover from m(4) cond(3,4) have "payables_step 1 2 d3 d4" by (blast intro: payables_step.intros)
  ultimately have "(payables_step 1 2)\<^sup>*\<^sup>* no_documents_db d4"
    by (meson rtranclp.rtrancl_refl rtranclp.rtrancl_into_rtrancl)
  then show thesis using that d4 by blast
qed

lemma sample_start:
  "settlement_start no_documents_db" "wf_ledger no_documents_db" "control no_documents_db 1 2 = 0"
  "resolveCompanyTimezone (\<lambda>z. z = ''Asia/Jakarta'') (recon_sample d) 1 = Inr ''Asia/Jakarta''"
  "rd_db (recon_sample d) = d"
  by (simp_all add: settlement_start_def no_documents_db_def sample_db_def empty_db_def control_def wf_ledger_def
      resolveCompanyTimezone_def recon_sample_def truthy_str_def)

theorem variance_stays_zero_witness:
  "\<exists>d s. (payables_step 1 2)\<^sup>*\<^sup>* no_documents_db d \<and>
    getAPReconciliationSummary hd (\<lambda>z. z = ''Asia/Jakarta'') (\<lambda>zone day. 1000) (recon_sample d) 1 20600 = Inr s \<and>
    sm_apSubledgerBalance s = ''40.0000'' \<and> sm_glControlBalance s = ''40.0000'' \<and> sm_variance s = ''0.0000''"
proof -
  obtain d where run: "(payables_step 1 2)\<^sup>*\<^sup>* no_documents_db d" and owed: "owed d 1 = 400000" and sh: "shows_account d"
    by (rule sample_payables_run)
  have "signed_fromScaled4 400000 = ''40.0000''" by code_simp
  then show ?thesis
    using variance_stays_zero [OF sample_start(1-3), where d = "recon_sample d" and pick = hd
          and day_end = "\<lambda>zone day. 1000" and asOf = 20600,
        OF _ _ sample_start(4)] sample_start(5) [of d] run owed sh unfolding shows_account_def
    by (intro exI [of _ d]) auto
qed

theorem void_leaves_variance_witness:
  "\<exists>d r d' s. (payables_step 1 2)\<^sup>*\<^sup>* no_documents_db d \<and> voidPI 1 7 3 None None 200 d = Inr (r, d') \<and>
    getAPReconciliationSummary hd (\<lambda>z. z = ''Asia/Jakarta'') (\<lambda>zone day. 1000) ((recon_sample d)\<lparr>rd_db := d'\<rparr>) 1 20600 = Inr s \<and>
    sm_variance s = ''60.0000''"
proof -
  obtain d where run: "(payables_step 1 2)\<^sup>*\<^sup>* no_documents_db d" and sh: "shows_account d" and can: "voidable_here d"
    and settled: "paid_total d 1 3 = 600000" "credited_total d 1 3 = 0"
    by (rule sample_payables_run)
  from can obtain iv where iv: "find_invoice d 1 3 = Some iv" "pi_status iv = PI_POSTED" "pi_journal_batch_id iv = Some 3"
    "(3 :: nat) \<noteq> 0" "ledger_checked d" "batch_free d 1 ''PURCHASE_INVOICE_VOID'' 3"
    "\<forall>e \<in> set (batch_entries d 1 3). length (le_description e) \<le> 249"
    by (auto simp: voidable_here_def list_all_iff split: option.splits)
  have acc: "rs_accountIds (getAPReconciliationSettings hd (recon_sample d) 1) = [2]"
    "all_dated_by d 1 20600" "all_posted_by d 1 2 1000"
    using sh by (simp_all add: shows_account_def)
  have "signed_fromScaled4 (600000 + 0) = ''60.0000''" by code_simp
  with void_leaves_variance [OF sample_start(1-3), where d = "recon_sample d" and i = 3 and u = 7 and g = None
      and r = None and now = 200 and day_end = "\<lambda>zone day. 1000" and asOf = 20600 and b = 3 and iv = iv,
      unfolded sample_start(5), OF run iv acc(1) sample_start(4) acc(2,3)] settled run
  show ?thesis by (simp del: One_nat_def) blast
qed

end
