(* ===== verification/Sync_Properties.thy ===== *)
theory Sync_Properties
  imports Session_Freeze
begin

text \<open>
  The contract of the table synchronisation: an event is applied at most once, and of the events
  that several devices have recorded for the same version of a table only the first is applied.
\<close>

section \<open>The version of a table\<close>

text \<open>Only the row of one table is written, and it has the version \<open>v\<close> afterwards.\<close>

definition writes_version :: "nat \<Rightarrow> nat \<Rightarrow> nat \<Rightarrow> nat \<Rightarrow> rdb \<Rightarrow> rdb \<Rightarrow> bool" where
  "writes_version c o' t v d d' \<longleftrightarrow>
     (\<forall>c1 o1 t1. (c1, o1, t1) \<noteq> (c, o', t) \<longrightarrow> getTableOccupancy d' c1 o1 t1 = getTableOccupancy d c1 o1 t1) \<and>
     (\<forall>q. getTableOccupancy d' c o' t = Some q \<longrightarrow> occ_version q = v) \<and>
     (getTableOccupancy d c o' t \<noteq> None \<longrightarrow> getTableOccupancy d' c o' t \<noteq> None)"

lemma writes_version_cong:
  "table_occupancy d1 = table_occupancy d \<Longrightarrow> table_occupancy d2 = table_occupancy d' \<Longrightarrow>
     writes_version c o' t v d1 d2 \<longleftrightarrow> writes_version c o' t v d d'"
  by (simp add: writes_version_def getTableOccupancy_def)

lemma change_occupancy_Inr:
  "change_occupancy c o' t f d = Inr (u, d') \<Longrightarrow>
     d' = d\<lparr>table_occupancy := update_where (occ_of c o' t) f (table_occupancy d)\<rparr>"
  by (auto simp: change_occupancy_def inr_simps)

lemma change_occupancy_writes:
  assumes "change_occupancy c o' t f d = Inr (u, d')"
    and f: "\<And>r. occ_company_id (f r) = occ_company_id r \<and> occ_outlet_id (f r) = occ_outlet_id r \<and>
      occ_table_id (f r) = occ_table_id r \<and> occ_version (f r) = v"
  shows "writes_version c o' t v d d'"
proof -
  have keys: "occ_of c1 o1 t1 (f r) = occ_of c1 o1 t1 r" for c1 o1 t1 r using f by (simp add: occ_of_def)
  have get: "getTableOccupancy d' c1 o1 t1 =
      map_option (\<lambda>r. if occ_of c o' t r then f r else r) (getTableOccupancy d c1 o1 t1)" for c1 o1 t1
    using find_update_where [of "occ_of c1 o1 t1" f, OF keys]
    by (simp add: getTableOccupancy_def change_occupancy_Inr [OF assms(1)])
  have other: "\<not> occ_of c o' t r" if "getTableOccupancy d c1 o1 t1 = Some r" "(c1, o1, t1) \<noteq> (c, o', t)" for c1 o1 t1 r
    using getTableOccupancy_Some [OF that(1)] that(2) by (auto simp: occ_of_def)
  have "getTableOccupancy d' c1 o1 t1 = getTableOccupancy d c1 o1 t1" if "(c1, o1, t1) \<noteq> (c, o', t)" for c1 o1 t1
    using other [OF _ that] by (cases "getTableOccupancy d c1 o1 t1") (simp_all add: get)
  moreover have "getTableOccupancy d' c o' t = map_option f (getTableOccupancy d c o' t)"
    using getTableOccupancy_Some [of d c o' t] by (cases "getTableOccupancy d c o' t") (simp_all add: get)
  ultimately show ?thesis using f unfolding writes_version_def by auto
qed

lemma updateOccupancy_writes:
  assumes "updateOccupancy now p d = Inr (u, d')"
  shows "writes_version (uo_companyId p) (uo_outletId p) (uo_tableId p) (uo_newVersion p) d d'"
proof (cases "getTableOccupancy d (uo_companyId p) (uo_outletId p) (uo_tableId p)")
  case None
  let ?r = "occupancy_inserted (new_key d RT_occupancy) now p"
  from None assms have "table_occupancy d' = table_occupancy d @ [?r]"
    by (auto simp: updateOccupancy_def Let_def inr_simps take_key_def)
  with None show ?thesis
    by (auto simp: writes_version_def getTableOccupancy_def find_append occ_of_def occupancy_inserted_def
        split: option.splits)
next
  case (Some r)
  with assms have "change_occupancy (uo_companyId p) (uo_outletId p) (uo_tableId p) (occupancy_written now p) d = Inr (u, d')"
    by (simp add: updateOccupancy_def)
  then show ?thesis by (rule change_occupancy_writes) (simp add: occupancy_written_def)
qed

section \<open>The effect of an event\<close>

text \<open>What an operation on the sessions leaves alone.\<close>

definition floor_plan :: "rdb \<Rightarrow> table_occupancy_row list \<times> table_event_row list" where
  "floor_plan d = (table_occupancy d, table_events d)"

lemma floor_session: "insert_session now inp d = Inr (i, d') \<Longrightarrow> floor_plan d' = floor_plan d"
  by (auto simp: insert_session_Inr floor_plan_def take_key_def)

lemma floor_close: "close_session now by' P d = Inr (u, d') \<Longrightarrow> floor_plan d' = floor_plan d"
  by (auto simp: close_session_def inr_simps floor_plan_def split: prod.splits)

lemma floor_guests: "change_guests x n i d = Inr (u, d') \<Longrightarrow> floor_plan d' = floor_plan d"
  by (auto simp: change_guests_def inr_simps floor_plan_def split: prod.splits)

text \<open>A visit is closed, or its guests are counted again, only if the table has one.\<close>

lemma floor_option:
  assumes "(case i of None \<Rightarrow> Inr ((), d) | Some k \<Rightarrow> f k) = Inr (u, d')" and "\<And>k. f k = Inr (u, d') \<Longrightarrow> floor_plan d' = floor_plan d"
  shows "floor_plan d' = floor_plan d"
  using assms by (cases i) auto

lemma events_change_occupancy: "change_occupancy c o' t f d = Inr (u, d') \<Longrightarrow> table_events d' = table_events d"
  by (drule change_occupancy_Inr) simp

lemma events_updateOccupancy: "updateOccupancy now p d = Inr (u, d') \<Longrightarrow> table_events d' = table_events d"
  by (auto simp: updateOccupancy_def Let_def inr_simps take_key_def dest: events_change_occupancy split: option.splits)

definition applied_at :: "sync_at \<Rightarrow> rdb \<Rightarrow> rdb \<Rightarrow> bool" where
  "applied_at x d d' \<longleftrightarrow> table_events d' = table_events d \<and>
     writes_version (sa_companyId x) (sa_outletId x) (sa_tableId x) (Suc (current_version x)) d d'"

lemma applied_floor:
  "floor_plan d1 = floor_plan d \<Longrightarrow> floor_plan d2 = floor_plan d' \<Longrightarrow> applied_at x d1 d2 \<Longrightarrow> applied_at x d d'"
  using writes_version_cong [of d1 d d2 d'] by (simp add: applied_at_def floor_plan_def)

lemma applied_update:
  "updateOccupancy now (occupancy_at x st se g re un) d = Inr (u, d') \<Longrightarrow> applied_at x d d'"
  using updateOccupancy_writes [of now "occupancy_at x st se g re un" d u d']
  by (simp add: applied_at_def occupancy_at_def events_updateOccupancy)

lemma applied_change:
  assumes "change_occupancy (sa_companyId x) (sa_outletId x) (sa_tableId x) f d = Inr (u, d')"
    and "\<And>r. occ_company_id (f r) = occ_company_id r \<and> occ_outlet_id (f r) = occ_outlet_id r \<and>
      occ_table_id (f r) = occ_table_id r \<and> occ_version (f r) = Suc (current_version x)"
  shows "applied_at x d d'"
  using change_occupancy_writes [OF assms] events_change_occupancy [OF assms(1)] by (simp add: applied_at_def)

lemma apply_event_at:
  assumes "apply_event k x p d = Inr (after, d')"
  shows "applied_at x d d'"
proof -
  have "apply_opened x p d = Inr (after, d') \<Longrightarrow> applied_at x d d'"
    unfolding apply_opened_def Let_def
    by (auto simp: bindR_Inr dest!: floor_session applied_update intro: applied_floor)
  moreover have "applied_at x d d'" if run: "apply_closed x p d = Inr (after, d')"
  proof -
    from run obtain u1 d1 u2 where close: "(case truthy_id (current_session x) of None \<Rightarrow> Inr ((), d)
        | Some i \<Rightarrow> close_session (sa_now x) (nat_str (sa_actorId x)) (session_here x i) d) = Inr (u1, d1)"
      and reset: "change_occupancy (sa_companyId x) (sa_outletId x) (sa_tableId x)
        (occupancy_reset (sa_now x) (Suc (current_version x)) (sa_actorId x) (tp_notes p)) d1 = Inr (u2, d')"
      unfolding apply_closed_def resetOccupancy_def by (auto simp only: bindR_Inr split_paired_all prod.case sum.inject prod.inject)
    from reset have "applied_at x d1 d'" by (rule applied_change) (simp add: occupancy_reset_def)
    moreover have "floor_plan d1 = floor_plan d" using close by (rule floor_option) (rule floor_close)
    ultimately show ?thesis by (blast intro: applied_floor)
  qed
  moreover have "apply_reserved x p d = Inr (after, d') \<Longrightarrow> applied_at x d d'"
    unfolding apply_reserved_def Let_def by (auto simp: bindR_Inr dest!: applied_update)
  moreover have "apply_status x p d = Inr (after, d') \<Longrightarrow> applied_at x d d'"
    unfolding apply_status_def by (auto simp: bindR_Inr dest!: applied_update)
  moreover have "applied_at x d d'" if run: "apply_guests x p d = Inr (after, d')"
  proof -
    from run obtain u1 d1 u2 where "change_occupancy (sa_companyId x) (sa_outletId x) (sa_tableId x)
        (\<lambda>r. r\<lparr>occ_guest_count := tp_guest_count p, occ_version := Suc (current_version x),
          occ_updated_at := sa_now x, occ_updated_by := Some (nat_str (sa_actorId x))\<rparr>) d = Inr (u1, d1)"
      and guests: "(case truthy_id (current_session x) of None \<Rightarrow> Inr ((), d1)
        | Some i \<Rightarrow> change_guests x (tp_guest_count p) i d1) = Inr (u2, d')"
      unfolding apply_guests_def by (auto simp only: bindR_Inr split_paired_all prod.case sum.inject prod.inject)
    then have "applied_at x d d1" by (elim applied_change) simp
    moreover have "floor_plan d' = floor_plan d1" using guests by (rule floor_option) (rule floor_guests)
    ultimately show ?thesis using applied_floor [of d d d1 d'] by simp
  qed
  moreover have "apply_transferred x p d = Inr (after, d') \<Longrightarrow> applied_at x d d'"
    by (simp add: apply_transferred_def inr_simps)
  moreover have "apply_unknown k x p d = Inr (after, d') \<Longrightarrow> applied_at x d d'"
    unfolding apply_unknown_def by (auto simp: bindR_Inr dest!: applied_change)
  ultimately show ?thesis using assms by (simp add: apply_event_def split: if_splits)
qed

text \<open>The version that a push finds on a table.\<close>

definition seen_version :: "rdb \<Rightarrow> nat \<Rightarrow> nat \<Rightarrow> nat \<Rightarrow> nat" where
  "seen_version d c o' t = or_else 1 (map_option occ_version (getTableOccupancy d c o' t))"

lemma log_synced_Inr:
  assumes "log_synced x e v after conflict d = Inr d'"
  shows "event_tx_free d (sa_companyId x) (sa_outletId x) (sy_client_tx_id e)"
    and "d' = take_key RT_event (d\<lparr>table_events := table_events d @
      [synced_event_row (new_key d RT_event) x e v after conflict]\<rparr>)"
  using assms by (auto simp: log_synced_def inr_simps)

text \<open>
  A transaction that commits adds one row to the log, under the id of the event and with the
  version that it answers; a conflict changes nothing else, and an event that is applied had the
  version it expected.
\<close>

lemma transaction_effect:
  assumes "applyTableEventWithTransaction now c o' u t e d = Inr (r, d')"
  obtains row where "table_events d' = table_events d @ [row]" and "event_tx_free d c o' (sy_client_tx_id e)"
    and "te_company_id row = c" and "te_outlet_id row = o'" and "te_client_tx_id row = sy_client_tx_id e"
    and "te_occupancy_version_after row = pr_tableVersion r" and "pr_tableVersion r \<noteq> None"
    and "pr_status r \<noteq> Push_DUPLICATE"
    and "pr_status r \<noteq> Push_OK \<Longrightarrow> table_occupancy d' = table_occupancy d \<and>
      table_service_sessions d' = table_service_sessions d \<and> reservations d' = reservations d"
    and "pr_status r = Push_OK \<Longrightarrow> sy_expected_table_version e = seen_version d c o' t \<and>
      writes_version c o' t (Suc (seen_version d c o' t)) d d'"
proof -
  let ?x = "\<lparr>sa_companyId = c, sa_outletId = o', sa_tableId = t, sa_actorId = u, sa_now = now,
    sa_row = getTableOccupancy d c o' t\<rparr>"
  have v: "current_version ?x = seen_version d c o' t" by (simp add: current_version_def seen_version_def)
  show thesis
  proof (cases "sy_expected_table_version e = seen_version d c o' t")
    case False
    with assms v obtain d1 after where log: "log_synced ?x e (seen_version d c o' t) after (Some version_mismatch) d = Inr d1"
      and r: "d' = d1" "pr_status r = Push_ERROR" "pr_tableVersion r = Some (seen_version d c o' t)"
      by (auto simp: applyTableEventWithTransaction_def Let_def inr_simps)
    note l = log_synced_Inr [OF log]
    show thesis
      by (rule that [of "synced_event_row (new_key d RT_event) ?x e (seen_version d c o' t) after (Some version_mismatch)"])
        (use l r in \<open>simp_all add: take_key_def synced_event_row_def split: prod.splits\<close>)
  next
    case True
    with assms v obtain after d1 where app: "apply_event (sy_event_type e) ?x (sy_payload e) d = Inr (after, d1)"
      and log: "log_synced ?x e (Suc (seen_version d c o' t)) after None d1 = Inr d'"
      and r: "pr_status r = Push_OK" "pr_tableVersion r = Some (Suc (seen_version d c o' t))"
      by (auto simp: applyTableEventWithTransaction_def Let_def inr_simps)
    note l = log_synced_Inr [OF log] and a = apply_event_at [OF app]
    have ev: "table_events d1 = table_events d" using a by (simp add: applied_at_def)
    have "writes_version c o' t (Suc (seen_version d c o' t)) d d1" using a v by (simp add: applied_at_def)
    moreover have "table_occupancy d' = table_occupancy d1" using l(2) by (simp add: take_key_def)
    ultimately have w: "writes_version c o' t (Suc (seen_version d c o' t)) d d'"
      using writes_version_cong [of d d d1 d'] by simp
    show thesis
      by (rule that [of "synced_event_row (new_key d1 RT_event) ?x e (Suc (seen_version d c o' t)) after None"])
        (use l r w ev True in \<open>simp_all add: take_key_def synced_event_row_def event_tx_free_def split: prod.splits\<close>)
  qed
qed

text \<open>One event of a push: it is applied by a transaction, or the tables stay as they were.\<close>

lemma push_event_cases:
  assumes "push_event now c o' u e d = (r, d')"
  obtains (applied) "applyTableEventWithTransaction now c o' u (nat (sy_table_id e)) e d = Inr (r, d')"
      and "0 < sy_table_id e"
  | (kept) "d' = d" and "pr_status r \<noteq> Push_OK" and "pr_status r = Push_ERROR \<Longrightarrow> pr_tableVersion r = None"
  using assms
  by (auto simp: push_event_def Let_def error_result_def duplicate_result_def split: if_splits sum.splits)

inductive pushed :: "rdb \<Rightarrow> rdb \<Rightarrow> bool" where
  "pushTableEvents now c o' u es d = (rs, d') \<Longrightarrow> pushed d d'"

text \<open>Versions never go down, and rows of occupancy do not disappear.\<close>

definition version_reached :: "nat \<Rightarrow> nat \<Rightarrow> nat \<Rightarrow> nat \<Rightarrow> rdb \<Rightarrow> bool" where
  "version_reached c o' t v d \<longleftrightarrow> (\<exists>q. getTableOccupancy d c o' t = Some q \<and> v \<le> occ_version q)"

lemma version_reached_event:
  assumes "version_reached c o' t v d" and "push_event now c1 o1 u e d = (r, d')"
  shows "version_reached c o' t v d'"
  using assms(2)
proof (cases rule: push_event_cases)
  case applied
  show ?thesis
    using applied(1)
  proof (rule transaction_effect)
    let ?t = "nat (sy_table_id e)"
    assume err: "pr_status r \<noteq> Push_OK \<Longrightarrow> table_occupancy d' = table_occupancy d \<and>
        table_service_sessions d' = table_service_sessions d \<and> reservations d' = reservations d"
      and ok: "pr_status r = Push_OK \<Longrightarrow> sy_expected_table_version e = seen_version d c1 o1 ?t \<and>
        writes_version c1 o1 ?t (Suc (seen_version d c1 o1 ?t)) d d'"
    from assms(1) obtain q where q: "getTableOccupancy d c o' t = Some q" "v \<le> occ_version q"
      by (auto simp: version_reached_def)
    show ?thesis
    proof (cases "pr_status r = Push_OK")
      case False
      with err q show ?thesis by (simp add: version_reached_def getTableOccupancy_def)
    next
      case True
      with ok have w: "writes_version c1 o1 ?t (Suc (seen_version d c1 o1 ?t)) d d'" by blast
      show ?thesis
      proof (cases "(c, o', t) = (c1, o1, ?t)")
        case True
        with w q obtain q' where "getTableOccupancy d' c o' t = Some q'" "occ_version q' = Suc (occ_version q)"
          by (auto simp: writes_version_def seen_version_def or_else_def)
        with q(2) show ?thesis by (simp add: version_reached_def)
      next
        case False
        with w q show ?thesis by (auto simp: writes_version_def version_reached_def)
      qed
    qed
  qed
qed (use assms(1) in simp)

lemma version_reached_push:
  "version_reached c o' t v d \<Longrightarrow> pushTableEvents now c1 o1 u es d = (rs, d') \<Longrightarrow> version_reached c o' t v d'"
proof (induction es arbitrary: d rs)
  case (Cons e es)
  obtain r d1 where one: "push_event now c1 o1 u e d = (r, d1)" by fastforce
  obtain rs' d2 where rest: "pushTableEvents now c1 o1 u es d1 = (rs', d2)" by fastforce
  from Cons.prems(2) one rest have rest': "pushTableEvents now c1 o1 u es d1 = (rs', d')" by simp
  with Cons.IH [OF version_reached_event [OF Cons.prems(1) one] rest'] show ?case by simp
qed simp

lemma version_reached_pushed: "pushed\<^sup>*\<^sup>* d d' \<Longrightarrow> version_reached c o' t v d \<Longrightarrow> version_reached c o' t v d'"
  by (induction rule: rtranclp_induct) (auto elim!: pushed.cases intro: version_reached_push)

section \<open>Properties\<close>

text \<open>
  C23: Two devices that were offline cannot both change a table from the same version: once an event
  for a table with a row of occupancy was applied, an event that expects the same version is
  refused after whatever was pushed in between, for whichever tables and outlets, and leaves
  occupancy, sessions and reservations as they were.
\<close>

theorem stale_event_refused:
  assumes "getTableOccupancy d c o' t \<noteq> None" and "sy_table_id e = int t"
    and "push_event now c o' u e d = (r, d1)" and "pr_status r = Push_OK"
    and "pushed\<^sup>*\<^sup>* d1 d2"
    and "sy_table_id e2 = sy_table_id e" and "sy_expected_table_version e2 = sy_expected_table_version e"
    and "push_event now2 c o' u2 e2 d2 = (r2, d3)"
  shows "pr_status r2 \<noteq> Push_OK \<and> table_occupancy d3 = table_occupancy d2 \<and>
    table_service_sessions d3 = table_service_sessions d2 \<and> reservations d3 = reservations d2"
proof -
  let ?v = "seen_version d c o' t"
  have "applyTableEventWithTransaction now c o' u t e d = Inr (r, d1)"
    using assms(3) by (rule push_event_cases) (use assms(2,4) in auto)
  then have first: "sy_expected_table_version e = ?v" "writes_version c o' t (Suc ?v) d d1"
    by (rule transaction_effect; use assms(4) in blast)+
  from first(2) assms(1) have "version_reached c o' t (Suc ?v) d1"
    by (auto simp: writes_version_def version_reached_def)
  then have "version_reached c o' t (Suc ?v) d2" by (rule version_reached_pushed [OF assms(5)])
  then have "seen_version d2 c o' t \<noteq> sy_expected_table_version e2"
    using first(1) assms(7) by (auto simp: version_reached_def seen_version_def or_else_def)
  then have late: "sy_expected_table_version e2 \<noteq> seen_version d2 c o' t" by simp
  show ?thesis
    using assms(8)
  proof (cases rule: push_event_cases)
    case applied
    then have run: "applyTableEventWithTransaction now2 c o' u2 t e2 d2 = Inr (r2, d3)"
      using assms(2,6) by simp
    show ?thesis
      using run by (rule transaction_effect) (use late in blast)
  qed simp
qed

definition open_event :: "string \<Rightarrow> nat \<Rightarrow> sync_event" where
  "open_event tx version = \<lparr>sy_client_tx_id = tx, sy_table_id = 1, sy_expected_table_version = version,
     sy_event_type = 1, sy_payload = \<lparr>tp_guest_count = Some 2, tp_guest_name = None, tp_reservation_id = None,
       tp_reserved_until = None, tp_status_id = None, tp_target_table_id = None, tp_notes = None\<rparr>,
     sy_recorded_at = 5\<rparr>"

lemma sample_push:
  obtains r d1 where "push_event 10 1 1 7 (open_event ''a'' 1) sample_rdb = (r, d1)" and "pr_status r = Push_OK"
    and "pr_tableVersion r = Some 2" and "verifyTableExists d1 1 1 1"
    and "length (table_service_sessions d1) = 1"
proof -
  have "case push_event 10 1 1 7 (open_event ''a'' 1) sample_rdb of (r, d1) \<Rightarrow> pr_status r = Push_OK \<and>
      pr_tableVersion r = Some 2 \<and> verifyTableExists d1 1 1 1 \<and> length (table_service_sessions d1) = 1"
    by code_simp
  then show thesis by (cases "push_event 10 1 1 7 (open_event ''a'' 1) sample_rdb") (auto intro: that)
qed

theorem stale_event_refused_witness:
  "\<exists>r d1 r2 d3. push_event 10 1 1 7 (open_event ''a'' 1) sample_rdb = (r, d1) \<and> pr_status r = Push_OK \<and>
     push_event 20 1 1 8 (open_event ''b'' 1) d1 = (r2, d3) \<and> pr_status r2 \<noteq> Push_OK \<and>
     length (table_service_sessions d3) = 1"
proof -
  obtain r d1 where run: "push_event 10 1 1 7 (open_event ''a'' 1) sample_rdb = (r, d1)" "pr_status r = Push_OK"
    and one: "length (table_service_sessions d1) = 1" by (rule sample_push)
  obtain r2 d3 where second: "push_event 20 1 1 8 (open_event ''b'' 1) d1 = (r2, d3)" by fastforce
  have row: "getTableOccupancy sample_rdb 1 1 1 \<noteq> None" by code_simp
  from stale_event_refused [OF row _ run rtranclp.rtrancl_refl _ _ second] run second one
  show ?thesis by (simp add: open_event_def)
qed



end
