(* ===== verification/Spec2Isabelle.thy ===== *)
theory Spec2Isabelle
  imports Exchange_Rate Settlement Invoice_Properties Supplier_Steps Order_Properties Ap_Aging
    Double_Booking Table_Suggestions Session_Amounts Treasury_Properties Statement_Properties
    Payables_Reconciled Sync_Properties
begin

text \<open>
  A model of the business core of a modular ERP (\<open>src/packages/modules\<close>): the
  procure-to-pay cycle of \<open>packages/modules/purchasing\<close>, the cash and bank transactions of
  \<open>packages/modules/treasury\<close>, and the reservation of restaurant tables of
  \<open>packages/modules/reservations\<close>.

  \<^bold>\<open>The program.\<close>  Purchase orders are sent to suppliers, goods receipts raise the
  received quantities of the order lines, suppliers' invoices are posted to the general ledger
  against a payables account, and payments and purchase credits settle them.  Exchange rates
  convert invoices into the company's currency, and the aging report adds up what is open.
  Reservations name a table and a time; a group reserves several tables at once, and the service
  suggests combinations of free tables for a party.  Confirming a reservation holds its table,
  checking in seats the guests and opens a service session, and every change of a table's
  occupancy is an event of its log, under an optimistic version number.  What the guests order are
  lines of the session; the session is locked for payment and closed, which copies the lines to an
  order of the point of sale.  A point of sale that was offline pushes the table events it has
  recorded, each for a version of the table.  A cash or bank transaction moves money between two accounts; it is
  created as a draft, posted to the journal and voided by a reversed posting.  Every service is a class
  or a set of functions over a Kysely connection whose operations run inside one database
  transaction.  An operation is a function of the tables, \<open>db \<Rightarrow> perr + 'a \<times> db\<close> for purchasing,
  \<open>rdb \<Rightarrow> rerr + 'a \<times> rdb\<close> for reservations, and \<open>treasury_db \<Rightarrow> terr + 'a \<times> treasury_db\<close> for the
  treasury, whose tables include those of purchasing (the accounts and the journal are shared): the sum's left side is the thrown error, which also
  stands for the rolled-back transaction, so a failed operation leaves the tables as they were.
  The push of table events has a transaction for each event, and is a function of the tables that
  answers every event by itself.

  \<^bold>\<open>Theories and code: shared.\<close>
  \<^item> \<open>Prelude\<close>: results that may fail, failing loops, tables as lists of rows, JavaScript maps and
    sets, rounding.  \<open>Contracts\<close>: the locales of idempotent creation and of services that run in
    steps.  \<open>Dates\<close>: civil dates.

  \<^bold>\<open>Purchasing\<close> (paths under \<open>packages/modules/purchasing/src\<close>).
  \<^item> \<open>Purchasing_Errors\<close>, \<open>Purchasing_Constants\<close>, \<open>Purchasing_Db\<close>: the error classes, the status
    codes of \<open>packages/shared\<close>, and the tables of \<open>packages/db/src/kysely/schema.ts\<close> with their
    unique keys and the counters of their primary keys.
  \<^item> \<open>Decimal_Scale4\<close> (\<open>services/decimal-scale4.ts\<close>): decimal strings as big integers.
  \<^item> \<open>Ledger\<close>: journal batches, lines and reversals shared by invoices, payments and credits, with
    the width of the description that a line can hold (\<open>description_fits\<close>).
  \<^item> \<open>Open_Amount\<close> (\<open>services/purchase-invoice-open-amount.ts\<close>), \<open>Exchange_Rate\<close>,
    \<open>Ap_Payment\<close>, \<open>Purchase_Credit\<close>, \<open>Purchase_Invoice\<close>, \<open>Supplier\<close>, \<open>Purchase_Order\<close>,
    \<open>Goods_Receipt\<close> (with \<open>Json_Text\<close> for the stored warnings), \<open>Ap_Aging\<close>: one theory per service
    of the same name, one definition per method or helper, in the order of the file.
  \<^item> \<open>Signed_Decimal\<close>, \<open>Ap_Reconciliation\<close> (\<open>services/ap-reconciliation-service.ts\<close>): the decimals
    with a sign; the control accounts a company sets, the balance of the invoices, that of the control
    accounts, and the difference.  The database of time zones is a parameter, and so is the row that
    the database answers of several that match a query with \<open>LIMIT 1\<close> and no order (\<open>pick\<close>).
  \<^item> \<open>Supplier_Statement\<close> (\<open>services/supplier-statement-service.ts\<close>, and what
    \<open>apps/api/src/routes/purchasing/supplier-statements.ts\<close> answers to errors): the statements that
    suppliers send, over tables of their own (\<open>statement_db\<close>).
  \<^item> \<open>Sample_Tables\<close>: the tables that the witnesses run on.

  \<^bold>\<open>Treasury.\<close>
  \<^item> \<open>Cash_Bank\<close> (\<open>packages/modules/treasury/src\<close>: \<open>types.ts\<close>, \<open>errors.ts\<close>, \<open>helpers.ts\<close>,
    \<open>journal-builder.ts\<close>, \<open>posting.ts\<close>; \<open>packages/modules/accounting/src/posting.ts\<close>): money as
    JavaScript numbers, the journal lines, the posting mapper and the posting service.
  \<^item> \<open>Cash_Bank_Service\<close> (\<open>cash-bank-service.ts\<close>, \<open>ports.ts\<close>): the service over a record of ports,
    as its constructor takes them, and the locale \<open>cash_bank_repository\<close> with what it needs of them.
  \<^item> \<open>Treasury_Tables\<close> (\<open>apps/api/src/lib/treasury-adapter.ts\<close>): the ports over the tables, which
    interpret the locale; \<open>treasury_create\<close>, \<open>treasury_post\<close> and \<open>treasury_void\<close> are the service that
    \<open>createCashBankService\<close> composes.  The access of a user to an outlet, the collation of references
    and the clock are parameters.

  \<^bold>\<open>Reservations\<close> (paths under \<open>packages/modules/reservations/src\<close>).
  \<^item> \<open>Reservation_Db\<close>: the tables, the errors (\<open>reservations/errors.ts\<close> and those of the table
    services), and the triggers and checks of the database that the statements can hit
    (\<open>occupancy_ok\<close>, \<open>session_change_ok\<close>).
  \<^item> \<open>Reservation_Policy\<close> (\<open>time/overlap.ts\<close>, \<open>time/timestamp.ts\<close>, \<open>interfaces/shared.ts\<close>,
    \<open>reservations/status-policy.ts\<close>, \<open>reservations/utils.ts\<close>): overlap, durations, transitions,
    legacy words, mapping of rows.
  \<^item> \<open>Table_Occupancy\<close> (\<open>table-occupancy/service.ts\<close>): the board, holding, seating and releasing,
    each as the half that reads and the half that writes, so that interleavings can be stated.
  \<^item> \<open>Reservations\<close> (\<open>reservations/availability.ts\<close>, \<open>crud.ts\<close>, \<open>status.ts\<close>) and
    \<open>Reservation_Groups\<close> (\<open>reservation-groups/service.ts\<close>).
  \<^item> \<open>Service_Sessions\<close> (\<open>service-sessions/session-utils.ts\<close>, \<open>lifecycle.ts\<close>) and
    \<open>Session_Lines\<close> (\<open>lines.ts\<close>, \<open>checkpoint.ts\<close>): the visit of guests, its lines, batches and
    adjustments.  Their amounts are JavaScript numbers, which \<open>Js_Number\<close> models as IEEE doubles:
    the rounding \<open>fl\<close> after every operation, the shortest decimal text that a number prints as, and
    what \<open>DECIMAL\<close> columns make of it.
  \<^item> \<open>Table_Sync\<close> (\<open>table-sync/service.ts\<close>, the push): the conflict payload, the writers of the
    occupancy, one definition for each case of \<open>applyTableEventWithTransaction\<close> (\<open>apply_opened\<close> and
    its like), the log, and \<open>pushTableEvents\<close> over a list of events.  It works on the tables of
    \<open>Reservation_Db\<close> and shares the sessions with \<open>Table_Occupancy\<close>.
  \<^item> \<open>Sample_Reservations\<close>: the restaurants that the witnesses run on.

  \<^bold>\<open>What the lemmas show: purchasing.\<close>
  \<^item> \<open>Settlement\<close> (over \<open>Settlement_Documents\<close>): the nine operations on invoices, payments and
    credits keep that no posted invoice is settled beyond its base value, hence no interleaving of
    them over-settles an invoice.
  \<^item> \<open>Invoice_Journal\<close>, \<open>Invoice_Draft\<close>, \<open>Invoice_Properties\<close>: the journal of a posted invoice
    and the bounds of its rounding, reversal by voiding, one batch for an invoice, idempotent creation, and
    that a created draft is posted unless a text overflows the journal.
  \<^item> \<open>Receipt_Effect\<close>, \<open>Order_Lifecycle\<close>, \<open>Order_Creation\<close>, \<open>Order_Properties\<close>: the effect of a
    receipt on the order, the invariant between orders, lines and receipts, and that an order only
    moves forward.
  \<^item> \<open>Supplier_Steps\<close>: the single primary contact, and when a supplier may be deactivated.
  \<^item> \<open>Ap_Aging\<close>: the buckets partition what is open; the summary and the detail agree.

  \<^item> \<open>Statement_Properties\<close>: what a statement is compared with is what payments are checked against;
    the conversion into the company's currency and back; what runs keep of the statements.
  \<^item> \<open>Reconciliation_Settings\<close>: the control accounts through \<open>JSON.stringify\<close> and \<open>JSON.parse\<close>,
    and the two rows that two savings leave.
  \<^item> \<open>Control_Account\<close>, \<open>Payables_Reconciled\<close>: what each purchasing operation adds to the
    sum of the open amounts and to the payables account (every posted document is worth its batch),
    that the reconciliation shows no variance after any run of them in whole cents of the company's
    own currency, and what variance the void of a settled invoice leaves.

  \<^bold>\<open>What the lemmas show: treasury.\<close>
  \<^item> \<open>Treasury_Amounts\<close>: up to \<open>10 ^ 14\<close> cents the arithmetic on JavaScript numbers is exact to the
    cent, and the journal is the one that integers give (\<open>booked\<close>).
  \<^item> \<open>Treasury_Steps\<close>, \<open>Treasury_Properties\<close>: the effect of posting and voiding, the books over any
    run, repeated requests, when a draft can be posted and a posting voided.

  \<^bold>\<open>What the lemmas show: reservations.\<close>
  \<^item> \<open>Table_Suggestions\<close>: the enumeration of combinations is that of all sublists of a length, the
    suggestions are the best that fit, and what is suggested can be booked.
  \<^item> \<open>Table_Holding\<close>: seating and releasing are inverse, what a stale version does, and why no
    table can be held.
  \<^item> \<open>Bookings\<close>, \<open>Booking_Properties\<close>: the effect of every operation on the rows of reservations,
    the invariant of keys and statuses, the transitions over any run.
  \<^item> \<open>Double_Booking\<close>: no run that moves no reservation books a table twice, and moving can whenever
    two reservations overlap.
  \<^item> \<open>Session_Steps\<close>, \<open>Session_Freeze\<close>, \<open>Session_Properties\<close>: the effect of the seven operations
    on the rows of visits, that a transaction id changes the tables once, that the bill of a locked
    session is frozen (under every operation of the module, pushed events included), and which of
    the operations can happen at all.
  \<^item> \<open>Sync_Properties\<close>: of the events for one version of a table one is applied, and an event once.
    That pushed events never book a table is \<open>push_is_step\<close> of \<open>Bookings\<close>.
  \<^item> \<open>Session_Amounts\<close>: totals of lines are stored exactly; what the order charges.

  \<^bold>\<open>Bounds and fuel.\<close>  Amounts are unbounded integers, as \<open>bigint\<close> is.  The JSON parser has the
  fuel \<open>2 * length + 2\<close>: every second call consumes a character, and \<open>parse_value_enough\<close> proves
  that more of it changes nothing.  Order numbers are tried five
  times and payment numbers three times, as in the code; the random bytes, the clock and the rows
  of settings are parameters.  Times of reservations are whole milliseconds and durations
  rationals, so the products and quotients of minutes are exact, as they are in JavaScript below
  \<open>2 ^ 53\<close>.

  \<^bold>\<open>Abstractions.\<close>  A table is the list of its rows in the order of insertion; unique keys and
  \<open>CHECK\<close> constraints that an operation can hit are modelled as errors.  Foreign keys, collations
  and column overflow are modelled for the treasury only, but for the description of a journal
  line, which all postings and voids can overflow; the session's time zone is UTC.  Transactions run one after another, as
  the row locks that the services take make them; where a service reads outside its transaction
  or before a guarded update (\<open>postPI\<close>, \<open>voidPI\<close>, the operations on tables) the reading and the
  committing half are definitions of their own.  \<open>createGoodsReceipt\<close> reads order lines without a
  lock and is modelled as one transaction by itself.  The query builder is a library: the field
  \<open>affectedRows\<close> that the reservations module reads from the result of an update is the parameter
  \<open>aff\<close>, a function of the number of rows changed, and no theorem assumes that it is there.  The
  audit port of the groups is the caller's.

  \<^bold>\<open>Not modelled.\<close>  Of the reconciliation of payables the paged drill-down and the stored snapshots.  Of the reservations module the pull of the synchronisation
  (\<open>pullTableState\<close>, which only reads), the administration of outlet tables and the time zones.  The HTTP routes, user interfaces,
  background workers and the other modules whose amounts are floating-point numbers (sales,
  inventory, costing, reporting, most of accounting); authentication, which rests on cryptographic libraries;
  validation that is declared for the zod library; migrations and scripts.
\<close>

end
